(* ===== verification/Prelude.thy ===== *)
theory Prelude
  imports Main "HOL-Library.Signed_Division" "HOL-Library.Monad_Syntax" "HOL-Library.Log_Nat"
begin

text \<open>
  Shared vocabulary of the development: Go's integers and division, panics, map reads,
  bounded channels and decimal strings, with the generic lemmas the component theories use.
\<close>

named_theorems go_simps \<open>unfolding rules for the Go-level helper functions\<close>
named_theorems handler_defs \<open>definitions of event handlers and their parts\<close>

section \<open>Machine integers\<close>

text \<open>
  Go's \<open>int\<close> and \<open>int64\<close> are 64-bit two's complement on the deployed platform (linux/amd64).
  Values are HOL integers; \<open>wrap64\<close> is the wrap-around applied after an operation where the
  development keeps overflow explicit (balances, spends and ledger sums).
\<close>

definition int64_min :: int where "int64_min = - (2 ^ 63)"
definition int64_max :: int where "int64_max = 2 ^ 63 - 1"

definition in_int64 :: "int \<Rightarrow> bool" where
  "in_int64 x \<longleftrightarrow> int64_min \<le> x \<and> x \<le> int64_max"

definition wrap64 :: "int \<Rightarrow> int" where
  "wrap64 x = (x + 2 ^ 63) mod 2 ^ 64 - 2 ^ 63"

lemmas int64_bounds = in_int64_def int64_min_def int64_max_def

lemma wrap64_in_range [simp, intro]: "in_int64 (wrap64 x)"
proof -
  have "0 \<le> (x + 2 ^ 63) mod 2 ^ 64" "(x + 2 ^ 63) mod 2 ^ 64 < (2 :: int) ^ 64"
    by simp_all
  then show ?thesis
    unfolding wrap64_def int64_bounds by simp
qed

lemma wrap64_id [simp]: "in_int64 x \<Longrightarrow> wrap64 x = x"
  by (simp add: wrap64_def int64_bounds)

lemma wrap64_wrap64_add [simp]: "wrap64 (wrap64 a + b) = wrap64 (a + b)"
proof -
  have "(wrap64 a + b + 2 ^ 63) mod 2 ^ 64 = ((a + 2 ^ 63) mod 2 ^ 64 + b) mod (2 ^ 64 :: int)"
    by (simp add: wrap64_def)
  also have "\<dots> = (a + b + 2 ^ 63) mod 2 ^ 64"
    by (simp add: mod_simps algebra_simps)
  finally show ?thesis
    by (simp only: wrap64_def [of "wrap64 a + b"] wrap64_def [of "a + b"])
qed

section \<open>Map reads\<close>

text \<open>Reading a missing key of a Go map yields the zero value of its element type.\<close>

definition lookup0 :: "('k \<rightharpoonup> int) \<Rightarrow> 'k \<Rightarrow> int" where
  "lookup0 m k = (case m k of None \<Rightarrow> 0 | Some v \<Rightarrow> v)"

definition lookupF :: "('k \<rightharpoonup> bool) \<Rightarrow> 'k \<Rightarrow> bool" where
  "lookupF m k = (m k = Some True)"

lemma lookup0_simps [simp]:
  "lookup0 (m(k \<mapsto> v)) k = v"
  "k' \<noteq> k \<Longrightarrow> lookup0 (m(k \<mapsto> v)) k' = lookup0 m k'"
  "lookup0 Map.empty k = 0"
  by (simp_all add: lookup0_def)

lemma lookupF_simps [simp]:
  "lookupF (m(k \<mapsto> b)) k = b"
  "k' \<noteq> k \<Longrightarrow> lookupF (m(k \<mapsto> b)) k' = lookupF m k'"
  "\<not> lookupF Map.empty k"
  by (simp_all add: lookupF_def)

section \<open>Panics\<close>

text \<open>
  A Go computation that can panic (failed type assertion, index out of range, integer division
  by zero) returns an \<open>option\<close>; \<open>None\<close> is the panic.
\<close>

lemma bind_eq_Some [simp]:
  "(Option.bind x f = Some y) = (\<exists>z. x = Some z \<and> f z = Some y)"
  by (cases x) auto

section \<open>Decimal strings\<close>

text \<open>Decimal rendering of integers, as \<open>strconv.Itoa\<close> and the \<open>%d\<close> verb of \<open>fmt\<close> print them.\<close>

definition digit_char :: "nat \<Rightarrow> char" where
  "digit_char d = char_of (48 + d)"

fun show_nat :: "nat \<Rightarrow> string" where
  "show_nat n = (if n < 10 then [digit_char n] else show_nat (n div 10) @ [digit_char (n mod 10)])"

declare show_nat.simps [simp del]

definition show_int :: "int \<Rightarrow> string" where
  "show_int n = (if n < 0 then CHR ''-'' # show_nat (nat (- n)) else show_nat (nat n))"

definition is_digit_char :: "char \<Rightarrow> bool" where
  "is_digit_char c \<longleftrightarrow> 48 \<le> (of_char c :: nat) \<and> (of_char c :: nat) \<le> 57"

definition read_nat :: "string \<Rightarrow> nat" where
  "read_nat s = foldl (\<lambda>acc c. acc * 10 + (of_char c - 48)) 0 s"

lemma digit_char_code [simp]: "d < 10 \<Longrightarrow> (of_char (digit_char d) :: nat) = 48 + d"
  by (simp add: digit_char_def)

lemma is_digit_digit_char [simp]: "d < 10 \<Longrightarrow> is_digit_char (digit_char d)"
  by (simp add: is_digit_char_def)

lemma read_nat_snoc [simp]: "read_nat (s @ [c]) = read_nat s * 10 + (of_char c - 48)"
  by (simp add: read_nat_def)

lemma read_show_nat [simp]: "read_nat (show_nat n) = n"
proof (induction n rule: show_nat.induct)
  case (1 n)
  show ?case
  proof (cases "n < 10")
    case True
    then show ?thesis
      by (simp add: show_nat.simps [of n] read_nat_def)
  next
    case False
    with "1.IH" show ?thesis
      by (simp add: show_nat.simps [of n])
  qed
qed

lemma show_nat_digits: "\<forall>c \<in> set (show_nat n). is_digit_char c"
proof (induction n rule: show_nat.induct)
  case (1 n)
  then show ?case
    by (cases "n < 10") (auto simp: show_nat.simps [of n])
qed

lemma show_nat_nonempty [simp]: "show_nat n \<noteq> []"
  by (subst show_nat.simps) simp

lemma show_nat_inj [simp]: "show_nat m = show_nat n \<longleftrightarrow> m = n"
  by (metis read_show_nat)

lemma minus_not_digit [simp]: "\<not> is_digit_char (CHR ''-'')" "\<not> is_digit_char (CHR '':'')"
  by (simp_all add: is_digit_char_def)

lemma show_nat_hd_digit: "show_nat n = c # cs \<Longrightarrow> is_digit_char c"
  using show_nat_digits [of n] by auto

lemma show_int_inj [simp]: "show_int m = show_int n \<longleftrightarrow> m = n"
proof
  assume eq: "show_int m = show_int n"
  consider "m < 0 \<longleftrightarrow> n < 0" | "m < 0" "\<not> n < 0" | "\<not> m < 0" "n < 0" by blast
  then show "m = n"
  proof cases
    case 1
    with eq show ?thesis by (auto simp: show_int_def split: if_splits)
  next
    case 2
    with eq have "show_nat (nat n) = CHR ''-'' # show_nat (nat (- m))"
      by (simp add: show_int_def)
    then show ?thesis by (auto dest: show_nat_hd_digit)
  next
    case 3
    with eq have "show_nat (nat m) = CHR ''-'' # show_nat (nat (- n))"
      by (simp add: show_int_def)
    then show ?thesis by (auto dest: show_nat_hd_digit)
  qed
qed simp

lemma show_int_no_colon: "CHR '':'' \<notin> set (show_int n)"
  using show_nat_digits [of "nat n"] show_nat_digits [of "nat (- n)"]
  by (auto simp: show_int_def)

lemma append_sep_inj:
  assumes "x \<notin> set a" "x \<notin> set a'" "a @ x # b = a' @ x # b'"
  shows "a = a' \<and> b = b'"
  using assms
proof (induction a arbitrary: a')
  case Nil
  then show ?case by (cases a') auto
next
  case (Cons y a)
  then show ?case by (cases a') auto
qed

section \<open>Bounded channels\<close>

text \<open>
  A buffered Go channel of capacity \<open>cap\<close> is a list, oldest element first. \<open>chan_try_send\<close> is
  the \<open>select\<close> with a \<open>default\<close> arm (\<open>None\<close>: the default arm runs); \<open>chan_recv\<close> is a receive
  (\<open>None\<close>: it blocks).
\<close>

definition chan_try_send :: "nat \<Rightarrow> 'a \<Rightarrow> 'a list \<Rightarrow> 'a list option" where
  "chan_try_send cap x q = (if length q < cap then Some (q @ [x]) else None)"

fun chan_recv :: "'a list \<Rightarrow> ('a \<times> 'a list) option" where
  "chan_recv [] = None"
| "chan_recv (x # q) = Some (x, q)"

lemma chan_try_send_Some [simp]:
  "chan_try_send cap x q = Some q' \<longleftrightarrow> length q < cap \<and> q' = q @ [x]"
  by (auto simp: chan_try_send_def)

lemma chan_try_send_None [simp]: "chan_try_send cap x q = None \<longleftrightarrow> cap \<le> length q"
  by (auto simp: chan_try_send_def)

lemma chan_recv_Some [simp]: "chan_recv q = Some (x, q') \<longleftrightarrow> q = x # q'"
  by (cases q) auto

end
