(* ===== verification/Float64.thy ===== *)
theory Float64
  imports Prelude
begin

text \<open>
  IEEE 754 binary64 arithmetic, as Go's \<open>float64\<close> evaluates it: every operation computes the
  exact result and rounds it to nearest, ties to even, with gradual underflow and overflow to
  infinity. Finite values are rationals. The sign of zero and the payload of a NaN are not
  represented.
\<close>

section \<open>Rounding to nearest, ties to even\<close>

definition round_half_even :: "rat \<Rightarrow> int" where
  "round_half_even x =
     (let f = \<lfloor>x\<rfloor>; d = x - of_int f in
      if d < 1 / 2 then f
      else if 1 / 2 < d then f + 1
      else if even f then f else f + 1)"

lemma rhe_of_int [simp]: "round_half_even (of_int n) = n"
  by (simp add: round_half_even_def)

lemma rhe_error: "\<bar>of_int (round_half_even x) - x\<bar> \<le> 1 / 2"
proof -
  have "of_int \<lfloor>x\<rfloor> \<le> x" "x < of_int \<lfloor>x\<rfloor> + 1"
    by linarith+
  then show ?thesis
    by (auto simp: round_half_even_def Let_def abs_le_iff)
qed

lemma rhe_le_of_int: "x \<le> of_int n \<Longrightarrow> round_half_even x \<le> n"
proof -
  assume x: "x \<le> of_int n"
  show ?thesis
  proof (cases "x = of_int n")
    case False
    with x have "\<lfloor>x\<rfloor> < n" by (simp add: floor_less_iff)
    then show ?thesis by (auto simp: round_half_even_def Let_def)
  qed simp
qed

lemma rhe_ge_of_int: "of_int n \<le> x \<Longrightarrow> n \<le> round_half_even x"
proof -
  assume "of_int n \<le> x"
  then have "n \<le> \<lfloor>x\<rfloor>" by (simp add: le_floor_iff)
  then show ?thesis by (auto simp: round_half_even_def Let_def)
qed

lemma rhe_mono: "x \<le> y \<Longrightarrow> round_half_even x \<le> round_half_even y"
proof (cases "\<lfloor>x\<rfloor> = \<lfloor>y\<rfloor>")
  case True
  assume "x \<le> y"
  with True show ?thesis
    by (auto simp: round_half_even_def Let_def)
next
  case False
  assume "x \<le> y"
  with False have "\<lfloor>x\<rfloor> + 1 \<le> \<lfloor>y\<rfloor>"
    using floor_mono [of x y] by linarith
  moreover have "round_half_even x \<le> \<lfloor>x\<rfloor> + 1"
    by (auto simp: round_half_even_def Let_def)
  moreover have "\<lfloor>y\<rfloor> \<le> round_half_even y"
    by (auto simp: round_half_even_def Let_def)
  ultimately show ?thesis by linarith
qed

lemma rhe_minus: "round_half_even (- x) = - round_half_even x"
proof (cases "x \<in> \<int>")
  case True
  then obtain n where n: "x = of_int n" by (auto elim: Ints_cases)
  then have m: "- x = of_int (- n)" by simp
  show ?thesis unfolding m rhe_of_int by (simp add: n)
next
  case False
  then have lt: "of_int \<lfloor>x\<rfloor> < x"
    by (metis Ints_of_int floor_correct less_eq_rat_def)
  have fl: "\<lfloor>- x\<rfloor> = - \<lfloor>x\<rfloor> - 1"
    using lt by (simp add: floor_eq_iff) linarith
  show ?thesis
    unfolding round_half_even_def fl Let_def
    by (auto simp: field_simps)
qed

section \<open>Binary exponent and rounding to 53 bits\<close>

text \<open>\<open>ilog2 x\<close> is the binary exponent of a non-zero rational, computed from the bit lengths of
  its numerator and denominator.\<close>

definition ilog2 :: "rat \<Rightarrow> int" where
  "ilog2 x =
     (let (n, d) = quotient_of \<bar>x\<bar>; k = bitlen n - bitlen d in
      if 2 powi k \<le> \<bar>x\<bar> then k else k - 1)"

lemma two_powi_pos [simp]: "0 < (2 :: rat) powi k"
  by simp

lemma powi_less_iff [simp]: "(2 :: rat) powi a < 2 powi b \<longleftrightarrow> a < b"
proof (cases "a < b")
  case True
  then show ?thesis by (simp add: power_int_strict_increasing)
next
  case False
  then have "(2 :: rat) powi b \<le> 2 powi a" by (intro power_int_increasing) auto
  with False show ?thesis by (simp add: not_less)
qed

lemma powi_le_iff [simp]: "(2 :: rat) powi a \<le> 2 powi b \<longleftrightarrow> a \<le> b"
  using powi_less_iff [of b a] by linarith

lemma bitlen_powi_bounds:
  assumes "0 < n"
  shows "2 powi (bitlen n - 1) \<le> (of_int n :: rat)" "of_int n < (2 :: rat) powi bitlen n"
proof -
  from assms have pos: "0 < bitlen n"
    by (metis bitlen_eq_zero_iff bitlen_nonneg order_less_le linorder_not_le)
  have b: "2 ^ nat (bitlen n - 1) \<le> n" "n < 2 ^ nat (bitlen n)"
    using bitlen_bounds [OF assms] by auto
  have "(of_int (2 ^ nat (bitlen n - 1)) :: rat) \<le> of_int n"
    using b(1) by (simp only: of_int_le_iff)
  then show "2 powi (bitlen n - 1) \<le> (of_int n :: rat)"
    using pos by (simp add: power_int_def)
  have "(of_int n :: rat) < of_int (2 ^ nat (bitlen n))"
    using b(2) by (simp only: of_int_less_iff)
  then show "of_int n < (2 :: rat) powi bitlen n"
    using pos by (simp add: power_int_def)
qed

lemma ilog2_bounds:
  assumes "x \<noteq> 0"
  shows "2 powi ilog2 x \<le> \<bar>x\<bar>" "\<bar>x\<bar> < 2 powi (ilog2 x + 1)"
proof -
  obtain n d where q: "quotient_of \<bar>x\<bar> = (n, d)" by fastforce
  have d: "0 < d" using quotient_of_denom_pos [OF q] .
  have x: "\<bar>x\<bar> = of_int n / of_int d" using quotient_of_div [OF q] .
  have "0 < \<bar>x\<bar>" using assms by simp
  then have n: "0 < n" using x d by (simp add: zero_less_divide_iff)
  define k where "k = bitlen n - bitlen d"
  note bn = bitlen_powi_bounds [OF n] and bd = bitlen_powi_bounds [OF d]
  have "\<bar>x\<bar> < 2 powi bitlen n / 2 powi (bitlen d - 1)"
    unfolding x using bn bd d n by (intro frac_less) (auto simp: less_imp_le)
  also have "\<dots> = 2 powi (k + 1)"
    by (simp add: k_def power_int_diff [symmetric] algebra_simps)
  finally have up: "\<bar>x\<bar> < 2 powi (k + 1)" .
  have "2 powi (bitlen n - 1) / 2 powi bitlen d \<le> \<bar>x\<bar>"
    unfolding x using bn bd d n by (intro frac_le) (auto simp: less_imp_le)
  moreover have "2 powi (bitlen n - 1) / (2 :: rat) powi bitlen d = 2 powi (k - 1)"
    by (simp add: k_def power_int_diff [symmetric] algebra_simps)
  ultimately have lo: "2 powi (k - 1) \<le> \<bar>x\<bar>" by simp
  have l: "ilog2 x = (if 2 powi k \<le> \<bar>x\<bar> then k else k - 1)"
    by (simp add: ilog2_def q k_def)
  show "2 powi ilog2 x \<le> \<bar>x\<bar>" using l lo by auto
  show "\<bar>x\<bar> < 2 powi (ilog2 x + 1)" using l up by auto
qed

lemma ilog2_unique:
  assumes "2 powi k \<le> \<bar>x\<bar>" "\<bar>x\<bar> < 2 powi (k + 1)"
  shows "ilog2 x = k"
proof -
  have "0 < \<bar>x\<bar>" using two_powi_pos [of k] assms(1) by (rule less_le_trans)
  then have nz: "x \<noteq> 0" by simp
  from ilog2_bounds [OF nz] assms
  have "(2 :: rat) powi ilog2 x < 2 powi (k + 1)" "(2 :: rat) powi k < 2 powi (ilog2 x + 1)"
    by linarith+
  then show ?thesis by simp
qed

lemma ilog2_minus [simp]: "ilog2 (- x) = ilog2 x"
  by (simp add: ilog2_def)

lemma ilog2_mono: "0 < x \<Longrightarrow> x \<le> y \<Longrightarrow> ilog2 x \<le> ilog2 y"
proof -
  assume a: "0 < x" "x \<le> y"
  then have "2 powi ilog2 x \<le> x" "y < 2 powi (ilog2 y + 1)"
    using ilog2_bounds [of x] ilog2_bounds [of y] by auto
  with a have "(2 :: rat) powi ilog2 x < 2 powi (ilog2 y + 1)" by linarith
  then show ?thesis by simp
qed

text \<open>The exponent of the unit in the last place: 53 significant bits, and never below the
  subnormal unit \<open>2 powi -1074\<close>.\<close>

definition ulp_exp :: "rat \<Rightarrow> int" where
  "ulp_exp x = max (ilog2 x - 52) (-1074)"

definition rnd :: "rat \<Rightarrow> rat" where
  "rnd x =
     (if x = 0 then 0
      else of_int (round_half_even (x / 2 powi ulp_exp x)) * 2 powi ulp_exp x)"

lemma rnd_0 [simp]: "rnd 0 = 0"
  by (simp add: rnd_def)

lemma rnd_minus [simp]: "rnd (- x) = - rnd x"
  by (simp add: rnd_def ulp_exp_def rhe_minus)

text \<open>A dyadic number with a significand of at most 53 bits is not changed by rounding.\<close>

lemma rnd_exact:
  assumes "\<bar>m\<bar> \<le> 2 ^ 53" "-1074 \<le> e"
  shows "rnd (of_int m * 2 powi e) = of_int m * 2 powi e"
proof (cases "m = 0")
  case False
  define x where "x = (of_int m :: rat) * 2 powi e"
  have nz: "x \<noteq> 0" using False by (simp add: x_def)
  define u where "u = ulp_exp x"
  have dvd: "\<exists>j :: int. x = of_int j * 2 powi u"
  proof (cases "u \<le> e")
    case True
    then have "(2 :: rat) powi e = of_int (2 ^ nat (e - u)) * 2 powi u"
      by (simp add: power_int_def [of 2 "e - u", symmetric] power_int_minus
          flip: power_int_add power_int_of_nat)
    then have "x = of_int (m * 2 ^ nat (e - u)) * 2 powi u"
      by (simp add: x_def)
    then show ?thesis by blast
  next
    case False
    with assms(2) have u: "u = ilog2 x - 52" by (auto simp: u_def ulp_exp_def)
    have "2 powi ilog2 x \<le> \<bar>x\<bar>" using ilog2_bounds [OF nz] by simp
    also have "\<bar>x\<bar> = of_int \<bar>m\<bar> * 2 powi e" by (simp add: x_def abs_mult)
    also have "\<dots> \<le> of_int (2 ^ 53) * 2 powi e"
      using assms(1) by (intro mult_right_mono) (simp_all only: of_int_le_iff, simp)
    also have "\<dots> = 2 powi (e + 53)"
      by (simp add: power_int_add)
    finally have "ilog2 x \<le> e + 53" by simp
    with False u have eq: "ilog2 x = e + 53" by linarith
    then have "2 powi (e + 53) \<le> of_int \<bar>m\<bar> * (2 :: rat) powi e"
      using ilog2_bounds(1) [OF nz] by (simp add: x_def abs_mult)
    then have "(2 ^ 53 :: rat) \<le> of_int \<bar>m\<bar>"
      by (simp add: power_int_add)
    then have "2 ^ 53 \<le> \<bar>m\<bar>" by (metis of_int_le_iff of_int_numeral of_int_power)
    with assms(1) have "\<bar>m\<bar> = 2 ^ 53" by simp
    then have "x = of_int (sgn m * 2 ^ 52) * 2 powi u"
      using u eq by (auto simp: x_def abs_if power_int_add split: if_splits)
    then show ?thesis by blast
  qed
  then obtain j where j: "x = of_int j * 2 powi u" by blast
  then have "x / 2 powi u = of_int j" by simp
  then have "rnd x = of_int j * 2 powi u"
    using nz by (simp add: rnd_def u_def [symmetric])
  then show ?thesis using j by (simp add: x_def)
qed simp

lemma rnd_of_int: "\<bar>n\<bar> \<le> 2 ^ 53 \<Longrightarrow> rnd (of_int n) = of_int n"
  using rnd_exact [of n 0] by simp

lemma rnd_1 [simp]: "rnd 1 = 1"
  using rnd_of_int [of 1] by simp

lemma rnd_powi: "-1074 \<le> k \<Longrightarrow> rnd (2 powi k) = 2 powi k"
  using rnd_exact [of 1 k] by simp

lemma abs_quotient_bounds:
  assumes "x \<noteq> 0"
  shows "\<bar>x / 2 powi ulp_exp x\<bar> \<le> 2 ^ 53"
proof -
  have "\<bar>x\<bar> \<le> 2 powi (ilog2 x + 1)" using ilog2_bounds [OF assms] by simp
  also have "\<dots> \<le> 2 powi (ulp_exp x + 53)" by (simp add: ulp_exp_def)
  finally show ?thesis
    by (simp add: abs_divide power_int_add divide_le_eq mult.commute)
qed

lemma rnd_representable:
  obtains m where "rnd x = of_int m * 2 powi ulp_exp x" "\<bar>m\<bar> \<le> 2 ^ 53"
proof (cases "x = 0")
  case True
  then show ?thesis using that [of 0] by simp
next
  case False
  let ?q = "x / 2 powi ulp_exp x"
  have "?q \<le> of_int (2 ^ 53)" "of_int (- (2 ^ 53)) \<le> ?q"
    using abs_le_D1 [OF abs_quotient_bounds [OF False]] abs_le_D2 [OF abs_quotient_bounds [OF False]]
    by simp_all
  then have "\<bar>round_half_even ?q\<bar> \<le> 2 ^ 53"
    using rhe_le_of_int [of ?q "2 ^ 53"] rhe_ge_of_int [of "- (2 ^ 53)" ?q] by linarith
  then show ?thesis using that False by (simp add: rnd_def)
qed

lemma rnd_rnd [simp]: "rnd (rnd x) = rnd x"
proof -
  obtain m where "rnd x = of_int m * 2 powi ulp_exp x" "\<bar>m\<bar> \<le> 2 ^ 53"
    by (rule rnd_representable)
  then show ?thesis using rnd_exact [of m "ulp_exp x"] by (simp add: ulp_exp_def)
qed

lemma rnd_nonneg: "0 \<le> x \<Longrightarrow> 0 \<le> rnd x"
  using rhe_ge_of_int [of 0 "x / 2 powi ulp_exp x"] by (simp add: rnd_def)

lemma rnd_mono_pos:
  assumes "0 < x" "x \<le> y"
  shows "rnd x \<le> rnd y"
proof (cases "ulp_exp x = ulp_exp y")
  case True
  have "round_half_even (x / 2 powi ulp_exp x) \<le> round_half_even (y / 2 powi ulp_exp x)"
    using assms by (intro rhe_mono divide_right_mono) auto
  with assms True show ?thesis by (simp add: rnd_def)
next
  case False
  with ilog2_mono [OF assms] have lt: "ulp_exp x < ulp_exp y"
    by (auto simp: ulp_exp_def)
  then have y: "ulp_exp y = ilog2 y - 52" and xy: "ilog2 x + 1 \<le> ilog2 y"
    by (auto simp: ulp_exp_def split: if_splits)
  obtain m where m: "rnd x = of_int m * 2 powi ulp_exp x" "\<bar>m\<bar> \<le> 2 ^ 53"
    by (rule rnd_representable)
  have "rnd x \<le> of_int (2 ^ 53) * 2 powi ulp_exp x"
    unfolding m(1) using m(2) by (intro mult_right_mono) (simp_all only: of_int_le_iff abs_le_iff, simp)
  also have "\<dots> = 2 powi (ulp_exp x + 53)" by (simp add: power_int_add)
  also have "\<dots> \<le> 2 powi ilog2 y" using lt y by simp
  also have "\<dots> \<le> rnd y"
  proof -
    have yn: "0 < y" using assms by simp
    have "of_int (2 ^ 52) * 2 powi ulp_exp y = (2 :: rat) powi ilog2 y"
      by (simp add: y power_int_diff)
    moreover have "(2 :: rat) powi ilog2 y \<le> y" using ilog2_bounds(1) [of y] yn by simp
    ultimately have "of_int (2 ^ 52) \<le> y / 2 powi ulp_exp y"
      by (simp add: le_divide_eq)
    then have "2 ^ 52 \<le> round_half_even (y / 2 powi ulp_exp y)" by (rule rhe_ge_of_int)
    then have "(of_int (2 ^ 52) :: rat) \<le> of_int (round_half_even (y / 2 powi ulp_exp y))"
      by (simp only: of_int_le_iff)
    then have "of_int (2 ^ 52) * 2 powi ulp_exp y \<le> rnd y"
      using yn by (simp add: rnd_def mult_right_mono)
    then show ?thesis by (simp add: y power_int_diff)
  qed
  finally show ?thesis .
qed

theorem rnd_mono: "x \<le> y \<Longrightarrow> rnd x \<le> rnd y"
proof -
  assume xy: "x \<le> y"
  consider "0 < x" | "x \<le> 0" "0 \<le> y" | "y < 0" by linarith
  then show ?thesis
  proof cases
    case 1
    then show ?thesis using xy by (rule rnd_mono_pos)
  next
    case 2
    have "0 \<le> rnd (- x)" using 2 by (intro rnd_nonneg) simp
    moreover have "0 \<le> rnd y" using 2 by (intro rnd_nonneg)
    ultimately show ?thesis by simp
  next
    case 3
    then have "rnd (- y) \<le> rnd (- x)" using xy by (intro rnd_mono_pos) auto
    then show ?thesis by simp
  qed
qed

lemma rnd_error: "\<bar>rnd x - x\<bar> \<le> 2 powi (ulp_exp x - 1)"
proof (cases "x = 0")
  case False
  let ?u = "(2 :: rat) powi ulp_exp x"
  have "rnd x - x = (of_int (round_half_even (x / ?u)) - x / ?u) * ?u"
    using False by (simp add: rnd_def left_diff_distrib)
  then have "\<bar>rnd x - x\<bar> = \<bar>of_int (round_half_even (x / ?u)) - x / ?u\<bar> * ?u"
    by (simp only: abs_mult abs_of_pos [OF two_powi_pos])
  also have "\<dots> \<le> 1 / 2 * ?u"
    by (intro mult_right_mono rhe_error) simp
  finally show ?thesis by (simp add: power_int_diff)
qed simp

lemma rnd_error_unit:
  assumes "0 \<le> x" "x < 1"
  shows "\<bar>rnd x - x\<bar> \<le> 2 powi (-54)"
proof (cases "x = 0")
  case False
  with ilog2_bounds(1) [of x] assms have "(2 :: rat) powi ilog2 x < 2 powi 0" by simp
  then have "ilog2 x < 0" by (simp only: powi_less_iff)
  then have "ulp_exp x - 1 \<le> -54" by (simp add: ulp_exp_def)
  then have "(2 :: rat) powi (ulp_exp x - 1) \<le> 2 powi (-54)" by (simp only: powi_le_iff)
  with rnd_error [of x] show ?thesis by linarith
qed simp

text \<open>Relative error in the normal range: half a unit in the last place.\<close>

lemma rnd_rel_error:
  assumes "2 powi (-1022) \<le> \<bar>x\<bar>"
  shows "\<bar>rnd x - x\<bar> \<le> \<bar>x\<bar> * 2 powi (-53)"
proof -
  have "0 < \<bar>x\<bar>" using two_powi_pos assms by (rule less_le_trans)
  then have nz: "x \<noteq> 0" by simp
  have "(2 :: rat) powi (-1022) < 2 powi (ilog2 x + 1)"
    using assms ilog2_bounds(2) [OF nz] by linarith
  then have "ulp_exp x = ilog2 x - 52" by (simp only: powi_less_iff) (simp add: ulp_exp_def)
  then have "ulp_exp x - 1 = ilog2 x + (-53)" by simp
  then have "(2 :: rat) powi (ulp_exp x - 1) = 2 powi (ilog2 x + (-53))"
    by (simp only:)
  also have "\<dots> = 2 powi ilog2 x * 2 powi (-53)"
    by (rule power_int_add) simp
  also have "\<dots> \<le> \<bar>x\<bar> * 2 powi (-53)"
    using ilog2_bounds(1) [OF nz] by (intro mult_right_mono) auto
  finally show ?thesis using rnd_error [of x] by linarith
qed

text \<open>Half a unit above one rounds back to one: the tie goes to the even significand.\<close>

lemma rnd_just_above_one: "x \<le> 1 + 2 powi (-53) \<Longrightarrow> rnd x \<le> 1"
proof -
  assume x: "x \<le> 1 + 2 powi (-53)"
  let ?t = "1 + (2 :: rat) powi (-53)"
  have "ilog2 ?t = 0"
    by (rule ilog2_unique) (simp_all add: power_int_def power_divide)
  then have "rnd ?t = of_int (round_half_even (?t / 2 powi (-52))) * 2 powi (-52)"
    by (simp add: rnd_def ulp_exp_def add_pos_pos less_imp_neq [symmetric] power_int_def)
  also have "?t / 2 powi (-52) = of_int 4503599627370496 + 1 / 2"
    by (simp add: power_int_def power_divide)
  also have "round_half_even (of_int 4503599627370496 + 1 / 2) = 2 ^ 52"
  proof -
    have "\<lfloor>of_int 4503599627370496 + 1 / 2 :: rat\<rfloor> = 4503599627370496"
      by (simp only: floor_eq_iff) simp
    then show ?thesis unfolding round_half_even_def Let_def by simp
  qed
  also have "of_int (2 ^ 52) * (2 :: rat) powi (-52) = 1"
    by (simp add: power_int_def power_divide)
  finally have "rnd ?t = 1" .
  with rnd_mono [OF x] show ?thesis by simp
qed

section \<open>Values and operations\<close>

datatype float64 = Fin rat | PInf | NInf | NaN

text \<open>The largest finite binary64 number.\<close>

definition max_float64 :: rat where
  "max_float64 = of_int (2 ^ 53 - 1) * 2 powi 971"

definition fround :: "rat \<Rightarrow> float64" where
  "fround x = (let r = rnd x in if max_float64 < r then PInf else if r < - max_float64 then NInf else Fin r)"

fun fneg :: "float64 \<Rightarrow> float64" where
  "fneg (Fin x) = Fin (- x)"
| "fneg PInf = NInf"
| "fneg NInf = PInf"
| "fneg NaN = NaN"

fun fadd :: "float64 \<Rightarrow> float64 \<Rightarrow> float64" where
  "fadd (Fin x) (Fin y) = fround (x + y)"
| "fadd NaN _ = NaN"
| "fadd _ NaN = NaN"
| "fadd PInf NInf = NaN"
| "fadd NInf PInf = NaN"
| "fadd PInf _ = PInf"
| "fadd _ PInf = PInf"
| "fadd NInf _ = NInf"
| "fadd _ NInf = NInf"

definition fsub :: "float64 \<Rightarrow> float64 \<Rightarrow> float64" where
  "fsub x y = fadd x (fneg y)"

definition finf :: "rat \<Rightarrow> float64" where
  "finf s = (if 0 < s then PInf else if s < 0 then NInf else NaN)"

fun fsgn :: "float64 \<Rightarrow> rat" where
  "fsgn (Fin x) = sgn x"
| "fsgn PInf = 1"
| "fsgn NInf = -1"
| "fsgn NaN = 0"

fun fmul :: "float64 \<Rightarrow> float64 \<Rightarrow> float64" where
  "fmul (Fin x) (Fin y) = fround (x * y)"
| "fmul NaN _ = NaN"
| "fmul _ NaN = NaN"
| "fmul x y = finf (fsgn x * fsgn y)"

fun fdiv :: "float64 \<Rightarrow> float64 \<Rightarrow> float64" where
  "fdiv (Fin x) (Fin y) = (if y = 0 then finf (sgn x) else fround (x / y))"
| "fdiv NaN _ = NaN"
| "fdiv _ NaN = NaN"
| "fdiv (Fin x) _ = Fin 0"
| "fdiv x (Fin y) = finf (fsgn x * (if y < 0 then -1 else 1))"
| "fdiv _ _ = NaN"

fun flt :: "float64 \<Rightarrow> float64 \<Rightarrow> bool" where
  "flt (Fin x) (Fin y) = (x < y)"
| "flt NaN _ = False"
| "flt _ NaN = False"
| "flt PInf _ = False"
| "flt _ NInf = False"
| "flt _ _ = True"

fun fle :: "float64 \<Rightarrow> float64 \<Rightarrow> bool" where
  "fle (Fin x) (Fin y) = (x \<le> y)"
| "fle NaN _ = False"
| "fle _ NaN = False"
| "fle NInf _ = True"
| "fle _ PInf = True"
| "fle _ _ = False"

text \<open>Constants (\<open>0.64\<close>), conversion from an integer, and \<open>math.Max\<close>, \<open>math.Min\<close>.\<close>

definition flit :: "rat \<Rightarrow> float64" where "flit x = fround x"

definition of_int64 :: "int \<Rightarrow> float64" where "of_int64 n = fround (of_int n)"

fun fmax :: "float64 \<Rightarrow> float64 \<Rightarrow> float64" where
  "fmax PInf _ = PInf"
| "fmax _ PInf = PInf"
| "fmax NaN _ = NaN"
| "fmax _ NaN = NaN"
| "fmax x y = (if flt x y then y else x)"

fun fmin :: "float64 \<Rightarrow> float64 \<Rightarrow> float64" where
  "fmin NInf _ = NInf"
| "fmin _ NInf = NInf"
| "fmin NaN _ = NaN"
| "fmin _ NaN = NaN"
| "fmin x y = (if flt y x then y else x)"

fun ffloor :: "float64 \<Rightarrow> float64" where
  "ffloor (Fin x) = Fin (of_int \<lfloor>x\<rfloor>)"
| "ffloor x = x"

text \<open>
  \<open>int(x)\<close> drops the fraction. A value outside the integer range is left to the implementation
  by the language; on amd64 the conversion yields the smallest integer.
\<close>

definition trunc_rat :: "rat \<Rightarrow> int" where
  "trunc_rat x = (if 0 \<le> x then \<lfloor>x\<rfloor> else \<lceil>x\<rceil>)"

fun to_int64 :: "float64 \<Rightarrow> int" where
  "to_int64 (Fin x) = (if in_int64 (trunc_rat x) then trunc_rat x else int64_min)"
| "to_int64 _ = int64_min"

section \<open>Facts about the operations\<close>

text \<open>\<open>is_f64 x\<close>: the rational is a finite binary64 number.\<close>

definition is_f64 :: "rat \<Rightarrow> bool" where
  "is_f64 x \<longleftrightarrow> rnd x = x \<and> \<bar>x\<bar> \<le> max_float64"

lemma max_float64_ge: "2 ^ 64 \<le> max_float64"
  by (simp add: max_float64_def power_int_def)

lemma fround_small:
  assumes "\<bar>x\<bar> \<le> 2 ^ 64"
  shows "fround x = Fin (rnd x)" "is_f64 (rnd x)"
proof -
  have p: "rnd (2 ^ 64) = 2 ^ 64" using rnd_powi [of 64] by (simp add: power_int_def)
  have "rnd x \<le> 2 ^ 64" "- (2 ^ 64) \<le> rnd x"
    using rnd_mono [of x "2 ^ 64"] rnd_mono [of "- (2 ^ 64)" x] assms p
    by (simp_all add: abs_le_iff)
  with max_float64_ge show "fround x = Fin (rnd x)" "is_f64 (rnd x)"
    by (auto simp: fround_def is_f64_def Let_def abs_le_iff)
qed

lemma fround_is_f64: "is_f64 x \<Longrightarrow> fround x = Fin x"
  by (auto simp: fround_def is_f64_def Let_def abs_le_iff)

lemma of_int64_exact: "\<bar>n\<bar> \<le> 2 ^ 53 \<Longrightarrow> of_int64 n = Fin (of_int n)"
proof -
  assume n: "\<bar>n\<bar> \<le> 2 ^ 53"
  then have "(of_int \<bar>n\<bar> :: rat) \<le> of_int (2 ^ 53)" by (simp only: of_int_le_iff)
  then have "\<bar>of_int n :: rat\<bar> \<le> 2 ^ 64" by simp
  then show ?thesis unfolding of_int64_def by (simp only: fround_small rnd_of_int [OF n])
qed

text \<open>\<open>unit_f x\<close>: a finite binary64 number in the unit interval, the shape of a probability.\<close>

definition unit_f :: "float64 \<Rightarrow> bool" where
  "unit_f x \<longleftrightarrow> (\<exists>q. x = Fin q \<and> rnd q = q \<and> 0 \<le> q \<and> q \<le> 1)"

lemma unit_fE:
  assumes "unit_f x"
  obtains q where "x = Fin q" "rnd q = q" "0 \<le> q" "q \<le> 1"
  using assms by (auto simp: unit_f_def)

lemma unit_f_simps [simp]: "unit_f (Fin 0)" "unit_f (Fin 1)"
  by (auto simp: unit_f_def)

lemma fround_unit: "0 \<le> x \<Longrightarrow> x \<le> 1 + 2 powi (-53) \<Longrightarrow> unit_f (fround x)"
proof -
  assume x: "0 \<le> x" "x \<le> 1 + 2 powi (-53)"
  have "(2 :: rat) powi (-53) \<le> 2 powi 0" by (simp only: powi_le_iff)
  with x have "\<bar>x\<bar> \<le> 2 ^ 64" by simp
  with x show ?thesis
    by (simp add: fround_small unit_f_def rnd_nonneg rnd_just_above_one)
qed

lemma fround_unit1: "0 \<le> x \<Longrightarrow> x \<le> 1 \<Longrightarrow> unit_f (fround x)"
  using two_powi_pos [of "-53"] by (intro fround_unit) linarith+

lemma fmul_unit: "unit_f x \<Longrightarrow> unit_f y \<Longrightarrow> unit_f (fmul x y)"
  by (auto elim!: unit_fE intro!: fround_unit1 mult_le_one mult_nonneg_nonneg)

lemma fsub_one_unit: "unit_f x \<Longrightarrow> unit_f (fsub (Fin 1) x)"
  by (auto elim!: unit_fE intro!: fround_unit1 simp: fsub_def)

text \<open>
  A convex combination \<open>p*x + (1-p)*y\<close> of probabilities, evaluated in floating point, is again a
  probability: the rounding error of \<open>1-p\<close> is at most half a unit above one, which the final
  rounding removes.
\<close>

lemma convex_unit:
  assumes "unit_f p" "unit_f x" "unit_f y"
  shows "unit_f (fadd (fmul p x) (fmul (fsub (Fin 1) p) y))"
proof -
  from assms obtain a b c where
    a: "p = Fin a" "rnd a = a" "0 \<le> a" "a \<le> 1" and
    b: "x = Fin b" "0 \<le> b" "b \<le> 1" and c: "y = Fin c" "0 \<le> c" "c \<le> 1"
    by (auto elim!: unit_fE)
  let ?s = "rnd (1 - a)"
  have s: "0 \<le> ?s" "?s \<le> 1" "fsub (Fin 1) p = Fin ?s"
    using a rnd_mono [of "1 - a" 1] by (auto simp: fsub_def fround_small rnd_nonneg)
  have err: "a + ?s \<le> 1 + 2 powi (-53)"
  proof (cases "a = 0")
    case False
    then have "\<bar>?s - (1 - a)\<bar> \<le> 2 powi (-54)" using a by (intro rnd_error_unit) auto
    moreover have "(2 :: rat) powi (-54) \<le> 2 powi (-53)" by (simp only: powi_le_iff)
    ultimately show ?thesis by linarith
  qed simp
  have ab: "0 \<le> a * b" "a * b \<le> a" "a * b \<le> 1" using a b by (auto simp: mult_left_le mult_le_one)
  have sc: "0 \<le> ?s * c" "?s * c \<le> ?s" "?s * c \<le> 1" using s c by (auto simp: mult_left_le mult_le_one)
  have m: "fmul p x = Fin (rnd (a * b))" "fmul (fsub (Fin 1) p) y = Fin (rnd (?s * c))"
    using a b c s ab sc by (simp_all add: fround_small)
  have "rnd (a * b) \<le> a" "rnd (?s * c) \<le> ?s"
    using rnd_mono [OF ab(2)] rnd_mono [OF sc(2)] a by simp_all
  then show ?thesis
    unfolding m using ab sc err by (auto intro!: fround_unit simp: rnd_nonneg add_nonneg_nonneg)
qed

end
