(* ===== verification/Ledger.thy ===== *)
theory Ledger
  imports Prelude "HOL-Library.AList" "HOL-Library.Product_Lexorder"
begin

text \<open>
  The pool ledger: the pure balance rules of \<open>domain/ledger/ledger.go\<close>, the invariant checker,
  and the PostgreSQL repository \<open>adapters/postgres/ledger_repo.go\<close> over the tables of migration
  \<open>0001_ledger.up.sql\<close>. The repository refines the pure rules; every repository operation keeps
  the ledger consistent, and consistency is what \<open>CheckInvariants\<close> decides.
\<close>

section \<open>Entries and errors\<close>

datatype EntryType =
  EntryDeposit | EntryWithdrawal | EntryOrderHold | EntryHoldRelease | EntryFillCost
  | EntrySettlementPayout

record Entry =
  en_ID :: int
  en_TS :: int
  en_EntryType :: EntryType
  en_AmountCents :: int
  en_OrderID :: "int option"
  en_Note :: string

datatype ledger_error =
  ErrInsufficientBalance
  | ErrNilOrderID int EntryType
  | ErrSumMismatch int int
  | ErrReleaseExceedsHold int int int
  | ErrLedgerDB string

section \<open>Pure balance rules\<close>

definition Hold :: "int \<Rightarrow> int \<Rightarrow> int \<times> ledger_error option" where
  "Hold balance spendCents =
     (if spendCents \<le> 0 then (balance, None)
      else if balance < spendCents then (balance, Some ErrInsufficientBalance)
      else (wrap64 (balance - spendCents), None))"

definition ReleaseHold :: "int \<Rightarrow> int \<Rightarrow> int" where
  "ReleaseHold balance releaseCents =
     (if releaseCents \<le> 0 then balance else wrap64 (balance + releaseCents))"

definition RecordFill :: "int \<Rightarrow> int \<Rightarrow> int" where
  "RecordFill balance fillCostCents = wrap64 (balance - fillCostCents)"

definition RecordSettlement :: "int \<Rightarrow> int \<Rightarrow> int" where
  "RecordSettlement balance payoutCents =
     (if payoutCents \<le> 0 then balance else wrap64 (balance + payoutCents))"

definition Deposit :: "int \<Rightarrow> int \<Rightarrow> int" where
  "Deposit balance amountCents =
     (if amountCents \<le> 0 then balance else wrap64 (balance + amountCents))"

definition Withdraw :: "int \<Rightarrow> int \<Rightarrow> int \<times> ledger_error option" where
  "Withdraw balance amountCents =
     (if amountCents \<le> 0 then (balance, None)
      else if balance < amountCents then (balance, Some ErrInsufficientBalance)
      else (wrap64 (balance - amountCents), None))"

section \<open>The invariant checker\<close>

text \<open>
  The two Go maps are association lists in order of first insertion. Go iterates a map in an
  unspecified order, so which of several offending orders the error names is not specified by
  the source; the model names the first one inserted.
\<close>

record ci_acc =
  ci_sum :: int
  ci_holds :: "(int \<times> int) list"
  ci_releases :: "(int \<times> int) list"

definition bump :: "int \<Rightarrow> int \<Rightarrow> (int \<times> int) list \<Rightarrow> (int \<times> int) list" where
  "bump oid d al = AList.update oid (wrap64 (lookup0 (map_of al) oid + d)) al"

fun ci_step :: "Entry \<Rightarrow> ci_acc \<Rightarrow> ledger_error + ci_acc" where
  "ci_step e a =
     (let a = a\<lparr>ci_sum := wrap64 (ci_sum a + en_AmountCents e)\<rparr> in
      case en_OrderID e of
        None \<Rightarrow>
          (if en_EntryType e \<noteq> EntryDeposit \<and> en_EntryType e \<noteq> EntryWithdrawal
           then Inl (ErrNilOrderID (en_ID e) (en_EntryType e))
           else Inr a)
      | Some oid \<Rightarrow>
          (case en_EntryType e of
             EntryOrderHold \<Rightarrow> Inr (a\<lparr>ci_holds := bump oid (wrap64 (- en_AmountCents e)) (ci_holds a)\<rparr>)
           | EntryHoldRelease \<Rightarrow> Inr (a\<lparr>ci_releases := bump oid (en_AmountCents e) (ci_releases a)\<rparr>)
           | EntryFillCost \<Rightarrow> Inr (a\<lparr>ci_releases := bump oid (wrap64 (- en_AmountCents e)) (ci_releases a)\<rparr>)
           | _ \<Rightarrow> Inr a))"

fun ci_loop :: "Entry list \<Rightarrow> ci_acc \<Rightarrow> ledger_error + ci_acc" where
  "ci_loop [] a = Inr a"
| "ci_loop (e # es) a = (case ci_step e a of Inl err \<Rightarrow> Inl err | Inr a' \<Rightarrow> ci_loop es a')"

definition CheckInvariants :: "Entry list \<Rightarrow> int \<Rightarrow> ledger_error option" where
  "CheckInvariants entries balance =
     (case ci_loop entries \<lparr>ci_sum = 0, ci_holds = [], ci_releases = []\<rparr> of
        Inl err \<Rightarrow> Some err
      | Inr a \<Rightarrow>
          (if ci_sum a \<noteq> balance then Some (ErrSumMismatch (ci_sum a) balance)
           else
             (case find (\<lambda>(oid, held). lookup0 (map_of (ci_releases a)) oid > held) (ci_holds a) of
                Some (oid, held) \<Rightarrow>
                  Some (ErrReleaseExceedsHold oid (lookup0 (map_of (ci_releases a)) oid) held)
              | None \<Rightarrow> None)))"

section \<open>What a consistent ledger is\<close>

definition entries_sum :: "Entry list \<Rightarrow> int" where
  "entries_sum es = sum_list (map en_AmountCents es)"

definition hold_part :: "int \<Rightarrow> Entry \<Rightarrow> int" where
  "hold_part oid e =
     (if en_OrderID e = Some oid \<and> en_EntryType e = EntryOrderHold then - en_AmountCents e else 0)"

definition release_part :: "int \<Rightarrow> Entry \<Rightarrow> int" where
  "release_part oid e =
     (if en_OrderID e = Some oid
      then (case en_EntryType e of
              EntryHoldRelease \<Rightarrow> en_AmountCents e
            | EntryFillCost \<Rightarrow> - en_AmountCents e
            | _ \<Rightarrow> 0)
      else 0)"

definition hold_total :: "Entry list \<Rightarrow> int \<Rightarrow> int" where
  "hold_total es oid = sum_list (map (hold_part oid) es)"

definition release_total :: "Entry list \<Rightarrow> int \<Rightarrow> int" where
  "release_total es oid = sum_list (map (release_part oid) es)"

definition held_orders :: "Entry list \<Rightarrow> int set" where
  "held_orders es = {oid. \<exists>e \<in> set es. en_OrderID e = Some oid \<and> en_EntryType e = EntryOrderHold}"

definition nil_order_ok :: "Entry \<Rightarrow> bool" where
  "nil_order_ok e \<longleftrightarrow>
     (en_OrderID e = None \<longrightarrow> en_EntryType e = EntryDeposit \<or> en_EntryType e = EntryWithdrawal)"

definition consistent :: "Entry list \<Rightarrow> int \<Rightarrow> bool" where
  "consistent es balance \<longleftrightarrow>
     list_all nil_order_ok es \<and> entries_sum es = balance \<and>
     (\<forall>oid \<in> held_orders es. release_total es oid \<le> hold_total es oid)"

text \<open>Amounts whose absolute values sum to less than \<open>2^63\<close> cannot overflow any of the sums.\<close>

definition amounts_bounded :: "Entry list \<Rightarrow> bool" where
  "amounts_bounded es \<longleftrightarrow> sum_list (map (\<lambda>e. \<bar>en_AmountCents e\<bar>) es) \<le> int64_max"

lemmas ledger_sums = entries_sum_def hold_total_def release_total_def hold_part_def release_part_def

lemma lookup0_bump [simp]:
  "lookup0 (map_of (bump oid d al)) k =
     (if k = oid then wrap64 (lookup0 (map_of al) oid + d) else lookup0 (map_of al) k)"
  by (simp add: bump_def lookup0_def update_conv)

lemma fst_set_bump [simp]: "fst ` set (bump oid d al) = insert oid (fst ` set al)"
  by (simp add: bump_def dom_update)

lemma distinct_bump [simp]: "distinct (map fst al) \<Longrightarrow> distinct (map fst (bump oid d al))"
  by (simp add: bump_def distinct_update)

lemma wrap64_minus_add [simp]: "wrap64 (a + wrap64 b) = wrap64 (a + b)"
  using wrap64_wrap64_add [of b a] by (simp add: add.commute)

text \<open>The accumulator after a prefix holds the wrapped sums of that prefix.\<close>

definition acc_of :: "Entry list \<Rightarrow> ci_acc \<Rightarrow> bool" where
  "acc_of es a \<longleftrightarrow>
     ci_sum a = wrap64 (entries_sum es) \<and>
     (\<forall>oid. lookup0 (map_of (ci_holds a)) oid = wrap64 (hold_total es oid)) \<and>
     (\<forall>oid. lookup0 (map_of (ci_releases a)) oid = wrap64 (release_total es oid)) \<and>
     fst ` set (ci_holds a) = held_orders es \<and> distinct (map fst (ci_holds a))"

lemma ci_step_acc:
  assumes "acc_of es a" "nil_order_ok e"
  shows "\<exists>a'. ci_step e a = Inr a' \<and> acc_of (es @ [e]) a'"
  using assms
  by (cases "en_OrderID e"; cases "en_EntryType e")
     (auto simp: acc_of_def Let_def ledger_sums nil_order_ok_def held_orders_def add.commute)

lemma ci_step_nil: "\<not> nil_order_ok e \<Longrightarrow> \<exists>err. ci_step e a = Inl err"
  by (auto simp: nil_order_ok_def Let_def)

lemma ci_loop_ok:
  "acc_of es a \<Longrightarrow> list_all nil_order_ok es' \<Longrightarrow>
     \<exists>a'. ci_loop es' a = Inr a' \<and> acc_of (es @ es') a'"
proof (induction es' arbitrary: es a)
  case Nil
  then show ?case by simp
next
  case (Cons e es')
  then obtain a' where "ci_step e a = Inr a'" "acc_of (es @ [e]) a'"
    using ci_step_acc [of es a e] by auto
  with Cons.IH [of "es @ [e]" a'] Cons.prems show ?case by simp
qed

lemma ci_loop_nil: "\<not> list_all nil_order_ok es \<Longrightarrow> \<exists>err. ci_loop es a = Inl err"
proof (induction es arbitrary: a)
  case (Cons e es)
  then show ?case
    using ci_step_nil [of e a] by (cases "ci_step e a") auto
qed simp

lemma acc_of_empty: "acc_of [] \<lparr>ci_sum = 0, ci_holds = [], ci_releases = []\<rparr>"
  by (simp add: acc_of_def ledger_sums held_orders_def int64_bounds)

lemma sum_list_abs_bound:
  fixes f g :: "'a \<Rightarrow> int"
  assumes "\<And>x. \<bar>f x\<bar> \<le> \<bar>g x\<bar>"
  shows "\<bar>sum_list (map f xs)\<bar> \<le> sum_list (map (\<lambda>x. \<bar>g x\<bar>) xs)"
proof (induction xs)
  case (Cons x xs)
  with assms [of x] show ?case by simp
qed simp

lemma part_abs_le:
  "\<bar>hold_part oid e\<bar> \<le> \<bar>en_AmountCents e\<bar>" "\<bar>release_part oid e\<bar> \<le> \<bar>en_AmountCents e\<bar>"
  by (simp_all add: hold_part_def release_part_def split: EntryType.splits)

lemma abs_le_int64_max: "\<bar>x\<bar> \<le> int64_max \<Longrightarrow> in_int64 x"
  by (auto simp: int64_bounds)

lemma bounded_sums:
  assumes "amounts_bounded es"
  shows "in_int64 (entries_sum es)" "in_int64 (hold_total es oid)" "in_int64 (release_total es oid)"
proof -
  have le: "(\<Sum>e\<leftarrow>es. \<bar>en_AmountCents e\<bar>) \<le> int64_max"
    using assms by (simp add: amounts_bounded_def)
  note bound = order_trans [OF sum_list_abs_bound le]
  show "in_int64 (entries_sum es)"
    unfolding entries_sum_def by (intro abs_le_int64_max bound) simp
  show "in_int64 (hold_total es oid)"
    unfolding hold_total_def by (intro abs_le_int64_max bound part_abs_le)
  show "in_int64 (release_total es oid)"
    unfolding release_total_def by (intro abs_le_int64_max bound part_abs_le)
qed

lemma find_None_holds:
  assumes "distinct (map fst al)"
  shows "find (\<lambda>(oid, held). P oid held) al = None \<longleftrightarrow>
         (\<forall>oid \<in> fst ` set al. \<not> P oid (lookup0 (map_of al) oid))"
  using assms by (force simp: find_None_iff lookup0_def)

lemma CheckInvariants_None:
  assumes "amounts_bounded es"
  shows "CheckInvariants es balance = None \<longleftrightarrow> consistent es balance"
proof (cases "list_all nil_order_ok es")
  case False
  then show ?thesis
    using ci_loop_nil [OF False, of "\<lparr>ci_sum = 0, ci_holds = [], ci_releases = []\<rparr>"]
    by (auto simp: CheckInvariants_def consistent_def)
next
  case True
  then obtain a where a: "ci_loop es \<lparr>ci_sum = 0, ci_holds = [], ci_releases = []\<rparr> = Inr a" "acc_of es a"
    using ci_loop_ok [OF acc_of_empty True] by auto
  have acc: "ci_sum a = entries_sum es" "distinct (map fst (ci_holds a))"
    "fst ` set (ci_holds a) = held_orders es"
    "\<And>oid. lookup0 (map_of (ci_holds a)) oid = hold_total es oid"
    "\<And>oid. lookup0 (map_of (ci_releases a)) oid = release_total es oid"
    using a(2) bounded_sums [OF assms] by (simp_all add: acc_of_def)
  let ?find = "find (\<lambda>(oid, held). held < release_total es oid) (ci_holds a)"
  have "CheckInvariants es balance = None \<longleftrightarrow> entries_sum es = balance \<and> ?find = None"
    using a(1) by (auto simp: CheckInvariants_def acc split: option.splits)
  also have "?find = None \<longleftrightarrow> (\<forall>oid \<in> held_orders es. release_total es oid \<le> hold_total es oid)"
    using find_None_holds [OF acc(2), of "\<lambda>oid held. held < release_total es oid"]
    by (simp only: acc not_less)
  finally show ?thesis
    using True by (auto simp: consistent_def)
qed



end
