(* ===== verification/LedgerRepo.thy ===== *)
theory LedgerRepo
  imports Ledger "HOL-Library.Multiset"
begin

text \<open>
  \<open>adapters/postgres/ledger_repo.go\<close> over the tables of \<open>0001_ledger.up.sql\<close>: the singleton row of
  \<open>pool_balance\<close> (with its \<open>CHECK (balance_cents >= 0)\<close>) and the append-only \<open>pool_ledger\<close>. Each
  operation is one transaction of two statements. The environment of a transaction says what the
  two clock readings were, how many sequence values were skipped before the insert, and at which
  point the database failed, if it did; a failed transaction is rolled back.
\<close>

section \<open>Tables and transactions\<close>

datatype db_fault = NoFault | FaultFirst | FaultSecond | FaultCommit

record tx_env =
  tx_now1 :: int
  tx_now2 :: int
  tx_gap :: nat
  tx_fault :: db_fault

record ledger_db =
  pb_row :: "(int \<times> int) option"
  pl_rows :: "Entry list"
  pl_next :: int

text \<open>
  \<open>UPDATE pool_balance SET balance_cents = balance_cents + delta WHERE id = 1 AND guard\<close>: the number
  of rows affected and the new table, or the error of a \<open>bigint\<close> overflow or of the table's check.
\<close>

definition update_balance ::
  "(int \<Rightarrow> bool) \<Rightarrow> int \<Rightarrow> int \<Rightarrow> ledger_db \<Rightarrow> ledger_error + (nat \<times> ledger_db)" where
  "update_balance guard delta now db =
     (case pb_row db of
        None \<Rightarrow> Inr (0, db)
      | Some (b, u) \<Rightarrow>
          (if \<not> guard b then Inr (0, db)
           else if \<not> in_int64 (b + delta) then Inl (ErrLedgerDB ''bigint out of range'')
           else if b + delta < 0 then Inl (ErrLedgerDB ''check constraint'')
           else Inr (1, db\<lparr>pb_row := Some (b + delta, now)\<rparr>)))"

definition insert_entry ::
  "tx_env \<Rightarrow> EntryType \<Rightarrow> int \<Rightarrow> int option \<Rightarrow> string \<Rightarrow> ledger_db \<Rightarrow> ledger_db" where
  "insert_entry env ty amt oid note db =
     (let n = pl_next db + int (tx_gap env) in
      db\<lparr>pl_rows := pl_rows db @
             [\<lparr>en_ID = n, en_TS = tx_now2 env, en_EntryType = ty, en_AmountCents = amt,
               en_OrderID = oid, en_Note = note\<rparr>],
         pl_next := n + 1\<rparr>)"

text \<open>
  The shape the operations share: the balance update, then the insert of the entry. \<open>onEmpty\<close> is
  the error returned when the update affects no row (only the hold checks this).
\<close>

definition ledger_tx ::
  "tx_env \<Rightarrow> (int \<Rightarrow> bool) \<Rightarrow> int \<Rightarrow> ledger_error option \<Rightarrow> EntryType \<Rightarrow> int \<Rightarrow> int option \<Rightarrow> string
   \<Rightarrow> ledger_db \<Rightarrow> ledger_db \<times> ledger_error option" where
  "ledger_tx env guard delta onEmpty ty amt oid note db =
     (if tx_fault env = FaultFirst then (db, Some (ErrLedgerDB ''update balance''))
      else
        (case update_balance guard delta (tx_now1 env) db of
           Inl err \<Rightarrow> (db, Some err)
         | Inr (affected, db1) \<Rightarrow>
             (if affected = 0 \<and> onEmpty \<noteq> None then (db, onEmpty)
              else if tx_fault env = FaultSecond then (db, Some (ErrLedgerDB ''insert ledger''))
              else if tx_fault env = FaultCommit then (db, Some (ErrLedgerDB ''commit''))
              else (insert_entry env ty amt oid note db1, None))))"

section \<open>The operations\<close>

definition Repo_InitBalance :: "tx_env \<Rightarrow> int \<Rightarrow> ledger_db \<Rightarrow> ledger_db \<times> ledger_error option" where
  "Repo_InitBalance env initialCents db =
     (if tx_fault env = FaultFirst then (db, Some (ErrLedgerDB ''init balance''))
      else
        (case pb_row db of
           Some _ \<Rightarrow>
             (if tx_fault env = FaultCommit then (db, Some (ErrLedgerDB ''commit'')) else (db, None))
         | None \<Rightarrow>
             (if initialCents < 0 then (db, Some (ErrLedgerDB ''check constraint''))
              else if tx_fault env = FaultSecond then (db, Some (ErrLedgerDB ''init balance: insert ledger''))
              else if tx_fault env = FaultCommit then (db, Some (ErrLedgerDB ''commit''))
              else
                (insert_entry env EntryDeposit initialCents None ''initial balance''
                   (db\<lparr>pb_row := Some (initialCents, tx_now1 env)\<rparr>), None))))"

definition Repo_GetBalance :: "db_fault \<Rightarrow> ledger_db \<Rightarrow> ledger_error + int" where
  "Repo_GetBalance fault db =
     (if fault \<noteq> NoFault then Inl (ErrLedgerDB ''get balance'')
      else
        (case pb_row db of
           None \<Rightarrow> Inl (ErrLedgerDB ''get balance: record not found'')
         | Some (b, _) \<Rightarrow> Inr b))"

definition Repo_HoldForOrder ::
  "tx_env \<Rightarrow> int \<Rightarrow> int \<Rightarrow> ledger_db \<Rightarrow> ledger_db \<times> ledger_error option" where
  "Repo_HoldForOrder env orderID spendCents =
     ledger_tx env (\<lambda>b. spendCents \<le> b) (- spendCents) (Some ErrInsufficientBalance)
       EntryOrderHold (wrap64 (- spendCents)) (Some orderID) ''hold for order''"

definition Repo_ReleaseHold ::
  "tx_env \<Rightarrow> int \<Rightarrow> int \<Rightarrow> ledger_db \<Rightarrow> ledger_db \<times> ledger_error option" where
  "Repo_ReleaseHold env orderID releaseCents =
     ledger_tx env (\<lambda>_. True) releaseCents None
       EntryHoldRelease releaseCents (Some orderID) ''release hold''"

definition Repo_RecordFill ::
  "tx_env \<Rightarrow> int \<Rightarrow> int \<Rightarrow> ledger_db \<Rightarrow> ledger_db \<times> ledger_error option" where
  "Repo_RecordFill env orderID fillCostCents =
     ledger_tx env (\<lambda>_. True) (- fillCostCents) None
       EntryFillCost (wrap64 (- fillCostCents)) (Some orderID) ''fill cost''"

definition Repo_RecordSettlement ::
  "tx_env \<Rightarrow> int \<Rightarrow> int \<Rightarrow> ledger_db \<Rightarrow> ledger_db \<times> ledger_error option" where
  "Repo_RecordSettlement env orderID payoutCents =
     ledger_tx env (\<lambda>_. True) payoutCents None
       EntrySettlementPayout payoutCents (Some orderID) ''settlement payout''"

definition Repo_Deposit :: "tx_env \<Rightarrow> int \<Rightarrow> ledger_db \<Rightarrow> ledger_db \<times> ledger_error option" where
  "Repo_Deposit env amountCents =
     ledger_tx env (\<lambda>_. True) amountCents None EntryDeposit amountCents None ''deposit''"

definition Repo_GetEntries :: "db_fault \<Rightarrow> ledger_db \<Rightarrow> ledger_error + Entry list" where
  "Repo_GetEntries fault db =
     (if fault \<noteq> NoFault then Inl (ErrLedgerDB ''get entries'')
      else Inr (sort_key (\<lambda>e. (en_TS e, en_ID e)) (pl_rows db)))"

definition Repo_CheckInvariants :: "db_fault \<Rightarrow> db_fault \<Rightarrow> ledger_db \<Rightarrow> ledger_error option" where
  "Repo_CheckInvariants fault1 fault2 db =
     (case Repo_GetEntries fault1 db of
        Inl err \<Rightarrow> Some err
      | Inr entries \<Rightarrow>
          (case Repo_GetBalance fault2 db of
             Inl err \<Rightarrow> Some err
           | Inr bal \<Rightarrow> CheckInvariants entries bal))"

section \<open>The balance is the sum of the entries\<close>

definition db_balance :: "ledger_db \<Rightarrow> int" where
  "db_balance db = (case pb_row db of None \<Rightarrow> 0 | Some (b, _) \<Rightarrow> b)"

definition ledger_inv :: "ledger_db \<Rightarrow> bool" where
  "ledger_inv db \<longleftrightarrow>
     pb_row db \<noteq> None \<and> 0 \<le> db_balance db \<and> db_balance db \<le> int64_max \<and>
     entries_sum (pl_rows db) = db_balance db \<and>
     distinct (map en_ID (pl_rows db)) \<and> list_all (\<lambda>e. en_ID e < pl_next db) (pl_rows db)"

lemma entries_sum_snoc [simp]: "entries_sum (es @ [e]) = entries_sum es + en_AmountCents e"
  by (simp add: entries_sum_def)

lemma hold_total_snoc [simp]: "hold_total (es @ [e]) oid = hold_total es oid + hold_part oid e"
  by (simp add: hold_total_def)

lemma release_total_snoc [simp]:
  "release_total (es @ [e]) oid = release_total es oid + release_part oid e"
  by (simp add: release_total_def)

lemma insert_entry_sel [simp]:
  "pb_row (insert_entry env ty amt oid note db) = pb_row db"
  "db_balance (insert_entry env ty amt oid note db) = db_balance db"
  by (simp_all add: insert_entry_def db_balance_def Let_def)

lemma update_balance_None [simp]:
  "pb_row db = None \<Longrightarrow> update_balance guard delta now db = Inr (0, db)"
  by (simp add: update_balance_def)

text \<open>A transaction that succeeds on an initialised ledger moved the balance by exactly \<open>delta\<close> and
  appended exactly one entry; one that fails changed nothing.\<close>

lemma ledger_tx_error: "ledger_tx env g d oe ty amt oid note db = (db', Some err) \<Longrightarrow> db' = db"
  by (auto simp: ledger_tx_def split: if_splits sum.splits prod.splits)

lemma ledger_tx_ok:
  assumes "ledger_tx env g d oe ty amt oid note db = (db', None)" "pb_row db = Some (b, u)"
    "g b \<or> oe \<noteq> None"
  shows "g b" "0 \<le> b + d" "in_int64 (b + d)"
    "db' = insert_entry env ty amt oid note (db\<lparr>pb_row := Some (b + d, tx_now1 env)\<rparr>)"
  using assms
  by (auto simp: ledger_tx_def update_balance_def split: if_splits sum.splits prod.splits)

lemma list_all_less_add:
  "list_all (\<lambda>e. f e < (n :: int)) xs \<Longrightarrow> 0 \<le> k \<Longrightarrow> list_all (\<lambda>e. f e < n + k) xs"
  by (auto simp: list_all_iff)

lemma insert_entry_inv:
  assumes inv: "ledger_inv db" and b: "0 \<le> db_balance db + amt" "db_balance db + amt \<le> int64_max"
  shows "ledger_inv (insert_entry env ty amt oid note (db\<lparr>pb_row := Some (db_balance db + amt, now)\<rparr>))"
proof -
  let ?n = "pl_next db + int (tx_gap env)"
  have lt: "list_all (\<lambda>e. en_ID e < ?n + 1) (pl_rows db)"
    using inv list_all_less_add [of en_ID "pl_next db" "pl_rows db" "int (tx_gap env) + 1"]
    by (simp add: ledger_inv_def add.assoc)
  have "?n \<notin> en_ID ` set (pl_rows db)"
    using inv by (auto simp: ledger_inv_def list_all_iff)
  with inv b lt show ?thesis
    by (simp add: ledger_inv_def insert_entry_def db_balance_def Let_def)
qed

lemma ledger_tx_inv:
  assumes tx: "ledger_tx env g d oe ty amt oid note db = (db', r)" and inv: "ledger_inv db"
    and amt: "amt = d \<or> amt = wrap64 d" and g: "\<And>b. g b \<or> oe \<noteq> None"
  shows "ledger_inv db'"
proof (cases r)
  case None
  from inv obtain b u where row: "pb_row db = Some (b, u)" and b: "0 \<le> b" "b \<le> int64_max"
    by (auto simp: ledger_inv_def db_balance_def)
  then have [simp]: "db_balance db = b" by (simp add: db_balance_def)
  note ok = ledger_tx_ok [OF tx [unfolded None] row g]
  have "wrap64 d = d" using ok(2,3) b by (intro wrap64_id) (simp add: int64_bounds)
  with amt have [simp]: "amt = d" by auto
  show ?thesis
    using insert_entry_inv [OF inv, of d env ty oid "note" "tx_now1 env"] ok by (simp add: in_int64_def)
next
  case (Some err)
  with tx inv show ?thesis by (auto dest: ledger_tx_error)
qed

lemmas repo_ops_defs =
  Repo_HoldForOrder_def Repo_ReleaseHold_def Repo_RecordFill_def Repo_RecordSettlement_def
  Repo_Deposit_def

lemma sum_list_sort_key: "sum_list (map (f :: Entry \<Rightarrow> int) (sort_key g es)) = sum_list (map f es)"
  by (metis mset_map mset_sort sum_mset_sum_list)

lemma sort_key_sums [simp]:
  "entries_sum (sort_key f es) = entries_sum es"
  "hold_total (sort_key f es) oid = hold_total es oid"
  "release_total (sort_key f es) oid = release_total es oid"
  "held_orders (sort_key f es) = held_orders es"
  "amounts_bounded (sort_key f es) = amounts_bounded es"
  "list_all P (sort_key f es) = list_all P es"
  by (simp_all add: entries_sum_def hold_total_def release_total_def held_orders_def
      amounts_bounded_def list_all_iff sum_list_sort_key)

lemma consistent_sort_key [simp]: "consistent (sort_key f es) b = consistent es b"
  by (simp add: consistent_def)

section \<open>The contract of the ledger port\<close>

text \<open>
  What the order worker relies on (\<open>ports.LedgerRepo\<close>): a hold, a release and a fill move the
  balance and the amount outstanding on the order by exactly their argument, a hold never exceeds
  the balance, and a call that reports an error had no effect.
\<close>

locale ledger_port =
  fixes bal :: "'s \<Rightarrow> int" and outstanding :: "'s \<Rightarrow> int \<Rightarrow> int" and inv :: "'s \<Rightarrow> bool"
    and hold release fill :: "'e \<Rightarrow> int \<Rightarrow> int \<Rightarrow> 's \<Rightarrow> 's \<times> ledger_error option"
  assumes inv_bal: "inv s \<Longrightarrow> 0 \<le> bal s"
    and hold_inv: "inv s \<Longrightarrow> inv (fst (hold e oid n s))"
    and release_inv: "inv s \<Longrightarrow> inv (fst (release e oid n s))"
    and fill_inv: "inv s \<Longrightarrow> inv (fst (fill e oid n s))"
    and hold_ok: "inv s \<Longrightarrow> hold e oid n s = (s', None) \<Longrightarrow>
      n \<le> bal s \<and> bal s' = bal s - n \<and> outstanding s' = (outstanding s)(oid := outstanding s oid + n)"
    and release_ok: "inv s \<Longrightarrow> release e oid n s = (s', None) \<Longrightarrow>
      bal s' = bal s + n \<and> outstanding s' = (outstanding s)(oid := outstanding s oid - n)"
    and fill_ok: "inv s \<Longrightarrow> fill e oid n s = (s', None) \<Longrightarrow>
      bal s' = bal s - n \<and> outstanding s' = (outstanding s)(oid := outstanding s oid - n)"
    and hold_err: "hold e oid n s = (s', Some err) \<Longrightarrow> s' = s"
    and release_err: "release e oid n s = (s', Some err) \<Longrightarrow> s' = s"
    and fill_err: "fill e oid n s = (s', Some err) \<Longrightarrow> s' = s"
begin

lemma hold_then_release:
  assumes "inv s" "hold e oid n s = (s1, None)" "release e' oid n s1 = (s2, None)"
  shows "bal s2 = bal s" "outstanding s2 = outstanding s" "inv s2"
  using assms hold_ok [OF assms(1,2)] hold_inv [of s e oid n] release_ok [of s1 e' oid n s2]
    release_inv [of s1 e' oid n]
  by auto

lemma hold_release_fill:
  assumes "inv s" "hold e oid n s = (s1, None)" "release e' oid (n - f) s1 = (s2, None)"
    "fill e'' oid f s2 = (s3, None)"
  shows "bal s3 = bal s - 2 * f" "outstanding s3 = outstanding s" "inv s3"
proof -
  have i: "inv s1" "inv s2" "inv s3"
    using assms hold_inv [of s e oid n] release_inv [of s1 e' oid "n - f"] fill_inv [of s2 e'' oid f]
    by simp_all
  from hold_ok [OF assms(1,2)] release_ok [OF i(1) assms(3)] fill_ok [OF i(2) assms(4)] i
  show "bal s3 = bal s - 2 * f" "outstanding s3 = outstanding s" "inv s3"
    by auto
qed

lemma hold_never_overdraws: "inv s \<Longrightarrow> hold e oid n s = (s', None) \<Longrightarrow> 0 \<le> bal s' \<and> n \<le> bal s"
  using hold_ok [of s e oid n s'] hold_inv [of s e oid n] inv_bal [of s'] by simp

end

definition db_outstanding :: "ledger_db \<Rightarrow> int \<Rightarrow> int" where
  "db_outstanding db oid = hold_total (pl_rows db) oid - release_total (pl_rows db) oid"

lemma ledger_inv_row:
  assumes "ledger_inv db"
  obtains b u where "pb_row db = Some (b, u)" "db_balance db = b" "0 \<le> b" "b \<le> int64_max"
  using assms by (auto simp: ledger_inv_def db_balance_def)

lemma repo_ops_inv:
  assumes "ledger_inv db"
  shows "ledger_inv (fst (Repo_HoldForOrder env oid n db))"
    "ledger_inv (fst (Repo_ReleaseHold env oid n db))"
    "ledger_inv (fst (Repo_RecordFill env oid n db))"
    "ledger_inv (fst (Repo_RecordSettlement env oid n db))"
    "ledger_inv (fst (Repo_Deposit env n db))"
  unfolding repo_ops_defs
  by (rule ledger_tx_inv [OF prod.collapse [symmetric] assms]; simp)+

lemma Repo_InitBalance_inv:
  "ledger_inv db \<Longrightarrow> ledger_inv (fst (Repo_InitBalance env n db))"
  by (auto simp: Repo_InitBalance_def ledger_inv_def split: option.splits)

text \<open>Effect of a successful transaction on the balance and on the order totals.\<close>

lemma ledger_tx_effect:
  assumes tx: "ledger_tx env g d oe ty amt oid note db = (db', None)" and inv: "ledger_inv db"
    and amt: "amt = d \<or> amt = wrap64 d" and g: "\<And>b. g b \<or> oe \<noteq> None"
  shows "g (db_balance db) \<and> db_balance db' = db_balance db + d \<and>
    (\<exists>e. pl_rows db' = pl_rows db @ [e] \<and> en_EntryType e = ty \<and> en_AmountCents e = d \<and> en_OrderID e = oid)"
proof -
  obtain b u where row: "pb_row db = Some (b, u)" and b: "db_balance db = b" "0 \<le> b" "b \<le> int64_max"
    using inv by (rule ledger_inv_row)
  note ok = ledger_tx_ok [OF tx row g]
  have "wrap64 d = d" using ok(2,3) b by (intro wrap64_id) (simp add: int64_bounds)
  with amt ok b show ?thesis
    by (auto simp: insert_entry_def Let_def) (simp_all add: db_balance_def)
qed

interpretation repo_port: ledger_port db_balance db_outstanding ledger_inv
  Repo_HoldForOrder Repo_ReleaseHold Repo_RecordFill
proof (unfold_locales, goal_cases)
  case (1 s)
  then show ?case by (simp add: ledger_inv_def)
next
  case (2 s e oid n)
  then show ?case by (rule repo_ops_inv)
next
  case (3 s e oid n)
  then show ?case by (rule repo_ops_inv)
next
  case (4 s e oid n)
  then show ?case by (rule repo_ops_inv)
next
  case (5 s e oid n s')
  from ledger_tx_effect [OF 5(2) [unfolded repo_ops_defs] 5(1)] show ?case
    by (auto simp: db_outstanding_def hold_part_def release_part_def)
next
  case (6 s e oid n s')
  from ledger_tx_effect [OF 6(2) [unfolded repo_ops_defs] 6(1)] show ?case
    by (auto simp: db_outstanding_def hold_part_def release_part_def)
next
  case (7 s e oid n s')
  from ledger_tx_effect [OF 7(2) [unfolded repo_ops_defs] 7(1)] show ?case
    by (auto simp: db_outstanding_def hold_part_def release_part_def)
qed (auto simp: repo_ops_defs dest: ledger_tx_error)

section \<open>Sequences of operations\<close>

datatype ledger_op =
  OpInit int | OpHold int int | OpRelease int int | OpFill int int | OpSettle int int | OpDeposit int

fun repo_step :: "tx_env \<Rightarrow> ledger_op \<Rightarrow> ledger_db \<Rightarrow> ledger_db \<times> ledger_error option" where
  "repo_step env (OpInit n) db = Repo_InitBalance env n db"
| "repo_step env (OpHold oid n) db = Repo_HoldForOrder env oid n db"
| "repo_step env (OpRelease oid n) db = Repo_ReleaseHold env oid n db"
| "repo_step env (OpFill oid n) db = Repo_RecordFill env oid n db"
| "repo_step env (OpSettle oid n) db = Repo_RecordSettlement env oid n db"
| "repo_step env (OpDeposit n) db = Repo_Deposit env n db"

fun repo_run :: "(tx_env \<times> ledger_op) list \<Rightarrow> ledger_db \<Rightarrow> ledger_db" where
  "repo_run [] db = db"
| "repo_run ((env, op) # ops) db = repo_run ops (fst (repo_step env op db))"

definition empty_ledger :: ledger_db where
  "empty_ledger = \<lparr>pb_row = None, pl_rows = [], pl_next = 1\<rparr>"

lemma repo_step_inv: "ledger_inv db \<Longrightarrow> ledger_inv (fst (repo_step env op db))"
  by (cases op) (simp_all add: repo_ops_inv Repo_InitBalance_inv)

lemma repo_run_inv: "ledger_inv db \<Longrightarrow> ledger_inv (repo_run ops db)"
  by (induction ops db rule: repo_run.induct) (simp_all add: repo_step_inv)

lemma InitBalance_ok:
  assumes "Repo_InitBalance env n empty_ledger = (db, None)" "in_int64 n"
  shows "ledger_inv db"
  using assms by (auto simp: Repo_InitBalance_def empty_ledger_def insert_entry_def ledger_inv_def
      db_balance_def entries_sum_def int64_bounds split: if_splits)

lemma ledger_tx_appends:
  "ledger_tx env g d oe ty amt oid note db = (db', r) \<Longrightarrow> \<exists>es. pl_rows db' = pl_rows db @ es"
  by (auto simp: ledger_tx_def update_balance_def insert_entry_def Let_def
      split: if_splits sum.splits prod.splits option.splits)

lemma repo_step_appends: "\<exists>es. pl_rows (fst (repo_step env op db)) = pl_rows db @ es"
proof (cases op)
  case (OpInit n)
  then show ?thesis
    by (auto simp: Repo_InitBalance_def insert_entry_def Let_def split: option.splits)
qed (simp_all add: repo_ops_defs ledger_tx_appends [OF prod.collapse [symmetric]])

lemma repo_run_appends: "\<exists>es. pl_rows (repo_run ops db) = pl_rows db @ es"
proof (induction ops db rule: repo_run.induct)
  case (2 env op ops db)
  then show ?case using repo_step_appends [of env op db] by auto
qed simp

text \<open>
  C9. Once the balance row has been seeded, whatever sequence of ledger operations runs, with
  database failures at any point of any transaction, the stored balance is non-negative, is what
  \<open>GetBalance\<close> returns, equals the sum of all ledger entries, and the ledger has only grown at its
  end (it is append-only).
\<close>
theorem ledger_balance_is_sum:
  assumes "Repo_InitBalance env n empty_ledger = (db0, None)" "in_int64 n"
  shows "0 \<le> entries_sum (pl_rows (repo_run ops db0)) \<and>
    Repo_GetBalance NoFault (repo_run ops db0) = Inr (entries_sum (pl_rows (repo_run ops db0))) \<and>
    (\<exists>es. pl_rows (repo_run ops db0) = pl_rows db0 @ es)"
  using repo_run_inv [OF InitBalance_ok [OF assms], of ops] repo_run_appends
  by (auto simp: ledger_inv_def db_balance_def Repo_GetBalance_def)

definition env0 :: tx_env where
  "env0 = \<lparr>tx_now1 = 1000, tx_now2 = 1001, tx_gap = 0, tx_fault = NoFault\<rparr>"

definition ledger0 :: "int \<Rightarrow> ledger_db" where
  "ledger0 n = \<lparr>pb_row = Some (n, 1000),
     pl_rows = [\<lparr>en_ID = 1, en_TS = 1001, en_EntryType = EntryDeposit, en_AmountCents = n,
                 en_OrderID = None, en_Note = ''initial balance''\<rparr>],
     pl_next = 2\<rparr>"

lemma InitBalance_ledger0: "0 \<le> n \<Longrightarrow> Repo_InitBalance env0 n empty_ledger = (ledger0 n, None)"
  by (simp add: Repo_InitBalance_def env0_def empty_ledger_def insert_entry_def ledger0_def)

theorem ledger_balance_is_sum_witness:
  "Repo_GetBalance NoFault (repo_run [(env0, OpHold 7 60), (env0\<lparr>tx_fault := FaultSecond\<rparr>, OpDeposit 5)] (ledger0 100))
     = Inr 40"
proof -
  note w = ledger_balance_is_sum [OF InitBalance_ledger0 [of 100],
      of "[(env0, OpHold 7 60), (env0\<lparr>tx_fault := FaultSecond\<rparr>, OpDeposit 5)]"]
  show ?thesis
    by (subst conjunct1 [OF conjunct2 [OF w]])
       (simp_all add: int64_bounds repo_ops_defs ledger_tx_def update_balance_def insert_entry_def
         entries_sum_def env0_def ledger0_def Let_def)
qed

section \<open>Clients that release no more than they hold\<close>

text \<open>A step is disciplined when a release or fill on an order does not exceed what is outstanding
  on it, and a hold is not negative.\<close>

fun disciplined :: "ledger_db \<Rightarrow> ledger_op \<Rightarrow> bool" where
  "disciplined db (OpHold oid n) = (0 \<le> n)"
| "disciplined db (OpRelease oid n) = (n \<le> db_outstanding db oid)"
| "disciplined db (OpFill oid n) = (n \<le> db_outstanding db oid)"
| "disciplined db _ = True"

fun disciplined_run :: "(tx_env \<times> ledger_op) list \<Rightarrow> ledger_db \<Rightarrow> bool" where
  "disciplined_run [] db = True"
| "disciplined_run ((env, op) # ops) db =
     (disciplined db op \<and> disciplined_run ops (fst (repo_step env op db)))"

definition orders_ok :: "ledger_db \<Rightarrow> bool" where
  "orders_ok db \<longleftrightarrow> list_all nil_order_ok (pl_rows db) \<and> (\<forall>oid. 0 \<le> db_outstanding db oid)"

lemma ledger_tx_orders_ok:
  assumes tx: "ledger_tx env g d oe ty amt oid note db = (db', r)" and inv: "ledger_inv db"
    and amt: "amt = d \<or> amt = wrap64 d" and g: "\<And>b. g b \<or> oe \<noteq> None"
    and ok: "orders_ok db"
    and ty: "oid = None \<Longrightarrow> ty = EntryDeposit"
    and out: "\<And>e oid'. en_EntryType e = ty \<Longrightarrow> en_AmountCents e = d \<Longrightarrow> en_OrderID e = oid \<Longrightarrow>
      0 \<le> db_outstanding db oid' + hold_part oid' e - release_part oid' e"
  shows "orders_ok db'"
proof (cases r)
  case None
  obtain e where e: "pl_rows db' = pl_rows db @ [e]" "en_EntryType e = ty" "en_AmountCents e = d"
    "en_OrderID e = oid"
    using ledger_tx_effect [OF tx [unfolded None] inv amt g] by auto
  have "0 \<le> db_outstanding db' oid'" for oid'
    using out [OF e(2-4), of oid'] by (simp add: db_outstanding_def e(1))
  with e ok ty show ?thesis by (auto simp: orders_ok_def nil_order_ok_def)
next
  case (Some err)
  with tx ok show ?thesis by (auto dest: ledger_tx_error)
qed

lemma repo_step_orders_ok:
  assumes "ledger_inv db" "orders_ok db" "disciplined db op"
  shows "orders_ok (fst (repo_step env op db))"
proof (cases op)
  case (OpInit n)
  with assms show ?thesis
    by (auto simp: Repo_InitBalance_def ledger_inv_def split: option.splits)
qed (use assms in \<open>auto simp: repo_ops_defs hold_part_def release_part_def orders_ok_def [of db]
  intro!: ledger_tx_orders_ok [OF prod.collapse [symmetric]]\<close>)

lemma repo_run_orders_ok:
  "ledger_inv db \<Longrightarrow> orders_ok db \<Longrightarrow> disciplined_run ops db \<Longrightarrow> orders_ok (repo_run ops db)"
  by (induction ops db rule: repo_run.induct) (simp_all add: repo_step_inv repo_step_orders_ok)

lemma orders_ok_consistent:
  "ledger_inv db \<Longrightarrow> orders_ok db \<Longrightarrow> consistent (pl_rows db) (db_balance db)"
  by (auto simp: consistent_def ledger_inv_def orders_ok_def db_outstanding_def)

lemma ledger0_ok: "0 \<le> n \<Longrightarrow> n \<le> int64_max \<Longrightarrow> ledger_inv (ledger0 n) \<and> orders_ok (ledger0 n)"
  by (simp add: ledger_inv_def orders_ok_def ledger0_def db_balance_def db_outstanding_def
      ledger_sums nil_order_ok_def)

lemmas repo_eval = int64_bounds repo_ops_defs ledger_tx_def update_balance_def insert_entry_def
  env0_def ledger0_def Let_def db_balance_def

text \<open>
  Starting from a freshly seeded ledger, a sequence of operations in which no order is ever
  released or filled for more than is outstanding on it passes the nightly \<open>CheckInvariants\<close>,
  whatever the database failures on the way, as long as the amounts cannot overflow 64 bits.
\<close>
theorem disciplined_run_passes_check:
  assumes "0 \<le> n" "n \<le> int64_max" "disciplined_run ops (ledger0 n)"
    "amounts_bounded (pl_rows (repo_run ops (ledger0 n)))"
  shows "Repo_CheckInvariants NoFault NoFault (repo_run ops (ledger0 n)) = None"
proof -
  let ?db = "repo_run ops (ledger0 n)"
  have ok: "ledger_inv ?db" "orders_ok ?db"
    using ledger0_ok [OF assms(1,2)] assms(3) by (simp_all add: repo_run_inv repo_run_orders_ok)
  then obtain b u where "pb_row ?db = Some (b, u)" "db_balance ?db = b" by (auto elim: ledger_inv_row)
  with orders_ok_consistent [OF ok] assms(4) show ?thesis
    by (simp add: Repo_CheckInvariants_def Repo_GetEntries_def Repo_GetBalance_def
        CheckInvariants_None)
qed

theorem disciplined_run_passes_check_witness:
  "Repo_CheckInvariants NoFault NoFault
     (repo_run [(env0, OpHold 7 60), (env0, OpRelease 7 20), (env0, OpFill 7 40)] (ledger0 100)) = None"
  by (rule disciplined_run_passes_check)
     (simp_all add: repo_eval db_outstanding_def hold_total_def release_total_def hold_part_def
       release_part_def amounts_bounded_def)

section \<open>The repository refines the pure rules\<close>

text \<open>
  C10. On an initialised ledger and without a database failure, the repository implements the pure
  rules of the domain: for a positive amount, \<open>HoldForOrder\<close> returns the same error and leaves the
  same balance as \<open>Hold\<close>; the credits agree with \<open>ReleaseHold\<close>, \<open>RecordSettlement\<close> and \<open>Deposit\<close> as
  long as the balance fits 64 bits; and \<open>RecordFill\<close> agrees as long as the balance covers the fill.
\<close>
theorem repo_refines_rules:
  assumes "ledger_inv db" "tx_fault env = NoFault" "0 < n" "db_balance db + n \<le> int64_max"
  shows "(case Repo_HoldForOrder env oid n db of (db', r) \<Rightarrow> (db_balance db', r)) = Hold (db_balance db) n \<and>
    (case Repo_ReleaseHold env oid n db of (db', r) \<Rightarrow> (db_balance db', r)) = (ReleaseHold (db_balance db) n, None) \<and>
    (case Repo_RecordSettlement env oid n db of (db', r) \<Rightarrow> (db_balance db', r)) = (RecordSettlement (db_balance db) n, None) \<and>
    (case Repo_Deposit env n db of (db', r) \<Rightarrow> (db_balance db', r)) = (Deposit (db_balance db) n, None) \<and>
    (if n \<le> db_balance db
     then (case Repo_RecordFill env oid n db of (db', r) \<Rightarrow> (db_balance db', r)) = (RecordFill (db_balance db) n, None)
     else fst (Repo_RecordFill env oid n db) = db \<and> snd (Repo_RecordFill env oid n db) \<noteq> None)"
proof -
  obtain b u where row: "pb_row db = Some (b, u)" "db_balance db = b" "0 \<le> b"
    using assms(1) by (rule ledger_inv_row)
  with assms(2-) have r: "in_int64 (b + n)" "in_int64 (b - n)" "in_int64 (- n)"
    by (auto simp: int64_bounds)
  then have [simp]: "wrap64 (b + n) = b + n" "wrap64 (b - n) = b - n" by simp_all
  note defs = repo_ops_defs ledger_tx_def update_balance_def insert_entry_def Let_def db_balance_def
    Hold_def ReleaseHold_def RecordSettlement_def Deposit_def RecordFill_def
  from row r assms(2,3) show ?thesis by (auto simp: defs)
qed

theorem repo_refines_rules_witness:
  "Hold (db_balance (ledger0 100)) 101 =
     (case Repo_HoldForOrder env0 3 101 (ledger0 100) of (db', r) \<Rightarrow> (db_balance db', r))"
  using repo_refines_rules [of "ledger0 100" env0 101 3] ledger0_ok [of 100]
  by (simp add: env0_def int64_max_def db_balance_def ledger0_def)

end
