(* ===== verification/Sizing.thy ===== *)
theory Sizing
  imports Float64
begin

text \<open>
  Kelly sizing, \<open>domain/sizing/kelly.go\<close>: the float64 computation of the number of contracts, its
  legacy mode, and the integer spend. The main result is that the correct mode never sizes an
  order above the bankroll, in spite of rounding.
\<close>

section \<open>Definitions\<close>

definition KellyContracts :: "int \<Rightarrow> int \<Rightarrow> int \<Rightarrow> float64 \<Rightarrow> bool \<Rightarrow> int" where
  "KellyContracts probBps priceCents bankrollCents fraction legacy =
     (if priceCents \<le> 0 \<or> bankrollCents \<le> 0 \<or> fle fraction (Fin 0) then 0
      else
        (let prob = fdiv (of_int64 probBps) (Fin 10000);
             price = fdiv (of_int64 priceCents) (Fin 100) in
         if fle (Fin 1) price then 0
         else
           (let edge = fdiv (fsub prob price) (fsub (Fin 1) price) in
            if fle edge (Fin 0) then 0
            else if legacy then
              (let bankrollDollars = fdiv (of_int64 bankrollCents) (Fin 100) in
               to_int64 (ffloor (fmul (fmul fraction edge) bankrollDollars)))
            else
              (let dollarsCents = fmul (fmul fraction edge) (of_int64 bankrollCents) in
               to_int64 (ffloor (fdiv dollarsCents (of_int64 priceCents)))))))"

definition SpendCents :: "int \<Rightarrow> int \<Rightarrow> int" where
  "SpendCents contracts priceCents =
     (if contracts \<le> 0 \<or> priceCents \<le> 0 then 0 else wrap64 (contracts * priceCents))"

section \<open>The computation in exact terms\<close>

text \<open>
  For arguments in their documented ranges every intermediate value is finite, so the result is
  the floor of a nest of rounded rationals.
\<close>

definition kelly_price :: "int \<Rightarrow> rat" where "kelly_price c = rnd (of_int c / 100)"
definition kelly_edge :: "int \<Rightarrow> int \<Rightarrow> rat" where
  "kelly_edge p c = rnd (rnd (rnd (of_int p / 10000) - kelly_price c) / rnd (1 - kelly_price c))"
definition kelly_amount :: "int \<Rightarrow> int \<Rightarrow> int \<Rightarrow> rat \<Rightarrow> rat" where
  "kelly_amount p c b f = rnd (rnd (f * kelly_edge p c) * of_int b)"

lemma rnd_le_of_int: "x \<le> of_int n \<Longrightarrow> \<bar>n\<bar> \<le> 2 ^ 53 \<Longrightarrow> rnd x \<le> of_int n"
  using rnd_mono [of x "of_int n"] rnd_of_int [of n] by simp

lemma rnd_le_1: "x \<le> 1 \<Longrightarrow> rnd x \<le> 1"
  using rnd_le_of_int [of x 1] by simp

lemma rnd_pos_ge: "2 powi (-60) \<le> x \<Longrightarrow> 2 powi (-60) \<le> rnd x"
  using rnd_mono [of "2 powi (-60)" x] rnd_powi [of "-60"] by simp

lemma price_bounds:
  assumes "0 < c" "c < 100"
  shows "0 < kelly_price c" "kelly_price c < 1" "2 powi (-8) \<le> 1 - kelly_price c"
proof -
  have lo: "1 / 100 \<le> (of_int c :: rat) / 100" and hi: "(of_int c :: rat) / 100 \<le> 99 / 100"
    using assms by (auto simp: divide_right_mono)
  have "(2 :: rat) powi (-7) \<le> of_int c / 100"
    using lo by (rule order_trans [rotated]) (simp add: power_int_def power_divide)
  then have "2 powi (-7) \<le> kelly_price c"
    unfolding kelly_price_def using rnd_mono rnd_powi [of "-7"] by fastforce
  then show "0 < kelly_price c" using two_powi_pos by (rule less_le_trans [rotated])
  have "(99 :: rat) / 100 \<le> of_int 255 * 2 powi (-8)" by (simp add: power_int_def power_divide)
  with hi have "of_int c / 100 \<le> of_int 255 * (2 :: rat) powi (-8)" by linarith
  then have "kelly_price c \<le> of_int 255 * 2 powi (-8)"
    unfolding kelly_price_def using rnd_mono rnd_exact [of 255 "-8"] by fastforce
  then have "kelly_price c \<le> 255 / 256" by (simp add: power_int_def power_divide)
  then show "kelly_price c < 1" "2 powi (-8) \<le> 1 - kelly_price c"
    by (simp_all add: power_int_def power_divide)
qed

lemma prob_le_1: "p \<le> 10000 \<Longrightarrow> rnd (of_int p / 10000) \<le> 1"
  by (intro rnd_le_1) simp

lemma edge_le_1:
  assumes "p \<le> 10000" "0 < c" "c < 100"
  shows "kelly_edge p c \<le> 1"
proof -
  have "rnd (rnd (of_int p / 10000) - kelly_price c) \<le> rnd (1 - kelly_price c)"
    using prob_le_1 [OF assms(1)] by (intro rnd_mono) simp
  moreover have "0 < rnd (1 - kelly_price c)"
    using rnd_mono [OF price_bounds(3) [OF assms(2,3)]] rnd_powi [of "-8"] two_powi_pos [of "-8"] by simp
  ultimately show ?thesis
    unfolding kelly_edge_def by (intro rnd_le_1) (simp add: divide_le_eq)
qed

lemma amount_le_bankroll:
  assumes "p \<le> 10000" "0 < c" "c < 100" "0 < b" "b \<le> 2 ^ 53" "0 < f" "f \<le> 1" "0 < kelly_edge p c"
  shows "0 \<le> kelly_amount p c b f" "kelly_amount p c b f \<le> of_int b"
proof -
  have "0 \<le> f * kelly_edge p c" using assms by simp
  then have nn: "0 \<le> rnd (f * kelly_edge p c)" by (rule rnd_nonneg)
  then show "0 \<le> kelly_amount p c b f"
    unfolding kelly_amount_def using assms by (intro rnd_nonneg) simp
  have "f * kelly_edge p c \<le> 1"
    using assms edge_le_1 [of p c] by (intro mult_le_one) auto
  then have "rnd (f * kelly_edge p c) \<le> 1" by (rule rnd_le_1)
  then have "rnd (f * kelly_edge p c) * of_int b \<le> of_int b"
    using assms nn by (intro mult_left_le_one_le) auto
  then show "kelly_amount p c b f \<le> of_int b"
    unfolding kelly_amount_def using assms by (intro rnd_le_of_int) auto
qed

text \<open>
  Rounding \<open>x / c\<close> cannot carry it to the next integer above \<open>b div c\<close>: the quotient is at least
  \<open>1 / c\<close> below that integer, and for bankrolls under \<open>2 ^ 45\<close> cents the number \<open>2 powi -8\<close> below it is
  representable.
\<close>

lemma floor_rnd_quotient:
  assumes "0 < c" "c < 100" "x \<le> of_int b" "0 \<le> b" "b < 2 ^ 45"
  shows "\<lfloor>rnd (x / of_int c)\<rfloor> * c \<le> b"
proof -
  define n where "n = b div c + 1"
  have n: "0 < n" "n \<le> 2 ^ 45"
    using assms zdiv_mono2 [of b 1 c] by (simp_all add: n_def pos_imp_zdiv_nonneg_iff add_nonneg_pos)
  have "b mod c < c" "c * (b div c) + b mod c = b" "n * c = c * (b div c) + c"
    using assms by (simp_all add: n_def algebra_simps)
  then have "b + 1 \<le> n * c" by linarith
  then have "(of_int (b + 1) :: rat) \<le> of_int (n * c)" by (simp only: of_int_le_iff)
  then have "x / of_int c \<le> of_int n - 1 / of_int c"
    using assms by (simp add: field_simps)
  moreover have "(1 :: rat) / 256 \<le> 1 / of_int c"
    using assms by (simp add: field_simps)
  moreover have v: "of_int (n * 256 - 1) * (2 :: rat) powi (-8) = of_int n - 1 / 256"
    by (simp add: power_int_def power_divide field_simps)
  ultimately have "x / of_int c \<le> of_int (n * 256 - 1) * 2 powi (-8)"
    unfolding v by linarith
  then have "rnd (x / of_int c) \<le> of_int (n * 256 - 1) * 2 powi (-8)"
    using rnd_mono rnd_exact [of "n * 256 - 1" "-8"] n by fastforce
  also have "\<dots> < of_int n" by (simp add: power_int_def power_divide field_simps)
  finally have "\<lfloor>rnd (x / of_int c)\<rfloor> < n" by (simp add: floor_less_iff)
  then have "\<lfloor>rnd (x / of_int c)\<rfloor> * c \<le> (b div c) * c"
    using assms by (intro mult_right_mono) (simp_all add: n_def)
  also have "\<dots> \<le> b" using assms by (metis div_mult_mod_eq le_add_same_cancel1 pos_mod_sign)
  finally show ?thesis .
qed

lemma abs_rnd_le: "\<bar>x\<bar> \<le> of_int n \<Longrightarrow> 0 \<le> n \<Longrightarrow> n \<le> 2 ^ 53 \<Longrightarrow> \<bar>rnd x\<bar> \<le> of_int n"
  using rnd_le_of_int [of x n] rnd_le_of_int [of "- x" n] by (auto simp: abs_le_iff)

lemma price_ge_1: "100 \<le> c \<Longrightarrow> c \<le> 2 ^ 53 \<Longrightarrow> fle (Fin 1) (fdiv (of_int64 c) (Fin 100))"
proof -
  assume c: "100 \<le> c" "c \<le> 2 ^ 53"
  then have "(1 :: rat) \<le> of_int c / 100" by simp
  then have "1 \<le> rnd (of_int c / 100)" using rnd_mono by fastforce
  moreover have "(of_int c :: rat) \<le> of_int (2 ^ 53)" using c by (simp only: of_int_le_iff)
  then have "\<bar>of_int c / 100 :: rat\<bar> \<le> 2 ^ 64" using c by simp
  ultimately show ?thesis using c by (simp add: of_int64_exact fround_small)
qed

lemma kelly_edge_exact:
  assumes p: "0 \<le> p" "p \<le> 10000" and c: "0 < c" "c < 100"
  shows "fdiv (of_int64 c) (Fin 100) = Fin (kelly_price c)"
    "fdiv (fsub (fdiv (of_int64 p) (Fin 10000)) (Fin (kelly_price c))) (fsub (Fin 1) (Fin (kelly_price c)))
       = Fin (kelly_edge p c)"
proof -
  have "\<bar>of_int p / 10000 :: rat\<bar> \<le> 1" using p by simp
  then have pr: "fdiv (of_int64 p) (Fin 10000) = Fin (rnd (of_int p / 10000))"
    using p by (simp add: of_int64_exact fround_small)
  have "\<bar>of_int c / 100 :: rat\<bar> \<le> 1" using c by simp
  then show "fdiv (of_int64 c) (Fin 100) = Fin (kelly_price c)"
    using c by (simp add: of_int64_exact fround_small kelly_price_def)
  note pb = price_bounds [OF c]
  let ?num = "rnd (of_int p / 10000) - kelly_price c"
  have prob: "0 \<le> rnd (of_int p / 10000)" "rnd (of_int p / 10000) \<le> 1"
    using p by (simp_all add: rnd_nonneg prob_le_1)
  then have num: "\<bar>?num\<bar> \<le> 1" using pb by auto
  then have n1: "fsub (Fin (rnd (of_int p / 10000))) (Fin (kelly_price c)) = Fin (rnd ?num)"
    by (simp add: fsub_def fround_small)
  have d1: "fsub (Fin 1) (Fin (kelly_price c)) = Fin (rnd (1 - kelly_price c))"
    using pb by (simp add: fsub_def fround_small)
  have den: "2 powi (-8) \<le> rnd (1 - kelly_price c)"
    using rnd_mono [OF pb(3)] rnd_powi [of "-8"] by simp
  have q: "\<bar>rnd ?num / rnd (1 - kelly_price c)\<bar> \<le> 2 ^ 64"
  proof -
    have "\<bar>rnd ?num\<bar> \<le> 1" using abs_rnd_le [of ?num 1] num by simp
    then have "\<bar>rnd ?num / rnd (1 - kelly_price c)\<bar> \<le> 1 / 2 powi (-8)"
      unfolding abs_divide using den by (intro frac_le) auto
    then show ?thesis by (simp add: power_int_def power_divide)
  qed
  have e1: "fdiv (Fin (rnd ?num)) (Fin (rnd (1 - kelly_price c))) = Fin (kelly_edge p c)"
    using den two_powi_pos [of "-8"] q by (auto simp: kelly_edge_def fround_small)
  show "fdiv (fsub (fdiv (of_int64 p) (Fin 10000)) (Fin (kelly_price c))) (fsub (Fin 1) (Fin (kelly_price c)))
       = Fin (kelly_edge p c)"
    by (simp only: pr n1 d1 e1)
qed

lemma kelly_exact:
  assumes p: "0 \<le> p" "p \<le> 10000" and c: "0 < c" "c < 100" and b: "0 < b" "b < 2 ^ 45"
    and f: "fraction = Fin f" "0 < f" "f \<le> 1"
  shows "KellyContracts p c b fraction False =
    (if kelly_edge p c \<le> 0 then 0 else \<lfloor>rnd (kelly_amount p c b f / of_int c)\<rfloor>)"
proof -
  note pb = price_bounds [OF c] and edge = kelly_edge_exact [OF p c]
  show ?thesis
  proof (cases "kelly_edge p c \<le> 0")
    case True
    with edge pb c b f show ?thesis by (simp add: KellyContracts_def Let_def)
  next
    case False
    then have e: "0 < kelly_edge p c" by simp
    have "\<bar>f * kelly_edge p c\<bar> \<le> 1"
      using e f edge_le_1 [OF p(2) c] by (simp add: mult_le_one)
    then have m1: "fmul (Fin f) (Fin (kelly_edge p c)) = Fin (rnd (f * kelly_edge p c))"
      by (simp add: fround_small)
    have b53: "b \<le> 2 ^ 53" using b by simp
    note am = amount_le_bankroll [OF p(2) c b(1) b53 f(2,3) e]
    have bb: "(of_int b :: rat) \<le> of_int (2 ^ 45)" using b by (simp only: of_int_le_iff)
    have "\<bar>rnd (f * kelly_edge p c) * of_int b\<bar> \<le> of_int b"
    proof -
      have "\<bar>rnd (f * kelly_edge p c)\<bar> \<le> 1"
        using abs_rnd_le [of "f * kelly_edge p c" 1] \<open>\<bar>f * kelly_edge p c\<bar> \<le> 1\<close> by simp
      then show ?thesis using b by (simp add: abs_mult mult_left_le_one_le)
    qed
    then have m2: "fmul (Fin (rnd (f * kelly_edge p c))) (of_int64 b) = Fin (kelly_amount p c b f)"
      using b bb by (simp add: of_int64_exact fround_small kelly_amount_def)
    have ac: "\<bar>kelly_amount p c b f / of_int c\<bar> \<le> of_int b"
    proof -
      have "kelly_amount p c b f / of_int c \<le> kelly_amount p c b f / 1"
        using am c by (intro divide_left_mono) auto
      then show ?thesis using am c by simp
    qed
    then have m3: "fdiv (Fin (kelly_amount p c b f)) (of_int64 c) = Fin (rnd (kelly_amount p c b f / of_int c))"
      using c bb by (simp add: of_int64_exact fround_small)
    let ?r = "rnd (kelly_amount p c b f / of_int c)"
    have "0 \<le> ?r" "?r \<le> of_int b"
      using abs_rnd_le [OF ac] b am c by (auto intro: rnd_nonneg)
    moreover define m where "m = \<lfloor>?r\<rfloor>"
    ultimately have "0 \<le> m" "m \<le> b" by (simp_all add: floor_le_iff)
    then have "to_int64 (Fin (of_int m)) = m"
      using b by (simp add: trunc_rat_def int64_bounds)
    with False edge m1 m2 m3 pb c b f show ?thesis
      by (simp add: KellyContracts_def Let_def m_def)
  qed
qed

section \<open>Properties\<close>

lemma edge_nonpos:
  assumes "p \<le> 100 * c" "0 < c" "c < 100"
  shows "kelly_edge p c \<le> 0"
proof -
  have "(of_int p :: rat) \<le> of_int (100 * c)" using assms by (simp only: of_int_le_iff)
  then have "of_int p / 10000 \<le> (of_int c / 100 :: rat)" by simp
  then have "rnd (of_int p / 10000) \<le> kelly_price c" unfolding kelly_price_def by (rule rnd_mono)
  then have "rnd (rnd (of_int p / 10000) - kelly_price c) \<le> 0"
    using rnd_mono [of "rnd (of_int p / 10000) - kelly_price c" 0] by simp
  moreover have "0 \<le> rnd (1 - kelly_price c)"
    using price_bounds [OF assms(2,3)] by (intro rnd_nonneg) simp
  ultimately show ?thesis
    unfolding kelly_edge_def
    using rnd_mono [of "rnd (rnd (of_int p / 10000) - kelly_price c) / rnd (1 - kelly_price c)" 0]
    by (simp add: divide_nonpos_nonneg)
qed

text \<open>Outside the price range, or without a bankroll, nothing is sized.\<close>

lemma KellyContracts_degenerate:
  assumes "c \<le> 0 \<or> b \<le> 0 \<or> 100 \<le> c" "c \<le> 2 ^ 53"
  shows "KellyContracts p c b fraction legacy = 0"
  using price_ge_1 [of c] assms by (auto simp: KellyContracts_def)

lemma kelly_affordable:
  assumes "0 \<le> p" "p \<le> 10000" "0 < c" "c \<le> 2 ^ 53" "b < 2 ^ 45" "0 < f" "f \<le> 1"
  shows "0 \<le> KellyContracts p c b (Fin f) False"
    "KellyContracts p c b (Fin f) False * c \<le> max 0 b"
proof -
  let ?k = "KellyContracts p c b (Fin f) False"
  have "0 \<le> ?k \<and> ?k * c \<le> max 0 b"
  proof (cases "b \<le> 0 \<or> 100 \<le> c")
    case True
    then have "?k = 0" using assms by (intro KellyContracts_degenerate) auto
    then show ?thesis by simp
  next
    case False
    then have r: "c < 100" "0 < b" by auto
    have k: "?k = (if kelly_edge p c \<le> 0 then 0 else \<lfloor>rnd (kelly_amount p c b f / of_int c)\<rfloor>)"
      using assms r by (intro kelly_exact) simp_all
    show ?thesis
    proof (cases "kelly_edge p c \<le> 0")
      case edge: False
      have am: "0 \<le> kelly_amount p c b f" "kelly_amount p c b f \<le> of_int b"
        using assms r edge by (auto intro!: amount_le_bankroll)
      then have "0 \<le> rnd (kelly_amount p c b f / of_int c)"
        using assms by (intro rnd_nonneg) simp
      with floor_rnd_quotient [OF assms(3) r(1) am(2)] assms r edge show ?thesis by (simp add: k)
    qed (simp add: k)
  qed
  then show "0 \<le> ?k" "?k * c \<le> max 0 b" by auto
qed

text \<open>
  C6. The correct sizing mode is affordable: for a probability of 0..10000 basis points, a positive
  price, a Kelly fraction in (0, 1] and a bankroll under \<open>2 ^ 45\<close> cents, the computed
  number of contracts is non-negative and its cost, as \<open>SpendCents\<close> computes it in 64 bits, is
  exactly contracts times price and at most the bankroll, whatever the floating-point rounding.
\<close>
theorem KellyContracts_affordable:
  assumes "0 \<le> probBps" "probBps \<le> 10000" "0 < priceCents" "priceCents \<le> 2 ^ 53"
    and "bankrollCents < 2 ^ 45" "0 < f" "f \<le> 1"
  shows "0 \<le> KellyContracts probBps priceCents bankrollCents (Fin f) False \<and>
    SpendCents (KellyContracts probBps priceCents bankrollCents (Fin f) False) priceCents
      = KellyContracts probBps priceCents bankrollCents (Fin f) False * priceCents \<and>
    SpendCents (KellyContracts probBps priceCents bankrollCents (Fin f) False) priceCents \<le> max 0 bankrollCents"
proof -
  let ?k = "KellyContracts probBps priceCents bankrollCents (Fin f) False"
  note k = kelly_affordable [OF assms]
  have "0 \<le> ?k * priceCents" using k assms by simp
  with k(2) assms(5) have "in_int64 (?k * priceCents)"
    unfolding int64_bounds by (simp add: max_def split: if_splits)
  with k show ?thesis using assms by (auto simp: SpendCents_def)
qed

theorem KellyContracts_affordable_witness:
  "SpendCents (KellyContracts 6000 50 10000 (Fin (1 / 4)) False) 50 \<le> 10000"
  using KellyContracts_affordable [of 6000 50 10000 "1 / 4"] by simp

text \<open>
  No edge, no trade: when the model probability does not exceed the price, both the correct and
  the legacy mode size zero contracts, for every fraction.
\<close>
theorem KellyContracts_no_edge:
  assumes "0 \<le> probBps" "probBps \<le> 100 * priceCents" "probBps \<le> 10000" "priceCents \<le> 2 ^ 53"
  shows "KellyContracts probBps priceCents bankrollCents fraction legacy = 0"
proof (cases "priceCents \<le> 0 \<or> 100 \<le> priceCents")
  case True
  then show ?thesis using assms by (intro KellyContracts_degenerate) auto
next
  case False
  then have c: "0 < priceCents" "priceCents < 100" by auto
  note e = kelly_edge_exact [OF assms(1,3) c]
  show ?thesis using e edge_nonpos [OF assms(2) c] by (simp add: KellyContracts_def Let_def)
qed

theorem KellyContracts_no_edge_witness: "KellyContracts 4000 40 1000000 (Fin 1) True = 0"
  by (rule KellyContracts_no_edge) simp_all

end
