(* ===== verification/OrderStore.thy ===== *)
theory OrderStore
  imports LedgerRepo
begin

text \<open>
  The order state machine (\<open>app/orders/state_machine.go\<close>), the order types of \<open>ports/exchange.go\<close>
  and the order repository (\<open>adapters/postgres/order_repo.go\<close>) over the table \<open>orders_v2\<close> of
  migration \<open>0002_orders.up.sql\<close>.
\<close>

section \<open>Statuses and transitions\<close>

definition StatusIntent :: string where [simp]: "StatusIntent = ''intent''"
definition StatusGated :: string where [simp]: "StatusGated = ''gated''"
definition StatusAccepted :: string where [simp]: "StatusAccepted = ''accepted''"
definition StatusHeld :: string where [simp]: "StatusHeld = ''held''"
definition StatusSubmitted :: string where [simp]: "StatusSubmitted = ''submitted''"
definition StatusFilled :: string where [simp]: "StatusFilled = ''filled''"
definition StatusPartial :: string where [simp]: "StatusPartial = ''partial''"
definition StatusCanceled :: string where [simp]: "StatusCanceled = ''canceled''"
definition StatusFailed :: string where [simp]: "StatusFailed = ''failed''"
definition StatusUnverified :: string where [simp]: "StatusUnverified = ''unverified''"
definition StatusSettled :: string where [simp]: "StatusSettled = ''settled''"

definition legalTransitions :: "(string \<times> string list) list" where
  "legalTransitions =
     [(StatusIntent, [StatusGated, StatusAccepted]),
      (StatusGated, []),
      (StatusAccepted, [StatusHeld, StatusFilled, StatusGated]),
      (StatusHeld, [StatusSubmitted, StatusFailed]),
      (StatusSubmitted, [StatusFilled, StatusPartial, StatusCanceled, StatusUnverified, StatusFailed]),
      (StatusPartial, [StatusFilled, StatusCanceled, StatusSettled]),
      (StatusUnverified, [StatusFilled, StatusPartial, StatusCanceled]),
      (StatusFilled, [StatusSettled]),
      (StatusCanceled, []),
      (StatusFailed, []),
      (StatusSettled, [])]"

definition IsLegalTransition :: "string \<Rightarrow> string \<Rightarrow> bool" where
  "IsLegalTransition from to =
     (case map_of legalTransitions from of
        None \<Rightarrow> False
      | Some targets \<Rightarrow> to \<in> set targets)"

definition AllStatuses :: "string list" where
  "AllStatuses =
     [StatusIntent, StatusGated, StatusAccepted, StatusHeld,
      StatusSubmitted, StatusFilled, StatusPartial, StatusCanceled,
      StatusFailed, StatusUnverified, StatusSettled]"

text \<open>Every transition climbs this ranking, so no order can change status for ever.\<close>

definition status_rank :: "string \<Rightarrow> nat" where
  "status_rank s =
     (case map_of
       [(StatusIntent, 0), (StatusAccepted, 1), (StatusHeld, 2), (StatusSubmitted, 3),
        (StatusUnverified, 4), (StatusPartial, 5), (StatusFilled, 6),
        (StatusGated, 7), (StatusCanceled, 7), (StatusFailed, 7), (StatusSettled, 7)] s of None \<Rightarrow> 0 | Some n \<Rightarrow> n)"

lemma legal_rank: "IsLegalTransition s t \<Longrightarrow> status_rank s < status_rank t"
  by (auto simp: IsLegalTransition_def legalTransitions_def status_rank_def split: if_splits)

lemma status_rank_le: "status_rank s \<le> 7"
  by (simp add: status_rank_def)

lemma legal_target: "IsLegalTransition s t \<Longrightarrow> t \<in> set AllStatuses"
  by (auto simp: IsLegalTransition_def legalTransitions_def AllStatuses_def split: if_splits)

section \<open>Records of the port\<close>

record OrderRecord =
  od_ID :: int
  od_ClientOrderID :: string
  od_TSIntent :: int
  od_TSSubmitted :: "int option"
  od_TSAcked :: "int option"
  od_EventTicker :: string
  od_MarketTicker :: string
  od_Strategy :: string
  od_Action :: string
  od_Contracts :: int
  od_PriceCents :: int
  od_ConvProbBps :: int
  od_Reason :: string
  od_Status :: string
  od_GateReason :: string
  od_IsPaper :: bool
  od_KalshiOrderID :: string
  od_FillCount :: int
  od_FillPriceCents :: int

record orderRow = OrderRecord +
  ow_CreatedTS :: int
  ow_UpdatedTS :: int

record UpdateOpts =
  uo_GateReason :: string
  uo_KalshiOrderID :: string
  uo_FillCount :: int
  uo_FillPriceCents :: int
  uo_TSSubmitted :: "int option"
  uo_TSAcked :: "int option"

text \<open>\<open>ports.UpdateOpts{}\<close>\<close>

definition no_opts :: UpdateOpts where
  "no_opts = \<lparr>uo_GateReason = [], uo_KalshiOrderID = [], uo_FillCount = 0, uo_FillPriceCents = 0,
     uo_TSSubmitted = None, uo_TSAcked = None\<rparr>"

datatype order_error =
  ErrOrderDB string
  | ErrRecordNotFound
  | ErrIllegalTransition string string

record orders_db =
  or_rows :: "orderRow list"
  or_next :: int

text \<open>The five \<open>int\<close> columns hold 32-bit values.\<close>

definition in_int32 :: "int \<Rightarrow> bool" where
  "in_int32 x \<longleftrightarrow> - (2 ^ 31) \<le> x \<and> x < 2 ^ 31"

definition row_fits :: "orderRow \<Rightarrow> bool" where
  "row_fits r \<longleftrightarrow>
     in_int32 (od_Contracts r) \<and> in_int32 (od_PriceCents r) \<and> in_int32 (od_ConvProbBps r) \<and>
     in_int32 (od_FillCount r) \<and> in_int32 (od_FillPriceCents r) \<and> od_Status r \<in> set AllStatuses"

section \<open>Repository operations\<close>

definition rowToOrderRecord :: "orderRow \<Rightarrow> OrderRecord" where
  "rowToOrderRecord row = OrderRecord.truncate row"

definition Orders_Insert :: "tx_env \<Rightarrow> OrderRecord \<Rightarrow> orders_db \<Rightarrow> orders_db \<times> (order_error + int)" where
  "Orders_Insert env rec db =
     (let now = tx_now1 env;
          n = or_next db + int (tx_gap env);
          row = OrderRecord.extend (rec\<lparr>od_ID := n\<rparr>) (orderRow.fields now now) in
      if tx_fault env \<noteq> NoFault \<or> \<not> row_fits row then (db, Inl (ErrOrderDB ''insert order''))
      else (\<lparr>or_rows = or_rows db @ [row], or_next = n + 1\<rparr>, Inr n))"

text \<open>The columns an update writes.\<close>

definition apply_opts :: "string \<Rightarrow> int \<Rightarrow> UpdateOpts \<Rightarrow> orderRow \<Rightarrow> orderRow" where
  "apply_opts status now opts r =
     (let r = r\<lparr>od_Status := status, ow_UpdatedTS := now\<rparr>;
          r = (if uo_GateReason opts \<noteq> [] then r\<lparr>od_GateReason := uo_GateReason opts\<rparr> else r);
          r = (if uo_KalshiOrderID opts \<noteq> [] then r\<lparr>od_KalshiOrderID := uo_KalshiOrderID opts\<rparr> else r);
          r = (if uo_FillCount opts > 0 then r\<lparr>od_FillCount := uo_FillCount opts\<rparr> else r);
          r = (if uo_FillPriceCents opts > 0 then r\<lparr>od_FillPriceCents := uo_FillPriceCents opts\<rparr> else r);
          r = (if uo_TSSubmitted opts \<noteq> None then r\<lparr>od_TSSubmitted := uo_TSSubmitted opts\<rparr> else r);
          r = (if uo_TSAcked opts \<noteq> None then r\<lparr>od_TSAcked := uo_TSAcked opts\<rparr> else r)
      in r)"

text \<open>\<open>First\<close> orders by primary key and takes one row.\<close>

definition first_row :: "(orderRow \<Rightarrow> bool) \<Rightarrow> orders_db \<Rightarrow> orderRow option" where
  "first_row P db =
     (case sort_key od_ID (filter P (or_rows db)) of [] \<Rightarrow> None | r # _ \<Rightarrow> Some r)"

definition Orders_UpdateStatus ::
  "tx_env \<Rightarrow> int \<Rightarrow> string \<Rightarrow> UpdateOpts \<Rightarrow> orders_db \<Rightarrow> orders_db \<times> order_error option" where
  "Orders_UpdateStatus env i status opts db =
     (if tx_fault env = FaultFirst then (db, Some (ErrOrderDB ''get order''))
      else
        (case first_row (\<lambda>r. od_ID r = i) db of
           None \<Rightarrow> (db, Some ErrRecordNotFound)
         | Some row \<Rightarrow>
             (if \<not> IsLegalTransition (od_Status row) status
              then (db, Some (ErrIllegalTransition (od_Status row) status))
              else
                (let rows' = map (\<lambda>r. if od_ID r = i then apply_opts status (tx_now1 env) opts r else r)
                               (or_rows db) in
                 if tx_fault env \<noteq> NoFault \<or> \<not> list_all row_fits (filter (\<lambda>r. od_ID r = i) rows')
                 then (db, Some (ErrOrderDB ''update order''))
                 else (db\<lparr>or_rows := rows'\<rparr>, None)))))"

definition Orders_GetByID :: "db_fault \<Rightarrow> int \<Rightarrow> orders_db \<Rightarrow> order_error + OrderRecord" where
  "Orders_GetByID fault i db =
     (if fault \<noteq> NoFault then Inl (ErrOrderDB ''get order'')
      else
        (case first_row (\<lambda>r. od_ID r = i) db of
           None \<Rightarrow> Inl ErrRecordNotFound
         | Some row \<Rightarrow> Inr (rowToOrderRecord row)))"

definition Orders_GetByClientOrderID :: "db_fault \<Rightarrow> string \<Rightarrow> orders_db \<Rightarrow> order_error + OrderRecord" where
  "Orders_GetByClientOrderID fault coid db =
     (if fault \<noteq> NoFault then Inl (ErrOrderDB ''get order by coid'')
      else
        (case first_row (\<lambda>r. od_ClientOrderID r = coid) db of
           None \<Rightarrow> Inl ErrRecordNotFound
         | Some row \<Rightarrow> Inr (rowToOrderRecord row)))"

text \<open>Times are nanoseconds since the epoch; \<open>UnixMilli\<close> rounds down.\<close>

definition UnixMilli :: "int \<Rightarrow> int" where "UnixMilli t = t div 1000000"

definition Orders_GetStaleOrders ::
  "db_fault \<Rightarrow> int \<Rightarrow> string list \<Rightarrow> int \<Rightarrow> orders_db \<Rightarrow> order_error + OrderRecord list" where
  "Orders_GetStaleOrders fault now statuses olderThan db =
     (if fault \<noteq> NoFault then Inl (ErrOrderDB ''get stale orders'')
      else
        (let cutoff = UnixMilli (now - olderThan) in
         Inr (map rowToOrderRecord
           (take 100 (sort_key od_TSIntent
              (filter (\<lambda>r. od_Status r \<in> set statuses \<and> od_TSIntent r < cutoff) (or_rows db)))))))"

section \<open>The table as a map from identifiers\<close>

definition orders_inv :: "orders_db \<Rightarrow> bool" where
  "orders_inv db \<longleftrightarrow>
     distinct (map od_ID (or_rows db)) \<and> list_all (\<lambda>r. od_ID r < or_next db) (or_rows db) \<and>
     list_all row_fits (or_rows db)"

definition order_of :: "orders_db \<Rightarrow> int \<Rightarrow> orderRow option" where
  "order_of db i = map_of (map (\<lambda>r. (od_ID r, r)) (or_rows db)) i"

lemma apply_opts_od_ID [simp]: "od_ID (apply_opts s now opts r) = od_ID r"
  by (simp add: apply_opts_def Let_def)

lemma apply_opts_status [simp]: "od_Status (apply_opts s now opts r) = s"
  by (simp add: apply_opts_def Let_def)

lemma order_of_Some: "distinct (map od_ID (or_rows db)) \<Longrightarrow>
  order_of db i = Some r \<longleftrightarrow> r \<in> set (or_rows db) \<and> od_ID r = i"
  unfolding order_of_def by (subst map_of_eq_Some_iff) (auto simp: comp_def)

lemma order_of_None: "order_of db i = None \<longleftrightarrow> i \<notin> od_ID ` set (or_rows db)"
  by (simp add: order_of_def map_of_eq_None_iff image_image)

lemma distinct_filter_id:
  "distinct (map f xs) \<Longrightarrow> r \<in> set xs \<Longrightarrow> filter (\<lambda>x. f x = f r) xs = [r]"
proof (induction xs)
  case (Cons x xs)
  then show ?case
    by (cases "x = r") (auto simp: filter_empty_conv image_iff)
qed simp

lemma first_row_order_of:
  assumes "distinct (map od_ID (or_rows db))"
  shows "first_row (\<lambda>r. od_ID r = i) db = order_of db i"
proof (cases "order_of db i")
  case None
  then have "filter (\<lambda>r. od_ID r = i) (or_rows db) = []"
    by (auto simp: order_of_None filter_empty_conv)
  with None show ?thesis by (simp add: first_row_def)
next
  case (Some r)
  with assms have "filter (\<lambda>x. od_ID x = i) (or_rows db) = [r]"
    using distinct_filter_id [OF assms, of r] by (auto simp: order_of_Some)
  with Some show ?thesis by (simp add: first_row_def)
qed

lemma order_of_map:
  "order_of (db\<lparr>or_rows := map (\<lambda>r. if od_ID r = i then apply_opts s now opts r else r) (or_rows db)\<rparr>) j =
     (if j = i then map_option (apply_opts s now opts) (order_of db i) else order_of db j)"
proof -
  have "map_of (map (\<lambda>r. (od_ID r, r)) (map (\<lambda>r. if od_ID r = i then apply_opts s now opts r else r) rs)) j =
      (if j = i then map_option (apply_opts s now opts) (map_of (map (\<lambda>r. (od_ID r, r)) rs) i)
       else map_of (map (\<lambda>r. (od_ID r, r)) rs) j)" for rs
    by (induction rs) auto
  then show ?thesis by (simp add: order_of_def)
qed

text \<open>The result of an update in terms of the map view.\<close>

lemma UpdateStatus_ok:
  assumes "orders_inv db" "Orders_UpdateStatus env i status opts db = (db', None)"
  obtains row where "order_of db i = Some row" "IsLegalTransition (od_Status row) status"
    "order_of db' = (order_of db)(i \<mapsto> apply_opts status (tx_now1 env) opts row)"
    "or_next db' = or_next db" "orders_inv db'"
proof -
  let ?f = "\<lambda>r. if od_ID r = i then apply_opts status (tx_now1 env) opts r else r"
  have d: "distinct (map od_ID (or_rows db))" using assms(1) by (simp add: orders_inv_def)
  note fr = first_row_order_of [OF d, of i]
  from assms(2) obtain row where row: "order_of db i = Some row" "IsLegalTransition (od_Status row) status"
    and fits: "list_all row_fits (filter (\<lambda>r. od_ID r = i) (map ?f (or_rows db)))"
    and db': "db' = db\<lparr>or_rows := map ?f (or_rows db)\<rparr>"
    by (auto simp: Orders_UpdateStatus_def fr Let_def split: if_splits option.splits)
  have ids: "map od_ID (map ?f rs) = map od_ID rs" for rs by (induction rs) auto
  have "list_all row_fits (map ?f (or_rows db))"
    using fits assms(1) by (auto simp: list_all_iff orders_inv_def)
  moreover have "list_all (\<lambda>r. od_ID r < or_next db) (map ?f (or_rows db))"
    using assms(1) by (auto simp: list_all_iff orders_inv_def)
  ultimately have "orders_inv db'"
    using assms(1) ids [of "or_rows db"] by (simp add: orders_inv_def db' del: map_map)
  moreover have "order_of db' = (order_of db)(i \<mapsto> apply_opts status (tx_now1 env) opts row)"
    using row by (auto simp: db' order_of_map fun_eq_iff)
  ultimately show ?thesis using that row by (simp add: db')
qed

lemma UpdateStatus_err: "Orders_UpdateStatus env i status opts db = (db', Some err) \<Longrightarrow> db' = db"
  by (auto simp: Orders_UpdateStatus_def Let_def split: if_splits option.splits)

lemma UpdateStatus_inv: "orders_inv db \<Longrightarrow> orders_inv (fst (Orders_UpdateStatus env i status opts db))"
proof (cases "Orders_UpdateStatus env i status opts db")
  case (Pair db' r)
  assume "orders_inv db"
  with Pair show ?thesis
    by (cases r) (auto dest: UpdateStatus_err elim: UpdateStatus_ok)
qed

text \<open>An update that meets no database failure succeeds when the row is there, the transition is
  legal and the fill values fit their columns.\<close>

definition opts_fit :: "UpdateOpts \<Rightarrow> bool" where
  "opts_fit opts \<longleftrightarrow> uo_FillCount opts < 2 ^ 31 \<and> uo_FillPriceCents opts < 2 ^ 31"

lemma apply_opts_fits:
  "row_fits r \<Longrightarrow> opts_fit opts \<Longrightarrow> s \<in> set AllStatuses \<Longrightarrow> row_fits (apply_opts s now opts r)"
  by (auto simp: row_fits_def apply_opts_def opts_fit_def in_int32_def Let_def)

lemma UpdateStatus_succeeds:
  assumes inv: "orders_inv db" and row: "order_of db i = Some row"
    and legal: "IsLegalTransition (od_Status row) status" and env: "tx_fault env = NoFault"
    and fit: "opts_fit opts"
  shows "snd (Orders_UpdateStatus env i status opts db) = None"
proof -
  have d: "distinct (map od_ID (or_rows db))" using inv by (simp add: orders_inv_def)
  have "row_fits (apply_opts status (tx_now1 env) opts r)" if "r \<in> set (or_rows db)" for r
    using inv that fit legal_target [OF legal] by (auto simp: orders_inv_def list_all_iff intro!: apply_opts_fits)
  then show ?thesis
    using row legal env by (auto simp: Orders_UpdateStatus_def first_row_order_of [OF d] Let_def list_all_iff)
qed

lemma Insert_ok:
  assumes "orders_inv db" "Orders_Insert env rec db = (db', Inr n)"
  shows "orders_inv db'" "order_of db n = None" "or_next db \<le> n"
    "order_of db' = (order_of db)(n \<mapsto> OrderRecord.extend (rec\<lparr>od_ID := n\<rparr>) (orderRow.fields (tx_now1 env) (tx_now1 env)))"
proof -
  let ?row = "OrderRecord.extend (rec\<lparr>od_ID := n\<rparr>) (orderRow.fields (tx_now1 env) (tx_now1 env)) :: orderRow"
  have n: "n = or_next db + int (tx_gap env)" and fits: "row_fits ?row"
    and db': "db' = \<lparr>or_rows = or_rows db @ [?row], or_next = n + 1\<rparr>"
    using assms(2) by (auto simp: Orders_Insert_def Let_def split: if_splits)
  have [simp]: "od_ID ?row = n" by (simp add: OrderRecord.defs)
  show fresh: "order_of db n = None"
    using assms(1) by (auto simp: order_of_None orders_inv_def list_all_iff n)
  have "list_all (\<lambda>r. od_ID r < n + 1) (or_rows db)"
    using assms(1) list_all_less_add [of od_ID "or_next db" "or_rows db" "int (tx_gap env) + 1"]
    by (simp add: orders_inv_def n add.assoc)
  with assms(1) fits fresh show "orders_inv db'"
    by (simp add: orders_inv_def db' order_of_None)
  show "or_next db \<le> n" by (simp add: n)
  show "order_of db' = (order_of db)(n \<mapsto> ?row)"
    using fresh by (auto simp: fun_eq_iff order_of_def db' map_add_def split: option.splits)
qed

lemma Insert_err: "Orders_Insert env rec db = (db', Inl err) \<Longrightarrow> db' = db"
  by (auto simp: Orders_Insert_def Let_def split: if_splits)

lemma Insert_inv: "orders_inv db \<Longrightarrow> orders_inv (fst (Orders_Insert env rec db))"
proof (cases "Orders_Insert env rec db")
  case (Pair db' r)
  assume "orders_inv db"
  with Pair show ?thesis by (cases r) (auto dest: Insert_err intro: Insert_ok)
qed

section \<open>Histories\<close>

text \<open>Any client: inserts and updates with any arguments, in any order, under any failures.\<close>

inductive orders_step :: "orders_db \<Rightarrow> orders_db \<Rightarrow> bool" where
  insert_step: "orders_step db (fst (Orders_Insert env rec db))"
| update_step: "orders_step db (fst (Orders_UpdateStatus env i status opts db))"

inductive_cases orders_stepE: "orders_step db db'"

text \<open>The statuses marked terminal in the transition map.\<close>

definition terminal_status :: "string \<Rightarrow> bool" where
  "terminal_status s \<longleftrightarrow> s \<in> {StatusGated, StatusCanceled, StatusFailed, StatusSettled}"

definition empty_orders :: orders_db where "empty_orders = \<lparr>or_rows = [], or_next = 1\<rparr>"

text \<open>What an update may never change.\<close>

definition order_identity :: "orderRow \<Rightarrow> int \<times> string \<times> int \<times> string \<times> string \<times> string \<times> string \<times> int \<times> int \<times> int \<times> string \<times> bool" where
  "order_identity r = (od_ID r, od_ClientOrderID r, od_TSIntent r, od_EventTicker r, od_MarketTicker r,
     od_Strategy r, od_Action r, od_Contracts r, od_PriceCents r, od_ConvProbBps r, od_Reason r, od_IsPaper r)"

lemma apply_opts_identity [simp]: "order_identity (apply_opts s now opts r) = order_identity r"
  by (simp add: order_identity_def apply_opts_def Let_def)

lemma orders_step_inv: "orders_step db db' \<Longrightarrow> orders_inv db \<Longrightarrow> orders_inv db'"
  by (auto elim!: orders_stepE simp: Insert_inv UpdateStatus_inv)

lemma orders_step_row:
  assumes "orders_step db db'" "orders_inv db" "order_of db i = Some r"
  shows "\<exists>r'. order_of db' i = Some r' \<and> order_identity r' = order_identity r \<and>
    (od_Status r' = od_Status r \<or> IsLegalTransition (od_Status r) (od_Status r'))"
  using assms(1)
proof (cases rule: orders_step.cases)
  case (insert_step env rec)
  show ?thesis
  proof (cases "Orders_Insert env rec db")
    case (Pair db1 res)
    show ?thesis
    proof (cases res)
      case (Inl err)
      with Pair assms insert_step show ?thesis by (auto dest: Insert_err)
    next
      case (Inr n)
      with Pair have "Orders_Insert env rec db = (db1, Inr n)" by simp
      from Insert_ok [OF assms(2) this] assms(3) Pair insert_step show ?thesis by auto
    qed
  qed
next
  case (update_step env j status opts)
  show ?thesis
  proof (cases "Orders_UpdateStatus env j status opts db")
    case (Pair db1 res)
    show ?thesis
    proof (cases res)
      case None
      with Pair have "Orders_UpdateStatus env j status opts db = (db1, None)" by simp
      from UpdateStatus_ok [OF assms(2) this] obtain row where "order_of db j = Some row"
        "IsLegalTransition (od_Status row) status"
        "order_of db1 = (order_of db)(j \<mapsto> apply_opts status (tx_now1 env) opts row)" by metis
      with assms(3) Pair update_step show ?thesis by auto
    next
      case (Some err)
      with Pair assms update_step show ?thesis by (auto dest: UpdateStatus_err)
    qed
  qed
qed

lemma orders_steps:
  assumes "orders_step\<^sup>*\<^sup>* db db'" "orders_inv db" "order_of db i = Some r"
  shows "orders_inv db' \<and> (\<exists>r'. order_of db' i = Some r' \<and> order_identity r' = order_identity r \<and>
    IsLegalTransition\<^sup>*\<^sup>* (od_Status r) (od_Status r'))"
  using assms
proof (induction rule: rtranclp_induct)
  case (step db1 db2)
  then obtain r1 where r1: "order_of db1 i = Some r1" "order_identity r1 = order_identity r"
    "IsLegalTransition\<^sup>*\<^sup>* (od_Status r) (od_Status r1)" "orders_inv db1" by auto
  from orders_step_row [OF step.hyps(2) r1(4,1)] obtain r2 where
    r2: "order_of db2 i = Some r2" "order_identity r2 = order_identity r1"
    "od_Status r2 = od_Status r1 \<or> IsLegalTransition (od_Status r1) (od_Status r2)" by auto
  then have "IsLegalTransition\<^sup>*\<^sup>* (od_Status r) (od_Status r2)"
    using r1(3) by (metis rtranclp.rtrancl_into_rtrancl)
  with r1 r2 orders_step_inv [OF step.hyps(2) r1(4)] show ?case by metis
qed blast

lemma terminal_no_target: "terminal_status s \<Longrightarrow> \<not> IsLegalTransition s t"
  unfolding terminal_status_def
  by (elim insertE emptyE; simp add: IsLegalTransition_def legalTransitions_def)

lemma terminal_stays: "IsLegalTransition\<^sup>*\<^sup>* s t \<Longrightarrow> terminal_status s \<Longrightarrow> t = s"
  by (metis converse_rtranclpE terminal_no_target)

lemma path_rank: "IsLegalTransition\<^sup>*\<^sup>* s t \<Longrightarrow> s = t \<or> status_rank s < status_rank t"
  by (induction rule: rtranclp_induct) (auto dest: legal_rank)

lemma empty_orders_reach_inv: "orders_step\<^sup>*\<^sup>* empty_orders db \<Longrightarrow> orders_inv db"
proof (induction rule: rtranclp_induct)
  case base
  show ?case by (simp add: empty_orders_def orders_inv_def)
qed (rule orders_step_inv)

text \<open>
  C5. Whatever clients do to the order table, in any order and under any database failures, the
  history of an order is a path of the legal transition map: its row is never lost, its identity
  (tickers, strategy, action, price, probability, client order id, paper flag) never changes, a
  terminal status (gated, canceled, failed, settled) is final, and a status that changed has
  strictly climbed a ranking of height seven, so no order changes status more than seven times.
\<close>
theorem order_history_is_legal:
  assumes "orders_step\<^sup>*\<^sup>* empty_orders db" "orders_step\<^sup>*\<^sup>* db db'" "order_of db i = Some r"
  shows "\<exists>r'. order_of db' i = Some r' \<and> order_identity r' = order_identity r \<and>
    IsLegalTransition\<^sup>*\<^sup>* (od_Status r) (od_Status r') \<and>
    (terminal_status (od_Status r) \<longrightarrow> od_Status r' = od_Status r) \<and>
    (od_Status r' = od_Status r \<or> status_rank (od_Status r) < status_rank (od_Status r')) \<and>
    status_rank (od_Status r') \<le> 7"
  using orders_steps [OF assms(2) empty_orders_reach_inv [OF assms(1)] assms(3)]
  by (metis terminal_stays path_rank status_rank_le)

definition demo_order :: OrderRecord where
  "demo_order = \<lparr>od_ID = 0, od_ClientOrderID = ''u1'', od_TSIntent = 5, od_TSSubmitted = None,
     od_TSAcked = None, od_EventTicker = [], od_MarketTicker = ''M'', od_Strategy = ''S'',
     od_Action = ''buy'', od_Contracts = 0, od_PriceCents = 40, od_ConvProbBps = 6000,
     od_Reason = [], od_Status = ''intent'', od_GateReason = [], od_IsPaper = False,
     od_KalshiOrderID = [], od_FillCount = 0, od_FillPriceCents = 0\<rparr>"

definition demo_orders :: orders_db where
  "demo_orders = fst (Orders_Insert env0 demo_order empty_orders)"

lemma demo_orders_row:
  "order_of demo_orders 1 = Some (OrderRecord.extend (demo_order\<lparr>od_ID := 1\<rparr>) (orderRow.fields 1000 1000))"
  by (simp add: demo_orders_def Orders_Insert_def env0_def empty_orders_def order_of_def
      demo_order_def OrderRecord.defs orderRow.defs row_fits_def in_int32_def AllStatuses_def)

theorem order_history_is_legal_witness:
  "\<exists>r'. order_of (fst (Orders_UpdateStatus env0 1 ''gated'' no_opts demo_orders)) 1 = Some r' \<and>
     IsLegalTransition\<^sup>*\<^sup>* ''intent'' (od_Status r')"
proof -
  have "orders_step\<^sup>*\<^sup>* empty_orders demo_orders"
    unfolding demo_orders_def by (intro r_into_rtranclp insert_step)
  moreover have "orders_step\<^sup>*\<^sup>* demo_orders (fst (Orders_UpdateStatus env0 1 ''gated'' no_opts demo_orders))"
    by (intro r_into_rtranclp update_step)
  ultimately show ?thesis
    using order_history_is_legal [OF _ _ demo_orders_row] by (fastforce simp: OrderRecord.defs demo_order_def)
qed

end
