(* ===== verification/Gates.thy ===== *)
theory Gates
  imports Prelude
begin

text \<open>
  The gate cache (\<open>app/orders/gate_cache.go\<close>) and the paper fill models (\<open>app/orders/paper_fill.go\<close>).
  Times are nanoseconds; a \<open>time.Duration\<close> is a 64-bit count of nanoseconds. The mutex of the cache is
  not modelled: each operation is one atomic step.
\<close>

section \<open>Gate reasons and configuration\<close>

definition GateRealTradingDisabled :: string where [simp]: "GateRealTradingDisabled = ''real_trading_disabled''"
definition GateStrategyDisabled :: string where [simp]: "GateStrategyDisabled = ''strategy_disabled''"
definition GatePerMarketLimit :: string where [simp]: "GatePerMarketLimit = ''per_market_limit''"
definition GatePriceBand :: string where [simp]: "GatePriceBand = ''price_band''"
definition GateQuota :: string where [simp]: "GateQuota = ''quota''"
definition GateCooldown :: string where [simp]: "GateCooldown = ''cooldown''"
definition GatePreMatch :: string where [simp]: "GatePreMatch = ''pre_match''"
definition GateInsufficientBalance :: string where [simp]: "GateInsufficientBalance = ''insufficient_balance''"

record PriceBand =
  pb_MinCents :: int
  pb_MaxCents :: int

record GateConfig =
  gc_StrategyEnabled :: "string \<rightharpoonup> bool"
  gc_TriggerRanges :: "string \<rightharpoonup> PriceBand"
  gc_PerMarketLimit :: int
  gc_CooldownSeconds :: int
  gc_QuotaRemaining :: int
  gc_PreMatchWindow :: int

record GateCache =
  ga_config :: GateConfig
  ga_activePerMarket :: "string \<rightharpoonup> int"
  ga_lastFill :: "string \<rightharpoonup> int"

definition NewGateCache :: "GateConfig \<Rightarrow> GateCache" where
  "NewGateCache cfg = \<lparr>ga_config = cfg, ga_activePerMarket = Map.empty, ga_lastFill = Map.empty\<rparr>"

definition Gate_Update :: "GateConfig \<Rightarrow> GateCache \<Rightarrow> GateCache" where
  "Gate_Update cfg g = g\<lparr>ga_config := cfg\<rparr>"

text \<open>\<open>t.Sub(u)\<close> saturates at the ends of the range of a duration.\<close>

definition time_sub :: "int \<Rightarrow> int \<Rightarrow> int" where
  "time_sub t u = max int64_min (min int64_max (t - u))"

definition Second :: int where "Second = 1000000000"

definition Evaluate :: "GateCache \<Rightarrow> string \<Rightarrow> int \<Rightarrow> string \<Rightarrow> bool \<Rightarrow> int \<Rightarrow> string" where
  "Evaluate g strategy priceCents marketTicker isPaper now =
     (if isPaper then []
      else if \<not> lookupF (gc_StrategyEnabled (ga_config g)) strategy then GateStrategyDisabled
      else if (case gc_TriggerRanges (ga_config g) strategy of
                 Some band \<Rightarrow> priceCents < pb_MinCents band \<or> priceCents > pb_MaxCents band
               | None \<Rightarrow> False) then GatePriceBand
      else if gc_PerMarketLimit (ga_config g) > 0 \<and>
              lookup0 (ga_activePerMarket g) marketTicker \<ge> gc_PerMarketLimit (ga_config g) then GatePerMarketLimit
      else if gc_QuotaRemaining (ga_config g) \<le> 0 then GateQuota
      else if gc_CooldownSeconds (ga_config g) > 0 \<and>
              (case ga_lastFill g strategy of
                 Some t \<Rightarrow> time_sub now t < wrap64 (gc_CooldownSeconds (ga_config g) * Second)
               | None \<Rightarrow> False) then GateCooldown
      else [])"

definition OnOrderAccepted :: "string \<Rightarrow> GateCache \<Rightarrow> GateCache" where
  "OnOrderAccepted marketTicker g =
     g\<lparr>ga_activePerMarket := (ga_activePerMarket g)(marketTicker \<mapsto> lookup0 (ga_activePerMarket g) marketTicker + 1)\<rparr>"

definition OnOrderTerminal :: "string \<Rightarrow> string \<Rightarrow> bool \<Rightarrow> int \<Rightarrow> GateCache \<Rightarrow> GateCache" where
  "OnOrderTerminal strategy marketTicker filled now g =
     (let g = (if lookup0 (ga_activePerMarket g) marketTicker > 0
               then g\<lparr>ga_activePerMarket := (ga_activePerMarket g)(marketTicker \<mapsto> lookup0 (ga_activePerMarket g) marketTicker - 1)\<rparr>
               else g) in
      if filled then g\<lparr>ga_lastFill := (ga_lastFill g)(strategy \<mapsto> now)\<rparr> else g)"

section \<open>Paper fills\<close>

record RealisticPaperFill =
  rf_SlippageCents :: int
  rf_FeeCents :: int

definition NewRealisticPaperFill :: "int \<Rightarrow> int \<Rightarrow> RealisticPaperFill" where
  "NewRealisticPaperFill slippageCents feeCents =
     \<lparr>rf_SlippageCents = (if slippageCents < 0 then 1 else slippageCents), rf_FeeCents = feeCents\<rparr>"

definition Realistic_FillPrice :: "RealisticPaperFill \<Rightarrow> int \<Rightarrow> int \<Rightarrow> int \<Rightarrow> int \<times> int \<times> int" where
  "Realistic_FillPrice m bestAskCents requestedContracts displayedSize =
     (let fillPrice = bestAskCents + rf_SlippageCents m;
          fillCount = (if displayedSize > 0 \<and> requestedContracts > displayedSize
                       then displayedSize else requestedContracts) in
      (fillPrice, fillCount, rf_FeeCents m))"

definition Optimistic_FillPrice :: "int \<Rightarrow> int \<Rightarrow> int \<Rightarrow> int \<times> int \<times> int" where
  "Optimistic_FillPrice bestAskCents requestedContracts displayedSize =
     (bestAskCents, requestedContracts, 0)"

text \<open>The interface \<open>PaperFillModel\<close> with its two implementations.\<close>

datatype PaperFillModel = Realistic RealisticPaperFill | Optimistic

fun FillPrice :: "PaperFillModel \<Rightarrow> int \<Rightarrow> int \<Rightarrow> int \<Rightarrow> int \<times> int \<times> int" where
  "FillPrice (Realistic m) ask n sz = Realistic_FillPrice m ask n sz"
| "FillPrice Optimistic ask n sz = Optimistic_FillPrice ask n sz"

section \<open>Properties\<close>

text \<open>
  \<open>Evaluate\<close> lets an order through exactly when it is a paper order, or the strategy is enabled,
  the price lies in the strategy's band if it has one, the market has a free slot if slots are
  limited, quota is left, and the strategy is out of its cooldown.
\<close>
theorem Evaluate_passes_iff:
  "Evaluate g strategy priceCents marketTicker isPaper now = [] \<longleftrightarrow>
     isPaper \<or>
     (gc_StrategyEnabled (ga_config g) strategy = Some True \<and>
      (case gc_TriggerRanges (ga_config g) strategy of
         None \<Rightarrow> True | Some band \<Rightarrow> priceCents \<in> {pb_MinCents band .. pb_MaxCents band}) \<and>
      (gc_PerMarketLimit (ga_config g) \<le> 0 \<or>
       lookup0 (ga_activePerMarket g) marketTicker < gc_PerMarketLimit (ga_config g)) \<and>
      0 < gc_QuotaRemaining (ga_config g) \<and>
      (gc_CooldownSeconds (ga_config g) \<le> 0 \<or>
       (case ga_lastFill g strategy of
          None \<Rightarrow> True
        | Some t \<Rightarrow> wrap64 (gc_CooldownSeconds (ga_config g) * Second) \<le> time_sub now t)))"
  by (auto simp: Evaluate_def lookupF_def not_less split: option.splits)

lemma OnOrderTerminal_active:
  "lookup0 (ga_activePerMarket (OnOrderTerminal s m f now g)) m' =
     (if m' = m \<and> 0 < lookup0 (ga_activePerMarket g) m then lookup0 (ga_activePerMarket g) m - 1
      else lookup0 (ga_activePerMarket g) m')"
  by (auto simp: OnOrderTerminal_def Let_def)

lemma OnOrderAccepted_active:
  "lookup0 (ga_activePerMarket (OnOrderAccepted m g)) m' =
     lookup0 (ga_activePerMarket g) m' + (if m' = m then 1 else 0)"
  by (auto simp: OnOrderAccepted_def)

lemma gates_config [simp]:
  "ga_config (OnOrderAccepted m g) = ga_config g"
  "ga_config (OnOrderTerminal s m f now g) = ga_config g"
  by (simp_all add: OnOrderAccepted_def OnOrderTerminal_def Let_def)

lemma gates_lastFill [simp]:
  "ga_lastFill (OnOrderAccepted m g) = ga_lastFill g"
  "ga_lastFill (OnOrderTerminal s m f now g) = (if f then (ga_lastFill g)(s \<mapsto> now) else ga_lastFill g)"
  by (simp_all add: OnOrderAccepted_def OnOrderTerminal_def Let_def)

definition gates_inv :: "GateCache \<Rightarrow> bool" where
  "gates_inv g \<longleftrightarrow> (\<forall>m. 0 \<le> lookup0 (ga_activePerMarket g) m)"

lemma gates_inv_ops:
  "gates_inv g \<Longrightarrow> gates_inv (OnOrderAccepted m g)"
  "gates_inv g \<Longrightarrow> gates_inv (OnOrderTerminal s m f now g)"
  by (auto simp: gates_inv_def OnOrderAccepted_active OnOrderTerminal_active)

text \<open>
  The slot taken when an order is accepted is given back when it ends: after acceptance and
  termination every market's count of active orders is what it was, and counts are never negative.
\<close>
theorem slot_returned:
  assumes "gates_inv g"
  shows "lookup0 (ga_activePerMarket (OnOrderTerminal s m filled now (OnOrderAccepted m g)))
       = lookup0 (ga_activePerMarket g) \<and>
    gates_inv (OnOrderTerminal s m filled now (OnOrderAccepted m g))"
proof -
  have "0 \<le> lookup0 (ga_activePerMarket g) m" using assms by (simp add: gates_inv_def)
  then have "lookup0 (ga_activePerMarket (OnOrderTerminal s m filled now (OnOrderAccepted m g))) m'
      = lookup0 (ga_activePerMarket g) m'" for m'
    by (simp add: OnOrderTerminal_active OnOrderAccepted_active)
  with assms show ?thesis by (auto simp: gates_inv_ops)
qed

theorem slot_returned_witness:
  "lookup0 (ga_activePerMarket (OnOrderTerminal ''S'' ''M'' True 9 (OnOrderAccepted ''M''
     (NewGateCache \<lparr>gc_StrategyEnabled = Map.empty, gc_TriggerRanges = Map.empty, gc_PerMarketLimit = 1,
        gc_CooldownSeconds = 0, gc_QuotaRemaining = 0, gc_PreMatchWindow = 0\<rparr>)))) ''M'' = 0"
proof -
  let ?g = "NewGateCache \<lparr>gc_StrategyEnabled = Map.empty, gc_TriggerRanges = Map.empty, gc_PerMarketLimit = 1,
        gc_CooldownSeconds = 0, gc_QuotaRemaining = 0, gc_PreMatchWindow = 0\<rparr>"
  have "gates_inv ?g" by (simp add: gates_inv_def NewGateCache_def)
  from slot_returned [OF this, of "''S''" "''M''" True 9] show ?thesis by (simp add: NewGateCache_def)
qed

end
