(* ===== verification/MatchLoop.thy ===== *)
theory MatchLoop
  imports Float64 "HOL-Library.Sublist"
begin

text \<open>
  \<open>domain/match\<close>: the events and intents of one match (\<open>event.go\<close>, \<open>loop.go\<close>), the single-threaded
  event loop with its bounded queue and blocking producers (\<open>loop.go\<close>), and the score-source merger
  (\<open>merger.go\<close>).
\<close>

section \<open>Events and intents\<close>

record PriceUpdate =
  pu_MarketTicker :: string
  pu_PriceCents :: int
  pu_TS :: int

record Point =
  pt_EventTicker :: string
  pt_TS :: int
  pt_RecvTS :: int
  pt_SetNumber :: int
  pt_GameNumber :: int
  pt_PointNumber :: int
  pt_Server :: int
  pt_Scorer :: int
  pt_HomePoints :: string
  pt_AwayPoints :: string
  pt_HomeGames :: int
  pt_AwayGames :: int
  pt_HomeSetGames :: int
  pt_AwaySetGames :: int
  pt_IsTiebreak :: bool
  pt_IsBreakPoint :: bool
  pt_IsSetPoint :: bool
  pt_IsMatchPoint :: bool

record PointScored =
  ps_EventTicker :: string
  ps_Point :: Point
  ps_TS :: int

record LifecycleChange =
  lc_MarketTicker :: string
  lc_Type :: string
  lc_TS :: int

record ClockTick =
  ct_TS :: int

text \<open>The sealed interface \<open>Event\<close> as a tagged union of its four implementations.\<close>

datatype Event =
  EvPrice PriceUpdate
  | EvPoint PointScored
  | EvLifecycle LifecycleChange
  | EvClock ClockTick

record Intent =
  in_MarketTicker :: string
  in_Strategy :: string
  in_Action :: string
  in_PriceCents :: int
  in_ConvProbBps :: int
  in_Reason :: string
  in_FeatureHash :: string
  in_Features :: "(string \<times> float64) list"
  in_ModelID :: "int option"
  in_Propensity :: "float64 option"

section \<open>The contract of a bounded channel\<close>

locale fifo_channel =
  fixes contents :: "'q \<Rightarrow> 'a list" and cap :: nat
    and send :: "'a \<Rightarrow> 'q \<Rightarrow> 'q option" and recv :: "'q \<Rightarrow> ('a \<times> 'q) option"
  assumes send_Some: "send x q = Some q' \<Longrightarrow> contents q' = contents q @ [x]"
    and send_None: "send x q = None \<longleftrightarrow> cap \<le> length (contents q)"
    and recv_Some: "recv q = Some (x, q') \<Longrightarrow> contents q = x # contents q'"
    and recv_None: "recv q = None \<longleftrightarrow> contents q = []"
begin

text \<open>One run over a list of operations: \<open>Some x\<close> offers \<open>x\<close>, \<open>None\<close> is a receive. The result is the
  channel, what was taken out, what was accepted and what was refused.\<close>

fun chan_run :: "'a option list \<Rightarrow> 'q \<Rightarrow> 'q \<times> 'a list \<times> 'a list \<times> 'a list" where
  "chan_run [] q = (q, [], [], [])"
| "chan_run (Some x # ops) q =
     (case send x q of
        Some q1 \<Rightarrow> (case chan_run ops q1 of (q2, out, acc, ref) \<Rightarrow> (q2, out, x # acc, ref))
      | None \<Rightarrow> (case chan_run ops q of (q2, out, acc, ref) \<Rightarrow> (q2, out, acc, x # ref)))"
| "chan_run (None # ops) q =
     (case recv q of
        Some (x, q1) \<Rightarrow> (case chan_run ops q1 of (q2, out, acc, ref) \<Rightarrow> (q2, x # out, acc, ref))
      | None \<Rightarrow> chan_run ops q)"

lemma send_bounded: "send x q = Some q' \<Longrightarrow> length (contents q') \<le> cap"
  using send_Some [of x q q'] send_None [of x q] by simp

lemma chan_run_fifo:
  assumes "chan_run ops q = (q', out, acc, ref)"
  shows "contents q @ acc = out @ contents q'"
  using assms
proof (induction ops q arbitrary: q' out acc ref rule: chan_run.induct)
  case (2 x ops q)
  then show ?case
    by (auto dest!: send_Some split: option.splits prod.splits)
       (metis append.assoc append_Cons append_Nil)
next
  case (3 ops q)
  then show ?case
    by (auto dest!: recv_Some split: option.splits prod.splits)
qed simp

lemma chan_run_bounded:
  assumes "chan_run ops q = (q', out, acc, ref)" "length (contents q) \<le> cap"
  shows "length (contents q') \<le> cap"
  using assms
proof (induction ops q arbitrary: q' out acc ref rule: chan_run.induct)
  case (2 x ops q)
  then show ?case
    by (auto dest: send_bounded split: option.splits prod.splits)
next
  case (3 ops q)
  then show ?case
    by (auto dest!: recv_Some split: option.splits prod.splits)
qed simp

end

section \<open>The event loop\<close>

definition loop_cap :: nat where "loop_cap = 4096"

text \<open>
  \<open>lp_waiting\<close> holds the events of producers blocked in \<open>Enqueue\<close>, in the order in which they
  blocked; \<open>lp_sink\<close> is the sequence of calls of the sink. \<open>lp_enqueued\<close> and \<open>lp_handled\<close> are ghost
  histories. The handler is a function of its own state; \<open>None\<close> is a panic.
\<close>

record 's Loop =
  lp_queue :: "Event list"
  lp_waiting :: "Event list"
  lp_handler :: 's
  lp_sink :: "Intent list list"
  lp_blockedNs :: int
  lp_done :: bool
  lp_enqueued :: "Event list"
  lp_handled :: "Event list"

definition NewLoop :: "'s \<Rightarrow> 's Loop" where
  "NewLoop h = \<lparr>lp_queue = [], lp_waiting = [], lp_handler = h, lp_sink = [], lp_blockedNs = 0,
     lp_done = False, lp_enqueued = [], lp_handled = []\<rparr>"

definition Loop_Enqueue :: "Event \<Rightarrow> 's Loop \<Rightarrow> 's Loop" where
  "Loop_Enqueue ev l =
     (case chan_try_send loop_cap ev (lp_queue l) of
        Some q \<Rightarrow> l\<lparr>lp_queue := q, lp_enqueued := lp_enqueued l @ [ev]\<rparr>
      | None \<Rightarrow> l\<lparr>lp_waiting := lp_waiting l @ [ev], lp_enqueued := lp_enqueued l @ [ev]\<rparr>)"

text \<open>
  One receive of \<open>Run\<close>: the runtime hands the freed slot to the producer that has waited longest,
  whose \<open>Enqueue\<close> then returns and adds the \<open>waited\<close> nanoseconds; the handler runs, and the sink is
  called when there are intents. \<open>None\<close>: the receive blocks, the loop has ended, or the handler
  panics.
\<close>

definition Loop_Receive ::
  "(Event \<Rightarrow> 's \<Rightarrow> ('s \<times> Intent list) option) \<Rightarrow> int \<Rightarrow> 's Loop \<Rightarrow> 's Loop option" where
  "Loop_Receive onEvent waited l =
     (if lp_done l then None
      else
        (case chan_recv (lp_queue l) of
           None \<Rightarrow> None
         | Some (ev, q) \<Rightarrow>
             (let l1 = (case lp_waiting l of
                          [] \<Rightarrow> l\<lparr>lp_queue := q\<rparr>
                        | w # ws \<Rightarrow> l\<lparr>lp_queue := q @ [w], lp_waiting := ws,
                                     lp_blockedNs := wrap64 (lp_blockedNs l + waited)\<rparr>) in
              (case onEvent ev (lp_handler l1) of
                 None \<Rightarrow> None
               | Some (h, intents) \<Rightarrow>
                   Some (l1\<lparr>lp_handler := h,
                            lp_sink := (if intents \<noteq> [] then lp_sink l1 @ [intents] else lp_sink l1),
                            lp_handled := lp_handled l1 @ [ev]\<rparr>)))))"

definition Loop_Cancel :: "'s Loop \<Rightarrow> 's Loop" where
  "Loop_Cancel l = l\<lparr>lp_done := True\<rparr>"

inductive loop_step ::
  "(Event \<Rightarrow> 's \<Rightarrow> ('s \<times> Intent list) option) \<Rightarrow> 's Loop \<Rightarrow> 's Loop \<Rightarrow> bool"
  for onEvent where
  enqueue: "loop_step onEvent l (Loop_Enqueue ev l)"
| receive: "Loop_Receive onEvent waited l = Some l' \<Longrightarrow> loop_step onEvent l l'"
| cancel: "loop_step onEvent l (Loop_Cancel l)"

inductive_cases loop_stepE: "loop_step onEvent l l'"

text \<open>The reference: the handler run sequentially over a list of events.\<close>

fun run_handler ::
  "(Event \<Rightarrow> 's \<Rightarrow> ('s \<times> Intent list) option) \<Rightarrow> Event list \<Rightarrow> 's \<Rightarrow> ('s \<times> Intent list list) option" where
  "run_handler onEvent [] s = Some (s, [])"
| "run_handler onEvent (ev # evs) s =
     (case onEvent ev s of
        None \<Rightarrow> None
      | Some (s1, intents) \<Rightarrow>
          (case run_handler onEvent evs s1 of
             None \<Rightarrow> None
           | Some (s2, calls) \<Rightarrow> Some (s2, (if intents \<noteq> [] then intents # calls else calls))))"

lemma run_handler_snoc:
  "run_handler onEvent (evs @ [ev]) s =
     (case run_handler onEvent evs s of
        None \<Rightarrow> None
      | Some (s1, calls) \<Rightarrow>
          (case onEvent ev s1 of
             None \<Rightarrow> None
           | Some (s2, intents) \<Rightarrow> Some (s2, (if intents \<noteq> [] then calls @ [intents] else calls))))"
  by (induction evs arbitrary: s) (auto split: option.splits prod.splits)

definition loop_inv :: "(Event \<Rightarrow> 's \<Rightarrow> ('s \<times> Intent list) option) \<Rightarrow> 's \<Rightarrow> 's Loop \<Rightarrow> bool" where
  "loop_inv onEvent s0 l \<longleftrightarrow>
     lp_enqueued l = lp_handled l @ lp_queue l @ lp_waiting l \<and>
     length (lp_queue l) \<le> loop_cap \<and> (lp_waiting l \<noteq> [] \<longrightarrow> length (lp_queue l) = loop_cap) \<and>
     run_handler onEvent (lp_handled l) s0 = Some (lp_handler l, lp_sink l)"

lemma loop_inv_init: "loop_inv onEvent s0 (NewLoop s0)"
  by (simp add: loop_inv_def NewLoop_def)

lemma loop_inv_enqueue: "loop_inv onEvent s0 l \<Longrightarrow> loop_inv onEvent s0 (Loop_Enqueue ev l)"
  by (auto simp: loop_inv_def Loop_Enqueue_def chan_try_send_def)

lemma loop_inv_receive:
  assumes "loop_inv onEvent s0 l" "Loop_Receive onEvent waited l = Some l'"
  shows "loop_inv onEvent s0 l'"
proof (cases "lp_queue l")
  case Nil
  with assms show ?thesis by (simp add: Loop_Receive_def split: if_splits)
next
  case (Cons ev q)
  with assms show ?thesis
    by (cases "lp_waiting l")
       (auto simp: loop_inv_def Loop_Receive_def Let_def run_handler_snoc
         split: if_splits option.splits prod.splits)
qed

lemma loop_inv_cancel: "loop_inv onEvent s0 l \<Longrightarrow> loop_inv onEvent s0 (Loop_Cancel l)"
  by (simp add: loop_inv_def Loop_Cancel_def)

lemma loop_inv_step: "loop_step onEvent l l' \<Longrightarrow> loop_inv onEvent s0 l \<Longrightarrow> loop_inv onEvent s0 l'"
  by (erule loop_stepE) (simp_all add: loop_inv_enqueue loop_inv_cancel loop_inv_receive)

lemma loop_inv_reach: "(loop_step onEvent)\<^sup>*\<^sup>* (NewLoop s0) l \<Longrightarrow> loop_inv onEvent s0 l"
  by (induction rule: rtranclp_induct) (auto intro: loop_inv_init loop_inv_step)

interpretation loop_chan: fifo_channel "\<lambda>q. q" loop_cap "chan_try_send loop_cap" chan_recv
  by unfold_locales (auto simp: chan_try_send_def split: if_splits elim: chan_recv.elims)

text \<open>
  C8. The loop is a faithful sequential consumer: in every reachable state, whatever the
  interleaving of producers, receives and cancellation, the events passed to \<open>Enqueue\<close>, in the order
  of the calls, are exactly those already handled followed by those queued and those of blocked
  producers (nothing is lost, duplicated or reordered); the queue never exceeds 4096, and producers
  wait only when it is full; and the handler state and the sequence of sink calls are those of
  running the handler one event at a time over the handled events.
\<close>
theorem loop_is_sequential:
  assumes "(loop_step onEvent)\<^sup>*\<^sup>* (NewLoop s0) l"
  shows "lp_enqueued l = lp_handled l @ lp_queue l @ lp_waiting l \<and>
    length (lp_queue l) \<le> 4096 \<and> (lp_waiting l = [] \<or> length (lp_queue l) = 4096) \<and>
    run_handler onEvent (lp_handled l) s0 = Some (lp_handler l, lp_sink l)"
  using loop_inv_reach [OF assms] by (auto simp: loop_inv_def loop_cap_def)

theorem loop_is_sequential_witness:
  "run_handler (\<lambda>ev n. Some (n + 1, [])) [EvClock \<lparr>ct_TS = 7\<rparr>] (0 :: nat) = Some (1, [])"
proof -
  let ?h = "\<lambda>ev n. Some (n + 1 :: nat, [] :: Intent list)" and ?e = "EvClock \<lparr>ct_TS = 7\<rparr>"
  let ?l1 = "Loop_Enqueue ?e (NewLoop 0)"
  obtain l2 where l2: "Loop_Receive ?h 0 ?l1 = Some l2" "lp_handled l2 = [?e]" "lp_handler l2 = 1" "lp_sink l2 = []"
    by (simp add: Loop_Receive_def Loop_Enqueue_def NewLoop_def chan_try_send_def loop_cap_def)
  have "(loop_step ?h)\<^sup>*\<^sup>* (NewLoop 0) l2"
    using enqueue [of ?h "NewLoop 0" ?e] receive [OF l2(1)] by (rule converse_rtranclp_into_rtranclp [OF _ r_into_rtranclp])
  from loop_is_sequential [OF this] show ?thesis by (simp add: l2)
qed

text \<open>
  The loop cannot stall: while it has not been cancelled and an event is queued, the receive is
  enabled (as long as the handler does not panic), and it admits the producer that has waited
  longest, whose event is then the last of the queue.
\<close>
theorem loop_progress:
  assumes "\<not> lp_done l" "lp_queue l = ev # q" "onEvent ev (lp_handler l) = Some (h, intents)"
  shows "\<exists>l'. Loop_Receive onEvent waited l = Some l' \<and> lp_handler l' = h \<and>
    lp_handled l' = lp_handled l @ [ev] \<and>
    lp_queue l' = q @ take 1 (lp_waiting l) \<and> lp_waiting l' = drop 1 (lp_waiting l)"
  using assms by (cases "lp_waiting l") (auto simp: Loop_Receive_def Let_def)

theorem loop_progress_witness:
  "\<exists>l'. Loop_Receive (\<lambda>ev n. Some (n + 1 :: nat, [])) 5 (Loop_Enqueue (EvClock \<lparr>ct_TS = 7\<rparr>) (NewLoop 0)) = Some l' \<and>
     lp_handler l' = 1"
  using loop_progress [of "Loop_Enqueue (EvClock \<lparr>ct_TS = 7\<rparr>) (NewLoop 0)" "EvClock \<lparr>ct_TS = 7\<rparr>" "[]"
      "\<lambda>ev n. Some (n + 1 :: nat, [])" 1 "[]" 5]
  by (auto simp: Loop_Enqueue_def NewLoop_def chan_try_send_def loop_cap_def)

section \<open>The score-source merger\<close>

record pointKey =
  pk_EventTicker :: string
  pk_SetsHome :: int
  pk_SetsAway :: int
  pk_HomeGames :: int
  pk_AwayGames :: int
  pk_HomePoints :: string
  pk_AwayPoints :: string

record Merger =
  mg_seen :: "pointKey \<rightharpoonup> bool"
  mg_DupCount :: int

definition NewMerger :: Merger where
  "NewMerger = \<lparr>mg_seen = Map.empty, mg_DupCount = 0\<rparr>"

definition point_key :: "PointScored \<Rightarrow> pointKey" where
  "point_key ev =
     \<lparr>pk_EventTicker = ps_EventTicker ev,
      pk_SetsHome = pt_HomeSetGames (ps_Point ev), pk_SetsAway = pt_AwaySetGames (ps_Point ev),
      pk_HomeGames = pt_HomeGames (ps_Point ev), pk_AwayGames = pt_AwayGames (ps_Point ev),
      pk_HomePoints = pt_HomePoints (ps_Point ev), pk_AwayPoints = pt_AwayPoints (ps_Point ev)\<rparr>"

definition Forward :: "PointScored \<Rightarrow> Merger \<Rightarrow> Merger \<times> PointScored option" where
  "Forward ev m =
     (let key = point_key ev in
      if lookupF (mg_seen m) key
      then (m\<lparr>mg_DupCount := wrap64 (mg_DupCount m + 1)\<rparr>, None)
      else (m\<lparr>mg_seen := (mg_seen m)(key \<mapsto> True)\<rparr>, Some ev))"

fun forward_all :: "PointScored list \<Rightarrow> Merger \<Rightarrow> Merger \<times> PointScored list" where
  "forward_all [] m = (m, [])"
| "forward_all (ev # evs) m =
     (case Forward ev m of (m1, r) \<Rightarrow>
        (case forward_all evs m1 of (m2, out) \<Rightarrow> (m2, (case r of None \<Rightarrow> out | Some e \<Rightarrow> e # out))))"

text \<open>The first occurrence of each key, in order: the reference for the merger.\<close>

fun first_by_key :: "pointKey set \<Rightarrow> PointScored list \<Rightarrow> PointScored list" where
  "first_by_key seen [] = []"
| "first_by_key seen (ev # evs) =
     (if point_key ev \<in> seen then first_by_key seen evs
      else ev # first_by_key (insert (point_key ev) seen) evs)"

abbreviation seen_keys :: "Merger \<Rightarrow> pointKey set" where
  "seen_keys m \<equiv> {k. lookupF (mg_seen m) k}"

lemma Forward_dup [simp]: "lookupF (mg_seen m) (point_key ev) \<Longrightarrow>
    Forward ev m = (m\<lparr>mg_DupCount := wrap64 (mg_DupCount m + 1)\<rparr>, None)"
  by (simp add: Forward_def)

lemma Forward_new [simp]: "\<not> lookupF (mg_seen m) (point_key ev) \<Longrightarrow>
    Forward ev m = (m\<lparr>mg_seen := (mg_seen m)(point_key ev \<mapsto> True)\<rparr>, Some ev)"
  by (simp add: Forward_def Let_def)

lemma seen_insert [simp]: "{k. lookupF (f(key \<mapsto> True)) k} = insert key {k. lookupF f k}"
  by (auto simp: lookupF_def)

lemma forward_all_out: "snd (forward_all evs m) = first_by_key (seen_keys m) evs"
proof (induction evs arbitrary: m)
  case (Cons ev evs)
  then show ?case
    by (cases "lookupF (mg_seen m) (point_key ev)") (simp_all add: case_prod_beta)
qed simp

lemma forward_all_count:
  "in_int64 (mg_DupCount m) \<Longrightarrow> mg_DupCount (fst (forward_all evs m)) =
     wrap64 (mg_DupCount m + (int (length evs) - int (length (snd (forward_all evs m)))))"
proof (induction evs arbitrary: m)
  case (Cons ev evs)
  show ?case
  proof (cases "lookupF (mg_seen m) (point_key ev)")
    case True
    with Cons.IH [of "m\<lparr>mg_DupCount := wrap64 (mg_DupCount m + 1)\<rparr>"] show ?thesis
      by (simp add: case_prod_beta) (simp add: algebra_simps)
  next
    case False
    with Cons.IH [of "m\<lparr>mg_seen := (mg_seen m)(point_key ev \<mapsto> True)\<rparr>"] Cons.prems show ?thesis
      by (simp add: case_prod_beta)
  qed
qed simp

lemma first_by_key_props:
  "subseq (first_by_key seen evs) evs"
  "point_key ` set (first_by_key seen evs) = point_key ` set evs - seen"
  "distinct (map point_key (first_by_key seen evs))"
proof (induction evs arbitrary: seen)
  case (Cons ev evs)
  { case 1 with Cons(1) show ?case by (auto intro: list_emb_Cons) }
  { case 2 with Cons(2) show ?case by auto }
  { case 3 with Cons(2) [of "insert (point_key ev) seen"] Cons(3) show ?case by auto }
qed simp_all

text \<open>
  Merging two score feeds: over any sequence of point events, a fresh merger forwards, in order,
  exactly the first event of each score state, so every score state that arrived is forwarded once
  and no state twice, and counts every other event as a duplicate.
\<close>
theorem merger_first_occurrences:
  "(case forward_all evs NewMerger of (m, out) \<Rightarrow>
      subseq out evs \<and> out = first_by_key {} evs \<and>
      distinct (map point_key out) \<and> point_key ` set out = point_key ` set evs \<and>
      mg_DupCount m = wrap64 (int (length evs) - int (length out)))"
  using forward_all_out [of evs NewMerger] forward_all_count [of NewMerger evs]
    first_by_key_props [of "{}" evs]
  by (auto simp: NewMerger_def int64_bounds split: prod.splits)

end
