(* ===== verification/Worker.thy ===== *)
theory Worker
  imports MatchLoop OrderStore Gates Sizing
begin

text \<open>
  The order worker (\<open>app/orders/worker.go\<close>), the feature log it writes
  (\<open>adapters/postgres/feature_repo.go\<close>) and the reconciler (\<open>app/orders/reconciler.go\<close>). The worker's
  collaborators are shared state: the gate cache, the ledger and order tables, the feature log, and
  the list of requests sent to the exchange. What the outside world does during one intent (clock,
  database failures, the exchange's answer, the order book) is an environment record.
\<close>

section \<open>Port types\<close>

record CreateOrderRequest =
  cr_ClientOrderID :: string
  cr_MarketTicker :: string
  cr_Action :: string
  cr_Contracts :: int
  cr_PriceCents :: int

record CreateOrderResponse =
  cp_OrderID :: string
  cp_Status :: string
  cp_FillCount :: int
  cp_FillPriceCents :: int

record FeatureLog =
  fl_FeatureHash :: string
  fl_Features :: "(string \<times> float64) list"
  fl_ModelID :: "int option"
  fl_Propensity :: "float64 option"

record BookSnapshot =
  bs_BestBidCents :: int
  bs_BestAskCents :: int
  bs_BestBidSize :: int
  bs_BestAskSize :: int

section \<open>The feature log\<close>

type_synonym feature_table = "(int \<times> FeatureLog) list"

text \<open>\<open>json.Marshal\<close> refuses infinities and NaN; the primary key refuses a second row.\<close>

fun is_finite :: "float64 \<Rightarrow> bool" where
  "is_finite (Fin x) = True"
| "is_finite _ = False"

definition LogFeatures ::
  "db_fault \<Rightarrow> int \<Rightarrow> FeatureLog \<Rightarrow> feature_table \<Rightarrow> feature_table \<times> order_error option" where
  "LogFeatures fault orderID fl tab =
     (if \<not> list_all (is_finite \<circ> snd) (fl_Features fl) then (tab, Some (ErrOrderDB ''marshal features''))
      else if fault \<noteq> NoFault \<or> map_of tab orderID \<noteq> None then (tab, Some (ErrOrderDB ''log features''))
      else (tab @ [(orderID, fl)], None))"

definition GetFeatures :: "db_fault \<Rightarrow> int \<Rightarrow> feature_table \<Rightarrow> order_error + FeatureLog" where
  "GetFeatures fault orderID tab =
     (if fault \<noteq> NoFault then Inl (ErrOrderDB ''get features'')
      else
        (case map_of tab orderID of
           None \<Rightarrow> Inl ErrRecordNotFound
         | Some fl \<Rightarrow> Inr fl))"

section \<open>The worker\<close>

record Worker =
  wk_in :: "Intent list"
  wk_exchange :: bool
  wk_featureRepo :: bool
  wk_bookLookup :: bool
  wk_paperFill :: PaperFillModel
  wk_bankroll :: int
  wk_kellyFrac :: float64
  wk_legacySizing :: bool
  wk_dropped :: int
  wk_perStrategyFraction :: "string \<rightharpoonup> float64"

record world =
  wd_gates :: GateCache
  wd_ledger :: ledger_db
  wd_orders :: orders_db
  wd_features :: feature_table
  wd_sent :: "CreateOrderRequest list"

record penv =
  pe_now :: int
  pe_ack :: int
  pe_uuid :: string
  pe_insert :: tx_env
  pe_features :: db_fault
  pe_gated :: tx_env
  pe_accepted :: tx_env
  pe_hold :: tx_env
  pe_held :: tx_env
  pe_exchange :: "CreateOrderRequest \<Rightarrow> string + CreateOrderResponse"
  pe_submitted :: tx_env
  pe_release :: tx_env
  pe_fill :: tx_env
  pe_final :: tx_env
  pe_book :: "string \<Rightarrow> string + BookSnapshot option"

definition NewWorker :: "bool \<Rightarrow> bool \<Rightarrow> int \<Rightarrow> float64 \<Rightarrow> bool \<Rightarrow> Worker" where
  "NewWorker exchange featureRepo bankrollCents kellyFraction legacySizing =
     \<lparr>wk_in = [], wk_exchange = exchange, wk_featureRepo = featureRepo, wk_bookLookup = False,
      wk_paperFill = Realistic (NewRealisticPaperFill 1 0), wk_bankroll = bankrollCents,
      wk_kellyFrac = kellyFraction, wk_legacySizing = legacySizing, wk_dropped = 0,
      wk_perStrategyFraction = Map.empty\<rparr>"

definition SetPaperFillModel :: "PaperFillModel option \<Rightarrow> Worker \<Rightarrow> Worker" where
  "SetPaperFillModel m w = (case m of None \<Rightarrow> w | Some m \<Rightarrow> w\<lparr>wk_paperFill := m\<rparr>)"

definition SetBookLookup :: "bool \<Rightarrow> Worker \<Rightarrow> Worker" where
  "SetBookLookup bl w = w\<lparr>wk_bookLookup := bl\<rparr>"

definition SetBankroll :: "int \<Rightarrow> Worker \<Rightarrow> Worker" where
  "SetBankroll cents w = w\<lparr>wk_bankroll := cents\<rparr>"

definition worker_cap :: nat where "worker_cap = 1024"

fun Submit :: "Intent list \<Rightarrow> Worker \<Rightarrow> Worker" where
  "Submit [] w = w"
| "Submit (i # is) w =
     (case chan_try_send worker_cap i (wk_in w) of
        Some q \<Rightarrow> Submit is (w\<lparr>wk_in := q\<rparr>)
      | None \<Rightarrow> Submit is (w\<lparr>wk_dropped := wrap64 (wk_dropped w + 1)\<rparr>))"

definition realTradingEnabled :: "Worker \<Rightarrow> bool" where
  "realTradingEnabled w = wk_exchange w"

text \<open>\<open>w.repo.UpdateStatus\<close> on the world.\<close>

definition upd ::
  "tx_env \<Rightarrow> int \<Rightarrow> string \<Rightarrow> UpdateOpts \<Rightarrow> world \<Rightarrow> world \<times> order_error option" where
  "upd env i status opts d =
     (case Orders_UpdateStatus env i status opts (wd_orders d) of (db, r) \<Rightarrow> (d\<lparr>wd_orders := db\<rparr>, r))"

text \<open>The ledger calls of a fill: release the remainder if there is one, then record the fill. Both
  errors are discarded.\<close>

definition settle_fill :: "penv \<Rightarrow> int \<Rightarrow> int \<Rightarrow> CreateOrderResponse \<Rightarrow> ledger_db \<Rightarrow> ledger_db" where
  "settle_fill pe i spendCents resp db =
     (let fillCost = wrap64 (cp_FillCount resp * cp_FillPriceCents resp);
          remainder = wrap64 (spendCents - fillCost);
          db = (if remainder > 0 then fst (Repo_ReleaseHold (pe_release pe) i remainder db) else db)
      in fst (Repo_RecordFill (pe_fill pe) i fillCost db))"

text \<open>The \<open>switch resp.Status\<close> at the end of the real path.\<close>

definition handle_response ::
  "penv \<Rightarrow> Intent \<Rightarrow> int \<Rightarrow> int \<Rightarrow> CreateOrderResponse \<Rightarrow> world \<Rightarrow> world \<times> order_error option" where
  "handle_response pe it i spendCents resp d =
     (let tsAck = UnixMilli (pe_ack pe);
          filledOpts = \<lparr>uo_GateReason = [], uo_KalshiOrderID = cp_OrderID resp,
            uo_FillCount = cp_FillCount resp, uo_FillPriceCents = cp_FillPriceCents resp,
            uo_TSSubmitted = None, uo_TSAcked = Some tsAck\<rparr>;
          ackOpts = no_opts\<lparr>uo_KalshiOrderID := cp_OrderID resp, uo_TSAcked := Some tsAck\<rparr>;
          terminal = (\<lambda>filled. OnOrderTerminal (in_Strategy it) (in_MarketTicker it) filled (pe_now pe)) in
      if cp_Status resp = ''filled'' then
        upd (pe_final pe) i StatusFilled filledOpts
          (d\<lparr>wd_ledger := settle_fill pe i spendCents resp (wd_ledger d), wd_gates := terminal True (wd_gates d)\<rparr>)
      else if cp_Status resp = ''partial'' then
        upd (pe_final pe) i StatusPartial filledOpts
          (d\<lparr>wd_ledger := settle_fill pe i spendCents resp (wd_ledger d), wd_gates := terminal True (wd_gates d)\<rparr>)
      else if cp_Status resp = ''canceled'' then
        upd (pe_final pe) i StatusCanceled ackOpts
          (d\<lparr>wd_ledger := fst (Repo_ReleaseHold (pe_release pe) i spendCents (wd_ledger d)),
             wd_gates := terminal False (wd_gates d)\<rparr>)
      else
        upd (pe_final pe) i StatusUnverified ackOpts (d\<lparr>wd_gates := terminal False (wd_gates d)\<rparr>))"

text \<open>From the hold to the exchange's answer.\<close>

definition real_path ::
  "penv \<Rightarrow> Intent \<Rightarrow> int \<Rightarrow> int \<Rightarrow> world \<Rightarrow> world \<times> order_error option" where
  "real_path pe it i contracts d =
     (let spendCents = wrap64 (contracts * in_PriceCents it);
          terminal = (\<lambda>filled. OnOrderTerminal (in_Strategy it) (in_MarketTicker it) filled (pe_now pe)) in
      case Repo_HoldForOrder (pe_hold pe) i spendCents (wd_ledger d) of
        (_, Some _) \<Rightarrow>
          upd (pe_gated pe) i StatusGated (no_opts\<lparr>uo_GateReason := GateInsufficientBalance\<rparr>)
            (d\<lparr>wd_gates := terminal False (wd_gates d)\<rparr>)
      | (ldb, None) \<Rightarrow>
          (case upd (pe_held pe) i StatusHeld no_opts (d\<lparr>wd_ledger := ldb\<rparr>) of
             (d1, Some err) \<Rightarrow> (d1, Some err)
           | (d1, None) \<Rightarrow>
               (let tsSub = UnixMilli (pe_now pe);
                    req = \<lparr>cr_ClientOrderID = pe_uuid pe, cr_MarketTicker = in_MarketTicker it,
                           cr_Action = in_Action it, cr_Contracts = contracts,
                           cr_PriceCents = in_PriceCents it\<rparr>;
                    d2 = d1\<lparr>wd_sent := wd_sent d1 @ [req]\<rparr>;
                    subOpts = no_opts\<lparr>uo_TSSubmitted := Some tsSub\<rparr> in
                case pe_exchange pe req of
                  Inl _ \<Rightarrow>
                    (let d3 = d2\<lparr>wd_ledger := fst (Repo_ReleaseHold (pe_release pe) i spendCents (wd_ledger d2)),
                                 wd_gates := terminal False (wd_gates d2)\<rparr>;
                         d4 = fst (upd (pe_submitted pe) i StatusSubmitted subOpts d3) in
                     upd (pe_final pe) i StatusFailed no_opts d4)
                | Inr resp \<Rightarrow>
                    (case upd (pe_submitted pe) i StatusSubmitted subOpts d2 of
                       (d3, Some err) \<Rightarrow> (d3, Some err)
                     | (d3, None) \<Rightarrow> handle_response pe it i spendCents resp d3))))"

text \<open>The paper path: fill against the book, or against the intent when there is none.\<close>

definition paper_path ::
  "Worker \<Rightarrow> penv \<Rightarrow> Intent \<Rightarrow> int \<Rightarrow> int \<Rightarrow> world \<Rightarrow> world \<times> order_error option" where
  "paper_path w pe it i contracts d =
     (let (bestAsk, displayedSize) =
            (if wk_bookLookup w
             then (case pe_book pe (in_MarketTicker it) of
                     Inr (Some book) \<Rightarrow>
                       ((if bs_BestAskCents book > 0 then bs_BestAskCents book else in_PriceCents it),
                        (if bs_BestAskSize book > 0 then bs_BestAskSize book else contracts))
                   | _ \<Rightarrow> (in_PriceCents it, contracts))
             else (in_PriceCents it, contracts));
          (fillPrice, fillCount, _) = FillPrice (wk_paperFill w) bestAsk contracts displayedSize;
          d = d\<lparr>wd_gates := OnOrderTerminal (in_Strategy it) (in_MarketTicker it) True (pe_now pe) (wd_gates d)\<rparr> in
      upd (pe_final pe) i StatusFilled
        (no_opts\<lparr>uo_FillCount := fillCount, uo_FillPriceCents := fillPrice\<rparr>) d)"

definition kelly_fraction :: "Worker \<Rightarrow> string \<Rightarrow> float64" where
  "kelly_fraction w strategy =
     (case wk_perStrategyFraction w strategy of Some f \<Rightarrow> f | None \<Rightarrow> wk_kellyFrac w)"

definition intent_contracts :: "Worker \<Rightarrow> Intent \<Rightarrow> int" where
  "intent_contracts w it =
     KellyContracts (in_ConvProbBps it) (in_PriceCents it) (wk_bankroll w)
       (kelly_fraction w (in_Strategy it)) (wk_legacySizing w)"

text \<open>Gates, sizing and acceptance of a persisted intent.\<close>

definition gate_and_size ::
  "Worker \<Rightarrow> penv \<Rightarrow> Intent \<Rightarrow> int \<Rightarrow> world \<Rightarrow> world \<times> order_error option" where
  "gate_and_size w pe it i d =
     (let isPaper = \<not> realTradingEnabled w;
          gateReason = Evaluate (wd_gates d) (in_Strategy it) (in_PriceCents it) (in_MarketTicker it) isPaper (pe_now pe);
          contracts = intent_contracts w it in
      if gateReason \<noteq> [] then upd (pe_gated pe) i StatusGated (no_opts\<lparr>uo_GateReason := gateReason\<rparr>) d
      else if contracts \<le> 0 then
        upd (pe_gated pe) i StatusGated (no_opts\<lparr>uo_GateReason := GateInsufficientBalance\<rparr>) d
      else
        (case upd (pe_accepted pe) i StatusAccepted no_opts d of
           (d1, Some err) \<Rightarrow> (d1, Some err)
         | (d1, None) \<Rightarrow>
             (let d2 = d1\<lparr>wd_gates := OnOrderAccepted (in_MarketTicker it) (wd_gates d1)\<rparr> in
              if isPaper then paper_path w pe it i contracts d2
              else real_path pe it i contracts d2)))"

definition intent_record :: "Worker \<Rightarrow> penv \<Rightarrow> Intent \<Rightarrow> OrderRecord" where
  "intent_record w pe it =
     \<lparr>od_ID = 0, od_ClientOrderID = pe_uuid pe, od_TSIntent = UnixMilli (pe_now pe),
      od_TSSubmitted = None, od_TSAcked = None, od_EventTicker = [],
      od_MarketTicker = in_MarketTicker it, od_Strategy = in_Strategy it, od_Action = in_Action it,
      od_Contracts = 0, od_PriceCents = in_PriceCents it, od_ConvProbBps = in_ConvProbBps it,
      od_Reason = in_Reason it, od_Status = StatusIntent, od_GateReason = [],
      od_IsPaper = (\<not> realTradingEnabled w), od_KalshiOrderID = [], od_FillCount = 0,
      od_FillPriceCents = 0\<rparr>"

definition log_features :: "Worker \<Rightarrow> penv \<Rightarrow> Intent \<Rightarrow> int \<Rightarrow> world \<Rightarrow> world" where
  "log_features w pe it i d =
     (if wk_featureRepo w \<and> in_FeatureHash it \<noteq> []
      then d\<lparr>wd_features := fst (LogFeatures (pe_features pe) i
             \<lparr>fl_FeatureHash = in_FeatureHash it, fl_Features = in_Features it,
              fl_ModelID = in_ModelID it, fl_Propensity = in_Propensity it\<rparr> (wd_features d))\<rparr>
      else d)"

definition processIntent :: "Worker \<Rightarrow> penv \<Rightarrow> Intent \<Rightarrow> world \<Rightarrow> world \<times> order_error option" where
  "processIntent w pe it d =
     (case Orders_Insert (pe_insert pe) (intent_record w pe it) (wd_orders d) of
        (_, Inl err) \<Rightarrow> (d, Some err)
      | (odb, Inr i) \<Rightarrow> gate_and_size w pe it i (log_features w pe it i (d\<lparr>wd_orders := odb\<rparr>)))"

section \<open>The reconciler\<close>

text \<open>\<open>reconcileOrder\<close> is a stub in the source: it does nothing and returns no error.\<close>

definition reconcileOrder :: "OrderRecord \<Rightarrow> world \<Rightarrow> world \<times> order_error option" where
  "reconcileOrder o' d = (d, None)"

definition reconcilePass :: "db_fault \<Rightarrow> int \<Rightarrow> int \<Rightarrow> world \<Rightarrow> world \<times> order_error option" where
  "reconcilePass fault now staleAge d =
     (case Orders_GetStaleOrders fault now [StatusSubmitted, StatusPartial, StatusUnverified] staleAge (wd_orders d) of
        Inl err \<Rightarrow> (d, Some err)
      | Inr os \<Rightarrow> (fold (\<lambda>o' d. fst (reconcileOrder o' d)) os d, None))"

section \<open>Invariants in every environment\<close>

lemma upd_frame [simp]:
  "wd_gates (fst (upd env i st opts d)) = wd_gates d"
  "wd_ledger (fst (upd env i st opts d)) = wd_ledger d"
  "wd_features (fst (upd env i st opts d)) = wd_features d"
  "wd_sent (fst (upd env i st opts d)) = wd_sent d"
  "wd_orders (fst (upd env i st opts d)) = fst (Orders_UpdateStatus env i st opts (wd_orders d))"
  by (simp_all add: upd_def case_prod_beta)

lemma snd_upd [simp]: "snd (upd env i st opts d) = snd (Orders_UpdateStatus env i st opts (wd_orders d))"
  by (simp add: upd_def case_prod_beta)

definition world_inv :: "world \<Rightarrow> bool" where
  "world_inv d \<longleftrightarrow> ledger_inv (wd_ledger d) \<and> orders_inv (wd_orders d) \<and> gates_inv (wd_gates d)"

lemma settle_fill_inv: "ledger_inv db \<Longrightarrow> ledger_inv (settle_fill pe i spend resp db)"
  by (simp add: settle_fill_def Let_def repo_ops_inv)

lemma handle_response_inv:
  "world_inv d \<Longrightarrow> world_inv (fst (handle_response pe it i spend resp d))"
  by (simp add: handle_response_def Let_def world_inv_def settle_fill_inv repo_ops_inv gates_inv_ops
      UpdateStatus_inv)

lemma paper_path_frame:
  "wd_ledger (fst (paper_path w pe it i n d)) = wd_ledger d"
  "wd_sent (fst (paper_path w pe it i n d)) = wd_sent d"
  "wd_features (fst (paper_path w pe it i n d)) = wd_features d"
  "wd_gates (fst (paper_path w pe it i n d)) =
     OnOrderTerminal (in_Strategy it) (in_MarketTicker it) True (pe_now pe) (wd_gates d)"
  by (simp_all add: paper_path_def Let_def split: prod.splits)

lemma paper_path_inv: "world_inv d \<Longrightarrow> world_inv (fst (paper_path w pe it i n d))"
  by (simp add: paper_path_def Let_def world_inv_def gates_inv_ops UpdateStatus_inv split: prod.splits)

lemma fst_case_res [simp]:
  "fst (case r of (d, None) \<Rightarrow> f d | (d, Some e) \<Rightarrow> (d, Some e)) =
     (if snd r = None then fst (f (fst r)) else fst r)"
  by (cases r; cases "snd r") auto

lemma snd_case_res [simp]:
  "snd (case r of (d, None) \<Rightarrow> f d | (d, Some e) \<Rightarrow> (d, Some e)) =
     (if snd r = None then snd (f (fst r)) else snd r)"
  by (cases r; cases "snd r") auto

text \<open>The real path, one equation per branch.\<close>

definition order_request :: "penv \<Rightarrow> Intent \<Rightarrow> int \<Rightarrow> CreateOrderRequest" where
  "order_request pe it contracts =
     \<lparr>cr_ClientOrderID = pe_uuid pe, cr_MarketTicker = in_MarketTicker it, cr_Action = in_Action it,
      cr_Contracts = contracts, cr_PriceCents = in_PriceCents it\<rparr>"

lemma real_path_cases:
  obtains
    (no_hold) err where
      "snd (Repo_HoldForOrder (pe_hold pe) i (wrap64 (n * in_PriceCents it)) (wd_ledger d)) = Some err"
      "real_path pe it i n d = upd (pe_gated pe) i StatusGated (no_opts\<lparr>uo_GateReason := GateInsufficientBalance\<rparr>)
         (d\<lparr>wd_gates := OnOrderTerminal (in_Strategy it) (in_MarketTicker it) False (pe_now pe) (wd_gates d)\<rparr>)"
  | (not_held) ldb d1 err where
      "Repo_HoldForOrder (pe_hold pe) i (wrap64 (n * in_PriceCents it)) (wd_ledger d) = (ldb, None)"
      "upd (pe_held pe) i StatusHeld no_opts (d\<lparr>wd_ledger := ldb\<rparr>) = (d1, Some err)"
      "real_path pe it i n d = (d1, Some err)"
  | (refused) ldb d1 msg where
      "Repo_HoldForOrder (pe_hold pe) i (wrap64 (n * in_PriceCents it)) (wd_ledger d) = (ldb, None)"
      "upd (pe_held pe) i StatusHeld no_opts (d\<lparr>wd_ledger := ldb\<rparr>) = (d1, None)"
      "pe_exchange pe (order_request pe it n) = Inl msg"
      "real_path pe it i n d = upd (pe_final pe) i StatusFailed no_opts
         (fst (upd (pe_submitted pe) i StatusSubmitted (no_opts\<lparr>uo_TSSubmitted := Some (UnixMilli (pe_now pe))\<rparr>)
           (d1\<lparr>wd_sent := wd_sent d @ [order_request pe it n],
               wd_ledger := fst (Repo_ReleaseHold (pe_release pe) i (wrap64 (n * in_PriceCents it)) ldb),
               wd_gates := OnOrderTerminal (in_Strategy it) (in_MarketTicker it) False (pe_now pe) (wd_gates d)\<rparr>)))"
  | (not_submitted) ldb d1 resp d2 err where
      "Repo_HoldForOrder (pe_hold pe) i (wrap64 (n * in_PriceCents it)) (wd_ledger d) = (ldb, None)"
      "upd (pe_held pe) i StatusHeld no_opts (d\<lparr>wd_ledger := ldb\<rparr>) = (d1, None)"
      "pe_exchange pe (order_request pe it n) = Inr resp"
      "upd (pe_submitted pe) i StatusSubmitted (no_opts\<lparr>uo_TSSubmitted := Some (UnixMilli (pe_now pe))\<rparr>)
         (d1\<lparr>wd_sent := wd_sent d @ [order_request pe it n]\<rparr>) = (d2, Some err)"
      "real_path pe it i n d = (d2, Some err)"
  | (answered) ldb d1 resp d2 where
      "Repo_HoldForOrder (pe_hold pe) i (wrap64 (n * in_PriceCents it)) (wd_ledger d) = (ldb, None)"
      "upd (pe_held pe) i StatusHeld no_opts (d\<lparr>wd_ledger := ldb\<rparr>) = (d1, None)"
      "pe_exchange pe (order_request pe it n) = Inr resp"
      "upd (pe_submitted pe) i StatusSubmitted (no_opts\<lparr>uo_TSSubmitted := Some (UnixMilli (pe_now pe))\<rparr>)
         (d1\<lparr>wd_sent := wd_sent d @ [order_request pe it n]\<rparr>) = (d2, None)"
      "real_path pe it i n d = handle_response pe it i (wrap64 (n * in_PriceCents it)) resp d2"
proof -
  have fr: "wd_sent d1 = wd_sent d" "wd_gates d1 = wd_gates d" "wd_ledger d1 = ldb"
    if "upd (pe_held pe) i StatusHeld no_opts (d\<lparr>wd_ledger := ldb\<rparr>) = (d1, r)" for d1 r ldb
    using that upd_frame [of "pe_held pe" i StatusHeld no_opts "d\<lparr>wd_ledger := ldb\<rparr>"] by simp_all
  obtain ldb hr where h: "Repo_HoldForOrder (pe_hold pe) i (wrap64 (n * in_PriceCents it)) (wd_ledger d) = (ldb, hr)"
    by fastforce
  obtain d1 ur where u: "upd (pe_held pe) i StatusHeld no_opts (d\<lparr>wd_ledger := ldb\<rparr>) = (d1, ur)" by fastforce
  obtain d2 sr where s: "upd (pe_submitted pe) i StatusSubmitted (no_opts\<lparr>uo_TSSubmitted := Some (UnixMilli (pe_now pe))\<rparr>)
         (d1\<lparr>wd_sent := wd_sent d @ [order_request pe it n]\<rparr>) = (d2, sr)" by fastforce
  note rp = real_path_def [of pe it i n d] Let_def order_request_def
  show thesis
  proof (cases hr)
    case (Some err)
    with h no_hold show thesis by (simp add: rp)
  next
    case hn: None
    show thesis
    proof (cases ur)
      case (Some err)
      with h hn u not_held show thesis by (simp add: rp)
    next
      case un: None
      show thesis
      proof (cases "pe_exchange pe (order_request pe it n)")
        case (Inl msg)
        with h hn u un fr [OF u] refused show thesis by (simp add: rp)
      next
        case (Inr resp)
        show thesis
        proof (cases sr)
          case None
          with h hn u un s Inr fr [OF u] answered show thesis by (simp add: rp)
        next
          case (Some err)
          with h hn u un s Inr fr [OF u] not_submitted show thesis by (simp add: rp)
        qed
      qed
    qed
  qed
qed

lemma updD:
  assumes "upd env i st opts d = (d', r)"
  shows "wd_gates d' = wd_gates d" "wd_ledger d' = wd_ledger d" "wd_features d' = wd_features d"
    "wd_sent d' = wd_sent d" "Orders_UpdateStatus env i st opts (wd_orders d) = (wd_orders d', r)"
  using assms upd_frame [of env i st opts d] snd_upd [of env i st opts d] by (simp_all add: prod_eq_iff)

lemma world_inv_upd: "upd env i st opts d = (d', r) \<Longrightarrow> world_inv d \<Longrightarrow> world_inv d'"
  using updD [of env i st opts d d' r] UpdateStatus_inv [of "wd_orders d" env i st opts]
  by (simp add: world_inv_def)

lemma world_inv_fst_upd: "world_inv d \<Longrightarrow> world_inv (fst (upd env i st opts d))"
  by (rule world_inv_upd [OF prod.collapse [symmetric]])

lemma hold_inv: "Repo_HoldForOrder env i n db = (db', r) \<Longrightarrow> ledger_inv db \<Longrightarrow> ledger_inv db'"
  using repo_ops_inv(1) [of db env i n] by simp

lemma real_path_inv:
  assumes "world_inv d"
  shows "world_inv (fst (real_path pe it i n d))"
proof (cases rule: real_path_cases [of pe i n it d])
  case (no_hold err)
  with assms show ?thesis
    by (simp add: world_inv_fst_upd) (simp add: world_inv_def gates_inv_ops UpdateStatus_inv)
next
  case (not_held ldb d1 err)
  from assms hold_inv [OF not_held(1)] have "world_inv (d\<lparr>wd_ledger := ldb\<rparr>)" by (simp add: world_inv_def)
  with not_held show ?thesis by (simp add: world_inv_upd)
next
  case (refused ldb d1 msg)
  from assms hold_inv [OF refused(1)] have "world_inv (d\<lparr>wd_ledger := ldb\<rparr>)" by (simp add: world_inv_def)
  then have "world_inv d1" by (rule world_inv_upd [OF refused(2)])
  moreover have "ledger_inv ldb" "gates_inv (wd_gates d)"
    using assms hold_inv [OF refused(1)] by (simp_all add: world_inv_def)
  ultimately show ?thesis
    unfolding refused(4)
    by (intro world_inv_fst_upd) (simp add: world_inv_def repo_ops_inv gates_inv_ops)
next
  case (not_submitted ldb d1 resp d2 err)
  from assms hold_inv [OF not_submitted(1)] have "world_inv (d\<lparr>wd_ledger := ldb\<rparr>)" by (simp add: world_inv_def)
  then have "world_inv d1" by (rule world_inv_upd [OF not_submitted(2)])
  then have "world_inv (d1\<lparr>wd_sent := wd_sent d @ [order_request pe it n]\<rparr>)" by (simp add: world_inv_def)
  with not_submitted show ?thesis by (simp add: world_inv_upd)
next
  case (answered ldb d1 resp d2)
  from assms hold_inv [OF answered(1)] have "world_inv (d\<lparr>wd_ledger := ldb\<rparr>)" by (simp add: world_inv_def)
  then have "world_inv d1" by (rule world_inv_upd [OF answered(2)])
  then have "world_inv (d1\<lparr>wd_sent := wd_sent d @ [order_request pe it n]\<rparr>)" by (simp add: world_inv_def)
  then have "world_inv d2" by (rule world_inv_upd [OF answered(4)])
  then show ?thesis unfolding answered(5) by (rule handle_response_inv)
qed

text \<open>Gating, then acceptance: the branches before the two paths.\<close>

lemma gate_and_size_cases:
  obtains
    (gated) reason where "reason \<noteq> []"
      "gate_and_size w pe it i d = upd (pe_gated pe) i StatusGated (no_opts\<lparr>uo_GateReason := reason\<rparr>) d"
  | (not_accepted) d1 err where
      "upd (pe_accepted pe) i StatusAccepted no_opts d = (d1, Some err)"
      "gate_and_size w pe it i d = (d1, Some err)"
  | (paper) d1 where "\<not> realTradingEnabled w" "0 < intent_contracts w it"
      "upd (pe_accepted pe) i StatusAccepted no_opts d = (d1, None)"
      "gate_and_size w pe it i d = paper_path w pe it i (intent_contracts w it)
         (d1\<lparr>wd_gates := OnOrderAccepted (in_MarketTicker it) (wd_gates d)\<rparr>)"
  | (real) d1 where "realTradingEnabled w" "0 < intent_contracts w it"
      "Evaluate (wd_gates d) (in_Strategy it) (in_PriceCents it) (in_MarketTicker it) False (pe_now pe) = []"
      "upd (pe_accepted pe) i StatusAccepted no_opts d = (d1, None)"
      "gate_and_size w pe it i d = real_path pe it i (intent_contracts w it)
         (d1\<lparr>wd_gates := OnOrderAccepted (in_MarketTicker it) (wd_gates d)\<rparr>)"
proof -
  obtain d1 r where u: "upd (pe_accepted pe) i StatusAccepted no_opts d = (d1, r)" by fastforce
  let ?reason = "Evaluate (wd_gates d) (in_Strategy it) (in_PriceCents it) (in_MarketTicker it)
    (\<not> realTradingEnabled w) (pe_now pe)"
  note gs = gate_and_size_def [of w pe it i d] Let_def
  consider "?reason \<noteq> []" | "?reason = []" "intent_contracts w it \<le> 0"
    | "?reason = []" "0 < intent_contracts w it" by linarith
  then show thesis
  proof cases
    case 1
    with gated [of ?reason] show thesis by (simp add: gs)
  next
    case 2
    with gated [of GateInsufficientBalance] show thesis by (simp add: gs)
  next
    case 3
    with u updD(1) [OF u] not_accepted paper real show thesis
      by (cases r; cases "realTradingEnabled w") (simp_all add: gs)
  qed
qed

lemma gate_and_size_inv:
  assumes "world_inv d"
  shows "world_inv (fst (gate_and_size w pe it i d))"
proof (cases rule: gate_and_size_cases [of w pe it i d])
  case (gated reason)
  with assms show ?thesis by (simp add: world_inv_fst_upd)
next
  case (not_accepted d1 err)
  with assms show ?thesis by (simp add: world_inv_upd)
next
  case (paper d1)
  have "world_inv d1" using assms by (rule world_inv_upd [OF paper(3)])
  then show ?thesis unfolding paper(4)
    using assms by (intro paper_path_inv) (simp add: world_inv_def gates_inv_ops)
next
  case (real d1)
  have "world_inv d1" using assms by (rule world_inv_upd [OF real(4)])
  then show ?thesis unfolding real(5)
    using assms by (intro real_path_inv) (simp add: world_inv_def gates_inv_ops)
qed

lemma log_features_frame [simp]:
  "wd_gates (log_features w pe it i d) = wd_gates d" "wd_ledger (log_features w pe it i d) = wd_ledger d"
  "wd_orders (log_features w pe it i d) = wd_orders d" "wd_sent (log_features w pe it i d) = wd_sent d"
  by (simp_all add: log_features_def)

lemma processIntent_cases:
  obtains (insert_failed) err where "processIntent w pe it d = (d, Some err)"
  | (inserted) odb i where
      "Orders_Insert (pe_insert pe) (intent_record w pe it) (wd_orders d) = (odb, Inr i)"
      "processIntent w pe it d = gate_and_size w pe it i (log_features w pe it i (d\<lparr>wd_orders := odb\<rparr>))"
proof -
  obtain odb r where "Orders_Insert (pe_insert pe) (intent_record w pe it) (wd_orders d) = (odb, r)" by fastforce
  with that show thesis by (cases r) (simp_all add: processIntent_def)
qed

lemma processIntent_inv: "world_inv d \<Longrightarrow> world_inv (fst (processIntent w pe it d))"
proof (cases rule: processIntent_cases [of w pe it d])
  case (inserted odb i)
  assume inv: "world_inv d"
  then have "orders_inv odb"
    using Insert_ok(1) [OF _ inserted(1)] by (simp add: world_inv_def)
  with inv have "world_inv (log_features w pe it i (d\<lparr>wd_orders := odb\<rparr>))" by (simp add: world_inv_def)
  then show ?thesis unfolding inserted(2) by (rule gate_and_size_inv)
qed simp

section \<open>What reaches the exchange\<close>

lemma handle_response_sent [simp]: "wd_sent (fst (handle_response pe it i spend resp d)) = wd_sent d"
  by (simp add: handle_response_def Let_def)

lemma real_path_sent:
  assumes inv: "ledger_inv (wd_ledger d)"
  shows "wd_sent (fst (real_path pe it i n d)) = wd_sent d \<or>
    wd_sent (fst (real_path pe it i n d)) = wd_sent d @ [order_request pe it n] \<and>
    wrap64 (n * in_PriceCents it) \<le> db_balance (wd_ledger d)"
proof (cases rule: real_path_cases [of pe i n it d])
  case (not_held ldb d1 err)
  then show ?thesis using updD(4) [OF not_held(2)] by simp
next
  case (refused ldb d1 msg)
  then show ?thesis using repo_port.hold_ok [OF inv refused(1)] by simp
next
  case (not_submitted ldb d1 resp d2 err)
  then show ?thesis using repo_port.hold_ok [OF inv not_submitted(1)] updD(4) [OF not_submitted(4)] by simp
next
  case (answered ldb d1 resp d2)
  then show ?thesis using repo_port.hold_ok [OF inv answered(1)] updD(4) [OF answered(4)] by simp
qed simp

lemma gate_and_size_sent:
  assumes inv: "ledger_inv (wd_ledger d)"
  shows "wd_sent (fst (gate_and_size w pe it i d)) = wd_sent d \<or>
    (realTradingEnabled w \<and> 0 < intent_contracts w it \<and>
     Evaluate (wd_gates d) (in_Strategy it) (in_PriceCents it) (in_MarketTicker it) False (pe_now pe) = [] \<and>
     wd_sent (fst (gate_and_size w pe it i d)) = wd_sent d @ [order_request pe it (intent_contracts w it)] \<and>
     wrap64 (intent_contracts w it * in_PriceCents it) \<le> db_balance (wd_ledger d))"
proof (cases rule: gate_and_size_cases [of w pe it i d])
  case (not_accepted d1 err)
  then show ?thesis using updD(4) [OF not_accepted(1)] by simp
next
  case (paper d1)
  then show ?thesis using updD(4) [OF paper(3)] by (simp add: paper_path_frame)
next
  case (real d1)
  let ?d = "d1\<lparr>wd_gates := OnOrderAccepted (in_MarketTicker it) (wd_gates d)\<rparr>"
  have "wd_ledger ?d = wd_ledger d" "wd_sent ?d = wd_sent d" using updD [OF real(4)] by simp_all
  with real_path_sent [of ?d pe it i "intent_contracts w it"] inv real show ?thesis by auto
qed simp

text \<open>
  C1. In every environment (any database failures, any exchange behaviour), processing an intent
  sends at most one request to the exchange, and sends it only in real mode, after every gate has
  passed, for a positive number of contracts, with the intent's own ticker, action and price, and
  with the cost of the request covered by the pool balance, which the hold has reserved.
\<close>
theorem exchange_only_after_gates_and_hold:
  assumes "world_inv d" "processIntent w pe it d = (d', r)"
  shows "wd_sent d' = wd_sent d \<or>
    (realTradingEnabled w \<and> 0 < intent_contracts w it \<and>
     Evaluate (wd_gates d) (in_Strategy it) (in_PriceCents it) (in_MarketTicker it) False (pe_now pe) = [] \<and>
     wd_sent d' = wd_sent d @
       [\<lparr>cr_ClientOrderID = pe_uuid pe, cr_MarketTicker = in_MarketTicker it, cr_Action = in_Action it,
         cr_Contracts = intent_contracts w it, cr_PriceCents = in_PriceCents it\<rparr>] \<and>
     wrap64 (intent_contracts w it * in_PriceCents it) \<le> db_balance (wd_ledger d))"
proof (cases rule: processIntent_cases [of w pe it d])
  case (insert_failed err)
  with assms(2) show ?thesis by simp
next
  case (inserted odb i)
  let ?d = "log_features w pe it i (d\<lparr>wd_orders := odb\<rparr>)"
  have "ledger_inv (wd_ledger ?d)" using assms(1) by (simp add: world_inv_def)
  moreover have "d' = fst (gate_and_size w pe it i ?d)" using assms(2) inserted(2) by (metis fst_conv)
  ultimately show ?thesis
    using gate_and_size_sent [of ?d w pe it i] by (simp add: order_request_def)
qed

lemma gate_and_size_paper:
  assumes "\<not> realTradingEnabled w"
  shows "wd_ledger (fst (gate_and_size w pe it i d)) = wd_ledger d \<and>
    wd_sent (fst (gate_and_size w pe it i d)) = wd_sent d"
proof (cases rule: gate_and_size_cases [of w pe it i d])
  case (not_accepted d1 err)
  then show ?thesis using updD [OF not_accepted(1)] by simp
next
  case (paper d1)
  then show ?thesis using updD [OF paper(3)] by (simp add: paper_path_frame)
qed (use assms in simp_all)

text \<open>
  Paper trading is harmless: without an exchange, processing an intent in any environment
  leaves the ledger untouched and sends nothing to an exchange.
\<close>
theorem paper_never_touches_money:
  assumes "\<not> realTradingEnabled w" "processIntent w pe it d = (d', r)"
  shows "wd_ledger d' = wd_ledger d \<and> wd_sent d' = wd_sent d"
proof (cases rule: processIntent_cases [of w pe it d])
  case (insert_failed err)
  with assms(2) show ?thesis by simp
next
  case (inserted odb i)
  let ?d = "log_features w pe it i (d\<lparr>wd_orders := odb\<rparr>)"
  have "d' = fst (gate_and_size w pe it i ?d)" using assms(2) inserted(2) by (metis fst_conv)
  with gate_and_size_paper [OF assms(1), of pe it i ?d] show ?thesis by simp
qed

section \<open>Outcome without database failures\<close>

definition quiet :: "penv \<Rightarrow> bool" where
  "quiet pe \<longleftrightarrow>
     list_all (\<lambda>e. tx_fault e = NoFault)
       [pe_insert pe, pe_gated pe, pe_accepted pe, pe_hold pe, pe_held pe, pe_submitted pe,
        pe_release pe, pe_fill pe, pe_final pe]"

definition intent_ok :: "Worker \<Rightarrow> Intent \<Rightarrow> bool" where
  "intent_ok w it \<longleftrightarrow>
     0 \<le> in_ConvProbBps it \<and> in_ConvProbBps it \<le> 10000 \<and> in_int32 (in_PriceCents it) \<and>
     \<not> wk_legacySizing w \<and> wk_bankroll w < 2 ^ 31 \<and>
     (case kelly_fraction w (in_Strategy it) of Fin f \<Rightarrow> 0 < f \<and> f \<le> 1 | _ \<Rightarrow> False)"

lemma contracts_bounds:
  assumes "intent_ok w it" "0 < intent_contracts w it"
  shows "0 < in_PriceCents it" "in_PriceCents it < 100"
    "intent_contracts w it * in_PriceCents it \<le> wk_bankroll w" "intent_contracts w it < 2 ^ 31"
    "wrap64 (intent_contracts w it * in_PriceCents it) = intent_contracts w it * in_PriceCents it"
    "0 < intent_contracts w it * in_PriceCents it"
proof -
  let ?n = "intent_contracts w it" and ?c = "in_PriceCents it"
  obtain f where f: "kelly_fraction w (in_Strategy it) = Fin f" "0 < f" "f \<le> 1"
    using assms(1) by (auto simp: intent_ok_def split: float64.splits)
  have c53: "?c \<le> 2 ^ 53" using assms(1) by (simp add: intent_ok_def in_int32_def)
  have n: "?n = KellyContracts (in_ConvProbBps it) ?c (wk_bankroll w) (Fin f) False"
    using assms(1) f by (simp add: intent_contracts_def intent_ok_def)
  have nd: "\<not> (?c \<le> 0 \<or> wk_bankroll w \<le> 0 \<or> 100 \<le> ?c)"
    using KellyContracts_degenerate [OF _ c53] assms(2) n by (metis less_irrefl)
  then show c: "0 < ?c" "?c < 100" by auto
  from nd show le: "?n * ?c \<le> wk_bankroll w"
    using kelly_affordable [of "in_ConvProbBps it" ?c "wk_bankroll w" f] assms(1) f c c53
    by (simp add: n intent_ok_def)
  have "?n * 1 \<le> ?n * ?c" using assms(2) c by (intro mult_left_mono) auto
  with le assms(1) show "?n < 2 ^ 31" by (simp add: intent_ok_def)
  show pos: "0 < ?n * ?c" using assms(2) c by simp
  with le assms(1) show "wrap64 (?n * ?c) = ?n * ?c"
    by (intro wrap64_id) (simp add: int64_bounds intent_ok_def)
qed

text \<open>The exchange's answer and the paper book fit their columns.\<close>

definition answers_fit :: "Worker \<Rightarrow> penv \<Rightarrow> Intent \<Rightarrow> bool" where
  "answers_fit w pe it \<longleftrightarrow>
     (case pe_exchange pe (order_request pe it (intent_contracts w it)) of
        Inl _ \<Rightarrow> True
      | Inr resp \<Rightarrow> cp_FillCount resp < 2 ^ 31 \<and> cp_FillPriceCents resp < 2 ^ 31) \<and>
     (case wk_paperFill w of Realistic m \<Rightarrow> rf_SlippageCents m < 2 ^ 30 | Optimistic \<Rightarrow> True) \<and>
     (case pe_book pe (in_MarketTicker it) of Inr (Some b) \<Rightarrow> bs_BestAskCents b < 2 ^ 30 | _ \<Rightarrow> True)"

lemma legal_steps:
  "IsLegalTransition ''intent'' ''gated''" "IsLegalTransition ''intent'' ''accepted''"
  "IsLegalTransition ''accepted'' ''gated''" "IsLegalTransition ''accepted'' ''held''"
  "IsLegalTransition ''accepted'' ''filled''" "IsLegalTransition ''held'' ''submitted''"
  "IsLegalTransition ''submitted'' ''filled''" "IsLegalTransition ''submitted'' ''partial''"
  "IsLegalTransition ''submitted'' ''canceled''" "IsLegalTransition ''submitted'' ''unverified''"
  "IsLegalTransition ''submitted'' ''failed''"
  by (simp_all add: IsLegalTransition_def legalTransitions_def)

lemma no_opts_fit [simp]:
  "opts_fit no_opts" "opts_fit (no_opts\<lparr>uo_GateReason := s\<rparr>)" "opts_fit (no_opts\<lparr>uo_TSSubmitted := t\<rparr>)"
  "opts_fit (no_opts\<lparr>uo_KalshiOrderID := s, uo_TSAcked := t\<rparr>)"
  by (simp_all add: opts_fit_def no_opts_def)

text \<open>A quiet update moves the order to its new status and touches nothing else.\<close>

definition status_is :: "world \<Rightarrow> int \<Rightarrow> string \<Rightarrow> bool" where
  "status_is d i s \<longleftrightarrow> orders_inv (wd_orders d) \<and> map_option od_Status (order_of (wd_orders d) i) = Some s"

lemma quiet_upd:
  assumes "status_is d i s" "IsLegalTransition s st" "tx_fault env = NoFault" "opts_fit opts"
  shows "\<exists>d'. upd env i st opts d = (d', None) \<and> status_is d' i st \<and> wd_gates d' = wd_gates d \<and>
    wd_ledger d' = wd_ledger d"
proof -
  obtain d' r where u: "upd env i st opts d = (d', r)" by fastforce
  note o = updD(5) [OF u]
  obtain row where row: "order_of (wd_orders d) i = Some row" "od_Status row = s"
    and inv: "orders_inv (wd_orders d)" using assms(1) by (auto simp: status_is_def)
  have r: "r = None"
    using UpdateStatus_succeeds [OF inv row(1) _ assms(3,4), of st] assms(2) row(2) o by simp
  from UpdateStatus_ok [OF inv o [unfolded r]] have "status_is d' i st"
    by (metis apply_opts_status fun_upd_same option.map(2) status_is_def)
  with u r updD [OF u] show ?thesis by simp
qed

lemma handle_response_outcome:
  assumes "status_is d i ''submitted''" "tx_fault (pe_final pe) = NoFault"
    "cp_FillCount resp < 2 ^ 31" "cp_FillPriceCents resp < 2 ^ 31"
  shows "\<exists>d'. handle_response pe it i spend resp d = (d', None) \<and>
    status_is d' i (if cp_Status resp \<in> {''filled'', ''partial'', ''canceled''} then cp_Status resp else ''unverified'') \<and>
    wd_gates d' = OnOrderTerminal (in_Strategy it) (in_MarketTicker it)
      (cp_Status resp \<in> {''filled'', ''partial''}) (pe_now pe) (wd_gates d) \<and>
    wd_ledger d' =
      (if cp_Status resp \<in> {''filled'', ''partial''} then settle_fill pe i spend resp (wd_ledger d)
       else if cp_Status resp = ''canceled'' then fst (Repo_ReleaseHold (pe_release pe) i spend (wd_ledger d))
       else wd_ledger d)"
proof -
  have st: "status_is (d\<lparr>wd_ledger := l, wd_gates := g\<rparr>) i ''submitted''"
    "status_is (d\<lparr>wd_gates := g\<rparr>) i ''submitted''" for l g
    using assms(1) by (simp_all add: status_is_def)
  let ?fo = "\<lparr>uo_GateReason = [], uo_KalshiOrderID = cp_OrderID resp, uo_FillCount = cp_FillCount resp,
    uo_FillPriceCents = cp_FillPriceCents resp, uo_TSSubmitted = None, uo_TSAcked = Some (UnixMilli (pe_ack pe))\<rparr>"
  have fo: "opts_fit ?fo" using assms by (simp add: opts_fit_def)
  note q1 = quiet_upd [OF st(1) _ assms(2)] and q2 = quiet_upd [OF st(2) _ assms(2)]
  consider "cp_Status resp = ''filled''" | "cp_Status resp = ''partial''" | "cp_Status resp = ''canceled''"
    | "cp_Status resp \<notin> {''filled'', ''partial'', ''canceled''}" by auto
  then show ?thesis
  proof cases
    case 1
    with q1 [OF legal_steps(7) fo] show ?thesis by (simp add: handle_response_def Let_def)
  next
    case 2
    with q1 [OF legal_steps(8) fo] show ?thesis by (simp add: handle_response_def Let_def)
  next
    case 3
    with q1 [OF legal_steps(9) no_opts_fit(4)] show ?thesis by (simp add: handle_response_def Let_def)
  next
    case 4
    with q2 [OF legal_steps(10) no_opts_fit(4)] show ?thesis by (simp add: handle_response_def Let_def)
  qed
qed

lemma quiet_faults:
  assumes "quiet pe"
  shows "tx_fault (pe_insert pe) = NoFault" "tx_fault (pe_gated pe) = NoFault" "tx_fault (pe_accepted pe) = NoFault"
    "tx_fault (pe_hold pe) = NoFault" "tx_fault (pe_held pe) = NoFault" "tx_fault (pe_submitted pe) = NoFault"
    "tx_fault (pe_release pe) = NoFault" "tx_fault (pe_fill pe) = NoFault" "tx_fault (pe_final pe) = NoFault"
  using assms by (simp_all add: quiet_def)

lemma quiet_hold:
  assumes "ledger_inv db" "tx_fault env = NoFault" "0 < n" "n \<le> int64_max"
  shows "if n \<le> db_balance db
    then \<exists>db'. Repo_HoldForOrder env i n db = (db', None) \<and> ledger_inv db' \<and> db_balance db' = db_balance db - n
    else Repo_HoldForOrder env i n db = (db, Some ErrInsufficientBalance)"
proof -
  obtain b u where row: "pb_row db = Some (b, u)" "db_balance db = b" "0 \<le> b" "b \<le> int64_max"
    using assms(1) by (rule ledger_inv_row)
  have r: "in_int64 (b - n)" using row assms by (auto simp: int64_bounds)
  have "\<exists>db'. Repo_HoldForOrder env i n db = (db', None)" if "n \<le> b"
    using row r assms that by (simp add: repo_ops_defs ledger_tx_def update_balance_def)
  moreover have "Repo_HoldForOrder env i n db = (db, Some ErrInsufficientBalance)" if "\<not> n \<le> b"
    using row assms that by (simp add: repo_ops_defs ledger_tx_def update_balance_def)
  moreover have "ledger_inv db' \<and> db_balance db' = db_balance db - n"
    if "Repo_HoldForOrder env i n db = (db', None)" for db'
    using repo_port.hold_ok [OF assms(1) that] repo_port.hold_inv [OF assms(1), of env i n] that by simp
  ultimately show ?thesis using row by metis
qed

lemma quiet_release:
  assumes "ledger_inv db" "tx_fault env = NoFault" "0 \<le> n" "db_balance db + n \<le> int64_max"
  shows "\<exists>db'. Repo_ReleaseHold env i n db = (db', None) \<and> ledger_inv db' \<and> db_balance db' = db_balance db + n"
proof -
  obtain b u where row: "pb_row db = Some (b, u)" "db_balance db = b" "0 \<le> b" "b \<le> int64_max"
    using assms(1) by (rule ledger_inv_row)
  then have "in_int64 (b + n)" using assms by (auto simp: int64_bounds)
  then have "\<exists>db'. Repo_ReleaseHold env i n db = (db', None)"
    using row assms by (simp add: repo_ops_defs ledger_tx_def update_balance_def)
  then obtain db' where db': "Repo_ReleaseHold env i n db = (db', None)" by blast
  with repo_port.release_ok [OF assms(1) db'] repo_port.release_inv [OF assms(1), of env i n]
  show ?thesis by simp
qed

lemma quiet_fill:
  assumes "ledger_inv db" "tx_fault env = NoFault" "0 \<le> n"
  shows "ledger_inv (fst (Repo_RecordFill env i n db)) \<and>
    db_balance (fst (Repo_RecordFill env i n db)) = (if n \<le> db_balance db then db_balance db - n else db_balance db)"
proof -
  obtain b u where row: "pb_row db = Some (b, u)" "db_balance db = b" "0 \<le> b" "b \<le> int64_max"
    using assms(1) by (rule ledger_inv_row)
  have "db_balance (fst (Repo_RecordFill env i n db)) = (if n \<le> b then b - n else b)"
    using row assms
    by (auto simp: repo_ops_defs ledger_tx_def update_balance_def int64_bounds db_balance_def)
  with row repo_port.fill_inv [OF assms(1)] show ?thesis by simp
qed

text \<open>The net effect of a fill after its hold: the fill cost leaves the pool twice, or, if the pool
  cannot pay it a second time, the second debit is refused and its error discarded.\<close>

lemma settle_fill_balance:
  assumes inv: "ledger_inv db" and q: "tx_fault (pe_release pe) = NoFault" "tx_fault (pe_fill pe) = NoFault"
    and F: "F = cp_FillCount resp * cp_FillPriceCents resp" "0 \<le> F" "F \<le> S"
    and S: "db_balance db + S \<le> int64_max"
  shows "db_balance (settle_fill pe i S resp db) =
    (let b = db_balance db + S in if 2 * F \<le> b then b - 2 * F else b - F)"
proof -
  have b: "0 \<le> db_balance db" using inv by (simp add: ledger_inv_def)
  have w: "wrap64 F = F" "wrap64 (S - F) = S - F" using F S b by (auto intro!: wrap64_id simp: int64_bounds)
  obtain db1 where db1: "Repo_ReleaseHold (pe_release pe) i (S - F) db = (db1, None)" "ledger_inv db1"
    "db_balance db1 = db_balance db + (S - F)"
    using quiet_release [OF inv q(1), of "S - F" i] F S by auto
  have "settle_fill pe i S resp db =
      fst (Repo_RecordFill (pe_fill pe) i F (if S - F > 0 then db1 else db))"
    using db1 w by (simp add: settle_fill_def Let_def F(1) [symmetric])
  moreover have "db_balance (fst (Repo_RecordFill (pe_fill pe) i F (if S - F > 0 then db1 else db))) =
      (if F \<le> db_balance db + (S - F) then db_balance db + (S - F) - F else db_balance db + (S - F))"
    using quiet_fill [OF db1(2) q(2) F(2), of i] quiet_fill [OF inv q(2) F(2), of i] db1(3) F(3) by auto
  ultimately show ?thesis by (auto simp: Let_def)
qed

text \<open>The balance after the real path, by outcome.\<close>

definition real_balance :: "int \<Rightarrow> int \<Rightarrow> (string + CreateOrderResponse) \<Rightarrow> int" where
  "real_balance b S answer =
     (if b < S then b
      else
        (case answer of
           Inl _ \<Rightarrow> b
         | Inr resp \<Rightarrow>
             (if cp_Status resp \<in> {''filled'', ''partial''} then
                (let F = cp_FillCount resp * cp_FillPriceCents resp in
                 if 2 * F \<le> b then b - 2 * F else b - F)
              else if cp_Status resp = ''canceled'' then b
              else b - S)))"

definition answer_ok :: "int \<Rightarrow> (string + CreateOrderResponse) \<Rightarrow> bool" where
  "answer_ok S answer \<longleftrightarrow>
     (case answer of
        Inl _ \<Rightarrow> True
      | Inr resp \<Rightarrow> cp_FillCount resp < 2 ^ 31 \<and> cp_FillPriceCents resp < 2 ^ 31 \<and>
          0 \<le> cp_FillCount resp * cp_FillPriceCents resp \<and> cp_FillCount resp * cp_FillPriceCents resp \<le> S)"

definition real_status :: "int \<Rightarrow> int \<Rightarrow> (string + CreateOrderResponse) \<Rightarrow> string" where
  "real_status b S answer =
     (if b < S then StatusGated
      else
        (case answer of
           Inl _ \<Rightarrow> StatusFailed
         | Inr resp \<Rightarrow>
             (if cp_Status resp \<in> {''filled'', ''partial'', ''canceled''} then cp_Status resp
              else StatusUnverified)))"

text \<open>The situation between a successful hold and the exchange's answer.\<close>

lemma held_facts:
  assumes st: "status_is d i ''accepted''" and q: "quiet pe" and inv: "ledger_inv (wd_ledger d)"
    and S: "0 < S" "S \<le> int64_max"
    and h: "Repo_HoldForOrder (pe_hold pe) i S (wd_ledger d) = (ldb, None)"
    and u: "upd (pe_held pe) i StatusHeld no_opts (d\<lparr>wd_ledger := ldb\<rparr>) = (d1, r)"
  shows "r = None" "status_is (d1\<lparr>wd_sent := x\<rparr>) i ''held''" "wd_gates d1 = wd_gates d" "wd_ledger d1 = ldb"
    "ledger_inv ldb" "db_balance ldb + S = db_balance (wd_ledger d)" "S \<le> db_balance (wd_ledger d)"
    "db_balance (wd_ledger d) \<le> int64_max"
    "db_balance (fst (Repo_ReleaseHold (pe_release pe) i S ldb)) = db_balance (wd_ledger d)"
proof -
  have "status_is (d\<lparr>wd_ledger := ldb\<rparr>) i ''accepted''" using st by (simp add: status_is_def)
  from quiet_upd [OF this legal_steps(4) quiet_faults(5) [OF q] no_opts_fit(1)] u
  show "r = None" "status_is (d1\<lparr>wd_sent := x\<rparr>) i ''held''" "wd_gates d1 = wd_gates d" "wd_ledger d1 = ldb"
    by (simp_all add: status_is_def)
  show mx: "db_balance (wd_ledger d) \<le> int64_max" using inv by (simp add: ledger_inv_def)
  show l: "ledger_inv ldb" "db_balance ldb + S = db_balance (wd_ledger d)" "S \<le> db_balance (wd_ledger d)"
    using quiet_hold [OF inv quiet_faults(4) [OF q] S, of i] h by (auto split: if_splits)
  show "db_balance (fst (Repo_ReleaseHold (pe_release pe) i S ldb)) = db_balance (wd_ledger d)"
    using quiet_release [OF l(1) quiet_faults(7) [OF q], of S i] S l(2) mx by auto
qed

text \<open>\<open>outcome d i S it pe d'\<close>: the order ends in the status, and the pool at the balance, that the
  exchange's answer calls for, and the market's slot has been given back.\<close>

definition outcome_ok :: "world \<Rightarrow> int \<Rightarrow> int \<Rightarrow> Intent \<Rightarrow> penv \<Rightarrow> (string + CreateOrderResponse) \<Rightarrow> world \<Rightarrow> bool" where
  "outcome_ok d i S it pe answer d' \<longleftrightarrow>
     status_is d' i (real_status (db_balance (wd_ledger d)) S answer) \<and>
     (\<exists>filled. wd_gates d' = OnOrderTerminal (in_Strategy it) (in_MarketTicker it) filled (pe_now pe) (wd_gates d)) \<and>
     db_balance (wd_ledger d') = real_balance (db_balance (wd_ledger d)) S answer"

lemma real_path_answered:
  assumes st: "status_is d i ''accepted''" and q: "quiet pe" and inv: "ledger_inv (wd_ledger d)"
    and S: "0 < S" "S \<le> int64_max" and ans: "answer_ok S (Inr resp)"
    and h: "Repo_HoldForOrder (pe_hold pe) i S (wd_ledger d) = (ldb, None)"
    and u: "upd (pe_held pe) i StatusHeld no_opts (d\<lparr>wd_ledger := ldb\<rparr>) = (d1, None)"
    and s: "upd (pe_submitted pe) i StatusSubmitted (no_opts\<lparr>uo_TSSubmitted := Some t\<rparr>) (d1\<lparr>wd_sent := x\<rparr>) = (d2, r)"
  shows "r = None \<and> (\<exists>d'. handle_response pe it i S resp d2 = (d', None) \<and> outcome_ok d i S it pe (Inr resp) d')"
proof -
  note f = held_facts [OF st q inv S h u]
  from quiet_upd [OF f(2) [of x] legal_steps(6) quiet_faults(6) [OF q] no_opts_fit(3) [of "Some t"]] s
  have d2: "r = None" "status_is d2 i ''submitted''" "wd_gates d2 = wd_gates d" "wd_ledger d2 = ldb"
    using f by simp_all
  have r: "cp_FillCount resp < 2 ^ 31" "cp_FillPriceCents resp < 2 ^ 31"
    "0 \<le> cp_FillCount resp * cp_FillPriceCents resp" "cp_FillCount resp * cp_FillPriceCents resp \<le> S"
    using ans by (simp_all add: answer_ok_def)
  have sf: "db_balance (settle_fill pe i S resp ldb) =
      (let F = cp_FillCount resp * cp_FillPriceCents resp; b = db_balance (wd_ledger d) in
       if 2 * F \<le> b then b - 2 * F else b - F)"
    using settle_fill_balance [OF f(5) quiet_faults(7,8) [OF q] refl r(3,4), of i] f(6,8) by (simp add: Let_def)
  from handle_response_outcome [OF d2(2) quiet_faults(9) [OF q] r(1,2), of it S] d2 f sf
  show ?thesis by (auto simp: outcome_ok_def real_status_def real_balance_def Let_def)
qed

lemma real_path_refused:
  assumes st: "status_is d i ''accepted''" and q: "quiet pe" and inv: "ledger_inv (wd_ledger d)"
    and S: "0 < S" "S \<le> int64_max"
    and h: "Repo_HoldForOrder (pe_hold pe) i S (wd_ledger d) = (ldb, None)"
    and u: "upd (pe_held pe) i StatusHeld no_opts (d\<lparr>wd_ledger := ldb\<rparr>) = (d1, None)"
  shows "\<exists>d'. upd (pe_final pe) i StatusFailed no_opts
         (fst (upd (pe_submitted pe) i StatusSubmitted (no_opts\<lparr>uo_TSSubmitted := Some t\<rparr>)
           (d1\<lparr>wd_sent := x, wd_ledger := fst (Repo_ReleaseHold (pe_release pe) i S ldb),
               wd_gates := OnOrderTerminal (in_Strategy it) (in_MarketTicker it) False (pe_now pe) (wd_gates d)\<rparr>)))
      = (d', None) \<and> outcome_ok d i S it pe (Inl msg) d'"
proof -
  note f = held_facts [OF st q inv S h u]
  let ?d = "d1\<lparr>wd_sent := x, wd_ledger := fst (Repo_ReleaseHold (pe_release pe) i S ldb),
    wd_gates := OnOrderTerminal (in_Strategy it) (in_MarketTicker it) False (pe_now pe) (wd_gates d)\<rparr>"
  have "status_is ?d i ''held''" using f(2) by (simp add: status_is_def)
  from quiet_upd [OF this legal_steps(6) quiet_faults(6) [OF q] no_opts_fit(3), of "Some t"]
  obtain d3 where d3: "upd (pe_submitted pe) i StatusSubmitted (no_opts\<lparr>uo_TSSubmitted := Some t\<rparr>) ?d = (d3, None)"
    "status_is d3 i ''submitted''" "wd_gates d3 = wd_gates ?d" "wd_ledger d3 = wd_ledger ?d" by auto
  from quiet_upd [OF d3(2) legal_steps(11) quiet_faults(9) [OF q] no_opts_fit(1)] d3 f
  show ?thesis by (auto simp: outcome_ok_def real_status_def real_balance_def)
qed

lemma real_path_outcome:
  assumes st: "status_is d i ''accepted''" and q: "quiet pe" and inv: "ledger_inv (wd_ledger d)"
    and S: "wrap64 (n * in_PriceCents it) = S" "0 < S" "S \<le> int64_max"
    and ans: "answer_ok S (pe_exchange pe (order_request pe it n))"
  shows "\<exists>d'. real_path pe it i n d = (d', None) \<and>
    outcome_ok d i S it pe (pe_exchange pe (order_request pe it n)) d'"
proof (cases rule: real_path_cases [of pe i n it d])
  case (no_hold err)
  let ?g = "OnOrderTerminal (in_Strategy it) (in_MarketTicker it) False (pe_now pe) (wd_gates d)"
  have "status_is (d\<lparr>wd_gates := ?g\<rparr>) i ''accepted''" using st by (simp add: status_is_def)
  from quiet_upd [OF this legal_steps(3) quiet_faults(2) [OF q] no_opts_fit(2), of GateInsufficientBalance]
  obtain d' where "real_path pe it i n d = (d', None)" "status_is d' i ''gated''"
    "wd_gates d' = ?g" "wd_ledger d' = wd_ledger d" using no_hold(2) by auto
  moreover have "db_balance (wd_ledger d) < S"
    using quiet_hold [OF inv quiet_faults(4) [OF q] S(2,3), of i] no_hold(1) S(1) by (auto split: if_splits)
  ultimately show ?thesis by (auto simp: outcome_ok_def real_status_def real_balance_def)
next
  case (not_held ldb d1 err)
  from held_facts(1) [OF st q inv S(2,3) not_held(1) [unfolded S(1)] not_held(2)] show ?thesis by simp
next
  case (refused ldb d1 msg)
  from real_path_refused [OF st q inv S(2,3) refused(1) [unfolded S(1)] refused(2)] refused(3,4) S(1)
  show ?thesis by simp
next
  case (not_submitted ldb d1 resp d2 err)
  from real_path_answered [OF st q inv S(2,3) _ not_submitted(1) [unfolded S(1)] not_submitted(2,4), of resp it]
    not_submitted(3) ans show ?thesis by simp
next
  case (answered ldb d1 resp d2)
  from real_path_answered [OF st q inv S(2,3) _ answered(1) [unfolded S(1)] answered(2,4), of resp it]
    answered(3,5) ans S(1) show ?thesis by simp
qed

lemma paper_fit:
  assumes "answers_fit w pe it" "0 < n" "n < 2 ^ 31" "0 < in_PriceCents it" "in_PriceCents it < 100"
    "status_is d i ''accepted''" "quiet pe"
  shows "\<exists>d'. paper_path w pe it i n d = (d', None) \<and> status_is d' i ''filled'' \<and>
    wd_gates d' = OnOrderTerminal (in_Strategy it) (in_MarketTicker it) True (pe_now pe) (wd_gates d) \<and>
    wd_ledger d' = wd_ledger d"
proof -
  obtain ask sz where a: "(if wk_bookLookup w
             then (case pe_book pe (in_MarketTicker it) of
                     Inr (Some book) \<Rightarrow>
                       ((if bs_BestAskCents book > 0 then bs_BestAskCents book else in_PriceCents it),
                        (if bs_BestAskSize book > 0 then bs_BestAskSize book else n))
                   | _ \<Rightarrow> (in_PriceCents it, n))
             else (in_PriceCents it, n)) = (ask, sz)" by fastforce
  have ask: "ask < 2 ^ 30"
    using a assms(1,5) by (auto simp: answers_fit_def split: if_splits sum.splits option.splits)
  obtain fp fc fee where f: "FillPrice (wk_paperFill w) ask n sz = (fp, fc, fee)" by (metis prod_cases3)
  have fit: "fp < 2 ^ 31" "fc < 2 ^ 31"
    using f ask assms(1,3)
    by (cases "wk_paperFill w";
        auto simp: answers_fit_def Realistic_FillPrice_def Optimistic_FillPrice_def Let_def split: if_splits)+
  let ?d = "d\<lparr>wd_gates := OnOrderTerminal (in_Strategy it) (in_MarketTicker it) True (pe_now pe) (wd_gates d)\<rparr>"
  have "status_is ?d i ''accepted''" using assms(6) by (simp add: status_is_def)
  moreover have "opts_fit (no_opts\<lparr>uo_FillCount := fc, uo_FillPriceCents := fp\<rparr>)"
    using fit by (simp add: opts_fit_def)
  ultimately show ?thesis
    using quiet_upd [OF _ legal_steps(5) quiet_faults(9) [OF assms(7)], of ?d i]
    by (simp add: paper_path_def a f)
qed

lemma insert_intent:
  assumes inv: "orders_inv (wd_orders d)" and q: "quiet pe" and ok: "intent_ok w it"
  obtains odb i where "Orders_Insert (pe_insert pe) (intent_record w pe it) (wd_orders d) = (odb, Inr i)"
    "order_of (wd_orders d) i = None" "status_is (d\<lparr>wd_orders := odb\<rparr>) i ''intent''"
proof -
  have "\<exists>odb i. Orders_Insert (pe_insert pe) (intent_record w pe it) (wd_orders d) = (odb, Inr i)"
    using quiet_faults(1) [OF q] ok
    by (simp add: Orders_Insert_def Let_def row_fits_def intent_record_def intent_ok_def in_int32_def
        OrderRecord.defs orderRow.defs AllStatuses_def)
  then obtain odb i where o: "Orders_Insert (pe_insert pe) (intent_record w pe it) (wd_orders d) = (odb, Inr i)"
    by blast
  note io = Insert_ok [OF inv o]
  have "status_is (d\<lparr>wd_orders := odb\<rparr>) i ''intent''"
    using io by (simp add: status_is_def intent_record_def OrderRecord.defs)
  with o io show thesis using that by blast
qed

text \<open>The specification of one intent.\<close>

definition intent_status :: "Worker \<Rightarrow> penv \<Rightarrow> Intent \<Rightarrow> world \<Rightarrow> string" where
  "intent_status w pe it d =
     (if Evaluate (wd_gates d) (in_Strategy it) (in_PriceCents it) (in_MarketTicker it)
           (\<not> realTradingEnabled w) (pe_now pe) \<noteq> [] \<or> intent_contracts w it \<le> 0 then StatusGated
      else if \<not> realTradingEnabled w then StatusFilled
      else real_status (db_balance (wd_ledger d)) (intent_contracts w it * in_PriceCents it)
             (pe_exchange pe (order_request pe it (intent_contracts w it))))"

definition intent_balance :: "Worker \<Rightarrow> penv \<Rightarrow> Intent \<Rightarrow> world \<Rightarrow> int" where
  "intent_balance w pe it d =
     (if Evaluate (wd_gates d) (in_Strategy it) (in_PriceCents it) (in_MarketTicker it)
           (\<not> realTradingEnabled w) (pe_now pe) \<noteq> [] \<or> intent_contracts w it \<le> 0 \<or> \<not> realTradingEnabled w
      then db_balance (wd_ledger d)
      else real_balance (db_balance (wd_ledger d)) (intent_contracts w it * in_PriceCents it)
             (pe_exchange pe (order_request pe it (intent_contracts w it))))"

lemma gate_and_size_outcome:
  assumes st: "status_is d i ''intent''" and inv: "ledger_inv (wd_ledger d)" "gates_inv (wd_gates d)"
    and q: "quiet pe" and ok: "intent_ok w it" and fit: "answers_fit w pe it"
    and ans: "answer_ok (intent_contracts w it * in_PriceCents it) (pe_exchange pe (order_request pe it (intent_contracts w it)))"
  shows "\<exists>d'. gate_and_size w pe it i d = (d', None) \<and> status_is d' i (intent_status w pe it d) \<and>
    lookup0 (ga_activePerMarket (wd_gates d')) = lookup0 (ga_activePerMarket (wd_gates d)) \<and>
    db_balance (wd_ledger d') = intent_balance w pe it d"
proof -
  let ?n = "intent_contracts w it"
  let ?gate = "Evaluate (wd_gates d) (in_Strategy it) (in_PriceCents it) (in_MarketTicker it)
           (\<not> realTradingEnabled w) (pe_now pe)"
  note gs = gate_and_size_def [of w pe it i d] intent_status_def intent_balance_def Let_def
  have slot: "lookup0 (ga_activePerMarket (OnOrderTerminal s m f t (OnOrderAccepted m (wd_gates d))))
      = lookup0 (ga_activePerMarket (wd_gates d))" for s m f t
  proof -
    have "0 \<le> lookup0 (ga_activePerMarket (wd_gates d)) m" using inv(2) by (simp add: gates_inv_def)
    then show ?thesis by (intro ext) (simp add: OnOrderTerminal_active OnOrderAccepted_active)
  qed
  consider "?gate \<noteq> []" | "?gate = []" "?n \<le> 0" | "?gate = []" "0 < ?n" by linarith
  then show ?thesis
  proof cases
    case 1
    with quiet_upd [OF st legal_steps(1) quiet_faults(2) [OF q] no_opts_fit(2) [of ?gate]]
    show ?thesis by (auto simp: gs)
  next
    case 2
    with quiet_upd [OF st legal_steps(1) quiet_faults(2) [OF q] no_opts_fit(2) [of GateInsufficientBalance]]
    show ?thesis by (auto simp: gs)
  next
    case 3
    note b = contracts_bounds [OF ok 3(2)]
    obtain d1 where d1: "upd (pe_accepted pe) i StatusAccepted no_opts d = (d1, None)" "status_is d1 i ''accepted''"
      "wd_gates d1 = wd_gates d" "wd_ledger d1 = wd_ledger d"
      using quiet_upd [OF st legal_steps(2) quiet_faults(3) [OF q] no_opts_fit(1)] by auto
    let ?d = "d1\<lparr>wd_gates := OnOrderAccepted (in_MarketTicker it) (wd_gates d)\<rparr>"
    have sd: "status_is ?d i ''accepted''" using d1 by (simp add: status_is_def)
    show ?thesis
    proof (cases "realTradingEnabled w")
      case True
      have "?n * in_PriceCents it \<le> int64_max"
        using b(3) ok by (simp add: intent_ok_def int64_max_def)
      from real_path_outcome [OF sd q _ b(5,6) this ans] inv d1 True 3 slot show ?thesis
        by (auto simp: gs outcome_ok_def)
    next
      case False
      from paper_fit [OF fit 3(2) b(4,1,2) sd q] d1 False 3 slot show ?thesis by (auto simp: gs)
    qed
  qed
qed

lemma log_features_cong:
  "intent_status w pe it (log_features w pe it i (d\<lparr>wd_orders := odb\<rparr>)) = intent_status w pe it d"
  "intent_balance w pe it (log_features w pe it i (d\<lparr>wd_orders := odb\<rparr>)) = intent_balance w pe it d"
  by (auto simp: intent_status_def intent_balance_def)

lemmas status_names = StatusGated_def StatusFilled_def StatusFailed_def StatusUnverified_def

lemma processIntent_outcome:
  assumes inv: "world_inv d" and q: "quiet pe" and ok: "intent_ok w it" and fit: "answers_fit w pe it"
    and ans: "answer_ok (intent_contracts w it * in_PriceCents it) (pe_exchange pe (order_request pe it (intent_contracts w it)))"
  shows "\<exists>d' i. processIntent w pe it d = (d', None) \<and> order_of (wd_orders d) i = None \<and>
    status_is d' i (intent_status w pe it d) \<and>
    lookup0 (ga_activePerMarket (wd_gates d')) = lookup0 (ga_activePerMarket (wd_gates d)) \<and>
    db_balance (wd_ledger d') = intent_balance w pe it d"
proof -
  obtain odb i where o: "Orders_Insert (pe_insert pe) (intent_record w pe it) (wd_orders d) = (odb, Inr i)"
    "order_of (wd_orders d) i = None" "status_is (d\<lparr>wd_orders := odb\<rparr>) i ''intent''"
    using insert_intent [OF _ q ok, of d] inv by (auto simp: world_inv_def)
  let ?d = "log_features w pe it i (d\<lparr>wd_orders := odb\<rparr>)"
  have "status_is ?d i ''intent''" "ledger_inv (wd_ledger ?d)" "gates_inv (wd_gates ?d)"
    using o(3) inv by (simp_all add: status_is_def world_inv_def)
  from gate_and_size_outcome [OF this q ok fit ans] o show ?thesis
    by (auto simp: processIntent_def log_features_cong)
qed

text \<open>
  C3. Every intent is carried to a resting status: without database failures, for an intent with a
  valid probability and an answer that fits its columns, \<open>processIntent\<close> returns no error, creates a
  new order and leaves it gated (a gate failed, nothing to buy, or the pool cannot cover it),
  filled (paper), or, in real mode, failed, filled, partial, canceled or unverified as the exchange
  answered; and the market's count of active orders is back where it was.
\<close>
theorem intent_reaches_resting_status:
  assumes "world_inv d" "quiet pe" "intent_ok w it" "answers_fit w pe it"
    "answer_ok (intent_contracts w it * in_PriceCents it) (pe_exchange pe (order_request pe it (intent_contracts w it)))"
  shows "\<exists>d' i row. processIntent w pe it d = (d', None) \<and> order_of (wd_orders d) i = None \<and>
    order_of (wd_orders d') i = Some row \<and>
    od_Status row =
      (if Evaluate (wd_gates d) (in_Strategy it) (in_PriceCents it) (in_MarketTicker it)
            (\<not> realTradingEnabled w) (pe_now pe) \<noteq> [] \<or> intent_contracts w it \<le> 0 then ''gated''
       else if \<not> realTradingEnabled w then ''filled''
       else if db_balance (wd_ledger d) < intent_contracts w it * in_PriceCents it then ''gated''
       else (case pe_exchange pe (order_request pe it (intent_contracts w it)) of
               Inl _ \<Rightarrow> ''failed''
             | Inr resp \<Rightarrow> (if cp_Status resp \<in> {''filled'', ''partial'', ''canceled''} then cp_Status resp
                            else ''unverified''))) \<and>
    lookup0 (ga_activePerMarket (wd_gates d')) = lookup0 (ga_activePerMarket (wd_gates d))"
proof -
  obtain d' i where o: "processIntent w pe it d = (d', None)" "order_of (wd_orders d) i = None"
    "status_is d' i (intent_status w pe it d)"
    "lookup0 (ga_activePerMarket (wd_gates d')) = lookup0 (ga_activePerMarket (wd_gates d))"
    using processIntent_outcome [OF assms] by blast
  then obtain row where "order_of (wd_orders d') i = Some row" "od_Status row = intent_status w pe it d"
    by (auto simp: status_is_def)
  with o show ?thesis unfolding intent_status_def real_status_def status_names by blast
qed

text \<open>
  C2. Where the money goes: without database failures, a gated, canceled or failed order leaves the
  pool balance as it was, an unverified one keeps its full cost on hold, and a fill of cost \<open>F\<close> (at
  most the amount held) takes \<open>2 * F\<close> out of the pool: the hold is released only for the unfilled
  remainder and the fill is then debited again. If the pool cannot pay the second time, that debit
  is refused by the table and the balance falls by \<open>F\<close>.
\<close>
theorem pool_balance_after_intent:
  assumes "world_inv d" "quiet pe" "intent_ok w it" "answers_fit w pe it"
    "answer_ok (intent_contracts w it * in_PriceCents it) (pe_exchange pe (order_request pe it (intent_contracts w it)))"
  shows "\<exists>d'. processIntent w pe it d = (d', None) \<and>
    db_balance (wd_ledger d') =
      (let b = db_balance (wd_ledger d); S = intent_contracts w it * in_PriceCents it in
       if Evaluate (wd_gates d) (in_Strategy it) (in_PriceCents it) (in_MarketTicker it)
            (\<not> realTradingEnabled w) (pe_now pe) \<noteq> [] \<or> intent_contracts w it \<le> 0 \<or>
          \<not> realTradingEnabled w \<or> b < S then b
       else (case pe_exchange pe (order_request pe it (intent_contracts w it)) of
               Inl _ \<Rightarrow> b
             | Inr resp \<Rightarrow>
                 (if cp_Status resp \<in> {''filled'', ''partial''}
                  then (let F = cp_FillCount resp * cp_FillPriceCents resp in if 2 * F \<le> b then b - 2 * F else b - F)
                  else if cp_Status resp = ''canceled'' then b
                  else b - S)))"
proof -
  obtain d' where "processIntent w pe it d = (d', None)"
    "db_balance (wd_ledger d') = intent_balance w pe it d"
    using processIntent_outcome [OF assms] by blast
  then show ?thesis
    by (intro exI [of _ d'] conjI) (auto simp: intent_balance_def real_balance_def Let_def)
qed

section \<open>A concrete worker\<close>

definition demo_world :: world where
  "demo_world = \<lparr>wd_gates = NewGateCache \<lparr>gc_StrategyEnabled = [''S'' \<mapsto> True], gc_TriggerRanges = Map.empty,
       gc_PerMarketLimit = 3, gc_CooldownSeconds = 60, gc_QuotaRemaining = 5, gc_PreMatchWindow = 0\<rparr>,
     wd_ledger = ledger0 10000, wd_orders = empty_orders, wd_features = [], wd_sent = []\<rparr>"

definition demo_env :: penv where
  "demo_env = \<lparr>pe_now = 7000000, pe_ack = 8000000, pe_uuid = ''u1'', pe_insert = env0, pe_features = NoFault,
     pe_gated = env0, pe_accepted = env0, pe_hold = env0, pe_held = env0,
     pe_exchange = (\<lambda>_. Inl ''unavailable''), pe_submitted = env0, pe_release = env0, pe_fill = env0,
     pe_final = env0, pe_book = (\<lambda>_. Inr None)\<rparr>"

definition demo_intent :: Intent where
  "demo_intent = \<lparr>in_MarketTicker = ''M'', in_Strategy = ''S'', in_Action = ''buy'', in_PriceCents = 40,
     in_ConvProbBps = 6000, in_Reason = [], in_FeatureHash = [], in_Features = [], in_ModelID = None,
     in_Propensity = None\<rparr>"

definition demo_worker :: "bool \<Rightarrow> Worker" where
  "demo_worker hasExchange = NewWorker hasExchange True 10000 (Fin (1 / 4)) False"

lemma demo_ok:
  "world_inv demo_world" "quiet demo_env" "intent_ok (demo_worker r) demo_intent"
  "answers_fit (demo_worker r) demo_env demo_intent" "answer_ok S (pe_exchange demo_env req)"
  using ledger0_ok [of 10000]
  by (simp_all add: world_inv_def demo_world_def int64_max_def empty_orders_def orders_inv_def
      gates_inv_def NewGateCache_def quiet_def demo_env_def env0_def intent_ok_def demo_intent_def
      demo_worker_def NewWorker_def in_int32_def kelly_fraction_def answers_fit_def
      NewRealisticPaperFill_def answer_ok_def)

theorem exchange_only_after_gates_and_hold_witness:
  "length (wd_sent (fst (processIntent (demo_worker True) demo_env demo_intent demo_world))) \<le> 1"
  using exchange_only_after_gates_and_hold [OF demo_ok(1) prod.collapse [symmetric], of "demo_worker True" demo_env demo_intent]
  by (auto simp: demo_world_def)

theorem paper_never_touches_money_witness:
  "wd_ledger (fst (processIntent (demo_worker False) demo_env demo_intent demo_world)) = ledger0 10000"
  using paper_never_touches_money [OF _ prod.collapse [symmetric], of "demo_worker False" demo_env demo_intent demo_world]
  by (simp add: demo_worker_def NewWorker_def realTradingEnabled_def demo_world_def)

theorem intent_reaches_resting_status_witness:
  "\<exists>d' i row. processIntent (demo_worker True) demo_env demo_intent demo_world = (d', None) \<and>
     order_of (wd_orders d') i = Some row \<and> od_Status row \<in> {''gated'', ''failed''}"
proof -
  have "realTradingEnabled (demo_worker True)" "pe_exchange demo_env req = Inl ''unavailable''" for req
    by (simp_all add: demo_env_def demo_worker_def NewWorker_def realTradingEnabled_def)
  with intent_reaches_resting_status [OF demo_ok(1-4) demo_ok(5), of True] obtain d' i row where
    "processIntent (demo_worker True) demo_env demo_intent demo_world = (d', None)"
    "order_of (wd_orders d') i = Some row" "od_Status row \<in> {''gated'', ''failed''}"
    by (auto split: if_splits)
  then show ?thesis by blast
qed

theorem pool_balance_after_intent_witness:
  "\<exists>d'. processIntent (demo_worker True) demo_env demo_intent demo_world = (d', None) \<and>
     db_balance (wd_ledger d') = 10000"
  using pool_balance_after_intent [OF demo_ok(1-4) demo_ok(5), of True]
  by (auto simp: demo_env_def demo_world_def ledger0_def db_balance_def Let_def)

section \<open>The queue and the processing loop\<close>

interpretation worker_chan: fifo_channel "\<lambda>q. q" worker_cap "chan_try_send worker_cap" chan_recv
  by unfold_locales (auto simp: chan_try_send_def split: if_splits elim: chan_recv.elims)

lemma wrap64_int_step: "wrap64 (wrap64 (a + 1) + int n) = wrap64 (a + int (Suc n))"
  by (simp add: add.assoc)

lemma Submit_spec:
  assumes "in_int64 (wk_dropped w)" "length (wk_in w) \<le> worker_cap"
  shows "Submit is w = w\<lparr>wk_in := wk_in w @ take (worker_cap - length (wk_in w)) is,
    wk_dropped := wrap64 (wk_dropped w + int (length is - (worker_cap - length (wk_in w))))\<rparr>"
  using assms
proof (induction "is" arbitrary: w)
  case (Cons i "is")
  show ?case
  proof (cases "length (wk_in w) < worker_cap")
    case True
    with Cons.IH [of "w\<lparr>wk_in := wk_in w @ [i]\<rparr>"] Cons.prems show ?thesis
      by (simp add: chan_try_send_def take_Cons' Suc_diff_Suc)
  next
    case False
    with Cons.IH [of "w\<lparr>wk_dropped := wrap64 (wk_dropped w + 1)\<rparr>"] Cons.prems
      wrap64_int_step [of "wk_dropped w" "length is"]
    show ?thesis by (simp add: chan_try_send_def)
  qed
qed simp

text \<open>
  \<open>Submit\<close> never blocks and never reorders: it appends to the queue as many of the intents, from
  the first, as fit into its 1024 places, and counts exactly the others as dropped.
\<close>
theorem Submit_takes_a_prefix:
  assumes "0 \<le> wk_dropped w" "wk_dropped w + int (length is) \<le> int64_max" "length (wk_in w) \<le> 1024"
  shows "wk_in (Submit is w) = wk_in w @ take (1024 - length (wk_in w)) is \<and>
    wk_dropped (Submit is w) = wk_dropped w + int (length is - (1024 - length (wk_in w))) \<and>
    length (wk_in (Submit is w)) \<le> 1024"
proof -
  have r: "in_int64 (wk_dropped w)" "in_int64 (wk_dropped w + int (length is - (1024 - length (wk_in w))))"
    using assms(1,2) by (auto simp: int64_bounds)
  from Submit_spec [OF r(1), of "is"] r(2) assms(3) show ?thesis by (simp add: worker_cap_def)
qed

theorem Submit_takes_a_prefix_witness:
  "wk_in (Submit [demo_intent] (demo_worker True)) = [demo_intent]"
  using Submit_takes_a_prefix [of "demo_worker True" "[demo_intent]"]
  by (simp add: demo_worker_def NewWorker_def int64_max_def)

text \<open>The worker as a system: producers submit, the single goroutine takes the oldest intent and
  processes it in whatever environment it meets, the operator changes the bankroll.\<close>

inductive worker_step :: "Worker \<times> world \<Rightarrow> Worker \<times> world \<Rightarrow> bool" where
  submit: "worker_step (w, d) (Submit is w, d)"
| process: "chan_recv (wk_in w) = Some (it, q) \<Longrightarrow>
    worker_step (w, d) (w\<lparr>wk_in := q\<rparr>, fst (processIntent w pe it d))"
| bankroll: "worker_step (w, d) (SetBankroll cents w, d)"
| reconfigure: "worker_step (w, d) (w, d\<lparr>wd_gates := Gate_Update cfg (wd_gates d)\<rparr>)"
| reconcile: "worker_step (w, d) (w, fst (reconcilePass fault now age d))"

inductive_cases worker_stepE: "worker_step (w, d) (w', d')"

lemma reconcilePass_id [simp]: "fst (reconcilePass fault now age d) = d"
proof -
  have "fold (\<lambda>o' d. fst (reconcileOrder o' d)) os d = d" for os :: "OrderRecord list"
    by (induction os) (simp_all add: reconcileOrder_def)
  then show ?thesis by (simp add: reconcilePass_def split: sum.splits)
qed

lemma Gate_Update_inv: "gates_inv g \<Longrightarrow> gates_inv (Gate_Update cfg g)"
  by (simp add: gates_inv_def Gate_Update_def)

definition system_inv :: "Worker \<times> world \<Rightarrow> bool" where
  "system_inv s \<longleftrightarrow> length (wk_in (fst s)) \<le> worker_cap \<and> in_int64 (wk_dropped (fst s)) \<and> world_inv (snd s)"

lemma worker_step_inv: "worker_step s s' \<Longrightarrow> system_inv s \<Longrightarrow> system_inv s'"
proof (induction rule: worker_step.induct)
  case (submit w d "is")
  then show ?case by (auto simp: system_inv_def Submit_spec min_def)
next
  case (process w it q d pe)
  then show ?case by (simp add: system_inv_def processIntent_inv)
next
  case (reconfigure w d cfg)
  then show ?case by (simp add: system_inv_def world_inv_def Gate_Update_inv)
qed (simp_all add: system_inv_def SetBankroll_def)

lemma worker_reach_inv: "worker_step\<^sup>*\<^sup>* s s' \<Longrightarrow> system_inv s \<Longrightarrow> system_inv s'"
  by (induction rule: rtranclp_induct) (auto intro: worker_step_inv)



end
