(* ===== verification/Markov.thy ===== *)
theory Markov
  imports Float64
begin

text \<open>
  The tennis win-probability model, \<open>domain/pricing/markov.go\<close>: the memoising functions with their
  four caches threaded through as state, the same functions without caches as the reference, and
  the proofs that every call terminates, that caching never changes a result, and that the result
  is a probability.
\<close>

section \<open>The model and its helpers\<close>

record MarkovModel =
  mm_pServe :: float64
  mm_pReturn :: float64
  mm_gameMemo :: "int \<times> int \<times> int \<rightharpoonup> float64"
  mm_setMemo :: "int \<times> int \<times> int \<times> int \<rightharpoonup> float64"
  mm_matchMemo :: "int \<times> int \<rightharpoonup> float64"
  mm_tbMemo :: "int \<times> int \<times> int \<rightharpoonup> float64"

definition defaultPServe :: float64 where "defaultPServe = flit (64 / 100)"

definition setsToWin :: int where "setsToWin = 2"

definition NewMarkovModelWithProb :: "float64 \<Rightarrow> MarkovModel" where
  "NewMarkovModelWithProb pServe =
     \<lparr>mm_pServe = pServe, mm_pReturn = fsub (Fin 1) pServe, mm_gameMemo = Map.empty,
      mm_setMemo = Map.empty, mm_matchMemo = Map.empty, mm_tbMemo = Map.empty\<rparr>"

definition NewMarkovModel :: MarkovModel where
  "NewMarkovModel = NewMarkovModelWithProb defaultPServe"

definition boolToInt :: "bool \<Rightarrow> int" where
  "boolToInt b = (if b then 1 else 0)"

definition pointValue :: "string \<Rightarrow> int" where
  "pointValue s =
     (if s = ''0'' then 0 else if s = ''15'' then 1 else if s = ''30'' then 2
      else if s = ''40'' then 3 else if s = ''A'' then 4 else 0)"

text \<open>\<open>strconv.Atoi\<close>: an optional sign, then at least one decimal digit, in the range of an \<open>int\<close>.\<close>

definition atoi_digits :: "string \<Rightarrow> int option" where
  "atoi_digits s = (if s \<noteq> [] \<and> list_all is_digit_char s then Some (int (read_nat s)) else None)"

definition Atoi :: "string \<Rightarrow> int option" where
  "Atoi s =
     (case s of
        [] \<Rightarrow> None
      | c # cs \<Rightarrow>
          (let r = (if c = CHR ''-'' then map_option uminus (atoi_digits cs)
                    else if c = CHR ''+'' then atoi_digits cs
                    else atoi_digits s) in
           case r of Some n \<Rightarrow> (if in_int64 n then Some n else None) | None \<Rightarrow> None))"

definition tbPointValue :: "string \<Rightarrow> int" where
  "tbPointValue s = (case Atoi s of None \<Rightarrow> 0 | Some n \<Rightarrow> n)"

section \<open>Games\<close>

text \<open>Termination of the recursion on points: below deuce both players have at most three.\<close>

function gameWinProbRecursive :: "int \<Rightarrow> int \<Rightarrow> float64 \<Rightarrow> float64" where
  "gameWinProbRecursive h a p =
     (if h \<ge> 4 \<and> h - a \<ge> 2 then Fin 1
      else if a \<ge> 4 \<and> a - h \<ge> 2 then Fin 0
      else
        (let p2 = fmul p p; q2 = fmul (fsub (Fin 1) p) (fsub (Fin 1) p) in
         if h \<ge> 3 \<and> a \<ge> 3 \<and> h = a then fdiv p2 (fadd p2 q2)
         else if h \<ge> 3 \<and> a \<ge> 3 \<and> h = a + 1 then fadd p (fdiv (fmul (fsub (Fin 1) p) p2) (fadd p2 q2))
         else if h \<ge> 3 \<and> a \<ge> 3 \<and> a = h + 1 then fdiv (fmul p p2) (fadd p2 q2)
         else fadd (fmul p (gameWinProbRecursive (h + 1) a p))
                (fmul (fsub (Fin 1) p) (gameWinProbRecursive h (a + 1) p))))"
  by pat_completeness auto
termination by (relation "measure (\<lambda>(h, a, p). nat (8 - h - a))") auto

declare gameWinProbRecursive.simps [simp del]

definition gameWinProbMemoized :: "int \<Rightarrow> int \<Rightarrow> bool \<Rightarrow> MarkovModel \<Rightarrow> float64 \<times> MarkovModel" where
  "gameWinProbMemoized h a pIsServe m =
     (let key = (h, a, boolToInt pIsServe) in
      case mm_gameMemo m key of
        Some v \<Rightarrow> (v, m)
      | None \<Rightarrow>
          (let p = (if pIsServe then mm_pServe m else mm_pReturn m);
               result = gameWinProbRecursive h a p in
           (result, m\<lparr>mm_gameMemo := (mm_gameMemo m)(key \<mapsto> result)\<rparr>)))"

section \<open>Tiebreaks\<close>

definition tb_deuce :: "float64 \<Rightarrow> float64 \<Rightarrow> float64" where
  "tb_deuce pServe pReturn =
     (let p2 = fmul pServe pReturn; q2 = fmul (fsub (Fin 1) pServe) (fsub (Fin 1) pReturn) in
      fdiv p2 (fadd p2 q2))"

text \<open>The number of points that can still be played before a tiebreak is decided or level at six or
  more; the measure of both tiebreak functions.\<close>

definition tb_measure :: "int \<Rightarrow> int \<Rightarrow> nat" where
  "tb_measure h a = (if h < 6 \<or> a < 6 then nat (14 - h - a) + 2 else if \<bar>h - a\<bar> = 1 then 1 else 0)"

lemma tb_measure_decreases:
  assumes "\<not> (h \<ge> 7 \<and> h - a \<ge> 2)" "\<not> (a \<ge> 7 \<and> a - h \<ge> 2)" "\<not> (h \<ge> 6 \<and> a \<ge> 6 \<and> h = a)"
  shows "tb_measure (h + 1) a < tb_measure h a" "tb_measure h (a + 1) < tb_measure h a"
  using assms by (auto simp: tb_measure_def)

function tbWinProbMemoized ::
  "int \<Rightarrow> int \<Rightarrow> float64 \<Rightarrow> bool \<Rightarrow> int \<Rightarrow> MarkovModel \<Rightarrow> float64 \<times> MarkovModel" where
  "tbWinProbMemoized h a p homeServing totalPoints m =
     (if h \<ge> 7 \<and> h - a \<ge> 2 then (Fin 1, m)
      else if a \<ge> 7 \<and> a - h \<ge> 2 then (Fin 0, m)
      else if h \<ge> 6 \<and> a \<ge> 6 \<and> h = a then (tb_deuce (mm_pServe m) (mm_pReturn m), m)
      else
        (let key = (h, a, boolToInt homeServing) in
         case mm_tbMemo m key of
           Some v \<Rightarrow> (v, m)
         | None \<Rightarrow>
             (let nextHomeServing = (if totalPoints smod 2 = 0 then \<not> homeServing else homeServing);
                  nextP = (if nextHomeServing then mm_pServe m else mm_pReturn m);
                  r1 = tbWinProbMemoized (h + 1) a nextP nextHomeServing (totalPoints + 1) m;
                  r2 = tbWinProbMemoized h (a + 1) nextP nextHomeServing (totalPoints + 1) (snd r1);
                  result = fadd (fmul p (fst r1)) (fmul (fsub (Fin 1) p) (fst r2)) in
              (result, (snd r2)\<lparr>mm_tbMemo := (mm_tbMemo (snd r2))(key \<mapsto> result)\<rparr>))))"
  by pat_completeness auto
termination
  by (relation "measure (\<lambda>(h, a, p, s, t, m). tb_measure h a)") (auto simp: tb_measure_decreases)

declare tbWinProbMemoized.simps [simp del]

definition tiebreakWinProb :: "string \<Rightarrow> string \<Rightarrow> bool \<Rightarrow> MarkovModel \<Rightarrow> float64 \<times> MarkovModel" where
  "tiebreakWinProb homePoints awayPoints homeServing m =
     (let h = tbPointValue homePoints; a = tbPointValue awayPoints;
          p = (if homeServing then mm_pServe m else mm_pReturn m) in
      tbWinProbMemoized h a p homeServing (h + a) m)"

definition gameWinProb :: "string \<Rightarrow> string \<Rightarrow> bool \<Rightarrow> bool \<Rightarrow> MarkovModel \<Rightarrow> float64 \<times> MarkovModel" where
  "gameWinProb homePoints awayPoints homeServing isTiebreak m =
     (if isTiebreak then tiebreakWinProb homePoints awayPoints homeServing m
      else gameWinProbMemoized (pointValue homePoints) (pointValue awayPoints) homeServing m)"

section \<open>Sets\<close>

definition set_measure :: "int \<Rightarrow> int \<Rightarrow> nat" where
  "set_measure h a = (if h < 6 \<and> a < 6 then nat (13 - h - a) + 2 else if \<bar>h - a\<bar> = 1 then 1 else 0)"

lemma set_measure_decreases:
  assumes "\<not> (h \<ge> 6 \<and> h - a \<ge> 2)" "\<not> (a \<ge> 6 \<and> a - h \<ge> 2)" "\<not> (h \<ge> 6 \<and> a \<ge> 6 \<and> h = a)"
  shows "set_measure (h + 1) a < set_measure h a" "set_measure h (a + 1) < set_measure h a"
  using assms by (auto simp: set_measure_def)

function setWinProbCached :: "int \<Rightarrow> int \<Rightarrow> int \<Rightarrow> bool \<Rightarrow> MarkovModel \<Rightarrow> float64 \<times> MarkovModel" where
  "setWinProbCached gamesHome gamesAway server pIsServe m =
     (if gamesHome \<ge> 6 \<and> gamesHome - gamesAway \<ge> 2 then (Fin 1, m)
      else if gamesAway \<ge> 6 \<and> gamesAway - gamesHome \<ge> 2 then (Fin 0, m)
      else if gamesHome \<ge> 6 \<and> gamesAway \<ge> 6 \<and> gamesHome = gamesAway
      then tiebreakWinProb ''0'' ''0'' (server = 1) m
      else
        (let key = (gamesHome, gamesAway, server - 1, boolToInt pIsServe) in
         case mm_setMemo m key of
           Some v \<Rightarrow> (v, m)
         | None \<Rightarrow>
             (let pHomeGame = (if pIsServe then mm_pServe m else mm_pReturn m);
                  nextServer = (if server = 2 then 1 else 2);
                  nextHomeServes = (nextServer = 1);
                  r1 = setWinProbCached (gamesHome + 1) gamesAway nextServer nextHomeServes m;
                  r2 = setWinProbCached gamesHome (gamesAway + 1) nextServer nextHomeServes (snd r1);
                  result = fadd (fmul pHomeGame (fst r1)) (fmul (fsub (Fin 1) pHomeGame) (fst r2)) in
              (result, (snd r2)\<lparr>mm_setMemo := (mm_setMemo (snd r2))(key \<mapsto> result)\<rparr>))))"
  by pat_completeness auto
termination
  by (relation "measure (\<lambda>(h, a, s, p, m). set_measure h a)") (auto simp: set_measure_decreases)

declare setWinProbCached.simps [simp del]

definition setWinProb :: "int \<Rightarrow> int \<Rightarrow> float64 \<Rightarrow> int \<Rightarrow> bool \<Rightarrow> MarkovModel \<Rightarrow> float64 \<times> MarkovModel" where
  "setWinProb gamesHome gamesAway pHomeGame server isTiebreak m =
     (if gamesHome \<ge> 6 \<and> gamesHome - gamesAway \<ge> 2 then (Fin 1, m)
      else if gamesAway \<ge> 6 \<and> gamesAway - gamesHome \<ge> 2 then (Fin 0, m)
      else if isTiebreak then (pHomeGame, m)
      else if gamesHome \<ge> 6 \<and> gamesAway \<ge> 6 \<and> gamesHome = gamesAway
      then tiebreakWinProb ''0'' ''0'' (server = 1) m
      else
        (let nextServer = (if server = 2 then 1 else 2);
             nextHomeServes = (nextServer = 1);
             r1 = setWinProbCached (gamesHome + 1) gamesAway nextServer nextHomeServes m;
             r2 = setWinProbCached gamesHome (gamesAway + 1) nextServer nextHomeServes (snd r1) in
         (fadd (fmul pHomeGame (fst r1)) (fmul (fsub (Fin 1) pHomeGame) (fst r2)), snd r2)))"

section \<open>Matches\<close>

function matchWinProbFromSetScore :: "int \<Rightarrow> int \<Rightarrow> MarkovModel \<Rightarrow> float64 \<times> MarkovModel" where
  "matchWinProbFromSetScore sH sA m =
     (if sH \<ge> setsToWin then (Fin 1, m)
      else if sA \<ge> setsToWin then (Fin 0, m)
      else
        (let key = (sH, sA) in
         case mm_matchMemo m key of
           Some v \<Rightarrow> (v, m)
         | None \<Rightarrow>
             (let r1 = setWinProbCached 0 0 1 True m;
                  r2 = setWinProbCached 0 0 2 False (snd r1);
                  pSet = fadd (fmul (Fin (1 / 2)) (fst r1)) (fmul (Fin (1 / 2)) (fst r2));
                  r3 = matchWinProbFromSetScore (sH + 1) sA (snd r2);
                  r4 = matchWinProbFromSetScore sH (sA + 1) (snd r3);
                  result = fadd (fmul pSet (fst r3)) (fmul (fsub (Fin 1) pSet) (fst r4)) in
              (result, (snd r4)\<lparr>mm_matchMemo := (mm_matchMemo (snd r4))(key \<mapsto> result)\<rparr>))))"
  by pat_completeness auto
termination
  by (relation "measure (\<lambda>(sH, sA, m). nat (2 - sH) + nat (2 - sA))") (auto simp: setsToWin_def)

declare matchWinProbFromSetScore.simps [simp del]

definition WinProbability ::
  "int \<Rightarrow> int \<Rightarrow> int \<Rightarrow> int \<Rightarrow> string \<Rightarrow> string \<Rightarrow> int \<Rightarrow> bool \<Rightarrow> MarkovModel \<Rightarrow> float64 \<times> MarkovModel" where
  "WinProbability setsHome setsAway gamesHome gamesAway homePoints awayPoints server isTiebreak m =
     (if setsHome \<ge> setsToWin then (Fin 1, m)
      else if setsAway \<ge> setsToWin then (Fin 0, m)
      else
        (let r1 = gameWinProb homePoints awayPoints (server = 1) isTiebreak m;
             r2 = setWinProb gamesHome gamesAway (fst r1) server isTiebreak (snd r1);
             r3 = matchWinProbFromSetScore (setsHome + 1) setsAway (snd r2);
             r4 = matchWinProbFromSetScore setsHome (setsAway + 1) (snd r3) in
         (fadd (fmul (fst r2) (fst r3)) (fmul (fsub (Fin 1) (fst r2)) (fst r4)), snd r4)))"

definition FairValue ::
  "int \<Rightarrow> int \<Rightarrow> int \<Rightarrow> int \<Rightarrow> string \<Rightarrow> string \<Rightarrow> int \<Rightarrow> bool \<Rightarrow> MarkovModel \<Rightarrow> float64 \<times> MarkovModel" where
  "FairValue setsHome setsAway gamesHome gamesAway homePoints awayPoints server isTiebreak m =
     (let r = WinProbability setsHome setsAway gamesHome gamesAway homePoints awayPoints server isTiebreak m in
      (fmax (flit (1 / 100)) (fmin (flit (99 / 100)) (fst r)), snd r))"

section \<open>The same functions without caches\<close>

function tb_ref :: "float64 \<Rightarrow> float64 \<Rightarrow> int \<Rightarrow> int \<Rightarrow> bool \<Rightarrow> float64" where
  "tb_ref pS pR h a hs =
     (if h \<ge> 7 \<and> h - a \<ge> 2 then Fin 1
      else if a \<ge> 7 \<and> a - h \<ge> 2 then Fin 0
      else if h \<ge> 6 \<and> a \<ge> 6 \<and> h = a then tb_deuce pS pR
      else
        (let p = (if hs then pS else pR); hs' = (if even (h + a) then \<not> hs else hs) in
         fadd (fmul p (tb_ref pS pR (h + 1) a hs')) (fmul (fsub (Fin 1) p) (tb_ref pS pR h (a + 1) hs'))))"
  by pat_completeness auto
termination
  by (relation "measure (\<lambda>(pS, pR, h, a, hs). tb_measure h a)") (auto simp: tb_measure_decreases)

declare tb_ref.simps [simp del]

definition tiebreak_ref :: "float64 \<Rightarrow> float64 \<Rightarrow> string \<Rightarrow> string \<Rightarrow> bool \<Rightarrow> float64" where
  "tiebreak_ref pS pR hp ap hs = tb_ref pS pR (tbPointValue hp) (tbPointValue ap) hs"

function set_ref :: "float64 \<Rightarrow> float64 \<Rightarrow> int \<Rightarrow> int \<Rightarrow> int \<Rightarrow> bool \<Rightarrow> float64" where
  "set_ref pS pR h a server pis =
     (if h \<ge> 6 \<and> h - a \<ge> 2 then Fin 1
      else if a \<ge> 6 \<and> a - h \<ge> 2 then Fin 0
      else if h \<ge> 6 \<and> a \<ge> 6 \<and> h = a then tiebreak_ref pS pR ''0'' ''0'' (server = 1)
      else
        (let p = (if pis then pS else pR); next = (if server = 2 then 1 else 2) in
         fadd (fmul p (set_ref pS pR (h + 1) a next (next = 1)))
           (fmul (fsub (Fin 1) p) (set_ref pS pR h (a + 1) next (next = 1)))))"
  by pat_completeness auto
termination
  by (relation "measure (\<lambda>(pS, pR, h, a, s, p). set_measure h a)") (auto simp: set_measure_decreases)

declare set_ref.simps [simp del]

function match_ref :: "float64 \<Rightarrow> float64 \<Rightarrow> int \<Rightarrow> int \<Rightarrow> float64" where
  "match_ref pS pR sH sA =
     (if sH \<ge> setsToWin then Fin 1
      else if sA \<ge> setsToWin then Fin 0
      else
        (let pSet = fadd (fmul (Fin (1 / 2)) (set_ref pS pR 0 0 1 True)) (fmul (Fin (1 / 2)) (set_ref pS pR 0 0 2 False)) in
         fadd (fmul pSet (match_ref pS pR (sH + 1) sA)) (fmul (fsub (Fin 1) pSet) (match_ref pS pR sH (sA + 1)))))"
  by pat_completeness auto
termination
  by (relation "measure (\<lambda>(pS, pR, sH, sA). nat (2 - sH) + nat (2 - sA))") (auto simp: setsToWin_def)

declare match_ref.simps [simp del]

definition game_ref :: "float64 \<Rightarrow> float64 \<Rightarrow> string \<Rightarrow> string \<Rightarrow> bool \<Rightarrow> bool \<Rightarrow> float64" where
  "game_ref pS pR hp ap hs tb =
     (if tb then tiebreak_ref pS pR hp ap hs
      else gameWinProbRecursive (pointValue hp) (pointValue ap) (if hs then pS else pR))"

definition setp_ref :: "float64 \<Rightarrow> float64 \<Rightarrow> int \<Rightarrow> int \<Rightarrow> float64 \<Rightarrow> int \<Rightarrow> bool \<Rightarrow> float64" where
  "setp_ref pS pR h a p server tb =
     (if h \<ge> 6 \<and> h - a \<ge> 2 then Fin 1
      else if a \<ge> 6 \<and> a - h \<ge> 2 then Fin 0
      else if tb then p
      else if h \<ge> 6 \<and> a \<ge> 6 \<and> h = a then tiebreak_ref pS pR ''0'' ''0'' (server = 1)
      else
        (let next = (if server = 2 then 1 else 2) in
         fadd (fmul p (set_ref pS pR (h + 1) a next (next = 1)))
           (fmul (fsub (Fin 1) p) (set_ref pS pR h (a + 1) next (next = 1)))))"

definition win_ref ::
  "float64 \<Rightarrow> float64 \<Rightarrow> int \<Rightarrow> int \<Rightarrow> int \<Rightarrow> int \<Rightarrow> string \<Rightarrow> string \<Rightarrow> int \<Rightarrow> bool \<Rightarrow> float64" where
  "win_ref pS pR sH sA gH gA hp ap server tb =
     (if sH \<ge> setsToWin then Fin 1
      else if sA \<ge> setsToWin then Fin 0
      else
        (let p = setp_ref pS pR gH gA (game_ref pS pR hp ap (server = 1) tb) server tb in
         fadd (fmul p (match_ref pS pR (sH + 1) sA)) (fmul (fsub (Fin 1) p) (match_ref pS pR sH (sA + 1)))))"

section \<open>Caching does not change results\<close>

text \<open>The caches are sound when every entry is the value of the uncached function at its key.\<close>

definition memo_ok :: "float64 \<Rightarrow> float64 \<Rightarrow> MarkovModel \<Rightarrow> bool" where
  "memo_ok pS pR m \<longleftrightarrow>
     mm_pServe m = pS \<and> mm_pReturn m = pR \<and>
     (\<forall>h a s v. mm_gameMemo m (h, a, boolToInt s) = Some v \<longrightarrow> v = gameWinProbRecursive h a (if s then pS else pR)) \<and>
     (\<forall>h a s v. mm_tbMemo m (h, a, boolToInt s) = Some v \<longrightarrow> v = tb_ref pS pR h a s) \<and>
     (\<forall>h a server p v. mm_setMemo m (h, a, server - 1, boolToInt p) = Some v \<longrightarrow> v = set_ref pS pR h a server p) \<and>
     (\<forall>sH sA v. mm_matchMemo m (sH, sA) = Some v \<longrightarrow> v = match_ref pS pR sH sA)"

definition computes :: "float64 \<Rightarrow> float64 \<Rightarrow> float64 \<Rightarrow> float64 \<times> MarkovModel \<Rightarrow> bool" where
  "computes pS pR v r \<longleftrightarrow> fst r = v \<and> memo_ok pS pR (snd r)"

lemma boolToInt_inj [simp]: "boolToInt s = boolToInt t \<longleftrightarrow> s = t"
  by (auto simp: boolToInt_def)

lemma computesI: "memo_ok pS pR m \<Longrightarrow> computes pS pR v (v, m)"
  by (simp add: computes_def)

lemma memo_ok_new: "memo_ok p (fsub (Fin 1) p) (NewMarkovModelWithProb p)"
  by (simp add: memo_ok_def NewMarkovModelWithProb_def)

lemma memo_ok_updates:
  "memo_ok pS pR m \<Longrightarrow> v = gameWinProbRecursive h a (if s then pS else pR) \<Longrightarrow>
     memo_ok pS pR (m\<lparr>mm_gameMemo := (mm_gameMemo m)((h, a, boolToInt s) \<mapsto> v)\<rparr>)"
  "memo_ok pS pR m \<Longrightarrow> v = tb_ref pS pR h a s \<Longrightarrow>
     memo_ok pS pR (m\<lparr>mm_tbMemo := (mm_tbMemo m)((h, a, boolToInt s) \<mapsto> v)\<rparr>)"
  "memo_ok pS pR m \<Longrightarrow> v = set_ref pS pR h a server p \<Longrightarrow>
     memo_ok pS pR (m\<lparr>mm_setMemo := (mm_setMemo m)((h, a, server - 1, boolToInt p) \<mapsto> v)\<rparr>)"
  "memo_ok pS pR m \<Longrightarrow> v = match_ref pS pR h a \<Longrightarrow>
     memo_ok pS pR (m\<lparr>mm_matchMemo := (mm_matchMemo m)((h, a) \<mapsto> v)\<rparr>)"
  by (auto simp: memo_ok_def)

lemma game_computes:
  "memo_ok pS pR m \<Longrightarrow>
     computes pS pR (gameWinProbRecursive h a (if s then pS else pR)) (gameWinProbMemoized h a s m)"
proof (cases "mm_gameMemo m (h, a, boolToInt s)")
  case None
  assume ok: "memo_ok pS pR m"
  with None memo_ok_updates(1) [OF ok refl, of h a s] show ?thesis
    by (auto simp: gameWinProbMemoized_def Let_def computes_def memo_ok_def [of pS pR m])
next
  case (Some v)
  assume "memo_ok pS pR m"
  with Some show ?thesis
    by (auto simp: gameWinProbMemoized_def Let_def computes_def memo_ok_def)
qed

lemma smod_2_even: "(n :: int) smod 2 = 0 \<longleftrightarrow> even n"
  by (auto simp: signed_modulo_int_def signed_divide_int_def sgn_if even_iff_mod_2_eq_zero)

lemma tb_computes:
  assumes "memo_ok pS pR m" "p = (if hs then pS else pR)" "t = h + a"
  shows "computes pS pR (tb_ref pS pR h a hs) (tbWinProbMemoized h a p hs t m)"
  using assms
proof (induction "tb_measure h a" arbitrary: h a p hs t m rule: less_induct)
  case less
  note eqs = tbWinProbMemoized.simps [of h a p hs t m] tb_ref.simps [of pS pR h a hs]
  have pr: "mm_pServe m = pS" "mm_pReturn m = pR" using less.prems(1) by (simp_all add: memo_ok_def)
  show ?case
  proof (cases "h \<ge> 7 \<and> h - a \<ge> 2 \<or> a \<ge> 7 \<and> a - h \<ge> 2 \<or> h \<ge> 6 \<and> a \<ge> 6 \<and> h = a")
    case True
    then show ?thesis using less.prems(1) pr by (auto simp: eqs computes_def)
  next
    case False
    then have d: "tb_measure (h + 1) a < tb_measure h a" "tb_measure h (a + 1) < tb_measure h a"
      by (simp_all add: tb_measure_decreases)
    from False have nt: "\<not> (h \<ge> 7 \<and> h - a \<ge> 2)" "\<not> (a \<ge> 7 \<and> a - h \<ge> 2)" "\<not> (h \<ge> 6 \<and> a \<ge> 6 \<and> h = a)"
      by blast+
    note eq = eqs [unfolded if_not_P [OF nt(1)] if_not_P [OF nt(2)] if_not_P [OF nt(3)]]
    show ?thesis
    proof (cases "mm_tbMemo m (h, a, boolToInt hs)")
      case (Some v)
      then have "v = tb_ref pS pR h a hs" using less.prems(1) by (auto simp: memo_ok_def)
      with Some less.prems(1) show ?thesis by (simp add: eq(1) computes_def)
    next
      case None
      define hs' where "hs' = (if even (h + a) then \<not> hs else hs)"
      have nx: "(if t smod 2 = 0 then \<not> hs else hs) = hs'"
        using less.prems(3) by (simp add: hs'_def smod_2_even)
      define p' where "p' = (if hs' then pS else pR)"
      define r1 where "r1 = tbWinProbMemoized (h + 1) a p' hs' (t + 1) m"
      define r2 where "r2 = tbWinProbMemoized h (a + 1) p' hs' (t + 1) (snd r1)"
      have c1: "computes pS pR (tb_ref pS pR (h + 1) a hs') r1"
        unfolding r1_def using less.prems by (intro less.hyps d) (auto simp: p'_def)
      have c2: "computes pS pR (tb_ref pS pR h (a + 1) hs') r2"
        unfolding r2_def using less.prems c1 by (intro less.hyps d) (auto simp: p'_def computes_def)
      have v: "tb_ref pS pR h a hs = fadd (fmul p (fst r1)) (fmul (fsub (Fin 1) p) (fst r2))"
        using less.prems(2) c1 c2 by (simp add: eq(2) hs'_def computes_def Let_def)
      have "tbWinProbMemoized h a p hs t m =
          (tb_ref pS pR h a hs, (snd r2)\<lparr>mm_tbMemo := (mm_tbMemo (snd r2))((h, a, boolToInt hs) \<mapsto> tb_ref pS pR h a hs)\<rparr>)"
        unfolding v eq(1)
        by (simp only: Let_def None option.case pr nx p'_def [symmetric] r1_def [symmetric] r2_def [symmetric])
      with memo_ok_updates(2) [OF _ refl] c2 show ?thesis by (simp add: computes_def)
    qed
  qed
qed

lemma tiebreak_computes:
  "memo_ok pS pR m \<Longrightarrow> computes pS pR (tiebreak_ref pS pR hp ap hs) (tiebreakWinProb hp ap hs m)"
  unfolding tiebreakWinProb_def tiebreak_ref_def Let_def
  by (rule tb_computes) (auto simp: memo_ok_def)

lemma gameWinProb_computes:
  "memo_ok pS pR m \<Longrightarrow> computes pS pR (game_ref pS pR hp ap hs tb) (gameWinProb hp ap hs tb m)"
  using game_computes [of pS pR m "pointValue hp" "pointValue ap" hs]
  by (simp add: gameWinProb_def game_ref_def tiebreak_computes)

lemma set_computes:
  assumes "memo_ok pS pR m"
  shows "computes pS pR (set_ref pS pR h a server p) (setWinProbCached h a server p m)"
  using assms
proof (induction "set_measure h a" arbitrary: h a server p m rule: less_induct)
  case less
  note eqs = setWinProbCached.simps [of h a server p m] set_ref.simps [of pS pR h a server p]
  have pr: "mm_pServe m = pS" "mm_pReturn m = pR" using less.prems by (simp_all add: memo_ok_def)
  show ?case
  proof (cases "h \<ge> 6 \<and> h - a \<ge> 2 \<or> a \<ge> 6 \<and> a - h \<ge> 2 \<or> h \<ge> 6 \<and> a \<ge> 6 \<and> h = a")
    case True
    then show ?thesis using less.prems by (auto simp: eqs computesI tiebreak_computes)
  next
    case False
    then have d: "set_measure (h + 1) a < set_measure h a" "set_measure h (a + 1) < set_measure h a"
      by (simp_all add: set_measure_decreases)
    from False have nt: "\<not> (h \<ge> 6 \<and> h - a \<ge> 2)" "\<not> (a \<ge> 6 \<and> a - h \<ge> 2)" "\<not> (h \<ge> 6 \<and> a \<ge> 6 \<and> h = a)"
      by blast+
    note eq = eqs [unfolded if_not_P [OF nt(1)] if_not_P [OF nt(2)] if_not_P [OF nt(3)]]
    show ?thesis
    proof (cases "mm_setMemo m (h, a, server - 1, boolToInt p)")
      case (Some v)
      then have "v = set_ref pS pR h a server p" using less.prems by (auto simp: memo_ok_def)
      with Some less.prems show ?thesis by (simp add: eq(1) computes_def)
    next
      case None
      define nxt where "nxt = (if server = 2 then 1 else 2 :: int)"
      define r1 where "r1 = setWinProbCached (h + 1) a nxt (nxt = 1) m"
      define r2 where "r2 = setWinProbCached h (a + 1) nxt (nxt = 1) (snd r1)"
      let ?v = "fadd (fmul (if p then pS else pR) (fst r1)) (fmul (fsub (Fin 1) (if p then pS else pR)) (fst r2))"
      have c1: "computes pS pR (set_ref pS pR (h + 1) a nxt (nxt = 1)) r1"
        unfolding r1_def by (intro less.hyps d less.prems)
      have c2: "computes pS pR (set_ref pS pR h (a + 1) nxt (nxt = 1)) r2"
        unfolding r2_def using c1 by (intro less.hyps d) (simp add: computes_def)
      have v: "set_ref pS pR h a server p = ?v"
        using c1 c2 by (simp add: eq(2) nxt_def computes_def Let_def)
      have "setWinProbCached h a server p m =
          (?v, (snd r2)\<lparr>mm_setMemo := (mm_setMemo (snd r2))((h, a, server - 1, boolToInt p) \<mapsto> ?v)\<rparr>)"
        using None pr by (simp add: eq(1) Let_def r1_def r2_def nxt_def)
      with v memo_ok_updates(3) [OF _ v [symmetric]] c2 show ?thesis by (simp add: computes_def)
    qed
  qed
qed

lemma setWinProb_computes:
  "memo_ok pS pR m \<Longrightarrow> computes pS pR (setp_ref pS pR h a p server tb) (setWinProb h a p server tb m)"
proof -
  assume ok: "memo_ok pS pR m"
  define nxt where "nxt = (if server = 2 then 1 else 2 :: int)"
  note c1 = set_computes [OF ok, of "h + 1" a nxt "nxt = 1"]
  have "memo_ok pS pR (snd (setWinProbCached (h + 1) a nxt (nxt = 1) m))" using c1 by (simp add: computes_def)
  note c2 = set_computes [OF this, of h "a + 1" nxt "nxt = 1"]
  from c1 c2 ok show ?thesis
    by (auto simp: setWinProb_def setp_ref_def Let_def tiebreak_computes computesI nxt_def [symmetric])
       (auto simp: computes_def)
qed

lemma match_computes:
  assumes "memo_ok pS pR m"
  shows "computes pS pR (match_ref pS pR sH sA) (matchWinProbFromSetScore sH sA m)"
  using assms
proof (induction "nat (2 - sH) + nat (2 - sA)" arbitrary: sH sA m rule: less_induct)
  case less
  note eqs = matchWinProbFromSetScore.simps [of sH sA m] match_ref.simps [of pS pR sH sA]
  show ?case
  proof (cases "sH \<ge> setsToWin \<or> sA \<ge> setsToWin")
    case True
    then show ?thesis using less.prems by (auto simp: eqs computesI)
  next
    case False
    then have nt: "\<not> sH \<ge> setsToWin" "\<not> sA \<ge> setsToWin" by blast+
    note eq = eqs [unfolded if_not_P [OF nt(1)] if_not_P [OF nt(2)]]
    have d: "nat (2 - (sH + 1)) + nat (2 - sA) < nat (2 - sH) + nat (2 - sA)"
      "nat (2 - sH) + nat (2 - (sA + 1)) < nat (2 - sH) + nat (2 - sA)"
      using nt by (auto simp: setsToWin_def)
    show ?thesis
    proof (cases "mm_matchMemo m (sH, sA)")
      case (Some v)
      then have "v = match_ref pS pR sH sA" using less.prems by (auto simp: memo_ok_def)
      with Some less.prems show ?thesis by (simp add: eq(1) computes_def)
    next
      case None
      define r1 where "r1 = setWinProbCached 0 0 1 True m"
      define r2 where "r2 = setWinProbCached 0 0 2 False (snd r1)"
      define r3 where "r3 = matchWinProbFromSetScore (sH + 1) sA (snd r2)"
      define r4 where "r4 = matchWinProbFromSetScore sH (sA + 1) (snd r3)"
      let ?p = "fadd (fmul (Fin (1 / 2)) (fst r1)) (fmul (Fin (1 / 2)) (fst r2))"
      let ?v = "fadd (fmul ?p (fst r3)) (fmul (fsub (Fin 1) ?p) (fst r4))"
      have c1: "computes pS pR (set_ref pS pR 0 0 1 True) r1"
        unfolding r1_def by (intro set_computes less.prems)
      have c2: "computes pS pR (set_ref pS pR 0 0 2 False) r2"
        unfolding r2_def using c1 by (intro set_computes) (simp add: computes_def)
      have c3: "computes pS pR (match_ref pS pR (sH + 1) sA) r3"
        unfolding r3_def using c2 by (intro less.hyps d) (simp add: computes_def)
      have c4: "computes pS pR (match_ref pS pR sH (sA + 1)) r4"
        unfolding r4_def using c3 by (intro less.hyps d) (simp add: computes_def)
      have v: "match_ref pS pR sH sA = ?v"
        using c1 c2 c3 c4 by (simp add: eq(2) computes_def Let_def)
      have "matchWinProbFromSetScore sH sA m =
          (?v, (snd r4)\<lparr>mm_matchMemo := (mm_matchMemo (snd r4))((sH, sA) \<mapsto> ?v)\<rparr>)"
        unfolding eq(1) by (simp only: Let_def None option.case r1_def [symmetric] r2_def [symmetric]
            r3_def [symmetric] r4_def [symmetric])
      with v memo_ok_updates(4) [OF _ v [symmetric]] c4 show ?thesis by (simp add: computes_def)
    qed
  qed
qed

lemma WinProbability_computes:
  assumes ok: "memo_ok pS pR m"
  shows "computes pS pR (win_ref pS pR sH sA gH gA hp ap server tb) (WinProbability sH sA gH gA hp ap server tb m)"
proof -
  define r1 where "r1 = gameWinProb hp ap (server = 1) tb m"
  define r2 where "r2 = setWinProb gH gA (fst r1) server tb (snd r1)"
  define r3 where "r3 = matchWinProbFromSetScore (sH + 1) sA (snd r2)"
  define r4 where "r4 = matchWinProbFromSetScore sH (sA + 1) (snd r3)"
  have c1: "computes pS pR (game_ref pS pR hp ap (server = 1) tb) r1"
    unfolding r1_def by (intro gameWinProb_computes ok)
  have c2: "computes pS pR (setp_ref pS pR gH gA (fst r1) server tb) r2"
    unfolding r2_def using c1 by (intro setWinProb_computes) (simp add: computes_def)
  have c3: "computes pS pR (match_ref pS pR (sH + 1) sA) r3"
    unfolding r3_def using c2 by (intro match_computes) (simp add: computes_def)
  have c4: "computes pS pR (match_ref pS pR sH (sA + 1)) r4"
    unfolding r4_def using c3 by (intro match_computes) (simp add: computes_def)
  show ?thesis
    unfolding WinProbability_def win_ref_def Let_def
      r1_def [symmetric] r2_def [symmetric] r3_def [symmetric] r4_def [symmetric]
    using ok c1 c2 c3 c4 by (auto simp: computes_def)
qed

text \<open>A sequence of calls on one model.\<close>

type_synonym score = "int \<times> int \<times> int \<times> int \<times> string \<times> string \<times> int \<times> bool"

definition win_at :: "score \<Rightarrow> MarkovModel \<Rightarrow> float64 \<times> MarkovModel" where
  "win_at sc m = (case sc of (sH, sA, gH, gA, hp, ap, server, tb) \<Rightarrow> WinProbability sH sA gH gA hp ap server tb m)"

definition win_ref_at :: "float64 \<Rightarrow> score \<Rightarrow> float64" where
  "win_ref_at p sc = (case sc of (sH, sA, gH, gA, hp, ap, server, tb) \<Rightarrow>
     win_ref p (fsub (Fin 1) p) sH sA gH gA hp ap server tb)"

definition after_calls :: "score list \<Rightarrow> MarkovModel \<Rightarrow> MarkovModel" where
  "after_calls = fold (\<lambda>sc m. snd (win_at sc m))"

lemma win_at_computes:
  "memo_ok p (fsub (Fin 1) p) m \<Longrightarrow> computes p (fsub (Fin 1) p) (win_ref_at p sc) (win_at sc m)"
  by (simp add: win_at_def win_ref_at_def WinProbability_computes split: prod.splits)

lemma after_calls_ok: "memo_ok p (fsub (Fin 1) p) m \<Longrightarrow> memo_ok p (fsub (Fin 1) p) (after_calls scs m)"
proof (induction scs arbitrary: m)
  case (Cons sc scs)
  then show ?case using win_at_computes [of p m sc] by (simp add: after_calls_def computes_def)
qed (simp add: after_calls_def)

text \<open>
  The four caches are invisible: however many probabilities a model has already computed, and
  in whatever order, the next \<open>WinProbability\<close> is the value of the recursion without caches, the
  same float64 bit for bit as from a fresh model.
\<close>
theorem WinProbability_history_independent:
  "fst (win_at sc (after_calls scs (NewMarkovModelWithProb p))) = win_ref_at p sc \<and>
   fst (win_at sc (after_calls scs (NewMarkovModelWithProb p))) = fst (win_at sc (NewMarkovModelWithProb p))"
  using win_at_computes [OF after_calls_ok [OF memo_ok_new, of p scs], of sc]
    win_at_computes [OF memo_ok_new, of p sc]
  by (simp add: computes_def)

section \<open>The results are probabilities\<close>

lemma fdiv_unit: "0 \<le> x \<Longrightarrow> x \<le> d \<Longrightarrow> 0 < d \<Longrightarrow> unit_f (fdiv (Fin x) (Fin d))"
  by (auto intro!: fround_unit1 simp: divide_le_eq)

text \<open>Numbers of at least one half are multiples of \<open>2 powi -53\<close>, so their distance to one is exact.\<close>

lemma half_multiple:
  assumes "rnd a = a" "1 / 2 \<le> a" "a \<le> 1"
  obtains m where "a = of_int m * 2 powi (-53)" "0 \<le> m" "m \<le> 2 ^ 53"
proof -
  have nz: "a \<noteq> 0" using assms(2) by auto
  have "(2 :: rat) powi (-1) \<le> a" using assms(2) by (simp add: power_int_def)
  then have "(2 :: rat) powi (-1) < 2 powi (ilog2 a + 1)" using ilog2_bounds(2) [OF nz] assms(2) by linarith
  then have "-1 < ilog2 a + 1" by (simp only: powi_less_iff)
  then have u: "-53 \<le> ulp_exp a" by (simp add: ulp_exp_def)
  obtain k where k: "rnd a = of_int k * 2 powi ulp_exp a" by (rule rnd_representable)
  define m where "m = k * 2 ^ nat (ulp_exp a + 53)"
  have "(2 :: rat) powi ulp_exp a = of_int (2 ^ nat (ulp_exp a + 53)) * 2 powi (-53)"
  proof -
    have "of_int (2 ^ nat (ulp_exp a + 53)) = (2 :: rat) powi (ulp_exp a + 53)"
      using u by (simp add: power_int_def)
    moreover have "(2 :: rat) powi (ulp_exp a + 53 + (-53)) = 2 powi (ulp_exp a + 53) * 2 powi (-53)"
      by (rule power_int_add) simp
    ultimately show ?thesis by (simp only: add.assoc) simp
  qed
  then have "rnd a = of_int m * 2 powi (-53)" unfolding k m_def by (simp only: of_int_mult mult.assoc)
  then have a: "a = of_int m * 2 powi (-53)" using assms(1) by simp
  then have "(of_int m :: rat) = a * 2 ^ 53" by (simp add: power_int_def power_divide)
  then have "(0 :: rat) \<le> of_int m" "(of_int m :: rat) \<le> of_int (2 ^ 53)" using assms by simp_all
  then have "0 \<le> m" "m \<le> 2 ^ 53" by (simp_all only: of_int_le_iff of_int_0_le_iff)
  with a that show thesis by blast
qed

lemma one_minus_exact:
  assumes "rnd a = a" "1 / 2 < a" "a \<le> 1"
  shows "rnd (1 - a) = 1 - a" "1 - a \<le> 1 / 2 - 2 powi (-53)" "a = 1 \<or> 2 powi (-53) \<le> 1 - a"
proof -
  obtain m where m: "a = of_int m * 2 powi (-53)" "0 \<le> m" "m \<le> 2 ^ 53"
    using half_multiple [of a] assms by auto
  have one: "1 - a = of_int (2 ^ 53 - m) * 2 powi (-53)"
    using m by (simp add: power_int_def power_divide field_simps)
  show "rnd (1 - a) = 1 - a" unfolding one using m by (intro rnd_exact) auto
  have mm: "(of_int m :: rat) = a * 2 ^ 53" using m(1) by (simp add: power_int_def power_divide)
  have "(of_int (2 ^ 52) :: rat) < of_int m" unfolding mm using assms(2) by simp
  then have "2 ^ 52 + 1 \<le> m" by (simp only: of_int_less_iff)
  then have "(of_int (2 ^ 52 + 1) :: rat) \<le> of_int m" by (simp only: of_int_le_iff)
  then show "1 - a \<le> 1 / 2 - 2 powi (-53)" unfolding mm by (simp add: power_int_def power_divide field_simps)
  show "a = 1 \<or> 2 powi (-53) \<le> 1 - a"
  proof (cases "m = 2 ^ 53")
    case True
    then show ?thesis using m(1) by (simp add: power_int_def power_divide)
  next
    case False
    with m have "1 \<le> 2 ^ 53 - m" by simp
    then have "(1 :: rat) \<le> of_int (2 ^ 53 - m)" by (simp only: of_int_1_le_iff)
    then show ?thesis unfolding one by (simp add: mult_le_cancel_right1 power_int_def)
  qed
qed

text \<open>The quantities of a deuce: the chance \<open>p2\<close> to win two points in a row, \<open>q2\<close> to lose them.\<close>

definition dc_s :: "rat \<Rightarrow> rat" where "dc_s a = rnd (1 - a)"
definition dc_p2 :: "rat \<Rightarrow> rat" where "dc_p2 a = rnd (a * a)"
definition dc_q2 :: "rat \<Rightarrow> rat" where "dc_q2 a = rnd (dc_s a * dc_s a)"
definition dc_D :: "rat \<Rightarrow> rat" where "dc_D a = rnd (dc_p2 a + dc_q2 a)"
definition unit_rat :: "rat \<Rightarrow> bool" where "unit_rat a \<longleftrightarrow> rnd a = a \<and> 0 \<le> a \<and> a \<le> 1"

lemma unit_ratD: "unit_rat a \<Longrightarrow> rnd a = a" "unit_rat a \<Longrightarrow> 0 \<le> a" "unit_rat a \<Longrightarrow> a \<le> 1"
  by (simp_all add: unit_rat_def)

lemma s_unit: "unit_rat a \<Longrightarrow> 0 \<le> dc_s a \<and> dc_s a \<le> 1"
  using rnd_mono [of "1 - a" 1] by (auto simp: dc_s_def rnd_nonneg unit_rat_def)

lemma p2_unit: "unit_rat a \<Longrightarrow> 0 \<le> dc_p2 a \<and> dc_p2 a \<le> 1 \<and> rnd (dc_p2 a) = dc_p2 a"
  using rnd_mono [of "a * a" 1] by (auto simp: dc_p2_def rnd_nonneg mult_le_one unit_rat_def)

lemma q2_unit: "unit_rat a \<Longrightarrow> 0 \<le> dc_q2 a \<and> dc_q2 a \<le> 1 \<and> rnd (dc_q2 a) = dc_q2 a"
  using s_unit [of a] rnd_mono [of "dc_s a * dc_s a" 1] by (auto simp: dc_q2_def rnd_nonneg mult_le_one)

lemma p2_le_D: "unit_rat a \<Longrightarrow> dc_p2 a \<le> dc_D a"
  using rnd_mono [of "dc_p2 a" "dc_p2 a + dc_q2 a"] p2_unit [of a] q2_unit [of a] by (simp add: dc_D_def)

lemma rnd_quarter: "rnd (1 / 4) = 1 / 4"
  using rnd_exact [of 1 "-2"] by (simp add: power_int_def power_divide)

lemma rnd_half: "rnd (1 / 2) = 1 / 2"
  using rnd_exact [of 1 "-1"] by (simp add: power_int_def)

lemma square_half: "1 / 2 \<le> x \<Longrightarrow> 1 / 4 \<le> rnd (x * x)"
  using rnd_mono [of "1 / 4" "x * x"] mult_mono [of "1 / 2" x "1 / 2" x] by (simp add: rnd_quarter)

lemma s_ge_half: "a \<le> 1 / 2 \<Longrightarrow> 1 / 2 \<le> dc_s a"
  using rnd_mono [of "1 / 2" "1 - a"] by (simp add: dc_s_def rnd_half)

lemma D_pos:
  assumes "unit_rat a"
  shows "1 / 4 \<le> dc_D a"
proof (cases "a \<le> 1 / 2")
  case True
  then have "1 / 4 \<le> dc_q2 a" using square_half [OF s_ge_half] by (simp add: dc_q2_def)
  moreover have "dc_q2 a \<le> dc_D a"
    using rnd_mono [of "dc_q2 a" "dc_p2 a + dc_q2 a"] p2_unit [OF assms] q2_unit [OF assms] by (simp add: dc_D_def)
  ultimately show ?thesis by linarith
next
  case False
  then have "1 / 4 \<le> dc_p2 a" using square_half [of a] by (simp add: dc_p2_def)
  with p2_le_D [OF assms] show ?thesis by linarith
qed

lemma lead_low:
  assumes u: "unit_rat a" and le: "a \<le> 1 / 2"
  shows "a + rnd (rnd (dc_s a * dc_p2 a) / dc_D a) \<le> 1"
proof -
  have "dc_p2 a \<le> dc_q2 a"
    using s_ge_half [OF le] le unit_ratD [OF u] unfolding dc_p2_def dc_q2_def by (intro rnd_mono mult_mono) auto
  then have "rnd (dc_p2 a + dc_p2 a) \<le> dc_D a" unfolding dc_D_def by (intro rnd_mono) simp
  moreover have "rnd (dc_p2 a + dc_p2 a) = dc_p2 a + dc_p2 a"
  proof -
    obtain m where m: "dc_p2 a = of_int m * 2 powi ulp_exp (a * a)" "\<bar>m\<bar> \<le> 2 ^ 53"
      unfolding dc_p2_def by (rule rnd_representable)
    have "dc_p2 a + dc_p2 a = of_int m * 2 powi (ulp_exp (a * a) + 1)" using m(1) by (simp add: power_int_add)
    then show ?thesis using rnd_exact [OF m(2), of "ulp_exp (a * a) + 1"] by (simp add: ulp_exp_def)
  qed
  ultimately have d: "dc_p2 a + dc_p2 a \<le> dc_D a" by simp
  have "dc_s a * dc_p2 a \<le> dc_p2 a" using s_unit [OF u] p2_unit [OF u] by (simp add: mult_left_le_one_le)
  then have "rnd (dc_s a * dc_p2 a) \<le> dc_p2 a" using rnd_mono p2_unit [OF u] by metis
  then have "rnd (dc_s a * dc_p2 a) / dc_D a \<le> 1 / 2" using d D_pos [OF u] by (simp add: divide_le_eq)
  then have "rnd (rnd (dc_s a * dc_p2 a) / dc_D a) \<le> 1 / 2" using rnd_mono rnd_half by metis
  with le show ?thesis by linarith
qed

lemma rnd_le_rel:
  assumes "2 powi (-1022) \<le> x"
  shows "rnd x \<le> x * (1 + 2 powi (-53))"
proof -
  have "0 < x" using two_powi_pos assms by (rule less_le_trans)
  then have "\<bar>rnd x - x\<bar> \<le> x * 2 powi (-53)" using rnd_rel_error [of x] assms by simp
  then have "rnd x - x \<le> x * 2 powi (-53)" by (rule abs_le_D1)
  then show ?thesis unfolding distrib_left mult_1_right by linarith
qed

lemma lead_high:
  assumes u: "unit_rat a" and gt: "1 / 2 < a"
  shows "a + rnd (rnd (dc_s a * dc_p2 a) / dc_D a) \<le> 1 + 2 powi (-53)"
proof (cases "a = 1")
  case True
  have "dc_s a = 0" by (simp add: True dc_s_def)
  then show ?thesis using True by simp
next
  case False
  let ?e = "(2 :: rat) powi (-53)"
  note o = one_minus_exact [OF unit_ratD(1) [OF u] gt unit_ratD(3) [OF u]]
  have s: "dc_s a = 1 - a" "?e \<le> dc_s a" "dc_s a \<le> 1 / 2 - ?e" using o False by (simp_all add: dc_s_def)
  have e: "0 < ?e" "?e \<le> 1 / 2" by (simp_all add: power_int_def power_divide)
  have q: "1 / 4 \<le> dc_p2 a" using square_half [of a] gt by (simp add: dc_p2_def)
  have "?e * (1 / 4) \<le> dc_s a * dc_p2 a" using s q by (intro mult_mono) auto
  moreover have "(2 :: rat) powi (-1022) \<le> 2 powi (-55)" by (simp only: powi_le_iff)
  moreover have "?e * (1 / 4) = (2 :: rat) powi (-55)" by (simp add: power_int_def power_divide)
  ultimately have "rnd (dc_s a * dc_p2 a) \<le> dc_s a * dc_p2 a * (1 + ?e)" by (intro rnd_le_rel) linarith
  also have "\<dots> \<le> dc_s a * dc_D a * (1 + ?e)"
    using p2_le_D [OF u] s_unit [OF u] e by (intro mult_right_mono mult_left_mono) auto
  finally have y: "rnd (dc_s a * dc_p2 a) / dc_D a \<le> dc_s a * (1 + ?e)"
    using D_pos [OF u] by (simp add: divide_le_eq mult.commute mult.left_commute)
  have "(2 :: rat) powi (-1022) \<le> ?e" by (simp only: powi_le_iff)
  also have "\<dots> \<le> dc_s a * (1 + ?e)" using s e mult_left_mono [of 1 "1 + ?e" "dc_s a"] by simp
  finally have "rnd (dc_s a * (1 + ?e)) \<le> dc_s a * (1 + ?e) * (1 + ?e)" by (rule rnd_le_rel)
  with rnd_mono [OF y] have "rnd (rnd (dc_s a * dc_p2 a) / dc_D a) \<le> dc_s a * (1 + ?e) * (1 + ?e)" by linarith
  also have "\<dots> = dc_s a + dc_s a * (2 * ?e + ?e * ?e)" by (simp add: algebra_simps)
  also have "dc_s a * (2 * ?e + ?e * ?e) \<le> (1 / 2 - ?e) * (2 * ?e + ?e * ?e)"
    using s e by (intro mult_right_mono) auto
  also have "(1 / 2 - ?e) * (2 * ?e + ?e * ?e) \<le> ?e"
    by (simp add: power_int_def power_divide)
  finally show ?thesis using s(1) by linarith
qed

lemma unit_f_rat: "unit_f (Fin a) \<longleftrightarrow> unit_rat a"
  by (auto simp: unit_f_def unit_rat_def)

lemma deuce_values:
  assumes "unit_rat a"
  shows "fmul (Fin a) (Fin a) = Fin (dc_p2 a)" "fsub (Fin 1) (Fin a) = Fin (dc_s a)"
    "fmul (Fin (dc_s a)) (Fin (dc_s a)) = Fin (dc_q2 a)"
    "fadd (Fin (dc_p2 a)) (Fin (dc_q2 a)) = Fin (dc_D a)"
    "fmul (Fin (dc_s a)) (Fin (dc_p2 a)) = Fin (rnd (dc_s a * dc_p2 a))"
    "fmul (Fin a) (Fin (dc_p2 a)) = Fin (rnd (a * dc_p2 a))"
proof -
  have small: "0 \<le> x \<Longrightarrow> x \<le> 2 \<Longrightarrow> fround x = Fin (rnd x)" for x :: rat
    by (rule fround_small) simp
  note u = unit_ratD [OF assms] s_unit [OF assms] p2_unit [OF assms] q2_unit [OF assms]
  have m: "fround (x * y) = Fin (rnd (x * y))" if "0 \<le> x" "x \<le> 1" "0 \<le> y" "y \<le> 1" for x y :: rat
    using that mult_le_one [of x y] by (intro small) (auto intro: order_trans)
  show "fmul (Fin a) (Fin a) = Fin (dc_p2 a)" "fmul (Fin (dc_s a)) (Fin (dc_s a)) = Fin (dc_q2 a)"
    "fmul (Fin (dc_s a)) (Fin (dc_p2 a)) = Fin (rnd (dc_s a * dc_p2 a))"
    "fmul (Fin a) (Fin (dc_p2 a)) = Fin (rnd (a * dc_p2 a))"
    using u by (simp_all add: m) (simp_all add: dc_p2_def dc_q2_def)
  show "fsub (Fin 1) (Fin a) = Fin (dc_s a)" using u by (simp add: fsub_def small dc_s_def)
  show "fadd (Fin (dc_p2 a)) (Fin (dc_q2 a)) = Fin (dc_D a)"
    using u by (simp add: small) (simp add: dc_D_def)
qed

lemma deuce_unit:
  assumes "unit_f p"
  shows "unit_f (fdiv (fmul p p) (fadd (fmul p p) (fmul (fsub (Fin 1) p) (fsub (Fin 1) p))))" (is ?level)
    "unit_f (fadd p (fdiv (fmul (fsub (Fin 1) p) (fmul p p)) (fadd (fmul p p) (fmul (fsub (Fin 1) p) (fsub (Fin 1) p)))))" (is ?ahead)
    "unit_f (fdiv (fmul p (fmul p p)) (fadd (fmul p p) (fmul (fsub (Fin 1) p) (fsub (Fin 1) p))))" (is ?behind)
proof -
  obtain a where p: "p = Fin a" and u: "unit_rat a" using assms by (auto simp: unit_f_rat elim!: unit_fE simp: unit_rat_def)
  note v = deuce_values [OF u] and d = D_pos [OF u] p2_le_D [OF u] p2_unit [OF u] s_unit [OF u] unit_ratD [OF u]
  show ?level unfolding p v using d by (intro fdiv_unit) auto
  have m: "0 \<le> rnd (x * dc_p2 a)" "rnd (x * dc_p2 a) \<le> dc_D a" if "0 \<le> x" "x \<le> 1" for x
  proof -
    have "rnd (x * dc_p2 a) \<le> rnd (dc_p2 a)" using that d by (intro rnd_mono mult_left_le_one_le) auto
    then show "rnd (x * dc_p2 a) \<le> dc_D a" using d by linarith
    show "0 \<le> rnd (x * dc_p2 a)" using that d by (intro rnd_nonneg) simp
  qed
  show ?behind unfolding p v using m [of a] d by (intro fdiv_unit) auto
  let ?y = "rnd (dc_s a * dc_p2 a) / dc_D a"
  have y: "0 \<le> ?y" "?y \<le> 1" using m [of "dc_s a"] d by (auto simp: divide_le_eq)
  have "\<bar>?y\<bar> \<le> 2 ^ 64" unfolding abs_of_nonneg [OF y(1)] using y(2) by (rule order_trans) simp
  from fround_small(1) [OF this] have f: "fdiv (Fin (rnd (dc_s a * dc_p2 a))) (Fin (dc_D a)) = Fin (rnd ?y)"
    using d by auto
  have "a + rnd ?y \<le> 1 + 2 powi (-53)"
    using lead_low [OF u] lead_high [OF u] two_powi_pos [of "-53"] by (cases "a \<le> 1 / 2") auto
  then show ?ahead unfolding p v f using d y by (simp add: fround_unit rnd_nonneg)
qed

lemma game_unit: "unit_f p \<Longrightarrow> unit_f (gameWinProbRecursive h a p)"
proof (induction h a p rule: gameWinProbRecursive.induct)
  case (1 h a p)
  show ?case
    using "1.IH" "1.prems" deuce_unit [OF "1.prems"]
    by (subst gameWinProbRecursive.simps) (auto simp: Let_def intro!: convex_unit)
qed

text \<open>Serve probabilities between one and ninety-nine percent.\<close>

definition serve_ok :: "float64 \<Rightarrow> bool" where
  "serve_ok p \<longleftrightarrow> (case p of Fin a \<Rightarrow> rnd a = a \<and> 1 / 100 \<le> a \<and> a \<le> 99 / 100 | _ \<Rightarrow> False)"

lemma serve_unit: "serve_ok p \<Longrightarrow> unit_f p"
  by (auto simp: serve_ok_def unit_f_def split: float64.splits)

lemma tb_deuce_unit:
  assumes "serve_ok p"
  shows "unit_f (tb_deuce p (fsub (Fin 1) p))"
proof -
  obtain a where p: "p = Fin a" and a: "rnd a = a" "1 / 100 \<le> a" "a \<le> 99 / 100"
    using assms by (auto simp: serve_ok_def split: float64.splits)
  have lit: "(2 :: rat) powi (-7) \<le> 1 / 100" by (simp add: power_int_def power_divide)
  let ?s = "rnd (1 - a)"
  have "2 powi (-7) \<le> 1 - a" using a lit by linarith
  then have s: "2 powi (-7) \<le> ?s" "?s \<le> 1"
    using rnd_mono [of "2 powi (-7)" "1 - a"] rnd_powi [of "-7"] rnd_mono [of "1 - a" 1] a by auto
  have s0: "0 < ?s" using two_powi_pos s(1) by (rule less_le_trans)
  have fs: "fsub (Fin 1) p = Fin ?s" using a by (simp add: p fsub_def fround_small)
  have ft: "unit_f (fmul (fsub (Fin 1) p) (fsub (Fin 1) (fsub (Fin 1) p)))"
    using serve_unit [OF assms] by (intro fmul_unit fsub_one_unit)
  then obtain q where q: "fmul (fsub (Fin 1) p) (fsub (Fin 1) (fsub (Fin 1) p)) = Fin q" "0 \<le> q" "q \<le> 1"
    by (auto elim: unit_fE)
  have as: "2 powi (-7) * 2 powi (-7) \<le> a * ?s"
    using a s lit by (intro mult_mono) (auto simp: less_imp_le)
  have as1: "a * ?s \<le> 1" using a s s0 by (intro mult_le_one) auto
  have "(2 :: rat) powi (-14) \<le> rnd (a * ?s)"
    using rnd_mono [OF as] rnd_powi [of "-14"] by (simp add: power_int_add [symmetric])
  then have r: "0 < rnd (a * ?s)" by (rule less_le_trans [OF two_powi_pos])
  have r1: "rnd (a * ?s) \<le> 1" using rnd_mono [OF as1] by simp
  have m: "fmul p (fsub (Fin 1) p) = Fin (rnd (a * ?s))"
    using as1 a s0 by (simp add: p fs [unfolded p] fround_small)
  have le: "rnd (a * ?s) \<le> rnd (rnd (a * ?s) + q)" using rnd_mono [of "rnd (a * ?s)" "rnd (a * ?s) + q"] q by simp
  have "fadd (Fin (rnd (a * ?s))) (Fin q) = Fin (rnd (rnd (a * ?s) + q))"
    using r r1 q by (simp add: fround_small)
  then show ?thesis
    unfolding tb_deuce_def Let_def m q(1) using r le by (simp only:) (intro fdiv_unit, auto)
qed

lemma tb_ref_unit:
  assumes "serve_ok p"
  shows "unit_f (tb_ref p (fsub (Fin 1) p) h a hs)"
proof -
  have "unit_f (tb_ref pS pR h a hs)" if "unit_f pS" "unit_f pR" "unit_f (tb_deuce pS pR)" for pS pR h a hs
    using that
  proof (induction pS pR h a hs rule: tb_ref.induct)
    case (1 pS pR h a hs)
    then show ?case by (subst tb_ref.simps) (auto simp: Let_def intro!: convex_unit)
  qed
  then show ?thesis using assms serve_unit tb_deuce_unit fsub_one_unit by blast
qed

lemma set_ref_unit:
  assumes "serve_ok p"
  shows "unit_f (set_ref p (fsub (Fin 1) p) h a server pis)"
proof -
  have "unit_f (set_ref pS pR h a server pis)"
    if "unit_f pS" "unit_f pR" "\<And>hp ap hs. unit_f (tiebreak_ref pS pR hp ap hs)" for pS pR h a server pis
    using that
  proof (induction pS pR h a server pis rule: set_ref.induct)
    case (1 pS pR h a server pis)
    then show ?case by (subst set_ref.simps) (auto simp: Let_def intro!: convex_unit)
  qed
  then show ?thesis
    using assms serve_unit fsub_one_unit tb_ref_unit [OF assms] unfolding tiebreak_ref_def by blast
qed

lemma half_sum_unit:
  assumes "unit_f x" "unit_f y"
  shows "unit_f (fadd (fmul (Fin (1 / 2)) x) (fmul (Fin (1 / 2)) y))"
proof -
  have "fsub (Fin 1) (Fin (1 / 2)) = Fin (1 / 2)" by (simp add: fsub_def fround_small rnd_half)
  moreover have "unit_f (Fin (1 / 2))" by (simp add: unit_f_rat unit_rat_def rnd_half)
  ultimately show ?thesis using convex_unit [of "Fin (1 / 2)" x y] assms by simp
qed

lemma match_ref_unit:
  assumes "serve_ok p"
  shows "unit_f (match_ref p (fsub (Fin 1) p) sH sA)"
proof -
  have "unit_f (match_ref pS pR sH sA)"
    if "\<And>h a server pis. unit_f (set_ref pS pR h a server pis)" for pS pR sH sA
    using that
  proof (induction pS pR sH sA rule: match_ref.induct)
    case (1 pS pR sH sA)
    then show ?case by (subst match_ref.simps) (auto simp: Let_def intro!: convex_unit half_sum_unit)
  qed
  then show ?thesis using set_ref_unit [OF assms] by blast
qed

lemma win_ref_unit:
  assumes "serve_ok p"
  shows "unit_f (win_ref p (fsub (Fin 1) p) sH sA gH gA hp ap server tb)"
proof -
  have g: "unit_f (game_ref p (fsub (Fin 1) p) hp ap (server = 1) tb)"
    using tb_ref_unit [OF assms] serve_unit [OF assms] fsub_one_unit
    by (auto simp: game_ref_def tiebreak_ref_def intro: game_unit)
  have "unit_f (setp_ref p (fsub (Fin 1) p) gH gA x server tb)" if "unit_f x" for x
    using that set_ref_unit [OF assms] tb_ref_unit [OF assms]
    by (auto simp: setp_ref_def Let_def tiebreak_ref_def intro!: convex_unit)
  from this [OF g] show ?thesis
    using match_ref_unit [OF assms] by (auto simp: win_ref_def Let_def intro!: convex_unit)
qed

text \<open>
  C7. \<open>WinProbability\<close> is a probability: for a serve probability between one and ninety-nine percent,
  every score (including impossible ones), every server value and every history of earlier calls,
  the recursion terminates and the result is a finite float64 in the interval from zero to one,
  despite the rounding of every intermediate operation.
\<close>
theorem WinProbability_in_unit_interval:
  assumes "serve_ok p"
  shows "\<exists>x. fst (WinProbability sH sA gH gA hp ap server tb (after_calls scs (NewMarkovModelWithProb p))) = Fin x \<and>
    0 \<le> x \<and> x \<le> 1"
  using WinProbability_computes [OF after_calls_ok [OF memo_ok_new, of p scs], of sH sA gH gA hp ap server tb]
    win_ref_unit [OF assms, of sH sA gH gA hp ap server tb]
  by (auto simp: computes_def elim: unit_fE)

theorem WinProbability_in_unit_interval_witness:
  "\<exists>x. fst (WinProbability 1 0 5 4 ''40'' ''A'' 1 False (NewMarkovModelWithProb (Fin (5 / 8)))) = Fin x \<and> 0 \<le> x \<and> x \<le> 1"
proof -
  have "serve_ok (Fin (5 / 8))"
    using rnd_exact [of 5 "-3"] by (simp add: serve_ok_def power_int_def power_divide)
  from WinProbability_in_unit_interval [OF this, of 1 0 5 4 "''40''" "''A''" 1 False "[]"] show ?thesis
    by (simp add: after_calls_def)
qed

text \<open>The clamped price.\<close>

lemma flit_values: "flit (1 / 100) = Fin (rnd (1 / 100))" "flit (99 / 100) = Fin (rnd (99 / 100))"
  by (simp_all add: flit_def fround_small)

lemma flit_order: "rnd (1 / 100) < rnd (99 / 100)"
proof -
  have "rnd (1 / 100) \<le> 1 / 2" using rnd_mono [of "1 / 100" "1 / 2"] by (simp add: rnd_half)
  moreover have "rnd (3 / 4) \<le> rnd (99 / 100)" by (rule rnd_mono) simp
  moreover have "rnd (3 / 4) = 3 / 4" using rnd_exact [of 3 "-2"] by (simp add: power_int_def power_divide)
  ultimately show ?thesis by linarith
qed

text \<open>
  \<open>FairValue\<close> stays inside its clamp: it returns a finite price between the float64 values of
  0.01 and 0.99, and equals the win probability whenever that lies between them.
\<close>
theorem FairValue_clamped:
  assumes "serve_ok p" "m = after_calls scs (NewMarkovModelWithProb p)"
  shows "\<exists>x w. fst (FairValue sH sA gH gA hp ap server tb m) = Fin x \<and>
    fst (WinProbability sH sA gH gA hp ap server tb m) = Fin w \<and>
    rnd (1 / 100) \<le> x \<and> x \<le> rnd (99 / 100) \<and>
    x = max (rnd (1 / 100)) (min (rnd (99 / 100)) w)"
proof -
  obtain w where w: "fst (WinProbability sH sA gH gA hp ap server tb m) = Fin w"
    using WinProbability_computes [OF after_calls_ok [OF memo_ok_new, of p scs], of sH sA gH gA hp ap server tb]
      win_ref_unit [OF assms(1), of sH sA gH gA hp ap server tb] assms(2)
    by (auto simp: computes_def elim: unit_fE)
  have "fst (FairValue sH sA gH gA hp ap server tb m) = Fin (max (rnd (1 / 100)) (min (rnd (99 / 100)) w))"
    using flit_order by (auto simp: FairValue_def Let_def w flit_values max_def min_def)
  with w flit_order show ?thesis by (auto simp: max_def min_def)
qed

theorem FairValue_clamped_witness:
  "\<exists>x. fst (FairValue 0 0 0 0 ''0'' ''0'' 1 False (NewMarkovModelWithProb (Fin (5 / 8)))) = Fin x \<and> x \<le> rnd (99 / 100)"
proof -
  have "serve_ok (Fin (5 / 8))"
    using rnd_exact [of 5 "-3"] by (simp add: serve_ok_def power_int_def power_divide)
  from FairValue_clamped [OF this, of _ "[]" 0 0 0 0 "''0''" "''0''" 1 False] show ?thesis
    by (auto simp: after_calls_def)
qed

end
