(* ===== verification/StrategyCore.thy ===== *)
theory StrategyCore
  imports MatchLoop Markov
begin

text \<open>
  The common ground of the strategies: \<open>domain/strategy/strategy.go\<close> (the shared state, the read-only
  match view and the opaque per-strategy entries), \<open>helpers.go\<close>, and the mutable state types of the
  strategies, which the \<open>map[string]any\<close> of the shared state holds. Prices, scores and timestamps
  are unbounded integers here: the values that occur are far from the ends of the 64-bit range.
\<close>

section \<open>Per-strategy state types\<close>

record matchpointState =
  ms_setsHome :: int
  ms_setsAway :: int
  ms_lastSetNum :: int
  ms_lastHomeGames :: int
  ms_lastAwayGames :: int
  ms_lastScorer :: int
  ms_seenPoints :: "string \<rightharpoonup> bool"

record adOutState =
  ao_open :: bool
  ao_marketTicker :: string
  ao_buyPriceCents :: int
  ao_buyPointKey :: string
  ao_buyTS :: int

text \<open>Peak prices and a fired flag: the shape of \<open>breakBackState\<close>, \<open>setdownState\<close> and \<open>comebackState\<close>.\<close>

record peakState =
  pk_maxPrices :: "string \<rightharpoonup> int"
  pk_fired :: bool

record breakPointState =
  bp_setsHome :: int
  bp_setsAway :: int

record priceSample =
  sm_ts :: int
  sm_price :: int

record btdPosition =
  bd_entryPrice :: int
  bd_dipSize :: int
  bd_entryTS :: int

record btdState =
  bt_samples :: "string \<rightharpoonup> priceSample list"
  bt_positions :: "string \<rightharpoonup> btdPosition"

record fadeLongshotState =
  fl_fired :: bool
  fl_homeSetWins :: int
  fl_awaySetWins :: int
  fl_homeGames :: int
  fl_awayGames :: int
  fl_isMatchPoint :: bool
  fl_isSetPoint :: bool

record server1530State =
  sv_fired :: bool
  sv_prev :: "string \<rightharpoonup> int"
  sv_max :: "string \<rightharpoonup> int"

record spikeFadeState =
  sf_samples :: "string \<rightharpoonup> priceSample list"
  sf_fired :: bool
  sf_isMatchPoint :: bool
  sf_isSetPoint :: bool

record tiebreakState =
  tb_prices :: "string \<rightharpoonup> int"
  tb_maxPrices :: "string \<rightharpoonup> int"
  tb_fired :: bool

record cmState =
  cm_fired :: bool
  cm_series :: string

text \<open>
  The dynamic type of a value of type \<open>any\<close>: one constructor per Go type that is stored there. The
  states whose only field is \<open>fired\<close> are represented by that flag.
\<close>

datatype opaque =
  ONil
  | OBool bool
  | OMatchPoint matchpointState
  | OSetPoint matchpointState
  | OAdOut adOutState
  | OBreakBack peakState
  | OSetDown peakState
  | OComeback peakState
  | OBreakPoint breakPointState
  | OBuyTheDip btdState
  | OCloseTimer bool
  | OFadeLongshot fadeLongshotState
  | ONoFade bool
  | OServer1530 server1530State
  | OSet1Winner bool
  | OSpikeFade spikeFadeState
  | OTiebreakServer bool
  | OTiebreak tiebreakState
  | OVolRatio bool
  | OSurfaceMarkov bool
  | OCalibratedMarkov cmState

section \<open>Shared state\<close>

record MatchView =
  mv_EventTicker :: string
  mv_MarketTickers :: "string list"
  mv_OccurrenceTS :: int
  mv_CloseTS :: int
  mv_Prices :: "string \<rightharpoonup> int"
  mv_PriceTS :: "string \<rightharpoonup> int"
  mv_SetsHome :: int
  mv_SetsAway :: int
  mv_GamesHome :: int
  mv_GamesAway :: int
  mv_HomePoints :: string
  mv_AwayPoints :: string
  mv_Server :: int
  mv_IsTiebreak :: bool
  mv_SetNumber :: int
  mv_GameNumber :: int
  mv_PointNumber :: int
  mv_Scorer :: int
  mv_IsBreakPoint :: bool
  mv_IsSetPoint :: bool
  mv_IsMatchPoint :: bool

record State =
  st_MatchView :: MatchView
  st_StrategyState :: "string \<rightharpoonup> opaque"

definition State_Get :: "string \<Rightarrow> State \<Rightarrow> opaque" where
  "State_Get name st = (case st_StrategyState st name of None \<Rightarrow> ONil | Some v \<Rightarrow> v)"

definition State_Set :: "string \<Rightarrow> opaque \<Rightarrow> State \<Rightarrow> State" where
  "State_Set name v st = st\<lparr>st_StrategyState := (st_StrategyState st)(name \<mapsto> v)\<rparr>"

text \<open>
  A handler reads the match view and its own entry; it may replace the entry (\<open>Set\<close>, or writing
  through the pointer it holds) and returns intents. \<open>None\<close> is a panic: a failed type assertion or
  an index out of range.
\<close>

type_synonym own_result = "(opaque option \<times> Intent list) option"

definition stay :: own_result where "stay = Some (None, [])"
definition keep :: "opaque \<Rightarrow> own_result" where "keep v = Some (Some v, [])"
definition emit :: "opaque \<Rightarrow> Intent list \<Rightarrow> own_result" where "emit v is = Some (Some v, is)"

definition run_own :: "string \<Rightarrow> (MatchView \<Rightarrow> opaque \<Rightarrow> own_result) \<Rightarrow> State \<Rightarrow> (State \<times> Intent list) option" where
  "run_own name h st =
     (case h (st_MatchView st) (State_Get name st) of
        None \<Rightarrow> None
      | Some (w, is) \<Rightarrow> Some ((case w of None \<Rightarrow> st | Some v \<Rightarrow> State_Set name v st), is))"

text \<open>The lifecycle arm the strategies share: settlement clears the entry.\<close>

definition on_lifecycle :: "LifecycleChange \<Rightarrow> own_result" where
  "on_lifecycle e = (if lc_Type e = ''settled'' \<or> lc_Type e = ''determined'' then keep ONil else stay)"

definition mk_intent :: "string \<Rightarrow> string \<Rightarrow> string \<Rightarrow> int \<Rightarrow> int \<Rightarrow> string \<Rightarrow> Intent" where
  "mk_intent mkt strategy action price prob reason =
     \<lparr>in_MarketTicker = mkt, in_Strategy = strategy, in_Action = action, in_PriceCents = price,
      in_ConvProbBps = prob, in_Reason = reason, in_FeatureHash = [], in_Features = [],
      in_ModelID = None, in_Propensity = None\<rparr>"

section \<open>Helpers\<close>

definition normalizeScore :: "string \<Rightarrow> string" where
  "normalizeScore s = (if s \<in> {''0'', ''15'', ''30'', ''40'', ''A''} then s else [])"

definition canWinGame :: "string \<Rightarrow> string \<Rightarrow> int \<Rightarrow> int \<Rightarrow> bool" where
  "canWinGame homePts awayPts server player =
     (let h = normalizeScore homePts; a = normalizeScore awayPts in
      if player = 1 then h = ''A'' \<or> (h = ''40'' \<and> a \<noteq> ''40'' \<and> a \<noteq> ''A'')
      else a = ''A'' \<or> (a = ''40'' \<and> h \<noteq> ''40'' \<and> h \<noteq> ''A''))"

text \<open>
  \<open>intToStr\<close> fills a buffer of twelve bytes from its end; writing below index zero panics. \<open>pos\<close> is
  the index of the first byte written, \<open>buf\<close> the bytes from there on.
\<close>

function its_loop :: "nat \<Rightarrow> int \<Rightarrow> string \<Rightarrow> (nat \<times> string) option" where
  "its_loop pos n buf =
     (if n > 0
      then (if pos = 0 then None
            else its_loop (pos - 1) (n sdiv 10) (digit_char (nat (n smod 10)) # buf))
      else Some (pos, buf))"
  by pat_completeness auto
termination by (relation "measure (\<lambda>(pos, n, buf). pos)") auto

declare its_loop.simps [simp del]

definition intToStr :: "int \<Rightarrow> string option" where
  "intToStr n =
     (if n = 0 then Some ''0''
      else
        (let neg = n < 0; m = (if neg then wrap64 (- n) else n) in
         case its_loop 12 m [] of
           None \<Rightarrow> None
         | Some (pos, buf) \<Rightarrow>
             (if neg then (if pos = 0 then None else Some (CHR ''-'' # buf)) else Some buf)))"

definition pointKeyStr :: "int \<Rightarrow> int \<Rightarrow> int \<Rightarrow> string option" where
  "pointKeyStr setN game point =
     Option.bind (intToStr setN) (\<lambda>s.
     Option.bind (intToStr game) (\<lambda>g.
     Option.bind (intToStr point) (\<lambda>p. Some (s @ '':'' @ g @ '':'' @ p))))"

definition sideName :: "int \<Rightarrow> string" where
  "sideName player = (if player = 1 then ''home'' else ''away'')"

lemma its_loop_pos:
  "0 < n \<Longrightarrow> its_loop pos n buf =
     (if length (show_nat (nat n)) \<le> pos then Some (pos - length (show_nat (nat n)), show_nat (nat n) @ buf) else None)"
proof (induction pos n buf rule: its_loop.induct)
  case (1 pos n buf)
  have q: "n sdiv 10 = n div 10" "n smod 10 = n mod 10"
    using "1.prems" by (simp_all add: signed_divide_int_def signed_modulo_int_def minus_mult_div_eq_mod)
  have nt: "nat (n div 10) = nat n div 10" "nat (n mod 10) = nat n mod 10"
    using "1.prems" by (simp_all add: nat_div_distrib nat_mod_distrib)
  show ?case
  proof (cases "n < 10")
    case True
    then have "n div 10 = 0" "nat n < 10" "n mod 10 = n" using "1.prems" by auto
    then show ?thesis
      using "1.prems" by (subst its_loop.simps) (auto simp: q its_loop.simps [of _ 0] show_nat.simps [of "nat n"])
  next
    case False
    then have d: "0 < n div 10" "\<not> nat n < 10" by auto
    have sn: "show_nat (nat n) = show_nat (nat (n div 10)) @ [digit_char (nat (n mod 10))]"
      using d by (subst show_nat.simps) (simp add: nt)
    show ?thesis
    proof (cases "pos = 0")
      case True
      then show ?thesis using "1.prems" sn by (subst its_loop.simps) simp
    next
      case False
      with "1.IH" d "1.prems" show ?thesis
        by (subst its_loop.simps) (auto simp: q sn)
    qed
  qed
qed

text \<open>Within twelve characters \<open>intToStr\<close> is the decimal representation; beyond, it panics.\<close>

lemma intToStr_eq:
  assumes "in_int64 n" "n \<noteq> int64_min"
  shows "intToStr n = (if length (show_int n) \<le> 12 then Some (show_int n) else None)"
proof -
  have w: "wrap64 (- n) = - n" using assms by (intro wrap64_id) (auto simp: int64_bounds)
  consider "n = 0" | "0 < n" | "n < 0" by linarith
  then show ?thesis
  proof cases
    case 1
    then show ?thesis by (simp add: intToStr_def show_int_def show_nat.simps digit_char_def char_of_def bit_0)
  next
    case 2
    then show ?thesis by (simp add: intToStr_def its_loop_pos show_int_def)
  next
    case 3
    then show ?thesis using w by (auto simp: intToStr_def its_loop_pos show_int_def Let_def)
  qed
qed

lemma show_nat_length: "0 < k \<Longrightarrow> n < 10 ^ k \<Longrightarrow> length (show_nat n) \<le> k"
proof (induction n arbitrary: k rule: show_nat.induct)
  case (1 n)
  show ?case
  proof (cases "n < 10")
    case True
    with "1.prems" show ?thesis by (simp add: show_nat.simps [of n])
  next
    case False
    obtain j where j: "k = Suc j" using "1.prems"(1) by (cases k) auto
    with "1.prems"(2) False have "j \<noteq> 0" by (cases j) auto
    with j have k: "k = Suc j" "0 < j" by auto
    with "1.prems" have "n div 10 < 10 ^ j" by (simp add: div_less_iff_less_mult mult.commute)
    with "1.IH" [OF False, of j] k False show ?thesis by (simp add: show_nat.simps [of n])
  qed
qed

definition small :: "int \<Rightarrow> bool" where "small n \<longleftrightarrow> \<bar>n\<bar> < 10 ^ 11"

lemma intToStr_small [simp]: "small n \<Longrightarrow> intToStr n = Some (show_int n)"
proof -
  assume "small n"
  then have n: "\<bar>n\<bar> < 10 ^ 11" by (simp add: small_def)
  then have "nat n < 10 ^ 11" "nat (- n) < 10 ^ 11" by (simp_all add: nat_less_iff)
  then have "length (show_nat (nat n)) \<le> 11" "length (show_nat (nat (- n))) \<le> 11"
    using show_nat_length [of 11] by simp_all
  then have "length (show_int n) \<le> 12" by (simp add: show_int_def)
  moreover have "in_int64 n" "n \<noteq> int64_min" using n by (auto simp: int64_bounds)
  ultimately show ?thesis by (simp add: intToStr_eq)
qed

lemma pointKeyStr_small [simp]:
  "small s \<Longrightarrow> small g \<Longrightarrow> small p \<Longrightarrow>
     pointKeyStr s g p = Some (show_int s @ '':'' @ show_int g @ '':'' @ show_int p)"
  by (simp add: pointKeyStr_def)

text \<open>The keys of two points are equal only for the same point.\<close>

lemma intToStr_min: "intToStr int64_min = Some ''-''"
  by (simp add: intToStr_def int64_min_def wrap64_def its_loop.simps)

lemma show_int_not_minus: "show_int n \<noteq> ''-''"
  using show_nat_nonempty [of "nat n"] show_nat_nonempty [of "nat (- n)"] show_nat_hd_digit [of "nat n" "CHR ''-''" "[]"]
  by (auto simp: show_int_def)

lemma intToStr_cases:
  assumes "in_int64 n" "intToStr n = Some s"
  shows "n = int64_min \<and> s = ''-'' \<or> s = show_int n"
  using assms intToStr_eq [of n] intToStr_min by (cases "n = int64_min") (auto split: if_splits)

lemma intToStr_inj:
  assumes "in_int64 m" "in_int64 n" "intToStr m = Some s" "intToStr n = Some s"
  shows "m = n"
  using intToStr_cases [OF assms(1,3)] intToStr_cases [OF assms(2,4)] show_int_not_minus by (metis show_int_inj)

lemma intToStr_no_colon:
  assumes "in_int64 n" "intToStr n = Some s"
  shows "CHR '':'' \<notin> set s"
  using intToStr_cases [OF assms] show_int_no_colon [of n] by auto

text \<open>
  The dedup keys of the point-driven strategies are faithful: two points get the same key only
  if set, game and point number all agree, so no point is mistaken for another.
\<close>
theorem pointKeyStr_injective:
  assumes "in_int64 s" "in_int64 g" "in_int64 p" "in_int64 s'" "in_int64 g'" "in_int64 p'"
    and "pointKeyStr s g p = Some k" "pointKeyStr s' g' p' = Some k"
  shows "s = s' \<and> g = g' \<and> p = p'"
proof -
  obtain a b c where k: "intToStr s = Some a" "intToStr g = Some b" "intToStr p = Some c" "k = a @ CHR '':'' # b @ CHR '':'' # c"
    using assms(7) by (auto simp: pointKeyStr_def)
  obtain a' b' c' where k': "intToStr s' = Some a'" "intToStr g' = Some b'" "intToStr p' = Some c'" "k = a' @ CHR '':'' # b' @ CHR '':'' # c'"
    using assms(8) by (auto simp: pointKeyStr_def)
  have "a = a' \<and> b @ CHR '':'' # c = b' @ CHR '':'' # c'"
    by (rule append_sep_inj [of "CHR '':''"]) (use k k' assms intToStr_no_colon in auto)
  moreover from this have "b = b' \<and> c = c'"
    using append_sep_inj [of "CHR '':''" b b' c c'] k k' assms intToStr_no_colon by auto
  ultimately show ?thesis using k k' assms intToStr_inj by metis
qed

theorem pointKeyStr_injective_witness: "pointKeyStr 1 23 4 \<noteq> pointKeyStr 12 3 4"
proof
  let ?k = "show_int 1 @ '':'' @ show_int 23 @ '':'' @ show_int 4"
  assume eq: "pointKeyStr 1 23 4 = pointKeyStr 12 3 4"
  have k: "pointKeyStr 1 23 4 = Some ?k" by (rule pointKeyStr_small) (simp_all add: small_def)
  have "(1 :: int) = 12 \<and> (23 :: int) = 3 \<and> (4 :: int) = 4"
    by (rule pointKeyStr_injective [OF _ _ _ _ _ _ k eq [symmetric, unfolded k]]) (simp_all add: int64_bounds)
  then show False by simp
qed

section \<open>What a strategy promises\<close>

text \<open>
  The comment of the \<open>Strategy\<close> interface as laws: a strategy reads the match view and its own entry
  only, writes its own entry only, and signs its intents with its name.
\<close>

locale strategy_contract =
  fixes name :: string and on_event :: "Event \<Rightarrow> State \<Rightarrow> (State \<times> Intent list) option"
  assumes writes_own: "on_event ev st = Some (st', is) \<Longrightarrow>
      st_MatchView st' = st_MatchView st \<and> (\<forall>k. k \<noteq> name \<longrightarrow> State_Get k st' = State_Get k st)"
    and reads_own: "st_MatchView st1 = st_MatchView st2 \<Longrightarrow> State_Get name st1 = State_Get name st2 \<Longrightarrow>
      map_option (\<lambda>(st, is). (State_Get name st, is)) (on_event ev st1) =
      map_option (\<lambda>(st, is). (State_Get name st, is)) (on_event ev st2)"
    and signs: "on_event ev st = Some (st', is) \<Longrightarrow> i \<in> set is \<Longrightarrow> in_Strategy i = name"
begin

text \<open>Two runs that agree on the view and on the own entry give the same intents and agree again.\<close>

lemma same_behaviour:
  assumes "st_MatchView st1 = st_MatchView st2" "State_Get name st1 = State_Get name st2"
    "on_event ev st1 = Some (st1', is)"
  shows "\<exists>st2'. on_event ev st2 = Some (st2', is) \<and> State_Get name st2' = State_Get name st1'"
  using reads_own [OF assms(1,2), of ev] assms(3) by (cases "on_event ev st2") auto

end

lemma State_Get_Set [simp]: "State_Get k (State_Set name v st) = (if k = name then v else State_Get k st)"
  by (simp add: State_Get_def State_Set_def)

lemma MatchView_Set [simp]: "st_MatchView (State_Set name v st) = st_MatchView st"
  by (simp add: State_Set_def)

lemma run_own_writes:
  "run_own name h st = Some (st', is) \<Longrightarrow>
     st_MatchView st' = st_MatchView st \<and> (\<forall>k. k \<noteq> name \<longrightarrow> State_Get k st' = State_Get k st)"
  by (auto simp: run_own_def split: option.splits prod.splits)

lemma run_own_reads:
  "st_MatchView st1 = st_MatchView st2 \<Longrightarrow> State_Get name st1 = State_Get name st2 \<Longrightarrow>
     map_option (\<lambda>(st, is). (State_Get name st, is)) (run_own name h st1) =
     map_option (\<lambda>(st, is). (State_Get name st, is)) (run_own name h st2)"
  by (simp add: run_own_def split: option.splits prod.splits)

text \<open>
  Strategies that fire once: a fired entry stays fired and silent until the settlement of a market
  clears it, and an emission leaves the entry fired.
\<close>

fun ends_match :: "Event \<Rightarrow> bool" where
  "ends_match (EvLifecycle e) = (lc_Type e = ''settled'' \<or> lc_Type e = ''determined'')"
| "ends_match _ = False"

fun own_run ::
  "(Event \<Rightarrow> MatchView \<Rightarrow> opaque \<Rightarrow> own_result) \<Rightarrow> (Event \<times> MatchView) list \<Rightarrow> opaque \<Rightarrow> (opaque \<times> Intent list list) option" where
  "own_run h [] v = Some (v, [])"
| "own_run h ((ev, mv) # xs) v =
     (case h ev mv v of
        None \<Rightarrow> None
      | Some (w, is) \<Rightarrow>
          (case own_run h xs (case w of None \<Rightarrow> v | Some v' \<Rightarrow> v') of
             None \<Rightarrow> None
           | Some (v2, outs) \<Rightarrow> Some (v2, is # outs)))"

definition emissions :: "Intent list list \<Rightarrow> nat" where
  "emissions outs = length (filter (\<lambda>is. is \<noteq> []) outs)"

locale one_shot =
  fixes fired :: "opaque \<Rightarrow> bool" and h :: "Event \<Rightarrow> MatchView \<Rightarrow> opaque \<Rightarrow> own_result"
  assumes silent: "fired v \<Longrightarrow> h ev mv v = Some (w, is) \<Longrightarrow> is = []"
    and stays: "fired v \<Longrightarrow> h ev mv v = Some (Some v', is) \<Longrightarrow> \<not> ends_match ev \<Longrightarrow> fired v'"
    and fires: "h ev mv v = Some (w, is) \<Longrightarrow> is \<noteq> [] \<Longrightarrow> \<exists>v'. w = Some v' \<and> fired v'"
begin

lemma fired_silent:
  assumes "own_run h xs v = Some (v', outs)" "fired v" "list_all (\<lambda>(ev, mv). \<not> ends_match ev) xs"
  shows "emissions outs = 0"
  using assms
proof (induction xs arbitrary: v v' outs)
  case (Cons x xs)
  obtain ev mv where x: "x = (ev, mv)" by (cases x)
  from Cons.prems(1) obtain w out v2 outs' where
    s: "h ev mv v = Some (w, out)" "own_run h xs (case w of None \<Rightarrow> v | Some v' \<Rightarrow> v') = Some (v2, outs')" "outs = out # outs'"
    by (auto simp: x split: option.splits)
  have "out = []" by (rule silent [OF Cons.prems(2) s(1)])
  moreover have "fired (case w of None \<Rightarrow> v | Some v' \<Rightarrow> v')"
    using stays [of v ev mv _ out] s(1) Cons.prems by (auto simp: x split: option.splits)
  ultimately show ?case using Cons.IH [OF s(2)] Cons.prems(3) s(3) by (simp add: emissions_def)
qed (simp add: emissions_def)

lemma fires_at_most_once:
  assumes "own_run h xs v = Some (v', outs)" "list_all (\<lambda>(ev, mv). \<not> ends_match ev) xs"
  shows "emissions outs \<le> 1"
  using assms
proof (induction xs arbitrary: v v' outs)
  case (Cons x xs)
  obtain ev mv where x: "x = (ev, mv)" by (cases x)
  from Cons.prems(1) obtain w out v2 outs' where
    s: "h ev mv v = Some (w, out)" "own_run h xs (case w of None \<Rightarrow> v | Some v' \<Rightarrow> v') = Some (v2, outs')" "outs = out # outs'"
    by (auto simp: x split: option.splits)
  show ?case
  proof (cases "out = []")
    case True
    then show ?thesis using Cons.IH [OF s(2)] Cons.prems(2) s(3) by (simp add: emissions_def)
  next
    case False
    then have "fired (case w of None \<Rightarrow> v | Some v' \<Rightarrow> v')" using fires [OF s(1)] by auto
    then have "emissions outs' = 0" using fired_silent [OF s(2)] Cons.prems(2) by simp
    then show ?thesis using s(3) by (simp add: emissions_def)
  qed
qed (simp add: emissions_def)

end

end
