(* ===== verification/StrategiesA.thy ===== *)
theory StrategiesA
  imports StrategyCore
begin

text \<open>
  The strategies that track a score or an open position: \<open>matchpoint.go\<close>, \<open>setpoint.go\<close>, \<open>adout.go\<close>,
  \<open>breakback.go\<close>, \<open>breakpoint.go\<close> and \<open>buythedip.go\<close> under \<open>domain/strategy\<close>. A handler takes the
  event, the match view and the strategy's entry, in the order of the code's guards. A guard before
  \<open>getOrCreateState\<close> leaves the entry alone (\<open>stay\<close>); after it the entry is stored.
\<close>

section \<open>MatchPoint\<close>

definition mpConvProbBps :: int where "mpConvProbBps = 9700"
definition mpSetsToWin :: int where "mpSetsToWin = 2"
definition mpGamesPerSet :: int where "mpGamesPerSet = 6"
definition mpMinEdgeCents :: int where "mpMinEdgeCents = 1"
definition mpMinPriceCents :: int where "mpMinPriceCents = 5"
definition mpPriceStaleMS :: int where "mpPriceStaleMS = 60000"

lemmas mp_consts = mpConvProbBps_def mpSetsToWin_def mpGamesPerSet_def mpMinEdgeCents_def mpMinPriceCents_def mpPriceStaleMS_def

definition matchpointState_new :: matchpointState where
  "matchpointState_new = \<lparr>ms_setsHome = 0, ms_setsAway = 0, ms_lastSetNum = 0, ms_lastHomeGames = 0,
     ms_lastAwayGames = 0, ms_lastScorer = 0, ms_seenPoints = Map.empty\<rparr>"

fun MatchPoint_getOrCreateState :: "opaque \<Rightarrow> matchpointState option" where
  "MatchPoint_getOrCreateState ONil = Some matchpointState_new"
| "MatchPoint_getOrCreateState (OMatchPoint ms) = Some ms"
| "MatchPoint_getOrCreateState _ = None"

definition MatchPoint_updateMatchState :: "matchpointState \<Rightarrow> Point \<Rightarrow> matchpointState" where
  "MatchPoint_updateMatchState ms p =
     (let ms1 =
        (if pt_SetNumber p > ms_lastSetNum ms \<and> ms_lastSetNum ms > 0
         then (if ms_lastHomeGames ms > ms_lastAwayGames ms then ms\<lparr>ms_setsHome := ms_setsHome ms + 1\<rparr>
               else if ms_lastAwayGames ms > ms_lastHomeGames ms then ms\<lparr>ms_setsAway := ms_setsAway ms + 1\<rparr>
               else if ms_lastScorer ms \<noteq> 0
                    then (if ms_lastScorer ms = 1 then ms\<lparr>ms_setsHome := ms_setsHome ms + 1\<rparr>
                          else ms\<lparr>ms_setsAway := ms_setsAway ms + 1\<rparr>)
                    else ms)
         else ms) in
      ms1\<lparr>ms_lastSetNum := pt_SetNumber p, ms_lastHomeGames := pt_HomeGames p,
          ms_lastAwayGames := pt_AwayGames p, ms_lastScorer := pt_Scorer p\<rparr>)"

definition detectMatchPoint :: "matchpointState \<Rightarrow> Point \<Rightarrow> (int \<times> string) option" where
  "detectMatchPoint ms p =
     (let gamesHome = pt_HomeGames p; gamesAway = pt_AwayGames p;
          homeNeedsSet = mpSetsToWin - ms_setsHome ms; awayNeedsSet = mpSetsToWin - ms_setsAway ms in
      if homeNeedsSet \<le> 0 \<or> awayNeedsSet \<le> 0 then None
      else if pt_IsTiebreak p then None
      else
        (let homeMatchPoint = homeNeedsSet = 1 \<and> canWinGame (pt_HomePoints p) (pt_AwayPoints p) (pt_Server p) 1 \<and>
               gamesHome \<ge> mpGamesPerSet - 1 \<and> gamesHome > gamesAway;
             awayMatchPoint = awayNeedsSet = 1 \<and> canWinGame (pt_HomePoints p) (pt_AwayPoints p) (pt_Server p) 2 \<and>
               gamesAway \<ge> mpGamesPerSet - 1 \<and> gamesAway > gamesHome in
         if \<not> homeMatchPoint \<and> \<not> awayMatchPoint then None
         else if homeMatchPoint then Some (1, ''home_match_point'')
         else Some (2, ''away_match_point'')))"

definition MatchPoint_onPoint :: "PointScored \<Rightarrow> MatchView \<Rightarrow> opaque \<Rightarrow> own_result" where
  "MatchPoint_onPoint e mv v =
     (case MatchPoint_getOrCreateState v of None \<Rightarrow> None | Some ms0 \<Rightarrow>
     (let p = ps_Point e; ms1 = MatchPoint_updateMatchState ms0 p in
      case pointKeyStr (pt_SetNumber p) (pt_GameNumber p) (pt_PointNumber p) of None \<Rightarrow> None | Some pointKey \<Rightarrow>
      if lookupF (ms_seenPoints ms1) pointKey then keep (OMatchPoint ms1)
      else
     (let ms = ms1\<lparr>ms_seenPoints := (ms_seenPoints ms1)(pointKey \<mapsto> True)\<rparr>; v' = OMatchPoint ms in
      case detectMatchPoint ms p of None \<Rightarrow> keep v' | Some (winner, context) \<Rightarrow>
      if \<not> (winner = 1 \<and> pt_Server p = 1 \<or> winner = 2 \<and> pt_Server p = 2) then keep v'
      else if length (mv_MarketTickers mv) < 2 then keep v'
      else
     (let marketTicker = (if winner = 1 then mv_MarketTickers mv ! 0 else mv_MarketTickers mv ! 1) in
      case mv_Prices mv marketTicker of None \<Rightarrow> keep v' | Some priceCents \<Rightarrow>
      if priceCents < mpMinPriceCents then keep v'
      else case mv_PriceTS mv marketTicker of None \<Rightarrow> keep v' | Some priceTS \<Rightarrow>
      if ps_TS e - priceTS > mpPriceStaleMS then keep v'
      else if mpConvProbBps sdiv 100 - priceCents < mpMinEdgeCents then keep v'
      else emit v' [mk_intent marketTicker ''matchpoint'' ''buy'' priceCents mpConvProbBps context]))))"

fun MatchPoint_OnEvent :: "Event \<Rightarrow> MatchView \<Rightarrow> opaque \<Rightarrow> own_result" where
  "MatchPoint_OnEvent (EvPoint e) mv v = MatchPoint_onPoint e mv v"
| "MatchPoint_OnEvent (EvLifecycle e) mv v = on_lifecycle e"
| "MatchPoint_OnEvent _ mv v = stay"

section \<open>SetPoint\<close>

definition spSetsToWin :: int where "spSetsToWin = 2"
definition spGamesPerSet :: int where "spGamesPerSet = 6"
definition spMinEdgeCents :: int where "spMinEdgeCents = 1"
definition spMinPriceCents :: int where "spMinPriceCents = 5"
definition spPriceStaleMS :: int where "spPriceStaleMS = 60000"
definition spServeConvProbBps :: int where "spServeConvProbBps = 9300"
definition spReturnConvProbBps :: int where "spReturnConvProbBps = 8900"
definition spIncludeSetPoints :: bool where "spIncludeSetPoints = True"
definition spIncludeReturning :: bool where "spIncludeReturning = True"

lemmas sp_consts = spSetsToWin_def spGamesPerSet_def spMinEdgeCents_def spMinPriceCents_def spPriceStaleMS_def
  spServeConvProbBps_def spReturnConvProbBps_def spIncludeSetPoints_def spIncludeReturning_def

fun SetPoint_getOrCreateState :: "opaque \<Rightarrow> matchpointState option" where
  "SetPoint_getOrCreateState ONil = Some matchpointState_new"
| "SetPoint_getOrCreateState (OSetPoint ms) = Some ms"
| "SetPoint_getOrCreateState _ = None"

text \<open>\<open>setpointState\<close> has the fields of \<open>matchpointState\<close> and its update the same body.\<close>

definition SetPoint_updateMatchState :: "matchpointState \<Rightarrow> Point \<Rightarrow> matchpointState" where
  "SetPoint_updateMatchState ms p = MatchPoint_updateMatchState ms p"

record setPointSignal =
  sg_winner :: int
  sg_context :: string
  sg_isMatchPoint :: bool

definition detectSetPoint :: "matchpointState \<Rightarrow> Point \<Rightarrow> setPointSignal option" where
  "detectSetPoint ms p =
     (let homeNeedsSet = spSetsToWin - ms_setsHome ms; awayNeedsSet = spSetsToWin - ms_setsAway ms in
      if homeNeedsSet \<le> 0 \<or> awayNeedsSet \<le> 0 then None
      else if pt_IsTiebreak p then None
      else
        (let homeCanWinSet = canWinGame (pt_HomePoints p) (pt_AwayPoints p) (pt_Server p) 1 \<and>
               pt_HomeGames p \<ge> spGamesPerSet - 1 \<and> pt_HomeGames p > pt_AwayGames p;
             awayCanWinSet = canWinGame (pt_HomePoints p) (pt_AwayPoints p) (pt_Server p) 2 \<and>
               pt_AwayGames p \<ge> spGamesPerSet - 1 \<and> pt_AwayGames p > pt_HomeGames p;
             homeIsMP = homeCanWinSet \<and> homeNeedsSet = 1; awayIsMP = awayCanWinSet \<and> awayNeedsSet = 1 in
         if \<not> homeCanWinSet \<and> \<not> awayCanWinSet then None
         else if \<not> spIncludeSetPoints \<and> \<not> homeIsMP \<and> \<not> awayIsMP then None
         else Some \<lparr>sg_winner = (if homeCanWinSet then 1 else 2),
                    sg_context = (if homeIsMP then ''home_match_point'' else if awayIsMP then ''away_match_point''
                                  else if homeCanWinSet then ''home_set_point'' else ''away_set_point''),
                    sg_isMatchPoint = (homeIsMP \<or> awayIsMP)\<rparr>))"

definition SetPoint_onPoint :: "PointScored \<Rightarrow> MatchView \<Rightarrow> opaque \<Rightarrow> own_result" where
  "SetPoint_onPoint e mv v =
     (case SetPoint_getOrCreateState v of None \<Rightarrow> None | Some ms0 \<Rightarrow>
     (let p = ps_Point e; ms1 = SetPoint_updateMatchState ms0 p in
      case pointKeyStr (pt_SetNumber p) (pt_GameNumber p) (pt_PointNumber p) of None \<Rightarrow> None | Some pointKey \<Rightarrow>
      if lookupF (ms_seenPoints ms1) pointKey then keep (OSetPoint ms1)
      else
     (let ms = ms1\<lparr>ms_seenPoints := (ms_seenPoints ms1)(pointKey \<mapsto> True)\<rparr>; v' = OSetPoint ms in
      case detectSetPoint ms p of None \<Rightarrow> keep v' | Some sp \<Rightarrow>
     (let isServing = (sg_winner sp = 1 \<and> pt_Server p = 1 \<or> sg_winner sp = 2 \<and> pt_Server p = 2) in
      if \<not> isServing \<and> \<not> spIncludeReturning then keep v'
      else if length (mv_MarketTickers mv) < 2 then keep v'
      else
     (let marketTicker = (if sg_winner sp = 1 then mv_MarketTickers mv ! 0 else mv_MarketTickers mv ! 1) in
      case mv_Prices mv marketTicker of None \<Rightarrow> keep v' | Some priceCents \<Rightarrow>
      if priceCents < spMinPriceCents then keep v'
      else case mv_PriceTS mv marketTicker of None \<Rightarrow> keep v' | Some priceTS \<Rightarrow>
      if ps_TS e - priceTS > spPriceStaleMS then keep v'
      else
     (let convProbBps = (if \<not> isServing then spReturnConvProbBps else spServeConvProbBps) in
      if convProbBps sdiv 100 - priceCents < spMinEdgeCents then keep v'
      else emit v' [mk_intent marketTicker ''setpoint'' ''buy'' priceCents convProbBps (sg_context sp)]))))))"

fun SetPoint_OnEvent :: "Event \<Rightarrow> MatchView \<Rightarrow> opaque \<Rightarrow> own_result" where
  "SetPoint_OnEvent (EvPoint e) mv v = SetPoint_onPoint e mv v"
| "SetPoint_OnEvent (EvLifecycle e) mv v = on_lifecycle e"
| "SetPoint_OnEvent _ mv v = stay"

section \<open>AdOut\<close>

definition adOutConvProbBps :: int where "adOutConvProbBps = 8200"
definition adOutMinPriceCents :: int where "adOutMinPriceCents = 5"
definition adOutMaxPriceCents :: int where "adOutMaxPriceCents = 85"
definition adOutMinEdgeCents :: int where "adOutMinEdgeCents = 3"
definition adOutPriceStaleMS :: int where "adOutPriceStaleMS = 60000"

lemmas ao_consts = adOutConvProbBps_def adOutMinPriceCents_def adOutMaxPriceCents_def adOutMinEdgeCents_def adOutPriceStaleMS_def

fun AdOut_getOrCreateState :: "opaque \<Rightarrow> adOutState option" where
  "AdOut_getOrCreateState ONil =
     Some \<lparr>ao_open = False, ao_marketTicker = [], ao_buyPriceCents = 0, ao_buyPointKey = [], ao_buyTS = 0\<rparr>"
| "AdOut_getOrCreateState (OAdOut s) = Some s"
| "AdOut_getOrCreateState _ = None"

text \<open>\<open>maybeSell\<close> and \<open>maybeBuy\<close> return the position and the intents; no intents is Go's \<open>nil\<close>.\<close>

definition maybeSell :: "adOutState \<Rightarrow> PointScored \<Rightarrow> MatchView \<Rightarrow> (adOutState \<times> Intent list) option" where
  "maybeSell s e mv =
     (if \<not> ao_open s then Some (s, [])
      else
     (let p = ps_Point e in
      case pointKeyStr (pt_SetNumber p) (pt_GameNumber p) (pt_PointNumber p) of None \<Rightarrow> None | Some pk \<Rightarrow>
      if pk = ao_buyPointKey s then Some (s, [])
      else
     (let closed = s\<lparr>ao_open := False\<rparr> in
      case mv_Prices mv (ao_marketTicker s) of None \<Rightarrow> Some (closed, []) | Some priceCents \<Rightarrow>
      if priceCents \<le> 0 then Some (closed, [])
      else case mv_PriceTS mv (ao_marketTicker s) of None \<Rightarrow> Some (closed, []) | Some priceTS \<Rightarrow>
      if ps_TS e - priceTS > adOutPriceStaleMS then Some (closed, [])
      else
        Option.bind (intToStr (pt_SetNumber p)) (\<lambda>ns. Option.bind (intToStr (pt_GameNumber p)) (\<lambda>ng.
          Some (closed, [mk_intent (ao_marketTicker s) ''adout'' ''sell'' priceCents adOutConvProbBps
                           (''adout_sell_set'' @ ns @ ''_game'' @ ng)]))))))"

definition maybeBuy :: "adOutState \<Rightarrow> PointScored \<Rightarrow> MatchView \<Rightarrow> (adOutState \<times> Intent list) option" where
  "maybeBuy s e mv =
     (let p = ps_Point e in
      if pt_IsTiebreak p then Some (s, [])
      else if ao_open s then Some (s, [])
      else
     (let returner = (if pt_Server p = 1 \<and> pt_AwayPoints p = ''A'' then 2
                      else if pt_Server p = 2 \<and> pt_HomePoints p = ''A'' then 1 else (0 :: nat)) in
      if returner = 0 then Some (s, [])
      else if length (mv_MarketTickers mv) < 2 then Some (s, [])
      else
     (let returnerMkt = mv_MarketTickers mv ! (returner - 1) in
      case mv_Prices mv returnerMkt of None \<Rightarrow> Some (s, []) | Some priceCents \<Rightarrow>
      if priceCents \<le> 0 then Some (s, [])
      else case mv_PriceTS mv returnerMkt of None \<Rightarrow> Some (s, []) | Some priceTS \<Rightarrow>
      if ps_TS e - priceTS > adOutPriceStaleMS then Some (s, [])
      else if adOutConvProbBps sdiv 100 - priceCents < adOutMinEdgeCents then Some (s, [])
      else if priceCents < adOutMinPriceCents then Some (s, [])
      else if priceCents > adOutMaxPriceCents then Some (s, [])
      else
        Option.bind (pointKeyStr (pt_SetNumber p) (pt_GameNumber p) (pt_PointNumber p)) (\<lambda>key.
        Option.bind (intToStr (pt_SetNumber p)) (\<lambda>ns. Option.bind (intToStr (pt_GameNumber p)) (\<lambda>ng.
        Option.bind (intToStr (pt_PointNumber p)) (\<lambda>np.
          Some (\<lparr>ao_open = True, ao_marketTicker = returnerMkt, ao_buyPriceCents = priceCents,
                 ao_buyPointKey = key, ao_buyTS = ps_TS e\<rparr>,
                [mk_intent returnerMkt ''adout'' ''buy'' priceCents adOutConvProbBps
                   (''adout_buy_set'' @ ns @ ''_game'' @ ng @ ''_pt'' @ np)]))))))))"

definition AdOut_onPoint :: "PointScored \<Rightarrow> MatchView \<Rightarrow> opaque \<Rightarrow> own_result" where
  "AdOut_onPoint e mv v =
     (case AdOut_getOrCreateState v of None \<Rightarrow> None | Some s \<Rightarrow>
      case maybeSell s e mv of None \<Rightarrow> None | Some (s1, sell) \<Rightarrow>
      if sell \<noteq> [] then emit (OAdOut s1) sell
      else case maybeBuy s1 e mv of None \<Rightarrow> None | Some (s2, buy) \<Rightarrow> emit (OAdOut s2) buy)"

fun AdOut_OnEvent :: "Event \<Rightarrow> MatchView \<Rightarrow> opaque \<Rightarrow> own_result" where
  "AdOut_OnEvent (EvPoint e) mv v = AdOut_onPoint e mv v"
| "AdOut_OnEvent (EvLifecycle e) mv v = on_lifecycle e"
| "AdOut_OnEvent _ mv v = stay"

section \<open>BreakBack\<close>

definition bbConvProbBps :: int where "bbConvProbBps = 5500"
definition bbMinDropPercentBps :: int where "bbMinDropPercentBps = 1500"
definition bbMinPeakPriceCents :: int where "bbMinPeakPriceCents = 30"
definition bbMaxEntryPriceCents :: int where "bbMaxEntryPriceCents = 55"
definition bbPriceStaleMS :: int where "bbPriceStaleMS = 60000"

lemmas bb_consts = bbConvProbBps_def bbMinDropPercentBps_def bbMinPeakPriceCents_def bbMaxEntryPriceCents_def bbPriceStaleMS_def

definition peakState_new :: peakState where
  "peakState_new = \<lparr>pk_maxPrices = Map.empty, pk_fired = False\<rparr>"

definition track_peak :: "string \<Rightarrow> int \<Rightarrow> peakState \<Rightarrow> peakState" where
  "track_peak mkt price s =
     (if price > lookup0 (pk_maxPrices s) mkt then s\<lparr>pk_maxPrices := (pk_maxPrices s)(mkt \<mapsto> price)\<rparr> else s)"

fun BreakBack_getOrCreateState :: "opaque \<Rightarrow> peakState option" where
  "BreakBack_getOrCreateState ONil = Some peakState_new"
| "BreakBack_getOrCreateState (OBreakBack s) = Some s"
| "BreakBack_getOrCreateState _ = None"

definition BreakBack_onPrice :: "PriceUpdate \<Rightarrow> MatchView \<Rightarrow> opaque \<Rightarrow> own_result" where
  "BreakBack_onPrice e mv v =
     (case BreakBack_getOrCreateState v of None \<Rightarrow> None | Some bs0 \<Rightarrow>
      if pk_fired bs0 then keep (OBreakBack bs0)
      else if pu_PriceCents e \<le> 0 then keep (OBreakBack bs0)
      else
     (let bs = track_peak (pu_MarketTicker e) (pu_PriceCents e) bs0;
          maxCents = lookup0 (pk_maxPrices bs) (pu_MarketTicker e) in
      if maxCents < bbMinPeakPriceCents then keep (OBreakBack bs)
      else
     (let dropBps = (maxCents - pu_PriceCents e) * 10000 sdiv maxCents in
      if dropBps < bbMinDropPercentBps then keep (OBreakBack bs)
      else if pu_PriceCents e > bbMaxEntryPriceCents then keep (OBreakBack bs)
      else if bbConvProbBps sdiv 100 - pu_PriceCents e < 1 then keep (OBreakBack bs)
      else Option.bind (intToStr (dropBps sdiv 100)) (\<lambda>nd.
        emit (OBreakBack (bs\<lparr>pk_fired := True\<rparr>))
          [mk_intent (pu_MarketTicker e) ''breakback'' ''buy'' (pu_PriceCents e) bbConvProbBps
             (''breakback_drop_'' @ nd @ ''pct'')]))))"

definition BreakBack_onPoint :: "PointScored \<Rightarrow> MatchView \<Rightarrow> opaque \<Rightarrow> own_result" where
  "BreakBack_onPoint e mv v =
     (case BreakBack_getOrCreateState v of None \<Rightarrow> None | Some bs \<Rightarrow>
     (let p = ps_Point e; v' = OBreakBack bs in
      if pk_fired bs then keep v'
      else if \<not> pt_IsBreakPoint p \<or> pt_Scorer p = pt_Server p then keep v'
      else if length (mv_MarketTickers mv) < 2 then keep v'
      else
     (let brokenMkt = (if pt_Server p = 2 then mv_MarketTickers mv ! 1 else mv_MarketTickers mv ! 0) in
      case mv_Prices mv brokenMkt of None \<Rightarrow> keep v' | Some priceCents \<Rightarrow>
      if priceCents \<le> 0 then keep v'
      else if priceCents > bbMaxEntryPriceCents then keep v'
      else case mv_PriceTS mv brokenMkt of None \<Rightarrow> keep v' | Some priceTS \<Rightarrow>
      if ps_TS e - priceTS > bbPriceStaleMS then keep v'
      else if lookup0 (pk_maxPrices bs) brokenMkt < bbMinPeakPriceCents then keep v'
      else if bbConvProbBps sdiv 100 - priceCents < 1 then keep v'
      else Option.bind (intToStr (pt_SetNumber p)) (\<lambda>ns. Option.bind (intToStr (pt_GameNumber p)) (\<lambda>ng.
        emit (OBreakBack (bs\<lparr>pk_fired := True\<rparr>))
          [mk_intent brokenMkt ''breakback'' ''buy'' priceCents bbConvProbBps
             (''breakback_set'' @ ns @ ''_game'' @ ng)])))))"

fun BreakBack_OnEvent :: "Event \<Rightarrow> MatchView \<Rightarrow> opaque \<Rightarrow> own_result" where
  "BreakBack_OnEvent (EvPrice e) mv v = BreakBack_onPrice e mv v"
| "BreakBack_OnEvent (EvPoint e) mv v = BreakBack_onPoint e mv v"
| "BreakBack_OnEvent (EvLifecycle e) mv v = on_lifecycle e"
| "BreakBack_OnEvent _ mv v = stay"

section \<open>BreakPoint\<close>

definition bpPServe :: float64 where "bpPServe = flit (64 / 100)"
definition bpMinEdgeCents :: int where "bpMinEdgeCents = 2"
definition bpMinPriceCents :: int where "bpMinPriceCents = 5"
definition bpMaxPriceCents :: int where "bpMaxPriceCents = 60"
definition bpPriceStaleMS :: int where "bpPriceStaleMS = 60000"

lemmas bp_consts = bpMinEdgeCents_def bpMinPriceCents_def bpMaxPriceCents_def bpPriceStaleMS_def

fun BreakPoint_getOrCreateState :: "opaque \<Rightarrow> breakPointState option" where
  "BreakPoint_getOrCreateState ONil = Some \<lparr>bp_setsHome = 0, bp_setsAway = 0\<rparr>"
| "BreakPoint_getOrCreateState (OBreakPoint s) = Some s"
| "BreakPoint_getOrCreateState _ = None"

definition BreakPoint_updateMatchState :: "breakPointState \<Rightarrow> Point \<Rightarrow> breakPointState" where
  "BreakPoint_updateMatchState bs p =
     \<lparr>bp_setsHome = (if pt_HomeSetGames p > bp_setsHome bs then pt_HomeSetGames p else bp_setsHome bs),
      bp_setsAway = (if pt_AwaySetGames p > bp_setsAway bs then pt_AwaySetGames p else bp_setsAway bs)\<rparr>"

text \<open>The model's caches are part of the strategy object, so the handler returns them too.\<close>

definition BreakPoint_onPoint :: "PointScored \<Rightarrow> MatchView \<Rightarrow> opaque \<Rightarrow> MarkovModel \<Rightarrow> own_result \<times> MarkovModel" where
  "BreakPoint_onPoint e mv v model =
     (let p = ps_Point e in
      if pt_IsTiebreak p then (stay, model)
      else case BreakPoint_getOrCreateState v of None \<Rightarrow> (None, model) | Some bs0 \<Rightarrow>
     (let bs = BreakPoint_updateMatchState bs0 p; v' = OBreakPoint bs in
      if \<not> pt_IsBreakPoint p then (keep v', model)
      else
     (let returner = (if pt_Server p = 2 then 1 else 2 :: nat) in
      if length (mv_MarketTickers mv) < 2 then (keep v', model)
      else
     (let returnerMkt = mv_MarketTickers mv ! (returner - 1) in
      case mv_Prices mv returnerMkt of None \<Rightarrow> (keep v', model) | Some priceCents \<Rightarrow>
      if priceCents \<le> 0 then (keep v', model)
      else case mv_PriceTS mv returnerMkt of None \<Rightarrow> (keep v', model) | Some priceTS \<Rightarrow>
      if ps_TS e - priceTS > bpPriceStaleMS then (keep v', model)
      else
     (let (fvHome, model') = FairValue (bp_setsHome bs) (bp_setsAway bs) (pt_HomeGames p) (pt_AwayGames p)
                               (pt_HomePoints p) (pt_AwayPoints p) (pt_Server p) (pt_IsTiebreak p) model;
          fv = (if returner = 1 then fvHome else fsub (Fin 1) fvHome);
          fairCents = to_int64 (fmul fv (Fin 100)) in
      if fairCents - priceCents < bpMinEdgeCents then (keep v', model')
      else if priceCents < bpMinPriceCents then (keep v', model')
      else if priceCents > bpMaxPriceCents then (keep v', model')
      else
        (Option.bind (intToStr (pt_SetNumber p)) (\<lambda>ns. Option.bind (intToStr (pt_GameNumber p)) (\<lambda>ng.
           emit v' [mk_intent returnerMkt ''breakpoint'' ''buy'' priceCents (to_int64 (fmul fv (Fin 10000)))
                      (''break_point_'' @ sideName (int returner) @ ''_set'' @ ns @ ''_game'' @ ng)])), model'))))))"

fun BreakPoint_OnEvent :: "Event \<Rightarrow> MatchView \<Rightarrow> opaque \<Rightarrow> MarkovModel \<Rightarrow> own_result \<times> MarkovModel" where
  "BreakPoint_OnEvent (EvPoint e) mv v model = BreakPoint_onPoint e mv v model"
| "BreakPoint_OnEvent (EvLifecycle e) mv v model = (on_lifecycle e, model)"
| "BreakPoint_OnEvent _ mv v model = (stay, model)"

section \<open>BuyTheDip\<close>

definition btdDipThresholdCents :: int where "btdDipThresholdCents = 30"
definition btdWindowMS :: int where "btdWindowMS = 30000"
definition btdMinEntryCents :: int where "btdMinEntryCents = 15"
definition btdMaxEntryCents :: int where "btdMaxEntryCents = 80"
definition btdMinPreDipCents :: int where "btdMinPreDipCents = 50"
definition btdTPFracNum :: int where "btdTPFracNum = 3"
definition btdTPFracDen :: int where "btdTPFracDen = 4"
definition btdStopLossCents :: int where "btdStopLossCents = 10"
definition btdMaxHoldMS :: int where "btdMaxHoldMS = 300000"

lemmas btd_consts = btdDipThresholdCents_def btdWindowMS_def btdMinEntryCents_def btdMaxEntryCents_def
  btdMinPreDipCents_def btdTPFracNum_def btdTPFracDen_def btdStopLossCents_def btdMaxHoldMS_def

fun BuyTheDip_getOrCreateState :: "opaque \<Rightarrow> btdState option" where
  "BuyTheDip_getOrCreateState ONil = Some \<lparr>bt_samples = Map.empty, bt_positions = Map.empty\<rparr>"
| "BuyTheDip_getOrCreateState (OBuyTheDip s) = Some s"
| "BuyTheDip_getOrCreateState _ = None"

text \<open>The trimming loop: samples are dropped from the front while they are older than the cutoff.\<close>

fun trim_samples :: "int \<Rightarrow> priceSample list \<Rightarrow> priceSample list" where
  "trim_samples cutoff [] = []"
| "trim_samples cutoff (x # xs) = (if sm_ts x < cutoff then trim_samples cutoff xs else x # xs)"

definition window_samples :: "int \<Rightarrow> PriceUpdate \<Rightarrow> (string \<rightharpoonup> priceSample list) \<Rightarrow> priceSample list" where
  "window_samples window e m =
     trim_samples (pu_TS e - window)
       ((case m (pu_MarketTicker e) of None \<Rightarrow> [] | Some xs \<Rightarrow> xs) @ [\<lparr>sm_ts = pu_TS e, sm_price = pu_PriceCents e\<rparr>])"

definition BuyTheDip_checkEntry :: "PriceUpdate \<Rightarrow> MatchView \<Rightarrow> priceSample list \<Rightarrow> btdState \<Rightarrow> own_result" where
  "BuyTheDip_checkEntry e mv samples bs =
     (let v' = OBuyTheDip bs in
      if length samples < 2 then keep v'
      else if bt_positions bs (pu_MarketTicker e) \<noteq> None then keep v'
      else if mv_IsMatchPoint mv \<or> mv_IsSetPoint mv then keep v'
      else
     (let windowStart = sm_price (samples ! 0); dipCents = windowStart - pu_PriceCents e in
      if dipCents < btdDipThresholdCents then keep v'
      else if windowStart < btdMinPreDipCents then keep v'
      else if pu_PriceCents e < btdMinEntryCents \<or> pu_PriceCents e > btdMaxEntryCents then keep v'
      else
     (let convProbCents = (if windowStart > 99 then 99 else windowStart);
          pos = \<lparr>bd_entryPrice = pu_PriceCents e, bd_dipSize = dipCents, bd_entryTS = pu_TS e\<rparr> in
      Option.bind (intToStr dipCents) (\<lambda>nd.
        emit (OBuyTheDip (bs\<lparr>bt_positions := (bt_positions bs)(pu_MarketTicker e \<mapsto> pos)\<rparr>))
          [mk_intent (pu_MarketTicker e) ''buythedip'' ''buy'' (pu_PriceCents e) (convProbCents * 100)
             (''btd_dip_'' @ nd @ ''c'')]))))"

definition BuyTheDip_checkExit :: "PriceUpdate \<Rightarrow> btdPosition \<Rightarrow> btdState \<Rightarrow> own_result" where
  "BuyTheDip_checkExit e pos bs =
     (let tpPrice = bd_entryPrice pos + (bd_dipSize pos * btdTPFracNum) sdiv btdTPFracDen;
          slPrice = bd_entryPrice pos - btdStopLossCents;
          (reason, sellPrice) =
            (if pu_PriceCents e \<ge> tpPrice then (''tp'', tpPrice)
             else if pu_PriceCents e \<le> slPrice then (''sl'', slPrice)
             else if pu_TS e - bd_entryTS pos \<ge> btdMaxHoldMS then (''time'', pu_PriceCents e)
             else ([], 0)) in
      if reason = [] then keep (OBuyTheDip bs)
      else emit (OBuyTheDip (bs\<lparr>bt_positions := (bt_positions bs)(pu_MarketTicker e := None)\<rparr>))
             [mk_intent (pu_MarketTicker e) ''buythedip'' ''sell'' sellPrice (bd_entryPrice pos * 100)
                (''btd_sell_'' @ reason)])"

definition BuyTheDip_onPrice :: "PriceUpdate \<Rightarrow> MatchView \<Rightarrow> opaque \<Rightarrow> own_result" where
  "BuyTheDip_onPrice e mv v =
     (case BuyTheDip_getOrCreateState v of None \<Rightarrow> None | Some bs0 \<Rightarrow>
     (let samples = window_samples btdWindowMS e (bt_samples bs0);
          bs = bs0\<lparr>bt_samples := (bt_samples bs0)(pu_MarketTicker e \<mapsto> samples)\<rparr> in
      case bt_positions bs (pu_MarketTicker e) of
        Some pos \<Rightarrow> BuyTheDip_checkExit e pos bs
      | None \<Rightarrow> BuyTheDip_checkEntry e mv samples bs))"

fun BuyTheDip_OnEvent :: "Event \<Rightarrow> MatchView \<Rightarrow> opaque \<Rightarrow> own_result" where
  "BuyTheDip_OnEvent (EvPrice e) mv v = BuyTheDip_onPrice e mv v"
| "BuyTheDip_OnEvent (EvLifecycle e) mv v = on_lifecycle e"
| "BuyTheDip_OnEvent _ mv v = stay"

end
