(* ===== verification/StrategiesB.thy ===== *)
theory StrategiesB
  imports StrategiesA
begin

text \<open>
  The strategies that fire once per match: \<open>closetimer.go\<close>, \<open>comeback040.go\<close>, \<open>fadelongshot.go\<close>,
  \<open>nofade.go\<close>, \<open>server1530.go\<close>, \<open>set1winner.go\<close>, \<open>setdown.go\<close>, \<open>spike_fade.go\<close>, \<open>tiebreak_server.go\<close>
  and \<open>tiebreak.go\<close> under \<open>domain/strategy\<close>.
\<close>

section \<open>CloseTimer\<close>

definition ctLeadMin :: int where "ctLeadMin = 10"
definition ctMinPriceCents :: int where "ctMinPriceCents = 85"
definition ctPriceStaleMS :: int where "ctPriceStaleMS = 60000"
definition ctFinalWindowS :: int where "ctFinalWindowS = 60"
definition ctConvProbBps :: int where "ctConvProbBps = 9500"

lemmas ct_consts = ctLeadMin_def ctMinPriceCents_def ctPriceStaleMS_def ctFinalWindowS_def ctConvProbBps_def

fun CloseTimer_getOrCreateState :: "opaque \<Rightarrow> bool option" where
  "CloseTimer_getOrCreateState ONil = Some False"
| "CloseTimer_getOrCreateState (OCloseTimer fired) = Some fired"
| "CloseTimer_getOrCreateState _ = None"

definition CloseTimer_onTick :: "ClockTick \<Rightarrow> MatchView \<Rightarrow> opaque \<Rightarrow> own_result" where
  "CloseTimer_onTick e mv v =
     (if mv_CloseTS mv = 0 \<or> length (mv_MarketTickers mv) < 2 then stay
      else
     (let now = ct_TS e; secsToClose = (mv_CloseTS mv - now) sdiv 1000 in
      if secsToClose > ctLeadMin * 60 then stay
      else if secsToClose < 0 then stay
      else if secsToClose < ctFinalWindowS then stay
      else case CloseTimer_getOrCreateState v of None \<Rightarrow> None | Some fired \<Rightarrow>
      if fired then keep (OCloseTimer fired)
      else
     (let v' = OCloseTimer fired; homeTicker = mv_MarketTickers mv ! 0; awayTicker = mv_MarketTickers mv ! 1 in
      case (mv_Prices mv homeTicker, mv_Prices mv awayTicker) of
        (Some homePrice, Some awayPrice) \<Rightarrow>
          (if homePrice \<le> 0 \<or> awayPrice \<le> 0 then keep v'
           else case (mv_PriceTS mv homeTicker, mv_PriceTS mv awayTicker) of
             (Some homeTS, Some awayTS) \<Rightarrow>
               (if now - homeTS > ctPriceStaleMS \<or> now - awayTS > ctPriceStaleMS then keep v'
                else
               (let (favTicker, favPrice) =
                      (if homePrice \<ge> awayPrice then (homeTicker, homePrice) else (awayTicker, awayPrice)) in
                if favPrice < ctMinPriceCents then keep v'
                else Option.bind (intToStr ctLeadMin) (\<lambda>nl.
                  emit (OCloseTimer True)
                    [mk_intent favTicker ''close_timer'' ''buy'' favPrice ctConvProbBps
                       (''close_timer_'' @ nl @ ''m'')])))
           | _ \<Rightarrow> keep v')
      | _ \<Rightarrow> keep v')))"

fun CloseTimer_OnEvent :: "Event \<Rightarrow> MatchView \<Rightarrow> opaque \<Rightarrow> own_result" where
  "CloseTimer_OnEvent (EvClock e) mv v = CloseTimer_onTick e mv v"
| "CloseTimer_OnEvent (EvLifecycle e) mv v = on_lifecycle e"
| "CloseTimer_OnEvent _ mv v = stay"

section \<open>Comeback040\<close>

definition cbMinPeakCents :: int where "cbMinPeakCents = 40"
definition cbMaxEntryCents :: int where "cbMaxEntryCents = 70"
definition cbMinEntryCents :: int where "cbMinEntryCents = 10"
definition cbConvProbBps :: int where "cbConvProbBps = 3500"

lemmas cb_consts = cbMinPeakCents_def cbMaxEntryCents_def cbMinEntryCents_def cbConvProbBps_def

fun Comeback040_getOrCreateState :: "opaque \<Rightarrow> peakState option" where
  "Comeback040_getOrCreateState ONil = Some peakState_new"
| "Comeback040_getOrCreateState (OComeback s) = Some s"
| "Comeback040_getOrCreateState _ = None"

definition Comeback040_onPrice :: "PriceUpdate \<Rightarrow> MatchView \<Rightarrow> opaque \<Rightarrow> own_result" where
  "Comeback040_onPrice e mv v =
     (case Comeback040_getOrCreateState v of None \<Rightarrow> None | Some cs \<Rightarrow>
      keep (OComeback (track_peak (pu_MarketTicker e) (pu_PriceCents e) cs)))"

definition Comeback040_onPoint :: "PointScored \<Rightarrow> MatchView \<Rightarrow> opaque \<Rightarrow> own_result" where
  "Comeback040_onPoint e mv v =
     (case Comeback040_getOrCreateState v of None \<Rightarrow> None | Some cs \<Rightarrow>
     (let v' = OComeback cs; p = ps_Point e;
          is040 = (pt_HomePoints p = ''0'' \<and> pt_AwayPoints p = ''40'' \<and> pt_Server p = 1 \<or>
                   pt_HomePoints p = ''40'' \<and> pt_AwayPoints p = ''0'' \<and> pt_Server p = 2) in
      if pk_fired cs then keep v'
      else if \<not> is040 then keep v'
      else if length (mv_MarketTickers mv) < 2 then keep v'
      else
     (let serverMkt = (if pt_Server p = 2 then mv_MarketTickers mv ! 1 else mv_MarketTickers mv ! 0) in
      case mv_Prices mv serverMkt of None \<Rightarrow> keep v' | Some price \<Rightarrow>
      if price \<le> 0 then keep v'
      else if lookup0 (pk_maxPrices cs) serverMkt < cbMinPeakCents then keep v'
      else if price > cbMaxEntryCents then keep v'
      else if price < cbMinEntryCents then keep v'
      else if cbConvProbBps sdiv 100 - price < 1 then keep v'
      else Option.bind (intToStr (pt_SetNumber p)) (\<lambda>ns. Option.bind (intToStr (pt_GameNumber p)) (\<lambda>ng.
        emit (OComeback (cs\<lparr>pk_fired := True\<rparr>))
          [mk_intent serverMkt ''comeback040'' ''buy'' price cbConvProbBps
             (''comeback040_set'' @ ns @ ''_game'' @ ng)])))))"

fun Comeback040_OnEvent :: "Event \<Rightarrow> MatchView \<Rightarrow> opaque \<Rightarrow> own_result" where
  "Comeback040_OnEvent (EvPrice e) mv v = Comeback040_onPrice e mv v"
| "Comeback040_OnEvent (EvPoint e) mv v = Comeback040_onPoint e mv v"
| "Comeback040_OnEvent (EvLifecycle e) mv v = on_lifecycle e"
| "Comeback040_OnEvent _ mv v = stay"

section \<open>FadeLongshot\<close>

definition flMinEdgeCents :: int where "flMinEdgeCents = 1"
definition flFixedConvProbBps :: int where "flFixedConvProbBps = 9900"
definition flBaseConvProbBps :: int where "flBaseConvProbBps = 9000"
definition flSetLeadBps :: int where "flSetLeadBps = 300"
definition flGameLeadBps :: int where "flGameLeadBps = 100"
definition flMatchPointBps :: int where "flMatchPointBps = 9950"
definition flSetPointBps :: int where "flSetPointBps = 9700"
definition flMaxConvProbBps :: int where "flMaxConvProbBps = 9990"

lemmas fl_consts = flMinEdgeCents_def flFixedConvProbBps_def flBaseConvProbBps_def flSetLeadBps_def flGameLeadBps_def
  flMatchPointBps_def flSetPointBps_def flMaxConvProbBps_def

record FadeLongshot =
  fl_WindowSeconds :: int
  fl_MinPriceCents :: int
  fl_MaxPriceCents :: int
  fl_DynamicConvProb :: bool

definition NewFadeLongshot :: FadeLongshot where
  "NewFadeLongshot = \<lparr>fl_WindowSeconds = 900, fl_MinPriceCents = 50, fl_MaxPriceCents = 0, fl_DynamicConvProb = True\<rparr>"

fun FadeLongshot_getOrCreateState :: "opaque \<Rightarrow> fadeLongshotState option" where
  "FadeLongshot_getOrCreateState ONil =
     Some \<lparr>fl_fired = False, fl_homeSetWins = 0, fl_awaySetWins = 0, fl_homeGames = 0, fl_awayGames = 0,
           fl_isMatchPoint = False, fl_isSetPoint = False\<rparr>"
| "FadeLongshot_getOrCreateState (OFadeLongshot s) = Some s"
| "FadeLongshot_getOrCreateState _ = None"

definition dynamicConvProbBps :: "fadeLongshotState \<Rightarrow> int \<Rightarrow> int" where
  "dynamicConvProbBps fs favPriceCents =
     (let setLead = (if fl_homeSetWins fs - fl_awaySetWins fs < 0 then - (fl_homeSetWins fs - fl_awaySetWins fs)
                     else fl_homeSetWins fs - fl_awaySetWins fs);
          gameLead = (if fl_homeGames fs - fl_awayGames fs < 0 then - (fl_homeGames fs - fl_awayGames fs)
                      else fl_homeGames fs - fl_awayGames fs);
          p0 = flBaseConvProbBps + setLead * flSetLeadBps + gameLead * flGameLeadBps;
          p1 = (if fl_isMatchPoint fs then flMatchPointBps else p0);
          p2 = (if fl_isSetPoint fs \<and> \<not> fl_isMatchPoint fs \<and> p1 < flSetPointBps then flSetPointBps else p1);
          favBps = favPriceCents * 100;
          p3 = (if p2 \<le> favBps then favBps + 100 else p2) in
      if p3 > flMaxConvProbBps then flMaxConvProbBps else p3)"

definition FadeLongshot_checkEntry :: "FadeLongshot \<Rightarrow> MatchView \<Rightarrow> fadeLongshotState \<Rightarrow> int \<Rightarrow> own_result" where
  "FadeLongshot_checkEntry s mv fs now =
     (let v' = OFadeLongshot fs in
      if fl_fired fs then keep v'
      else if length (mv_MarketTickers mv) < 2 then keep v'
      else if mv_OccurrenceTS mv = 0 then keep v'
      else if now < mv_OccurrenceTS mv - fl_WindowSeconds s * 1000 then keep v'
      else case (mv_Prices mv (mv_MarketTickers mv ! 0), mv_Prices mv (mv_MarketTickers mv ! 1)) of
        (Some p0, Some p1) \<Rightarrow>
          (let (favMkt, favPrice) = (if p1 > p0 then (mv_MarketTickers mv ! 1, p1) else (mv_MarketTickers mv ! 0, p0)) in
           if favPrice < fl_MinPriceCents s then keep v'
           else if fl_MaxPriceCents s > 0 \<and> favPrice > fl_MaxPriceCents s then keep v'
           else
          (let convProbBps = (if fl_DynamicConvProb s then dynamicConvProbBps fs favPrice else flFixedConvProbBps) in
           if convProbBps sdiv 100 - favPrice < flMinEdgeCents then keep v'
           else Option.bind (intToStr (fl_WindowSeconds s)) (\<lambda>nw.
             emit (OFadeLongshot (fs\<lparr>fl_fired := True\<rparr>))
               [mk_intent favMkt ''fadelongshot'' ''buy'' favPrice convProbBps (''fade_longshot_T-'' @ nw @ ''s'')])))
      | _ \<Rightarrow> keep v')"

definition FadeLongshot_onPoint :: "FadeLongshot \<Rightarrow> PointScored \<Rightarrow> MatchView \<Rightarrow> opaque \<Rightarrow> own_result" where
  "FadeLongshot_onPoint s e mv v =
     (case FadeLongshot_getOrCreateState v of None \<Rightarrow> None | Some fs \<Rightarrow>
     (let p = ps_Point e in
      FadeLongshot_checkEntry s mv
        (fs\<lparr>fl_homeSetWins := pt_HomeSetGames p, fl_awaySetWins := pt_AwaySetGames p,
            fl_homeGames := pt_HomeGames p, fl_awayGames := pt_AwayGames p,
            fl_isMatchPoint := pt_IsMatchPoint p, fl_isSetPoint := pt_IsSetPoint p\<rparr>) (ps_TS e)))"

definition FadeLongshot_onPrice :: "FadeLongshot \<Rightarrow> PriceUpdate \<Rightarrow> MatchView \<Rightarrow> opaque \<Rightarrow> own_result" where
  "FadeLongshot_onPrice s e mv v =
     (case FadeLongshot_getOrCreateState v of None \<Rightarrow> None | Some fs \<Rightarrow> FadeLongshot_checkEntry s mv fs (pu_TS e))"

fun FadeLongshot_OnEvent :: "FadeLongshot \<Rightarrow> Event \<Rightarrow> MatchView \<Rightarrow> opaque \<Rightarrow> own_result" where
  "FadeLongshot_OnEvent s (EvPrice e) mv v = FadeLongshot_onPrice s e mv v"
| "FadeLongshot_OnEvent s (EvPoint e) mv v = FadeLongshot_onPoint s e mv v"
| "FadeLongshot_OnEvent s (EvLifecycle e) mv v = on_lifecycle e"
| "FadeLongshot_OnEvent s _ mv v = stay"

section \<open>NoFade\<close>

definition nfMinEdgeCents :: int where "nfMinEdgeCents = 1"

record NoFade =
  nf_WindowSeconds :: int
  nf_MinFavCents :: int
  nf_MaxNoPriceCents :: int

definition NewNoFade :: NoFade where
  "NewNoFade = \<lparr>nf_WindowSeconds = 900, nf_MinFavCents = 50, nf_MaxNoPriceCents = 5\<rparr>"

fun NoFade_getOrCreateState :: "opaque \<Rightarrow> bool option" where
  "NoFade_getOrCreateState ONil = Some False"
| "NoFade_getOrCreateState (ONoFade fired) = Some fired"
| "NoFade_getOrCreateState _ = None"

definition NoFade_onPrice :: "NoFade \<Rightarrow> PriceUpdate \<Rightarrow> MatchView \<Rightarrow> opaque \<Rightarrow> own_result" where
  "NoFade_onPrice s e mv v =
     (case NoFade_getOrCreateState v of None \<Rightarrow> None | Some fired \<Rightarrow>
     (let v' = ONoFade fired in
      if fired then keep v'
      else if length (mv_MarketTickers mv) < 2 then keep v'
      else if mv_OccurrenceTS mv = 0 then keep v'
      else if pu_TS e < mv_OccurrenceTS mv - nf_WindowSeconds s * 1000 then keep v'
      else case (mv_Prices mv (mv_MarketTickers mv ! 0), mv_Prices mv (mv_MarketTickers mv ! 1)) of
        (Some p0, Some p1) \<Rightarrow>
          (let (favMkt, favPrice, underdogPrice) =
                 (if p1 > p0 then (mv_MarketTickers mv ! 1, p1, p0) else (mv_MarketTickers mv ! 0, p0, p1)) in
           if underdogPrice > nf_MaxNoPriceCents s then keep v'
           else if favPrice < nf_MinFavCents s then keep v'
           else
          (let convProbBps = (100 - nf_MaxNoPriceCents s) * 100 in
           if convProbBps sdiv 100 - favPrice < nfMinEdgeCents then keep v'
           else Option.bind (intToStr (nf_WindowSeconds s)) (\<lambda>nw. Option.bind (intToStr (nf_MaxNoPriceCents s)) (\<lambda>nn.
             emit (ONoFade True)
               [mk_intent favMkt ''nofade'' ''buy'' favPrice convProbBps
                  (''nofade_T-'' @ nw @ ''s_no<='' @ nn @ ''c'')]))))
      | _ \<Rightarrow> keep v'))"

fun NoFade_OnEvent :: "NoFade \<Rightarrow> Event \<Rightarrow> MatchView \<Rightarrow> opaque \<Rightarrow> own_result" where
  "NoFade_OnEvent s (EvPrice e) mv v = NoFade_onPrice s e mv v"
| "NoFade_OnEvent s (EvLifecycle e) mv v = on_lifecycle e"
| "NoFade_OnEvent s _ mv v = stay"

section \<open>Server1530\<close>

definition s1530MinEdgeCents :: int where "s1530MinEdgeCents = 1"

record Server1530 =
  sv_MinFavCents :: int
  sv_MinDipBps :: int
  sv_MaxDipBps :: int
  sv_MaxEntryCents :: int
  sv_ConvProbBps :: int

definition NewServer1530 :: Server1530 where
  "NewServer1530 = \<lparr>sv_MinFavCents = 55, sv_MinDipBps = 300, sv_MaxDipBps = 800, sv_MaxEntryCents = 65, sv_ConvProbBps = 6200\<rparr>"

fun Server1530_getOrCreateState :: "opaque \<Rightarrow> server1530State option" where
  "Server1530_getOrCreateState ONil = Some \<lparr>sv_fired = False, sv_prev = Map.empty, sv_max = Map.empty\<rparr>"
| "Server1530_getOrCreateState (OServer1530 s) = Some s"
| "Server1530_getOrCreateState _ = None"

definition Server1530_onPrice :: "Server1530 \<Rightarrow> PriceUpdate \<Rightarrow> MatchView \<Rightarrow> opaque \<Rightarrow> own_result" where
  "Server1530_onPrice s e mv v =
     (case Server1530_getOrCreateState v of None \<Rightarrow> None | Some ss0 \<Rightarrow>
     (let mkt = pu_MarketTicker e; prev = lookup0 (sv_prev ss0) mkt; cur = pu_PriceCents e;
          ss1 = ss0\<lparr>sv_prev := (sv_prev ss0)(mkt \<mapsto> cur)\<rparr>;
          ss = (if cur > lookup0 (sv_max ss1) mkt then ss1\<lparr>sv_max := (sv_max ss1)(mkt \<mapsto> cur)\<rparr> else ss1);
          v' = OServer1530 ss in
      if sv_fired ss then keep v'
      else if lookup0 (sv_max ss) mkt < sv_MinFavCents s then keep v'
      else if prev \<le> 0 then keep v'
      else
     (let dipBps = (prev - cur) * 10000 sdiv prev in
      if dipBps < sv_MinDipBps s \<or> dipBps > sv_MaxDipBps s then keep v'
      else if cur > sv_MaxEntryCents s then keep v'
      else if sv_ConvProbBps s sdiv 100 - cur < s1530MinEdgeCents then keep v'
      else Option.bind (intToStr (dipBps sdiv 10)) (\<lambda>nd.
        emit (OServer1530 (ss\<lparr>sv_fired := True\<rparr>))
          [mk_intent mkt ''server1530'' ''buy'' cur (sv_ConvProbBps s) (''server1530_dip_'' @ nd @ ''pct'')]))))"

definition Server1530_onPoint :: "Server1530 \<Rightarrow> PointScored \<Rightarrow> MatchView \<Rightarrow> opaque \<Rightarrow> own_result" where
  "Server1530_onPoint s e mv v =
     (case Server1530_getOrCreateState v of None \<Rightarrow> None | Some ss \<Rightarrow>
     (let v' = OServer1530 ss; p = ps_Point e;
          is1530onHome = (pt_HomePoints p = ''15'' \<and> pt_AwayPoints p = ''30'' \<and> pt_Server p = 1);
          is1530onAway = (pt_AwayPoints p = ''15'' \<and> pt_HomePoints p = ''30'' \<and> pt_Server p = 2) in
      if sv_fired ss then keep v'
      else if \<not> is1530onHome \<and> \<not> is1530onAway then keep v'
      else if length (mv_MarketTickers mv) < 2 then keep v'
      else
     (let serverMkt = (if pt_Server p = 2 then mv_MarketTickers mv ! 1 else mv_MarketTickers mv ! 0) in
      if lookup0 (sv_max ss) serverMkt < sv_MinFavCents s then keep v'
      else case mv_Prices mv serverMkt of None \<Rightarrow> keep v' | Some price \<Rightarrow>
      if price \<le> 0 \<or> price > sv_MaxEntryCents s then keep v'
      else if sv_ConvProbBps s sdiv 100 - price < s1530MinEdgeCents then keep v'
      else Option.bind (intToStr (pt_SetNumber p)) (\<lambda>ns. Option.bind (intToStr (pt_GameNumber p)) (\<lambda>ng.
        emit (OServer1530 (ss\<lparr>sv_fired := True\<rparr>))
          [mk_intent serverMkt ''server1530'' ''buy'' price (sv_ConvProbBps s)
             (''server1530_set'' @ ns @ ''_game'' @ ng)])))))"

fun Server1530_OnEvent :: "Server1530 \<Rightarrow> Event \<Rightarrow> MatchView \<Rightarrow> opaque \<Rightarrow> own_result" where
  "Server1530_OnEvent s (EvPrice e) mv v = Server1530_onPrice s e mv v"
| "Server1530_OnEvent s (EvPoint e) mv v = Server1530_onPoint s e mv v"
| "Server1530_OnEvent s (EvLifecycle e) mv v = on_lifecycle e"
| "Server1530_OnEvent s _ mv v = stay"

section \<open>Set1Winner\<close>

definition s1wConvProbBps :: int where "s1wConvProbBps = 7200"
definition s1wMaxPriceCents :: int where "s1wMaxPriceCents = 72"
definition s1wMinEdgeCents :: int where "s1wMinEdgeCents = 5"

lemmas s1w_consts = s1wConvProbBps_def s1wMaxPriceCents_def s1wMinEdgeCents_def

fun Set1Winner_getOrCreateState :: "opaque \<Rightarrow> bool option" where
  "Set1Winner_getOrCreateState ONil = Some False"
| "Set1Winner_getOrCreateState (OSet1Winner fired) = Some fired"
| "Set1Winner_getOrCreateState _ = None"

definition Set1Winner_onPoint :: "PointScored \<Rightarrow> MatchView \<Rightarrow> opaque \<Rightarrow> own_result" where
  "Set1Winner_onPoint e mv v =
     (let p = ps_Point e in
      if pt_SetNumber p \<noteq> 2 \<or> pt_PointNumber p \<noteq> 1 then stay
      else case Set1Winner_getOrCreateState v of None \<Rightarrow> None | Some fired \<Rightarrow>
     (let v' = OSet1Winner fired in
      if fired then keep v'
      else if length (mv_MarketTickers mv) < 2 then keep v'
      else
     (let homeWonSet1 = pt_HomeSetGames p > pt_AwaySetGames p;
          winnerMkt = (if \<not> homeWonSet1 then mv_MarketTickers mv ! 1 else mv_MarketTickers mv ! 0) in
      case mv_Prices mv winnerMkt of None \<Rightarrow> keep v' | Some priceCents \<Rightarrow>
      if priceCents \<le> 0 \<or> priceCents > s1wMaxPriceCents then keep v'
      else if s1wMaxPriceCents - priceCents < s1wMinEdgeCents then keep v'
      else emit (OSet1Winner True)
             [mk_intent winnerMkt ''set1winner'' ''buy'' priceCents s1wConvProbBps ''set1winner_s2start''])))"

fun Set1Winner_OnEvent :: "Event \<Rightarrow> MatchView \<Rightarrow> opaque \<Rightarrow> own_result" where
  "Set1Winner_OnEvent (EvPoint e) mv v = Set1Winner_onPoint e mv v"
| "Set1Winner_OnEvent (EvLifecycle e) mv v = on_lifecycle e"
| "Set1Winner_OnEvent _ mv v = stay"

section \<open>SetDown\<close>

definition sdMinFavPriceCents :: int where "sdMinFavPriceCents = 55"
definition sdMinEntryPriceCents :: int where "sdMinEntryPriceCents = 30"
definition sdMaxEntryPriceCents :: int where "sdMaxEntryPriceCents = 45"
definition sdMinDropFromPeak :: int where "sdMinDropFromPeak = 10"
definition sdConvProbBps :: int where "sdConvProbBps = 5500"
definition sdMinEdgeCents :: int where "sdMinEdgeCents = 1"

lemmas sd_consts = sdMinFavPriceCents_def sdMinEntryPriceCents_def sdMaxEntryPriceCents_def sdMinDropFromPeak_def
  sdConvProbBps_def sdMinEdgeCents_def

fun SetDown_getOrCreateState :: "opaque \<Rightarrow> peakState option" where
  "SetDown_getOrCreateState ONil = Some peakState_new"
| "SetDown_getOrCreateState (OSetDown s) = Some s"
| "SetDown_getOrCreateState _ = None"

definition SetDown_onPrice :: "PriceUpdate \<Rightarrow> MatchView \<Rightarrow> opaque \<Rightarrow> own_result" where
  "SetDown_onPrice e mv v =
     (case SetDown_getOrCreateState v of None \<Rightarrow> None | Some ms0 \<Rightarrow>
      if pk_fired ms0 then keep (OSetDown ms0)
      else if pu_PriceCents e \<le> 0 then keep (OSetDown ms0)
      else
     (let ms = track_peak (pu_MarketTicker e) (pu_PriceCents e) ms0; v' = OSetDown ms;
          maxPrice = lookup0 (pk_maxPrices ms) (pu_MarketTicker e) in
      if maxPrice < sdMinFavPriceCents then keep v'
      else if pu_PriceCents e < sdMinEntryPriceCents \<or> pu_PriceCents e > sdMaxEntryPriceCents then keep v'
      else if maxPrice - pu_PriceCents e < sdMinDropFromPeak then keep v'
      else if sdConvProbBps sdiv 100 - pu_PriceCents e < sdMinEdgeCents then keep v'
      else emit (OSetDown (ms\<lparr>pk_fired := True\<rparr>))
             [mk_intent (pu_MarketTicker e) ''setdown'' ''buy'' (pu_PriceCents e) sdConvProbBps ''setdown_price_drop'']))"

definition SetDown_onPoint :: "PointScored \<Rightarrow> MatchView \<Rightarrow> opaque \<Rightarrow> own_result" where
  "SetDown_onPoint e mv v =
     (let p = ps_Point e in
      if pt_PointNumber p \<noteq> 1 \<or> pt_GameNumber p \<noteq> 1 \<or> pt_SetNumber p < 2 then stay
      else case SetDown_getOrCreateState v of None \<Rightarrow> None | Some ms \<Rightarrow>
     (let v' = OSetDown ms in
      if pk_fired ms then keep v'
      else if length (mv_MarketTickers mv) < 2 then keep v'
      else
     (let homeLostSet = pt_HomeSetGames p < pt_AwaySetGames p; awayLostSet = pt_AwaySetGames p < pt_HomeSetGames p in
      if \<not> homeLostSet \<and> \<not> awayLostSet then keep v'
      else
     (let targetMkt = (if awayLostSet then mv_MarketTickers mv ! 1 else mv_MarketTickers mv ! 0) in
      if lookup0 (pk_maxPrices ms) targetMkt < sdMinFavPriceCents then keep v'
      else case mv_Prices mv targetMkt of None \<Rightarrow> keep v' | Some priceCents \<Rightarrow>
      if priceCents < sdMinEntryPriceCents \<or> priceCents > sdMaxEntryPriceCents then keep v'
      else if sdConvProbBps sdiv 100 - priceCents < sdMinEdgeCents then keep v'
      else emit (OSetDown (ms\<lparr>pk_fired := True\<rparr>))
             [mk_intent targetMkt ''setdown'' ''buy'' priceCents sdConvProbBps ''setdown_lost_set'']))))"

fun SetDown_OnEvent :: "Event \<Rightarrow> MatchView \<Rightarrow> opaque \<Rightarrow> own_result" where
  "SetDown_OnEvent (EvPrice e) mv v = SetDown_onPrice e mv v"
| "SetDown_OnEvent (EvPoint e) mv v = SetDown_onPoint e mv v"
| "SetDown_OnEvent (EvLifecycle e) mv v = on_lifecycle e"
| "SetDown_OnEvent _ mv v = stay"

section \<open>SpikeFade\<close>

record SpikeFade =
  sf_SpikeThresholdCents :: int
  sf_WindowMs :: int
  sf_MinEntryPriceCents :: int
  sf_MaxEntryPriceCents :: int

definition NewSpikeFade :: SpikeFade where
  "NewSpikeFade = \<lparr>sf_SpikeThresholdCents = 30, sf_WindowMs = 30000, sf_MinEntryPriceCents = 20, sf_MaxEntryPriceCents = 95\<rparr>"

fun SpikeFade_getOrCreateState :: "opaque \<Rightarrow> spikeFadeState option" where
  "SpikeFade_getOrCreateState ONil =
     Some \<lparr>sf_samples = Map.empty, sf_fired = False, sf_isMatchPoint = False, sf_isSetPoint = False\<rparr>"
| "SpikeFade_getOrCreateState (OSpikeFade s) = Some s"
| "SpikeFade_getOrCreateState _ = None"

definition SpikeFade_onPoint :: "PointScored \<Rightarrow> MatchView \<Rightarrow> opaque \<Rightarrow> own_result" where
  "SpikeFade_onPoint e mv v =
     (case SpikeFade_getOrCreateState v of None \<Rightarrow> None | Some ss \<Rightarrow>
      keep (OSpikeFade (ss\<lparr>sf_isMatchPoint := pt_IsMatchPoint (ps_Point e), sf_isSetPoint := pt_IsSetPoint (ps_Point e)\<rparr>)))"

text \<open>The loop that picks the first market other than the given one; none is Go's empty string.\<close>

fun other_market :: "string \<Rightarrow> string list \<Rightarrow> string" where
  "other_market mkt [] = []"
| "other_market mkt (m # ms) = (if m \<noteq> mkt then m else other_market mkt ms)"

definition SpikeFade_onPrice :: "SpikeFade \<Rightarrow> PriceUpdate \<Rightarrow> MatchView \<Rightarrow> opaque \<Rightarrow> own_result" where
  "SpikeFade_onPrice s e mv v =
     (if length (mv_MarketTickers mv) < 2 then stay
      else case SpikeFade_getOrCreateState v of None \<Rightarrow> None | Some ss0 \<Rightarrow>
      if sf_fired ss0 then keep (OSpikeFade ss0)
      else
     (let samples = window_samples (sf_WindowMs s) e (sf_samples ss0);
          ss = ss0\<lparr>sf_samples := (sf_samples ss0)(pu_MarketTicker e \<mapsto> samples)\<rparr>; v' = OSpikeFade ss in
      if sf_isMatchPoint ss \<or> sf_isSetPoint ss then keep v'
      else if length samples < 2 then keep v'
      else
     (let windowStart = sm_price (samples ! 0); currentPrice = sm_price (samples ! (length samples - 1));
          spikeCents = currentPrice - windowStart in
      if spikeCents < sf_SpikeThresholdCents s then keep v'
      else if currentPrice < sf_MinEntryPriceCents s \<or> currentPrice > sf_MaxEntryPriceCents s then keep v'
      else
     (let otherMkt = other_market (pu_MarketTicker e) (mv_MarketTickers mv) in
      if otherMkt = [] then keep v'
      else case mv_Prices mv otherMkt of None \<Rightarrow> keep v' | Some otherPrice \<Rightarrow>
      if otherPrice \<le> 0 then keep v'
      else
     (let fairValueCents = (if 100 - windowStart > 99 then 99 else 100 - windowStart) in
      emit (OSpikeFade (ss\<lparr>sf_fired := True\<rparr>))
        [mk_intent otherMkt ''spike-fade'' ''buy'' otherPrice (fairValueCents * 100)
           (''spikefade_'' @ show_int spikeCents @ ''c_fade'')])))))"

fun SpikeFade_OnEvent :: "SpikeFade \<Rightarrow> Event \<Rightarrow> MatchView \<Rightarrow> opaque \<Rightarrow> own_result" where
  "SpikeFade_OnEvent s (EvPrice e) mv v = SpikeFade_onPrice s e mv v"
| "SpikeFade_OnEvent s (EvPoint e) mv v = SpikeFade_onPoint e mv v"
| "SpikeFade_OnEvent s (EvLifecycle e) mv v = on_lifecycle e"
| "SpikeFade_OnEvent s _ mv v = stay"

section \<open>TiebreakServer\<close>

record TiebreakServer =
  ts_MinEdgeCents :: int
  ts_MaxMarketPriceCents :: int
  ts_ConvProbBps :: int

definition NewTiebreakServer :: TiebreakServer where
  "NewTiebreakServer = \<lparr>ts_MinEdgeCents = 5, ts_MaxMarketPriceCents = 65, ts_ConvProbBps = 6000\<rparr>"

fun TiebreakServer_getOrCreateState :: "opaque \<Rightarrow> bool option" where
  "TiebreakServer_getOrCreateState ONil = Some False"
| "TiebreakServer_getOrCreateState (OTiebreakServer fired) = Some fired"
| "TiebreakServer_getOrCreateState _ = None"

definition TiebreakServer_onPoint :: "TiebreakServer \<Rightarrow> PointScored \<Rightarrow> MatchView \<Rightarrow> opaque \<Rightarrow> own_result" where
  "TiebreakServer_onPoint s e mv v =
     (case TiebreakServer_getOrCreateState v of None \<Rightarrow> None | Some fired \<Rightarrow>
     (let p = ps_Point e; v' = OTiebreakServer fired in
      if fired then keep v'
      else if \<not> pt_IsTiebreak p \<or> pt_PointNumber p \<noteq> 1 then keep v'
      else if length (mv_MarketTickers mv) < 2 then keep v'
      else
     (let serverMkt = (if pt_Server p = 2 then mv_MarketTickers mv ! 1 else mv_MarketTickers mv ! 0) in
      case mv_Prices mv serverMkt of None \<Rightarrow> keep v' | Some price \<Rightarrow>
      if price \<le> 0 \<or> price > ts_MaxMarketPriceCents s then keep v'
      else if ts_ConvProbBps s sdiv 100 - price < ts_MinEdgeCents s then keep v'
      else emit (OTiebreakServer True)
             [mk_intent serverMkt ''tiebreak-server'' ''buy'' price (ts_ConvProbBps s)
                (''tbserver_set'' @ show_int (pt_SetNumber p))])))"

fun TiebreakServer_OnEvent :: "TiebreakServer \<Rightarrow> Event \<Rightarrow> MatchView \<Rightarrow> opaque \<Rightarrow> own_result" where
  "TiebreakServer_OnEvent s (EvPoint e) mv v = TiebreakServer_onPoint s e mv v"
| "TiebreakServer_OnEvent s (EvLifecycle e) mv v = on_lifecycle e"
| "TiebreakServer_OnEvent s _ mv v = stay"

section \<open>Tiebreak\<close>

record Tiebreak =
  tb_MinPeakPriceCents :: int
  tb_MinDropPercent :: int
  tb_MaxDropPercent :: int
  tb_MinEntryPriceCents :: int
  tb_MaxEntryPriceCents :: int
  tb_ConvProbBps :: int

definition NewTiebreak :: Tiebreak where
  "NewTiebreak = \<lparr>tb_MinPeakPriceCents = 40, tb_MinDropPercent = 10, tb_MaxDropPercent = 25,
     tb_MinEntryPriceCents = 25, tb_MaxEntryPriceCents = 60, tb_ConvProbBps = 5200\<rparr>"

fun Tiebreak_getOrCreateState :: "opaque \<Rightarrow> tiebreakState option" where
  "Tiebreak_getOrCreateState ONil = Some \<lparr>tb_prices = Map.empty, tb_maxPrices = Map.empty, tb_fired = False\<rparr>"
| "Tiebreak_getOrCreateState (OTiebreak s) = Some s"
| "Tiebreak_getOrCreateState _ = None"

text \<open>The drop is a quotient by the peak: a peak of zero, which a non-positive threshold lets through, panics.\<close>

definition Tiebreak_onPrice :: "Tiebreak \<Rightarrow> PriceUpdate \<Rightarrow> MatchView \<Rightarrow> opaque \<Rightarrow> own_result" where
  "Tiebreak_onPrice s e mv v =
     (if length (mv_MarketTickers mv) < 2 then stay
      else case Tiebreak_getOrCreateState v of None \<Rightarrow> None | Some ss0 \<Rightarrow>
      if tb_fired ss0 then keep (OTiebreak ss0)
      else
     (let mkt = pu_MarketTicker e; cur = pu_PriceCents e;
          ss1 = ss0\<lparr>tb_prices := (tb_prices ss0)(mkt \<mapsto> cur)\<rparr>;
          ss = (if cur > lookup0 (tb_maxPrices ss1) mkt then ss1\<lparr>tb_maxPrices := (tb_maxPrices ss1)(mkt \<mapsto> cur)\<rparr> else ss1);
          v' = OTiebreak ss; maxPrice = lookup0 (tb_maxPrices ss) mkt in
      if maxPrice < tb_MinPeakPriceCents s then keep v'
      else if maxPrice = 0 then None
      else
     (let dropPercent = (maxPrice - cur) * 100 sdiv maxPrice in
      if dropPercent < tb_MinDropPercent s \<or> dropPercent > tb_MaxDropPercent s then keep v'
      else if cur < tb_MinEntryPriceCents s \<or> cur > tb_MaxEntryPriceCents s then keep v'
      else if tb_ConvProbBps s sdiv 100 - cur < 1 then keep v'
      else emit (OTiebreak (ss\<lparr>tb_fired := True\<rparr>))
             [mk_intent mkt ''tiebreak'' ''buy'' cur (tb_ConvProbBps s)
                (''tiebreak_drop_'' @ show_int dropPercent @ ''%'')])))"

definition Tiebreak_onPoint :: "Tiebreak \<Rightarrow> PointScored \<Rightarrow> MatchView \<Rightarrow> opaque \<Rightarrow> own_result" where
  "Tiebreak_onPoint s e mv v =
     (case Tiebreak_getOrCreateState v of None \<Rightarrow> None | Some ss \<Rightarrow>
     (let p = ps_Point e; v' = OTiebreak ss in
      if tb_fired ss then keep v'
      else if \<not> pt_IsTiebreak p then keep v'
      else if pt_Scorer p = pt_Server p then keep v'
      else if length (mv_MarketTickers mv) < 2 then keep v'
      else
     (let brokenMkt = (if pt_Server p = 2 then mv_MarketTickers mv ! 1 else mv_MarketTickers mv ! 0);
          maxPrice = lookup0 (tb_maxPrices ss) brokenMkt; price = lookup0 (tb_prices ss) brokenMkt in
      if maxPrice < tb_MinPeakPriceCents s then keep v'
      else if price < tb_MinEntryPriceCents s \<or> price > tb_MaxEntryPriceCents s then keep v'
      else if tb_ConvProbBps s sdiv 100 - price < 1 then keep v'
      else emit (OTiebreak (ss\<lparr>tb_fired := True\<rparr>))
             [mk_intent brokenMkt ''tiebreak'' ''buy'' price (tb_ConvProbBps s)
                (''tiebreak_minibreak_set'' @ show_int (pt_SetNumber p))])))"

fun Tiebreak_OnEvent :: "Tiebreak \<Rightarrow> Event \<Rightarrow> MatchView \<Rightarrow> opaque \<Rightarrow> own_result" where
  "Tiebreak_OnEvent s (EvPrice e) mv v = Tiebreak_onPrice s e mv v"
| "Tiebreak_OnEvent s (EvPoint e) mv v = Tiebreak_onPoint s e mv v"
| "Tiebreak_OnEvent s (EvLifecycle e) mv v = on_lifecycle e"
| "Tiebreak_OnEvent s _ mv v = stay"

end
