(* ===== verification/StrategiesC.thy ===== *)
theory StrategiesC
  imports StrategiesB
begin

text \<open>
  The strategies that compare the two sides of a match or price them by a model: \<open>volratio.go\<close>,
  \<open>convexpool.go\<close>, \<open>crossarb.go\<close>, \<open>crossarb_favorite.go\<close> and \<open>surface_markov.go\<close> under
  \<open>domain/strategy\<close>.
\<close>

section \<open>VolumeRatio\<close>

text \<open>\<open>fmt.Sprintf\<close> with the verb \<open>%.1f\<close>: the exact value rounded to one decimal.\<close>

definition fmt1_nonneg :: "rat \<Rightarrow> string" where
  "fmt1_nonneg x = (let r = round_half_even (x * 10) in show_int (r div 10) @ ''.'' @ show_int (r mod 10))"

fun fmt1 :: "float64 \<Rightarrow> string" where
  "fmt1 (Fin x) = (if x < 0 then ''-'' @ fmt1_nonneg (- x) else fmt1_nonneg x)"
| "fmt1 PInf = ''+Inf''"
| "fmt1 NInf = ''-Inf''"
| "fmt1 NaN = ''NaN''"

record VolumeRatio =
  vr_WindowSeconds :: int
  vr_MinVolumeRatio :: float64
  vr_MinPriceCents :: int
  vr_MaxPriceCents :: int
  vr_Volumes :: "string \<rightharpoonup> float64"

definition NewVolumeRatio :: VolumeRatio where
  "NewVolumeRatio = \<lparr>vr_WindowSeconds = 600, vr_MinVolumeRatio = Fin 2, vr_MinPriceCents = 10, vr_MaxPriceCents = 90,
     vr_Volumes = Map.empty\<rparr>"

fun VolumeRatio_getOrCreateState :: "opaque \<Rightarrow> bool option" where
  "VolumeRatio_getOrCreateState ONil = Some False"
| "VolumeRatio_getOrCreateState (OVolRatio fired) = Some fired"
| "VolumeRatio_getOrCreateState _ = None"

definition lookupFl :: "(string \<rightharpoonup> float64) \<Rightarrow> string \<Rightarrow> float64" where
  "lookupFl m k = (case m k of None \<Rightarrow> Fin 0 | Some x \<Rightarrow> x)"

definition VolumeRatio_onPrice :: "VolumeRatio \<Rightarrow> PriceUpdate \<Rightarrow> MatchView \<Rightarrow> opaque \<Rightarrow> own_result" where
  "VolumeRatio_onPrice s e mv v =
     (case VolumeRatio_getOrCreateState v of None \<Rightarrow> None | Some fired \<Rightarrow>
     (let v' = OVolRatio fired in
      if fired then keep v'
      else if length (mv_MarketTickers mv) < 2 then keep v'
      else if mv_OccurrenceTS mv = 0 then keep v'
      else if pu_TS e < mv_OccurrenceTS mv - vr_WindowSeconds s * 1000 then keep v'
      else
     (let marketTicker = pu_MarketTicker e; price = pu_PriceCents e in
      if price \<le> 0 then keep v'
      else
     (let otherMkt = other_market marketTicker (mv_MarketTickers mv) in
      if otherMkt = [] then keep v'
      else case mv_Prices mv otherMkt of None \<Rightarrow> keep v' | Some otherPrice \<Rightarrow>
      if otherPrice \<le> 0 then keep v'
      else
     (let volA = lookupFl (vr_Volumes s) marketTicker; volB = lookupFl (vr_Volumes s) otherMkt in
      if fle volA (Fin 0) \<or> fle volB (Fin 0) then keep v'
      else
     (let (heavyMkt, heavyPrice, heavyVol, lightVol) =
            (if flt volA volB then (otherMkt, otherPrice, volB, volA) else (marketTicker, price, volA, volB));
          ratio = fdiv heavyVol lightVol in
      if flt ratio (vr_MinVolumeRatio s) then keep v'
      else if heavyPrice < vr_MinPriceCents s \<or> heavyPrice > vr_MaxPriceCents s then keep v'
      else
     (let edge0 = to_int64 (fadd (fmul (fsub ratio (Fin 1)) (Fin 5)) (flit (1 / 10 ^ 9)));
          edgeCents = (if edge0 > 15 then 15 else edge0) in
      if edgeCents < 1 then keep v'
      else
     (let convProbCents = (if heavyPrice + edgeCents > 99 then 99 else heavyPrice + edgeCents) in
      if convProbCents - heavyPrice < 1 then keep v'
      else emit (OVolRatio True)
             [mk_intent heavyMkt ''volratio'' ''buy'' heavyPrice (convProbCents * 100)
                (''volratio_'' @ fmt1 ratio @ ''x_T-'' @ show_int (vr_WindowSeconds s) @ ''s'')]))))))))"

fun VolumeRatio_OnEvent :: "VolumeRatio \<Rightarrow> Event \<Rightarrow> MatchView \<Rightarrow> opaque \<Rightarrow> own_result" where
  "VolumeRatio_OnEvent s (EvPrice e) mv v = VolumeRatio_onPrice s e mv v"
| "VolumeRatio_OnEvent s (EvLifecycle e) mv v = on_lifecycle e"
| "VolumeRatio_OnEvent s _ mv v = stay"

section \<open>ConvexPool\<close>

record ConvexPoolConfig =
  cp_PServe :: float64
  cp_Alpha :: float64
  cp_MinEdgeCents :: int
  cp_MinPriceCents :: int
  cp_MaxPriceCents :: int
  cp_Label :: string

definition DefaultConvexPoolConfig :: ConvexPoolConfig where
  "DefaultConvexPoolConfig = \<lparr>cp_PServe = flit (64 / 100), cp_Alpha = flit (1 / 2), cp_MinEdgeCents = 3,
     cp_MinPriceCents = 5, cp_MaxPriceCents = 95, cp_Label = ''convexpool''\<rparr>"

definition cpPriceStaleMS :: int where "cpPriceStaleMS = 60000"

text \<open>One iteration of the loop over the market tickers: no intent is \<open>continue\<close>, \<open>None\<close> a panic of \<open>intToStr\<close>.\<close>

definition convex_blend :: "ConvexPoolConfig \<Rightarrow> float64 \<Rightarrow> int \<Rightarrow> float64" where
  "convex_blend cfg fv priceCents =
     fadd (fmul (cp_Alpha cfg) fv) (fmul (fsub (Fin 1) (cp_Alpha cfg)) (fdiv (of_int64 priceCents) (Fin 100)))"

definition ConvexPool_market ::
  "ConvexPoolConfig \<Rightarrow> PointScored \<Rightarrow> MatchView \<Rightarrow> string \<Rightarrow> float64 \<Rightarrow> string \<Rightarrow> Intent list option" where
  "ConvexPool_market cfg e mv mkt fv side =
     (let p = ps_Point e in
      case mv_Prices mv mkt of None \<Rightarrow> Some [] | Some priceCents \<Rightarrow>
      if priceCents \<le> 0 then Some []
      else case mv_PriceTS mv mkt of None \<Rightarrow> Some [] | Some priceTS \<Rightarrow>
      if ps_TS e - priceTS > cpPriceStaleMS then Some []
      else
     (let blended = convex_blend cfg fv priceCents; edgeCents = to_int64 (fmul blended (Fin 100)) - priceCents in
      if edgeCents < cp_MinEdgeCents cfg then Some []
      else if priceCents < cp_MinPriceCents cfg then Some []
      else if cp_MaxPriceCents cfg > 0 \<and> priceCents > cp_MaxPriceCents cfg then Some []
      else
        Option.bind (intToStr (pt_SetNumber p)) (\<lambda>ns. Option.bind (intToStr (pt_GameNumber p)) (\<lambda>ng.
        Option.bind (intToStr (pt_PointNumber p)) (\<lambda>np.
          Some [mk_intent mkt (cp_Label cfg) ''buy'' priceCents (to_int64 (fmul blended (Fin 10000)))
                  (''convex_'' @ side @ ''_set'' @ ns @ ''_game'' @ ng @ ''_pt'' @ np)])))))"

fun ConvexPool_loop ::
  "ConvexPoolConfig \<Rightarrow> PointScored \<Rightarrow> MatchView \<Rightarrow> float64 \<Rightarrow> float64 \<Rightarrow> nat \<Rightarrow> string list \<Rightarrow> Intent list option" where
  "ConvexPool_loop cfg e mv fvHome fvAway i [] = Some []"
| "ConvexPool_loop cfg e mv fvHome fvAway i (mkt # mkts) =
     (if i > 1 then Some []
      else
        Option.bind (ConvexPool_market cfg e mv mkt (if i = 1 then fvAway else fvHome)
                       (if i = 1 then ''away'' else ''home'')) (\<lambda>xs.
        Option.bind (ConvexPool_loop cfg e mv fvHome fvAway (i + 1) mkts) (\<lambda>ys. Some (xs @ ys))))"

definition ConvexPool_onPoint ::
  "ConvexPoolConfig \<Rightarrow> PointScored \<Rightarrow> MatchView \<Rightarrow> MarkovModel \<Rightarrow> Intent list option \<times> MarkovModel" where
  "ConvexPool_onPoint cfg e mv model =
     (if length (mv_MarketTickers mv) < 2 then (Some [], model)
      else
     (let p = ps_Point e;
          (fvHome, model') = FairValue (pt_HomeSetGames p) (pt_AwaySetGames p) (pt_HomeGames p) (pt_AwayGames p)
                               (pt_HomePoints p) (pt_AwayPoints p) (pt_Server p) (pt_IsTiebreak p) model in
      (ConvexPool_loop cfg e mv fvHome (fsub (Fin 1) fvHome) 0 (mv_MarketTickers mv), model')))"

fun ConvexPool_OnEvent ::
  "ConvexPoolConfig \<Rightarrow> Event \<Rightarrow> MatchView \<Rightarrow> MarkovModel \<Rightarrow> own_result \<times> MarkovModel" where
  "ConvexPool_OnEvent cfg (EvPoint e) mv model =
     (let (r, model') = ConvexPool_onPoint cfg e mv model in (map_option (\<lambda>is. (None, is)) r, model'))"
| "ConvexPool_OnEvent cfg _ mv model = (stay, model)"

section \<open>CrossArb\<close>

definition caPriceStaleMS :: int where "caPriceStaleMS = 60000"

record CrossArbConfig =
  ca_MinEdgeCents :: int
  ca_Label :: string

definition DefaultCrossArbConfig :: CrossArbConfig where
  "DefaultCrossArbConfig = \<lparr>ca_MinEdgeCents = 2, ca_Label = ''cross-arb''\<rparr>"

text \<open>\<open>fired, _ := v.(bool)\<close>: a value of another type counts as not fired.\<close>

fun fired_flag :: "opaque \<Rightarrow> bool" where
  "fired_flag (OBool b) = b"
| "fired_flag _ = False"

definition is_stale :: "int \<Rightarrow> int \<Rightarrow> int option \<Rightarrow> bool" where
  "is_stale limit now ts = (case ts of None \<Rightarrow> False | Some t \<Rightarrow> now - t > limit)"

definition CrossArb_onPrice :: "CrossArbConfig \<Rightarrow> PriceUpdate \<Rightarrow> MatchView \<Rightarrow> opaque \<Rightarrow> own_result" where
  "CrossArb_onPrice cfg e mv v =
     (if length (mv_MarketTickers mv) < 2 then stay
      else if fired_flag v then stay
      else
     (let homeMkt = mv_MarketTickers mv ! 0; awayMkt = mv_MarketTickers mv ! 1; label = ca_Label cfg in
      case (mv_Prices mv homeMkt, mv_Prices mv awayMkt) of
        (Some homeCents, Some awayCents) \<Rightarrow>
          (if homeCents \<le> 0 \<or> awayCents \<le> 0 then stay
           else if is_stale caPriceStaleMS (pu_TS e) (mv_PriceTS mv homeMkt) then stay
           else if is_stale caPriceStaleMS (pu_TS e) (mv_PriceTS mv awayMkt) then stay
           else
          (let yesSumCents = homeCents + awayCents; edgeCents = 100 - yesSumCents; noEdgeCents = yesSumCents - 100 in
           if edgeCents \<ge> ca_MinEdgeCents cfg
           then Option.bind (intToStr edgeCents) (\<lambda>ne.
             emit (OBool True)
               [mk_intent homeMkt label ''buy'' homeCents (10000 - homeCents * 100) (''crossarb_buy_yes_edge'' @ ne @ ''c''),
                mk_intent awayMkt label ''buy'' awayCents (10000 - awayCents * 100) (''crossarb_buy_yes_edge'' @ ne @ ''c'')])
           else if noEdgeCents \<ge> ca_MinEdgeCents cfg
           then Option.bind (intToStr noEdgeCents) (\<lambda>ne.
             emit (OBool True)
               [mk_intent homeMkt label ''buy_no'' (100 - homeCents) (homeCents * 100) (''crossarb_buy_no_edge'' @ ne @ ''c''),
                mk_intent awayMkt label ''buy_no'' (100 - awayCents) (awayCents * 100) (''crossarb_buy_no_edge'' @ ne @ ''c'')])
           else stay))
      | _ \<Rightarrow> stay))"

fun CrossArb_OnEvent :: "CrossArbConfig \<Rightarrow> Event \<Rightarrow> MatchView \<Rightarrow> opaque \<Rightarrow> own_result" where
  "CrossArb_OnEvent cfg (EvPrice e) mv v = CrossArb_onPrice cfg e mv v"
| "CrossArb_OnEvent cfg _ mv v = stay"

section \<open>CrossArbFavorite\<close>

definition cafPriceStaleMS :: int where "cafPriceStaleMS = 60000"

record CrossArbFavoriteConfig =
  cf_MinEdgeCents :: int
  cf_MaxNOPriceCents :: int
  cf_Label :: string

definition DefaultCrossArbFavoriteConfig :: CrossArbFavoriteConfig where
  "DefaultCrossArbFavoriteConfig = \<lparr>cf_MinEdgeCents = 2, cf_MaxNOPriceCents = 30, cf_Label = ''cross-arb-favorite''\<rparr>"

definition CrossArbFavorite_onPrice :: "CrossArbFavoriteConfig \<Rightarrow> PriceUpdate \<Rightarrow> MatchView \<Rightarrow> opaque \<Rightarrow> own_result" where
  "CrossArbFavorite_onPrice cfg e mv v =
     (if length (mv_MarketTickers mv) < 2 then stay
      else if fired_flag v then stay
      else
     (let homeMkt = mv_MarketTickers mv ! 0; awayMkt = mv_MarketTickers mv ! 1 in
      case (mv_Prices mv homeMkt, mv_Prices mv awayMkt) of
        (Some homeCents, Some awayCents) \<Rightarrow>
          (if homeCents \<le> 0 \<or> awayCents \<le> 0 then stay
           else if is_stale cafPriceStaleMS (pu_TS e) (mv_PriceTS mv homeMkt) then stay
           else if is_stale cafPriceStaleMS (pu_TS e) (mv_PriceTS mv awayMkt) then stay
           else
          (let noEdgeCents = homeCents + awayCents - 100 in
           if noEdgeCents < cf_MinEdgeCents cfg then stay
           else
          (let (favMkt, favCents) = (if awayCents > homeCents then (awayMkt, awayCents) else (homeMkt, homeCents));
               noCents = 100 - favCents in
           if noCents > cf_MaxNOPriceCents cfg then stay
           else Option.bind (intToStr noEdgeCents) (\<lambda>ne.
             emit (OBool True)
               [mk_intent favMkt (cf_Label cfg) ''buy_no'' noCents (favCents * 100)
                  (''crossarbfav_buy_no_edge'' @ ne @ ''c'')]))))
      | _ \<Rightarrow> stay))"

fun CrossArbFavorite_OnEvent :: "CrossArbFavoriteConfig \<Rightarrow> Event \<Rightarrow> MatchView \<Rightarrow> opaque \<Rightarrow> own_result" where
  "CrossArbFavorite_OnEvent cfg (EvPrice e) mv v = CrossArbFavorite_onPrice cfg e mv v"
| "CrossArbFavorite_OnEvent cfg _ mv v = stay"

section \<open>SurfaceMarkov\<close>

record SurfaceMarkov =
  sm_SeriesTicker :: string
  sm_Surface :: string
  sm_MinEdgeCents :: int
  sm_MaxMarketPriceCents :: int

definition NewSurfaceMarkov :: "string \<Rightarrow> string \<Rightarrow> SurfaceMarkov" where
  "NewSurfaceMarkov series surface =
     \<lparr>sm_SeriesTicker = series, sm_Surface = surface, sm_MinEdgeCents = 3, sm_MaxMarketPriceCents = 85\<rparr>"

definition seriesBasePServe :: "string \<rightharpoonup> float64" where
  "seriesBasePServe = map_of
     [(''KXATPMATCH'', flit (613 / 1000)), (''KXWTAMATCH'', flit (520 / 1000)),
      (''KXATPCHALLENGERMATCH'', flit (610 / 1000)), (''KXWTACHALLENGERMATCH'', flit (523 / 1000)),
      (''KXITFMATCH'', flit (579 / 1000)), (''KXITFWMATCH'', flit (540 / 1000)),
      (''KXATPDOUBLES'', flit (560 / 1000)), (''KXWTADOUBLES'', flit (500 / 1000)),
      (''KXITFDOUBLES'', flit (530 / 1000)), (''KXITFWDOUBLES'', flit (490 / 1000)),
      (''KXTENNISEXHIBITION'', flit (580 / 1000)), (''KXCHALLENGERMATCH'', flit (580 / 1000))]"

definition smDefaultPServe :: float64 where "smDefaultPServe = flit (64 / 100)"

definition surfaceAdjustment :: "string \<Rightarrow> float64" where
  "surfaceAdjustment surface =
     (if surface = ''clay'' then flit (- 4 / 100) else if surface = ''grass'' then flit (6 / 100) else Fin 0)"

definition pServeForContext :: "string \<Rightarrow> string \<Rightarrow> float64" where
  "pServeForContext series surface =
     (let base0 = lookupFl seriesBasePServe series;
          base = (if base0 = Fin 0 then smDefaultPServe else base0);
          p0 = fadd base (surfaceAdjustment surface);
          p1 = (if flt p0 (flit (40 / 100)) then flit (40 / 100) else p0) in
      if flt (flit (75 / 100)) p1 then flit (75 / 100) else p1)"

fun SurfaceMarkov_getOrCreateState :: "opaque \<Rightarrow> bool option" where
  "SurfaceMarkov_getOrCreateState ONil = Some False"
| "SurfaceMarkov_getOrCreateState (OSurfaceMarkov fired) = Some fired"
| "SurfaceMarkov_getOrCreateState _ = None"

text \<open>\<open>int(fairValue*scale + 1e-9)\<close>\<close>

definition scaled_fair :: "float64 \<Rightarrow> rat \<Rightarrow> int" where
  "scaled_fair fairValue scale = to_int64 (fadd (fmul fairValue (Fin scale)) (flit (1 / 10 ^ 9)))"

definition SurfaceMarkov_checkEdge :: "SurfaceMarkov \<Rightarrow> string \<Rightarrow> int \<Rightarrow> float64 \<Rightarrow> int \<Rightarrow> Intent option" where
  "SurfaceMarkov_checkEdge s mkt priceCents fairValue setNum =
     (if priceCents \<le> 0 \<or> priceCents > sm_MaxMarketPriceCents s then None
      else
     (let fvCents = scaled_fair fairValue 100; edgeCents = fvCents - priceCents in
      if edgeCents < sm_MinEdgeCents s then None
      else Some (mk_intent mkt ''surface-markov'' ''buy'' priceCents (scaled_fair fairValue 10000)
                   (''smarkov_set'' @ show_int setNum @ ''_edge'' @ show_int edgeCents @ ''c''))))"

definition SurfaceMarkov_side :: "SurfaceMarkov \<Rightarrow> MatchView \<Rightarrow> string \<Rightarrow> float64 \<Rightarrow> int \<Rightarrow> Intent list" where
  "SurfaceMarkov_side s mv mkt fv setNum =
     (case mv_Prices mv mkt of None \<Rightarrow> [] | Some price \<Rightarrow>
      if price > 0 then (case SurfaceMarkov_checkEdge s mkt price fv setNum of None \<Rightarrow> [] | Some i \<Rightarrow> [i]) else [])"

text \<open>
  \<open>checkEdge\<close> does not set the fired flag, so the check between the two sides reads the value it had
  on entry, false, and the second side is always examined.
\<close>

definition SurfaceMarkov_onPoint :: "SurfaceMarkov \<Rightarrow> PointScored \<Rightarrow> MatchView \<Rightarrow> opaque \<Rightarrow> own_result" where
  "SurfaceMarkov_onPoint s e mv v =
     (case SurfaceMarkov_getOrCreateState v of None \<Rightarrow> None | Some fired \<Rightarrow>
     (let p = ps_Point e; v' = OSurfaceMarkov fired in
      if fired then keep v'
      else if length (mv_MarketTickers mv) < 2 then keep v'
      else
     (let homeMkt = mv_MarketTickers mv ! 0; awayMkt = mv_MarketTickers mv ! 1 in
      if \<not> lookup0 (mv_Prices mv) homeMkt > 0 \<and> \<not> lookup0 (mv_Prices mv) awayMkt > 0 then keep v'
      else
     (let markov = NewMarkovModelWithProb (pServeForContext (sm_SeriesTicker s) (sm_Surface s));
          setsHome = (if pt_HomeSetGames p > pt_AwaySetGames p then 1 else 0);
          setsAway = (if pt_HomeSetGames p > pt_AwaySetGames p then 0
                      else if pt_AwaySetGames p > pt_HomeSetGames p then 1 else 0);
          w = fst (WinProbability setsHome setsAway (pt_HomeGames p) (pt_AwayGames p)
                (pt_HomePoints p) (pt_AwayPoints p) (pt_Server p) (pt_IsTiebreak p) markov);
          homeFV = fmax (flit (1 / 100)) (fmin (flit (99 / 100)) w);
          awayFV = fsub (Fin 1) homeFV;
          hs = SurfaceMarkov_side s mv homeMkt homeFV (pt_SetNumber p) in
      if fired then emit v' hs
      else
     (let intents = hs @ SurfaceMarkov_side s mv awayMkt awayFV (pt_SetNumber p) in
      emit (OSurfaceMarkov (if length intents > 0 then True else fired)) intents)))))"

fun SurfaceMarkov_OnEvent :: "SurfaceMarkov \<Rightarrow> Event \<Rightarrow> MatchView \<Rightarrow> opaque \<Rightarrow> own_result" where
  "SurfaceMarkov_OnEvent s (EvPoint e) mv v = SurfaceMarkov_onPoint s e mv v"
| "SurfaceMarkov_OnEvent s (EvLifecycle e) mv v = on_lifecycle e"
| "SurfaceMarkov_OnEvent s _ mv v = stay"

end
