(* ===== verification/Strategies.thy ===== *)
theory Strategies
  imports StrategiesC
begin

text \<open>
  The strategies as one type: the \<open>Strategy\<close> interface of \<open>domain/strategy/strategy.go\<close> as a tagged
  union of its implementations, its two methods by dispatch, and \<open>buildStrategies\<close> of
  \<open>cmd/ghost-trader/main.go\<close>. The laws that hold for every implementation are proved per handler and
  collected here.
\<close>

section \<open>Dispatch\<close>

datatype strategy =
  SMatchPoint
  | SAdOut
  | SBreakBack
  | SBreakPoint MarkovModel
  | SBuyTheDip
  | SCloseTimer
  | SComeback040
  | SFadeLongshot FadeLongshot
  | SNoFade NoFade
  | SServer1530 Server1530
  | SSet1Winner
  | SSetDown
  | SSetPoint
  | SSpikeFade SpikeFade
  | STiebreakServer TiebreakServer
  | STiebreak Tiebreak
  | SVolumeRatio VolumeRatio
  | SConvexPool ConvexPoolConfig MarkovModel
  | SCrossArb CrossArbConfig
  | SCrossArbFavorite CrossArbFavoriteConfig
  | SSurfaceMarkov SurfaceMarkov

fun strategy_Name :: "strategy \<Rightarrow> string" where
  "strategy_Name SMatchPoint = ''matchpoint''"
| "strategy_Name SAdOut = ''adout''"
| "strategy_Name SBreakBack = ''breakback''"
| "strategy_Name (SBreakPoint m) = ''breakpoint''"
| "strategy_Name SBuyTheDip = ''buythedip''"
| "strategy_Name SCloseTimer = ''close_timer''"
| "strategy_Name SComeback040 = ''comeback040''"
| "strategy_Name (SFadeLongshot c) = ''fadelongshot''"
| "strategy_Name (SNoFade c) = ''nofade''"
| "strategy_Name (SServer1530 c) = ''server1530''"
| "strategy_Name SSet1Winner = ''set1winner''"
| "strategy_Name SSetDown = ''setdown''"
| "strategy_Name SSetPoint = ''setpoint''"
| "strategy_Name (SSpikeFade c) = ''spike-fade''"
| "strategy_Name (STiebreakServer c) = ''tiebreak-server''"
| "strategy_Name (STiebreak c) = ''tiebreak''"
| "strategy_Name (SVolumeRatio c) = ''volratio''"
| "strategy_Name (SConvexPool c m) = cp_Label c"
| "strategy_Name (SCrossArb c) = ca_Label c"
| "strategy_Name (SCrossArbFavorite c) = cf_Label c"
| "strategy_Name (SSurfaceMarkov c) = ''surface-markov''"

text \<open>The handler of a strategy on its own entry, and the strategy object after the call.\<close>

fun own_OnEvent :: "strategy \<Rightarrow> Event \<Rightarrow> MatchView \<Rightarrow> opaque \<Rightarrow> own_result \<times> strategy" where
  "own_OnEvent SMatchPoint ev mv v = (MatchPoint_OnEvent ev mv v, SMatchPoint)"
| "own_OnEvent SAdOut ev mv v = (AdOut_OnEvent ev mv v, SAdOut)"
| "own_OnEvent SBreakBack ev mv v = (BreakBack_OnEvent ev mv v, SBreakBack)"
| "own_OnEvent (SBreakPoint m) ev mv v = (let (r, m') = BreakPoint_OnEvent ev mv v m in (r, SBreakPoint m'))"
| "own_OnEvent SBuyTheDip ev mv v = (BuyTheDip_OnEvent ev mv v, SBuyTheDip)"
| "own_OnEvent SCloseTimer ev mv v = (CloseTimer_OnEvent ev mv v, SCloseTimer)"
| "own_OnEvent SComeback040 ev mv v = (Comeback040_OnEvent ev mv v, SComeback040)"
| "own_OnEvent (SFadeLongshot c) ev mv v = (FadeLongshot_OnEvent c ev mv v, SFadeLongshot c)"
| "own_OnEvent (SNoFade c) ev mv v = (NoFade_OnEvent c ev mv v, SNoFade c)"
| "own_OnEvent (SServer1530 c) ev mv v = (Server1530_OnEvent c ev mv v, SServer1530 c)"
| "own_OnEvent SSet1Winner ev mv v = (Set1Winner_OnEvent ev mv v, SSet1Winner)"
| "own_OnEvent SSetDown ev mv v = (SetDown_OnEvent ev mv v, SSetDown)"
| "own_OnEvent SSetPoint ev mv v = (SetPoint_OnEvent ev mv v, SSetPoint)"
| "own_OnEvent (SSpikeFade c) ev mv v = (SpikeFade_OnEvent c ev mv v, SSpikeFade c)"
| "own_OnEvent (STiebreakServer c) ev mv v = (TiebreakServer_OnEvent c ev mv v, STiebreakServer c)"
| "own_OnEvent (STiebreak c) ev mv v = (Tiebreak_OnEvent c ev mv v, STiebreak c)"
| "own_OnEvent (SVolumeRatio c) ev mv v = (VolumeRatio_OnEvent c ev mv v, SVolumeRatio c)"
| "own_OnEvent (SConvexPool c m) ev mv v = (let (r, m') = ConvexPool_OnEvent c ev mv m in (r, SConvexPool c m'))"
| "own_OnEvent (SCrossArb c) ev mv v = (CrossArb_OnEvent c ev mv v, SCrossArb c)"
| "own_OnEvent (SCrossArbFavorite c) ev mv v = (CrossArbFavorite_OnEvent c ev mv v, SCrossArbFavorite c)"
| "own_OnEvent (SSurfaceMarkov c) ev mv v = (SurfaceMarkov_OnEvent c ev mv v, SSurfaceMarkov c)"

definition Strategy_OnEvent :: "strategy \<Rightarrow> Event \<Rightarrow> State \<Rightarrow> (strategy \<times> State \<times> Intent list) option" where
  "Strategy_OnEvent s ev st =
     (let (r, s') = own_OnEvent s ev (st_MatchView st) (State_Get (strategy_Name s) st) in
      map_option (\<lambda>(st', is). (s', st', is)) (run_own (strategy_Name s) (\<lambda>mv v. r) st))"

definition buildStrategies :: "strategy list" where
  "buildStrategies =
     [SMatchPoint, SAdOut, SBreakBack, SBreakPoint (NewMarkovModelWithProb bpPServe), SBuyTheDip, SCloseTimer,
      SComeback040, SFadeLongshot NewFadeLongshot, SNoFade NewNoFade, SServer1530 NewServer1530, SSet1Winner, SSetDown,
      SSetPoint, SSpikeFade NewSpikeFade, STiebreakServer NewTiebreakServer, STiebreak NewTiebreak,
      SVolumeRatio NewVolumeRatio,
      SConvexPool DefaultConvexPoolConfig (NewMarkovModelWithProb (cp_PServe DefaultConvexPoolConfig)),
      SCrossArb DefaultCrossArbConfig, SCrossArbFavorite DefaultCrossArbFavoriteConfig]"

section \<open>Reasoning about handlers\<close>

text \<open>\<open>all_res P r\<close>: if the handler returns, the entry it writes and its intents satisfy \<open>P\<close>.\<close>

definition all_res :: "(opaque option \<Rightarrow> Intent list \<Rightarrow> bool) \<Rightarrow> own_result \<Rightarrow> bool" where
  "all_res P r \<longleftrightarrow> (\<forall>w is. r = Some (w, is) \<longrightarrow> P w is)"

lemma all_res_simps [simp]:
  "all_res P None" "all_res P stay \<longleftrightarrow> P None []" "all_res P (keep v) \<longleftrightarrow> P (Some v) []"
  "all_res P (emit v is) \<longleftrightarrow> P (Some v) is"
  "all_res P (map_option (\<lambda>is. (None, is)) r) \<longleftrightarrow> (\<forall>is. r = Some is \<longrightarrow> P None is)"
  by (auto simp: all_res_def stay_def keep_def emit_def)

lemma all_res_bind [simp]: "all_res P (Option.bind x f) \<longleftrightarrow> (\<forall>y. x = Some y \<longrightarrow> all_res P (f y))"
  by (cases x) auto

lemma all_resD: "all_res P r \<Longrightarrow> r = Some (w, is) \<Longrightarrow> P w is"
  by (simp add: all_res_def)

lemma all_res_lifecycle: "(\<And>v. v = ONil \<Longrightarrow> P (Some v) []) \<Longrightarrow> P None [] \<Longrightarrow> all_res P (on_lifecycle e)"
  by (simp add: on_lifecycle_def)

lemma mk_intent_sel [simp]:
  "in_MarketTicker (mk_intent m s a pr pb r) = m" "in_Strategy (mk_intent m s a pr pb r) = s"
  "in_Action (mk_intent m s a pr pb r) = a" "in_PriceCents (mk_intent m s a pr pb r) = pr"
  "in_ConvProbBps (mk_intent m s a pr pb r) = pb" "in_Reason (mk_intent m s a pr pb r) = r"
  by (simp_all add: mk_intent_def)

named_theorems handler_defs

lemmas [handler_defs] = MatchPoint_onPoint_def AdOut_onPoint_def maybeBuy_def maybeSell_def
  BreakBack_onPrice_def BreakBack_onPoint_def BreakPoint_onPoint_def BuyTheDip_onPrice_def BuyTheDip_checkEntry_def
  BuyTheDip_checkExit_def CloseTimer_onTick_def Comeback040_onPrice_def Comeback040_onPoint_def
  FadeLongshot_onPrice_def FadeLongshot_onPoint_def FadeLongshot_checkEntry_def NoFade_onPrice_def
  Server1530_onPrice_def Server1530_onPoint_def Set1Winner_onPoint_def SetDown_onPrice_def SetDown_onPoint_def
  SetPoint_onPoint_def SpikeFade_onPrice_def SpikeFade_onPoint_def TiebreakServer_onPoint_def
  Tiebreak_onPrice_def Tiebreak_onPoint_def VolumeRatio_onPrice_def ConvexPool_onPoint_def ConvexPool_market_def
  CrossArb_onPrice_def CrossArbFavorite_onPrice_def SurfaceMarkov_onPoint_def

section \<open>Every strategy signs its intents\<close>

text \<open>The intents carry the name of the strategy, and only two strategies ever sell.\<close>

definition signature :: "string \<Rightarrow> Intent \<Rightarrow> bool" where
  "signature n i \<longleftrightarrow> in_Strategy i = n \<and> (n \<in> {''adout'', ''buythedip''} \<or> in_Action i \<noteq> ''sell'')"

definition signed :: "string \<Rightarrow> own_result \<Rightarrow> bool" where
  "signed n r \<longleftrightarrow> all_res (\<lambda>w is. \<forall>i \<in> set is. signature n i) r"

lemma signature_mk [simp]:
  "signature n (mk_intent m s a price prob r) \<longleftrightarrow> s = n \<and> (n \<in> {''adout'', ''buythedip''} \<or> a \<noteq> ''sell'')"
  by (simp add: signature_def)

lemma signed_simps [simp]:
  "signed n None" "signed n stay" "signed n (keep v)" "signed n (emit v is) \<longleftrightarrow> (\<forall>i \<in> set is. signature n i)"
  "signed n (on_lifecycle e)" "signed n (Option.bind x f) \<longleftrightarrow> (\<forall>y. x = Some y \<longrightarrow> signed n (f y))"
  by (simp_all add: signed_def all_res_lifecycle)

lemma signed_MatchPoint: "signed ''matchpoint'' (MatchPoint_OnEvent ev mv v)"
  by (cases ev) (simp_all add: handler_defs Let_def split: option.split)

lemma signed_SetPoint: "signed ''setpoint'' (SetPoint_OnEvent ev mv v)"
  by (cases ev) (simp_all add: handler_defs Let_def split: option.split)

lemma maybeSell_signed: "maybeSell a e mv = Some (a', is) \<Longrightarrow> i \<in> set is \<Longrightarrow> signature ''adout'' i"
  by (auto simp: maybeSell_def Let_def split: if_splits option.splits)

lemma maybeBuy_signed: "maybeBuy a e mv = Some (a', is) \<Longrightarrow> i \<in> set is \<Longrightarrow> signature ''adout'' i"
  by (simp add: maybeBuy_def Let_def split: if_split_asm option.split_asm) auto

lemma signed_AdOut: "signed ''adout'' (AdOut_OnEvent ev mv v)"
  by (cases ev) (auto simp: AdOut_onPoint_def split: option.split intro: maybeSell_signed maybeBuy_signed)

lemma signed_BreakBack: "signed ''breakback'' (BreakBack_OnEvent ev mv v)"
  by (cases ev) (simp_all add: handler_defs Let_def split: option.split)

lemma signed_BreakPoint: "signed ''breakpoint'' (fst (BreakPoint_OnEvent ev mv v m))"
  by (cases ev) (simp_all add: handler_defs Let_def split: option.split prod.split)

lemma signed_BuyTheDip: "signed ''buythedip'' (BuyTheDip_OnEvent ev mv v)"
  by (cases ev) (simp_all add: handler_defs Let_def split: option.split)

lemma signed_CloseTimer: "signed ''close_timer'' (CloseTimer_OnEvent ev mv v)"
  by (cases ev) (simp_all add: handler_defs Let_def split: option.split)

lemma signed_Comeback040: "signed ''comeback040'' (Comeback040_OnEvent ev mv v)"
  by (cases ev) (simp_all add: handler_defs Let_def split: option.split)

lemma signed_FadeLongshot: "signed ''fadelongshot'' (FadeLongshot_OnEvent c ev mv v)"
  by (cases ev) (simp_all add: handler_defs Let_def split: option.split)

lemma signed_NoFade: "signed ''nofade'' (NoFade_OnEvent c ev mv v)"
  by (cases ev) (simp_all add: handler_defs Let_def split: option.split)

lemma signed_Server1530: "signed ''server1530'' (Server1530_OnEvent c ev mv v)"
  by (cases ev) (simp_all add: handler_defs Let_def split: option.split)

lemma signed_Set1Winner: "signed ''set1winner'' (Set1Winner_OnEvent ev mv v)"
  by (cases ev) (simp_all add: handler_defs Let_def split: option.split)

lemma signed_SetDown: "signed ''setdown'' (SetDown_OnEvent ev mv v)"
  by (cases ev) (simp_all add: handler_defs Let_def split: option.split)

lemma signed_SpikeFade: "signed ''spike-fade'' (SpikeFade_OnEvent c ev mv v)"
  by (cases ev) (simp_all add: handler_defs Let_def split: option.split)

lemma signed_TiebreakServer: "signed ''tiebreak-server'' (TiebreakServer_OnEvent c ev mv v)"
  by (cases ev) (simp_all add: handler_defs Let_def split: option.split)

lemma signed_Tiebreak: "signed ''tiebreak'' (Tiebreak_OnEvent c ev mv v)"
  by (cases ev) (simp_all add: handler_defs Let_def split: option.split)

lemma signed_VolumeRatio: "signed ''volratio'' (VolumeRatio_OnEvent c ev mv v)"
  by (cases ev) (simp_all add: handler_defs Let_def split: option.split prod.split)

lemma signed_CrossArb: "signed (ca_Label c) (CrossArb_OnEvent c ev mv v)"
  by (cases ev) (simp_all add: handler_defs Let_def split: option.split)

lemma signed_CrossArbFavorite: "signed (cf_Label c) (CrossArbFavorite_OnEvent c ev mv v)"
  by (cases ev) (simp_all add: handler_defs Let_def split: option.split)

lemma SurfaceMarkov_side_mem:
  assumes "i \<in> set (SurfaceMarkov_side c mv mkt fv n)"
  obtains price where "mv_Prices mv mkt = Some price" "price > 0" "SurfaceMarkov_checkEdge c mkt price fv n = Some i"
proof (cases "mv_Prices mv mkt")
  case None
  with assms show ?thesis by (simp only: SurfaceMarkov_side_def option.case list.set empty_iff)
next
  case (Some price)
  with assms that show ?thesis
    by (cases "SurfaceMarkov_checkEdge c mkt price fv n") (auto simp only: SurfaceMarkov_side_def option.case list.set split: if_split_asm)
qed

lemma SurfaceMarkov_checkEdge_signed: "SurfaceMarkov_checkEdge c mkt price fv n = Some i \<Longrightarrow> signature ''surface-markov'' i"
  unfolding SurfaceMarkov_checkEdge_def Let_def by (auto split: if_split_asm)

lemma SurfaceMarkov_side_signed: "i \<in> set (SurfaceMarkov_side c mv mkt fv n) \<Longrightarrow> signature ''surface-markov'' i"
  by (erule SurfaceMarkov_side_mem) (rule SurfaceMarkov_checkEdge_signed)

lemma signed_SurfaceMarkov: "signed ''surface-markov'' (SurfaceMarkov_OnEvent c ev mv v)"
  by (cases ev) (auto simp: SurfaceMarkov_onPoint_def Let_def dest: SurfaceMarkov_side_signed split: option.split)

lemma ConvexPool_market_signed:
  "ConvexPool_market cfg e mv mkt fv side = Some is \<Longrightarrow> i \<in> set is \<Longrightarrow> signature (cp_Label cfg) i"
  unfolding ConvexPool_market_def Let_def by (auto split: if_split_asm option.split_asm)

lemma ConvexPool_loop_signed:
  "ConvexPool_loop cfg e mv fvH fvA k mkts = Some is \<Longrightarrow> i \<in> set is \<Longrightarrow> signature (cp_Label cfg) i"
proof (induction mkts arbitrary: k "is")
  case (Cons m ms)
  show ?case
  proof (cases "1 < k")
    case False
    with Cons.prems(1) obtain xs ys where
      "ConvexPool_market cfg e mv m (if k = 1 then fvA else fvH) (if k = 1 then ''away'' else ''home'') = Some xs"
      "ConvexPool_loop cfg e mv fvH fvA (k + 1) ms = Some ys" "is = xs @ ys"
      by (auto split: if_split_asm)
    with Cons.IH Cons.prems(2) ConvexPool_market_signed show ?thesis by fastforce
  qed (use Cons.prems in simp)
qed simp

lemma signed_ConvexPool: "signed (cp_Label c) (fst (ConvexPool_OnEvent c ev mv m))"
proof (cases ev)
  case (EvPoint e)
  have "\<forall>is. fst (ConvexPool_onPoint c e mv m) = Some is \<longrightarrow> (\<forall>i \<in> set is. signature (cp_Label c) i)"
    by (auto simp: ConvexPool_onPoint_def Let_def split: prod.split dest: ConvexPool_loop_signed)
  with EvPoint show ?thesis
    by (cases "ConvexPool_onPoint c e mv m") (simp add: signed_def)
qed simp_all

lemmas signed_handlers = signed_MatchPoint signed_SetPoint signed_AdOut signed_BreakBack signed_BreakPoint
  signed_BuyTheDip signed_CloseTimer signed_Comeback040 signed_FadeLongshot signed_NoFade signed_Server1530
  signed_Set1Winner signed_SetDown signed_SpikeFade signed_TiebreakServer signed_Tiebreak signed_VolumeRatio
  signed_CrossArb signed_CrossArbFavorite signed_SurfaceMarkov signed_ConvexPool

lemma own_signed: "signed (strategy_Name s) (fst (own_OnEvent s ev mv v))"
proof (cases s)
  case (SBreakPoint m)
  then show ?thesis using signed_BreakPoint [of ev mv v m] by (simp add: case_prod_unfold Let_def)
next
  case (SConvexPool c m)
  then show ?thesis using signed_ConvexPool [of c ev mv m] by (simp add: case_prod_unfold Let_def)
qed (simp_all add: signed_handlers)

lemma own_name [simp]: "strategy_Name (snd (own_OnEvent s ev mv v)) = strategy_Name s"
  by (cases s) (simp_all add: case_prod_unfold Let_def)

text \<open>A strategy of the union honours the contract of the interface.\<close>

definition contract_OnEvent :: "strategy \<Rightarrow> Event \<Rightarrow> State \<Rightarrow> (State \<times> Intent list) option" where
  "contract_OnEvent s ev st = map_option snd (Strategy_OnEvent s ev st)"

lemma Strategy_OnEvent_eq:
  "Strategy_OnEvent s ev st =
     (case own_OnEvent s ev (st_MatchView st) (State_Get (strategy_Name s) st) of
        (None, s') \<Rightarrow> None
      | (Some (w, is), s') \<Rightarrow> Some (s', (case w of None \<Rightarrow> st | Some v \<Rightarrow> State_Set (strategy_Name s) v st), is))"
  by (simp add: Strategy_OnEvent_def run_own_def split: prod.split option.split)

lemma contract_OnEvent_run:
  "contract_OnEvent s ev st =
     run_own (strategy_Name s) (\<lambda>mv v. fst (own_OnEvent s ev mv v)) st"
  by (simp add: contract_OnEvent_def Strategy_OnEvent_eq run_own_def split: prod.split option.split)

interpretation strat: strategy_contract "strategy_Name s" "contract_OnEvent s" for s
proof (unfold_locales, goal_cases)
  case (1 ev st st' "is")
  then show ?case unfolding contract_OnEvent_run by (rule run_own_writes)
next
  case (2 st1 st2 ev)
  then show ?case unfolding contract_OnEvent_run by (rule run_own_reads)
next
  case (3 ev st st' "is" i)
  then show ?case
    using own_signed [of s ev "st_MatchView st" "State_Get (strategy_Name s) st"]
    by (auto simp: contract_OnEvent_run run_own_def signed_def signature_def all_res_def split: option.split_asm)
qed

end
