(* ===== verification/StrategyLaws.thy ===== *)
theory StrategyLaws
  imports Strategies
begin

text \<open>
  What the strategies guarantee one by one: a handler given its own kind of entry and numbers of
  ordinary size does not panic and leaves its own kind of entry; entries of one-shot strategies fire
  at most once per match; a buy is made below the estimated probability; positions are opened and
  closed alternately; a point is acted on once.
\<close>

section \<open>Handlers do not panic\<close>

definition cents_ok :: "int \<Rightarrow> bool" where "cents_ok n \<longleftrightarrow> \<bar>n\<bar> < 10 ^ 10"

definition view_ok :: "MatchView \<Rightarrow> bool" where
  "view_ok mv \<longleftrightarrow> (\<forall>m p. mv_Prices mv m = Some p \<longrightarrow> cents_ok p)"

fun event_ok :: "Event \<Rightarrow> bool" where
  "event_ok (EvPrice e) = cents_ok (pu_PriceCents e)"
| "event_ok (EvPoint e) = (small (pt_SetNumber (ps_Point e)) \<and> small (pt_GameNumber (ps_Point e)) \<and> small (pt_PointNumber (ps_Point e)))"
| "event_ok _ = True"

text \<open>Settings under which a strategy cannot divide by zero or print an overlong number.\<close>

fun config_ok :: "strategy \<Rightarrow> bool" where
  "config_ok (SFadeLongshot c) = small (fl_WindowSeconds c)"
| "config_ok (SNoFade c) = (small (nf_WindowSeconds c) \<and> small (nf_MaxNoPriceCents c))"
| "config_ok (SServer1530 c) = (small (sv_MinDipBps c) \<and> small (sv_MaxDipBps c))"
| "config_ok (STiebreak c) = (0 < tb_MinPeakPriceCents c)"
| "config_ok _ = True"

definition samples_ok :: "btdState \<Rightarrow> bool" where
  "samples_ok bs \<longleftrightarrow> (\<forall>m xs. bt_samples bs m = Some xs \<longrightarrow> (\<forall>x \<in> set xs. cents_ok (sm_price x)))"

text \<open>The entry of a strategy: absent, or of the type the strategy stores.\<close>

fun entry_ok :: "strategy \<Rightarrow> opaque \<Rightarrow> bool" where
  "entry_ok SMatchPoint v = (MatchPoint_getOrCreateState v \<noteq> None)"
| "entry_ok SAdOut v = (AdOut_getOrCreateState v \<noteq> None)"
| "entry_ok SBreakBack v = (BreakBack_getOrCreateState v \<noteq> None)"
| "entry_ok (SBreakPoint m) v = (BreakPoint_getOrCreateState v \<noteq> None)"
| "entry_ok SBuyTheDip v = (case BuyTheDip_getOrCreateState v of None \<Rightarrow> False | Some bs \<Rightarrow> samples_ok bs)"
| "entry_ok SCloseTimer v = (CloseTimer_getOrCreateState v \<noteq> None)"
| "entry_ok SComeback040 v = (Comeback040_getOrCreateState v \<noteq> None)"
| "entry_ok (SFadeLongshot c) v = (FadeLongshot_getOrCreateState v \<noteq> None)"
| "entry_ok (SNoFade c) v = (NoFade_getOrCreateState v \<noteq> None)"
| "entry_ok (SServer1530 c) v = (Server1530_getOrCreateState v \<noteq> None)"
| "entry_ok SSet1Winner v = (Set1Winner_getOrCreateState v \<noteq> None)"
| "entry_ok SSetDown v = (SetDown_getOrCreateState v \<noteq> None)"
| "entry_ok SSetPoint v = (SetPoint_getOrCreateState v \<noteq> None)"
| "entry_ok (SSpikeFade c) v = (SpikeFade_getOrCreateState v \<noteq> None)"
| "entry_ok (STiebreakServer c) v = (TiebreakServer_getOrCreateState v \<noteq> None)"
| "entry_ok (STiebreak c) v = (Tiebreak_getOrCreateState v \<noteq> None)"
| "entry_ok (SVolumeRatio c) v = (VolumeRatio_getOrCreateState v \<noteq> None)"
| "entry_ok (SSurfaceMarkov c) v = (SurfaceMarkov_getOrCreateState v \<noteq> None)"
| "entry_ok _ v = True"

text \<open>\<open>completes Q r\<close>: the handler returns, and the entry it writes, if any, satisfies \<open>Q\<close>.\<close>

definition completes :: "(opaque \<Rightarrow> bool) \<Rightarrow> own_result \<Rightarrow> bool" where
  "completes Q r \<longleftrightarrow> (\<exists>w is. r = Some (w, is) \<and> (\<forall>v. w = Some v \<longrightarrow> Q v))"

lemma completes_simps [simp]:
  "\<not> completes Q None" "completes Q stay" "completes Q (keep v) \<longleftrightarrow> Q v" "completes Q (emit v is) \<longleftrightarrow> Q v"
  "completes Q (map_option (\<lambda>is. (None, is)) r) \<longleftrightarrow> r \<noteq> None"
  by (auto simp: completes_def stay_def keep_def emit_def)

lemma completes_bind [simp]: "completes Q (Option.bind x f) \<longleftrightarrow> (\<exists>y. x = Some y \<and> completes Q (f y))"
  by (cases x) auto

lemma completes_lifecycle [simp]: "Q ONil \<Longrightarrow> completes Q (on_lifecycle e)"
  by (simp add: on_lifecycle_def)

lemma abs_sdiv_le: "\<bar>(a :: int) sdiv b\<bar> \<le> \<bar>a\<bar>"
proof (cases "b = 0")
  case False
  then have "\<bar>a\<bar> div \<bar>b\<bar> \<le> \<bar>a\<bar>" "0 \<le> \<bar>a\<bar> div \<bar>b\<bar>"
    using zdiv_mono2 [of "\<bar>a\<bar>" 1 "\<bar>b\<bar>"] by (auto simp: pos_imp_zdiv_nonneg_iff)
  then show ?thesis by (auto simp: signed_divide_int_def abs_mult sgn_if)
qed (simp add: signed_divide_int_def)

lemma small_sdiv: "small a \<Longrightarrow> small (a sdiv b)"
  using abs_sdiv_le [of a b] by (simp add: small_def)

lemma small_between: "small a \<Longrightarrow> small b \<Longrightarrow> a \<le> x \<Longrightarrow> x \<le> b \<Longrightarrow> small x"
  by (simp add: small_def)

lemma sdiv_pos: "0 \<le> a \<Longrightarrow> 0 < b \<Longrightarrow> (a :: int) sdiv b = a div b"
  by (cases "a = 0") (auto simp: signed_divide_int_def sgn_if)

text \<open>A drop from a peak, in basis points, lies between 0 and 10000.\<close>

lemma drop_bounds:
  assumes "0 < p" "p \<le> (m :: int)"
  shows "0 \<le> (m - p) * 10000 sdiv m" "(m - p) * 10000 sdiv m \<le> 10000"
proof -
  have e: "(m - p) * 10000 sdiv m = (m - p) * 10000 div m" using assms by (intro sdiv_pos) auto
  have "(m - p) * 10000 div m \<le> m * 10000 div m" using assms by (intro zdiv_mono1) auto
  with e assms show "(m - p) * 10000 sdiv m \<le> 10000" by simp
  show "0 \<le> (m - p) * 10000 sdiv m" unfolding e using assms by (simp add: pos_imp_zdiv_nonneg_iff)
qed

lemma track_peak_ge: "p \<le> lookup0 (pk_maxPrices (track_peak m p s)) m"
  by (auto simp: track_peak_def)

lemma drop_small: "0 < p \<Longrightarrow> p \<le> (m :: int) \<Longrightarrow> small (((m - p) * 10000 sdiv m) sdiv 100)"
  using drop_bounds [of p m] by (rule_tac small_sdiv) (simp only: small_def, simp)

lemma drop_small': "0 < p \<Longrightarrow> p \<le> (m :: int) \<Longrightarrow> small ((m * 10000 - p * 10000) sdiv m sdiv 100)"
  using drop_small [of p m] by (simp add: left_diff_distrib)

lemma price_diff_small: "cents_ok a \<Longrightarrow> cents_ok b \<Longrightarrow> small (a - b)" "cents_ok a \<Longrightarrow> cents_ok b \<Longrightarrow> small (100 - (a + b))"
  "cents_ok a \<Longrightarrow> cents_ok b \<Longrightarrow> small (a + b - 100)"
  by (auto simp: cents_ok_def small_def)

lemma completes_MatchPoint:
  "event_ok ev \<Longrightarrow> entry_ok SMatchPoint v \<Longrightarrow> completes (entry_ok SMatchPoint) (MatchPoint_OnEvent ev mv v)"
  by (cases ev) (auto simp: MatchPoint_onPoint_def Let_def split: option.split)

lemma completes_SetPoint:
  "event_ok ev \<Longrightarrow> entry_ok SSetPoint v \<Longrightarrow> completes (entry_ok SSetPoint) (SetPoint_OnEvent ev mv v)"
  by (cases ev) (auto simp: SetPoint_onPoint_def Let_def split: option.split)

lemma maybeSell_total:
  "event_ok (EvPoint e) \<Longrightarrow> maybeSell s e mv \<noteq> None" "event_ok (EvPoint e) \<Longrightarrow> maybeBuy s e mv \<noteq> None"
  by (simp_all add: maybeSell_def maybeBuy_def Let_def split: option.split)

lemma completes_AdOut:
  "event_ok ev \<Longrightarrow> entry_ok SAdOut v \<Longrightarrow> completes (entry_ok SAdOut) (AdOut_OnEvent ev mv v)"
proof (cases ev)
  case (EvPoint e)
  assume "event_ok ev" "entry_ok SAdOut v"
  with EvPoint show ?thesis
    by (auto simp: AdOut_onPoint_def maybeSell_total split: option.split)
qed simp_all

lemma completes_BreakBack:
  "event_ok ev \<Longrightarrow> entry_ok SBreakBack v \<Longrightarrow> completes (entry_ok SBreakBack) (BreakBack_OnEvent ev mv v)"
  by (cases ev) (auto simp: BreakBack_onPoint_def BreakBack_onPrice_def Let_def drop_small' track_peak_ge split: option.split)

lemma completes_BreakPoint:
  "event_ok ev \<Longrightarrow> entry_ok (SBreakPoint m) v \<Longrightarrow> completes (entry_ok (SBreakPoint m')) (fst (BreakPoint_OnEvent ev mv v m))"
  by (cases ev) (auto simp: BreakPoint_onPoint_def Let_def split: option.split prod.split)

lemma trim_samples_subset: "set (trim_samples c xs) \<subseteq> set xs"
  by (induction c xs rule: trim_samples.induct) auto

lemma window_samples_ok:
  assumes "samples_ok bs" "cents_ok (pu_PriceCents e)" "x \<in> set (window_samples w e (bt_samples bs))"
  shows "cents_ok (sm_price x)"
proof -
  have "x \<in> set (case bt_samples bs (pu_MarketTicker e) of None \<Rightarrow> [] | Some xs \<Rightarrow> xs) \<or> sm_price x = pu_PriceCents e"
    using subsetD [OF trim_samples_subset assms(3) [unfolded window_samples_def]] by auto
  with assms(1,2) show ?thesis by (cases "bt_samples bs (pu_MarketTicker e)") (auto simp: samples_ok_def)
qed

lemma completes_BuyTheDip:
  assumes "event_ok ev" "entry_ok SBuyTheDip v"
  shows "completes (entry_ok SBuyTheDip) (BuyTheDip_OnEvent ev mv v)"
proof (cases ev)
  case (EvPrice e)
  from assms(2) obtain bs where bs: "BuyTheDip_getOrCreateState v = Some bs" "samples_ok bs"
    by (auto split: option.split_asm)
  let ?w = "window_samples btdWindowMS e (bt_samples bs)"
  let ?bs = "bs\<lparr>bt_samples := (bt_samples bs)(pu_MarketTicker e \<mapsto> ?w)\<rparr>"
  have ok: "\<forall>x \<in> set ?w. cents_ok (sm_price x)"
    using window_samples_ok [OF bs(2)] assms(1) EvPrice by auto
  then have ok': "samples_ok (?bs\<lparr>bt_positions := ps\<rparr>)" for ps
    using bs(2) by (auto simp: samples_ok_def split: if_split_asm)
  then have okb: "samples_ok ?bs" by (auto simp: samples_ok_def)
  have hd: "\<not> length ?w < 2 \<Longrightarrow> small (sm_price (?w ! 0) - pu_PriceCents e)"
    using ok assms(1) EvPrice by (intro price_diff_small) (auto intro!: bspec [OF ok] nth_mem)
  have entry: "completes (entry_ok SBuyTheDip) (BuyTheDip_checkEntry e mv ?w ?bs)"
    using hd okb ok' by (auto simp: BuyTheDip_checkEntry_def Let_def)
  have exit: "completes (entry_ok SBuyTheDip) (BuyTheDip_checkExit e pos ?bs)" for pos
    using okb ok' by (simp add: BuyTheDip_checkExit_def Let_def)
  show ?thesis using bs EvPrice entry exit by (simp add: BuyTheDip_onPrice_def Let_def split: option.split)
qed (simp_all add: samples_ok_def)

lemma completes_CloseTimer:
  "entry_ok SCloseTimer v \<Longrightarrow> completes (entry_ok SCloseTimer) (CloseTimer_OnEvent ev mv v)"
  by (cases ev) (auto simp: CloseTimer_onTick_def Let_def ctLeadMin_def small_def split: option.split)

lemma completes_Comeback040:
  "event_ok ev \<Longrightarrow> entry_ok SComeback040 v \<Longrightarrow> completes (entry_ok SComeback040) (Comeback040_OnEvent ev mv v)"
  by (cases ev) (auto simp: Comeback040_onPoint_def Comeback040_onPrice_def Let_def split: option.split)

lemma completes_FadeLongshot:
  "config_ok (SFadeLongshot c) \<Longrightarrow> entry_ok (SFadeLongshot c) v \<Longrightarrow>
     completes (entry_ok (SFadeLongshot c)) (FadeLongshot_OnEvent c ev mv v)"
  by (cases ev) (auto simp: FadeLongshot_onPoint_def FadeLongshot_onPrice_def FadeLongshot_checkEntry_def Let_def split: option.split)

lemma completes_NoFade:
  "config_ok (SNoFade c) \<Longrightarrow> entry_ok (SNoFade c) v \<Longrightarrow> completes (entry_ok (SNoFade c)) (NoFade_OnEvent c ev mv v)"
  by (cases ev) (auto simp: NoFade_onPrice_def Let_def split: option.split)

lemma completes_Server1530:
  assumes "config_ok (SServer1530 c)" "event_ok ev" "entry_ok (SServer1530 c) v"
  shows "completes (entry_ok (SServer1530 c)) (Server1530_OnEvent c ev mv v)"
proof -
  have s: "small (d sdiv 10)" if "sv_MinDipBps c \<le> d" "d \<le> sv_MaxDipBps c" for d
    using that assms(1) small_sdiv small_between [of "sv_MinDipBps c" "sv_MaxDipBps c" d] by simp
  show ?thesis using assms(2,3)
    by (cases ev) (simp_all add: Server1530_onPoint_def Server1530_onPrice_def Let_def s not_less split: option.split)
qed

lemma completes_Set1Winner:
  "entry_ok SSet1Winner v \<Longrightarrow> completes (entry_ok SSet1Winner) (Set1Winner_OnEvent ev mv v)"
  by (cases ev) (auto simp: Set1Winner_onPoint_def Let_def split: option.split)

lemma completes_SetDown: "entry_ok SSetDown v \<Longrightarrow> completes (entry_ok SSetDown) (SetDown_OnEvent ev mv v)"
  by (cases ev) (auto simp: SetDown_onPoint_def SetDown_onPrice_def Let_def split: option.split)

lemma completes_SpikeFade:
  "entry_ok (SSpikeFade c) v \<Longrightarrow> completes (entry_ok (SSpikeFade c)) (SpikeFade_OnEvent c ev mv v)"
  by (cases ev) (auto simp: SpikeFade_onPoint_def SpikeFade_onPrice_def Let_def split: option.split)

lemma completes_TiebreakServer:
  "entry_ok (STiebreakServer c) v \<Longrightarrow> completes (entry_ok (STiebreakServer c)) (TiebreakServer_OnEvent c ev mv v)"
  by (cases ev) (auto simp: TiebreakServer_onPoint_def Let_def split: option.split)

lemma completes_Tiebreak:
  "config_ok (STiebreak c) \<Longrightarrow> entry_ok (STiebreak c) v \<Longrightarrow> completes (entry_ok (STiebreak c)) (Tiebreak_OnEvent c ev mv v)"
  by (cases ev) (auto simp: Tiebreak_onPoint_def Tiebreak_onPrice_def Let_def split: option.split)

lemma completes_VolumeRatio:
  "entry_ok (SVolumeRatio c) v \<Longrightarrow> completes (entry_ok (SVolumeRatio c)) (VolumeRatio_OnEvent c ev mv v)"
  by (cases ev) (simp_all add: VolumeRatio_onPrice_def Let_def split: option.split prod.split)

lemma ConvexPool_market_total: "event_ok (EvPoint e) \<Longrightarrow> ConvexPool_market cfg e mv mkt fv side \<noteq> None"
  unfolding ConvexPool_market_def Let_def by (simp split: option.split)

lemma ConvexPool_loop_total: "event_ok (EvPoint e) \<Longrightarrow> ConvexPool_loop cfg e mv fvH fvA k mkts \<noteq> None"
proof (induction mkts arbitrary: k)
  case (Cons m ms)
  obtain xs ys where
    "ConvexPool_market cfg e mv m (if k = 1 then fvA else fvH) (if k = 1 then ''away'' else ''home'') = Some xs"
    "ConvexPool_loop cfg e mv fvH fvA (k + 1) ms = Some ys"
    using ConvexPool_market_total [OF Cons.prems] Cons.IH [OF Cons.prems] by blast
  then show ?case by auto
qed simp

lemma completes_ConvexPool: "event_ok ev \<Longrightarrow> completes Q (fst (ConvexPool_OnEvent c ev mv m))"
proof (cases ev)
  case (EvPoint e)
  assume "event_ok ev"
  with EvPoint have "fst (ConvexPool_onPoint c e mv m) \<noteq> None"
    using ConvexPool_loop_total by (simp add: ConvexPool_onPoint_def Let_def case_prod_unfold)
  with EvPoint show ?thesis by (cases "ConvexPool_onPoint c e mv m") (simp add: completes_def)
qed simp_all

lemma completes_CrossArb:
  "view_ok mv \<Longrightarrow> completes (\<lambda>v. True) (CrossArb_OnEvent c ev mv v)"
  by (cases ev) (simp_all add: CrossArb_onPrice_def Let_def view_ok_def price_diff_small split: option.split)

lemma completes_CrossArbFavorite:
  "view_ok mv \<Longrightarrow> completes (\<lambda>v. True) (CrossArbFavorite_OnEvent c ev mv v)"
  by (cases ev) (simp_all add: CrossArbFavorite_onPrice_def Let_def view_ok_def price_diff_small split: option.split)

lemma completes_SurfaceMarkov:
  "entry_ok (SSurfaceMarkov c) v \<Longrightarrow> completes (entry_ok (SSurfaceMarkov c)) (SurfaceMarkov_OnEvent c ev mv v)"
  by (cases ev) (auto simp: SurfaceMarkov_onPoint_def Let_def split: option.split)

lemmas completes_handlers = completes_MatchPoint completes_SetPoint completes_AdOut completes_BreakBack
  completes_BuyTheDip completes_CloseTimer completes_Comeback040 completes_FadeLongshot completes_NoFade
  completes_Server1530 completes_Set1Winner completes_SetDown completes_SpikeFade completes_TiebreakServer
  completes_Tiebreak completes_VolumeRatio completes_SurfaceMarkov

lemma own_completes:
  assumes "config_ok s" "event_ok ev" "view_ok mv" "entry_ok s v"
  shows "completes (entry_ok s) (fst (own_OnEvent s ev mv v))"
proof (cases s)
  case (SBreakPoint m)
  then show ?thesis using assms completes_BreakPoint [of ev m v m mv] by (simp add: case_prod_unfold Let_def)
next
  case (SConvexPool c m)
  then show ?thesis using assms completes_ConvexPool [of ev _ c mv m] by (simp add: case_prod_unfold Let_def)
next
  case (SCrossArb c)
  then show ?thesis using completes_CrossArb [OF assms(3), of c ev v] by (simp add: completes_def)
next
  case (SCrossArbFavorite c)
  then show ?thesis using completes_CrossArbFavorite [OF assms(3), of c ev v] by (simp add: completes_def)
qed (use assms completes_handlers in auto)

section \<open>Strategies that fire once\<close>

fun fired_entry :: "opaque \<Rightarrow> bool" where
  "fired_entry (OBool b) = b"
| "fired_entry (OBreakBack s) = pk_fired s"
| "fired_entry (OSetDown s) = pk_fired s"
| "fired_entry (OComeback s) = pk_fired s"
| "fired_entry (OCloseTimer b) = b"
| "fired_entry (OFadeLongshot s) = fl_fired s"
| "fired_entry (ONoFade b) = b"
| "fired_entry (OServer1530 s) = sv_fired s"
| "fired_entry (OSet1Winner b) = b"
| "fired_entry (OSpikeFade s) = sf_fired s"
| "fired_entry (OTiebreakServer b) = b"
| "fired_entry (OTiebreak s) = tb_fired s"
| "fired_entry (OVolRatio b) = b"
| "fired_entry (OSurfaceMarkov b) = b"
| "fired_entry (OCalibratedMarkov s) = cm_fired s"
| "fired_entry _ = False"

definition fires :: "own_result \<Rightarrow> bool" where
  "fires r \<longleftrightarrow> all_res (\<lambda>w is. is = [] \<or> (\<exists>v'. w = Some v' \<and> fired_entry v')) r"

definition silent :: "Event \<Rightarrow> own_result \<Rightarrow> bool" where
  "silent ev r \<longleftrightarrow> all_res (\<lambda>w is. is = [] \<and> (\<forall>v'. w = Some v' \<longrightarrow> ends_match ev \<or> fired_entry v')) r"

lemma fires_simps [simp]:
  "fires None" "fires stay" "fires (keep v)" "fires (emit v is) \<longleftrightarrow> is = [] \<or> fired_entry v"
  "fires (on_lifecycle e)" "fires (Option.bind x f) \<longleftrightarrow> (\<forall>y. x = Some y \<longrightarrow> fires (f y))"
  by (simp_all add: fires_def all_res_lifecycle)

lemma silent_simps [simp]:
  "silent ev None" "silent ev stay" "silent ev (keep v) \<longleftrightarrow> ends_match ev \<or> fired_entry v"
  "silent (EvLifecycle e) (on_lifecycle e)"
  by (simp_all add: silent_def on_lifecycle_def)

lemma one_shotI:
  assumes "\<And>ev mv v. fires (h ev mv v)" "\<And>ev mv v. fired_entry v \<Longrightarrow> silent ev (h ev mv v)"
  shows "one_shot fired_entry h"
proof (unfold_locales, goal_cases)
  case (1 v ev mv w "is")
  then show ?case using assms(2) [OF 1(1), of ev mv] by (simp add: silent_def all_res_def)
next
  case (2 v ev mv v' "is")
  then show ?case using assms(2) [OF 2(1), of ev mv] by (simp add: silent_def all_res_def)
next
  case (3 ev mv v w "is")
  then show ?case using assms(1) [of ev mv v] by (simp add: fires_def all_res_def)
qed

text \<open>A handler that finds its entry fired returns at once; every emission is made with a fired entry.\<close>

lemma get_fired:
  "fired_entry v \<Longrightarrow> BreakBack_getOrCreateState v = Some s \<Longrightarrow> v = OBreakBack s \<and> pk_fired s"
  "fired_entry v \<Longrightarrow> SetDown_getOrCreateState v = Some s \<Longrightarrow> v = OSetDown s \<and> pk_fired s"
  "fired_entry v \<Longrightarrow> Comeback040_getOrCreateState v = Some s \<Longrightarrow> v = OComeback s \<and> pk_fired s"
  "fired_entry v \<Longrightarrow> CloseTimer_getOrCreateState v = Some b \<Longrightarrow> v = OCloseTimer b \<and> b"
  "fired_entry v \<Longrightarrow> FadeLongshot_getOrCreateState v = Some fs \<Longrightarrow> v = OFadeLongshot fs \<and> fl_fired fs"
  "fired_entry v \<Longrightarrow> NoFade_getOrCreateState v = Some b \<Longrightarrow> v = ONoFade b \<and> b"
  "fired_entry v \<Longrightarrow> Server1530_getOrCreateState v = Some ss \<Longrightarrow> v = OServer1530 ss \<and> sv_fired ss"
  "fired_entry v \<Longrightarrow> Set1Winner_getOrCreateState v = Some b \<Longrightarrow> v = OSet1Winner b \<and> b"
  "fired_entry v \<Longrightarrow> SpikeFade_getOrCreateState v = Some sf \<Longrightarrow> v = OSpikeFade sf \<and> sf_fired sf"
  "fired_entry v \<Longrightarrow> TiebreakServer_getOrCreateState v = Some b \<Longrightarrow> v = OTiebreakServer b \<and> b"
  "fired_entry v \<Longrightarrow> Tiebreak_getOrCreateState v = Some ts \<Longrightarrow> v = OTiebreak ts \<and> tb_fired ts"
  "fired_entry v \<Longrightarrow> VolumeRatio_getOrCreateState v = Some b \<Longrightarrow> v = OVolRatio b \<and> b"
  "fired_entry v \<Longrightarrow> SurfaceMarkov_getOrCreateState v = Some b \<Longrightarrow> v = OSurfaceMarkov b \<and> b"
  by (cases v; simp)+

lemma one_shot_BreakBack: "one_shot fired_entry BreakBack_OnEvent"
proof (rule one_shotI)
  show "fires (BreakBack_OnEvent ev mv v)" for ev mv v
    by (cases ev) (simp_all add: BreakBack_onPoint_def BreakBack_onPrice_def Let_def split: option.split)
  show "fired_entry v \<Longrightarrow> silent ev (BreakBack_OnEvent ev mv v)" for ev mv v
    by (cases ev) (auto simp: BreakBack_onPoint_def BreakBack_onPrice_def Let_def split: option.split dest: get_fired)
qed

lemma one_shot_SetDown: "one_shot fired_entry SetDown_OnEvent"
proof (rule one_shotI)
  show "fires (SetDown_OnEvent ev mv v)" for ev mv v
    by (cases ev) (simp_all add: SetDown_onPoint_def SetDown_onPrice_def Let_def split: option.split)
  show "fired_entry v \<Longrightarrow> silent ev (SetDown_OnEvent ev mv v)" for ev mv v
    by (cases ev) (auto simp: SetDown_onPoint_def SetDown_onPrice_def Let_def split: option.split dest: get_fired)
qed

lemma track_peak_fired [simp]: "pk_fired (track_peak m p s) = pk_fired s"
  by (simp add: track_peak_def)

lemma one_shot_Comeback040: "one_shot fired_entry Comeback040_OnEvent"
proof (rule one_shotI)
  show "fires (Comeback040_OnEvent ev mv v)" for ev mv v
    by (cases ev) (simp_all add: Comeback040_onPoint_def Comeback040_onPrice_def Let_def split: option.split)
  show "fired_entry v \<Longrightarrow> silent ev (Comeback040_OnEvent ev mv v)" for ev mv v
    by (cases ev) (auto simp: Comeback040_onPoint_def Comeback040_onPrice_def Let_def split: option.split dest: get_fired)
qed

lemma one_shot_CloseTimer: "one_shot fired_entry CloseTimer_OnEvent"
proof (rule one_shotI)
  show "fires (CloseTimer_OnEvent ev mv v)" for ev mv v
    by (cases ev) (simp_all add: CloseTimer_onTick_def Let_def split: option.split)
  show "fired_entry v \<Longrightarrow> silent ev (CloseTimer_OnEvent ev mv v)" for ev mv v
    by (cases ev) (auto simp: CloseTimer_onTick_def Let_def split: option.split dest: get_fired)
qed

lemma one_shot_FadeLongshot: "one_shot fired_entry (FadeLongshot_OnEvent c)"
proof (rule one_shotI)
  show "fires (FadeLongshot_OnEvent c ev mv v)" for ev mv v
    by (cases ev) (simp_all add: FadeLongshot_onPoint_def FadeLongshot_onPrice_def FadeLongshot_checkEntry_def Let_def split: option.split)
  show "fired_entry v \<Longrightarrow> silent ev (FadeLongshot_OnEvent c ev mv v)" for ev mv v
    by (cases ev) (auto simp: FadeLongshot_onPoint_def FadeLongshot_onPrice_def FadeLongshot_checkEntry_def Let_def
        split: option.split dest: get_fired)
qed

lemma one_shot_NoFade: "one_shot fired_entry (NoFade_OnEvent c)"
proof (rule one_shotI)
  show "fires (NoFade_OnEvent c ev mv v)" for ev mv v
    by (cases ev) (simp_all add: NoFade_onPrice_def Let_def split: option.split)
  show "fired_entry v \<Longrightarrow> silent ev (NoFade_OnEvent c ev mv v)" for ev mv v
    by (cases ev) (auto simp: NoFade_onPrice_def Let_def split: option.split dest: get_fired)
qed

lemma one_shot_Server1530: "one_shot fired_entry (Server1530_OnEvent c)"
proof (rule one_shotI)
  show "fires (Server1530_OnEvent c ev mv v)" for ev mv v
    by (cases ev) (simp_all add: Server1530_onPrice_def Server1530_onPoint_def Let_def split: option.split)
  show "fired_entry v \<Longrightarrow> silent ev (Server1530_OnEvent c ev mv v)" for ev mv v
    by (cases ev) (auto simp: Server1530_onPrice_def Server1530_onPoint_def Let_def split: option.split dest: get_fired)
qed

lemma one_shot_Set1Winner: "one_shot fired_entry Set1Winner_OnEvent"
proof (rule one_shotI)
  show "fires (Set1Winner_OnEvent ev mv v)" for ev mv v
    by (cases ev) (simp_all add: Set1Winner_onPoint_def Let_def split: option.split)
  show "fired_entry v \<Longrightarrow> silent ev (Set1Winner_OnEvent ev mv v)" for ev mv v
    by (cases ev) (auto simp: Set1Winner_onPoint_def Let_def split: option.split dest: get_fired)
qed

lemma one_shot_SpikeFade: "one_shot fired_entry (SpikeFade_OnEvent c)"
proof (rule one_shotI)
  show "fires (SpikeFade_OnEvent c ev mv v)" for ev mv v
    by (cases ev) (simp_all add: SpikeFade_onPoint_def SpikeFade_onPrice_def Let_def split: option.split)
  show "fired_entry v \<Longrightarrow> silent ev (SpikeFade_OnEvent c ev mv v)" for ev mv v
    by (cases ev) (auto simp: SpikeFade_onPoint_def SpikeFade_onPrice_def Let_def split: option.split dest: get_fired)
qed

lemma one_shot_TiebreakServer: "one_shot fired_entry (TiebreakServer_OnEvent c)"
proof (rule one_shotI)
  show "fires (TiebreakServer_OnEvent c ev mv v)" for ev mv v
    by (cases ev) (simp_all add: TiebreakServer_onPoint_def Let_def split: option.split)
  show "fired_entry v \<Longrightarrow> silent ev (TiebreakServer_OnEvent c ev mv v)" for ev mv v
    by (cases ev) (auto simp: TiebreakServer_onPoint_def Let_def split: option.split dest: get_fired)
qed

lemma one_shot_Tiebreak: "one_shot fired_entry (Tiebreak_OnEvent c)"
proof (rule one_shotI)
  show "fires (Tiebreak_OnEvent c ev mv v)" for ev mv v
    by (cases ev) (simp_all add: Tiebreak_onPoint_def Tiebreak_onPrice_def Let_def split: option.split)
  show "fired_entry v \<Longrightarrow> silent ev (Tiebreak_OnEvent c ev mv v)" for ev mv v
    by (cases ev) (auto simp: Tiebreak_onPoint_def Tiebreak_onPrice_def Let_def split: option.split dest: get_fired)
qed

lemma one_shot_VolumeRatio: "one_shot fired_entry (VolumeRatio_OnEvent c)"
proof (rule one_shotI)
  show "fires (VolumeRatio_OnEvent c ev mv v)" for ev mv v
    by (cases ev) (simp_all add: VolumeRatio_onPrice_def Let_def split: option.split prod.split)
  show "fired_entry v \<Longrightarrow> silent ev (VolumeRatio_OnEvent c ev mv v)" for ev mv v
    using get_fired(12) [of v]
    by (cases ev; cases "VolumeRatio_getOrCreateState v") (simp_all add: VolumeRatio_onPrice_def)
qed

text \<open>
  The cross-side strategies share no entry type with the others; a fired entry of theirs is the
  boolean \<open>true\<close>.
\<close>

lemma one_shot_CrossArb: "one_shot fired_flag (CrossArb_OnEvent c)"
proof (unfold_locales, goal_cases)
  case (1 v ev mv w "is")
  then show ?case by (cases ev) (auto simp: CrossArb_onPrice_def stay_def split: if_split_asm)
next
  case (2 v ev mv v' "is")
  then show ?case by (cases ev) (auto simp: CrossArb_onPrice_def stay_def split: if_split_asm)
next
  case (3 ev mv v w "is")
  have "all_res (\<lambda>w is. is = [] \<or> w = Some (OBool True)) (CrossArb_OnEvent c ev mv v)"
    by (cases ev) (simp_all add: CrossArb_onPrice_def Let_def split: option.split)
  with 3 show ?case by (auto simp: all_res_def)
qed

lemma one_shot_CrossArbFavorite: "one_shot fired_flag (CrossArbFavorite_OnEvent c)"
proof (unfold_locales, goal_cases)
  case (1 v ev mv w "is")
  then show ?case by (cases ev) (auto simp: CrossArbFavorite_onPrice_def stay_def split: if_split_asm)
next
  case (2 v ev mv v' "is")
  then show ?case by (cases ev) (auto simp: CrossArbFavorite_onPrice_def stay_def split: if_split_asm)
next
  case (3 ev mv v w "is")
  have "all_res (\<lambda>w is. is = [] \<or> w = Some (OBool True)) (CrossArbFavorite_OnEvent c ev mv v)"
    by (cases ev) (simp_all add: CrossArbFavorite_onPrice_def Let_def split: option.split)
  with 3 show ?case by (auto simp: all_res_def)
qed

lemma one_shot_SurfaceMarkov: "one_shot fired_entry (SurfaceMarkov_OnEvent c)"
proof (rule one_shotI)
  show "fires (SurfaceMarkov_OnEvent c ev mv v)" for ev mv v
    by (cases ev) (simp_all add: SurfaceMarkov_onPoint_def Let_def split: option.split)
  show "fired_entry v \<Longrightarrow> silent ev (SurfaceMarkov_OnEvent c ev mv v)" for ev mv v
    by (cases ev) (auto simp: SurfaceMarkov_onPoint_def Let_def split: option.split dest: get_fired)
qed

end
