(* ===== verification/Tracker.thy ===== *)
theory Tracker
  imports Strategies
begin

text \<open>
  \<open>app/tracker/tracker.go\<close>: the handler that keeps the match view and dispatches every event to all
  strategies, and the tracker that starts and stops one event loop per match. The stream and the
  score feed are ports: their calls are recorded, their errors are only logged by the code. A Go map
  has no iteration order, so the association list of loops stands for any order.
\<close>

section \<open>The handler of a match\<close>

record multiHandler =
  mh_strategies :: "strategy list"
  mh_state :: State

definition view_price :: "PriceUpdate \<Rightarrow> MatchView \<Rightarrow> MatchView" where
  "view_price e mv =
     mv\<lparr>mv_Prices := (mv_Prices mv)(pu_MarketTicker e \<mapsto> pu_PriceCents e),
        mv_PriceTS := (mv_PriceTS mv)(pu_MarketTicker e \<mapsto> pu_TS e)\<rparr>"

definition view_point :: "Point \<Rightarrow> MatchView \<Rightarrow> MatchView" where
  "view_point p mv =
     mv\<lparr>mv_SetsHome := pt_HomeSetGames p, mv_SetsAway := pt_AwaySetGames p,
        mv_GamesHome := pt_HomeGames p, mv_GamesAway := pt_AwayGames p,
        mv_HomePoints := pt_HomePoints p, mv_AwayPoints := pt_AwayPoints p,
        mv_Server := pt_Server p, mv_IsTiebreak := pt_IsTiebreak p,
        mv_SetNumber := pt_SetNumber p, mv_GameNumber := pt_GameNumber p, mv_PointNumber := pt_PointNumber p,
        mv_Scorer := pt_Scorer p, mv_IsBreakPoint := pt_IsBreakPoint p, mv_IsSetPoint := pt_IsSetPoint p,
        mv_IsMatchPoint := pt_IsMatchPoint p\<rparr>"

fun updateView :: "Event \<Rightarrow> MatchView \<Rightarrow> MatchView" where
  "updateView (EvPrice e) mv = view_price e mv"
| "updateView (EvPoint e) mv = view_point (ps_Point e) mv"
| "updateView (EvLifecycle e) mv = mv"
| "updateView (EvClock e) mv = mv"

fun dispatch :: "strategy list \<Rightarrow> Event \<Rightarrow> State \<Rightarrow> (strategy list \<times> State \<times> Intent list) option" where
  "dispatch [] ev st = Some ([], st, [])"
| "dispatch (s # ss) ev st =
     (case Strategy_OnEvent s ev st of
        None \<Rightarrow> None
      | Some (s', st1, intents) \<Rightarrow>
          (case dispatch ss ev st1 of
             None \<Rightarrow> None
           | Some (ss', st2, allIntents) \<Rightarrow> Some (s' # ss', st2, intents @ allIntents)))"

definition multiHandler_OnEvent :: "Event \<Rightarrow> multiHandler \<Rightarrow> (multiHandler \<times> Intent list) option" where
  "multiHandler_OnEvent ev h =
     (let st = mh_state h; st1 = st\<lparr>st_MatchView := updateView ev (st_MatchView st)\<rparr> in
      case dispatch (mh_strategies h) ev st1 of
        None \<Rightarrow> None
      | Some (ss, st2, intents) \<Rightarrow> Some (\<lparr>mh_strategies = ss, mh_state = st2\<rparr>, intents))"

section \<open>The tracker\<close>

datatype port_call =
  Subscribe "string list"
  | Unsubscribe "string list"
  | StartPolling string
  | StopPolling string

record matchLoop =
  ml_loop :: "multiHandler Loop"
  ml_event :: string
  ml_markets :: "string list"
  ml_started :: int

text \<open>
  \<open>tr_stream\<close> and \<open>tr_scoreFeed\<close> say whether the port is present (not \<open>nil\<close>). \<open>tr_calls\<close> is the
  sequence of port calls, \<open>tr_stopped\<close> the loops whose context was cancelled.
\<close>

record Tracker =
  tr_loops :: "(string \<times> matchLoop) list"
  tr_stream :: bool
  tr_scoreFeed :: bool
  tr_calls :: "port_call list"
  tr_stopped :: "matchLoop list"

definition NewTracker :: "bool \<Rightarrow> bool \<Rightarrow> Tracker" where
  "NewTracker stream scoreFeed =
     \<lparr>tr_loops = [], tr_stream = stream, tr_scoreFeed = scoreFeed, tr_calls = [], tr_stopped = []\<rparr>"

definition new_view :: "string \<Rightarrow> string list \<Rightarrow> MatchView" where
  "new_view eventTicker marketTickers =
     \<lparr>mv_EventTicker = eventTicker, mv_MarketTickers = marketTickers, mv_OccurrenceTS = 0, mv_CloseTS = 0,
      mv_Prices = Map.empty, mv_PriceTS = Map.empty, mv_SetsHome = 0, mv_SetsAway = 0, mv_GamesHome = 0,
      mv_GamesAway = 0, mv_HomePoints = [], mv_AwayPoints = [], mv_Server = 0, mv_IsTiebreak = False,
      mv_SetNumber = 0, mv_GameNumber = 0, mv_PointNumber = 0, mv_Scorer = 0, mv_IsBreakPoint = False,
      mv_IsSetPoint = False, mv_IsMatchPoint = False\<rparr>"

definition new_handler :: "string \<Rightarrow> string list \<Rightarrow> strategy list \<Rightarrow> multiHandler" where
  "new_handler eventTicker marketTickers strategies =
     \<lparr>mh_strategies = strategies,
      mh_state = \<lparr>st_MatchView = new_view eventTicker marketTickers, st_StrategyState = Map.empty\<rparr>\<rparr>"

definition StartMatch :: "string \<Rightarrow> string list \<Rightarrow> strategy list \<Rightarrow> int \<Rightarrow> Tracker \<Rightarrow> Tracker" where
  "StartMatch eventTicker marketTickers strategies now t =
     (if map_of (tr_loops t) eventTicker \<noteq> None then t
      else
        (let ml = \<lparr>ml_loop = NewLoop (new_handler eventTicker marketTickers strategies), ml_event = eventTicker,
                   ml_markets = marketTickers, ml_started = now\<rparr> in
         t\<lparr>tr_loops := (eventTicker, ml) # tr_loops t,
           tr_calls := tr_calls t @ (if tr_stream t then [Subscribe marketTickers] else [])
                        @ (if tr_scoreFeed t then [StartPolling eventTicker] else [])\<rparr>))"

definition StopMatch :: "string \<Rightarrow> string list \<Rightarrow> Tracker \<Rightarrow> Tracker" where
  "StopMatch eventTicker marketTickers t =
     (case map_of (tr_loops t) eventTicker of
        None \<Rightarrow> t
      | Some ml \<Rightarrow>
          t\<lparr>tr_loops := filter (\<lambda>(k, _). k \<noteq> eventTicker) (tr_loops t),
            tr_stopped := ml\<lparr>ml_loop := Loop_Cancel (ml_loop ml)\<rparr> # tr_stopped t,
            tr_calls := tr_calls t @ (if tr_stream t then [Unsubscribe marketTickers] else [])
                         @ (if tr_scoreFeed t then [StopPolling eventTicker] else [])\<rparr>)"

definition ActiveMatches :: "Tracker \<Rightarrow> nat" where
  "ActiveMatches t = length (tr_loops t)"

record ActiveSub =
  as_MarketTicker :: string
  as_EventTicker :: string
  as_SubscribedAt :: int

definition ActiveSubs :: "Tracker \<Rightarrow> ActiveSub list" where
  "ActiveSubs t =
     concat (map (\<lambda>(_, ml). map (\<lambda>mkt. \<lparr>as_MarketTicker = mkt, as_EventTicker = ml_event ml, as_SubscribedAt = ml_started ml\<rparr>)
                              (ml_markets ml)) (tr_loops t))"

definition ActiveEvents :: "Tracker \<Rightarrow> string list" where
  "ActiveEvents t = map fst (tr_loops t)"

text \<open>
  A running system: matches start and stop, and the loop of a tracked match takes a step (an event
  arrives or is handled). The loop goroutine of a stopped match has been cancelled.
\<close>

definition update_loop :: "string \<Rightarrow> multiHandler Loop \<Rightarrow> Tracker \<Rightarrow> Tracker" where
  "update_loop ev l t =
     t\<lparr>tr_loops := map (\<lambda>(k, ml). (k, if k = ev then ml\<lparr>ml_loop := l\<rparr> else ml)) (tr_loops t)\<rparr>"

inductive tracker_step :: "strategy list \<Rightarrow> Tracker \<Rightarrow> Tracker \<Rightarrow> bool" for strategies where
  start: "tracker_step strategies t (StartMatch ev mkts strategies now t)"
| stop: "tracker_step strategies t (StopMatch ev mkts t)"
| loop: "map_of (tr_loops t) ev = Some ml \<Longrightarrow> loop_step multiHandler_OnEvent (ml_loop ml) l' \<Longrightarrow>
     tracker_step strategies t (update_loop ev l' t)"

inductive_cases tracker_stepE: "tracker_step strategies t t'"

section \<open>Strategies do not interfere\<close>

lemma Strategy_OnEvent_writes:
  assumes "Strategy_OnEvent s ev st = Some (s', st', is)"
  shows "st_MatchView st' = st_MatchView st" "k \<noteq> strategy_Name s \<Longrightarrow> State_Get k st' = State_Get k st"
    "strategy_Name s' = strategy_Name s" "\<forall>i \<in> set is. in_Strategy i = strategy_Name s"
proof -
  have c: "contract_OnEvent s ev st = Some (st', is)" using assms by (simp add: contract_OnEvent_def)
  show "st_MatchView st' = st_MatchView st" "k \<noteq> strategy_Name s \<Longrightarrow> State_Get k st' = State_Get k st"
    using strat.writes_own [OF c] by auto
  show "\<forall>i \<in> set is. in_Strategy i = strategy_Name s" using strat.signs [OF c] by blast
  show "strategy_Name s' = strategy_Name s"
  proof -
    have "s' = snd (own_OnEvent s ev (st_MatchView st) (State_Get (strategy_Name s) st))"
      using assms by (auto simp: Strategy_OnEvent_eq split: prod.split_asm option.split_asm)
    then show ?thesis by simp
  qed
qed

text \<open>Two shared states look the same to a strategy.\<close>

definition same_for :: "string \<Rightarrow> State \<Rightarrow> State \<Rightarrow> bool" where
  "same_for n st1 st2 \<longleftrightarrow> st_MatchView st1 = st_MatchView st2 \<and> State_Get n st1 = State_Get n st2"

lemma Strategy_OnEvent_same:
  assumes "Strategy_OnEvent s ev st1 = Some (s', st1', is)" "same_for (strategy_Name s) st1 st2"
  shows "\<exists>st2'. Strategy_OnEvent s ev st2 = Some (s', st2', is) \<and> same_for (strategy_Name s) st1' st2'"
  using assms by (auto simp: Strategy_OnEvent_eq same_for_def split: prod.split_asm option.split_asm)

lemma dispatch_frame:
  "dispatch ss ev st = Some (ss', st', is) \<Longrightarrow>
     st_MatchView st' = st_MatchView st \<and> map strategy_Name ss' = map strategy_Name ss \<and>
     (\<forall>i \<in> set is. in_Strategy i \<in> strategy_Name ` set ss) \<and>
     (\<forall>k. k \<notin> strategy_Name ` set ss \<longrightarrow> State_Get k st' = State_Get k st)"
proof (induction ss arbitrary: st ss' st' "is")
  case (Cons s ss)
  from Cons.prems obtain s1 st1 is1 ss2 is2 where
    s: "Strategy_OnEvent s ev st = Some (s1, st1, is1)" "dispatch ss ev st1 = Some (ss2, st', is2)"
       "ss' = s1 # ss2" "is = is1 @ is2"
    by (auto split: option.split_asm)
  show ?case using Strategy_OnEvent_writes [OF s(1)] Cons.IH [OF s(2)] s(3,4) by auto
qed simp

lemma filter_other [simp]: "\<forall>i \<in> set is. in_Strategy i = m \<Longrightarrow> m \<noteq> n \<Longrightarrow> filter (\<lambda>i. in_Strategy i = n) is = []"
  by (auto simp: filter_empty_conv)

lemma dispatch_single:
  assumes "dispatch ss ev st = Some (ss', st', is)" "distinct (map strategy_Name ss)" "k < length ss"
    "same_for (strategy_Name (ss ! k)) st stk"
  shows "\<exists>stk'. Strategy_OnEvent (ss ! k) ev stk = Some (ss' ! k, stk', filter (\<lambda>i. in_Strategy i = strategy_Name (ss ! k)) is) \<and>
    same_for (strategy_Name (ss ! k)) st' stk'"
  using assms
proof (induction ss arbitrary: st ss' st' "is" k)
  case (Cons s ss)
  from Cons.prems(1) obtain s1 st1 is1 ss2 is2 where
    s: "Strategy_OnEvent s ev st = Some (s1, st1, is1)" "dispatch ss ev st1 = Some (ss2, st', is2)"
       "ss' = s1 # ss2" "is = is1 @ is2"
    by (auto split: option.split_asm)
  note w = Strategy_OnEvent_writes [OF s(1)] and f = dispatch_frame [OF s(2)]
  show ?case
  proof (cases k)
    case 0
    obtain stk' where k': "Strategy_OnEvent s ev stk = Some (s1, stk', is1)" "same_for (strategy_Name s) st1 stk'"
      using Strategy_OnEvent_same [OF s(1), of stk] Cons.prems(4) 0 by auto
    have n: "strategy_Name s \<notin> strategy_Name ` set ss" using Cons.prems(2) by simp
    have "filter (\<lambda>i. in_Strategy i = strategy_Name s) is2 = []"
      using f n unfolding filter_empty_conv by metis
    moreover have "filter (\<lambda>i. in_Strategy i = strategy_Name s) is1 = is1"
      using w(4) by (simp add: filter_id_conv)
    moreover have "same_for (strategy_Name s) st' stk'"
      using k'(2) f n by (simp add: same_for_def)
    ultimately show ?thesis using k'(1) 0 s(3,4) by simp
  next
    case (Suc j)
    then have j: "j < length ss" using Cons.prems(3) by simp
    then have "strategy_Name (ss ! j) \<in> strategy_Name ` set ss" by simp
    then have ne: "strategy_Name (ss ! j) \<noteq> strategy_Name s" using Cons.prems(2) by (metis distinct.simps(2) list.map(2) list.set_map)
    then have sf: "same_for (strategy_Name (ss ! j)) st1 stk"
      using Cons.prems(4) w(1,2) Suc by (auto simp: same_for_def)
    have "filter (\<lambda>i. in_Strategy i = strategy_Name (ss ! j)) is1 = []"
      using w(4) ne by (auto simp: filter_empty_conv)
    then show ?thesis using Cons.IH [OF s(2) _ j sf] Cons.prems(2) Suc s(3,4) by simp
  qed
qed simp

lemma multi_single:
  assumes "multiHandler_OnEvent ev h = Some (h', is)" "distinct (map strategy_Name (mh_strategies h))"
    "k < length (mh_strategies h)" "n = strategy_Name (mh_strategies h ! k)" "same_for n (mh_state h) stk"
  shows "\<exists>stk'. multiHandler_OnEvent ev \<lparr>mh_strategies = [mh_strategies h ! k], mh_state = stk\<rparr> =
      Some (\<lparr>mh_strategies = [mh_strategies h' ! k], mh_state = stk'\<rparr>, filter (\<lambda>i. in_Strategy i = n) is) \<and>
    same_for n (mh_state h') stk' \<and> map strategy_Name (mh_strategies h') = map strategy_Name (mh_strategies h)"
proof -
  let ?upd = "\<lambda>st. st\<lparr>st_MatchView := updateView ev (st_MatchView st)\<rparr>"
  from assms(1) obtain ss st2 where d: "dispatch (mh_strategies h) ev (?upd (mh_state h)) = Some (ss, st2, is)"
      "h' = \<lparr>mh_strategies = ss, mh_state = st2\<rparr>"
    by (auto simp: multiHandler_OnEvent_def Let_def split: option.split_asm)
  have "same_for n (?upd (mh_state h)) (?upd stk)"
    using assms(5) by (simp add: same_for_def State_Get_def)
  from dispatch_single [OF d(1) assms(2,3), folded assms(4), OF this]
  obtain stk' where k': "Strategy_OnEvent (mh_strategies h ! k) ev (?upd stk) = Some (ss ! k, stk', filter (\<lambda>i. in_Strategy i = n) is)"
      "same_for n st2 stk'"
    by blast
  show ?thesis using k' d(2) dispatch_frame [OF d(1)] by (simp add: multiHandler_OnEvent_def Let_def)
qed


definition demo_handler :: multiHandler where
  "demo_handler = new_handler ''EV'' [''A'', ''B''] [SCrossArb DefaultCrossArbConfig, SCrossArbFavorite DefaultCrossArbFavoriteConfig]"

definition demo_events :: "Event list" where
  "demo_events = [EvPrice \<lparr>pu_MarketTicker = ''A'', pu_PriceCents = 70, pu_TS = 1000\<rparr>,
     EvPrice \<lparr>pu_MarketTicker = ''B'', pu_PriceCents = 40, pu_TS = 2000\<rparr>]"

lemma demo_run:
  "\<exists>h' calls. run_handler multiHandler_OnEvent demo_events demo_handler = Some (h', calls) \<and>
     map in_MarketTicker (concat calls) = [''A'', ''B'', ''A''] \<and>
     map in_MarketTicker (filter (\<lambda>i. in_Strategy i = ''cross-arb-favorite'') (concat calls)) = [''A'']"
  by (simp add: demo_events_def demo_handler_def new_handler_def new_view_def multiHandler_OnEvent_def Let_def
      Strategy_OnEvent_eq view_price_def CrossArb_onPrice_def CrossArbFavorite_onPrice_def DefaultCrossArbConfig_def
      DefaultCrossArbFavoriteConfig_def State_Get_def State_Set_def stay_def emit_def is_stale_def
      caPriceStaleMS_def cafPriceStaleMS_def small_def mk_intent_def)


section \<open>Tracked matches\<close>

text \<open>The matches the score feed is polling after a sequence of port calls.\<close>

fun poll_call :: "port_call \<Rightarrow> string set \<Rightarrow> string set" where
  "poll_call (StartPolling ev) S = insert ev S"
| "poll_call (StopPolling ev) S = S - {ev}"
| "poll_call _ S = S"

definition polled :: "port_call list \<Rightarrow> string set" where
  "polled calls = fold poll_call calls {}"

lemma polled_append: "polled (xs @ ys) = fold poll_call ys (polled xs)"
  by (simp add: polled_def)

definition loop_ok :: "strategy list \<Rightarrow> string \<Rightarrow> matchLoop \<Rightarrow> bool" where
  "loop_ok strategies ev ml \<longleftrightarrow> ml_event ml = ev \<and>
     loop_inv multiHandler_OnEvent (new_handler ev (ml_markets ml) strategies) (ml_loop ml)"

definition tracker_inv :: "strategy list \<Rightarrow> Tracker \<Rightarrow> bool" where
  "tracker_inv strategies t \<longleftrightarrow> distinct (ActiveEvents t) \<and>
     (tr_scoreFeed t \<longrightarrow> polled (tr_calls t) = set (ActiveEvents t)) \<and>
     (\<forall>(ev, ml) \<in> set (tr_loops t). loop_ok strategies ev ml) \<and>
     (\<forall>ml \<in> set (tr_stopped t). lp_done (ml_loop ml))"

lemma tracker_inv_init: "tracker_inv strategies (NewTracker stream scoreFeed)"
  by (simp add: tracker_inv_def NewTracker_def ActiveEvents_def polled_def)

lemma map_of_None_events: "map_of (tr_loops t) ev = None \<longleftrightarrow> ev \<notin> set (ActiveEvents t)"
  by (simp add: ActiveEvents_def map_of_eq_None_iff)

lemma tracker_inv_start:
  assumes "tracker_inv strategies t"
  shows "tracker_inv strategies (StartMatch ev mkts strategies now t)"
proof (cases "map_of (tr_loops t) ev")
  case None
  then show ?thesis
    using assms map_of_None_events [of t ev] loop_inv_init
    by (auto simp: tracker_inv_def StartMatch_def ActiveEvents_def polled_append loop_ok_def)
qed (use assms in \<open>simp add: StartMatch_def\<close>)

lemma events_filter: "map fst (filter (\<lambda>(k, _). k \<noteq> ev) xs) = filter (\<lambda>k. k \<noteq> ev) (map fst xs)"
  by (induction xs) auto

lemma tracker_inv_stop:
  assumes "tracker_inv strategies t"
  shows "tracker_inv strategies (StopMatch ev mkts t)"
proof (cases "map_of (tr_loops t) ev")
  case (Some ml)
  then show ?thesis
    using assms
    by (auto simp: tracker_inv_def StopMatch_def ActiveEvents_def polled_append events_filter Loop_Cancel_def)
qed (use assms in \<open>simp add: StopMatch_def\<close>)

lemma events_update [simp]: "map fst (map (\<lambda>(k, ml). (k, f k ml)) xs) = map fst xs"
  by (induction xs) auto

lemma tracker_inv_loop:
  assumes "tracker_inv strategies t" "map_of (tr_loops t) ev = Some ml" "loop_step multiHandler_OnEvent (ml_loop ml) l'"
  shows "tracker_inv strategies (update_loop ev l' t)"
proof -
  have d: "distinct (map fst (tr_loops t))" and ok: "\<forall>(ev, ml) \<in> set (tr_loops t). loop_ok strategies ev ml"
    using assms(1) by (auto simp: tracker_inv_def ActiveEvents_def)
  have ev: "loop_ok strategies ev (ml\<lparr>ml_loop := l'\<rparr>)"
    using ok map_of_SomeD [OF assms(2)] loop_inv_step [OF assms(3)] by (auto simp: loop_ok_def)
  have same: "ml2 = ml" if "(ev, ml2) \<in> set (tr_loops t)" for ml2
    using map_of_is_SomeI [OF d that] assms(2) by simp
  have "\<forall>(k, m) \<in> set (tr_loops (update_loop ev l' t)). loop_ok strategies k m"
    using ok ev same by (auto simp: update_loop_def)
  moreover have "ActiveEvents (update_loop ev l' t) = ActiveEvents t"
    by (auto simp: ActiveEvents_def update_loop_def)
  ultimately show ?thesis using assms(1) by (simp add: tracker_inv_def update_loop_def)
qed

lemma tracker_inv_step: "tracker_step strategies t t' \<Longrightarrow> tracker_inv strategies t \<Longrightarrow> tracker_inv strategies t'"
  by (erule tracker_stepE) (simp_all add: tracker_inv_start tracker_inv_stop tracker_inv_loop)

lemma tracker_inv_reach:
  "(tracker_step strategies)\<^sup>*\<^sup>* (NewTracker stream scoreFeed) t \<Longrightarrow> tracker_inv strategies t"
  by (induction rule: rtranclp_induct) (auto intro: tracker_inv_init tracker_inv_step)

lemma tr_scoreFeed_step: "tracker_step strategies t t' \<Longrightarrow> tr_scoreFeed t' = tr_scoreFeed t"
  by (erule tracker_stepE) (auto simp: StartMatch_def StopMatch_def update_loop_def Let_def split: option.split)

lemma tr_scoreFeed_reach:
  "(tracker_step strategies)\<^sup>*\<^sup>* (NewTracker stream scoreFeed) t \<Longrightarrow> tr_scoreFeed t = scoreFeed"
  by (induction rule: rtranclp_induct) (auto simp: NewTracker_def tr_scoreFeed_step)

text \<open>
  One isolated loop per match. In every state of the running system the tracked events are
  distinct; with a score feed present, the feed polls exactly the tracked events; the loop of a
  tracked match has handled its events one at a time with a fresh handler over that match's markets,
  and its sink received exactly the intents of that sequential run, whatever the other matches do;
  and the loop of every stopped match is cancelled.
\<close>
theorem tracker_runs_isolated_loops:
  assumes "(tracker_step strategies)\<^sup>*\<^sup>* (NewTracker stream True) t"
  shows "distinct (ActiveEvents t) \<and> polled (tr_calls t) = set (ActiveEvents t) \<and>
    (\<forall>(ev, ml) \<in> set (tr_loops t). ml_event ml = ev \<and>
       run_handler multiHandler_OnEvent (lp_handled (ml_loop ml)) (new_handler ev (ml_markets ml) strategies) =
         Some (lp_handler (ml_loop ml), lp_sink (ml_loop ml))) \<and>
    (\<forall>ml \<in> set (tr_stopped t). lp_done (ml_loop ml))"
  using tracker_inv_reach [OF assms] tr_scoreFeed_reach [OF assms]
  by (auto simp: tracker_inv_def loop_ok_def loop_inv_def)

theorem tracker_runs_isolated_loops_witness:
  "polled (tr_calls (StartMatch ''EV'' [''A'', ''B''] buildStrategies 5 (NewTracker True True))) = {''EV''}"
proof -
  let ?t = "StartMatch ''EV'' [''A'', ''B''] buildStrategies 5 (NewTracker True True)"
  have "(tracker_step buildStrategies)\<^sup>*\<^sup>* (NewTracker True True) ?t"
    by (rule r_into_rtranclp) (rule tracker_step.start)
  from tracker_runs_isolated_loops [OF this] show ?thesis
    by (simp add: ActiveEvents_def StartMatch_def NewTracker_def)
qed

section \<open>The view follows the events\<close>

text \<open>The latest price update of a market in a sequence of events.\<close>

fun latest_quote :: "string \<Rightarrow> Event list \<Rightarrow> PriceUpdate option" where
  "latest_quote m [] = None"
| "latest_quote m (ev # evs) =
     (case latest_quote m evs of
        Some e \<Rightarrow> Some e
      | None \<Rightarrow> (case ev of EvPrice e \<Rightarrow> if pu_MarketTicker e = m then Some e else None | _ \<Rightarrow> None))"

definition view_after :: "Event list \<Rightarrow> MatchView \<Rightarrow> MatchView" where
  "view_after evs mv = fold updateView evs mv"

lemma multi_view:
  assumes "multiHandler_OnEvent ev h = Some (h', is)"
  shows "st_MatchView (mh_state h') = updateView ev (st_MatchView (mh_state h))"
proof -
  from assms obtain ss st2 where
    "dispatch (mh_strategies h) ev ((mh_state h)\<lparr>st_MatchView := updateView ev (st_MatchView (mh_state h))\<rparr>) = Some (ss, st2, is)"
    "mh_state h' = st2"
    by (auto simp: multiHandler_OnEvent_def Let_def split: option.split_asm)
  with dispatch_frame [OF this(1)] show ?thesis by simp
qed

lemma run_view:
  "run_handler multiHandler_OnEvent evs h = Some (h', calls) \<Longrightarrow>
     st_MatchView (mh_state h') = view_after evs (st_MatchView (mh_state h))"
proof (induction evs arbitrary: h calls)
  case (Cons ev evs)
  from Cons.prems obtain h1 is1 calls1 where
    s: "multiHandler_OnEvent ev h = Some (h1, is1)" "run_handler multiHandler_OnEvent evs h1 = Some (h', calls1)"
    by (auto split: option.split_asm if_split_asm)
  show ?case using Cons.IH [OF s(2)] multi_view [OF s(1)] by (simp add: view_after_def)
qed (simp add: view_after_def)

lemma view_quote:
  "mv_Prices (view_after evs mv) m = (case latest_quote m evs of Some e \<Rightarrow> Some (pu_PriceCents e) | None \<Rightarrow> mv_Prices mv m) \<and>
   mv_PriceTS (view_after evs mv) m = (case latest_quote m evs of Some e \<Rightarrow> Some (pu_TS e) | None \<Rightarrow> mv_PriceTS mv m)"
proof (induction evs arbitrary: mv)
  case (Cons ev evs)
  have "view_after (ev # evs) mv = view_after evs (updateView ev mv)" by (simp add: view_after_def)
  with Cons.IH [of "updateView ev mv"] show ?case
    by (cases ev) (auto simp: view_price_def view_point_def split: option.split)
qed (simp add: view_after_def)

lemma updateView_tickers [simp]: "mv_MarketTickers (updateView ev mv) = mv_MarketTickers mv"
  by (cases ev) (simp_all add: view_price_def view_point_def)

lemma view_after_tickers [simp]: "mv_MarketTickers (view_after evs mv) = mv_MarketTickers mv"
  unfolding view_after_def by (induction evs arbitrary: mv) simp_all

end
