(* ===== verification/StrategyEdges.thy ===== *)
theory StrategyEdges
  imports StrategyLaws
begin

text \<open>
  The economic guarantees of the strategies as the program configures them: a buy is priced below
  the estimated probability, a cross-side pair costs less than it pays, one-shot strategies fire
  once, and the score-driven triggers agree with the rules of tennis.
\<close>

section \<open>The strategies as configured\<close>

text \<open>The configured strategies; a pricing model may have filled its caches with correct values.\<close>

fun shipped :: "strategy \<Rightarrow> bool" where
  "shipped (SBreakPoint m) = memo_ok bpPServe (fsub (Fin 1) bpPServe) m"
| "shipped (SConvexPool c m) = (c = DefaultConvexPoolConfig \<and> memo_ok (cp_PServe c) (fsub (Fin 1) (cp_PServe c)) m)"
| "shipped (SFadeLongshot c) = (c = NewFadeLongshot)"
| "shipped (SNoFade c) = (c = NewNoFade)"
| "shipped (SServer1530 c) = (c = NewServer1530)"
| "shipped (SSpikeFade c) = (c = NewSpikeFade)"
| "shipped (STiebreakServer c) = (c = NewTiebreakServer)"
| "shipped (STiebreak c) = (c = NewTiebreak)"
| "shipped (SVolumeRatio c) = (c\<lparr>vr_Volumes := Map.empty\<rparr> = NewVolumeRatio)"
| "shipped (SCrossArb c) = (c = DefaultCrossArbConfig)"
| "shipped (SCrossArbFavorite c) = (c = DefaultCrossArbFavoriteConfig)"
| "shipped (SSurfaceMarkov c) = False"
| "shipped _ = True"

lemma shipped_build: "\<forall>s \<in> set buildStrategies. shipped s"
  by (simp add: buildStrategies_def memo_ok_new NewVolumeRatio_def)

lemma shipped_config: "shipped s \<Longrightarrow> config_ok s"
  by (cases s) (simp_all add: NewFadeLongshot_def NewNoFade_def NewServer1530_def NewTiebreak_def small_def)

lemma FairValue_memo:
  "memo_ok p (fsub (Fin 1) p) m \<Longrightarrow> memo_ok p (fsub (Fin 1) p) (snd (FairValue sH sA gH gA hp ap server tb m))"
  using WinProbability_computes [of p "fsub (Fin 1) p" m sH sA gH gA hp ap server tb]
  by (simp add: FairValue_def Let_def computes_def)

lemma shipped_step: "shipped s \<Longrightarrow> shipped (snd (own_OnEvent s ev mv v))"
proof (cases s)
  case (SBreakPoint m)
  assume "shipped s"
  with SBreakPoint have "memo_ok bpPServe (fsub (Fin 1) bpPServe) (snd (BreakPoint_OnEvent ev mv v m))"
    using FairValue_memo [of bpPServe m]
    by (cases ev) (auto simp: BreakPoint_onPoint_def Let_def case_prod_unfold split: option.split)
  with SBreakPoint show ?thesis by (simp add: case_prod_unfold Let_def)
next
  case (SConvexPool c m)
  assume "shipped s"
  with SConvexPool have "memo_ok (cp_PServe c) (fsub (Fin 1) (cp_PServe c)) (snd (ConvexPool_OnEvent c ev mv m))"
    using FairValue_memo [of "cp_PServe c" m]
    by (cases ev) (auto simp: ConvexPool_onPoint_def Let_def case_prod_unfold)
  with SConvexPool \<open>shipped s\<close> show ?thesis by (simp add: case_prod_unfold Let_def)
qed simp_all

section \<open>Buys have a positive edge\<close>

definition edge_ok :: "Intent \<Rightarrow> bool" where
  "edge_ok i \<longleftrightarrow> 0 < in_PriceCents i \<and> 100 * in_PriceCents i + 100 \<le> in_ConvProbBps i \<and> in_ConvProbBps i \<le> 10000"

definition priced :: "own_result \<Rightarrow> bool" where
  "priced r \<longleftrightarrow> all_res (\<lambda>w is. \<forall>i \<in> set is. in_Action i = ''sell'' \<or> edge_ok i) r"

lemma priced_simps [simp]:
  "priced None" "priced stay" "priced (keep v)"
  "priced (emit v is) \<longleftrightarrow> (\<forall>i \<in> set is. in_Action i = ''sell'' \<or> edge_ok i)"
  "priced (on_lifecycle e)" "priced (Option.bind x f) \<longleftrightarrow> (\<forall>y. x = Some y \<longrightarrow> priced (f y))"
  by (simp_all add: priced_def all_res_lifecycle)

lemma edge_ok_mk [simp]:
  "edge_ok (mk_intent m s a price prob r) \<longleftrightarrow> 0 < price \<and> 100 * price + 100 \<le> prob \<and> prob \<le> 10000"
  by (simp add: edge_ok_def)

lemma sdiv_100 [simp]:
  "9700 sdiv 100 = (97 :: int)" "9300 sdiv 100 = (93 :: int)" "8900 sdiv 100 = (89 :: int)" "8200 sdiv 100 = (82 :: int)"
  "5500 sdiv 100 = (55 :: int)" "3500 sdiv 100 = (35 :: int)" "6200 sdiv 100 = (62 :: int)" "6000 sdiv 100 = (60 :: int)"
  "5200 sdiv 100 = (52 :: int)" "9500 sdiv 100 = (95 :: int)"
  by (simp_all add: signed_divide_int_def)

lemma le_sdiv_100: "0 < n \<Longrightarrow> n \<le> c sdiv 100 \<Longrightarrow> 100 * n \<le> (c :: int)"
  by (cases "0 \<le> c") (auto simp: signed_divide_int_def sgn_if pos_imp_zdiv_nonneg_iff split: if_splits)

lemma priced_MatchPoint: "priced (MatchPoint_OnEvent ev mv v)"
  by (cases ev) (simp_all add: MatchPoint_onPoint_def mp_consts Let_def split: option.split)

lemma priced_SetPoint: "priced (SetPoint_OnEvent ev mv v)"
  by (cases ev) (simp_all add: SetPoint_onPoint_def sp_consts Let_def split: option.split)

lemma maybeSell_sells: "maybeSell s e mv = Some (s', is) \<Longrightarrow> i \<in> set is \<Longrightarrow> in_Action i = ''sell''"
  by (simp add: maybeSell_def Let_def split: if_split_asm option.split_asm) auto

lemma maybeBuy_priced: "maybeBuy s e mv = Some (s', is) \<Longrightarrow> i \<in> set is \<Longrightarrow> edge_ok i"
  by (simp add: maybeBuy_def ao_consts Let_def split: if_split_asm option.split_asm) auto

lemma priced_AdOut: "priced (AdOut_OnEvent ev mv v)"
  by (cases ev) (auto simp: AdOut_onPoint_def split: option.split intro: maybeSell_sells maybeBuy_priced)

lemma priced_BreakBack: "priced (BreakBack_OnEvent ev mv v)"
  by (cases ev) (simp_all add: BreakBack_onPoint_def BreakBack_onPrice_def bb_consts Let_def split: option.split)

lemma priced_BuyTheDip: "priced (BuyTheDip_OnEvent ev mv v)"
  by (cases ev) (simp_all add: BuyTheDip_onPrice_def BuyTheDip_checkEntry_def BuyTheDip_checkExit_def btd_consts Let_def
      split: option.split)

lemma priced_Comeback040: "priced (Comeback040_OnEvent ev mv v)"
  by (cases ev) (simp_all add: Comeback040_onPoint_def Comeback040_onPrice_def cb_consts Let_def split: option.split)

lemma dynamicConvProbBps_max: "dynamicConvProbBps fs p \<le> 9990"
  by (simp add: dynamicConvProbBps_def fl_consts Let_def)

lemma priced_FadeLongshot: "priced (FadeLongshot_OnEvent NewFadeLongshot ev mv v)"
proof -
  have "priced (FadeLongshot_checkEntry NewFadeLongshot mv fs now)" for fs now
  proof -
    have edge: "100 * p + 100 \<le> dynamicConvProbBps fs p" "dynamicConvProbBps fs p \<le> 10000"
      if "50 \<le> p" "1 \<le> dynamicConvProbBps fs p sdiv 100 - p" for p
      using le_sdiv_100 [of "p + 1" "dynamicConvProbBps fs p"] dynamicConvProbBps_max [of fs p] that by simp_all
    show ?thesis
      by (simp add: FadeLongshot_checkEntry_def NewFadeLongshot_def flMinEdgeCents_def Let_def not_less edge split: option.split)
  qed
  then show ?thesis
    by (cases ev) (simp_all add: FadeLongshot_onPoint_def FadeLongshot_onPrice_def Let_def split: option.split)
qed

lemma priced_NoFade: "priced (NoFade_OnEvent NewNoFade ev mv v)"
  by (cases ev) (simp_all add: NoFade_onPrice_def NewNoFade_def nfMinEdgeCents_def Let_def split: option.split)

lemma dip_positive:
  assumes "0 < prev" "(prev - cur) * 10000 sdiv prev \<le> 800"
  shows "0 < (cur :: int)"
proof (rule ccontr)
  assume "\<not> 0 < cur"
  then have "prev * 10000 \<le> (prev - cur) * 10000" by simp
  then have "prev * 10000 div prev \<le> (prev - cur) * 10000 div prev" using assms(1) by (intro zdiv_mono1) auto
  moreover have "(prev - cur) * 10000 sdiv prev = (prev - cur) * 10000 div prev"
    using assms(1) \<open>\<not> 0 < cur\<close> by (intro sdiv_pos) auto
  ultimately show False using assms by simp
qed

lemma priced_Server1530: "priced (Server1530_OnEvent NewServer1530 ev mv v)"
proof -
  have d: "0 < cur" if "0 < prev" "(prev * 10000 - cur * 10000) sdiv prev \<le> 800" for prev cur :: int
    using dip_positive [of prev cur] that by (simp add: left_diff_distrib)
  show ?thesis
    by (cases ev) (simp_all add: Server1530_onPrice_def Server1530_onPoint_def NewServer1530_def s1530MinEdgeCents_def Let_def
        not_less not_le d split: option.split)
qed

lemma priced_Set1Winner: "priced (Set1Winner_OnEvent ev mv v)"
  by (cases ev) (simp_all add: Set1Winner_onPoint_def s1w_consts Let_def split: option.split)

lemma priced_SetDown: "priced (SetDown_OnEvent ev mv v)"
  by (cases ev) (simp_all add: SetDown_onPoint_def SetDown_onPrice_def sd_consts Let_def split: option.split)

lemma priced_TiebreakServer: "priced (TiebreakServer_OnEvent NewTiebreakServer ev mv v)"
  by (cases ev) (simp_all add: TiebreakServer_onPoint_def NewTiebreakServer_def Let_def split: option.split)

lemma priced_Tiebreak: "priced (Tiebreak_OnEvent NewTiebreak ev mv v)"
  by (cases ev) (simp_all add: Tiebreak_onPoint_def Tiebreak_onPrice_def NewTiebreak_def Let_def split: option.split)

lemma priced_VolumeRatio:
  assumes "c\<lparr>vr_Volumes := Map.empty\<rparr> = NewVolumeRatio"
  shows "priced (VolumeRatio_OnEvent c ev mv v)"
proof -
  have "vr_MinPriceCents (c\<lparr>vr_Volumes := Map.empty\<rparr>) = vr_MinPriceCents NewVolumeRatio" by (simp only: assms)
  then have m: "vr_MinPriceCents c = 10" by (simp add: NewVolumeRatio_def)
  show ?thesis by (cases ev) (simp_all add: VolumeRatio_onPrice_def Let_def m split: option.split prod.split)
qed

text \<open>The quotes of the exchange are whole cents between 1 and 99.\<close>

definition quotes_ok :: "MatchView \<Rightarrow> bool" where
  "quotes_ok mv \<longleftrightarrow> (\<forall>m p. mv_Prices mv m = Some p \<longrightarrow> 1 \<le> p \<and> p \<le> 99)"

lemma priced_CrossArbFavorite:
  assumes "quotes_ok mv"
  shows "priced (CrossArbFavorite_OnEvent DefaultCrossArbFavoriteConfig ev mv v)"
proof -
  have q: "p \<le> 99" if "mv_Prices mv m = Some p" for m p using assms that by (auto simp: quotes_ok_def)
  show ?thesis
    by (cases ev) (auto simp: CrossArbFavorite_onPrice_def DefaultCrossArbFavoriteConfig_def Let_def split: option.split dest!: q)
qed

text \<open>
  \<open>int(fv*100)\<close> and \<open>int(fv*10000)\<close> are rounded separately: a fair value worth at least \<open>n\<close> cents is
  worth at least \<open>100 n - 50\<close> basis points.
\<close>

lemma to_int64_ge: "to_int64 (Fin x) \<ge> n \<longleftrightarrow> of_int n \<le> x" if "0 < n" "0 \<le> x" "x \<le> 10000"
proof -
  have "0 \<le> \<lfloor>x\<rfloor>" "\<lfloor>x\<rfloor> \<le> 10000" using that by (simp_all add: floor_le_iff)
  then show ?thesis using that by (simp add: trunc_rat_def int64_bounds le_floor_iff)
qed

lemma fmul_scale:
  assumes "0 \<le> y" "y \<le> 1" "0 \<le> k" "k \<le> (10000 :: int)"
  shows "fmul (Fin y) (Fin (of_int k)) = Fin (rnd (y * of_int k))" "0 \<le> rnd (y * of_int k)" "rnd (y * of_int k) \<le> of_int k"
proof -
  have b: "0 \<le> y * of_int k" "y * of_int k \<le> of_int k"
    using assms by (auto simp: mult_left_le_one_le)
  moreover have "(of_int k :: rat) \<le> 10000" using assms(4) of_int_le_iff [of k 10000, where ?'a = rat] by simp
  ultimately have "\<bar>y * of_int k\<bar> \<le> 2 ^ 64" by simp
  then show "fmul (Fin y) (Fin (of_int k)) = Fin (rnd (y * of_int k))" by (simp only: fmul.simps fround_small)
  show "0 \<le> rnd (y * of_int k)" using b(1) by (rule rnd_nonneg)
  have "rnd (of_int k) = of_int k" using assms by (intro rnd_of_int) auto
  with rnd_mono [OF b(2)] show "rnd (y * of_int k) \<le> of_int k" by simp
qed

lemma cents_vs_bps:
  assumes "unit_f fv" "0 < n" "n \<le> to_int64 (fmul fv (Fin 100))"
  shows "100 * n - 50 \<le> to_int64 (fmul fv (Fin 10000))" "to_int64 (fmul fv (Fin 10000)) \<le> 10000"
proof -
  obtain y where y: "fv = Fin y" "0 \<le> y" "y \<le> 1" using assms(1) by (auto elim: unit_fE)
  note c = fmul_scale [OF y(2,3), of 100, simplified] and b = fmul_scale [OF y(2,3), of 10000, simplified]
  have "of_int n \<le> rnd (y * 100)"
    using assms(2,3) to_int64_ge [of n "rnd (y * 100)"] c by (simp add: y(1))
  moreover have "rnd (of_int n - 1 / 2) = of_int n - 1 / 2" if "n \<le> 100"
    using rnd_exact [of "2 * n - 1" "-1"] assms(2) that by (simp add: power_int_def field_simps)
  moreover have "n \<le> 100"
    using calculation(1) c(3) of_int_le_iff [of n 100, where ?'a = rat] by simp
  ultimately have "\<not> y * 100 \<le> of_int n - 1 / 2"
    using rnd_mono [of "y * 100" "of_int n - 1 / 2"] by linarith
  then have "of_int (100 * n - 50) \<le> y * 10000" by simp
  then have "rnd (of_int (100 * n - 50)) \<le> rnd (y * 10000)" by (rule rnd_mono)
  moreover have "rnd (of_int (100 * n - 50)) = of_int (100 * n - 50)"
    using assms(2) \<open>n \<le> 100\<close> by (intro rnd_of_int) auto
  ultimately have "of_int (100 * n - 50) \<le> rnd (y * 10000)" by simp
  then show "100 * n - 50 \<le> to_int64 (fmul fv (Fin 10000))"
    using to_int64_ge [of "100 * n - 50" "rnd (y * 10000)"] b assms(2) by (simp add: y(1))
  show "to_int64 (fmul fv (Fin 10000)) \<le> 10000"
    using to_int64_ge [of 10001 "rnd (y * 10000)"] b by (simp add: y(1))
qed

lemma fmax_unit: "unit_f x \<Longrightarrow> unit_f y \<Longrightarrow> unit_f (fmax x y)" "unit_f x \<Longrightarrow> unit_f y \<Longrightarrow> unit_f (fmin x y)"
  by (auto simp: unit_f_def)

lemma FairValue_unit:
  assumes "serve_ok p" "memo_ok p (fsub (Fin 1) p) m"
  shows "unit_f (fst (FairValue sH sA gH gA hp ap server tb m))"
proof -
  have "unit_f (fst (WinProbability sH sA gH gA hp ap server tb m))"
    using WinProbability_computes [OF assms(2), of sH sA gH gA hp ap server tb] win_ref_unit [OF assms(1)]
    by (auto simp: computes_def)
  moreover have "unit_f (flit (1 / 100))" "unit_f (flit (99 / 100))"
    by (simp_all add: flit_def fround_unit1)
  ultimately show ?thesis
    by (simp add: FairValue_def Let_def fmax_unit)
qed

lemma serve_ok_64: "serve_ok (flit (64 / 100))"
proof -
  have "rnd (64 / 100) \<le> rnd (3 / 4)" "rnd (1 / 2) \<le> rnd (64 / 100)" by (rule rnd_mono, simp)+
  moreover have "rnd (3 / 4) = 3 / 4" using rnd_exact [of 3 "-2"] by (simp add: power_int_def power_divide)
  ultimately show ?thesis by (simp add: flit_def fround_small serve_ok_def rnd_half)
qed

lemma priced_BreakPoint:
  assumes "memo_ok bpPServe (fsub (Fin 1) bpPServe) m"
  shows "priced (fst (BreakPoint_OnEvent ev mv v m))"
proof (cases ev)
  case (EvPoint e)
  have u: "unit_f (fst (FairValue sH sA gH gA hp ap server tb m))" for sH sA gH gA hp ap server tb
    using FairValue_unit [OF _ assms] serve_ok_64 by (simp add: bpPServe_def)
  have edge: "100 * price + 100 \<le> to_int64 (fmul fv (Fin 10000)) \<and> to_int64 (fmul fv (Fin 10000)) \<le> 10000"
    if "unit_f fv" "5 \<le> price" "2 \<le> to_int64 (fmul fv (Fin 100)) - price" for fv price
    using cents_vs_bps [OF that(1), of "price + 2"] that(2,3) by simp
  show ?thesis
    by (simp add: EvPoint BreakPoint_onPoint_def bp_consts Let_def case_prod_unfold not_less edge u fsub_one_unit split: option.split)
qed simp_all

lemma ConvexPool_market_priced:
  assumes "unit_f fv" "ConvexPool_market DefaultConvexPoolConfig e mv mkt fv side = Some is" "i \<in> set is"
  shows "edge_ok i"
proof -
  have half: "flit (1 / 2) = Fin (1 / 2)" by (simp add: flit_def fround_small rnd_half)
  have "unit_f (Fin (1 / 2))" unfolding unit_f_def by (rule exI [of _ "1 / 2"]) (simp add: rnd_half)
  have price: "unit_f (fdiv (of_int64 price) (Fin 100))" if "5 \<le> price" "price \<le> 95" for price
  proof -
    have "of_int64 price = Fin (of_int price)" using that by (intro of_int64_exact) auto
    moreover have "(of_int price :: rat) \<le> of_int 95" using that(2) by (simp only: of_int_le_iff)
    ultimately show ?thesis using that by (simp add: fround_unit1)
  qed
  have edge: "100 * price + 100 \<le> to_int64 (fmul b (Fin 10000)) \<and> to_int64 (fmul b (Fin 10000)) \<le> 10000"
    if "b = convex_blend DefaultConvexPoolConfig fv price" "5 \<le> price" "price \<le> 95" "3 \<le> to_int64 (fmul b (Fin 100)) - price" for b price
  proof -
    have "unit_f b"
      unfolding that(1) convex_blend_def using price [OF that(2,3)] assms(1) \<open>unit_f (Fin (1 / 2))\<close>
      by (simp add: DefaultConvexPoolConfig_def half convex_unit)
    from cents_vs_bps [OF this, of "price + 3"] that show ?thesis by simp
  qed
  have c: "cp_MinEdgeCents DefaultConvexPoolConfig = 3" "cp_MinPriceCents DefaultConvexPoolConfig = 5"
    "cp_MaxPriceCents DefaultConvexPoolConfig = 95"
    by (simp_all add: DefaultConvexPoolConfig_def)
  from assms(2,3) show ?thesis
    unfolding ConvexPool_market_def Let_def c by (auto simp: edge split: if_split_asm option.split_asm)
qed

lemma ConvexPool_loop_priced:
  assumes "unit_f fvH" "unit_f fvA" "ConvexPool_loop DefaultConvexPoolConfig e mv fvH fvA k mkts = Some is" "i \<in> set is"
  shows "edge_ok i"
  using assms(3,4)
proof (induction mkts arbitrary: k "is")
  case (Cons m ms)
  show ?case
  proof (cases "1 < k")
    case False
    with Cons.prems(1) obtain xs ys where x:
      "ConvexPool_market DefaultConvexPoolConfig e mv m (if k = 1 then fvA else fvH) (if k = 1 then ''away'' else ''home'') = Some xs"
      "ConvexPool_loop DefaultConvexPoolConfig e mv fvH fvA (k + 1) ms = Some ys" "is = xs @ ys"
      by (auto split: if_split_asm)
    have "unit_f (if k = 1 then fvA else fvH)" using assms(1,2) by simp
    from ConvexPool_market_priced [OF this x(1)] Cons.IH [OF x(2)] Cons.prems(2) x(3) show ?thesis by auto
  qed (use Cons.prems in simp)
qed simp

lemma priced_ConvexPool:
  assumes "c = DefaultConvexPoolConfig" "memo_ok (cp_PServe c) (fsub (Fin 1) (cp_PServe c)) m"
  shows "priced (fst (ConvexPool_OnEvent c ev mv m))"
proof (cases ev)
  case (EvPoint e)
  have "serve_ok (cp_PServe c)" using serve_ok_64 by (simp add: assms(1) DefaultConvexPoolConfig_def)
  note u = FairValue_unit [OF this assms(2)]
  have "edge_ok i" if "fst (ConvexPool_onPoint c e mv m) = Some is" "i \<in> set is" for "is" i
    using that ConvexPool_loop_priced [OF u fsub_one_unit [OF u]]
    by (auto simp: assms(1) ConvexPool_onPoint_def Let_def case_prod_unfold split: if_split_asm)
  with EvPoint show ?thesis by (cases "ConvexPool_onPoint c e mv m") (simp add: priced_def)
qed simp_all

text \<open>The strategies that check their edge before they buy.\<close>

fun checks_edge :: "strategy \<Rightarrow> bool" where
  "checks_edge SCloseTimer = False"
| "checks_edge (SSpikeFade c) = False"
| "checks_edge (SCrossArb c) = False"
| "checks_edge _ = True"

lemma own_priced:
  assumes "shipped s" "checks_edge s" "quotes_ok mv"
  shows "priced (fst (own_OnEvent s ev mv v))"
proof (cases s)
  case (SBreakPoint m)
  then show ?thesis using assms priced_BreakPoint [of m ev mv v] by (simp add: case_prod_unfold Let_def)
next
  case (SConvexPool c m)
  have "c = DefaultConvexPoolConfig \<and> memo_ok (cp_PServe c) (fsub (Fin 1) (cp_PServe c)) m"
    using assms(1) unfolding SConvexPool shipped.simps .
  from priced_ConvexPool [OF conjunct1 conjunct2, OF this this] SConvexPool show ?thesis by (simp add: case_prod_unfold Let_def)
qed (use assms in \<open>auto intro: priced_MatchPoint priced_SetPoint priced_AdOut priced_BreakBack priced_BuyTheDip priced_Comeback040
      priced_FadeLongshot priced_NoFade priced_Server1530 priced_Set1Winner priced_SetDown priced_TiebreakServer priced_Tiebreak
      priced_VolumeRatio priced_CrossArbFavorite\<close>)

section \<open>Firing once\<close>

text \<open>The strategies with a fired flag; the cross-side ones never clear it.\<close>

fun fires_once :: "strategy \<Rightarrow> bool" where
  "fires_once SMatchPoint = False"
| "fires_once SSetPoint = False"
| "fires_once SAdOut = False"
| "fires_once (SBreakPoint m) = False"
| "fires_once SBuyTheDip = False"
| "fires_once (SConvexPool c m) = False"
| "fires_once _ = True"

definition spent :: "strategy \<Rightarrow> opaque \<Rightarrow> bool" where
  "spent s v = (case s of SCrossArb c \<Rightarrow> fired_flag v | SCrossArbFavorite c \<Rightarrow> fired_flag v | _ \<Rightarrow> fired_entry v)"

lemma own_one_shot: "fires_once s \<Longrightarrow> one_shot (spent s) (\<lambda>ev mv v. fst (own_OnEvent s ev mv v))"
  unfolding spent_def
  by (cases s) (simp_all add: one_shot_BreakBack one_shot_SetDown one_shot_Comeback040 one_shot_CloseTimer one_shot_FadeLongshot
      one_shot_NoFade one_shot_Server1530 one_shot_Set1Winner one_shot_SpikeFade one_shot_TiebreakServer one_shot_Tiebreak
      one_shot_VolumeRatio one_shot_CrossArb one_shot_CrossArbFavorite one_shot_SurfaceMarkov)

interpretation close_timer_once: one_shot fired_entry CloseTimer_OnEvent
  by (rule one_shot_CloseTimer)

interpretation cross_arb_once: one_shot fired_flag "CrossArb_OnEvent c" for c
  by (rule one_shot_CrossArb)

section \<open>The rules of tennis\<close>

text \<open>
  A running game by the number of points each player has won, and the score the feed reports for it:
  from three points each the score is deuce or advantage.
\<close>

definition game_over :: "nat \<Rightarrow> nat \<Rightarrow> bool" where
  "game_over a b \<longleftrightarrow> (a \<ge> 4 \<and> a \<ge> b + 2) \<or> (b \<ge> 4 \<and> b \<ge> a + 2)"

definition shown :: "nat \<Rightarrow> nat \<Rightarrow> string" where
  "shown a b = (if a \<ge> 3 \<and> b \<ge> 3 then (if a > b then ''A'' else ''40'') else [''0'', ''15'', ''30'', ''40''] ! a)"

text \<open>A set and a match that the player with the given scores completes by winning the current game.\<close>

definition wins_set :: "int \<Rightarrow> int \<Rightarrow> bool" where
  "wins_set own other \<longleftrightarrow> own + 1 \<ge> 6 \<and> own + 1 \<ge> other + 2"

lemma canWinGame_rules:
  assumes "\<not> game_over h a"
  shows "canWinGame (shown h a) (shown a h) server 1 \<longleftrightarrow> game_over (Suc h) a \<and> Suc h > a"
    and "canWinGame (shown h a) (shown a h) server 2 \<longleftrightarrow> game_over h (Suc a) \<and> Suc a > h"
proof -
  have "h < 3 \<and> a < 3 \<or> h = 3 \<and> a < 3 \<or> h < 3 \<and> a = 3 \<or> h \<ge> 3 \<and> a \<ge> 3 \<and> (h = a \<or> h = Suc a \<or> a = Suc h)"
    using assms by (auto simp: game_over_def)
  moreover have "h < 3 \<Longrightarrow> h = 0 \<or> h = 1 \<or> h = 2" "a < 3 \<Longrightarrow> a = 0 \<or> a = 1 \<or> a = 2" by auto
  ultimately show "canWinGame (shown h a) (shown a h) server 1 \<longleftrightarrow> game_over (Suc h) a \<and> Suc h > a"
    and "canWinGame (shown h a) (shown a h) server 2 \<longleftrightarrow> game_over h (Suc a) \<and> Suc a > h"
    by (elim disjE conjE; simp add: shown_def canWinGame_def normalizeScore_def game_over_def Let_def numeral_2_eq_2 numeral_3_eq_3)+
qed

end
