(* ===== verification/MatchSystem.thy ===== *)
theory MatchSystem
  imports StrategyEdges Tracker
begin

text \<open>
  What holds of a match as a whole: the handler of \<open>tracker.go\<close> with the strategies of \<open>main.go\<close>, over
  any sequence of events. The laws of the single strategies are lifted to the joint run through the
  step each strategy makes in it.
\<close>

section \<open>The step of one strategy in the joint run\<close>

definition entry_of :: "string \<Rightarrow> multiHandler \<Rightarrow> opaque" where
  "entry_of n h = State_Get n (mh_state h)"

definition by_name :: "string \<Rightarrow> Intent list \<Rightarrow> Intent list" where
  "by_name n is = filter (\<lambda>i. in_Strategy i = n) is"

lemma multi_own:
  assumes "multiHandler_OnEvent ev h = Some (h', is)" "distinct (map strategy_Name (mh_strategies h))"
    "k < length (mh_strategies h)" "s = mh_strategies h ! k" "n = strategy_Name s"
  obtains w where
    "own_OnEvent s ev (updateView ev (st_MatchView (mh_state h))) (entry_of n h) = (Some (w, by_name n is), mh_strategies h' ! k)"
    "entry_of n h' = (case w of None \<Rightarrow> entry_of n h | Some v \<Rightarrow> v)"
proof -
  let ?st = "(mh_state h)\<lparr>st_MatchView := updateView ev (st_MatchView (mh_state h))\<rparr>"
  have g: "State_Get n ?st = State_Get n (mh_state h)" by (simp add: State_Get_def)
  obtain stk' where k': "multiHandler_OnEvent ev \<lparr>mh_strategies = [s], mh_state = mh_state h\<rparr> =
      Some (\<lparr>mh_strategies = [mh_strategies h' ! k], mh_state = stk'\<rparr>, by_name n is)" "same_for n (mh_state h') stk'"
    using multi_single [OF assms(1,2,3), of n "mh_state h"] assms(4,5) by (auto simp: same_for_def by_name_def)
  then have "Strategy_OnEvent s ev ?st = Some (mh_strategies h' ! k, stk', by_name n is)"
    by (auto simp: multiHandler_OnEvent_def Let_def split: option.split_asm)
  then obtain w where w: "own_OnEvent s ev (updateView ev (st_MatchView (mh_state h))) (State_Get n ?st) = (Some (w, by_name n is), mh_strategies h' ! k)"
      "stk' = (case w of None \<Rightarrow> ?st | Some v \<Rightarrow> State_Set n v ?st)"
    by (auto simp: Strategy_OnEvent_eq assms(5) split: prod.split_asm option.split_asm)
  show thesis
  proof (rule that [of w])
    show "own_OnEvent s ev (updateView ev (st_MatchView (mh_state h))) (entry_of n h) = (Some (w, by_name n is), mh_strategies h' ! k)"
      using w(1) unfolding g entry_of_def .
    show "entry_of n h' = (case w of None \<Rightarrow> entry_of n h | Some v \<Rightarrow> v)"
      using k'(2) g by (simp add: entry_of_def same_for_def w(2) split: option.split)
  qed
qed

lemma multi_names:
  "multiHandler_OnEvent ev h = Some (h', is) \<Longrightarrow> map strategy_Name (mh_strategies h') = map strategy_Name (mh_strategies h)"
  by (auto simp: multiHandler_OnEvent_def Let_def split: option.split_asm dest: dispatch_frame)

lemma multi_signed:
  assumes "multiHandler_OnEvent ev h = Some (h', is)" "i \<in> set is"
  shows "in_Strategy i \<in> set (map strategy_Name (mh_strategies h))"
  using assms by (auto simp: multiHandler_OnEvent_def Let_def split: option.split_asm dest!: dispatch_frame)

text \<open>
  A law of one strategy, lifted: \<open>Q\<close> relates the strategy object and its entry to a summary \<open>a\<close> of the
  intents it has emitted so far, and each step keeps it.
\<close>

lemma run_own_induct:
  assumes "run_handler multiHandler_OnEvent evs h = Some (h', calls)"
    "distinct (map strategy_Name (mh_strategies h))" "k < length (mh_strategies h)"
    "n = strategy_Name (mh_strategies h ! k)"
    and step: "\<And>ev mv s v w is s' a. ev \<in> set evs \<Longrightarrow> Q s v a \<Longrightarrow> strategy_Name s = n \<Longrightarrow>
        own_OnEvent s ev mv v = (Some (w, is), s') \<Longrightarrow> Q s' (case w of None \<Rightarrow> v | Some v' \<Rightarrow> v') (a @ is)"
    and init: "Q (mh_strategies h ! k) (entry_of n h) a"
  shows "Q (mh_strategies h' ! k) (entry_of n h') (a @ by_name n (concat calls))"
  using assms
proof (induction evs arbitrary: h calls a)
  case (Cons ev evs)
  from Cons.prems(1) obtain h1 is1 calls1 where
    s: "multiHandler_OnEvent ev h = Some (h1, is1)" "run_handler multiHandler_OnEvent evs h1 = Some (h', calls1)"
       "concat calls = is1 @ concat calls1"
    by (auto split: option.split_asm if_split_asm)
  obtain w where w: "own_OnEvent (mh_strategies h ! k) ev (updateView ev (st_MatchView (mh_state h))) (entry_of n h) =
        (Some (w, by_name n is1), mh_strategies h1 ! k)" "entry_of n h1 = (case w of None \<Rightarrow> entry_of n h | Some v \<Rightarrow> v)"
    using multi_own [OF s(1) Cons.prems(2,3) refl Cons.prems(4)] .
  have q: "Q (mh_strategies h1 ! k) (entry_of n h1) (a @ by_name n is1)"
    using Cons.prems(5) [OF _ Cons.prems(6) Cons.prems(4) [symmetric] w(1)] w(2) by simp
  have names: "map strategy_Name (mh_strategies h1) = map strategy_Name (mh_strategies h)" by (rule multi_names [OF s(1)])
  then have l: "k < length (mh_strategies h1)" using Cons.prems(3) by (metis length_map)
  then have n1: "n = strategy_Name (mh_strategies h1 ! k)" using names Cons.prems(3,4) by (metis nth_map)
  have "Q (mh_strategies h' ! k) (entry_of n h') ((a @ by_name n is1) @ by_name n (concat calls1))"
    by (rule Cons.IH [OF s(2) _ l n1 _ q]) (use names Cons.prems(2) in simp, rule Cons.prems(5), simp_all)
  then show ?case by (simp add: s(3) by_name_def)
qed (simp add: by_name_def)

section \<open>The handler never panics\<close>

text \<open>As for a typed language: a well-formed handler makes a step (progress), and is well-formed after it (preservation).\<close>

definition slot_ok :: "State \<Rightarrow> strategy \<Rightarrow> bool" where
  "slot_ok st s \<longleftrightarrow> config_ok s \<and> entry_ok s (State_Get (strategy_Name s) st)"

definition handler_ok :: "multiHandler \<Rightarrow> bool" where
  "handler_ok h \<longleftrightarrow> distinct (map strategy_Name (mh_strategies h)) \<and> view_ok (st_MatchView (mh_state h)) \<and>
     (\<forall>s \<in> set (mh_strategies h). slot_ok (mh_state h) s)"

lemma own_object [simp]:
  "config_ok (snd (own_OnEvent s ev mv v)) = config_ok s" "entry_ok (snd (own_OnEvent s ev mv v)) v' = entry_ok s v'"
  by (cases s; simp add: case_prod_unfold Let_def)+

lemma Strategy_OnEvent_ok:
  assumes "slot_ok st s" "event_ok ev" "view_ok (st_MatchView st)"
  obtains s' st' "is" where "Strategy_OnEvent s ev st = Some (s', st', is)" "slot_ok st' s'"
proof -
  let ?r = "own_OnEvent s ev (st_MatchView st) (State_Get (strategy_Name s) st)"
  obtain w "is" where r: "fst ?r = Some (w, is)" "\<forall>v. w = Some v \<longrightarrow> entry_ok s v"
    using own_completes [of s ev "st_MatchView st" "State_Get (strategy_Name s) st"] assms
    by (auto simp: slot_ok_def completes_def)
  let ?st' = "case w of None \<Rightarrow> st | Some v \<Rightarrow> State_Set (strategy_Name s) v st"
  have "Strategy_OnEvent s ev st = Some (snd ?r, ?st', is)"
    using r(1) by (simp add: Strategy_OnEvent_eq case_prod_unfold)
  moreover have "slot_ok ?st' (snd ?r)"
    using assms(1) r(2) by (auto simp: slot_ok_def split: option.split)
  ultimately show thesis by (rule that)
qed

lemma slot_ok_frame:
  assumes "Strategy_OnEvent s ev st = Some (s', st', is)" "strategy_Name t \<noteq> strategy_Name s" "slot_ok st t"
  shows "slot_ok st' t"
  using Strategy_OnEvent_writes(2) [OF assms(1,2)] assms(3) by (simp add: slot_ok_def)

lemma dispatch_ok:
  assumes "distinct (map strategy_Name ss)" "event_ok ev" "view_ok (st_MatchView st)" "\<forall>s \<in> set ss. slot_ok st s"
  shows "\<exists>ss' st' is. dispatch ss ev st = Some (ss', st', is) \<and> (\<forall>s \<in> set ss'. slot_ok st' s)"
  using assms
proof (induction ss arbitrary: st)
  case (Cons s ss)
  obtain s1 st1 is1 where s: "Strategy_OnEvent s ev st = Some (s1, st1, is1)" "slot_ok st1 s1"
    using Strategy_OnEvent_ok [of st s ev] Cons.prems by auto
  note w = Strategy_OnEvent_writes [OF s(1)]
  have "\<forall>t \<in> set ss. slot_ok st1 t"
    using Cons.prems(1,4) slot_ok_frame [OF s(1)] by (auto simp: image_iff)
  then obtain ss2 st2 is2 where d: "dispatch ss ev st1 = Some (ss2, st2, is2)" "\<forall>t \<in> set ss2. slot_ok st2 t"
    using Cons.IH [of st1] Cons.prems w(1) by auto
  have "State_Get (strategy_Name s1) st2 = State_Get (strategy_Name s1) st1"
    using dispatch_frame [OF d(1)] Cons.prems(1) w(3) by simp
  then have "slot_ok st2 s1" using s(2) by (simp add: slot_ok_def)
  with s d show ?case by simp
qed simp

lemma view_ok_update: "event_ok ev \<Longrightarrow> view_ok mv \<Longrightarrow> view_ok (updateView ev mv)"
  by (cases ev) (auto simp: view_ok_def view_price_def view_point_def split: if_split_asm)

lemma handler_progress:
  assumes "handler_ok h" "event_ok ev"
  shows "\<exists>h' is. multiHandler_OnEvent ev h = Some (h', is) \<and> handler_ok h'"
proof -
  let ?st = "(mh_state h)\<lparr>st_MatchView := updateView ev (st_MatchView (mh_state h))\<rparr>"
  have v: "view_ok (st_MatchView ?st)" using assms view_ok_update by (simp add: handler_ok_def)
  have "distinct (map strategy_Name (mh_strategies h))" "\<forall>s \<in> set (mh_strategies h). slot_ok ?st s"
    using assms(1) by (simp_all add: handler_ok_def slot_ok_def State_Get_def)
  then obtain ss st' "is" where d: "dispatch (mh_strategies h) ev ?st = Some (ss, st', is)" "\<forall>s \<in> set ss. slot_ok st' s"
    using dispatch_ok [OF _ assms(2) v] by blast
  have "handler_ok \<lparr>mh_strategies = ss, mh_state = st'\<rparr>"
    using d dispatch_frame [OF d(1)] v assms(1) by (simp add: handler_ok_def)
  with d(1) show ?thesis by (simp add: multiHandler_OnEvent_def Let_def)
qed

lemma handler_runs:
  "handler_ok h \<Longrightarrow> list_all event_ok evs \<Longrightarrow> \<exists>h' calls. run_handler multiHandler_OnEvent evs h = Some (h', calls) \<and> handler_ok h'"
proof (induction evs arbitrary: h)
  case (Cons ev evs)
  from handler_progress [OF Cons.prems(1), of ev] Cons.prems(2) obtain h1 is1 where
    h1: "multiHandler_OnEvent ev h = Some (h1, is1)" "handler_ok h1" by auto
  from Cons.IH [OF h1(2)] Cons.prems(2) h1(1) show ?case by auto
qed simp

lemma entry_ok_nil [simp]: "entry_ok s ONil"
  by (cases s) (simp_all add: samples_ok_def)

lemma new_handler_ok:
  assumes "distinct (map strategy_Name ss)" "\<forall>s \<in> set ss. config_ok s"
  shows "handler_ok (new_handler ev mkts ss)"
  using assms by (simp add: handler_ok_def new_handler_def slot_ok_def new_view_def view_ok_def State_Get_def)

lemma buildStrategies_distinct: "distinct (map strategy_Name buildStrategies)"
  by (simp add: buildStrategies_def DefaultConvexPoolConfig_def DefaultCrossArbConfig_def DefaultCrossArbFavoriteConfig_def)



section \<open>Every buy has a positive edge\<close>

fun quote_event :: "Event \<Rightarrow> bool" where
  "quote_event (EvPrice e) = (1 \<le> pu_PriceCents e \<and> pu_PriceCents e \<le> 99)"
| "quote_event _ = True"

lemma quotes_update: "quote_event ev \<Longrightarrow> quotes_ok mv \<Longrightarrow> quotes_ok (updateView ev mv)"
  by (cases ev) (auto simp: quotes_ok_def view_price_def view_point_def split: if_split_asm)

definition shipped_handler :: "multiHandler \<Rightarrow> bool" where
  "shipped_handler h \<longleftrightarrow> distinct (map strategy_Name (mh_strategies h)) \<and> (\<forall>s \<in> set (mh_strategies h). shipped s) \<and>
     quotes_ok (st_MatchView (mh_state h))"

lemma multi_slot:
  assumes "multiHandler_OnEvent ev h = Some (h', is)" "distinct (map strategy_Name (mh_strategies h))" "k < length (mh_strategies h)"
  obtains w where "own_OnEvent (mh_strategies h ! k) ev (updateView ev (st_MatchView (mh_state h)))
      (entry_of (strategy_Name (mh_strategies h ! k)) h) = (Some (w, by_name (strategy_Name (mh_strategies h ! k)) is), mh_strategies h' ! k)"
  using multi_own [OF assms refl refl] by blast

lemma shipped_multi:
  assumes "multiHandler_OnEvent ev h = Some (h', is)" "shipped_handler h" "quote_event ev"
  shows "shipped_handler h'"
proof -
  have d: "distinct (map strategy_Name (mh_strategies h))" using assms(2) by (simp add: shipped_handler_def)
  note names = multi_names [OF assms(1)]
  then have len: "length (mh_strategies h') = length (mh_strategies h)" by (metis length_map)
  have "shipped (mh_strategies h' ! k)" if "k < length (mh_strategies h)" for k
  proof -
    have "shipped (mh_strategies h ! k)" using assms(2) that by (simp add: shipped_handler_def)
    then show ?thesis using multi_slot [OF assms(1) d that] shipped_step by (metis snd_conv)
  qed
  then have "\<forall>s \<in> set (mh_strategies h'). shipped s" by (metis in_set_conv_nth len)
  then show ?thesis
    using assms(2) names quotes_update [OF assms(3)] multi_view [OF assms(1)] by (simp add: shipped_handler_def)
qed

lemma multi_priced:
  assumes "multiHandler_OnEvent ev h = Some (h', is)" "shipped_handler h" "quote_event ev" "i \<in> set is"
    "in_Strategy i \<notin> {''close_timer'', ''spike-fade'', ''cross-arb''}" "in_Action i \<noteq> ''sell''"
  shows "edge_ok i"
proof -
  have d: "distinct (map strategy_Name (mh_strategies h))" using assms(2) by (simp add: shipped_handler_def)
  obtain k where k: "k < length (mh_strategies h)" "in_Strategy i = strategy_Name (mh_strategies h ! k)"
    using multi_signed [OF assms(1,4)] by (auto simp: in_set_conv_nth)
  let ?s = "mh_strategies h ! k"
  have s: "shipped ?s" using assms(2) k(1) by (simp add: shipped_handler_def)
  have "checks_edge ?s"
    using k(2) assms(5) s by (cases ?s) (simp_all add: DefaultCrossArbConfig_def)
  moreover have "quotes_ok (updateView ev (st_MatchView (mh_state h)))"
    using assms(2,3) quotes_update by (simp add: shipped_handler_def)
  ultimately have p: "priced (fst (own_OnEvent ?s ev (updateView ev (st_MatchView (mh_state h))) v))" for v
    using own_priced [OF s] by blast
  obtain w where "own_OnEvent ?s ev (updateView ev (st_MatchView (mh_state h))) (entry_of (strategy_Name ?s) h) =
      (Some (w, by_name (strategy_Name ?s) is), mh_strategies h' ! k)"
    using multi_slot [OF assms(1) d k(1)] .
  with p [of "entry_of (strategy_Name ?s) h"] have "\<forall>j \<in> set (by_name (strategy_Name ?s) is). in_Action j = ''sell'' \<or> edge_ok j"
    by (auto simp: priced_def all_res_def)
  then show ?thesis using assms(4,6) k(2) by (auto simp: by_name_def)
qed

lemma run_priced:
  "run_handler multiHandler_OnEvent evs h = Some (h', calls) \<Longrightarrow> shipped_handler h \<Longrightarrow> list_all quote_event evs \<Longrightarrow>
     i \<in> set (concat calls) \<Longrightarrow> in_Strategy i \<notin> {''close_timer'', ''spike-fade'', ''cross-arb''} \<Longrightarrow> in_Action i \<noteq> ''sell'' \<Longrightarrow> edge_ok i"
proof (induction evs arbitrary: h calls)
  case (Cons ev evs)
  from Cons.prems(1) obtain h1 is1 calls1 where
    s: "multiHandler_OnEvent ev h = Some (h1, is1)" "run_handler multiHandler_OnEvent evs h1 = Some (h', calls1)"
       "concat calls = is1 @ concat calls1"
    by (auto split: option.split_asm if_split_asm)
  have q: "quote_event ev" "list_all quote_event evs" using Cons.prems(3) by simp_all
  show ?case
  proof (cases "i \<in> set is1")
    case True
    then show ?thesis by (rule multi_priced [OF s(1) Cons.prems(2) q(1) _ Cons.prems(5,6)])
  next
    case False
    then have "i \<in> set (concat calls1)" using Cons.prems(4) s(3) by auto
    then show ?thesis by (rule Cons.IH [OF s(2) shipped_multi [OF s(1) Cons.prems(2) q(1)] q(2) _ Cons.prems(5,6)])
  qed
qed simp

lemma shipped_new: "shipped_handler (new_handler ev mkts buildStrategies)"
  using buildStrategies_distinct shipped_build
  by (simp add: shipped_handler_def new_handler_def new_view_def quotes_ok_def)


lemma demo_full_run:
  "\<exists>h calls. run_handler multiHandler_OnEvent demo_events (new_handler ''EV'' [''A'', ''B''] buildStrategies) = Some (h, calls) \<and>
     map in_Action (by_name ''cross-arb-favorite'' (concat calls)) = [''buy_no''] \<and>
     mh_strategies h = buildStrategies \<and> entry_of ''adout'' h = ONil"
  by (simp add: demo_events_def new_handler_def new_view_def multiHandler_OnEvent_def Let_def buildStrategies_def
      Strategy_OnEvent_eq view_price_def handler_defs DefaultCrossArbConfig_def
      DefaultCrossArbFavoriteConfig_def DefaultConvexPoolConfig_def State_Get_def State_Set_def stay_def emit_def keep_def is_stale_def
      caPriceStaleMS_def cafPriceStaleMS_def small_def mk_intent_def track_peak_def peakState_new_def NewServer1530_def
      NewTiebreak_def NewSpikeFade_def NewFadeLongshot_def NewNoFade_def NewVolumeRatio_def bb_consts btd_consts sd_consts
      window_samples_def by_name_def entry_of_def)


section \<open>One shot per match\<close>

lemma fires_once_object: "fires_once s \<Longrightarrow> snd (own_OnEvent s ev mv v) = s"
  by (cases s) simp_all

lemma run_own_run:
  assumes "run_handler multiHandler_OnEvent evs h = Some (h', calls)" "distinct (map strategy_Name (mh_strategies h))"
    "k < length (mh_strategies h)" "s = mh_strategies h ! k" "n = strategy_Name s" "fires_once s"
  shows "\<exists>xs outs. map fst xs = evs \<and>
    own_run (\<lambda>ev mv v. fst (own_OnEvent s ev mv v)) xs (entry_of n h) = Some (entry_of n h', outs) \<and>
    emissions outs = length (filter (\<lambda>c. by_name n c \<noteq> []) calls)"
  using assms
proof (induction evs arbitrary: h calls)
  case Nil
  then show ?case by (intro exI [of _ "[]"]) (simp add: emissions_def)
next
  case (Cons ev evs)
  from Cons.prems(1) obtain h1 is1 calls1 where
    r: "multiHandler_OnEvent ev h = Some (h1, is1)" "run_handler multiHandler_OnEvent evs h1 = Some (h', calls1)"
       "calls = (if is1 \<noteq> [] then is1 # calls1 else calls1)"
    by (auto split: option.split_asm if_split_asm)
  let ?mv = "updateView ev (st_MatchView (mh_state h))"
  obtain w where w: "own_OnEvent s ev ?mv (entry_of n h) = (Some (w, by_name n is1), mh_strategies h1 ! k)"
      "entry_of n h1 = (case w of None \<Rightarrow> entry_of n h | Some v \<Rightarrow> v)"
    using multi_own [OF r(1) Cons.prems(2,3,4,5)] .
  have s1: "s = mh_strategies h1 ! k" using fires_once_object [OF Cons.prems(6), of ev ?mv "entry_of n h"] w(1) by simp
  have names: "map strategy_Name (mh_strategies h1) = map strategy_Name (mh_strategies h)" by (rule multi_names [OF r(1)])
  then have l: "k < length (mh_strategies h1)" using Cons.prems(3) by (metis length_map)
  obtain xs outs where x: "map fst xs = evs" "own_run (\<lambda>ev mv v. fst (own_OnEvent s ev mv v)) xs (entry_of n h1) = Some (entry_of n h', outs)"
      "emissions outs = length (filter (\<lambda>c. by_name n c \<noteq> []) calls1)"
    using Cons.IH [OF r(2) _ l s1 Cons.prems(5,6)] names Cons.prems(2) by auto
  have "own_run (\<lambda>ev mv v. fst (own_OnEvent s ev mv v)) ((ev, ?mv) # xs) (entry_of n h) = Some (entry_of n h', by_name n is1 # outs)"
    using w x(2) by simp
  moreover have "emissions (by_name n is1 # outs) = length (filter (\<lambda>c. by_name n c \<noteq> []) calls)"
    using x(3) r(3) by (auto simp: emissions_def by_name_def)
  ultimately show ?case using x(1) by (intro exI [of _ "(ev, ?mv) # xs"] exI [of _ "by_name n is1 # outs"]) simp
qed

text \<open>
  C15. One shot per match. In any run without a settlement event, at most one event makes a strategy
  with a fired flag emit intents: break back, close timer, comeback, fade longshot, no fade, server
  at 15-30, first-set winner, set down, spike fade, both tiebreak strategies, volume ratio and the two
  cross-side strategies.
\<close>
theorem one_shot_strategies_fire_once:
  assumes "run_handler multiHandler_OnEvent evs (new_handler eventTicker marketTickers buildStrategies) = Some (h, calls)"
    and "s \<in> set buildStrategies" "fires_once s" "list_all (\<lambda>ev. \<not> ends_match ev) evs"
  shows "length (filter (\<lambda>c. by_name (strategy_Name s) c \<noteq> []) calls) \<le> 1"
proof -
  let ?h = "new_handler eventTicker marketTickers buildStrategies"
  obtain k where k: "k < length (mh_strategies ?h)" "s = mh_strategies ?h ! k"
    using assms(2) by (auto simp: new_handler_def in_set_conv_nth)
  obtain xs outs where x: "map fst xs = evs"
      "own_run (\<lambda>ev mv v. fst (own_OnEvent s ev mv v)) xs (entry_of (strategy_Name s) ?h) = Some (entry_of (strategy_Name s) h, outs)"
      "emissions outs = length (filter (\<lambda>c. by_name (strategy_Name s) c \<noteq> []) calls)"
    using run_own_run [OF assms(1) _ k refl assms(3)] buildStrategies_distinct by (auto simp: new_handler_def)
  have "list_all (\<lambda>(ev, mv). \<not> ends_match ev) xs"
    using assms(4) x(1) by (fastforce simp: list_all_iff)
  from one_shot.fires_at_most_once [OF own_one_shot [OF assms(3)] x(2) this] x(3) show ?thesis by simp
qed

theorem one_shot_strategies_fire_once_witness:
  "\<exists>h calls. run_handler multiHandler_OnEvent demo_events (new_handler ''EV'' [''A'', ''B''] buildStrategies) = Some (h, calls) \<and>
     length (filter (\<lambda>c. by_name ''setdown'' c \<noteq> []) calls) \<le> 1"
proof -
  obtain h calls where r:
      "run_handler multiHandler_OnEvent demo_events (new_handler ''EV'' [''A'', ''B''] buildStrategies) = Some (h, calls)"
    using demo_full_run by (elim exE conjE)
  have "SSetDown \<in> set buildStrategies" "fires_once SSetDown" "list_all (\<lambda>ev. \<not> ends_match ev) demo_events"
    by (simp_all add: buildStrategies_def demo_events_def)
  from one_shot_strategies_fire_once [OF r this] r show ?thesis by auto
qed

section \<open>No sale without a purchase\<close>

text \<open>The markets a strategy has bought and not yet sold, along its intents; \<open>None\<close>: it sold what it did not hold.\<close>

fun sells_covered :: "string set \<Rightarrow> Intent list \<Rightarrow> string set option" where
  "sells_covered P [] = Some P"
| "sells_covered P (i # is) =
     (if in_Action i = ''sell''
      then (if in_MarketTicker i \<in> P then sells_covered (P - {in_MarketTicker i}) is else None)
      else sells_covered (insert (in_MarketTicker i) P) is)"

lemma sells_covered_append:
  "sells_covered P (xs @ ys) = (case sells_covered P xs of None \<Rightarrow> None | Some P' \<Rightarrow> sells_covered P' ys)"
  by (induction P xs rule: sells_covered.induct) auto

lemma sells_covered_buys:
  "\<forall>i \<in> set is. in_Action i \<noteq> ''sell'' \<Longrightarrow> \<exists>P'. sells_covered P is = Some P' \<and> P \<subseteq> P'"
proof (induction P "is" rule: sells_covered.induct)
  case (2 P i "is")
  then show ?case by auto
qed simp

text \<open>What the entry of a strategy says it holds.\<close>

fun held :: "strategy \<Rightarrow> opaque \<Rightarrow> string set" where
  "held SAdOut (OAdOut s) = (if ao_open s then {ao_marketTicker s} else {})"
| "held SBuyTheDip (OBuyTheDip bs) = dom (bt_positions bs)"
| "held _ _ = {}"

definition covered :: "strategy \<Rightarrow> string set \<Rightarrow> own_result \<Rightarrow> bool" where
  "covered s P r \<longleftrightarrow> all_res (\<lambda>w is. \<exists>P'. sells_covered P is = Some P' \<and> (\<forall>v'. w = Some v' \<longrightarrow> held s v' \<subseteq> P') \<and> (w = None \<longrightarrow> P \<subseteq> P')) r"

lemma covered_simps [simp]:
  "covered s P None" "covered s P stay" "covered s P (keep v) \<longleftrightarrow> held s v \<subseteq> P"
  "covered s P (emit v is) \<longleftrightarrow> (\<exists>P'. sells_covered P is = Some P' \<and> held s v \<subseteq> P')"
  "covered s P (Option.bind x f) \<longleftrightarrow> (\<forall>y. x = Some y \<longrightarrow> covered s P (f y))"
  by (auto simp: covered_def)

lemma held_nil [simp]: "held s ONil = {}"
  by (cases s) simp_all

lemma covered_lifecycle [simp]: "covered s P (on_lifecycle e)"
  by (simp add: on_lifecycle_def)

lemma maybeSell_covered:
  assumes "maybeSell s e mv = Some (s', is)"
  shows "is = [] \<and> (s' = s \<or> \<not> ao_open s') \<or>
    \<not> ao_open s' \<and> ao_open s \<and> (\<exists>i. is = [i] \<and> in_Action i = ''sell'' \<and> in_MarketTicker i = ao_marketTicker s)"
  using assms by (auto simp: maybeSell_def Let_def split: if_split_asm option.split_asm)

lemma maybeBuy_covered:
  assumes "maybeBuy s e mv = Some (s', is)"
  shows "is = [] \<and> s' = s \<or> (\<exists>i. is = [i] \<and> in_Action i = ''buy'' \<and> in_MarketTicker i = ao_marketTicker s')"
  using assms by (simp add: maybeBuy_def Let_def split: if_split_asm option.split_asm) auto

lemma covered_AdOut: "held SAdOut v \<subseteq> P \<Longrightarrow> covered SAdOut P (AdOut_OnEvent ev mv v)"
proof (cases ev)
  case (EvPoint e)
  assume h: "held SAdOut v \<subseteq> P"
  have "covered SAdOut P (AdOut_onPoint e mv v)"
  proof (cases "AdOut_getOrCreateState v")
    case (Some s)
    then have s: "ao_open s \<Longrightarrow> ao_marketTicker s \<in> P" using h by (cases v) auto
    show ?thesis
    proof (cases "maybeSell s e mv")
      case (Some a)
      obtain s1 sell where a: "maybeSell s e mv = Some (s1, sell)" using Some by (cases a) auto
      show ?thesis
        using maybeSell_covered [OF a] maybeBuy_covered [of s1 e mv] s \<open>AdOut_getOrCreateState v = Some s\<close>
        by (auto simp: AdOut_onPoint_def a split: option.split)
    qed (simp add: AdOut_onPoint_def Some)
  qed (simp add: AdOut_onPoint_def)
  with EvPoint show ?thesis by simp
qed simp_all

lemma covered_BuyTheDip: "held SBuyTheDip v \<subseteq> P \<Longrightarrow> covered SBuyTheDip P (BuyTheDip_OnEvent ev mv v)"
proof (cases ev)
  case (EvPrice e)
  assume h: "held SBuyTheDip v \<subseteq> P"
  have "covered SBuyTheDip P (BuyTheDip_onPrice e mv v)"
  proof (cases "BuyTheDip_getOrCreateState v")
    case (Some bs)
    then have "dom (bt_positions bs) \<subseteq> P" using h by (cases v) auto
    then show ?thesis
      by (auto simp: BuyTheDip_onPrice_def Some BuyTheDip_checkEntry_def BuyTheDip_checkExit_def Let_def split: option.split)
  qed (simp add: BuyTheDip_onPrice_def)
  with EvPrice show ?thesis by simp
qed simp_all

lemma own_covered:
  assumes "held s v \<subseteq> P" "own_OnEvent s ev mv v = (Some (w, is), s')" "shipped s"
  shows "\<exists>P'. sells_covered P is = Some P' \<and> held s' (case w of None \<Rightarrow> v | Some v' \<Rightarrow> v') \<subseteq> P'"
proof (cases "s = SAdOut \<or> s = SBuyTheDip")
  case True
  then have "covered s P (Some (w, is))" "s' = s"
    using assms(1,2) covered_AdOut [of v P ev mv] covered_BuyTheDip [of v P ev mv] by auto
  then show ?thesis using assms(1) by (auto simp: covered_def all_res_def split: option.split)
next
  case False
  then have n: "strategy_Name s \<notin> {''adout'', ''buythedip''}"
    using assms(3) by (cases s) (auto simp: DefaultConvexPoolConfig_def DefaultCrossArbConfig_def DefaultCrossArbFavoriteConfig_def)
  have "\<forall>i \<in> set is. in_Action i \<noteq> ''sell''"
    using own_signed [of s ev mv v] n by (auto simp: assms(2) signed_def signature_def all_res_def)
  moreover have "held s' u = {}" for u
    using False assms(2) by (cases s) (auto simp: case_prod_unfold Let_def)
  ultimately show ?thesis using sells_covered_buys [of "is" P] by auto
qed

text \<open>
  C16. No strategy sells what it does not hold: along the intents of any one strategy in a match,
  every sale is of a market that strategy has bought before and has not sold since.
\<close>
theorem sales_are_covered:
  assumes "run_handler multiHandler_OnEvent evs (new_handler eventTicker marketTickers buildStrategies) = Some (h, calls)"
    and "s \<in> set buildStrategies"
  shows "\<exists>P. sells_covered {} (by_name (strategy_Name s) (concat calls)) = Some P"
proof -
  let ?h = "new_handler eventTicker marketTickers buildStrategies"
  let ?Q = "\<lambda>s v a. shipped s \<and> (\<exists>P. sells_covered {} a = Some P \<and> held s v \<subseteq> P)"
  obtain k where k: "k < length (mh_strategies ?h)" "s = mh_strategies ?h ! k"
    using assms(2) by (auto simp: new_handler_def in_set_conv_nth)
  have "?Q (mh_strategies h ! k) (entry_of (strategy_Name s) h) ([] @ by_name (strategy_Name s) (concat calls))"
  proof (rule run_own_induct [OF assms(1) _ k(1)])
    show "distinct (map strategy_Name (mh_strategies ?h))" using buildStrategies_distinct by (simp add: new_handler_def)
    have "shipped (mh_strategies ?h ! k)" using assms(2) shipped_build k(2) by metis
    then show "?Q (mh_strategies ?h ! k) (entry_of (strategy_Name s) ?h) []"
      by (simp add: entry_of_def new_handler_def State_Get_def)
  next
    fix ev mv s v w "is" s' a
    assume q: "?Q s v a" and own: "own_OnEvent s ev mv v = (Some (w, is), s')"
    have "shipped s'" using shipped_step [of s ev mv v] q own by simp
    moreover from q obtain P where "sells_covered {} a = Some P" "held s v \<subseteq> P" by blast
    ultimately show "?Q s' (case w of None \<Rightarrow> v | Some v' \<Rightarrow> v') (a @ is)"
      using own_covered [OF _ own] q by (auto simp: sells_covered_append)
  qed (simp add: k(2))
  then show ?thesis by auto
qed

theorem sales_are_covered_witness:
  "\<exists>h calls P. run_handler multiHandler_OnEvent demo_events (new_handler ''EV'' [''A'', ''B''] buildStrategies) = Some (h, calls) \<and>
     sells_covered {} (by_name ''adout'' (concat calls)) = Some P"
proof -
  obtain h calls where r:
      "run_handler multiHandler_OnEvent demo_events (new_handler ''EV'' [''A'', ''B''] buildStrategies) = Some (h, calls)"
    using demo_full_run by (elim exE conjE)
  have "SAdOut \<in> set buildStrategies" by (simp add: buildStrategies_def)
  from sales_are_covered [OF r this] r show ?thesis by auto
qed

section \<open>Point-driven trades use the latest quote\<close>

definition fresh :: "int \<Rightarrow> MatchView \<Rightarrow> Intent \<Rightarrow> bool" where
  "fresh now mv i \<longleftrightarrow> mv_Prices mv (in_MarketTicker i) = Some (in_PriceCents i) \<and>
     (\<exists>ts. mv_PriceTS mv (in_MarketTicker i) = Some ts \<and> now - ts \<le> 60000)"

definition fresh_res :: "int \<Rightarrow> MatchView \<Rightarrow> own_result \<Rightarrow> bool" where
  "fresh_res now mv r \<longleftrightarrow> all_res (\<lambda>w is. \<forall>i \<in> set is. fresh now mv i) r"

lemma fresh_res_simps [simp]:
  "fresh_res now mv None" "fresh_res now mv stay" "fresh_res now mv (keep v)"
  "fresh_res now mv (emit v is) \<longleftrightarrow> (\<forall>i \<in> set is. fresh now mv i)"
  "fresh_res now mv (Option.bind x f) \<longleftrightarrow> (\<forall>y. x = Some y \<longrightarrow> fresh_res now mv (f y))"
  by (simp_all add: fresh_res_def)

lemma fresh_mk [simp]:
  "fresh now mv (mk_intent m s a price prob r) \<longleftrightarrow> mv_Prices mv m = Some price \<and> (\<exists>ts. mv_PriceTS mv m = Some ts \<and> now - ts \<le> 60000)"
  by (simp add: fresh_def)

text \<open>The strategies that check the age of a quote when a point arrives.\<close>

definition checks_age :: "string \<Rightarrow> bool" where
  "checks_age n \<longleftrightarrow> n \<in> {''matchpoint'', ''setpoint'', ''adout'', ''breakback'', ''breakpoint'', ''convexpool''}"

lemma fresh_MatchPoint: "fresh_res (ps_TS e) mv (MatchPoint_onPoint e mv v)"
  by (simp add: MatchPoint_onPoint_def mp_consts Let_def split: option.split)

lemma fresh_SetPoint: "fresh_res (ps_TS e) mv (SetPoint_onPoint e mv v)"
  by (simp add: SetPoint_onPoint_def sp_consts Let_def split: option.split)

lemma fresh_maybe:
  "maybeSell s e mv = Some (s', is) \<Longrightarrow> i \<in> set is \<Longrightarrow> fresh (ps_TS e) mv i"
  "maybeBuy s e mv = Some (s', is) \<Longrightarrow> i \<in> set is \<Longrightarrow> fresh (ps_TS e) mv i"
  by (simp add: maybeSell_def maybeBuy_def ao_consts Let_def split: if_split_asm option.split_asm, auto)+

lemma fresh_AdOut: "fresh_res (ps_TS e) mv (AdOut_onPoint e mv v)"
  by (auto simp: AdOut_onPoint_def split: option.split intro: fresh_maybe)

lemma fresh_BreakBack: "fresh_res (ps_TS e) mv (BreakBack_onPoint e mv v)"
  by (simp add: BreakBack_onPoint_def bb_consts Let_def split: option.split)

lemma fresh_BreakPoint: "fresh_res (ps_TS e) mv (fst (BreakPoint_onPoint e mv v m))"
  by (simp add: BreakPoint_onPoint_def bp_consts Let_def case_prod_unfold split: option.split)

lemma fresh_ConvexPool_market: "ConvexPool_market c e mv mkt fv side = Some is \<Longrightarrow> i \<in> set is \<Longrightarrow> fresh (ps_TS e) mv i"
  unfolding ConvexPool_market_def Let_def cpPriceStaleMS_def by (auto split: if_split_asm option.split_asm)

lemma fresh_ConvexPool_loop:
  "ConvexPool_loop c e mv fvH fvA k mkts = Some is \<Longrightarrow> i \<in> set is \<Longrightarrow> fresh (ps_TS e) mv i"
proof (induction mkts arbitrary: k "is")
  case (Cons m ms)
  show ?case
  proof (cases "1 < k")
    case False
    with Cons.prems(1) obtain xs ys where x:
      "ConvexPool_market c e mv m (if k = 1 then fvA else fvH) (if k = 1 then ''away'' else ''home'') = Some xs"
      "ConvexPool_loop c e mv fvH fvA (k + 1) ms = Some ys" "is = xs @ ys"
      by (auto split: if_split_asm)
    show ?thesis using fresh_ConvexPool_market [OF x(1)] Cons.IH [OF x(2)] Cons.prems(2) x(3) by auto
  qed (use Cons.prems in simp)
qed simp

lemma fresh_ConvexPool: "fresh_res (ps_TS e) mv (fst (ConvexPool_OnEvent c (EvPoint e) mv m))"
proof -
  have "fresh (ps_TS e) mv i" if "fst (ConvexPool_onPoint c e mv m) = Some is" "i \<in> set is" for "is" i
    using that fresh_ConvexPool_loop by (auto simp: ConvexPool_onPoint_def Let_def case_prod_unfold split: if_split_asm)
  then show ?thesis by (cases "ConvexPool_onPoint c e mv m") (simp add: fresh_res_def)
qed

lemma own_fresh:
  assumes "shipped s" "checks_age (strategy_Name s)"
  shows "fresh_res (ps_TS e) mv (fst (own_OnEvent s (EvPoint e) mv v))"
proof (cases s)
  case (SBreakPoint m)
  then show ?thesis using fresh_BreakPoint [of e mv v m] by (simp add: case_prod_unfold Let_def)
next
  case (SConvexPool c m)
  then show ?thesis using fresh_ConvexPool [of e mv c m] by (simp add: case_prod_unfold Let_def)
qed (use assms in \<open>auto simp: checks_age_def fresh_MatchPoint fresh_SetPoint fresh_AdOut fresh_BreakBack
      DefaultCrossArbConfig_def DefaultCrossArbFavoriteConfig_def\<close>)

lemma shipped_run:
  "run_handler multiHandler_OnEvent evs h = Some (h', calls) \<Longrightarrow> list_all quote_event evs \<Longrightarrow> shipped_handler h \<Longrightarrow> shipped_handler h'"
proof (induction evs arbitrary: h calls)
  case (Cons ev evs)
  from Cons.prems(1) obtain h1 is1 calls1 where
    s: "multiHandler_OnEvent ev h = Some (h1, is1)" "run_handler multiHandler_OnEvent evs h1 = Some (h', calls1)"
    by (auto split: option.split_asm if_split_asm)
  show ?case using Cons.IH [OF s(2)] shipped_multi [OF s(1) Cons.prems(3)] Cons.prems(2) by simp
qed simp

lemma new_view_empty [simp]: "mv_Prices (new_view ev mkts) m = None" "mv_PriceTS (new_view ev mkts) m = None"
  by (simp_all add: new_view_def)

text \<open>
  Trades on a point use the latest quote, and a fresh one. When a point makes the match-point,
  set-point, ad-out, break-back, break-point or convex-pool strategy ask for an order, the limit price
  is the price of the latest quote received for that market in the whole history of the match, and
  that quote is at most sixty seconds older than the point.
\<close>
theorem point_trades_use_latest_quote:
  assumes "run_handler multiHandler_OnEvent evs (new_handler eventTicker marketTickers buildStrategies) = Some (h, calls)"
    and "list_all quote_event evs" "multiHandler_OnEvent (EvPoint e) h = Some (h', is)" "i \<in> set is" "checks_age (in_Strategy i)"
  shows "\<exists>q. latest_quote (in_MarketTicker i) evs = Some q \<and> in_PriceCents i = pu_PriceCents q \<and> ps_TS e - pu_TS q \<le> 60000"
proof -
  have sh: "shipped_handler h" by (rule shipped_run [OF assms(1,2) shipped_new])
  then have d: "distinct (map strategy_Name (mh_strategies h))" by (simp add: shipped_handler_def)
  obtain k where k: "k < length (mh_strategies h)" "in_Strategy i = strategy_Name (mh_strategies h ! k)"
    using multi_signed [OF assms(3,4)] by (auto simp: in_set_conv_nth)
  let ?s = "mh_strategies h ! k" and ?mv = "updateView (EvPoint e) (st_MatchView (mh_state h))"
  obtain w where w: "own_OnEvent ?s (EvPoint e) ?mv (entry_of (strategy_Name ?s) h) =
      (Some (w, by_name (strategy_Name ?s) is), mh_strategies h' ! k)"
    using multi_slot [OF assms(3) d k(1)] .
  have "shipped ?s" using sh k(1) by (simp add: shipped_handler_def)
  from own_fresh [OF this, of e ?mv "entry_of (strategy_Name ?s) h"] assms(4,5) k(2) w
  have f: "fresh (ps_TS e) ?mv i" by (auto simp: fresh_res_def all_res_def by_name_def)
  have "st_MatchView (mh_state h) = view_after evs (new_view eventTicker marketTickers)"
    using run_view [OF assms(1)] by (simp add: new_handler_def)
  then have "mv_Prices ?mv m = (case latest_quote m evs of Some q \<Rightarrow> Some (pu_PriceCents q) | None \<Rightarrow> None) \<and>
      mv_PriceTS ?mv m = (case latest_quote m evs of Some q \<Rightarrow> Some (pu_TS q) | None \<Rightarrow> None)" for m
    using view_quote [of evs "new_view eventTicker marketTickers" m] by (simp add: view_point_def split: option.split)
  with f show ?thesis by (auto simp: fresh_def split: option.split_asm)
qed

definition demo_point :: PointScored where
  "demo_point = \<lparr>ps_EventTicker = ''EV'', ps_Point = \<lparr>pt_EventTicker = ''EV'', pt_TS = 3000, pt_RecvTS = 3000, pt_SetNumber = 1,
     pt_GameNumber = 2, pt_PointNumber = 8, pt_Server = 1, pt_Scorer = 2, pt_HomePoints = ''40'', pt_AwayPoints = ''A'',
     pt_HomeGames = 1, pt_AwayGames = 0, pt_HomeSetGames = 0, pt_AwaySetGames = 0, pt_IsTiebreak = False, pt_IsBreakPoint = True,
     pt_IsSetPoint = False, pt_IsMatchPoint = False\<rparr>, ps_TS = 3000\<rparr>"

lemma demo_adout:
  "map in_PriceCents (case fst (own_OnEvent SAdOut (EvPoint demo_point)
      (updateView (EvPoint demo_point) (view_after demo_events (new_view ''EV'' [''A'', ''B'']))) ONil) of Some (w, is) \<Rightarrow> is | None \<Rightarrow> []) = [40]"
  by (simp add: demo_point_def demo_events_def view_after_def view_price_def view_point_def new_view_def AdOut_onPoint_def
      maybeSell_def maybeBuy_def ao_consts Let_def small_def emit_def)

theorem point_trades_use_latest_quote_witness:
  "\<exists>i :: Intent. in_Strategy i = ''adout'' \<and> (\<exists>q. latest_quote (in_MarketTicker i) demo_events = Some q \<and> in_PriceCents i = pu_PriceCents q)"
proof -
  obtain h calls where r:
      "run_handler multiHandler_OnEvent demo_events (new_handler ''EV'' [''A'', ''B''] buildStrategies) = Some (h, calls)"
      "mh_strategies h = buildStrategies" "entry_of ''adout'' h = ONil"
    using demo_full_run by (elim exE conjE)
  have "list_all event_ok demo_events" "\<forall>s \<in> set buildStrategies. config_ok s"
    using shipped_build shipped_config by (auto simp: demo_events_def cents_ok_def)
  then have "handler_ok h"
    using handler_runs [OF new_handler_ok [OF buildStrategies_distinct, of "''EV''" "[''A'', ''B'']"], of demo_events] r(1) by auto
  then obtain h' "is" where m: "multiHandler_OnEvent (EvPoint demo_point) h = Some (h', is)"
    using handler_progress [of h "EvPoint demo_point"] by (auto simp: demo_point_def small_def)
  have k: "1 < length (mh_strategies h)" "SAdOut = mh_strategies h ! 1" by (simp_all add: r(2) buildStrategies_def)
  have v: "st_MatchView (mh_state h) = view_after demo_events (new_view ''EV'' [''A'', ''B''])"
    using run_view [OF r(1)] by (simp add: new_handler_def)
  obtain w where "own_OnEvent SAdOut (EvPoint demo_point) (updateView (EvPoint demo_point) (st_MatchView (mh_state h))) (entry_of ''adout'' h) =
      (Some (w, by_name ''adout'' is), mh_strategies h' ! 1)"
    using multi_own [OF m _ k, of "''adout''"] buildStrategies_distinct r(2) by auto
  then have "map in_PriceCents (by_name ''adout'' is) = [40]" using demo_adout by (simp add: v r(3) del: own_OnEvent.simps)
  then obtain i where "i \<in> set (by_name ''adout'' is)" by (cases "by_name ''adout'' is") auto
  then have i: "i \<in> set is" "in_Strategy i = ''adout''" by (simp_all add: by_name_def)
  have "list_all quote_event demo_events" by (simp add: demo_events_def)
  from point_trades_use_latest_quote [OF r(1) this m i(1)] i(2) show ?thesis by (auto simp: checks_age_def)
qed

section \<open>Cross-side pairs\<close>

text \<open>
  C17. A cross-side pair locks in a profit. When \<open>CrossArb\<close> trades, it buys the same side (yes or no)
  of both markets of the match, at positive prices when quotes are in range, and the two prices
  together are at most 100 cents less the configured edge: whichever player wins, exactly one of the
  two contracts pays 100 cents.
\<close>
theorem crossarb_pair_locks_profit:
  assumes "CrossArb_onPrice cfg e mv v = Some (w, is)" "is \<noteq> []" "quotes_ok mv"
  shows "\<exists>a b. is = [a, b] \<and> in_MarketTicker a = mv_MarketTickers mv ! 0 \<and> in_MarketTicker b = mv_MarketTickers mv ! 1 \<and>
    in_Action a = in_Action b \<and> in_Action a \<in> {''buy'', ''buy_no''} \<and>
    0 < in_PriceCents a \<and> 0 < in_PriceCents b \<and> in_PriceCents a + in_PriceCents b \<le> 100 - ca_MinEdgeCents cfg \<and>
    w = Some (OBool True)"
proof -
  have q: "p \<le> 99" if "mv_Prices mv m = Some p" for m p using assms(3) that by (auto simp: quotes_ok_def)
  have "all_res (\<lambda>w is. is = [] \<or> (\<exists>a b. is = [a, b] \<and> in_MarketTicker a = mv_MarketTickers mv ! 0 \<and>
      in_MarketTicker b = mv_MarketTickers mv ! 1 \<and> in_Action a = in_Action b \<and> in_Action a \<in> {''buy'', ''buy_no''} \<and>
      0 < in_PriceCents a \<and> 0 < in_PriceCents b \<and> in_PriceCents a + in_PriceCents b \<le> 100 - ca_MinEdgeCents cfg \<and>
      w = Some (OBool True))) (CrossArb_onPrice cfg e mv v)"
    by (auto simp: CrossArb_onPrice_def Let_def split: option.split dest!: q)
  from all_resD [OF this assms(1)] assms(2) show ?thesis by auto
qed

theorem crossarb_pair_locks_profit_witness:
  "\<exists>(a :: Intent) (b :: Intent). in_PriceCents a + in_PriceCents b \<le> 98 \<and> in_Action a = in_Action b"
proof -
  let ?mv = "view_after demo_events (new_view ''EV'' [''A'', ''B''])"
    and ?e = "\<lparr>pu_MarketTicker = ''B'', pu_PriceCents = 40, pu_TS = 2000\<rparr>"
  have "quotes_ok ?mv"
    by (auto simp: quotes_ok_def demo_events_def view_after_def view_price_def new_view_def split: if_split_asm)
  moreover obtain w "is" where "CrossArb_onPrice DefaultCrossArbConfig ?e ?mv ONil = Some (w, is)" "is \<noteq> []"
    by (simp add: CrossArb_onPrice_def DefaultCrossArbConfig_def demo_events_def view_after_def view_price_def new_view_def
        is_stale_def caPriceStaleMS_def Let_def small_def emit_def)
  ultimately obtain a :: Intent and b :: Intent where "in_PriceCents a + in_PriceCents b \<le> 100 - ca_MinEdgeCents DefaultCrossArbConfig" "in_Action a = in_Action b"
    using crossarb_pair_locks_profit [of DefaultCrossArbConfig ?e ?mv ONil w "is"] by auto
  then show ?thesis by (auto simp: DefaultCrossArbConfig_def)
qed

section \<open>Match points\<close>



section \<open>A point is acted on once\<close>

fun seen_entry :: "string \<Rightarrow> opaque \<Rightarrow> bool" where
  "seen_entry key (OMatchPoint ms) = lookupF (ms_seenPoints ms) key"
| "seen_entry key (OSetPoint ms) = lookupF (ms_seenPoints ms) key"
| "seen_entry key _ = False"

definition point_key_of :: "PointScored \<Rightarrow> string option" where
  "point_key_of e = pointKeyStr (pt_SetNumber (ps_Point e)) (pt_GameNumber (ps_Point e)) (pt_PointNumber (ps_Point e))"

lemma updateMatchState_seen [simp]:
  "ms_seenPoints (MatchPoint_updateMatchState ms p) = ms_seenPoints ms" "ms_seenPoints (SetPoint_updateMatchState ms p) = ms_seenPoints ms"
  by (simp_all add: MatchPoint_updateMatchState_def SetPoint_updateMatchState_def Let_def)

text \<open>After a point its key is in the entry, a key stays there until settlement, and a point whose key is there is ignored.\<close>

definition dedup_res :: "string set \<Rightarrow> string option \<Rightarrow> own_result \<Rightarrow> bool" where
  "dedup_res S key r \<longleftrightarrow> all_res (\<lambda>w is. \<exists>v'. w = Some v' \<and> (\<forall>k. k \<in> S \<or> Some k = key \<longrightarrow> seen_entry k v') \<and>
     (\<forall>k \<in> S. Some k = key \<longrightarrow> is = [])) r"

lemma dedup_simps [simp]:
  "dedup_res S key None"
  "dedup_res S key (keep v) \<longleftrightarrow> (\<forall>k. k \<in> S \<or> Some k = key \<longrightarrow> seen_entry k v)"
  "dedup_res S key (emit v is) \<longleftrightarrow> (\<forall>k. k \<in> S \<or> Some k = key \<longrightarrow> seen_entry k v) \<and> (\<forall>k \<in> S. Some k = key \<longrightarrow> is = [])"
  by (auto simp: dedup_res_def)

lemma dedup_MatchPoint: "dedup_res {k. seen_entry k v} (point_key_of e) (MatchPoint_onPoint e mv v)"
proof (cases "MatchPoint_getOrCreateState v")
  case (Some ms)
  then have seen: "seen_entry k v = lookupF (ms_seenPoints ms) k" for k
    by (cases v) (auto simp: matchpointState_new_def)
  let ?ms = "MatchPoint_updateMatchState ms (ps_Point e)"
  show ?thesis
  proof (cases "point_key_of e")
    case None
    with Some show ?thesis by (simp add: MatchPoint_onPoint_def point_key_of_def)
  next
    case (Some key)
    let ?v = "OMatchPoint (?ms\<lparr>ms_seenPoints := (ms_seenPoints ?ms)(key \<mapsto> True)\<rparr>)"
    have K: "dedup_res {k. seen_entry k v} (Some key) (keep ?v)"
        "\<not> lookupF (ms_seenPoints ms) key \<Longrightarrow> dedup_res {k. seen_entry k v} (Some key) (emit ?v is)" for "is"
      by (auto simp: seen lookupF_def)
    have "dedup_res {k. seen_entry k v} (Some key) (keep (OMatchPoint ?ms))" if "lookupF (ms_seenPoints ms) key"
      using that by (auto simp: seen)
    with \<open>MatchPoint_getOrCreateState v = Some ms\<close> Some K show ?thesis
      by (simp add: MatchPoint_onPoint_def Let_def point_key_of_def del: dedup_simps(2,3) split: option.split)
  qed
qed (simp add: MatchPoint_onPoint_def)

lemma dedup_SetPoint: "dedup_res {k. seen_entry k v} (point_key_of e) (SetPoint_onPoint e mv v)"
proof (cases "SetPoint_getOrCreateState v")
  case (Some ms)
  then have seen: "seen_entry k v = lookupF (ms_seenPoints ms) k" for k
    by (cases v) (auto simp: matchpointState_new_def)
  let ?ms = "SetPoint_updateMatchState ms (ps_Point e)"
  show ?thesis
  proof (cases "point_key_of e")
    case None
    with Some show ?thesis by (simp add: SetPoint_onPoint_def point_key_of_def)
  next
    case (Some key)
    let ?v = "OSetPoint (?ms\<lparr>ms_seenPoints := (ms_seenPoints ?ms)(key \<mapsto> True)\<rparr>)"
    have K: "dedup_res {k. seen_entry k v} (Some key) (keep ?v)"
        "\<not> lookupF (ms_seenPoints ms) key \<Longrightarrow> dedup_res {k. seen_entry k v} (Some key) (emit ?v is)" for "is"
      by (auto simp: seen lookupF_def)
    have "dedup_res {k. seen_entry k v} (Some key) (keep (OSetPoint ?ms))" if "lookupF (ms_seenPoints ms) key"
      using that by (auto simp: seen)
    with \<open>SetPoint_getOrCreateState v = Some ms\<close> Some K show ?thesis
      by (simp add: SetPoint_onPoint_def Let_def point_key_of_def del: dedup_simps(2,3) split: option.split)
  qed
qed (simp add: SetPoint_onPoint_def)

definition dedups :: "strategy \<Rightarrow> bool" where
  "dedups s \<longleftrightarrow> s = SMatchPoint \<or> s = SSetPoint"

lemma own_dedup:
  assumes "dedups s" "own_OnEvent s (EvPoint e) mv v = (Some (w, is), s')"
  obtains v' where "w = Some v'" "\<And>k. seen_entry k v \<or> Some k = point_key_of e \<Longrightarrow> seen_entry k v'"
    "\<And>k. seen_entry k v \<Longrightarrow> Some k = point_key_of e \<Longrightarrow> is = []"
proof -
  have "dedup_res {k. seen_entry k v} (point_key_of e) (Some (w, is))"
    using assms dedup_MatchPoint [of v e mv] dedup_SetPoint [of v e mv] by (auto simp: dedups_def)
  then show thesis using that by (auto simp: dedup_res_def all_res_def)
qed

lemma own_keeps_seen:
  assumes "dedups s" "own_OnEvent s ev mv v = (Some (w, is), s')" "\<not> ends_match ev" "seen_entry k v"
  shows "seen_entry k (case w of None \<Rightarrow> v | Some v' \<Rightarrow> v')" "dedups s'"
proof -
  show "seen_entry k (case w of None \<Rightarrow> v | Some v' \<Rightarrow> v')"
  proof (cases ev)
    case (EvPoint e)
    obtain v' where "w = Some v'" "seen_entry k v'"
      using own_dedup [OF assms(1) assms(2) [unfolded EvPoint]] assms(4) by metis
    then show ?thesis by simp
  qed (use assms in \<open>auto simp: dedups_def stay_def on_lifecycle_def\<close>)
  show "dedups s'" using assms(1,2) by (auto simp: dedups_def)
qed

lemma run_names:
  "run_handler multiHandler_OnEvent evs h = Some (h', calls) \<Longrightarrow> map strategy_Name (mh_strategies h') = map strategy_Name (mh_strategies h)"
proof (induction evs arbitrary: h calls)
  case (Cons ev evs)
  from Cons.prems obtain h1 is1 calls1 where
    "multiHandler_OnEvent ev h = Some (h1, is1)" "run_handler multiHandler_OnEvent evs h1 = Some (h', calls1)"
    by (auto split: option.split_asm if_split_asm)
  with Cons.IH multi_names show ?case by metis
qed simp

lemma names_nth:
  assumes "map strategy_Name ss' = map strategy_Name ss" "k < length ss"
  shows "k < length ss'" "strategy_Name (ss' ! k) = strategy_Name (ss ! k)"
  using assms by (metis length_map, metis length_map nth_map)

lemma first_delivery:
  assumes "multiHandler_OnEvent (EvPoint e) h = Some (h', is)" "distinct (map strategy_Name (mh_strategies h))"
    "k < length (mh_strategies h)" "mh_strategies h ! k = s" "dedups s"
  obtains key where "point_key_of e = Some key" "seen_entry key (entry_of (strategy_Name s) h')" "mh_strategies h' ! k = s"
proof -
  obtain w where w: "own_OnEvent s (EvPoint e) (updateView (EvPoint e) (st_MatchView (mh_state h))) (entry_of (strategy_Name s) h) =
      (Some (w, by_name (strategy_Name s) is), mh_strategies h' ! k)"
      "entry_of (strategy_Name s) h' = (case w of None \<Rightarrow> entry_of (strategy_Name s) h | Some v \<Rightarrow> v)"
    using multi_own [OF assms(1-3) assms(4) [symmetric] refl] .
  obtain key where key: "point_key_of e = Some key"
    using w(1) assms(5)
    by (cases "point_key_of e") (auto simp: dedups_def point_key_of_def MatchPoint_onPoint_def SetPoint_onPoint_def split: option.split_asm)
  moreover have "seen_entry key (entry_of (strategy_Name s) h')"
    using own_dedup [OF assms(5) w(1)] w(2) key by (metis option.simps(5))
  moreover have "mh_strategies h' ! k = s" using w(1) assms(5) by (auto simp: dedups_def)
  ultimately show thesis by (rule that)
qed

text \<open>
  A point is acted on once. If a match has handled a point, then, until a settlement, every
  later delivery of a point with the same set, game and point number leaves the match-point and
  set-point strategies silent, whatever happened in between.
\<close>
theorem points_are_acted_on_once:
  assumes "multiHandler_OnEvent (EvPoint e1) h = Some (h0, is0)" "run_handler multiHandler_OnEvent evs h0 = Some (h1, calls)"
    and "multiHandler_OnEvent (EvPoint e2) h1 = Some (h2, is)" "list_all (\<lambda>ev. \<not> ends_match ev) evs"
    and "distinct (map strategy_Name (mh_strategies h))" "s \<in> set (mh_strategies h)" "s = SMatchPoint \<or> s = SSetPoint"
    and "pt_SetNumber (ps_Point e1) = pt_SetNumber (ps_Point e2)" "pt_GameNumber (ps_Point e1) = pt_GameNumber (ps_Point e2)"
    and "pt_PointNumber (ps_Point e1) = pt_PointNumber (ps_Point e2)"
  shows "by_name (strategy_Name s) is = []"
proof -
  let ?n = "strategy_Name s"
  obtain k where k: "k < length (mh_strategies h)" "mh_strategies h ! k = s" using assms(6) by (auto simp: in_set_conv_nth)
  have ds: "dedups s" using assms(7) by (simp add: dedups_def)
  obtain key where key: "point_key_of e1 = Some key" "seen_entry key (entry_of ?n h0)" "mh_strategies h0 ! k = s"
    using first_delivery [OF assms(1,5) k ds] .
  note n0 = multi_names [OF assms(1)] and n1 = run_names [OF assms(2)]
  note l0 = names_nth [OF n0 k(1)] and l1 = names_nth [OF n1 names_nth(1) [OF n0 k(1)]]
  have d0: "distinct (map strategy_Name (mh_strategies h0))" "distinct (map strategy_Name (mh_strategies h1))"
    using assms(5) n0 n1 by simp_all
  have q: "dedups (mh_strategies h1 ! k) \<and> seen_entry key (entry_of ?n h1)"
  proof (rule run_own_induct [OF assms(2) d0(1) l0(1), where Q = "\<lambda>s v a. dedups s \<and> seen_entry key v" and a = "[]"])
    show "?n = strategy_Name (mh_strategies h0 ! k)" by (simp add: key(3))
    show "dedups (mh_strategies h0 ! k) \<and> seen_entry key (entry_of ?n h0)" using key ds by simp
  qed (use own_keeps_seen assms(4) in \<open>auto simp: list_all_iff\<close>)
  obtain w where w: "own_OnEvent (mh_strategies h1 ! k) (EvPoint e2) (updateView (EvPoint e2) (st_MatchView (mh_state h1))) (entry_of ?n h1) =
      (Some (w, by_name ?n is), mh_strategies h2 ! k)"
    using multi_slot [OF assms(3) d0(2) l1(1)] l1(2) key(3) by auto
  have "Some key = point_key_of e2" using key(1) assms(8-10) by (simp add: point_key_of_def)
  with own_dedup [OF conjunct1 [OF q] w] q show ?thesis by metis
qed

theorem points_are_acted_on_once_witness:
  "\<exists>h0 is0 h2 is. multiHandler_OnEvent (EvPoint demo_point) (new_handler ''EV'' [''A'', ''B''] buildStrategies) = Some (h0, is0) \<and>
     multiHandler_OnEvent (EvPoint demo_point) h0 = Some (h2, is) \<and> by_name ''matchpoint'' is = []"
proof -
  let ?h = "new_handler ''EV'' [''A'', ''B''] buildStrategies"
  have ok: "event_ok (EvPoint demo_point)" by (simp add: demo_point_def small_def)
  have "\<forall>s \<in> set buildStrategies. config_ok s" using shipped_build shipped_config by auto
  then obtain h0 is0 where h0: "multiHandler_OnEvent (EvPoint demo_point) ?h = Some (h0, is0)" "handler_ok h0"
    using handler_progress [OF new_handler_ok [OF buildStrategies_distinct] ok] by blast
  obtain h2 "is" where h2: "multiHandler_OnEvent (EvPoint demo_point) h0 = Some (h2, is)"
    using handler_progress [OF h0(2) ok] by blast
  have "distinct (map strategy_Name (mh_strategies ?h))" "SMatchPoint \<in> set (mh_strategies ?h)"
    using buildStrategies_distinct by (simp add: new_handler_def, simp add: new_handler_def buildStrategies_def)
  then have "by_name (strategy_Name SMatchPoint) is = []"
    using points_are_acted_on_once [OF h0(1) _ h2, of "[]" "[]" SMatchPoint] by simp
  with h0(1) h2 show ?thesis by auto
qed

end
