(* ===== verification/GoText.thy ===== *)
theory GoText
  imports Prelude "HOL-Library.Sublist"
begin

text \<open>
  The parts of Go's \<open>strconv\<close> and \<open>strings\<close> packages the HTTP layer, the configuration store and
  the score feed use: decimal parsing, splitting and trimming. Strings are byte lists.
\<close>

section \<open>Decimal parsing\<close>

text \<open>
  \<open>strconv.ParseInt(s, 10, 64)\<close> and \<open>strconv.Atoi\<close>: an optional sign, then one or more digits, the
  value within 64 bits. \<open>None\<close> is an error (syntax or range).
\<close>

definition parse_digits :: "string \<Rightarrow> nat option" where
  "parse_digits s = (if s = [] \<or> \<not> list_all is_digit_char s then None else Some (read_nat s))"

definition ParseInt :: "string \<Rightarrow> int option" where
  "ParseInt s =
     (let neg = (s \<noteq> [] \<and> hd s = CHR ''-'');
          ds = (if s \<noteq> [] \<and> (hd s = CHR ''-'' \<or> hd s = CHR ''+'') then tl s else s) in
      case parse_digits ds of
        None \<Rightarrow> None
      | Some n \<Rightarrow>
          (let v = (if neg then - int n else int n) in
           if in_int64 v then Some v else None))"

text \<open>The value \<open>Atoi\<close> returns beside its error, for callers that ignore the error: zero for a syntax
  error, the nearest 64-bit number for a range error.\<close>

definition Atoi_value :: "string \<Rightarrow> int" where
  "Atoi_value s =
     (let neg = (s \<noteq> [] \<and> hd s = CHR ''-'');
          ds = (if s \<noteq> [] \<and> (hd s = CHR ''-'' \<or> hd s = CHR ''+'') then tl s else s) in
      case parse_digits ds of
        None \<Rightarrow> 0
      | Some n \<Rightarrow> max int64_min (min int64_max (if neg then - int n else int n)))"

lemma parse_digits_show [simp]: "parse_digits (show_nat n) = Some n"
  using show_nat_digits [of n] by (simp add: parse_digits_def list_all_iff)

lemma digits_not_sign:
  assumes "is_digit_char c"
  shows "c \<noteq> CHR ''-''" "c \<noteq> CHR ''+''" "c \<noteq> CHR '',''"
  using assms by (auto simp: is_digit_char_def)

lemma ParseInt_show: "in_int64 n \<Longrightarrow> ParseInt (show_int n) = Some n"
proof -
  assume n: "in_int64 n"
  obtain c cs where s: "show_nat (nat n) = c # cs" by (cases "show_nat (nat n)") auto
  with digits_not_sign [OF show_nat_hd_digit [OF s]] n parse_digits_show [of "nat n"] show ?thesis
    by (cases "n < 0") (simp_all add: ParseInt_def show_int_def)
qed

lemma ParseInt_range: "ParseInt s = Some v \<Longrightarrow> in_int64 v"
  by (auto simp: ParseInt_def Let_def split: option.splits if_splits)

lemma Atoi_value_ParseInt: "ParseInt s = Some v \<Longrightarrow> Atoi_value s = v"
  by (auto simp: ParseInt_def Atoi_value_def Let_def int64_bounds split: option.splits if_splits)

lemma Atoi_value_show: "in_int64 n \<Longrightarrow> Atoi_value (show_int n) = n"
  by (rule Atoi_value_ParseInt) (rule ParseInt_show)

section \<open>Splitting and trimming\<close>

text \<open>\<open>strings.SplitN(s, sep, 2)\<close> for a separator of one byte.\<close>

definition SplitN2 :: "char \<Rightarrow> string \<Rightarrow> string list" where
  "SplitN2 c s =
     (case dropWhile (\<lambda>x. x \<noteq> c) s of
        [] \<Rightarrow> [s]
      | _ # rest \<Rightarrow> [takeWhile (\<lambda>x. x \<noteq> c) s, rest])"

lemma SplitN2_join: "c \<notin> set a \<Longrightarrow> SplitN2 c (a @ c # b) = [a, b]"
proof -
  assume "c \<notin> set a"
  then have "\<forall>x \<in> set a. x \<noteq> c" by auto
  then show ?thesis by (simp add: SplitN2_def dropWhile_append2 takeWhile_append2)
qed

text \<open>\<open>strings.Split(s, sep)\<close> for a separator of one byte: always at least one part.\<close>

fun Split :: "char \<Rightarrow> string \<Rightarrow> string list" where
  "Split c [] = [[]]"
| "Split c (x # xs) =
     (if x = c then [] # Split c xs
      else (case Split c xs of [] \<Rightarrow> [[x]] | p # ps \<Rightarrow> (x # p) # ps))"

text \<open>\<open>strings.SplitN(s, sep, 2)\<close> for any separator: the parts around its first occurrence.\<close>

fun cut_at :: "string \<Rightarrow> string \<Rightarrow> (string \<times> string) option" where
  "cut_at sep [] = (if sep = [] then Some ([], []) else None)"
| "cut_at sep (c # cs) =
     (if prefix sep (c # cs) then Some ([], drop (length sep) (c # cs))
      else map_option (\<lambda>(a, b). (c # a, b)) (cut_at sep cs))"

text \<open>\<open>strings.TrimSpace\<close> on ASCII white space.\<close>

definition is_space :: "char \<Rightarrow> bool" where
  "is_space c \<longleftrightarrow> (of_char c :: nat) \<in> {9, 10, 11, 12, 13, 32}"

definition TrimSpace :: "string \<Rightarrow> string" where
  "TrimSpace s = rev (dropWhile is_space (rev (dropWhile is_space s)))"

definition HasPrefix :: "string \<Rightarrow> string \<Rightarrow> bool" where
  "HasPrefix s p \<longleftrightarrow> prefix p s"

definition TrimPrefix :: "string \<Rightarrow> string \<Rightarrow> string" where
  "TrimPrefix s p = (if prefix p s then drop (length p) s else s)"

lemma show_int_nonempty [simp]: "show_int n \<noteq> []"
  by (simp add: show_int_def)

lemma show_int_no_comma: "CHR '','' \<notin> set (show_int n)"
  using show_nat_digits [of "nat n"] show_nat_digits [of "nat (- n)"] digits_not_sign(3)
  by (auto simp: show_int_def)

lemma Split_nonempty [simp]: "Split c s \<noteq> []"
  by (induction s) (auto split: list.splits)

lemma set_Split: "\<Union> (set ` set (Split c s)) = set s - {c}"
proof (induction s)
  case (Cons x xs)
  then show ?case by (cases "Split c xs") auto
qed simp

lemma cut_at_first:
  assumes "sep \<noteq> []" "hd sep \<notin> set a"
  shows "cut_at sep (a @ sep @ b) = Some (a, b)"
  using assms(2)
proof (induction a)
  case Nil
  from assms(1) show ?case by (cases sep) auto
next
  case (Cons x a)
  with assms(1) have "\<not> prefix sep (x # a @ sep @ b)" by (cases sep) auto
  with Cons show ?case by simp
qed

lemma TrimSpace_digits: "\<forall>c \<in> set s. \<not> is_space c \<Longrightarrow> TrimSpace s = s"
proof -
  assume "\<forall>c \<in> set s. \<not> is_space c"
  then have "dropWhile is_space s = s" "dropWhile is_space (rev s) = rev s"
    by (auto simp: dropWhile_eq_self_iff hd_rev)
  then show ?thesis by (simp add: TrimSpace_def)
qed

lemma show_int_no_space: "\<forall>c \<in> set (show_int n). \<not> is_space c"
proof -
  have "\<not> is_space c" if "is_digit_char c \<or> c = CHR ''-''" for c
    using that by (auto simp: is_space_def is_digit_char_def)
  then show ?thesis
    using show_nat_digits [of "nat n"] show_nat_digits [of "nat (- n)"] by (auto simp: show_int_def)
qed

lemma space_is_space: "is_space (CHR '' '')"
  by (simp add: is_space_def)

end
