(* ===== verification/HttpApi.thy ===== *)
theory HttpApi
  imports GoText
begin

text \<open>
  The frame of the dashboard API (\<open>httpapi/server.go\<close>, \<open>v1compat.go\<close>, \<open>sse.go\<close>): requests,
  responses, the two handler wrappers, the route table and the cursor codec. A handler is a
  function from the request (and the state it reads) to a response; its body is given decoded,
  \<open>None\<close> when the JSON decoder refused it.
\<close>

record 'b http_request =
  rq_Method :: string
  rq_Query :: "string \<Rightarrow> string"
  rq_Header :: "string \<Rightarrow> string"
  rq_PathValue :: "string \<Rightarrow> string"
  rq_Body :: "'b option"

text \<open>\<open>writeJSON\<close> and \<open>writeProblem\<close>; \<open>NoContent\<close> is the bare 204 of the CORS preflight.\<close>

datatype 'a response =
  writeJSON int 'a
  | writeProblem int string string
  | NoContent

fun status_code :: "'a response \<Rightarrow> int" where
  "status_code (writeJSON s _) = s"
| "status_code (writeProblem s _ _) = s"
| "status_code NoContent = 204"

definition auth :: "string \<Rightarrow> 'b http_request \<Rightarrow> 'a response \<Rightarrow> 'a response" where
  "auth token r next_h =
     (if token = [] then next_h
      else
        (let h = rq_Header r ''Authorization'' in
         if \<not> HasPrefix h ''Bearer '' then writeProblem 401 ''missing_bearer'' ''Bearer token required''
         else if TrimPrefix h ''Bearer '' \<noteq> token then writeProblem 401 ''invalid_token'' ''Invalid bearer token''
         else next_h))"

definition cors :: "'b http_request \<Rightarrow> 'a response \<Rightarrow> 'a response" where
  "cors r next_h = (if rq_Method r = ''OPTIONS'' then NoContent else next_h)"

definition checkDB :: "bool \<Rightarrow> 'a response \<Rightarrow> 'a response" where
  "checkDB has_db rest =
     (if \<not> has_db then writeProblem 503 ''no_db'' ''Database not configured'' else rest)"

section \<open>Routes\<close>

datatype wrapper = Open | Auth | Cors

definition buildMux :: "(string \<times> wrapper \<times> string) list" where
  "buildMux =
     [(''GET /healthz'', Open, ''handleHealth''),
      (''GET /api/v1/overview'', Auth, ''handleOverview''),
      (''GET /api/v1/strategies'', Auth, ''handleStrategies''),
      (''GET /api/v1/strategies/{name}'', Auth, ''handleStrategyDetail''),
      (''GET /api/v1/matches'', Auth, ''handleMatches''),
      (''GET /api/v1/matches/{event}'', Auth, ''handleMatchDetail''),
      (''GET /api/v1/orders'', Auth, ''handleOrders''),
      (''GET /api/v1/ledger'', Auth, ''handleLedger''),
      (''GET /api/v1/config'', Auth, ''handleGetConfig''),
      (''PUT /api/v1/config'', Auth, ''handlePutConfig''),
      (''GET /api/v1/models'', Auth, ''handleModels''),
      (''POST /api/v1/models'', Auth, ''handleModels''),
      (''POST /api/v1/models/{id}/status'', Auth, ''handleModelStatus''),
      (''GET /api/v1/stream'', Auth, ''handleStream''),
      (''GET /api/tracked'', Cors, ''handleTracked''),
      (''GET /api/order-counts'', Cors, ''handleOrderCounts''),
      (''GET /api/pending-order-counts'', Cors, ''handlePendingOrderCounts'')]"

text \<open>A handler behind the wrapper its route gives it.\<close>

fun guarded :: "wrapper \<Rightarrow> string \<Rightarrow> 'b http_request \<Rightarrow> 'a response \<Rightarrow> 'a response" where
  "guarded Open token r h = h"
| "guarded Auth token r h = auth token r h"
| "guarded Cors token r h = cors r h"

lemma auth_passes:
  "token \<noteq> [] \<Longrightarrow> status_code h \<noteq> 401 \<Longrightarrow>
   status_code (auth token r h) \<noteq> 401 \<longleftrightarrow> rq_Header r ''Authorization'' = ''Bearer '' @ token"
  by (auto simp: auth_def HasPrefix_def TrimPrefix_def Let_def prefix_def)

lemma auth_blocks:
  "token \<noteq> [] \<Longrightarrow> rq_Header r ''Authorization'' \<noteq> ''Bearer '' @ token \<Longrightarrow>
   auth token r h = auth token r h' \<and> status_code (auth token r h) = 401"
  by (auto simp: auth_def HasPrefix_def TrimPrefix_def Let_def prefix_def)

text \<open>Every route that can change something is behind the token.\<close>

lemma writes_need_token:
  "(pat, w, h) \<in> set buildMux \<Longrightarrow> \<not> HasPrefix pat ''GET '' \<Longrightarrow> w = Auth"
  by (auto simp: buildMux_def HasPrefix_def)

section \<open>Query parameters\<close>

definition parseInt :: "string \<Rightarrow> int option" where
  "parseInt s = ParseInt s"

definition parseInt64Impl :: "string \<Rightarrow> int option" where
  "parseInt64Impl s = ParseInt s"

definition parseInt64 :: "string \<Rightarrow> int option" where
  "parseInt64 s = parseInt64Impl s"

definition parseCursor :: "'b http_request \<Rightarrow> string \<times> int" where
  "parseCursor r =
     (let l = rq_Query r ''limit'';
          lim = (if l \<noteq> [] then
                   (case ParseInt l of
                      Some n \<Rightarrow> (if n > 0 \<and> n \<le> 500 then n else 100)
                    | None \<Rightarrow> 100)
                 else 100) in
      (rq_Query r ''cursor'', lim))"

definition parseCursorPairImpl :: "string \<Rightarrow> (int \<times> int) option" where
  "parseCursorPairImpl s =
     (case SplitN2 (CHR '','') s of
        [p0, p1] \<Rightarrow>
          (case ParseInt p0 of
             None \<Rightarrow> None
           | Some tsVal \<Rightarrow>
               (case ParseInt p1 of
                  None \<Rightarrow> None
                | Some idVal \<Rightarrow> Some (tsVal, idVal)))
      | _ \<Rightarrow> None)"

definition parseCursorPair :: "string \<Rightarrow> (int \<times> int) option" where
  "parseCursorPair s = parseCursorPairImpl s"

definition buildCursor :: "int \<Rightarrow> int \<Rightarrow> string" where
  "buildCursor tsVal idVal = show_int tsVal @ '','' @ show_int idVal"

lemma cursor_roundtrip [simp]:
  "in_int64 ts \<Longrightarrow> in_int64 i \<Longrightarrow> parseCursorPair (buildCursor ts i) = Some (ts, i)"
  by (simp add: parseCursorPair_def parseCursorPairImpl_def buildCursor_def
      SplitN2_join [OF show_int_no_comma] ParseInt_show)

lemma buildCursor_nonempty [simp]: "buildCursor ts i \<noteq> []"
  by (simp add: buildCursor_def)

lemma parseCursor_limit: "1 \<le> snd (parseCursor r) \<and> snd (parseCursor r) \<le> 500"
  by (auto simp: parseCursor_def Let_def split: option.splits)

end
