(* ===== verification/ModelRegistry.thy ===== *)
theory ModelRegistry
  imports HttpApi OrderStore
begin

text \<open>
  The model registry: the promotion ladder (\<open>domain/modelregistry/model.go\<close>), its table
  (\<open>adapters/postgres/model_repo.go\<close>, migration \<open>0006_model_registry.up.sql\<close>) and the three HTTP
  handlers over it (\<open>httpapi/model_handlers.go\<close>). The metrics of a model are a value of an
  arbitrary type: the JSON encoding between the Go map and the \<open>jsonb\<close> column is taken to be
  lossless when it succeeds.
\<close>

section \<open>The promotion ladder\<close>

definition StatusCandidate :: string where [simp]: "StatusCandidate = ''candidate''"
definition StatusShadow :: string where [simp]: "StatusShadow = ''shadow''"
definition StatusPaper :: string where [simp]: "StatusPaper = ''paper''"
definition StatusChampion :: string where [simp]: "StatusChampion = ''champion''"
definition StatusRetired :: string where [simp]: "StatusRetired = ''retired''"

record 'm Model =
  md_ID :: int
  md_Family :: string
  md_Version :: int
  md_TrainedAt :: int
  md_TrainFromTS :: int
  md_TrainToTS :: int
  md_FeatureHash :: string
  md_ArtifactPath :: string
  md_ArtifactSHA :: string
  md_Metrics :: 'm
  md_Status :: string
  md_TrialIndex :: int

text \<open>\<open>ModelJSON\<close> adds the derived strategy name.\<close>

record 'm ModelJSON = "'m Model" +
  mj_StrategyName :: string

definition StrategyName :: "'m Model \<Rightarrow> string" where
  "StrategyName m = ''rl.'' @ md_Family m @ ''.v'' @ show_int (md_Version m)"

definition ToJSON :: "'m Model \<Rightarrow> 'm ModelJSON" where
  "ToJSON m = Model.extend m (ModelJSON.fields (StrategyName m))"

definition ladder :: "(string \<times> string list) list" where
  "ladder =
     [(StatusCandidate, [StatusShadow, StatusRetired]),
      (StatusShadow, [StatusPaper, StatusRetired]),
      (StatusPaper, [StatusChampion, StatusShadow, StatusRetired]),
      (StatusChampion, [StatusRetired]),
      (StatusRetired, [])]"

definition CanTransition :: "string \<Rightarrow> string \<Rightarrow> bool" where
  "CanTransition from to =
     (case map_of ladder from of None \<Rightarrow> False | Some allowed \<Rightarrow> to \<in> set allowed)"

datatype model_error =
  TransitionError string string string
  | ErrModelDB string
  | ErrModelNotFound string

definition ValidateTransition :: "string \<Rightarrow> string \<Rightarrow> model_error option" where
  "ValidateTransition from to =
     (if from = to then Some (TransitionError from to ''no-op transition'')
      else if \<not> CanTransition from to then Some (TransitionError from to ''must advance one rung at a time'')
      else None)"

text \<open>\<open>Error()\<close>: \<open>cause\<close> is the text of the driver's error, which the repository wraps. The arrow of a
  transition error is three bytes of UTF-8.\<close>

fun Error_text :: "string \<Rightarrow> model_error \<Rightarrow> string" where
  "Error_text cause (TransitionError f t reason) =
     ''illegal transition: '' @ f @ [CHR 0x20, CHR 0xE2, CHR 0x86, CHR 0x92, CHR 0x20] @ t @
     '' ('' @ reason @ '')''"
| "Error_text cause (ErrModelDB ctx) = ctx @ '': '' @ cause"
| "Error_text cause (ErrModelNotFound ctx) = ctx @ '': record not found''"

section \<open>The table\<close>

record 'm models_db =
  ml_rows :: "'m Model list"
  ml_next :: int

text \<open>The constraints of the table: 32-bit version and trial index, known statuses, and one row per
  family and version.\<close>

definition model_fits :: "'m Model \<Rightarrow> bool" where
  "model_fits m \<longleftrightarrow> in_int32 (md_Version m) \<and> in_int32 (md_TrialIndex m) \<and>
     md_Status m \<in> set [StatusCandidate, StatusShadow, StatusPaper, StatusChampion, StatusRetired]"

definition same_version :: "'m Model \<Rightarrow> 'm Model \<Rightarrow> bool" where
  "same_version a b \<longleftrightarrow> md_Family a = md_Family b \<and> md_Version a = md_Version b"

definition Models_Register ::
  "bool \<Rightarrow> tx_env \<Rightarrow> 'm Model \<Rightarrow> 'm models_db \<Rightarrow> 'm models_db \<times> (model_error + int)" where
  "Models_Register marshals env m db =
     (if \<not> marshals then (db, Inl (ErrModelDB ''marshal metrics''))
      else if tx_fault env = FaultFirst then (db, Inl (ErrModelDB ''count models''))
      else
        (let cnt = int (length (filter (\<lambda>r. md_Family r = md_Family m) (ml_rows db)));
             n = ml_next db + int (tx_gap env);
             row = m\<lparr>md_ID := n, md_Status := StatusCandidate, md_TrialIndex := cnt\<rparr> in
         if tx_fault env \<noteq> NoFault \<or> \<not> model_fits row \<or> list_ex (same_version row) (ml_rows db)
         then (db, Inl (ErrModelDB ''create model''))
         else (\<lparr>ml_rows = ml_rows db @ [row], ml_next = n + 1\<rparr>, Inr n)))"

definition model_row :: "int \<Rightarrow> 'm models_db \<Rightarrow> 'm Model option" where
  "model_row i db =
     (case sort_key md_ID (filter (\<lambda>r. md_ID r = i) (ml_rows db)) of [] \<Rightarrow> None | r # _ \<Rightarrow> Some r)"

definition Models_Get :: "db_fault \<Rightarrow> int \<Rightarrow> 'm models_db \<Rightarrow> model_error + 'm Model" where
  "Models_Get fault i db =
     (if fault \<noteq> NoFault then Inl (ErrModelDB ''get model'')
      else (case model_row i db of None \<Rightarrow> Inl (ErrModelNotFound ''get model'') | Some r \<Rightarrow> Inr r))"

definition Models_List :: "db_fault \<Rightarrow> string \<Rightarrow> 'm models_db \<Rightarrow> model_error + 'm Model list" where
  "Models_List fault family db =
     (if fault \<noteq> NoFault then Inl (ErrModelDB ''list models'')
      else Inr (rev (sort_key md_ID
             (filter (\<lambda>r. family \<noteq> [] \<longrightarrow> md_Family r = family) (ml_rows db)))))"

text \<open>
  \<open>UpdateStatus\<close> is a read and a write, without a transaction around them: \<open>UpdateStatus_check\<close> is
  the read with the validation, \<open>UpdateStatus_write\<close> the statement that follows it.
\<close>

definition UpdateStatus_check :: "tx_env \<Rightarrow> int \<Rightarrow> string \<Rightarrow> 'm models_db \<Rightarrow> model_error option" where
  "UpdateStatus_check env i to db =
     (if tx_fault env = FaultFirst then Some (ErrModelDB ''get model for transition'')
      else
        (case model_row i db of
           None \<Rightarrow> Some (ErrModelNotFound ''get model for transition'')
         | Some row \<Rightarrow> ValidateTransition (md_Status row) to))"

definition UpdateStatus_write :: "tx_env \<Rightarrow> int \<Rightarrow> string \<Rightarrow> 'm models_db \<Rightarrow> 'm models_db \<times> model_error option" where
  "UpdateStatus_write env i to db =
     (let rows' = map (\<lambda>r. if md_ID r = i then r\<lparr>md_Status := to\<rparr> else r) (ml_rows db) in
      if tx_fault env \<noteq> NoFault \<or> \<not> list_all model_fits (filter (\<lambda>r. md_ID r = i) rows')
      then (db, Some (ErrModelDB ''update status''))
      else (db\<lparr>ml_rows := rows'\<rparr>, None))"

definition Models_UpdateStatus ::
  "tx_env \<Rightarrow> int \<Rightarrow> string \<Rightarrow> 'm models_db \<Rightarrow> 'm models_db \<times> model_error option" where
  "Models_UpdateStatus env i to db =
     (case UpdateStatus_check env i to db of
        Some err \<Rightarrow> (db, Some err)
      | None \<Rightarrow> UpdateStatus_write env i to db)"

section \<open>The handlers\<close>

datatype 'm model_reply = ModelList "'m ModelJSON list" | Registered int string | StatusSet int string

text \<open>The request bodies: \<open>registerModel\<close> decodes the fields of a model, \<open>handleModelStatus\<close> a
  status. A body is given as the record the decoder fills.\<close>

definition known_status :: "string \<Rightarrow> bool" where
  "known_status to \<longleftrightarrow> to \<in> set [StatusCandidate, StatusShadow, StatusPaper, StatusChampion, StatusRetired]"

definition listModels :: "string \<Rightarrow> db_fault \<Rightarrow> 'b http_request \<Rightarrow> 'm models_db \<Rightarrow> 'm model_reply response" where
  "listModels cause fault r db =
     (case Models_List fault (rq_Query r ''family'') db of
        Inl err \<Rightarrow> writeProblem 500 ''db_error'' (Error_text cause err)
      | Inr models \<Rightarrow> writeJSON 200 (ModelList (map ToJSON models)))"

definition registerModel ::
  "string \<Rightarrow> bool \<Rightarrow> tx_env \<Rightarrow> ('m Model) http_request \<Rightarrow> 'm models_db \<Rightarrow> 'm models_db \<times> 'm model_reply response" where
  "registerModel cause marshals env r db =
     (case rq_Body r of
        None \<Rightarrow> (db, writeProblem 400 ''invalid_body'' ''Invalid JSON body'')
      | Some body \<Rightarrow>
          (if md_Family body = [] \<or> md_FeatureHash body = [] \<or> md_ArtifactPath body = []
           then (db, writeProblem 400 ''missing_fields'' ''family, feature_hash, artifact_path required'')
           else
             (case Models_Register marshals env (body\<lparr>md_ID := 0, md_Status := [], md_TrialIndex := 0\<rparr>) db of
                (db', Inl err) \<Rightarrow> (db', writeProblem 500 ''register_failed'' (Error_text cause err))
              | (db', Inr n) \<Rightarrow> (db', writeJSON 201 (Registered n ''candidate'')))))"

definition handleModels ::
  "string \<Rightarrow> bool \<Rightarrow> bool \<Rightarrow> tx_env \<Rightarrow> ('m Model) http_request \<Rightarrow> 'm models_db \<Rightarrow> 'm models_db \<times> 'm model_reply response" where
  "handleModels cause has_db marshals env r db =
     (if \<not> has_db then (db, checkDB has_db NoContent)
      else if rq_Method r = ''GET'' then (db, listModels cause (tx_fault env) r db)
      else if rq_Method r = ''POST'' then registerModel cause marshals env r db
      else (db, writeProblem 405 ''method_not_allowed'' ''Only GET and POST supported''))"

definition handleModelStatus ::
  "string \<Rightarrow> bool \<Rightarrow> tx_env \<Rightarrow> string http_request \<Rightarrow> 'm models_db \<Rightarrow> 'm models_db \<times> 'm model_reply response" where
  "handleModelStatus cause has_db env r db =
     (if \<not> has_db then (db, checkDB has_db NoContent)
      else if rq_Method r \<noteq> ''POST'' then (db, writeProblem 405 ''method_not_allowed'' ''Only POST supported'')
      else if rq_PathValue r ''id'' = [] then (db, writeProblem 400 ''missing_id'' ''Model ID required'')
      else
        (case parseInt64 (rq_PathValue r ''id'') of
           None \<Rightarrow> (db, writeProblem 400 ''invalid_id'' ''Model ID must be numeric'')
         | Some i \<Rightarrow>
             (case rq_Body r of
                None \<Rightarrow> (db, writeProblem 400 ''invalid_body'' ''Invalid JSON body'')
              | Some to \<Rightarrow>
                  (if \<not> known_status to
                   then (db, writeProblem 400 ''invalid_status'' (''Unknown status: '' @ to))
                   else if to = StatusChampion \<and> rq_Query r ''confirm'' \<noteq> ''true''
                   then (db, writeProblem 403 ''human_gate'' ''Champion promotion requires ?confirm=true'')
                   else
                     (case Models_UpdateStatus env i to db of
                        (db', Some err) \<Rightarrow>
                          (db', case err of
                             TransitionError _ _ _ \<Rightarrow> writeProblem 409 ''illegal_transition'' (Error_text cause err)
                           | _ \<Rightarrow> writeProblem 500 ''update_failed'' (Error_text cause err))
                      | (db', None) \<Rightarrow> (db', writeJSON 200 (StatusSet i to)))))))"

section \<open>The table as a map from identifiers\<close>

definition models_inv :: "'m models_db \<Rightarrow> bool" where
  "models_inv db \<longleftrightarrow>
     distinct (map md_ID (ml_rows db)) \<and> list_all (\<lambda>r. md_ID r < ml_next db) (ml_rows db) \<and>
     list_all model_fits (ml_rows db)"

definition model_of :: "'m models_db \<Rightarrow> int \<Rightarrow> 'm Model option" where
  "model_of db i = map_of (map (\<lambda>r. (md_ID r, r)) (ml_rows db)) i"

lemma model_of_Some:
  "distinct (map md_ID (ml_rows db)) \<Longrightarrow> model_of db i = Some r \<longleftrightarrow> r \<in> set (ml_rows db) \<and> md_ID r = i"
  unfolding model_of_def by (subst map_of_eq_Some_iff) (auto simp: comp_def)

lemma model_of_None: "model_of db i = None \<longleftrightarrow> i \<notin> md_ID ` set (ml_rows db)"
  by (simp add: model_of_def map_of_eq_None_iff image_image)

lemma model_row_eq: "models_inv db \<Longrightarrow> model_row i db = model_of db i"
proof (cases "model_of db i")
  case None
  then have "filter (\<lambda>r. md_ID r = i) (ml_rows db) = []"
    by (auto simp: model_of_None filter_empty_conv)
  with None show ?thesis by (simp add: model_row_def)
next
  case (Some r)
  assume "models_inv db"
  then have d: "distinct (map md_ID (ml_rows db))" by (simp add: models_inv_def)
  with Some have "filter (\<lambda>x. md_ID x = i) (ml_rows db) = [r]"
    using distinct_filter_id [OF d, of r] by (auto simp: model_of_Some)
  with Some show ?thesis by (simp add: model_row_def)
qed

lemma model_of_write:
  "model_of (db\<lparr>ml_rows := map (\<lambda>r. if md_ID r = i then r\<lparr>md_Status := s\<rparr> else r) (ml_rows db)\<rparr>) j =
     (if j = i then map_option (md_Status_update (\<lambda>_. s)) (model_of db i) else model_of db j)"
proof -
  have "map_of (map (\<lambda>r. (md_ID r, r)) (map (\<lambda>r. if md_ID r = i then r\<lparr>md_Status := s\<rparr> else r) rs)) j =
      (if j = i then map_option (md_Status_update (\<lambda>_. s)) (map_of (map (\<lambda>r. (md_ID r, r)) rs) i)
       else map_of (map (\<lambda>r. (md_ID r, r)) rs) j)" for rs :: "'a Model list"
    by (induction rs) auto
  then show ?thesis by (simp add: model_of_def)
qed

lemma Register_ok:
  assumes "models_inv db" "Models_Register mar env m db = (db', Inr n)"
  shows "models_inv db'" "model_of db n = None"
    "\<exists>r. md_Status r = StatusCandidate \<and> model_of db' = (model_of db)(n \<mapsto> r)"
proof -
  define row where "row = m\<lparr>md_ID := n, md_Status := StatusCandidate,
    md_TrialIndex := int (length (filter (\<lambda>r. md_Family r = md_Family m) (ml_rows db)))\<rparr>"
  have n: "n = ml_next db + int (tx_gap env)" and fits: "model_fits row"
    and db': "db' = \<lparr>ml_rows = ml_rows db @ [row], ml_next = n + 1\<rparr>"
    using assms(2) by (auto simp: Models_Register_def row_def Let_def split: if_splits)
  have [simp]: "md_ID row = n" "md_Status row = StatusCandidate" by (simp_all add: row_def)
  show fresh: "model_of db n = None"
    using assms(1) by (auto simp: model_of_None models_inv_def list_all_iff n)
  have "list_all (\<lambda>r. md_ID r < n + 1) (ml_rows db)"
    using assms(1) list_all_less_add [of md_ID "ml_next db" "ml_rows db" "int (tx_gap env) + 1"]
    by (simp add: models_inv_def n add.assoc)
  with assms(1) fits fresh show "models_inv db'"
    by (simp add: models_inv_def db' model_of_None)
  have "model_of db' = (model_of db)(n \<mapsto> row)"
    using fresh by (auto simp: fun_eq_iff model_of_def db' map_add_def split: option.splits)
  then show "\<exists>r. md_Status r = StatusCandidate \<and> model_of db' = (model_of db)(n \<mapsto> r)"
    by (intro exI [of _ row]) simp
qed

lemma Register_err: "Models_Register mar env m db = (db', Inl err) \<Longrightarrow> db' = db"
  by (auto simp: Models_Register_def Let_def split: if_splits)

lemma ValidateTransition_None: "ValidateTransition a b = None \<longleftrightarrow> CanTransition a b"
  by (auto simp: ValidateTransition_def CanTransition_def ladder_def split: if_splits)

lemma CanTransition_known:
  "CanTransition a b \<Longrightarrow>
   known_status b"
  by (auto simp: CanTransition_def ladder_def known_status_def split: if_splits)

text \<open>The outcome of a status update, on every branch.\<close>

lemma UpdateStatus_cases:
  assumes inv: "models_inv db"
  obtains (fault) err where "Models_UpdateStatus env i to db = (db, Some (ErrModelDB err))"
      "tx_fault env = FaultFirst \<or> tx_fault env \<noteq> NoFault \<and>
         (\<exists>row. model_of db i = Some row \<and> CanTransition (md_Status row) to)"
  | (missing) c where "Models_UpdateStatus env i to db = (db, Some (ErrModelNotFound c))"
      "tx_fault env \<noteq> FaultFirst" "model_of db i = None"
  | (illegal) row reason where
      "Models_UpdateStatus env i to db = (db, Some (TransitionError (md_Status row) to reason))"
      "tx_fault env \<noteq> FaultFirst" "model_of db i = Some row" "\<not> CanTransition (md_Status row) to"
  | (ok) row db' where "Models_UpdateStatus env i to db = (db', None)" "tx_fault env = NoFault"
      "model_of db i = Some row" "CanTransition (md_Status row) to"
      "model_of db' = (model_of db)(i \<mapsto> row\<lparr>md_Status := to\<rparr>)" "models_inv db'"
proof (cases "UpdateStatus_check env i to db")
  case (Some err)
  then have eq: "Models_UpdateStatus env i to db = (db, Some err)"
    by (simp add: Models_UpdateStatus_def)
  consider (a) "tx_fault env = FaultFirst" | (b) "tx_fault env \<noteq> FaultFirst" "model_of db i = None"
    | (c) row where "tx_fault env \<noteq> FaultFirst" "model_of db i = Some row" by fastforce
  then show ?thesis
  proof cases
    case a
    with Some eq show ?thesis by (intro fault) (auto simp: UpdateStatus_check_def)
  next
    case b
    with Some eq show ?thesis by (intro missing) (auto simp: UpdateStatus_check_def model_row_eq [OF inv])
  next
    case c
    with Some have v: "ValidateTransition (md_Status row) to = Some err"
      by (simp add: UpdateStatus_check_def model_row_eq [OF inv])
    then have "\<not> CanTransition (md_Status row) to" by (simp add: ValidateTransition_None [symmetric])
    moreover from v obtain reason where "err = TransitionError (md_Status row) to reason"
      by (auto simp: ValidateTransition_def split: if_splits)
    ultimately show ?thesis using c eq by (intro illegal) auto
  qed
next
  case None
  then obtain row where row: "model_of db i = Some row" "CanTransition (md_Status row) to"
    by (auto simp: UpdateStatus_check_def model_row_eq [OF inv] ValidateTransition_None
        split: if_splits option.splits)
  let ?f = "\<lambda>r. if md_ID r = i then r\<lparr>md_Status := to\<rparr> else r"
  have all: "list_all model_fits (map ?f (ml_rows db))"
    using inv CanTransition_known [OF row(2)] by (auto simp: models_inv_def list_all_iff model_fits_def known_status_def)
  have ids: "map md_ID (map ?f rs) = map md_ID rs" for rs by (induction rs) auto
  show ?thesis
  proof (cases "tx_fault env = NoFault")
    case True
    have "models_inv (db\<lparr>ml_rows := map ?f (ml_rows db)\<rparr>)"
      using inv all ids [of "ml_rows db"] by (auto simp: models_inv_def list_all_iff simp del: map_map)
    with True None row all show ?thesis
      by (intro ok [of "db\<lparr>ml_rows := map ?f (ml_rows db)\<rparr>" row])
        (auto simp: Models_UpdateStatus_def UpdateStatus_write_def Let_def list_all_iff
          model_of_write fun_eq_iff)
  next
    case False
    with None row show ?thesis
      by (intro fault) (auto simp: Models_UpdateStatus_def UpdateStatus_write_def Let_def)
  qed
qed

section \<open>Histories\<close>

text \<open>The requests of a run, each handled to the end before the next one.\<close>

datatype 'm model_request =
  ModelsRequest bool tx_env "('m Model) http_request"
  | StatusRequest tx_env "string http_request"

fun registry_step :: "string \<Rightarrow> 'm model_request \<Rightarrow> 'm models_db \<Rightarrow> 'm models_db" where
  "registry_step cause (ModelsRequest mar env r) db = fst (handleModels cause True mar env r db)"
| "registry_step cause (StatusRequest env r) db = fst (handleModelStatus cause True env r db)"

fun registry_run :: "string \<Rightarrow> 'm model_request list \<Rightarrow> 'm models_db \<Rightarrow> 'm models_db list" where
  "registry_run cause [] db = [db]"
| "registry_run cause (q # qs) db = db # registry_run cause qs (registry_step cause q db)"

definition empty_models :: "'m models_db" where "empty_models = \<lparr>ml_rows = [], ml_next = 1\<rparr>"

text \<open>The statuses a model went through, oldest first.\<close>

definition status_history :: "int \<Rightarrow> 'm models_db list \<Rightarrow> string list" where
  "status_history i dbs = remdups_adj (map md_Status (List.map_filter (\<lambda>db. model_of db i) dbs))"

text \<open>What a request may do to a model: nothing, register it as a candidate, or one legal move,
  and the move to champion only when the request confirms it.\<close>

definition confirmed :: "'m model_request \<Rightarrow> bool" where
  "confirmed q = (case q of
     StatusRequest _ r \<Rightarrow> rq_Body r = Some StatusChampion \<and> rq_Query r ''confirm'' = ''true''
   | ModelsRequest _ _ _ \<Rightarrow> False)"

definition row_step :: "bool \<Rightarrow> 'm Model option \<Rightarrow> 'm Model option \<Rightarrow> bool" where
  "row_step conf old new \<longleftrightarrow>
     new = old \<or>
     (old = None \<and> (\<exists>r. new = Some r \<and> md_Status r = StatusCandidate)) \<or>
     (\<exists>r s. old = Some r \<and> new = Some (r\<lparr>md_Status := s\<rparr>) \<and> CanTransition (md_Status r) s \<and>
        (s = StatusChampion \<longrightarrow> conf))"

lemma registerModel_fst:
  "fst (registerModel cause mar env r db) =
     (case rq_Body r of
        None \<Rightarrow> db
      | Some body \<Rightarrow>
          (if md_Family body = [] \<or> md_FeatureHash body = [] \<or> md_ArtifactPath body = [] then db
           else fst (Models_Register mar env (body\<lparr>md_ID := 0, md_Status := [], md_TrialIndex := 0\<rparr>) db)))"
  by (simp add: registerModel_def split: option.split prod.split sum.split)

lemma Register_step:
  assumes inv: "models_inv db"
  shows "models_inv (fst (Models_Register mar env m db)) \<and>
    row_step False (model_of db i) (model_of (fst (Models_Register mar env m db)) i)"
proof (cases "Models_Register mar env m db")
  case (Pair db' res)
  show ?thesis
  proof (cases res)
    case (Inl err)
    with Pair inv Register_err [of mar env m db db' err] show ?thesis by (simp add: row_step_def)
  next
    case (Inr n)
    with Pair Register_ok [OF inv, of mar env m db' n] show ?thesis by (auto simp: row_step_def split: if_splits)
  qed
qed

lemma row_step_refl [simp]: "row_step c x x"
  by (simp add: row_step_def)

lemma handleModels_step:
  assumes inv: "models_inv db"
  shows "models_inv (fst (handleModels cause has mar env r db)) \<and>
    row_step False (model_of db i) (model_of (fst (handleModels cause has mar env r db)) i)"
proof (cases "has \<and> rq_Method r = ''POST''")
  case False
  then have "fst (handleModels cause has mar env r db) = db" by (auto simp: handleModels_def)
  with inv show ?thesis by (simp add: row_step_def)
next
  case True
  then have eq: "handleModels cause has mar env r db = registerModel cause mar env r db"
    by (simp add: handleModels_def)
  show ?thesis
    using inv Register_step [OF inv, of mar env _ i] by (simp add: eq registerModel_fst split: option.split)
qed

lemma handleModelStatus_fst:
  "fst (handleModelStatus cause has env r db) =
     (if \<not> has \<or> rq_Method r \<noteq> ''POST'' \<or> rq_PathValue r ''id'' = [] then db
      else
        (case parseInt64 (rq_PathValue r ''id'') of
           None \<Rightarrow> db
         | Some i \<Rightarrow>
             (case rq_Body r of
                None \<Rightarrow> db
              | Some to \<Rightarrow>
                  (if \<not> known_status to \<or>
                      to = StatusChampion \<and> rq_Query r ''confirm'' \<noteq> ''true'' then db
                   else fst (Models_UpdateStatus env i to db)))))"
  unfolding handleModelStatus_def by (simp split: option.split prod.split)

lemma handleModelStatus_reaches:
  obtains (same) "fst (handleModelStatus cause has env r db) = db"
  | (upd) j to where "fst (handleModelStatus cause has env r db) = fst (Models_UpdateStatus env j to db)"
      "rq_Body r = Some to" "to = StatusChampion \<longrightarrow> rq_Query r ''confirm'' = ''true''"
proof (cases "fst (handleModelStatus cause has env r db) = db")
  case False
  then obtain i to where "parseInt64 (rq_PathValue r ''id'') = Some i" "rq_Body r = Some to"
    unfolding handleModelStatus_fst by (auto split: if_splits option.splits)
  with False show ?thesis
    by (intro upd [of i to]) (auto simp: handleModelStatus_fst split: if_splits)
qed (rule same)

lemma handleModelStatus_step:
  assumes inv: "models_inv db"
  shows "models_inv (fst (handleModelStatus cause has env r db)) \<and>
    row_step (rq_Body r = Some StatusChampion \<and> rq_Query r ''confirm'' = ''true'')
      (model_of db i) (model_of (fst (handleModelStatus cause has env r db)) i)"
proof (cases rule: handleModelStatus_reaches [of cause has env r db])
  case same
  with inv show ?thesis by (simp add: row_step_def)
next
  case (upd j to)
  from inv show ?thesis
  proof (cases rule: UpdateStatus_cases [where env = env and i = j and to = to])
    case (ok row db')
    with upd show ?thesis by (auto simp: row_step_def)
  qed (use inv upd in \<open>simp_all add: row_step_def\<close>)
qed

lemma registry_step_ok:
  assumes "models_inv db"
  shows "models_inv (registry_step cause q db)"
    "row_step (confirmed q) (model_of db i) (model_of (registry_step cause q db) i)"
  using assms handleModels_step [OF assms] handleModelStatus_step [OF assms]
  by (cases q; auto simp: confirmed_def)+

lemma empty_models_inv: "models_inv empty_models"
  by (simp add: models_inv_def empty_models_def)

text \<open>Removing repetitions turns a chain with pauses into a chain.\<close>

lemma successively_remdups_adj:
  "successively (\<lambda>a b. a = b \<or> R a b) xs \<Longrightarrow> successively R (remdups_adj xs)"
proof (induction xs rule: remdups_adj.induct)
  case (3 x y xs)
  then show ?case
    by (cases "x = y") (auto simp: remdups_adj_Cons split: list.splits)
qed simp_all

lemma run_statuses:
  assumes "models_inv db" "model_of db i = Some r"
  shows "\<exists>ss. map md_Status (List.map_filter (\<lambda>db. model_of db i) (registry_run cause qs db)) = md_Status r # ss \<and>
    successively (\<lambda>a b. a = b \<or> CanTransition a b) (md_Status r # ss)"
  using assms
proof (induction qs arbitrary: db r)
  case Nil
  then show ?case by (simp add: List.map_filter_simps)
next
  case (Cons q qs)
  note st = registry_step_ok [OF Cons.prems(1), where cause = cause and q = q]
  from st(2) [where i = i] Cons.prems(2) obtain r' where r': "model_of (registry_step cause q db) i = Some r'"
    "md_Status r = md_Status r' \<or> CanTransition (md_Status r) (md_Status r')"
    by (auto simp: row_step_def)
  from Cons.IH [OF st(1) r'(1)] r'(2) Cons.prems(2) show ?case
    by (auto simp: List.map_filter_simps)
qed

lemma run_history:
  assumes "models_inv db" "model_of db i = None"
  shows "status_history i (registry_run cause qs db) = [] \<or>
    (\<exists>ss. status_history i (registry_run cause qs db) = StatusCandidate # ss \<and>
       successively CanTransition (StatusCandidate # ss))"
  using assms
proof (induction qs arbitrary: db)
  case Nil
  then show ?case by (simp add: List.map_filter_simps status_history_def)
next
  case (Cons q qs)
  note st = registry_step_ok [OF Cons.prems(1), where cause = cause and q = q]
  show ?case
  proof (cases "model_of (registry_step cause q db) i")
    case None
    with Cons.IH [OF st(1) None] Cons.prems(2) show ?thesis
      by (simp add: status_history_def List.map_filter_simps)
  next
    case (Some r')
    with st(2) [where i = i] Cons.prems(2) have "md_Status r' = StatusCandidate" by (auto simp: row_step_def)
    with run_statuses [OF st(1) Some, of cause qs] obtain ss where ss:
      "map md_Status (List.map_filter (\<lambda>db. model_of db i) (registry_run cause qs (registry_step cause q db)))
         = StatusCandidate # ss"
      "successively (\<lambda>a b. a = b \<or> CanTransition a b) (StatusCandidate # ss)" by auto
    define h where "h = remdups_adj (StatusCandidate # ss)"
    have "status_history i (registry_run cause (q # qs) db) = h"
      using ss(1) Cons.prems(2) by (simp add: status_history_def List.map_filter_simps h_def)
    moreover have "successively CanTransition h"
      using successively_remdups_adj [OF ss(2)] by (simp add: h_def)
    moreover have "hd h = StatusCandidate" "h \<noteq> []" unfolding h_def by (simp_all only: hd_remdups_adj) simp_all
    then have "h = StatusCandidate # tl h" by (cases h) auto
    ultimately show ?thesis by metis
  qed
qed

text \<open>What a chain of legal moves from candidate to champion looks like.\<close>

lemma CanTransition_simps:
  "CanTransition StatusCandidate s \<longleftrightarrow> s = StatusShadow \<or> s = StatusRetired"
  "CanTransition StatusShadow s \<longleftrightarrow> s = StatusPaper \<or> s = StatusRetired"
  "CanTransition StatusChampion s \<longleftrightarrow> s = StatusRetired"
  "\<not> CanTransition StatusRetired s"
  by (auto simp: CanTransition_def ladder_def)

lemma into_champion: "CanTransition s StatusChampion \<Longrightarrow> s = StatusPaper"
  by (auto simp: CanTransition_def ladder_def split: if_splits)

lemma retired_last: "successively CanTransition (StatusRetired # xs) \<Longrightarrow> xs = []"
  using CanTransition_simps(4) by (cases xs) auto

lemma climb:
  assumes "successively CanTransition (StatusCandidate # ss)" "StatusChampion \<in> set ss"
  shows "\<exists>mid post. ss = [StatusShadow] @ mid @ [StatusPaper, StatusChampion] @ post \<and>
    (post = [] \<or> post = [StatusRetired])"
proof -
  obtain pre post where sp: "ss = pre @ StatusChampion # post" using split_list [OF assms(2)] by auto
  with assms(1) have ch: "successively CanTransition (StatusCandidate # pre @ StatusChampion # post)" by simp
  then have post: "successively CanTransition (StatusChampion # post)"
    by (metis append_Cons successively_append_iff)
  have "post = [] \<or> post = [StatusRetired]"
  proof (cases post)
    case (Cons p ps)
    with post have "p = StatusRetired" "successively CanTransition (p # ps)"
      using CanTransition_simps(3) by auto
    with Cons show ?thesis using retired_last by metis
  qed simp
  moreover
  have "CanTransition (last (StatusCandidate # pre)) StatusChampion"
    using ch by (metis append_Cons list.sel(1) list.discI successively_append_iff)
  then have last_pre: "last (StatusCandidate # pre) = StatusPaper" by (rule into_champion)
  then obtain x pre' where pre: "pre = x # pre'" by (cases pre) auto
  have "CanTransition StatusCandidate x" "successively CanTransition (x # pre' @ StatusChampion # post)"
    using ch by (auto simp: pre)
  then have x: "x = StatusShadow"
    using CanTransition_simps(1) retired_last by (metis append_is_Nil_conv list.discI)
  with last_pre have "last (x # pre') = StatusPaper" "pre' \<noteq> []" by (auto simp: pre)
  then have "pre' = butlast pre' @ [StatusPaper]" by (metis append_butlast_last_id last_ConsR)
  ultimately show ?thesis using x sp pre by (metis append_Cons append_Nil append_assoc)
qed

section \<open>Correctness\<close>

lemma run_last_inv: "models_inv db \<Longrightarrow> models_inv (last (registry_run cause qs db))"
proof (induction qs arbitrary: db)
  case (Cons q qs)
  then show ?case using registry_step_ok(1) [OF Cons.prems, of cause q] by (cases qs) auto
qed simp

text \<open>
  C19. Handling any sequence of requests, whatever fails in the database, every model climbs the
  promotion ladder rung by rung: its history starts as a candidate and only makes moves of the
  transition table, so a model that is or was champion went through shadow and reached champion
  straight from paper, and can afterwards only be retired; and the move to champion is only ever
  made by a status request that carries the confirmation.
\<close>
theorem models_climb_the_ladder:
  assumes "states = registry_run cause qs empty_models" "h = status_history i states"
  shows "successively CanTransition h \<and> (h = [] \<or> hd h = StatusCandidate) \<and>
    (StatusChampion \<in> set h \<longrightarrow>
      (\<exists>mid post. h = [StatusCandidate, StatusShadow] @ mid @ [StatusPaper, StatusChampion] @ post \<and>
        (post = [] \<or> post = [StatusRetired]))) \<and>
    (\<forall>q r r'. model_of (last states) i = Some r \<longrightarrow> md_Status r \<noteq> StatusChampion \<longrightarrow>
      model_of (registry_step cause q (last states)) i = Some r' \<longrightarrow> md_Status r' = StatusChampion \<longrightarrow>
      confirmed q \<and> md_Status r = StatusPaper)"
proof (intro conjI allI impI)
  have "model_of empty_models i = None" by (simp add: model_of_def empty_models_def)
  note hist = run_history [OF empty_models_inv this, of cause qs, folded assms]
  show "successively CanTransition h" "h = [] \<or> hd h = StatusCandidate" using hist by auto
  show "\<exists>mid post. h = [StatusCandidate, StatusShadow] @ mid @ [StatusPaper, StatusChampion] @ post \<and>
      (post = [] \<or> post = [StatusRetired])" if "StatusChampion \<in> set h"
  proof -
    from hist that obtain ss where ss: "h = StatusCandidate # ss"
      "successively CanTransition (StatusCandidate # ss)" by auto
    with that have "StatusChampion \<in> set ss" by auto
    from climb [OF ss(2) this] ss(1) show ?thesis by auto
  qed
next
  fix q r r'
  assume *: "model_of (last states) i = Some r" "md_Status r \<noteq> StatusChampion"
    "model_of (registry_step cause q (last states)) i = Some r'" "md_Status r' = StatusChampion"
  have "row_step (confirmed q) (model_of (last states) i) (model_of (registry_step cause q (last states)) i)"
    unfolding assms by (intro registry_step_ok run_last_inv empty_models_inv)
  with * show "confirmed q" "md_Status r = StatusPaper"
    using into_champion [of "md_Status r"] by (auto simp: row_step_def)
qed

text \<open>A run that registers a model and promotes it to champion.\<close>

definition demo_model :: "nat Model" where
  "demo_model = \<lparr>md_ID = 0, md_Family = ''fairvalue'', md_Version = 1, md_TrainedAt = 10, md_TrainFromTS = 1,
     md_TrainToTS = 9, md_FeatureHash = ''h'', md_ArtifactPath = ''p'', md_ArtifactSHA = ''s'',
     md_Metrics = 0, md_Status = [], md_TrialIndex = 0\<rparr>"

definition demo_status :: "string \<Rightarrow> nat model_request" where
  "demo_status to = StatusRequest env0 \<lparr>rq_Method = ''POST'',
     rq_Query = (\<lambda>k. if k = ''confirm'' then ''true'' else []), rq_Header = (\<lambda>_. []),
     rq_PathValue = (\<lambda>k. if k = ''id'' then ''1'' else []), rq_Body = Some to\<rparr>"

definition demo_requests :: "nat model_request list" where
  "demo_requests =
     [ModelsRequest True env0 \<lparr>rq_Method = ''POST'', rq_Query = (\<lambda>_. []), rq_Header = (\<lambda>_. []),
        rq_PathValue = (\<lambda>_. []), rq_Body = Some demo_model\<rparr>,
      demo_status ''shadow'', demo_status ''champion'', demo_status ''paper'', demo_status ''champion'']"

lemma demo_history:
  "status_history 1 (registry_run [] demo_requests empty_models) =
     [''candidate'', ''shadow'', ''paper'', ''champion'']"
  by code_simp

theorem models_climb_the_ladder_witness:
  "\<exists>mid post. status_history 1 (registry_run [] demo_requests empty_models) =
     [''candidate'', ''shadow''] @ mid @ [''paper'', ''champion''] @ post"
  using models_climb_the_ladder [OF refl refl, of 1 "[]" demo_requests] by (auto simp: demo_history)

text \<open>The documented answer to a status request, read off the abstract table.\<close>

definition well_formed :: "string http_request \<Rightarrow> bool" where
  "well_formed r \<longleftrightarrow> rq_PathValue r ''id'' \<noteq> [] \<and> ParseInt (rq_PathValue r ''id'') \<noteq> None \<and>
     (\<exists>to. rq_Body r = Some to \<and>
        known_status to)"

definition status_answer :: "db_fault \<Rightarrow> string http_request \<Rightarrow> (int \<Rightarrow> 'm Model option) \<Rightarrow> int" where
  "status_answer fault r models =
     (if \<not> well_formed r then 400
      else if rq_Body r = Some StatusChampion \<and> rq_Query r ''confirm'' \<noteq> ''true'' then 403
      else if fault = FaultFirst then 500
      else
        (case models (the (ParseInt (rq_PathValue r ''id''))) of
           None \<Rightarrow> 500
         | Some row \<Rightarrow>
             (if \<not> CanTransition (md_Status row) (the (rq_Body r)) then 409
              else if fault \<noteq> NoFault then 500
              else 200)))"

lemma parseInt64_eq: "parseInt64 s = ParseInt s"
  by (simp add: parseInt64_def parseInt64Impl_def)

text \<open>
  C20. A status request is answered and applied as documented, for every registry a run leads to:
  the answer is 200 exactly when the request is well formed, a champion promotion is confirmed, the
  model exists, the move is on the ladder and the database works; then that model's status, and
  nothing else, has changed. A malformed request is answered 400, an unconfirmed promotion 403, a
  move off the ladder 409 and a missing model or a failing database 500, and none of them changes
  the registry.
\<close>
theorem status_request_outcome:
  assumes db: "db = last (registry_run cause0 qs empty_models)" and post: "rq_Method r = ''POST''"
    and run: "handleModelStatus cause True env r db = (db', resp)"
  shows "status_code resp = status_answer (tx_fault env) r (model_of db) \<and>
    (if status_code resp = 200
     then \<exists>i to row. ParseInt (rq_PathValue r ''id'') = Some i \<and> rq_Body r = Some to \<and>
            model_of db i = Some row \<and> model_of db' = (model_of db)(i \<mapsto> row\<lparr>md_Status := to\<rparr>)
     else db' = db)"
proof (cases "well_formed r \<and> \<not> (rq_Body r = Some StatusChampion \<and> rq_Query r ''confirm'' \<noteq> ''true'')")
  case False
  then have ans: "status_answer (tx_fault env) r (model_of db) = (if \<not> well_formed r then 400 else 403)"
    by (auto simp: status_answer_def)
  show ?thesis
    using False run post unfolding ans handleModelStatus_def parseInt64_eq
    by (cases "ParseInt (rq_PathValue r ''id'')"; cases "rq_Body r") (auto simp: well_formed_def split: if_splits)
next
  case True
  then obtain i to where req: "ParseInt (rq_PathValue r ''id'') = Some i" "rq_Body r = Some to"
    "rq_PathValue r ''id'' \<noteq> []"
    "known_status to"
    "\<not> (to = StatusChampion \<and> rq_Query r ''confirm'' \<noteq> ''true'')"
    unfolding well_formed_def by blast
  have "handleModelStatus cause True env r db =
      (case Models_UpdateStatus env i to db of
         (db', Some err) \<Rightarrow>
           (db', case err of
              TransitionError _ _ _ \<Rightarrow> writeProblem 409 ''illegal_transition'' (Error_text cause err)
            | _ \<Rightarrow> writeProblem 500 ''update_failed'' (Error_text cause err))
       | (db', None) \<Rightarrow> (db', writeJSON 200 (StatusSet i to)))"
    using req post unfolding handleModelStatus_def by (simp only: parseInt64_eq) auto
  note eq = this [unfolded run]
  have ans: "status_answer (tx_fault env) r (model_of db) =
     (if tx_fault env = FaultFirst then 500
      else (case model_of db i of
           None \<Rightarrow> 500
         | Some row \<Rightarrow> (if \<not> CanTransition (md_Status row) to then 409
              else if tx_fault env \<noteq> NoFault then 500 else 200)))"
    using True req unfolding status_answer_def by (cases "model_of db i") auto
  have inv: "models_inv db" unfolding db by (intro run_last_inv empty_models_inv)
  from inv show ?thesis
  proof (cases rule: UpdateStatus_cases [where env = env and i = i and to = to])
    case (fault err)
    then show ?thesis using eq ans by (auto split: option.splits)
  next
    case (ok row db'')
    then show ?thesis using eq ans req by auto
  qed (use eq ans in auto)
qed

definition demo_db :: "nat models_db" where
  "demo_db = last (registry_run [] (take 1 demo_requests) empty_models)"

definition demo_promote :: "string http_request" where
  "demo_promote = \<lparr>rq_Method = ''POST'', rq_Query = (\<lambda>k. if k = ''confirm'' then ''true'' else []),
     rq_Header = (\<lambda>_. []), rq_PathValue = (\<lambda>k. if k = ''id'' then ''1'' else []), rq_Body = Some ''champion''\<rparr>"

lemma demo_promote_refused:
  "fst (handleModelStatus [] True env0 demo_promote demo_db) = demo_db"
  "status_code (snd (handleModelStatus [] True env0 demo_promote demo_db)) = 409"
  by code_simp+

theorem status_request_outcome_witness:
  "status_answer NoFault demo_promote (model_of demo_db) = 409 \<and> rq_Method demo_promote = ''POST''"
proof -
  have "rq_Method demo_promote = ''POST''" "tx_fault env0 = NoFault" by (simp_all add: demo_promote_def env0_def)
  with status_request_outcome [OF demo_db_def this(1), of "[]" env0, OF surjective_pairing]
  show ?thesis by (simp add: demo_promote_refused)
qed

text \<open>
  The read and the write of \<open>UpdateStatus\<close> are two statements. When two requests for the same model
  interleave between them, both pass the check and the second write is a move off the ladder.
\<close>

definition demo_paper :: "nat models_db" where
  "demo_paper = last (registry_run [] (take 4 demo_requests) empty_models)"

lemma interleaved_updates_leave_ladder:
  "UpdateStatus_check env0 1 ''champion'' demo_paper = None \<and>
   UpdateStatus_check env0 1 ''shadow'' demo_paper = None \<and>
   (let db1 = fst (UpdateStatus_write env0 1 ''champion'' demo_paper);
        db2 = fst (UpdateStatus_write env0 1 ''shadow'' db1) in
    map_option md_Status (model_of db1 1) = Some ''champion'' \<and>
    map_option md_Status (model_of db2 1) = Some ''shadow'' \<and>
    \<not> CanTransition ''champion'' ''shadow'')"
  by code_simp

end
