(* ===== verification/Paging.thy ===== *)
theory Paging
  imports HttpApi OrderStore "HOL-Library.Product_Lexorder"
begin

text \<open>
  The two cursor-paginated listings of the dashboard API, \<open>handleOrders\<close> and \<open>handleLedger\<close> of
  \<open>httpapi/handlers.go\<close>. A listing is ordered by time stamp and identifier, newest first; a page is
  fetched with one row more than its limit, and the cursor of the next page names the last row kept.
  A statement that fails leaves the result empty (its error is not checked); the rows delivered for
  a statement with more placeholders than arguments are a parameter.
\<close>

section \<open>One page\<close>

type_synonym page_key = "int \<times> int"

text \<open>\<open>WHERE key < cursor ORDER BY key DESC LIMIT n\<close>; rows compare lexicographically in SQL.\<close>

definition select_page :: "('r \<Rightarrow> page_key) \<Rightarrow> page_key option \<Rightarrow> int \<Rightarrow> 'r list \<Rightarrow> 'r list" where
  "select_page key before n rows =
     take (nat n) (rev (sort_key key
       (filter (\<lambda>r. case before of None \<Rightarrow> True | Some k \<Rightarrow> key r < k) rows)))"

text \<open>The extra row is cut off and turned into the cursor of the next page.\<close>

definition cut_page :: "('r \<Rightarrow> page_key) \<Rightarrow> int \<Rightarrow> 'r list \<Rightarrow> 'r list \<times> string" where
  "cut_page key limit rows =
     (if int (length rows) > limit then
        (let l = rows ! nat (limit - 1) in
         (take (nat limit) rows, buildCursor (fst (key l)) (snd (key l))))
      else (rows, []))"

section \<open>The handlers\<close>

record orderJSON =
  oj_id :: int
  oj_client_order_id :: string
  oj_event_ticker :: string
  oj_market_ticker :: string
  oj_strategy :: string
  oj_action :: string
  oj_contracts :: int
  oj_price_cents :: int
  oj_status :: string
  oj_gate_reason :: string
  oj_fill_count :: int
  oj_fill_price_cents :: int
  oj_ts_intent :: int
  oj_ts_submitted :: "int option"
  oj_ts_acked :: "int option"

definition order_columns :: "orderRow \<Rightarrow> orderJSON" where
  "order_columns r = \<lparr>oj_id = od_ID r, oj_client_order_id = od_ClientOrderID r,
     oj_event_ticker = od_EventTicker r, oj_market_ticker = od_MarketTicker r,
     oj_strategy = od_Strategy r, oj_action = od_Action r, oj_contracts = od_Contracts r,
     oj_price_cents = od_PriceCents r, oj_status = od_Status r, oj_gate_reason = od_GateReason r,
     oj_fill_count = od_FillCount r, oj_fill_price_cents = od_FillPriceCents r,
     oj_ts_intent = od_TSIntent r, oj_ts_submitted = od_TSSubmitted r, oj_ts_acked = od_TSAcked r\<rparr>"

definition order_key :: "orderJSON \<Rightarrow> page_key" where
  "order_key o1 = (oj_ts_intent o1, oj_id o1)"

definition orders_listing :: "string \<Rightarrow> orders_db \<Rightarrow> orderJSON list" where
  "orders_listing status db =
     map order_columns (filter (\<lambda>r. status \<noteq> [] \<longrightarrow> od_Status r = status) (or_rows db))"

definition handleOrders ::
  "bool \<Rightarrow> db_fault \<Rightarrow> orderJSON list \<Rightarrow> 'b http_request \<Rightarrow> orders_db \<Rightarrow> (orderJSON list \<times> string) response" where
  "handleOrders has_db fault mismatched r db =
     checkDB has_db
       (let (cursor, limit) = parseCursor r;
            listing = orders_listing (rq_Query r ''status'') db;
            orders =
              (if fault \<noteq> NoFault then []
               else if cursor \<noteq> [] then
                 (case parseCursorPair cursor of
                    Some k \<Rightarrow> select_page order_key (Some k) (limit + 1) listing
                  | None \<Rightarrow> mismatched)
               else select_page order_key None (limit + 1) listing) in
        writeJSON 200 (cut_page order_key limit orders))"

definition entry_key :: "Entry \<Rightarrow> page_key" where
  "entry_key e = (en_TS e, en_ID e)"

definition handleLedger ::
  "bool \<Rightarrow> db_fault \<Rightarrow> 'b http_request \<Rightarrow> ledger_db \<Rightarrow> (Entry list \<times> string) response" where
  "handleLedger has_db fault r db =
     checkDB has_db
       (let (cursor, limit) = parseCursor r;
            before = (if cursor \<noteq> [] then parseCursorPair cursor else None);
            entries =
              (if fault \<noteq> NoFault then []
               else select_page entry_key before (limit + 1) (pl_rows db)) in
        writeJSON 200 (cut_page entry_key limit entries))"

section \<open>Walking the pages\<close>

text \<open>A client that follows the cursors until there is none; \<open>None\<close> when it never gets there.\<close>

partial_function (option) walk :: "(string \<Rightarrow> 'r list \<times> string) \<Rightarrow> string \<Rightarrow> 'r list list option" where
  "walk fetch cursor =
     (let (page, next_cursor) = fetch cursor in
      if next_cursor = [] then Some [page]
      else Option.bind (walk fetch next_cursor) (\<lambda>pages. Some (page # pages)))"

text \<open>In a strictly descending list the elements below the \<open>k\<close>-th are those after it.\<close>

lemma below_nth:
  fixes key :: "'r \<Rightarrow> 'k :: linorder"
  shows "sorted_wrt (\<lambda>a b. key b < key a) xs \<Longrightarrow> k < length xs \<Longrightarrow>
    filter (\<lambda>r. key r < key (xs ! k)) xs = drop (Suc k) xs"
proof (induction xs arbitrary: k)
  case (Cons x xs)
  show ?case
  proof (cases k)
    case 0
    with Cons.prems show ?thesis by (simp add: filter_True)
  next
    case (Suc j)
    with Cons.prems have "\<not> key x < key (xs ! j)" by (auto simp: not_less intro: less_imp_le)
    with Suc Cons show ?thesis by simp
  qed
qed simp

lemma pages_count:
  assumes "0 < L"
  shows "n \<le> L \<Longrightarrow> max 1 ((n + L - 1) div L) = 1"
    "L < n \<Longrightarrow> max 1 ((n + L - 1) div L) = Suc (max 1 ((n - L + L - 1) div L))"
proof -
  show "max 1 ((n + L - 1) div L) = 1" if "n \<le> L"
  proof -
    have "(n + L - 1) div L < 2" using that assms by (intro div_less_iff_less_mult [THEN iffD2]) auto
    then show ?thesis by simp
  qed
  show "max 1 ((n + L - 1) div L) = Suc (max 1 ((n - L + L - 1) div L))" if "L < n"
  proof -
    have "(n + L - 1) div L = Suc ((n - 1) div L)"
      using that assms by (metis (no_types) Nat.add_diff_assoc2 One_nat_def Suc_leI add.commute div_add_self1 less_trans
          less_numeral_extra(3) plus_1_eq_Suc)
    moreover have "1 \<le> (n - 1) div L" using that assms by (simp add: div_greater_zero_iff Suc_le_eq)
    ultimately show ?thesis using that by simp
  qed
qed

text \<open>
  What a paginated listing promises: on a valid state with distinct 64-bit keys, the first page and
  the page after a key are cut from the ordered table.
\<close>

locale cursor_feed =
  fixes key :: "'r \<Rightarrow> page_key"
    and table :: "'s \<Rightarrow> 'r list"
    and fetch :: "'s \<Rightarrow> int \<Rightarrow> string \<Rightarrow> 'r list \<times> string"
    and valid :: "'s \<Rightarrow> bool"
  assumes distinct_keys: "valid s \<Longrightarrow> distinct (map key (table s))"
    and int64_keys: "valid s \<Longrightarrow> r \<in> set (table s) \<Longrightarrow> in_int64 (fst (key r)) \<and> in_int64 (snd (key r))"
    and first_page: "valid s \<Longrightarrow> 1 \<le> limit \<Longrightarrow> limit \<le> 500 \<Longrightarrow>
      fetch s limit [] = cut_page key limit (select_page key None (limit + 1) (table s))"
    and next_page: "valid s \<Longrightarrow> 1 \<le> limit \<Longrightarrow> limit \<le> 500 \<Longrightarrow> in_int64 a \<Longrightarrow> in_int64 b \<Longrightarrow>
      fetch s limit (buildCursor a b) =
        cut_page key limit (select_page key (Some (a, b)) (limit + 1) (table s))"
begin

definition listing :: "'s \<Rightarrow> 'r list" where
  "listing s = rev (sort_key key (table s))"

lemma set_listing [simp]: "set (listing s) = set (table s)"
  by (simp add: listing_def)

lemma listing_descends: "valid s \<Longrightarrow> sorted_wrt (\<lambda>a b. key b < key a) (listing s)"
proof -
  assume v: "valid s"
  have "sorted (map key (sort_key key (table s)))" by simp
  moreover have "distinct (map key (sort_key key (table s)))"
    using distinct_keys [OF v] by (simp add: distinct_map)
  ultimately have "sorted_wrt (<) (map key (sort_key key (table s)))"
    by (simp only: strict_sorted_iff)
  then have "sorted_wrt (\<lambda>a b. key a < key b) (sort_key key (table s))"
    by (simp only: sorted_wrt_map)
  then show ?thesis by (simp add: listing_def sorted_wrt_rev)
qed

lemma select_first: "select_page key None n (table s) = take (nat n) (listing s)"
  by (simp add: select_page_def listing_def)

lemma select_after: "valid s \<Longrightarrow> k < length (listing s) \<Longrightarrow>
  select_page key (Some (key (listing s ! k))) n (table s) = take (nat n) (drop (Suc k) (listing s))"
proof -
  assume v: "valid s" and k: "k < length (listing s)"
  have "rev (sort_key key (filter P (table s))) = filter P (listing s)" for P
    by (simp add: listing_def filter_sort [symmetric] rev_filter)
  then show ?thesis
    using below_nth [OF listing_descends [OF v] k] by (simp add: select_page_def)
qed

text \<open>The page that starts at row \<open>k\<close> of the listing.\<close>

lemma page_at:
  assumes "valid s" "1 \<le> limit" "limit \<le> 500"
    and cursor: "k = 0 \<and> c = [] \<or> 0 < k \<and> k \<le> length (listing s) \<and>
      c = buildCursor (fst (key (listing s ! (k - 1)))) (snd (key (listing s ! (k - 1))))"
  shows "fetch s limit c = cut_page key limit (take (nat (limit + 1)) (drop k (listing s)))"
  using cursor
proof (elim disjE conjE)
  assume "k = 0" "c = []"
  then show ?thesis using first_page [OF assms(1-3)] by (simp add: select_first)
next
  assume k: "0 < k" "k \<le> length (listing s)"
    and c: "c = buildCursor (fst (key (listing s ! (k - 1)))) (snd (key (listing s ! (k - 1))))"
  have "listing s ! (k - 1) \<in> set (table s)" using k by (metis diff_less less_le_trans nth_mem set_listing zero_less_one)
  with next_page [OF assms(1-3)] int64_keys [OF assms(1)] select_after [OF assms(1), of "k - 1" "limit + 1"] k
  show ?thesis by (simp add: c)
qed

lemma walk_from:
  assumes v: "valid s" "0 < L" "L \<le> 500"
    and cursor: "k = 0 \<and> c = [] \<or> 0 < k \<and> k \<le> length (listing s) \<and>
      c = buildCursor (fst (key (listing s ! (k - 1)))) (snd (key (listing s ! (k - 1))))"
  shows "\<exists>pages. walk (fetch s (int L)) c = Some pages \<and> concat pages = drop k (listing s) \<and>
    (\<forall>p \<in> set pages. length p \<le> L) \<and>
    length pages = max 1 ((length (listing s) - k + L - 1) div L)"
  using cursor
proof (induction "length (listing s) - k" arbitrary: k c rule: less_induct)
  case less
  have "fetch s (int L) c = cut_page key (int L) (take (nat (int L + 1)) (drop k (listing s)))"
    using v by (intro page_at less.prems) auto
  then have page: "fetch s (int L) c = cut_page key (int L) (take (Suc L) (drop k (listing s)))"
    by (simp add: nat_add_distrib)
  show ?case
  proof (cases "length (listing s) - k \<le> L")
    case True
    then have "fetch s (int L) c = (drop k (listing s), [])" by (simp add: page cut_page_def)
    with True pages_count(1) [OF v(2) True] show ?thesis by (subst walk.simps) auto
  next
    case False
    then have k: "L < length (listing s) - k" by simp
    define l where "l = listing s ! (k + L - 1)"
    have "take (Suc L) (drop k (listing s)) ! (L - 1) = l"
      using k v(2) by (simp add: l_def add.commute)
    then have f: "fetch s (int L) c = (take L (drop k (listing s)), buildCursor (fst (key l)) (snd (key l)))"
      using k v(2) by (simp add: page cut_page_def nat_diff_distrib min_def)
    have less': "length (listing s) - (k + L) < length (listing s) - k" "k + L \<le> length (listing s)"
      using k v(2) by linarith+
    obtain pages where "walk (fetch s (int L)) (buildCursor (fst (key l)) (snd (key l))) = Some pages"
      "concat pages = drop (k + L) (listing s)" "\<forall>p \<in> set pages. length p \<le> L"
      "length pages = max 1 ((length (listing s) - (k + L) + L - 1) div L)"
      using less.hyps [OF less'(1), of "buildCursor (fst (key l)) (snd (key l))"] less'(2) v(2)
      by (auto simp: l_def)
    moreover have "take L (drop k (listing s)) @ drop (k + L) (listing s) = drop k (listing s)"
      by (metis add.commute append_take_drop_id drop_drop)
    moreover have "length (listing s) - k - L = length (listing s) - (k + L)" by simp
    ultimately show ?thesis
      using f pages_count(2) [OF v(2) k] by (subst walk.simps) simp
  qed
qed

text \<open>The walk ends, with the whole listing cut into full pages.\<close>

lemma walk_all:
  assumes "valid s" "0 < L" "L \<le> 500"
  shows "\<exists>pages. walk (fetch s (int L)) [] = Some pages \<and> concat pages = rev (sort_key key (table s)) \<and>
    (\<forall>p \<in> set pages. length p \<le> L) \<and> length pages = max 1 ((length (table s) + L - 1) div L)"
  using walk_from [OF assms, of 0 "[]"] by (simp add: listing_def)

end

section \<open>The two listings\<close>

text \<open>A page request of a client, and the page in the answer.\<close>

definition page_request :: "string \<Rightarrow> int \<Rightarrow> string \<Rightarrow> unit http_request" where
  "page_request status limit cursor =
     \<lparr>rq_Method = ''GET'',
      rq_Query = (\<lambda>k. if k = ''status'' then status else if k = ''limit'' then show_int limit
                   else if k = ''cursor'' then cursor else []),
      rq_Header = (\<lambda>_. []), rq_PathValue = (\<lambda>_. []), rq_Body = None\<rparr>"

fun page_of :: "('r list \<times> string) response \<Rightarrow> 'r list \<times> string" where
  "page_of (writeJSON _ p) = p"
| "page_of _ = ([], [])"

definition orders_fetch :: "orderJSON list \<Rightarrow> (string \<times> orders_db) \<Rightarrow> int \<Rightarrow> string \<Rightarrow> orderJSON list \<times> string" where
  "orders_fetch mismatched s limit cursor =
     page_of (handleOrders True NoFault mismatched (page_request (fst s) limit cursor) (snd s))"

definition ledger_fetch :: "ledger_db \<Rightarrow> int \<Rightarrow> string \<Rightarrow> Entry list \<times> string" where
  "ledger_fetch db limit cursor = page_of (handleLedger True NoFault (page_request [] limit cursor) db)"

text \<open>What the tables guarantee: unique identifiers, and \<open>bigint\<close> columns.\<close>

definition orders_keys_ok :: "(string \<times> orders_db) \<Rightarrow> bool" where
  "orders_keys_ok s \<longleftrightarrow> distinct (map od_ID (or_rows (snd s))) \<and>
     list_all (\<lambda>r. in_int64 (od_TSIntent r) \<and> in_int64 (od_ID r)) (or_rows (snd s))"

definition ledger_keys_ok :: "ledger_db \<Rightarrow> bool" where
  "ledger_keys_ok db \<longleftrightarrow> distinct (map en_ID (pl_rows db)) \<and>
     list_all (\<lambda>e. in_int64 (en_TS e) \<and> in_int64 (en_ID e)) (pl_rows db)"

lemma parse_page_request:
  "1 \<le> limit \<Longrightarrow> limit \<le> 500 \<Longrightarrow> parseCursor (page_request st limit c) = (c, limit)"
proof -
  assume l: "1 \<le> limit" "limit \<le> 500"
  then have "in_int64 limit" by (simp add: int64_bounds)
  with l show ?thesis
    by (simp add: parseCursor_def page_request_def ParseInt_show)
qed

lemma distinct_keys_map:
  "distinct (map f xs) \<Longrightarrow> (\<And>x. x \<in> set xs \<Longrightarrow> snd (key (g x)) = f x) \<Longrightarrow> distinct (map key (map g (filter P xs)))"
  by (induction xs) (auto simp: image_iff, metis)

interpretation order_pages: cursor_feed order_key "\<lambda>s. orders_listing (fst s) (snd s)"
  "orders_fetch mismatched" orders_keys_ok
proof
  fix s :: "string \<times> orders_db" and r limit a b
  assume v: "orders_keys_ok s"
  show "distinct (map order_key (orders_listing (fst s) (snd s)))"
    using v unfolding orders_listing_def orders_keys_ok_def
    by (intro distinct_keys_map [where f = od_ID]) (simp_all add: order_key_def order_columns_def)
  show "in_int64 (fst (order_key r)) \<and> in_int64 (snd (order_key r))"
    if "r \<in> set (orders_listing (fst s) (snd s))"
    using v that by (auto simp: orders_listing_def orders_keys_ok_def order_key_def order_columns_def list_all_iff)
  assume l: "(1 :: int) \<le> limit" "limit \<le> 500"
  have st: "rq_Query (page_request (fst s) limit c) ''status'' = fst s" for c
    by (simp add: page_request_def)
  show "orders_fetch mismatched s limit [] =
      cut_page order_key limit (select_page order_key None (limit + 1) (orders_listing (fst s) (snd s)))"
    by (simp add: orders_fetch_def handleOrders_def checkDB_def parse_page_request [OF l] st)
  show "orders_fetch mismatched s limit (buildCursor a b) =
      cut_page order_key limit (select_page order_key (Some (a, b)) (limit + 1) (orders_listing (fst s) (snd s)))"
    if "in_int64 a" "in_int64 b"
    using that by (simp add: orders_fetch_def handleOrders_def checkDB_def parse_page_request [OF l] st)
qed

interpretation ledger_pages: cursor_feed entry_key pl_rows ledger_fetch ledger_keys_ok
proof
  fix db r limit a b
  assume v: "ledger_keys_ok db"
  show "distinct (map entry_key (pl_rows db))"
    using v distinct_keys_map [where f = en_ID and key = entry_key and g = id and P = "\<lambda>_. True"]
    by (simp add: ledger_keys_ok_def entry_key_def)
  show "in_int64 (fst (entry_key r)) \<and> in_int64 (snd (entry_key r))" if "r \<in> set (pl_rows db)"
    using v that by (auto simp: ledger_keys_ok_def entry_key_def list_all_iff)
  assume l: "(1 :: int) \<le> limit" "limit \<le> 500"
  show "ledger_fetch db limit [] =
      cut_page entry_key limit (select_page entry_key None (limit + 1) (pl_rows db))"
    by (simp add: ledger_fetch_def handleLedger_def checkDB_def parse_page_request [OF l])
  show "ledger_fetch db limit (buildCursor a b) =
      cut_page entry_key limit (select_page entry_key (Some (a, b)) (limit + 1) (pl_rows db))"
    if "in_int64 a" "in_int64 b"
    using that by (simp add: ledger_fetch_def handleLedger_def checkDB_def parse_page_request [OF l])
qed

text \<open>
  C21. Following the cursors of the order listing ends, for every page size from 1 to 500 and every
  status filter, after the least number of pages that can hold the rows, and the pages put together
  are every matching order exactly once, newest first; no page exceeds the limit.
\<close>
theorem order_pages_cover_listing:
  assumes "orders_keys_ok (status, db)" "0 < L" "L \<le> 500"
  shows "\<exists>pages. walk (\<lambda>cursor. page_of (handleOrders True NoFault mismatched
           (page_request status (int L) cursor) db)) [] = Some pages \<and>
    concat pages = rev (sort_key order_key (orders_listing status db)) \<and>
    (\<forall>p \<in> set pages. length p \<le> L) \<and>
    length pages = max 1 ((length (orders_listing status db) + L - 1) div L)"
proof -
  have "orders_fetch mismatched (status, db) (int L) = (\<lambda>cursor. page_of (handleOrders True NoFault mismatched
           (page_request status (int L) cursor) db))"
    by (simp add: orders_fetch_def fun_eq_iff)
  with order_pages.walk_all [OF assms, of mismatched] show ?thesis by simp
qed

theorem order_pages_cover_listing_witness:
  "\<exists>pages. walk (\<lambda>cursor. page_of (handleOrders True NoFault []
         (page_request ''intent'' 1 cursor) demo_orders)) [] = Some pages \<and> length pages = 1"
proof -
  have "orders_keys_ok (''intent'', demo_orders)" "length (orders_listing ''intent'' demo_orders) = 1"
    by code_simp+
  with order_pages_cover_listing [of "''intent''" demo_orders 1 "[]"] show ?thesis by auto
qed

text \<open>
  Following the cursors of the ledger listing ends in the same way, and the pages put together
  are every ledger entry exactly once, newest first: no entry is skipped or shown twice at a page
  boundary, also when entries share a time stamp.
\<close>
theorem ledger_pages_cover_ledger:
  assumes "ledger_keys_ok db" "0 < L" "L \<le> 500"
  shows "\<exists>pages. walk (\<lambda>cursor. page_of (handleLedger True NoFault (page_request [] (int L) cursor) db)) []
        = Some pages \<and>
    concat pages = rev (sort_key entry_key (pl_rows db)) \<and> mset (concat pages) = mset (pl_rows db) \<and>
    (\<forall>p \<in> set pages. length p \<le> L) \<and> length pages = max 1 ((length (pl_rows db) + L - 1) div L)"
proof -
  have "ledger_fetch db (int L) = (\<lambda>cursor. page_of (handleLedger True NoFault (page_request [] (int L) cursor) db))"
    by (simp add: ledger_fetch_def fun_eq_iff)
  with ledger_pages.walk_all [OF assms] show ?thesis by (auto simp: mset_rev)
qed

text \<open>Three entries, two of them with the same time stamp, on pages of two.\<close>

definition demo_entry :: "int \<Rightarrow> int \<Rightarrow> Entry" where
  "demo_entry i ts = \<lparr>en_ID = i, en_TS = ts, en_EntryType = EntryDeposit, en_AmountCents = 5,
     en_OrderID = None, en_Note = []\<rparr>"

definition demo_ledger_rows :: ledger_db where
  "demo_ledger_rows = \<lparr>pb_row = Some (15, 0), pl_rows = [demo_entry 1 7, demo_entry 2 9, demo_entry 3 7], pl_next = 4\<rparr>"

theorem ledger_pages_cover_ledger_witness:
  "\<exists>pages. walk (\<lambda>cursor. page_of (handleLedger True NoFault (page_request [] 2 cursor) demo_ledger_rows)) []
        = Some pages \<and>
    concat pages = [demo_entry 2 9, demo_entry 3 7, demo_entry 1 7] \<and> length pages = 2"
proof -
  have "ledger_keys_ok demo_ledger_rows" "length (pl_rows demo_ledger_rows) = 3"
    "rev (sort_key entry_key (pl_rows demo_ledger_rows)) = [demo_entry 2 9, demo_entry 3 7, demo_entry 1 7]"
    by code_simp+
  with ledger_pages_cover_ledger [of demo_ledger_rows 2] show ?thesis by auto
qed

end
