(* ===== verification/SseHub.thy ===== *)
theory SseHub
  imports HttpApi
begin

text \<open>
  The server-sent event stream (\<open>httpapi/sse_hub.go\<close>): a ring buffer of the last 1024 events, and one
  channel of 64 slots per connected client. The hub's mutex makes publishing and subscribing atomic;
  a client's loop takes one event at a time. Event identifiers are unbounded integers (the code's
  64-bit counter cannot wrap in practice). Writes to a connection are taken to succeed.
\<close>

section \<open>State\<close>

record sseEvent =
  se_ID :: int
  se_Topic :: string
  se_Data :: string
  se_TS :: int

definition ringBufferSize :: nat where "ringBufferSize = 1024"

definition sub_cap :: nat where "sub_cap = 64"

text \<open>
  A connection: the local variables of \<open>handleStream\<close>, its channel, and what it has written. The last
  two fields only record what happened (how many events had been published when it subscribed, and
  which were dropped for it).
\<close>

record stream_conn =
  sc_topicSet :: "string list"
  sc_resumeFrom :: int
  sc_ch :: "sseEvent list"
  sc_written :: "sseEvent list"
  sc_joined :: nat
  sc_missed :: "sseEvent list"

text \<open>\<open>hub_log\<close> records everything published; the code keeps only \<open>hub_buf\<close>.\<close>

record sseHub =
  hub_buf :: "sseEvent list"
  hub_nextID :: int
  hub_subs :: "nat \<rightharpoonup> stream_conn"
  hub_log :: "sseEvent list"

definition newSSEHub :: sseHub where
  "newSSEHub = \<lparr>hub_buf = [], hub_nextID = 0, hub_subs = Map.empty, hub_log = []\<rparr>"

section \<open>Operations\<close>

text \<open>The \<open>select\<close> of the broadcast, for one subscriber.\<close>

definition sub_offer :: "sseEvent \<Rightarrow> stream_conn \<Rightarrow> stream_conn" where
  "sub_offer evt c =
     (case chan_try_send sub_cap evt (sc_ch c) of
        Some q \<Rightarrow> c\<lparr>sc_ch := q\<rparr>
      | None \<Rightarrow> c\<lparr>sc_missed := sc_missed c @ [evt]\<rparr>)"

definition Publish :: "string \<Rightarrow> string \<Rightarrow> int \<Rightarrow> sseHub \<Rightarrow> sseHub" where
  "Publish topic data now h =
     (let evt = \<lparr>se_ID = hub_nextID h, se_Topic = topic, se_Data = data, se_TS = now\<rparr>;
          buf = (if length (hub_buf h) \<ge> ringBufferSize then drop 1 (hub_buf h) else hub_buf h) in
      \<lparr>hub_buf = buf @ [evt], hub_nextID = hub_nextID h + 1,
       hub_subs = (\<lambda>k. map_option (sub_offer evt) (hub_subs h k)),
       hub_log = hub_log h @ [evt]\<rparr>)"

function splitComma_loop :: "string \<Rightarrow> nat \<Rightarrow> nat \<Rightarrow> string list \<Rightarrow> string list" where
  "splitComma_loop s start i result =
     (if i \<le> length s then
        (if i = length s \<or> s ! i = CHR '','' then
           splitComma_loop s (i + 1) (i + 1)
             (if i > start then result @ [take (i - start) (drop start s)] else result)
         else splitComma_loop s start (i + 1) result)
      else result)"
  by pat_completeness auto
termination
  by (relation "measure (\<lambda>(s, start, i, result). Suc (length s) - i)") auto

declare splitComma_loop.simps [simp del]

definition splitComma :: "string \<Rightarrow> string list" where
  "splitComma s = splitComma_loop s 0 0 []"

definition topic_passes :: "string list \<Rightarrow> sseEvent \<Rightarrow> bool" where
  "topic_passes topicSet evt \<longleftrightarrow> \<not> (topicSet \<noteq> [] \<and> se_Topic evt \<notin> set topicSet)"

text \<open>The beginning of \<open>handleStream\<close>: the query, the replay of the buffer and the subscription.\<close>

definition stream_topics :: "'b http_request \<Rightarrow> string list" where
  "stream_topics r =
     (let topics = rq_Query r ''topics'' in if topics \<noteq> [] then splitComma topics else [])"

definition stream_resume :: "'b http_request \<Rightarrow> int" where
  "stream_resume r =
     (let lastEventID = rq_Header r ''Last-Event-ID'' in
      if lastEventID \<noteq> [] then (case parseInt lastEventID of Some n \<Rightarrow> n | None \<Rightarrow> 0) else 0)"

definition stream_open :: "nat \<Rightarrow> 'b http_request \<Rightarrow> sseHub \<Rightarrow> sseHub" where
  "stream_open k r h =
     (let topicSet = stream_topics r;
          resumeFrom = stream_resume r;
          replay = filter (\<lambda>evt. \<not> se_ID evt \<le> resumeFrom \<and> topic_passes topicSet evt) (hub_buf h) in
      h\<lparr>hub_subs := (hub_subs h)(k \<mapsto>
          \<lparr>sc_topicSet = topicSet, sc_resumeFrom = resumeFrom, sc_ch = [], sc_written = replay,
           sc_joined = length (hub_log h), sc_missed = []\<rparr>)\<rparr>)"

text \<open>One turn of its loop (\<open>None\<close>: it waits), and its end.\<close>

definition stream_turn :: "nat \<Rightarrow> sseHub \<Rightarrow> sseHub option" where
  "stream_turn k h =
     Option.bind (hub_subs h k) (\<lambda>c.
     Option.bind (chan_recv (sc_ch c)) (\<lambda>(evt, q).
       (let c1 = c\<lparr>sc_ch := q\<rparr>;
            c2 = (if topic_passes (sc_topicSet c) evt then c1\<lparr>sc_written := sc_written c1 @ [evt]\<rparr> else c1) in
        Some (h\<lparr>hub_subs := (hub_subs h)(k \<mapsto> c2)\<rparr>))))"

definition stream_close :: "nat \<Rightarrow> sseHub \<Rightarrow> sseHub" where
  "stream_close k h = h\<lparr>hub_subs := (hub_subs h)(k := None)\<rparr>"

text \<open>The bytes of one event on the wire.\<close>

definition sse_frame :: "sseEvent \<Rightarrow> string" where
  "sse_frame evt = ''id: '' @ show_int (se_ID evt) @ [CHR 0x0A] @ ''event: '' @ se_Topic evt @ [CHR 0x0A] @
     ''data: '' @ se_Data evt @ [CHR 0x0A, CHR 0x0A]"

inductive hub_step :: "sseHub \<Rightarrow> sseHub \<Rightarrow> bool" where
  publish: "hub_step h (Publish topic data now h)"
| open_conn: "hub_subs h k = None \<Longrightarrow> hub_step h (stream_open k (r :: unit http_request) h)"
| turn: "stream_turn k h = Some h' \<Longrightarrow> hub_step h h'"
| close: "hub_step h (stream_close k h)"

section \<open>Topic lists\<close>

lemma Split_seg:
  assumes "c \<notin> set seg"
  shows "Split c seg = [seg]" "Split c (seg @ c # r) = seg # Split c r"
  using assms by (induction seg) auto

lemma splitComma_loop_spec:
  assumes "start \<le> i" "i \<le> length s \<or> start = i \<and> i = Suc (length s)"
    and "CHR '','' \<notin> set (take (i - start) (drop start s))"
  shows "splitComma_loop s start i result =
     result @ (if start \<le> length s then filter (\<lambda>p. p \<noteq> []) (Split (CHR '','') (drop start s)) else [])"
  using assms
proof (induction s start i result rule: splitComma_loop.induct)
  case (1 s start i result)
  define seg where "seg = take (i - start) (drop start s)"
  show ?case
  proof (cases "i \<le> length s")
    case False
    with "1.prems" show ?thesis by (subst splitComma_loop.simps) auto
  next
    case True
    have split: "drop start s = seg @ drop i s"
      using "1.prems"(1) by (simp add: seg_def) (metis append_take_drop_id drop_drop le_add_diff_inverse2)
    have clean: "CHR '','' \<notin> set seg" using "1.prems"(3) by (simp add: seg_def)
    have len: "length seg = i - start" using True by (simp add: seg_def)
    show ?thesis
    proof (cases "i = length s \<or> s ! i = CHR '',''")
      case at: True
      have "Split (CHR '','') (drop start s) =
          seg # (if Suc i \<le> length s then Split (CHR '','') (drop (Suc i) s) else [])"
      proof (cases "i = length s")
        case True
        with split Split_seg(1) [of "CHR '',''" seg] "1.prems"(3) show ?thesis by (simp add: seg_def)
      next
        case False
        with at True have "drop i s = CHR '','' # drop (Suc i) s" by (metis Cons_nth_drop_Suc le_neq_implies_less)
        with split have "drop start s = seg @ CHR '','' # drop (Suc i) s" by simp
        from Split_seg(2) [OF clean, of "drop (Suc i) s"] show ?thesis
          unfolding \<open>drop start s = seg @ CHR '','' # drop (Suc i) s\<close> using False True by simp
      qed
      moreover have "seg = [] \<longleftrightarrow> \<not> start < i" using len by auto
      ultimately show ?thesis
        using "1.IH"(1) [OF True at] True at "1.prems"(1)
        by (subst splitComma_loop.simps) (auto simp: seg_def not_le)
    next
      case at: False
      with True have i: "i < length s" "s ! i \<noteq> CHR '',''" by auto
      have "take (Suc i - start) (drop start s) = seg @ [s ! i]"
        using i "1.prems"(1) by (simp add: seg_def Suc_diff_le take_Suc_conv_app_nth)
      with "1.prems" i "1.IH"(2) [OF True at] show ?thesis
        using at True by (subst splitComma_loop.simps) (simp add: seg_def)
    qed
  qed
qed

lemma splitComma_parts: "splitComma s = filter (\<lambda>p. p \<noteq> []) (Split (CHR '','') s)"
  using splitComma_loop_spec [of 0 0 s "[]"] by (simp add: splitComma_def)

section \<open>Delivery\<close>

text \<open>Everything ever offered to a connection: what the buffer held beyond its resume point when it
  joined, and all that was published since.\<close>

definition offered :: "sseHub \<Rightarrow> stream_conn \<Rightarrow> sseEvent list" where
  "offered h c =
     filter (\<lambda>e. sc_resumeFrom c < se_ID e) (drop (sc_joined c - ringBufferSize) (take (sc_joined c) (hub_log h)))
     @ drop (sc_joined c) (hub_log h)"

definition conn_ok :: "sseHub \<Rightarrow> stream_conn \<Rightarrow> bool" where
  "conn_ok h c \<longleftrightarrow>
     sc_joined c \<le> length (hub_log h) \<and> length (sc_ch c) \<le> sub_cap \<and>
     set (sc_missed c) \<subseteq> set (drop (sc_joined c) (hub_log h)) \<and>
     sc_written c @ filter (topic_passes (sc_topicSet c)) (sc_ch c) =
       filter (\<lambda>e. topic_passes (sc_topicSet c) e \<and> e \<notin> set (sc_missed c)) (offered h c)"

definition hub_inv :: "sseHub \<Rightarrow> bool" where
  "hub_inv h \<longleftrightarrow>
     map se_ID (hub_log h) = map int [0..<length (hub_log h)] \<and> hub_nextID h = int (length (hub_log h)) \<and>
     hub_buf h = drop (length (hub_log h) - ringBufferSize) (hub_log h) \<and>
     (\<forall>k c. hub_subs h k = Some c \<longrightarrow> conn_ok h c)"

lemma sub_cap_le [simp]: "sub_offer evt c = c\<lparr>sc_ch := sc_ch c @ [evt]\<rparr> \<and> length (sc_ch c) < sub_cap \<or>
    sub_offer evt c = c\<lparr>sc_missed := sc_missed c @ [evt]\<rparr> \<and> sub_cap \<le> length (sc_ch c)"
  by (cases "length (sc_ch c) < sub_cap") (auto simp: sub_offer_def chan_try_send_def)

lemma hub_log_distinct: "map se_ID (hub_log h) = map int [0..<length (hub_log h)] \<Longrightarrow> distinct (hub_log h)"
  by (metis distinct_map distinct_upt inj_of_nat inj_on_subset subset_UNIV)

lemma hub_log_fresh:
  "map se_ID (hub_log h) = map int [0..<length (hub_log h)] \<Longrightarrow> e \<in> set (hub_log h) \<Longrightarrow>
   se_ID e < int (length (hub_log h))"
  by (metis (no_types, lifting) atLeastLessThan_iff image_eqI image_iff list.set_map of_nat_less_iff set_upt)

lemma offered_publish:
  "sc_joined c \<le> length (hub_log h) \<Longrightarrow>
   offered (h\<lparr>hub_log := hub_log h @ [evt]\<rparr>) c = offered h c @ [evt]"
  by (simp add: offered_def)

lemma offered_subset: "set (offered h c) \<subseteq> set (hub_log h)"
  by (auto simp: offered_def dest: in_set_dropD in_set_takeD)

lemma conn_ok_publish:
  assumes ok: "conn_ok h c" and log: "map se_ID (hub_log h) = map int [0..<length (hub_log h)]"
    and evt: "se_ID evt = int (length (hub_log h))" and h': "hub_log h' = hub_log h @ [evt]"
  shows "conn_ok h' (sub_offer evt c)"
proof -
  have fresh: "evt \<notin> set (hub_log h)" using hub_log_fresh [OF log, of evt] evt by auto
  have missed: "set (sc_missed c) \<subseteq> set (hub_log h)" and joined: "sc_joined c \<le> length (hub_log h)"
    using ok by (auto simp: conn_ok_def dest: in_set_dropD)
  have off: "offered h' d = offered h c @ [evt]"
    if "sc_joined d = sc_joined c" "sc_resumeFrom d = sc_resumeFrom c" for d
    using joined that by (simp add: offered_def h')
  have old: "filter (\<lambda>e. P e \<and> e \<noteq> evt) (offered h c) = filter P (offered h c)" for P
    using offered_subset [of h c] fresh by (intro filter_cong) auto
  from sub_cap_le [of evt c] show ?thesis
  proof (elim disjE conjE)
    assume eq: "sub_offer evt c = c\<lparr>sc_ch := sc_ch c @ [evt]\<rparr>" "length (sc_ch c) < sub_cap"
    have "evt \<notin> set (sc_missed c)" using missed fresh by auto
    with ok eq off [of "c\<lparr>sc_ch := sc_ch c @ [evt]\<rparr>"] joined show ?thesis
      by (auto simp: conn_ok_def h')
  next
    assume eq: "sub_offer evt c = c\<lparr>sc_missed := sc_missed c @ [evt]\<rparr>" "sub_cap \<le> length (sc_ch c)"
    have "filter (\<lambda>e. topic_passes (sc_topicSet c) e \<and> e \<noteq> evt \<and> e \<notin> set (sc_missed c)) (offered h c) =
        filter (\<lambda>e. topic_passes (sc_topicSet c) e \<and> e \<notin> set (sc_missed c)) (offered h c)"
      using old [of "\<lambda>e. topic_passes (sc_topicSet c) e \<and> e \<notin> set (sc_missed c)"]
      by (simp add: conj_ac)
    with ok eq off [of "c\<lparr>sc_missed := sc_missed c @ [evt]\<rparr>"] joined show ?thesis
      by (auto simp: conn_ok_def h')
  qed
qed

lemma hub_inv_publish: "hub_inv h \<Longrightarrow> hub_inv (Publish topic data now h)"
proof -
  assume inv: "hub_inv h"
  define evt where "evt = \<lparr>se_ID = hub_nextID h, se_Topic = topic, se_Data = data, se_TS = now\<rparr>"
  have P: "Publish topic data now h =
     \<lparr>hub_buf = (if length (hub_buf h) \<ge> ringBufferSize then drop 1 (hub_buf h) else hub_buf h) @ [evt],
      hub_nextID = hub_nextID h + 1, hub_subs = (\<lambda>k. map_option (sub_offer evt) (hub_subs h k)),
      hub_log = hub_log h @ [evt]\<rparr>"
    by (simp add: Publish_def evt_def Let_def)
  have ID: "se_ID evt = int (length (hub_log h))" using inv by (simp add: evt_def hub_inv_def)
  have buf: "(if length (hub_buf h) \<ge> ringBufferSize then drop 1 (hub_buf h) else hub_buf h) @ [evt] =
      drop (Suc (length (hub_log h)) - ringBufferSize) (hub_log h @ [evt])"
  proof (cases "ringBufferSize \<le> length (hub_log h)")
    case True
    with inv show ?thesis by (simp add: hub_inv_def Suc_diff_le) (simp add: ringBufferSize_def)
  next
    case False
    with inv show ?thesis by (simp add: hub_inv_def)
  qed
  have "conn_ok (Publish topic data now h) (sub_offer evt c)" if "hub_subs h k = Some c" for k c
    using inv that ID by (intro conn_ok_publish [of h]) (auto simp: hub_inv_def P)
  with inv ID buf show ?thesis by (auto simp: hub_inv_def P)
qed

lemma conn_ok_log: "conn_ok h c \<Longrightarrow> hub_log h' = hub_log h \<Longrightarrow> conn_ok h' c"
  by (simp add: conn_ok_def offered_def)

lemma hub_invI:
  assumes "hub_inv h" "hub_log h' = hub_log h" "hub_buf h' = hub_buf h" "hub_nextID h' = hub_nextID h"
    and "\<And>k c. hub_subs h' k = Some c \<Longrightarrow> hub_subs h k = Some c \<or> conn_ok h c"
  shows "hub_inv h'"
  unfolding hub_inv_def
proof (intro conjI allI impI)
  fix k c
  assume "hub_subs h' k = Some c"
  with assms(1,5) have "conn_ok h c" unfolding hub_inv_def by blast
  then show "conn_ok h' c" by (rule conn_ok_log) (rule assms(2))
qed (use assms(1-4) in \<open>simp_all add: hub_inv_def\<close>)

lemma hub_inv_open: "hub_inv h \<Longrightarrow> hub_inv (stream_open k r h)"
proof -
  assume inv: "hub_inv h"
  have buf: "hub_buf h = drop (length (hub_log h) - ringBufferSize) (hub_log h)"
    using inv by (simp add: hub_inv_def)
  have "hub_subs h j = Some c \<or> conn_ok h c" if "hub_subs (stream_open k r h) j = Some c" for j c
    using that by (cases "j = k") (auto simp: stream_open_def conn_ok_def offered_def Let_def buf not_le
        conj_commute intro!: filter_cong)
  then show ?thesis by (intro hub_invI [OF inv]) (simp_all add: stream_open_def Let_def)
qed

lemma hub_inv_turn: "stream_turn k h = Some h' \<Longrightarrow> hub_inv h \<Longrightarrow> hub_inv h'"
proof -
  assume run: "stream_turn k h = Some h'" and inv: "hub_inv h"
  from run obtain c evt q where c: "hub_subs h k = Some c" "sc_ch c = evt # q" by (auto simp: stream_turn_def)
  define c' where "c' = (if topic_passes (sc_topicSet c) evt then c\<lparr>sc_ch := q, sc_written := sc_written c @ [evt]\<rparr>
     else c\<lparr>sc_ch := q\<rparr>)"
  have h': "h' = h\<lparr>hub_subs := (hub_subs h)(k \<mapsto> c')\<rparr>"
    using run c by (simp add: stream_turn_def c'_def Let_def split: if_splits)
  have "conn_ok h c" using inv c unfolding hub_inv_def by blast
  then have "conn_ok h c'" using c(2) by (auto simp: conn_ok_def c'_def offered_def)
  then show ?thesis by (intro hub_invI [OF inv]) (auto simp: h' split: if_splits)
qed

lemma hub_inv_close: "hub_inv h \<Longrightarrow> hub_inv (stream_close k h)"
  by (erule hub_invI) (auto simp: stream_close_def split: if_splits)

lemma hub_inv_reach: "hub_step\<^sup>*\<^sup>* newSSEHub h \<Longrightarrow> hub_inv h"
proof (induction rule: rtranclp_induct)
  case base
  show ?case by (simp add: newSSEHub_def hub_inv_def)
next
  case (step h h')
  from step.hyps(2) step.IH show ?case
    by cases (simp_all add: hub_inv_publish hub_inv_open hub_inv_turn hub_inv_close)
qed

text \<open>Identifiers are positions in the log, so what was offered can be read off the identifiers.\<close>

lemma log_nth_ID:
  assumes "map se_ID (hub_log h) = map int [0..<length (hub_log h)]" "i < length (hub_log h)"
  shows "se_ID (hub_log h ! i) = int i"
  using assms by (metis add_0 length_map length_upt minus_nat.diff_0 nth_map nth_upt)

lemma offered_filter:
  assumes log: "map se_ID (hub_log h) = map int [0..<length (hub_log h)]"
    and j: "sc_joined c \<le> length (hub_log h)"
  shows "offered h c = filter (\<lambda>e. int (sc_joined c) \<le> se_ID e \<or>
      sc_resumeFrom c < se_ID e \<and> int (sc_joined c) - int ringBufferSize \<le> se_ID e) (hub_log h)"
    (is "_ = filter ?Q _")
proof -
  let ?j = "sc_joined c" let ?b = "?j - ringBufferSize"
  have parts: "hub_log h = take ?b (hub_log h) @ drop ?b (take ?j (hub_log h)) @ drop ?j (hub_log h)"
    by (metis append_assoc append_take_drop_id diff_le_self min.absorb1 take_take)
  have "filter ?Q (take ?b (hub_log h)) = []"
    using log_nth_ID [OF log] by (auto simp: filter_empty_conv in_set_conv_nth)
  moreover have "filter ?Q (drop ?j (hub_log h)) = drop ?j (hub_log h)"
    using log_nth_ID [OF log] by (auto simp: filter_id_conv in_set_conv_nth)
  moreover have "filter ?Q (drop ?b (take ?j (hub_log h))) =
      filter (\<lambda>e. sc_resumeFrom c < se_ID e) (drop ?b (take ?j (hub_log h)))"
    using log_nth_ID [OF log] by (intro filter_cong) (auto simp: in_set_conv_nth)
  ultimately show ?thesis by (subst parts) (simp add: offered_def)
qed

lemma log_increasing:
  "map se_ID (hub_log h) = map int [0..<length (hub_log h)] \<Longrightarrow> sorted_wrt (\<lambda>a b. se_ID a < se_ID b) (hub_log h)"
  using log_nth_ID [of h] by (auto simp: sorted_wrt_iff_nth_less)

text \<open>
  C22. For every interleaving of publications, connections and disconnections: the ring buffer is
  the last 1024 events; what a connection has written has strictly increasing identifiers, so no
  event is repeated or reordered; it holds only published events of the subscribed topics; and an
  event is missing only if it was dropped because 64 events were waiting. In particular a client
  that resumes from an event still in the buffer, and for which nothing was dropped, has received,
  once its channel is drained, exactly the events of its topics published after that event.
\<close>
theorem stream_resumes_exactly:
  assumes "hub_step\<^sup>*\<^sup>* newSSEHub h" "hub_subs h k = Some c"
  shows "hub_buf h = drop (length (hub_log h) - 1024) (hub_log h) \<and>
    sorted_wrt (\<lambda>a b. se_ID a < se_ID b) (sc_written c) \<and>
    set (sc_written c) \<subseteq> {e \<in> set (hub_log h). topic_passes (sc_topicSet c) e} \<and>
    length (sc_ch c) \<le> 64 \<and>
    (sc_missed c = [] \<longrightarrow> sc_ch c = [] \<longrightarrow>
     int (sc_joined c) - 1024 \<le> sc_resumeFrom c + 1 \<longrightarrow> sc_resumeFrom c < int (sc_joined c) \<longrightarrow>
     sc_written c = filter (\<lambda>e. topic_passes (sc_topicSet c) e \<and> sc_resumeFrom c < se_ID e) (hub_log h))"
proof -
  have inv: "hub_inv h" by (rule hub_inv_reach [OF assms(1)])
  then have log: "map se_ID (hub_log h) = map int [0..<length (hub_log h)]" by (simp add: hub_inv_def)
  have ok: "conn_ok h c" using inv assms(2) unfolding hub_inv_def by blast
  then have j: "sc_joined c \<le> length (hub_log h)" by (simp add: conn_ok_def)
  let ?all = "sc_written c @ filter (topic_passes (sc_topicSet c)) (sc_ch c)"
  have all: "?all = filter (\<lambda>e. topic_passes (sc_topicSet c) e \<and> e \<notin> set (sc_missed c)) (offered h c)"
    using ok by (simp add: conn_ok_def)
  have "sorted_wrt (\<lambda>a b. se_ID a < se_ID b) ?all"
    unfolding all offered_filter [OF log j] by (intro sorted_wrt_filter log_increasing log)
  moreover have "set ?all \<subseteq> {e \<in> set (hub_log h). topic_passes (sc_topicSet c) e}"
    unfolding all using offered_subset [of h c] by auto
  moreover have "sc_written c = filter (\<lambda>e. topic_passes (sc_topicSet c) e \<and> sc_resumeFrom c < se_ID e) (hub_log h)"
    if "sc_missed c = []" "sc_ch c = []" "int (sc_joined c) - 1024 \<le> sc_resumeFrom c + 1"
      "sc_resumeFrom c < int (sc_joined c)"
  proof -
    have "sc_written c = filter (topic_passes (sc_topicSet c)) (offered h c)" using all that by simp
    also have "\<dots> = filter (\<lambda>e. topic_passes (sc_topicSet c) e \<and> sc_resumeFrom c < se_ID e) (hub_log h)"
      unfolding offered_filter [OF log j] filter_filter
      using that(3,4) by (intro filter_cong) (auto simp: ringBufferSize_def)
    finally show ?thesis .
  qed
  ultimately show ?thesis
    using inv ok by (simp add: hub_inv_def conn_ok_def ringBufferSize_def sub_cap_def sorted_wrt_append)
qed

text \<open>A client that comes back after event 1, having subscribed to one topic.\<close>

definition demo_resume :: "unit http_request" where
  "demo_resume = \<lparr>rq_Method = ''GET'', rq_Query = (\<lambda>k. if k = ''topics'' then '',orders,,'' else []),
     rq_Header = (\<lambda>k. if k = ''Last-Event-ID'' then ''1'' else []), rq_PathValue = (\<lambda>_. []), rq_Body = None\<rparr>"

definition demo_hub :: sseHub where
  "demo_hub = stream_open 0 demo_resume (Publish ''orders'' ''c'' 3
     (Publish ''orders'' ''b'' 2 (Publish ''orders'' ''a'' 1 newSSEHub)))"

lemma demo_hub_reach: "hub_step\<^sup>*\<^sup>* newSSEHub demo_hub"
proof -
  let ?h = "Publish ''orders'' ''c'' 3 (Publish ''orders'' ''b'' 2 (Publish ''orders'' ''a'' 1 newSSEHub))"
  have "hub_step\<^sup>*\<^sup>* newSSEHub ?h" by (blast intro: rtranclp.rtrancl_into_rtrancl publish)
  moreover have "hub_step ?h demo_hub"
    unfolding demo_hub_def by (rule open_conn) (simp add: Publish_def newSSEHub_def Let_def)
  ultimately show ?thesis by (rule rtranclp.rtrancl_into_rtrancl)
qed

lemma demo_conn:
  "hub_subs demo_hub 0 = Some \<lparr>sc_topicSet = [''orders''], sc_resumeFrom = 1, sc_ch = [],
     sc_written = [\<lparr>se_ID = 2, se_Topic = ''orders'', se_Data = ''c'', se_TS = 3\<rparr>], sc_joined = 3, sc_missed = []\<rparr>"
  by code_simp

theorem stream_resumes_exactly_witness:
  "[\<lparr>se_ID = 2, se_Topic = ''orders'', se_Data = ''c'', se_TS = 3\<rparr>] =
     filter (\<lambda>e. topic_passes [''orders''] e \<and> 1 < se_ID e) (hub_log demo_hub)"
  using stream_resumes_exactly [OF demo_hub_reach demo_conn] by simp

text \<open>A client without a resume point is taken to have seen event 0, which it is never sent.\<close>

lemma first_event_not_replayed:
  assumes "rq_Header r ''Last-Event-ID'' = []" "hub_inv h"
    and "hub_subs (stream_open k r h) k = Some c" "e \<in> set (sc_written c)"
  shows "se_ID e \<noteq> 0"
  using assms by (auto simp: stream_open_def stream_resume_def Let_def)

end
