(* ===== verification/Ingest.thy ===== *)
theory Ingest
  imports Prelude "HOL-Library.Sublist"
begin

text \<open>
  The batched writer of ticks and order-book rows (\<open>app/ingest/writer.go\<close>) over the COPY adapter
  (\<open>adapters/postgres/copywriter.go\<close>). Both kinds of row take the same way, a channel of 8192 slots,
  a buffer and a table: a \<open>lane\<close>. Producers and the writer's goroutine interleave freely; whether a
  COPY succeeds is up to the environment, and a COPY is one statement, so it stores all rows or
  none. \<open>runOnce\<close> of the maintenance job is a stub in the source.
\<close>

section \<open>Rows and tables\<close>

record TickRow =
  tk_MarketTicker :: string
  tk_TS :: int
  tk_PriceCents :: int
  tk_YesBidCents :: "int option"
  tk_YesAskCents :: "int option"
  tk_Volume :: "int option"
  tk_Raw :: "string option"
  tk_BestBidCents :: "int option"
  tk_BestAskCents :: "int option"
  tk_BestBidSize :: "int option"
  tk_BestAskSize :: "int option"

record OrderbookRow =
  ob_MarketTicker :: string
  ob_TS :: int
  ob_IsSnapshot :: bool
  ob_PriceCents :: "int option"
  ob_Delta :: "int option"
  ob_Side :: "string option"
  ob_Raw :: "string option"

text \<open>
  One lane of the writer. The last two fields only record what happened: every row handed to the
  lane, and every flushed batch with the outcome of its COPY.
\<close>

record 'r lane =
  ln_ch :: "'r list"
  ln_buf :: "'r list"
  ln_drops :: int
  ln_table :: "'r list"
  ln_offered :: "'r list"
  ln_batches :: "(bool \<times> 'r list) list"

record Writer =
  wr_tick :: "TickRow lane"
  wr_orderbook :: "OrderbookRow lane"
  wr_batchSize :: int
  wr_running :: bool

definition chan_cap :: nat where "chan_cap = 8192"

definition new_lane :: "'r lane" where
  "new_lane = \<lparr>ln_ch = [], ln_buf = [], ln_drops = 0, ln_table = [], ln_offered = [], ln_batches = []\<rparr>"

definition NewIngestWriter :: "int \<Rightarrow> Writer" where
  "NewIngestWriter batchSize =
     \<lparr>wr_tick = new_lane, wr_orderbook = new_lane, wr_batchSize = batchSize, wr_running = True\<rparr>"

section \<open>Operations\<close>

text \<open>\<open>CopyTicks\<close> and \<open>CopyOrderbook\<close>: the table after the call, and whether it succeeded.\<close>

definition copyFrom :: "bool \<Rightarrow> 'r list \<Rightarrow> 'r list \<Rightarrow> 'r list \<times> bool" where
  "copyFrom works rows tbl =
     (if rows = [] then (tbl, True) else if works then (tbl @ rows, True) else (tbl, False))"

definition lane_ingest :: "'r \<Rightarrow> 'r lane \<Rightarrow> 'r lane" where
  "lane_ingest row l =
     (case chan_try_send chan_cap row (ln_ch l) of
        Some q \<Rightarrow> l\<lparr>ln_ch := q, ln_offered := ln_offered l @ [row]\<rparr>
      | None \<Rightarrow> l\<lparr>ln_drops := ln_drops l + 1, ln_offered := ln_offered l @ [row]\<rparr>)"

definition lane_flush :: "bool \<Rightarrow> 'r lane \<Rightarrow> 'r lane" where
  "lane_flush works l =
     (if ln_buf l = [] then l
      else
        (let (tbl, done1) = copyFrom works (ln_buf l) (ln_table l) in
         l\<lparr>ln_table := tbl, ln_buf := [], ln_batches := ln_batches l @ [(done1, ln_buf l)]\<rparr>))"

definition lane_recv :: "int \<Rightarrow> bool \<Rightarrow> 'r lane \<Rightarrow> 'r lane option" where
  "lane_recv batchSize works l =
     Option.bind (chan_recv (ln_ch l)) (\<lambda>(row, q).
       (let l1 = l\<lparr>ln_ch := q, ln_buf := ln_buf l @ [row]\<rparr> in
        Some (if int (length (ln_buf l1)) \<ge> batchSize then lane_flush works l1 else l1)))"

definition IngestTick :: "TickRow \<Rightarrow> Writer \<Rightarrow> Writer" where
  "IngestTick row w = w\<lparr>wr_tick := lane_ingest row (wr_tick w)\<rparr>"

definition IngestOrderbook :: "OrderbookRow \<Rightarrow> Writer \<Rightarrow> Writer" where
  "IngestOrderbook row w = w\<lparr>wr_orderbook := lane_ingest row (wr_orderbook w)\<rparr>"

definition TickDrops :: "Writer \<Rightarrow> int" where "TickDrops w = ln_drops (wr_tick w)"
definition OrderbookDrops :: "Writer \<Rightarrow> int" where "OrderbookDrops w = ln_drops (wr_orderbook w)"

definition flushTicks :: "bool \<Rightarrow> Writer \<Rightarrow> Writer" where
  "flushTicks works w = w\<lparr>wr_tick := lane_flush works (wr_tick w)\<rparr>"

definition flushOrderbook :: "bool \<Rightarrow> Writer \<Rightarrow> Writer" where
  "flushOrderbook works w = w\<lparr>wr_orderbook := lane_flush works (wr_orderbook w)\<rparr>"

definition terminalFlush :: "bool \<Rightarrow> bool \<Rightarrow> Writer \<Rightarrow> Writer" where
  "terminalFlush works1 works2 w = flushOrderbook works2 (flushTicks works1 w)"

text \<open>The turns of \<open>Run\<close>, one per arm of its \<open>select\<close>, and the producers.\<close>

inductive ingest_step :: "Writer \<Rightarrow> Writer \<Rightarrow> bool" where
  tick_in: "ingest_step w (IngestTick row w)"
| book_in: "ingest_step w (IngestOrderbook brow w)"
| recv_tick: "wr_running w \<Longrightarrow> lane_recv (wr_batchSize w) works (wr_tick w) = Some l \<Longrightarrow>
    ingest_step w (w\<lparr>wr_tick := l\<rparr>)"
| recv_book: "wr_running w \<Longrightarrow> lane_recv (wr_batchSize w) works (wr_orderbook w) = Some l' \<Longrightarrow>
    ingest_step w (w\<lparr>wr_orderbook := l'\<rparr>)"
| flush_tick: "wr_running w \<Longrightarrow> ingest_step w (flushOrderbook works2 (flushTicks works1 w))"
| stop: "wr_running w \<Longrightarrow> ingest_step w (terminalFlush works1 works2 (w\<lparr>wr_running := False\<rparr>))"

inductive_cases ingest_stepE: "ingest_step w w'"

section \<open>Accounting\<close>

text \<open>The rows that got into the channel, in order.\<close>

definition accepted :: "'r lane \<Rightarrow> 'r list" where
  "accepted l = concat (map snd (ln_batches l)) @ ln_buf l @ ln_ch l"

text \<open>\<open>lane_sound\<close> allows a full buffer, as it is just before a flush; between turns the buffer is
  below the batch size.\<close>

definition lane_sound :: "int \<Rightarrow> 'r lane \<Rightarrow> bool" where
  "lane_sound batchSize l \<longleftrightarrow>
     subseq (accepted l) (ln_offered l) \<and>
     int (length (ln_offered l)) = int (length (accepted l)) + ln_drops l \<and>
     ln_table l = concat (map snd (filter fst (ln_batches l))) \<and>
     length (ln_ch l) \<le> chan_cap \<and>
     int (length (ln_buf l)) \<le> max 1 batchSize \<and>
     list_all (\<lambda>(_, b). b \<noteq> [] \<and> int (length b) \<le> max 1 batchSize) (ln_batches l)"

definition lane_ok :: "int \<Rightarrow> 'r lane \<Rightarrow> bool" where
  "lane_ok batchSize l \<longleftrightarrow> lane_sound batchSize l \<and> int (length (ln_buf l)) < max 1 batchSize"

lemma lane_ok_new: "lane_ok b new_lane"
  by (auto simp: lane_ok_def lane_sound_def new_lane_def accepted_def)

lemma lane_ok_ingest: "lane_ok b l \<Longrightarrow> lane_ok b (lane_ingest row l)"
proof (cases "length (ln_ch l) < chan_cap")
  case True
  assume ok: "lane_ok b l"
  then have "subseq (accepted l @ [row]) (ln_offered l @ [row])"
    by (simp add: lane_ok_def lane_sound_def list_emb_append_mono)
  with True ok show ?thesis
    by (simp add: lane_ok_def lane_sound_def lane_ingest_def chan_try_send_def accepted_def)
next
  case False
  assume "lane_ok b l"
  with False show ?thesis
    by (auto simp: lane_ok_def lane_sound_def lane_ingest_def chan_try_send_def accepted_def)
qed

lemma lane_ok_flush: "lane_sound b l \<Longrightarrow> lane_ok b (lane_flush works l)"
  by (auto simp: lane_ok_def lane_sound_def lane_flush_def copyFrom_def accepted_def)

lemma lane_flush_buf [simp]: "ln_buf (lane_flush works l) = []"
  by (simp add: lane_flush_def split: prod.split)

lemma lane_ok_recv:
  assumes "lane_ok b l" "lane_recv b works l = Some l'"
  shows "lane_ok b l'"
proof -
  from assms(2) obtain row q where q: "ln_ch l = row # q" by (auto simp: lane_recv_def)
  let ?l = "l\<lparr>ln_ch := q, ln_buf := ln_buf l @ [row]\<rparr>"
  have "accepted ?l = accepted l" by (simp add: accepted_def q)
  then have "lane_sound b ?l" using assms(1) q by (auto simp: lane_ok_def lane_sound_def)
  then show ?thesis
    using lane_ok_flush [of b ?l works] assms(2) q
    by (auto simp: lane_recv_def Let_def lane_ok_def split: if_splits)
qed

definition ingest_inv :: "Writer \<Rightarrow> bool" where
  "ingest_inv w \<longleftrightarrow>
     lane_ok (wr_batchSize w) (wr_tick w) \<and> lane_ok (wr_batchSize w) (wr_orderbook w) \<and>
     (\<not> wr_running w \<longrightarrow> ln_buf (wr_tick w) = [] \<and> ln_buf (wr_orderbook w) = [])"

lemma lane_ingest_buf [simp]: "ln_buf (lane_ingest row l) = ln_buf l"
  by (simp add: lane_ingest_def split: option.split)

lemma ingest_inv_step: "ingest_step w w' \<Longrightarrow> ingest_inv w \<Longrightarrow> ingest_inv w' \<and> wr_batchSize w' = wr_batchSize w"
  by (erule ingest_stepE)
    (auto simp: ingest_inv_def IngestTick_def IngestOrderbook_def flushTicks_def flushOrderbook_def
      terminalFlush_def lane_ok_ingest lane_ok_recv intro!: lane_ok_flush, auto simp: lane_ok_def)

lemma ingest_inv_reach:
  "ingest_step\<^sup>*\<^sup>* (NewIngestWriter b) w \<Longrightarrow> ingest_inv w \<and> wr_batchSize w = b"
proof (induction rule: rtranclp_induct)
  case base
  show ?case by (simp add: ingest_inv_def NewIngestWriter_def lane_ok_new)
qed (use ingest_inv_step in auto)

text \<open>
  C23. Whatever producers, writer and database do, no row is stored twice, invented or reordered:
  the rows stored are the concatenation of the batches whose COPY succeeded, and those batches, with
  the batches that failed, the buffer and the channel, are in order the rows offered less the
  dropped ones, whose number the drop counter gives. So a row handed to the writer and not stored
  was counted as dropped, was in a batch whose COPY failed, or is still waiting; with no drop and no
  failed COPY the table followed by the waiting rows is what was offered. The buffer stays below
  the batch size and is empty once the writer has stopped.
\<close>
theorem ingest_accounts_for_every_row:
  assumes "ingest_step\<^sup>*\<^sup>* (NewIngestWriter b) w" "l = wr_tick w"
  shows "subseq (accepted l) (ln_offered l) \<and>
    TickDrops w = int (length (ln_offered l)) - int (length (accepted l)) \<and>
    accepted l = concat (map snd (ln_batches l)) @ ln_buf l @ ln_ch l \<and>
    ln_table l = concat (map snd (filter fst (ln_batches l))) \<and>
    int (length (ln_buf l)) < max 1 b \<and> length (ln_ch l) \<le> 8192 \<and>
    (\<not> wr_running w \<longrightarrow> ln_buf l = []) \<and>
    (TickDrops w = 0 \<longrightarrow> list_all fst (ln_batches l) \<longrightarrow> ln_table l @ ln_buf l @ ln_ch l = ln_offered l)"
proof -
  have inv: "ingest_inv w" "wr_batchSize w = b" using ingest_inv_reach [OF assms(1)] by auto
  then have ok: "lane_ok b l" by (simp add: ingest_inv_def assms(2))
  then have sub: "subseq (accepted l) (ln_offered l)"
    and len: "int (length (ln_offered l)) = int (length (accepted l)) + ln_drops l"
    and tbl: "ln_table l = concat (map snd (filter fst (ln_batches l)))"
    by (simp_all add: lane_ok_def lane_sound_def)
  have "ln_table l @ ln_buf l @ ln_ch l = ln_offered l" if "TickDrops w = 0" "list_all fst (ln_batches l)"
  proof -
    have "filter fst (ln_batches l) = ln_batches l" using that(2) by (simp add: list_all_iff filter_id_conv)
    then have "ln_table l @ ln_buf l @ ln_ch l = accepted l" by (simp add: tbl accepted_def)
    also have "\<dots> = ln_offered l"
      using sub len that(1) by (intro subseq_same_length) (auto simp: TickDrops_def assms(2))
    finally show ?thesis .
  qed
  then show ?thesis
    using sub len tbl ok inv by (simp add: TickDrops_def accepted_def lane_ok_def lane_sound_def chan_cap_def
        ingest_inv_def assms(2))
qed

text \<open>The order-book lane keeps the same accounts.\<close>

lemma orderbook_accounts:
  assumes "ingest_step\<^sup>*\<^sup>* (NewIngestWriter b) w"
  shows "lane_ok b (wr_orderbook w)"
  using ingest_inv_reach [OF assms] by (auto simp: ingest_inv_def)

definition demo_tick :: "int \<Rightarrow> TickRow" where
  "demo_tick ts = \<lparr>tk_MarketTicker = ''M'', tk_TS = ts, tk_PriceCents = 50, tk_YesBidCents = None,
     tk_YesAskCents = None, tk_Volume = None, tk_Raw = None, tk_BestBidCents = None,
     tk_BestAskCents = None, tk_BestBidSize = None, tk_BestAskSize = None\<rparr>"

text \<open>Two ticks come in and the writer stops before it has received the second: the terminal flush
  saves the buffer, and what is in the channel stays there.\<close>

definition demo_writer :: Writer where
  "demo_writer =
     (let w = IngestTick (demo_tick 2) (IngestTick (demo_tick 1) (NewIngestWriter 10));
          w1 = w\<lparr>wr_tick := the (lane_recv 10 True (wr_tick w))\<rparr> in
      terminalFlush True True (w1\<lparr>wr_running := False\<rparr>))"

lemma demo_writer_reach: "ingest_step\<^sup>*\<^sup>* (NewIngestWriter 10) demo_writer"
proof -
  define w where "w = IngestTick (demo_tick 2) (IngestTick (demo_tick 1) (NewIngestWriter 10))"
  have w: "ingest_step\<^sup>*\<^sup>* (NewIngestWriter 10) w" unfolding w_def
    by (blast intro: rtranclp.rtrancl_into_rtrancl tick_in)
  have some: "lane_recv 10 True (wr_tick w) \<noteq> None" "wr_batchSize w = 10" "wr_running w"
    unfolding w_def by code_simp+
  then have "ingest_step w (w\<lparr>wr_tick := the (lane_recv 10 True (wr_tick w))\<rparr>)"
    by (intro recv_tick [where works = True]) auto
  moreover have "ingest_step (w\<lparr>wr_tick := the (lane_recv 10 True (wr_tick w))\<rparr>) demo_writer"
    unfolding demo_writer_def Let_def w_def [symmetric] by (rule stop) (simp add: some)
  ultimately show ?thesis using w by (meson rtranclp.rtrancl_into_rtrancl)
qed

lemma unread_rows_lost_on_stop: "ln_ch (wr_tick demo_writer) = [demo_tick 2] \<and> \<not> wr_running demo_writer"
  by code_simp

theorem ingest_accounts_for_every_row_witness:
  "ln_table (wr_tick demo_writer) @ ln_buf (wr_tick demo_writer) @ ln_ch (wr_tick demo_writer) = [demo_tick 1, demo_tick 2]"
proof -
  have "TickDrops demo_writer = 0" "list_all fst (ln_batches (wr_tick demo_writer))"
    "ln_offered (wr_tick demo_writer) = [demo_tick 1, demo_tick 2]" by code_simp+
  with ingest_accounts_for_every_row [OF demo_writer_reach refl] show ?thesis by metis
qed

end
