(* ===== verification/Scheduler.thy ===== *)
theory Scheduler
  imports Tracker OrderStore
begin

text \<open>
  The scheduler (\<open>app/scheduler/scheduler.go\<close>): it reads the active markets, groups them by event and
  starts tracking each match a lead time before its first market occurs. A pass is a goroutine of
  its own that goes through its schedules one by one, and every match that is not due yet gets a
  goroutine that waits for its start time, so passes, waiting goroutines and match loops interleave.
  Times are nanoseconds; the start time of a tracked match is recorded in milliseconds.
\<close>

section \<open>State\<close>

record activeMarket =
  am_MarketTicker :: string
  am_EventTicker :: string
  am_OccurrenceTS :: int
  am_Status :: string

record eventSchedule =
  es_ticker :: string
  es_markets :: "string list"
  es_occurs :: int
  es_startAt :: int

text \<open>Where a goroutine of \<open>scheduleOne\<close> is: waiting for its timer, or past it and about to start.\<close>

datatype phase = Waiting | Starting

text \<open>
  \<open>sd_pass\<close> and \<open>sd_now\<close> are the local variables of a running pass, \<open>sd_gos\<close> the goroutines of
  \<open>scheduleOne\<close>, \<open>sd_clock\<close> the current time; \<open>sd_queries\<close> records the markets read so far.
\<close>

record Scheduler =
  sd_tracker :: Tracker
  sd_strategies :: "strategy list"
  sd_lead :: int
  sd_pollSecs :: int
  sd_pending :: "string \<rightharpoonup> int"
  sd_gos :: "(phase \<times> eventSchedule) list"
  sd_pass :: "eventSchedule list"
  sd_now :: int
  sd_clock :: int
  sd_cancelled :: bool
  sd_queries :: "activeMarket list list"

definition NewScheduler :: "Tracker \<Rightarrow> strategy list \<Rightarrow> int \<Rightarrow> int \<Rightarrow> int \<Rightarrow> Scheduler" where
  "NewScheduler tr strategies leadMinutes pollSecs clock =
     (let leadMinutes = (if leadMinutes \<le> 0 then 5 else leadMinutes);
          pollSecs = (if pollSecs \<le> 0 then 30 else pollSecs) in
      \<lparr>sd_tracker = tr, sd_strategies = strategies, sd_lead = leadMinutes * 60 * 1000000000,
       sd_pollSecs = pollSecs, sd_pending = Map.empty, sd_gos = [], sd_pass = [], sd_now = clock,
       sd_clock = clock, sd_cancelled = False, sd_queries = []\<rparr>)"

section \<open>A pass\<close>

text \<open>\<open>status IN ('open', 'active', 'determined')\<close>\<close>

definition active_markets :: "activeMarket list \<Rightarrow> activeMarket list" where
  "active_markets tbl = filter (\<lambda>m. am_Status m \<in> set [''open'', ''active'', ''determined'']) tbl"

text \<open>The two maps the grouping loop fills, as functions with the zero value for a missing key.\<close>

definition group_step ::
  "activeMarket \<Rightarrow> (string \<Rightarrow> string list) \<times> (string \<Rightarrow> int) \<Rightarrow> (string \<Rightarrow> string list) \<times> (string \<Rightarrow> int)" where
  "group_step m eo =
     (let (events, occ) = eo; ev = am_EventTicker m in
      (events(ev := events ev @ [am_MarketTicker m]),
       if occ ev = 0 \<or> am_OccurrenceTS m < occ ev then occ(ev := am_OccurrenceTS m) else occ))"

definition group_markets :: "activeMarket list \<Rightarrow> (string \<Rightarrow> string list) \<times> (string \<Rightarrow> int)" where
  "group_markets ms = fold group_step ms ((\<lambda>_. []), (\<lambda>_. 0))"

text \<open>
  The schedule of an event (\<open>None\<close>: its occurrence is unknown), and the list a pass goes through: Go
  iterates over the map in an arbitrary order and then sorts by occurrence; \<open>order\<close> is that order of
  the events.
\<close>

definition event_schedule :: "int \<Rightarrow> activeMarket list \<Rightarrow> string \<Rightarrow> eventSchedule option" where
  "event_schedule lead ms ev =
     (let (events, occ) = group_markets ms in
      if events ev = [] \<or> occ ev = 0 then None
      else Some \<lparr>es_ticker = ev, es_markets = events ev, es_occurs = occ ev,
                 es_startAt = occ ev * 1000000 - lead\<rparr>)"

definition schedules_of :: "int \<Rightarrow> activeMarket list \<Rightarrow> string list \<Rightarrow> eventSchedule list" where
  "schedules_of lead ms order = List.map_filter (event_schedule lead ms) order"

definition pass_order :: "int \<Rightarrow> activeMarket list \<Rightarrow> string list \<Rightarrow> bool" where
  "pass_order lead ms order \<longleftrightarrow>
     distinct order \<and> set order = am_EventTicker ` set ms \<and>
     sorted (map es_occurs (schedules_of lead ms order))"

definition scheduleDue_begin :: "activeMarket list \<Rightarrow> string list \<Rightarrow> Scheduler \<Rightarrow> Scheduler" where
  "scheduleDue_begin tbl order s =
     (let ms = active_markets tbl in
      s\<lparr>sd_pass := schedules_of (sd_lead s) ms order, sd_now := sd_clock s, sd_queries := ms # sd_queries s\<rparr>)"

definition startTracking :: "string \<Rightarrow> string list \<Rightarrow> Scheduler \<Rightarrow> Scheduler" where
  "startTracking ev mkts s =
     s\<lparr>sd_tracker := StartMatch ev mkts (sd_strategies s) (UnixMilli (sd_clock s)) (sd_tracker s)\<rparr>"

text \<open>One iteration over the schedules.\<close>

definition scheduleDue_next :: "Scheduler \<Rightarrow> Scheduler" where
  "scheduleDue_next s =
     (case sd_pass s of
        [] \<Rightarrow> s
      | sch # rest \<Rightarrow>
          (let s1 = s\<lparr>sd_pass := rest\<rparr> in
           if sd_pending s (es_ticker sch) \<noteq> None then s1
           else if sd_now s > es_startAt sch then startTracking (es_ticker sch) (es_markets sch) s1
           else s1\<lparr>sd_pending := (sd_pending s)(es_ticker sch \<mapsto> es_startAt sch),
                   sd_gos := sd_gos s @ [(Waiting, sch)]\<rparr>))"

section \<open>Waiting for the start\<close>

text \<open>
  \<open>scheduleOne\<close>: the timer fires no earlier than the start time, then the goroutine leaves the pending
  map and starts the match; a cancelled context ends it instead.
\<close>

definition scheduleOne_wake :: "nat \<Rightarrow> Scheduler \<Rightarrow> Scheduler" where
  "scheduleOne_wake i s =
     (let sch = snd (sd_gos s ! i) in
      s\<lparr>sd_pending := (sd_pending s)(es_ticker sch := None), sd_gos := (sd_gos s)[i := (Starting, sch)]\<rparr>)"

definition scheduleOne_start :: "nat \<Rightarrow> Scheduler \<Rightarrow> Scheduler" where
  "scheduleOne_start i s =
     (let sch = snd (sd_gos s ! i) in
      startTracking (es_ticker sch) (es_markets sch) (s\<lparr>sd_gos := take i (sd_gos s) @ drop (Suc i) (sd_gos s)\<rparr>))"

definition scheduleOne_cancel :: "nat \<Rightarrow> Scheduler \<Rightarrow> Scheduler" where
  "scheduleOne_cancel i s =
     (let sch = snd (sd_gos s ! i) in
      s\<lparr>sd_pending := (sd_pending s)(es_ticker sch := None),
        sd_gos := take i (sd_gos s) @ drop (Suc i) (sd_gos s)\<rparr>)"

inductive sched_step :: "Scheduler \<Rightarrow> Scheduler \<Rightarrow> bool" where
  clock: "sd_clock s \<le> t \<Longrightarrow> sched_step s (s\<lparr>sd_clock := t\<rparr>)"
| begin_pass: "sd_pass s = [] \<Longrightarrow> \<not> sd_cancelled s \<Longrightarrow> pass_order (sd_lead s) (active_markets tbl) order \<Longrightarrow>
    sched_step s (scheduleDue_begin tbl order s)"
| next_schedule: "sd_pass s \<noteq> [] \<Longrightarrow> sched_step s (scheduleDue_next s)"
| wake: "i < length (sd_gos s) \<Longrightarrow> fst (sd_gos s ! i) = Waiting \<Longrightarrow> es_startAt (snd (sd_gos s ! i)) \<le> sd_clock s \<Longrightarrow>
    sched_step s (scheduleOne_wake i s)"
| start_one: "i < length (sd_gos s) \<Longrightarrow> fst (sd_gos s ! i) = Starting \<Longrightarrow> sched_step s (scheduleOne_start i s)"
| cancel_all: "sched_step s (s\<lparr>sd_cancelled := True\<rparr>)"
| cancel_one: "sd_cancelled s \<Longrightarrow> i < length (sd_gos s) \<Longrightarrow> fst (sd_gos s ! i) = Waiting \<Longrightarrow>
    sched_step s (scheduleOne_cancel i s)"
| match_loop: "map_of (tr_loops (sd_tracker s)) ev = Some ml \<Longrightarrow>
    loop_step multiHandler_OnEvent (ml_loop ml) l' \<Longrightarrow>
    sched_step s (s\<lparr>sd_tracker := update_loop ev l' (sd_tracker s)\<rparr>)"

inductive_cases sched_stepE: "sched_step s s'"

section \<open>What the grouping computes\<close>

definition event_markets :: "activeMarket list \<Rightarrow> string \<Rightarrow> string list" where
  "event_markets ms ev = map am_MarketTicker (filter (\<lambda>m. am_EventTicker m = ev) ms)"

definition event_occurrences :: "activeMarket list \<Rightarrow> string \<Rightarrow> int list" where
  "event_occurrences ms ev = map am_OccurrenceTS (filter (\<lambda>m. am_EventTicker m = ev) ms)"

lemma group_markets_snoc: "group_markets (ms @ [m]) = group_step m (group_markets ms)"
  by (simp add: group_markets_def)

lemma group_markets_events: "fst (group_markets ms) ev = event_markets ms ev"
proof (induction ms rule: rev_induct)
  case Nil
  then show ?case by (simp add: group_markets_def event_markets_def)
next
  case (snoc m ms)
  then show ?case
    by (cases "group_markets ms") (auto simp: group_markets_snoc group_step_def Let_def event_markets_def)
qed

lemma group_markets_none: "event_occurrences ms ev = [] \<Longrightarrow> snd (group_markets ms) ev = 0"
proof (induction ms rule: rev_induct)
  case (snoc m ms)
  then show ?case
    by (cases "group_markets ms")
      (auto simp: group_markets_snoc group_step_def Let_def event_occurrences_def split: if_splits)
qed (simp add: group_markets_def)

text \<open>When every occurrence is known, the earliest one counts.\<close>

lemma group_markets_occurrence:
  assumes "\<forall>t \<in> set (event_occurrences ms ev). 0 < t" "event_occurrences ms ev \<noteq> []"
  shows "snd (group_markets ms) ev = Min (set (event_occurrences ms ev))"
  using assms
proof (induction ms rule: rev_induct)
  case (snoc m ms)
  obtain events occ where g: "group_markets ms = (events, occ)" by (cases "group_markets ms")
  show ?case
  proof (cases "am_EventTicker m = ev")
    case False
    with snoc g show ?thesis
      by (simp add: group_markets_snoc group_step_def Let_def event_occurrences_def)
  next
    case True
    then have eo: "event_occurrences (ms @ [m]) ev = event_occurrences ms ev @ [am_OccurrenceTS m]"
      by (simp add: event_occurrences_def)
    show ?thesis
    proof (cases "event_occurrences ms ev = []")
      case empty: True
      then have "occ ev = 0"
        using g group_markets_none [of ms ev] by simp
      with True g eo empty show ?thesis by (simp add: group_markets_snoc group_step_def)
    next
      case False
      with snoc g eo have occ: "occ ev = Min (set (event_occurrences ms ev))" by simp
      have "0 < occ ev" using snoc.prems eo unfolding occ by (auto simp: False)
      moreover have "Min (set (event_occurrences (ms @ [m]) ev)) = min (am_OccurrenceTS m) (occ ev)"
        using False by (simp add: eo occ)
      moreover have "snd (group_markets (ms @ [m])) ev =
          (if occ ev = 0 \<or> am_OccurrenceTS m < occ ev then am_OccurrenceTS m else occ ev)"
        using True g by (simp add: group_markets_snoc group_step_def)
      ultimately show ?thesis by auto
    qed
  qed
qed (simp add: event_occurrences_def)

section \<open>The invariant\<close>

definition known_schedule :: "Scheduler \<Rightarrow> eventSchedule \<Rightarrow> bool" where
  "known_schedule s sch \<longleftrightarrow> (\<exists>ms \<in> set (sd_queries s). event_schedule (sd_lead s) ms (es_ticker sch) = Some sch)"

definition on_time :: "Scheduler \<Rightarrow> string \<Rightarrow> matchLoop \<Rightarrow> bool" where
  "on_time s ev ml \<longleftrightarrow> (\<exists>sch. known_schedule s sch \<and> es_ticker sch = ev \<and> es_markets sch = ml_markets ml \<and>
     UnixMilli (es_startAt sch) \<le> ml_started ml)"

definition pending_ok :: "Scheduler \<Rightarrow> bool" where
  "pending_ok s \<longleftrightarrow>
     distinct (map (es_ticker \<circ> snd) (filter (\<lambda>g. fst g = Waiting) (sd_gos s))) \<and>
     (\<forall>ev t. sd_pending s ev = Some t \<longleftrightarrow>
        (\<exists>sch. (Waiting, sch) \<in> set (sd_gos s) \<and> es_ticker sch = ev \<and> es_startAt sch = t))"

definition taken_care :: "Scheduler \<Rightarrow> string \<Rightarrow> bool" where
  "taken_care s ev \<longleftrightarrow>
     (\<exists>sch \<in> set (sd_pass s). es_ticker sch = ev) \<or> ev \<in> set (ActiveEvents (sd_tracker s)) \<or>
     (\<exists>(ph, sch) \<in> set (sd_gos s). es_ticker sch = ev)"

definition sched_inv :: "Scheduler \<Rightarrow> bool" where
  "sched_inv s \<longleftrightarrow>
     (\<forall>sch \<in> set (sd_pass s). known_schedule s sch) \<and>
     (\<forall>(ph, sch) \<in> set (sd_gos s). known_schedule s sch \<and> (ph = Starting \<longrightarrow> es_startAt sch \<le> sd_clock s)) \<and>
     sd_now s \<le> sd_clock s \<and>
     (\<forall>(ev, ml) \<in> set (tr_loops (sd_tracker s)). on_time s ev ml) \<and>
     pending_ok s \<and>
     (\<forall>ms rest. sd_queries s = ms # rest \<longrightarrow> \<not> sd_cancelled s \<longrightarrow>
        (\<forall>ev. event_schedule (sd_lead s) ms ev \<noteq> None \<longrightarrow> taken_care s ev))"

lemma UnixMilli_mono: "a \<le> b \<Longrightarrow> UnixMilli a \<le> UnixMilli b"
  by (simp add: UnixMilli_def zdiv_mono1)

lemma known_schedule_cong:
  "sd_queries s' = sd_queries s \<Longrightarrow> sd_lead s' = sd_lead s \<Longrightarrow> known_schedule s' sch = known_schedule s sch"
  by (simp add: known_schedule_def)

lemma event_schedule_ticker: "event_schedule lead ms ev = Some sch \<Longrightarrow> es_ticker sch = ev"
  by (auto simp: event_schedule_def split: prod.splits if_splits)

text \<open>Starting a match: what changes in the tracker.\<close>

lemma StartMatch_loops:
  "tr_loops (StartMatch ev mkts strats now t) =
     (if ev \<in> set (ActiveEvents t) then tr_loops t
      else (ev, \<lparr>ml_loop = NewLoop (new_handler ev mkts strats), ml_event = ev, ml_markets = mkts, ml_started = now\<rparr>)
           # tr_loops t)"
  by (simp add: StartMatch_def ActiveEvents_def map_of_eq_None_iff)

lemma StartMatch_events: "set (ActiveEvents (StartMatch ev mkts strats now t)) = insert ev (set (ActiveEvents t))"
  by (auto simp: ActiveEvents_def StartMatch_loops)

lemma sched_invI:
  assumes inv: "sched_inv s"
    and same: "sd_queries s' = sd_queries s" "sd_lead s' = sd_lead s"
    and clock: "sd_clock s \<le> sd_clock s'" "sd_now s' \<le> sd_clock s'" "sd_cancelled s \<Longrightarrow> sd_cancelled s'"
    and pass: "\<And>sch. sch \<in> set (sd_pass s') \<Longrightarrow> sch \<in> set (sd_pass s)"
    and gos: "\<And>ph sch. (ph, sch) \<in> set (sd_gos s') \<Longrightarrow>
      (ph, sch) \<in> set (sd_gos s) \<or> known_schedule s sch \<and> (ph = Starting \<longrightarrow> es_startAt sch \<le> sd_clock s')"
    and loops: "\<And>ev ml. (ev, ml) \<in> set (tr_loops (sd_tracker s')) \<Longrightarrow> on_time s ev ml"
    and pending: "pending_ok s'"
    and care: "\<And>ev. taken_care s ev \<Longrightarrow> \<not> sd_cancelled s' \<Longrightarrow> taken_care s' ev"
  shows "sched_inv s'"
proof -
  note known = known_schedule_cong [OF same]
  have ontime: "on_time s' ev ml = on_time s ev ml" for ev ml by (simp add: on_time_def known)
  have gos': "known_schedule s' sch \<and> (ph = Starting \<longrightarrow> es_startAt sch \<le> sd_clock s')"
    if "(ph, sch) \<in> set (sd_gos s')" for ph sch
    using gos [OF that] inv clock(1) unfolding sched_inv_def known by fastforce
  have care': "taken_care s' ev" if "sd_queries s' = ms # rest" "\<not> sd_cancelled s'"
    "event_schedule (sd_lead s') ms ev \<noteq> None" for ms rest ev
    using that inv clock(3) care unfolding sched_inv_def same by metis
  show ?thesis
    unfolding sched_inv_def
    using inv clock(2) pass gos' loops pending care' by (auto simp: ontime known sched_inv_def)
qed

lemma startTracking_inv:
  assumes inv: "sched_inv s" and sch: "known_schedule s sch" "es_startAt sch \<le> sd_clock s"
  shows "sched_inv (startTracking (es_ticker sch) (es_markets sch) s)"
  using inv
proof (rule sched_invI)
  fix ev ml
  assume *: "(ev, ml) \<in> set (tr_loops (sd_tracker (startTracking (es_ticker sch) (es_markets sch) s)))"
  show "on_time s ev ml"
  proof (cases "(ev, ml) \<in> set (tr_loops (sd_tracker s))")
    case True
    with inv show ?thesis by (auto simp: sched_inv_def)
  next
    case False
    with * have "ev = es_ticker sch" "ml_markets ml = es_markets sch" "ml_started ml = UnixMilli (sd_clock s)"
      by (auto simp: startTracking_def StartMatch_loops split: if_splits)
    with sch show ?thesis by (auto simp: on_time_def intro: UnixMilli_mono)
  qed
next
  show "taken_care s ev \<Longrightarrow> taken_care (startTracking (es_ticker sch) (es_markets sch) s) ev" for ev
    by (auto simp: taken_care_def startTracking_def StartMatch_events)
qed (use inv in \<open>simp_all add: startTracking_def sched_inv_def pending_ok_def\<close>)

lemma startTracking_care: "taken_care (startTracking ev mkts s) ev"
  by (simp add: taken_care_def startTracking_def StartMatch_events)

text \<open>Dropping the schedule a pass has just dealt with.\<close>

lemma pass_rest_inv:
  assumes inv: "sched_inv s" and pass: "sd_pass s = sch # rest" and care: "taken_care (s\<lparr>sd_pass := rest\<rparr>) (es_ticker sch)"
  shows "sched_inv (s\<lparr>sd_pass := rest\<rparr>)"
  using inv
proof (rule sched_invI)
  show "taken_care (s\<lparr>sd_pass := rest\<rparr>) ev" if "taken_care s ev" for ev
    using that care pass by (auto simp: taken_care_def)
qed (use inv pass in \<open>auto simp: sched_inv_def pending_ok_def\<close>)

lemma add_waiting_inv:
  assumes inv: "sched_inv s" and sch: "known_schedule s sch" and free: "sd_pending s (es_ticker sch) = None"
  shows "sched_inv (s\<lparr>sd_pending := (sd_pending s)(es_ticker sch \<mapsto> es_startAt sch), sd_gos := sd_gos s @ [(Waiting, sch)]\<rparr>)"
  using inv
proof (rule sched_invI)
  have ok: "pending_ok s" using inv by (simp add: sched_inv_def)
  have new: "es_ticker sch' \<noteq> es_ticker sch" if "(Waiting, sch') \<in> set (sd_gos s)" for sch'
    using ok free that unfolding pending_ok_def by (metis option.distinct(1))
  show "pending_ok (s\<lparr>sd_pending := (sd_pending s)(es_ticker sch \<mapsto> es_startAt sch),
      sd_gos := sd_gos s @ [(Waiting, sch)]\<rparr>)"
    using ok unfolding pending_ok_def by (auto dest: new new [symmetric] split: if_splits)
qed (use inv sch in \<open>auto simp: sched_inv_def taken_care_def\<close>)

lemma next_inv:
  assumes inv: "sched_inv s" and ne: "sd_pass s \<noteq> []"
  shows "sched_inv (scheduleDue_next s)"
proof -
  from ne obtain sch rest where pass: "sd_pass s = sch # rest" by (cases "sd_pass s") auto
  have known: "known_schedule s sch" and now: "sd_now s \<le> sd_clock s" and ok: "pending_ok s"
    using inv pass by (auto simp: sched_inv_def)
  consider (pending) "sd_pending s (es_ticker sch) \<noteq> None"
    | (due) "sd_pending s (es_ticker sch) = None" "sd_now s > es_startAt sch"
    | (later) "sd_pending s (es_ticker sch) = None" "\<not> sd_now s > es_startAt sch" by blast
  then show ?thesis
  proof cases
    case pending
    with ok obtain sch' where "(Waiting, sch') \<in> set (sd_gos s)" "es_ticker sch' = es_ticker sch"
      by (auto simp: pending_ok_def)
    then have "taken_care (s\<lparr>sd_pass := rest\<rparr>) (es_ticker sch)" by (auto simp: taken_care_def)
    from pass_rest_inv [OF inv pass this] pending pass show ?thesis by (simp add: scheduleDue_next_def)
  next
    case due
    let ?s = "startTracking (es_ticker sch) (es_markets sch) s"
    have "sched_inv ?s" using due now by (intro startTracking_inv inv known) auto
    moreover have "sd_pass ?s = sch # rest" by (simp add: startTracking_def pass)
    moreover have "taken_care (?s\<lparr>sd_pass := rest\<rparr>) (es_ticker sch)"
      by (simp add: taken_care_def startTracking_def StartMatch_events)
    ultimately have "sched_inv (?s\<lparr>sd_pass := rest\<rparr>)" by (rule pass_rest_inv)
    moreover have "scheduleDue_next s = ?s\<lparr>sd_pass := rest\<rparr>"
      using due pass by (simp add: scheduleDue_next_def startTracking_def)
    ultimately show ?thesis by simp
  next
    case later
    let ?s = "s\<lparr>sd_pending := (sd_pending s)(es_ticker sch \<mapsto> es_startAt sch), sd_gos := sd_gos s @ [(Waiting, sch)]\<rparr>"
    have "sched_inv ?s" by (intro add_waiting_inv inv known later)
    moreover have "sd_pass ?s = sch # rest" by (simp add: pass)
    moreover have "taken_care (?s\<lparr>sd_pass := rest\<rparr>) (es_ticker sch)" by (auto simp: taken_care_def)
    ultimately have "sched_inv (?s\<lparr>sd_pass := rest\<rparr>)" by (rule pass_rest_inv)
    moreover have "scheduleDue_next s = ?s\<lparr>sd_pass := rest\<rparr>"
      using later pass by (simp add: scheduleDue_next_def)
    ultimately show ?thesis by simp
  qed
qed

lemma begin_inv:
  assumes inv: "sched_inv s" and order: "pass_order (sd_lead s) (active_markets tbl) order"
  shows "sched_inv (scheduleDue_begin tbl order s)"
proof -
  let ?ms = "active_markets tbl" let ?s = "scheduleDue_begin tbl order s"
  have known: "known_schedule s x \<Longrightarrow> known_schedule ?s x" for x
    by (auto simp: known_schedule_def scheduleDue_begin_def Let_def)
  have ontime: "on_time s ev ml \<Longrightarrow> on_time ?s ev ml" for ev ml
    unfolding on_time_def using known by blast
  have pass: "sd_pass ?s = schedules_of (sd_lead s) ?ms order" by (simp add: scheduleDue_begin_def Let_def)
  have in_pass: "sch \<in> set (sd_pass ?s) \<longleftrightarrow> (\<exists>ev \<in> set order. event_schedule (sd_lead s) ?ms ev = Some sch)" for sch
    unfolding pass schedules_of_def by (auto simp: List.map_filter_def image_iff)
  have "known_schedule ?s sch" if "sch \<in> set (sd_pass ?s)" for sch
    using that unfolding in_pass by (auto simp: known_schedule_def scheduleDue_begin_def Let_def dest: event_schedule_ticker)
  moreover have "taken_care ?s ev" if "event_schedule (sd_lead s) ?ms ev \<noteq> None" for ev
  proof -
    from that obtain sch where sch: "event_schedule (sd_lead s) ?ms ev = Some sch" by blast
    then have "event_markets ?ms ev \<noteq> []"
      using group_markets_events [of ?ms ev] by (auto simp: event_schedule_def split: prod.splits if_splits)
    then have "ev \<in> set order" using order by (auto simp: pass_order_def event_markets_def filter_empty_conv)
    with sch have "sch \<in> set (sd_pass ?s)" unfolding in_pass by blast
    with event_schedule_ticker [OF sch] show ?thesis by (auto simp: taken_care_def)
  qed
  moreover have "sd_gos ?s = sd_gos s" "sd_pending ?s = sd_pending s" "sd_clock ?s = sd_clock s" "sd_now ?s = sd_clock s"
    "sd_tracker ?s = sd_tracker s" "sd_queries ?s = ?ms # sd_queries s" "sd_lead ?s = sd_lead s"
    by (simp_all add: scheduleDue_begin_def Let_def)
  ultimately show ?thesis
    using inv known ontime unfolding sched_inv_def pending_ok_def by auto
qed

text \<open>The goroutine at position \<open>i\<close>, and the list around it.\<close>

lemma go_split:
  assumes "i < length (sd_gos s)" "fst (sd_gos s ! i) = ph"
  obtains xs sch ys where "sd_gos s = xs @ (ph, sch) # ys" "i = length xs" "snd (sd_gos s ! i) = sch"
proof (rule that)
  show "sd_gos s = take i (sd_gos s) @ (ph, snd (sd_gos s ! i)) # drop (Suc i) (sd_gos s)"
    using assms id_take_nth_drop [OF assms(1)] by (metis prod.collapse)
qed (use assms in auto)

lemma pending_without:
  assumes "pending_ok s" "sd_gos s = xs @ (Waiting, sch) # ys"
    and "filter (\<lambda>g. fst g = Waiting) gos' = filter (\<lambda>g. fst g = Waiting) (xs @ ys)"
  shows "pending_ok (s\<lparr>sd_pending := (sd_pending s)(es_ticker sch := None), sd_gos := gos'\<rparr>)"
proof -
  have dist: "distinct (map (es_ticker \<circ> snd) (filter (\<lambda>g. fst g = Waiting) (xs @ (Waiting, sch) # ys)))"
    and pend: "\<And>ev t. sd_pending s ev = Some t \<longleftrightarrow>
      (\<exists>sch'. (Waiting, sch') \<in> set (xs @ (Waiting, sch) # ys) \<and> es_ticker sch' = ev \<and> es_startAt sch' = t)"
    using assms(1) [unfolded pending_ok_def assms(2)] by blast+
  have other: "es_ticker sch' \<noteq> es_ticker sch" if "(Waiting, sch') \<in> set (xs @ ys)" for sch'
  proof -
    have "es_ticker sch \<notin> (es_ticker \<circ> snd) ` set (filter (\<lambda>g. fst g = Waiting) (xs @ ys))" using dist by auto
    moreover have "(es_ticker \<circ> snd) (Waiting, sch') \<in> (es_ticker \<circ> snd) ` set (filter (\<lambda>g. fst g = Waiting) (xs @ ys))"
      by (rule imageI) (use that in simp)
    ultimately have "(es_ticker \<circ> snd) (Waiting, sch') \<noteq> es_ticker sch" by metis
    then show ?thesis by simp
  qed
  have mem: "(Waiting, x) \<in> set gos' \<longleftrightarrow> (Waiting, x) \<in> set (xs @ ys)" for x
  proof -
    have "(Waiting, x) \<in> set (filter (\<lambda>g. fst g = Waiting) gos') \<longleftrightarrow>
        (Waiting, x) \<in> set (filter (\<lambda>g. fst g = Waiting) (xs @ ys))" unfolding assms(3) ..
    then show ?thesis by simp
  qed
  show ?thesis
    unfolding pending_ok_def
  proof (intro conjI allI)
    show "distinct (map (es_ticker \<circ> snd) (filter (\<lambda>g. fst g = Waiting)
      (sd_gos (s\<lparr>sd_pending := (sd_pending s)(es_ticker sch := None), sd_gos := gos'\<rparr>))))"
      using dist assms(3) by simp
    show "(sd_pending (s\<lparr>sd_pending := (sd_pending s)(es_ticker sch := None), sd_gos := gos'\<rparr>) ev = Some t) =
      (\<exists>sch'. (Waiting, sch') \<in> set (sd_gos (s\<lparr>sd_pending := (sd_pending s)(es_ticker sch := None), sd_gos := gos'\<rparr>)) \<and>
         es_ticker sch' = ev \<and> es_startAt sch' = t)" for ev t
    proof (cases "ev = es_ticker sch")
      case True
      with other show ?thesis by (auto simp: mem)
    next
      case False
      with pend [of ev t] show ?thesis by (auto simp: mem)
    qed
  qed
qed

lemma wake_inv:
  assumes inv: "sched_inv s" and go: "sd_gos s = xs @ (Waiting, sch) # ys" "es_startAt sch \<le> sd_clock s"
  shows "sched_inv (s\<lparr>sd_pending := (sd_pending s)(es_ticker sch := None), sd_gos := xs @ (Starting, sch) # ys\<rparr>)"
  using inv
proof (rule sched_invI)
  show "pending_ok (s\<lparr>sd_pending := (sd_pending s)(es_ticker sch := None), sd_gos := xs @ (Starting, sch) # ys\<rparr>)"
    using inv go(1) by (intro pending_without) (auto simp: sched_inv_def)
qed (use inv go in \<open>auto simp: sched_inv_def taken_care_def\<close>)

lemma cancel_inv:
  assumes inv: "sched_inv s" and go: "sd_gos s = xs @ (Waiting, sch) # ys" and c: "sd_cancelled s"
  shows "sched_inv (s\<lparr>sd_pending := (sd_pending s)(es_ticker sch := None), sd_gos := xs @ ys\<rparr>)"
  using inv
proof (rule sched_invI)
  show "pending_ok (s\<lparr>sd_pending := (sd_pending s)(es_ticker sch := None), sd_gos := xs @ ys\<rparr>)"
    using inv go by (intro pending_without) (auto simp: sched_inv_def)
qed (use inv go c in \<open>auto simp: sched_inv_def\<close>)

lemma start_inv:
  assumes inv: "sched_inv s" and go: "sd_gos s = xs @ (Starting, sch) # ys"
  shows "sched_inv (startTracking (es_ticker sch) (es_markets sch) (s\<lparr>sd_gos := xs @ ys\<rparr>))"
proof -
  let ?s = "startTracking (es_ticker sch) (es_markets sch) s"
  have sch: "known_schedule s sch" "es_startAt sch \<le> sd_clock s" using inv go by (auto simp: sched_inv_def)
  have inv': "sched_inv ?s" by (intro startTracking_inv inv sch)
  have "sched_inv (?s\<lparr>sd_gos := xs @ ys\<rparr>)"
    using inv'
  proof (rule sched_invI)
    show "taken_care (?s\<lparr>sd_gos := xs @ ys\<rparr>) ev" if "taken_care ?s ev" for ev
      using that go by (auto simp: taken_care_def startTracking_def StartMatch_events)
  qed (use inv' go in \<open>auto simp: sched_inv_def startTracking_def pending_ok_def\<close>)
  moreover have "startTracking (es_ticker sch) (es_markets sch) (s\<lparr>sd_gos := xs @ ys\<rparr>) = ?s\<lparr>sd_gos := xs @ ys\<rparr>"
    by (simp add: startTracking_def)
  ultimately show ?thesis by simp
qed

lemma sched_inv_step: "sched_step s s' \<Longrightarrow> sched_inv s \<Longrightarrow> sched_inv s'"
proof (induction rule: sched_step.induct)
  case (clock s t)
  then show ?case by (intro sched_invI [OF clock(2)]) (auto simp: sched_inv_def pending_ok_def taken_care_def)
next
  case (begin_pass s tbl order)
  then show ?case by (simp add: begin_inv)
next
  case (next_schedule s)
  then show ?case by (simp add: next_inv)
next
  case (wake i s)
  obtain xs sch ys where go: "sd_gos s = xs @ (Waiting, sch) # ys" "i = length xs" "snd (sd_gos s ! i) = sch"
    using go_split [OF wake(1,2)] .
  with wake(3) wake_inv [OF wake(4) go(1)] show ?case by (simp add: scheduleOne_wake_def)
next
  case (start_one i s)
  obtain xs sch ys where go: "sd_gos s = xs @ (Starting, sch) # ys" "i = length xs" "snd (sd_gos s ! i) = sch"
    using go_split [OF start_one(1,2)] .
  with start_inv [OF start_one(3) go(1)] show ?case by (simp add: scheduleOne_start_def)
next
  case (cancel_all s)
  then show ?case
    by (intro sched_invI [OF cancel_all]) (auto simp: sched_inv_def pending_ok_def)
next
  case (cancel_one s i)
  obtain xs sch ys where go: "sd_gos s = xs @ (Waiting, sch) # ys" "i = length xs" "snd (sd_gos s ! i) = sch"
    using go_split [OF cancel_one(2,3)] .
  with cancel_inv [OF cancel_one(4) go(1) cancel_one(1)] show ?case by (simp add: scheduleOne_cancel_def)
next
  case (match_loop s ev ml l')
  have frame: "ActiveEvents (update_loop ev l' t) = ActiveEvents t" for t
    by (simp add: update_loop_def ActiveEvents_def comp_def case_prod_beta)
  have loops: "\<exists>ml0. (k, ml0) \<in> set (tr_loops t) \<and> ml_markets m = ml_markets ml0 \<and> ml_started m = ml_started ml0"
    if "(k, m) \<in> set (tr_loops (update_loop ev l' t))" for k m t
    using that by (auto simp: update_loop_def split: if_splits)
  show ?case
    using match_loop(3)
  proof (rule sched_invI)
    show "on_time s k m" if "(k, m) \<in> set (tr_loops (sd_tracker (s\<lparr>sd_tracker := update_loop ev l' (sd_tracker s)\<rparr>)))" for k m
      using that loops [of k m "sd_tracker s"] match_loop(3) by (fastforce simp: sched_inv_def on_time_def)
  qed (use match_loop(3) in \<open>auto simp: sched_inv_def pending_ok_def taken_care_def frame\<close>)
qed

lemma sched_frame: "sched_step s s' \<Longrightarrow> sd_lead s' = sd_lead s"
  by (induction rule: sched_step.induct)
    (auto simp: scheduleDue_begin_def scheduleDue_next_def scheduleOne_wake_def scheduleOne_start_def
      scheduleOne_cancel_def startTracking_def Let_def split: list.split)

lemma sched_reach:
  assumes "sched_step\<^sup>*\<^sup>* (NewScheduler (NewTracker stream feed) strategies leadMinutes pollSecs t0) s" "0 < leadMinutes"
  shows "sched_inv s \<and> sd_lead s = leadMinutes * 60000000000"
  using assms(1)
proof (induction rule: rtranclp_induct)
  case base
  show ?case
    using assms(2) by (simp add: NewScheduler_def NewTracker_def sched_inv_def pending_ok_def)
qed (use sched_inv_step sched_frame in auto)

lemma start_milli: "UnixMilli (occ * 1000000 - leadMinutes * 60000000000) = occ - leadMinutes * 60000"
proof -
  have "occ * 1000000 - leadMinutes * 60000000000 = (occ - leadMinutes * 60000) * 1000000" by simp
  then show ?thesis by (simp add: UnixMilli_def)
qed

text \<open>
  C24. However passes, waiting goroutines, match loops, shutdown and the clock interleave: a match is
  only ever tracked on the strength of some query of the active markets, with exactly the markets
  that query lists for it, and never earlier than the configured lead before its occurrence, which
  is the earliest of its markets' when all of them are known; an event waits in at most one
  goroutine; and until shutdown every event of the latest query whose occurrence is known is
  tracked, waits in a goroutine, or is still ahead in the running pass.
\<close>
theorem matches_start_on_time:
  assumes "sched_step\<^sup>*\<^sup>* (NewScheduler (NewTracker stream feed) strategies leadMinutes pollSecs t0) s" "0 < leadMinutes"
  shows "(\<forall>(ev, ml) \<in> set (tr_loops (sd_tracker s)).
      \<exists>ms \<in> set (sd_queries s). \<exists>occ.
        ml_markets ml = event_markets ms ev \<and> occ - leadMinutes * 60000 \<le> ml_started ml \<and>
        ((\<forall>t \<in> set (event_occurrences ms ev). 0 < t) \<longrightarrow> occ = Min (set (event_occurrences ms ev)))) \<and>
    distinct (map (es_ticker \<circ> snd) (filter (\<lambda>g. fst g = Waiting) (sd_gos s))) \<and>
    (\<forall>ms rest ev. sd_queries s = ms # rest \<longrightarrow> \<not> sd_cancelled s \<longrightarrow>
      event_schedule (sd_lead s) ms ev \<noteq> None \<longrightarrow> taken_care s ev)"
proof -
  have inv: "sched_inv s" and lead: "sd_lead s = leadMinutes * 60000000000" using sched_reach [OF assms] by auto
  have "\<exists>ms \<in> set (sd_queries s). \<exists>occ.
      ml_markets ml = event_markets ms ev \<and> occ - leadMinutes * 60000 \<le> ml_started ml \<and>
      ((\<forall>t \<in> set (event_occurrences ms ev). 0 < t) \<longrightarrow> occ = Min (set (event_occurrences ms ev)))"
    if "(ev, ml) \<in> set (tr_loops (sd_tracker s))" for ev ml
  proof -
    from inv that have "on_time s ev ml" by (auto simp: sched_inv_def)
    then obtain sch ms where sch: "ms \<in> set (sd_queries s)" "event_schedule (sd_lead s) ms ev = Some sch"
      "es_markets sch = ml_markets ml" "UnixMilli (es_startAt sch) \<le> ml_started ml"
      by (auto simp: on_time_def known_schedule_def)
    obtain events occ where g: "group_markets ms = (events, occ)" by (cases "group_markets ms")
    with sch(2) have e: "events ev \<noteq> []" "sch = \<lparr>es_ticker = ev, es_markets = events ev, es_occurs = occ ev,
        es_startAt = occ ev * 1000000 - sd_lead s\<rparr>"
      by (auto simp: event_schedule_def split: if_splits)
    have ev: "events ev = event_markets ms ev" using group_markets_events [of ms ev] g by simp
    with e have "event_occurrences ms ev \<noteq> []" by (simp add: event_markets_def event_occurrences_def)
    then have "(\<forall>t \<in> set (event_occurrences ms ev). 0 < t) \<longrightarrow> occ ev = Min (set (event_occurrences ms ev))"
      using group_markets_occurrence [of ms ev] g by simp
    moreover have "occ ev - leadMinutes * 60000 \<le> ml_started ml" using sch(4) by (simp add: e lead start_milli)
    ultimately show ?thesis using sch(1,3) e ev by (intro bexI [of _ ms] exI [of _ "occ ev"]) auto
  qed
  then show ?thesis using inv unfolding sched_inv_def pending_ok_def by blast
qed

text \<open>A match that occurs at 1000000 ms is found at 800000 ms, within the lead of five minutes.\<close>

definition demo_market :: activeMarket where
  "demo_market = \<lparr>am_MarketTicker = ''M'', am_EventTicker = ''EV'', am_OccurrenceTS = 1000000, am_Status = ''open''\<rparr>"

definition demo_scheduler :: Scheduler where
  "demo_scheduler = scheduleDue_next (scheduleDue_begin [demo_market] [''EV'']
     (NewScheduler (NewTracker True True) [] 5 0 800000000000))"

lemma demo_schedule:
  "event_schedule 300000000000 [demo_market] ''EV'' =
     Some \<lparr>es_ticker = ''EV'', es_markets = [''M''], es_occurs = 1000000, es_startAt = 700000000000\<rparr>"
  by (simp add: event_schedule_def group_markets_def group_step_def demo_market_def Let_def)

lemma demo_active: "active_markets [demo_market] = [demo_market]"
  by (simp add: active_markets_def demo_market_def)

lemma demo_scheduler_reach:
  "sched_step\<^sup>*\<^sup>* (NewScheduler (NewTracker True True) [] 5 0 800000000000) demo_scheduler"
proof -
  let ?s = "NewScheduler (NewTracker True True) [] 5 0 800000000000"
  have "pass_order (sd_lead ?s) (active_markets [demo_market]) [''EV'']"
    by (simp add: pass_order_def NewScheduler_def schedules_of_def List.map_filter_simps demo_schedule demo_active)
      (simp add: demo_market_def)
  then have "sched_step ?s (scheduleDue_begin [demo_market] [''EV''] ?s)"
    by (intro begin_pass) (simp_all add: NewScheduler_def)
  moreover have "sched_step (scheduleDue_begin [demo_market] [''EV''] ?s) demo_scheduler"
    unfolding demo_scheduler_def
    by (rule next_schedule)
      (simp add: scheduleDue_begin_def NewScheduler_def schedules_of_def List.map_filter_simps demo_active demo_schedule)
  ultimately show ?thesis by (meson rtranclp.rtrancl_refl rtranclp.rtrancl_into_rtrancl)
qed

lemma demo_scheduler_loops:
  "tr_loops (sd_tracker demo_scheduler) =
     [(''EV'', \<lparr>ml_loop = NewLoop (new_handler ''EV'' [''M''] []), ml_event = ''EV'', ml_markets = [''M''],
        ml_started = 800000\<rparr>)]"
  "sd_queries demo_scheduler = [[demo_market]]"
  by (simp_all add: demo_scheduler_def scheduleDue_next_def scheduleDue_begin_def NewScheduler_def NewTracker_def
      schedules_of_def List.map_filter_simps demo_active demo_schedule startTracking_def StartMatch_def UnixMilli_def)

theorem matches_start_on_time_witness: "event_markets [demo_market] ''EV'' = [''M'']"
  using matches_start_on_time [OF demo_scheduler_reach] by (simp add: demo_scheduler_loops)

end
