(* ===== verification/Config.thy ===== *)
theory Config
  imports GoText LedgerRepo HttpApi Float64
begin

text \<open>
  The configuration store (\<open>config/snapshot.go\<close>, \<open>config/keys.go\<close>) and the HTTP handler that writes
  the same table (\<open>handlePutConfig\<close> of \<open>httpapi/handlers.go\<close>). A snapshot is built from the environment
  file and the table \<open>app_config\<close>; an update validates, writes the table, rebuilds the snapshot and
  notifies the subscribers of the key's topic. Number parsing to \<open>float64\<close> and JSON decoding are
  parameters (a \<open>codec\<close>), the decoded YAML file is an input.
\<close>

section \<open>Keys\<close>

definition topicSeries :: string where "topicSeries = ''series''"
definition topicRatelimit :: string where "topicRatelimit = ''ratelimit''"
definition topicBackoff :: string where "topicBackoff = ''backoff''"
definition topicGates :: string where "topicGates = ''gates''"
definition topicRetention :: string where "topicRetention = ''retention''"
definition topicInsights :: string where "topicInsights = ''insights''"

text \<open>The topic of every key; the empty topic marks a key that is read live.\<close>

definition keyClassifications :: "(string \<times> string) list" where
  "keyClassifications =
     [(''series_tickers'', topicSeries),
      (''rate_limit_rps'', topicRatelimit),
      (''kalshi_livedata_rate_limit_rps'', topicRatelimit),
      (''ws_min_backoff_secs'', topicBackoff),
      (''ws_max_backoff_secs'', topicBackoff),
      (''per_strategy_cooldown_secs'', topicGates),
      (''retention_weeks'', topicRetention),
      (''insights_refresh_secs'', topicInsights),
      (''scan_interval_hours'', []),
      (''track_lead_minutes'', []),
      (''batch_size'', []),
      (''flush_timeout_ms'', []),
      (''http_timeout_secs'', []),
      (''scheduler_poll_secs'', []),
      (''apitennis_timezone'', []),
      (''kalshi_livedata_enabled'', []),
      (''kalshi_livedata_poll_secs'', []),
      (''close_timer_enabled'', []),
      (''close_timer_lead_min'', []),
      (''close_timer_min_price'', []),
      (''close_timer_poll_secs'', []),
      (''close_timer_size'', []),
      (''reconciler_interval_secs'', []),
      (''order_backfill_interval_secs'', []),
      (''schedule_checker_interval_secs'', []),
      (''order_quota_enabled'', []),
      (''order_quota_cooldown_secs'', []),
      (''order_quota_max_per_sec'', []),
      (''order_quota_budget_total'', []),
      (''order_quota_budget_floor'', []),
      (''real_trading_enabled'', []),
      (''kelly_fraction'', []),
      (''paper_bankroll'', []),
      (''real_bankroll'', []),
      (''real_order_time_in_force'', []),
      (''real_order_timeout_s'', []),
      (''legacy_sizing'', [])]"

definition allKnownKeys :: "string list" where
  "allKnownKeys =
     [''series_tickers'',
      ''scan_interval_hours'',
      ''track_lead_minutes'',
      ''ws_min_backoff_secs'',
      ''ws_max_backoff_secs'',
      ''batch_size'',
      ''flush_timeout_ms'',
      ''http_timeout_secs'',
      ''rate_limit_rps'',
      ''scheduler_poll_secs'',
      ''apitennis_timezone'',
      ''kalshi_livedata_enabled'',
      ''kalshi_livedata_poll_secs'',
      ''kalshi_livedata_rate_limit_rps'',
      ''close_timer_enabled'',
      ''close_timer_lead_min'',
      ''close_timer_min_price'',
      ''close_timer_poll_secs'',
      ''close_timer_size'',
      ''reconciler_interval_secs'',
      ''order_backfill_interval_secs'',
      ''schedule_checker_interval_secs'',
      ''order_quota_enabled'',
      ''order_quota_cooldown_secs'',
      ''order_quota_max_per_sec'',
      ''order_quota_budget_total'',
      ''order_quota_budget_floor'',
      ''per_strategy_cooldown_secs'',
      ''real_trading_enabled'',
      ''kelly_fraction'',
      ''paper_bankroll'',
      ''real_bankroll'',
      ''real_order_time_in_force'',
      ''real_order_timeout_s'',
      ''legacy_sizing'',
      ''retention_weeks'',
      ''insights_refresh_secs'']"

definition keyClassification :: "string \<Rightarrow> string option" where
  "keyClassification key = map_of keyClassifications key"

text \<open>The keys the builder reads are exactly the classified ones, each once.\<close>

lemma every_key_classified:
  "distinct (map fst keyClassifications) \<and> distinct allKnownKeys \<and>
   set allKnownKeys = set (map fst keyClassifications)"
  by code_simp

section \<open>Snapshots\<close>

record envConfig =
  cf_Environment :: string
  cf_APIKeyID :: string
  cf_PrivateKeyPath :: string
  cf_DBDSN :: string
  cf_MetricsAddr :: string
  cf_APITennisAPIKey :: string
  cf_DisableWSDataSave :: bool
  cf_RESTBaseURL :: string
  cf_WSURL :: string

record Snapshot = envConfig +
  cf_SeriesTickers :: "string list"
  cf_ScanIntervalHours :: int
  cf_TrackLeadMinutes :: int
  cf_WSMinBackoffSecs :: int
  cf_WSMaxBackoffSecs :: int
  cf_BatchSize :: int
  cf_FlushTimeoutMS :: int
  cf_HTTPTimeoutSecs :: int
  cf_RateLimitRPS :: int
  cf_SchedulerPollSecs :: int
  cf_ReconcilerIntervalSecs :: int
  cf_OrderBackfillIntervalSecs :: int
  cf_ScheduleCheckerIntervalSecs :: int
  cf_APITennisTimezone :: string
  cf_KalshiLiveDataEnabled :: bool
  cf_KalshiLiveDataPollSecs :: int
  cf_KalshiLiveDataRateLimitRPS :: int
  cf_CloseTimerEnabled :: bool
  cf_CloseTimerLeadMin :: int
  cf_CloseTimerMinPrice :: float64
  cf_CloseTimerPollSecs :: int
  cf_CloseTimerSize :: float64
  cf_OrderQuotaEnabled :: bool
  cf_OrderQuotaCooldownSecs :: int
  cf_OrderQuotaMaxPerSec :: int
  cf_OrderQuotaBudgetTotal :: float64
  cf_OrderQuotaBudgetFloor :: float64
  cf_PerStrategyCooldownSecs :: int
  cf_RealTradingEnabled :: bool
  cf_KellyFraction :: float64
  cf_PaperBankroll :: float64
  cf_RealBankroll :: float64
  cf_RealOrderTimeInForce :: string
  cf_RealOrderTimeoutS :: int
  cf_LegacySizing :: bool
  cf_RetentionWeeks :: int
  cf_InsightsRefreshSecs :: int

record codec =
  cd_ParseFloat :: "string \<Rightarrow> float64 option"
  cd_UnmarshalStrings :: "string \<Rightarrow> string list \<times> bool"

definition atoi :: "string \<Rightarrow> int" where
  "atoi s = (if s = [] then 0 else case ParseInt s of Some v \<Rightarrow> v | None \<Rightarrow> 0)"

definition atof :: "codec \<Rightarrow> string \<Rightarrow> float64" where
  "atof cd s = (if s = [] then Fin 0 else case cd_ParseFloat cd s of Some v \<Rightarrow> v | None \<Rightarrow> Fin 0)"

definition atob :: "string \<Rightarrow> bool" where
  "atob s \<longleftrightarrow> s = ''true'' \<or> s = ''1''"

text \<open>The decoder may have filled part of the array before it failed.\<close>

definition parseJSONStringArray :: "codec \<Rightarrow> string \<Rightarrow> string list" where
  "parseJSONStringArray cd s =
     (if s = [] then []
      else
        (let (arr, ok) = cd_UnmarshalStrings cd s in
         if ok then arr
         else arr @ filter (\<lambda>p. p \<noteq> []) (map TrimSpace (Split (CHR '','') s))))"

definition applyRuntimeKeys :: "codec \<Rightarrow> (string \<Rightarrow> string) \<Rightarrow> Snapshot \<Rightarrow> Snapshot" where
  "applyRuntimeKeys cd m s = s\<lparr>
       cf_SeriesTickers := parseJSONStringArray cd (m ''series_tickers''),
       cf_ScanIntervalHours := atoi (m ''scan_interval_hours''),
       cf_TrackLeadMinutes := atoi (m ''track_lead_minutes''),
       cf_WSMinBackoffSecs := atoi (m ''ws_min_backoff_secs''),
       cf_WSMaxBackoffSecs := atoi (m ''ws_max_backoff_secs''),
       cf_BatchSize := atoi (m ''batch_size''),
       cf_FlushTimeoutMS := atoi (m ''flush_timeout_ms''),
       cf_HTTPTimeoutSecs := atoi (m ''http_timeout_secs''),
       cf_RateLimitRPS := atoi (m ''rate_limit_rps''),
       cf_SchedulerPollSecs := atoi (m ''scheduler_poll_secs''),
       cf_ReconcilerIntervalSecs := atoi (m ''reconciler_interval_secs''),
       cf_OrderBackfillIntervalSecs := atoi (m ''order_backfill_interval_secs''),
       cf_ScheduleCheckerIntervalSecs := atoi (m ''schedule_checker_interval_secs''),
       cf_APITennisTimezone := m ''apitennis_timezone'',
       cf_KalshiLiveDataEnabled := atob (m ''kalshi_livedata_enabled''),
       cf_KalshiLiveDataPollSecs := atoi (m ''kalshi_livedata_poll_secs''),
       cf_KalshiLiveDataRateLimitRPS := atoi (m ''kalshi_livedata_rate_limit_rps''),
       cf_CloseTimerEnabled := atob (m ''close_timer_enabled''),
       cf_CloseTimerLeadMin := atoi (m ''close_timer_lead_min''),
       cf_CloseTimerMinPrice := atof cd (m ''close_timer_min_price''),
       cf_CloseTimerPollSecs := atoi (m ''close_timer_poll_secs''),
       cf_CloseTimerSize := atof cd (m ''close_timer_size''),
       cf_OrderQuotaEnabled := atob (m ''order_quota_enabled''),
       cf_OrderQuotaCooldownSecs := atoi (m ''order_quota_cooldown_secs''),
       cf_OrderQuotaMaxPerSec := atoi (m ''order_quota_max_per_sec''),
       cf_OrderQuotaBudgetTotal := atof cd (m ''order_quota_budget_total''),
       cf_OrderQuotaBudgetFloor := atof cd (m ''order_quota_budget_floor''),
       cf_PerStrategyCooldownSecs := atoi (m ''per_strategy_cooldown_secs''),
       cf_RealTradingEnabled := atob (m ''real_trading_enabled''),
       cf_KellyFraction := atof cd (m ''kelly_fraction''),
       cf_PaperBankroll := atof cd (m ''paper_bankroll''),
       cf_RealBankroll := atof cd (m ''real_bankroll''),
       cf_RealOrderTimeInForce := m ''real_order_time_in_force'',
       cf_RealOrderTimeoutS := atoi (m ''real_order_timeout_s''),
       cf_LegacySizing := atob (m ''legacy_sizing''),
       cf_RetentionWeeks := atoi (m ''retention_weeks''),
       cf_InsightsRefreshSecs := atoi (m ''insights_refresh_secs'')\<rparr>"

text \<open>A snapshot with the zero values of its runtime fields.\<close>

definition zero_snapshot :: "envConfig \<Rightarrow> Snapshot" where
  "zero_snapshot env = \<lparr>
       cf_Environment = cf_Environment env,
       cf_APIKeyID = cf_APIKeyID env,
       cf_PrivateKeyPath = cf_PrivateKeyPath env,
       cf_DBDSN = cf_DBDSN env,
       cf_MetricsAddr = cf_MetricsAddr env,
       cf_APITennisAPIKey = cf_APITennisAPIKey env,
       cf_DisableWSDataSave = cf_DisableWSDataSave env,
       cf_RESTBaseURL = cf_RESTBaseURL env,
       cf_WSURL = cf_WSURL env,
       cf_SeriesTickers = [],
       cf_ScanIntervalHours = 0,
       cf_TrackLeadMinutes = 0,
       cf_WSMinBackoffSecs = 0,
       cf_WSMaxBackoffSecs = 0,
       cf_BatchSize = 0,
       cf_FlushTimeoutMS = 0,
       cf_HTTPTimeoutSecs = 0,
       cf_RateLimitRPS = 0,
       cf_SchedulerPollSecs = 0,
       cf_ReconcilerIntervalSecs = 0,
       cf_OrderBackfillIntervalSecs = 0,
       cf_ScheduleCheckerIntervalSecs = 0,
       cf_APITennisTimezone = [],
       cf_KalshiLiveDataEnabled = False,
       cf_KalshiLiveDataPollSecs = 0,
       cf_KalshiLiveDataRateLimitRPS = 0,
       cf_CloseTimerEnabled = False,
       cf_CloseTimerLeadMin = 0,
       cf_CloseTimerMinPrice = Fin 0,
       cf_CloseTimerPollSecs = 0,
       cf_CloseTimerSize = Fin 0,
       cf_OrderQuotaEnabled = False,
       cf_OrderQuotaCooldownSecs = 0,
       cf_OrderQuotaMaxPerSec = 0,
       cf_OrderQuotaBudgetTotal = Fin 0,
       cf_OrderQuotaBudgetFloor = Fin 0,
       cf_PerStrategyCooldownSecs = 0,
       cf_RealTradingEnabled = False,
       cf_KellyFraction = Fin 0,
       cf_PaperBankroll = Fin 0,
       cf_RealBankroll = Fin 0,
       cf_RealOrderTimeInForce = [],
       cf_RealOrderTimeoutS = 0,
       cf_LegacySizing = False,
       cf_RetentionWeeks = 0,
       cf_InsightsRefreshSecs = 0\<rparr>"

definition buildSnapshot :: "codec \<Rightarrow> envConfig \<Rightarrow> (string \<Rightarrow> string) \<Rightarrow> Snapshot" where
  "buildSnapshot cd env pairs = applyRuntimeKeys cd pairs (zero_snapshot env)"

definition envFromSnapshot :: "Snapshot \<Rightarrow> envConfig" where
  "envFromSnapshot s = \<lparr>
       cf_Environment = cf_Environment s,
       cf_APIKeyID = cf_APIKeyID s,
       cf_PrivateKeyPath = cf_PrivateKeyPath s,
       cf_DBDSN = cf_DBDSN s,
       cf_MetricsAddr = cf_MetricsAddr s,
       cf_APITennisAPIKey = cf_APITennisAPIKey s,
       cf_DisableWSDataSave = cf_DisableWSDataSave s,
       cf_RESTBaseURL = cf_RESTBaseURL s,
       cf_WSURL = cf_WSURL s\<rparr>"

lemma envFromSnapshot_build [simp]: "envFromSnapshot (buildSnapshot cd env m) = env"
  by (simp add: envFromSnapshot_def buildSnapshot_def applyRuntimeKeys_def zero_snapshot_def)

section \<open>The store\<close>

datatype config_error =
  ErrUnknownKey string
  | ErrLeadExceedsTrack int int
  | ErrConfigDB string
  | ErrEnv string

definition env_validate :: "envConfig \<Rightarrow> config_error option" where
  "env_validate c =
     (if cf_Environment c = [] then Some (ErrEnv ''environment'')
      else if cf_RESTBaseURL c = [] then Some (ErrEnv ''rest_base_url'')
      else if cf_WSURL c = [] then Some (ErrEnv ''ws_url'')
      else if cf_DBDSN c = [] then Some (ErrEnv ''db_dsn'')
      else if cf_MetricsAddr c = [] then Some (ErrEnv ''metrics_addr'')
      else None)"

text \<open>\<open>loadEnv\<close> on the outcome of reading the file (\<open>None\<close>: not readable) and of decoding it.\<close>

definition loadEnv :: "envConfig option option \<Rightarrow> config_error + envConfig" where
  "loadEnv file =
     (case file of
        None \<Rightarrow> Inl (ErrEnv ''read'')
      | Some None \<Rightarrow> Inl (ErrEnv ''parse'')
      | Some (Some c) \<Rightarrow> (case env_validate c of Some err \<Rightarrow> Inl err | None \<Rightarrow> Inr c))"

record appConfigHistoryRow =
  ah_Key :: string
  ah_OldValue :: string
  ah_NewValue :: string
  ah_Action :: string
  ah_ChangedTS :: int

text \<open>The two tables: \<open>app_config\<close> by primary key, \<open>app_config_history\<close> in insertion order.\<close>

record config_db =
  ac_rows :: "string \<rightharpoonup> string \<times> int"
  ac_history :: "appConfigHistoryRow list"

definition getAllAppConfig :: "db_fault \<Rightarrow> config_db \<Rightarrow> config_error + (string \<Rightarrow> string)" where
  "getAllAppConfig fault db =
     (if fault \<noteq> NoFault then Inl (ErrConfigDB ''select'')
      else Inr (\<lambda>k. case ac_rows db k of None \<Rightarrow> [] | Some (v, _) \<Rightarrow> v))"

definition setAppConfig :: "tx_env \<Rightarrow> string \<Rightarrow> string \<Rightarrow> config_db \<Rightarrow> config_db \<times> config_error option" where
  "setAppConfig env key value db =
     (if tx_fault env \<noteq> NoFault then (db, Some (ErrConfigDB ''set''))
      else
        (let old = (case ac_rows db key of None \<Rightarrow> [] | Some (v, _) \<Rightarrow> v);
             now = tx_now1 env in
         (\<lparr>ac_rows = (ac_rows db)(key \<mapsto> (value, now)),
           ac_history = ac_history db @ [\<lparr>ah_Key = key, ah_OldValue = old, ah_NewValue = value,
             ah_Action = ''set'', ah_ChangedTS = now\<rparr>]\<rparr>, None)))"

text \<open>A subscription is a channel of one slot; they are kept per topic, in order.\<close>

record Store =
  cs_cur :: Snapshot
  cs_subs :: "string \<Rightarrow> Snapshot list list"
  cs_db :: config_db

definition Load :: "codec \<Rightarrow> db_fault \<Rightarrow> envConfig option option \<Rightarrow> config_db option \<Rightarrow> config_error + Store" where
  "Load cd fault file db =
     (case loadEnv file of
        Inl err \<Rightarrow> Inl err
      | Inr env \<Rightarrow>
          (case (case db of None \<Rightarrow> Inr (\<lambda>_. []) | Some d \<Rightarrow> getAllAppConfig fault d) of
             Inl err \<Rightarrow> Inl err
           | Inr pairs \<Rightarrow>
               Inr \<lparr>cs_cur = buildSnapshot cd env pairs, cs_subs = (\<lambda>_. []),
                    cs_db = (case db of None \<Rightarrow> \<lparr>ac_rows = Map.empty, ac_history = []\<rparr> | Some d \<Rightarrow> d)\<rparr>))"

definition Current :: "Store \<Rightarrow> Snapshot" where "Current s = cs_cur s"

definition validateKey :: "string \<Rightarrow> string \<Rightarrow> Snapshot \<Rightarrow> config_error option" where
  "validateKey key value cur =
     (let lead = (if key = ''close_timer_lead_min'' then atoi value else cf_CloseTimerLeadMin cur);
          track = (if key = ''track_lead_minutes'' then atoi value else cf_TrackLeadMinutes cur);
          enabled = (if key = ''close_timer_enabled'' then atob value else cf_CloseTimerEnabled cur) in
      if enabled \<and> lead > track then Some (ErrLeadExceedsTrack lead track) else None)"

definition Subscribe :: "string \<Rightarrow> Store \<Rightarrow> Store" where
  "Subscribe topic s = s\<lparr>cs_subs := (cs_subs s)(topic := cs_subs s topic @ [[]])\<rparr>"

definition notify_one :: "Snapshot \<Rightarrow> Snapshot list \<Rightarrow> Snapshot list" where
  "notify_one snap ch = (case chan_try_send 1 snap ch of Some ch' \<Rightarrow> ch' | None \<Rightarrow> ch)"

definition notify :: "string \<Rightarrow> Snapshot \<Rightarrow> Store \<Rightarrow> Store" where
  "notify topic snap s = s\<lparr>cs_subs := (cs_subs s)(topic := map (notify_one snap) (cs_subs s topic))\<rparr>"

text \<open>\<open>reread\<close> is the outcome of the second query, after the write was committed.\<close>

definition Config_Update ::
  "codec \<Rightarrow> tx_env \<Rightarrow> db_fault \<Rightarrow> string \<Rightarrow> string \<Rightarrow> Store \<Rightarrow> Store \<times> config_error option" where
  "Config_Update cd env reread key value s =
     (case keyClassification key of
        None \<Rightarrow> (s, Some (ErrUnknownKey key))
      | Some topic \<Rightarrow>
          (case validateKey key value (Current s) of
             Some err \<Rightarrow> (s, Some err)
           | None \<Rightarrow>
               (case setAppConfig env key value (cs_db s) of
                  (db, Some err) \<Rightarrow> (s\<lparr>cs_db := db\<rparr>, Some err)
                | (db, None) \<Rightarrow>
                    (let s1 = s\<lparr>cs_db := db\<rparr> in
                     case getAllAppConfig reread db of
                       Inl err \<Rightarrow> (s1, Some err)
                     | Inr pairs \<Rightarrow>
                         (let newSnap = buildSnapshot cd (envFromSnapshot (Current s1)) pairs;
                              s2 = s1\<lparr>cs_cur := newSnap\<rparr> in
                          (if topic \<noteq> [] then notify topic newSnap s2 else s2, None))))))"

text \<open>\<open>PUT /api/v1/config\<close> updates an existing row and nothing else.\<close>

datatype config_reply = ConfigUpdated string

definition handlePutConfig ::
  "string \<Rightarrow> bool \<Rightarrow> tx_env \<Rightarrow> (string \<times> string) http_request \<Rightarrow> config_db \<Rightarrow> config_db \<times> config_reply response" where
  "handlePutConfig cause has_db env r db =
     (if \<not> has_db then (db, checkDB has_db NoContent)
      else
        (case rq_Body r of
           None \<Rightarrow> (db, writeProblem 400 ''invalid_body'' ''Invalid JSON body'')
         | Some (key, value) \<Rightarrow>
             (if key = [] then (db, writeProblem 400 ''missing_key'' ''Config key required'')
              else if tx_fault env \<noteq> NoFault then (db, writeProblem 500 ''db_error'' cause)
              else
                (case ac_rows db key of
                   None \<Rightarrow> (db, writeProblem 404 ''not_found'' ''Config key not found'')
                 | Some _ \<Rightarrow>
                     (db\<lparr>ac_rows := (ac_rows db)(key \<mapsto> (value, tx_now1 env))\<rparr>,
                      writeJSON 200 (ConfigUpdated key))))))"

section \<open>Consistency\<close>

datatype config_op =
  OpUpdate tx_env db_fault string string
  | OpSubscribe string
  | OpReceive string nat

text \<open>A client: updates, subscriptions, and a subscriber taking what is in its channel.\<close>

fun config_step :: "codec \<Rightarrow> config_op \<Rightarrow> Store \<Rightarrow> Store" where
  "config_step cd (OpUpdate env reread key value) s = fst (Config_Update cd env reread key value s)"
| "config_step cd (OpSubscribe topic) s = Subscribe topic s"
| "config_step cd (OpReceive topic i) s =
     s\<lparr>cs_subs := (cs_subs s)(topic := (cs_subs s topic)[i := drop 1 (cs_subs s topic ! i)])\<rparr>"

fun reread_ok :: "config_op \<Rightarrow> bool" where
  "reread_ok (OpUpdate _ reread _ _) = (reread = NoFault)"
| "reread_ok _ = True"

definition pairs_of :: "config_db \<Rightarrow> string \<Rightarrow> string" where
  "pairs_of db k = (case ac_rows db k of None \<Rightarrow> [] | Some (v, _) \<Rightarrow> v)"

definition lead_ok :: "Snapshot \<Rightarrow> bool" where
  "lead_ok s \<longleftrightarrow> (cf_CloseTimerEnabled s \<longrightarrow> cf_CloseTimerLeadMin s \<le> cf_TrackLeadMinutes s)"

text \<open>The history as a log: every entry names the value it replaced.\<close>

fun replays :: "appConfigHistoryRow list \<Rightarrow> (string \<Rightarrow> string) \<Rightarrow> (string \<Rightarrow> string) \<Rightarrow> bool" where
  "replays [] m m' \<longleftrightarrow> m' = m"
| "replays (h # hs) m m' \<longleftrightarrow> ah_OldValue h = m (ah_Key h) \<and> replays hs (m(ah_Key h := ah_NewValue h)) m'"

lemma replays_snoc:
  "replays (hs @ [h]) m m'' \<longleftrightarrow>
     (\<exists>m'. replays hs m m' \<and> ah_OldValue h = m' (ah_Key h) \<and> m'' = m'(ah_Key h := ah_NewValue h))"
  by (induction hs arbitrary: m) auto

lemma getAllAppConfig_ok: "getAllAppConfig NoFault db = Inr (pairs_of db)"
  by (simp add: getAllAppConfig_def pairs_of_def fun_eq_iff)

lemma build_sel [simp]:
  "cf_CloseTimerEnabled (buildSnapshot cd env m) = atob (m ''close_timer_enabled'')"
  "cf_CloseTimerLeadMin (buildSnapshot cd env m) = atoi (m ''close_timer_lead_min'')"
  "cf_TrackLeadMinutes (buildSnapshot cd env m) = atoi (m ''track_lead_minutes'')"
  by (simp_all add: buildSnapshot_def applyRuntimeKeys_def)

text \<open>The validation looks ahead at the snapshot the update will build.\<close>

lemma validateKey_lookahead:
  "validateKey key value (buildSnapshot cd env m) = None \<longleftrightarrow> lead_ok (buildSnapshot cd env (m(key := value)))"
  by (simp add: validateKey_def lead_ok_def Let_def not_less)

lemma known_key: "keyClassification key = Some t \<Longrightarrow> key \<in> set allKnownKeys"
  using every_key_classified by (force simp: keyClassification_def dest: map_of_SomeD)

text \<open>What an update does, on every branch whose second query works.\<close>

lemma Config_Update_cases:
  assumes cur: "cs_cur s = buildSnapshot cd env (pairs_of (cs_db s))"
  obtains (rejected) err where "Config_Update cd tx NoFault key v s = (s, Some err)"
  | (applied) topic s' where "Config_Update cd tx NoFault key v s = (s', None)"
      "keyClassification key = Some topic"
      "cs_cur s' = buildSnapshot cd env (pairs_of (cs_db s'))" "lead_ok (cs_cur s')"
      "pairs_of (cs_db s') = (pairs_of (cs_db s))(key := v)"
      "ac_history (cs_db s') = ac_history (cs_db s) @ [\<lparr>ah_Key = key, ah_OldValue = pairs_of (cs_db s) key,
         ah_NewValue = v, ah_Action = ''set'', ah_ChangedTS = tx_now1 tx\<rparr>]"
      "cs_subs s' = (if topic = [] then cs_subs s
         else (cs_subs s)(topic := map (notify_one (cs_cur s')) (cs_subs s topic)))"
proof (cases "keyClassification key")
  case None
  then show ?thesis by (intro rejected) (simp add: Config_Update_def)
next
  case (Some topic)
  show ?thesis
  proof (cases "validateKey key v (cs_cur s) = None \<and> tx_fault tx = NoFault")
    case False
    then show ?thesis
      using Some
      by (cases "validateKey key v (cs_cur s)")
        (auto simp: Config_Update_def Current_def setAppConfig_def intro!: rejected)
  next
    case True
    define db where "db = fst (setAppConfig tx key v (cs_db s))"
    define snap where "snap = buildSnapshot cd env (pairs_of db)"
    have set: "setAppConfig tx key v (cs_db s) = (db, None)" using True by (simp add: db_def setAppConfig_def Let_def)
    have pairs: "pairs_of db = (pairs_of (cs_db s))(key := v)"
      using True by (simp add: db_def setAppConfig_def Let_def pairs_of_def fun_eq_iff)
    have hist: "ac_history db = ac_history (cs_db s) @ [\<lparr>ah_Key = key, ah_OldValue = pairs_of (cs_db s) key,
         ah_NewValue = v, ah_Action = ''set'', ah_ChangedTS = tx_now1 tx\<rparr>]"
      using True by (simp add: db_def setAppConfig_def Let_def pairs_of_def)
    have lead: "lead_ok snap" using True by (simp add: snap_def pairs cur validateKey_lookahead [symmetric])
    let ?s = "s\<lparr>cs_db := db, cs_cur := snap\<rparr>"
    have upd: "Config_Update cd tx NoFault key v s = (if topic \<noteq> [] then notify topic snap ?s else ?s, None)"
      using Some True set by (simp add: Config_Update_def Current_def getAllAppConfig_ok cur snap_def Let_def)
    show ?thesis
      by (rule applied [OF upd Some]) (use pairs hist lead in \<open>auto simp: notify_def snap_def\<close>)
  qed
qed

definition config_inv :: "codec \<Rightarrow> envConfig \<Rightarrow> config_db \<Rightarrow> Store \<Rightarrow> bool" where
  "config_inv cd env db0 s \<longleftrightarrow>
     cs_cur s = buildSnapshot cd env (pairs_of (cs_db s)) \<and> lead_ok (cs_cur s) \<and>
     (\<exists>hs. ac_history (cs_db s) = ac_history db0 @ hs \<and> replays hs (pairs_of db0) (pairs_of (cs_db s)) \<and>
        (\<forall>h \<in> set hs. ah_Key h \<in> set allKnownKeys)) \<and>
     (\<forall>topic. \<forall>ch \<in> set (cs_subs s topic). length ch \<le> 1)"

lemma notify_one_length: "length ch \<le> 1 \<Longrightarrow> length (notify_one snap ch) = 1"
  by (cases ch) (auto simp: notify_one_def chan_try_send_def)

lemma config_inv_step:
  assumes inv: "config_inv cd env db0 s" and op: "reread_ok op"
  shows "config_inv cd env db0 (config_step cd op s)"
proof (cases op)
  case (OpSubscribe topic)
  with inv show ?thesis by (auto simp: config_inv_def Subscribe_def)
next
  case (OpReceive topic i)
  have "length ch \<le> 1" if "ch \<in> set ((cs_subs s topic)[i := drop 1 (cs_subs s topic ! i)])" for ch
  proof (cases "i < length (cs_subs s topic)")
    case True
    have "ch \<in> insert (drop 1 (cs_subs s topic ! i)) (set (cs_subs s topic))"
      using that set_update_subset_insert by fast
    moreover have "length (cs_subs s topic ! i) \<le> 1" using inv nth_mem [OF True] by (auto simp: config_inv_def)
    ultimately show ?thesis using inv by (auto simp: config_inv_def)
  next
    case False
    with inv that show ?thesis by (auto simp: config_inv_def list_update_beyond not_less)
  qed
  with inv OpReceive show ?thesis by (auto simp: config_inv_def)
next
  case (OpUpdate tx reread key v)
  with op have r: "reread = NoFault" by simp
  have cur: "cs_cur s = buildSnapshot cd env (pairs_of (cs_db s))" using inv by (simp add: config_inv_def)
  from cur show ?thesis
  proof (cases rule: Config_Update_cases [where tx = tx and key = key and v = v])
    case (rejected err)
    with inv OpUpdate r show ?thesis by simp
  next
    case (applied topic s')
    obtain hs where hs: "ac_history (cs_db s) = ac_history db0 @ hs"
      "replays hs (pairs_of db0) (pairs_of (cs_db s))" "\<forall>h \<in> set hs. ah_Key h \<in> set allKnownKeys"
      using inv by (auto simp: config_inv_def)
    let ?h = "\<lparr>ah_Key = key, ah_OldValue = pairs_of (cs_db s) key, ah_NewValue = v, ah_Action = ''set'',
      ah_ChangedTS = tx_now1 tx\<rparr>"
    have "replays (hs @ [?h]) (pairs_of db0) (pairs_of (cs_db s'))"
      using hs(2) applied(5) by (auto simp: replays_snoc)
    moreover have "ac_history (cs_db s') = ac_history db0 @ (hs @ [?h])" using applied(6) hs(1) by simp
    moreover have "\<forall>h \<in> set (hs @ [?h]). ah_Key h \<in> set allKnownKeys" using hs(3) known_key [OF applied(2)] by simp
    moreover have "\<forall>t. \<forall>ch \<in> set (cs_subs s' t). length ch \<le> 1"
      using inv notify_one_length unfolding applied(7) config_inv_def by (auto simp: less_Suc_eq_le)
    ultimately have "config_inv cd env db0 s'" using applied(3,4) unfolding config_inv_def by blast
    then show ?thesis using applied(1) OpUpdate r by simp
  qed
qed

lemma config_inv_fold:
  "config_inv cd env db0 s \<Longrightarrow> list_all reread_ok ops \<Longrightarrow> config_inv cd env db0 (fold (config_step cd) ops s)"
  by (induction ops arbitrary: s) (simp_all add: config_inv_step)

lemma config_inv_load:
  assumes "Load cd NoFault (Some (Some env)) (Some db0) = Inr s0" "lead_ok (cs_cur s0)"
  shows "config_inv cd env db0 s0"
  using assms by (auto simp: Load_def loadEnv_def getAllAppConfig_ok config_inv_def split: option.splits)

text \<open>
  C25. From a store loaded with a close-timer lead within the tracking lead, after any sequence of
  updates, subscriptions and receptions, with any keys and values and whatever fails in the
  transactions (the query that follows a committed write excepted): the current snapshot is the one
  the environment file and the stored table describe; an enabled close timer never has a lead
  beyond the tracking lead; the history, replayed from the initial table, gives the current one and
  each entry names the value it replaced; only known keys were written; and after an update that
  succeeded every subscriber of the key's topic has a snapshot waiting.
\<close>
theorem config_snapshot_follows_table:
  assumes "Load cd NoFault (Some (Some env)) (Some db0) = Inr s0" "lead_ok (cs_cur s0)"
    and "list_all reread_ok ops" "s = fold (config_step cd) ops s0"
  shows "cs_cur s = buildSnapshot cd env (pairs_of (cs_db s)) \<and> lead_ok (cs_cur s) \<and>
    (\<exists>hs. ac_history (cs_db s) = ac_history db0 @ hs \<and> replays hs (pairs_of db0) (pairs_of (cs_db s)) \<and>
       (\<forall>h \<in> set hs. ah_Key h \<in> set allKnownKeys)) \<and>
    (\<forall>tx key v topic s'. Config_Update cd tx NoFault key v s = (s', None) \<longrightarrow>
       keyClassification key = Some topic \<longrightarrow> topic \<noteq> [] \<longrightarrow>
       pairs_of (cs_db s') key = v \<and> (\<forall>ch \<in> set (cs_subs s' topic). length ch = 1))"
proof -
  have inv: "config_inv cd env db0 s"
    unfolding assms(4) by (intro config_inv_fold config_inv_load assms(1-3))
  then have cur: "cs_cur s = buildSnapshot cd env (pairs_of (cs_db s))" by (simp add: config_inv_def)
  have "pairs_of (cs_db s') key = v \<and> (\<forall>ch \<in> set (cs_subs s' topic). length ch = 1)"
    if "Config_Update cd tx NoFault key v s = (s', None)" "keyClassification key = Some topic" "topic \<noteq> []"
    for tx key v topic s'
    using cur
  proof (cases rule: Config_Update_cases [where tx = tx and key = key and v = v])
    case (applied t s'')
    with that inv notify_one_length show ?thesis by (auto simp: config_inv_def)
  qed (use that in simp)
  then show ?thesis using inv unfolding config_inv_def by blast
qed

text \<open>A store whose close timer leads by 5 of 10 minutes.\<close>

definition demo_codec :: codec where
  "demo_codec = \<lparr>cd_ParseFloat = (\<lambda>_. None), cd_UnmarshalStrings = (\<lambda>_. ([], False))\<rparr>"

definition demo_env :: envConfig where
  "demo_env = \<lparr>cf_Environment = ''demo'', cf_APIKeyID = [], cf_PrivateKeyPath = [], cf_DBDSN = ''d'',
     cf_MetricsAddr = ''m'', cf_APITennisAPIKey = [], cf_DisableWSDataSave = False, cf_RESTBaseURL = ''r'', cf_WSURL = ''w''\<rparr>"

definition demo_config :: config_db where
  "demo_config = \<lparr>ac_rows = [''close_timer_enabled'' \<mapsto> (''true'', 0), ''close_timer_lead_min'' \<mapsto> (''5'', 0),
     ''track_lead_minutes'' \<mapsto> (''10'', 0)], ac_history = []\<rparr>"

definition demo_store :: Store where
  "demo_store = \<lparr>cs_cur = buildSnapshot demo_codec demo_env (pairs_of demo_config), cs_subs = (\<lambda>_. []), cs_db = demo_config\<rparr>"

lemma demo_load: "Load demo_codec NoFault (Some (Some demo_env)) (Some demo_config) = Inr demo_store"
  by (simp add: Load_def loadEnv_def env_validate_def demo_env_def getAllAppConfig_ok demo_store_def)

lemma demo_ints: "atoi ''5'' = 5" "atoi ''10'' = 10" "atoi ''99'' = 99" "atob ''true''"
  by code_simp+

lemma demo_lead: "lead_ok (cs_cur demo_store)"
  by (simp add: demo_store_def lead_ok_def pairs_of_def demo_config_def demo_ints)

theorem config_snapshot_follows_table_witness:
  "lead_ok (cs_cur (fold (config_step demo_codec)
     [OpSubscribe topicGates, OpUpdate env0 NoFault ''close_timer_lead_min'' ''99''] demo_store))"
proof -
  have "list_all reread_ok [OpSubscribe topicGates, OpUpdate env0 NoFault ''close_timer_lead_min'' ''99'']" by simp
  from config_snapshot_follows_table [OF demo_load demo_lead this refl] show ?thesis by blast
qed

text \<open>
  A subscriber that has not read its channel when the next update comes keeps the older snapshot:
  the newest one is dropped.
\<close>

lemma full_channel_keeps_old_snapshot: "notify_one new [old] = [old]"
  by (simp add: notify_one_def chan_try_send_def)

text \<open>The HTTP handler writes what the store would refuse, and no snapshot is rebuilt.\<close>

lemma put_config_skips_validation:
  assumes "rq_Body r = Some (''close_timer_lead_min'', ''99'')"
  shows "\<not> lead_ok (buildSnapshot demo_codec demo_env
    (pairs_of (fst (handlePutConfig [] True env0 r demo_config))))"
  using assms by (simp add: handlePutConfig_def lead_ok_def pairs_of_def demo_config_def env0_def demo_ints)

end
