(* ===== verification/GoFloat.thy ===== *)
theory GoFloat
  imports Float64 GoText
begin

text \<open>
  What the program uses of Go's library on floating-point numbers: the verbs \<open>%.4f\<close> and \<open>%.2f\<close>, \<open>math.Round\<close> and
  \<open>strconv.ParseFloat\<close> on decimal numbers (the hexadecimal notation, which no exchange answer uses, is
  a syntax error here).
\<close>

section \<open>Formatting a price\<close>

text \<open>\<open>fmt.Sprintf("%.4f", x)\<close>: the exact binary value rounded to four decimals, ties to even.\<close>

definition pad4 :: "nat \<Rightarrow> string" where
  "pad4 n = [digit_char (n div 1000 mod 10), digit_char (n div 100 mod 10), digit_char (n div 10 mod 10),
     digit_char (n mod 10)]"

fun format4f :: "float64 \<Rightarrow> string" where
  "format4f (Fin x) =
     (let n = nat \<bar>round_half_even (x * 10000)\<bar> in
      (if x < 0 then ''-'' else []) @ show_nat (n div 10000) @ ''.'' @ pad4 (n mod 10000))"
| "format4f PInf = ''+Inf''"
| "format4f NInf = ''-Inf''"
| "format4f NaN = ''NaN''"

text \<open>\<open>fmt.Sprintf("%.2f", x)\<close>.\<close>

definition pad2 :: "nat \<Rightarrow> string" where
  "pad2 n = [digit_char (n div 10 mod 10), digit_char (n mod 10)]"

fun format2f :: "float64 \<Rightarrow> string" where
  "format2f (Fin x) =
     (let n = nat \<bar>round_half_even (x * 100)\<bar> in
      (if x < 0 then ''-'' else []) @ show_nat (n div 100) @ ''.'' @ pad2 (n mod 100))"
| "format2f PInf = ''+Inf''"
| "format2f NInf = ''-Inf''"
| "format2f NaN = ''NaN''"

section \<open>Rounding and absolute value\<close>

text \<open>\<open>math.Round\<close> rounds half away from zero.\<close>

fun fround_away :: "float64 \<Rightarrow> float64" where
  "fround_away (Fin x) = Fin (of_int (if x < 0 then - \<lfloor>- x + 1 / 2\<rfloor> else \<lfloor>x + 1 / 2\<rfloor>))"
| "fround_away x = x"

fun fabs :: "float64 \<Rightarrow> float64" where
  "fabs (Fin x) = Fin \<bar>x\<bar>"
| "fabs PInf = PInf"
| "fabs NInf = PInf"
| "fabs NaN = NaN"

section \<open>Parsing\<close>

definition split_sign :: "string \<Rightarrow> rat \<times> string" where
  "split_sign s =
     (case s of [] \<Rightarrow> (1, [])
      | c # r \<Rightarrow> if c = CHR ''+'' then (1, r) else if c = CHR ''-'' then (-1, r) else (1, s))"

text \<open>The exponent part, if it is well-formed.\<close>

definition parse_exponent :: "string \<Rightarrow> int option" where
  "parse_exponent s =
     (case s of [] \<Rightarrow> Some 0
      | c # r \<Rightarrow>
          (if c \<noteq> CHR ''e'' \<and> c \<noteq> CHR ''E'' then None
           else
             (let (sg, ds) = split_sign r in
              if ds = [] \<or> \<not> list_all is_digit_char ds then None
              else Some (if sg < 0 then - int (read_nat ds) else int (read_nat ds)))))"

definition parse_decimal :: "string \<Rightarrow> rat option" where
  "parse_decimal s =
     (let (sg, r) = split_sign s;
          ip = takeWhile is_digit_char r; r1 = dropWhile is_digit_char r;
          (fp, r2) = (case r1 of [] \<Rightarrow> ([], [])
            | c # r' \<Rightarrow> if c = CHR ''.'' then (takeWhile is_digit_char r', dropWhile is_digit_char r') else ([], r1)) in
      if ip = [] \<and> fp = [] then None
      else map_option (\<lambda>e. sg * of_nat (read_nat (ip @ fp)) * 10 powi (e - int (length fp))) (parse_exponent r2))"

definition lower_char :: "char \<Rightarrow> char" where
  "lower_char c = (if 65 \<le> (of_char c :: nat) \<and> (of_char c :: nat) \<le> 90 then char_of ((of_char c :: nat) + 32) else c)"

definition parse_special :: "string \<Rightarrow> float64 option" where
  "parse_special s =
     (let (sg, r) = split_sign s; l = map lower_char r in
      if l = ''inf'' \<or> l = ''infinity'' then Some (if sg < 0 then NInf else PInf)
      else if map lower_char s = ''nan'' then Some NaN
      else None)"

text \<open>The value and whether there was no error; out of range is an infinity with an error.\<close>

definition ParseFloat :: "string \<Rightarrow> float64 \<times> bool" where
  "ParseFloat s =
     (case parse_special s of
        Some x \<Rightarrow> (x, True)
      | None \<Rightarrow>
          (case parse_decimal s of
             None \<Rightarrow> (Fin 0, False)
           | Some q \<Rightarrow> (fround q, fround q \<noteq> PInf \<and> fround q \<noteq> NInf)))"

end
