(* ===== verification/KalshiExchange.thy ===== *)
theory KalshiExchange
  imports Worker GoFloat
begin

text \<open>
  The order adapter of the exchange (\<open>adapters/kalshi/exchange.go\<close>), which implements the port the
  order worker submits to. The signer, the HTTP exchange and the JSON decoding of the answer are
  parameters; the body of the request is the record that gets encoded.
\<close>

section \<open>The adapter\<close>

record Exchange =
  ex_baseURL :: string
  ex_signer :: bool
  ex_timeInForce :: string
  ex_timeoutSecs :: int

definition NewExchange :: "string \<Rightarrow> bool \<Rightarrow> string \<Rightarrow> int \<Rightarrow> Exchange" where
  "NewExchange baseURL signer timeInForce timeoutSecs =
     \<lparr>ex_baseURL = baseURL, ex_signer = signer,
      ex_timeInForce = (if timeInForce = [] then ''immediate_or_cancel'' else timeInForce),
      ex_timeoutSecs = (if timeoutSecs \<le> 0 then 10 else timeoutSecs)\<rparr>"

record createOrderRequest =
  kr_Ticker :: string
  kr_ClientOrderID :: string
  kr_Side :: string
  kr_Count :: string
  kr_Price :: string
  kr_TimeInForce :: string
  kr_SelfTradePreventionType :: string
  kr_PostOnly :: bool
  kr_ReduceOnly :: bool
  kr_ExchangeIndex :: int

record createOrderResponse =
  kp_OrderID :: string
  kp_FillCount :: string
  kp_RemainingCount :: string

definition OrderStatusFilled :: string where [simp]: "OrderStatusFilled = ''filled''"
definition OrderStatusPartial :: string where [simp]: "OrderStatusPartial = ''partial''"
definition OrderStatusCanceled :: string where [simp]: "OrderStatusCanceled = ''canceled''"
definition OrderStatusResting :: string where [simp]: "OrderStatusResting = ''resting''"

text \<open>What the outside does with a request: it cannot be signed, built or sent, or its answer not
  read (with the error's text), or an answer of some status whose body decodes or not.\<close>

datatype http_outcome =
  HttpFailed string
  | HttpAnswer int string "createOrderResponse option"

definition order_body :: "Exchange \<Rightarrow> CreateOrderRequest \<Rightarrow> createOrderRequest" where
  "order_body e req =
     \<lparr>kr_Ticker = cr_MarketTicker req, kr_ClientOrderID = cr_ClientOrderID req,
      kr_Side = (if cr_Action req = ''buy_no'' then ''ask'' else ''bid''),
      kr_Count = show_int (cr_Contracts req),
      kr_Price = format4f (fdiv (of_int64 (cr_PriceCents req)) (flit 100)),
      kr_TimeInForce = ex_timeInForce e, kr_SelfTradePreventionType = ''taker_at_cross'',
      kr_PostOnly = False, kr_ReduceOnly = False, kr_ExchangeIndex = -1\<rparr>"

definition order_answer :: "CreateOrderRequest \<Rightarrow> createOrderResponse \<Rightarrow> CreateOrderResponse" where
  "order_answer req k =
     (let fillCount = Atoi_value (kp_FillCount k);
          remainingCount = Atoi_value (kp_RemainingCount k);
          status =
            (if remainingCount = 0 \<and> fillCount > 0 then OrderStatusFilled
             else if fillCount > 0 then OrderStatusPartial
             else if remainingCount = 0 then OrderStatusCanceled
             else OrderStatusResting);
          fillPrice = (if fillCount > 0 then cr_PriceCents req else 0) in
      \<lparr>cp_OrderID = kp_OrderID k, cp_Status = status, cp_FillCount = fillCount, cp_FillPriceCents = fillPrice\<rparr>)"

definition CreateOrder ::
  "(createOrderRequest \<Rightarrow> http_outcome) \<Rightarrow> Exchange \<Rightarrow> CreateOrderRequest \<Rightarrow> string + CreateOrderResponse" where
  "CreateOrder http e req =
     (case http (order_body e req) of
        HttpFailed msg \<Rightarrow> Inl msg
      | HttpAnswer code body k \<Rightarrow>
          (if code \<noteq> 200 then Inl (''kalshi API '' @ show_int code @ '': '' @ body)
           else
             (case k of
                None \<Rightarrow> Inl ''parse response''
              | Some kr \<Rightarrow> Inr (order_answer req kr))))"

section \<open>The price on the wire\<close>

lemma rhe_near: "\<bar>y - of_int n\<bar> < 1 / 2 \<Longrightarrow> round_half_even y = n"
proof -
  assume y: "\<bar>y - of_int n\<bar> < 1 / 2"
  have "\<bar>of_int (round_half_even y) - of_int n :: rat\<bar> < 1"
    using y rhe_error [of y] by linarith
  then have "\<bar>of_int (round_half_even y - n) :: rat\<bar> < of_int 1" by simp
  then have "\<bar>round_half_even y - n\<bar> < 1" by (simp only: of_int_abs [symmetric] of_int_less_iff)
  then show ?thesis by simp
qed

lemma cents_quotient:
  assumes "\<bar>c\<bar> \<le> 10 ^ 9"
  shows "\<exists>x. fdiv (of_int64 c) (flit 100) = Fin x \<and> round_half_even (x * 10000) = c * 100 \<and> (x < 0 \<longleftrightarrow> c < 0)"
proof -
  let ?x = "of_int c / 100 :: rat"
  have c: "of_int64 c = Fin (of_int c)" using assms by (intro of_int64_exact) simp
  have h: "flit 100 = Fin 100" using of_int64_exact [of 100] by (simp add: of_int64_def flit_def)
  have big: "\<bar>?x\<bar> \<le> 10 ^ 7"
  proof -
    have "of_int \<bar>c\<bar> \<le> (of_int (10 ^ 9) :: rat)" using assms by (simp only: of_int_le_iff)
    then show ?thesis by simp
  qed
  then have "\<bar>?x\<bar> \<le> 2 ^ 64" by simp
  then have div: "fdiv (of_int64 c) (flit 100) = Fin (rnd ?x)" unfolding c h by (simp add: fround_small)
  have err: "\<bar>rnd ?x - ?x\<bar> < 1 / 20000"
  proof (cases "c = 0")
    case False
    then have "1 \<le> \<bar>c\<bar>" by simp
    then have "(1 :: rat) \<le> of_int \<bar>c\<bar>" by simp
    then have ge: "1 / 100 \<le> \<bar>?x\<bar>" by simp
    have "(2 :: rat) powi (-1022) \<le> 2 powi (-7)" by (simp only: powi_le_iff)
    also have "\<dots> \<le> 1 / 100" by (simp add: power_int_def power_divide)
    finally have "2 powi (-1022) \<le> \<bar>?x\<bar>" using ge by (rule order_trans)
    then have "\<bar>rnd ?x - ?x\<bar> \<le> \<bar>?x\<bar> * 2 powi (-53)" by (rule rnd_rel_error)
    also have "\<dots> \<le> 10 ^ 7 * 2 powi (-53)" using big by (intro mult_right_mono) auto
    also have "\<dots> < 1 / 20000" by (simp add: power_int_def power_divide)
    finally show ?thesis .
  qed (simp add: rnd_0)
  have "\<bar>rnd ?x * 10000 - of_int (c * 100)\<bar> = \<bar>rnd ?x - ?x\<bar> * 10000" by (simp add: abs_if field_simps)
  also have "\<dots> < 1 / 2" using err by simp
  finally have "round_half_even (rnd ?x * 10000) = c * 100" by (rule rhe_near)
  moreover have "rnd ?x < 0 \<longleftrightarrow> c < 0"
  proof -
    consider "c < 0" | "c = 0" | "0 < c" by linarith
    then show ?thesis
    proof cases
      case 1
      then have "c \<le> -1" by simp
      then have "(of_int c :: rat) \<le> of_int (-1)" by (simp only: of_int_le_iff)
      then have "?x \<le> - 1 / 100" by simp
      then have "rnd ?x < 0" using err by linarith
      with 1 show ?thesis by simp
    next
      case 3
      then have "1 \<le> c" by simp
      then have "(of_int 1 :: rat) \<le> of_int c" by (simp only: of_int_le_iff)
      then have "1 / 100 \<le> ?x" by simp
      then have "\<not> rnd ?x < 0" using err by linarith
      with 3 show ?thesis by simp
    qed (simp add: rnd_0)
  qed
  ultimately show ?thesis using div by blast
qed

text \<open>
  C26. The price of an order travels as a decimal string computed in floating point. For every price
  of up to ten million dollars either way it is exactly the intended number of cents: the sign, the
  whole dollars, the two digits of the cents, and two zeros.
\<close>
theorem order_price_is_exact:
  assumes "\<bar>cr_PriceCents req\<bar> \<le> 10 ^ 9"
  shows "kr_Price (order_body e req) =
    (if cr_PriceCents req < 0 then ''-'' else []) @ show_nat (nat \<bar>cr_PriceCents req\<bar> div 100) @ ''.'' @
    [digit_char (nat \<bar>cr_PriceCents req\<bar> div 10 mod 10), digit_char (nat \<bar>cr_PriceCents req\<bar> mod 10)] @ ''00''"
proof -
  let ?c = "cr_PriceCents req" let ?n = "nat \<bar>?c\<bar>"
  obtain x where x: "fdiv (of_int64 ?c) (flit 100) = Fin x" "round_half_even (x * 10000) = ?c * 100" "x < 0 \<longleftrightarrow> ?c < 0"
    using cents_quotient [OF assms] by blast
  have "nat \<bar>?c * 100\<bar> = ?n * 100" by (simp add: abs_mult nat_mult_distrib)
  moreover have "?n * 100 div 10000 = ?n div 100" by simp
  moreover have "pad4 (?n * 100 mod 10000) = [digit_char (?n div 10 mod 10), digit_char (?n mod 10)] @ ''00''"
  proof -
    have m: "?n * 100 mod 10000 = (?n mod 100) * 100" using mult_mod_left [of ?n 100 100] by simp
    have d: "?n mod 100 = 10 * (?n div 10 mod 10) + ?n mod 10" using mod_mult2_eq [of ?n 10 10] by simp
    have "(?n mod 100) * 100 div 1000 = ?n mod 100 div 10" using div_mult_mult2 [of 100 "?n mod 100" 10] by simp
    then have "(?n mod 100) * 100 div 1000 mod 10 = ?n div 10 mod 10" by (simp add: d)
    moreover have "(?n mod 100) * 100 div 100 mod 10 = ?n mod 10" by (simp add: mod_mod_cancel)
    moreover have "(?n mod 100) * 100 div 10 = ?n mod 100 * 10" using div_mult_mult2 [of 10 "?n mod 100 * 10" 1] by simp
    then have "(?n mod 100) * 100 div 10 mod 10 = 0" by simp
    moreover have "(?n mod 100) * 100 mod 10 = 0" using mod_mult_self1_is_0 [of 10 "?n mod 100 * 10"] by (simp add: mult_ac)
    moreover have "digit_char 0 = CHR ''0''" by code_simp
    ultimately show ?thesis by (simp add: pad4_def m)
  qed
  ultimately show ?thesis using x by (simp add: order_body_def Let_def)
qed

definition demo_request :: CreateOrderRequest where
  "demo_request = \<lparr>cr_ClientOrderID = [], cr_MarketTicker = ''M'', cr_Action = ''buy'', cr_Contracts = 3, cr_PriceCents = 57\<rparr>"

theorem order_price_is_exact_witness:
  "kr_Price (order_body (NewExchange [] True [] 0) demo_request) = ''0.5700''"
proof -
  have "show_nat 0 = ''0''" "digit_char 5 = CHR ''5''" "digit_char 7 = CHR ''7''" by code_simp+
  then show ?thesis
    using order_price_is_exact [of demo_request "NewExchange [] True [] 0"] by (simp add: demo_request_def)
qed

section \<open>The answer\<close>

text \<open>An answer the worker can settle: what was filled, if anything, at the price asked for, and a
  status that says so.\<close>

lemma order_answer_spec:
  assumes "CreateOrder http e req = Inr resp"
  shows "cp_FillPriceCents resp = (if 0 < cp_FillCount resp then cr_PriceCents req else 0)"
    and "cp_Status resp \<in> {OrderStatusFilled, OrderStatusPartial} \<longleftrightarrow> 0 < cp_FillCount resp"
  using assms by (auto simp: CreateOrder_def order_answer_def Let_def split: http_outcome.splits if_splits option.splits)

text \<open>Every action but \<open>buy_no\<close> is sent as a bid, a sale too.\<close>

lemma sale_sent_as_bid: "cr_Action req = ''sell'' \<Longrightarrow> kr_Side (order_body e req) = ''bid''"
  by (simp add: order_body_def)

end
