(* ===== verification/ScoreFeed.thy ===== *)
theory ScoreFeed
  imports MatchLoop GoText
begin

text \<open>
  The score feed (\<open>adapters/apitennis/scraper.go\<close>): messages are decoded, every point of every live
  match is turned into a \<open>PointScored\<close> event, and reconnection backs off exponentially. A message is
  given as the JSON decoder leaves it: an array, a single object, or neither. The connection itself
  is the environment.
\<close>

section \<open>Messages\<close>

record pointData =
  pd_NumberPoint :: string
  pd_Score :: string
  pd_BreakPoint :: "string option"
  pd_SetPoint :: "string option"
  pd_MatchPoint :: "string option"

record setData =
  sd_SetNumber :: string
  sd_NumberGame :: string
  sd_PlayerServed :: string
  sd_ServeWinner :: string
  sd_Score :: string
  sd_Points :: "pointData list"

record wsEvent =
  we_EventKey :: int
  we_EventFirstPlayer :: string
  we_EventSecondPlayer :: string
  we_EventServe :: string
  we_EventStatus :: string
  we_EventLive :: string
  we_PointByPoint :: "setData list"

datatype message = MsgArray "wsEvent list" | MsgObject wsEvent | MsgMalformed

section \<open>Parsing\<close>

definition parseServer :: "string \<Rightarrow> int" where
  "parseServer s = (if s = ''First Player'' then 1 else 2)"

text \<open>The digits of a string, wherever they are; the product wraps around.\<close>

definition digit_step :: "char \<Rightarrow> int \<Rightarrow> int" where
  "digit_step c n = (if is_digit_char c then wrap64 (n * 10 + (int (of_char c) - 48)) else n)"

definition parseSetNumber :: "string \<Rightarrow> int" where
  "parseSetNumber s = fold digit_step s 0"

definition parseInt :: "string \<Rightarrow> int" where
  "parseInt s = fold digit_step s 0"

definition parseScore :: "string \<Rightarrow> string \<times> string" where
  "parseScore s =
     (case cut_at '' - '' s of
        None \<Rightarrow> ([], [])
      | Some (p0, p1) \<Rightarrow> (TrimSpace p0, TrimSpace p1))"

definition parseGameScore :: "string \<Rightarrow> int \<times> int" where
  "parseGameScore s =
     (case cut_at '' - '' s of
        None \<Rightarrow> (0, 0)
      | Some (p0, p1) \<Rightarrow> (Atoi_value (TrimSpace p0), Atoi_value (TrimSpace p1)))"

text \<open>The approximate scorer, and the flags: present, not empty and not \<open>"0"\<close>.\<close>

definition scorer_of :: "string \<Rightarrow> string \<Rightarrow> int" where
  "scorer_of homePts awayPts =
     (let scorer = 0;
          scorer = (if (homePts = ''40'' \<or> homePts = ''A'') \<and>
                       (awayPts = ''0'' \<or> awayPts = ''15'' \<or> awayPts = ''30'') then 1 else scorer) in
      if (awayPts = ''40'' \<or> awayPts = ''A'') \<and>
         (homePts = ''0'' \<or> homePts = ''15'' \<or> homePts = ''30'') then 2 else scorer)"

definition flag_set :: "string option \<Rightarrow> bool" where
  "flag_set f = (case f of None \<Rightarrow> False | Some s \<Rightarrow> s \<noteq> [] \<and> s \<noteq> ''0'')"

definition point_of :: "int \<Rightarrow> setData \<Rightarrow> pointData \<Rightarrow> PointScored" where
  "point_of now st pt =
     (let (homeGames, awayGames) = parseGameScore (sd_Score st);
          (homePts, awayPts) = parseScore (pd_Score pt) in
      \<lparr>ps_EventTicker = [],
       ps_Point = \<lparr>pt_EventTicker = [], pt_TS = now, pt_RecvTS = now,
         pt_SetNumber = parseSetNumber (sd_SetNumber st), pt_GameNumber = parseInt (sd_NumberGame st),
         pt_PointNumber = parseInt (pd_NumberPoint pt), pt_Server = parseServer (sd_PlayerServed st),
         pt_Scorer = scorer_of homePts awayPts, pt_HomePoints = homePts, pt_AwayPoints = awayPts,
         pt_HomeGames = homeGames, pt_AwayGames = awayGames, pt_HomeSetGames = 0, pt_AwaySetGames = 0,
         pt_IsTiebreak = False, pt_IsBreakPoint = flag_set (pd_BreakPoint pt),
         pt_IsSetPoint = flag_set (pd_SetPoint pt), pt_IsMatchPoint = flag_set (pd_MatchPoint pt)\<rparr>,
       ps_TS = now\<rparr>)"

text \<open>The points of a push, in order.\<close>

definition rally :: "setData list \<Rightarrow> (setData \<times> pointData) list" where
  "rally sets = concat (map (\<lambda>st. map (Pair st) (sd_Points st)) sets)"

definition handleMessage :: "int \<Rightarrow> message \<Rightarrow> PointScored list" where
  "handleMessage now msg =
     (let events = (case msg of MsgArray evs \<Rightarrow> evs | MsgObject ev \<Rightarrow> [ev] | MsgMalformed \<Rightarrow> []) in
      concat (map (\<lambda>ev. if we_EventLive ev \<noteq> ''1'' then []
                        else map (\<lambda>(st, pt). point_of now st pt) (rally (we_PointByPoint ev))) events))"

section \<open>The set of tracked events, and reconnection\<close>

definition Scraper_StartPolling :: "string \<Rightarrow> (string \<rightharpoonup> bool) \<Rightarrow> (string \<rightharpoonup> bool)" where
  "Scraper_StartPolling ev tracking = tracking(ev \<mapsto> True)"

definition Scraper_StopPolling :: "string \<Rightarrow> (string \<rightharpoonup> bool) \<Rightarrow> (string \<rightharpoonup> bool)" where
  "Scraper_StopPolling ev tracking = tracking(ev := None)"

text \<open>Seconds to wait after each failed dial since the last connection.\<close>

definition next_backoff :: "int \<Rightarrow> int" where
  "next_backoff backoff = (let b = backoff * 2 in if b > 30 then 30 else b)"

fun backoff_after :: "nat \<Rightarrow> int" where
  "backoff_after 0 = 1"
| "backoff_after (Suc n) = next_backoff (backoff_after n)"

lemma backoff_bounded: "1 \<le> backoff_after n \<and> backoff_after n \<le> 30"
  by (induction n) (auto simp: next_backoff_def)

lemma backoff_grows: "backoff_after n \<le> backoff_after (Suc n) \<and> (5 \<le> n \<longrightarrow> backoff_after n = 30)"
proof -
  have "5 \<le> n \<Longrightarrow> backoff_after n = 30"
    by (induction n rule: nat_induct_at_least) (simp_all add: numeral_eq_Suc next_backoff_def)
  with backoff_bounded [of n] show ?thesis by (auto simp: next_backoff_def)
qed

section \<open>Parsing what the feed prints\<close>

lemma fold_digits:
  assumes "\<forall>c \<in> set s. is_digit_char c" "int (read_nat (s)) \<le> int64_max"
  shows "fold digit_step s 0 = int (read_nat s)"
  using assms
proof (induction s rule: rev_induct)
  case (snoc c s)
  have c: "48 \<le> (of_char c :: nat)" "is_digit_char c" using snoc.prems(1) by (simp_all add: is_digit_char_def)
  have eq: "int (read_nat s) * 10 + (int (of_char c) - 48) = int (read_nat (s @ [c]))" using c by (simp add: of_nat_diff)
  have "read_nat s \<le> read_nat (s @ [c])" by simp
  then have IH: "fold digit_step s 0 = int (read_nat s)" using snoc by (intro snoc.IH) auto
  have "in_int64 (int (read_nat (s @ [c])))"
    using snoc.prems(2) order_trans [of "- (2 ^ 63)" 0 "int (read_nat (s @ [c]))"]
    unfolding in_int64_def int64_min_def by (simp del: read_nat_snoc)
  then have "wrap64 (int (read_nat s) * 10 + (int (of_char c) - 48)) = int (read_nat (s @ [c]))"
    unfolding eq by (rule wrap64_id)
  then have "digit_step c (int (read_nat s)) = int (read_nat (s @ [c]))" using c(2) by (simp only: digit_step_def if_True)
  with IH show ?case by (simp only: fold_append comp_apply fold.simps id_apply)
qed (simp add: read_nat_def)

lemma parseInt_show: "int n \<le> int64_max \<Longrightarrow> parseInt (show_nat n) = int n"
  using fold_digits [of "show_nat n"] show_nat_digits [of n] by (simp add: parseInt_def)

lemma parseGameScore_show:
  "in_int64 a \<Longrightarrow> in_int64 b \<Longrightarrow> parseGameScore (show_int a @ '' - '' @ show_int b) = (a, b)"
proof -
  assume ab: "in_int64 a" "in_int64 b"
  have "CHR '' '' \<notin> set (show_int a)" using show_int_no_space [of a] space_is_space by blast
  then have "cut_at '' - '' (show_int a @ '' - '' @ show_int b) = Some (show_int a, show_int b)"
    by (intro cut_at_first) simp_all
  with ab show ?thesis
    by (simp add: parseGameScore_def TrimSpace_digits [OF show_int_no_space] Atoi_value_show)
qed

section \<open>Pushes and the merger\<close>

text \<open>The merger's key of a point does not depend on when it arrived.\<close>

lemma point_key_now: "point_key (point_of now st pt) = point_key (point_of now' st pt)"
  by (simp add: point_of_def point_key_def split: prod.split)

lemma forward_all_append:
  "forward_all (xs @ ys) m =
     (let (m1, out1) = forward_all xs m; (m2, out2) = forward_all ys m1 in (m2, out1 @ out2))"
proof (induction xs arbitrary: m)
  case (Cons x xs)
  then show ?case by (auto simp: Let_def split: prod.splits option.splits)
qed (simp split: prod.split)

lemma forward_all_seen:
  "lookupF (mg_seen (fst (forward_all evs m))) k \<longleftrightarrow> lookupF (mg_seen m) k \<or> k \<in> point_key ` set evs"
proof (induction evs arbitrary: m)
  case (Cons ev evs)
  show ?case
  proof (cases "lookupF (mg_seen m) (point_key ev)")
    case True
    then show ?thesis using Cons [of "m\<lparr>mg_DupCount := wrap64 (mg_DupCount m + 1)\<rparr>"]
      by (auto split: prod.split)
  next
    case False
    then show ?thesis using Cons [of "m\<lparr>mg_seen := (mg_seen m)(point_key ev \<mapsto> True)\<rparr>"]
      by (auto simp: lookupF_def split: prod.splits if_splits)
  qed
qed simp

lemma forward_all_repeat:
  "(\<And>ev. ev \<in> set evs \<Longrightarrow> lookupF (mg_seen m) (point_key ev)) \<Longrightarrow>
   snd (forward_all evs m) = [] \<and> mg_seen (fst (forward_all evs m)) = mg_seen m"
proof (induction evs arbitrary: m)
  case (Cons ev evs)
  then show ?case using Cons.IH [of "m\<lparr>mg_DupCount := wrap64 (mg_DupCount m + 1)\<rparr>"]
    by (auto split: prod.split)
qed simp

lemma forward_seen_only: "mg_seen m = mg_seen m' \<Longrightarrow> snd (forward_all evs m) = snd (forward_all evs m')"
proof (induction evs arbitrary: m m')
  case (Cons ev evs)
  have "mg_seen (fst (Forward ev m)) = mg_seen (fst (Forward ev m'))" "snd (Forward ev m) = snd (Forward ev m')"
    using Cons.prems by (simp_all add: Forward_def Let_def)
  with Cons.IH [of "fst (Forward ev m)" "fst (Forward ev m')"] show ?case
    by (simp add: case_prod_beta split: option.split)
qed simp

text \<open>
  C27. Every push of the feed repeats the whole history of a match. Once a push has gone through the
  merger, a later push of the same match, at any later time, that repeats those points and adds
  more, forwards exactly what the added points alone would: no point of the repeated part reaches
  the strategies a second time, and none of the added part is lost because of the repetition.
\<close>
theorem push_forwards_only_new_points:
  assumes "we_EventLive ev = ''1''" "we_EventLive ev' = ''1''"
    and "rally (we_PointByPoint ev') = rally (we_PointByPoint ev) @ added"
    and "m1 = fst (forward_all (handleMessage now (MsgObject ev)) m)"
  shows "snd (forward_all (handleMessage now' (MsgObject ev')) m1) =
    snd (forward_all (map (\<lambda>(st, pt). point_of now' st pt) added) m1)"
proof -
  let ?pts = "\<lambda>t. map (\<lambda>(st, pt). point_of t st pt)"
  let ?old = "?pts now' (rally (we_PointByPoint ev))"
  have push: "handleMessage now' (MsgObject ev') = ?old @ ?pts now' added"
    using assms(2,3) by (simp add: handleMessage_def)
  have "lookupF (mg_seen m1) (point_key p)" if p: "p \<in> set ?old" for p
  proof -
    from p obtain st pt where sp: "(st, pt) \<in> set (rally (we_PointByPoint ev))" "p = point_of now' st pt" by auto
    then have "point_of now st pt \<in> set (handleMessage now (MsgObject ev))"
      using assms(1) by (force simp: handleMessage_def)
    then show ?thesis
      using point_key_now [of now st pt now'] by (auto simp: assms(4) forward_all_seen sp(2) intro: rev_image_eqI)
  qed
  then have rep: "snd (forward_all ?old m1) = [] \<and> mg_seen (fst (forward_all ?old m1)) = mg_seen m1"
    by (rule forward_all_repeat)
  then have "snd (forward_all (?pts now' added) (fst (forward_all ?old m1))) = snd (forward_all (?pts now' added) m1)"
    by (intro forward_seen_only) simp
  with rep show ?thesis by (simp add: push forward_all_append case_prod_beta)
qed

definition demo_game :: "string \<Rightarrow> pointData list \<Rightarrow> setData" where
  "demo_game st pts = \<lparr>sd_SetNumber = st, sd_NumberGame = ''1'', sd_PlayerServed = ''First Player'',
     sd_ServeWinner = [], sd_Score = ''0 - 0'', sd_Points = pts\<rparr>"

definition demo_point :: "string \<Rightarrow> pointData" where
  "demo_point sc = \<lparr>pd_NumberPoint = ''1'', pd_Score = sc, pd_BreakPoint = None, pd_SetPoint = None, pd_MatchPoint = None\<rparr>"

definition demo_push :: "setData list \<Rightarrow> wsEvent" where
  "demo_push sets = \<lparr>we_EventKey = 1, we_EventFirstPlayer = [], we_EventSecondPlayer = [], we_EventServe = [],
     we_EventStatus = [], we_EventLive = ''1'', we_PointByPoint = sets\<rparr>"

theorem push_forwards_only_new_points_witness:
  "snd (forward_all (handleMessage 2 (MsgObject (demo_push [demo_game ''Set 1'' [demo_point ''15 - 0''],
       demo_game ''Set 1'' [demo_point ''30 - 0'']])))
     (fst (forward_all (handleMessage 1 (MsgObject (demo_push [demo_game ''Set 1'' [demo_point ''15 - 0'']]))) NewMerger)))
   = [point_of 2 (demo_game ''Set 1'' [demo_point ''30 - 0'']) (demo_point ''30 - 0'')]"
proof -
  let ?g1 = "demo_game ''Set 1'' [demo_point ''15 - 0'']" let ?g2 = "demo_game ''Set 1'' [demo_point ''30 - 0'']"
  have live: "we_EventLive (demo_push s) = ''1''" for s by (simp add: demo_push_def)
  have rally: "rally (we_PointByPoint (demo_push [?g1, ?g2])) =
      rally (we_PointByPoint (demo_push [?g1])) @ [(?g2, demo_point ''30 - 0'')]"
    by (simp add: rally_def demo_push_def demo_game_def)
  have new: "snd (forward_all [point_of 2 ?g2 (demo_point ''30 - 0'')]
      (fst (forward_all (handleMessage 1 (MsgObject (demo_push [?g1]))) NewMerger))) =
      [point_of 2 ?g2 (demo_point ''30 - 0'')]"
    by code_simp
  show ?thesis
    using push_forwards_only_new_points [OF live live rally refl, of 2 1 NewMerger] new by simp
qed

text \<open>
  The set a point belongs to is not part of the merger's key, and the feed leaves the set scores at
  zero: the first point of a second set is taken for a repetition of the first point of the first
  set, and never forwarded.
\<close>

lemma later_set_taken_for_duplicate:
  "snd (forward_all (handleMessage 1 (MsgObject (demo_push
      [demo_game ''Set 1'' [demo_point ''15 - 0''], demo_game ''Set 2'' [demo_point ''15 - 0'']]))) NewMerger)
   = [point_of 1 (demo_game ''Set 1'' [demo_point ''15 - 0'']) (demo_point ''15 - 0'')]"
  by code_simp

end
