(* ===== verification/Scanner.thy ===== *)
theory Scanner
  imports LedgerRepo GoText
begin

text \<open>
  The market scanner (\<open>app/scanner/scanner.go\<close>) with the two paginated reads of the REST client
  (\<open>adapters/kalshi/rest.go\<close>) and the types of \<open>adapters/kalshi/wire/wire.go\<close>. One REST page (or the
  failure to get it) and the standard library's time parser are parameters. The tables \<open>events\<close> and
  \<open>markets\<close> are maps by primary key.
\<close>

section \<open>Types of the wire\<close>

record ProductMetadata =
  pm_Competition :: string
  pm_CompetitionScope :: string

record EventData =
  ed_EventTicker :: string
  ed_SeriesTicker :: string
  ed_Title :: string
  ed_SubTitle :: string
  ed_MutuallyExclusive :: bool
  ed_ProductMetadata :: ProductMetadata

record MarketData =
  mk_Ticker :: string
  mk_EventTicker :: string
  mk_MarketType :: string
  mk_YesSubTitle :: string
  mk_Status :: string
  mk_OccurrenceDatetime :: string
  mk_OpenTime :: string
  mk_CloseTime :: string
  mk_Result :: string
  mk_SettlementTS :: string
  mk_SettlementValueDollars :: string

text \<open>\<open>time.Parse\<close> with the layouts \<open>RFC3339Nano\<close> and \<open>RFC3339\<close>, in milliseconds.\<close>

record time_parser =
  tp_nano :: "string \<Rightarrow> int option"
  tp_plain :: "string \<Rightarrow> int option"

definition ParseISOTime :: "time_parser \<Rightarrow> string \<Rightarrow> int" where
  "ParseISOTime tp s =
     (if s = [] then 0
      else
        (case (if CHR ''.'' \<in> set s then tp_nano tp s else None) of
           Some t \<Rightarrow> t
         | None \<Rightarrow> (case tp_plain tp s of Some t \<Rightarrow> t | None \<Rightarrow> 0)))"

section \<open>Paginated reads\<close>

text \<open>
  The loop both reads share: \<open>get cursor\<close> is one page and the next cursor. \<open>None\<close> is a loop that never
  ends, which a server that always names a next page brings about.
\<close>

partial_function (option) fetch_all ::
  "(string \<Rightarrow> string + 'a list \<times> string) \<Rightarrow> string \<Rightarrow> 'a list \<Rightarrow> (string + 'a list) option" where
  "fetch_all get cursor acc =
     (case get cursor of
        Inl err \<Rightarrow> Some (Inl err)
      | Inr (items, next_cursor) \<Rightarrow>
          (if next_cursor = [] then Some (Inr (acc @ items))
           else fetch_all get next_cursor (acc @ items)))"

record rest_api =
  ra_events :: "string \<Rightarrow> string \<Rightarrow> string + EventData list \<times> string"
  ra_markets :: "string \<Rightarrow> string \<Rightarrow> string + MarketData list \<times> string"

definition GetEvents :: "rest_api \<Rightarrow> string \<Rightarrow> (string + EventData list) option" where
  "GetEvents api seriesTicker = fetch_all (ra_events api seriesTicker) [] []"

definition GetMarkets :: "rest_api \<Rightarrow> string \<Rightarrow> (string + MarketData list) option" where
  "GetMarkets api eventTicker = fetch_all (ra_markets api eventTicker) [] []"

text \<open>A server whose pages run out is read completely.\<close>

fun pages_chain :: "(string \<Rightarrow> string + 'a list \<times> string) \<Rightarrow> string \<Rightarrow> 'a list list \<Rightarrow> bool" where
  "pages_chain get c [] \<longleftrightarrow> False"
| "pages_chain get c [p] \<longleftrightarrow> get c = Inr (p, [])"
| "pages_chain get c (p # ps) \<longleftrightarrow> (\<exists>c'. c' \<noteq> [] \<and> get c = Inr (p, c') \<and> pages_chain get c' ps)"

lemma fetch_all_complete: "pages_chain get c ps \<Longrightarrow> fetch_all get c acc = Some (Inr (acc @ concat ps))"
proof (induction get c ps arbitrary: acc rule: pages_chain.induct)
  case (2 get c p)
  then show ?case by (subst fetch_all.simps) simp
next
  case (3 get c p p' ps)
  then obtain c' where "c' \<noteq> []" "get c = Inr (p, c')" "pages_chain get c' (p' # ps)" by auto
  with 3 show ?case by (subst fetch_all.simps) simp
qed simp

section \<open>Upserts\<close>

record eventRow =
  er_EventTicker :: string
  er_SeriesTicker :: string
  er_Title :: string
  er_SubTitle :: string
  er_Competition :: string
  er_CompetitionScope :: string
  er_MutuallyExclusive :: bool

record marketRow =
  mr_MarketTicker :: string
  mr_EventTicker :: string
  mr_SeriesTicker :: string
  mr_PlayerName :: string
  mr_Status :: string
  mr_OccurrenceTS :: int
  mr_OpenTS :: int
  mr_CloseTS :: int
  mr_Result :: string
  mr_SettlementTS :: int
  mr_SettlementValue :: string

record scan_db =
  sc_events :: "string \<rightharpoonup> eventRow"
  sc_markets :: "string \<rightharpoonup> marketRow"

text \<open>
  \<open>INSERT ... ON CONFLICT DO NOTHING\<close>, then an update when the row existed: whether the row is new, or
  the error of the first or the second statement.
\<close>

definition upsert ::
  "db_fault \<Rightarrow> 'k \<Rightarrow> 'r \<Rightarrow> ('r \<Rightarrow> 'r) \<Rightarrow> ('k \<rightharpoonup> 'r) \<Rightarrow> ('k \<rightharpoonup> 'r) \<times> (string + bool)" where
  "upsert fault k row change t =
     (if fault = FaultFirst then (t, Inl ''insert'')
      else
        (case t k of
           None \<Rightarrow> (t(k \<mapsto> row), Inr True)
         | Some r \<Rightarrow> (if fault \<noteq> NoFault then (t, Inl ''update'') else (t(k \<mapsto> change r), Inr False))))"

definition event_row :: "EventData \<Rightarrow> eventRow" where
  "event_row ev =
     \<lparr>er_EventTicker = ed_EventTicker ev, er_SeriesTicker = ed_SeriesTicker ev, er_Title = ed_Title ev,
      er_SubTitle = ed_SubTitle ev, er_Competition = pm_Competition (ed_ProductMetadata ev),
      er_CompetitionScope = pm_CompetitionScope (ed_ProductMetadata ev), er_MutuallyExclusive = ed_MutuallyExclusive ev\<rparr>"

definition event_change :: "EventData \<Rightarrow> eventRow \<Rightarrow> eventRow" where
  "event_change ev r =
     r\<lparr>er_Title := ed_Title ev, er_SubTitle := ed_SubTitle ev, er_Competition := pm_Competition (ed_ProductMetadata ev),
       er_CompetitionScope := pm_CompetitionScope (ed_ProductMetadata ev), er_MutuallyExclusive := ed_MutuallyExclusive ev\<rparr>"

definition upsertEvent :: "db_fault \<Rightarrow> EventData \<Rightarrow> scan_db \<Rightarrow> scan_db \<times> (string + bool)" where
  "upsertEvent fault ev db =
     (let (t, r) = upsert fault (ed_EventTicker ev) (event_row ev) (event_change ev) (sc_events db) in
      (db\<lparr>sc_events := t\<rparr>, r))"

definition market_row :: "time_parser \<Rightarrow> string \<Rightarrow> MarketData \<Rightarrow> marketRow" where
  "market_row tp seriesTicker m =
     \<lparr>mr_MarketTicker = mk_Ticker m, mr_EventTicker = mk_EventTicker m, mr_SeriesTicker = seriesTicker,
      mr_PlayerName = mk_YesSubTitle m, mr_Status = mk_Status m,
      mr_OccurrenceTS = ParseISOTime tp (mk_OccurrenceDatetime m), mr_OpenTS = ParseISOTime tp (mk_OpenTime m),
      mr_CloseTS = ParseISOTime tp (mk_CloseTime m), mr_Result = mk_Result m,
      mr_SettlementTS = ParseISOTime tp (mk_SettlementTS m), mr_SettlementValue = mk_SettlementValueDollars m\<rparr>"

definition market_change :: "time_parser \<Rightarrow> MarketData \<Rightarrow> marketRow \<Rightarrow> marketRow" where
  "market_change tp m r =
     r\<lparr>mr_Status := mk_Status m, mr_Result := mk_Result m, mr_SettlementTS := ParseISOTime tp (mk_SettlementTS m),
       mr_SettlementValue := mk_SettlementValueDollars m\<rparr>"

definition upsertMarket :: "time_parser \<Rightarrow> db_fault \<Rightarrow> MarketData \<Rightarrow> string \<Rightarrow> scan_db \<Rightarrow> scan_db \<times> (string + bool)" where
  "upsertMarket tp fault m seriesTicker db =
     (let (t, r) = upsert fault (mk_Ticker m) (market_row tp seriesTicker m) (market_change tp m) (sc_markets db) in
      (db\<lparr>sc_markets := t\<rparr>, r))"

section \<open>A scan\<close>

text \<open>The failures of the database during a scan, by ticker; a failed count reads as zero.\<close>

record scan_faults =
  sf_count :: "string \<Rightarrow> bool"
  sf_event :: "string \<Rightarrow> db_fault"
  sf_market :: "string \<Rightarrow> db_fault"

definition all_finalized :: "MarketData list \<Rightarrow> bool" where
  "all_finalized markets \<longleftrightarrow> markets \<noteq> [] \<and> (\<forall>m \<in> set markets. mk_Status m = ''finalized'')"

fun scan_markets ::
  "time_parser \<Rightarrow> scan_faults \<Rightarrow> string \<Rightarrow> MarketData list \<Rightarrow> scan_db \<times> int \<Rightarrow> scan_db \<times> int" where
  "scan_markets tp sf series [] (db, n) = (db, n)"
| "scan_markets tp sf series (m # ms) (db, n) =
     (if mk_MarketType m = ''scalar'' then scan_markets tp sf series ms (db, n)
      else
        (case upsertMarket tp (sf_market sf (mk_Ticker m)) m series db of
           (db1, Inl _) \<Rightarrow> scan_markets tp sf series ms (db1, n)
         | (db1, Inr isNew) \<Rightarrow> scan_markets tp sf series ms (db1, if isNew then n + 1 else n)))"

text \<open>One event of a series, given the answer to its market query.\<close>

definition scan_event ::
  "time_parser \<Rightarrow> scan_faults \<Rightarrow> string \<Rightarrow> EventData \<Rightarrow> string + MarketData list \<Rightarrow> scan_db \<times> int \<times> int
   \<Rightarrow> scan_db \<times> int \<times> int" where
  "scan_event tp sf series ev answer s =
     (case s of (db, ne, nm) \<Rightarrow>
        (case answer of
           Inl _ \<Rightarrow> (db, ne, nm)
         | Inr markets \<Rightarrow>
             (if all_finalized markets \<and> (sf_count sf (ed_EventTicker ev) \<or> sc_events db (ed_EventTicker ev) = None)
              then (db, ne, nm)
              else
                (case upsertEvent (sf_event sf (ed_EventTicker ev)) ev db of
                   (db1, Inl _) \<Rightarrow> (db1, ne, nm)
                 | (db1, Inr isNew) \<Rightarrow>
                     (case scan_markets tp sf series markets (db1, nm) of
                        (db2, nm2) \<Rightarrow> (db2, if isNew then ne + 1 else ne, nm2))))))"

fun scan_events ::
  "time_parser \<Rightarrow> scan_faults \<Rightarrow> rest_api \<Rightarrow> string \<Rightarrow> EventData list \<Rightarrow> scan_db \<times> int \<times> int
   \<Rightarrow> (scan_db \<times> int \<times> int) option" where
  "scan_events tp sf api series [] s = Some s"
| "scan_events tp sf api series (ev # evs) s =
     Option.bind (GetMarkets api (ed_EventTicker ev)) (\<lambda>answer.
       scan_events tp sf api series evs (scan_event tp sf series ev answer s))"

definition scanSeries ::
  "time_parser \<Rightarrow> scan_faults \<Rightarrow> rest_api \<Rightarrow> string \<Rightarrow> scan_db \<Rightarrow> (scan_db \<times> (string + int \<times> int)) option" where
  "scanSeries tp sf api series db =
     Option.bind (GetEvents api series) (\<lambda>answer.
       case answer of
         Inl err \<Rightarrow> Some (db, Inl (''get events: '' @ err))
       | Inr events \<Rightarrow>
           Option.bind (scan_events tp sf api series events (db, 0, 0)) (\<lambda>(db1, ne, nm). Some (db1, Inr (ne, nm))))"

fun RunOnce ::
  "time_parser \<Rightarrow> scan_faults \<Rightarrow> rest_api \<Rightarrow> string list \<Rightarrow> scan_db \<times> int \<times> int \<times> string list
   \<Rightarrow> (scan_db \<times> int \<times> int \<times> string list) option" where
  "RunOnce tp sf api [] s = Some s"
| "RunOnce tp sf api (series # rest) (db, ne, nm, errs) =
     Option.bind (scanSeries tp sf api series db) (\<lambda>(db1, r).
       RunOnce tp sf api rest
         (case r of
            Inl e \<Rightarrow> (db1, ne, nm, errs @ [''series '' @ series @ '': '' @ e])
          | Inr (ne1, nm1) \<Rightarrow> (db1, ne + ne1, nm + nm1, errs)))"

section \<open>Scanning again\<close>

definition no_faults :: scan_faults where
  "no_faults = \<lparr>sf_count = (\<lambda>_. False), sf_event = (\<lambda>_. NoFault), sf_market = (\<lambda>_. NoFault)\<rparr>"

lemma no_faults_sel [simp]: "\<not> sf_count no_faults k" "sf_event no_faults k = NoFault" "sf_market no_faults k = NoFault"
  by (simp_all add: no_faults_def)

text \<open>A row that another upsert of the same data would not change.\<close>

definition event_settled :: "scan_db \<Rightarrow> EventData \<Rightarrow> bool" where
  "event_settled db ev \<longleftrightarrow> (\<exists>r. sc_events db (ed_EventTicker ev) = Some r \<and> event_change ev r = r)"

definition market_settled :: "time_parser \<Rightarrow> scan_db \<Rightarrow> MarketData \<Rightarrow> bool" where
  "market_settled tp db m \<longleftrightarrow> (\<exists>r. sc_markets db (mk_Ticker m) = Some r \<and> market_change tp m r = r)"

lemma change_row [simp]:
  "event_change ev (event_row ev) = event_row ev" "event_change ev (event_change ev r) = event_change ev r"
  "market_change tp m (market_row tp series m) = market_row tp series m"
  "market_change tp m (market_change tp m r') = market_change tp m r'"
  by (simp_all add: event_change_def event_row_def market_change_def market_row_def)

lemma upsertEvent_settles: "event_settled (fst (upsertEvent NoFault ev db)) ev"
  by (auto simp: event_settled_def upsertEvent_def upsert_def split: option.splits)

lemma upsertEvent_settled: "event_settled db ev \<Longrightarrow> upsertEvent NoFault ev db = (db, Inr False)"
  by (auto simp: event_settled_def upsertEvent_def upsert_def fun_upd_idem)

lemma upsertMarket_settles: "market_settled tp (fst (upsertMarket tp NoFault m series db)) m"
  by (auto simp: market_settled_def upsertMarket_def upsert_def split: option.splits)

lemma upsertMarket_settled: "market_settled tp db m \<Longrightarrow> upsertMarket tp NoFault m series db = (db, Inr False)"
  by (auto simp: market_settled_def upsertMarket_def upsert_def fun_upd_idem)

lemma upsertEvent_other:
  "ed_EventTicker ev' \<noteq> ed_EventTicker ev \<Longrightarrow>
     sc_events (fst (upsertEvent f ev db)) (ed_EventTicker ev') = sc_events db (ed_EventTicker ev')"
  "sc_markets (fst (upsertEvent f ev db)) = sc_markets db"
  by (auto simp: upsertEvent_def upsert_def split: option.splits)

lemma upsertMarket_other:
  "mk_Ticker m' \<noteq> mk_Ticker m \<Longrightarrow>
     sc_markets (fst (upsertMarket tp f m series db)) (mk_Ticker m') = sc_markets db (mk_Ticker m')"
  "sc_events (fst (upsertMarket tp f m series db)) = sc_events db"
  by (auto simp: upsertMarket_def upsert_def split: option.splits)

lemma upsert_noFault:
  "\<exists>b. upsertEvent NoFault ev db = (fst (upsertEvent NoFault ev db), Inr b)"
  "\<exists>b. upsertMarket tp NoFault m series db = (fst (upsertMarket tp NoFault m series db), Inr b)"
  by (auto simp: upsertEvent_def upsertMarket_def upsert_def split: option.splits)

text \<open>The markets of one event: after the scan they are settled, others of the same consistent
  source stay settled, and events are untouched.\<close>

lemma scan_markets_ok:
  assumes "inj_on mk_Ticker M" "set ms \<subseteq> M"
  shows "sc_events (fst (scan_markets tp no_faults series ms (db, n))) = sc_events db \<and>
    (\<forall>m \<in> set ms. mk_MarketType m \<noteq> ''scalar'' \<longrightarrow> market_settled tp (fst (scan_markets tp no_faults series ms (db, n))) m) \<and>
    (\<forall>m \<in> M. market_settled tp db m \<longrightarrow> market_settled tp (fst (scan_markets tp no_faults series ms (db, n))) m)"
  using assms(2)
proof (induction ms arbitrary: db n)
  case (Cons x ms)
  show ?case
  proof (cases "mk_MarketType x = ''scalar''")
    case True
    with Cons show ?thesis by simp
  next
    case False
    define db1 where "db1 = fst (upsertMarket tp NoFault x series db)"
    obtain b where up: "upsertMarket tp NoFault x series db = (db1, Inr b)" using upsert_noFault(2) unfolding db1_def by blast
    have step: "scan_markets tp no_faults series (x # ms) (db, n) =
        scan_markets tp no_faults series ms (db1, if b then n + 1 else n)"
      using False up by simp
    have "market_settled tp db1 m" if "m \<in> M" "market_settled tp db m" for m
    proof (cases "mk_Ticker m = mk_Ticker x")
      case True
      with that Cons.prems assms(1) have "m = x" by (auto dest: inj_onD)
      then show ?thesis using upsertMarket_settles by (simp add: db1_def)
    next
      case False
      with that(2) upsertMarket_other(1) [of m x] show ?thesis by (simp add: market_settled_def db1_def)
    qed
    moreover have "market_settled tp db1 x" unfolding db1_def by (rule upsertMarket_settles)
    moreover have "sc_events db1 = sc_events db" unfolding db1_def by (rule upsertMarket_other(2))
    ultimately show ?thesis unfolding step using Cons.IH [of db1 "if b then n + 1 else n"] Cons.prems by auto
  qed
qed simp

lemma scan_markets_settled:
  "\<forall>m \<in> set ms. mk_MarketType m \<noteq> ''scalar'' \<longrightarrow> market_settled tp db m \<Longrightarrow>
   scan_markets tp no_faults series ms (db, n) = (db, n)"
proof (induction ms)
  case (Cons x ms)
  then show ?case by (cases "mk_MarketType x = ''scalar''") (simp_all add: upsertMarket_settled)
qed simp

text \<open>An event a scan is done with: its markets could not be read, it is finished and unknown, or
  its row and those of its markets are settled.\<close>

definition event_done :: "time_parser \<Rightarrow> rest_api \<Rightarrow> scan_db \<Rightarrow> EventData \<Rightarrow> bool" where
  "event_done tp api db ev =
     (case GetMarkets api (ed_EventTicker ev) of
        Some (Inr ms) \<Rightarrow>
          (all_finalized ms \<and> sc_events db (ed_EventTicker ev) = None) \<or>
          (event_settled db ev \<and> (\<forall>m \<in> set ms. mk_MarketType m \<noteq> ''scalar'' \<longrightarrow> market_settled tp db m))
      | _ \<Rightarrow> True)"

lemma scan_event_done:
  assumes "event_done tp api db ev" "GetMarkets api (ed_EventTicker ev) = Some answer"
  shows "scan_event tp no_faults series ev answer (db, ne, nm) = (db, ne, nm)"
proof (cases answer)
  case (Inr ms)
  with assms consider "all_finalized ms" "sc_events db (ed_EventTicker ev) = None"
    | "event_settled db ev" "\<forall>m \<in> set ms. mk_MarketType m \<noteq> ''scalar'' \<longrightarrow> market_settled tp db m"
    by (auto simp: event_done_def)
  then show ?thesis
  proof cases
    case 2
    then have "sc_events db (ed_EventTicker ev) \<noteq> None" by (auto simp: event_settled_def)
    with 2 Inr show ?thesis
      by (simp add: scan_event_def upsertEvent_settled scan_markets_settled)
  qed (simp add: scan_event_def Inr)
qed (simp add: scan_event_def)

text \<open>What a scanned source offers, and what it must not do: list one ticker with different data.\<close>

definition offered_events :: "rest_api \<Rightarrow> string list \<Rightarrow> EventData set" where
  "offered_events api series = {e. \<exists>s \<in> set series. \<exists>evs. GetEvents api s = Some (Inr evs) \<and> e \<in> set evs}"

definition offered_markets :: "rest_api \<Rightarrow> string list \<Rightarrow> MarketData set" where
  "offered_markets api series =
     {m. \<exists>e \<in> offered_events api series. \<exists>ms. GetMarkets api (ed_EventTicker e) = Some (Inr ms) \<and> m \<in> set ms}"

definition consistent_source :: "rest_api \<Rightarrow> string list \<Rightarrow> bool" where
  "consistent_source api series \<longleftrightarrow>
     inj_on ed_EventTicker (offered_events api series) \<and> inj_on mk_Ticker (offered_markets api series)"

lemma scan_event_ok:
  assumes src: "consistent_source api series" and ev: "ev \<in> offered_events api series"
    and ans: "GetMarkets api (ed_EventTicker ev) = Some answer"
    and run: "scan_event tp no_faults s ev answer (db, ne, nm) = (db', ne', nm')"
  shows "event_done tp api db' ev \<and> (\<forall>e \<in> offered_events api series. event_done tp api db e \<longrightarrow> event_done tp api db' e)"
proof (cases "event_done tp api db ev")
  case True
  then show ?thesis using scan_event_done [OF True ans] run by auto
next
  case False
  then obtain ms where ms: "answer = Inr ms" using ans by (auto simp: event_done_def split: option.splits sum.splits)
  have present: "\<not> (all_finalized ms \<and> sc_events db (ed_EventTicker ev) = None)"
    using False ans ms by (auto simp: event_done_def)
  define db1 where "db1 = fst (upsertEvent NoFault ev db)"
  obtain b where up: "upsertEvent NoFault ev db = (db1, Inr b)" using upsert_noFault(1) unfolding db1_def by blast
  have db': "db' = fst (scan_markets tp no_faults s ms (db1, nm))"
    using run present up ms by (auto simp: scan_event_def split: prod.splits if_splits)
  have inj: "inj_on mk_Ticker (offered_markets api series)" using src by (simp add: consistent_source_def)
  have sub: "set ms \<subseteq> offered_markets api series" using ev ans ms by (auto simp: offered_markets_def)
  note mk = scan_markets_ok [OF inj sub, of tp s db1 nm, folded db']
  have ev1: "event_settled db' ev"
    using upsertEvent_settles [of ev db] mk by (simp add: event_settled_def db1_def)
  have "event_done tp api db' e" if e: "e \<in> offered_events api series" "event_done tp api db e" for e
  proof (cases "ed_EventTicker e = ed_EventTicker ev")
    case True
    with e(1) ev src have "e = ev" by (auto simp: consistent_source_def dest: inj_onD)
    with e(2) False show ?thesis by simp
  next
    case other: False
    have same: "sc_events db' (ed_EventTicker e) = sc_events db (ed_EventTicker e)"
      using mk upsertEvent_other(1) [OF other] by (simp add: db1_def)
    have keep: "market_settled tp db' m" if "m \<in> offered_markets api series" "market_settled tp db m" for m
      using mk that upsertEvent_other(2) [of NoFault ev db] by (auto simp: market_settled_def db1_def)
    show ?thesis
    proof (cases "GetMarkets api (ed_EventTicker e)")
      case (Some a)
      show ?thesis
      proof (cases a)
        case (Inr ms')
        have "m \<in> offered_markets api series" if "m \<in> set ms'" for m
          using that e(1) Some Inr by (auto simp: offered_markets_def)
        with e(2) Some Inr keep show ?thesis by (auto simp: event_done_def event_settled_def same)
      qed (simp add: event_done_def Some)
    qed (simp add: event_done_def)
  qed
  moreover have "event_done tp api db' ev" using ev1 mk ans ms by (simp add: event_done_def)
  ultimately show ?thesis by blast
qed

lemma scan_events_ok:
  assumes src: "consistent_source api series" and "set evs \<subseteq> offered_events api series"
    and "scan_events tp no_faults api s evs (db, ne, nm) = Some (db', ne', nm')"
  shows "(\<forall>e \<in> set evs. event_done tp api db' e) \<and>
    (\<forall>e \<in> offered_events api series. event_done tp api db e \<longrightarrow> event_done tp api db' e)"
  using assms(2,3)
proof (induction evs arbitrary: db ne nm)
  case (Cons ev evs)
  from Cons.prems(2) obtain answer where ans: "GetMarkets api (ed_EventTicker ev) = Some answer"
    and rest: "scan_events tp no_faults api s evs (scan_event tp no_faults s ev answer (db, ne, nm)) = Some (db', ne', nm')"
    by auto
  obtain db1 ne1 nm1 where one: "scan_event tp no_faults s ev answer (db, ne, nm) = (db1, ne1, nm1)"
    by (cases "scan_event tp no_faults s ev answer (db, ne, nm)")
  have ev: "ev \<in> offered_events api series" using Cons.prems(1) by simp
  note ok = scan_event_ok [OF src ev ans one]
  have "(\<forall>e \<in> set evs. event_done tp api db' e) \<and>
    (\<forall>e \<in> offered_events api series. event_done tp api db1 e \<longrightarrow> event_done tp api db' e)"
    using Cons.prems(1) rest one by (intro Cons.IH) auto
  with ok ev show ?case by auto
qed simp

lemma scan_events_done:
  "\<forall>e \<in> set evs. event_done tp api db e \<Longrightarrow> \<forall>e \<in> set evs. GetMarkets api (ed_EventTicker e) \<noteq> None \<Longrightarrow>
   scan_events tp no_faults api s evs (db, ne, nm) = Some (db, ne, nm)"
  by (induction evs) (auto simp: scan_event_done)

lemma scan_events_answers:
  "scan_events tp sf api s evs x = Some y \<Longrightarrow> \<forall>e \<in> set evs. GetMarkets api (ed_EventTicker e) \<noteq> None"
proof (induction evs arbitrary: x)
  case (Cons ev evs)
  from Cons.prems obtain answer where "GetMarkets api (ed_EventTicker ev) = Some answer"
    and "scan_events tp sf api s evs (scan_event tp sf s ev answer x) = Some y"
    by (auto simp: bind_eq_Some_conv)
  with Cons.IH show ?case by fastforce
qed simp

lemma RunOnce_ok:
  assumes src: "consistent_source api all_series" and "set series \<subseteq> set all_series"
    and "RunOnce tp no_faults api series (db, ne, nm, errs) = Some (db', ne', nm', errs')"
  shows "(\<forall>e \<in> offered_events api series. event_done tp api db' e) \<and>
    (\<forall>e \<in> offered_events api all_series. event_done tp api db e \<longrightarrow> event_done tp api db' e)"
  using assms(2,3)
proof (induction series arbitrary: db ne nm errs)
  case Nil
  then show ?case by (simp add: offered_events_def)
next
  case (Cons s series)
  from Cons.prems(2) obtain db1 r where one: "scanSeries tp no_faults api s db = Some (db1, r)"
    and rest: "RunOnce tp no_faults api series (case r of
            Inl e \<Rightarrow> (db1, ne, nm, errs @ [''series '' @ s @ '': '' @ e])
          | Inr (ne1, nm1) \<Rightarrow> (db1, ne + ne1, nm + nm1, errs)) = Some (db', ne', nm', errs')"
    by auto
  have first: "(\<forall>evs. GetEvents api s = Some (Inr evs) \<longrightarrow> (\<forall>e \<in> set evs. event_done tp api db1 e)) \<and>
      (\<forall>e \<in> offered_events api all_series. event_done tp api db e \<longrightarrow> event_done tp api db1 e)"
  proof (cases "GetEvents api s")
    case (Some a)
    show ?thesis
    proof (cases a)
      case (Inl err)
      with one Some show ?thesis by (simp add: scanSeries_def)
    next
      case (Inr evs)
      with one Some obtain n1 n2 where sc: "scan_events tp no_faults api s evs (db, 0, 0) = Some (db1, n1, n2)"
        by (auto simp: scanSeries_def)
      have "set evs \<subseteq> offered_events api all_series"
        using Some Inr Cons.prems(1) by (auto simp: offered_events_def)
      from scan_events_ok [OF src this sc] Some Inr show ?thesis by auto
    qed
  qed (use one in \<open>simp add: scanSeries_def\<close>)
  have later: "(\<forall>e \<in> offered_events api series. event_done tp api db' e) \<and>
      (\<forall>e \<in> offered_events api all_series. event_done tp api db1 e \<longrightarrow> event_done tp api db' e)"
  proof (cases r)
    case (Inl e)
    with rest Cons.prems(1) show ?thesis by (intro Cons.IH) auto
  next
    case (Inr p)
    obtain n1 n2 where p: "p = (n1, n2)" by (cases p)
    have "RunOnce tp no_faults api series (db1, ne + n1, nm + n2, errs) = Some (db', ne', nm', errs')"
      using rest Inr p by simp
    moreover have "set series \<subseteq> set all_series" using Cons.prems(1) by simp
    ultimately show ?thesis by (intro Cons.IH)
  qed
  have "offered_events api (s # series) \<subseteq> offered_events api all_series"
    using Cons.prems(1) by (auto simp: offered_events_def)
  with first later show ?case by (fastforce simp: offered_events_def)
qed

text \<open>A scan of a source each of whose offered events is done adds nothing and reports the same errors.\<close>

lemma scanSeries_again:
  assumes one: "scanSeries tp no_faults api s db = Some (db1, r)"
    and rest: "\<And>evs. GetEvents api s = Some (Inr evs) \<Longrightarrow> \<forall>e \<in> set evs. event_done tp api dbx e"
  shows "scanSeries tp no_faults api s dbx = Some (dbx, case r of Inl e \<Rightarrow> Inl e | Inr _ \<Rightarrow> Inr (0, 0))"
proof (cases "GetEvents api s")
  case (Some a)
  show ?thesis
  proof (cases a)
    case (Inl err)
    with one Some show ?thesis by (auto simp: scanSeries_def)
  next
    case (Inr evs)
    with one Some obtain n1 n2 where sc: "scan_events tp no_faults api s evs (db, 0, 0) = Some (db1, n1, n2)"
      and r: "r = Inr (n1, n2)"
      by (auto simp: scanSeries_def bind_eq_Some_conv)
    have "scan_events tp no_faults api s evs (dbx, 0, 0) = Some (dbx, 0, 0)"
      using rest Some Inr by (intro scan_events_done scan_events_answers [OF sc]) simp
    then show ?thesis using Some Inr r by (simp add: scanSeries_def)
  qed
qed (use one in \<open>simp add: scanSeries_def\<close>)

lemma RunOnce_again:
  assumes "RunOnce tp no_faults api series (db, ne, nm, errs) = Some (db', ne', nm', errs')"
    and "\<forall>e \<in> offered_events api series. event_done tp api dbx e"
  shows "RunOnce tp no_faults api series (dbx, 0, 0, errs) = Some (dbx, 0, 0, errs')"
  using assms
proof (induction series arbitrary: db ne nm errs)
  case (Cons s series)
  from Cons.prems(1) obtain db1 r where one: "scanSeries tp no_faults api s db = Some (db1, r)"
    and rest: "RunOnce tp no_faults api series (case r of
            Inl e \<Rightarrow> (db1, ne, nm, errs @ [''series '' @ s @ '': '' @ e])
          | Inr (ne1, nm1) \<Rightarrow> (db1, ne + ne1, nm + nm1, errs)) = Some (db', ne', nm', errs')"
    by (auto simp: bind_eq_Some_conv)
  have again: "scanSeries tp no_faults api s dbx = Some (dbx, case r of Inl e \<Rightarrow> Inl e | Inr _ \<Rightarrow> Inr (0, 0))"
    using Cons.prems(2) by (intro scanSeries_again [OF one]) (auto simp: offered_events_def)
  have all_done: "\<forall>e \<in> offered_events api series. event_done tp api dbx e"
    using Cons.prems(2) by (auto simp: offered_events_def)
  show ?case
  proof (cases r)
    case (Inl e)
    with rest all_done again show ?thesis by (auto intro: Cons.IH)
  next
    case (Inr p)
    obtain n1 n2 where p: "p = (n1, n2)" by (cases p)
    have "RunOnce tp no_faults api series (db1, ne + n1, nm + n2, errs) = Some (db', ne', nm', errs')"
      using rest Inr p by simp
    from Cons.IH [OF this all_done] show ?thesis using again Inr by simp
  qed
qed simp

text \<open>
  A scan is idempotent: against a source that does not list one ticker with different data, a
  second scan of the same answers succeeds, leaves the tables as the first left them, counts nothing
  as new and reports the same errors.
\<close>

theorem second_scan_changes_nothing:
  assumes "consistent_source api series"
    and "RunOnce tp no_faults api series (db, 0, 0, []) = Some (db1, ne, nm, errs)"
  shows "RunOnce tp no_faults api series (db1, 0, 0, []) = Some (db1, 0, 0, errs)"
  by (rule RunOnce_again [OF assms(2)]) (use RunOnce_ok [OF assms(1) order_refl assms(2)] in blast)

text \<open>One series, one event on one page, one market on one page.\<close>

definition sample_event :: EventData where
  "sample_event =
     \<lparr>ed_EventTicker = ''E1'', ed_SeriesTicker = ''S'', ed_Title = ''a v b'', ed_SubTitle = [],
      ed_MutuallyExclusive = True, ed_ProductMetadata = \<lparr>pm_Competition = ''c'', pm_CompetitionScope = ''g''\<rparr>\<rparr>"

definition sample_market :: MarketData where
  "sample_market =
     \<lparr>mk_Ticker = ''M1'', mk_EventTicker = ''E1'', mk_MarketType = ''binary'', mk_YesSubTitle = ''a'',
      mk_Status = ''active'', mk_OccurrenceDatetime = [], mk_OpenTime = [], mk_CloseTime = [], mk_Result = [],
      mk_SettlementTS = [], mk_SettlementValueDollars = []\<rparr>"

definition sample_api :: rest_api where
  "sample_api =
     \<lparr>ra_events = (\<lambda>s c. Inr ([sample_event], [])), ra_markets = (\<lambda>e c. Inr ([sample_market], []))\<rparr>"

definition sample_times :: time_parser where
  "sample_times = \<lparr>tp_nano = (\<lambda>_. None), tp_plain = (\<lambda>_. None)\<rparr>"

definition sample_db :: scan_db where
  "sample_db =
     \<lparr>sc_events = [''E1'' \<mapsto> event_row sample_event], sc_markets = [''M1'' \<mapsto> market_row sample_times ''S'' sample_market]\<rparr>"

lemma sample_reads:
  "GetEvents sample_api s = Some (Inr [sample_event])" "GetMarkets sample_api e = Some (Inr [sample_market])"
  by (simp_all add: GetEvents_def GetMarkets_def sample_api_def fetch_all.simps)

lemma sample_scan:
  "RunOnce sample_times no_faults sample_api [''S''] (\<lparr>sc_events = Map.empty, sc_markets = Map.empty\<rparr>, 0, 0, []) =
     Some (sample_db, 1, 1, [])"
  by (simp add: scanSeries_def sample_reads scan_event_def all_finalized_def sample_market_def [THEN arg_cong, of mk_Status]
      upsertEvent_def upsertMarket_def upsert_def sample_db_def sample_event_def sample_market_def)

lemma sample_consistent: "consistent_source sample_api [''S'']"
  by (auto simp: consistent_source_def offered_events_def offered_markets_def sample_reads inj_on_def)

theorem second_scan_changes_nothing_witness:
  "consistent_source sample_api [''S''] \<and>
   RunOnce sample_times no_faults sample_api [''S''] (sample_db, 0, 0, []) = Some (sample_db, 0, 0, [])"
  using second_scan_changes_nothing [OF sample_consistent sample_scan] sample_consistent by simp

end
