(* ===== verification/Features.thy ===== *)
theory Features
  imports MatchLoop Float64 "HOL-Library.List_Lexorder" "HOL-Library.Char_ord" "HOL-Library.Multiset"
begin

text \<open>
  The feature extractor of the learned strategies (\<open>domain/features/extractor.go\<close>). Machine integers
  keep their width, since a vector is computed for any view. SHA-256 with its hexadecimal encoding is
  a parameter.
\<close>

section \<open>The view and the features\<close>

record View =
  fv_SetsHome :: int
  fv_SetsAway :: int
  fv_GamesHome :: int
  fv_GamesAway :: int
  fv_HomePoints :: int
  fv_AwayPoints :: int
  fv_Server :: int
  fv_IsTiebreak :: bool
  fv_SetNumber :: int
  fv_GameNumber :: int
  fv_PointNumber :: int
  fv_IsBreakPoint :: bool
  fv_IsSetPoint :: bool
  fv_IsMatchPoint :: bool
  fv_PriceCents :: int
  fv_BestBidCents :: int
  fv_BestAskCents :: int
  fv_BestBidSize :: int
  fv_BestAskSize :: int
  fv_Volume :: int
  fv_PriceTS :: int
  fv_MarkovFairValueCents :: int
  fv_MarkovDeltaCents :: int
  fv_Series :: string
  fv_IsDoubles :: bool
  fv_BestOf :: int
  fv_ElapsedMS :: int
  fv_PreMatchImpliedPriceCents :: int
  fv_RankDifferential :: int
  fv_PointsSincePriceMove :: int
  fv_SeqGapIndicator :: int

definition boolToFloat :: "bool \<Rightarrow> float64" where
  "boolToFloat b = (if b then Fin 1 else Fin 0)"

definition imbalance :: "View \<Rightarrow> float64" where
  "imbalance v =
     (let total = wrap64 (fv_BestBidSize v + fv_BestAskSize v) in
      if total = 0 then Fin 0
      else fdiv (of_int64 (wrap64 (fv_BestBidSize v - fv_BestAskSize v))) (of_int64 total))"

definition defaultFeatureNames :: "string list" where
  "defaultFeatureNames =
     [''sets_home'', ''sets_away'', ''games_home'', ''games_away'', ''home_points'',
      ''away_points'', ''server'', ''is_tiebreak'', ''set_number'', ''game_number'',
      ''point_number'', ''is_break_point'', ''is_set_point'', ''is_match_point'',
      ''markov_fair_value_cents'', ''edge_cents'', ''markov_delta_cents'', ''spread_cents'',
      ''best_bid_size'', ''best_ask_size'', ''imbalance'', ''volume'', ''price_velocity_10s'',
      ''price_velocity_60s'', ''series_atp'', ''series_wta'', ''series_itf'',
      ''series_challenger'', ''is_doubles'', ''best_of'', ''elapsed_minutes'',
      ''pre_match_implied_price_cents'', ''rank_differential'', ''points_since_price_move'',
      ''seq_gap_indicator'']"

definition extractFeature :: "string \<Rightarrow> View \<Rightarrow> Event \<Rightarrow> float64" where
  "extractFeature name v ev =
     (if name = ''sets_home'' then of_int64 (fv_SetsHome v)
      else if name = ''sets_away'' then of_int64 (fv_SetsAway v)
      else if name = ''games_home'' then of_int64 (fv_GamesHome v)
      else if name = ''games_away'' then of_int64 (fv_GamesAway v)
      else if name = ''home_points'' then of_int64 (fv_HomePoints v)
      else if name = ''away_points'' then of_int64 (fv_AwayPoints v)
      else if name = ''server'' then of_int64 (fv_Server v)
      else if name = ''is_tiebreak'' then boolToFloat (fv_IsTiebreak v)
      else if name = ''set_number'' then of_int64 (fv_SetNumber v)
      else if name = ''game_number'' then of_int64 (fv_GameNumber v)
      else if name = ''point_number'' then of_int64 (fv_PointNumber v)
      else if name = ''is_break_point'' then boolToFloat (fv_IsBreakPoint v)
      else if name = ''is_set_point'' then boolToFloat (fv_IsSetPoint v)
      else if name = ''is_match_point'' then boolToFloat (fv_IsMatchPoint v)
      else if name = ''markov_fair_value_cents'' then of_int64 (fv_MarkovFairValueCents v)
      else if name = ''edge_cents'' then of_int64 (wrap64 (fv_MarkovFairValueCents v - fv_PriceCents v))
      else if name = ''markov_delta_cents'' then of_int64 (fv_MarkovDeltaCents v)
      else if name = ''spread_cents'' then of_int64 (wrap64 (fv_BestAskCents v - fv_BestBidCents v))
      else if name = ''best_bid_size'' then of_int64 (fv_BestBidSize v)
      else if name = ''best_ask_size'' then of_int64 (fv_BestAskSize v)
      else if name = ''imbalance'' then imbalance v
      else if name = ''volume'' then of_int64 (fv_Volume v)
      else if name = ''price_velocity_10s'' then Fin 0
      else if name = ''price_velocity_60s'' then Fin 0
      else if name = ''series_atp'' then boolToFloat (fv_Series v = ''ATP'')
      else if name = ''series_wta'' then boolToFloat (fv_Series v = ''WTA'')
      else if name = ''series_itf'' then boolToFloat (fv_Series v = ''ITF'')
      else if name = ''series_challenger'' then boolToFloat (fv_Series v = ''Challenger'')
      else if name = ''is_doubles'' then boolToFloat (fv_IsDoubles v)
      else if name = ''best_of'' then of_int64 (fv_BestOf v)
      else if name = ''elapsed_minutes'' then fdiv (of_int64 (fv_ElapsedMS v)) (flit 60000)
      else if name = ''pre_match_implied_price_cents'' then of_int64 (fv_PreMatchImpliedPriceCents v)
      else if name = ''rank_differential'' then of_int64 (fv_RankDifferential v)
      else if name = ''points_since_price_move'' then of_int64 (fv_PointsSincePriceMove v)
      else if name = ''seq_gap_indicator'' then of_int64 (fv_SeqGapIndicator v)
      else Fin 0)"

record DefaultExtractor =
  de_names :: "string list"

definition NewDefaultExtractor :: DefaultExtractor where
  "NewDefaultExtractor = \<lparr>de_names = defaultFeatureNames\<rparr>"

definition Names :: "DefaultExtractor \<Rightarrow> string list" where
  "Names e = de_names e"

text \<open>\<open>for i, name := range names { vec[i] = extractFeature(name, v, ev) }\<close>; \<open>None\<close> is an index out of range.\<close>

fun fill_vec :: "nat \<Rightarrow> string list \<Rightarrow> View \<Rightarrow> Event \<Rightarrow> float64 list \<Rightarrow> float64 list option" where
  "fill_vec i [] v ev vec = Some vec"
| "fill_vec i (name # names) v ev vec =
     (if i < length vec then fill_vec (Suc i) names v ev (vec[i := extractFeature name v ev]) else None)"

definition Extract :: "DefaultExtractor \<Rightarrow> View \<Rightarrow> Event \<Rightarrow> float64 list option" where
  "Extract e v ev = fill_vec 0 (de_names e) v ev (replicate (length (de_names e)) (Fin 0))"

definition ExtractInto :: "DefaultExtractor \<Rightarrow> float64 list \<Rightarrow> View \<Rightarrow> Event \<Rightarrow> float64 list option" where
  "ExtractInto e buf v ev =
     (let buf = (if length buf < length (de_names e) then replicate (length (de_names e)) (Fin 0) else buf) in
      fill_vec 0 (de_names e) v ev (take (length (de_names e)) buf))"

text \<open>What is fed to the hash: the sorted names, each with a zero byte; \<open>sha\<close> is the rest.\<close>

definition hash_input :: "string list \<Rightarrow> string" where
  "hash_input names = concat (map (\<lambda>n. n @ [CHR 0x00]) (sort names))"

definition FeatureHash :: "(string \<Rightarrow> string) \<Rightarrow> string list \<Rightarrow> string" where
  "FeatureHash sha names = take 16 (sha (hash_input names))"

definition Extractor_Hash :: "(string \<Rightarrow> string) \<Rightarrow> DefaultExtractor \<Rightarrow> string" where
  "Extractor_Hash sha e = FeatureHash sha (de_names e)"

section \<open>The vector\<close>

lemma fill_vec_spec:
  "i + length names \<le> length vec \<Longrightarrow>
     fill_vec i names v ev vec =
       Some (take i vec @ map (\<lambda>n. extractFeature n v ev) names @ drop (i + length names) vec)"
proof (induction i names v ev vec rule: fill_vec.induct)
  case (2 i name names v ev vec)
  then have "i < length vec" by simp
  with 2 show ?case
    by (simp add: take_Suc_conv_app_nth list_update_append min_def)
qed simp

lemma Extract_eq: "Extract e v ev = Some (map (\<lambda>n. extractFeature n v ev) (de_names e))"
  by (simp add: Extract_def fill_vec_spec)

lemma ExtractInto_eq: "ExtractInto e buf v ev = Some (map (\<lambda>n. extractFeature n v ev) (de_names e))"
  by (simp add: ExtractInto_def Let_def fill_vec_spec)

text \<open>A feature is never infinite and never undefined.\<close>

definition finite_f :: "float64 \<Rightarrow> bool" where
  "finite_f x \<longleftrightarrow> (\<exists>q. x = Fin q)"

lemma of_int64_Fin:
  assumes "in_int64 n"
  shows "of_int64 n = Fin (rnd (of_int n))" "\<bar>rnd (of_int n)\<bar> \<le> 2 ^ 63" "n \<noteq> 0 \<Longrightarrow> 1 \<le> \<bar>rnd (of_int n)\<bar>"
proof -
  have n: "- (2 ^ 63) \<le> n" "n \<le> 2 ^ 63" using assms by (auto simp: int64_bounds)
  then have q: "(of_int (- (2 ^ 63)) :: rat) \<le> of_int n" "(of_int n :: rat) \<le> of_int (2 ^ 63)"
    by (simp_all only: of_int_le_iff)
  then have "\<bar>of_int n :: rat\<bar> \<le> 2 ^ 64" by simp
  then show "of_int64 n = Fin (rnd (of_int n))" by (simp add: of_int64_def fround_small)
  have p: "rnd (2 ^ 63) = 2 ^ 63" using rnd_powi [of 63] by (simp add: power_int_def)
  show "\<bar>rnd (of_int n)\<bar> \<le> 2 ^ 63"
    using rnd_mono [of "of_int n" "2 ^ 63"] rnd_mono [of "- (2 ^ 63)" "of_int n"] q p by (simp add: abs_le_iff)
  show "1 \<le> \<bar>rnd (of_int n)\<bar>" if "n \<noteq> 0"
  proof (cases "0 < n")
    case True
    then have "(of_int 1 :: rat) \<le> of_int n" by (simp only: of_int_le_iff)
    then show ?thesis using rnd_mono [of 1 "of_int n"] rnd_1 by simp
  next
    case False
    with that have "n \<le> -1" by simp
    then have "(of_int n :: rat) \<le> of_int (-1)" by (simp only: of_int_le_iff)
    then show ?thesis using rnd_mono [of "of_int n" "-1"] rnd_1 by simp
  qed
qed

lemma finite_of_int64: "in_int64 n \<Longrightarrow> finite_f (of_int64 n)"
  by (simp add: finite_f_def of_int64_Fin)

lemma finite_quotient:
  assumes "in_int64 a" "in_int64 b" "b \<noteq> 0"
  shows "finite_f (fdiv (of_int64 a) (of_int64 b))"
proof -
  have b: "1 \<le> \<bar>rnd (of_int b)\<bar>" using assms by (simp add: of_int64_Fin)
  have "\<bar>rnd (of_int a) / rnd (of_int b)\<bar> = \<bar>rnd (of_int a)\<bar> / \<bar>rnd (of_int b)\<bar>" by simp
  also have "\<dots> \<le> \<bar>rnd (of_int a)\<bar> / 1" using b by (intro divide_left_mono) auto
  also have "\<dots> \<le> 2 ^ 64" using of_int64_Fin(2) [OF assms(1)] by simp
  finally have "fround (rnd (of_int a) / rnd (of_int b)) = Fin (rnd (rnd (of_int a) / rnd (of_int b)))"
    by (rule fround_small)
  moreover have "rnd (of_int b) \<noteq> 0" using b by auto
  ultimately show ?thesis by (simp add: finite_f_def of_int64_Fin assms)
qed

definition view_in_range :: "View \<Rightarrow> bool" where
  "view_in_range v \<longleftrightarrow>
     (\<forall>n \<in> {fv_SetsHome v, fv_SetsAway v, fv_GamesHome v, fv_GamesAway v, fv_HomePoints v, fv_AwayPoints v, fv_Server v,
        fv_SetNumber v, fv_GameNumber v, fv_PointNumber v, fv_PriceCents v, fv_BestBidCents v, fv_BestAskCents v,
        fv_BestBidSize v, fv_BestAskSize v, fv_Volume v, fv_MarkovFairValueCents v, fv_MarkovDeltaCents v, fv_BestOf v,
        fv_ElapsedMS v, fv_PreMatchImpliedPriceCents v, fv_RankDifferential v, fv_PointsSincePriceMove v,
        fv_SeqGapIndicator v}. in_int64 n)"

lemma finite_simple [simp]: "finite_f (Fin q)" "finite_f (boolToFloat b)"
  by (simp_all add: finite_f_def boolToFloat_def)

lemma imbalance_finite: "finite_f (imbalance v)"
  by (simp add: imbalance_def Let_def finite_quotient wrap64_in_range)

lemma elapsed_finite: "in_int64 n \<Longrightarrow> finite_f (fdiv (of_int64 n) (flit 60000))"
  using finite_quotient [of n 60000] by (simp add: flit_def of_int64_def int64_bounds)

lemma extractFeature_finite: "view_in_range v \<Longrightarrow> finite_f (extractFeature name v ev)"
  unfolding extractFeature_def view_in_range_def
  by (simp add: finite_of_int64 wrap64_in_range imbalance_finite elapsed_finite)

text \<open>
  A feature vector is computed for every view and whatever the reused buffer holds: it has one
  entry per feature name, in the order of the names, equals the freshly allocated vector, and every
  entry is a finite number, so no infinity and no NaN ever reaches a model.
\<close>
theorem feature_vector_well_formed:
  assumes "view_in_range v"
  shows "\<exists>vec. ExtractInto e buf v ev = Some vec \<and> Extract e v ev = Some vec \<and>
    length vec = length (Names e) \<and>
    (\<forall>i < length vec. vec ! i = extractFeature (Names e ! i) v ev \<and> finite_f (vec ! i))"
  using assms by (simp add: ExtractInto_eq Extract_eq Names_def extractFeature_finite)

definition demo_view :: View where
  "demo_view =
     \<lparr>fv_SetsHome = 1, fv_SetsAway = 0, fv_GamesHome = 3, fv_GamesAway = 2, fv_HomePoints = 15, fv_AwayPoints = 0,
      fv_Server = 1, fv_IsTiebreak = False, fv_SetNumber = 2, fv_GameNumber = 6, fv_PointNumber = 2,
      fv_IsBreakPoint = False, fv_IsSetPoint = False, fv_IsMatchPoint = False, fv_PriceCents = 60, fv_BestBidCents = 59,
      fv_BestAskCents = 61, fv_BestBidSize = 3, fv_BestAskSize = 1, fv_Volume = 10, fv_PriceTS = 0,
      fv_MarkovFairValueCents = 66, fv_MarkovDeltaCents = 0, fv_Series = ''ATP'', fv_IsDoubles = False, fv_BestOf = 3,
      fv_ElapsedMS = 0, fv_PreMatchImpliedPriceCents = 50, fv_RankDifferential = 0, fv_PointsSincePriceMove = 0,
      fv_SeqGapIndicator = 0\<rparr>"

theorem feature_vector_well_formed_witness:
  "\<exists>vec. ExtractInto NewDefaultExtractor [] demo_view (EvClock \<lparr>ct_TS = 0\<rparr>) = Some vec \<and> length vec = 35"
proof -
  have "view_in_range demo_view" by (simp add: view_in_range_def demo_view_def int64_bounds)
  from feature_vector_well_formed [OF this, of NewDefaultExtractor "[]" "EvClock \<lparr>ct_TS = 0\<rparr>"]
  show ?thesis by (auto simp: Names_def NewDefaultExtractor_def defaultFeatureNames_def)
qed

text \<open>The size imbalance of a book without overflow is in the interval from -1 to 1.\<close>

lemma imbalance_bounds:
  assumes "0 \<le> fv_BestBidSize v" "0 \<le> fv_BestAskSize v" "fv_BestBidSize v + fv_BestAskSize v \<le> int64_max"
  shows "\<exists>q. imbalance v = Fin q \<and> -1 \<le> q \<and> q \<le> 1"
proof (cases "fv_BestBidSize v + fv_BestAskSize v = 0")
  case True
  then show ?thesis by (simp add: imbalance_def wrap64_id int64_bounds)
next
  case False
  let ?b = "fv_BestBidSize v" let ?a = "fv_BestAskSize v"
  have r: "in_int64 (?b + ?a)" "in_int64 (?b - ?a)" using assms by (auto simp: int64_bounds)
  let ?n = "rnd (of_int (?b - ?a))" let ?d = "rnd (of_int (?b + ?a))"
  have "(0 :: rat) \<le> of_int (?b + ?a)" using assms by simp
  then have d: "1 \<le> ?d" using of_int64_Fin(3) [OF r(1) False] rnd_nonneg [of "of_int (?b + ?a)"] by simp
  have "?n \<le> ?d" using assms by (intro rnd_mono) simp
  moreover have "- ?d \<le> ?n" using assms by (subst rnd_minus [symmetric]) (intro rnd_mono, simp)
  ultimately have q: "-1 \<le> ?n / ?d" "?n / ?d \<le> 1" using d by (simp_all add: le_divide_eq divide_le_eq)
  then have "-1 \<le> rnd (?n / ?d)" "rnd (?n / ?d) \<le> 1"
    using rnd_mono [of "-1" "?n / ?d"] rnd_mono [of "?n / ?d" 1] rnd_1 by simp_all
  moreover have "\<bar>?n / ?d\<bar> \<le> 2 ^ 64" using q by (simp add: abs_le_iff)
  ultimately show ?thesis
    using False d r by (simp add: imbalance_def wrap64_id of_int64_Fin fround_small)
qed

section \<open>The hash of the feature set\<close>

lemma terminated_concat_inj:
  assumes "\<forall>n \<in> set ns. c \<notin> set n" "\<forall>n \<in> set ms. c \<notin> set n"
    and "concat (map (\<lambda>n. n @ [c]) ns) = concat (map (\<lambda>n. n @ [c]) ms)"
  shows "ns = ms"
  using assms
proof (induction ns arbitrary: ms)
  case Nil
  then show ?case by (cases ms) auto
next
  case (Cons n ns)
  then obtain m ms' where ms: "ms = m # ms'" by (cases ms) auto
  have "n @ c # concat (map (\<lambda>n. n @ [c]) ns) = m @ c # concat (map (\<lambda>n. n @ [c]) ms')"
    using Cons.prems(3) ms by simp
  moreover have "c \<notin> set n" "c \<notin> set m" using Cons.prems(1,2) ms by simp_all
  ultimately have split: "n = m" "concat (map (\<lambda>n. n @ [c]) ns) = concat (map (\<lambda>n. n @ [c]) ms')"
    using append_sep_inj [of c n m] by blast+
  have "ns = ms'" by (rule Cons.IH) (use Cons.prems(1,2) ms split(2) in simp_all)
  with ms split(1) show ?case by simp
qed

text \<open>
  What is hashed determines the set of features: two feature lists have the same hash input
  exactly when one is a rearrangement of the other. Models trained on different features are told
  apart (up to collisions of the hash); models that order the same features differently are not.
\<close>
theorem feature_hash_identifies_features:
  assumes "\<forall>n \<in> set ns \<union> set ms. CHR 0x00 \<notin> set n"
  shows "hash_input ns = hash_input ms \<longleftrightarrow> mset ns = mset ms"
proof
  assume "hash_input ns = hash_input ms"
  then have "sort ns = sort ms"
    unfolding hash_input_def by (rule terminated_concat_inj [rotated 2]) (use assms in auto)
  then show "mset ns = mset ms" by (metis mset_sort)
next
  assume "mset ns = mset ms"
  then have "sort ns = sort ms" by (intro properties_for_sort) simp_all
  then show "hash_input ns = hash_input ms" by (simp add: hash_input_def)
qed

theorem feature_hash_identifies_features_witness:
  "hash_input [''server'', ''volume''] \<noteq> hash_input [''server''] \<and>
   hash_input [''server'', ''volume''] = hash_input [''volume'', ''server'']"
proof -
  have "\<forall>n \<in> set [''server'', ''volume''] \<union> set [''server'']. CHR 0x00 \<notin> set n"
    "\<forall>n \<in> set [''server'', ''volume''] \<union> set [''volume'', ''server'']. CHR 0x00 \<notin> set n"
    by code_simp+
  from feature_hash_identifies_features [OF this(1)] feature_hash_identifies_features [OF this(2)]
  show ?thesis by (simp add: add_mset_commute)
qed

text \<open>A reordered feature list changes the vector, not the hash.\<close>

lemma reordered_features_same_hash:
  "FeatureHash sha (rev (de_names e)) = FeatureHash sha (de_names e)"
proof -
  have "sort (rev (de_names e)) = sort (de_names e)" by (intro properties_for_sort) simp_all
  then show ?thesis by (simp add: FeatureHash_def hash_input_def)
qed

end
