(* ===== verification/Learned.thy ===== *)
theory Learned
  imports StrategyCore Features GoFloat
begin

text \<open>
  \<open>domain/strategy/learned.go\<close>: the strategy whose decisions come from a trained model. The model, the
  hash, the exponential and the stream of random numbers are parameters.
\<close>

section \<open>The strategy\<close>

datatype Mode = ModeShadow | ModePaper | ModeChampion

text \<open>The source of random numbers is its stream with the position reached.\<close>

record LearnedStrategy =
  ls_name :: string
  ls_modelID :: int
  ls_feat :: DefaultExtractor
  ls_featNames :: "string list"
  ls_model :: "float64 list \<Rightarrow> float64 option"
  ls_mode :: Mode
  ls_rng :: "((nat \<Rightarrow> float64) \<times> nat) option"
  ls_temp :: float64
  ls_featBuf :: "float64 list"

definition NewLearnedStrategy ::
  "string \<Rightarrow> int \<Rightarrow> (float64 list \<Rightarrow> float64 option) \<Rightarrow> Mode \<Rightarrow> ((nat \<Rightarrow> float64) \<times> nat) option \<Rightarrow> float64
   \<Rightarrow> LearnedStrategy" where
  "NewLearnedStrategy name modelID model mode rng temp =
     (let feat = NewDefaultExtractor in
      \<lparr>ls_name = name, ls_modelID = modelID, ls_feat = feat, ls_featNames = Names feat, ls_model = model,
       ls_mode = mode, ls_rng = rng, ls_temp = temp, ls_featBuf = replicate (length (Names feat)) (Fin 0)\<rparr>)"

definition SetMode :: "Mode \<Rightarrow> LearnedStrategy \<Rightarrow> LearnedStrategy" where
  "SetMode m s = s\<lparr>ls_mode := m\<rparr>"

definition MockPredictor_Predict :: "float64 \<Rightarrow> float64 list \<Rightarrow> float64 option" where
  "MockPredictor_Predict val values = Some val"

text \<open>The bridge from the loop's state; the fields it does not set are zero.\<close>

definition viewFromMatchView :: "MatchView \<Rightarrow> string \<Rightarrow> View" where
  "viewFromMatchView mv marketTicker =
     \<lparr>fv_SetsHome = mv_SetsHome mv, fv_SetsAway = mv_SetsAway mv, fv_GamesHome = mv_GamesHome mv,
      fv_GamesAway = mv_GamesAway mv, fv_HomePoints = Atoi_value (mv_HomePoints mv),
      fv_AwayPoints = Atoi_value (mv_AwayPoints mv), fv_Server = mv_Server mv, fv_IsTiebreak = mv_IsTiebreak mv,
      fv_SetNumber = mv_SetNumber mv, fv_GameNumber = mv_GameNumber mv, fv_PointNumber = mv_PointNumber mv,
      fv_IsBreakPoint = mv_IsBreakPoint mv, fv_IsSetPoint = mv_IsSetPoint mv, fv_IsMatchPoint = mv_IsMatchPoint mv,
      fv_PriceCents = lookup0 (mv_Prices mv) marketTicker, fv_BestBidCents = 0, fv_BestAskCents = 0,
      fv_BestBidSize = 0, fv_BestAskSize = 0, fv_Volume = 0, fv_PriceTS = lookup0 (mv_PriceTS mv) marketTicker,
      fv_MarkovFairValueCents = 0, fv_MarkovDeltaCents = 0, fv_Series = [], fv_IsDoubles = False, fv_BestOf = 0,
      fv_ElapsedMS = 0, fv_PreMatchImpliedPriceCents = 0, fv_RankDifferential = 0, fv_PointsSincePriceMove = 0,
      fv_SeqGapIndicator = 0\<rparr>"

fun evMarketTicker :: "Event \<Rightarrow> string" where
  "evMarketTicker (EvPrice e) = pu_MarketTicker e"
| "evMarketTicker (EvLifecycle e) = lc_MarketTicker e"
| "evMarketTicker _ = []"

text \<open>\<open>itoa\<close> is \<open>intToStr\<close> of the helpers, written again.\<close>

definition itoa :: "int \<Rightarrow> string option" where
  "itoa n =
     (if n = 0 then Some ''0''
      else
        (let neg = n < 0; m = (if neg then wrap64 (- n) else n) in
         case its_loop 12 m [] of
           None \<Rightarrow> None
         | Some (pos, buf) \<Rightarrow>
             (if neg then (if pos = 0 then None else Some (CHR ''-'' # buf)) else Some buf)))"

definition fair_value_cents :: "float64 \<Rightarrow> int" where
  "fair_value_cents pred =
     (let f = to_int64 (fround_away (fmul pred (Fin 100)));
          f = (if f < 1 then 1 else f) in
      if f > 99 then 99 else f)"

text \<open>The probability of buying: the softmax over passing and buying.\<close>

definition buy_prob :: "(float64 \<Rightarrow> float64) \<Rightarrow> int \<Rightarrow> float64 \<Rightarrow> float64" where
  "buy_prob exp_f edge temp =
     (let buyLogit = fdiv (of_int64 edge) temp;
          maxLogit = fmax buyLogit (Fin 0);
          buyProb = exp_f (fsub buyLogit maxLogit);
          passProb = exp_f (fsub (Fin 0) maxLogit) in
      fdiv buyProb (fadd buyProb passProb))"

text \<open>The decision: the propensity of buying, or to pass, and the strategy after the draw.\<close>

definition decide :: "(float64 \<Rightarrow> float64) \<Rightarrow> int \<Rightarrow> LearnedStrategy \<Rightarrow> float64 option \<times> LearnedStrategy" where
  "decide exp_f edge s =
     (case ls_rng s of
        Some (draws, n) \<Rightarrow>
          (if ls_mode s = ModePaper \<and> flt (Fin 0) (ls_temp s)
           then
             (let buyProb = buy_prob exp_f edge (ls_temp s); s' = s\<lparr>ls_rng := Some (draws, Suc n)\<rparr> in
              if flt (draws n) buyProb then (Some buyProb, s') else (None, s'))
           else (Some (Fin 1), s))
      | None \<Rightarrow> (Some (Fin 1), s))"

text \<open>\<open>None\<close> is a panic. The names of the default extractor are distinct, so the map of the features
  is the list of the pairs.\<close>

definition Learned_OnEvent ::
  "(string \<Rightarrow> string) \<Rightarrow> (float64 \<Rightarrow> float64) \<Rightarrow> Event \<Rightarrow> MatchView \<Rightarrow> LearnedStrategy
   \<Rightarrow> (LearnedStrategy \<times> Intent list) option" where
  "Learned_OnEvent sha exp_f ev mv s =
     (let v = viewFromMatchView mv [] in
      Option.bind (ExtractInto (ls_feat s) (ls_featBuf s) v ev) (\<lambda>vec.
     (let s1 = s\<lparr>ls_featBuf := vec\<rparr> in
      case ls_model s vec of None \<Rightarrow> Some (s1, []) | Some pred \<Rightarrow>
     (let fairValueCents = fair_value_cents pred; price = fv_PriceCents v in
      if price = 0 then Some (s1, [])
      else
     (let edge = fairValueCents - price in
      if edge \<le> 0 then Some (s1, [])
      else
        (case decide exp_f edge s1 of
           (None, s2) \<Rightarrow> Some (s2, [])
         | (Some propensity, s2) \<Rightarrow>
             Option.bind (itoa edge) (\<lambda>es.
               Some (s2,
                 [\<lparr>in_MarketTicker = evMarketTicker ev, in_Strategy = ls_name s, in_Action = ''buy'',
                   in_PriceCents = price, in_ConvProbBps = fairValueCents * 100, in_Reason = ''learned: edge='' @ es,
                   in_FeatureHash = Extractor_Hash sha (ls_feat s), in_Features = zip (ls_featNames s) vec,
                   in_ModelID = Some (ls_modelID s), in_Propensity = Some propensity\<rparr>]))))))))"

section \<open>Laws\<close>

lemma fair_value_range: "1 \<le> fair_value_cents pred \<and> fair_value_cents pred \<le> 99"
  by (simp add: fair_value_cents_def Let_def)

lemma itoa_intToStr: "itoa n = intToStr n"
  by (simp add: itoa_def intToStr_def)

lemma default_names_distinct: "distinct defaultFeatureNames"
  by code_simp

text \<open>What an order of the strategy looks like.\<close>

lemma learned_intent:
  assumes "Learned_OnEvent sha exp_f ev mv s = Some (s', is)" "i \<in> set is"
  shows "is = [i] \<and> in_Strategy i = ls_name s \<and> in_Action i = ''buy'' \<and> in_PriceCents i = lookup0 (mv_Prices mv) [] \<and>
     in_ConvProbBps i \<le> 9900 \<and> in_PriceCents i * 100 < in_ConvProbBps i \<and>
     in_FeatureHash i = Extractor_Hash sha (ls_feat s) \<and> in_ModelID i = Some (ls_modelID s)"
proof -
  obtain vec where vec: "ExtractInto (ls_feat s) (ls_featBuf s) (viewFromMatchView mv []) ev = Some vec"
    using assms(1) by (auto simp: Learned_OnEvent_def Let_def bind_eq_Some_conv)
  obtain pred where pred: "ls_model s vec = Some pred"
    using assms vec by (auto simp: Learned_OnEvent_def Let_def split: option.splits)
  have gate: "lookup0 (mv_Prices mv) [] \<noteq> 0" "0 < fair_value_cents pred - lookup0 (mv_Prices mv) []"
    using assms vec pred by (auto simp: Learned_OnEvent_def Let_def viewFromMatchView_def split: if_split_asm)
  obtain propensity s2 es where
    run: "decide exp_f (fair_value_cents pred - lookup0 (mv_Prices mv) []) (s\<lparr>ls_featBuf := vec\<rparr>) = (Some propensity, s2)"
      "itoa (fair_value_cents pred - lookup0 (mv_Prices mv) []) = Some es"
    using assms vec pred gate
    by (auto simp: Learned_OnEvent_def Let_def viewFromMatchView_def bind_eq_Some_conv split: prod.splits option.splits)
  show ?thesis
    using assms vec pred gate run fair_value_range [of pred]
    by (simp add: Learned_OnEvent_def Let_def viewFromMatchView_def) auto
qed

text \<open>It reads the price of the market with the empty ticker: where no such market is quoted, it
  never trades, in any mode and with any model.\<close>

lemma learned_never_trades:
  assumes "mv_Prices mv [] = None"
  shows "\<exists>s'. Learned_OnEvent sha exp_f ev mv s = Some (s', [])"
  using assms
  by (auto simp: Learned_OnEvent_def Let_def ExtractInto_eq viewFromMatchView_def lookup0_def split: option.split)

end
