(* ===== verification/CalibratedMarkov.thy ===== *)
theory CalibratedMarkov
  imports StrategyLaws
begin

text \<open>
  \<open>domain/strategy/calibrated_markov.go\<close>: the Markov price with a serve probability from a logistic
  model. Reading and decoding the model file and the exponential function are parameters. The program
  does not put this strategy into its list.
\<close>

section \<open>The serve model\<close>

record serveWinModel =
  sw_Coef :: "float64 list"
  sw_Intercept :: float64
  sw_SeriesMap :: "string \<rightharpoonup> int"
  sw_PointMap :: "string \<rightharpoonup> int"
  sw_OverallRate :: float64

record CalibratedMarkov =
  cb_modelPath :: string
  cb_model :: "serveWinModel option"

definition cmMinEdgeCents :: int where "cmMinEdgeCents = 3"
definition cmMaxPriceCents :: int where "cmMaxPriceCents = 85"
definition cmDefaultPServe :: float64 where "cmDefaultPServe = flit (64 / 100)"

text \<open>\<open>read_model\<close> is the file's content, decoded, if both succeed.\<close>

definition loadModel :: "(string \<Rightarrow> serveWinModel option) \<Rightarrow> CalibratedMarkov \<Rightarrow> CalibratedMarkov" where
  "loadModel read_model s =
     (if cb_modelPath s = [] then s
      else (case read_model (cb_modelPath s) of None \<Rightarrow> s | Some m \<Rightarrow> s\<lparr>cb_model := Some m\<rparr>))"

definition NewCalibratedMarkov :: "(string \<Rightarrow> serveWinModel option) \<Rightarrow> string \<Rightarrow> CalibratedMarkov" where
  "NewCalibratedMarkov read_model modelPath = loadModel read_model \<lparr>cb_modelPath = modelPath, cb_model = None\<rparr>"

definition cmSigmoid :: "(float64 \<Rightarrow> float64) \<Rightarrow> float64 \<Rightarrow> float64" where
  "cmSigmoid exp_f x = fdiv (Fin 1) (fadd (Fin 1) (exp_f (fneg x)))"

definition score_index :: "serveWinModel \<Rightarrow> string \<Rightarrow> int" where
  "score_index m pts =
     (let hp = lookup0 (sw_PointMap m) pts in if hp = 0 \<and> pts \<noteq> ''0'' then 4 else hp)"

definition serve_features :: "serveWinModel \<Rightarrow> string \<Rightarrow> Point \<Rightarrow> float64 list" where
  "serve_features m seriesTicker p =
     (let seriesID = (case sw_SeriesMap m seriesTicker of None \<Rightarrow> -1 | Some n \<Rightarrow> n);
          hp = score_index m (pt_HomePoints p);
          ap = score_index m (pt_AwayPoints p) in
      map of_int64
        [seriesID, pt_Server p, pt_HomeGames p, pt_AwayGames p,
         hp - ap, pt_HomeGames p - pt_AwayGames p,
         if pt_IsBreakPoint p then 1 else 0, if pt_IsTiebreak p then 1 else 0,
         if pt_Server p = 1 then 1 else 0, hp, ap])"

text \<open>\<open>for i, f := range features { if i < len(coef) { z += coef[i] * f } }\<close>\<close>

fun weigh :: "float64 list \<Rightarrow> float64 list \<Rightarrow> float64 \<Rightarrow> float64" where
  "weigh (c # cs) (f # fs) z = weigh cs fs (fadd z (fmul c f))"
| "weigh _ _ z = z"

definition predictServeWin :: "(float64 \<Rightarrow> float64) \<Rightarrow> CalibratedMarkov \<Rightarrow> string \<Rightarrow> Point \<Rightarrow> float64" where
  "predictServeWin exp_f s seriesTicker p =
     (case cb_model s of
        None \<Rightarrow> cmDefaultPServe
      | Some m \<Rightarrow> cmSigmoid exp_f (weigh (sw_Coef m) (serve_features m seriesTicker p) (sw_Intercept m)))"

section \<open>The handler\<close>

fun CalibratedMarkov_getOrCreateState :: "opaque \<Rightarrow> cmState option" where
  "CalibratedMarkov_getOrCreateState ONil = Some \<lparr>cm_fired = False, cm_series = []\<rparr>"
| "CalibratedMarkov_getOrCreateState (OCalibratedMarkov cs) = Some cs"
| "CalibratedMarkov_getOrCreateState _ = None"

text \<open>The order, if the edge suffices; then the state is fired. \<open>None\<close> is the panic of \<open>intToStr\<close>.\<close>

definition CalibratedMarkov_checkEdge ::
  "string \<Rightarrow> int \<Rightarrow> float64 \<Rightarrow> int \<Rightarrow> cmState \<Rightarrow> (cmState \<times> Intent list) option" where
  "CalibratedMarkov_checkEdge mkt priceCents fairValue setNum cs =
     (if priceCents \<le> 0 \<or> priceCents > cmMaxPriceCents then Some (cs, [])
      else
     (let fvCents = to_int64 (fmul fairValue (Fin 100)); edgeCents = fvCents - priceCents in
      if edgeCents < cmMinEdgeCents then Some (cs, [])
      else
        Option.bind (intToStr setNum) (\<lambda>ns. Option.bind (intToStr edgeCents) (\<lambda>ne.
          Some (cs\<lparr>cm_fired := True\<rparr>,
            [mk_intent mkt ''calibrated-markov'' ''buy'' priceCents (to_int64 (fmul fairValue (Fin 10000)))
               (''calmarkov_set'' @ ns @ ''_edge'' @ ne @ ''c'')])))))"

text \<open>Both markets in turn, the second only when the first check has not fired.\<close>

definition CalibratedMarkov_checkEdges ::
  "bool \<Rightarrow> string \<Rightarrow> int \<Rightarrow> float64 \<Rightarrow> bool \<Rightarrow> string \<Rightarrow> int \<Rightarrow> float64 \<Rightarrow> int \<Rightarrow> cmState
   \<Rightarrow> (cmState \<times> Intent list) option" where
  "CalibratedMarkov_checkEdges home homeMkt homePrice homeFV away awayMkt awayPrice awayFV setNum cs =
     Option.bind
       (if home then CalibratedMarkov_checkEdge homeMkt homePrice homeFV setNum cs else Some (cs, [])) (\<lambda>(cs1, is1).
     Option.bind
       (if \<not> cm_fired cs1 \<and> away then CalibratedMarkov_checkEdge awayMkt awayPrice awayFV setNum cs1
        else Some (cs1, [])) (\<lambda>(cs2, is2). Some (cs2, is1 @ is2)))"

definition CalibratedMarkov_onPoint ::
  "(float64 \<Rightarrow> float64) \<Rightarrow> CalibratedMarkov \<Rightarrow> PointScored \<Rightarrow> MatchView \<Rightarrow> opaque \<Rightarrow> own_result" where
  "CalibratedMarkov_onPoint exp_f s e mv v =
     (case CalibratedMarkov_getOrCreateState v of None \<Rightarrow> None | Some cs \<Rightarrow>
     (let p = ps_Point e; v' = OCalibratedMarkov cs in
      if cm_fired cs then keep v'
      else if length (mv_MarketTickers mv) < 2 then keep v'
      else
     (let homeMkt = mv_MarketTickers mv ! 0; awayMkt = mv_MarketTickers mv ! 1;
          homeOK = mv_Prices mv homeMkt \<noteq> None; homePrice = lookup0 (mv_Prices mv) homeMkt;
          awayOK = mv_Prices mv awayMkt \<noteq> None; awayPrice = lookup0 (mv_Prices mv) awayMkt in
      if (\<not> homeOK \<or> homePrice \<le> 0) \<and> (\<not> awayOK \<or> awayPrice \<le> 0) then keep v'
      else
     (let mk = NewMarkovModelWithProb (predictServeWin exp_f s (cm_series cs) p);
          setsHome = (if pt_HomeSetGames p > pt_AwaySetGames p then 1 else 0);
          setsAway = (if pt_HomeSetGames p > pt_AwaySetGames p then 0
                      else if pt_AwaySetGames p > pt_HomeSetGames p then 1 else 0);
          homeFV = fst (WinProbability setsHome setsAway (pt_HomeGames p) (pt_AwayGames p)
                     (pt_HomePoints p) (pt_AwayPoints p) (pt_Server p) (pt_IsTiebreak p) mk);
          awayFV = fsub (Fin 1) homeFV in
      Option.bind
        (CalibratedMarkov_checkEdges (homeOK \<and> homePrice > 0) homeMkt homePrice homeFV
           (awayOK \<and> awayPrice > 0) awayMkt awayPrice awayFV (pt_SetNumber p) cs) (\<lambda>(cs2, is).
      emit (OCalibratedMarkov cs2) is)))))"

fun CalibratedMarkov_OnEvent ::
  "(float64 \<Rightarrow> float64) \<Rightarrow> CalibratedMarkov \<Rightarrow> Event \<Rightarrow> MatchView \<Rightarrow> opaque \<Rightarrow> own_result" where
  "CalibratedMarkov_OnEvent exp_f s (EvPoint e) mv v = CalibratedMarkov_onPoint exp_f s e mv v"
| "CalibratedMarkov_OnEvent exp_f s (EvLifecycle e) mv v = on_lifecycle e"
| "CalibratedMarkov_OnEvent exp_f s _ mv v = stay"

section \<open>Laws\<close>

text \<open>A check emits at most one order, and fires exactly when it does.\<close>

lemma checkEdge_fires:
  assumes "CalibratedMarkov_checkEdge mkt price fv n cs = Some (cs', is)" "\<not> cm_fired cs"
  shows "length is \<le> 1 \<and> (is \<noteq> [] \<longleftrightarrow> cm_fired cs') \<and>
    (\<forall>i \<in> set is. in_Strategy i = ''calibrated-markov'' \<and> in_Action i = ''buy'' \<and> in_MarketTicker i = mkt \<and>
       in_PriceCents i = price \<and> 0 < price \<and> price \<le> cmMaxPriceCents \<and> price + 3 \<le> to_int64 (fmul fv (Fin 100)))"
  using assms
  by (auto simp: CalibratedMarkov_checkEdge_def cmMinEdgeCents_def mk_intent_def Let_def bind_eq_Some_conv split: if_splits)

definition calibrated_order :: "Intent \<Rightarrow> bool" where
  "calibrated_order i \<longleftrightarrow> in_Strategy i = ''calibrated-markov'' \<and> in_Action i = ''buy'' \<and>
     0 < in_PriceCents i \<and> in_PriceCents i \<le> cmMaxPriceCents"

lemma check_if_fires:
  assumes "(if c then CalibratedMarkov_checkEdge mkt price fv n cs else Some (cs, [])) = Some (cs', is)" "\<not> cm_fired cs"
  shows "length is \<le> 1 \<and> (is \<noteq> [] \<longleftrightarrow> cm_fired cs') \<and> list_all calibrated_order is"
  using assms checkEdge_fires [of mkt price fv n cs cs' "is"]
  by (auto simp: list_all_iff calibrated_order_def split: if_split_asm)

lemma checkEdges_fires:
  assumes "CalibratedMarkov_checkEdges h m1 p1 f1 a m2 p2 f2 n cs = Some (cs2, is)" "\<not> cm_fired cs"
  shows "length is \<le> 1 \<and> (is \<noteq> [] \<longrightarrow> cm_fired cs2) \<and> list_all calibrated_order is"
proof -
  obtain cs1 is1 is2 where run:
    "(if h then CalibratedMarkov_checkEdge m1 p1 f1 n cs else Some (cs, [])) = Some (cs1, is1)"
    "(if \<not> cm_fired cs1 \<and> a then CalibratedMarkov_checkEdge m2 p2 f2 n cs1 else Some (cs1, [])) = Some (cs2, is2)"
    "is = is1 @ is2"
    using assms(1) by (simp only: CalibratedMarkov_checkEdges_def bind_eq_Some_conv split_paired_Ex prod.case option.inject prod.inject) blast
  note first = check_if_fires [OF run(1) assms(2)]
  show ?thesis
  proof (cases "cm_fired cs1")
    case True
    then show ?thesis using run first by auto
  next
    case False
    then have "length is2 \<le> 1 \<and> (is2 \<noteq> [] \<longleftrightarrow> cm_fired cs2) \<and> list_all calibrated_order is2"
      using check_if_fires [of a m2 p2 f2 n cs1 cs2 is2] run(2) by simp
    then show ?thesis using run(3) first False by auto
  qed
qed

lemma onPoint_cases:
  assumes "CalibratedMarkov_onPoint exp_f s e mv v = Some (w, is)"
  shows "length is \<le> 1 \<and> (is \<noteq> [] \<longrightarrow> (\<exists>cs. w = Some (OCalibratedMarkov cs) \<and> cm_fired cs)) \<and>
    list_all calibrated_order is"
  using assms
  by (auto simp: CalibratedMarkov_onPoint_def keep_def emit_def Let_def bind_eq_Some_conv
      dest!: checkEdges_fires split: option.splits if_split_asm prod.splits)

lemma one_shot_CalibratedMarkov: "one_shot fired_entry (CalibratedMarkov_OnEvent exp_f s)"
proof (rule one_shotI)
  show "fires (CalibratedMarkov_OnEvent exp_f s ev mv v)" for ev mv v
    by (cases ev) (auto simp: fires_def all_res_def on_lifecycle_def keep_def stay_def dest!: onPoint_cases split: if_splits)
  show "fired_entry v \<Longrightarrow> silent ev (CalibratedMarkov_OnEvent exp_f s ev mv v)" for ev mv v
    by (cases ev; cases v) (simp_all add: CalibratedMarkov_onPoint_def)
qed

interpretation calibrated: one_shot fired_entry "CalibratedMarkov_OnEvent exp_f s" for exp_f s
  by (rule one_shot_CalibratedMarkov)

text \<open>
  Whatever the fitted model and the exponential compute, the strategy places at most one order
  between two settlements, a purchase within the price cap.
\<close>

lemma own_run_outs:
  assumes "own_run (CalibratedMarkov_OnEvent exp_f s) xs v = Some (v', outs)" "is \<in> set outs"
  shows "length is \<le> 1 \<and> list_all calibrated_order is"
  using assms
proof (induction xs arbitrary: v v' outs)
  case (Cons x xs)
  obtain ev mv where x: "x = (ev, mv)" by (cases x)
  from Cons.prems(1) obtain w out v2 outs' where
    st: "CalibratedMarkov_OnEvent exp_f s ev mv v = Some (w, out)"
    "own_run (CalibratedMarkov_OnEvent exp_f s) xs (case w of None \<Rightarrow> v | Some v' \<Rightarrow> v') = Some (v2, outs')"
    "outs = out # outs'"
    by (auto simp: x split: option.splits)
  have "is \<in> set outs' \<or> is = out" using Cons.prems(2) st(3) by auto
  then show ?case
  proof
    assume "is = out"
    then show ?thesis using st(1)
      by (cases ev) (auto simp: on_lifecycle_def keep_def stay_def dest!: onPoint_cases split: if_splits)
  qed (rule Cons.IH [OF st(2)])
qed simp

lemma emissions_concat: "(\<And>is. is \<in> set outs \<Longrightarrow> length is \<le> 1) \<Longrightarrow> length (concat outs) \<le> emissions outs"
proof (induction outs)
  case (Cons x outs)
  then have "length (concat outs) \<le> emissions outs" "length x \<le> 1" by auto
  then show ?case by (cases x) (auto simp: emissions_def)
qed (simp add: emissions_def)

lemma calibrated_one_order:
  assumes "own_run (CalibratedMarkov_OnEvent exp_f s) xs v = Some (v', outs)" "list_all (\<lambda>(ev, mv). \<not> ends_match ev) xs"
  shows "length (concat outs) \<le> 1"
proof -
  have "length (concat outs) \<le> emissions outs"
    by (rule emissions_concat) (use own_run_outs [OF assms(1)] in blast)
  also have "\<dots> \<le> 1" by (rule calibrated.fires_at_most_once [OF assms])
  finally show ?thesis .
qed

end
