(* ===== verification/RealStore.thy ===== *)
theory RealStore
  imports Float64
begin

text \<open>
  The tables behind the first version's live trading: orders, the liquidity pool and positions
  (\<open>internal/store/types.go\<close>), the pool operations (\<open>internal/liquiditypool/liquiditypool.go\<close>) and the
  order operations (\<open>internal/store/orders.go\<close>). Sizes and prices are binary64 values, cents are 64-bit
  integers: arithmetic done in Go wraps around, arithmetic done in SQL fails when it leaves the range.
  Every operation takes whether its database call fails; then it changes nothing.
\<close>

section \<open>Rows\<close>

record Order =
  or_ID :: int
  or_TS :: int
  or_MatchTicker :: string
  or_MarketTicker :: string
  or_MatchTitle :: string
  or_PlayerName :: string
  or_Action :: string
  or_Side :: string
  or_Context :: string
  or_ConvProb :: float64
  or_MarketPrice :: float64
  or_FillPrice :: float64
  or_EdgeCents :: int
  or_SuggestedSize :: float64
  or_SetNumber :: int
  or_Strategy :: string
  or_Payload :: string
  or_Bankroll :: float64
  or_KellyFraction :: float64
  or_IsReal :: bool
  or_KalshiOrderID :: string
  or_FillCount :: float64
  or_OrderStatus :: string
  or_ResolvedPNLCents :: int
  or_PoolBalanceBeforeCents :: int
  or_PoolBalanceAfterCents :: int
  or_UnfilledRefundedCents :: int
  or_PositionID :: "int option"
  or_PairID :: string
  or_Result :: string
  or_SettledTS :: int
  or_PnLUpdatedTS :: int
  or_EmitTS :: int

record LiquidityPool =
  lp_BalanceCents :: int
  lp_InitialBalanceCents :: int
  lp_TotalSpentCents :: int
  lp_TotalPNLCents :: int
  lp_UpdatedTS :: int

record Position =
  po_ID :: int
  po_MatchTicker :: string
  po_MarketTicker :: string
  po_Strategy :: string
  po_IsReal :: bool
  po_Action :: string
  po_FilledBuyCount :: float64
  po_FilledSellCount :: float64
  po_AvgEntryPrice :: float64
  po_AvgExitPrice :: float64
  po_RealizedPNLCents :: int
  po_Status :: string
  po_OpenedTS :: int
  po_ClosedTS :: int

definition OrderSideOpen :: string where [simp]: "OrderSideOpen = ''open''"
definition OrderSideClose :: string where [simp]: "OrderSideClose = ''close''"
definition PositionStatusOpen :: string where [simp]: "PositionStatusOpen = ''open''"
definition PositionStatusClosed :: string where [simp]: "PositionStatusClosed = ''closed''"
definition PositionStatusSettled :: string where [simp]: "PositionStatusSettled = ''settled''"

text \<open>The pool is the row with id 1, if there is one.\<close>

record real_db =
  rd_orders :: "Order list"
  rd_nextOrder :: int
  rd_pool :: "LiquidityPool option"
  rd_positions :: "Position list"
  rd_nextPosition :: int

definition fpos :: "float64 \<Rightarrow> bool" where
  "fpos x \<longleftrightarrow> flt (Fin 0) x"

section \<open>The liquidity pool\<close>

definition Pool_Get :: "bool \<Rightarrow> real_db \<Rightarrow> string + LiquidityPool" where
  "Pool_Get fails db =
     (if fails then Inl ''liquidity pool not initialized''
      else (case rd_pool db of None \<Rightarrow> Inl ''liquidity pool not initialized'' | Some lp \<Rightarrow> Inr lp))"

definition Pool_Init :: "bool \<Rightarrow> int \<Rightarrow> int \<Rightarrow> real_db \<Rightarrow> real_db \<times> string option" where
  "Pool_Init fails now initialBalanceCents db =
     (if fails then (db, Some ''db'')
      else
        (case rd_pool db of
           Some _ \<Rightarrow> (db, None)
         | None \<Rightarrow>
             (db\<lparr>rd_pool := Some \<lparr>lp_BalanceCents = initialBalanceCents, lp_InitialBalanceCents = initialBalanceCents,
                lp_TotalSpentCents = 0, lp_TotalPNLCents = 0, lp_UpdatedTS = now\<rparr>\<rparr>, None)))"

definition Pool_Reset :: "bool \<Rightarrow> int \<Rightarrow> int \<Rightarrow> real_db \<Rightarrow> real_db \<times> string option" where
  "Pool_Reset fails now initialBalanceCents db =
     (if fails then (db, Some ''db'')
      else
        (db\<lparr>rd_pool := map_option (\<lambda>lp. lp\<lparr>lp_BalanceCents := initialBalanceCents,
           lp_InitialBalanceCents := initialBalanceCents, lp_TotalSpentCents := 0, lp_TotalPNLCents := 0,
           lp_UpdatedTS := now\<rparr>) (rd_pool db)\<rparr>, None))"

text \<open>An \<open>UPDATE\<close> of the pool row: the error, that no row matched, or the row written.\<close>

datatype pool_update = PoolError string | PoolNoRow | PoolRow LiquidityPool

definition update_pool ::
  "bool \<Rightarrow> (LiquidityPool \<Rightarrow> bool) \<Rightarrow> (LiquidityPool \<Rightarrow> LiquidityPool) \<Rightarrow> real_db \<Rightarrow> real_db \<times> pool_update" where
  "update_pool fails cond change db =
     (if fails then (db, PoolError ''db'')
      else
        (case rd_pool db of
           None \<Rightarrow> (db, PoolNoRow)
         | Some lp \<Rightarrow>
             (if \<not> cond lp then (db, PoolNoRow)
              else
                (let lp' = change lp in
                 if in_int64 (lp_BalanceCents lp') \<and> in_int64 (lp_InitialBalanceCents lp') \<and> in_int64 (lp_TotalSpentCents lp')
                 then (db\<lparr>rd_pool := Some lp'\<rparr>, PoolRow lp')
                 else (db, PoolError ''out of range'')))))"

definition Pool_TopUp :: "bool \<Rightarrow> int \<Rightarrow> int \<Rightarrow> real_db \<Rightarrow> real_db \<times> string option" where
  "Pool_TopUp fails now addCents db =
     (case update_pool fails (\<lambda>_. True)
        (\<lambda>lp. lp\<lparr>lp_BalanceCents := lp_BalanceCents lp + addCents,
           lp_InitialBalanceCents := lp_InitialBalanceCents lp + addCents, lp_UpdatedTS := now\<rparr>) db of
        (db1, PoolError e) \<Rightarrow> (db1, Some e)
      | (db1, PoolNoRow) \<Rightarrow> (db1, Some ''liquidity pool row missing'')
      | (db1, PoolRow _) \<Rightarrow> (db1, None))"

definition Pool_Deduct :: "bool \<Rightarrow> int \<Rightarrow> int \<Rightarrow> real_db \<Rightarrow> real_db \<times> (string + int)" where
  "Pool_Deduct fails now spendCents db =
     (case update_pool fails (\<lambda>lp. lp_BalanceCents lp \<ge> spendCents)
        (\<lambda>lp. lp\<lparr>lp_BalanceCents := lp_BalanceCents lp - spendCents,
           lp_TotalSpentCents := lp_TotalSpentCents lp + spendCents, lp_UpdatedTS := now\<rparr>) db of
        (db1, PoolError e) \<Rightarrow> (db1, Inl e)
      | (db1, PoolNoRow) \<Rightarrow> (db1, Inl ''insufficient liquidity pool balance'')
      | (db1, PoolRow lp) \<Rightarrow> (db1, Inr (lp_BalanceCents lp)))"

text \<open>\<open>MAX\<close> with two arguments is no PostgreSQL function: the statement of \<open>Refund\<close> always fails.\<close>

definition Pool_Refund :: "bool \<Rightarrow> int \<Rightarrow> int \<Rightarrow> real_db \<Rightarrow> real_db \<times> (string + int)" where
  "Pool_Refund fails now refundCents db = (db, Inl ''function max(bigint, integer) does not exist'')"

definition Pool_Credit :: "bool \<Rightarrow> int \<Rightarrow> int \<Rightarrow> real_db \<Rightarrow> real_db \<times> (string + int)" where
  "Pool_Credit fails now proceedsCents db =
     (case update_pool fails (\<lambda>_. True)
        (\<lambda>lp. lp\<lparr>lp_BalanceCents := lp_BalanceCents lp + proceedsCents, lp_UpdatedTS := now\<rparr>) db of
        (db1, PoolError e) \<Rightarrow> (db1, Inl e)
      | (db1, PoolNoRow) \<Rightarrow> (db1, Inl ''liquidity pool row missing'')
      | (db1, PoolRow lp) \<Rightarrow> (db1, Inr (lp_BalanceCents lp)))"

section \<open>Orders\<close>

definition find_order :: "int \<Rightarrow> real_db \<Rightarrow> Order option" where
  "find_order i db = find (\<lambda>o'. or_ID o' = i) (rd_orders db)"

definition change_order :: "int \<Rightarrow> (Order \<Rightarrow> Order) \<Rightarrow> real_db \<Rightarrow> real_db" where
  "change_order i f db = db\<lparr>rd_orders := map (\<lambda>o'. if or_ID o' = i then f o' else o') (rd_orders db)\<rparr>"

definition InsertRealOrder :: "bool \<Rightarrow> Order \<Rightarrow> real_db \<Rightarrow> real_db \<times> (string + int)" where
  "InsertRealOrder fails ord db =
     (if fails then (db, Inl ''db'')
      else
        (let i = (if or_ID ord = 0 then rd_nextOrder db else or_ID ord);
             db1 = (if or_ID ord = 0 then db\<lparr>rd_nextOrder := rd_nextOrder db + 1\<rparr> else db) in
         if find_order i db \<noteq> None then (db1, Inl ''duplicate key'')
         else (db1\<lparr>rd_orders := rd_orders db @ [ord\<lparr>or_ID := i, or_IsReal := True\<rparr>]\<rparr>, Inr i)))"

definition appendContextReason :: "string \<Rightarrow> string \<Rightarrow> string" where
  "appendContextReason existing reason =
     (if existing = [] then ''reason: '' @ reason else existing @ '' | reason: '' @ reason)"

text \<open>\<open>int64(size * price * 100)\<close> in float64.\<close>

definition cents_of :: "float64 \<Rightarrow> float64 \<Rightarrow> int" where
  "cents_of count price = to_int64 (fmul (fmul count price) (Fin 100))"

text \<open>
  \<open>refundUnfilled\<close>: the refunded cents and the new balance (both 0 when nothing is due), with the row
  read so far carrying the sum refunded; a missing pool row scans a balance of 0.
\<close>

definition unfilled_cents :: "Order \<Rightarrow> float64 \<Rightarrow> int" where
  "unfilled_cents ord fillCount =
     (let total = cents_of (fsub (or_SuggestedSize ord) fillCount) (or_MarketPrice ord) in
      if total < 0 then 0 else total)"

definition refundUnfilled ::
  "int \<Rightarrow> Order \<Rightarrow> float64 \<Rightarrow> real_db \<Rightarrow> string + real_db \<times> Order \<times> int \<times> int" where
  "refundUnfilled now ord fillCount db =
     (let remainingRefund = wrap64 (unfilled_cents ord fillCount - or_UnfilledRefundedCents ord) in
      if remainingRefund \<le> 0 then Inr (db, ord, 0, 0)
      else
        (case update_pool False (\<lambda>_. True)
           (\<lambda>lp. lp\<lparr>lp_BalanceCents := lp_BalanceCents lp + remainingRefund,
              lp_TotalSpentCents := max (lp_TotalSpentCents lp - remainingRefund) 0, lp_UpdatedTS := now\<rparr>) db of
           (_, PoolError e) \<Rightarrow> Inl e
         | (db1, u) \<Rightarrow>
             (let ord1 = ord\<lparr>or_UnfilledRefundedCents := wrap64 (or_UnfilledRefundedCents ord + remainingRefund)\<rparr>;
                  newBalance = (case u of PoolRow lp \<Rightarrow> lp_BalanceCents lp | _ \<Rightarrow> 0) in
              Inr (db1, ord1, remainingRefund, newBalance))))"

text \<open>The columns a refund records.\<close>

definition record_refund :: "Order \<Rightarrow> int \<Rightarrow> int \<Rightarrow> Order \<Rightarrow> Order" where
  "record_refund ord refunded newBalance row =
     (let row1 = row\<lparr>or_UnfilledRefundedCents := or_UnfilledRefundedCents ord\<rparr> in
      if refunded > 0
      then row1\<lparr>or_PoolBalanceBeforeCents := wrap64 (newBalance - refunded), or_PoolBalanceAfterCents := newBalance\<rparr>
      else row1)"

text \<open>
  \<open>reconcileFillPrice\<close>: the pool moves by the gap between the cost at the fill price and at the
  signal price, never below zero; the columns of the row to write are a function of the row.
\<close>

definition fill_gap :: "Order \<Rightarrow> float64 \<Rightarrow> float64 \<Rightarrow> int" where
  "fill_gap ord fillCount fillPrice =
     wrap64 (cents_of fillCount fillPrice - cents_of fillCount (or_MarketPrice ord))"

definition gap_update :: "int \<Rightarrow> bool \<Rightarrow> int \<Rightarrow> LiquidityPool \<Rightarrow> LiquidityPool" where
  "gap_update now is_sell diff lp =
     (if is_sell then
        (if diff > 0 then lp\<lparr>lp_BalanceCents := lp_BalanceCents lp + diff, lp_UpdatedTS := now\<rparr>
         else lp\<lparr>lp_BalanceCents := max (lp_BalanceCents lp - wrap64 (- diff)) 0, lp_UpdatedTS := now\<rparr>)
      else
        (if diff > 0 then
           lp\<lparr>lp_BalanceCents := max (lp_BalanceCents lp - diff) 0,
              lp_TotalSpentCents := lp_TotalSpentCents lp + diff, lp_UpdatedTS := now\<rparr>
         else
           lp\<lparr>lp_BalanceCents := lp_BalanceCents lp + wrap64 (- diff),
              lp_TotalSpentCents := max (lp_TotalSpentCents lp - wrap64 (- diff)) 0, lp_UpdatedTS := now\<rparr>))"

definition gap_note :: "bool \<Rightarrow> int \<Rightarrow> int \<Rightarrow> Order \<Rightarrow> Order \<Rightarrow> Order" where
  "gap_note is_sell diff newBalance ord row =
     (if newBalance = 0 \<and> is_sell \<and> diff \<le> 0
      then row\<lparr>or_Context := appendContextReason (or_Context ord)
              (''sell_reconcile_clamped: debit='' @ show_int (wrap64 (- diff)) @ '' cents, pool hit 0'')\<rparr>
      else if newBalance = 0 \<and> \<not> is_sell \<and> diff > 0
      then row\<lparr>or_Context := appendContextReason (or_Context ord)
              (''buy_reconcile_clamped: debit='' @ show_int diff @ '' cents, pool hit 0'')\<rparr>
      else row)"

definition reconcileFillPrice ::
  "int \<Rightarrow> Order \<Rightarrow> float64 \<Rightarrow> float64 \<Rightarrow> real_db \<Rightarrow> string + real_db \<times> (Order \<Rightarrow> Order)" where
  "reconcileFillPrice now ord fillCount fillPrice db =
     (if fpos (or_FillPrice ord) then Inr (db, id)
      else
        (let diff = fill_gap ord fillCount fillPrice; is_sell = (or_Action ord = ''sell'') in
         if diff = 0 then Inr (db, id)
         else
           (case update_pool False (\<lambda>_. True) (gap_update now is_sell diff) db of
              (_, PoolError e) \<Rightarrow> Inl e
            | (db1, u) \<Rightarrow>
                (let newBalance = (case u of PoolRow lp \<Rightarrow> lp_BalanceCents lp | _ \<Rightarrow> 0) in
                 Inr (db1, \<lambda>row. gap_note is_sell diff newBalance ord
                   row\<lparr>or_PoolBalanceBeforeCents := wrap64 (newBalance - diff), or_PoolBalanceAfterCents := newBalance\<rparr>)))))"

text \<open>The reconciliation both update operations run when there is a fill price.\<close>

definition maybe_reconcile ::
  "int \<Rightarrow> Order \<Rightarrow> float64 \<Rightarrow> float64 \<Rightarrow> string \<Rightarrow> real_db \<Rightarrow> string + real_db \<times> (Order \<Rightarrow> Order)" where
  "maybe_reconcile now ord fillCount fillPrice status db =
     (if fpos fillPrice \<and> fpos fillCount \<and> status \<noteq> ''canceled'' \<and> status \<noteq> ''unverified''
      then reconcileFillPrice now ord fillCount fillPrice db
      else Inr (db, id))"

definition fill_columns :: "string \<Rightarrow> float64 \<Rightarrow> float64 \<Rightarrow> string \<Rightarrow> Order \<Rightarrow> Order \<Rightarrow> Order" where
  "fill_columns status fillCount fillPrice reason ord row =
     (let row1 = row\<lparr>or_FillCount := fillCount, or_OrderStatus := status\<rparr>;
          row2 = (if fpos fillPrice then row1\<lparr>or_FillPrice := fillPrice\<rparr> else row1) in
      if status = ''canceled'' \<and> reason \<noteq> []
      then row2\<lparr>or_Context := appendContextReason (or_Context ord) reason\<rparr> else row2)"

definition UpdateRealOrder ::
  "bool \<Rightarrow> int \<Rightarrow> int \<Rightarrow> string \<Rightarrow> float64 \<Rightarrow> float64 \<Rightarrow> string \<Rightarrow> string \<Rightarrow> real_db \<Rightarrow> real_db \<times> string option" where
  "UpdateRealOrder fails now orderID kalshiOrderID fillCount fillPrice status reason db =
     (if fails then (db, Some ''db'')
      else
        (case find_order orderID db of
           None \<Rightarrow> (db, Some ''record not found'')
         | Some ord \<Rightarrow>
             (case (if or_Action ord \<noteq> ''sell'' then refundUnfilled now ord fillCount db else Inr (db, ord, 0, 0)) of
                Inl e \<Rightarrow> (db, Some e)
              | Inr (db1, ord1, refunded, newBalance) \<Rightarrow>
                  (case maybe_reconcile now ord1 fillCount fillPrice status db1 of
                     Inl e \<Rightarrow> (db, Some e)
                   | Inr (db2, cols) \<Rightarrow>
                       (change_order orderID
                          (\<lambda>row.
                             let row1 = fill_columns status fillCount fillPrice reason ord
                                   (row\<lparr>or_IsReal := True, or_KalshiOrderID := kalshiOrderID\<rparr>);
                                 row2 = (if or_Action ord \<noteq> ''sell'' then record_refund ord1 refunded newBalance row1 else row1) in
                             cols row2) db2, None)))))"

definition terminal_status :: "string \<Rightarrow> bool" where
  "terminal_status s \<longleftrightarrow> s = ''failed'' \<or> s = ''canceled'' \<or> s = ''resolved''"

definition markRealOrderFailed :: "bool \<Rightarrow> int \<Rightarrow> int \<Rightarrow> string \<Rightarrow> bool \<Rightarrow> real_db \<Rightarrow> real_db \<times> string option" where
  "markRealOrderFailed fails now orderID reason refund db =
     (if fails then (db, Some ''db'')
      else
        (case find_order orderID db of
           None \<Rightarrow> (db, Some ''record not found'')
         | Some ord \<Rightarrow>
             (if terminal_status (or_OrderStatus ord) then (db, None)
              else
                (case (if refund then refundUnfilled now ord (Fin 0) db else Inr (db, ord, 0, 0)) of
                   Inl e \<Rightarrow> (db, Some e)
                 | Inr (db1, ord1, refunded, newBalance) \<Rightarrow>
                     (change_order orderID
                        (\<lambda>row.
                           let row1 = row\<lparr>or_IsReal := True, or_OrderStatus := ''failed''\<rparr>;
                               row2 = (if reason \<noteq> [] then row1\<lparr>or_Context := appendContextReason (or_Context ord) reason\<rparr> else row1) in
                           if refund then record_refund ord1 refunded newBalance row2 else row2) db1, None)))))"

definition MarkRealOrderFailed :: "bool \<Rightarrow> int \<Rightarrow> int \<Rightarrow> string \<Rightarrow> real_db \<Rightarrow> real_db \<times> string option" where
  "MarkRealOrderFailed fails now orderID reason = markRealOrderFailed fails now orderID reason True"

definition MarkRealOrderFailedNoRefund :: "bool \<Rightarrow> int \<Rightarrow> int \<Rightarrow> string \<Rightarrow> real_db \<Rightarrow> real_db \<times> string option" where
  "MarkRealOrderFailedNoRefund fails now orderID reason = markRealOrderFailed fails now orderID reason False"

definition UpdateRealOrderStatus ::
  "bool \<Rightarrow> int \<Rightarrow> int \<Rightarrow> float64 \<Rightarrow> float64 \<Rightarrow> string \<Rightarrow> string \<Rightarrow> real_db \<Rightarrow> real_db \<times> string option" where
  "UpdateRealOrderStatus fails now orderID fillCount fillPrice status reason db =
     (if fails then (db, Some ''db'')
      else
        (case find_order orderID db of
           None \<Rightarrow> (db, Some ''record not found'')
         | Some ord \<Rightarrow>
             (if terminal_status (or_OrderStatus ord) then (db, None)
              else
                (let cancels = (status = ''canceled'' \<and> or_Action ord \<noteq> ''sell'') in
                 case (if cancels then refundUnfilled now ord fillCount db else Inr (db, ord, 0, 0)) of
                   Inl e \<Rightarrow> (db, Some e)
                 | Inr (db1, ord1, refunded, newBalance) \<Rightarrow>
                     (case maybe_reconcile now ord1 fillCount fillPrice status db1 of
                        Inl e \<Rightarrow> (db, Some e)
                      | Inr (db2, cols) \<Rightarrow>
                          (change_order orderID
                             (\<lambda>row.
                                let row1 = fill_columns status fillCount fillPrice reason ord row;
                                    row2 = (if cancels then record_refund ord1 refunded newBalance row1 else row1) in
                                cols row2) db2, None))))))"

text \<open>Queries.\<close>

definition GetOrders :: "real_db \<Rightarrow> Order list" where
  "GetOrders db = sort_key or_TS (rd_orders db)"

definition GetRealOrdersRange :: "int \<Rightarrow> int \<Rightarrow> real_db \<Rightarrow> Order list" where
  "GetRealOrdersRange fromTS toTS db =
     rev (sort_key or_TS (filter (\<lambda>o'. or_IsReal o' \<and> (fromTS > 0 \<longrightarrow> or_TS o' \<ge> fromTS) \<and> (toTS > 0 \<longrightarrow> or_TS o' \<le> toTS))
       (rd_orders db)))"

definition CountRealOrdersByMarketStrategy :: "string \<Rightarrow> string \<Rightarrow> real_db \<Rightarrow> int" where
  "CountRealOrdersByMarketStrategy marketTicker strategy db =
     int (length (filter (\<lambda>o'. or_IsReal o' \<and> or_MarketTicker o' = marketTicker \<and> or_Strategy o' = strategy \<and>
       fpos (or_FillCount o')) (rd_orders db)))"

definition GetUnresolvedRealOrders :: "real_db \<Rightarrow> Order list" where
  "GetUnresolvedRealOrders db =
     filter (\<lambda>o'. or_IsReal o' \<and> or_KalshiOrderID o' \<noteq> [] \<and> \<not> terminal_status (or_OrderStatus o')) (rd_orders db)"

section \<open>Settlement\<close>

text \<open>One order of a settled market: the cents that go to the pool, the refund in them, and the
  profit recorded.\<close>

definition order_won :: "string \<Rightarrow> Order \<Rightarrow> bool" where
  "order_won result po = (if or_Action po = ''buy_no'' then result = ''no'' else result = ''yes'')"

definition settle_refund :: "Order \<Rightarrow> int" where
  "settle_refund po =
     (let unfilled = wrap64 (unfilled_cents po (or_FillCount po) - or_UnfilledRefundedCents po) in
      if unfilled < 0 then 0 else unfilled)"

definition settle_payout :: "string \<Rightarrow> Order \<Rightarrow> int" where
  "settle_payout result po =
     (if fpos (or_FillCount po) \<and> order_won result po then to_int64 (fmul (or_FillCount po) (Fin 100)) else 0)"

definition settle_pnl :: "string \<Rightarrow> Order \<Rightarrow> int" where
  "settle_pnl result po =
     (let costPrice = (if or_FillPrice po = Fin 0 then or_MarketPrice po else or_FillPrice po);
          cost = cents_of (or_FillCount po) costPrice in
      if fpos (or_FillCount po) \<and> order_won result po then wrap64 (settle_payout result po - cost)
      else if fpos (or_FillCount po) then wrap64 (- cost)
      else 0)"

definition settles :: "string \<Rightarrow> Order \<Rightarrow> bool" where
  "settles marketTicker po \<longleftrightarrow>
     or_IsReal po \<and> or_MarketTicker po = marketTicker \<and> or_OrderStatus po \<in> {''submitted'', ''filled'', ''partial''}"

fun resolve_loop :: "string \<Rightarrow> Order list \<Rightarrow> int \<times> Order list \<Rightarrow> int \<times> Order list" where
  "resolve_loop result [] (balance, rows) = (balance, rows)"
| "resolve_loop result (po # pos) (balance, rows) =
     (let refund = settle_refund po;
          after = wrap64 (balance + wrap64 (refund + settle_payout result po));
          upd = (\<lambda>row. if or_ID row = or_ID po
                  then row\<lparr>or_OrderStatus := ''resolved'', or_ResolvedPNLCents := settle_pnl result po,
                         or_UnfilledRefundedCents := wrap64 (or_UnfilledRefundedCents po + refund),
                         or_PoolBalanceBeforeCents := balance, or_PoolBalanceAfterCents := after\<rparr>
                  else row) in
      resolve_loop result pos (after, map upd rows))"

definition total_resolved_pnl :: "Order list \<Rightarrow> int" where
  "total_resolved_pnl rows =
     sum_list (map or_ResolvedPNLCents (filter (\<lambda>o'. or_IsReal o' \<and> or_OrderStatus o' = ''resolved'') rows))"

definition ResolveRealOrders :: "bool \<Rightarrow> int \<Rightarrow> string \<Rightarrow> string \<Rightarrow> real_db \<Rightarrow> real_db \<times> string option" where
  "ResolveRealOrders fails now marketTicker result db =
     (if fails then (db, Some ''db'')
      else
        (let pending = filter (settles marketTicker) (rd_orders db) in
         if pending = [] then (db, None)
         else
           (case rd_pool db of
              None \<Rightarrow> (db, Some ''resolve: read liquidity pool'')
            | Some lp \<Rightarrow>
                (let (balance, rows) = resolve_loop result pending (lp_BalanceCents lp, rd_orders db) in
                 if \<not> in_int64 (total_resolved_pnl rows) then (db, Some ''out of range'')
                 else
                   (db\<lparr>rd_orders := rows,
                       rd_pool := Some (lp\<lparr>lp_BalanceCents := balance, lp_UpdatedTS := now,
                         lp_TotalPNLCents := total_resolved_pnl rows\<rparr>)\<rparr>, None)))))"

text \<open>
  Paper orders are settled as if filled at the suggested size, by one SQL statement: a cast of a
  double to \<open>INTEGER\<close> rounds to nearest, ties to even, and fails outside 32 bits.
\<close>

definition int4 :: "int \<Rightarrow> int option" where
  "int4 n = (if - (2 ^ 31) \<le> n \<and> n < 2 ^ 31 then Some n else None)"

fun cast_int4 :: "float64 \<Rightarrow> int option" where
  "cast_int4 (Fin x) = int4 (round_half_even x)"
| "cast_int4 _ = None"

definition simulated_pnl :: "string \<Rightarrow> Order \<Rightarrow> int option" where
  "simulated_pnl result ord =
     Option.bind (cast_int4 (fmul (fmul (or_SuggestedSize ord) (or_MarketPrice ord)) (Fin 100))) (\<lambda>cost.
       if order_won result ord
       then Option.bind (cast_int4 (fmul (or_SuggestedSize ord) (Fin 100))) (\<lambda>gross. int4 (gross - cost))
       else int4 (- cost))"

definition settles_simulated :: "string \<Rightarrow> Order \<Rightarrow> bool" where
  "settles_simulated marketTicker ord \<longleftrightarrow>
     \<not> or_IsReal ord \<and> or_MarketTicker ord = marketTicker \<and> \<not> terminal_status (or_OrderStatus ord)"

definition ResolveSimulatedOrders :: "bool \<Rightarrow> string \<Rightarrow> string \<Rightarrow> real_db \<Rightarrow> real_db \<times> string option" where
  "ResolveSimulatedOrders fails marketTicker result db =
     (if fails then (db, Some ''db'')
      else if list_all (\<lambda>o'. settles_simulated marketTicker o' \<longrightarrow> simulated_pnl result o' \<noteq> None) (rd_orders db)
      then
        (db\<lparr>rd_orders := map (\<lambda>o'. if settles_simulated marketTicker o'
            then o'\<lparr>or_OrderStatus := ''resolved'',
                   or_ResolvedPNLCents := (case simulated_pnl result o' of None \<Rightarrow> 0 | Some n \<Rightarrow> n)\<rparr>
            else o') (rd_orders db)\<rparr>, None)
      else (db, Some ''integer out of range''))"

definition DenormalizeResultToOrders :: "bool \<Rightarrow> string \<Rightarrow> string \<Rightarrow> int \<Rightarrow> real_db \<Rightarrow> real_db \<times> string option" where
  "DenormalizeResultToOrders fails marketTicker result settledTS db =
     (if result = [] then (db, None)
      else if fails then (db, Some ''db'')
      else
        (db\<lparr>rd_orders := map (\<lambda>o'. if or_MarketTicker o' = marketTicker \<and> or_Result o' = []
            then o'\<lparr>or_Result := result, or_SettledTS := settledTS\<rparr> else o') (rd_orders db)\<rparr>, None))"

text \<open>The daily clean-up keeps the first of the paper orders that agree in the five columns.\<close>

definition dup_key :: "Order \<Rightarrow> int \<times> string \<times> string \<times> float64 \<times> float64" where
  "dup_key o' = (or_TS o', or_Action o', or_Strategy o', or_SuggestedSize o', or_MarketPrice o')"

definition is_duplicate :: "Order list \<Rightarrow> Order \<Rightarrow> bool" where
  "is_duplicate rows o' \<longleftrightarrow>
     \<not> or_IsReal o' \<and> (\<exists>p \<in> set rows. \<not> or_IsReal p \<and> or_ID p < or_ID o' \<and> dup_key p = dup_key o')"

definition DropDuplicatePaperOrders :: "bool \<Rightarrow> real_db \<Rightarrow> real_db \<times> (string + int)" where
  "DropDuplicatePaperOrders fails db =
     (if fails then (db, Inl ''db'')
      else
        (let keep = filter (\<lambda>o'. \<not> is_duplicate (rd_orders db) o') (rd_orders db) in
         (db\<lparr>rd_orders := keep\<rparr>, Inr (int (length (rd_orders db)) - int (length keep)))))"

lemma find_snoc: "find P (xs @ [x]) = (case find P xs of None \<Rightarrow> if P x then Some x else None | Some y \<Rightarrow> Some y)"
  by (induction xs) auto

end
