(* ===== verification/RealMoney.thy ===== *)
theory RealMoney
  imports RealStore
begin

text \<open>
  What the order and pool operations of \<open>RealStore\<close> do to the money: products of a count and a price
  in float64 are at most a cent off, refunds are never repeated, finished orders stay finished, the
  pool never goes below zero, and settlement pays what the orders call for.
\<close>

section \<open>Cents computed in floating point\<close>

definition cent_price :: "int \<Rightarrow> float64" where
  "cent_price c = flit (of_int c / 100)"

definition whole :: "int \<Rightarrow> float64" where
  "whole n = Fin (of_int n)"

definition ulp1 :: rat where "ulp1 = 1 / 2 ^ 53"

lemma rnd_rel:
  assumes "1 / 1000 \<le> x"
  shows "x * (1 - ulp1) \<le> rnd x" "rnd x \<le> x * (1 + ulp1)"
proof -
  have "(2 :: rat) powi (-1022) \<le> 2 powi (-10)" by (simp only: powi_le_iff)
  also have "\<dots> \<le> 1 / 1000" by (simp add: power_int_def power_divide)
  finally have "2 powi (-1022) \<le> \<bar>x\<bar>" using assms by linarith
  then have "\<bar>rnd x - x\<bar> \<le> \<bar>x\<bar> * 2 powi (-53)" by (rule rnd_rel_error)
  also have "\<dots> = x * ulp1" using assms by (simp add: power_int_def power_divide ulp1_def)
  finally show "x * (1 - ulp1) \<le> rnd x" "rnd x \<le> x * (1 + ulp1)" by (simp_all add: algebra_simps abs_le_iff)
qed

text \<open>A whole number of contracts at a whole number of cents: the product is exact or a cent short.\<close>

lemma cents_of_whole:
  assumes n: "0 \<le> n" "n \<le> 10 ^ 6" and c: "0 \<le> c" "c \<le> 10 ^ 4"
  shows "cents_of (whole n) (cent_price c) = n * c \<or> cents_of (whole n) (cent_price c) = n * c - 1"
proof (cases "n = 0 \<or> c = 0")
  case True
  have "cent_price 0 = Fin 0" by (simp add: cent_price_def flit_def fround_small rnd_0)
  moreover have "fround 0 = Fin 0" by (simp add: fround_small rnd_0)
  moreover have "\<exists>q. cent_price c = Fin q"
  proof -
    have "(of_int c :: rat) \<le> of_int (10 ^ 4)" "(0 :: rat) \<le> of_int c" using c by (simp_all only: of_int_le_iff of_int_0_le_iff)
    then have "\<bar>of_int c / 100 :: rat\<bar> \<le> 2 ^ 64" by simp
    then show ?thesis by (auto simp: cent_price_def flit_def fround_small)
  qed
  ultimately show ?thesis using True by (auto simp: cents_of_def whole_def trunc_rat_def int64_bounds)
next
  case False
  then have n1: "1 \<le> n" and c1: "1 \<le> c" using n c by auto
  define N C :: rat where "N = of_int n" and "C = of_int c"
  have N: "1 \<le> N" "N \<le> 10 ^ 6" and C: "1 \<le> C" "C \<le> 10 ^ 4"
  proof -
    show "1 \<le> N" "1 \<le> C" using n1 c1 by (simp_all add: N_def C_def)
    have "(of_int n :: rat) \<le> of_int (10 ^ 6)" "(of_int c :: rat) \<le> of_int (10 ^ 4)"
      using n c by (simp_all only: of_int_le_iff)
    then show "N \<le> 10 ^ 6" "C \<le> 10 ^ 4" by (simp_all add: N_def C_def)
  qed
  have u: "0 < ulp1" "ulp1 \<le> 1 / 10 ^ 15" by (simp_all add: ulp1_def)
  define p where "p = rnd (C / 100)"
  have p: "C / 100 * (1 - ulp1) \<le> p" "p \<le> C / 100 * (1 + ulp1)" using rnd_rel [of "C / 100"] C by (simp_all add: p_def)
  have plo: "1 / 200 \<le> p"
  proof -
    have "1 / 200 \<le> 1 / 100 * (1 - ulp1)" using u by simp
    also have "\<dots> \<le> C / 100 * (1 - ulp1)" using C u by (intro mult_right_mono) auto
    finally show ?thesis using p by linarith
  qed
  define x where "x = rnd (N * p)"
  have np: "1 / 200 \<le> N * p" using N plo mult_mono [of 1 N "1 / 200" p] by simp
  then have x: "N * p * (1 - ulp1) \<le> x" "x \<le> N * p * (1 + ulp1)" using rnd_rel [of "N * p"] by (simp_all add: x_def)
  have xlo: "1 / 500 \<le> x"
  proof -
    have "1 / 500 \<le> 1 / 200 * (1 - ulp1)" using u by simp
    also have "\<dots> \<le> N * p * (1 - ulp1)" using np u by (intro mult_right_mono) auto
    finally show ?thesis using x by linarith
  qed
  define y where "y = rnd (x * 100)"
  have y: "x * 100 * (1 - ulp1) \<le> y" "y \<le> x * 100 * (1 + ulp1)" using rnd_rel [of "x * 100"] xlo by (simp_all add: y_def)
  have NC: "1 \<le> N * C" "N * C \<le> 10 ^ 10"
    using N C mult_mono [of 1 N 1 C] mult_mono [of N "10 ^ 6" C "10 ^ 4"] by simp_all
  have up: "y \<le> N * C * (1 + ulp1) ^ 3"
  proof -
    have "x * 100 * (1 + ulp1) \<le> N * p * (1 + ulp1) * 100 * (1 + ulp1)" using x u by (intro mult_right_mono) auto
    also have "\<dots> \<le> N * (C / 100 * (1 + ulp1)) * (1 + ulp1) * 100 * (1 + ulp1)"
      using p N u by (intro mult_right_mono mult_left_mono) auto
    also have "\<dots> = N * C * (1 + ulp1) ^ 3" by (simp add: power3_eq_cube)
    finally show ?thesis using y by linarith
  qed
  have lo: "N * C * (1 - ulp1) ^ 3 \<le> y"
  proof -
    have "N * C * (1 - ulp1) ^ 3 = N * (C / 100 * (1 - ulp1)) * (1 - ulp1) * 100 * (1 - ulp1)" by (simp add: power3_eq_cube)
    also have "\<dots> \<le> N * p * (1 - ulp1) * 100 * (1 - ulp1)" using p N u by (intro mult_right_mono mult_left_mono) auto
    also have "\<dots> \<le> x * 100 * (1 - ulp1)" using x u by (intro mult_right_mono) auto
    finally show ?thesis using y by linarith
  qed
  have "(1 + ulp1) ^ 3 \<le> 1 + 1 / 10 ^ 12" "1 - 1 / 10 ^ 12 \<le> (1 - ulp1) ^ 3" by (simp_all add: ulp1_def power3_eq_cube)
  then have "N * C * (1 + ulp1) ^ 3 \<le> N * C * (1 + 1 / 10 ^ 12)" "N * C * (1 - 1 / 10 ^ 12) \<le> N * C * (1 - ulp1) ^ 3"
    using NC by (simp_all only: mult_left_mono order_trans [OF zero_le_one NC(1)])
  then have y1: "N * C - 1 < y" "y < N * C + 1" using up lo NC by (simp_all add: algebra_simps)
  have int: "N * C = of_int (n * c)" by (simp add: N_def C_def)
  then have fl: "\<lfloor>y\<rfloor> = n * c \<or> \<lfloor>y\<rfloor> = n * c - 1" using y1 by linarith
  have small: "\<bar>C / 100\<bar> \<le> 2 ^ 64" "\<bar>N * p\<bar> \<le> 2 ^ 64" "\<bar>x * 100\<bar> \<le> 2 ^ 64"
  proof -
    show "\<bar>C / 100\<bar> \<le> 2 ^ 64" using C by simp
    have "C / 100 * (1 + ulp1) \<le> C / 100 * 2" using C u by (intro mult_left_mono) auto
    then have "p \<le> C" using p C by linarith
    then have "N * p \<le> 10 ^ 6 * 10 ^ 4" using N C plo by (intro mult_mono) auto
    then show np': "\<bar>N * p\<bar> \<le> 2 ^ 64" using np by simp
    have "x \<le> N * p * 2" using x np u mult_left_mono [of "1 + ulp1" 2 "N * p"] by simp
    with \<open>N * p \<le> 10 ^ 6 * 10 ^ 4\<close> xlo show "\<bar>x * 100\<bar> \<le> 2 ^ 64" by simp
  qed
  have "cents_of (whole n) (cent_price c) = to_int64 (Fin y)"
    using small by (simp add: cents_of_def whole_def cent_price_def flit_def fround_small
        N_def [symmetric] C_def [symmetric] p_def [symmetric] x_def [symmetric] y_def [symmetric])
  moreover have "0 \<le> y" using y1 NC by linarith
  moreover have "in_int64 \<lfloor>y\<rfloor>"
  proof -
    have "n * c \<le> 10 ^ 6 * 10 ^ 4" using n c by (intro mult_mono) auto
    then have "n * c \<le> 10 ^ 10" by simp
    moreover have "1 \<le> n * c" using n1 c1 mult_mono [of 1 n 1 c] by simp
    ultimately have "0 \<le> \<lfloor>y\<rfloor>" "\<lfloor>y\<rfloor> \<le> 10 ^ 10" using fl by linarith+
    moreover have "in_int64 m" if "0 \<le> m" "m \<le> 10 ^ 10" for m using that by (simp add: int64_bounds)
    ultimately show ?thesis by blast
  qed
  ultimately show ?thesis using fl by (simp add: trunc_rat_def)
qed

section \<open>Refunds\<close>

lemma cents_of_range [simp]: "in_int64 (cents_of n p)"
  by (cases "fmul (fmul n p) (Fin 100)") (simp_all add: cents_of_def int64_bounds)

lemma unfilled_cents_range: "0 \<le> unfilled_cents ord f" "in_int64 (unfilled_cents ord f)"
  using cents_of_range [of "fsub (or_SuggestedSize ord) f" "or_MarketPrice ord"]
  by (simp_all add: unfilled_cents_def Let_def int64_bounds)

lemma update_pool_row:
  "update_pool False cond change db = (db1, PoolRow lp') \<longleftrightarrow>
     (\<exists>lp. rd_pool db = Some lp \<and> cond lp \<and> lp' = change lp \<and> db1 = db\<lparr>rd_pool := Some lp'\<rparr> \<and>
        in_int64 (lp_BalanceCents lp') \<and> in_int64 (lp_InitialBalanceCents lp') \<and> in_int64 (lp_TotalSpentCents lp'))"
  by (auto simp: update_pool_def Let_def split: option.splits if_splits)

lemma update_pool_norow: "update_pool fails cond change db = (db1, PoolNoRow) \<Longrightarrow> db1 = db"
  by (auto simp: update_pool_def Let_def split: option.splits if_splits)

lemma update_pool_error: "update_pool fails cond change db = (db1, PoolError e) \<Longrightarrow> db1 = db"
  by (auto simp: update_pool_def Let_def split: option.splits if_splits)

lemma update_pool_frame: "update_pool fails cond change db = (db1, u) \<Longrightarrow>
    rd_orders db1 = rd_orders db \<and> rd_nextOrder db1 = rd_nextOrder db \<and> rd_positions db1 = rd_positions db \<and>
    rd_nextPosition db1 = rd_nextPosition db"
  by (auto simp: update_pool_def Let_def split: option.splits if_splits)

text \<open>What a refund changes: the row read holds the larger of the two sums, and the pool the difference.\<close>

definition pool_cents :: "real_db \<Rightarrow> int" where
  "pool_cents db = (case rd_pool db of None \<Rightarrow> 0 | Some lp \<Rightarrow> lp_BalanceCents lp)"

lemma refundUnfilled_ok:
  assumes "refundUnfilled now ord f db = Inr (db1, ord1, refunded, nb)" "0 \<le> or_UnfilledRefundedCents ord"
    "in_int64 (or_UnfilledRefundedCents ord)"
  shows "ord1 = ord\<lparr>or_UnfilledRefundedCents := max (or_UnfilledRefundedCents ord) (unfilled_cents ord f)\<rparr>"
    and "refunded = max 0 (unfilled_cents ord f - or_UnfilledRefundedCents ord)"
    and "rd_pool db \<noteq> None \<Longrightarrow> pool_cents db1 = pool_cents db + refunded"
    and "rd_pool db \<noteq> None \<Longrightarrow> rd_pool db1 \<noteq> None"
    and "rd_orders db1 = rd_orders db" "rd_nextOrder db1 = rd_nextOrder db"
    and "rd_positions db1 = rd_positions db" "rd_nextPosition db1 = rd_nextPosition db"
proof -
  note u = unfilled_cents_range [of ord f]
  have w: "wrap64 (unfilled_cents ord f - or_UnfilledRefundedCents ord) = unfilled_cents ord f - or_UnfilledRefundedCents ord"
    using u assms(2,3) by (intro wrap64_id) (auto simp: int64_bounds)
  have all: "ord1 = ord\<lparr>or_UnfilledRefundedCents := max (or_UnfilledRefundedCents ord) (unfilled_cents ord f)\<rparr> \<and>
    refunded = max 0 (unfilled_cents ord f - or_UnfilledRefundedCents ord) \<and>
    (rd_pool db \<noteq> None \<longrightarrow> pool_cents db1 = pool_cents db + refunded \<and> rd_pool db1 \<noteq> None) \<and>
    rd_orders db1 = rd_orders db \<and> rd_nextOrder db1 = rd_nextOrder db \<and> rd_positions db1 = rd_positions db \<and>
    rd_nextPosition db1 = rd_nextPosition db"
  proof (cases "unfilled_cents ord f \<le> or_UnfilledRefundedCents ord")
    case True
    with assms(1) show ?thesis by (auto simp: refundUnfilled_def w Let_def)
  next
    case False
    then have s: "wrap64 (or_UnfilledRefundedCents ord + (unfilled_cents ord f - or_UnfilledRefundedCents ord)) = unfilled_cents ord f"
      using u(2) by simp
    have v: "wrap64 (unfilled_cents ord f) = unfilled_cents ord f" using u(2) by simp
    show ?thesis
    proof (cases "rd_pool db")
      case None
      with False assms(1) show ?thesis by (auto simp: refundUnfilled_def w Let_def v update_pool_def)
    next
      case (Some lp)
      with False assms(1) show ?thesis
        by (auto simp: refundUnfilled_def w Let_def v update_pool_def pool_cents_def split: if_split_asm)
    qed
  qed
  from all show "ord1 = ord\<lparr>or_UnfilledRefundedCents := max (or_UnfilledRefundedCents ord) (unfilled_cents ord f)\<rparr>"
    "refunded = max 0 (unfilled_cents ord f - or_UnfilledRefundedCents ord)"
    "rd_pool db \<noteq> None \<Longrightarrow> pool_cents db1 = pool_cents db + refunded" "rd_pool db \<noteq> None \<Longrightarrow> rd_pool db1 \<noteq> None"
    "rd_orders db1 = rd_orders db" "rd_nextOrder db1 = rd_nextOrder db"
    "rd_positions db1 = rd_positions db" "rd_nextPosition db1 = rd_nextPosition db"
    by simp_all
qed

end
