(* ===== verification/Positions.thy ===== *)
theory Positions
  imports RealStore
begin

text \<open>
  The position manager of the first version (\<open>internal/positions/manager.go\<close>): one position per match,
  market, strategy and mode. Purchases raise the bought count and reweight the entry price, sales only
  close what is open, and settlement closes the rest. Each operation is one transaction.
\<close>

definition position_at :: "string \<Rightarrow> string \<Rightarrow> string \<Rightarrow> bool \<Rightarrow> Position \<Rightarrow> bool" where
  "position_at matchTicker marketTicker strategy isReal p \<longleftrightarrow>
     po_MatchTicker p = matchTicker \<and> po_MarketTicker p = marketTicker \<and> po_Strategy p = strategy \<and> po_IsReal p = isReal"

definition find_position :: "string \<Rightarrow> string \<Rightarrow> string \<Rightarrow> bool \<Rightarrow> real_db \<Rightarrow> Position option" where
  "find_position matchTicker marketTicker strategy isReal db =
     find (position_at matchTicker marketTicker strategy isReal) (rd_positions db)"

definition save_position :: "Position \<Rightarrow> real_db \<Rightarrow> real_db" where
  "save_position p db = db\<lparr>rd_positions := map (\<lambda>q. if po_ID q = po_ID p then p else q) (rd_positions db)\<rparr>"

definition fle0 :: "float64 \<Rightarrow> bool" where
  "fle0 x \<longleftrightarrow> fle x (Fin 0)"

text \<open>The weighted average of two prices.\<close>

definition reweigh :: "float64 \<Rightarrow> float64 \<Rightarrow> float64 \<Rightarrow> float64 \<Rightarrow> float64 \<Rightarrow> float64" where
  "reweigh oldCount oldAvg fillCount price newCount =
     fdiv (fadd (fmul oldCount oldAvg) (fmul fillCount price)) newCount"

definition clamp_high :: "float64 \<Rightarrow> float64" where
  "clamp_high price = (if flt (Fin 1) price then Fin 1 else price)"

definition ApplyBuy ::
  "bool \<Rightarrow> int \<Rightarrow> string \<Rightarrow> string \<Rightarrow> string \<Rightarrow> bool \<Rightarrow> float64 \<Rightarrow> float64 \<Rightarrow> real_db \<Rightarrow> real_db \<times> (string + int)" where
  "ApplyBuy fails now matchTicker marketTicker strategy isReal fillCount price0 db =
     (if fle0 fillCount then (db, Inl ''positions: buy fill_count must be positive'')
      else if flt price0 (Fin 0) then (db, Inl ''positions: buy price negative'')
      else if fails then (db, Inl ''db'')
      else
     (let price = clamp_high price0 in
      case find_position matchTicker marketTicker strategy isReal db of
        None \<Rightarrow>
          (let p = \<lparr>po_ID = rd_nextPosition db, po_MatchTicker = matchTicker, po_MarketTicker = marketTicker,
                    po_Strategy = strategy, po_IsReal = isReal, po_Action = [], po_FilledBuyCount = fillCount,
                    po_FilledSellCount = Fin 0, po_AvgEntryPrice = price, po_AvgExitPrice = Fin 0,
                    po_RealizedPNLCents = 0, po_Status = PositionStatusOpen, po_OpenedTS = now, po_ClosedTS = 0\<rparr> in
           (db\<lparr>rd_positions := rd_positions db @ [p], rd_nextPosition := rd_nextPosition db + 1\<rparr>, Inr (po_ID p)))
      | Some p \<Rightarrow>
          (if po_Status p = PositionStatusSettled then (db, Inl ''positions: cannot buy into settled position'')
           else
          (let newCount = fadd (po_FilledBuyCount p) fillCount;
               p1 = (if fpos newCount
                     then p\<lparr>po_AvgEntryPrice := reweigh (po_FilledBuyCount p) (po_AvgEntryPrice p) fillCount price newCount\<rparr>
                     else p);
               p2 = p1\<lparr>po_FilledBuyCount := newCount\<rparr>;
               p3 = (if po_Status p2 = PositionStatusClosed
                     then p2\<lparr>po_Status := PositionStatusOpen, po_ClosedTS := 0\<rparr> else p2) in
           (save_position p3 db, Inr (po_ID p3))))))"

definition ApplyBuyNO ::
  "bool \<Rightarrow> bool \<Rightarrow> int \<Rightarrow> string \<Rightarrow> string \<Rightarrow> string \<Rightarrow> bool \<Rightarrow> float64 \<Rightarrow> float64 \<Rightarrow> real_db \<Rightarrow> real_db \<times> (string + int)" where
  "ApplyBuyNO fails fails_mark now matchTicker marketTicker strategy isReal fillCount price db =
     (case ApplyBuy fails now matchTicker marketTicker strategy isReal fillCount price db of
        (db1, Inl e) \<Rightarrow> (db1, Inl e)
      | (db1, Inr i) \<Rightarrow>
          (if fails_mark then (db1, Inl ''positions: set action=buy_no'')
           else
             (db1\<lparr>rd_positions := map (\<lambda>q. if po_ID q = i then q\<lparr>po_Action := ''buy_no''\<rparr> else q) (rd_positions db1)\<rparr>,
              Inr i)))"

text \<open>The result: position, profit in cents, contracts still open.\<close>

definition clamp_unit :: "float64 \<Rightarrow> float64" where
  "clamp_unit price0 = (let price = (if flt price0 (Fin 0) then Fin 0 else price0) in clamp_high price)"

definition ApplySell ::
  "bool \<Rightarrow> int \<Rightarrow> string \<Rightarrow> string \<Rightarrow> string \<Rightarrow> bool \<Rightarrow> float64 \<Rightarrow> float64 \<Rightarrow> real_db
   \<Rightarrow> real_db \<times> (string + int \<times> int \<times> float64)" where
  "ApplySell fails now matchTicker marketTicker strategy isReal fillCount price0 db =
     (if fle0 fillCount then (db, Inl ''positions: sell fill_count must be positive'')
      else if fails then (db, Inl ''db'')
      else
     (let price = clamp_unit price0 in
      case find_position matchTicker marketTicker strategy isReal db of
        None \<Rightarrow> (db, Inl ''positions: no open position to close'')
      | Some p \<Rightarrow>
          (if po_Status p = PositionStatusSettled then (db, Inl ''positions: cannot sell settled position'')
           else
          (let openContracts = fsub (po_FilledBuyCount p) (po_FilledSellCount p) in
           if fle0 openContracts then (db, Inl ''positions: no open position to close'')
           else if flt openContracts fillCount then (db, Inl ''positions: sell count exceeds open contracts'')
           else
          (let pnl = to_int64 (fadd (fmul (fmul (fsub price (po_AvgEntryPrice p)) fillCount) (Fin 100)) (flit (1 / 2)));
               newSellCount = fadd (po_FilledSellCount p) fillCount;
               p1 = (if fpos newSellCount
                     then p\<lparr>po_AvgExitPrice := reweigh (po_FilledSellCount p) (po_AvgExitPrice p) fillCount price newSellCount\<rparr>
                     else p);
               p2 = p1\<lparr>po_FilledSellCount := newSellCount, po_RealizedPNLCents := wrap64 (po_RealizedPNLCents p + pnl)\<rparr>;
               remainingOpen = fsub (po_FilledBuyCount p) newSellCount;
               p3 = (if remainingOpen = Fin 0 then p2\<lparr>po_Status := PositionStatusClosed, po_ClosedTS := now\<rparr> else p2) in
           (save_position p3 db, Inr (po_ID p3, pnl, remainingOpen)))))))"

text \<open>Settlement; \<open>None\<close> in the result is the case without a position or with a settled one.\<close>

definition settlement_pnl :: "bool \<Rightarrow> float64 \<Rightarrow> float64 \<Rightarrow> int" where
  "settlement_pnl effectiveWon avgEntry remaining =
     (if effectiveWon
      then to_int64 (fadd (fmul (fmul (fsub (Fin 1) avgEntry) remaining) (Fin 100)) (flit (1 / 2)))
      else wrap64 (- to_int64 (fadd (fmul (fmul avgEntry remaining) (Fin 100)) (flit (1 / 2)))))"

definition Settle ::
  "bool \<Rightarrow> int \<Rightarrow> string \<Rightarrow> string \<Rightarrow> string \<Rightarrow> bool \<Rightarrow> bool \<Rightarrow> real_db \<Rightarrow> real_db \<times> (string + (int \<times> int \<times> float64) option)" where
  "Settle fails now matchTicker marketTicker strategy isReal won db =
     (if fails then (db, Inl ''db'')
      else
        (case find_position matchTicker marketTicker strategy isReal db of
           None \<Rightarrow> (db, Inr None)
         | Some p \<Rightarrow>
             (if po_Status p = PositionStatusSettled then (db, Inr None)
              else
             (let open0 = fsub (po_FilledBuyCount p) (po_FilledSellCount p);
                  remaining = (if flt open0 (Fin 0) then Fin 0 else open0);
                  effectiveWon = (if po_Action p = ''buy_no'' then \<not> won else won);
                  pnl = (if fpos remaining then settlement_pnl effectiveWon (po_AvgEntryPrice p) remaining else 0);
                  p1 = p\<lparr>po_RealizedPNLCents := wrap64 (po_RealizedPNLCents p + pnl),
                         po_Status := PositionStatusSettled, po_ClosedTS := now\<rparr> in
              (save_position p1 db, Inr (Some (po_ID p1, pnl, remaining)))))))"

definition GetOpen :: "string \<Rightarrow> real_db \<Rightarrow> Position list" where
  "GetOpen marketTicker db =
     filter (\<lambda>p. po_MarketTicker p = marketTicker \<and> po_Status p = PositionStatusOpen) (rd_positions db)"

definition GetOpenForStrategy :: "bool \<Rightarrow> string \<Rightarrow> string \<Rightarrow> bool \<Rightarrow> real_db \<Rightarrow> string + Position option" where
  "GetOpenForStrategy fails marketTicker strategy isReal db =
     (if fails then Inl ''db''
      else Inr (find (\<lambda>p. po_MarketTicker p = marketTicker \<and> po_Strategy p = strategy \<and> po_IsReal p = isReal \<and>
        po_Status p = PositionStatusOpen) (rd_positions db)))"

section \<open>Positions stay sound\<close>

text \<open>
  Positions of whole contracts, as long as no more than \<open>2 ^ 53\<close> are bought: the counts are exact, the
  sold count never exceeds the bought one, no two positions share a key or an id, a closed
  position has nothing open, and an open one has.
\<close>

definition pos_key :: "Position \<Rightarrow> string \<times> string \<times> string \<times> bool" where
  "pos_key p = (po_MatchTicker p, po_MarketTicker p, po_Strategy p, po_IsReal p)"

definition sound_position :: "int \<Rightarrow> Position \<Rightarrow> bool" where
  "sound_position V p \<longleftrightarrow>
     (\<exists>b s. po_FilledBuyCount p = Fin (of_int b) \<and> po_FilledSellCount p = Fin (of_int s) \<and> 0 \<le> s \<and> s \<le> b \<and> 1 \<le> b \<and>
        b \<le> V \<and> (po_Status p = ''closed'' \<longrightarrow> s = b) \<and> (po_Status p = ''open'' \<longrightarrow> s < b)) \<and>
     po_Status p \<in> {''open'', ''closed'', ''settled''}"

definition positions_ok :: "int \<Rightarrow> real_db \<Rightarrow> bool" where
  "positions_ok V db \<longleftrightarrow>
     (\<forall>p \<in> set (rd_positions db). sound_position V p \<and> po_ID p < rd_nextPosition db) \<and>
     distinct (map po_ID (rd_positions db)) \<and> distinct (map pos_key (rd_positions db))"

lemma sound_mono: "sound_position V p \<Longrightarrow> V \<le> W \<Longrightarrow> sound_position W p"
  by (force simp: sound_position_def)

lemma positions_mono: "positions_ok V db \<Longrightarrow> V \<le> W \<Longrightarrow> positions_ok W db"
  by (auto simp: positions_ok_def intro: sound_mono)

lemma exact_int: "\<bar>n\<bar> \<le> 2 ^ 53 \<Longrightarrow> fround (of_int n) = Fin (of_int n)"
  using of_int64_exact by (simp add: of_int64_def)

lemma fadd_int: "\<bar>a + b\<bar> \<le> 2 ^ 53 \<Longrightarrow> fadd (Fin (of_int a)) (Fin (of_int b)) = Fin (of_int (a + b))"
  using exact_int [of "a + b"] by simp

lemma fsub_int: "\<bar>a - b\<bar> \<le> 2 ^ 53 \<Longrightarrow> fsub (Fin (of_int a)) (Fin (of_int b)) = Fin (of_int (a - b))"
  using exact_int [of "a - b"] by (simp add: fsub_def)

lemma find_position_Some:
  "find_position m k s r db = Some p \<Longrightarrow> p \<in> set (rd_positions db) \<and> pos_key p = (m, k, s, r)"
  by (auto simp: find_position_def find_Some_iff position_at_def pos_key_def)

lemma find_position_None:
  "find_position m k s r db = None \<Longrightarrow> (m, k, s, r) \<notin> pos_key ` set (rd_positions db)"
  by (auto simp: find_position_def find_None_iff position_at_def pos_key_def)

lemma positions_ok_map:
  assumes "positions_ok V db"
    and "\<And>p. p \<in> set (rd_positions db) \<Longrightarrow> po_ID (f p) = po_ID p \<and> pos_key (f p) = pos_key p \<and> sound_position V (f p)"
  shows "positions_ok V (db\<lparr>rd_positions := map f (rd_positions db)\<rparr>)"
proof -
  have "map po_ID (map f (rd_positions db)) = map po_ID (rd_positions db)"
    "map pos_key (map f (rd_positions db)) = map pos_key (rd_positions db)"
    using assms(2) by simp_all
  then have "distinct (map po_ID (map f (rd_positions db)))" "distinct (map pos_key (map f (rd_positions db)))"
    using assms(1) by (simp_all only: positions_ok_def)
  moreover have "\<forall>q \<in> set (map f (rd_positions db)). sound_position V q \<and> po_ID q < rd_nextPosition db"
    using assms by (auto simp: positions_ok_def)
  ultimately show ?thesis by (simp add: positions_ok_def del: map_map)
qed

lemma save_position_ok:
  assumes "positions_ok V db" "p \<in> set (rd_positions db)" "po_ID q = po_ID p" "pos_key q = pos_key p" "sound_position V q"
  shows "positions_ok V (save_position q db)"
  unfolding save_position_def
proof (rule positions_ok_map [OF assms(1)])
  fix x assume x: "x \<in> set (rd_positions db)"
  have "x = p" if "po_ID x = po_ID p" using assms(1,2) x that by (auto simp: positions_ok_def distinct_map inj_on_def)
  then show "po_ID (if po_ID x = po_ID q then q else x) = po_ID x \<and>
      pos_key (if po_ID x = po_ID q then q else x) = pos_key x \<and> sound_position V (if po_ID x = po_ID q then q else x)"
    using assms x by (auto simp: positions_ok_def)
qed

lemma fle0_int: "fle0 (Fin (of_int n)) \<longleftrightarrow> n \<le> 0"
  by (simp add: fle0_def)

lemma fpos_int: "fpos (Fin (of_int n)) \<longleftrightarrow> 0 < n"
  by (simp add: fpos_def)

lemma pos_key_simps [simp]:
  "pos_key (p\<lparr>po_FilledBuyCount := x\<rparr>) = pos_key p" "pos_key (p\<lparr>po_FilledSellCount := x\<rparr>) = pos_key p"
  "pos_key (p\<lparr>po_AvgEntryPrice := x\<rparr>) = pos_key p" "pos_key (p\<lparr>po_AvgExitPrice := x\<rparr>) = pos_key p"
  "pos_key (p\<lparr>po_RealizedPNLCents := i\<rparr>) = pos_key p" "pos_key (p\<lparr>po_Status := t\<rparr>) = pos_key p"
  "pos_key (p\<lparr>po_ClosedTS := i\<rparr>) = pos_key p" "pos_key (p\<lparr>po_Action := t\<rparr>) = pos_key p"
  by (simp_all add: pos_key_def)

lemma ApplyBuy_ok:
  assumes ok: "positions_ok V db" and V: "0 \<le> V" "V + max 0 n \<le> 2 ^ 53"
  shows "positions_ok (V + max 0 n) (fst (ApplyBuy fails now m k s r (Fin (of_int n)) price db))"
proof (cases "n \<le> 0 \<or> fails \<or> flt price (Fin 0)")
  case True
  then have "fst (ApplyBuy fails now m k s r (Fin (of_int n)) price db) = db" by (auto simp: ApplyBuy_def fle0_int)
  then show ?thesis using positions_mono [OF ok] by simp
next
  case False
  have ok': "positions_ok (V + n) db" using positions_mono [OF ok] False by simp
  show ?thesis
  proof (cases "find_position m k s r db")
    case None
    note key = find_position_None [OF None]
    define p where "p = \<lparr>po_ID = rd_nextPosition db, po_MatchTicker = m, po_MarketTicker = k, po_Strategy = s, po_IsReal = r,
      po_Action = [], po_FilledBuyCount = Fin (of_int n), po_FilledSellCount = Fin 0, po_AvgEntryPrice = clamp_high price,
      po_AvgExitPrice = Fin 0, po_RealizedPNLCents = 0, po_Status = ''open'', po_OpenedTS = now, po_ClosedTS = 0\<rparr>"
    have "fst (ApplyBuy fails now m k s r (Fin (of_int n)) price db) =
        db\<lparr>rd_positions := rd_positions db @ [p], rd_nextPosition := rd_nextPosition db + 1\<rparr>"
      using None False by (simp add: ApplyBuy_def fle0_int p_def)
    moreover have "sound_position (V + n) p"
      unfolding sound_position_def
      by (intro conjI exI [of _ n] exI [of _ "0 :: int"]) (use False V in \<open>auto simp: p_def\<close>)
    moreover have "pos_key p = (m, k, s, r)" "po_ID p = rd_nextPosition db" by (simp_all add: p_def pos_key_def)
    moreover have "rd_nextPosition db \<notin> po_ID ` set (rd_positions db)" using ok by (auto simp: positions_ok_def)
    ultimately show ?thesis
      using ok' key False by (auto simp: positions_ok_def max_def)
  next
    case (Some p)
    note p = find_position_Some [OF Some]
    from p ok obtain b t where b: "po_FilledBuyCount p = Fin (of_int b)" "po_FilledSellCount p = Fin (of_int t)"
      "0 \<le> t" "t \<le> b" "1 \<le> b" "b \<le> V" and st: "po_Status p \<in> {''open'', ''closed'', ''settled''}"
      by (auto simp: positions_ok_def sound_position_def)
    have new: "fadd (po_FilledBuyCount p) (Fin (of_int n)) = Fin (of_int (b + n))"
      unfolding b(1) by (rule fadd_int) (use b False V in auto)
    show ?thesis
    proof (cases "po_Status p = ''settled''")
      case True
      then show ?thesis using False Some ok' by (simp add: ApplyBuy_def fle0_int)
    next
      case unsettled: False
      define q where "q = (let p1 = p\<lparr>po_AvgEntryPrice := reweigh (po_FilledBuyCount p) (po_AvgEntryPrice p) (Fin (of_int n))
            (clamp_high price) (Fin (of_int (b + n))), po_FilledBuyCount := Fin (of_int (b + n))\<rparr>
          in if po_Status p = ''closed'' then p1\<lparr>po_Status := ''open'', po_ClosedTS := 0\<rparr> else p1)"
      have "fpos (Fin (of_int b + of_int n))" using fpos_int [of "b + n"] b(5) False by simp
      then have "fst (ApplyBuy fails now m k s r (Fin (of_int n)) price db) = save_position q db"
        using False Some unsettled new by (simp add: ApplyBuy_def fle0_int Let_def q_def fpos_int del: fadd.simps)
      moreover have "po_ID q = po_ID p" "pos_key q = pos_key p" by (simp_all add: q_def Let_def)
      moreover have "sound_position (V + n) q"
        unfolding sound_position_def
        by (intro conjI exI [of _ "b + n"] exI [of _ t]) (use b st unsettled False in \<open>auto simp: q_def Let_def\<close>)
      ultimately show ?thesis using save_position_ok [OF ok' conjunct1 [OF p], of q] False by simp
    qed
  qed
qed

lemma ApplyBuyNO_ok:
  assumes "positions_ok V db" "0 \<le> V" "V + max 0 n \<le> 2 ^ 53"
  shows "positions_ok (V + max 0 n) (fst (ApplyBuyNO fails f2 now m k s r (Fin (of_int n)) price db))"
proof -
  define db1 where "db1 = fst (ApplyBuy fails now m k s r (Fin (of_int n)) price db)"
  have ok: "positions_ok (V + max 0 n) db1" unfolding db1_def by (rule ApplyBuy_ok [OF assms])
  have mark: "positions_ok W (d\<lparr>rd_positions := map (\<lambda>q. if po_ID q = i then q\<lparr>po_Action := ''buy_no''\<rparr> else q) (rd_positions d)\<rparr>)"
    if d: "positions_ok W d" for W i d
  proof (rule positions_ok_map [OF d])
    fix p assume "p \<in> set (rd_positions d)"
    moreover have "sound_position W (q\<lparr>po_Action := t\<rparr>) = sound_position W q" for q t by (simp add: sound_position_def)
    ultimately show "po_ID (if po_ID p = i then p\<lparr>po_Action := ''buy_no''\<rparr> else p) = po_ID p \<and>
        pos_key (if po_ID p = i then p\<lparr>po_Action := ''buy_no''\<rparr> else p) = pos_key p \<and>
        sound_position W (if po_ID p = i then p\<lparr>po_Action := ''buy_no''\<rparr> else p)"
      using d by (auto simp: positions_ok_def)
  qed
  show ?thesis
    using ok mark [OF ok] by (auto simp: ApplyBuyNO_def db1_def split: prod.split sum.split)
qed

lemma ApplySell_ok:
  assumes ok: "positions_ok V db" and V: "V \<le> 2 ^ 53"
  shows "positions_ok V (fst (ApplySell fails now m k s r (Fin (of_int n)) price db))"
proof (cases "n \<le> 0 \<or> fails \<or> find_position m k s r db = None")
  case True
  then show ?thesis using ok by (auto simp: ApplySell_def fle0_int Let_def)
next
  case False
  then obtain p where Some: "find_position m k s r db = Some p" by auto
  note p = find_position_Some [OF Some]
  from p ok obtain b t where b: "po_FilledBuyCount p = Fin (of_int b)" "po_FilledSellCount p = Fin (of_int t)"
    "0 \<le> t" "t \<le> b" "1 \<le> b" "b \<le> V" "po_Status p = ''closed'' \<longrightarrow> t = b"
    and st: "po_Status p \<in> {''open'', ''closed'', ''settled''}"
    by (auto simp: positions_ok_def sound_position_def)
  have left: "fsub (po_FilledBuyCount p) (po_FilledSellCount p) = Fin (of_int (b - t))"
    unfolding b(1,2) by (rule fsub_int) (use b V in auto)
  show ?thesis
  proof (cases "po_Status p = ''settled'' \<or> b - t \<le> 0 \<or> b - t < n")
    case True
    then have "fst (ApplySell fails now m k s r (Fin (of_int n)) price db) = db"
      using Some False left fle0_int [of "b - t"] by (auto simp: ApplySell_def fle0_int Let_def simp del: of_int_diff)
    then show ?thesis using ok by simp
  next
    case sells: False
    have new: "fadd (po_FilledSellCount p) (Fin (of_int n)) = Fin (of_int (t + n))"
      unfolding b(2) by (rule fadd_int) (use b False V sells in auto)
    have rest: "fsub (po_FilledBuyCount p) (Fin (of_int (t + n))) = Fin (of_int (b - (t + n)))"
      unfolding b(1) by (rule fsub_int) (use b False V sells in auto)
    have pos: "fpos (Fin (of_int (t + n)))" using fpos_int [of "t + n"] b(3) False by simp
    define avg where "avg = reweigh (po_FilledSellCount p) (po_AvgExitPrice p) (Fin (of_int n)) (clamp_unit price) (Fin (of_int (t + n)))"
    define pnl where "pnl = wrap64 (po_RealizedPNLCents p +
        to_int64 (fadd (fmul (fmul (fsub (clamp_unit price) (po_AvgEntryPrice p)) (Fin (of_int n))) (Fin 100)) (flit (1 / 2))))"
    have cmp: "\<not> fle0 (Fin (of_int (b - t)))" "\<not> flt (Fin (of_int (b - t))) (Fin (of_int n))"
      "Fin (of_int (b - (t + n))) = Fin 0 \<longleftrightarrow> b - (t + n) = 0"
      using sells fle0_int [of "b - t"] by (auto simp only: float64.inject flt.simps of_int_less_iff of_int_eq_0_iff not_le not_less)
    have q: "fst (ApplySell fails now m k s r (Fin (of_int n)) price db) = save_position
        (if b - (t + n) = 0
         then p\<lparr>po_AvgExitPrice := avg, po_FilledSellCount := Fin (of_int (t + n)), po_RealizedPNLCents := pnl,
                po_Status := ''closed'', po_ClosedTS := now\<rparr>
         else p\<lparr>po_AvgExitPrice := avg, po_FilledSellCount := Fin (of_int (t + n)), po_RealizedPNLCents := pnl\<rparr>) db"
      using Some False left sells new rest pos cmp
      by (simp add: ApplySell_def fle0_int Let_def avg_def pnl_def del: of_int_diff of_int_add fadd.simps flt.simps)
    have "sound_position V (if b - (t + n) = 0
         then p\<lparr>po_AvgExitPrice := avg, po_FilledSellCount := Fin (of_int (t + n)), po_RealizedPNLCents := pnl,
                po_Status := ''closed'', po_ClosedTS := now\<rparr>
         else p\<lparr>po_AvgExitPrice := avg, po_FilledSellCount := Fin (of_int (t + n)), po_RealizedPNLCents := pnl\<rparr>)"
      unfolding sound_position_def
      by (intro conjI exI [of _ b] exI [of _ "t + n"]) (use b st sells False in auto)
    then show ?thesis unfolding q by (intro save_position_ok [OF ok conjunct1 [OF p]]) simp_all
  qed
qed

lemma Settle_ok:
  assumes ok: "positions_ok V db"
  shows "positions_ok V (fst (Settle fails now m k s r won db))"
proof (cases "find_position m k s r db")
  case None
  then show ?thesis using ok by (simp add: Settle_def)
next
  case (Some p)
  note p = find_position_Some [OF Some]
  have snd: "sound_position V p" using p ok by (auto simp: positions_ok_def)
  have "sound_position V (p\<lparr>po_RealizedPNLCents := i, po_Status := ''settled'', po_ClosedTS := now\<rparr>)" for i
    using snd by (auto simp: sound_position_def)
  then have "positions_ok V (save_position (p\<lparr>po_RealizedPNLCents := i, po_Status := ''settled'', po_ClosedTS := now\<rparr>) db)" for i
    by (intro save_position_ok [OF ok conjunct1 [OF p]]) simp_all
  then show ?thesis using ok Some by (simp add: Settle_def Let_def)
qed

text \<open>Runs of the manager on fills of whole contracts.\<close>

datatype position_op =
  PosBuy bool int string string string bool int float64
  | PosBuyNO bool bool int string string string bool int float64
  | PosSell bool int string string string bool int float64
  | PosSettle bool int string string string bool bool

fun position_step :: "position_op \<Rightarrow> real_db \<Rightarrow> real_db" where
  "position_step (PosBuy f now m k s r n price) db = fst (ApplyBuy f now m k s r (Fin (of_int n)) price db)"
| "position_step (PosBuyNO f f2 now m k s r n price) db = fst (ApplyBuyNO f f2 now m k s r (Fin (of_int n)) price db)"
| "position_step (PosSell f now m k s r n price) db = fst (ApplySell f now m k s r (Fin (of_int n)) price db)"
| "position_step (PosSettle f now m k s r won) db = fst (Settle f now m k s r won db)"

fun bought :: "position_op \<Rightarrow> int" where
  "bought (PosBuy f now m k s r n price) = max 0 n"
| "bought (PosBuyNO f f2 now m k s r n price) = max 0 n"
| "bought _ = 0"

lemma bought_nonneg: "0 \<le> bought op" by (cases op) simp_all

lemma volume_nonneg: "0 \<le> sum_list (map bought ops)" by (rule sum_list_nonneg) (use bought_nonneg in auto)

lemma position_step_ok:
  assumes "positions_ok V db" "0 \<le> V" "V + bought op \<le> 2 ^ 53"
  shows "positions_ok (V + bought op) (position_step op db)"
  using assms by (cases op) (auto simp: ApplyBuy_ok ApplyBuyNO_ok ApplySell_ok Settle_ok)

lemma position_run_ok:
  "positions_ok V db \<Longrightarrow> 0 \<le> V \<Longrightarrow> V + sum_list (map bought ops) \<le> 2 ^ 53 \<Longrightarrow>
     positions_ok (V + sum_list (map bought ops)) (fold position_step ops db)"
proof (induction ops arbitrary: V db)
  case (Cons op ops)
  have "V + bought op \<le> 2 ^ 53" using Cons.prems(3) volume_nonneg [of ops] by simp
  from position_step_ok [OF Cons.prems(1,2) this] Cons.IH [of "V + bought op" "position_step op db"] Cons.prems
  show ?case using bought_nonneg [of op] by (simp add: add.assoc)
qed simp

definition empty_real_db :: real_db where
  "empty_real_db = \<lparr>rd_orders = [], rd_nextOrder = 1, rd_pool = None, rd_positions = [], rd_nextPosition = 1\<rparr>"

text \<open>
  C34. Through any sequence of purchases, sales and settlements of whole contracts, whatever fails in
  between and whatever the prices, no position is ever sold beyond what was bought into it, a closed
  position has nothing left and an open one has, counts stay exact, and there is one position per
  match, market, strategy and mode.
\<close>
theorem positions_never_oversold:
  assumes "sum_list (map bought ops) \<le> 2 ^ 53" "p \<in> set (rd_positions (fold position_step ops empty_real_db))"
  shows "(\<exists>b s. po_FilledBuyCount p = Fin (of_int b) \<and> po_FilledSellCount p = Fin (of_int s) \<and> 0 \<le> s \<and> s \<le> b \<and>
      b \<le> sum_list (map bought ops) \<and> (po_Status p = ''closed'' \<longrightarrow> s = b) \<and> (po_Status p = ''open'' \<longrightarrow> s < b)) \<and>
    (\<forall>q \<in> set (rd_positions (fold position_step ops empty_real_db)). pos_key q = pos_key p \<longrightarrow> q = p)"
proof -
  have "positions_ok 0 empty_real_db" by (simp add: positions_ok_def empty_real_db_def)
  from position_run_ok [OF this] assms(1)
  have ok: "positions_ok (sum_list (map bought ops)) (fold position_step ops empty_real_db)" by simp
  with assms(2) have "sound_position (sum_list (map bought ops)) p" by (simp add: positions_ok_def)
  moreover have "\<forall>q \<in> set (rd_positions (fold position_step ops empty_real_db)). pos_key q = pos_key p \<longrightarrow> q = p"
    using ok assms(2) by (auto simp: positions_ok_def distinct_map inj_on_def)
  ultimately show ?thesis by (force simp: sound_position_def)
qed

definition demo_position_ops :: "position_op list" where
  "demo_position_ops =
     [PosBuy False 1 ''E'' ''M'' ''adout'' True 3 (Fin 1), PosSell False 2 ''E'' ''M'' ''adout'' True 4 (Fin 1)]"

lemma demo_positions:
  "map (\<lambda>p. (po_FilledBuyCount p, po_Status p)) (rd_positions (fold position_step demo_position_ops empty_real_db)) =
     [(Fin 3, ''open'')]"
proof -
  have "fround 3 = Fin 3" using exact_int [of 3] by simp
  then show ?thesis
    by (simp add: demo_position_ops_def empty_real_db_def ApplyBuy_def ApplySell_def fle0_def clamp_high_def clamp_unit_def
        find_position_def position_at_def fsub_def)
qed

theorem positions_never_oversold_witness:
  "sum_list (map bought demo_position_ops) \<le> 2 ^ 53 \<and>
   (\<exists>p \<in> set (rd_positions (fold position_step demo_position_ops empty_real_db)).
      po_FilledBuyCount p = Fin 3 \<and> (\<exists>s. po_FilledSellCount p = Fin (of_int s) \<and> 0 \<le> s \<and> s < 4))"
proof -
  have v: "sum_list (map bought demo_position_ops) \<le> 2 ^ 53" by (simp add: demo_position_ops_def)
  obtain p where p: "p \<in> set (rd_positions (fold position_step demo_position_ops empty_real_db))"
    "po_FilledBuyCount p = Fin 3"
    using demo_positions by (cases "rd_positions (fold position_step demo_position_ops empty_real_db)") auto
  from positions_never_oversold [OF v p(1)] p(2)
  have "\<exists>s. po_FilledSellCount p = Fin (of_int s) \<and> 0 \<le> s \<and> s < 4"
    by (auto simp: of_int_eq_numeral_iff [symmetric] demo_position_ops_def)
  with v p show ?thesis by blast
qed

text \<open>
  A purchase of the other side with the same key is booked into the same position and turns it:
  contracts bought on YES are then settled as NO.
\<close>

lemma other_side_turns_position:
  "map (\<lambda>p. (po_Action p, po_FilledBuyCount p, po_RealizedPNLCents p))
     (rd_positions (fold position_step
        [PosBuy False 1 ''E'' ''M'' ''arb'' True 5 (Fin 1), PosBuyNO False False 2 ''E'' ''M'' ''arb'' True 1 (Fin 1),
         PosSettle False 3 ''E'' ''M'' ''arb'' True True] empty_real_db))
   = [(''buy_no'', Fin 6, -600)]"
proof -
  have f: "fround 5 = Fin 5" "fround 6 = Fin 6" "fround 1 = Fin 1" "fround 600 = Fin 600"
    using exact_int [of 5] exact_int [of 6] exact_int [of 1] exact_int [of 600] by simp_all
  have h: "fround (1 / 2) = Fin (1 / 2)" "fround (1201 / 2) = Fin (1201 / 2)"
    using rnd_exact [of 1 "-1"] rnd_exact [of 1201 "-1"] by (simp_all add: fround_small power_int_def)
  have "\<lfloor>1201 / 2 :: rat\<rfloor> = 600" by (rule floor_unique) simp_all
  then show ?thesis
    by (simp add: empty_real_db_def ApplyBuy_def ApplyBuyNO_def Settle_def fle0_def clamp_high_def find_position_def
        position_at_def fsub_def save_position_def reweigh_def settlement_pnl_def fpos_def flit_def f h trunc_rat_def
        int64_bounds wrap64_def Let_def)
qed

end
