(* ===== verification/TradeSettings.thy ===== *)
theory TradeSettings
  imports RealStore GoFloat
begin

text \<open>
  The settings that gate the first version's live trading: which strategies may trade and how often per
  market (\<open>internal/strategyconfig/strategyconfig.go\<close>), and at which prices
  (\<open>internal/triggerranges/triggerranges.go\<close>, \<open>autobands.go\<close>). Every operation takes whether its database
  call fails; then it changes nothing.
\<close>

record StrategyConfigEntry =
  sc_Strategy :: string
  sc_Enabled :: bool
  sc_PerMarketMaxOrders :: int
  sc_UpdatedTS :: int

record TriggerRange =
  tr_ID :: int
  tr_Strategy :: string
  tr_MinPrice :: float64
  tr_MaxPrice :: float64
  tr_Source :: string
  tr_Enabled :: bool
  tr_CreatedTS :: int

record settings =
  st_configs :: "StrategyConfigEntry list"
  st_ranges :: "TriggerRange list"
  st_nextRange :: int

section \<open>Strategy configuration\<close>

definition GetAllConfigs :: "settings \<Rightarrow> StrategyConfigEntry list" where
  "GetAllConfigs st = st_configs st"

definition find_config :: "string \<Rightarrow> settings \<Rightarrow> StrategyConfigEntry option" where
  "find_config strategy st = find (\<lambda>e. sc_Strategy e = strategy) (st_configs st)"

text \<open>\<open>INSERT \<dots> ON CONFLICT (strategy) DO UPDATE\<close>: the new row, or the assignments to the old one.\<close>

definition upsert_config ::
  "StrategyConfigEntry \<Rightarrow> (StrategyConfigEntry \<Rightarrow> StrategyConfigEntry) \<Rightarrow> settings \<Rightarrow> settings" where
  "upsert_config row assign st =
     (if find_config (sc_Strategy row) st = None then st\<lparr>st_configs := st_configs st @ [row]\<rparr>
      else st\<lparr>st_configs := map (\<lambda>e. if sc_Strategy e = sc_Strategy row then assign e else e) (st_configs st)\<rparr>)"

definition SetEnabled :: "bool \<Rightarrow> int \<Rightarrow> string \<Rightarrow> bool \<Rightarrow> settings \<Rightarrow> settings \<times> string option" where
  "SetEnabled fails now strategy enabled st =
     (if fails then (st, Some ''db'')
      else
        (upsert_config \<lparr>sc_Strategy = strategy, sc_Enabled = enabled, sc_PerMarketMaxOrders = 0, sc_UpdatedTS = now\<rparr>
           (\<lambda>e. e\<lparr>sc_Enabled := enabled, sc_UpdatedTS := now\<rparr>) st, None))"

definition IsEnabled :: "bool \<Rightarrow> string \<Rightarrow> settings \<Rightarrow> string + bool" where
  "IsEnabled fails strategy st =
     (if fails then Inl ''db''
      else (case find_config strategy st of None \<Rightarrow> Inr False | Some e \<Rightarrow> Inr (sc_Enabled e)))"

definition Ensure :: "bool \<Rightarrow> int \<Rightarrow> string \<Rightarrow> settings \<Rightarrow> settings \<times> string option" where
  "Ensure fails now strategy st =
     (if fails then (st, Some ''db'')
      else
        (upsert_config \<lparr>sc_Strategy = strategy, sc_Enabled = False, sc_PerMarketMaxOrders = 0, sc_UpdatedTS = now\<rparr>
           (\<lambda>e. e) st, None))"

definition GetLimit :: "bool \<Rightarrow> string \<Rightarrow> settings \<Rightarrow> string + int" where
  "GetLimit fails strategy st =
     (if fails then Inl ''db''
      else (case find_config strategy st of None \<Rightarrow> Inr 1 | Some e \<Rightarrow> Inr (sc_PerMarketMaxOrders e)))"

text \<open>The column is a 32-bit integer.\<close>

definition SetLimit :: "bool \<Rightarrow> int \<Rightarrow> string \<Rightarrow> int \<Rightarrow> settings \<Rightarrow> settings \<times> string option" where
  "SetLimit fails now strategy maxOrders st =
     (if fails then (st, Some ''db'')
      else if int4 maxOrders = None then (st, Some ''integer out of range'')
      else
        (upsert_config \<lparr>sc_Strategy = strategy, sc_Enabled = False, sc_PerMarketMaxOrders = maxOrders, sc_UpdatedTS = now\<rparr>
           (\<lambda>e. e\<lparr>sc_PerMarketMaxOrders := maxOrders, sc_UpdatedTS := now\<rparr>) st, None))"

section \<open>Price ranges\<close>

definition ranges_of :: "string \<Rightarrow> settings \<Rightarrow> TriggerRange list" where
  "ranges_of strategy st = filter (\<lambda>r. tr_Strategy r = strategy) (st_ranges st)"

definition Get_ranges :: "bool \<Rightarrow> string \<Rightarrow> settings \<Rightarrow> string + TriggerRange list" where
  "Get_ranges fails strategy st = (if fails then Inl ''db'' else Inr (sort_key tr_CreatedTS (ranges_of strategy st)))"

text \<open>
  A batch insert: rows without an id draw one from the sequence, an id in use fails the statement;
  the sequence is not rolled back.
\<close>

fun insert_ranges :: "TriggerRange list \<Rightarrow> TriggerRange list \<Rightarrow> int \<Rightarrow> TriggerRange list option \<times> int" where
  "insert_ranges [] tbl seq = (Some tbl, seq)"
| "insert_ranges (r # rs) tbl seq =
     (let i = (if tr_ID r = 0 then seq else tr_ID r); seq1 = (if tr_ID r = 0 then seq + 1 else seq) in
      if \<exists>q \<in> set tbl. tr_ID q = i then (None, seq1)
      else insert_ranges rs (tbl @ [r\<lparr>tr_ID := i\<rparr>]) seq1)"

definition batch_ranges :: "TriggerRange list \<Rightarrow> TriggerRange list \<Rightarrow> settings \<Rightarrow> settings \<times> string option" where
  "batch_ranges rs tbl st =
     (case insert_ranges rs tbl (st_nextRange st) of
        (None, seq) \<Rightarrow> (st\<lparr>st_nextRange := seq\<rparr>, Some ''duplicate key'')
      | (Some tbl1, seq) \<Rightarrow> (st\<lparr>st_ranges := tbl1, st_nextRange := seq\<rparr>, None))"

definition Replace :: "bool \<Rightarrow> int \<Rightarrow> string \<Rightarrow> TriggerRange list \<Rightarrow> settings \<Rightarrow> settings \<times> string option" where
  "Replace fails now strategy ranges st =
     (if fails then (st, Some ''db'')
      else batch_ranges (map (\<lambda>r. r\<lparr>tr_Strategy := strategy, tr_CreatedTS := now\<rparr>) ranges)
             (filter (\<lambda>r. tr_Strategy r \<noteq> strategy) (st_ranges st)) st)"

text \<open>PostgreSQL orders NaN above every other number, and equal to itself.\<close>

definition pg_le :: "float64 \<Rightarrow> float64 \<Rightarrow> bool" where
  "pg_le x y \<longleftrightarrow> y = NaN \<or> fle x y"

definition in_range :: "float64 \<Rightarrow> TriggerRange \<Rightarrow> bool" where
  "in_range price r \<longleftrightarrow> tr_Enabled r \<and> pg_le (tr_MinPrice r) price \<and> pg_le price (tr_MaxPrice r)"

definition IsPriceIn :: "bool \<Rightarrow> string \<Rightarrow> float64 \<Rightarrow> settings \<Rightarrow> string + bool" where
  "IsPriceIn fails strategy price st =
     (if fails then Inl ''db'' else Inr (0 < length (filter (in_range price) (ranges_of strategy st))))"

definition Has :: "bool \<Rightarrow> string \<Rightarrow> settings \<Rightarrow> string + bool" where
  "Has fails strategy st = (if fails then Inl ''db'' else Inr (0 < length (ranges_of strategy st)))"

definition bandKey :: "string \<Rightarrow> float64 \<Rightarrow> float64 \<Rightarrow> string" where
  "bandKey strategy minPrice maxPrice = strategy @ ''|'' @ format4f minPrice @ ''|'' @ format4f maxPrice"

definition range_key :: "TriggerRange \<Rightarrow> string" where
  "range_key r = bandKey (tr_Strategy r) (tr_MinPrice r) (tr_MaxPrice r)"

text \<open>The keys of all rows of the strategies the new ranges mention.\<close>

definition existing_keys :: "TriggerRange list \<Rightarrow> settings \<Rightarrow> string set" where
  "existing_keys ranges st = range_key ` set (filter (\<lambda>q. tr_Strategy q \<in> set (map tr_Strategy ranges)) (st_ranges st))"

definition to_insert :: "int \<Rightarrow> TriggerRange list \<Rightarrow> settings \<Rightarrow> TriggerRange list" where
  "to_insert now ranges st =
     map (\<lambda>r. r\<lparr>tr_CreatedTS := now\<rparr>) (filter (\<lambda>r. range_key r \<notin> existing_keys ranges st) ranges)"

definition AddIfMissing :: "bool \<Rightarrow> bool \<Rightarrow> int \<Rightarrow> TriggerRange list \<Rightarrow> settings \<Rightarrow> settings \<times> (string + int)" where
  "AddIfMissing fails fails_insert now ranges st =
     (if ranges = [] then (st, Inr 0)
      else if fails then (st, Inl ''db'')
      else
     (let toInsert = to_insert now ranges st in
      if toInsert = [] then (st, Inr 0)
      else if fails_insert then (st, Inl ''db'')
      else
        (case batch_ranges toInsert (st_ranges st) st of
           (st1, Some e) \<Rightarrow> (st1, Inl e)
         | (st1, None) \<Rightarrow> (st1, Inr (int (length toInsert))))))"

section \<open>Laws of the configuration\<close>

lemma find_map_upd:
  assumes "\<And>e. sc_Strategy (f e) = sc_Strategy e"
  shows "find (\<lambda>e. sc_Strategy e = s) (map (\<lambda>e. if sc_Strategy e = k then f e else e) es) =
    map_option (\<lambda>e. if s = k then f e else e) (find (\<lambda>e. sc_Strategy e = s) es)"
  using assms by (induction es) auto

lemma find_upsert:
  assumes "\<And>e. sc_Strategy (f e) = sc_Strategy e"
  shows "find_config s (upsert_config row f st) =
    (if s = sc_Strategy row then Some (case find_config s st of None \<Rightarrow> row | Some e \<Rightarrow> f e) else find_config s st)"
proof (cases "find_config (sc_Strategy row) st")
  case None
  then show ?thesis
    by (auto simp: upsert_config_def find_config_def find_snoc split: option.split)
next
  case (Some e)
  then show ?thesis
    by (cases "find_config s st")
      (auto simp: upsert_config_def find_config_def find_map_upd [OF assms] split: option.split)
qed

lemmas config_defs = SetEnabled_def Ensure_def SetLimit_def IsEnabled_def GetLimit_def

text \<open>
  The switch and the limit of a strategy are independent of each other once the strategy has a row: setting
  the switch stores the switch, leaves the limit as it was, and touches no other strategy.
\<close>

theorem switch_keeps_limit:
  assumes "SetEnabled False now s b st = (st', err)" "find_config s st \<noteq> None"
  shows "err = None \<and> IsEnabled False s st' = Inr b \<and> GetLimit False s st' = GetLimit False s st \<and>
    (\<forall>s'. s' \<noteq> s \<longrightarrow> find_config s' st' = find_config s' st)"
  using assms by (auto simp: config_defs find_upsert)

theorem switch_keeps_limit_witness:
  "IsEnabled False ''m'' (fst (SetEnabled False 2 ''m'' True
     \<lparr>st_configs = [\<lparr>sc_Strategy = ''m'', sc_Enabled = False, sc_PerMarketMaxOrders = 3, sc_UpdatedTS = 1\<rparr>],
      st_ranges = [], st_nextRange = 1\<rparr>)) = Inr True"
proof -
  let ?st = "\<lparr>st_configs = [\<lparr>sc_Strategy = ''m'', sc_Enabled = False, sc_PerMarketMaxOrders = 3, sc_UpdatedTS = 1\<rparr>],
      st_ranges = [], st_nextRange = 1\<rparr>"
  have "find_config ''m'' ?st \<noteq> None" by (simp add: find_config_def)
  then show ?thesis using switch_keeps_limit [of 2 "''m''" True ?st] by (metis prod.collapse)
qed

text \<open>Setting a limit never switches a strategy on.\<close>

lemma limit_never_enables: "IsEnabled False s' (fst (SetLimit f now s n st)) = IsEnabled False s' st"
  by (auto simp: config_defs find_upsert split: option.split)

text \<open>
  But the first switch of a strategy without a row removes its limit: the row is created with the
  limit 0, which means none, where a strategy without a row has the limit 1.
\<close>

lemma first_switch_drops_limit:
  assumes "find_config s st = None"
  shows "GetLimit False s st = Inr 1 \<and> GetLimit False s (fst (SetEnabled False now s True st)) = Inr 0"
  using assms by (simp add: config_defs find_upsert)

section \<open>Laws of the ranges\<close>

lemma range_key_upd [simp]: "range_key (r\<lparr>tr_ID := i\<rparr>) = range_key r" "range_key (r\<lparr>tr_CreatedTS := t\<rparr>) = range_key r"
  by (simp_all add: range_key_def)

lemma insert_ranges_Some:
  "insert_ranges rs tbl seq = (Some tbl1, seq1) \<Longrightarrow>
     \<exists>new. tbl1 = tbl @ new \<and> map range_key new = map range_key rs \<and> map tr_Strategy new = map tr_Strategy rs"
proof (induction rs arbitrary: tbl seq)
  case (Cons r rs)
  define i where "i = (if tr_ID r = 0 then seq else tr_ID r)"
  from Cons.prems have rest: "insert_ranges rs (tbl @ [r\<lparr>tr_ID := i\<rparr>]) (if tr_ID r = 0 then seq + 1 else seq) = (Some tbl1, seq1)"
    by (auto simp: Let_def i_def split: if_split_asm)
  from Cons.IH [OF rest] obtain new where "tbl1 = (tbl @ [r\<lparr>tr_ID := i\<rparr>]) @ new" "map range_key new = map range_key rs"
    "map tr_Strategy new = map tr_Strategy rs" by blast
  then show ?case by (intro exI [of _ "r\<lparr>tr_ID := i\<rparr> # new"]) simp
qed simp

text \<open>Rows without ids are inserted whenever the sequence is ahead of the table.\<close>

lemma insert_ranges_fresh:
  assumes "\<forall>q \<in> set tbl. tr_ID q < seq" "\<forall>r \<in> set rs. tr_ID r = 0"
  shows "\<exists>new seq1. insert_ranges rs tbl seq = (Some (tbl @ new), seq1) \<and>
    map (\<lambda>r. r\<lparr>tr_ID := 0\<rparr>) new = map (\<lambda>r. r\<lparr>tr_ID := 0\<rparr>) rs"
  using assms
proof (induction rs arbitrary: tbl seq)
  case (Cons r rs)
  have "\<forall>q \<in> set (tbl @ [r\<lparr>tr_ID := seq\<rparr>]). tr_ID q < seq + 1" using Cons.prems(1) by force
  from Cons.IH [OF this] Cons.prems(2) obtain new seq1 where
    "insert_ranges rs (tbl @ [r\<lparr>tr_ID := seq\<rparr>]) (seq + 1) = (Some ((tbl @ [r\<lparr>tr_ID := seq\<rparr>]) @ new), seq1)"
    "map (\<lambda>r. r\<lparr>tr_ID := 0\<rparr>) new = map (\<lambda>r. r\<lparr>tr_ID := 0\<rparr>) rs" by auto
  with Cons.prems show ?case
    by (intro exI [of _ "r\<lparr>tr_ID := seq\<rparr> # new"] exI [of _ seq1]) (auto simp: Let_def)
qed simp

lemma strategy_upd [simp]: "tr_Strategy (r\<lparr>tr_ID := i\<rparr>) = tr_Strategy r"
  by (cases r) simp

lemma filter_strip:
  "map (\<lambda>r. r\<lparr>tr_ID := 0\<rparr>) new = map (\<lambda>r. r\<lparr>tr_ID := 0\<rparr>) rs \<Longrightarrow> map tr_Strategy new = map tr_Strategy rs"
proof -
  assume "map (\<lambda>r. r\<lparr>tr_ID := 0\<rparr>) new = map (\<lambda>r. r\<lparr>tr_ID := 0\<rparr>) rs"
  then have "map tr_Strategy (map (\<lambda>r. r\<lparr>tr_ID := 0\<rparr>) new) = map tr_Strategy (map (\<lambda>r. r\<lparr>tr_ID := 0\<rparr>) rs)" by simp
  then show ?thesis by (simp add: comp_def)
qed

lemma sort_key_same: "\<forall>x \<in> set xs. f x = c \<Longrightarrow> sort_key f xs = xs"
  by (induction xs) (auto intro: insort_is_Cons)

text \<open>
  Replacing the ranges of a strategy round-trips: a new list of ranges is what reading them back
  gives, up to the ids the database assigns, and the ranges of the other strategies are untouched.
\<close>

theorem replace_then_get:
  assumes "\<forall>q \<in> set (st_ranges st). tr_ID q < st_nextRange st" "\<forall>r \<in> set ranges. tr_ID r = 0"
  shows "\<exists>st' got. Replace False now s ranges st = (st', None) \<and> Get_ranges False s st' = Inr got \<and>
    map (\<lambda>r. r\<lparr>tr_ID := 0\<rparr>) got = map (\<lambda>r. r\<lparr>tr_Strategy := s, tr_CreatedTS := now\<rparr>) ranges \<and>
    (\<forall>s'. s' \<noteq> s \<longrightarrow> ranges_of s' st' = ranges_of s' st)"
proof -
  let ?tbl = "filter (\<lambda>r. tr_Strategy r \<noteq> s) (st_ranges st)"
  let ?rs = "map (\<lambda>r. r\<lparr>tr_Strategy := s, tr_CreatedTS := now\<rparr>) ranges"
  have "\<forall>q \<in> set ?tbl. tr_ID q < st_nextRange st" "\<forall>r \<in> set ?rs. tr_ID r = 0" using assms by auto
  from insert_ranges_fresh [OF this] obtain new seq1 where
    ins: "insert_ranges ?rs ?tbl (st_nextRange st) = (Some (?tbl @ new), seq1)"
    "map (\<lambda>r. r\<lparr>tr_ID := 0\<rparr>) new = map (\<lambda>r. r\<lparr>tr_ID := 0\<rparr>) ?rs" by blast
  have strip: "map (\<lambda>r. r\<lparr>tr_ID := 0\<rparr>) ?rs = ?rs" using assms(2) by (auto intro: TriggerRange.equality)
  have keys: "map tr_Strategy new = map (\<lambda>r. s) ranges" "map tr_CreatedTS new = map (\<lambda>r. now) ranges"
    using arg_cong [OF ins(2), of "map tr_Strategy"] arg_cong [OF ins(2), of "map tr_CreatedTS"] by (simp_all add: comp_def)
  have new: "tr_Strategy r = s" "tr_CreatedTS r = now" if "r \<in> set new" for r
  proof -
    have "tr_Strategy r \<in> set (map tr_Strategy new)" "tr_CreatedTS r \<in> set (map tr_CreatedTS new)" using that by auto
    then show "tr_Strategy r = s" "tr_CreatedTS r = now" unfolding keys by auto
  qed
  let ?st = "st\<lparr>st_ranges := ?tbl @ new, st_nextRange := seq1\<rparr>"
  have "ranges_of s ?st = new" using new by (simp add: ranges_of_def)
  then have "Get_ranges False s ?st = Inr new" using new sort_key_same [of new tr_CreatedTS now] by (simp add: Get_ranges_def)
  moreover have "ranges_of s' ?st = ranges_of s' st" if "s' \<noteq> s" for s'
  proof -
    have "filter (\<lambda>r. tr_Strategy r = s') new = []" using new that by (auto simp: filter_empty_conv)
    moreover have "filter (\<lambda>r. tr_Strategy r = s') ?tbl = filter (\<lambda>r. tr_Strategy r = s') (st_ranges st)"
      using that by (auto intro: filter_cong)
    ultimately show ?thesis by (simp add: ranges_of_def)
  qed
  moreover have "Replace False now s ranges st = (?st, None)" using ins(1) by (simp add: Replace_def batch_ranges_def)
  ultimately show ?thesis using ins(2) strip by auto
qed

theorem replace_then_get_witness:
  "\<exists>st' got. Replace False 7 ''m'' [\<lparr>tr_ID = 0, tr_Strategy = [], tr_MinPrice = Fin 0, tr_MaxPrice = Fin 1, tr_Source = [],
       tr_Enabled = True, tr_CreatedTS = 0\<rparr>] \<lparr>st_configs = [], st_ranges = [], st_nextRange = 1\<rparr> = (st', None) \<and>
     Get_ranges False ''m'' st' = Inr got \<and> length got = 1"
proof -
  let ?r = "\<lparr>tr_ID = 0, tr_Strategy = [], tr_MinPrice = Fin 0, tr_MaxPrice = Fin 1, tr_Source = [],
       tr_Enabled = True, tr_CreatedTS = 0\<rparr>"
  let ?st = "\<lparr>st_configs = [], st_ranges = [], st_nextRange = 1\<rparr>"
  have "\<exists>st' got. Replace False 7 ''m'' [?r] ?st = (st', None) \<and> Get_ranges False ''m'' st' = Inr got \<and>
    map (\<lambda>r. r\<lparr>tr_ID := 0\<rparr>) got = map (\<lambda>r. r\<lparr>tr_Strategy := ''m'', tr_CreatedTS := 7\<rparr>) [?r] \<and>
    (\<forall>s'. s' \<noteq> ''m'' \<longrightarrow> ranges_of s' st' = ranges_of s' ?st)"
    by (rule replace_then_get) simp_all
  then obtain st' got where r: "Replace False 7 ''m'' [?r] ?st = (st', None)" "Get_ranges False ''m'' st' = Inr got"
    "map (\<lambda>r. r\<lparr>tr_ID := 0\<rparr>) got = map (\<lambda>r. r\<lparr>tr_Strategy := ''m'', tr_CreatedTS := 7\<rparr>) [?r]" by blast
  from arg_cong [OF r(3), of length] have "length got = 1" by simp
  with r show ?thesis by blast
qed

text \<open>
  The scheduled addition of ranges is idempotent and never disturbs what an operator has set:
  after a run that succeeds every row that was there is there unchanged, and a second run with the same
  ranges inserts nothing.
\<close>

theorem adding_ranges_is_idempotent:
  assumes "AddIfMissing f g now ranges st = (st', Inr n)"
  shows "(\<exists>new. st_ranges st' = st_ranges st @ new \<and> int (length new) = n) \<and> AddIfMissing False g' now' ranges st' = (st', Inr 0)"
proof (cases "ranges = [] \<or> to_insert now ranges st = []")
  case True
  with assms have [simp]: "st' = st" "n = 0" by (auto simp: AddIfMissing_def Let_def split: if_split_asm)
  have "to_insert now' ranges st = []" if "ranges \<noteq> []" using True that by (simp add: to_insert_def)
  then show ?thesis by (auto simp: AddIfMissing_def Let_def)
next
  case False
  with assms obtain tbl1 seq where
    ins: "insert_ranges (to_insert now ranges st) (st_ranges st) (st_nextRange st) = (Some tbl1, seq)"
    and st': "st' = st\<lparr>st_ranges := tbl1, st_nextRange := seq\<rparr>" and n: "n = int (length (to_insert now ranges st))"
    by (auto simp: AddIfMissing_def batch_ranges_def Let_def split: if_split_asm prod.splits option.splits)
  from insert_ranges_Some [OF ins] obtain new where new: "tbl1 = st_ranges st @ new"
    "map range_key new = map range_key (to_insert now ranges st)" "map tr_Strategy new = map tr_Strategy (to_insert now ranges st)"
    by blast
  have len: "length new = length (to_insert now ranges st)" using arg_cong [OF new(2), of length] by simp
  have mine: "tr_Strategy q \<in> set (map tr_Strategy ranges)" if "q \<in> set new" for q
  proof -
    have "tr_Strategy q \<in> set (map tr_Strategy (to_insert now ranges st))" unfolding new(3) [symmetric] using that by auto
    then show ?thesis by (auto simp: to_insert_def)
  qed
  have "range_key r \<in> existing_keys ranges st'" if r: "r \<in> set ranges" for r
  proof (cases "range_key r \<in> existing_keys ranges st")
    case True
    then show ?thesis by (auto simp: existing_keys_def st' new(1))
  next
    case False
    then have "range_key r \<in> set (map range_key (to_insert now ranges st))"
      using r by (force simp: to_insert_def)
    then obtain q where "q \<in> set new" "range_key q = range_key r" unfolding new(2) [symmetric] by auto
    then show ?thesis using mine [of q] unfolding existing_keys_def st' new(1) by (intro image_eqI [of _ _ q]) auto
  qed
  then have "to_insert now' ranges st' = []" by (simp add: to_insert_def)
  then show ?thesis using len n new(1) by (auto simp: AddIfMissing_def Let_def st')
qed

theorem adding_ranges_is_idempotent_witness:
  "(let r = \<lparr>tr_ID = 0, tr_Strategy = ''m'', tr_MinPrice = Fin 0, tr_MaxPrice = Fin 1, tr_Source = ''auto'',
       tr_Enabled = True, tr_CreatedTS = 0\<rparr>;
       st' = fst (AddIfMissing False False 7 [r] \<lparr>st_configs = [], st_ranges = [], st_nextRange = 1\<rparr>) in
     AddIfMissing False False 9 [r] st' = (st', Inr 0))"
proof -
  let ?r = "\<lparr>tr_ID = 0, tr_Strategy = ''m'', tr_MinPrice = Fin 0, tr_MaxPrice = Fin 1, tr_Source = ''auto'',
       tr_Enabled = True, tr_CreatedTS = 0\<rparr>"
  let ?st = "\<lparr>st_configs = [], st_ranges = [], st_nextRange = 1\<rparr>"
  have run: "AddIfMissing False False 7 [?r] ?st =
    (?st\<lparr>st_ranges := [?r\<lparr>tr_CreatedTS := 7, tr_ID := 1\<rparr>], st_nextRange := 2\<rparr>, Inr 1)"
    by (simp add: AddIfMissing_def to_insert_def existing_keys_def batch_ranges_def)
  from adding_ranges_is_idempotent [OF run, of False 9] show ?thesis by (simp add: run Let_def)
qed

end
