(* ===== verification/RealEmitter.thy ===== *)
theory RealEmitter
  imports RealMoney Positions TradeSettings
begin

text \<open>
  The emitter of real orders of the first version: sizing (\<open>internal/algorithms/kelly.go\<close>), the guards, the
  submission to the exchange with its retry at a marketable price, and what is written to the
  database (\<open>internal/algorithms/real_emitter.go\<close>), with the price of a fill as the exchange reports it
  (\<open>internal/kalshiclient/orders.go\<close>). The exchange's answers, the failures of database calls, the clock
  and the client order ids are inputs; the requests sent are recorded in order.
\<close>

section \<open>Sizing\<close>

definition kellySizeRaw :: "float64 \<Rightarrow> float64 \<Rightarrow> float64 \<Rightarrow> float64 \<Rightarrow> float64" where
  "kellySizeRaw convProb marketPrice bankroll kellyFraction =
     (if fle0 bankroll \<or> fle0 kellyFraction \<or> fle (Fin 1) marketPrice \<or> fle0 marketPrice then Fin 0
      else
        (let fKelly = fdiv (fsub convProb marketPrice) (fsub (Fin 1) marketPrice) in
         if fle0 fKelly then Fin 0 else fmul (fmul kellyFraction fKelly) bankroll))"

definition kellySize :: "float64 \<Rightarrow> float64 \<Rightarrow> float64 \<Rightarrow> float64 \<Rightarrow> float64" where
  "kellySize convProb marketPrice bankroll kellyFraction =
     (let sz = kellySizeRaw convProb marketPrice bankroll kellyFraction in
      if fle0 sz then Fin 0
      else (let maxSize = fdiv (Fin 5) marketPrice in if flt maxSize sz then maxSize else sz))"

text \<open>The whole contracts and the cents to spend.\<close>

definition sizeRealOrder :: "float64 \<Rightarrow> int \<Rightarrow> int \<Rightarrow> int \<times> int" where
  "sizeRealOrder kellyRaw priceCents balanceCents =
     (if priceCents \<le> 0 \<or> balanceCents \<le> 0 then (0, 0)
      else
     (let contracts = to_int64 (ffloor kellyRaw) in
      if contracts < 1 then (0, 0)
      else
     (let spendCents = wrap64 (contracts * priceCents) in
      if spendCents > balanceCents
      then
        (let maxContracts = balanceCents div priceCents in
         if maxContracts < 1 then (0, 0) else (maxContracts, wrap64 (maxContracts * priceCents)))
      else (contracts, spendCents))))"

section \<open>The exchange's messages\<close>

record RealOrderConfig =
  rc_Enabled :: bool
  rc_Environment :: string
  rc_TimeInForce :: string
  rc_OrderTimeoutS :: int

definition NewRealOrderConfig :: "string \<Rightarrow> string \<Rightarrow> int \<Rightarrow> RealOrderConfig" where
  "NewRealOrderConfig environment timeInForce timeoutS =
     \<lparr>rc_Enabled = True, rc_Environment = environment,
      rc_TimeInForce = (if timeInForce = [] then ''immediate_or_cancel'' else timeInForce),
      rc_OrderTimeoutS = (if timeoutS \<le> 0 then 10 else timeoutS)\<rparr>"

record createOrderV2Request =
  cq_Ticker :: string
  cq_ClientOrderID :: string
  cq_Side :: string
  cq_Count :: string
  cq_Price :: string
  cq_TimeInForce :: string
  cq_SelfTradePreventionType :: string
  cq_PostOnly :: bool
  cq_ReduceOnly :: bool
  cq_ExchangeIndex :: int

record createOrderV2Response =
  cs_OrderID :: string
  cs_FillCount :: string
  cs_RemainingCount :: string
  cs_TsMS :: int

datatype post_result = PostFailed string | PostAnswer createOrderV2Response

definition order_request :: "RealOrderConfig \<Rightarrow> Order \<Rightarrow> string \<Rightarrow> string \<Rightarrow> string \<Rightarrow> string \<Rightarrow> createOrderV2Request" where
  "order_request cfg ord side countStr priceStr clientOrderID =
     \<lparr>cq_Ticker = or_MarketTicker ord, cq_ClientOrderID = clientOrderID, cq_Side = side, cq_Count = countStr,
      cq_Price = priceStr, cq_TimeInForce = rc_TimeInForce cfg, cq_SelfTradePreventionType = ''taker_at_cross'',
      cq_PostOnly = False, cq_ReduceOnly = False, cq_ExchangeIndex = -1\<rparr>"

record OrderData =
  od_OrderID :: string
  od_Ticker :: string
  od_Status :: string
  od_FillCountFP :: string
  od_RemainingCountFP :: string
  od_InitialCountFP :: string
  od_YesPriceDollars :: string
  od_NoPriceDollars :: string
  od_TakerFeesDollars :: string
  od_MakerFeesDollars :: string
  od_TakerFillCostDollars :: string
  od_MakerFillCostDollars :: string

definition parsed :: "string \<Rightarrow> float64" where
  "parsed s = fst (ParseFloat s)"

definition FillPrice :: "bool \<Rightarrow> OrderData \<Rightarrow> float64" where
  "FillPrice isNO od =
     (let fc = parsed (od_FillCountFP od);
          total = fadd (fabs (parsed (od_TakerFillCostDollars od))) (fabs (parsed (od_TakerFeesDollars od)));
          yp = parsed (od_YesPriceDollars od) in
      if fpos fc \<and> fpos total then fdiv total fc
      else if fpos yp then (if isNO then fsub (Fin 1) yp else yp)
      else Fin 0)"

text \<open>\<open>None\<close> is a lookup that failed.\<close>

definition fetchFillPrice :: "OrderData option \<Rightarrow> string \<Rightarrow> bool \<Rightarrow> float64" where
  "fetchFillPrice lookup kalshiOrderID isNO =
     (if kalshiOrderID = [] then Fin 0
      else (case lookup of None \<Rightarrow> Fin 0 | Some od \<Rightarrow> FillPrice isNO od))"

text \<open>The status of an answered order, with the reason when it was canceled.\<close>

definition answer_status :: "float64 \<Rightarrow> float64 \<Rightarrow> string \<Rightarrow> string \<times> string" where
  "answer_status fillCount remainingCount zeroFillReason =
     (if remainingCount = Fin 0 \<and> fpos fillCount then (''filled'', [])
      else if fpos fillCount then (''partial'', [])
      else if remainingCount = Fin 0 then (''canceled'', zeroFillReason)
      else (''submitted'', []))"

section \<open>State and inputs\<close>

record real_sys =
  rs_db :: real_db
  rs_sent :: "createOrderV2Request list"

definition on_db :: "(real_db \<Rightarrow> real_db) \<Rightarrow> real_sys \<Rightarrow> real_sys" where
  "on_db f sys = sys\<lparr>rs_db := f (rs_db sys)\<rparr>"

text \<open>The database calls of one attempt, each with its own clock and failure.\<close>

datatype db_call = CPool | CPosition | CInsert | CDeduct | CMarkFailed | CCredit | CUpdate | CApply | CMarkNO | CLink

record attempt =
  at_fails :: "db_call \<Rightarrow> bool"
  at_now :: "db_call \<Rightarrow> int"
  at_uuid :: string
  at_post :: post_result
  at_lookup :: "OrderData option"

text \<open>The tables the guards read: of a market its event, player and scheduled start.\<close>

record market_row =
  mk_EventTicker :: string
  mk_PlayerName :: string
  mk_OccurrenceTS :: int

datatype guard_read = GMarket | GScore | GPoints | GTitle | GEnabled | GLimit | GCount | GHas | GPriceIn | GPool

record guard_env =
  ge_markets :: "string \<rightharpoonup> market_row"
  ge_scores :: "string \<rightharpoonup> string"
  ge_points :: "string \<Rightarrow> bool"
  ge_titles :: "string \<rightharpoonup> string"
  ge_settings :: settings
  ge_now :: int
  ge_fails :: "guard_read \<Rightarrow> bool"

record emission =
  em_guards :: guard_env
  em_first :: attempt
  em_retry :: attempt

section \<open>Guards\<close>

definition GetMarket :: "guard_env \<Rightarrow> string \<Rightarrow> market_row option" where
  "GetMarket ge marketTicker = (if ge_fails ge GMarket then None else ge_markets ge marketTicker)"

definition GetEventTitle :: "guard_env \<Rightarrow> string \<Rightarrow> string option" where
  "GetEventTitle ge eventTicker =
     (if ge_fails ge GTitle then None
      else Some (case ge_titles ge eventTicker of None \<Rightarrow> [] | Some title \<Rightarrow> title))"

text \<open>A market before its scheduled start is tradable when the live data or a point says the match runs.\<close>

definition match_live :: "guard_env \<Rightarrow> market_row \<Rightarrow> bool" where
  "match_live ge mkt \<longleftrightarrow>
     \<not> (mk_OccurrenceTS mkt > 0 \<and> ge_now ge < mk_OccurrenceTS mkt) \<or>
     (\<not> ge_fails ge GScore \<and> ge_scores ge (mk_EventTicker mkt) = Some ''started'') \<or>
     (\<not> ge_fails ge GPoints \<and> ge_points ge (mk_EventTicker mkt))"

definition describe_order :: "guard_env \<Rightarrow> market_row \<Rightarrow> Order \<Rightarrow> Order" where
  "describe_order ge mkt ord =
     (let o1 = ord\<lparr>or_PlayerName := mk_PlayerName mkt\<rparr> in
      case GetEventTitle ge (mk_EventTicker mkt) of None \<Rightarrow> o1 | Some title \<Rightarrow> o1\<lparr>or_MatchTitle := title\<rparr>)"

definition strategy_on :: "guard_env \<Rightarrow> string \<Rightarrow> bool" where
  "strategy_on ge strategy \<longleftrightarrow> IsEnabled (ge_fails ge GEnabled) strategy (ge_settings ge) = Inr True"

definition below_limit :: "guard_env \<Rightarrow> Order \<Rightarrow> real_db \<Rightarrow> bool" where
  "below_limit ge ord db =
     (case GetLimit (ge_fails ge GLimit) (or_Strategy ord) (ge_settings ge) of
        Inl e \<Rightarrow> False
      | Inr maxOrders \<Rightarrow>
          \<not> maxOrders > 0 \<or>
          (\<not> ge_fails ge GCount \<and> \<not> CountRealOrdersByMarketStrategy (or_MarketTicker ord) (or_Strategy ord) db \<ge> maxOrders))"

definition price_allowed :: "guard_env \<Rightarrow> Order \<Rightarrow> bool" where
  "price_allowed ge ord =
     (case Has (ge_fails ge GHas) (or_Strategy ord) (ge_settings ge) of
        Inl e \<Rightarrow> False
      | Inr hasBands \<Rightarrow>
          \<not> hasBands \<or> IsPriceIn (ge_fails ge GPriceIn) (or_Strategy ord) (or_MarketPrice ord) (ge_settings ge) = Inr True)"

text \<open>The guards of both kinds of purchase: the described order and the balance of the pool.\<close>

definition buy_guards :: "guard_env \<Rightarrow> Order \<Rightarrow> real_db \<Rightarrow> (Order \<times> int) option" where
  "buy_guards ge ord db =
     (case GetMarket ge (or_MarketTicker ord) of
        None \<Rightarrow> None
      | Some mkt \<Rightarrow>
          (if \<not> match_live ge mkt then None
           else if \<not> strategy_on ge (or_Strategy ord) then None
           else if \<not> below_limit ge ord db then None
           else if \<not> price_allowed ge ord then None
           else
             (case Pool_Get (ge_fails ge GPool) db of
                Inl e \<Rightarrow> None
              | Inr lp \<Rightarrow>
                  (if lp_BalanceCents lp \<le> 0 then None
                   else Some (describe_order ge mkt ord, lp_BalanceCents lp)))))"

definition size_buy :: "float64 \<Rightarrow> Order \<Rightarrow> int \<Rightarrow> int \<times> int" where
  "size_buy kellyFractionP ord balanceCents =
     sizeRealOrder
       (kellySizeRaw (or_ConvProb ord) (or_MarketPrice ord) (fdiv (of_int64 balanceCents) (Fin 100)) kellyFractionP)
       (to_int64 (fround_away (fmul (or_MarketPrice ord) (Fin 100)))) balanceCents"

section \<open>Purchases\<close>

text \<open>How posting a purchase ends: the request failed, the answer was not understood (with the fill
  count so far understood), or it was processed with a status and a reason.\<close>

datatype purchase_end = PostError | Unverified float64 | Processed float64 string string

definition reason_prefix :: "bool \<Rightarrow> string" where
  "reason_prefix isNO = (if isNO then ''buy_no_'' else [])"

definition link_position :: "attempt \<Rightarrow> int \<Rightarrow> real_db \<times> (string + int) \<Rightarrow> real_db" where
  "link_position att orderID r =
     (case r of
        (db, Inl e) \<Rightarrow> db
      | (db, Inr posID) \<Rightarrow>
          (if at_fails att CLink then db else change_order orderID (\<lambda>row. row\<lparr>or_PositionID := Some posID\<rparr>) db))"

definition apply_purchase :: "bool \<Rightarrow> attempt \<Rightarrow> Order \<Rightarrow> float64 \<Rightarrow> float64 \<Rightarrow> real_db \<Rightarrow> real_db" where
  "apply_purchase isNO att ord fillCount fillPrice db =
     (if \<not> fpos fillCount then db
      else
        (let entryPrice = (if fle0 fillPrice then or_MarketPrice ord else fillPrice) in
         link_position att (or_ID ord)
           (if isNO
            then ApplyBuyNO (at_fails att CApply) (at_fails att CMarkNO) (at_now att CApply) (or_MatchTicker ord)
                   (or_MarketTicker ord) (or_Strategy ord) True fillCount entryPrice db
            else ApplyBuy (at_fails att CApply) (at_now att CApply) (or_MatchTicker ord)
                   (or_MarketTicker ord) (or_Strategy ord) True fillCount entryPrice db)))"

definition update_order :: "attempt \<Rightarrow> int \<Rightarrow> string \<Rightarrow> float64 \<Rightarrow> float64 \<Rightarrow> string \<Rightarrow> string \<Rightarrow> real_db \<Rightarrow> real_db" where
  "update_order att orderID kalshiOrderID fillCount fillPrice status reason db =
     fst (UpdateRealOrder (at_fails att CUpdate) (at_now att CUpdate) orderID kalshiOrderID fillCount fillPrice status reason db)"

definition process_purchase ::
  "bool \<Rightarrow> attempt \<Rightarrow> Order \<Rightarrow> createOrderV2Response \<Rightarrow> string \<Rightarrow> real_db \<Rightarrow> real_db \<times> purchase_end" where
  "process_purchase isNO att ord resp zeroFillReason db =
     (case ParseFloat (cs_FillCount resp) of
        (_, False) \<Rightarrow>
          (update_order att (or_ID ord) (cs_OrderID resp) (Fin 0) (Fin 0) ''unverified''
             (reason_prefix isNO @ ''unparseable_fill_count: '' @ cs_FillCount resp) db, Unverified (Fin 0))
      | (fillCount, True) \<Rightarrow>
          (case ParseFloat (cs_RemainingCount resp) of
             (_, False) \<Rightarrow>
               (update_order att (or_ID ord) (cs_OrderID resp) fillCount (Fin 0) ''unverified''
                  (reason_prefix isNO @ ''unparseable_remaining_count: '' @ cs_RemainingCount resp) db, Unverified fillCount)
           | (remainingCount, True) \<Rightarrow>
               (let (status, cancelReason) = answer_status fillCount remainingCount zeroFillReason;
                    fillPrice = (if fpos fillCount then fetchFillPrice (at_lookup att) (cs_OrderID resp) isNO else Fin 0);
                    db1 = update_order att (or_ID ord) (cs_OrderID resp) fillCount fillPrice status cancelReason db in
                (apply_purchase isNO att ord fillCount fillPrice db1, Processed fillCount status cancelReason))))"

definition submit_purchase ::
  "RealOrderConfig \<Rightarrow> bool \<Rightarrow> attempt \<Rightarrow> Order \<Rightarrow> int \<Rightarrow> string \<Rightarrow> string \<Rightarrow> real_sys \<Rightarrow> real_sys \<times> purchase_end" where
  "submit_purchase cfg isNO att ord contracts priceStr zeroFillReason sys =
     (let req = order_request cfg ord (if isNO then ''ask'' else ''bid'') (show_int contracts) priceStr (at_uuid att);
          sys1 = sys\<lparr>rs_sent := rs_sent sys @ [req]\<rparr> in
      case at_post att of
        PostFailed e \<Rightarrow>
          (on_db (\<lambda>db. fst (MarkRealOrderFailed (at_fails att CMarkFailed) (at_now att CMarkFailed) (or_ID ord)
             (reason_prefix isNO @ ''submit_failed: '' @ e) db)) sys1, PostError)
      | PostAnswer resp \<Rightarrow>
          (case process_purchase isNO att ord resp zeroFillReason (rs_db sys1) of
             (db1, pend) \<Rightarrow> (sys1\<lparr>rs_db := db1\<rparr>, pend)))"

text \<open>\<open>submitBuyToKalshi\<close>: fill count, whether it may be retried, whether it was submitted.\<close>

fun purchase_result :: "purchase_end \<Rightarrow> float64 \<times> bool \<times> bool" where
  "purchase_result PostError = (Fin 0, False, False)"
| "purchase_result (Unverified fillCount) = (fillCount, False, True)"
| "purchase_result (Processed fillCount status cancelReason) =
     (fillCount, status = ''canceled'' \<and> cancelReason \<noteq> [], True)"

definition submitBuyToKalshi ::
  "RealOrderConfig \<Rightarrow> attempt \<Rightarrow> Order \<Rightarrow> int \<Rightarrow> string \<Rightarrow> string \<Rightarrow> real_sys \<Rightarrow> real_sys \<times> float64 \<times> bool \<times> bool" where
  "submitBuyToKalshi cfg att ord contracts priceStr zeroFillReason sys =
     (case submit_purchase cfg False att ord contracts priceStr zeroFillReason sys of
        (sys1, pend) \<Rightarrow> (sys1, purchase_result pend))"

text \<open>The order row and the debit of the pool, before anything is sent.\<close>

definition insert_and_deduct :: "attempt \<Rightarrow> string \<Rightarrow> Order \<Rightarrow> int \<Rightarrow> real_sys \<Rightarrow> real_sys \<times> Order option" where
  "insert_and_deduct att failReason ord spendCents sys =
     (case InsertRealOrder (at_fails att CInsert) ord (rs_db sys) of
        (db1, Inl e) \<Rightarrow> (sys\<lparr>rs_db := db1\<rparr>, None)
      | (db1, Inr orderID) \<Rightarrow>
          (case Pool_Deduct (at_fails att CDeduct) (at_now att CDeduct) spendCents db1 of
             (db2, Inl e) \<Rightarrow>
               (sys\<lparr>rs_db := fst (MarkRealOrderFailedNoRefund (at_fails att CMarkFailed) (at_now att CMarkFailed) orderID
                  (failReason @ e) db2)\<rparr>, None)
           | (db2, Inr newBalance) \<Rightarrow> (sys\<lparr>rs_db := db2\<rparr>, Some (ord\<lparr>or_ID := orderID\<rparr>))))"

definition retryBuyAsMarket :: "RealOrderConfig \<Rightarrow> attempt \<Rightarrow> Order \<Rightarrow> int \<Rightarrow> real_sys \<Rightarrow> real_sys \<times> float64" where
  "retryBuyAsMarket cfg att ord contracts sys =
     (case Pool_Get (at_fails att CPool) (rs_db sys) of
        Inl e \<Rightarrow> (sys, Fin 0)
      | Inr lp \<Rightarrow>
          (if lp_BalanceCents lp \<le> 0 then (sys, Fin 0)
           else
          (let maxPrice = fmin (flit (99 / 100))
                 (fdiv (fdiv (of_int64 (lp_BalanceCents lp)) (of_int64 contracts)) (Fin 100)) in
           if flt maxPrice (flit (1 / 100)) then (sys, Fin 0)
           else
          (let retryPriceCents = to_int64 (ffloor (fmul maxPrice (Fin 100))) in
           if retryPriceCents < 1 then (sys, Fin 0)
           else
          (let retryPrice = fdiv (of_int64 retryPriceCents) (Fin 100);
               retrySpendCents = wrap64 (contracts * retryPriceCents);
               o1 = ord\<lparr>or_ID := 0, or_OrderStatus := ''pending'', or_MarketPrice := retryPrice\<rparr> in
           case insert_and_deduct att ''market_retry_pool_deduct_failed: '' o1 retrySpendCents sys of
             (sys1, None) \<Rightarrow> (sys1, Fin 0)
           | (sys1, Some o2) \<Rightarrow>
               (case submitBuyToKalshi cfg att o2 contracts (format4f retryPrice) ''market_retry_zero_fill'' sys1 of
                  (sys2, fillCount, _) \<Rightarrow> (sys2, fillCount)))))))"

definition emitBuy :: "RealOrderConfig \<Rightarrow> float64 \<Rightarrow> emission \<Rightarrow> Order \<Rightarrow> real_sys \<Rightarrow> real_sys \<times> bool" where
  "emitBuy cfg kellyFractionP em ord sys =
     (case buy_guards (em_guards em) ord (rs_db sys) of
        None \<Rightarrow> (sys, False)
      | Some (o1, balanceCents) \<Rightarrow>
     (let (contracts, spendCents) = size_buy kellyFractionP o1 balanceCents in
      if contracts < 1 then (sys, False)
      else
     (let o2 = o1\<lparr>or_IsReal := True, or_OrderStatus := ''pending'', or_SuggestedSize := of_int64 contracts,
                  or_Action := ''buy'', or_Side := (if or_Side o1 = [] then OrderSideOpen else or_Side o1)\<rparr> in
      case insert_and_deduct (em_first em) ''pool_deduct_failed: '' o2 spendCents sys of
        (sys1, None) \<Rightarrow> (sys1, False)
      | (sys1, Some o3) \<Rightarrow>
          (case submitBuyToKalshi cfg (em_first em) o3 contracts (format4f (or_MarketPrice o3)) ''ioc_zero_fill'' sys1 of
             (sys2, fillCount, zeroFill, submitted) \<Rightarrow>
               (if \<not> submitted then (sys2, False)
                else
               (let (sys3, fillCount1) =
                      (if zeroFill then retryBuyAsMarket cfg (em_retry em) o3 contracts sys2 else (sys2, fillCount)) in
                if or_PairID o3 \<noteq> [] \<and> fillCount1 = Fin 0 then (sys3, False) else (sys3, True)))))))"

definition emitBuyNO :: "RealOrderConfig \<Rightarrow> float64 \<Rightarrow> emission \<Rightarrow> Order \<Rightarrow> real_sys \<Rightarrow> real_sys \<times> bool" where
  "emitBuyNO cfg kellyFractionP em ord sys =
     (case buy_guards (em_guards em) ord (rs_db sys) of
        None \<Rightarrow> (sys, False)
      | Some (o1, balanceCents) \<Rightarrow>
     (let (contracts, spendCents) = size_buy kellyFractionP o1 balanceCents in
      if contracts < 1 then (sys, False)
      else
     (let o2 = o1\<lparr>or_IsReal := True, or_OrderStatus := ''pending'', or_SuggestedSize := of_int64 contracts,
                  or_Action := ''buy_no'', or_Side := OrderSideOpen\<rparr> in
      case insert_and_deduct (em_first em) ''buy_no_pool_deduct_failed: '' o2 spendCents sys of
        (sys1, None) \<Rightarrow> (sys1, False)
      | (sys1, Some o3) \<Rightarrow>
          (case submit_purchase cfg True (em_first em) o3 contracts (format4f (or_MarketPrice o3)) ''buy_no_ioc_zero_fill'' sys1 of
             (sys2, PostError) \<Rightarrow> (sys2, False)
           | (sys2, Unverified _) \<Rightarrow> (sys2, True)
           | (sys2, Processed fillCount _ _) \<Rightarrow>
               (if or_PairID o3 \<noteq> [] \<and> fillCount = Fin 0 then (sys2, False) else (sys2, True))))))"

section \<open>Sales\<close>

definition open_contracts :: "Position \<Rightarrow> float64" where
  "open_contracts pos = fsub (po_FilledBuyCount pos) (po_FilledSellCount pos)"

definition apply_sale :: "attempt \<Rightarrow> Order \<Rightarrow> float64 \<Rightarrow> float64 \<Rightarrow> real_db \<Rightarrow> real_db" where
  "apply_sale att ord fillCount fillPrice db =
     (if \<not> fpos fillCount then db
      else
        (let exitPrice = (if fle0 fillPrice then or_MarketPrice ord else fillPrice) in
         fst (ApplySell (at_fails att CApply) (at_now att CApply) (or_MatchTicker ord) (or_MarketTicker ord)
           (or_Strategy ord) True fillCount exitPrice db)))"

definition credit_sale :: "attempt \<Rightarrow> Order \<Rightarrow> float64 \<Rightarrow> real_db \<Rightarrow> real_db" where
  "credit_sale att ord fillCount db =
     (if \<not> fpos fillCount then db
      else fst (Pool_Credit (at_fails att CCredit) (at_now att CCredit) (cents_of fillCount (or_MarketPrice ord)) db))"

definition process_sale ::
  "attempt \<Rightarrow> Order \<Rightarrow> createOrderV2Response \<Rightarrow> string \<Rightarrow> real_db \<Rightarrow> real_db \<times> float64 \<times> bool \<times> bool" where
  "process_sale att ord resp zeroFillReason db =
     (case ParseFloat (cs_FillCount resp) of
        (_, False) \<Rightarrow>
          (update_order att (or_ID ord) (cs_OrderID resp) (Fin 0) (Fin 0) ''unverified''
             (''sell_unparseable_fill_count: '' @ cs_FillCount resp) db, Fin 0, False, True)
      | (fillCount, True) \<Rightarrow>
          (case ParseFloat (cs_RemainingCount resp) of
             (_, False) \<Rightarrow>
               (update_order att (or_ID ord) (cs_OrderID resp) fillCount (Fin 0) ''unverified''
                  (''sell_unparseable_remaining_count: '' @ cs_RemainingCount resp) db, fillCount, False, True)
           | (remainingCount, True) \<Rightarrow>
               (let (status, cancelReason) = answer_status fillCount remainingCount zeroFillReason;
                    fillPrice = (if fpos fillCount then fetchFillPrice (at_lookup att) (cs_OrderID resp) False else Fin 0);
                    db1 = credit_sale att ord fillCount db;
                    db2 = update_order att (or_ID ord) (cs_OrderID resp) fillCount fillPrice status cancelReason db1 in
                (apply_sale att ord fillCount fillPrice db2, fillCount, status = ''canceled'' \<and> cancelReason \<noteq> [], True))))"

definition submitSellToKalshi ::
  "RealOrderConfig \<Rightarrow> attempt \<Rightarrow> Order \<Rightarrow> float64 \<Rightarrow> string \<Rightarrow> string \<Rightarrow> real_sys \<Rightarrow> real_sys \<times> float64 \<times> bool \<times> bool" where
  "submitSellToKalshi cfg att ord count priceStr zeroFillReason sys =
     (let req = order_request cfg ord ''ask'' (format2f count) priceStr (at_uuid att);
          sys1 = sys\<lparr>rs_sent := rs_sent sys @ [req]\<rparr> in
      case at_post att of
        PostFailed e \<Rightarrow>
          (on_db (\<lambda>db. fst (MarkRealOrderFailedNoRefund (at_fails att CMarkFailed) (at_now att CMarkFailed) (or_ID ord)
             (''sell_submit_failed: '' @ e) db)) sys1, Fin 0, False, False)
      | PostAnswer resp \<Rightarrow>
          (case process_sale att ord resp zeroFillReason (rs_db sys1) of (db1, r) \<Rightarrow> (sys1\<lparr>rs_db := db1\<rparr>, r)))"

text \<open>The number of contracts to sell: the hint, within what is open, at least one.\<close>

definition clamp_count :: "float64 \<Rightarrow> float64" where
  "clamp_count count = (if flt count (Fin 1) then Fin 1 else count)"

definition retrySellAsMarket :: "RealOrderConfig \<Rightarrow> attempt \<Rightarrow> Order \<Rightarrow> float64 \<Rightarrow> real_sys \<Rightarrow> real_sys \<times> float64" where
  "retrySellAsMarket cfg att ord count0 sys =
     (case GetOpenForStrategy (at_fails att CPosition) (or_MarketTicker ord) (or_Strategy ord) True (rs_db sys) of
        Inl e \<Rightarrow> (sys, Fin 0)
      | Inr None \<Rightarrow> (sys, Fin 0)
      | Inr (Some pos) \<Rightarrow>
     (let openContracts = open_contracts pos in
      if fle0 openContracts then (sys, Fin 0)
      else
     (let count = clamp_count (if flt openContracts count0 then openContracts else count0);
          retryPrice = flit (1 / 100);
          o1 = ord\<lparr>or_ID := 0, or_OrderStatus := ''pending'', or_SuggestedSize := count, or_MarketPrice := retryPrice,
                   or_PositionID := Some (po_ID pos)\<rparr> in
      case InsertRealOrder (at_fails att CInsert) o1 (rs_db sys) of
        (db1, Inl e) \<Rightarrow> (sys\<lparr>rs_db := db1\<rparr>, Fin 0)
      | (db1, Inr orderID) \<Rightarrow>
          (case submitSellToKalshi cfg att (o1\<lparr>or_ID := orderID\<rparr>) count (format4f retryPrice) ''sell_market_retry_zero_fill''
             (sys\<lparr>rs_db := db1\<rparr>) of
             (sys2, fillCount, _) \<Rightarrow> (sys2, fillCount)))))"

definition emitSell :: "RealOrderConfig \<Rightarrow> emission \<Rightarrow> Order \<Rightarrow> real_sys \<Rightarrow> real_sys \<times> bool" where
  "emitSell cfg em ord sys =
     (case GetMarket (em_guards em) (or_MarketTicker ord) of
        None \<Rightarrow> (sys, False)
      | Some mkt \<Rightarrow>
     (let o1 = describe_order (em_guards em) mkt ord; att = em_first em in
      if \<not> strategy_on (em_guards em) (or_Strategy o1) then (sys, False)
      else
     (case GetOpenForStrategy (at_fails att CPosition) (or_MarketTicker o1) (or_Strategy o1) True (rs_db sys) of
        Inl e \<Rightarrow> (sys, False)
      | Inr None \<Rightarrow> (sys, False)
      | Inr (Some pos) \<Rightarrow>
     (let openContracts = open_contracts pos in
      if fle0 openContracts then (sys, False)
      else
     (let count0 = or_SuggestedSize o1;
          count = clamp_count (if fle0 count0 \<or> flt openContracts count0 then openContracts else count0);
          o2 = o1\<lparr>or_IsReal := True, or_OrderStatus := ''pending'', or_SuggestedSize := count, or_Action := ''sell'',
                  or_Side := OrderSideClose, or_PositionID := Some (po_ID pos)\<rparr> in
      case InsertRealOrder (at_fails att CInsert) o2 (rs_db sys) of
        (db1, Inl e) \<Rightarrow> (sys\<lparr>rs_db := db1\<rparr>, False)
      | (db1, Inr orderID) \<Rightarrow>
          (let o3 = o2\<lparr>or_ID := orderID\<rparr> in
           case submitSellToKalshi cfg att o3 count (format4f (or_MarketPrice o3)) ''sell_ioc_zero_fill'' (sys\<lparr>rs_db := db1\<rparr>) of
             (sys2, _, zeroFill, submitted) \<Rightarrow>
               (if \<not> submitted then (sys2, False)
                else if zeroFill then (fst (retrySellAsMarket cfg (em_retry em) o3 count sys2), True)
                else (sys2, True))))))))"

definition EmitOrder :: "RealOrderConfig \<Rightarrow> float64 \<Rightarrow> emission \<Rightarrow> Order \<Rightarrow> real_sys \<Rightarrow> real_sys \<times> bool" where
  "EmitOrder cfg kellyFractionP em ord sys =
     (if \<not> rc_Enabled cfg then (sys, False)
      else if or_Action ord = ''sell'' \<or> or_Side ord = OrderSideClose then emitSell cfg em ord sys
      else if or_Action ord = ''buy_no'' then emitBuyNO cfg kellyFractionP em ord sys
      else emitBuy cfg kellyFractionP em ord sys)"

end
