(* ===== verification/RealTrading.thy ===== *)
theory RealTrading
  imports RealEmitter
begin

text \<open>
  What the emitter of real orders guarantees whatever the exchange answers and whichever database calls
  fail: nothing is sent unless the settings, the match and the pool allow it, the pool never goes
  below zero, a purchase costs what was filled up to two cents of rounding, a sale never offers more than is
  open, and a paired order only reports success when contracts were bought.
\<close>

section \<open>What is sent\<close>

lemma on_db_sent [simp]: "rs_sent (on_db f sys) = rs_sent sys"
  by (simp add: on_db_def)

lemma on_db_db [simp]: "rs_db (on_db f sys) = f (rs_db sys)"
  by (simp add: on_db_def)

lemma insert_and_deduct_sent: "insert_and_deduct att e ord spend sys = (sys1, r) \<Longrightarrow> rs_sent sys1 = rs_sent sys"
  by (auto simp: insert_and_deduct_def split: prod.splits sum.splits)

lemma submit_purchase_sent:
  "submit_purchase cfg isNO att ord n p e sys = (sys1, r) \<Longrightarrow>
     rs_sent sys1 = rs_sent sys @ [order_request cfg ord (if isNO then ''ask'' else ''bid'') (show_int n) p (at_uuid att)]"
  by (auto simp: submit_purchase_def Let_def split: post_result.splits prod.splits)

lemma submitSell_sent:
  "submitSellToKalshi cfg att ord n p e sys = (sys1, r) \<Longrightarrow>
     rs_sent sys1 = rs_sent sys @ [order_request cfg ord ''ask'' (format2f n) p (at_uuid att)]"
  by (auto simp: submitSellToKalshi_def Let_def split: post_result.splits prod.splits)

definition is_sale :: "Order \<Rightarrow> bool" where
  "is_sale ord \<longleftrightarrow> or_Action ord = ''sell'' \<or> or_Side ord = ''close''"

lemma strategy_onD:
  "strategy_on ge s \<Longrightarrow> \<exists>e. find_config s (ge_settings ge) = Some e \<and> sc_Enabled e"
  by (auto simp: strategy_on_def IsEnabled_def split: if_split_asm option.splits)

lemma price_allowedD:
  "price_allowed ge ord \<Longrightarrow> ranges_of (or_Strategy ord) (ge_settings ge) = [] \<or>
     (\<exists>r \<in> set (ranges_of (or_Strategy ord) (ge_settings ge)). in_range (or_MarketPrice ord) r)"
  by (auto simp: price_allowed_def Has_def IsPriceIn_def filter_empty_conv split: if_split_asm)

definition clear_to_buy :: "guard_env \<Rightarrow> Order \<Rightarrow> real_db \<Rightarrow> bool" where
  "clear_to_buy ge ord db \<longleftrightarrow>
     (\<exists>mkt e. ge_markets ge (or_MarketTicker ord) = Some mkt \<and> match_live ge mkt \<and>
        find_config (or_Strategy ord) (ge_settings ge) = Some e \<and> sc_Enabled e \<and>
        (sc_PerMarketMaxOrders e \<le> 0 \<or>
         CountRealOrdersByMarketStrategy (or_MarketTicker ord) (or_Strategy ord) db < sc_PerMarketMaxOrders e) \<and>
        (ranges_of (or_Strategy ord) (ge_settings ge) = [] \<or>
         (\<exists>r \<in> set (ranges_of (or_Strategy ord) (ge_settings ge)). in_range (or_MarketPrice ord) r)) \<and>
        0 < pool_cents db)"

lemma buy_guards_clear:
  assumes "buy_guards ge ord db = Some (o1, b)"
  shows "clear_to_buy ge ord db" "b = pool_cents db" "0 < b"
    "\<exists>mkt. ge_markets ge (or_MarketTicker ord) = Some mkt \<and> o1 = describe_order ge mkt ord"
proof -
  from assms obtain mkt lp where g: "ge_markets ge (or_MarketTicker ord) = Some mkt" "match_live ge mkt"
    "strategy_on ge (or_Strategy ord)" "below_limit ge ord db" "price_allowed ge ord" "rd_pool db = Some lp"
    "0 < lp_BalanceCents lp" "b = lp_BalanceCents lp" "o1 = describe_order ge mkt ord"
    by (auto simp: buy_guards_def GetMarket_def Pool_Get_def split: option.splits if_split_asm)
  from strategy_onD [OF g(3)] obtain e where e: "find_config (or_Strategy ord) (ge_settings ge) = Some e" "sc_Enabled e" by blast
  have "sc_PerMarketMaxOrders e \<le> 0 \<or>
    CountRealOrdersByMarketStrategy (or_MarketTicker ord) (or_Strategy ord) db < sc_PerMarketMaxOrders e"
    using g(4) e(1) by (auto simp: below_limit_def GetLimit_def split: if_split_asm)
  with g(1,2,6,7) e price_allowedD [OF g(5)] show "clear_to_buy ge ord db"
    by (auto simp: clear_to_buy_def pool_cents_def)
  show "b = pool_cents db" "0 < b" using g by (simp_all add: pool_cents_def)
  show "\<exists>mkt. ge_markets ge (or_MarketTicker ord) = Some mkt \<and> o1 = describe_order ge mkt ord" using g by blast
qed

lemma retryBuy_sent:
  assumes "retryBuyAsMarket cfg att ord n sys = (sys1, f)"
  shows "\<exists>rs. rs_sent sys1 = rs_sent sys @ rs \<and> length rs \<le> 1"
proof (cases "rs_sent sys1 = rs_sent sys")
  case False
  with assms show ?thesis
    by (auto simp: retryBuyAsMarket_def submitBuyToKalshi_def Let_def
        dest!: insert_and_deduct_sent submit_purchase_sent split: sum.splits if_split_asm prod.splits option.splits)
qed simp

lemma emitBuy_sent:
  assumes "emitBuy cfg kf em ord sys = (sys', b)"
  shows "rs_sent sys' = rs_sent sys \<or>
    clear_to_buy (em_guards em) ord (rs_db sys) \<and> length (rs_sent sys') \<le> length (rs_sent sys) + 2"
proof (cases "buy_guards (em_guards em) ord (rs_db sys)")
  case None
  then show ?thesis using assms by (simp add: emitBuy_def)
next
  case (Some r)
  obtain o1 bal where r: "r = (o1, bal)" by (cases r)
  obtain n sp where sz: "size_buy kf o1 bal = (n, sp)" by fastforce
  show ?thesis
    using assms Some buy_guards_clear(1) [OF Some [unfolded r]]
    by (auto simp: emitBuy_def submitBuyToKalshi_def r sz Let_def
        dest!: insert_and_deduct_sent submit_purchase_sent retryBuy_sent split: if_split_asm prod.splits option.splits)
qed

lemma emitBuyNO_sent:
  assumes "emitBuyNO cfg kf em ord sys = (sys', b)"
  shows "rs_sent sys' = rs_sent sys \<or>
    clear_to_buy (em_guards em) ord (rs_db sys) \<and> length (rs_sent sys') \<le> length (rs_sent sys) + 2"
proof (cases "buy_guards (em_guards em) ord (rs_db sys)")
  case None
  then show ?thesis using assms by (simp add: emitBuyNO_def)
next
  case (Some r)
  obtain o1 bal where r: "r = (o1, bal)" by (cases r)
  obtain n sp where sz: "size_buy kf o1 bal = (n, sp)" by fastforce
  show ?thesis
    using assms Some buy_guards_clear(1) [OF Some [unfolded r]]
    by (auto simp: emitBuyNO_def r sz Let_def
        dest!: insert_and_deduct_sent submit_purchase_sent split: if_split_asm prod.splits option.splits purchase_end.splits)
qed

lemma retrySell_sent:
  assumes "retrySellAsMarket cfg att ord n sys = (sys1, f)"
  shows "\<exists>rs. rs_sent sys1 = rs_sent sys @ rs \<and> length rs \<le> 1"
  using assms
  by (auto simp: retrySellAsMarket_def Let_def dest!: submitSell_sent split: sum.splits if_split_asm prod.splits option.splits)

lemma retrySell_sent': "length (rs_sent (fst (retrySellAsMarket cfg att ord n sys))) \<le> length (rs_sent sys) + 1"
  using retrySell_sent [of cfg att ord n sys] by (cases "retrySellAsMarket cfg att ord n sys") auto

lemma describe_keeps [simp]:
  "or_Strategy (describe_order ge mkt ord) = or_Strategy ord" "or_MarketTicker (describe_order ge mkt ord) = or_MarketTicker ord"
  "or_MatchTicker (describe_order ge mkt ord) = or_MatchTicker ord" "or_MarketPrice (describe_order ge mkt ord) = or_MarketPrice ord"
  "or_ConvProb (describe_order ge mkt ord) = or_ConvProb ord" "or_SuggestedSize (describe_order ge mkt ord) = or_SuggestedSize ord"
  "or_PairID (describe_order ge mkt ord) = or_PairID ord" "or_Side (describe_order ge mkt ord) = or_Side ord"
  "or_ID (describe_order ge mkt ord) = or_ID ord" "or_UnfilledRefundedCents (describe_order ge mkt ord) = or_UnfilledRefundedCents ord"
  "or_FillPrice (describe_order ge mkt ord) = or_FillPrice ord"
  by (simp_all add: describe_order_def Let_def split: option.split)

lemma emitSell_sent:
  assumes "emitSell cfg em ord sys = (sys', b)"
  shows "rs_sent sys' = rs_sent sys \<or>
    (\<exists>e. find_config (or_Strategy ord) (ge_settings (em_guards em)) = Some e \<and> sc_Enabled e) \<and>
    length (rs_sent sys') \<le> length (rs_sent sys) + 2"
proof (cases "GetMarket (em_guards em) (or_MarketTicker ord)")
  case None
  then show ?thesis using assms by (simp add: emitSell_def)
next
  case (Some mkt)
  have len: "length (rs_sent sys') \<le> length (rs_sent sys) + 2"
    using assms Some
    by (auto simp: emitSell_def Let_def dest!: submitSell_sent intro!: order_trans [OF retrySell_sent']
        split: if_split_asm sum.splits option.splits prod.splits)
  show ?thesis
  proof (cases "strategy_on (em_guards em) (or_Strategy ord)")
    case False
    then show ?thesis using assms Some by (simp add: emitSell_def Let_def)
  next
    case True
    then show ?thesis using len strategy_onD [OF True] by blast
  qed
qed

text \<open>
  C28. Nothing is sent to the exchange unless it may be: if an emitted order leads to a request, then live orders are
  configured, the strategy is switched on, and, for a purchase, the match is running, the
  strategy is below its limit for the market, the price is in an enabled range when the strategy has any,
  and the pool holds money. One order leads to two requests at most.
\<close>

theorem requests_only_when_cleared:
  assumes "EmitOrder cfg kf em ord sys = (sys', b)" "rs_sent sys' \<noteq> rs_sent sys"
  shows "rc_Enabled cfg \<and> length (rs_sent sys') \<le> length (rs_sent sys) + 2 \<and>
    (\<exists>e. find_config (or_Strategy ord) (ge_settings (em_guards em)) = Some e \<and> sc_Enabled e) \<and>
    (is_sale ord \<or> clear_to_buy (em_guards em) ord (rs_db sys))"
proof -
  have en: "rc_Enabled cfg" using assms by (auto simp: EmitOrder_def split: if_split_asm)
  have cl: "\<exists>e. find_config (or_Strategy ord) (ge_settings (em_guards em)) = Some e \<and> sc_Enabled e"
    if "clear_to_buy (em_guards em) ord (rs_db sys)" using that by (auto simp: clear_to_buy_def)
  show ?thesis
    using assms en cl emitBuy_sent [of cfg kf em ord sys sys' b] emitBuyNO_sent [of cfg kf em ord sys sys' b]
      emitSell_sent [of cfg em ord sys sys' b]
    by (auto simp: EmitOrder_def is_sale_def split: if_split_asm)
qed

section \<open>The pool stays above zero\<close>

definition pool_ok :: "real_db \<Rightarrow> bool" where
  "pool_ok db \<longleftrightarrow> 0 \<le> pool_cents db"

lemma update_pool_ok:
  assumes "update_pool f cond change db = (db1, u)" "pool_ok db"
    "\<And>lp. rd_pool db = Some lp \<Longrightarrow> cond lp \<Longrightarrow> 0 \<le> lp_BalanceCents lp \<Longrightarrow> 0 \<le> lp_BalanceCents (change lp)"
  shows "pool_ok db1"
  using assms by (auto simp: update_pool_def pool_ok_def pool_cents_def Let_def split: if_split_asm option.splits)

lemma Deduct_pool_ok: "pool_ok db \<Longrightarrow> pool_ok (fst (Pool_Deduct f now sp db))"
  using update_pool_ok [of f "\<lambda>lp. lp_BalanceCents lp \<ge> sp" "\<lambda>lp. lp\<lparr>lp_BalanceCents := lp_BalanceCents lp - sp,
           lp_TotalSpentCents := lp_TotalSpentCents lp + sp, lp_UpdatedTS := now\<rparr>" db]
  by (auto simp: Pool_Deduct_def split: prod.splits pool_update.splits)

lemma Credit_pool_ok: "pool_ok db \<Longrightarrow> 0 \<le> c \<Longrightarrow> pool_ok (fst (Pool_Credit f now c db))"
  using update_pool_ok [of f "\<lambda>lp. True" "\<lambda>lp. lp\<lparr>lp_BalanceCents := lp_BalanceCents lp + c, lp_UpdatedTS := now\<rparr>" db]
  by (auto simp: Pool_Credit_def split: prod.splits pool_update.splits)

lemma pool_ok_orders [simp]:
  "pool_ok (db\<lparr>rd_orders := os\<rparr>) = pool_ok db" "pool_ok (db\<lparr>rd_nextOrder := n\<rparr>) = pool_ok db"
  "pool_ok (db\<lparr>rd_positions := ps\<rparr>) = pool_ok db" "pool_ok (db\<lparr>rd_nextPosition := n\<rparr>) = pool_ok db"
  by (simp_all add: pool_ok_def pool_cents_def)

lemma pool_ok_change [simp]: "pool_ok (change_order i g db) = pool_ok db"
  by (simp add: change_order_def)

lemma pool_ok_save [simp]: "pool_ok (save_position p db) = pool_ok db"
  by (simp add: save_position_def)

lemma refund_pool_ok: "refundUnfilled now ord f db = Inr (db1, ord1, r, nb) \<Longrightarrow> pool_ok db \<Longrightarrow> pool_ok db1"
  by (auto simp: refundUnfilled_def Let_def split: if_split_asm prod.splits pool_update.splits elim!: update_pool_ok)

lemma refund_order: "refundUnfilled now ord f db = Inr (db1, ord1, r, nb) \<Longrightarrow>
    or_MarketPrice ord1 = or_MarketPrice ord \<and> or_Action ord1 = or_Action ord \<and> or_FillPrice ord1 = or_FillPrice ord"
  by (auto simp: refundUnfilled_def Let_def split: if_split_asm prod.splits pool_update.splits)

lemma markFailed_pool_ok: "pool_ok db \<Longrightarrow> pool_ok (fst (markRealOrderFailed f now i e b db))"
  by (auto simp: markRealOrderFailed_def Let_def dest: refund_pool_ok split: option.splits sum.splits prod.splits if_splits)

lemma insert_pool_ok: "pool_ok db \<Longrightarrow> pool_ok (fst (InsertRealOrder f ord db))"
  by (auto simp: InsertRealOrder_def Let_def)

text \<open>The gap between two costs that are not negative can be taken out of or put into the pool.\<close>

lemma gap_update_nonneg:
  assumes "0 \<le> lp_BalanceCents lp" "- (2 ^ 63) < d" "d < 2 ^ 63"
  shows "0 \<le> lp_BalanceCents (gap_update now b d lp)"
proof -
  have "wrap64 (- d) = - d" using assms(2,3) by (intro wrap64_id) (simp add: int64_bounds)
  then show ?thesis using assms by (auto simp: gap_update_def)
qed

lemma fill_gap_range:
  assumes "0 \<le> cents_of f p" "0 \<le> cents_of f (or_MarketPrice ord)"
  shows "- (2 ^ 63) < fill_gap ord f p \<and> fill_gap ord f p < 2 ^ 63"
proof -
  have r: "x < 2 ^ 63" if "in_int64 x" for x using that by (simp add: int64_bounds)
  have "cents_of f p < 2 ^ 63" "cents_of f (or_MarketPrice ord) < 2 ^ 63" by (rule r, simp)+
  moreover from this assms have "fill_gap ord f p = cents_of f p - cents_of f (or_MarketPrice ord)"
    unfolding fill_gap_def by (intro wrap64_id) (simp add: int64_bounds)
  ultimately show ?thesis using assms by linarith
qed

lemma reconcile_pool_ok:
  assumes "reconcileFillPrice now ord f p db = Inr (db1, g)" "pool_ok db"
    "0 \<le> cents_of f p" "0 \<le> cents_of f (or_MarketPrice ord)"
  shows "pool_ok db1"
  using assms(1,2) fill_gap_range [OF assms(3,4)]
  by (auto simp: reconcileFillPrice_def Let_def gap_update_nonneg
      split: if_split_asm prod.splits pool_update.splits elim!: update_pool_ok)

definition costs_ok :: "float64 \<Rightarrow> float64 \<Rightarrow> float64 \<Rightarrow> bool" where
  "costs_ok f p m \<longleftrightarrow> fpos f \<and> fpos p \<longrightarrow> 0 \<le> cents_of f p \<and> 0 \<le> cents_of f m"

lemma UpdateRealOrder_pool_ok:
  assumes "pool_ok db" "\<And>ord. find_order i db = Some ord \<Longrightarrow> costs_ok f p (or_MarketPrice ord)"
  shows "pool_ok (fst (UpdateRealOrder fl now i k f p st e db))"
proof (cases "fl \<or> find_order i db = None")
  case True
  then show ?thesis using assms(1) by (auto simp: UpdateRealOrder_def split: option.split)
next
  case False
  then obtain ord where ord: "find_order i db = Some ord" and fl: "\<not> fl" by auto
  obtain r where r: "(if or_Action ord \<noteq> ''sell'' then refundUnfilled now ord f db else Inr (db, ord, 0, 0)) = r" by blast
  show ?thesis
  proof (cases r)
    case (Inl a)
    then show ?thesis using assms(1) fl by (simp add: UpdateRealOrder_def ord r)
  next
    case (Inr q)
    obtain db1 ord1 refunded nb where q: "q = (db1, ord1, refunded, nb)" by (cases q)
    have ok1: "pool_ok db1" "or_MarketPrice ord1 = or_MarketPrice ord"
      using r Inr q assms(1) by (auto dest: refund_pool_ok refund_order split: if_split_asm)
    have "pool_ok db2" if "maybe_reconcile now ord1 f p st db1 = Inr (db2, g)" for db2 g
      using that ok1 assms(2) [OF ord]
      by (auto simp: maybe_reconcile_def costs_ok_def split: if_split_asm intro: reconcile_pool_ok)
    then show ?thesis using assms(1) fl
      by (auto simp: UpdateRealOrder_def ord r Inr q split: sum.split)
  qed
qed

text \<open>
  What is required of the exchange's answers: a fill count between 0 and a million and a reported price of at most 100
  dollars.
\<close>

definition count_ok :: "float64 \<Rightarrow> bool" where
  "count_ok f \<longleftrightarrow> (case f of Fin x \<Rightarrow> 0 \<le> x \<and> x \<le> 10 ^ 6 | _ \<Rightarrow> False)"

definition price_ok :: "float64 \<Rightarrow> bool" where
  "price_ok p \<longleftrightarrow> (case p of Fin q \<Rightarrow> 0 \<le> q \<and> q \<le> 100 | _ \<Rightarrow> False)"

definition answer_ok :: "bool \<Rightarrow> attempt \<Rightarrow> bool" where
  "answer_ok isNO att \<longleftrightarrow>
     (case at_post att of PostFailed e \<Rightarrow> True
      | PostAnswer resp \<Rightarrow> count_ok (parsed (cs_FillCount resp)) \<and>
          fle (fetchFillPrice (at_lookup att) (cs_OrderID resp) isNO) (Fin 100))"

lemma rnd_upto: "0 \<le> x \<Longrightarrow> x \<le> of_int n \<Longrightarrow> \<bar>n\<bar> \<le> 2 ^ 53 \<Longrightarrow> rnd x \<le> of_int n"
  using rnd_mono_pos [of x "of_int n"] rnd_of_int [of n] by (cases "x = 0") auto

lemma fround_upto:
  assumes "0 \<le> x" "x \<le> of_int n" "0 \<le> n" "n \<le> 2 ^ 53"
  shows "\<exists>y. fround x = Fin y \<and> 0 \<le> y \<and> y \<le> of_int n"
proof -
  have "(of_int n :: rat) \<le> of_int (2 ^ 53)" using assms(4) by (simp only: of_int_le_iff)
  then have "\<bar>x\<bar> \<le> 2 ^ 64" using assms by simp
  then have "fround x = Fin (rnd x)" by (rule fround_small)
  then show ?thesis using rnd_upto [of x n] rnd_nonneg [of x] assms by simp
qed

lemma cents_nonneg:
  assumes "count_ok f" "price_ok p"
  shows "0 \<le> cents_of f p"
proof -
  from assms obtain x q where f: "f = Fin x" "0 \<le> x" "x \<le> 10 ^ 6" and p: "p = Fin q" "0 \<le> q" "q \<le> 100"
    by (auto simp: count_ok_def price_ok_def split: float64.splits)
  have "x * q \<le> 10 ^ 6 * 100" using f p by (intro mult_mono) auto
  then have "x * q \<le> of_int (10 ^ 8)" by simp
  with f p obtain y where y: "fround (x * q) = Fin y" "0 \<le> y" "y \<le> of_int (10 ^ 8)"
    using fround_upto [of "x * q" "10 ^ 8"] by auto
  then have "y * 100 \<le> of_int (10 ^ 10)" by simp
  with y obtain z where z: "fround (y * 100) = Fin z" "0 \<le> z" "z \<le> of_int (10 ^ 10)"
    using fround_upto [of "y * 100" "10 ^ 10"] by auto
  have "in_int64 m" if "0 \<le> m" "m \<le> 10 ^ 10" for m using that by (simp add: int64_bounds)
  moreover have "0 \<le> \<lfloor>z\<rfloor>" "\<lfloor>z\<rfloor> \<le> 10 ^ 10" using z by (simp, linarith)
  ultimately have "in_int64 \<lfloor>z\<rfloor>" by blast
  then show ?thesis using f p y z by (simp add: cents_of_def trunc_rat_def)
qed

lemma answer_costs:
  assumes "answer_ok isNO att" "at_post att = PostAnswer resp" "price_ok m"
  shows "costs_ok (parsed (cs_FillCount resp)) (fetchFillPrice (at_lookup att) (cs_OrderID resp) isNO) m"
proof -
  let ?p = "fetchFillPrice (at_lookup att) (cs_OrderID resp) isNO"
  have "count_ok (parsed (cs_FillCount resp))" "fle ?p (Fin 100)" using assms by (simp_all add: answer_ok_def)
  moreover have "price_ok ?p" if "fpos ?p" using that \<open>fle ?p (Fin 100)\<close>
    by (cases ?p) (auto simp: fpos_def price_ok_def)
  ultimately show ?thesis using assms(3) by (auto simp: costs_ok_def intro: cents_nonneg)
qed

lemma ApplyBuy_pool [simp]: "pool_ok (fst (ApplyBuy f now m k s r n p db)) = pool_ok db"
  by (auto simp: ApplyBuy_def Let_def split: option.split)

lemma ApplyBuyNO_pool [simp]: "pool_ok (fst (ApplyBuyNO f g now m k s r n p db)) = pool_ok db"
  using ApplyBuy_pool [of f now m k s r n p db] by (auto simp: ApplyBuyNO_def split: prod.split sum.split simp del: ApplyBuy_pool)

lemma ApplySell_pool [simp]: "pool_ok (fst (ApplySell f now m k s r n p db)) = pool_ok db"
  by (auto simp: ApplySell_def Let_def split: option.split)

lemma link_pool [simp]: "pool_ok (link_position att i r) = pool_ok (fst r)"
  by (auto simp: link_position_def split: prod.split sum.split)

lemma apply_pool [simp]: "pool_ok (apply_purchase isNO att ord f p db) = pool_ok db" "pool_ok (apply_sale att ord f p db) = pool_ok db"
  by (simp_all add: apply_purchase_def apply_sale_def Let_def)

lemma costs_ok_zero [simp]: "costs_ok (Fin 0) p m" "costs_ok f (Fin 0) m"
  by (simp_all add: costs_ok_def fpos_def)

lemma ParseFloat_parsed: "ParseFloat s = (x, b) \<Longrightarrow> parsed s = x"
  by (simp add: parsed_def)

lemma process_purchase_pool_ok:
  assumes "pool_ok db" "find_order (or_ID ord) db = Some row" "price_ok (or_MarketPrice row)"
    "answer_ok isNO att" "at_post att = PostAnswer resp"
  shows "pool_ok (fst (process_purchase isNO att ord resp e db))"
proof -
  note up = UpdateRealOrder_pool_ok [OF assms(1), of "or_ID ord"]
  show ?thesis
    using assms answer_costs [OF assms(4,5,3)]
    by (auto simp: process_purchase_def update_order_def Let_def dest: ParseFloat_parsed intro!: up
        split: prod.split bool.split)
qed

lemma submit_purchase_pool_ok:
  assumes "submit_purchase cfg isNO att ord n p e sys = (sys1, r)" "pool_ok (rs_db sys)"
    "find_order (or_ID ord) (rs_db sys) = Some row" "price_ok (or_MarketPrice row)" "answer_ok isNO att"
  shows "pool_ok (rs_db sys1)"
proof (cases "at_post att")
  case (PostFailed x)
  then show ?thesis using assms(1,2)
    by (auto simp: submit_purchase_def Let_def MarkRealOrderFailed_def markFailed_pool_ok)
next
  case (PostAnswer resp)
  then show ?thesis using assms process_purchase_pool_ok [OF assms(2-5) PostAnswer]
    by (auto simp: submit_purchase_def Let_def split: prod.splits) (metis fst_conv)
qed

lemma insert_found:
  "InsertRealOrder f ord db = (db1, Inr i) \<Longrightarrow>
     find_order i db1 = Some (ord\<lparr>or_ID := i, or_IsReal := True\<rparr>) \<and> rd_pool db1 = rd_pool db \<and> rd_positions db1 = rd_positions db"
  by (auto simp: InsertRealOrder_def Let_def find_order_def find_snoc split: if_split_asm)

lemma Deduct_frame:
  "Pool_Deduct f now sp db = (db1, Inr nb) \<Longrightarrow>
     rd_orders db1 = rd_orders db \<and> rd_positions db1 = rd_positions db \<and> sp \<le> pool_cents db \<and> pool_cents db1 = pool_cents db - sp"
  by (auto simp: Pool_Deduct_def update_pool_def pool_cents_def Let_def split: if_split_asm option.splits)

lemma insert_and_deduct_ok:
  assumes "insert_and_deduct att e ord sp sys = (sys1, Some o1)" "or_IsReal ord"
  shows "find_order (or_ID o1) (rs_db sys1) = Some o1" "\<exists>i. o1 = ord\<lparr>or_ID := i\<rparr>"
    "sp \<le> pool_cents (rs_db sys)" "pool_cents (rs_db sys1) = pool_cents (rs_db sys) - sp" "rd_positions (rs_db sys1) = rd_positions (rs_db sys)"
proof -
  from assms(1) obtain db1 i db2 nb where s: "InsertRealOrder (at_fails att CInsert) ord (rs_db sys) = (db1, Inr i)"
    "Pool_Deduct (at_fails att CDeduct) (at_now att CDeduct) sp db1 = (db2, Inr nb)" "rs_db sys1 = db2" "o1 = ord\<lparr>or_ID := i\<rparr>"
    by (auto simp: insert_and_deduct_def split: prod.splits sum.splits)
  note ins = insert_found [OF s(1)] and ded = Deduct_frame [OF s(2)]
  have "ord\<lparr>or_ID := i, or_IsReal := True\<rparr> = o1" using assms(2) s(4) by (cases ord) simp
  then show "find_order (or_ID o1) (rs_db sys1) = Some o1" using ins ded s by (simp add: find_order_def)
  show "\<exists>i. o1 = ord\<lparr>or_ID := i\<rparr>" using s by blast
  show "sp \<le> pool_cents (rs_db sys)" "pool_cents (rs_db sys1) = pool_cents (rs_db sys) - sp"
    "rd_positions (rs_db sys1) = rd_positions (rs_db sys)"
    using ins ded s by (auto simp: pool_cents_def)
qed

lemma insert_and_deduct_pool_ok:
  assumes "insert_and_deduct att e ord sp sys = (sys1, r)" "pool_ok (rs_db sys)"
  shows "pool_ok (rs_db sys1)"
proof -
  have i: "pool_ok (fst (InsertRealOrder (at_fails att CInsert) ord (rs_db sys)))" by (rule insert_pool_ok [OF assms(2)])
  show ?thesis
  proof (cases "InsertRealOrder (at_fails att CInsert) ord (rs_db sys)")
    case (Pair db1 x)
    then have "pool_ok db1" using i by simp
    then have d: "pool_ok (fst (Pool_Deduct (at_fails att CDeduct) (at_now att CDeduct) sp db1))" by (rule Deduct_pool_ok)
    show ?thesis using assms(1) Pair \<open>pool_ok db1\<close> d
      by (auto simp: insert_and_deduct_def MarkRealOrderFailedNoRefund_def split: sum.splits prod.splits intro!: markFailed_pool_ok)
  qed
qed

text \<open>The price of a retry is between a cent and a dollar.\<close>

lemma retry_price_ok:
  assumes "r = to_int64 (ffloor (fmul (fmin (flit (99 / 100)) X) (Fin 100)))" "1 \<le> r"
  shows "r \<le> 100" "price_ok (fdiv (of_int64 r) (Fin 100))"
proof -
  obtain a where a: "flit (99 / 100) = Fin a" "0 \<le> a" "a \<le> 1"
    using fround_upto [of "99 / 100" 1] by (auto simp: flit_def)
  have "\<exists>y. fmin (flit (99 / 100)) X = Fin y \<and> y \<le> 1"
  proof (cases X)
    case (Fin x)
    then show ?thesis using a by (cases "x < a") auto
  next
    case NInf
    then show ?thesis using assms a by (simp add: finf_def int64_bounds)
  next
    case NaN
    then show ?thesis using assms a by (simp add: int64_bounds)
  qed (use a in auto)
  then obtain y where y: "fmin (flit (99 / 100)) X = Fin y" "y \<le> 1" by blast
  show r: "r \<le> 100"
  proof (cases "0 \<le> y")
    case True
    with y obtain z where "fround (y * 100) = Fin z" "0 \<le> z" "z \<le> of_int 100"
      using fround_upto [of "y * 100" 100] by auto
    moreover from this have "\<lfloor>z\<rfloor> \<le> 100" by linarith
    ultimately show ?thesis using assms y by (auto simp: trunc_rat_def int64_bounds)
  next
    case False
    have "rnd (y * 100) \<le> 0" using rnd_nonneg [of "- (y * 100)"] False by simp
    then have "\<not> 1 \<le> to_int64 (ffloor (fround (y * 100)))"
      by (auto simp: fround_def Let_def max_float64_def trunc_rat_def int64_bounds split: if_splits)
    then show ?thesis using assms y by simp
  qed
  have "fround (of_int r) = Fin (of_int r)" using assms(2) r by (intro exact_int) simp
  moreover obtain z where "fround (of_int r / 100) = Fin z" "0 \<le> z" "z \<le> of_int 1"
    using fround_upto [of "of_int r / 100" 1] assms(2) r by auto
  ultimately show "price_ok (fdiv (of_int64 r) (Fin 100))" by (simp add: of_int64_def price_ok_def)
qed

lemma retryBuy_pool_ok:
  assumes "retryBuyAsMarket cfg att ord n sys = (sys1, f)" "pool_ok (rs_db sys)" "or_IsReal ord" "answer_ok False att"
  shows "pool_ok (rs_db sys1)"
proof (cases "sys1 = sys")
  case False
  then obtain lp where lp: "Pool_Get (at_fails att CPool) (rs_db sys) = Inr lp"
    using assms(1) by (auto simp: retryBuyAsMarket_def split: sum.splits)
  define X where "X = fdiv (fdiv (of_int64 (lp_BalanceCents lp)) (of_int64 n)) (Fin 100)"
  define r where rdef: "r = to_int64 (ffloor (fmul (fmin (flit (99 / 100)) X) (Fin 100)))"
  define o1 where "o1 = ord\<lparr>or_ID := 0, or_OrderStatus := ''pending'', or_MarketPrice := fdiv (of_int64 r) (Fin 100)\<rparr>"
  obtain s2 mo where ins: "insert_and_deduct att ''market_retry_pool_deduct_failed: '' o1 (wrap64 (n * r)) sys = (s2, mo)" by fastforce
  have run: "(if lp_BalanceCents lp \<le> 0 \<or> flt (fmin (flit (99 / 100)) X) (flit (1 / 100)) \<or> r < 1 then (sys, Fin 0)
     else (case mo of None \<Rightarrow> (s2, Fin 0)
       | Some o2 \<Rightarrow> (case submit_purchase cfg False att o2 n (format4f (fdiv (of_int64 r) (Fin 100))) ''market_retry_zero_fill'' s2 of
           (s3, q) \<Rightarrow> (s3, fst (purchase_result q))))) = (sys1, f)"
    using assms(1) [unfolded retryBuyAsMarket_def lp sum.case Let_def, folded X_def, folded rdef, folded o1_def]
    by (cases mo) (auto simp: ins submitBuyToKalshi_def split: if_splits prod.splits)
  have r: "r = to_int64 (ffloor (fmul (fmin (flit (99 / 100)) X) (Fin 100)))" "1 \<le> r"
    using run False rdef by (auto split: if_split_asm)
  have rest: "case mo of None \<Rightarrow> sys1 = s2 | Some o2 \<Rightarrow>
      (\<exists>q p e. submit_purchase cfg False att o2 n p e s2 = (sys1, q))"
    using run False by (auto split: if_split_asm option.splits prod.splits)
  note ok = insert_and_deduct_pool_ok [OF ins assms(2)]
  show ?thesis
  proof (cases mo)
    case None
    then show ?thesis using rest ok by simp
  next
    case (Some o2)
    then obtain q p e where sub: "submit_purchase cfg False att o2 n p e s2 = (sys1, q)" using rest by auto
    have "or_IsReal o1" using assms(3) o1_def by simp
    note fnd = insert_and_deduct_ok [OF ins [unfolded Some] this]
    have "or_MarketPrice o2 = fdiv (of_int64 r) (Fin 100)" using fnd(2) o1_def by auto
    then show ?thesis using submit_purchase_pool_ok [OF sub ok fnd(1) _ assms(4)] retry_price_ok(2) [OF r] by simp
  qed
qed (simp add: assms)

lemma emitBuy_pool_ok:
  assumes "emitBuy cfg kf em ord sys = (sys', b)" "pool_ok (rs_db sys)" "price_ok (or_MarketPrice ord)"
    "answer_ok False (em_first em)" "answer_ok False (em_retry em)"
  shows "pool_ok (rs_db sys')"
proof (cases "sys' = sys")
  case False
  with assms(1) obtain o1 bal where g: "buy_guards (em_guards em) ord (rs_db sys) = Some (o1, bal)"
    by (auto simp: emitBuy_def split: option.splits)
  obtain mkt where o1: "o1 = describe_order (em_guards em) mkt ord" using buy_guards_clear(4) [OF g] by blast
  obtain n sp where sz: "size_buy kf o1 bal = (n, sp)" by fastforce
  define o2 where "o2 = o1\<lparr>or_IsReal := True, or_OrderStatus := ''pending'', or_SuggestedSize := of_int64 n,
     or_Action := ''buy'', or_Side := (if or_Side o1 = [] then OrderSideOpen else or_Side o1)\<rparr>"
  obtain s2 mo where ins: "insert_and_deduct (em_first em) ''pool_deduct_failed: '' o2 sp sys = (s2, mo)" by fastforce
  have ok: "pool_ok (rs_db s2)" by (rule insert_and_deduct_pool_ok [OF ins assms(2)])
  show ?thesis
  proof (cases mo)
    case None
    then show ?thesis using assms(1,2) g sz ins ok False by (auto simp: emitBuy_def Let_def o2_def split: if_split_asm)
  next
    case (Some o3)
    have re: "or_IsReal o2" by (simp add: o2_def)
    note fnd = insert_and_deduct_ok [OF ins [unfolded Some] re]
    have o3: "or_IsReal o3" "price_ok (or_MarketPrice o3)" using fnd(2) assms(3) o1 by (auto simp: o2_def)
    obtain s3 q where sub: "submit_purchase cfg False (em_first em) o3 n (format4f (or_MarketPrice o3)) ''ioc_zero_fill'' s2 = (s3, q)"
      by fastforce
    have ok3: "pool_ok (rs_db s3)" by (rule submit_purchase_pool_ok [OF sub ok fnd(1) o3(2) assms(4)])
    have "\<not> n < 1" using assms(1) g sz False by (auto simp: emitBuy_def)
    then have "sys' = s3 \<or> (\<exists>f. retryBuyAsMarket cfg (em_retry em) o3 n s3 = (sys', f))"
      using assms(1) g sz ins [unfolded Some o2_def] sub
      by (cases "purchase_result q") (auto simp: emitBuy_def Let_def submitBuyToKalshi_def split: if_split_asm prod.splits)
    then show ?thesis using ok3 retryBuy_pool_ok [OF _ ok3 o3(1) assms(5)] by blast
  qed
qed (simp add: assms)

lemma emitBuyNO_pool_ok:
  assumes "emitBuyNO cfg kf em ord sys = (sys', b)" "pool_ok (rs_db sys)" "price_ok (or_MarketPrice ord)"
    "answer_ok True (em_first em)"
  shows "pool_ok (rs_db sys')"
proof (cases "sys' = sys")
  case False
  with assms(1) obtain o1 bal where g: "buy_guards (em_guards em) ord (rs_db sys) = Some (o1, bal)"
    by (auto simp: emitBuyNO_def split: option.splits)
  obtain mkt where o1: "o1 = describe_order (em_guards em) mkt ord" using buy_guards_clear(4) [OF g] by blast
  obtain n sp where sz: "size_buy kf o1 bal = (n, sp)" by fastforce
  define o2 where "o2 = o1\<lparr>or_IsReal := True, or_OrderStatus := ''pending'', or_SuggestedSize := of_int64 n,
     or_Action := ''buy_no'', or_Side := ''open''\<rparr>"
  obtain s2 mo where ins: "insert_and_deduct (em_first em) ''buy_no_pool_deduct_failed: '' o2 sp sys = (s2, mo)" by fastforce
  have ok: "pool_ok (rs_db s2)" by (rule insert_and_deduct_pool_ok [OF ins assms(2)])
  show ?thesis
  proof (cases mo)
    case None
    then show ?thesis using assms(1,2) g sz ins ok False by (auto simp: emitBuyNO_def Let_def o2_def split: if_split_asm)
  next
    case (Some o3)
    have re: "or_IsReal o2" by (simp add: o2_def)
    note fnd = insert_and_deduct_ok [OF ins [unfolded Some] re]
    have o3: "price_ok (or_MarketPrice o3)" using fnd(2) assms(3) o1 by (auto simp: o2_def)
    obtain s3 q where sub: "submit_purchase cfg True (em_first em) o3 n (format4f (or_MarketPrice o3)) ''buy_no_ioc_zero_fill'' s2 = (s3, q)"
      by fastforce
    have ok3: "pool_ok (rs_db s3)" by (rule submit_purchase_pool_ok [OF sub ok fnd(1) o3 assms(4)])
    have "\<not> n < 1" using assms(1) g sz False by (auto simp: emitBuyNO_def)
    then have "(case q of PostError \<Rightarrow> (s3, False) | Unverified _ \<Rightarrow> (s3, True)
      | Processed f _ _ \<Rightarrow> if or_PairID o3 \<noteq> [] \<and> f = Fin 0 then (s3, False) else (s3, True)) = (sys', b)"
      using assms(1) by (simp add: emitBuyNO_def Let_def g sz ins [unfolded Some o2_def] sub)
    then have "sys' = s3" by (auto split: if_split_asm purchase_end.splits)
    then show ?thesis using ok3 by simp
  qed
qed (simp add: assms)

lemma Credit_find [simp]: "find_order i (fst (Pool_Credit f now c db)) = find_order i db"
proof -
  let ?u = "update_pool f (\<lambda>_. True) (\<lambda>lp. lp\<lparr>lp_BalanceCents := lp_BalanceCents lp + c, lp_UpdatedTS := now\<rparr>) db"
  have "rd_orders (fst ?u) = rd_orders db" by (cases ?u) (simp add: update_pool_frame)
  moreover have "fst (Pool_Credit f now c db) = fst ?u"
    by (cases ?u; cases "snd ?u") (simp_all add: Pool_Credit_def)
  ultimately show ?thesis by (simp add: find_order_def)
qed

lemma credit_sale_ok:
  assumes "pool_ok db" "count_ok f" "price_ok (or_MarketPrice ord)"
  shows "pool_ok (credit_sale att ord f db)" "find_order i (credit_sale att ord f db) = find_order i db"
  using assms cents_nonneg [OF assms(2,3)] by (simp_all add: credit_sale_def Credit_pool_ok)

lemma submitSell_pool_ok:
  assumes "submitSellToKalshi cfg att ord n p e sys = (sys1, r)" "pool_ok (rs_db sys)"
    "find_order (or_ID ord) (rs_db sys) = Some row" "price_ok (or_MarketPrice row)" "price_ok (or_MarketPrice ord)" "answer_ok False att"
  shows "pool_ok (rs_db sys1)"
proof (cases "at_post att")
  case (PostFailed x)
  then show ?thesis using assms(1,2)
    by (auto simp: submitSellToKalshi_def Let_def MarkRealOrderFailedNoRefund_def markFailed_pool_ok)
next
  case (PostAnswer resp)
  have c: "count_ok (parsed (cs_FillCount resp))" using assms(6) PostAnswer by (simp add: answer_ok_def)
  note cr = credit_sale_ok(1) [OF assms(2) c assms(5), of att] credit_sale_ok(2) [OF assms(2) c assms(5), of "or_ID ord" att]
  have "pool_ok (fst (process_sale att ord resp e (rs_db sys)))"
    using assms(2,3) cr answer_costs [OF assms(6) PostAnswer assms(4)]
    by (auto simp: process_sale_def update_order_def Let_def dest: ParseFloat_parsed
        intro!: UpdateRealOrder_pool_ok split: prod.split bool.split)
  then show ?thesis using assms(1) PostAnswer
    by (auto simp: submitSellToKalshi_def Let_def split: prod.splits)
qed

lemma flit_cent: "price_ok (flit (1 / 100))"
  using fround_upto [of "1 / 100" 1] by (auto simp: flit_def price_ok_def)

lemma insert_real_found:
  assumes "InsertRealOrder f ord db = (db1, Inr i)" "or_IsReal ord"
  shows "find_order i db1 = Some (ord\<lparr>or_ID := i\<rparr>)"
  using insert_found [OF assms(1)] assms(2) by (cases ord) simp

lemma retrySell_pool_ok:
  assumes "retrySellAsMarket cfg att ord n sys = (sys1, f)" "pool_ok (rs_db sys)" "or_IsReal ord" "answer_ok False att"
  shows "pool_ok (rs_db sys1)"
proof (cases "sys1 = sys")
  case False
  with assms(1) obtain pos where p: "GetOpenForStrategy (at_fails att CPosition) (or_MarketTicker ord) (or_Strategy ord) True (rs_db sys) = Inr (Some pos)"
    by (auto simp: retrySellAsMarket_def split: sum.splits option.splits)
  define cnt where "cnt = clamp_count (if flt (open_contracts pos) n then open_contracts pos else n)"
  define o1 where "o1 = ord\<lparr>or_ID := 0, or_OrderStatus := ''pending'', or_SuggestedSize := cnt, or_MarketPrice := flit (1 / 100),
                   or_PositionID := Some (po_ID pos)\<rparr>"
  obtain db1 r where ins: "InsertRealOrder (at_fails att CInsert) o1 (rs_db sys) = (db1, r)" by fastforce
  have ok: "pool_ok db1" using insert_pool_ok [OF assms(2), of "at_fails att CInsert" o1] ins by simp
  note run = assms(1) [unfolded retrySellAsMarket_def p sum.case option.case Let_def, folded cnt_def, folded o1_def]
  show ?thesis
  proof (cases r)
    case (Inl e)
    then show ?thesis using run ok False by (auto simp: ins split: if_split_asm)
  next
    case (Inr i)
    obtain s2 q where sub: "submitSellToKalshi cfg att (o1\<lparr>or_ID := i\<rparr>) cnt (format4f (flit (1 / 100)))
      ''sell_market_retry_zero_fill'' (sys\<lparr>rs_db := db1\<rparr>) = (s2, q)"
      by (rule that [OF prod.collapse [symmetric]])
    have "or_IsReal o1" using assms(3) by (simp add: o1_def)
    note fnd = insert_real_found [OF ins [unfolded Inr] this]
    have m: "price_ok (or_MarketPrice (o1\<lparr>or_ID := i\<rparr>))" by (simp add: o1_def flit_cent)
    have "pool_ok (rs_db s2)" using submitSell_pool_ok [OF sub _ _ m m assms(4)] ok fnd by simp
    moreover have "sys1 = s2" using run False by (auto simp: ins Inr sub split: if_split_asm prod.splits)
    ultimately show ?thesis by simp
  qed
qed (simp add: assms)

lemma emitSell_pool_ok:
  assumes "emitSell cfg em ord sys = (sys', b)" "pool_ok (rs_db sys)" "price_ok (or_MarketPrice ord)"
    "answer_ok False (em_first em)" "answer_ok False (em_retry em)"
  shows "pool_ok (rs_db sys')"
proof (cases "sys' = sys")
  case False
  with assms(1) obtain mkt where mkt: "GetMarket (em_guards em) (or_MarketTicker ord) = Some mkt"
    by (auto simp: emitSell_def split: option.splits)
  define o1 where "o1 = describe_order (em_guards em) mkt ord"
  note run1 = assms(1) [unfolded emitSell_def mkt option.case Let_def, folded o1_def]
  from run1 False obtain pos where
    p: "GetOpenForStrategy (at_fails (em_first em) CPosition) (or_MarketTicker o1) (or_Strategy o1) True (rs_db sys) = Inr (Some pos)"
    by (auto split: sum.splits option.splits if_split_asm)
  define cnt where "cnt = clamp_count (if fle0 (or_SuggestedSize o1) \<or> flt (open_contracts pos) (or_SuggestedSize o1)
    then open_contracts pos else or_SuggestedSize o1)"
  define o2 where "o2 = o1\<lparr>or_IsReal := True, or_OrderStatus := ''pending'', or_SuggestedSize := cnt, or_Action := ''sell'',
                  or_Side := OrderSideClose, or_PositionID := Some (po_ID pos)\<rparr>"
  obtain db1 r where ins: "InsertRealOrder (at_fails (em_first em) CInsert) o2 (rs_db sys) = (db1, r)" by fastforce
  have ok: "pool_ok db1" using insert_pool_ok [OF assms(2), of "at_fails (em_first em) CInsert" o2] ins by simp
  note run = run1 [unfolded p sum.case option.case, folded cnt_def, folded o2_def]
  show ?thesis
  proof (cases r)
    case (Inl e)
    then show ?thesis using run ok False by (auto simp: ins split: if_split_asm)
  next
    case (Inr i)
    define o3 where "o3 = o2\<lparr>or_ID := i\<rparr>"
    obtain s2 q where sub: "submitSellToKalshi cfg (em_first em) o3 cnt (format4f (or_MarketPrice o3))
      ''sell_ioc_zero_fill'' (sys\<lparr>rs_db := db1\<rparr>) = (s2, q)"
      by (rule that [OF prod.collapse [symmetric]])
    have re: "or_IsReal o2" "or_IsReal o3" by (simp_all add: o2_def o3_def)
    have m: "price_ok (or_MarketPrice o3)" using assms(3) by (simp add: o3_def o2_def o1_def)
    have "find_order (or_ID o3) db1 = Some o3" using insert_real_found [OF ins [unfolded Inr] re(1)] by (simp add: o3_def)
    then have ok2: "pool_ok (rs_db s2)" using submitSell_pool_ok [OF sub _ _ m m assms(4)] ok by simp
    have "sys' = s2 \<or> sys' = fst (retrySellAsMarket cfg (em_retry em) o3 cnt s2)"
      using run [unfolded ins prod.case Inr sum.case, folded o3_def, unfolded sub prod.case] False
      by (auto split: if_split_asm prod.splits)
    then show ?thesis
      using ok2 retrySell_pool_ok [OF prod.collapse [symmetric] ok2 re(2) assms(5)] by blast
  qed
qed (simp add: assms)

definition emission_ok :: "Order \<Rightarrow> emission \<Rightarrow> bool" where
  "emission_ok ord em \<longleftrightarrow>
     price_ok (or_MarketPrice ord) \<and> (\<forall>isNO. answer_ok isNO (em_first em)) \<and> answer_ok False (em_retry em)"

lemma EmitOrder_pool_ok:
  assumes "emission_ok ord em" "pool_ok (rs_db sys)"
  shows "pool_ok (rs_db (fst (EmitOrder cfg kf em ord sys)))"
proof -
  have a: "price_ok (or_MarketPrice ord)" "answer_ok False (em_first em)" "answer_ok True (em_first em)" "answer_ok False (em_retry em)"
    using assms(1) by (simp_all add: emission_ok_def)
  show ?thesis
    using assms(2) emitBuy_pool_ok [OF prod.collapse [symmetric] assms(2) a(1,2,4)]
      emitBuyNO_pool_ok [OF prod.collapse [symmetric] assms(2) a(1,3)]
      emitSell_pool_ok [OF prod.collapse [symmetric] assms(2) a(1,2,4)]
    by (simp add: EmitOrder_def)
qed

text \<open>
  The pool never goes below zero: whatever is emitted, whichever guards and database calls fail and
  whatever the exchange answers (a fill of up to a million contracts at up to 100 dollars), an
  order emitted with money in the pool leaves no debt.
\<close>

theorem pool_never_negative:
  assumes "emission_ok ord em" "0 \<le> pool_cents (rs_db sys)"
  shows "0 \<le> pool_cents (rs_db (fst (EmitOrder cfg kf em ord sys)))"
  using EmitOrder_pool_ok [OF assms(1)] assms(2) by (simp add: pool_ok_def)

section \<open>What a purchase costs\<close>

text \<open>A pool whose figures are far from the limits of the columns.\<close>

definition pool_within :: "int \<Rightarrow> real_db \<Rightarrow> bool" where
  "pool_within B db \<longleftrightarrow>
     (\<exists>lp. rd_pool db = Some lp \<and> 0 \<le> lp_BalanceCents lp \<and> lp_BalanceCents lp \<le> B \<and> in_int64 (lp_InitialBalanceCents lp) \<and>
        0 \<le> lp_TotalSpentCents lp \<and> lp_TotalSpentCents lp \<le> B)"

lemma in_int64_small: "- (10 ^ 17) \<le> n \<Longrightarrow> n \<le> 10 ^ 17 \<Longrightarrow> in_int64 n"
  by (simp add: int64_bounds)

lemma whole_cents:
  assumes "0 \<le> n" "n \<le> 10 ^ 6" "0 \<le> c" "c \<le> 10 ^ 4"
  shows "cents_of (whole n) (cent_price c) \<in> {n * c - 1, n * c}" "0 \<le> cents_of (whole n) (cent_price c)"
    "cents_of (whole n) (cent_price c) \<le> 10 ^ 10"
proof -
  show r: "cents_of (whole n) (cent_price c) \<in> {n * c - 1, n * c}" using cents_of_whole [OF assms] by auto
  have "(of_int c :: rat) \<le> of_int (10 ^ 4)" using assms by (simp only: of_int_le_iff)
  then have "price_ok (cent_price c)"
    using fround_upto [of "of_int c / 100" 100] assms by (auto simp: cent_price_def flit_def price_ok_def)
  moreover have "(of_int n :: rat) \<le> of_int (10 ^ 6)" using assms by (simp only: of_int_le_iff)
  then have "count_ok (whole n)" using assms by (simp add: count_ok_def whole_def)
  ultimately show "0 \<le> cents_of (whole n) (cent_price c)" by (intro cents_nonneg)
  have "n * c \<le> 10 ^ 6 * 10 ^ 4" using assms by (intro mult_mono) auto
  then show "cents_of (whole n) (cent_price c) \<le> 10 ^ 10" using r by auto
qed

text \<open>The refund of what was not filled.\<close>

lemma refund_pool:
  assumes "pool_within (10 ^ 15) db" "or_UnfilledRefundedCents ord = 0" "u = unfilled_cents ord f" "u \<le> 10 ^ 10"
  shows "\<exists>db1 ord1 nb. refundUnfilled now ord f db = Inr (db1, ord1, u, nb) \<and> pool_cents db1 = pool_cents db + u \<and>
    (\<exists>lp. rd_pool db1 = Some lp \<and> lp_BalanceCents lp \<le> 10 ^ 16 \<and> in_int64 (lp_InitialBalanceCents lp) \<and>
        0 \<le> lp_TotalSpentCents lp \<and> lp_TotalSpentCents lp \<le> 10 ^ 15) \<and>
    or_MarketPrice ord1 = or_MarketPrice ord \<and> or_Action ord1 = or_Action ord \<and> or_FillPrice ord1 = or_FillPrice ord"
proof -
  obtain lp where lp: "rd_pool db = Some lp" "0 \<le> lp_BalanceCents lp" "lp_BalanceCents lp \<le> 10 ^ 15" "in_int64 (lp_InitialBalanceCents lp)"
    "0 \<le> lp_TotalSpentCents lp" "lp_TotalSpentCents lp \<le> 10 ^ 15" using assms(1) by (auto simp: pool_within_def)
  have u0: "0 \<le> u" using unfilled_cents_range(1) [of ord f] assms(3) by simp
  have w: "wrap64 u = u" using u0 assms(4) by (intro wrap64_id in_int64_small) auto
  show ?thesis
  proof (cases "u = 0")
    case True
    then show ?thesis using lp assms(2,3) w
      by (auto simp: refundUnfilled_def Let_def pool_cents_def)
  next
    case False
    have "in_int64 (lp_BalanceCents lp + u)" "in_int64 (max (lp_TotalSpentCents lp - u) 0)"
      using lp u0 assms(4) by (auto intro!: in_int64_small)
    then show ?thesis using lp False u0 assms(2,3,4) w
      by (auto simp: refundUnfilled_def Let_def pool_cents_def update_pool_def)
  qed
qed

text \<open>The correction by the price paid.\<close>

lemma reconcile_pool:
  assumes "rd_pool db = Some lp" "lp_BalanceCents lp \<le> 10 ^ 16" "in_int64 (lp_InitialBalanceCents lp)"
    "0 \<le> lp_TotalSpentCents lp" "lp_TotalSpentCents lp \<le> 10 ^ 15" "or_FillPrice ord = Fin 0" "or_Action ord \<noteq> ''sell''"
    "fill_gap ord f p = g" "\<bar>g\<bar> \<le> 10 ^ 11" "g \<le> lp_BalanceCents lp" "0 \<le> lp_BalanceCents lp"
  shows "\<exists>db1 h. reconcileFillPrice now ord f p db = Inr (db1, h) \<and> pool_cents db1 = lp_BalanceCents lp - g"
proof -
  have g: "fill_gap ord f p = g" "wrap64 (- g) = - g" using assms(8,9) by (auto intro!: wrap64_id in_int64_small)
  show ?thesis
  proof (cases "g = 0")
    case True
    then show ?thesis using assms g by (simp add: reconcileFillPrice_def fpos_def pool_cents_def Let_def)
  next
    case False
    have "in_int64 (lp_BalanceCents lp - g)" "in_int64 (lp_TotalSpentCents lp + g)" "in_int64 (max (lp_TotalSpentCents lp + g) 0)"
      using assms by (auto intro!: in_int64_small)
    moreover have "max (lp_BalanceCents lp - g) 0 = lp_BalanceCents lp - g" using assms by simp
    ultimately show ?thesis using assms g False
      by (auto simp: reconcileFillPrice_def fpos_def pool_cents_def Let_def update_pool_def gap_update_def)
  qed
qed

lemma change_order_pool [simp]: "pool_cents (change_order i g db) = pool_cents db"
  by (simp add: change_order_def pool_cents_def)

lemma fpos_whole [simp]: "fpos (whole f) \<longleftrightarrow> 0 < f"
  by (simp add: fpos_def whole_def)

text \<open>Processing the answer of a purchase already debited: the price paid is \<open>d\<close> cents.\<close>

definition paid_price :: "bool \<Rightarrow> attempt \<Rightarrow> createOrderV2Response \<Rightarrow> int \<Rightarrow> int \<Rightarrow> bool" where
  "paid_price isNO att resp c d \<longleftrightarrow>
     (let p = fetchFillPrice (at_lookup att) (cs_OrderID resp) isNO in
      1 \<le> d \<and> d \<le> 10 ^ 4 \<and> (p = cent_price d \<or> p = Fin 0 \<and> d = c))"

lemma update_cost:
  assumes fnd: "find_order i db = Some ord" and act: "or_Action ord \<noteq> ''sell''" and sane: "pool_within (10 ^ 15) db"
    and zero: "or_UnfilledRefundedCents ord = 0" "or_FillPrice ord = Fin 0"
    and n: "or_SuggestedSize ord = whole n" "n \<le> 10 ^ 6" and c: "or_MarketPrice ord = cent_price c" "1 \<le> c" "c \<le> 99"
    and f: "1 \<le> f" "f \<le> n" and p: "p = cent_price d \<or> p = Fin 0 \<and> d = c" "1 \<le> d" "d \<le> 10 ^ 4"
    and st: "st \<noteq> ''canceled''" "st \<noteq> ''unverified''" and enough: "f * d + 2 \<le> pool_cents db + n * c"
  shows "pool_cents (fst (UpdateRealOrder False now i k (whole f) p st e db)) - (pool_cents db + n * c - f * d) \<in> {-2 .. 1}"
proof -
  have "fsub (whole n) (whole f) = whole (n - f)" using n(2) f by (simp add: whole_def fsub_int)
  then have u: "unfilled_cents ord (whole f) = max 0 (cents_of (whole (n - f)) (cent_price c))"
    by (simp add: unfilled_cents_def n(1) c(1) Let_def)
  note rest = whole_cents [of "n - f" c] and atf = whole_cents [of f c] whole_cents [of f d]
  have ur: "unfilled_cents ord (whole f) \<in> {(n - f) * c - 1, (n - f) * c}" "unfilled_cents ord (whole f) \<le> 10 ^ 10"
    using rest n(2) c f u by auto
  obtain db1 ord1 nb lp where r: "refundUnfilled now ord (whole f) db = Inr (db1, ord1, unfilled_cents ord (whole f), nb)"
    "pool_cents db1 = pool_cents db + unfilled_cents ord (whole f)" "rd_pool db1 = Some lp" "lp_BalanceCents lp \<le> 10 ^ 16"
    "in_int64 (lp_InitialBalanceCents lp)" "0 \<le> lp_TotalSpentCents lp" "lp_TotalSpentCents lp \<le> 10 ^ 15"
    "or_MarketPrice ord1 = cent_price c" "or_Action ord1 = or_Action ord" "or_FillPrice ord1 = Fin 0"
    using refund_pool [OF sane zero(1) refl ur(2), of now] zero c(1) by auto
  have bal: "lp_BalanceCents lp = pool_cents db + unfilled_cents ord (whole f)" using r(2,3) by (simp add: pool_cents_def)
  have exp: "(n - f) * c = n * c - f * c" by (simp add: left_diff_distrib)
  have pos: "0 \<le> pool_cents db" using sane by (auto simp: pool_within_def pool_cents_def)
  have "pool_cents (fst (UpdateRealOrder False now i k (whole f) p st e db)) =
    (case maybe_reconcile now ord1 (whole f) p st db1 of Inl a \<Rightarrow> pool_cents db | Inr (db2, h) \<Rightarrow> pool_cents db2)"
    using act by (auto simp: UpdateRealOrder_def fnd r(1) split: sum.split)
  also have "\<dots> - (pool_cents db + n * c - f * d) \<in> {-2 .. 1}"
  proof (cases "p = Fin 0 \<and> d = c")
    case True
    then have "maybe_reconcile now ord1 (whole f) p st db1 = Inr (db1, id)" by (simp add: maybe_reconcile_def fpos_def)
    then show ?thesis using True r(2) ur(1) exp by auto
  next
    case False
    then have pd: "p = cent_price d" using p(1) by blast
    have g: "cents_of (whole f) p - cents_of (whole f) (or_MarketPrice ord1) \<in> {f * d - f * c - 1 .. f * d - f * c + 1}"
      "\<bar>cents_of (whole f) p - cents_of (whole f) (or_MarketPrice ord1)\<bar> \<le> 10 ^ 11"
      using atf f n(2) c p by (auto simp: pd r(8))
    have gap: "fill_gap ord1 (whole f) p = cents_of (whole f) p - cents_of (whole f) (or_MarketPrice ord1)"
      unfolding fill_gap_def using g(2) by (intro wrap64_id in_int64_small) auto
    have "unfilled_cents ord (whole f) \<ge> 0" by (rule unfilled_cents_range)
    then have b0: "0 \<le> lp_BalanceCents lp" using bal pos by simp
    have enough': "cents_of (whole f) p - cents_of (whole f) (or_MarketPrice ord1) \<le> lp_BalanceCents lp"
      using g(1) bal ur(1) exp enough by auto
    show ?thesis
    proof (cases "fpos p")
      case True
      obtain db2 h where rec: "reconcileFillPrice now ord1 (whole f) p db1 = Inr (db2, h)"
        "pool_cents db2 = lp_BalanceCents lp - (cents_of (whole f) p - cents_of (whole f) (or_MarketPrice ord1))"
        using reconcile_pool [OF r(3-7) r(10) _ gap g(2) enough' b0, of now] act r(9) by auto
      have "maybe_reconcile now ord1 (whole f) p st db1 = Inr (db2, h)"
        using True f(1) st rec(1) by (simp add: maybe_reconcile_def)
      then show ?thesis using rec(2) bal ur(1) g(1) exp by auto
    next
      case False
      have "1 / 200 \<le> (of_int d / 100 :: rat)" using p(2) by (simp add: divide_le_eq)
      then have "0 < rnd (of_int d / 100)" using rnd_rel [of "of_int d / 100"] by (simp add: ulp1_def) 
      moreover have "(of_int d :: rat) \<le> of_int (10 ^ 4)" using p(3) by (simp only: of_int_le_iff)
      then have "fround (of_int d / 100) = Fin (rnd (of_int d / 100))" using p(2) by (intro fround_small) simp
      ultimately have "fpos p" by (simp add: pd cent_price_def flit_def fpos_def)
      then show ?thesis using False by simp
    qed
  qed
  finally show ?thesis .
qed

lemma ApplyBuy_rd_pool [simp]: "rd_pool (fst (ApplyBuy f now m k s r n p db)) = rd_pool db"
  by (auto simp: ApplyBuy_def save_position_def Let_def split: option.split)

lemma ApplyBuyNO_rd_pool [simp]: "rd_pool (fst (ApplyBuyNO f g now m k s r n p db)) = rd_pool db"
  using ApplyBuy_rd_pool [of f now m k s r n p db]
  by (auto simp: ApplyBuyNO_def split: prod.split sum.split simp del: ApplyBuy_rd_pool)

lemma apply_purchase_rd_pool [simp]: "rd_pool (apply_purchase isNO att ord f p db) = rd_pool db"
  by (auto simp: apply_purchase_def link_position_def change_order_def Let_def split: prod.split sum.split
      dest: arg_cong [of _ _ "\<lambda>x. rd_pool (fst x)"])

text \<open>\<open>fills att resp f\<close>: the attempt is answered by \<open>resp\<close>, which reports \<open>f\<close> contracts filled.\<close>

definition fills :: "attempt \<Rightarrow> createOrderV2Response \<Rightarrow> int \<Rightarrow> bool" where
  "fills att resp f \<longleftrightarrow> at_post att = PostAnswer resp \<and> ParseFloat (cs_FillCount resp) = (whole f, True) \<and>
     snd (ParseFloat (cs_RemainingCount resp))"

lemma process_cost:
  assumes fl: "fills att resp f" and up: "\<not> at_fails att CUpdate"
    and fnd: "find_order (or_ID ord) db = Some ord" and act: "or_Action ord \<noteq> ''sell''" and sane: "pool_within (10 ^ 15) db"
    and zero: "or_UnfilledRefundedCents ord = 0" "or_FillPrice ord = Fin 0"
    and n: "or_SuggestedSize ord = whole n" "n \<le> 10 ^ 6" and c: "or_MarketPrice ord = cent_price c" "1 \<le> c" "c \<le> 99"
    and f: "1 \<le> f" "f \<le> n" and d: "paid_price isNO att resp c d" and enough: "f * d + 2 \<le> pool_cents db + n * c"
  shows "pool_cents (fst (process_purchase isNO att ord resp e db)) - (pool_cents db + n * c - f * d) \<in> {-2 .. 1}"
proof -
  obtain r where pf: "ParseFloat (cs_FillCount resp) = (whole f, True)" "ParseFloat (cs_RemainingCount resp) = (r, True)"
    using fl by (cases "ParseFloat (cs_RemainingCount resp)") (auto simp: fills_def)
  define p where "p = fetchFillPrice (at_lookup att) (cs_OrderID resp) isNO"
  obtain st cr where st: "answer_status (whole f) r e = (st, cr)" "st \<noteq> ''canceled''" "st \<noteq> ''unverified''"
    using f(1) by (cases "r = Fin 0") (auto simp: answer_status_def)
  have "pool_cents (fst (process_purchase isNO att ord resp e db)) =
    pool_cents (update_order att (or_ID ord) (cs_OrderID resp) (whole f) p st cr db)"
    using f(1) by (simp add: process_purchase_def pf st(1) p_def pool_cents_def Let_def)
  then show ?thesis
    using update_cost [OF fnd act sane zero n c f _ _ _ st(2,3) enough, of p "at_now att CUpdate" "cs_OrderID resp" cr] up d
    by (simp add: update_order_def paid_price_def Let_def p_def [symmetric])
qed

lemma price_cents:
  assumes "1 \<le> c" "c \<le> 99"
  shows "to_int64 (fround_away (fmul (cent_price c) (Fin 100))) = c"
proof -
  define C :: rat where "C = of_int c"
  have C: "1 \<le> C" "C \<le> 99"
  proof -
    show "1 \<le> C" using assms by (simp add: C_def)
    have "(of_int c :: rat) \<le> of_int 99" using assms by (simp only: of_int_le_iff)
    then show "C \<le> 99" by (simp add: C_def)
  qed
  define p where "p = rnd (C / 100)"
  have u: "0 < ulp1" "ulp1 \<le> 1 / 10 ^ 15" by (simp_all add: ulp1_def)
  have p: "C / 100 * (1 - ulp1) \<le> p" "p \<le> C / 100 * (1 + ulp1)" using rnd_rel [of "C / 100"] C by (simp_all add: p_def)
  have cu: "C * ulp1 \<le> 99 * (1 / 10 ^ 15)" using C u by (intro mult_mono) auto
  have p': "C - 1 / 10 ^ 10 \<le> p * 100" "p * 100 \<le> C + 1 / 10 ^ 10" using p cu by (simp_all add: algebra_simps)
  have y: "p * 100 * (1 - ulp1) \<le> rnd (p * 100)" "rnd (p * 100) \<le> p * 100 * (1 + ulp1)"
    using rnd_rel [of "p * 100"] p' C by simp_all
  have "p * 100 * ulp1 \<le> 100 * (1 / 10 ^ 15)" using p' C u by (intro mult_mono) auto
  then have r: "C - 1 / 10 \<le> rnd (p * 100)" "rnd (p * 100) \<le> C + 1 / 10" using y p' by (simp_all add: algebra_simps)
  then have "\<lfloor>rnd (p * 100) + 1 / 2\<rfloor> = c" unfolding C_def by linarith
  moreover have "fround (C / 100) = Fin p" "fround (p * 100) = Fin (rnd (p * 100))"
    using C p' by (simp_all add: fround_small p_def [symmetric])
  moreover have "\<not> rnd (p * 100) < 0" using r C by simp
  moreover have "in_int64 c" using assms by (intro in_int64_small) auto
  ultimately show ?thesis using assms by (simp add: cent_price_def flit_def C_def trunc_rat_def)
qed

text \<open>
  The size of a real order is the largest whole number of contracts that neither the Kelly
  fraction nor the pool exceeds, and what is spent is exactly their price.
\<close>

theorem size_is_largest_affordable:
  assumes "0 < p" "p \<le> 100" "0 \<le> b" "in_int64 b" "to_int64 (ffloor k) \<le> 2 ^ 53"
  shows "sizeRealOrder k p b = (let n = max 0 (min (to_int64 (ffloor k)) (b div p)) in (n, n * p))"
proof (cases "b = 0 \<or> to_int64 (ffloor k) < 1")
  case True
  then show ?thesis using assms by (auto simp: sizeRealOrder_def Let_def pos_imp_zdiv_nonneg_iff)
next
  case False
  define m where "m = to_int64 (ffloor k)"
  have m: "1 \<le> m" "m \<le> 2 ^ 53" using False assms(5) by (auto simp: m_def)
  have "m * p \<le> 2 ^ 53 * 100" "0 \<le> m * p" using m assms mult_mono [of m "2 ^ 53" p 100] by simp_all
  then have w: "wrap64 (m * p) = m * p" by (intro wrap64_id) (simp add: int64_bounds)
  have dv: "b div p * p \<le> b" "0 \<le> b div p"
    using pos_mod_sign [OF assms(1), of b] div_mult_mod_eq [of b p] assms by (linarith, simp add: pos_imp_zdiv_nonneg_iff)
  have "in_int64 x" if "0 \<le> x" "x \<le> b" for x using that assms(4) by (simp add: int64_bounds)
  then have w2: "wrap64 (b div p * p) = b div p * p"
    using dv assms(1) by (intro wrap64_id) (simp add: mult_nonneg_nonneg)
  show ?thesis
  proof (cases "m * p \<le> b")
    case True
    have "m \<le> b div p" using zdiv_mono1 [OF True assms(1)] assms(1) by simp
    then show ?thesis using True m w assms False by (simp add: sizeRealOrder_def Let_def m_def [symmetric])
  next
    case more: False
    then have "b div p < m" using dv(1) assms(1) by (metis linorder_not_le mult_right_mono order.trans less_imp_le)
    then show ?thesis using more m w w2 dv assms False
      by (auto simp: sizeRealOrder_def Let_def m_def [symmetric] max_def min_def)
  qed
qed

lemma Deduct_within:
  assumes "Pool_Deduct f now sp db = (db1, Inr nb)" "pool_within (10 ^ 14) db" "0 \<le> sp" "sp \<le> 10 ^ 9"
  shows "pool_within (10 ^ 15) db1"
  using assms by (auto simp: Pool_Deduct_def update_pool_def pool_within_def Let_def split: if_split_asm option.splits)

lemma insert_and_deduct_within:
  assumes "insert_and_deduct att e ord sp sys = (sys1, Some o1)" "pool_within (10 ^ 14) (rs_db sys)" "0 \<le> sp" "sp \<le> 10 ^ 9"
  shows "pool_within (10 ^ 15) (rs_db sys1)"
proof -
  from assms(1) obtain db1 i db2 nb where s: "InsertRealOrder (at_fails att CInsert) ord (rs_db sys) = (db1, Inr i)"
    "Pool_Deduct (at_fails att CDeduct) (at_now att CDeduct) sp db1 = (db2, Inr nb)" "rs_db sys1 = db2"
    by (auto simp: insert_and_deduct_def split: prod.splits sum.splits)
  have "pool_within (10 ^ 14) db1" using insert_found [OF s(1)] assms(2) by (simp add: pool_within_def)
  then show ?thesis using Deduct_within [OF s(2) _ assms(3,4)] s(3) by simp
qed

text \<open>From the debit to the processed answer.\<close>

lemma debit_and_process:
  assumes ins: "insert_and_deduct att e0 o2 (n * c) sys = (s2, Some o3)" and sub: "submit_purchase cfg isNO att o3 n ps e s2 = (s3, q)"
    and o2: "or_IsReal o2" "or_Action o2 \<noteq> ''sell''" "or_UnfilledRefundedCents o2 = 0" "or_FillPrice o2 = Fin 0"
      "or_SuggestedSize o2 = whole n" "or_MarketPrice o2 = cent_price c"
    and n: "n \<le> 10 ^ 6" "1 \<le> c" "c \<le> 99" "1 \<le> f" "f \<le> n" and fl: "fills att resp f" "\<not> at_fails att CUpdate"
    and sane: "pool_within (10 ^ 14) (rs_db sys)" and d: "paid_price isNO att resp c d" and enough: "f * d + 2 \<le> pool_cents (rs_db sys)"
  shows "pool_cents (rs_db s3) - (pool_cents (rs_db sys) - f * d) \<in> {-2 .. 1}" "purchase_result q = (whole f, False, True)"
    "\<exists>st cr. q = Processed (whole f) st cr"
proof -
  have nc: "0 \<le> n * c" "n * c \<le> 10 ^ 9"
    using n mult_mono [of n "10 ^ 6" c 99] by simp_all
  note fnd = insert_and_deduct_ok [OF ins o2(1)] and sane' = insert_and_deduct_within [OF ins sane nc]
  have o3: "or_Action o3 \<noteq> ''sell''" "or_UnfilledRefundedCents o3 = 0" "or_FillPrice o3 = Fin 0"
      "or_SuggestedSize o3 = whole n" "or_MarketPrice o3 = cent_price c"
    using fnd(2) o2 by auto
  have post: "at_post att = PostAnswer resp" using fl(1) by (simp add: fills_def)
  obtain db1 where pr: "process_purchase isNO att o3 resp e (rs_db s2) = (db1, q)" "rs_db s3 = db1"
    using sub post by (auto simp: submit_purchase_def Let_def split: prod.splits)
  have "f * d + 2 \<le> pool_cents (rs_db s2) + n * c" using fnd(4) enough by simp
  from process_cost [OF fl fnd(1) o3(1) sane' o3(2,3,4) n(1) o3(5) n(2-5) d this, of e]
  show "pool_cents (rs_db s3) - (pool_cents (rs_db sys) - f * d) \<in> {-2 .. 1}" using pr fnd(4) by simp
  obtain r where pf: "ParseFloat (cs_FillCount resp) = (whole f, True)" "ParseFloat (cs_RemainingCount resp) = (r, True)"
    using fl by (cases "ParseFloat (cs_RemainingCount resp)") (auto simp: fills_def)
  show "\<exists>st cr. q = Processed (whole f) st cr"
    using pr(1) by (auto simp: process_purchase_def pf Let_def split: prod.splits)
  show "purchase_result q = (whole f, False, True)"
    using pr(1) n(4) by (auto simp: process_purchase_def pf answer_status_def Let_def split: if_split_asm)
qed

lemma size_buy_spend:
  assumes "size_buy kf ord b = (n, sp)" "1 \<le> n" "n \<le> 10 ^ 6" "or_MarketPrice ord = cent_price c" "1 \<le> c" "c \<le> 99"
  shows "sp = n * c"
proof -
  have "sp = wrap64 (n * c)" using assms(1,2)
    by (auto simp: size_buy_def price_cents [OF assms(5,6)] assms(4) sizeRealOrder_def Let_def split: if_split_asm)
  moreover have "0 \<le> n * c" "n * c \<le> 10 ^ 6 * 99" using assms(2,3,5,6) mult_mono [of n "10 ^ 6" c 99] by simp_all
  ultimately show ?thesis by (simp add: wrap64_id in_int64_small)
qed

lemma of_int64_whole: "0 \<le> n \<Longrightarrow> n \<le> 10 ^ 6 \<Longrightarrow> of_int64 n = whole n"
  by (simp add: of_int64_exact whole_def)

lemma size_buy_describe [simp]: "size_buy kf (describe_order ge mkt ord) b = size_buy kf ord b"
  by (simp add: size_buy_def)

text \<open>
  C30. A purchase costs what was filled: when an order to buy contracts at a price of \<open>c\<close> cents is
  reported to have been submitted and the exchange filled \<open>f\<close> of its contracts at \<open>d\<close> cents each
  (with \<open>d = c\<close> when it does not tell the price), the pool is down by \<open>f * d\<close> cents, up to a rounding
  of at most two cents, for both kinds of contracts.
\<close>

theorem purchase_costs_its_fill:
  assumes "EmitOrder cfg kf em ord sys = (sys', True)" "\<not> is_sale ord"
    "size_buy kf ord (pool_cents (rs_db sys)) = (n, sp)" "n \<le> 10 ^ 6"
    "or_MarketPrice ord = cent_price c" "1 \<le> c" "c \<le> 99" "or_UnfilledRefundedCents ord = 0" "or_FillPrice ord = Fin 0"
    "fills (em_first em) resp f" "1 \<le> f" "f \<le> n" "paid_price (or_Action ord = ''buy_no'') (em_first em) resp c d"
    "\<not> at_fails (em_first em) CUpdate" "pool_within (10 ^ 14) (rs_db sys)" "f * d + 2 \<le> pool_cents (rs_db sys)"
  shows "pool_cents (rs_db sys') - (pool_cents (rs_db sys) - f * d) \<in> {-2 .. 1}"
proof (cases "or_Action ord = ''buy_no''")
  case True
  then have run: "emitBuyNO cfg kf em ord sys = (sys', True)"
    using assms(1,2) by (auto simp: EmitOrder_def is_sale_def split: if_split_asm)
  then obtain o1 bal where g: "buy_guards (em_guards em) ord (rs_db sys) = Some (o1, bal)"
    by (auto simp: emitBuyNO_def split: option.splits)
  obtain mkt where o1: "o1 = describe_order (em_guards em) mkt ord" using buy_guards_clear(4) [OF g] by blast
  have sz: "size_buy kf o1 bal = (n, n * c)" "1 \<le> n"
    using assms(3,11,12) buy_guards_clear(2) [OF g] o1 size_buy_spend [OF assms(3) _ assms(4-7)] by auto
  define o2 where "o2 = o1\<lparr>or_IsReal := True, or_OrderStatus := ''pending'', or_SuggestedSize := of_int64 n,
     or_Action := ''buy_no'', or_Side := OrderSideOpen\<rparr>"
  note run2 = run [unfolded emitBuyNO_def g option.case prod.case sz(1) Let_def, folded o2_def]
  obtain s2 o3 where ins: "insert_and_deduct (em_first em) ''buy_no_pool_deduct_failed: '' o2 (n * c) sys = (s2, Some o3)"
    using run2 sz(2) by (auto split: prod.splits option.splits)
  obtain s3 q where sub: "submit_purchase cfg True (em_first em) o3 n (format4f (or_MarketPrice o3)) ''buy_no_ioc_zero_fill'' s2 = (s3, q)"
    by fastforce
  have o2: "or_IsReal o2" "or_Action o2 \<noteq> ''sell''" "or_UnfilledRefundedCents o2 = 0" "or_FillPrice o2 = Fin 0"
      "or_SuggestedSize o2 = whole n" "or_MarketPrice o2 = cent_price c"
    using assms(4,5,8,9) o1 sz(2) by (simp_all add: o2_def of_int64_whole)
  note fin = debit_and_process [OF ins sub o2 assms(4,6,7,11,12,10,14,15) _ assms(16)]
  have "sys' = s3"
    using run2 [unfolded ins prod.case option.case sub] fin(3) assms(13) True sz(2) by (auto split: if_split_asm)
  then show ?thesis using fin(1) assms(13) True by simp
next
  case False
  then have run: "emitBuy cfg kf em ord sys = (sys', True)"
    using assms(1,2) by (auto simp: EmitOrder_def is_sale_def split: if_split_asm)
  then obtain o1 bal where g: "buy_guards (em_guards em) ord (rs_db sys) = Some (o1, bal)"
    by (auto simp: emitBuy_def split: option.splits)
  obtain mkt where o1: "o1 = describe_order (em_guards em) mkt ord" using buy_guards_clear(4) [OF g] by blast
  have sz: "size_buy kf o1 bal = (n, n * c)" "1 \<le> n"
    using assms(3,11,12) buy_guards_clear(2) [OF g] o1 size_buy_spend [OF assms(3) _ assms(4-7)] by auto
  define o2 where "o2 = o1\<lparr>or_IsReal := True, or_OrderStatus := ''pending'', or_SuggestedSize := of_int64 n,
     or_Action := ''buy'', or_Side := (if or_Side o1 = [] then OrderSideOpen else or_Side o1)\<rparr>"
  note run2 = run [unfolded emitBuy_def g option.case prod.case sz(1) Let_def, folded o2_def]
  obtain s2 o3 where ins: "insert_and_deduct (em_first em) ''pool_deduct_failed: '' o2 (n * c) sys = (s2, Some o3)"
    using run2 sz(2) by (auto split: prod.splits option.splits)
  obtain s3 q where sub: "submit_purchase cfg False (em_first em) o3 n (format4f (or_MarketPrice o3)) ''ioc_zero_fill'' s2 = (s3, q)"
    by fastforce
  have o2: "or_IsReal o2" "or_Action o2 \<noteq> ''sell''" "or_UnfilledRefundedCents o2 = 0" "or_FillPrice o2 = Fin 0"
      "or_SuggestedSize o2 = whole n" "or_MarketPrice o2 = cent_price c"
    using assms(4,5,8,9) o1 sz(2) by (simp_all add: o2_def of_int64_whole)
  note fin = debit_and_process [OF ins sub o2 assms(4,6,7,11,12,10,14,15) _ assms(16)]
  have "sys' = s3"
    using run2 [unfolded ins prod.case option.case submitBuyToKalshi_def sub] fin(2) assms(13) False sz(2)
    by (auto split: if_split_asm)
  then show ?thesis using fin(1) assms(13) False by simp
qed

section \<open>Sales stay within the position\<close>

lemma UpdateRealOrder_positions: "rd_positions (fst (UpdateRealOrder fl now i k f p st e db)) = rd_positions db"
proof -
  have r: "rd_positions db1 = rd_positions db" if "refundUnfilled now ord f db = Inr (db1, ord1, x, nb)" for ord db1 ord1 x nb
    using that by (auto simp: refundUnfilled_def Let_def dest!: update_pool_frame split: if_split_asm prod.splits pool_update.splits)
  have m: "rd_positions db2 = rd_positions db1" if "maybe_reconcile now ord1 f p st db1 = Inr (db2, g)" for ord1 db1 db2 g
    using that
    by (auto simp: maybe_reconcile_def reconcileFillPrice_def Let_def dest!: update_pool_frame
        split: if_split_asm prod.splits pool_update.splits)
  show ?thesis
    by (auto simp: UpdateRealOrder_def change_order_def dest!: r m split: option.split sum.splits if_splits)
qed

lemma sale_zero_fill:
  assumes "submitSellToKalshi cfg att ord n p e sys = (sys1, f, True, sb)"
  shows "rd_positions (rs_db sys1) = rd_positions (rs_db sys)"
proof (cases "at_post att")
  case (PostFailed x)
  then show ?thesis using assms by (simp add: submitSellToKalshi_def Let_def)
next
  case (PostAnswer resp)
  obtain f1 b1 f2 b2 where pf: "ParseFloat (cs_FillCount resp) = (f1, b1)" "ParseFloat (cs_RemainingCount resp) = (f2, b2)" by fastforce
  have "\<not> fpos f1" if "answer_status f1 f2 e = (''canceled'', cr)" for cr
    using that by (auto simp: answer_status_def split: if_split_asm)
  then show ?thesis using assms PostAnswer
    by (cases b1; cases b2)
      (auto simp: submitSellToKalshi_def process_sale_def pf Let_def apply_sale_def credit_sale_def update_order_def
        UpdateRealOrder_positions split: prod.splits if_split_asm)
qed

lemma insert_positions: "InsertRealOrder f ord db = (db1, r) \<Longrightarrow> rd_positions db1 = rd_positions db"
  by (auto simp: InsertRealOrder_def Let_def split: if_split_asm)

lemma clamp_within:
  "fle (Fin 1) oc \<Longrightarrow> c \<noteq> NaN \<Longrightarrow> fle (clamp_count (if fle0 c \<or> flt oc c then oc else c)) oc \<and> clamp_count (if fle0 c \<or> flt oc c then oc else c) \<noteq> NaN"
  by (cases c; cases oc) (auto simp: clamp_count_def fle0_def)

lemma clamp_within':
  "fle (Fin 1) oc \<Longrightarrow> c \<noteq> NaN \<Longrightarrow> fle (clamp_count (if flt oc c then oc else c)) oc"
  by (cases c; cases oc) (auto simp: clamp_count_def)

definition sells_at_most :: "float64 \<Rightarrow> createOrderV2Request \<Rightarrow> bool" where
  "sells_at_most oc req \<longleftrightarrow> cq_Side req = ''ask'' \<and> (\<exists>x. cq_Count req = format2f x \<and> fle x oc)"

lemma retrySell_within:
  assumes "retrySellAsMarket cfg att ord n sys = (sys1, f)" "n \<noteq> NaN"
    "\<And>b pos. GetOpenForStrategy b (or_MarketTicker ord) (or_Strategy ord) True (rs_db sys) = Inr (Some pos) \<Longrightarrow>
       open_contracts pos = oc" "fle (Fin 1) oc"
  shows "\<exists>rs. rs_sent sys1 = rs_sent sys @ rs \<and> list_all (sells_at_most oc) rs"
proof (cases "rs_sent sys1 = rs_sent sys")
  case False
  with assms(1) obtain pos where p: "GetOpenForStrategy (at_fails att CPosition) (or_MarketTicker ord) (or_Strategy ord) True (rs_db sys) = Inr (Some pos)"
    by (auto simp: retrySellAsMarket_def split: sum.splits option.splits)
  have oc: "open_contracts pos = oc" by (rule assms(3) [OF p])
  define cnt where "cnt = clamp_count (if flt oc n then oc else n)"
  have "fle cnt oc" using clamp_within' [OF assms(4,2)] by (simp add: cnt_def)
  note run = assms(1) [unfolded retrySellAsMarket_def p sum.case option.case Let_def oc, folded cnt_def]
  then show ?thesis using False \<open>fle cnt oc\<close>
    by (auto dest!: submitSell_sent simp: sells_at_most_def order_request_def split: if_split_asm prod.splits sum.splits)
qed simp


section \<open>Paired orders\<close>

lemma submit_fill:
  assumes "submitBuyToKalshi cfg att ord n p e sys = (sys1, f, zf, sb)" "f \<noteq> Fin 0"
  shows "\<exists>resp. at_post att = PostAnswer resp \<and> parsed (cs_FillCount resp) \<noteq> Fin 0"
  using assms
  by (auto simp: submitBuyToKalshi_def submit_purchase_def process_purchase_def Let_def dest!: ParseFloat_parsed
      split: post_result.splits prod.splits bool.splits)

lemma retry_fill:
  assumes "retryBuyAsMarket cfg att ord n sys = (sys1, f)" "f \<noteq> Fin 0"
  shows "\<exists>resp. at_post att = PostAnswer resp \<and> parsed (cs_FillCount resp) \<noteq> Fin 0"
  using assms
  by (auto simp: retryBuyAsMarket_def Let_def dest!: submit_fill split: sum.splits if_split_asm prod.splits option.splits)

text \<open>
  The first leg of a pair of purchases only succeeds when it bought something: an order to buy that carries a pair id is
  reported as submitted only if the exchange reported a fill, at the first attempt or at the retry.
\<close>

theorem paired_buy_was_filled:
  assumes "EmitOrder cfg kf em ord sys = (sys', True)" "\<not> is_sale ord" "or_Action ord \<noteq> ''buy_no''" "or_PairID ord \<noteq> []"
  shows "\<exists>att \<in> {em_first em, em_retry em}. \<exists>resp. at_post att = PostAnswer resp \<and> parsed (cs_FillCount resp) \<noteq> Fin 0"
proof -
  have run: "emitBuy cfg kf em ord sys = (sys', True)"
    using assms(1-3) by (auto simp: EmitOrder_def is_sale_def split: if_split_asm)
  then obtain o1 bal where g: "buy_guards (em_guards em) ord (rs_db sys) = Some (o1, bal)"
    by (auto simp: emitBuy_def split: option.splits)
  obtain mkt where o1: "o1 = describe_order (em_guards em) mkt ord" using buy_guards_clear(4) [OF g] by blast
  obtain n sp where sz: "size_buy kf o1 bal = (n, sp)" by fastforce
  define o2 where "o2 = o1\<lparr>or_IsReal := True, or_OrderStatus := ''pending'', or_SuggestedSize := of_int64 n,
     or_Action := ''buy'', or_Side := (if or_Side o1 = [] then OrderSideOpen else or_Side o1)\<rparr>"
  note run2 = run [unfolded emitBuy_def g option.case prod.case sz Let_def, folded o2_def]
  obtain s2 o3 where ins: "insert_and_deduct (em_first em) ''pool_deduct_failed: '' o2 sp sys = (s2, Some o3)"
    using run2 by (auto split: prod.splits option.splits if_split_asm)
  have "or_PairID o3 \<noteq> []" using insert_and_deduct_ok(2) [OF ins] assms(4) o1 by (auto simp: o2_def)
  obtain s3 f zf sb where sub: "submitBuyToKalshi cfg (em_first em) o3 n (format4f (or_MarketPrice o3)) ''ioc_zero_fill'' s2 = (s3, f, zf, sb)"
    by (metis surj_pair)
  have "f \<noteq> Fin 0 \<or> (\<exists>f1. retryBuyAsMarket cfg (em_retry em) o3 n s3 = (sys', f1) \<and> f1 \<noteq> Fin 0)"
    using run2 [unfolded ins prod.case option.case sub] \<open>or_PairID o3 \<noteq> []\<close>
    by (auto split: if_split_asm prod.splits)
  then show ?thesis using submit_fill [OF sub] retry_fill by blast
qed

section \<open>A concrete order\<close>

text \<open>An order for half a dollar that is certain to win, a pool of 100 dollars, an open match, and an exchange that
  fills the order of 100 contracts.\<close>

definition ex_resp :: createOrderV2Response where
  "ex_resp = \<lparr>cs_OrderID = ''k1'', cs_FillCount = ''100'', cs_RemainingCount = ''0'', cs_TsMS = 0\<rparr>"

definition ex_attempt :: attempt where
  "ex_attempt = \<lparr>at_fails = \<lambda>_. False, at_now = \<lambda>_. 5, at_uuid = ''u1'', at_post = PostAnswer ex_resp, at_lookup = None\<rparr>"

definition ex_settings :: settings where
  "ex_settings =
     \<lparr>st_configs = [\<lparr>sc_Strategy = ''s'', sc_Enabled = True, sc_PerMarketMaxOrders = 1, sc_UpdatedTS = 0\<rparr>],
      st_ranges = [], st_nextRange = 1\<rparr>"

definition ex_emission :: emission where
  "ex_emission =
     \<lparr>em_guards = \<lparr>ge_markets = [''mk'' \<mapsto> \<lparr>mk_EventTicker = ''ev'', mk_PlayerName = ''P'', mk_OccurrenceTS = 0\<rparr>],
        ge_scores = Map.empty, ge_points = \<lambda>_. False, ge_titles = Map.empty, ge_settings = ex_settings, ge_now = 5,
        ge_fails = \<lambda>_. False\<rparr>,
      em_first = ex_attempt, em_retry = ex_attempt\<rparr>"

definition ex_order :: "string \<Rightarrow> string \<Rightarrow> Order" where
  "ex_order action pairID =
     \<lparr>or_ID = 0, or_TS = 5, or_MatchTicker = ''ev'', or_MarketTicker = ''mk'', or_MatchTitle = [], or_PlayerName = [],
      or_Action = action, or_Side = [], or_Context = [], or_ConvProb = Fin 1, or_MarketPrice = Fin (1 / 2), or_FillPrice = Fin 0,
      or_EdgeCents = 50, or_SuggestedSize = Fin 0, or_SetNumber = 1, or_Strategy = ''s'', or_Payload = [], or_Bankroll = Fin 0,
      or_KellyFraction = Fin 1, or_IsReal = False, or_KalshiOrderID = [], or_FillCount = Fin 0, or_OrderStatus = [],
      or_ResolvedPNLCents = 0, or_PoolBalanceBeforeCents = 0, or_PoolBalanceAfterCents = 0, or_UnfilledRefundedCents = 0,
      or_PositionID = None, or_PairID = pairID, or_Result = [], or_SettledTS = 0, or_PnLUpdatedTS = 0, or_EmitTS = 0\<rparr>"

definition ex_pool :: LiquidityPool where
  "ex_pool = \<lparr>lp_BalanceCents = 10000, lp_InitialBalanceCents = 10000, lp_TotalSpentCents = 0, lp_TotalPNLCents = 0, lp_UpdatedTS = 0\<rparr>"

definition ex_position :: "float64 \<Rightarrow> Position" where
  "ex_position n =
     \<lparr>po_ID = 1, po_MatchTicker = ''ev'', po_MarketTicker = ''mk'', po_Strategy = ''s'', po_IsReal = True, po_Action = [],
      po_FilledBuyCount = n, po_FilledSellCount = Fin 0, po_AvgEntryPrice = Fin (1 / 2), po_AvgExitPrice = Fin 0,
      po_RealizedPNLCents = 0, po_Status = ''open'', po_OpenedTS = 0, po_ClosedTS = 0\<rparr>"

definition ex_sys :: "Position list \<Rightarrow> real_sys" where
  "ex_sys ps =
     \<lparr>rs_db = \<lparr>rd_orders = [], rd_nextOrder = 1, rd_pool = Some ex_pool, rd_positions = ps, rd_nextPosition = 2\<rparr>, rs_sent = []\<rparr>"

definition ex_cfg :: RealOrderConfig where
  "ex_cfg = NewRealOrderConfig ''demo'' [] 0"

lemmas ex_defs = ex_resp_def ex_attempt_def ex_settings_def ex_emission_def ex_order_def ex_pool_def ex_position_def ex_sys_def
  ex_cfg_def NewRealOrderConfig_def

lemma fround_100: "fround 100 = Fin 100" "fround 1 = Fin 1" "fround 10000 = Fin 10000" "fround 50 = Fin 50" "fround 0 = Fin 0"
  using exact_int [of 100] exact_int [of 1] exact_int [of 10000] exact_int [of 50] exact_int [of 0] by simp_all

lemma fround_half: "fround (1 / 2) = Fin (1 / 2)"
proof -
  have "rnd (1 / 2) = 1 / 2" using rnd_powi [of "-1"] by (simp add: power_int_def)
  then show ?thesis using fround_small [of "1 / 2"] by simp
qed

lemma ex_parse: "ParseFloat ''100'' = (Fin 100, True)" "ParseFloat ''0'' = (Fin 0, True)"
  by (simp_all add: ParseFloat_def parse_special_def parse_decimal_def parse_exponent_def split_sign_def lower_char_def
      is_digit_char_def read_nat_def fround_100 Let_def)

lemma floor_101: "\<lfloor>101 / 2 :: rat\<rfloor> = 50"
  by (simp add: floor_eq_iff)

lemma wrap_5000: "wrap64 5000 = 5000"
  by (simp add: wrap64_id int64_bounds)

lemma ex_size: "size_buy (Fin 1) (ex_order a q) 10000 = (100, 5000)"
  by (simp add: size_buy_def ex_defs kellySizeRaw_def sizeRealOrder_def fle0_def fsub_def of_int64_def fround_100 fround_half Let_def
      trunc_rat_def int64_bounds floor_101 wrap_5000)

lemmas ex_run_defs = emitBuy_def emitBuyNO_def buy_guards_def GetMarket_def match_live_def strategy_on_def IsEnabled_def find_config_def below_limit_def
  GetLimit_def CountRealOrdersByMarketStrategy_def price_allowed_def Has_def ranges_of_def Pool_Get_def insert_and_deduct_def
  InsertRealOrder_def find_order_def Pool_Deduct_def update_pool_def submitBuyToKalshi_def submit_purchase_def process_purchase_def
  answer_status_def describe_order_def GetEventTitle_def

lemma ex_guards: "buy_guards (em_guards ex_emission) (ex_order a q) (rs_db (ex_sys [])) =
    Some ((ex_order a q)\<lparr>or_PlayerName := ''P'', or_MatchTitle := []\<rparr>, 10000)"
  by (simp add: ex_run_defs ex_defs Let_def)

lemma ex_size': "size_buy (Fin 1) ((ex_order a q)\<lparr>or_PlayerName := ''P'', or_MatchTitle := []\<rparr>) 10000 = (100, 5000)"
  using ex_size by (simp add: size_buy_def)

lemma ex_insert:
  "\<exists>o3 s2. insert_and_deduct ex_attempt e (ord\<lparr>or_IsReal := True, or_OrderStatus := ''pending'', or_SuggestedSize := x,
       or_Action := ac, or_Side := sd\<rparr>) 5000 (ex_sys []) = (s2, Some o3)"
  by (simp add: insert_and_deduct_def InsertRealOrder_def find_order_def Pool_Deduct_def update_pool_def ex_defs Let_def int64_bounds)

lemma ex_submit:
  "\<exists>s3 st. submit_purchase cfg isNO ex_attempt ord n p e sys = (s3, Processed (Fin 100) st [])"
  by (auto simp: submit_purchase_def process_purchase_def answer_status_def ex_attempt_def ex_resp_def ex_parse fpos_def Let_def
      split: prod.split)

lemma ex_em_first: "em_first ex_emission = ex_attempt" "em_retry ex_emission = ex_attempt"
  by (simp_all add: ex_emission_def)

lemma ex_buy: "\<exists>sys'. EmitOrder ex_cfg (Fin 1) ex_emission (ex_order ''buy'' q) (ex_sys []) = (sys', True) \<and> rs_sent sys' \<noteq> []"
proof -
  have e: "EmitOrder ex_cfg (Fin 1) ex_emission (ex_order ''buy'' q) (ex_sys []) = emitBuy ex_cfg (Fin 1) ex_emission (ex_order ''buy'' q) (ex_sys [])"
    by (simp add: EmitOrder_def ex_order_def ex_cfg_def NewRealOrderConfig_def)
  let ?o1 = "(ex_order ''buy'' q)\<lparr>or_PlayerName := ''P'', or_MatchTitle := []\<rparr>"
  let ?o2 = "?o1\<lparr>or_IsReal := True, or_OrderStatus := ''pending'', or_SuggestedSize := of_int64 100,
     or_Action := ''buy'', or_Side := (if or_Side ?o1 = [] then OrderSideOpen else or_Side ?o1)\<rparr>"
  obtain s2 o3 where ins: "insert_and_deduct ex_attempt ''pool_deduct_failed: '' ?o2 5000 (ex_sys []) = (s2, Some o3)"
    using ex_insert by blast
  obtain s3 st where sub: "submit_purchase ex_cfg False ex_attempt o3 100 (format4f (or_MarketPrice o3)) ''ioc_zero_fill'' s2 = (s3, Processed (Fin 100) st [])"
    using ex_submit by blast
  have "rs_sent s3 \<noteq> []" using submit_purchase_sent [OF sub] by simp
  moreover have "EmitOrder ex_cfg (Fin 1) ex_emission (ex_order ''buy'' q) (ex_sys []) = (s3, True)"
    unfolding e emitBuy_def ex_guards option.case prod.case ex_size' Let_def ex_em_first ins submitBuyToKalshi_def sub
    by simp
  ultimately show ?thesis by blast
qed

text \<open>The same system with a position, for a sale.\<close>

lemma ex_open: "GetOpenForStrategy False ''mk'' ''s'' True (rs_db (ex_sys [ex_position (Fin n)])) = Inr (Some (ex_position (Fin n)))"
  by (simp add: GetOpenForStrategy_def ex_sys_def ex_position_def)

section \<open>Instances\<close>

theorem requests_only_when_cleared_witness:
  "clear_to_buy (em_guards ex_emission) (ex_order ''buy'' []) (rs_db (ex_sys []))"
proof -
  obtain sys' where r: "EmitOrder ex_cfg (Fin 1) ex_emission (ex_order ''buy'' []) (ex_sys []) = (sys', True)" "rs_sent sys' \<noteq> []"
    using ex_buy by blast
  have "rs_sent sys' \<noteq> rs_sent (ex_sys [])" using r(2) by (simp add: ex_sys_def)
  from requests_only_when_cleared [OF r(1) this] show ?thesis by (simp add: is_sale_def ex_order_def)
qed

lemma ex_answer: "answer_ok isNO ex_attempt"
  by (simp add: answer_ok_def ex_attempt_def ex_resp_def parsed_def ex_parse count_ok_def fetchFillPrice_def)

theorem pool_never_negative_witness:
  "0 \<le> pool_cents (rs_db (fst (EmitOrder ex_cfg (Fin 1) ex_emission (ex_order ''buy'' []) (ex_sys []))))"
proof (rule pool_never_negative)
  show "emission_ok (ex_order ''buy'' []) ex_emission"
    by (simp add: emission_ok_def ex_em_first ex_answer ex_order_def price_ok_def)
  show "0 \<le> pool_cents (rs_db (ex_sys []))" by (simp add: ex_sys_def pool_cents_def ex_pool_def)
qed

theorem size_is_largest_affordable_witness: "sizeRealOrder (Fin 1000) 50 10000 = (200, 10000)"
  using size_is_largest_affordable [of 50 10000 "Fin 1000"] by (simp add: trunc_rat_def int64_bounds Let_def)

lemma ex_cent: "cent_price 50 = Fin (1 / 2)" "whole 100 = Fin 100"
  by (simp_all add: cent_price_def flit_def fround_half whole_def)

theorem purchase_costs_its_fill_witness:
  "\<exists>sys'. EmitOrder ex_cfg (Fin 1) ex_emission (ex_order ''buy'' []) (ex_sys []) = (sys', True) \<and>
     pool_cents (rs_db sys') - 5000 \<in> {-2 .. 1}"
proof -
  obtain sys' where r: "EmitOrder ex_cfg (Fin 1) ex_emission (ex_order ''buy'' []) (ex_sys []) = (sys', True)"
    using ex_buy by blast
  have bal: "pool_cents (rs_db (ex_sys [])) = 10000" by (simp add: ex_sys_def pool_cents_def ex_pool_def)
  have "pool_cents (rs_db sys') - (pool_cents (rs_db (ex_sys [])) - 100 * 50) \<in> {-2 .. 1}"
  proof (rule purchase_costs_its_fill [OF r])
    show "\<not> is_sale (ex_order ''buy'' [])" "or_UnfilledRefundedCents (ex_order ''buy'' []) = 0" "or_FillPrice (ex_order ''buy'' []) = Fin 0"
      "or_MarketPrice (ex_order ''buy'' []) = cent_price 50"
      by (simp_all add: is_sale_def ex_order_def ex_cent)
    show "size_buy (Fin 1) (ex_order ''buy'' []) (pool_cents (rs_db (ex_sys []))) = (100, 5000)" by (simp add: bal ex_size)
    show "fills (em_first ex_emission) ex_resp 100"
      by (simp add: fills_def ex_em_first ex_attempt_def ex_parse ex_resp_def ex_cent)
    show "paid_price (or_Action (ex_order ''buy'' []) = ''buy_no'') (em_first ex_emission) ex_resp 50 50"
      by (simp add: paid_price_def ex_em_first ex_attempt_def fetchFillPrice_def)
    show "\<not> at_fails (em_first ex_emission) CUpdate" by (simp add: ex_em_first ex_attempt_def)
    show "pool_within (10 ^ 14) (rs_db (ex_sys []))" by (simp add: pool_within_def ex_sys_def ex_pool_def int64_bounds)
  qed (simp_all add: bal)
  then show ?thesis using r bal by auto
qed


theorem paired_buy_was_filled_witness:
  "\<exists>att \<in> {em_first ex_emission, em_retry ex_emission}. \<exists>resp. at_post att = PostAnswer resp \<and> parsed (cs_FillCount resp) \<noteq> Fin 0"
proof -
  obtain sys' where r: "EmitOrder ex_cfg (Fin 1) ex_emission (ex_order ''buy'' ''pair'') (ex_sys []) = (sys', True)"
    using ex_buy by blast
  show ?thesis by (rule paired_buy_was_filled [OF r]) (simp_all add: is_sale_def ex_order_def)
qed

section \<open>Corners\<close>

text \<open>The other kind of purchase reports success for a paired order whose fill count could not be read.\<close>

lemma paired_no_unverified:
  assumes "buy_guards (em_guards em) ord (rs_db sys) = Some (o1, bal)" "size_buy kf o1 bal = (n, sp)" "1 \<le> n"
    "insert_and_deduct (em_first em) ''buy_no_pool_deduct_failed: '' (o1\<lparr>or_IsReal := True, or_OrderStatus := ''pending'',
       or_SuggestedSize := of_int64 n, or_Action := ''buy_no'', or_Side := OrderSideOpen\<rparr>) sp sys = (s2, Some o3)"
    "at_post (em_first em) = PostAnswer resp" "\<not> snd (ParseFloat (cs_FillCount resp))" "or_PairID ord \<noteq> []"
  shows "snd (emitBuyNO cfg kf em ord sys)"
proof -
  obtain x where p: "ParseFloat (cs_FillCount resp) = (x, False)" using assms(6) by (cases "ParseFloat (cs_FillCount resp)") auto
  have "\<exists>s3. submit_purchase cfg True (em_first em) o3 n ps e s2 = (s3, Unverified (Fin 0))" for ps e
    by (simp add: submit_purchase_def process_purchase_def p assms(5) Let_def)
  then obtain s3 where "submit_purchase cfg True (em_first em) o3 n (format4f (or_MarketPrice o3)) ''buy_no_ioc_zero_fill'' s2 = (s3, Unverified (Fin 0))"
    by blast
  then show ?thesis
    unfolding emitBuyNO_def assms(1) option.case prod.case assms(2) Let_def assms(4) using assms(3) by simp
qed

text \<open>A position of less than a contract is offered as a whole one.\<close>

lemma fraction_offered_as_whole:
  assumes "x < 1" "c \<noteq> NaN"
  shows "clamp_count (if fle0 c \<or> flt (Fin x) c then Fin x else c) = Fin 1"
  using assms by (cases c) (auto simp: clamp_count_def fle0_def)

end
