(* ===== verification/RealOrders.thy ===== *)
theory RealOrders
  imports RealMoney Positions
begin

text \<open>
  The life of a real order in the database (\<open>internal/store/orders.go\<close>): a finished order never changes
  again, and settling a market pays every filled order once.
\<close>

section \<open>Settlement\<close>

text \<open>The order after settlement, but for the two columns that record the balance of the pool.\<close>

definition resolved :: "string \<Rightarrow> Order \<Rightarrow> Order" where
  "resolved result po =
     po\<lparr>or_OrderStatus := ''resolved'', or_ResolvedPNLCents := settle_pnl result po,
        or_UnfilledRefundedCents := wrap64 (or_UnfilledRefundedCents po + settle_refund po)\<rparr>"

definition no_balance :: "Order \<Rightarrow> Order" where
  "no_balance r = r\<lparr>or_PoolBalanceBeforeCents := 0, or_PoolBalanceAfterCents := 0\<rparr>"

definition credited :: "string \<Rightarrow> Order \<Rightarrow> int" where
  "credited result po = settle_refund po + settle_payout result po"

lemma settle_refund_range: "0 \<le> settle_refund po" "in_int64 (settle_refund po)"
proof -
  show "0 \<le> settle_refund po" by (simp add: settle_refund_def Let_def)
  have "in_int64 0" by (simp add: int64_bounds)
  then show "in_int64 (settle_refund po)" by (simp add: settle_refund_def Let_def)
qed

definition settle_row :: "string \<Rightarrow> Order \<Rightarrow> int \<Rightarrow> int \<Rightarrow> Order \<Rightarrow> Order" where
  "settle_row result po before after row =
     (if or_ID row = or_ID po
      then row\<lparr>or_OrderStatus := ''resolved'', or_ResolvedPNLCents := settle_pnl result po,
             or_UnfilledRefundedCents := wrap64 (or_UnfilledRefundedCents po + settle_refund po),
             or_PoolBalanceBeforeCents := before, or_PoolBalanceAfterCents := after\<rparr>
      else row)"

text \<open>What one settled order does to the rows of a table in which it appears.\<close>

lemma settle_row_id [simp]: "or_ID (settle_row result po b a row) = or_ID row"
  by (simp add: settle_row_def)

lemma settle_row_other: "or_ID row \<noteq> or_ID po \<Longrightarrow> settle_row result po b a row = row"
  by (simp add: settle_row_def)

lemma settle_row_self: "no_balance (settle_row result po b a po) = no_balance (resolved result po)"
  by (simp add: settle_row_def no_balance_def resolved_def)

lemma resolve_loop_step:
  "resolve_loop result (po # pos) (balance, rows) =
     (let after = wrap64 (balance + wrap64 (credited result po)) in
      resolve_loop result pos (after, map (settle_row result po balance after) rows))"
  by (simp add: credited_def settle_row_def Let_def cong: map_cong)

lemma resolve_loop_spec:
  assumes "distinct (map or_ID rows)" "distinct (map or_ID pos)" "set pos \<subseteq> set rows"
    "\<And>po. po \<in> set pos \<Longrightarrow> 0 \<le> settle_payout result po" "0 \<le> balance"
    "in_int64 (balance + sum_list (map (credited result) pos))"
    "resolve_loop result pos (balance, rows) = (balance', rows')"
  shows "balance' = balance + sum_list (map (credited result) pos) \<and>
    map no_balance rows' = map (\<lambda>r. no_balance (if r \<in> set pos then resolved result r else r)) rows \<and>
    (\<forall>r \<in> set rows. r \<notin> set pos \<longrightarrow> r \<in> set rows')"
  using assms
proof (induction pos arbitrary: balance rows)
  case (Cons po pos)
  have pay: "0 \<le> credited result q" if "q \<in> set (po # pos)" for q
    using Cons.prems(4) [OF that] settle_refund_range(1) [of q] by (simp add: credited_def)
  have tail: "0 \<le> sum_list (map (credited result) pos)" using pay by (intro sum_list_nonneg) auto
  have le: "in_int64 x" if "0 \<le> x" "x \<le> balance + (credited result po + sum_list (map (credited result) pos))" for x
    using that Cons.prems(6) by (simp add: int64_bounds)
  have "0 \<le> credited result po" by (rule pay) simp
  then have w: "wrap64 (balance + wrap64 (credited result po)) = balance + credited result po"
    using tail Cons.prems(5) le [of "credited result po"] le [of "balance + credited result po"] by (simp add: wrap64_id)
  define rows1 where "rows1 = map (settle_row result po balance (balance + credited result po)) rows"
  have run: "resolve_loop result pos (balance + credited result po, rows1) = (balance', rows')"
    using Cons.prems(7) by (simp only: resolve_loop_step w Let_def rows1_def)
  have ids: "map or_ID rows1 = map or_ID rows" by (simp add: rows1_def comp_def)
  have inj: "r = q" if "r \<in> set rows" "q \<in> set rows" "or_ID r = or_ID q" for r q
    using that Cons.prems(1) by (auto simp: distinct_map dest: inj_onD)
  have po: "po \<in> set rows" "po \<notin> set pos" using Cons.prems(2,3) by auto
  have other: "settle_row result po b a r = r" if "r \<in> set rows" "r \<noteq> po" for r b a
    using inj [OF that(1) po(1)] that(2) by (intro settle_row_other) auto
  have sub: "set pos \<subseteq> set rows1"
  proof
    fix q assume q: "q \<in> set pos"
    then have "q \<in> set rows" "q \<noteq> po" using Cons.prems(3) po(2) by auto
    then show "q \<in> set rows1" using other [of q] by (auto simp: rows1_def intro!: image_eqI [of _ _ q])
  qed
  have IH: "balance' = (balance + credited result po) + sum_list (map (credited result) pos) \<and>
    map no_balance rows' = map (\<lambda>r. no_balance (if r \<in> set pos then resolved result r else r)) rows1 \<and>
    (\<forall>r \<in> set rows1. r \<notin> set pos \<longrightarrow> r \<in> set rows')"
  proof (rule Cons.IH [OF _ _ sub _ _ _ run])
    show "distinct (map or_ID rows1)" using Cons.prems(1) ids by simp
    show "distinct (map or_ID pos)" using Cons.prems(2) by simp
    show "0 \<le> settle_payout result q" if "q \<in> set pos" for q using that Cons.prems(4) by simp
    show "0 \<le> balance + credited result po" using Cons.prems(5) \<open>0 \<le> credited result po\<close> by simp
    show "in_int64 (balance + credited result po + sum_list (map (credited result) pos))" using Cons.prems(6) by (simp add: add.assoc)
  qed
  have notin: "settle_row result po b a po \<notin> set pos" for b a
  proof
    assume "settle_row result po b a po \<in> set pos"
    then have "or_ID po \<in> or_ID ` set pos" by (metis image_eqI settle_row_id)
    then show False using Cons.prems(2) by simp
  qed
  have "map (\<lambda>r. no_balance (if r \<in> set pos then resolved result r else r)) rows1 =
    map (\<lambda>r. no_balance (if r \<in> set (po # pos) then resolved result r else r)) rows"
  proof -
    have "no_balance (if settle_row result po b a r \<in> set pos then resolved result (settle_row result po b a r) else settle_row result po b a r) =
      no_balance (if r \<in> set (po # pos) then resolved result r else r)" if "r \<in> set rows" for r b a
      using that other [of r b a] notin [of b a] settle_row_self [of result po b a] po(2) by (cases "r = po") simp_all
    then show ?thesis by (simp add: rows1_def)
  qed
  moreover have "r \<in> set rows1" if "r \<in> set rows" "r \<noteq> po" for r
    using other [OF that] that(1) by (auto simp: rows1_def intro!: image_eqI [of _ _ r])
  ultimately show ?case using IH by auto
qed simp

lemma status_no_balance: "map no_balance xs = map f ys \<Longrightarrow> (\<And>y. y \<in> set ys \<Longrightarrow> P (f y)) \<Longrightarrow> x \<in> set xs \<Longrightarrow> P (no_balance x)"
  by (metis (no_types, lifting) image_iff list.set_map)


section \<open>Payout of whole contracts\<close>

lemma payout_whole:
  assumes "or_FillCount po = whole f" "1 \<le> f" "f \<le> 10 ^ 6"
  shows "settle_payout result po = (if order_won result po then 100 * f else 0)"
proof -
  have "fround (of_int (f * 100)) = Fin (of_int (f * 100))" using assms by (intro exact_int) simp
  moreover have "in_int64 (f * 100)" using assms by (simp add: int64_bounds)
  moreover have "trunc_rat (of_int (f * 100)) = f * 100" unfolding trunc_rat_def by (simp only: floor_of_int ceiling_of_int if_cancel)
  ultimately have "to_int64 (fround (of_int (f * 100))) = f * 100" by simp
  then show ?thesis using assms by (simp add: settle_payout_def whole_def fpos_def mult.commute)
qed

text \<open>An order that sold contracts is paid when the market settles as if it held them.\<close>

lemma sold_contracts_paid_again:
  assumes "or_Action po = ''sell''" "or_FillCount po = whole f" "1 \<le> f" "f \<le> 10 ^ 6"
  shows "settle_payout ''yes'' po = 100 * f"
  using payout_whole [OF assms(2-4)] assms(1) by (simp add: order_won_def)

text \<open>The refund of one contract at 29 cents is 28 cents.\<close>

lemma ulp_exp_known: "2 powi k \<le> x \<Longrightarrow> x < 2 powi (k + 1) \<Longrightarrow> 0 < x \<Longrightarrow> - 1022 \<le> k \<Longrightarrow> ulp_exp x = k - 52"
  using ilog2_unique [of k x] by (simp add: ulp_exp_def)

lemma rhe_known:
  assumes "of_int n \<le> y" "y < of_int n + 1 / 2"
  shows "round_half_even y = n"
proof -
  have "\<lfloor>y\<rfloor> = n" using assms by linarith
  moreover have "y - of_int n < 1 / 2" using assms by linarith
  ultimately show ?thesis unfolding round_half_even_def Let_def by (simp only: if_True)
qed

lemma rnd_known:
  assumes "ulp_exp x = e" "x \<noteq> 0" "of_int n * 2 powi e \<le> x" "x < (of_int n + 1 / 2) * 2 powi e"
  shows "rnd x = of_int n * 2 powi e"
proof -
  have q: "of_int n \<le> x / 2 powi e" "x / 2 powi e < of_int n + 1 / 2"
    using assms(3,4) by (simp_all add: pos_le_divide_eq pos_divide_less_eq)
  then have "round_half_even (x / 2 powi e) = n" by (rule rhe_known)
  then show ?thesis using assms(1,2) by (simp add: rnd_def)
qed

lemma small_powers: "(2 :: rat) powi (-54) = 1 / 18014398509481984" "(2 :: rat) powi (-48) = 1 / 281474976710656"
  by (simp_all add: power_int_def power_divide)

lemma refund_loses_a_cent: "cents_of (whole 1) (cent_price 29) = 28"
proof -
  have u1: "ulp_exp (29 / 100) = -54"
    using ulp_exp_known [of "-2" "29 / 100"] by (simp add: power_int_def power2_eq_square)
  have r1: "rnd (29 / 100) = 5224175567749775 / 2 ^ 54"
    using rnd_known [OF u1, of 5224175567749775] by (simp add: small_powers)
  have r2: "rnd (5224175567749775 / 2 ^ 54) = 5224175567749775 / 2 ^ 54" using rnd_rnd [of "29 / 100"] by (simp only: r1)
  have u3: "ulp_exp (5224175567749775 / 2 ^ 54 * 100) = -48"
    using ulp_exp_known [of 4 "5224175567749775 / 2 ^ 54 * 100"] by (simp add: power_int_def)
  have r3: "rnd (5224175567749775 / 2 ^ 54 * 100) = 8162774324609023 / 2 ^ 48"
    using rnd_known [OF u3, of 8162774324609023] by (simp add: small_powers)
  have c: "cent_price 29 = Fin (5224175567749775 / 2 ^ 54)"
    unfolding cent_price_def flit_def by (simp add: fround_small r1)
  have "fmul (whole 1) (cent_price 29) = Fin (5224175567749775 / 2 ^ 54)"
    using fround_small(1) [of "5224175567749775 / 2 ^ 54"] r2 by (simp add: c whole_def)
  moreover have "fmul (Fin (5224175567749775 / 2 ^ 54)) (Fin 100) = Fin (8162774324609023 / 2 ^ 48)"
    using fround_small(1) [of "5224175567749775 / 2 ^ 54 * 100"] r3 by simp
  moreover have "trunc_rat (8162774324609023 / 2 ^ 48) = 28" by (simp add: trunc_rat_def floor_eq_iff)
  ultimately show ?thesis by (simp add: cents_of_def int64_bounds)
qed

section \<open>A settled order\<close>

definition held_order :: Order where
  "held_order =
     \<lparr>or_ID = 1, or_TS = 0, or_MatchTicker = ''ev'', or_MarketTicker = ''mk'', or_MatchTitle = [], or_PlayerName = [],
      or_Action = ''buy'', or_Side = ''open'', or_Context = [], or_ConvProb = Fin 1, or_MarketPrice = Fin (1 / 2), or_FillPrice = Fin 0,
      or_EdgeCents = 50, or_SuggestedSize = Fin 10, or_SetNumber = 1, or_Strategy = ''s'', or_Payload = [], or_Bankroll = Fin 0,
      or_KellyFraction = Fin 1, or_IsReal = True, or_KalshiOrderID = ''k'', or_FillCount = Fin 10, or_OrderStatus = ''filled'',
      or_ResolvedPNLCents = 0, or_PoolBalanceBeforeCents = 0, or_PoolBalanceAfterCents = 0, or_UnfilledRefundedCents = 0,
      or_PositionID = None, or_PairID = [], or_Result = [], or_SettledTS = 0, or_PnLUpdatedTS = 0, or_EmitTS = 0\<rparr>"

definition held_db :: real_db where
  "held_db =
     \<lparr>rd_orders = [held_order], rd_nextOrder = 2,
      rd_pool = Some \<lparr>lp_BalanceCents = 500, lp_InitialBalanceCents = 1000, lp_TotalSpentCents = 500, lp_TotalPNLCents = 0,
        lp_UpdatedTS = 0\<rparr>,
      rd_positions = [], rd_nextPosition = 1\<rparr>"

lemma held_payout: "settle_payout ''yes'' held_order = 1000"
  using payout_whole [of held_order 10 "''yes''"] by (simp add: held_order_def whole_def order_won_def)

lemma held_refund: "settle_refund held_order = 0"
proof -
  have "fround 0 = Fin 0" using exact_int [of 0] by simp
  then show ?thesis
    by (simp add: settle_refund_def unfilled_cents_def held_order_def cents_of_def fsub_def trunc_rat_def int64_bounds wrap64_id Let_def)
qed


section \<open>Finished orders\<close>

text \<open>What the reconciler, the emitter and the settlement do to orders after they are submitted, in any order.\<close>

datatype order_op =
    OpStatus bool int int float64 float64 string string
  | OpFailed bool int int string bool
  | OpResolve bool int string string
  | OpSimulated bool string string
  | OpInsert bool Order

fun run_op :: "order_op \<Rightarrow> real_db \<Rightarrow> real_db" where
  "run_op (OpStatus f now i n p st reason) db = fst (UpdateRealOrderStatus f now i n p st reason db)"
| "run_op (OpFailed f now i reason refund) db = fst (markRealOrderFailed f now i reason refund db)"
| "run_op (OpResolve f now mkt result) db = fst (ResolveRealOrders f now mkt result db)"
| "run_op (OpSimulated f mkt result) db = fst (ResolveSimulatedOrders f mkt result db)"
| "run_op (OpInsert f ord) db = fst (InsertRealOrder f ord db)"

definition finished_row :: "Order \<Rightarrow> real_db \<Rightarrow> bool" where
  "finished_row ord db \<longleftrightarrow> find_order (or_ID ord) db = Some ord \<and> terminal_status (or_OrderStatus ord)"

lemma find_map_rows:
  "(\<And>r. r \<in> set rs \<Longrightarrow> or_ID (g r) = or_ID r) \<Longrightarrow>
     find (\<lambda>r. or_ID r = i) (map g rs) = map_option g (find (\<lambda>r. or_ID r = i) rs)"
  by (induction rs) auto

lemma find_order_frame: "rd_orders db1 = rd_orders db \<Longrightarrow> find_order i db1 = find_order i db"
  by (simp add: find_order_def)

lemma finished_change:
  assumes "finished_row ord db" "j \<noteq> or_ID ord" "\<And>r. or_ID (g r) = or_ID r"
  shows "finished_row ord (change_order j g db)"
proof -
  have "find_order (or_ID ord) (change_order j g db) = map_option (\<lambda>r. if or_ID r = j then g r else r) (find_order (or_ID ord) db)"
    unfolding find_order_def change_order_def using assms(3) by (simp add: find_map_rows)
  then show ?thesis using assms(1,2) by (simp add: finished_row_def)
qed

lemma finished_frame: "rd_orders db1 = rd_orders db \<Longrightarrow> finished_row ord db1 = finished_row ord db"
  by (simp add: finished_row_def find_order_def)

lemma refund_frame: "refundUnfilled now ord f db = Inr (db1, ord1, x, nb) \<Longrightarrow> rd_orders db1 = rd_orders db"
  by (auto simp: refundUnfilled_def Let_def dest!: update_pool_frame split: if_split_asm prod.splits pool_update.splits)

lemma reconcile_frame:
  "maybe_reconcile now ord f p st db = Inr (db1, g) \<Longrightarrow> rd_orders db1 = rd_orders db \<and> (\<forall>r. or_ID (g r) = or_ID r)"
  by (auto simp: maybe_reconcile_def reconcileFillPrice_def gap_note_def Let_def dest!: update_pool_frame
      split: if_split_asm prod.splits pool_update.splits)

lemma columns_id [simp]: "or_ID (fill_columns st f p e ord r) = or_ID r" "or_ID (record_refund ord x nb r) = or_ID r"
  by (simp_all add: fill_columns_def record_refund_def Let_def)

text \<open>Operations on one order leave the table alone or change only that row.\<close>

definition touches_only :: "int \<Rightarrow> real_db \<Rightarrow> real_db \<Rightarrow> bool" where
  "touches_only i db db' \<longleftrightarrow>
     db' = db \<or> (\<exists>g db2. db' = change_order i g db2 \<and> rd_orders db2 = rd_orders db \<and> (\<forall>r. or_ID (g r) = or_ID r))"

lemma touches_refl [simp]: "touches_only i db db"
  by (simp add: touches_only_def)

lemma touches_change: "rd_orders db2 = rd_orders db \<Longrightarrow> (\<And>r. or_ID (g r) = or_ID r) \<Longrightarrow> touches_only i db (change_order i g db2)"
  by (auto simp: touches_only_def)

lemma touches_status: "touches_only i db (fst (UpdateRealOrderStatus f now i n p st e db))"
proof (cases "f \<or> find_order i db = None")
  case True
  then show ?thesis by (auto simp: UpdateRealOrderStatus_def split: option.split)
next
  case False
  then obtain ord where ord: "find_order i db = Some ord" "\<not> f" by auto
  show ?thesis
  proof (cases "terminal_status (or_OrderStatus ord)")
    case True
    then show ?thesis using ord by (simp add: UpdateRealOrderStatus_def)
  next
    case live: False
    define r where "r = (if st = ''canceled'' \<and> or_Action ord \<noteq> ''sell'' then refundUnfilled now ord n db else Inr (db, ord, 0, 0))"
    note u = UpdateRealOrderStatus_def ord live Let_def
    show ?thesis
    proof (cases r)
      case (Inl a)
      then show ?thesis by (simp add: u r_def [symmetric])
    next
      case (Inr q)
      obtain db1 ord1 x nb where q: "q = (db1, ord1, x, nb)" by (cases q)
      have o1: "rd_orders db1 = rd_orders db" using Inr q by (auto simp: r_def dest: refund_frame split: if_split_asm)
      show ?thesis
      proof (cases "maybe_reconcile now ord1 n p st db1")
        case (Inl a)
        then show ?thesis by (simp add: u r_def [symmetric] Inr q)
      next
        case i2: (Inr q2)
        obtain db2 g where q2: "q2 = (db2, g)" by (cases q2)
        have "rd_orders db2 = rd_orders db" "\<And>r. or_ID (g r) = or_ID r" using reconcile_frame [of now ord1 n p st db1 db2 g] i2 q2 o1 by auto
        then show ?thesis by (simp add: u r_def [symmetric] Inr q i2 q2 touches_change)
      qed
    qed
  qed
qed

lemma touches_failed: "touches_only i db (fst (markRealOrderFailed f now i e b db))"
proof (cases "f \<or> find_order i db = None")
  case True
  then show ?thesis by (auto simp: markRealOrderFailed_def split: option.split)
next
  case False
  then obtain ord where ord: "find_order i db = Some ord" "\<not> f" by auto
  show ?thesis
  proof (cases "terminal_status (or_OrderStatus ord)")
    case True
    then show ?thesis using ord by (simp add: markRealOrderFailed_def)
  next
    case live: False
    define r where "r = (if b then refundUnfilled now ord (Fin 0) db else Inr (db, ord, 0, 0))"
    note u = markRealOrderFailed_def ord live Let_def
    show ?thesis
    proof (cases r)
      case (Inl a)
      then show ?thesis by (simp add: u r_def [symmetric])
    next
      case (Inr q)
      obtain db1 ord1 x nb where q: "q = (db1, ord1, x, nb)" by (cases q)
      have "rd_orders db1 = rd_orders db" using Inr q by (auto simp: r_def dest: refund_frame split: if_split_asm)
      then show ?thesis by (simp add: u r_def [symmetric] Inr q touches_change)
    qed
  qed
qed

lemma finished_touch:
  assumes "touches_only i db db'" "finished_row ord db" "i \<noteq> or_ID ord"
  shows "finished_row ord db'"
proof (cases "db' = db")
  case False
  then obtain g db2 where g: "db' = change_order i g db2" "rd_orders db2 = rd_orders db" "\<forall>r. or_ID (g r) = or_ID r"
    using assms(1) by (auto simp: touches_only_def)
  have "finished_row ord db2" using assms(2) g(2) by (simp add: finished_row_def find_order_def)
  then show ?thesis using g assms(3) by (simp add: finished_change)
qed (simp add: assms)

lemma finished_status: "finished_row ord db \<Longrightarrow> finished_row ord (fst (UpdateRealOrderStatus f now i n p st e db))"
proof (cases "i = or_ID ord")
  case True
  assume "finished_row ord db"
  then show ?thesis using True by (simp add: UpdateRealOrderStatus_def finished_row_def)
qed (rule finished_touch [OF touches_status])

lemma finished_failed: "finished_row ord db \<Longrightarrow> finished_row ord (fst (markRealOrderFailed f now i e b db))"
proof (cases "i = or_ID ord")
  case True
  assume "finished_row ord db"
  then show ?thesis using True by (simp add: markRealOrderFailed_def finished_row_def)
qed (rule finished_touch [OF touches_failed])

lemma resolve_loop_other:
  assumes "resolve_loop result pos (bal, rows) = (bal', rows')" "i \<notin> or_ID ` set pos"
  shows "find (\<lambda>r. or_ID r = i) rows' = find (\<lambda>r. or_ID r = i) rows"
  using assms
proof (induction pos arbitrary: bal rows)
  case (Cons po pos)
  then obtain b a where run: "resolve_loop result pos (b, map (settle_row result po bal a) rows) = (bal', rows')"
    by (auto simp only: resolve_loop_step Let_def)
  have "find (\<lambda>r. or_ID r = i) rows' = map_option (settle_row result po bal a) (find (\<lambda>r. or_ID r = i) rows)"
    using Cons.IH [OF run] Cons.prems(2) by (simp add: find_map_rows)
  moreover have "map_option (settle_row result po bal a) (find (\<lambda>r. or_ID r = i) rows) = find (\<lambda>r. or_ID r = i) rows"
  proof (cases "find (\<lambda>r. or_ID r = i) rows")
    case (Some r)
    then have "or_ID r = i" by (auto simp: find_Some_iff)
    moreover have "i \<noteq> or_ID po" using Cons.prems(2) by auto
    ultimately show ?thesis using Some by (simp add: settle_row_other)
  qed simp
  ultimately show ?case by simp
qed simp

lemma finished_unique:
  assumes "finished_row ord db" "distinct (map or_ID (rd_orders db))" "r \<in> set (rd_orders db)" "or_ID r = or_ID ord"
  shows "r = ord"
proof -
  have "ord \<in> set (rd_orders db)" using assms(1) by (auto simp: finished_row_def find_order_def find_Some_iff)
  then show ?thesis using assms(2-4) by (auto simp: distinct_map dest: inj_onD)
qed

lemma finished_resolve:
  assumes "finished_row ord db" "distinct (map or_ID (rd_orders db))"
  shows "finished_row ord (fst (ResolveRealOrders f now mkt result db))"
proof (cases "fst (ResolveRealOrders f now mkt result db) = db")
  case False
  have no: "or_ID ord \<notin> or_ID ` set (filter (settles mkt) (rd_orders db))"
    using finished_unique [OF assms] assms(1) by (auto simp: settles_def finished_row_def terminal_status_def)
  obtain lp where lp: "rd_pool db = Some lp" using False
    by (cases "rd_pool db") (auto simp: ResolveRealOrders_def Let_def split: if_split_asm)
  obtain bal rows where run: "resolve_loop result (filter (settles mkt) (rd_orders db)) (lp_BalanceCents lp, rd_orders db) = (bal, rows)"
    by fastforce
  have "rd_orders (fst (ResolveRealOrders f now mkt result db)) = rows"
    using False by (auto simp: ResolveRealOrders_def lp run Let_def split: if_split_asm)
  then show ?thesis using assms(1) resolve_loop_other [OF run no] by (simp add: finished_row_def find_order_def)
qed (simp add: assms)

lemma finished_simulated:
  assumes "finished_row ord db"
  shows "finished_row ord (fst (ResolveSimulatedOrders f mkt result db))"
proof -
  let ?g = "\<lambda>o'. if settles_simulated mkt o'
            then o'\<lparr>or_OrderStatus := ''resolved'',
                   or_ResolvedPNLCents := (case simulated_pnl result o' of None \<Rightarrow> 0 | Some n \<Rightarrow> n)\<rparr>
            else o'"
  have "find (\<lambda>r. or_ID r = or_ID ord) (map ?g (rd_orders db)) = Some ord"
    using assms by (simp add: find_map_rows finished_row_def find_order_def settles_simulated_def)
  then show ?thesis using assms by (simp add: ResolveSimulatedOrders_def finished_row_def find_order_def)
qed

text \<open>Ids stay distinct.\<close>

lemma ids_resolve_loop: "resolve_loop result pos (b, rows) = (b', rows') \<Longrightarrow> map or_ID rows' = map or_ID rows"
proof (induction pos arbitrary: b rows)
  case (Cons po pos)
  then obtain b1 a where run: "resolve_loop result pos (b1, map (settle_row result po b a) rows) = (b', rows')"
    by (auto simp only: resolve_loop_step Let_def)
  show ?case using Cons.IH [OF run] by (simp add: comp_def)
qed simp

lemma ids_touch: "touches_only i db db' \<Longrightarrow> map or_ID (rd_orders db') = map or_ID (rd_orders db)"
  by (auto simp: touches_only_def change_order_def)

lemma find_order_None: "find_order i db = None \<longleftrightarrow> i \<notin> or_ID ` set (rd_orders db)"
  by (auto simp: find_order_def find_None_iff)

lemma ids_op: "distinct (map or_ID (rd_orders db)) \<Longrightarrow> distinct (map or_ID (rd_orders (run_op opr db)))"
proof (cases opr)
  case (OpStatus f now i n p st e)
  moreover assume d: "distinct (map or_ID (rd_orders db))"
  ultimately show ?thesis by (simp add: ids_touch [OF touches_status])
next
  case (OpFailed f now i e b)
  moreover assume d: "distinct (map or_ID (rd_orders db))"
  ultimately show ?thesis by (simp add: ids_touch [OF touches_failed])
next
  case (OpResolve f now mkt result)
  moreover assume d: "distinct (map or_ID (rd_orders db))"
  ultimately show ?thesis
    by (auto simp: ResolveRealOrders_def Let_def dest: ids_resolve_loop split: option.split prod.split)
next
  case (OpSimulated f mkt result)
  moreover assume d: "distinct (map or_ID (rd_orders db))"
  moreover have "map or_ID (rd_orders (fst (ResolveSimulatedOrders f mkt result db))) = map or_ID (rd_orders db)"
    by (simp add: ResolveSimulatedOrders_def)
  ultimately show ?thesis by simp
next
  case (OpInsert f ord)
  moreover assume d: "distinct (map or_ID (rd_orders db))"
  ultimately show ?thesis by (auto simp: InsertRealOrder_def Let_def find_order_None)
qed

lemma finished_op:
  assumes "finished_row ord db" "distinct (map or_ID (rd_orders db))"
  shows "finished_row ord (run_op opr db)"
proof (cases opr)
  case (OpInsert f o')
  then show ?thesis using assms(1)
    by (auto simp: InsertRealOrder_def Let_def finished_row_def find_order_def find_snoc)
qed (use assms in \<open>simp_all add: finished_status finished_failed finished_resolve finished_simulated\<close>)



end
