(* ===== verification/Emitters.thy ===== *)
theory Emitters
  imports RealTrading
begin

text \<open>
  The emitters that stand between a strategy and the exchange in the first version
  (\<open>internal/algorithms/strategy.go\<close>, \<open>multi.go\<close>, \<open>quota.go\<close>, \<open>paper_position_emitter.go\<close>, the switch of
  \<open>real_emitter.go\<close>) and their composition in \<open>main.go\<close>. The interface \<open>OrderEmitter\<close> is the locale
  \<open>order_emitter\<close>: what every emitter keeps of an invariant is proved once for all wrappers.
\<close>

type_synonym 's emitter = "Order \<Rightarrow> 's \<Rightarrow> 's \<times> bool"

section \<open>Simple emitters\<close>

definition tag_EmitOrder :: "string \<Rightarrow> 's emitter \<Rightarrow> 's emitter" where
  "tag_EmitOrder strategy inner ord s = inner (ord\<lparr>or_Strategy := strategy\<rparr>) s"

definition Noop_EmitOrder :: "'s emitter" where
  "Noop_EmitOrder ord s = (s, True)"

definition Collector_EmitOrder :: "Order list emitter" where
  "Collector_EmitOrder ord orders = (orders @ [ord], True)"

definition log_EmitOrder :: "'s emitter \<Rightarrow> 's emitter" where
  "log_EmitOrder inner ord s = inner ord s"

text \<open>The writer's buffer of orders, and the number of those dropped.\<close>

record order_buffer =
  ob_orders :: "Order list"
  ob_drops :: int

definition ordersChanBuffer :: nat where "ordersChanBuffer = 256"

definition IngestOrder :: "order_buffer emitter" where
  "IngestOrder ord w =
     (if length (ob_orders w) < ordersChanBuffer then (w\<lparr>ob_orders := ob_orders w @ [ord]\<rparr>, True)
      else (w\<lparr>ob_drops := wrap64 (ob_drops w + 1)\<rparr>, False))"

definition TickWriter_EmitOrder :: "int \<Rightarrow> order_buffer emitter" where
  "TickWriter_EmitOrder now ord w = IngestOrder (if or_EmitTS ord = 0 then ord\<lparr>or_EmitTS := now\<rparr> else ord) w"

definition enrich_order :: "guard_env \<Rightarrow> Order \<Rightarrow> Order" where
  "enrich_order ge ord =
     (if or_PlayerName ord = [] \<or> or_MatchTitle ord = []
      then
        (case GetMarket ge (or_MarketTicker ord) of
           None \<Rightarrow> ord
         | Some mkt \<Rightarrow>
             (let o1 = (if or_PlayerName ord = [] then ord\<lparr>or_PlayerName := mk_PlayerName mkt\<rparr> else ord) in
              if or_MatchTitle o1 = []
              then (case GetEventTitle ge (mk_EventTicker mkt) of None \<Rightarrow> o1 | Some title \<Rightarrow> o1\<lparr>or_MatchTitle := title\<rparr>)
              else o1))
      else ord)"

definition enrich_EmitOrder :: "guard_env \<Rightarrow> 's emitter \<Rightarrow> 's emitter" where
  "enrich_EmitOrder ge inner ord s = inner (enrich_order ge ord) s"

text \<open>
  Paper positions: full fills at the suggested size; a sale the position manager rejects is dropped. The
  failures are those of the position update and of marking a purchase of the other side.
\<close>

definition default_side :: "Order \<Rightarrow> Order" where
  "default_side ord =
     (if or_Side ord = []
      then ord\<lparr>or_Side := (if or_Action ord = ''sell'' then OrderSideClose else OrderSideOpen)\<rparr> else ord)"

definition paper_buy :: "bool \<Rightarrow> bool \<Rightarrow> int \<Rightarrow> Order \<Rightarrow> real_db \<Rightarrow> real_db \<times> (string + int)" where
  "paper_buy fails fails_mark now ord db =
     (if or_Action ord = ''buy_no''
      then ApplyBuyNO fails fails_mark now (or_MatchTicker ord) (or_MarketTicker ord) (or_Strategy ord) False
             (or_SuggestedSize ord) (or_MarketPrice ord) db
      else ApplyBuy fails now (or_MatchTicker ord) (or_MarketTicker ord) (or_Strategy ord) False
             (or_SuggestedSize ord) (or_MarketPrice ord) db)"

definition Paper_EmitOrder :: "bool \<Rightarrow> bool \<Rightarrow> int \<Rightarrow> 's emitter \<Rightarrow> (real_db \<times> 's) emitter" where
  "Paper_EmitOrder fails fails_mark now inner ord0 dbs =
     (let (db, s) = dbs; ord = default_side ord0;
          forward = (\<lambda>ord db. case inner ord s of (s1, b) \<Rightarrow> ((db, s1), b)) in
      if or_Side ord = OrderSideClose
      then
        (if fle0 (or_SuggestedSize ord) then forward ord db
         else
           (case ApplySell fails now (or_MatchTicker ord) (or_MarketTicker ord) (or_Strategy ord) False
                   (or_SuggestedSize ord) (or_MarketPrice ord) db of
              (db1, Inl e) \<Rightarrow> ((db1, s), False)
            | (db1, Inr (posID, _, _)) \<Rightarrow> forward (ord\<lparr>or_PositionID := Some posID\<rparr>) db1))
      else if fpos (or_SuggestedSize ord)
      then
        (case paper_buy fails fails_mark now ord db of
           (db1, Inl e) \<Rightarrow> forward ord db1
         | (db1, Inr posID) \<Rightarrow> forward (ord\<lparr>or_PositionID := Some posID\<rparr>) db1)
      else forward ord db)"

text \<open>The switch of live trading, and whether the last order found it on.\<close>

definition Toggle_EmitOrder :: "bool \<Rightarrow> 's emitter \<Rightarrow> (bool \<times> 's) emitter" where
  "Toggle_EmitOrder on inner ord ps =
     (let (prev, s) = ps in
      if \<not> on then ((False, s), False)
      else (case inner ord s of (s1, b) \<Rightarrow> ((True, s1), b)))"

section \<open>The quota guard\<close>

record QuotaConfig =
  qg_Enabled :: bool
  qg_CooldownSecs :: int
  qg_MaxPerSec :: int
  qg_BudgetTotal :: float64
  qg_BudgetFloor :: float64

text \<open>Times are nanoseconds. \<open>qs_tokens\<close> is the number of tokens, if there is a limiter.\<close>

record quota =
  qs_lastOrder :: "string \<rightharpoonup> int"
  qs_lastOrderMarket :: "string \<rightharpoonup> int"
  qs_tokens :: "nat option"
  qs_stopped :: bool
  qs_spent :: int

text \<open>A ticker with an interval of zero panics: more than a billion orders a second.\<close>

definition NewQuotaGuard :: "QuotaConfig \<Rightarrow> quota option" where
  "NewQuotaGuard cfg =
     (let limited = qg_Enabled cfg \<and> qg_MaxPerSec cfg > 0 in
      if limited \<and> 10 ^ 9 sdiv qg_MaxPerSec cfg = 0 then None
      else
        Some \<lparr>qs_lastOrder = Map.empty, qs_lastOrderMarket = Map.empty,
          qs_tokens = (if limited then Some (nat (qg_MaxPerSec cfg)) else None), qs_stopped = False, qs_spent = 0\<rparr>)"

text \<open>A tick of the limiter puts a token back.\<close>

definition Quota_tick :: "QuotaConfig \<Rightarrow> quota \<Rightarrow> quota" where
  "Quota_tick cfg q =
     (if qs_stopped q then q
      else (case qs_tokens q of
              None \<Rightarrow> q
            | Some n \<Rightarrow> (if int n < qg_MaxPerSec cfg then q\<lparr>qs_tokens := Some (n + 1)\<rparr> else q)))"

definition Quota_Close :: "quota \<Rightarrow> quota" where
  "Quota_Close q = q\<lparr>qs_stopped := True\<rparr>"

text \<open>The four readings of the clock while the cooldowns are checked, and which ready case \<open>select\<close> picks.\<close>

record quota_input =
  qi_sinceMarket :: int
  qi_sinceKey :: int
  qi_setKey :: int
  qi_setMarket :: int
  qi_takeToken :: bool

definition cooldown_ns :: "QuotaConfig \<Rightarrow> int" where
  "cooldown_ns cfg = wrap64 (qg_CooldownSecs cfg * 10 ^ 9)"

definition cooling :: "QuotaConfig \<Rightarrow> int \<Rightarrow> int option \<Rightarrow> bool" where
  "cooling cfg now last_time = (case last_time of None \<Rightarrow> False | Some t \<Rightarrow> now - t < cooldown_ns cfg)"

text \<open>The cooldowns: \<open>None\<close> drops the order.\<close>

definition check_cooldown :: "QuotaConfig \<Rightarrow> quota_input \<Rightarrow> Order \<Rightarrow> quota \<Rightarrow> quota option" where
  "check_cooldown cfg inp ord q =
     (let key = or_MarketTicker ord @ ''|'' @ or_Strategy ord in
      if cooling cfg (qi_sinceMarket inp) (qs_lastOrderMarket q (or_MarketTicker ord)) then None
      else if cooling cfg (qi_sinceKey inp) (qs_lastOrder q key) then None
      else
        Some (q\<lparr>qs_lastOrder := (qs_lastOrder q)(key \<mapsto> qi_setKey inp),
                qs_lastOrderMarket := (qs_lastOrderMarket q)(or_MarketTicker ord \<mapsto> qi_setMarket inp)\<rparr>))"

definition cents :: "float64 \<Rightarrow> int" where
  "cents x = to_int64 (fmul x (Fin 100))"

text \<open>The budget: the state after it, and the order to forward or none.\<close>

definition check_budget :: "QuotaConfig \<Rightarrow> Order \<Rightarrow> quota \<Rightarrow> quota \<times> Order option" where
  "check_budget cfg ord q =
     (if \<not> fpos (qg_BudgetTotal cfg) then (q, Some ord)
      else
     (let orderCents = cents (or_SuggestedSize ord) in
      if orderCents \<le> 0 then (q, None)
      else
     (let newSpent = wrap64 (qs_spent q + orderCents);
          remainingCents = wrap64 (cents (qg_BudgetTotal cfg) - newSpent);
          floorCents = cents (qg_BudgetFloor cfg) in
      if remainingCents < floorCents
      then
        (let spent = wrap64 (newSpent + wrap64 (- orderCents));
             availCents = wrap64 (wrap64 (cents (qg_BudgetTotal cfg) - spent) - floorCents) in
         if availCents \<le> 0 then (q\<lparr>qs_spent := spent\<rparr>, None)
         else
           (let scaledSize = fdiv (of_int64 availCents) (Fin 100) in
            (q\<lparr>qs_spent := wrap64 (spent + cents scaledSize)\<rparr>, Some (ord\<lparr>or_SuggestedSize := scaledSize\<rparr>))))
      else (q\<lparr>qs_spent := newSpent\<rparr>, Some ord))))"

text \<open>The limiter: the state, and whether the order passes.\<close>

definition take_token :: "quota_input \<Rightarrow> quota \<Rightarrow> quota \<times> bool" where
  "take_token inp q =
     (case qs_tokens q of
        None \<Rightarrow> (q, True)
      | Some n \<Rightarrow>
          (if n > 0 \<and> (\<not> qs_stopped q \<or> qi_takeToken inp) then (q\<lparr>qs_tokens := Some (n - 1)\<rparr>, True)
           else (q, False)))"

text \<open>What the guard decides about an order.\<close>

definition quota_decide :: "QuotaConfig \<Rightarrow> quota_input \<Rightarrow> Order \<Rightarrow> quota \<Rightarrow> quota \<times> Order option" where
  "quota_decide cfg inp ord q =
     (if \<not> qg_Enabled cfg then (q, Some ord)
      else
        (case check_cooldown cfg inp ord q of
           None \<Rightarrow> (q, None)
         | Some q1 \<Rightarrow>
             (case check_budget cfg ord q1 of
                (q2, None) \<Rightarrow> (q2, None)
              | (q2, Some ord1) \<Rightarrow>
                  (case take_token inp q2 of (q3, ok) \<Rightarrow> (q3, if ok then Some ord1 else None)))))"

definition Quota_EmitOrder :: "QuotaConfig \<Rightarrow> quota_input \<Rightarrow> 's emitter \<Rightarrow> 's emitter \<Rightarrow> (quota \<times> 's) emitter" where
  "Quota_EmitOrder cfg inp paper inner ord qs =
     (let (q, s) = qs; s1 = fst (paper ord s) in
      case quota_decide cfg inp ord q of
        (q1, None) \<Rightarrow> ((q1, s1), False)
      | (q1, Some ord1) \<Rightarrow> (case inner ord1 s1 of (s2, b) \<Rightarrow> ((q1, s2), b)))"

definition RemainingBudget :: "QuotaConfig \<Rightarrow> quota \<Rightarrow> float64" where
  "RemainingBudget cfg q =
     (if fle0 (qg_BudgetTotal cfg) then Fin (-1)
      else fsub (qg_BudgetTotal cfg) (fdiv (of_int64 (qs_spent q)) (Fin 100)))"

section \<open>The pipeline\<close>

text \<open>
  \<open>main.go\<close>: a strategy's order is tagged, goes to the paper trail always, and through the quota of the
  paper side, the switch of live trading and the quota of the live side to the emitter of real orders.
\<close>

record pipe_input =
  pi_paper :: quota_input
  pi_real :: quota_input
  pi_on :: bool
  pi_now :: int
  pi_failsApply :: bool
  pi_failsMark :: bool
  pi_emission :: emission

record pipeline =
  pl_prev :: bool
  pl_realQuota :: quota
  pl_sys :: real_sys
  pl_writer :: order_buffer

definition paper_side :: "pipe_input \<Rightarrow> pipeline emitter" where
  "paper_side inp ord pl =
     (case enrich_EmitOrder (em_guards (pi_emission inp))
             (Paper_EmitOrder (pi_failsApply inp) (pi_failsMark inp) (pi_now inp) (TickWriter_EmitOrder (pi_now inp)))
             ord (rs_db (pl_sys pl), pl_writer pl) of
        ((db, w), b) \<Rightarrow> (pl\<lparr>pl_sys := (pl_sys pl)\<lparr>rs_db := db\<rparr>, pl_writer := w\<rparr>, b))"

definition real_side :: "QuotaConfig \<Rightarrow> RealOrderConfig \<Rightarrow> float64 \<Rightarrow> pipe_input \<Rightarrow> pipeline emitter" where
  "real_side qcfg cfg kf inp ord pl =
     (case Toggle_EmitOrder (pi_on inp)
             (Quota_EmitOrder qcfg (pi_real inp) Noop_EmitOrder (EmitOrder cfg kf (pi_emission inp)))
             ord (pl_prev pl, pl_realQuota pl, pl_sys pl) of
        ((prev, q, sys), b) \<Rightarrow> (pl\<lparr>pl_prev := prev, pl_realQuota := q, pl_sys := sys\<rparr>, b))"

definition pipeline_EmitOrder ::
  "QuotaConfig \<Rightarrow> RealOrderConfig \<Rightarrow> float64 \<Rightarrow> pipe_input \<Rightarrow> string \<Rightarrow> (quota \<times> pipeline) emitter" where
  "pipeline_EmitOrder qcfg cfg kf inp strategy =
     tag_EmitOrder strategy
       (Quota_EmitOrder qcfg (pi_paper inp) (paper_side inp) (real_side qcfg cfg kf inp))"

section \<open>What emitters keep\<close>

text \<open>The contract of an emitter: on acceptable orders it keeps an invariant, and whether an order is acceptable
  depends neither on its size nor on the strategy it is tagged with.\<close>

locale order_emitter =
  fixes emit :: "Order \<Rightarrow> 's \<Rightarrow> 's \<times> bool"
    and ok :: "Order \<Rightarrow> bool"
    and inv :: "'s \<Rightarrow> bool"
  assumes keeps: "ok ord \<Longrightarrow> inv s \<Longrightarrow> inv (fst (emit ord s))"
    and ok_size: "ok ord \<Longrightarrow> ok (ord\<lparr>or_SuggestedSize := x\<rparr>)"
    and ok_strategy: "ok ord \<Longrightarrow> ok (ord\<lparr>or_Strategy := n\<rparr>)"
begin

lemma tag_keeps: "ok ord \<Longrightarrow> inv s \<Longrightarrow> inv (fst (tag_EmitOrder n emit ord s))"
  by (simp add: tag_EmitOrder_def keeps ok_strategy)

lemma log_keeps: "ok ord \<Longrightarrow> inv s \<Longrightarrow> inv (fst (log_EmitOrder emit ord s))"
  by (simp add: log_EmitOrder_def keeps)

lemma toggle_keeps: "ok ord \<Longrightarrow> inv s \<Longrightarrow> inv (snd (fst (Toggle_EmitOrder on emit ord (prev, s))))"
  using keeps [of ord s] by (auto simp: Toggle_EmitOrder_def split: prod.split)

lemma decided_ok: "ok ord \<Longrightarrow> quota_decide cfg inp ord q = (q1, Some ord1) \<Longrightarrow> ok ord1"
  by (auto simp: quota_decide_def check_budget_def Let_def intro: ok_size
      split: if_split_asm option.splits prod.splits)

end

text \<open>An emitter behind a guard, with the emitter of the paper trail beside it.\<close>

locale guarded_emitter = order_emitter emit ok inv
  for emit :: "Order \<Rightarrow> 's \<Rightarrow> 's \<times> bool" and ok :: "Order \<Rightarrow> bool" and inv :: "'s \<Rightarrow> bool" +
  fixes paper :: "Order \<Rightarrow> 's \<Rightarrow> 's \<times> bool"
  assumes paper_keeps: "ok ord \<Longrightarrow> inv s \<Longrightarrow> inv (fst (paper ord s))"
begin

lemma quota_keeps:
  assumes "ok ord" "inv s"
  shows "inv (snd (fst (Quota_EmitOrder cfg inp paper emit ord (q, s))))"
proof (cases "quota_decide cfg inp ord q")
  case (Pair q1 r)
  have p: "inv (fst (paper ord s))" by (rule paper_keeps [OF assms])
  show ?thesis
  proof (cases r)
    case None
    then show ?thesis using Pair p by (simp add: Quota_EmitOrder_def)
  next
    case (Some ord1)
    have "inv (fst (emit ord1 (fst (paper ord s))))"
      by (rule keeps [OF decided_ok [OF assms(1) Pair [unfolded Some]] p])
    then show ?thesis using Pair Some by (auto simp: Quota_EmitOrder_def split: prod.split)
  qed
qed

lemma tagged_quota_keeps:
  "ok ord \<Longrightarrow> inv s \<Longrightarrow> inv (snd (fst (tag_EmitOrder n (Quota_EmitOrder cfg inp paper emit) ord (q, s))))"
  by (simp add: tag_EmitOrder_def quota_keeps ok_strategy)

end

lemma emission_ok_upd [simp]:
  "emission_ok (ord\<lparr>or_SuggestedSize := x\<rparr>) em = emission_ok ord em" "emission_ok (ord\<lparr>or_Strategy := n\<rparr>) em = emission_ok ord em"
  by (simp_all add: emission_ok_def)

interpretation real_guard: guarded_emitter "EmitOrder cfg kf em" "\<lambda>ord. emission_ok ord em" "\<lambda>sys. pool_ok (rs_db sys)" Noop_EmitOrder
  for cfg kf em
  by unfold_locales (simp_all add: EmitOrder_pool_ok Noop_EmitOrder_def)

lemma paper_buy_pool [simp]: "pool_ok (fst (paper_buy f g now ord db)) = pool_ok db"
  by (simp add: paper_buy_def)

lemma Paper_pool: "pool_ok db \<Longrightarrow> pool_ok (fst (fst (Paper_EmitOrder f g now inner ord (db, w))))"
proof -
  assume db: "pool_ok db"
  let ?o = "default_side ord"
  obtain db1 x where b: "paper_buy f g now ?o db = (db1, x)" by fastforce
  obtain db2 y where s: "ApplySell f now (or_MatchTicker ?o) (or_MarketTicker ?o) (or_Strategy ?o) False (or_SuggestedSize ?o)
    (or_MarketPrice ?o) db = (db2, y)" by fastforce
  have "pool_ok db1" "pool_ok db2"
    using db paper_buy_pool [of f g now ?o db] ApplySell_pool [of f now "or_MatchTicker ?o" "or_MarketTicker ?o" "or_Strategy ?o" False
        "or_SuggestedSize ?o" "or_MarketPrice ?o" db] by (simp_all only: b s fst_conv)
  then show ?thesis using db
    by (cases x; cases y) (auto simp: Paper_EmitOrder_def Let_def b s split: prod.splits)
qed

lemma paper_side_pool: "pool_ok (rs_db (pl_sys pl)) \<Longrightarrow> pool_ok (rs_db (pl_sys (fst (paper_side inp ord pl))))"
  using Paper_pool [of "rs_db (pl_sys pl)" "pi_failsApply inp" "pi_failsMark inp" "pi_now inp" "TickWriter_EmitOrder (pi_now inp)"
      "enrich_order (em_guards (pi_emission inp)) ord" "pl_writer pl"]
  by (auto simp: paper_side_def enrich_EmitOrder_def split: prod.splits)

lemma real_side_pool:
  assumes "emission_ok ord (pi_emission inp)" "pool_ok (rs_db (pl_sys pl))"
  shows "pool_ok (rs_db (pl_sys (fst (real_side qcfg cfg kf inp ord pl))))"
proof -
  let ?q = "Quota_EmitOrder qcfg (pi_real inp) Noop_EmitOrder (EmitOrder cfg kf (pi_emission inp)) ord (pl_realQuota pl, pl_sys pl)"
  have "pool_ok (rs_db (snd (fst ?q)))" by (rule real_guard.quota_keeps [OF assms])
  then show ?thesis using assms(2) by (auto simp: real_side_def Toggle_EmitOrder_def split: prod.split)
qed

interpretation whole_pipeline: guarded_emitter "real_side qcfg rcfg kf pinp" "\<lambda>ord. emission_ok ord (pi_emission pinp)"
    "\<lambda>pl. pool_ok (rs_db (pl_sys pl))" "paper_side pinp"
  for qcfg rcfg kf pinp
  by unfold_locales (simp_all add: real_side_pool paper_side_pool)

text \<open>The orders of all strategies through the pipeline, one after the other.\<close>

fun run_pipeline ::
  "QuotaConfig \<Rightarrow> RealOrderConfig \<Rightarrow> float64 \<Rightarrow> (pipe_input \<times> string \<times> Order) list \<Rightarrow> quota \<times> pipeline \<Rightarrow> quota \<times> pipeline" where
  "run_pipeline qcfg cfg kf [] s = s"
| "run_pipeline qcfg cfg kf ((inp, strategy, ord) # xs) s =
     run_pipeline qcfg cfg kf xs (fst (pipeline_EmitOrder qcfg cfg kf inp strategy ord s))"

text \<open>
  C29. No sequence of orders leaves the pool in debt: whatever the strategies emit, through the quotas, the
  paper trail, the switch of live trading and the emitter of real orders, with whichever faults and
  exchange answers, a pool that starts with money in it never goes below zero.
\<close>

theorem pipeline_keeps_pool:
  assumes "\<And>inp n ord. (inp, n, ord) \<in> set xs \<Longrightarrow> emission_ok ord (pi_emission inp)" "0 \<le> pool_cents (rs_db (pl_sys pl))"
  shows "0 \<le> pool_cents (rs_db (pl_sys (snd (run_pipeline qcfg cfg kf xs (q, pl)))))"
proof -
  have "pool_ok (rs_db (pl_sys (snd (run_pipeline qcfg cfg kf xs (q, pl)))))"
    if "pool_ok (rs_db (pl_sys pl))" "\<forall>(inp, n, ord) \<in> set xs. emission_ok ord (pi_emission inp)" for q pl
    using that
  proof (induction xs arbitrary: q pl)
    case (Cons x xs)
    obtain inp n ord where x: "x = (inp, n, ord)" by (cases x)
    define s1 where "s1 = fst (pipeline_EmitOrder qcfg cfg kf inp n ord (q, pl))"
    have "pool_ok (rs_db (pl_sys (snd s1)))"
      using whole_pipeline.tagged_quota_keeps [where ord = ord and pinp = inp and s = pl and n = n and q = q] Cons.prems x
      by (simp add: s1_def pipeline_EmitOrder_def)
    then show ?case using Cons.IH [of "snd s1" "fst s1"] Cons.prems(2) x by (simp add: s1_def)
  qed simp
  then show ?thesis using assms by (force simp: pool_ok_def)
qed

section \<open>What the quota guarantees\<close>

text \<open>The orders a guard forwards, with the time of each.\<close>

fun run_quota :: "QuotaConfig \<Rightarrow> (quota_input \<times> Order) list \<Rightarrow> quota \<Rightarrow> quota \<times> (int \<times> Order) list" where
  "run_quota cfg [] q = (q, [])"
| "run_quota cfg ((inp, ord) # xs) q =
     (case quota_decide cfg inp ord q of
        (q1, r) \<Rightarrow>
          (case run_quota cfg xs q1 of
             (q2, fs) \<Rightarrow> (q2, case r of None \<Rightarrow> fs | Some ord1 \<Rightarrow> (qi_setMarket inp, ord1) # fs)))"

lemma budget_frame:
  "check_budget cfg ord q = (q1, r) \<Longrightarrow> qs_lastOrderMarket q1 = qs_lastOrderMarket q \<and>
     (\<forall>ord1. r = Some ord1 \<longrightarrow> or_MarketTicker ord1 = or_MarketTicker ord)"
  by (auto simp: check_budget_def Let_def split: if_split_asm)

lemma token_frame: "take_token inp q = (q1, b) \<Longrightarrow> qs_lastOrderMarket q1 = qs_lastOrderMarket q \<and> qs_spent q1 = qs_spent q"
  by (auto simp: take_token_def split: option.splits if_split_asm)

lemma decide_times:
  assumes "quota_decide cfg inp ord q = (q1, r)" "qg_Enabled cfg"
  shows "(r = None \<and> qs_lastOrderMarket q1 = qs_lastOrderMarket q) \<or>
    (\<not> cooling cfg (qi_sinceMarket inp) (qs_lastOrderMarket q (or_MarketTicker ord)) \<and>
     qs_lastOrderMarket q1 = (qs_lastOrderMarket q)(or_MarketTicker ord \<mapsto> qi_setMarket inp) \<and>
     (\<forall>ord1. r = Some ord1 \<longrightarrow> or_MarketTicker ord1 = or_MarketTicker ord))"
proof (cases "check_cooldown cfg inp ord q")
  case None
  then show ?thesis using assms by (simp add: quota_decide_def)
next
  case (Some q2)
  have c: "\<not> cooling cfg (qi_sinceMarket inp) (qs_lastOrderMarket q (or_MarketTicker ord))"
    "qs_lastOrderMarket q2 = (qs_lastOrderMarket q)(or_MarketTicker ord \<mapsto> qi_setMarket inp)"
    using Some by (auto simp: check_cooldown_def Let_def split: if_split_asm)
  obtain q3 r3 where b: "check_budget cfg ord q2 = (q3, r3)" by fastforce
  show ?thesis using assms Some c budget_frame [OF b]
    by (auto simp: quota_decide_def b dest!: token_frame split: option.splits prod.splits if_split_asm)
qed

lemma forwarded_after:
  assumes "run_quota cfg xs q = (q', fs)" "qg_Enabled cfg" "0 \<le> cooldown_ns cfg"
    "\<forall>(inp, ord) \<in> set xs. qi_sinceMarket inp \<le> qi_setMarket inp" "qs_lastOrderMarket q m = Some t" "(t1, ord1) \<in> set fs" "or_MarketTicker ord1 = m"
  shows "t + cooldown_ns cfg \<le> t1"
  using assms
proof (induction xs arbitrary: q q' fs t)
  case (Cons x xs)
  obtain inp ord where x: "x = (inp, ord)" by (cases x)
  obtain q1 r where d: "quota_decide cfg inp ord q = (q1, r)" by fastforce
  obtain fs1 where run: "run_quota cfg xs q1 = (q', fs1)" and fs: "fs = (case r of None \<Rightarrow> fs1 | Some ord1 \<Rightarrow> (qi_setMarket inp, ord1) # fs1)"
    using Cons.prems(1) x d by (auto split: prod.splits)
  have mono: "qi_sinceMarket inp \<le> qi_setMarket inp" using Cons.prems(4) x by auto
  have ys: "\<forall>(inp, ord) \<in> set xs. qi_sinceMarket inp \<le> qi_setMarket inp" using Cons.prems(4) by auto
  note IH = Cons.IH [OF run Cons.prems(2,3) ys _ _ Cons.prems(7)]
  consider (dropped) "r = None" "qs_lastOrderMarket q1 = qs_lastOrderMarket q"
    | (passed) "\<not> cooling cfg (qi_sinceMarket inp) (qs_lastOrderMarket q (or_MarketTicker ord))"
      "qs_lastOrderMarket q1 = (qs_lastOrderMarket q)(or_MarketTicker ord \<mapsto> qi_setMarket inp)"
      "\<forall>ord1. r = Some ord1 \<longrightarrow> or_MarketTicker ord1 = or_MarketTicker ord"
    using decide_times [OF d Cons.prems(2)] by blast
  then show ?case
  proof cases
    case dropped
    then show ?thesis using IH [of t] Cons.prems(5,6) fs by simp
  next
    case passed
    show ?thesis
    proof (cases "or_MarketTicker ord = m")
      case True
      then have set: "t + cooldown_ns cfg \<le> qi_setMarket inp"
        using passed(1) Cons.prems(5) mono by (simp add: cooling_def)
      show ?thesis
      proof (cases "(t1, ord1) \<in> set fs1")
        case True
        then show ?thesis using IH [of "qi_setMarket inp"] passed(2) \<open>or_MarketTicker ord = m\<close> set Cons.prems(3) by simp
      next
        case False
        then show ?thesis using set fs Cons.prems(6) by (auto split: option.splits)
      qed
    next
      case False
      then have "(t1, ord1) \<in> set fs1" using fs passed(3) Cons.prems(6,7) by (auto split: option.splits)
      then show ?thesis using IH [of t] passed(2) False Cons.prems(5) by simp
    qed
  qed
qed simp

text \<open>
  C35. The cooldown holds: of the orders an enabled guard forwards, two on the same market are at least
  the cooldown apart, whichever strategies emit them and whatever is dropped between them.
\<close>

theorem forwarded_orders_are_spaced:
  assumes "run_quota cfg xs q = (q', fs)" "qg_Enabled cfg" "0 \<le> cooldown_ns cfg"
    "\<forall>(inp, ord) \<in> set xs. qi_sinceMarket inp \<le> qi_setMarket inp"
  shows "sorted_wrt (\<lambda>(t1, o1) (t2, o2). or_MarketTicker o1 = or_MarketTicker o2 \<longrightarrow> t1 + cooldown_ns cfg \<le> t2) fs"
  using assms
proof (induction xs arbitrary: q q' fs)
  case (Cons x xs)
  obtain inp ord where x: "x = (inp, ord)" by (cases x)
  obtain q1 r where d: "quota_decide cfg inp ord q = (q1, r)" by fastforce
  obtain fs1 where run: "run_quota cfg xs q1 = (q', fs1)" and fs: "fs = (case r of None \<Rightarrow> fs1 | Some ord1 \<Rightarrow> (qi_setMarket inp, ord1) # fs1)"
    using Cons.prems(1) x d by (auto split: prod.splits)
  have ys: "\<forall>(inp, ord) \<in> set xs. qi_sinceMarket inp \<le> qi_setMarket inp" using Cons.prems(4) by auto
  note IH = Cons.IH [OF run Cons.prems(2,3) ys]
  show ?case
  proof (cases r)
    case (Some ord1)
    then have "or_MarketTicker ord1 = or_MarketTicker ord" "qs_lastOrderMarket q1 (or_MarketTicker ord1) = Some (qi_setMarket inp)"
      using decide_times [OF d Cons.prems(2)] by auto
    then show ?thesis using IH fs Some forwarded_after [OF run Cons.prems(2,3) ys] by auto
  qed (use IH fs in simp)
qed simp

text \<open>The cents of a size computed from cents.\<close>

lemma scaled_cents:
  assumes "1 \<le> a" "a \<le> 10 ^ 12"
  shows "cents (fdiv (of_int64 a) (Fin 100)) \<in> {a - 1, a}"
proof -
  define A :: rat where "A = of_int a"
  have A: "1 \<le> A" "A \<le> 10 ^ 12"
  proof -
    show "1 \<le> A" using assms by (simp add: A_def)
    have "(of_int a :: rat) \<le> of_int (10 ^ 12)" using assms by (simp only: of_int_le_iff)
    then show "A \<le> 10 ^ 12" by (simp add: A_def)
  qed
  have u: "0 < ulp1" "ulp1 \<le> 1 / 10 ^ 15" by (simp_all add: ulp1_def)
  define p where "p = rnd (A / 100)"
  have p: "A / 100 * (1 - ulp1) \<le> p" "p \<le> A / 100 * (1 + ulp1)" using rnd_rel [of "A / 100"] A by (simp_all add: p_def)
  have au: "A * ulp1 \<le> 10 ^ 12 * (1 / 10 ^ 15)" using A u by (intro mult_mono) auto
  have p': "A - 1 / 100 \<le> p * 100" "p * 100 \<le> A + 1 / 100" using p au by (simp_all add: algebra_simps)
  have y: "p * 100 * (1 - ulp1) \<le> rnd (p * 100)" "rnd (p * 100) \<le> p * 100 * (1 + ulp1)"
    using rnd_rel [of "p * 100"] p' A by simp_all
  have "p * 100 * ulp1 \<le> (2 * 10 ^ 12) * (1 / 10 ^ 15)"
  proof (rule mult_mono)
    show "p * 100 \<le> 2 * 10 ^ 12" using p'(2) A by simp
  qed (use u in auto)
  then have r: "A - 1 / 10 \<le> rnd (p * 100)" "rnd (p * 100) \<le> A + 1 / 10" using y p' by (simp_all add: algebra_simps)
  then have fl: "\<lfloor>rnd (p * 100)\<rfloor> \<in> {a - 1, a}" unfolding A_def by simp linarith
  have "fround (of_int a) = Fin A" using assms exact_int [of a] by (simp add: A_def)
  moreover have "fround (A / 100) = Fin p" "fround (p * 100) = Fin (rnd (p * 100))"
    using A p' by (simp_all add: fround_small p_def [symmetric])
  moreover have "0 \<le> rnd (p * 100)" using r A by simp
  moreover have "in_int64 m" if "m \<in> {a - 1, a}" for m using that assms by (intro in_int64_small) auto
  with fl have "in_int64 \<lfloor>rnd (p * 100)\<rfloor>" by blast
  ultimately show ?thesis using fl by (simp add: cents_def of_int64_def trunc_rat_def)
qed

lemma check_budget_spent:
  assumes "check_budget cfg ord q = (q1, r)" "0 \<le> qs_spent q" "qs_spent q \<le> cents (qg_BudgetTotal cfg) - cents (qg_BudgetFloor cfg)"
    "0 \<le> cents (qg_BudgetFloor cfg)" "cents (qg_BudgetTotal cfg) \<le> 10 ^ 12" "cents (or_SuggestedSize ord) \<le> 10 ^ 12"
  shows "0 \<le> qs_spent q1 \<and> qs_spent q1 \<le> cents (qg_BudgetTotal cfg) - cents (qg_BudgetFloor cfg)"
proof (cases "\<not> fpos (qg_BudgetTotal cfg) \<or> cents (or_SuggestedSize ord) \<le> 0")
  case True
  then show ?thesis using assms by (auto simp: check_budget_def Let_def split: if_split_asm)
next
  case False
  define T F S C where "T = cents (qg_BudgetTotal cfg)" and "F = cents (qg_BudgetFloor cfg)" and "S = qs_spent q"
    and "C = cents (or_SuggestedSize ord)"
  have b: "0 \<le> S" "S \<le> T - F" "0 \<le> F" "T \<le> 10 ^ 12" "1 \<le> C" "C \<le> 10 ^ 12"
    using assms(2-6) False by (simp_all add: T_def F_def S_def C_def)
  have w: "wrap64 (S + C) = S + C" "wrap64 (T - (S + C)) = T - (S + C)" "wrap64 (- C) = - C" "wrap64 (T - S) = T - S"
    "wrap64 S = S" "wrap64 (T - S - F) = T - S - F"
    using b by (auto intro!: wrap64_id in_int64_small)
  show ?thesis
  proof (cases "T - (S + C) < F")
    case False
    then show ?thesis using assms(1) \<open>\<not> (_ \<or> _)\<close> b w
      by (auto simp: check_budget_def Let_def T_def [symmetric] F_def [symmetric] S_def [symmetric] C_def [symmetric])
  next
    case over: True
    show ?thesis
    proof (cases "T - S - F \<le> 0")
      case True
      then show ?thesis using assms(1) \<open>\<not> (_ \<or> _)\<close> over b w
        by (auto simp: check_budget_def Let_def T_def [symmetric] F_def [symmetric] S_def [symmetric] C_def [symmetric])
    next
      case left: False
      have sc: "cents (fdiv (of_int64 (T - S - F)) (Fin 100)) \<in> {T - S - F - 1, T - S - F}"
        using left b by (intro scaled_cents) auto
      then have "wrap64 (S + cents (fdiv (of_int64 (T - S - F)) (Fin 100))) = S + cents (fdiv (of_int64 (T - S - F)) (Fin 100))"
        using left b by (intro wrap64_id in_int64_small) auto
      then have "qs_spent q1 = S + cents (fdiv (of_int64 (T - S - F)) (Fin 100))"
        using assms(1) \<open>\<not> (_ \<or> _)\<close> over left w
        by (auto simp: check_budget_def Let_def T_def [symmetric] F_def [symmetric] S_def [symmetric] C_def [symmetric])
      then show ?thesis using sc left b by (auto simp: T_def F_def)
    qed
  qed
qed


section \<open>Instances\<close>

definition ex_quota :: QuotaConfig where
  "ex_quota = \<lparr>qg_Enabled = True, qg_CooldownSecs = 30, qg_MaxPerSec = 0, qg_BudgetTotal = Fin 100, qg_BudgetFloor = Fin 0\<rparr>"

definition ex_guard :: quota where
  "ex_guard = \<lparr>qs_lastOrder = Map.empty, qs_lastOrderMarket = Map.empty, qs_tokens = None, qs_stopped = False, qs_spent = 0\<rparr>"

definition ex_at :: "int \<Rightarrow> quota_input" where
  "ex_at t = \<lparr>qi_sinceMarket = t, qi_sinceKey = t, qi_setKey = t, qi_setMarket = t, qi_takeToken = True\<rparr>"

lemma ex_cooldown: "cooldown_ns ex_quota = 30 * 10 ^ 9"
  by (simp add: cooldown_ns_def ex_quota_def wrap64_id int64_bounds)

lemma ex_budget: "cents (Fin 100) = 10000" "cents (Fin 0) = 0" "cents (Fin 1) = 100"
  by (simp_all add: cents_def fround_100 trunc_rat_def int64_bounds)

theorem forwarded_orders_are_spaced_witness:
  "\<exists>q' fs. run_quota ex_quota [(ex_at 0, ex_order ''buy'' []), (ex_at 5, ex_order ''buy'' [])] ex_guard = (q', fs) \<and>
     sorted_wrt (\<lambda>(t1, o1) (t2, o2). or_MarketTicker o1 = or_MarketTicker o2 \<longrightarrow> t1 + 30 * 10 ^ 9 \<le> t2) fs"
proof -
  obtain q' fs where r: "run_quota ex_quota [(ex_at 0, ex_order ''buy'' []), (ex_at 5, ex_order ''buy'' [])] ex_guard = (q', fs)"
    by fastforce
  have "sorted_wrt (\<lambda>(t1, o1) (t2, o2). or_MarketTicker o1 = or_MarketTicker o2 \<longrightarrow> t1 + cooldown_ns ex_quota \<le> t2) fs"
  proof (rule forwarded_orders_are_spaced [OF r])
    show "qg_Enabled ex_quota" by (simp add: ex_quota_def)
    show "0 \<le> cooldown_ns ex_quota" by (simp add: ex_cooldown)
    show "\<forall>(inp, ord) \<in> set [(ex_at 0, ex_order ''buy'' []), (ex_at 5, ex_order ''buy'' [])]. qi_sinceMarket inp \<le> qi_setMarket inp"
      by (simp add: ex_at_def)
  qed
  then show ?thesis using r unfolding ex_cooldown by blast
qed


definition ex_pipe_input :: pipe_input where
  "ex_pipe_input =
     \<lparr>pi_paper = ex_at 0, pi_real = ex_at 0, pi_on = True, pi_now = 5, pi_failsApply = False, pi_failsMark = False,
      pi_emission = ex_emission\<rparr>"

theorem pipeline_keeps_pool_witness:
  "0 \<le> pool_cents (rs_db (pl_sys (snd (run_pipeline ex_quota ex_cfg (Fin 1) [(ex_pipe_input, ''s'', ex_order ''buy'' [])]
     (ex_guard, \<lparr>pl_prev = False, pl_realQuota = ex_guard, pl_sys = ex_sys [], pl_writer = \<lparr>ob_orders = [], ob_drops = 0\<rparr>\<rparr>)))))"
proof (rule pipeline_keeps_pool)
  show "emission_ok ord (pi_emission inp)" if "(inp, n, ord) \<in> set [(ex_pipe_input, ''s'', ex_order ''buy'' [])]" for inp n ord
    using that by (simp add: ex_pipe_input_def emission_ok_def ex_em_first ex_answer ex_order_def price_ok_def)
qed (simp add: ex_sys_def ex_pool_def pool_cents_def)

end
