(* ===== verification/LiveMarkov.thy ===== *)
theory LiveMarkov
  imports Markov
begin

text \<open>
  The win-probability model of the first version, \<open>internal/algorithms/markov.go\<close>. It differs from that of
  the second version (\<open>Markov\<close>, whose record and score readers it shares) in tiebreaks: a level score ends
  the recursion from seven points each, not six, with the average of the serve and return probabilities.
  The four caches are threaded as state and proved invisible.
\<close>

section \<open>Games\<close>

text \<open>Termination of the recursion on points: below deuce both players have at most three.\<close>

function live_gameWinProbRecursive :: "int \<Rightarrow> int \<Rightarrow> float64 \<Rightarrow> float64" where
  "live_gameWinProbRecursive h a p =
     (if h \<ge> 4 \<and> h - a \<ge> 2 then Fin 1
      else if a \<ge> 4 \<and> a - h \<ge> 2 then Fin 0
      else
        (let p2 = fmul p p; q2 = fmul (fsub (Fin 1) p) (fsub (Fin 1) p) in
         if h \<ge> 3 \<and> a \<ge> 3 \<and> h = a then fdiv p2 (fadd p2 q2)
         else if h \<ge> 3 \<and> a \<ge> 3 \<and> h = a + 1 then fadd (fmul p (Fin 1)) (fdiv (fmul (fsub (Fin 1) p) p2) (fadd p2 q2))
         else if h \<ge> 3 \<and> a \<ge> 3 \<and> a = h + 1 then fdiv (fmul p p2) (fadd p2 q2)
         else fadd (fmul p (live_gameWinProbRecursive (h + 1) a p))
                (fmul (fsub (Fin 1) p) (live_gameWinProbRecursive h (a + 1) p))))"
  by pat_completeness auto
termination by (relation "measure (\<lambda>(h, a, p). nat (8 - h - a))") auto

declare live_gameWinProbRecursive.simps [simp del]

definition live_gameWinProbMemoized :: "int \<Rightarrow> int \<Rightarrow> bool \<Rightarrow> MarkovModel \<Rightarrow> float64 \<times> MarkovModel" where
  "live_gameWinProbMemoized h a pIsServe m =
     (let key = (h, a, boolToInt pIsServe) in
      case mm_gameMemo m key of
        Some v \<Rightarrow> (v, m)
      | None \<Rightarrow>
          (let p = (if pIsServe then mm_pServe m else mm_pReturn m);
               result = live_gameWinProbRecursive h a p in
           (result, m\<lparr>mm_gameMemo := (mm_gameMemo m)(key \<mapsto> result)\<rparr>)))"

section \<open>Tiebreaks\<close>

definition live_tb_deuce :: "float64 \<Rightarrow> float64 \<Rightarrow> float64" where
  "live_tb_deuce pServe pReturn =
     (let pAvg = fadd (fmul (Fin (1 / 2)) pServe) (fmul (Fin (1 / 2)) pReturn);
          p2 = fmul pAvg pAvg; q2 = fmul (fsub (Fin 1) pAvg) (fsub (Fin 1) pAvg) in
      fdiv p2 (fadd p2 q2))"

text \<open>The number of points that can still be played before a tiebreak is decided or level at seven or
  more; the measure of both tiebreak functions.\<close>

definition live_tb_measure :: "int \<Rightarrow> int \<Rightarrow> nat" where
  "live_tb_measure h a = (if h < 7 \<or> a < 7 then nat (16 - h - a) + 2 else if \<bar>h - a\<bar> = 1 then 1 else 0)"

lemma live_tb_measure_decreases:
  assumes "\<not> (h \<ge> 7 \<and> h - a \<ge> 2)" "\<not> (a \<ge> 7 \<and> a - h \<ge> 2)" "\<not> (h \<ge> 7 \<and> a \<ge> 7 \<and> h = a)"
  shows "live_tb_measure (h + 1) a < live_tb_measure h a" "live_tb_measure h (a + 1) < live_tb_measure h a"
  using assms by (auto simp: live_tb_measure_def)

function live_tbWinProbMemoized ::
  "int \<Rightarrow> int \<Rightarrow> float64 \<Rightarrow> bool \<Rightarrow> int \<Rightarrow> MarkovModel \<Rightarrow> float64 \<times> MarkovModel" where
  "live_tbWinProbMemoized h a p homeServing totalPoints m =
     (if h \<ge> 7 \<and> h - a \<ge> 2 then (Fin 1, m)
      else if a \<ge> 7 \<and> a - h \<ge> 2 then (Fin 0, m)
      else if h \<ge> 7 \<and> a \<ge> 7 \<and> h = a then (live_tb_deuce (mm_pServe m) (mm_pReturn m), m)
      else
        (let key = (h, a, boolToInt homeServing) in
         case mm_tbMemo m key of
           Some v \<Rightarrow> (v, m)
         | None \<Rightarrow>
             (let nextHomeServing = (if totalPoints smod 2 = 0 then \<not> homeServing else homeServing);
                  nextP = (if nextHomeServing then mm_pServe m else mm_pReturn m);
                  r1 = live_tbWinProbMemoized (h + 1) a nextP nextHomeServing (totalPoints + 1) m;
                  r2 = live_tbWinProbMemoized h (a + 1) nextP nextHomeServing (totalPoints + 1) (snd r1);
                  result = fadd (fmul p (fst r1)) (fmul (fsub (Fin 1) p) (fst r2)) in
              (result, (snd r2)\<lparr>mm_tbMemo := (mm_tbMemo (snd r2))(key \<mapsto> result)\<rparr>))))"
  by pat_completeness auto
termination
  by (relation "measure (\<lambda>(h, a, p, s, t, m). live_tb_measure h a)") (auto simp: live_tb_measure_decreases)

declare live_tbWinProbMemoized.simps [simp del]

definition live_tiebreakWinProb :: "string \<Rightarrow> string \<Rightarrow> bool \<Rightarrow> MarkovModel \<Rightarrow> float64 \<times> MarkovModel" where
  "live_tiebreakWinProb homePoints awayPoints homeServing m =
     (let h = tbPointValue homePoints; a = tbPointValue awayPoints;
          p = (if homeServing then mm_pServe m else mm_pReturn m) in
      live_tbWinProbMemoized h a p homeServing (h + a) m)"

definition live_gameWinProb :: "string \<Rightarrow> string \<Rightarrow> bool \<Rightarrow> bool \<Rightarrow> MarkovModel \<Rightarrow> float64 \<times> MarkovModel" where
  "live_gameWinProb homePoints awayPoints homeServing isTiebreak m =
     (if isTiebreak then live_tiebreakWinProb homePoints awayPoints homeServing m
      else live_gameWinProbMemoized (pointValue homePoints) (pointValue awayPoints) homeServing m)"

section \<open>Sets\<close>

function live_setWinProbCached :: "int \<Rightarrow> int \<Rightarrow> int \<Rightarrow> bool \<Rightarrow> MarkovModel \<Rightarrow> float64 \<times> MarkovModel" where
  "live_setWinProbCached gamesHome gamesAway server pIsServe m =
     (if gamesHome \<ge> 6 \<and> gamesHome - gamesAway \<ge> 2 then (Fin 1, m)
      else if gamesAway \<ge> 6 \<and> gamesAway - gamesHome \<ge> 2 then (Fin 0, m)
      else if gamesHome \<ge> 6 \<and> gamesAway \<ge> 6 \<and> gamesHome = gamesAway
      then live_tiebreakWinProb ''0'' ''0'' (server = 1) m
      else
        (let key = (gamesHome, gamesAway, server - 1, boolToInt pIsServe) in
         case mm_setMemo m key of
           Some v \<Rightarrow> (v, m)
         | None \<Rightarrow>
             (let pHomeGame = (if pIsServe then mm_pServe m else mm_pReturn m);
                  nextServer = (if server = 2 then 1 else 2);
                  nextHomeServes = (nextServer = 1);
                  r1 = live_setWinProbCached (gamesHome + 1) gamesAway nextServer nextHomeServes m;
                  r2 = live_setWinProbCached gamesHome (gamesAway + 1) nextServer nextHomeServes (snd r1);
                  result = fadd (fmul pHomeGame (fst r1)) (fmul (fsub (Fin 1) pHomeGame) (fst r2)) in
              (result, (snd r2)\<lparr>mm_setMemo := (mm_setMemo (snd r2))(key \<mapsto> result)\<rparr>))))"
  by pat_completeness auto
termination
  by (relation "measure (\<lambda>(h, a, s, p, m). set_measure h a)") (auto simp: set_measure_decreases)

declare live_setWinProbCached.simps [simp del]

definition live_setWinProb :: "int \<Rightarrow> int \<Rightarrow> float64 \<Rightarrow> int \<Rightarrow> bool \<Rightarrow> MarkovModel \<Rightarrow> float64 \<times> MarkovModel" where
  "live_setWinProb gamesHome gamesAway pHomeGame server isTiebreak m =
     (if gamesHome \<ge> 6 \<and> gamesHome - gamesAway \<ge> 2 then (Fin 1, m)
      else if gamesAway \<ge> 6 \<and> gamesAway - gamesHome \<ge> 2 then (Fin 0, m)
      else if isTiebreak then (pHomeGame, m)
      else if gamesHome \<ge> 6 \<and> gamesAway \<ge> 6 \<and> gamesHome = gamesAway
      then live_tiebreakWinProb ''0'' ''0'' (server = 1) m
      else
        (let nextServer = (if server = 2 then 1 else 2);
             nextHomeServes = (nextServer = 1);
             r1 = live_setWinProbCached (gamesHome + 1) gamesAway nextServer nextHomeServes m;
             r2 = live_setWinProbCached gamesHome (gamesAway + 1) nextServer nextHomeServes (snd r1) in
         (fadd (fmul pHomeGame (fst r1)) (fmul (fsub (Fin 1) pHomeGame) (fst r2)), snd r2)))"

section \<open>Matches\<close>

function live_matchWinProbFromSetScore :: "int \<Rightarrow> int \<Rightarrow> MarkovModel \<Rightarrow> float64 \<times> MarkovModel" where
  "live_matchWinProbFromSetScore sH sA m =
     (if sH \<ge> setsToWin then (Fin 1, m)
      else if sA \<ge> setsToWin then (Fin 0, m)
      else
        (let key = (sH, sA) in
         case mm_matchMemo m key of
           Some v \<Rightarrow> (v, m)
         | None \<Rightarrow>
             (let r1 = live_setWinProbCached 0 0 1 True m;
                  r2 = live_setWinProbCached 0 0 2 False (snd r1);
                  pSet = fadd (fmul (Fin (1 / 2)) (fst r1)) (fmul (Fin (1 / 2)) (fst r2));
                  r3 = live_matchWinProbFromSetScore (sH + 1) sA (snd r2);
                  r4 = live_matchWinProbFromSetScore sH (sA + 1) (snd r3);
                  result = fadd (fmul pSet (fst r3)) (fmul (fsub (Fin 1) pSet) (fst r4)) in
              (result, (snd r4)\<lparr>mm_matchMemo := (mm_matchMemo (snd r4))(key \<mapsto> result)\<rparr>))))"
  by pat_completeness auto
termination
  by (relation "measure (\<lambda>(sH, sA, m). nat (2 - sH) + nat (2 - sA))") (auto simp: setsToWin_def)

declare live_matchWinProbFromSetScore.simps [simp del]

definition live_WinProbability ::
  "int \<Rightarrow> int \<Rightarrow> int \<Rightarrow> int \<Rightarrow> string \<Rightarrow> string \<Rightarrow> int \<Rightarrow> bool \<Rightarrow> MarkovModel \<Rightarrow> float64 \<times> MarkovModel" where
  "live_WinProbability setsHome setsAway gamesHome gamesAway homePoints awayPoints server isTiebreak m =
     (if setsHome \<ge> setsToWin then (Fin 1, m)
      else if setsAway \<ge> setsToWin then (Fin 0, m)
      else
        (let r1 = live_gameWinProb homePoints awayPoints (server = 1) isTiebreak m;
             r2 = live_setWinProb gamesHome gamesAway (fst r1) server isTiebreak (snd r1);
             r3 = live_matchWinProbFromSetScore (setsHome + 1) setsAway (snd r2);
             r4 = live_matchWinProbFromSetScore setsHome (setsAway + 1) (snd r3) in
         (fadd (fmul (fst r2) (fst r3)) (fmul (fsub (Fin 1) (fst r2)) (fst r4)), snd r4)))"

definition live_FairValue ::
  "int \<Rightarrow> int \<Rightarrow> int \<Rightarrow> int \<Rightarrow> string \<Rightarrow> string \<Rightarrow> int \<Rightarrow> bool \<Rightarrow> MarkovModel \<Rightarrow> float64 \<times> MarkovModel" where
  "live_FairValue setsHome setsAway gamesHome gamesAway homePoints awayPoints server isTiebreak m =
     (let r = live_WinProbability setsHome setsAway gamesHome gamesAway homePoints awayPoints server isTiebreak m in
      (fmax (flit (1 / 100)) (fmin (flit (99 / 100)) (fst r)), snd r))"

section \<open>The same functions without caches\<close>

function live_tb_ref :: "float64 \<Rightarrow> float64 \<Rightarrow> int \<Rightarrow> int \<Rightarrow> bool \<Rightarrow> float64" where
  "live_tb_ref pS pR h a hs =
     (if h \<ge> 7 \<and> h - a \<ge> 2 then Fin 1
      else if a \<ge> 7 \<and> a - h \<ge> 2 then Fin 0
      else if h \<ge> 7 \<and> a \<ge> 7 \<and> h = a then live_tb_deuce pS pR
      else
        (let p = (if hs then pS else pR); hs' = (if even (h + a) then \<not> hs else hs) in
         fadd (fmul p (live_tb_ref pS pR (h + 1) a hs')) (fmul (fsub (Fin 1) p) (live_tb_ref pS pR h (a + 1) hs'))))"
  by pat_completeness auto
termination
  by (relation "measure (\<lambda>(pS, pR, h, a, hs). live_tb_measure h a)") (auto simp: live_tb_measure_decreases)

declare live_tb_ref.simps [simp del]

definition live_tiebreak_ref :: "float64 \<Rightarrow> float64 \<Rightarrow> string \<Rightarrow> string \<Rightarrow> bool \<Rightarrow> float64" where
  "live_tiebreak_ref pS pR hp ap hs = live_tb_ref pS pR (tbPointValue hp) (tbPointValue ap) hs"

function live_set_ref :: "float64 \<Rightarrow> float64 \<Rightarrow> int \<Rightarrow> int \<Rightarrow> int \<Rightarrow> bool \<Rightarrow> float64" where
  "live_set_ref pS pR h a server pis =
     (if h \<ge> 6 \<and> h - a \<ge> 2 then Fin 1
      else if a \<ge> 6 \<and> a - h \<ge> 2 then Fin 0
      else if h \<ge> 6 \<and> a \<ge> 6 \<and> h = a then live_tiebreak_ref pS pR ''0'' ''0'' (server = 1)
      else
        (let p = (if pis then pS else pR); next = (if server = 2 then 1 else 2) in
         fadd (fmul p (live_set_ref pS pR (h + 1) a next (next = 1)))
           (fmul (fsub (Fin 1) p) (live_set_ref pS pR h (a + 1) next (next = 1)))))"
  by pat_completeness auto
termination
  by (relation "measure (\<lambda>(pS, pR, h, a, s, p). set_measure h a)") (auto simp: set_measure_decreases)

declare live_set_ref.simps [simp del]

function live_match_ref :: "float64 \<Rightarrow> float64 \<Rightarrow> int \<Rightarrow> int \<Rightarrow> float64" where
  "live_match_ref pS pR sH sA =
     (if sH \<ge> setsToWin then Fin 1
      else if sA \<ge> setsToWin then Fin 0
      else
        (let pSet = fadd (fmul (Fin (1 / 2)) (live_set_ref pS pR 0 0 1 True)) (fmul (Fin (1 / 2)) (live_set_ref pS pR 0 0 2 False)) in
         fadd (fmul pSet (live_match_ref pS pR (sH + 1) sA)) (fmul (fsub (Fin 1) pSet) (live_match_ref pS pR sH (sA + 1)))))"
  by pat_completeness auto
termination
  by (relation "measure (\<lambda>(pS, pR, sH, sA). nat (2 - sH) + nat (2 - sA))") (auto simp: setsToWin_def)

declare live_match_ref.simps [simp del]

definition live_game_ref :: "float64 \<Rightarrow> float64 \<Rightarrow> string \<Rightarrow> string \<Rightarrow> bool \<Rightarrow> bool \<Rightarrow> float64" where
  "live_game_ref pS pR hp ap hs tb =
     (if tb then live_tiebreak_ref pS pR hp ap hs
      else live_gameWinProbRecursive (pointValue hp) (pointValue ap) (if hs then pS else pR))"

definition live_setp_ref :: "float64 \<Rightarrow> float64 \<Rightarrow> int \<Rightarrow> int \<Rightarrow> float64 \<Rightarrow> int \<Rightarrow> bool \<Rightarrow> float64" where
  "live_setp_ref pS pR h a p server tb =
     (if h \<ge> 6 \<and> h - a \<ge> 2 then Fin 1
      else if a \<ge> 6 \<and> a - h \<ge> 2 then Fin 0
      else if tb then p
      else if h \<ge> 6 \<and> a \<ge> 6 \<and> h = a then live_tiebreak_ref pS pR ''0'' ''0'' (server = 1)
      else
        (let next = (if server = 2 then 1 else 2) in
         fadd (fmul p (live_set_ref pS pR (h + 1) a next (next = 1)))
           (fmul (fsub (Fin 1) p) (live_set_ref pS pR h (a + 1) next (next = 1)))))"

definition live_win_ref ::
  "float64 \<Rightarrow> float64 \<Rightarrow> int \<Rightarrow> int \<Rightarrow> int \<Rightarrow> int \<Rightarrow> string \<Rightarrow> string \<Rightarrow> int \<Rightarrow> bool \<Rightarrow> float64" where
  "live_win_ref pS pR sH sA gH gA hp ap server tb =
     (if sH \<ge> setsToWin then Fin 1
      else if sA \<ge> setsToWin then Fin 0
      else
        (let p = live_setp_ref pS pR gH gA (live_game_ref pS pR hp ap (server = 1) tb) server tb in
         fadd (fmul p (live_match_ref pS pR (sH + 1) sA)) (fmul (fsub (Fin 1) p) (live_match_ref pS pR sH (sA + 1)))))"

section \<open>Caching does not change results\<close>

text \<open>The caches are sound when every entry is the value of the uncached function at its key.\<close>

definition live_memo_ok :: "float64 \<Rightarrow> float64 \<Rightarrow> MarkovModel \<Rightarrow> bool" where
  "live_memo_ok pS pR m \<longleftrightarrow>
     mm_pServe m = pS \<and> mm_pReturn m = pR \<and>
     (\<forall>h a s v. mm_gameMemo m (h, a, boolToInt s) = Some v \<longrightarrow> v = live_gameWinProbRecursive h a (if s then pS else pR)) \<and>
     (\<forall>h a s v. mm_tbMemo m (h, a, boolToInt s) = Some v \<longrightarrow> v = live_tb_ref pS pR h a s) \<and>
     (\<forall>h a server p v. mm_setMemo m (h, a, server - 1, boolToInt p) = Some v \<longrightarrow> v = live_set_ref pS pR h a server p) \<and>
     (\<forall>sH sA v. mm_matchMemo m (sH, sA) = Some v \<longrightarrow> v = live_match_ref pS pR sH sA)"

definition live_computes :: "float64 \<Rightarrow> float64 \<Rightarrow> float64 \<Rightarrow> float64 \<times> MarkovModel \<Rightarrow> bool" where
  "live_computes pS pR v r \<longleftrightarrow> fst r = v \<and> live_memo_ok pS pR (snd r)"

lemma live_computesI: "live_memo_ok pS pR m \<Longrightarrow> live_computes pS pR v (v, m)"
  by (simp add: live_computes_def)

lemma live_memo_ok_new: "live_memo_ok p (fsub (Fin 1) p) (NewMarkovModelWithProb p)"
  by (simp add: live_memo_ok_def NewMarkovModelWithProb_def)

lemma live_memo_ok_updates:
  "live_memo_ok pS pR m \<Longrightarrow> v = live_gameWinProbRecursive h a (if s then pS else pR) \<Longrightarrow>
     live_memo_ok pS pR (m\<lparr>mm_gameMemo := (mm_gameMemo m)((h, a, boolToInt s) \<mapsto> v)\<rparr>)"
  "live_memo_ok pS pR m \<Longrightarrow> v = live_tb_ref pS pR h a s \<Longrightarrow>
     live_memo_ok pS pR (m\<lparr>mm_tbMemo := (mm_tbMemo m)((h, a, boolToInt s) \<mapsto> v)\<rparr>)"
  "live_memo_ok pS pR m \<Longrightarrow> v = live_set_ref pS pR h a server p \<Longrightarrow>
     live_memo_ok pS pR (m\<lparr>mm_setMemo := (mm_setMemo m)((h, a, server - 1, boolToInt p) \<mapsto> v)\<rparr>)"
  "live_memo_ok pS pR m \<Longrightarrow> v = live_match_ref pS pR h a \<Longrightarrow>
     live_memo_ok pS pR (m\<lparr>mm_matchMemo := (mm_matchMemo m)((h, a) \<mapsto> v)\<rparr>)"
  by (auto simp: live_memo_ok_def)

lemma live_game_computes:
  "live_memo_ok pS pR m \<Longrightarrow>
     live_computes pS pR (live_gameWinProbRecursive h a (if s then pS else pR)) (live_gameWinProbMemoized h a s m)"
proof (cases "mm_gameMemo m (h, a, boolToInt s)")
  case None
  assume ok: "live_memo_ok pS pR m"
  with None live_memo_ok_updates(1) [OF ok refl, of h a s] show ?thesis
    by (auto simp: live_gameWinProbMemoized_def Let_def live_computes_def live_memo_ok_def [of pS pR m])
next
  case (Some v)
  assume "live_memo_ok pS pR m"
  with Some show ?thesis
    by (auto simp: live_gameWinProbMemoized_def Let_def live_computes_def live_memo_ok_def)
qed

lemma live_tb_computes:
  assumes "live_memo_ok pS pR m" "p = (if hs then pS else pR)" "t = h + a"
  shows "live_computes pS pR (live_tb_ref pS pR h a hs) (live_tbWinProbMemoized h a p hs t m)"
  using assms
proof (induction "live_tb_measure h a" arbitrary: h a p hs t m rule: less_induct)
  case less
  note eqs = live_tbWinProbMemoized.simps [of h a p hs t m] live_tb_ref.simps [of pS pR h a hs]
  have pr: "mm_pServe m = pS" "mm_pReturn m = pR" using less.prems(1) by (simp_all add: live_memo_ok_def)
  show ?case
  proof (cases "h \<ge> 7 \<and> h - a \<ge> 2 \<or> a \<ge> 7 \<and> a - h \<ge> 2 \<or> h \<ge> 7 \<and> a \<ge> 7 \<and> h = a")
    case True
    then show ?thesis using less.prems(1) pr by (auto simp: eqs live_computes_def)
  next
    case False
    then have d: "live_tb_measure (h + 1) a < live_tb_measure h a" "live_tb_measure h (a + 1) < live_tb_measure h a"
      by (simp_all add: live_tb_measure_decreases)
    from False have nt: "\<not> (h \<ge> 7 \<and> h - a \<ge> 2)" "\<not> (a \<ge> 7 \<and> a - h \<ge> 2)" "\<not> (h \<ge> 7 \<and> a \<ge> 7 \<and> h = a)"
      by blast+
    note eq = eqs [unfolded if_not_P [OF nt(1)] if_not_P [OF nt(2)] if_not_P [OF nt(3)]]
    show ?thesis
    proof (cases "mm_tbMemo m (h, a, boolToInt hs)")
      case (Some v)
      then have "v = live_tb_ref pS pR h a hs" using less.prems(1) by (auto simp: live_memo_ok_def)
      with Some less.prems(1) show ?thesis by (simp add: eq(1) live_computes_def)
    next
      case None
      define hs' where "hs' = (if even (h + a) then \<not> hs else hs)"
      have nx: "(if t smod 2 = 0 then \<not> hs else hs) = hs'"
        using less.prems(3) by (simp add: hs'_def smod_2_even)
      define p' where "p' = (if hs' then pS else pR)"
      define r1 where "r1 = live_tbWinProbMemoized (h + 1) a p' hs' (t + 1) m"
      define r2 where "r2 = live_tbWinProbMemoized h (a + 1) p' hs' (t + 1) (snd r1)"
      have c1: "live_computes pS pR (live_tb_ref pS pR (h + 1) a hs') r1"
        unfolding r1_def using less.prems by (intro less.hyps d) (auto simp: p'_def)
      have c2: "live_computes pS pR (live_tb_ref pS pR h (a + 1) hs') r2"
        unfolding r2_def using less.prems c1 by (intro less.hyps d) (auto simp: p'_def live_computes_def)
      have v: "live_tb_ref pS pR h a hs = fadd (fmul p (fst r1)) (fmul (fsub (Fin 1) p) (fst r2))"
        using less.prems(2) c1 c2 by (simp add: eq(2) hs'_def live_computes_def Let_def)
      have "live_tbWinProbMemoized h a p hs t m =
          (live_tb_ref pS pR h a hs, (snd r2)\<lparr>mm_tbMemo := (mm_tbMemo (snd r2))((h, a, boolToInt hs) \<mapsto> live_tb_ref pS pR h a hs)\<rparr>)"
        unfolding v eq(1)
        by (simp only: Let_def None option.case pr nx p'_def [symmetric] r1_def [symmetric] r2_def [symmetric])
      with live_memo_ok_updates(2) [OF _ refl] c2 show ?thesis by (simp add: live_computes_def)
    qed
  qed
qed

lemma live_tiebreak_computes:
  "live_memo_ok pS pR m \<Longrightarrow> live_computes pS pR (live_tiebreak_ref pS pR hp ap hs) (live_tiebreakWinProb hp ap hs m)"
  unfolding live_tiebreakWinProb_def live_tiebreak_ref_def Let_def
  by (rule live_tb_computes) (auto simp: live_memo_ok_def)

lemma live_gameWinProb_computes:
  "live_memo_ok pS pR m \<Longrightarrow> live_computes pS pR (live_game_ref pS pR hp ap hs tb) (live_gameWinProb hp ap hs tb m)"
  using live_game_computes [of pS pR m "pointValue hp" "pointValue ap" hs]
  by (simp add: live_gameWinProb_def live_game_ref_def live_tiebreak_computes)

lemma live_set_computes:
  assumes "live_memo_ok pS pR m"
  shows "live_computes pS pR (live_set_ref pS pR h a server p) (live_setWinProbCached h a server p m)"
  using assms
proof (induction "set_measure h a" arbitrary: h a server p m rule: less_induct)
  case less
  note eqs = live_setWinProbCached.simps [of h a server p m] live_set_ref.simps [of pS pR h a server p]
  have pr: "mm_pServe m = pS" "mm_pReturn m = pR" using less.prems by (simp_all add: live_memo_ok_def)
  show ?case
  proof (cases "h \<ge> 6 \<and> h - a \<ge> 2 \<or> a \<ge> 6 \<and> a - h \<ge> 2 \<or> h \<ge> 6 \<and> a \<ge> 6 \<and> h = a")
    case True
    then show ?thesis using less.prems by (auto simp: eqs live_computesI live_tiebreak_computes)
  next
    case False
    then have d: "set_measure (h + 1) a < set_measure h a" "set_measure h (a + 1) < set_measure h a"
      by (simp_all add: set_measure_decreases)
    from False have nt: "\<not> (h \<ge> 6 \<and> h - a \<ge> 2)" "\<not> (a \<ge> 6 \<and> a - h \<ge> 2)" "\<not> (h \<ge> 6 \<and> a \<ge> 6 \<and> h = a)"
      by blast+
    note eq = eqs [unfolded if_not_P [OF nt(1)] if_not_P [OF nt(2)] if_not_P [OF nt(3)]]
    show ?thesis
    proof (cases "mm_setMemo m (h, a, server - 1, boolToInt p)")
      case (Some v)
      then have "v = live_set_ref pS pR h a server p" using less.prems by (auto simp: live_memo_ok_def)
      with Some less.prems show ?thesis by (simp add: eq(1) live_computes_def)
    next
      case None
      define nxt where "nxt = (if server = 2 then 1 else 2 :: int)"
      define r1 where "r1 = live_setWinProbCached (h + 1) a nxt (nxt = 1) m"
      define r2 where "r2 = live_setWinProbCached h (a + 1) nxt (nxt = 1) (snd r1)"
      let ?v = "fadd (fmul (if p then pS else pR) (fst r1)) (fmul (fsub (Fin 1) (if p then pS else pR)) (fst r2))"
      have c1: "live_computes pS pR (live_set_ref pS pR (h + 1) a nxt (nxt = 1)) r1"
        unfolding r1_def by (intro less.hyps d less.prems)
      have c2: "live_computes pS pR (live_set_ref pS pR h (a + 1) nxt (nxt = 1)) r2"
        unfolding r2_def using c1 by (intro less.hyps d) (simp add: live_computes_def)
      have v: "live_set_ref pS pR h a server p = ?v"
        using c1 c2 by (simp add: eq(2) nxt_def live_computes_def Let_def)
      have "live_setWinProbCached h a server p m =
          (?v, (snd r2)\<lparr>mm_setMemo := (mm_setMemo (snd r2))((h, a, server - 1, boolToInt p) \<mapsto> ?v)\<rparr>)"
        using None pr by (simp add: eq(1) Let_def r1_def r2_def nxt_def)
      with v live_memo_ok_updates(3) [OF _ v [symmetric]] c2 show ?thesis by (simp add: live_computes_def)
    qed
  qed
qed

lemma live_setWinProb_computes:
  "live_memo_ok pS pR m \<Longrightarrow> live_computes pS pR (live_setp_ref pS pR h a p server tb) (live_setWinProb h a p server tb m)"
proof -
  assume ok: "live_memo_ok pS pR m"
  define nxt where "nxt = (if server = 2 then 1 else 2 :: int)"
  note c1 = live_set_computes [OF ok, of "h + 1" a nxt "nxt = 1"]
  have "live_memo_ok pS pR (snd (live_setWinProbCached (h + 1) a nxt (nxt = 1) m))" using c1 by (simp add: live_computes_def)
  note c2 = live_set_computes [OF this, of h "a + 1" nxt "nxt = 1"]
  from c1 c2 ok show ?thesis
    by (auto simp: live_setWinProb_def live_setp_ref_def Let_def live_tiebreak_computes live_computesI nxt_def [symmetric])
       (auto simp: live_computes_def)
qed

lemma live_match_computes:
  assumes "live_memo_ok pS pR m"
  shows "live_computes pS pR (live_match_ref pS pR sH sA) (live_matchWinProbFromSetScore sH sA m)"
  using assms
proof (induction "nat (2 - sH) + nat (2 - sA)" arbitrary: sH sA m rule: less_induct)
  case less
  note eqs = live_matchWinProbFromSetScore.simps [of sH sA m] live_match_ref.simps [of pS pR sH sA]
  show ?case
  proof (cases "sH \<ge> setsToWin \<or> sA \<ge> setsToWin")
    case True
    then show ?thesis using less.prems by (auto simp: eqs live_computesI)
  next
    case False
    then have nt: "\<not> sH \<ge> setsToWin" "\<not> sA \<ge> setsToWin" by blast+
    note eq = eqs [unfolded if_not_P [OF nt(1)] if_not_P [OF nt(2)]]
    have d: "nat (2 - (sH + 1)) + nat (2 - sA) < nat (2 - sH) + nat (2 - sA)"
      "nat (2 - sH) + nat (2 - (sA + 1)) < nat (2 - sH) + nat (2 - sA)"
      using nt by (auto simp: setsToWin_def)
    show ?thesis
    proof (cases "mm_matchMemo m (sH, sA)")
      case (Some v)
      then have "v = live_match_ref pS pR sH sA" using less.prems by (auto simp: live_memo_ok_def)
      with Some less.prems show ?thesis by (simp add: eq(1) live_computes_def)
    next
      case None
      define r1 where "r1 = live_setWinProbCached 0 0 1 True m"
      define r2 where "r2 = live_setWinProbCached 0 0 2 False (snd r1)"
      define r3 where "r3 = live_matchWinProbFromSetScore (sH + 1) sA (snd r2)"
      define r4 where "r4 = live_matchWinProbFromSetScore sH (sA + 1) (snd r3)"
      let ?p = "fadd (fmul (Fin (1 / 2)) (fst r1)) (fmul (Fin (1 / 2)) (fst r2))"
      let ?v = "fadd (fmul ?p (fst r3)) (fmul (fsub (Fin 1) ?p) (fst r4))"
      have c1: "live_computes pS pR (live_set_ref pS pR 0 0 1 True) r1"
        unfolding r1_def by (intro live_set_computes less.prems)
      have c2: "live_computes pS pR (live_set_ref pS pR 0 0 2 False) r2"
        unfolding r2_def using c1 by (intro live_set_computes) (simp add: live_computes_def)
      have c3: "live_computes pS pR (live_match_ref pS pR (sH + 1) sA) r3"
        unfolding r3_def using c2 by (intro less.hyps d) (simp add: live_computes_def)
      have c4: "live_computes pS pR (live_match_ref pS pR sH (sA + 1)) r4"
        unfolding r4_def using c3 by (intro less.hyps d) (simp add: live_computes_def)
      have v: "live_match_ref pS pR sH sA = ?v"
        using c1 c2 c3 c4 by (simp add: eq(2) live_computes_def Let_def)
      have "live_matchWinProbFromSetScore sH sA m =
          (?v, (snd r4)\<lparr>mm_matchMemo := (mm_matchMemo (snd r4))((sH, sA) \<mapsto> ?v)\<rparr>)"
        unfolding eq(1) by (simp only: Let_def None option.case r1_def [symmetric] r2_def [symmetric]
            r3_def [symmetric] r4_def [symmetric])
      with v live_memo_ok_updates(4) [OF _ v [symmetric]] c4 show ?thesis by (simp add: live_computes_def)
    qed
  qed
qed

lemma live_WinProbability_computes:
  assumes ok: "live_memo_ok pS pR m"
  shows "live_computes pS pR (live_win_ref pS pR sH sA gH gA hp ap server tb) (live_WinProbability sH sA gH gA hp ap server tb m)"
proof -
  define r1 where "r1 = live_gameWinProb hp ap (server = 1) tb m"
  define r2 where "r2 = live_setWinProb gH gA (fst r1) server tb (snd r1)"
  define r3 where "r3 = live_matchWinProbFromSetScore (sH + 1) sA (snd r2)"
  define r4 where "r4 = live_matchWinProbFromSetScore sH (sA + 1) (snd r3)"
  have c1: "live_computes pS pR (live_game_ref pS pR hp ap (server = 1) tb) r1"
    unfolding r1_def by (intro live_gameWinProb_computes ok)
  have c2: "live_computes pS pR (live_setp_ref pS pR gH gA (fst r1) server tb) r2"
    unfolding r2_def using c1 by (intro live_setWinProb_computes) (simp add: live_computes_def)
  have c3: "live_computes pS pR (live_match_ref pS pR (sH + 1) sA) r3"
    unfolding r3_def using c2 by (intro live_match_computes) (simp add: live_computes_def)
  have c4: "live_computes pS pR (live_match_ref pS pR sH (sA + 1)) r4"
    unfolding r4_def using c3 by (intro live_match_computes) (simp add: live_computes_def)
  show ?thesis
    unfolding live_WinProbability_def live_win_ref_def Let_def
      r1_def [symmetric] r2_def [symmetric] r3_def [symmetric] r4_def [symmetric]
    using ok c1 c2 c3 c4 by (auto simp: live_computes_def)
qed

text \<open>A sequence of calls on one model.\<close>

definition live_win_at :: "score \<Rightarrow> MarkovModel \<Rightarrow> float64 \<times> MarkovModel" where
  "live_win_at sc m = (case sc of (sH, sA, gH, gA, hp, ap, server, tb) \<Rightarrow> live_WinProbability sH sA gH gA hp ap server tb m)"

definition live_win_ref_at :: "float64 \<Rightarrow> score \<Rightarrow> float64" where
  "live_win_ref_at p sc = (case sc of (sH, sA, gH, gA, hp, ap, server, tb) \<Rightarrow>
     live_win_ref p (fsub (Fin 1) p) sH sA gH gA hp ap server tb)"

definition live_after_calls :: "score list \<Rightarrow> MarkovModel \<Rightarrow> MarkovModel" where
  "live_after_calls = fold (\<lambda>sc m. snd (live_win_at sc m))"

lemma live_win_at_computes:
  "live_memo_ok p (fsub (Fin 1) p) m \<Longrightarrow> live_computes p (fsub (Fin 1) p) (live_win_ref_at p sc) (live_win_at sc m)"
  by (simp add: live_win_at_def live_win_ref_at_def live_WinProbability_computes split: prod.splits)

lemma live_after_calls_ok: "live_memo_ok p (fsub (Fin 1) p) m \<Longrightarrow> live_memo_ok p (fsub (Fin 1) p) (live_after_calls scs m)"
proof (induction scs arbitrary: m)
  case (Cons sc scs)
  then show ?case using live_win_at_computes [of p m sc] by (simp add: live_after_calls_def live_computes_def)
qed (simp add: live_after_calls_def)

text \<open>\<open>SetWinProbability\<close>, clamped as \<open>FairValue\<close> is.\<close>

definition live_SetWinProb ::
  "int \<Rightarrow> int \<Rightarrow> string \<Rightarrow> string \<Rightarrow> int \<Rightarrow> bool \<Rightarrow> MarkovModel \<Rightarrow> float64 \<times> MarkovModel" where
  "live_SetWinProb gamesHome gamesAway homePoints awayPoints server isTiebreak m =
     (let r1 = live_gameWinProb homePoints awayPoints (server = 1) isTiebreak m;
          r2 = live_setWinProb gamesHome gamesAway (fst r1) server isTiebreak (snd r1) in
      (fmax (flit (1 / 100)) (fmin (flit (99 / 100)) (fst r2)), snd r2))"

text \<open>The calls the strategies make on a model they share.\<close>

datatype model_call = CallWin score | CallFair score | CallSet int int string string int bool

primrec live_model_call :: "model_call \<Rightarrow> MarkovModel \<Rightarrow> float64 \<times> MarkovModel" where
  "live_model_call (CallWin sc) m = live_win_at sc m"
| "live_model_call (CallFair sc) m =
     (case sc of (sH, sA, gH, gA, hp, ap, server, tb) \<Rightarrow> live_FairValue sH sA gH gA hp ap server tb m)"
| "live_model_call (CallSet gH gA hp ap server tb) m = live_SetWinProb gH gA hp ap server tb m"

text \<open>Their values without caches.\<close>

definition clamp_fair :: "float64 \<Rightarrow> float64" where
  "clamp_fair x = fmax (flit (1 / 100)) (fmin (flit (99 / 100)) x)"

primrec live_model_ref :: "float64 \<Rightarrow> model_call \<Rightarrow> float64" where
  "live_model_ref p (CallWin sc) = live_win_ref_at p sc"
| "live_model_ref p (CallFair sc) = clamp_fair (live_win_ref_at p sc)"
| "live_model_ref p (CallSet gH gA hp ap server tb) =
     clamp_fair (live_setp_ref p (fsub (Fin 1) p) gH gA (live_game_ref p (fsub (Fin 1) p) hp ap (server = 1) tb) server tb)"

lemma live_model_call_computes:
  assumes "live_memo_ok p (fsub (Fin 1) p) m"
  shows "live_computes p (fsub (Fin 1) p) (live_model_ref p c) (live_model_call c m)"
proof (cases c)
  case (CallWin sc)
  then show ?thesis using live_win_at_computes [OF assms, of sc] by simp
next
  case (CallFair sc)
  then show ?thesis using live_win_at_computes [OF assms, of sc]
    by (auto simp: live_computes_def live_FairValue_def live_win_at_def clamp_fair_def Let_def split: prod.splits)
next
  case (CallSet gH gA hp ap server tb)
  define r1 where "r1 = live_gameWinProb hp ap (server = 1) tb m"
  have c1: "live_computes p (fsub (Fin 1) p) (live_game_ref p (fsub (Fin 1) p) hp ap (server = 1) tb) r1"
    unfolding r1_def by (rule live_gameWinProb_computes [OF assms])
  then have "live_computes p (fsub (Fin 1) p) (live_setp_ref p (fsub (Fin 1) p) gH gA (fst r1) server tb)
      (live_setWinProb gH gA (fst r1) server tb (snd r1))"
    by (intro live_setWinProb_computes) (simp add: live_computes_def)
  then show ?thesis using c1 CallSet by (simp add: live_computes_def live_SetWinProb_def clamp_fair_def Let_def r1_def)
qed

lemma live_fold_calls_ok:
  "live_memo_ok p (fsub (Fin 1) p) m \<Longrightarrow> live_memo_ok p (fsub (Fin 1) p) (fold (\<lambda>c m. snd (live_model_call c m)) cs m)"
proof (induction cs arbitrary: m)
  case (Cons c cs)
  then show ?case using live_model_call_computes [OF Cons.prems, of c] by (simp add: live_computes_def)
qed simp

text \<open>
  C37. The model the strategies share answers as if it were fresh: after any calls of any of them (match, fair
  value, set, in any order), the next answer is the float64 of the recursion without caches.
\<close>
theorem live_shared_model_is_fresh:
  "fst (live_model_call c (fold (\<lambda>c m. snd (live_model_call c m)) cs (NewMarkovModelWithProb p))) = live_model_ref p c"
  using live_model_call_computes [OF live_fold_calls_ok [OF live_memo_ok_new [of p]]] by (simp add: live_computes_def)

end
