(* ===== verification/LiveCore.thy ===== *)
theory LiveCore
  imports Emitters LiveMarkov MatchLoop "HOL-Library.AList"
begin

text \<open>
  What the strategies of the first version share (\<open>internal/algorithms\<close>): the score events they are told
  of (\<open>internal/store/types.go\<close>), the book of latest prices and registered markets each of them keeps,
  the classification of points and the filters, and their interaction with an emitter. A call of a
  strategy is an interaction tree: it returns the new state, panics, or emits an order and goes on with the
  emitter's answer; \<open>run_act\<close> plays it against any emitter of \<open>Emitters\<close>. Every call runs under the
  mutexes as one step and may read the clock several times.
\<close>

section \<open>Interactions\<close>

datatype 'a act = Panic | Return 'a | Emit Order "bool \<Rightarrow> 'a act"

primrec bind_act :: "'a act \<Rightarrow> ('a \<Rightarrow> 'b act) \<Rightarrow> 'b act" where
  "bind_act Panic f = Panic"
| "bind_act (Return a) f = f a"
| "bind_act (Emit ord k) f = Emit ord (\<lambda>ok. bind_act (k ok) f)"

primrec run_act :: "'s emitter \<Rightarrow> 'a act \<Rightarrow> 's \<Rightarrow> ('a \<times> 's) option" where
  "run_act emit Panic s = None"
| "run_act emit (Return a) s = Some (a, s)"
| "run_act emit (Emit ord k) s = (case emit ord s of (s', ok) \<Rightarrow> run_act emit (k ok) s')"

text \<open>The same interaction with every order tagged, as behind a \<open>tagEmitter\<close>.\<close>

primrec tag_act :: "string \<Rightarrow> 'a act \<Rightarrow> 'a act" where
  "tag_act n Panic = Panic"
| "tag_act n (Return a) = Return a"
| "tag_act n (Emit ord k) = Emit (ord\<lparr>or_Strategy := n\<rparr>) (\<lambda>ok. tag_act n (k ok))"

text \<open>All orders satisfy \<open>P\<close> and all results \<open>Q\<close>, whatever the emitter answers; and no answer leads to a panic.\<close>

primrec act_all :: "(Order \<Rightarrow> bool) \<Rightarrow> ('a \<Rightarrow> bool) \<Rightarrow> 'a act \<Rightarrow> bool" where
  "act_all P Q Panic \<longleftrightarrow> True"
| "act_all P Q (Return a) \<longleftrightarrow> Q a"
| "act_all P Q (Emit ord k) \<longleftrightarrow> P ord \<and> (\<forall>ok. act_all P Q (k ok))"

primrec act_safe :: "'a act \<Rightarrow> bool" where
  "act_safe Panic \<longleftrightarrow> False"
| "act_safe (Return a) \<longleftrightarrow> True"
| "act_safe (Emit ord k) \<longleftrightarrow> (\<forall>ok. act_safe (k ok))"

lemma act_all_bind:
  "act_all P Q m \<Longrightarrow> (\<And>a. Q a \<Longrightarrow> act_all P R (f a)) \<Longrightarrow> act_all P R (bind_act m f)"
  by (induction m) auto

lemma act_all_tag: "act_all P Q m \<Longrightarrow> (\<And>ord. P ord \<Longrightarrow> P' (ord\<lparr>or_Strategy := n\<rparr>)) \<Longrightarrow> act_all P' Q (tag_act n m)"
  by (induction m) auto

lemma act_all_mono: "act_all P Q m \<Longrightarrow> (\<And>ord. P ord \<Longrightarrow> P' ord) \<Longrightarrow> (\<And>a. Q a \<Longrightarrow> Q' a) \<Longrightarrow> act_all P' Q' m"
  by (induction m) auto

lemma act_all_conj: "act_all P Q m \<Longrightarrow> act_all P' Q' m \<Longrightarrow> act_all (\<lambda>ord. P ord \<and> P' ord) (\<lambda>a. Q a \<and> Q' a) m"
  by (induction m) auto

lemma act_safe_bind:
  "act_safe m \<Longrightarrow> act_all P Q m \<Longrightarrow> (\<And>a. Q a \<Longrightarrow> act_safe (f a)) \<Longrightarrow> act_safe (bind_act m f)"
  by (induction m) auto

lemma act_safe_tag [simp]: "act_safe (tag_act n m) = act_safe m"
  by (induction m) auto

lemma run_act_bind:
  "run_act emit (bind_act m f) s = (case run_act emit m s of None \<Rightarrow> None | Some (a, s') \<Rightarrow> run_act emit (f a) s')"
  by (induction m arbitrary: s) (auto split: prod.split)

lemma run_act_tag: "run_act emit (tag_act n m) s = run_act (tag_EmitOrder n emit) m s"
  by (induction m arbitrary: s) (auto simp: tag_EmitOrder_def split: prod.split)

text \<open>What an emitter keeps on the orders of a call, the call keeps.\<close>

lemma run_act_keeps:
  assumes "run_act emit m s = Some (a, s')" "act_all P Q m" "J s"
    and "\<And>ord s. P ord \<Longrightarrow> J s \<Longrightarrow> J (fst (emit ord s))"
  shows "Q a \<and> J s'"
  using assms(1-3)
proof (induction m arbitrary: s)
  case (Emit ord k)
  obtain s1 ok where e: "emit ord s = (s1, ok)" by fastforce
  have "J s1" using assms(4) [of ord s] Emit.prems(2,3) e by simp
  then show ?case using Emit.IH [of "k ok" s1] Emit.prems(1,2) e by auto
qed auto

lemma run_act_safe: "act_safe m \<Longrightarrow> \<exists>r. run_act emit m s = Some r"
  by (induction m arbitrary: s) (auto split: prod.split)

section \<open>Score events\<close>

record StorePoint = Point +
  sp_ID :: int
  sp_FSMatchID :: string
  sp_Payload :: string

text \<open>
  What a call reads besides its arguments: the clock, in nanoseconds, as the successive readings of the
  call; the sizing parameters of the package; the encoding of a map as JSON; which of several events
  that list a market an iteration over the map meets first; what the database answers about an event or a
  market (its series, the closing times of its markets, its latest volume, its surface), none when the
  query fails; a fresh identifier.
\<close>

datatype json_value = JInt int | JFloat float64 | JString string | JBool bool | JStrings "string list"

record live_env =
  le_clock :: "nat \<Rightarrow> int"
  le_bankroll :: float64
  le_kelly :: float64
  le_marshal :: "(string \<times> json_value) list \<Rightarrow> string"
  le_pick :: "string list \<Rightarrow> string"
  le_seriesTicker :: "string \<rightharpoonup> string"
  le_closeTS :: "string \<rightharpoonup> int list"
  le_dollarVolume :: "string \<rightharpoonup> float64"
  le_surface :: "string \<rightharpoonup> string"
  le_uuid :: string

section \<open>The book of a strategy\<close>

record market_book =
  pb_markets :: "(string \<times> string list) list"
  pb_replayNow :: "int option"

record price_book = market_book +
  pb_prices :: "string \<rightharpoonup> float64"

record timed_book = price_book +
  tb_priceTimes :: "string \<rightharpoonup> int"

definition live_now :: "live_env \<Rightarrow> nat \<Rightarrow> 'a market_book_scheme \<Rightarrow> int" where
  "live_now env k st = (case pb_replayNow st of Some t \<Rightarrow> t | None \<Rightarrow> le_clock env k)"

definition live_SetReplayTime :: "int option \<Rightarrow> 'a market_book_scheme \<Rightarrow> 'a market_book_scheme" where
  "live_SetReplayTime ts st = st\<lparr>pb_replayNow := ts\<rparr>"

definition live_price :: "'a price_book_scheme \<Rightarrow> string \<Rightarrow> float64" where
  "live_price st mkt = (case pb_prices st mkt of None \<Rightarrow> Fin 0 | Some p \<Rightarrow> p)"

definition set_price :: "string \<Rightarrow> float64 \<Rightarrow> 'a price_book_scheme \<Rightarrow> 'a price_book_scheme" where
  "set_price mkt p st = st\<lparr>pb_prices := (pb_prices st)(mkt \<mapsto> p)\<rparr>"

definition set_time :: "string \<Rightarrow> int \<Rightarrow> 'a timed_book_scheme \<Rightarrow> 'a timed_book_scheme" where
  "set_time mkt ts st = st\<lparr>tb_priceTimes := (tb_priceTimes st)(mkt \<mapsto> ts)\<rparr>"

definition markets_of :: "'a market_book_scheme \<Rightarrow> string \<Rightarrow> string list option" where
  "markets_of st ev = map_of (pb_markets st) ev"

definition add_markets :: "string \<Rightarrow> string list \<Rightarrow> 'a market_book_scheme \<Rightarrow> 'a market_book_scheme" where
  "add_markets ev mkts st = st\<lparr>pb_markets := AList.update ev mkts (pb_markets st)\<rparr>"

text \<open>\<open>delete\<close> on a map, for one key and for all markets of an event; unknown events have none.\<close>

definition drop_key :: "string \<Rightarrow> (string \<rightharpoonup> 'v) \<Rightarrow> (string \<rightharpoonup> 'v)" where
  "drop_key k m = m(k := None)"

definition live_event_markets :: "'a market_book_scheme \<Rightarrow> string \<Rightarrow> string list" where
  "live_event_markets st ev = (case markets_of st ev of None \<Rightarrow> [] | Some mkts \<Rightarrow> mkts)"

definition drop_all :: "string list \<Rightarrow> (string \<rightharpoonup> 'v) \<Rightarrow> (string \<rightharpoonup> 'v)" where
  "drop_all ks m = (\<lambda>k. if k \<in> set ks then None else m k)"

definition delete_price :: "string \<Rightarrow> 'a price_book_scheme \<Rightarrow> 'a price_book_scheme" where
  "delete_price mkt st = st\<lparr>pb_prices := drop_key mkt (pb_prices st)\<rparr>"

definition delete_time :: "string \<Rightarrow> 'a timed_book_scheme \<Rightarrow> 'a timed_book_scheme" where
  "delete_time mkt st = st\<lparr>tb_priceTimes := drop_key mkt (tb_priceTimes st)\<rparr>"

definition drop_markets :: "string \<Rightarrow> 'a market_book_scheme \<Rightarrow> 'a market_book_scheme" where
  "drop_markets ev st = st\<lparr>pb_markets := AList.delete ev (pb_markets st)\<rparr>"

definition drop_event :: "string \<Rightarrow> 'a price_book_scheme \<Rightarrow> 'a price_book_scheme" where
  "drop_event ev st =
     drop_markets ev (st\<lparr>pb_prices := drop_all (live_event_markets st ev) (pb_prices st)\<rparr>)"

definition drop_event_times :: "string \<Rightarrow> 'a timed_book_scheme \<Rightarrow> 'a timed_book_scheme" where
  "drop_event_times ev st =
     drop_event ev (st\<lparr>tb_priceTimes := drop_all (live_event_markets st ev) (tb_priceTimes st)\<rparr>)"

text \<open>\<open>now.Sub(priceTime)\<close>, which saturates; a market without a price has the zero time.\<close>

definition clamp64 :: "int \<Rightarrow> int" where
  "clamp64 d = max int64_min (min int64_max d)"

definition price_age :: "int \<Rightarrow> 'a timed_book_scheme \<Rightarrow> string \<Rightarrow> int" where
  "price_age now st mkt = (case tb_priceTimes st mkt of None \<Rightarrow> int64_max | Some t \<Rightarrow> clamp64 (now - t))"

definition live_priceStaleTTL :: int where "live_priceStaleTTL = 60 * 10 ^ 9"

definition live_UnixMilli :: "int \<Rightarrow> int" where "live_UnixMilli t = t div 10 ^ 6"

text \<open>The lookup of the event of a market iterates over a map.\<close>

definition eventForMarket :: "live_env \<Rightarrow> 'a market_book_scheme \<Rightarrow> string \<Rightarrow> string" where
  "eventForMarket env st mkt =
     (case map fst (filter (\<lambda>(et, mkts). mkt \<in> set mkts) (pb_markets st)) of
        [] \<Rightarrow> []
      | [et] \<Rightarrow> et
      | ets \<Rightarrow> le_pick env ets)"

text \<open>The lookup interface \<open>PriceLookup\<close>; ages are taken from the wall clock.\<close>

definition live_GetPrice :: "'a price_book_scheme \<Rightarrow> string \<Rightarrow> float64" where
  "live_GetPrice st mkt = live_price st mkt"

definition live_GetPriceAge :: "live_env \<Rightarrow> 'a timed_book_scheme \<Rightarrow> string \<Rightarrow> int" where
  "live_GetPriceAge env st mkt =
     (case tb_priceTimes st mkt of None \<Rightarrow> 3600 * 10 ^ 9 | Some t \<Rightarrow> clamp64 (le_clock env 0 - t))"

section \<open>Points and filters\<close>

definition live_setsToWin :: int where "live_setsToWin = 2"
definition live_gamesPerSet :: int where "live_gamesPerSet = 6"
definition live_minEdgeCents :: int where "live_minEdgeCents = 1"
definition live_minMarketPrice :: float64 where "live_minMarketPrice = flit (5 / 100)"

definition live_normalizeScore :: "string \<Rightarrow> string" where
  "live_normalizeScore s = (if s \<in> {''0'', ''15'', ''30'', ''40'', ''A''} then s else [])"

definition live_canWinGame :: "string \<Rightarrow> string \<Rightarrow> int \<Rightarrow> int \<Rightarrow> bool" where
  "live_canWinGame homePts awayPts server player =
     (let h = live_normalizeScore homePts; a = live_normalizeScore awayPts in
      if player = 1 then h = ''A'' \<or> (h = ''40'' \<and> a \<noteq> ''40'' \<and> a \<noteq> ''A'')
      else a = ''A'' \<or> (a = ''40'' \<and> h \<noteq> ''40'' \<and> h \<noteq> ''A''))"

record PointContext =
  pc_SetsHome :: int
  pc_SetsAway :: int
  pc_HomeGames :: int
  pc_AwayGames :: int
  pc_HomePoints :: string
  pc_AwayPoints :: string
  pc_Server :: int
  pc_IsTiebreak :: bool

record PointClassification =
  pcl_IsSetPoint :: bool
  pcl_IsMatchPoint :: bool
  pcl_IsBreakPoint :: bool

definition ClassifyPoint :: "PointContext \<Rightarrow> PointClassification" where
  "ClassifyPoint ctx =
     (let homeCanWinGame = live_canWinGame (pc_HomePoints ctx) (pc_AwayPoints ctx) (pc_Server ctx) 1;
          awayCanWinGame = live_canWinGame (pc_HomePoints ctx) (pc_AwayPoints ctx) (pc_Server ctx) 2;
          brk = (pc_Server ctx = 1 \<and> awayCanWinGame) \<or> (pc_Server ctx = 2 \<and> homeCanWinGame);
          c = \<lparr>pcl_IsSetPoint = False, pcl_IsMatchPoint = False, pcl_IsBreakPoint = brk\<rparr> in
      if pc_IsTiebreak ctx then c
      else
     (let homeNeedsSet = live_setsToWin - pc_SetsHome ctx;
          awayNeedsSet = live_setsToWin - pc_SetsAway ctx in
      if homeNeedsSet \<le> 0 \<or> awayNeedsSet \<le> 0 then c
      else
     (let homeCanWinSet = homeCanWinGame \<and> pc_HomeGames ctx \<ge> live_gamesPerSet - 1 \<and> pc_HomeGames ctx > pc_AwayGames ctx;
          awayCanWinSet = awayCanWinGame \<and> pc_AwayGames ctx \<ge> live_gamesPerSet - 1 \<and> pc_AwayGames ctx > pc_HomeGames ctx in
      if \<not> homeCanWinSet \<and> \<not> awayCanWinSet then c
      else
        c\<lparr>pcl_IsSetPoint := True,
          pcl_IsMatchPoint := (homeCanWinSet \<and> homeNeedsSet = 1) \<or> (awayCanWinSet \<and> awayNeedsSet = 1)\<rparr>)))"

definition seriesMatches :: "string \<Rightarrow> string list \<Rightarrow> bool" where
  "seriesMatches series wanted = (wanted = [] \<or> series \<in> set wanted)"

text \<open>The UTC hour of an instant.\<close>

definition utcHour :: "int \<Rightarrow> int" where
  "utcHour ts = ts div (3600 * 10 ^ 9) mod 24"

definition utcHourMatches :: "int \<Rightarrow> int \<Rightarrow> int \<Rightarrow> bool" where
  "utcHourMatches ts start stop =
     (if start = 0 \<and> stop = 0 then True
      else
        (let h = utcHour ts; e = (if stop = 0 then 24 else stop) in
         if start \<le> e then h \<ge> start \<and> h < e else h \<ge> start \<or> h < e))"

definition live_sideName :: "int \<Rightarrow> string" where
  "live_sideName player = (if player = 1 then ''home'' else ''away'')"

text \<open>\<open>fmt.Sprintf\<close> with \<open>%.0f\<close> and \<open>%.1f\<close>.\<close>

fun format0f :: "float64 \<Rightarrow> string" where
  "format0f (Fin x) = (if x < 0 then ''-'' else []) @ show_nat (nat \<bar>round_half_even x\<bar>)"
| "format0f PInf = ''+Inf''"
| "format0f NInf = ''-Inf''"
| "format0f NaN = ''NaN''"

fun format1f :: "float64 \<Rightarrow> string" where
  "format1f (Fin x) =
     (let n = nat \<bar>round_half_even (x * 10)\<bar> in
      (if x < 0 then ''-'' else []) @ show_nat (n div 10) @ ''.'' @ [digit_char (n mod 10)])"
| "format1f PInf = ''+Inf''"
| "format1f NInf = ''-Inf''"
| "format1f NaN = ''NaN''"

section \<open>Orders\<close>

definition kellySized :: "live_env \<Rightarrow> float64 \<Rightarrow> float64 \<Rightarrow> float64" where
  "kellySized env convProb marketPrice = kellySize convProb marketPrice (le_bankroll env) (le_kelly env)"

text \<open>The zero order, and the fields every signal fills.\<close>

definition no_order :: Order where
  "no_order = \<lparr>or_ID = 0, or_TS = 0, or_MatchTicker = [], or_MarketTicker = [], or_MatchTitle = [], or_PlayerName = [],
     or_Action = [], or_Side = [], or_Context = [], or_ConvProb = Fin 0, or_MarketPrice = Fin 0, or_FillPrice = Fin 0,
     or_EdgeCents = 0, or_SuggestedSize = Fin 0, or_SetNumber = 0, or_Strategy = [], or_Payload = [], or_Bankroll = Fin 0,
     or_KellyFraction = Fin 0, or_IsReal = False, or_KalshiOrderID = [], or_FillCount = Fin 0, or_OrderStatus = [],
     or_ResolvedPNLCents = 0, or_PoolBalanceBeforeCents = 0, or_PoolBalanceAfterCents = 0, or_UnfilledRefundedCents = 0,
     or_PositionID = None, or_PairID = [], or_Result = [], or_SettledTS = 0, or_PnLUpdatedTS = 0, or_EmitTS = 0\<rparr>"

definition signal_order ::
  "live_env \<Rightarrow> int \<Rightarrow> string \<Rightarrow> string \<Rightarrow> string \<Rightarrow> string \<Rightarrow> float64 \<Rightarrow> float64 \<Rightarrow> int \<Rightarrow> float64 \<Rightarrow> string \<Rightarrow> Order" where
  "signal_order env ts ev mkt action ctx prob price edge sz label =
     no_order\<lparr>or_TS := ts, or_MatchTicker := ev, or_MarketTicker := mkt, or_Action := action, or_Context := ctx,
       or_ConvProb := prob, or_MarketPrice := price, or_EdgeCents := edge, or_SuggestedSize := sz,
       or_Bankroll := le_bankroll env, or_KellyFraction := le_kelly env, or_Strategy := label\<rparr>"

text \<open>\<open>int((convProb - price) * 100 + 1e-9)\<close> and the same without the allowance.\<close>

definition edge_cents :: "float64 \<Rightarrow> float64 \<Rightarrow> int" where
  "edge_cents prob price = to_int64 (fadd (fmul (fsub prob price) (Fin 100)) (flit (1 / 10 ^ 9)))"

definition plain_edge :: "float64 \<Rightarrow> float64 \<Rightarrow> int" where
  "plain_edge prob price = to_int64 (fmul (fsub prob price) (Fin 100))"

text \<open>
  The price a model finds fair for the home player. The strategies share the caches of their models, which are
  invisible (\<open>LiveMarkov\<close>), so each valuation is that of a fresh model.
\<close>

definition live_fair_value :: "float64 \<Rightarrow> int \<Rightarrow> int \<Rightarrow> 'a Point_scheme \<Rightarrow> float64" where
  "live_fair_value pServe setsHome setsAway p =
     fst (live_FairValue setsHome setsAway (pt_HomeGames p) (pt_AwayGames p) (pt_HomePoints p) (pt_AwayPoints p)
       (pt_Server p) (pt_IsTiebreak p) (NewMarkovModelWithProb pServe))"

text \<open>\<open>fmt.Sprintf("%d:%d:%d", set, game, point)\<close>, the key under which a point is seen.\<close>

definition live_pointKey :: "'a Point_scheme \<Rightarrow> string" where
  "live_pointKey p = show_int (pt_SetNumber p) @ '':'' @ show_int (pt_GameNumber p) @ '':'' @ show_int (pt_PointNumber p)"

end
