(* ===== verification/LiveA.thy ===== *)
theory LiveA
  imports LiveCore
begin

text \<open>
  Strategies of the first version, part one: what several of them share, match points (\<open>matchpoint.go\<close>)
  and advantage out (\<open>adout.go\<close>).
\<close>

section \<open>Shared steps\<close>

text \<open>Lookups in maps with a zero value.\<close>

definition num_of :: "(string \<rightharpoonup> float64) \<Rightarrow> string \<Rightarrow> float64" where
  "num_of m k = (case m k of None \<Rightarrow> Fin 0 | Some x \<Rightarrow> x)"

text \<open>A running maximum: \<open>if price > max[mkt]\<close>.\<close>

definition raise_peak :: "string \<Rightarrow> float64 \<Rightarrow> (string \<rightharpoonup> float64) \<Rightarrow> (string \<rightharpoonup> float64)" where
  "raise_peak mkt p m = (if flt (num_of m mkt) p then m(mkt \<mapsto> p) else m)"

text \<open>The market of the home or the away player; indexing past the end panics.\<close>

definition market_at :: "string list \<Rightarrow> bool \<Rightarrow> string option" where
  "market_at mkts away =
     (if mkts = [] then None else if away then (if length mkts < 2 then None else Some (mkts ! 1)) else Some (mkts ! 0))"

text \<open>The sets won so far, from the games of the last point of each set.\<close>

record live_matchState =
  lms_setsHome :: int
  lms_setsAway :: int
  lms_lastSetNum :: int
  lms_lastHomeGames :: int
  lms_lastAwayGames :: int
  lms_lastScorer :: int

definition new_matchState :: live_matchState where
  "new_matchState = \<lparr>lms_setsHome = 0, lms_setsAway = 0, lms_lastSetNum = 0, lms_lastHomeGames = 0, lms_lastAwayGames = 0,
     lms_lastScorer = 0\<rparr>"

definition count_sets :: "'a Point_scheme \<Rightarrow> 'b live_matchState_scheme \<Rightarrow> 'b live_matchState_scheme" where
  "count_sets p ms =
     (if pt_SetNumber p > lms_lastSetNum ms \<and> lms_lastSetNum ms > 0
      then
        (if lms_lastHomeGames ms > lms_lastAwayGames ms then ms\<lparr>lms_setsHome := lms_setsHome ms + 1\<rparr>
         else if lms_lastAwayGames ms > lms_lastHomeGames ms then ms\<lparr>lms_setsAway := lms_setsAway ms + 1\<rparr>
         else if lms_lastScorer ms \<noteq> 0
         then (if lms_lastScorer ms = 1 then ms\<lparr>lms_setsHome := lms_setsHome ms + 1\<rparr>
               else ms\<lparr>lms_setsAway := lms_setsAway ms + 1\<rparr>)
         else ms)
      else ms)"

definition track_sets :: "'a Point_scheme \<Rightarrow> 'b live_matchState_scheme \<Rightarrow> 'b live_matchState_scheme" where
  "track_sets p ms =
     (count_sets p ms)\<lparr>lms_lastSetNum := pt_SetNumber p, lms_lastHomeGames := pt_HomeGames p,
        lms_lastAwayGames := pt_AwayGames p, lms_lastScorer := pt_Scorer p\<rparr>"

section \<open>Match points\<close>

record MatchPointStrategy = timed_book +
  mp_matchStates :: "string \<rightharpoonup> live_matchState"
  mp_seenPoints :: "string \<Rightarrow> string set"

definition serveConvProb :: float64 where "serveConvProb = flit (97 / 100)"

definition NewMatchPointStrategy :: MatchPointStrategy where
  "NewMatchPointStrategy = \<lparr>pb_markets = [], pb_replayNow = None, pb_prices = Map.empty, tb_priceTimes = Map.empty,
     mp_matchStates = Map.empty, mp_seenPoints = (\<lambda>_. {})\<rparr>"

definition MatchPoint_RegisterMarkets :: "string \<Rightarrow> string list \<Rightarrow> MatchPointStrategy \<Rightarrow> MatchPointStrategy" where
  "MatchPoint_RegisterMarkets ev mkts st = add_markets ev mkts st"

definition MatchPoint_UnregisterMarkets :: "string \<Rightarrow> MatchPointStrategy \<Rightarrow> MatchPointStrategy" where
  "MatchPoint_UnregisterMarkets ev st =
     (drop_event_times ev st)\<lparr>mp_matchStates := drop_key ev (mp_matchStates st),
        mp_seenPoints := (mp_seenPoints st)(ev := {})\<rparr>"

definition MatchPoint_OnPriceAt :: "string \<Rightarrow> float64 \<Rightarrow> int \<Rightarrow> MatchPointStrategy \<Rightarrow> MatchPointStrategy" where
  "MatchPoint_OnPriceAt mkt p ts st = set_time mkt ts (set_price mkt p st)"

definition MatchPoint_OnPrice :: "live_env \<Rightarrow> string \<Rightarrow> float64 \<Rightarrow> MatchPointStrategy \<Rightarrow> MatchPointStrategy" where
  "MatchPoint_OnPrice env mkt p st = set_time mkt (live_now env 0 st) (set_price mkt p st)"

definition MatchPoint_DeletePrice :: "string \<Rightarrow> MatchPointStrategy \<Rightarrow> MatchPointStrategy" where
  "MatchPoint_DeletePrice mkt st = delete_time mkt (delete_price mkt st)"

definition live_MatchPoint_updateMatchState :: "string \<Rightarrow> 'a Point_scheme \<Rightarrow> MatchPointStrategy \<Rightarrow> MatchPointStrategy" where
  "live_MatchPoint_updateMatchState ev p st =
     (let ms = (case mp_matchStates st ev of None \<Rightarrow> new_matchState | Some ms \<Rightarrow> ms) in
      st\<lparr>mp_matchStates := (mp_matchStates st)(ev \<mapsto> track_sets p ms)\<rparr>)"

text \<open>Who can win the match with this point: 1 home, 2 away, with the context of the order.\<close>

definition live_detectMatchPoint :: "string \<Rightarrow> 'a Point_scheme \<Rightarrow> MatchPointStrategy \<Rightarrow> (int \<times> string) option" where
  "live_detectMatchPoint ev p st =
     (let (setsHome, setsAway) = (case mp_matchStates st ev of None \<Rightarrow> (0, 0) | Some ms \<Rightarrow> (lms_setsHome ms, lms_setsAway ms));
          homeNeedsSet = live_setsToWin - setsHome;
          awayNeedsSet = live_setsToWin - setsAway in
      if homeNeedsSet \<le> 0 \<or> awayNeedsSet \<le> 0 then None
      else if pt_IsTiebreak p then None
      else
     (let homeCanWinGame = live_canWinGame (pt_HomePoints p) (pt_AwayPoints p) (pt_Server p) 1;
          awayCanWinGame = live_canWinGame (pt_HomePoints p) (pt_AwayPoints p) (pt_Server p) 2;
          homeMatchPoint = homeNeedsSet = 1 \<and> homeCanWinGame \<and> pt_HomeGames p \<ge> live_gamesPerSet - 1 \<and> pt_HomeGames p > pt_AwayGames p;
          awayMatchPoint = awayNeedsSet = 1 \<and> awayCanWinGame \<and> pt_AwayGames p \<ge> live_gamesPerSet - 1 \<and> pt_AwayGames p > pt_HomeGames p in
      if \<not> homeMatchPoint \<and> \<not> awayMatchPoint then None
      else if homeMatchPoint then Some (1, ''home_match_point'') else Some (2, ''away_match_point'')))"

definition MatchPoint_order :: "live_env \<Rightarrow> string \<Rightarrow> 'a Point_scheme \<Rightarrow> string \<Rightarrow> string \<Rightarrow> float64 \<Rightarrow> int \<Rightarrow> int \<Rightarrow> Order" where
  "MatchPoint_order env ev p mkt ctx price edge ts =
     (signal_order env (live_UnixMilli ts) ev mkt ''buy'' ctx serveConvProb price edge (kellySized env serveConvProb price) ''matchpoint'')
        \<lparr>or_SetNumber := pt_SetNumber p,
         or_Payload := le_marshal env
           [(''home_games'', JInt (pt_HomeGames p)), (''away_games'', JInt (pt_AwayGames p)),
            (''home_points'', JString (pt_HomePoints p)), (''away_points'', JString (pt_AwayPoints p)),
            (''server'', JInt (pt_Server p)), (''scorer'', JInt (pt_Scorer p)), (''set'', JInt (pt_SetNumber p)),
            (''game'', JInt (pt_GameNumber p)), (''serving'', JBool True)]\<rparr>"

definition MatchPoint_processPoint :: "live_env \<Rightarrow> string \<Rightarrow> 'a Point_scheme \<Rightarrow> MatchPointStrategy \<Rightarrow> MatchPointStrategy act" where
  "MatchPoint_processPoint env ev p st0 =
     (if live_pointKey p \<in> mp_seenPoints st0 ev then Return st0
      else
     (let st = st0\<lparr>mp_seenPoints := (mp_seenPoints st0)(ev := insert (live_pointKey p) (mp_seenPoints st0 ev))\<rparr> in
      case live_detectMatchPoint ev p st of
        None \<Rightarrow> Return st
      | Some (winner, ctx) \<Rightarrow>
          (if \<not> (winner = 1 \<and> pt_Server p = 1 \<or> winner = 2 \<and> pt_Server p = 2) then Return st
           else
             (case markets_of st ev of
                None \<Rightarrow> Return st
              | Some mkts \<Rightarrow>
                  (if length mkts < 2 then Return st
                   else
                     (let mkt = (if winner = 1 then mkts ! 0 else mkts ! 1);
                          price = live_price st mkt;
                          edge = edge_cents serveConvProb price in
                      if fle0 price \<or> flt price live_minMarketPrice then Return st
                      else if price_age (live_now env 0 st) st mkt > live_priceStaleTTL then Return st
                      else if edge < live_minEdgeCents then Return st
                      else Emit (MatchPoint_order env ev p mkt ctx price edge (live_now env 1 st)) (\<lambda>_. Return st)))))))"

definition MatchPoint_OnPoint :: "live_env \<Rightarrow> string \<Rightarrow> 'a Point_scheme \<Rightarrow> MatchPointStrategy \<Rightarrow> MatchPointStrategy act" where
  "MatchPoint_OnPoint env ev p st = MatchPoint_processPoint env ev p (live_MatchPoint_updateMatchState ev p st)"

section \<open>Advantage out\<close>

record adOutPos =
  ap_MarketTicker :: string
  ap_BuyPrice :: float64
  ap_BuySize :: float64
  ap_BuyPointTS :: int
  ap_BuySetNum :: int
  ap_BuyGameNum :: int

record AdOutConfig =
  aoc_MinMarketPrice :: float64
  aoc_MaxMarketPrice :: float64
  aoc_MinEdgeCents :: int
  aoc_Label :: string

record AdOutStrategy = timed_book +
  lao_open :: "string \<rightharpoonup> adOutPos"
  ao_cfg :: AdOutConfig

definition DefaultAdOutConfig :: AdOutConfig where
  "DefaultAdOutConfig = \<lparr>aoc_MinMarketPrice = flit (5 / 100), aoc_MaxMarketPrice = flit (85 / 100), aoc_MinEdgeCents = 3,
     aoc_Label = ''adout''\<rparr>"

definition adOutConvProb :: float64 where "adOutConvProb = flit (82 / 100)"

definition NewAdOutStrategy :: "AdOutConfig \<Rightarrow> AdOutStrategy" where
  "NewAdOutStrategy cfg = \<lparr>pb_markets = [], pb_replayNow = None, pb_prices = Map.empty, tb_priceTimes = Map.empty,
     lao_open = Map.empty, ao_cfg = cfg\<rparr>"

definition AdOut_OnPrice :: "live_env \<Rightarrow> string \<Rightarrow> float64 \<Rightarrow> AdOutStrategy \<Rightarrow> AdOutStrategy" where
  "AdOut_OnPrice env mkt p st = set_time mkt (live_now env 0 st) (set_price mkt p st)"

definition AdOut_OnPriceAt :: "string \<Rightarrow> float64 \<Rightarrow> int \<Rightarrow> AdOutStrategy \<Rightarrow> AdOutStrategy" where
  "AdOut_OnPriceAt mkt p ts st = set_time mkt ts (set_price mkt p st)"

definition AdOut_RegisterMarkets :: "string \<Rightarrow> string list \<Rightarrow> AdOutStrategy \<Rightarrow> AdOutStrategy" where
  "AdOut_RegisterMarkets ev mkts st = add_markets ev mkts st"

definition AdOut_UnregisterMarkets :: "string \<Rightarrow> AdOutStrategy \<Rightarrow> AdOutStrategy" where
  "AdOut_UnregisterMarkets ev st = (drop_event_times ev st)\<lparr>lao_open := drop_key ev (lao_open st)\<rparr>"

definition AdOut_DeletePrice :: "string \<Rightarrow> AdOutStrategy \<Rightarrow> AdOutStrategy" where
  "AdOut_DeletePrice mkt st = delete_time mkt (delete_price mkt st)"

definition AdOut_sell_order :: "live_env \<Rightarrow> string \<Rightarrow> 'a Point_scheme \<Rightarrow> adOutPos \<Rightarrow> float64 \<Rightarrow> string \<Rightarrow> Order" where
  "AdOut_sell_order env ev p pos price label =
     (signal_order env 0 ev (ap_MarketTicker pos) ''sell''
        (''adout_sell_set'' @ show_int (pt_SetNumber p) @ ''_game'' @ show_int (pt_GameNumber p))
        adOutConvProb price (plain_edge price (ap_BuyPrice pos)) (clamp_count (ap_BuySize pos)) label)
        \<lparr>or_Side := OrderSideClose, or_SetNumber := pt_SetNumber p\<rparr>"

definition AdOut_maybeSell :: "live_env \<Rightarrow> string \<Rightarrow> 'a Point_scheme \<Rightarrow> AdOutStrategy \<Rightarrow> AdOutStrategy act" where
  "AdOut_maybeSell env ev p st0 =
     (case lao_open st0 ev of
        None \<Rightarrow> Return st0
      | Some pos \<Rightarrow>
          (if pt_TS p = ap_BuyPointTS pos \<and> pt_SetNumber p = ap_BuySetNum pos \<and> pt_GameNumber p = ap_BuyGameNum pos
           then Return st0
           else
             (let st = st0\<lparr>lao_open := drop_key ev (lao_open st0)\<rparr>;
                  price = live_price st (ap_MarketTicker pos) in
              if fle0 price \<or> price_age (live_now env 0 st) st (ap_MarketTicker pos) > live_priceStaleTTL then Return st
              else Emit (AdOut_sell_order env ev p pos price (aoc_Label (ao_cfg st))) (\<lambda>_. Return st))))"

definition adOut_returner :: "'a Point_scheme \<Rightarrow> int option" where
  "adOut_returner p =
     (if pt_Server p = 1 \<and> pt_AwayPoints p = ''A'' then Some 2
      else if pt_Server p = 2 \<and> pt_HomePoints p = ''A'' then Some 1
      else None)"

definition AdOut_buy_order :: "live_env \<Rightarrow> string \<Rightarrow> 'a Point_scheme \<Rightarrow> string \<Rightarrow> float64 \<Rightarrow> int \<Rightarrow> float64 \<Rightarrow> string \<Rightarrow> Order" where
  "AdOut_buy_order env ev p mkt price edge sz label =
     (signal_order env 0 ev mkt ''buy''
        (''adout_buy_set'' @ show_int (pt_SetNumber p) @ ''_game'' @ show_int (pt_GameNumber p) @ ''_pt'' @ show_int (pt_PointNumber p))
        adOutConvProb price edge sz label)
        \<lparr>or_Side := OrderSideOpen, or_SetNumber := pt_SetNumber p\<rparr>"

definition AdOut_maybeBuy :: "live_env \<Rightarrow> string \<Rightarrow> 'a Point_scheme \<Rightarrow> AdOutStrategy \<Rightarrow> AdOutStrategy act" where
  "AdOut_maybeBuy env ev p st =
     (if pt_IsTiebreak p then Return st
      else
        (case adOut_returner p of
           None \<Rightarrow> Return st
         | Some returner \<Rightarrow>
             (if lao_open st ev \<noteq> None then Return st
              else
                (case markets_of st ev of
                   None \<Rightarrow> Return st
                 | Some mkts \<Rightarrow>
                     (if length mkts < 2 then Return st
                      else
                        (let mkt = mkts ! nat (returner - 1);
                             price = live_price st mkt;
                             edge = plain_edge adOutConvProb price;
                             cfg = ao_cfg st;
                             sz = kellySized env adOutConvProb price in
                         if fle0 price \<or> price_age (live_now env 1 st) st mkt > live_priceStaleTTL then Return st
                         else if edge < aoc_MinEdgeCents cfg then Return st
                         else if flt price (aoc_MinMarketPrice cfg) then Return st
                         else if fpos (aoc_MaxMarketPrice cfg) \<and> flt (aoc_MaxMarketPrice cfg) price then Return st
                         else
                           Emit (AdOut_buy_order env ev p mkt price edge sz (aoc_Label cfg))
                             (\<lambda>_. Return (st\<lparr>lao_open := (lao_open st)(ev \<mapsto>
                                \<lparr>ap_MarketTicker = mkt, ap_BuyPrice = price, ap_BuySize = sz, ap_BuyPointTS = pt_TS p,
                                 ap_BuySetNum = pt_SetNumber p, ap_BuyGameNum = pt_GameNumber p\<rparr>)\<rparr>))))))))"

definition AdOut_OnPoint :: "live_env \<Rightarrow> string \<Rightarrow> 'a Point_scheme \<Rightarrow> AdOutStrategy \<Rightarrow> AdOutStrategy act" where
  "AdOut_OnPoint env ev p st = bind_act (AdOut_maybeSell env ev p st) (AdOut_maybeBuy env ev p)"

end
