(* ===== verification/LiveB.thy ===== *)
theory LiveB
  imports LiveA
begin

text \<open>
  Strategies of the first version, part two: set points (\<open>setpoint.go\<close>), break back (\<open>breakback.go\<close>) and
  break points (\<open>breakpoint.go\<close>).
\<close>

section \<open>Set points\<close>

record SetPointConfig =
  spc_IncludeSetPoints :: bool
  spc_IncludeReturning :: bool
  spc_PServe :: float64
  spc_MaxMarketPrice :: float64
  spc_MinMarketPrice :: float64
  spc_MinEdgeCents :: int
  spc_CooldownPoints :: int
  spc_Label :: string
  spc_MaxSetNumber :: int
  spc_MinSetNumber :: int
  spc_IncludeServing :: bool
  spc_SeriesFilter :: "string list"
  spc_UTCHourStart :: int
  spc_UTCHourEnd :: int

definition DefaultSetPointConfig :: SetPointConfig where
  "DefaultSetPointConfig = \<lparr>spc_IncludeSetPoints = True, spc_IncludeReturning = True, spc_PServe = flit (64 / 100),
     spc_MaxMarketPrice = Fin 0, spc_MinMarketPrice = flit (5 / 100), spc_MinEdgeCents = 5, spc_CooldownPoints = 3,
     spc_Label = ''setpoint'', spc_MaxSetNumber = 0, spc_MinSetNumber = 0, spc_IncludeServing = True,
     spc_SeriesFilter = [], spc_UTCHourStart = 0, spc_UTCHourEnd = 0\<rparr>"

record spMatchState = live_matchState +
  sp_pointsSinceFire :: int

record SetPointStrategy = timed_book +
  sp_matchStates :: "string \<rightharpoonup> spMatchState"
  sp_seenPoints :: "string \<Rightarrow> string set"
  sp_series :: "string \<rightharpoonup> string"
  sp_hasDB :: bool
  sp_model :: float64
  sp_cfg :: SetPointConfig

definition new_spMatchState :: spMatchState where
  "new_spMatchState = \<lparr>lms_setsHome = 0, lms_setsAway = 0, lms_lastSetNum = 0, lms_lastHomeGames = 0, lms_lastAwayGames = 0,
     lms_lastScorer = 0, sp_pointsSinceFire = 0\<rparr>"

definition NewSetPointStrategy :: "SetPointConfig \<Rightarrow> SetPointStrategy" where
  "NewSetPointStrategy cfg = \<lparr>pb_markets = [], pb_replayNow = None, pb_prices = Map.empty, tb_priceTimes = Map.empty,
     sp_matchStates = Map.empty, sp_seenPoints = (\<lambda>_. {}), sp_series = Map.empty, sp_hasDB = False,
     sp_model = spc_PServe cfg, sp_cfg = cfg\<rparr>"

definition NewSetPointStrategyWithDB :: "SetPointConfig \<Rightarrow> SetPointStrategy" where
  "NewSetPointStrategyWithDB cfg = (NewSetPointStrategy cfg)\<lparr>sp_hasDB := True\<rparr>"

definition SetPoint_SetSharedMarkovModel :: "float64 \<Rightarrow> SetPointStrategy \<Rightarrow> SetPointStrategy" where
  "SetPoint_SetSharedMarkovModel m st = st\<lparr>sp_model := m\<rparr>"

definition SetPoint_SetSeriesTicker :: "string \<Rightarrow> string \<Rightarrow> SetPointStrategy \<Rightarrow> SetPointStrategy" where
  "SetPoint_SetSeriesTicker ev series st = st\<lparr>sp_series := (sp_series st)(ev \<mapsto> series)\<rparr>"

text \<open>\<open>db.GetSeriesTicker\<close> is an input: \<open>None\<close> when the query fails.\<close>

definition SetPoint_loadSeriesTicker :: "(string \<rightharpoonup> string) \<Rightarrow> string \<Rightarrow> SetPointStrategy \<Rightarrow> SetPointStrategy" where
  "SetPoint_loadSeriesTicker db ev st =
     (case db ev of None \<Rightarrow> st | Some series \<Rightarrow> if series = [] then st else SetPoint_SetSeriesTicker ev series st)"

definition SetPoint_RegisterMarkets :: "(string \<rightharpoonup> string) \<Rightarrow> string \<Rightarrow> string list \<Rightarrow> SetPointStrategy \<Rightarrow> SetPointStrategy" where
  "SetPoint_RegisterMarkets db ev mkts st =
     (let st1 = add_markets ev mkts st;
          st2 = (if sp_matchStates st1 ev = None then st1\<lparr>sp_matchStates := (sp_matchStates st1)(ev \<mapsto> new_spMatchState)\<rparr> else st1) in
      if sp_hasDB st2 then SetPoint_loadSeriesTicker db ev st2 else st2)"

definition SetPoint_UnregisterMarkets :: "string \<Rightarrow> SetPointStrategy \<Rightarrow> SetPointStrategy" where
  "SetPoint_UnregisterMarkets ev st =
     (drop_event_times ev st)\<lparr>sp_matchStates := drop_key ev (sp_matchStates st),
        sp_seenPoints := (sp_seenPoints st)(ev := {}), sp_series := drop_key ev (sp_series st)\<rparr>"

definition SetPoint_OnPrice :: "live_env \<Rightarrow> string \<Rightarrow> float64 \<Rightarrow> SetPointStrategy \<Rightarrow> SetPointStrategy" where
  "SetPoint_OnPrice env mkt p st = set_time mkt (live_now env 0 st) (set_price mkt p st)"

definition SetPoint_OnPriceAt :: "string \<Rightarrow> float64 \<Rightarrow> int \<Rightarrow> SetPointStrategy \<Rightarrow> SetPointStrategy" where
  "SetPoint_OnPriceAt mkt p ts st = set_time mkt ts (set_price mkt p st)"

definition SetPoint_DeletePrice :: "string \<Rightarrow> SetPointStrategy \<Rightarrow> SetPointStrategy" where
  "SetPoint_DeletePrice mkt st = delete_time mkt (delete_price mkt st)"

definition live_SetPoint_updateMatchState :: "string \<Rightarrow> 'a Point_scheme \<Rightarrow> SetPointStrategy \<Rightarrow> SetPointStrategy" where
  "live_SetPoint_updateMatchState ev p st =
     (let ms = track_sets p (case sp_matchStates st ev of None \<Rightarrow> new_spMatchState | Some ms \<Rightarrow> ms) in
      st\<lparr>sp_matchStates := (sp_matchStates st)(ev \<mapsto> ms\<lparr>sp_pointsSinceFire := sp_pointsSinceFire ms + 1\<rparr>)\<rparr>)"

record live_setPointSignal =
  sig_winner :: int
  sig_context :: string
  sig_isMatchPoint :: bool

text \<open>The signal for a side that can win the set, from who can and for whom it is a match point.\<close>

definition set_signal :: "string \<Rightarrow> bool \<Rightarrow> bool \<Rightarrow> bool \<Rightarrow> bool \<Rightarrow> bool \<Rightarrow> live_setPointSignal option" where
  "set_signal tb includeSetPoints homeCanWinSet awayCanWinSet homeOne awayOne =
     (if \<not> homeCanWinSet \<and> \<not> awayCanWinSet then None
      else
     (let homeIsMP = homeCanWinSet \<and> homeOne; awayIsMP = awayCanWinSet \<and> awayOne in
      if \<not> includeSetPoints \<and> \<not> homeIsMP \<and> \<not> awayIsMP then None
      else
        Some \<lparr>sig_winner = (if homeCanWinSet then 1 else 2),
          sig_context =
            (if homeIsMP then ''home_'' @ tb @ ''match_point''
             else if awayIsMP then ''away_'' @ tb @ ''match_point''
             else if homeCanWinSet then ''home_'' @ tb @ ''set_point''
             else ''away_'' @ tb @ ''set_point''),
          sig_isMatchPoint = (homeIsMP \<or> awayIsMP)\<rparr>))"

definition live_detectSetPoint :: "string \<Rightarrow> 'a Point_scheme \<Rightarrow> SetPointStrategy \<Rightarrow> live_setPointSignal option" where
  "live_detectSetPoint ev p st =
     (let (setsHome, setsAway) = (case sp_matchStates st ev of None \<Rightarrow> (0, 0) | Some ms \<Rightarrow> (lms_setsHome ms, lms_setsAway ms));
          homeNeedsSet = live_setsToWin - setsHome;
          awayNeedsSet = live_setsToWin - setsAway in
      if homeNeedsSet \<le> 0 \<or> awayNeedsSet \<le> 0 then None
      else if pt_IsTiebreak p
      then
        (let h = tbPointValue (pt_HomePoints p); a = tbPointValue (pt_AwayPoints p) in
         set_signal ''tb_'' (spc_IncludeSetPoints (sp_cfg st)) (h \<ge> 6 \<and> h - a \<ge> 1) (a \<ge> 6 \<and> a - h \<ge> 1)
           (homeNeedsSet = 1) (awayNeedsSet = 1))
      else
        (let homeCanWinGame = live_canWinGame (pt_HomePoints p) (pt_AwayPoints p) (pt_Server p) 1;
             awayCanWinGame = live_canWinGame (pt_HomePoints p) (pt_AwayPoints p) (pt_Server p) 2 in
         set_signal [] (spc_IncludeSetPoints (sp_cfg st))
           (homeCanWinGame \<and> pt_HomeGames p \<ge> live_gamesPerSet - 1 \<and> pt_HomeGames p > pt_AwayGames p)
           (awayCanWinGame \<and> pt_AwayGames p \<ge> live_gamesPerSet - 1 \<and> pt_AwayGames p > pt_HomeGames p)
           (homeNeedsSet = 1) (awayNeedsSet = 1)))"

text \<open>The filters between a signal and the market: sets, series, hour, who serves.\<close>

definition SetPoint_wanted :: "live_env \<Rightarrow> string \<Rightarrow> 'a Point_scheme \<Rightarrow> live_setPointSignal \<Rightarrow> bool \<Rightarrow> SetPointStrategy \<Rightarrow> bool" where
  "SetPoint_wanted env ev p sp isServing st =
     (let cfg = sp_cfg st in
      \<not> (spc_MaxSetNumber cfg > 0 \<and> pt_SetNumber p > spc_MaxSetNumber cfg) \<and>
      \<not> (spc_MinSetNumber cfg > 0 \<and> pt_SetNumber p < spc_MinSetNumber cfg) \<and>
      seriesMatches (case sp_series st ev of None \<Rightarrow> [] | Some s \<Rightarrow> s) (spc_SeriesFilter cfg) \<and>
      utcHourMatches (live_now env 0 st) (spc_UTCHourStart cfg) (spc_UTCHourEnd cfg) \<and>
      \<not> (\<not> isServing \<and> \<not> spc_IncludeReturning cfg) \<and>
      \<not> (isServing \<and> \<not> spc_IncludeServing cfg))"

definition SetPoint_order ::
  "live_env \<Rightarrow> string \<Rightarrow> 'a Point_scheme \<Rightarrow> live_setPointSignal \<Rightarrow> bool \<Rightarrow> spMatchState \<Rightarrow> float64 \<Rightarrow> float64 \<Rightarrow> string \<Rightarrow> float64 \<Rightarrow> int \<Rightarrow> int \<Rightarrow> string \<Rightarrow> Order" where
  "SetPoint_order env ev p sp isServing ms homeFV convProb mkt price edge ts label =
     (signal_order env (live_UnixMilli ts) ev mkt ''buy'' (sig_context sp) convProb price edge (kellySized env convProb price) label)
        \<lparr>or_SetNumber := pt_SetNumber p,
         or_Payload := le_marshal env
           [(''home_games'', JInt (pt_HomeGames p)), (''away_games'', JInt (pt_AwayGames p)),
            (''home_points'', JString (pt_HomePoints p)), (''away_points'', JString (pt_AwayPoints p)),
            (''server'', JInt (pt_Server p)), (''scorer'', JInt (pt_Scorer p)), (''set'', JInt (pt_SetNumber p)),
            (''game'', JInt (pt_GameNumber p)), (''serving'', JBool isServing), (''is_mp'', JBool (sig_isMatchPoint sp)),
            (''is_tiebreak'', JBool (pt_IsTiebreak p)), (''markov_fv'', JFloat homeFV),
            (''sets_home'', JInt (lms_setsHome ms)), (''sets_away'', JInt (lms_setsAway ms))]\<rparr>"

definition SetPoint_processPoint :: "live_env \<Rightarrow> string \<Rightarrow> 'a Point_scheme \<Rightarrow> SetPointStrategy \<Rightarrow> SetPointStrategy act" where
  "SetPoint_processPoint env ev p st0 =
     (if live_pointKey p \<in> sp_seenPoints st0 ev then Return st0
      else
     (let st = st0\<lparr>sp_seenPoints := (sp_seenPoints st0)(ev := insert (live_pointKey p) (sp_seenPoints st0 ev))\<rparr>; cfg = sp_cfg st in
      case live_detectSetPoint ev p st of
        None \<Rightarrow> Return st
      | Some sp \<Rightarrow>
     (let isServing = (sig_winner sp = 1 \<and> pt_Server p = 1 \<or> sig_winner sp = 2 \<and> pt_Server p = 2) in
      if \<not> SetPoint_wanted env ev p sp isServing st then Return st
      else
     (case sp_matchStates st ev of
        None \<Rightarrow> Return st
      | Some ms \<Rightarrow>
     (if sp_pointsSinceFire ms < spc_CooldownPoints cfg then Return st
      else
     (case markets_of st ev of
        None \<Rightarrow> Return st
      | Some mkts \<Rightarrow>
     (if length mkts < 2 then Return st
      else
     (let mkt = (if sig_winner sp = 1 then mkts ! 0 else mkts ! 1);
          homeFV = live_fair_value (sp_model st) (lms_setsHome ms) (lms_setsAway ms) p;
          convProb = (if sig_winner sp = 1 then homeFV else fsub (Fin 1) homeFV);
          price = live_price st mkt;
          edge = edge_cents convProb price in
      if fle0 price \<or> flt price (spc_MinMarketPrice cfg) then Return st
      else if fpos (spc_MaxMarketPrice cfg) \<and> flt (spc_MaxMarketPrice cfg) price then Return st
      else if price_age (live_now env 1 st) st mkt > live_priceStaleTTL then Return st
      else if edge < spc_MinEdgeCents cfg then Return st
      else
        Emit (SetPoint_order env ev p sp isServing ms homeFV convProb mkt price edge (live_now env 2 st) (spc_Label cfg))
          (\<lambda>ok. Return (if ok then st\<lparr>sp_matchStates := (sp_matchStates st)(ev \<mapsto> ms\<lparr>sp_pointsSinceFire := 0\<rparr>)\<rparr> else st))))))))))"

definition SetPoint_OnPoint :: "live_env \<Rightarrow> string \<Rightarrow> 'a Point_scheme \<Rightarrow> SetPointStrategy \<Rightarrow> SetPointStrategy act" where
  "SetPoint_OnPoint env ev p st = SetPoint_processPoint env ev p (live_SetPoint_updateMatchState ev p st)"

section \<open>Break back\<close>

record BreakBackConfig =
  bbc_MinDropPercent :: float64
  bbc_MinPeakPrice :: float64
  bbc_MaxEntryPrice :: float64
  bbc_ConvProb :: float64
  bbc_BaseSize :: float64
  bbc_Label :: string

record BreakBackStrategy = timed_book +
  bb_maxPrices :: "string \<rightharpoonup> float64"
  bb_fired :: "string \<Rightarrow> bool"
  bb_cfg :: BreakBackConfig

definition DefaultBreakBackConfig :: BreakBackConfig where
  "DefaultBreakBackConfig = \<lparr>bbc_MinDropPercent = flit (15 / 100), bbc_MinPeakPrice = flit (30 / 100),
     bbc_MaxEntryPrice = flit (55 / 100), bbc_ConvProb = flit (55 / 100), bbc_BaseSize = Fin 10, bbc_Label = ''breakback''\<rparr>"

definition NewBreakBackStrategy :: "BreakBackConfig \<Rightarrow> BreakBackStrategy" where
  "NewBreakBackStrategy cfg = \<lparr>pb_markets = [], pb_replayNow = None, pb_prices = Map.empty, tb_priceTimes = Map.empty,
     bb_maxPrices = Map.empty, bb_fired = (\<lambda>_. False), bb_cfg = cfg\<rparr>"

definition BreakBack_RegisterMarkets :: "string \<Rightarrow> string list \<Rightarrow> BreakBackStrategy \<Rightarrow> BreakBackStrategy" where
  "BreakBack_RegisterMarkets ev mkts st = add_markets ev mkts st"

definition BreakBack_UnregisterMarkets :: "string \<Rightarrow> BreakBackStrategy \<Rightarrow> BreakBackStrategy" where
  "BreakBack_UnregisterMarkets ev st =
     (drop_event_times ev st)\<lparr>bb_maxPrices := drop_all (live_event_markets st ev) (bb_maxPrices st),
        bb_fired := (bb_fired st)(ev := False)\<rparr>"

definition BreakBack_DeletePrice :: "string \<Rightarrow> BreakBackStrategy \<Rightarrow> BreakBackStrategy" where
  "BreakBack_DeletePrice mkt st = (delete_time mkt (delete_price mkt st))\<lparr>bb_maxPrices := drop_key mkt (bb_maxPrices st)\<rparr>"

definition BreakBack_fire :: "string \<Rightarrow> BreakBackStrategy \<Rightarrow> bool \<Rightarrow> BreakBackStrategy act" where
  "BreakBack_fire ev st ok = Return (if ok then st\<lparr>bb_fired := (bb_fired st)(ev := True)\<rparr> else st)"

definition BreakBack_OnPriceAt :: "live_env \<Rightarrow> string \<Rightarrow> float64 \<Rightarrow> int \<Rightarrow> BreakBackStrategy \<Rightarrow> BreakBackStrategy act" where
  "BreakBack_OnPriceAt env mkt price ts st0 =
     (let st1 = set_time mkt ts (set_price mkt price st0);
          st = st1\<lparr>bb_maxPrices := raise_peak mkt price (bb_maxPrices st1)\<rparr>;
          cfg = bb_cfg st;
          ev = eventForMarket env st mkt;
          maxPrice = num_of (bb_maxPrices st) mkt;
          dropPercent = fdiv (fsub maxPrice price) maxPrice;
          edge = edge_cents (bbc_ConvProb cfg) price in
      if ev = [] \<or> bb_fired st ev then Return st
      else if flt maxPrice (bbc_MinPeakPrice cfg) then Return st
      else if flt dropPercent (bbc_MinDropPercent cfg) then Return st
      else if flt (bbc_MaxEntryPrice cfg) price then Return st
      else if edge < 1 then Return st
      else
        Emit ((signal_order env (live_UnixMilli ts) ev mkt ''buy''
            (''breakback_drop_'' @ format0f (fmul dropPercent (Fin 100)) @ ''%'')
            (bbc_ConvProb cfg) price edge (kellySized env (bbc_ConvProb cfg) price) (bbc_Label cfg))
            \<lparr>or_Payload := le_marshal env
              [(''max_price'', JFloat maxPrice), (''entry_price'', JFloat price), (''drop_percent'', JFloat dropPercent),
               (''conv_prob'', JFloat (bbc_ConvProb cfg)), (''entry_ts'', JInt (live_UnixMilli ts))]\<rparr>)
          (BreakBack_fire ev st))"

definition BreakBack_OnPrice :: "live_env \<Rightarrow> string \<Rightarrow> float64 \<Rightarrow> BreakBackStrategy \<Rightarrow> BreakBackStrategy act" where
  "BreakBack_OnPrice env mkt price st = BreakBack_OnPriceAt env mkt price (live_now env 0 st) st"

definition BreakBack_OnPoint :: "live_env \<Rightarrow> string \<Rightarrow> 'a Point_scheme \<Rightarrow> BreakBackStrategy \<Rightarrow> BreakBackStrategy act" where
  "BreakBack_OnPoint env ev p st =
     (if \<not> (pt_IsBreakPoint p \<and> pt_Scorer p \<noteq> pt_Server p) then Return st
      else if bb_fired st ev then Return st
      else
     (case markets_of st ev of
        None \<Rightarrow> Return st
      | Some mkts \<Rightarrow>
     (case market_at mkts (pt_Server p = 2) of
        None \<Rightarrow> Panic
      | Some mkt \<Rightarrow>
     (let cfg = bb_cfg st;
          price = live_price st mkt;
          maxPrice = num_of (bb_maxPrices st) mkt;
          edge = edge_cents (bbc_ConvProb cfg) price in
      if fle0 price \<or> flt (bbc_MaxEntryPrice cfg) price then Return st
      else if price_age (live_now env 0 st) st mkt > live_priceStaleTTL then Return st
      else if flt maxPrice (bbc_MinPeakPrice cfg) then Return st
      else if edge < 1 then Return st
      else
        Emit ((signal_order env (live_UnixMilli (live_now env 1 st)) ev mkt ''buy''
            (''breakback_set'' @ show_int (pt_SetNumber p) @ ''_game'' @ show_int (pt_GameNumber p))
            (bbc_ConvProb cfg) price edge (kellySized env (bbc_ConvProb cfg) price) (bbc_Label cfg))
            \<lparr>or_SetNumber := pt_SetNumber p,
             or_Payload := le_marshal env
              [(''set'', JInt (pt_SetNumber p)), (''game'', JInt (pt_GameNumber p)), (''server'', JInt (pt_Server p)),
               (''scorer'', JInt (pt_Scorer p)), (''broken_mkt'', JString mkt), (''entry_price'', JFloat price),
               (''max_price'', JFloat maxPrice), (''conv_prob'', JFloat (bbc_ConvProb cfg))]\<rparr>)
          (BreakBack_fire ev st)))))"

section \<open>Break points\<close>

record bpMatchState =
  bpm_setsHome :: int
  bpm_setsAway :: int

record BreakPointConfig =
  bpc_PServe :: float64
  bpc_MinEdgeCents :: int
  bpc_MinMarketPrice :: float64
  bpc_MaxMarketPrice :: float64
  bpc_Label :: string

record BreakPointStrategy = timed_book +
  bp_states :: "string \<rightharpoonup> bpMatchState"
  bp_model :: float64
  bp_cfg :: BreakPointConfig

definition DefaultBreakPointConfig :: BreakPointConfig where
  "DefaultBreakPointConfig = \<lparr>bpc_PServe = flit (64 / 100), bpc_MinEdgeCents = 2, bpc_MinMarketPrice = flit (5 / 100),
     bpc_MaxMarketPrice = flit (60 / 100), bpc_Label = ''breakpoint''\<rparr>"

definition NewBreakPointStrategy :: "BreakPointConfig \<Rightarrow> BreakPointStrategy" where
  "NewBreakPointStrategy cfg = \<lparr>pb_markets = [], pb_replayNow = None, pb_prices = Map.empty, tb_priceTimes = Map.empty,
     bp_states = Map.empty, bp_model = bpc_PServe cfg, bp_cfg = cfg\<rparr>"

definition BreakPoint_SetSharedMarkovModel :: "float64 \<Rightarrow> BreakPointStrategy \<Rightarrow> BreakPointStrategy" where
  "BreakPoint_SetSharedMarkovModel m st = st\<lparr>bp_model := m\<rparr>"

definition BreakPoint_OnPrice :: "live_env \<Rightarrow> string \<Rightarrow> float64 \<Rightarrow> BreakPointStrategy \<Rightarrow> BreakPointStrategy" where
  "BreakPoint_OnPrice env mkt p st = set_time mkt (live_now env 0 st) (set_price mkt p st)"

definition BreakPoint_OnPriceAt :: "string \<Rightarrow> float64 \<Rightarrow> int \<Rightarrow> BreakPointStrategy \<Rightarrow> BreakPointStrategy" where
  "BreakPoint_OnPriceAt mkt p ts st = set_time mkt ts (set_price mkt p st)"

definition BreakPoint_RegisterMarkets :: "string \<Rightarrow> string list \<Rightarrow> BreakPointStrategy \<Rightarrow> BreakPointStrategy" where
  "BreakPoint_RegisterMarkets ev mkts st0 =
     (let st = add_markets ev mkts st0 in
      if bp_states st ev = None then st\<lparr>bp_states := (bp_states st)(ev \<mapsto> \<lparr>bpm_setsHome = 0, bpm_setsAway = 0\<rparr>)\<rparr> else st)"

definition BreakPoint_UnregisterMarkets :: "string \<Rightarrow> BreakPointStrategy \<Rightarrow> BreakPointStrategy" where
  "BreakPoint_UnregisterMarkets ev st = (drop_event_times ev st)\<lparr>bp_states := drop_key ev (bp_states st)\<rparr>"

definition BreakPoint_DeletePrice :: "string \<Rightarrow> BreakPointStrategy \<Rightarrow> BreakPointStrategy" where
  "BreakPoint_DeletePrice mkt st = delete_time mkt (delete_price mkt st)"

definition live_BreakPoint_updateMatchState :: "string \<Rightarrow> 'a Point_scheme \<Rightarrow> BreakPointStrategy \<Rightarrow> BreakPointStrategy" where
  "live_BreakPoint_updateMatchState ev p st =
     (let ms = (case bp_states st ev of None \<Rightarrow> \<lparr>bpm_setsHome = 0, bpm_setsAway = 0\<rparr> | Some ms \<Rightarrow> ms) in
      st\<lparr>bp_states := (bp_states st)(ev \<mapsto>
        \<lparr>bpm_setsHome = max (bpm_setsHome ms) (pt_HomeSetGames p), bpm_setsAway = max (bpm_setsAway ms) (pt_AwaySetGames p)\<rparr>)\<rparr>)"

definition BreakPoint_getSetsHome :: "string \<Rightarrow> BreakPointStrategy \<Rightarrow> int" where
  "BreakPoint_getSetsHome ev st = (case bp_states st ev of None \<Rightarrow> 0 | Some ms \<Rightarrow> bpm_setsHome ms)"

definition BreakPoint_getSetsAway :: "string \<Rightarrow> BreakPointStrategy \<Rightarrow> int" where
  "BreakPoint_getSetsAway ev st = (case bp_states st ev of None \<Rightarrow> 0 | Some ms \<Rightarrow> bpm_setsAway ms)"

text \<open>The fair value of the player who returns.\<close>

definition BreakPoint_fair_value :: "string \<Rightarrow> 'a Point_scheme \<Rightarrow> int \<Rightarrow> BreakPointStrategy \<Rightarrow> float64" where
  "BreakPoint_fair_value ev p returner st =
     (let v = live_fair_value (bp_model st) (BreakPoint_getSetsHome ev st) (BreakPoint_getSetsAway ev st) p in
      if returner = 1 then v else fsub (Fin 1) v)"

definition processBreakPoint :: "live_env \<Rightarrow> string \<Rightarrow> 'a Point_scheme \<Rightarrow> BreakPointStrategy \<Rightarrow> BreakPointStrategy act" where
  "processBreakPoint env ev p st =
     (if pt_IsTiebreak p then Return st
      else
     (let pc = ClassifyPoint \<lparr>pc_SetsHome = BreakPoint_getSetsHome ev st, pc_SetsAway = BreakPoint_getSetsAway ev st,
            pc_HomeGames = pt_HomeGames p, pc_AwayGames = pt_AwayGames p, pc_HomePoints = pt_HomePoints p,
            pc_AwayPoints = pt_AwayPoints p, pc_Server = pt_Server p, pc_IsTiebreak = pt_IsTiebreak p\<rparr> in
      if \<not> pcl_IsBreakPoint pc then Return st
      else
     (let returner = (if pt_Server p = 2 then 1 else 2 :: int) in
      case markets_of st ev of
        None \<Rightarrow> Return st
      | Some mkts \<Rightarrow>
     (if length mkts < 2 then Return st
      else
     (let mkt = mkts ! nat (returner - 1);
          price = live_price st mkt;
          fv = BreakPoint_fair_value ev p returner st;
          edge = plain_edge fv price;
          cfg = bp_cfg st in
      if fle0 price \<or> price_age (live_now env 0 st) st mkt > live_priceStaleTTL then Return st
      else if edge < bpc_MinEdgeCents cfg then Return st
      else if flt price (bpc_MinMarketPrice cfg) then Return st
      else if fpos (bpc_MaxMarketPrice cfg) \<and> flt (bpc_MaxMarketPrice cfg) price then Return st
      else
        Emit ((signal_order env 0 ev mkt ''buy''
            (''break_point_'' @ live_sideName returner @ ''_set'' @ show_int (pt_SetNumber p) @ ''_game'' @ show_int (pt_GameNumber p))
            fv price edge (kellySized env fv price) (bpc_Label cfg))\<lparr>or_SetNumber := pt_SetNumber p\<rparr>)
          (\<lambda>_. Return st))))))"

definition BreakPoint_OnPoint :: "live_env \<Rightarrow> string \<Rightarrow> 'a Point_scheme \<Rightarrow> BreakPointStrategy \<Rightarrow> BreakPointStrategy act" where
  "BreakPoint_OnPoint env ev p st = processBreakPoint env ev p (live_BreakPoint_updateMatchState ev p st)"

end
