(* ===== verification/LiveC.thy ===== *)
theory LiveC
  imports LiveB
begin

text \<open>
  Strategies of the first version, part three: comebacks from 0-40 (\<open>comeback040.go\<close>), 15-30 on serve
  (\<open>server1530.go\<close>), the winner of the first set (\<open>set1winner.go\<close>), the server of a tiebreak
  (\<open>tiebreak_server.go\<close>) and double break points (\<open>doublebreak.go\<close>).
\<close>

section \<open>Comeback from 0-40\<close>

record Comeback040Config =
  cbc_MinPeakPrice :: float64
  cbc_MaxEntryPrice :: float64
  cbc_MinEntryPrice :: float64
  cbc_ConvProb :: float64
  cbc_BaseSize :: float64
  cbc_Label :: string

record Comeback040Strategy = price_book +
  cb_maxPrices :: "string \<rightharpoonup> float64"
  cb_fired :: "string \<Rightarrow> bool"
  cb_cfg :: Comeback040Config

definition DefaultComeback040Config :: Comeback040Config where
  "DefaultComeback040Config = \<lparr>cbc_MinPeakPrice = flit (40 / 100), cbc_MaxEntryPrice = flit (70 / 100),
     cbc_MinEntryPrice = flit (10 / 100), cbc_ConvProb = flit (35 / 100), cbc_BaseSize = Fin 10, cbc_Label = ''comeback040''\<rparr>"

definition NewComeback040Strategy :: "Comeback040Config \<Rightarrow> Comeback040Strategy" where
  "NewComeback040Strategy cfg = \<lparr>pb_markets = [], pb_replayNow = None, pb_prices = Map.empty,
     cb_maxPrices = Map.empty, cb_fired = (\<lambda>_. False), cb_cfg = cfg\<rparr>"

definition Comeback040_RegisterMarkets :: "string \<Rightarrow> string list \<Rightarrow> Comeback040Strategy \<Rightarrow> Comeback040Strategy" where
  "Comeback040_RegisterMarkets ev mkts st = add_markets ev mkts st"

definition Comeback040_UnregisterMarkets :: "string \<Rightarrow> Comeback040Strategy \<Rightarrow> Comeback040Strategy" where
  "Comeback040_UnregisterMarkets ev st =
     (drop_event ev st)\<lparr>cb_maxPrices := drop_all (live_event_markets st ev) (cb_maxPrices st),
        cb_fired := (cb_fired st)(ev := False)\<rparr>"

definition Comeback040_OnPriceAt :: "string \<Rightarrow> float64 \<Rightarrow> Comeback040Strategy \<Rightarrow> Comeback040Strategy" where
  "Comeback040_OnPriceAt mkt price st =
     (set_price mkt price st)\<lparr>cb_maxPrices := raise_peak mkt price (cb_maxPrices st)\<rparr>"

definition Comeback040_OnPrice :: "string \<Rightarrow> float64 \<Rightarrow> Comeback040Strategy \<Rightarrow> Comeback040Strategy" where
  "Comeback040_OnPrice mkt price st = Comeback040_OnPriceAt mkt price st"

definition Comeback040_DeletePrice :: "string \<Rightarrow> Comeback040Strategy \<Rightarrow> Comeback040Strategy" where
  "Comeback040_DeletePrice mkt st = (delete_price mkt st)\<lparr>cb_maxPrices := drop_key mkt (cb_maxPrices st)\<rparr>"

definition is_040 :: "'a Point_scheme \<Rightarrow> bool" where
  "is_040 p \<longleftrightarrow>
     pt_HomePoints p = ''0'' \<and> pt_AwayPoints p = ''40'' \<and> pt_Server p = 1 \<or>
     pt_HomePoints p = ''40'' \<and> pt_AwayPoints p = ''0'' \<and> pt_Server p = 2"

definition Comeback040_OnPoint :: "live_env \<Rightarrow> string \<Rightarrow> 'a Point_scheme \<Rightarrow> Comeback040Strategy \<Rightarrow> Comeback040Strategy act" where
  "Comeback040_OnPoint env ev p st =
     (if \<not> is_040 p then Return st
      else if cb_fired st ev then Return st
      else
     (case markets_of st ev of
        None \<Rightarrow> Return st
      | Some mkts \<Rightarrow>
     (if length mkts < 2 then Return st
      else
     (let cfg = cb_cfg st;
          mkt = (if pt_Server p = 2 then mkts ! 1 else mkts ! 0);
          price = live_price st mkt;
          maxPrice = num_of (cb_maxPrices st) mkt;
          edge = edge_cents (cbc_ConvProb cfg) price in
      if fle0 price then Return st
      else if flt maxPrice (cbc_MinPeakPrice cfg) then Return st
      else if flt (cbc_MaxEntryPrice cfg) price then Return st
      else if flt price (cbc_MinEntryPrice cfg) then Return st
      else if edge < 1 then Return st
      else
        Emit ((signal_order env (live_UnixMilli (live_now env 0 st)) ev mkt ''buy''
            (''comeback040_set'' @ show_int (pt_SetNumber p) @ ''_game'' @ show_int (pt_GameNumber p))
            (cbc_ConvProb cfg) price edge (kellySized env (cbc_ConvProb cfg) price) (cbc_Label cfg))
            \<lparr>or_SetNumber := pt_SetNumber p,
             or_Payload := le_marshal env
              [(''set'', JInt (pt_SetNumber p)), (''game'', JInt (pt_GameNumber p)), (''server'', JInt (pt_Server p)),
               (''home_points'', JString (pt_HomePoints p)), (''away_points'', JString (pt_AwayPoints p)),
               (''entry_price'', JFloat price), (''max_price'', JFloat maxPrice), (''conv_prob'', JFloat (cbc_ConvProb cfg))]\<rparr>)
          (\<lambda>ok. Return (if ok then st\<lparr>cb_fired := (cb_fired st)(ev := True)\<rparr> else st))))))"

section \<open>15-30 on serve\<close>

record Server1530Config =
  svc_MinFavPrice :: float64
  svc_MinDipPercent :: float64
  svc_MaxDipPercent :: float64
  svc_MaxEntryPrice :: float64
  svc_ConvProb :: float64
  svc_BaseSize :: float64
  svc_Label :: string

record Server1530Strategy = price_book +
  sv_prevPrices :: "string \<rightharpoonup> float64"
  sv_maxPrices :: "string \<rightharpoonup> float64"
  lsv_fired :: "string \<Rightarrow> bool"
  sv_cfg :: Server1530Config

definition DefaultServer1530Config :: Server1530Config where
  "DefaultServer1530Config = \<lparr>svc_MinFavPrice = flit (55 / 100), svc_MinDipPercent = flit (3 / 100),
     svc_MaxDipPercent = flit (8 / 100), svc_MaxEntryPrice = flit (65 / 100), svc_ConvProb = flit (62 / 100),
     svc_BaseSize = Fin 10, svc_Label = ''server1530''\<rparr>"

definition NewServer1530Strategy :: "Server1530Config \<Rightarrow> Server1530Strategy" where
  "NewServer1530Strategy cfg = \<lparr>pb_markets = [], pb_replayNow = None, pb_prices = Map.empty,
     sv_prevPrices = Map.empty, sv_maxPrices = Map.empty, lsv_fired = (\<lambda>_. False), sv_cfg = cfg\<rparr>"

definition Server1530_RegisterMarkets :: "string \<Rightarrow> string list \<Rightarrow> Server1530Strategy \<Rightarrow> Server1530Strategy" where
  "Server1530_RegisterMarkets ev mkts st = add_markets ev mkts st"

definition Server1530_UnregisterMarkets :: "string \<Rightarrow> Server1530Strategy \<Rightarrow> Server1530Strategy" where
  "Server1530_UnregisterMarkets ev st =
     (drop_event ev st)\<lparr>sv_prevPrices := drop_all (live_event_markets st ev) (sv_prevPrices st),
        sv_maxPrices := drop_all (live_event_markets st ev) (sv_maxPrices st), lsv_fired := (lsv_fired st)(ev := False)\<rparr>"

definition Server1530_DeletePrice :: "string \<Rightarrow> Server1530Strategy \<Rightarrow> Server1530Strategy" where
  "Server1530_DeletePrice mkt st =
     (delete_price mkt st)\<lparr>sv_prevPrices := drop_key mkt (sv_prevPrices st), sv_maxPrices := drop_key mkt (sv_maxPrices st)\<rparr>"

definition Server1530_fire :: "string \<Rightarrow> Server1530Strategy \<Rightarrow> bool \<Rightarrow> Server1530Strategy act" where
  "Server1530_fire ev st ok = Return (if ok then st\<lparr>lsv_fired := (lsv_fired st)(ev := True)\<rparr> else st)"

definition Server1530_OnPriceAt :: "live_env \<Rightarrow> string \<Rightarrow> float64 \<Rightarrow> int \<Rightarrow> Server1530Strategy \<Rightarrow> Server1530Strategy act" where
  "Server1530_OnPriceAt env mkt price ts st0 =
     (let prevPrice = live_price st0 mkt;
          st = (set_price mkt price st0)\<lparr>sv_prevPrices := (sv_prevPrices st0)(mkt \<mapsto> prevPrice),
                 sv_maxPrices := raise_peak mkt price (sv_maxPrices st0)\<rparr>;
          cfg = sv_cfg st;
          ev = eventForMarket env st mkt;
          maxPrice = num_of (sv_maxPrices st) mkt;
          dipPercent = fdiv (fsub prevPrice price) prevPrice;
          edge = edge_cents (svc_ConvProb cfg) price in
      if ev = [] \<or> lsv_fired st ev then Return st
      else if flt maxPrice (svc_MinFavPrice cfg) then Return st
      else if fle0 prevPrice then Return st
      else if flt dipPercent (svc_MinDipPercent cfg) \<or> flt (svc_MaxDipPercent cfg) dipPercent then Return st
      else if flt (svc_MaxEntryPrice cfg) price then Return st
      else if edge < 1 then Return st
      else
        Emit ((signal_order env (live_UnixMilli ts) ev mkt ''buy''
            (''server1530_dip_'' @ format1f (fmul dipPercent (Fin 100)) @ ''%'')
            (svc_ConvProb cfg) price edge (kellySized env (svc_ConvProb cfg) price) (svc_Label cfg))
            \<lparr>or_Payload := le_marshal env
              [(''max_price'', JFloat maxPrice), (''prev_price'', JFloat prevPrice), (''entry_price'', JFloat price),
               (''dip_percent'', JFloat dipPercent), (''conv_prob'', JFloat (svc_ConvProb cfg)), (''entry_ts'', JInt (live_UnixMilli ts))]\<rparr>)
          (Server1530_fire ev st))"

definition Server1530_OnPrice :: "live_env \<Rightarrow> string \<Rightarrow> float64 \<Rightarrow> Server1530Strategy \<Rightarrow> Server1530Strategy act" where
  "Server1530_OnPrice env mkt price st = Server1530_OnPriceAt env mkt price (live_now env 0 st) st"

definition is_1530 :: "'a Point_scheme \<Rightarrow> bool" where
  "is_1530 p \<longleftrightarrow>
     pt_HomePoints p = ''15'' \<and> pt_AwayPoints p = ''30'' \<and> pt_Server p = 1 \<or>
     pt_AwayPoints p = ''15'' \<and> pt_HomePoints p = ''30'' \<and> pt_Server p = 2"

definition Server1530_OnPoint :: "live_env \<Rightarrow> string \<Rightarrow> 'a Point_scheme \<Rightarrow> Server1530Strategy \<Rightarrow> Server1530Strategy act" where
  "Server1530_OnPoint env ev p st =
     (if \<not> is_1530 p then Return st
      else if lsv_fired st ev then Return st
      else
     (case markets_of st ev of
        None \<Rightarrow> Return st
      | Some mkts \<Rightarrow>
     (case market_at mkts (pt_Server p = 2) of
        None \<Rightarrow> Panic
      | Some mkt \<Rightarrow>
     (let cfg = sv_cfg st;
          maxPrice = num_of (sv_maxPrices st) mkt;
          price = live_price st mkt;
          edge = edge_cents (svc_ConvProb cfg) price in
      if flt maxPrice (svc_MinFavPrice cfg) then Return st
      else if fle0 price \<or> flt (svc_MaxEntryPrice cfg) price then Return st
      else if edge < 1 then Return st
      else
        Emit ((signal_order env (live_UnixMilli (live_now env 0 st)) ev mkt ''buy''
            (''server1530_set'' @ show_int (pt_SetNumber p) @ ''_game'' @ show_int (pt_GameNumber p))
            (svc_ConvProb cfg) price edge (kellySized env (svc_ConvProb cfg) price) (svc_Label cfg))
            \<lparr>or_SetNumber := pt_SetNumber p,
             or_Payload := le_marshal env
              [(''set'', JInt (pt_SetNumber p)), (''game'', JInt (pt_GameNumber p)), (''server'', JInt (pt_Server p)),
               (''home_points'', JString (pt_HomePoints p)), (''away_points'', JString (pt_AwayPoints p)),
               (''server_mkt'', JString mkt), (''max_price'', JFloat maxPrice), (''entry_price'', JFloat price),
               (''conv_prob'', JFloat (svc_ConvProb cfg))]\<rparr>)
          (Server1530_fire ev st)))))"

section \<open>The winner of the first set\<close>

record Set1WinnerConfig =
  s1c_MinEdgeCents :: int
  s1c_MaxMarketPrice :: float64
  s1c_ConvProb :: float64
  s1c_BaseSize :: float64
  s1c_Label :: string

record Set1WinnerStrategy = price_book +
  s1_fired :: "string \<Rightarrow> bool"
  s1_cfg :: Set1WinnerConfig

definition DefaultSet1WinnerConfig :: Set1WinnerConfig where
  "DefaultSet1WinnerConfig = \<lparr>s1c_MinEdgeCents = 5, s1c_MaxMarketPrice = flit (72 / 100), s1c_ConvProb = flit (72 / 100),
     s1c_BaseSize = Fin 10, s1c_Label = ''set1winner''\<rparr>"

definition NewSet1WinnerStrategy :: "Set1WinnerConfig \<Rightarrow> Set1WinnerStrategy" where
  "NewSet1WinnerStrategy cfg = \<lparr>pb_markets = [], pb_replayNow = None, pb_prices = Map.empty, s1_fired = (\<lambda>_. False), s1_cfg = cfg\<rparr>"

definition Set1Winner_RegisterMarkets :: "string \<Rightarrow> string list \<Rightarrow> Set1WinnerStrategy \<Rightarrow> Set1WinnerStrategy" where
  "Set1Winner_RegisterMarkets ev mkts st = add_markets ev mkts st"

definition Set1Winner_UnregisterMarkets :: "string \<Rightarrow> Set1WinnerStrategy \<Rightarrow> Set1WinnerStrategy" where
  "Set1Winner_UnregisterMarkets ev st = (drop_event ev st)\<lparr>s1_fired := (s1_fired st)(ev := False)\<rparr>"

definition Set1Winner_OnPriceAt :: "string \<Rightarrow> float64 \<Rightarrow> Set1WinnerStrategy \<Rightarrow> Set1WinnerStrategy" where
  "Set1Winner_OnPriceAt mkt price st = set_price mkt price st"

definition Set1Winner_OnPrice :: "string \<Rightarrow> float64 \<Rightarrow> Set1WinnerStrategy \<Rightarrow> Set1WinnerStrategy" where
  "Set1Winner_OnPrice mkt price st = Set1Winner_OnPriceAt mkt price st"

definition Set1Winner_DeletePrice :: "string \<Rightarrow> Set1WinnerStrategy \<Rightarrow> Set1WinnerStrategy" where
  "Set1Winner_DeletePrice mkt st = delete_price mkt st"

definition Set1Winner_OnPoint :: "live_env \<Rightarrow> string \<Rightarrow> 'a Point_scheme \<Rightarrow> Set1WinnerStrategy \<Rightarrow> Set1WinnerStrategy act" where
  "Set1Winner_OnPoint env ev p st =
     (if pt_SetNumber p \<noteq> 2 \<or> pt_PointNumber p \<noteq> 1 then Return st
      else if s1_fired st ev then Return st
      else
     (case markets_of st ev of
        None \<Rightarrow> Return st
      | Some mkts \<Rightarrow>
     (if length mkts < 2 then Return st
      else
     (let cfg = s1_cfg st;
          homeWonSet1 = (pt_HomeSetGames p > pt_AwaySetGames p);
          mkt = (if homeWonSet1 then mkts ! 0 else mkts ! 1);
          price = live_price st mkt;
          edge = edge_cents (s1c_ConvProb cfg) price in
      if fle0 price \<or> flt (s1c_MaxMarketPrice cfg) price then Return st
      else if edge < s1c_MinEdgeCents cfg then Return st
      else
        Emit ((signal_order env (live_UnixMilli (live_now env 0 st)) ev mkt ''buy'' ''set1winner_s2start''
            (s1c_ConvProb cfg) price edge (kellySized env (s1c_ConvProb cfg) price) (s1c_Label cfg))
            \<lparr>or_SetNumber := 2,
             or_Payload := le_marshal env
              [(''set1_home_games'', JInt (pt_HomeSetGames p)), (''set1_away_games'', JInt (pt_AwaySetGames p)),
               (''home_won_set1'', JBool homeWonSet1), (''entry_price'', JFloat price), (''conv_prob'', JFloat (s1c_ConvProb cfg))]\<rparr>)
          (\<lambda>ok. Return (if ok then st\<lparr>s1_fired := (s1_fired st)(ev := True)\<rparr> else st))))))"

section \<open>The server of a tiebreak\<close>

record TiebreakServerConfig =
  tsc_MinEdgeCents :: int
  tsc_MaxMarketPrice :: float64
  tsc_ConvProb :: float64
  tsc_BaseSize :: float64
  tsc_Label :: string

record TiebreakServerStrategy = price_book +
  ts_fired :: "string \<Rightarrow> bool"
  ts_cfg :: TiebreakServerConfig

definition DefaultTiebreakServerConfig :: TiebreakServerConfig where
  "DefaultTiebreakServerConfig = \<lparr>tsc_MinEdgeCents = 5, tsc_MaxMarketPrice = flit (65 / 100), tsc_ConvProb = flit (60 / 100),
     tsc_BaseSize = Fin 10, tsc_Label = ''tiebreak-server''\<rparr>"

definition NewTiebreakServerStrategy :: "TiebreakServerConfig \<Rightarrow> TiebreakServerStrategy" where
  "NewTiebreakServerStrategy cfg = \<lparr>pb_markets = [], pb_replayNow = None, pb_prices = Map.empty, ts_fired = (\<lambda>_. False), ts_cfg = cfg\<rparr>"

definition TiebreakServer_RegisterMarkets :: "string \<Rightarrow> string list \<Rightarrow> TiebreakServerStrategy \<Rightarrow> TiebreakServerStrategy" where
  "TiebreakServer_RegisterMarkets ev mkts st = add_markets ev mkts st"

definition TiebreakServer_UnregisterMarkets :: "string \<Rightarrow> TiebreakServerStrategy \<Rightarrow> TiebreakServerStrategy" where
  "TiebreakServer_UnregisterMarkets ev st = (drop_event ev st)\<lparr>ts_fired := (ts_fired st)(ev := False)\<rparr>"

definition TiebreakServer_OnPriceAt :: "string \<Rightarrow> float64 \<Rightarrow> TiebreakServerStrategy \<Rightarrow> TiebreakServerStrategy" where
  "TiebreakServer_OnPriceAt mkt price st = set_price mkt price st"

definition TiebreakServer_OnPrice :: "string \<Rightarrow> float64 \<Rightarrow> TiebreakServerStrategy \<Rightarrow> TiebreakServerStrategy" where
  "TiebreakServer_OnPrice mkt price st = TiebreakServer_OnPriceAt mkt price st"

definition TiebreakServer_DeletePrice :: "string \<Rightarrow> TiebreakServerStrategy \<Rightarrow> TiebreakServerStrategy" where
  "TiebreakServer_DeletePrice mkt st = delete_price mkt st"

definition TiebreakServer_OnPoint :: "live_env \<Rightarrow> string \<Rightarrow> 'a Point_scheme \<Rightarrow> TiebreakServerStrategy \<Rightarrow> TiebreakServerStrategy act" where
  "TiebreakServer_OnPoint env ev p st =
     (if \<not> pt_IsTiebreak p \<or> pt_PointNumber p \<noteq> 1 then Return st
      else if ts_fired st ev then Return st
      else
     (case markets_of st ev of
        None \<Rightarrow> Return st
      | Some mkts \<Rightarrow>
     (if length mkts < 2 then Return st
      else
     (let cfg = ts_cfg st;
          mkt = (if pt_Server p = 2 then mkts ! 1 else mkts ! 0);
          price = live_price st mkt;
          edge = edge_cents (tsc_ConvProb cfg) price in
      if fle0 price \<or> flt (tsc_MaxMarketPrice cfg) price then Return st
      else if edge < tsc_MinEdgeCents cfg then Return st
      else
        Emit ((signal_order env (live_UnixMilli (live_now env 0 st)) ev mkt ''buy'' (''tbserver_set'' @ show_int (pt_SetNumber p))
            (tsc_ConvProb cfg) price edge (kellySized env (tsc_ConvProb cfg) price) (tsc_Label cfg))
            \<lparr>or_SetNumber := pt_SetNumber p,
             or_Payload := le_marshal env
              [(''set'', JInt (pt_SetNumber p)), (''server'', JInt (pt_Server p)), (''entry_price'', JFloat price),
               (''conv_prob'', JFloat (tsc_ConvProb cfg))]\<rparr>)
          (\<lambda>ok. Return (if ok then st\<lparr>ts_fired := (ts_fired st)(ev := True)\<rparr> else st))))))"

section \<open>Double break points\<close>

record DoubleBreakConfig =
  dbc_MinEntryPrice :: float64
  dbc_MaxEntryPrice :: float64
  dbc_ConvProb :: float64
  dbc_MinEdgeCents :: int
  dbc_BaseSize :: float64
  dbc_Label :: string

record DoubleBreakStrategy = price_book +
  db_fired :: "string \<Rightarrow> bool"
  db_cfg :: DoubleBreakConfig

definition DefaultDoubleBreakConfig :: DoubleBreakConfig where
  "DefaultDoubleBreakConfig = \<lparr>dbc_MinEntryPrice = flit (20 / 100), dbc_MaxEntryPrice = flit (50 / 100), dbc_ConvProb = flit (38 / 100),
     dbc_MinEdgeCents = 1, dbc_BaseSize = Fin 10, dbc_Label = ''doublebreak''\<rparr>"

definition NewDoubleBreakStrategy :: "DoubleBreakConfig \<Rightarrow> DoubleBreakStrategy" where
  "NewDoubleBreakStrategy cfg = \<lparr>pb_markets = [], pb_replayNow = None, pb_prices = Map.empty, db_fired = (\<lambda>_. False), db_cfg = cfg\<rparr>"

definition DoubleBreak_RegisterMarkets :: "string \<Rightarrow> string list \<Rightarrow> DoubleBreakStrategy \<Rightarrow> DoubleBreakStrategy" where
  "DoubleBreak_RegisterMarkets ev mkts st = add_markets ev mkts st"

definition DoubleBreak_UnregisterMarkets :: "string \<Rightarrow> DoubleBreakStrategy \<Rightarrow> DoubleBreakStrategy" where
  "DoubleBreak_UnregisterMarkets ev st =
     (let prefix = ev @ '':'' in
      (drop_event ev st)\<lparr>db_fired :=
         (\<lambda>k. if length k > length prefix \<and> take (length prefix) k = prefix then False else db_fired st k)\<rparr>)"

definition DoubleBreak_OnPriceAt :: "string \<Rightarrow> float64 \<Rightarrow> DoubleBreakStrategy \<Rightarrow> DoubleBreakStrategy" where
  "DoubleBreak_OnPriceAt mkt price st = set_price mkt price st"

definition DoubleBreak_OnPrice :: "string \<Rightarrow> float64 \<Rightarrow> DoubleBreakStrategy \<Rightarrow> DoubleBreakStrategy" where
  "DoubleBreak_OnPrice mkt price st = DoubleBreak_OnPriceAt mkt price st"

definition DoubleBreak_DeletePrice :: "string \<Rightarrow> DoubleBreakStrategy \<Rightarrow> DoubleBreakStrategy" where
  "DoubleBreak_DeletePrice mkt st = delete_price mkt st"

definition doubleBreak_key :: "string \<Rightarrow> 'a Point_scheme \<Rightarrow> string" where
  "doubleBreak_key ev p = ev @ '':'' @ show_int (pt_SetNumber p) @ '':'' @ show_int (pt_GameNumber p)"

definition DoubleBreak_OnPoint :: "live_env \<Rightarrow> string \<Rightarrow> 'a Point_scheme \<Rightarrow> DoubleBreakStrategy \<Rightarrow> DoubleBreakStrategy act" where
  "DoubleBreak_OnPoint env ev p st =
     (if pt_IsTiebreak p then Return st
      else
     (let returner = (if pt_Server p = 2 then 1 else 2 :: int);
          (retPts, srvPts) = (if returner = 1 then (pt_HomePoints p, pt_AwayPoints p) else (pt_AwayPoints p, pt_HomePoints p)) in
      if \<not> (retPts = ''40'' \<and> srvPts \<in> {''0'', ''15'', ''30''}) then Return st
      else if db_fired st (doubleBreak_key ev p) then Return st
      else
     (case markets_of st ev of
        None \<Rightarrow> Return st
      | Some mkts \<Rightarrow>
     (if length mkts < 2 then Return st
      else
     (let cfg = db_cfg st;
          mkt = mkts ! nat (returner - 1);
          price = live_price st mkt;
          edge = edge_cents (dbc_ConvProb cfg) price in
      if fle0 price then Return st
      else if flt price (dbc_MinEntryPrice cfg) then Return st
      else if flt (dbc_MaxEntryPrice cfg) price then Return st
      else if edge < dbc_MinEdgeCents cfg then Return st
      else
        Emit ((signal_order env (live_UnixMilli (live_now env 0 st)) ev mkt ''buy''
            (''doublebreak_'' @ retPts @ ''-'' @ srvPts @ ''_set'' @ show_int (pt_SetNumber p) @ ''_game'' @ show_int (pt_GameNumber p))
            (dbc_ConvProb cfg) price edge (kellySized env (dbc_ConvProb cfg) price) (dbc_Label cfg))
            \<lparr>or_SetNumber := pt_SetNumber p,
             or_Payload := le_marshal env
              [(''set'', JInt (pt_SetNumber p)), (''game'', JInt (pt_GameNumber p)), (''server'', JInt (pt_Server p)),
               (''returner'', JInt returner), (''home_points'', JString (pt_HomePoints p)), (''away_points'', JString (pt_AwayPoints p)),
               (''ret_pts'', JString retPts), (''srv_pts'', JString srvPts), (''entry_price'', JFloat price),
               (''conv_prob'', JFloat (dbc_ConvProb cfg))]\<rparr>)
          (\<lambda>ok. Return (if ok then st\<lparr>db_fired := (db_fired st)(doubleBreak_key ev p := True)\<rparr> else st)))))))"

end
