(* ===== verification/LiveD.thy ===== *)
theory LiveD
  imports LiveC
begin

text \<open>
  Strategies of the first version, part four: a favourite who lost a set (\<open>setdown.go\<close>), mini breaks
  (\<open>tiebreak.go\<close>) and the arbitrage between the sides of a match (\<open>crossarb.go\<close>).
\<close>

text \<open>The series of events, loaded from the database when there is one.\<close>

definition load_series :: "(string \<rightharpoonup> string) \<Rightarrow> string \<Rightarrow> (string \<rightharpoonup> string) \<Rightarrow> (string \<rightharpoonup> string)" where
  "load_series db ev m = (case db ev of None \<Rightarrow> m | Some series \<Rightarrow> if series = [] then m else m(ev \<mapsto> series))"

definition series_of :: "(string \<rightharpoonup> string) \<Rightarrow> string \<Rightarrow> string" where
  "series_of m ev = (case m ev of None \<Rightarrow> [] | Some s \<Rightarrow> s)"

section \<open>A favourite a set down\<close>

record SetDownConfig =
  sdc_MinFavPrice :: float64
  sdc_MinEntryPrice :: float64
  sdc_MaxEntryPrice :: float64
  sdc_ConvProb :: float64
  sdc_BaseSize :: float64
  sdc_Label :: string
  sdc_SeriesFilter :: "string list"
  sdc_UTCHourStart :: int
  sdc_UTCHourEnd :: int

record SetDownStrategy = price_book +
  sd_maxPrices :: "string \<rightharpoonup> float64"
  sd_fired :: "string \<Rightarrow> bool"
  sd_series :: "string \<rightharpoonup> string"
  sd_hasDB :: bool
  sd_cfg :: SetDownConfig

definition DefaultSetDownConfig :: SetDownConfig where
  "DefaultSetDownConfig = \<lparr>sdc_MinFavPrice = flit (55 / 100), sdc_MinEntryPrice = flit (30 / 100), sdc_MaxEntryPrice = flit (45 / 100),
     sdc_ConvProb = flit (55 / 100), sdc_BaseSize = Fin 10, sdc_Label = ''setdown'', sdc_SeriesFilter = [],
     sdc_UTCHourStart = 0, sdc_UTCHourEnd = 0\<rparr>"

definition NewSetDownStrategy :: "SetDownConfig \<Rightarrow> SetDownStrategy" where
  "NewSetDownStrategy cfg = \<lparr>pb_markets = [], pb_replayNow = None, pb_prices = Map.empty, sd_maxPrices = Map.empty,
     sd_fired = (\<lambda>_. False), sd_series = Map.empty, sd_hasDB = False, sd_cfg = cfg\<rparr>"

definition NewSetDownStrategyWithDB :: "SetDownConfig \<Rightarrow> SetDownStrategy" where
  "NewSetDownStrategyWithDB cfg = (NewSetDownStrategy cfg)\<lparr>sd_hasDB := True\<rparr>"

definition SetDown_SetSeriesTicker :: "string \<Rightarrow> string \<Rightarrow> SetDownStrategy \<Rightarrow> SetDownStrategy" where
  "SetDown_SetSeriesTicker ev series st = st\<lparr>sd_series := (sd_series st)(ev \<mapsto> series)\<rparr>"

definition SetDown_loadSeriesTicker :: "live_env \<Rightarrow> string \<Rightarrow> SetDownStrategy \<Rightarrow> SetDownStrategy" where
  "SetDown_loadSeriesTicker env ev st = st\<lparr>sd_series := load_series (le_seriesTicker env) ev (sd_series st)\<rparr>"

definition SetDown_RegisterMarkets :: "live_env \<Rightarrow> string \<Rightarrow> string list \<Rightarrow> SetDownStrategy \<Rightarrow> SetDownStrategy" where
  "SetDown_RegisterMarkets env ev mkts st =
     (let st1 = add_markets ev mkts st in if sd_hasDB st1 then SetDown_loadSeriesTicker env ev st1 else st1)"

definition SetDown_UnregisterMarkets :: "string \<Rightarrow> SetDownStrategy \<Rightarrow> SetDownStrategy" where
  "SetDown_UnregisterMarkets ev st =
     (drop_event ev st)\<lparr>sd_maxPrices := drop_all (live_event_markets st ev) (sd_maxPrices st),
        sd_fired := (sd_fired st)(ev := False), sd_series := drop_key ev (sd_series st)\<rparr>"

definition SetDown_DeletePrice :: "string \<Rightarrow> SetDownStrategy \<Rightarrow> SetDownStrategy" where
  "SetDown_DeletePrice mkt st = (delete_price mkt st)\<lparr>sd_maxPrices := drop_key mkt (sd_maxPrices st)\<rparr>"

definition SetDown_fire :: "string \<Rightarrow> SetDownStrategy \<Rightarrow> bool \<Rightarrow> SetDownStrategy act" where
  "SetDown_fire ev st ok = Return (if ok then st\<lparr>sd_fired := (sd_fired st)(ev := True)\<rparr> else st)"

definition SetDown_OnPriceAt :: "live_env \<Rightarrow> string \<Rightarrow> float64 \<Rightarrow> int \<Rightarrow> SetDownStrategy \<Rightarrow> SetDownStrategy act" where
  "SetDown_OnPriceAt env mkt price ts st0 =
     (let st = (set_price mkt price st0)\<lparr>sd_maxPrices := raise_peak mkt price (sd_maxPrices st0)\<rparr>;
          cfg = sd_cfg st;
          ev = eventForMarket env st mkt;
          maxPrice = num_of (sd_maxPrices st) mkt;
          dropFromPeak = fsub maxPrice price;
          edge = edge_cents (sdc_ConvProb cfg) price in
      if ev = [] \<or> sd_fired st ev then Return st
      else if flt maxPrice (sdc_MinFavPrice cfg) then Return st
      else if \<not> seriesMatches (series_of (sd_series st) ev) (sdc_SeriesFilter cfg) then Return st
      else if \<not> utcHourMatches ts (sdc_UTCHourStart cfg) (sdc_UTCHourEnd cfg) then Return st
      else if flt price (sdc_MinEntryPrice cfg) \<or> flt (sdc_MaxEntryPrice cfg) price then Return st
      else if flt dropFromPeak (flit (10 / 100)) then Return st
      else if edge < 1 then Return st
      else
        Emit ((signal_order env (live_UnixMilli ts) ev mkt ''buy''
            (''setdown_peak_'' @ format2f maxPrice @ ''_now_'' @ format2f price)
            (sdc_ConvProb cfg) price edge (kellySized env (sdc_ConvProb cfg) price) (sdc_Label cfg))
            \<lparr>or_Payload := le_marshal env
              [(''max_price'', JFloat maxPrice), (''entry_price'', JFloat price), (''drop_from_peak'', JFloat dropFromPeak),
               (''conv_prob'', JFloat (sdc_ConvProb cfg)), (''entry_ts'', JInt (live_UnixMilli ts))]\<rparr>)
          (SetDown_fire ev st))"

definition SetDown_OnPrice :: "live_env \<Rightarrow> string \<Rightarrow> float64 \<Rightarrow> SetDownStrategy \<Rightarrow> SetDownStrategy act" where
  "SetDown_OnPrice env mkt price st = SetDown_OnPriceAt env mkt price (live_now env 0 st) st"

definition SetDown_OnPoint :: "live_env \<Rightarrow> string \<Rightarrow> 'a Point_scheme \<Rightarrow> SetDownStrategy \<Rightarrow> SetDownStrategy act" where
  "SetDown_OnPoint env ev p st =
     (if pt_PointNumber p \<noteq> 1 \<or> pt_GameNumber p \<noteq> 1 \<or> pt_SetNumber p < 2 then Return st
      else if sd_fired st ev then Return st
      else
     (case markets_of st ev of
        None \<Rightarrow> Return st
      | Some mkts \<Rightarrow>
     (if pt_HomeSetGames p = pt_AwaySetGames p then Return st
      else
     (case market_at mkts (pt_AwaySetGames p < pt_HomeSetGames p) of
        None \<Rightarrow> Panic
      | Some mkt \<Rightarrow>
     (let cfg = sd_cfg st;
          maxPrice = num_of (sd_maxPrices st) mkt;
          price = live_price st mkt;
          edge = edge_cents (sdc_ConvProb cfg) price in
      if \<not> seriesMatches (series_of (sd_series st) ev) (sdc_SeriesFilter cfg) then Return st
      else if \<not> utcHourMatches (live_now env 0 st) (sdc_UTCHourStart cfg) (sdc_UTCHourEnd cfg) then Return st
      else if flt maxPrice (sdc_MinFavPrice cfg) then Return st
      else if flt price (sdc_MinEntryPrice cfg) \<or> flt (sdc_MaxEntryPrice cfg) price then Return st
      else if edge < 1 then Return st
      else
        Emit ((signal_order env (live_UnixMilli (live_now env 1 st)) ev mkt ''buy''
            (''setdown_lost_set'' @ show_int (pt_SetNumber p - 1))
            (sdc_ConvProb cfg) price edge (kellySized env (sdc_ConvProb cfg) price) (sdc_Label cfg))
            \<lparr>or_SetNumber := pt_SetNumber p - 1,
             or_Payload := le_marshal env
              [(''set_lost'', JInt (pt_SetNumber p - 1)), (''home_set_games'', JInt (pt_HomeSetGames p)),
               (''away_set_games'', JInt (pt_AwaySetGames p)), (''target_mkt'', JString mkt), (''max_price'', JFloat maxPrice),
               (''entry_price'', JFloat price), (''conv_prob'', JFloat (sdc_ConvProb cfg))]\<rparr>)
          (SetDown_fire ev st))))))"

section \<open>Mini breaks\<close>

record TiebreakConfig =
  tkc_MinPeakPrice :: float64
  tkc_MinDropPercent :: float64
  tkc_MaxDropPercent :: float64
  tkc_MinEntryPrice :: float64
  tkc_MaxEntryPrice :: float64
  tkc_ConvProb :: float64
  tkc_BaseSize :: float64
  tkc_Label :: string
  tkc_SeriesFilter :: "string list"
  tkc_UTCHourStart :: int
  tkc_UTCHourEnd :: int

record TiebreakStrategy = price_book +
  tk_maxPrices :: "string \<rightharpoonup> float64"
  tk_fired :: "string \<Rightarrow> bool"
  tk_series :: "string \<rightharpoonup> string"
  tk_hasDB :: bool
  tk_cfg :: TiebreakConfig

definition DefaultTiebreakConfig :: TiebreakConfig where
  "DefaultTiebreakConfig = \<lparr>tkc_MinPeakPrice = flit (40 / 100), tkc_MinDropPercent = flit (10 / 100),
     tkc_MaxDropPercent = flit (25 / 100), tkc_MinEntryPrice = flit (25 / 100), tkc_MaxEntryPrice = flit (60 / 100),
     tkc_ConvProb = flit (52 / 100), tkc_BaseSize = Fin 10, tkc_Label = ''tiebreak'', tkc_SeriesFilter = [],
     tkc_UTCHourStart = 0, tkc_UTCHourEnd = 0\<rparr>"

definition NewTiebreakStrategy :: "TiebreakConfig \<Rightarrow> TiebreakStrategy" where
  "NewTiebreakStrategy cfg = \<lparr>pb_markets = [], pb_replayNow = None, pb_prices = Map.empty, tk_maxPrices = Map.empty,
     tk_fired = (\<lambda>_. False), tk_series = Map.empty, tk_hasDB = False, tk_cfg = cfg\<rparr>"

definition NewTiebreakStrategyWithDB :: "TiebreakConfig \<Rightarrow> TiebreakStrategy" where
  "NewTiebreakStrategyWithDB cfg = (NewTiebreakStrategy cfg)\<lparr>tk_hasDB := True\<rparr>"

definition Tiebreak_SetSeriesTicker :: "string \<Rightarrow> string \<Rightarrow> TiebreakStrategy \<Rightarrow> TiebreakStrategy" where
  "Tiebreak_SetSeriesTicker ev series st = st\<lparr>tk_series := (tk_series st)(ev \<mapsto> series)\<rparr>"

definition Tiebreak_loadSeriesTicker :: "live_env \<Rightarrow> string \<Rightarrow> TiebreakStrategy \<Rightarrow> TiebreakStrategy" where
  "Tiebreak_loadSeriesTicker env ev st = st\<lparr>tk_series := load_series (le_seriesTicker env) ev (tk_series st)\<rparr>"

definition Tiebreak_RegisterMarkets :: "live_env \<Rightarrow> string \<Rightarrow> string list \<Rightarrow> TiebreakStrategy \<Rightarrow> TiebreakStrategy" where
  "Tiebreak_RegisterMarkets env ev mkts st =
     (let st1 = add_markets ev mkts st in if tk_hasDB st1 then Tiebreak_loadSeriesTicker env ev st1 else st1)"

definition Tiebreak_UnregisterMarkets :: "string \<Rightarrow> TiebreakStrategy \<Rightarrow> TiebreakStrategy" where
  "Tiebreak_UnregisterMarkets ev st =
     (drop_event ev st)\<lparr>tk_maxPrices := drop_all (live_event_markets st ev) (tk_maxPrices st),
        tk_fired := (tk_fired st)(ev := False), tk_series := drop_key ev (tk_series st)\<rparr>"

definition Tiebreak_DeletePrice :: "string \<Rightarrow> TiebreakStrategy \<Rightarrow> TiebreakStrategy" where
  "Tiebreak_DeletePrice mkt st = (delete_price mkt st)\<lparr>tk_maxPrices := drop_key mkt (tk_maxPrices st)\<rparr>"

definition Tiebreak_fire :: "string \<Rightarrow> TiebreakStrategy \<Rightarrow> bool \<Rightarrow> TiebreakStrategy act" where
  "Tiebreak_fire ev st ok = Return (if ok then st\<lparr>tk_fired := (tk_fired st)(ev := True)\<rparr> else st)"

definition Tiebreak_OnPriceAt :: "live_env \<Rightarrow> string \<Rightarrow> float64 \<Rightarrow> int \<Rightarrow> TiebreakStrategy \<Rightarrow> TiebreakStrategy act" where
  "Tiebreak_OnPriceAt env mkt price ts st0 =
     (let st = (set_price mkt price st0)\<lparr>tk_maxPrices := raise_peak mkt price (tk_maxPrices st0)\<rparr>;
          cfg = tk_cfg st;
          ev = eventForMarket env st mkt;
          maxPrice = num_of (tk_maxPrices st) mkt;
          dropPercent = fdiv (fsub maxPrice price) maxPrice;
          edge = edge_cents (tkc_ConvProb cfg) price in
      if ev = [] \<or> tk_fired st ev then Return st
      else if flt maxPrice (tkc_MinPeakPrice cfg) then Return st
      else if \<not> seriesMatches (series_of (tk_series st) ev) (tkc_SeriesFilter cfg) then Return st
      else if \<not> utcHourMatches ts (tkc_UTCHourStart cfg) (tkc_UTCHourEnd cfg) then Return st
      else if flt dropPercent (tkc_MinDropPercent cfg) \<or> flt (tkc_MaxDropPercent cfg) dropPercent then Return st
      else if flt price (tkc_MinEntryPrice cfg) \<or> flt (tkc_MaxEntryPrice cfg) price then Return st
      else if edge < 1 then Return st
      else
        Emit ((signal_order env (live_UnixMilli ts) ev mkt ''buy''
            (''tiebreak_drop_'' @ format0f (fmul dropPercent (Fin 100)) @ ''%'')
            (tkc_ConvProb cfg) price edge (kellySized env (tkc_ConvProb cfg) price) (tkc_Label cfg))
            \<lparr>or_Payload := le_marshal env
              [(''max_price'', JFloat maxPrice), (''entry_price'', JFloat price), (''drop_percent'', JFloat dropPercent),
               (''conv_prob'', JFloat (tkc_ConvProb cfg)), (''entry_ts'', JInt (live_UnixMilli ts))]\<rparr>)
          (Tiebreak_fire ev st))"

definition Tiebreak_OnPrice :: "live_env \<Rightarrow> string \<Rightarrow> float64 \<Rightarrow> TiebreakStrategy \<Rightarrow> TiebreakStrategy act" where
  "Tiebreak_OnPrice env mkt price st = Tiebreak_OnPriceAt env mkt price (live_now env 0 st) st"

definition Tiebreak_OnPoint :: "live_env \<Rightarrow> string \<Rightarrow> 'a Point_scheme \<Rightarrow> TiebreakStrategy \<Rightarrow> TiebreakStrategy act" where
  "Tiebreak_OnPoint env ev p st =
     (if \<not> pt_IsTiebreak p then Return st
      else if pt_Scorer p = pt_Server p then Return st
      else if tk_fired st ev then Return st
      else
     (case markets_of st ev of
        None \<Rightarrow> Return st
      | Some mkts \<Rightarrow>
     (case market_at mkts (pt_Server p = 2) of
        None \<Rightarrow> Panic
      | Some mkt \<Rightarrow>
     (let cfg = tk_cfg st;
          maxPrice = num_of (tk_maxPrices st) mkt;
          price = live_price st mkt;
          edge = edge_cents (tkc_ConvProb cfg) price in
      if \<not> seriesMatches (series_of (tk_series st) ev) (tkc_SeriesFilter cfg) then Return st
      else if \<not> utcHourMatches (live_now env 0 st) (tkc_UTCHourStart cfg) (tkc_UTCHourEnd cfg) then Return st
      else if flt maxPrice (tkc_MinPeakPrice cfg) then Return st
      else if flt price (tkc_MinEntryPrice cfg) \<or> flt (tkc_MaxEntryPrice cfg) price then Return st
      else if edge < 1 then Return st
      else
        Emit ((signal_order env (live_UnixMilli (live_now env 1 st)) ev mkt ''buy''
            (''tiebreak_minibreak_set'' @ show_int (pt_SetNumber p))
            (tkc_ConvProb cfg) price edge (kellySized env (tkc_ConvProb cfg) price) (tkc_Label cfg))
            \<lparr>or_SetNumber := pt_SetNumber p,
             or_Payload := le_marshal env
              [(''set'', JInt (pt_SetNumber p)), (''game'', JInt (pt_GameNumber p)), (''point'', JInt (pt_PointNumber p)),
               (''server'', JInt (pt_Server p)), (''scorer'', JInt (pt_Scorer p)), (''home_points'', JString (pt_HomePoints p)),
               (''away_points'', JString (pt_AwayPoints p)), (''broken_mkt'', JString mkt), (''max_price'', JFloat maxPrice),
               (''entry_price'', JFloat price), (''conv_prob'', JFloat (tkc_ConvProb cfg))]\<rparr>)
          (Tiebreak_fire ev st)))))"

section \<open>Arbitrage between the sides\<close>

record live_CrossArbConfig =
  cac_MinEdgeCents :: int
  cac_BaseSize :: float64
  cac_Label :: string

record CrossArbStrategy = price_book +
  ca_fired :: "string \<Rightarrow> bool"
  ca_cfg :: live_CrossArbConfig

definition live_DefaultCrossArbConfig :: live_CrossArbConfig where
  "live_DefaultCrossArbConfig = \<lparr>cac_MinEdgeCents = 2, cac_BaseSize = Fin 10, cac_Label = ''cross-arb''\<rparr>"

definition NewCrossArbStrategy :: "live_CrossArbConfig \<Rightarrow> CrossArbStrategy" where
  "NewCrossArbStrategy cfg = \<lparr>pb_markets = [], pb_replayNow = None, pb_prices = Map.empty, ca_fired = (\<lambda>_. False), ca_cfg = cfg\<rparr>"

definition CrossArb_RegisterMarkets :: "string \<Rightarrow> string list \<Rightarrow> CrossArbStrategy \<Rightarrow> CrossArbStrategy" where
  "CrossArb_RegisterMarkets ev mkts st = add_markets ev mkts st"

definition CrossArb_UnregisterMarkets :: "string \<Rightarrow> CrossArbStrategy \<Rightarrow> CrossArbStrategy" where
  "CrossArb_UnregisterMarkets ev st = (drop_event ev st)\<lparr>ca_fired := (ca_fired st)(ev := False)\<rparr>"

definition CrossArb_DeletePrice :: "string \<Rightarrow> CrossArbStrategy \<Rightarrow> CrossArbStrategy" where
  "CrossArb_DeletePrice mkt st = delete_price mkt st"

text \<open>The legs are sent in order; a refused leg ends the pair.\<close>

primrec send_legs :: "Order list \<Rightarrow> 'a \<Rightarrow> 'a act" where
  "send_legs [] st = Return st"
| "send_legs (ord # legs) st = Emit ord (\<lambda>ok. if ok then send_legs legs st else Return st)"

definition leg_price :: "string \<Rightarrow> float64 \<Rightarrow> float64 \<Rightarrow> string \<Rightarrow> float64" where
  "leg_price awayMkt homePrice awayPrice mkt = (if mkt = awayMkt then awayPrice else homePrice)"

definition pair_payload :: "live_env \<Rightarrow> float64 \<Rightarrow> float64 \<Rightarrow> int \<Rightarrow> string \<Rightarrow> string" where
  "pair_payload env homePrice awayPrice edge side =
     le_marshal env [(''home_yes'', JFloat homePrice), (''away_yes'', JFloat awayPrice),
       (''yes_sum'', JFloat (fadd homePrice awayPrice)), (''edge_cents'', JInt edge), (''side'', JString side),
       (''pair_id'', JString (le_uuid env))]"

definition fireBuyBothYES ::
  "live_env \<Rightarrow> string \<Rightarrow> string \<Rightarrow> string \<Rightarrow> float64 \<Rightarrow> float64 \<Rightarrow> int \<Rightarrow> int \<Rightarrow> CrossArbStrategy \<Rightarrow> CrossArbStrategy act" where
  "fireBuyBothYES env ev homeMkt awayMkt homePrice awayPrice edge ts st =
     send_legs
       (map (\<lambda>mkt.
          let price = leg_price awayMkt homePrice awayPrice mkt; prob = fsub (Fin 1) price in
          (signal_order env (live_UnixMilli ts) ev mkt ''buy'' (''crossarb_buy_yes_edge'' @ show_int edge @ ''c'') prob price edge
             (kellySized env prob price) (cac_Label (ca_cfg st)))
             \<lparr>or_Side := OrderSideOpen, or_Payload := pair_payload env homePrice awayPrice edge ''buy_both_yes'',
              or_PairID := le_uuid env\<rparr>)
          [homeMkt, awayMkt]) st"

definition fireBuyNO ::
  "live_env \<Rightarrow> string \<Rightarrow> string \<Rightarrow> string \<Rightarrow> float64 \<Rightarrow> float64 \<Rightarrow> int \<Rightarrow> int \<Rightarrow> CrossArbStrategy \<Rightarrow> CrossArbStrategy act" where
  "fireBuyNO env ev homeMkt awayMkt homePrice awayPrice edge ts st =
     send_legs
       (map (\<lambda>mkt.
          let price = leg_price awayMkt homePrice awayPrice mkt; noPrice = fsub (Fin 1) price in
          (signal_order env (live_UnixMilli ts) ev mkt ''buy_no'' (''crossarb_buy_no_edge'' @ show_int edge @ ''c'') price noPrice edge
             (kellySized env price noPrice) (cac_Label (ca_cfg st)))
             \<lparr>or_Side := OrderSideOpen, or_Payload := pair_payload env homePrice awayPrice edge ''buy_both_no'',
              or_PairID := le_uuid env\<rparr>)
          [homeMkt, awayMkt]) st"

definition CrossArb_OnPriceAt :: "live_env \<Rightarrow> string \<Rightarrow> float64 \<Rightarrow> int \<Rightarrow> CrossArbStrategy \<Rightarrow> CrossArbStrategy act" where
  "CrossArb_OnPriceAt env mkt price ts st0 =
     (let st = set_price mkt price st0; ev = eventForMarket env st mkt in
      if ev = [] \<or> ca_fired st ev then Return st
      else
     (case markets_of st ev of
        None \<Rightarrow> Return st
      | Some mkts \<Rightarrow>
     (if length mkts < 2 then Return st
      else
     (let homePrice = live_price st (mkts ! 0);
          awayPrice = live_price st (mkts ! 1);
          yesSum = fadd homePrice awayPrice;
          edge = to_int64 (fmul (fsub (Fin 1) yesSum) (Fin 100));
          noEdge = to_int64 (fmul (fsub yesSum (Fin 1)) (Fin 100));
          fired = st\<lparr>ca_fired := (ca_fired st)(ev := True)\<rparr> in
      if fle0 homePrice \<or> fle0 awayPrice then Return st
      else if edge < cac_MinEdgeCents (ca_cfg st)
      then
        (if noEdge < cac_MinEdgeCents (ca_cfg st) then Return st
         else fireBuyNO env ev (mkts ! 0) (mkts ! 1) homePrice awayPrice noEdge ts fired)
      else fireBuyBothYES env ev (mkts ! 0) (mkts ! 1) homePrice awayPrice edge ts fired))))"

definition CrossArb_OnPrice :: "live_env \<Rightarrow> string \<Rightarrow> float64 \<Rightarrow> CrossArbStrategy \<Rightarrow> CrossArbStrategy act" where
  "CrossArb_OnPrice env mkt price st = CrossArb_OnPriceAt env mkt price (live_now env 0 st) st"

end
