(* ===== verification/LiveE.thy ===== *)
theory LiveE
  imports LiveD
begin

text \<open>
  Strategies of the first version, part five: late favourites (\<open>fadelongshot.go\<close>, \<open>nofade.go\<close>) and the
  one-sided arbitrage (\<open>crossarb_favorite.go\<close>).
\<close>

section \<open>The other market of a match\<close>

text \<open>The first market of a match that is not the given one, with its price; both are zero if there is none.\<close>

definition live_other_market :: "'a price_book_scheme \<Rightarrow> string list \<Rightarrow> string \<Rightarrow> string \<times> float64" where
  "live_other_market st mkts mkt =
     (case filter (\<lambda>m. m \<noteq> mkt) mkts of [] \<Rightarrow> ([], Fin 0) | m # _ \<Rightarrow> (m, live_price st m))"

section \<open>Fading the longshot\<close>

record FadeLongshotConfig =
  flc_WindowSeconds :: int
  flc_MinPrice :: float64
  flc_MaxPrice :: float64
  flc_BaseSize :: float64
  flc_Label :: string
  flc_DynamicConvProb :: bool
  flc_SeriesFilter :: "string list"
  flc_UTCHourStart :: int
  flc_UTCHourEnd :: int

record fadeScoreState =
  fs_homeSetWins :: int
  fs_awaySetWins :: int
  fs_homeGames :: int
  fs_awayGames :: int
  fs_setNumber :: int
  fs_isMatchPoint :: bool
  fs_isSetPoint :: bool
  fs_firstPointTS :: int
  fs_pointsPlayed :: int

record FadeLongshotStrategy = timed_book +
  lfl_fired :: "string \<Rightarrow> bool"
  fl_scores :: "string \<rightharpoonup> fadeScoreState"
  fl_series :: "string \<rightharpoonup> string"
  fl_hasDB :: bool
  fl_cfg :: FadeLongshotConfig

definition DefaultFadeLongshotConfig :: FadeLongshotConfig where
  "DefaultFadeLongshotConfig = \<lparr>flc_WindowSeconds = 900, flc_MinPrice = flit (97 / 100), flc_MaxPrice = Fin 0,
     flc_BaseSize = Fin 10, flc_Label = ''fadelongshot'', flc_DynamicConvProb = True, flc_SeriesFilter = [],
     flc_UTCHourStart = 0, flc_UTCHourEnd = 0\<rparr>"

definition NewFadeLongshotStrategy :: "FadeLongshotConfig \<Rightarrow> FadeLongshotStrategy" where
  "NewFadeLongshotStrategy cfg = \<lparr>pb_markets = [], pb_replayNow = None, pb_prices = Map.empty, tb_priceTimes = Map.empty,
     lfl_fired = (\<lambda>_. False), fl_scores = Map.empty, fl_series = Map.empty, fl_hasDB = False, fl_cfg = cfg\<rparr>"

definition NewFadeLongshotStrategyWithDB :: "FadeLongshotConfig \<Rightarrow> FadeLongshotStrategy" where
  "NewFadeLongshotStrategyWithDB cfg = (NewFadeLongshotStrategy cfg)\<lparr>fl_hasDB := True\<rparr>"

definition FadeLongshot_loadSeriesTicker :: "live_env \<Rightarrow> string \<Rightarrow> FadeLongshotStrategy \<Rightarrow> FadeLongshotStrategy" where
  "FadeLongshot_loadSeriesTicker env ev st = st\<lparr>fl_series := load_series (le_seriesTicker env) ev (fl_series st)\<rparr>"

definition FadeLongshot_SetSeriesTicker :: "string \<Rightarrow> string \<Rightarrow> FadeLongshotStrategy \<Rightarrow> FadeLongshotStrategy" where
  "FadeLongshot_SetSeriesTicker ev series st = st\<lparr>fl_series := (fl_series st)(ev \<mapsto> series)\<rparr>"

definition FadeLongshot_RegisterMarkets :: "live_env \<Rightarrow> string \<Rightarrow> string list \<Rightarrow> FadeLongshotStrategy \<Rightarrow> FadeLongshotStrategy" where
  "FadeLongshot_RegisterMarkets env ev mkts st =
     (let st1 = add_markets ev mkts st in if fl_hasDB st1 then FadeLongshot_loadSeriesTicker env ev st1 else st1)"

definition FadeLongshot_UnregisterMarkets :: "string \<Rightarrow> FadeLongshotStrategy \<Rightarrow> FadeLongshotStrategy" where
  "FadeLongshot_UnregisterMarkets ev st =
     (drop_event_times ev st)\<lparr>lfl_fired := (lfl_fired st)(ev := False), fl_scores := drop_key ev (fl_scores st),
        fl_series := drop_key ev (fl_series st)\<rparr>"

definition FadeLongshot_DeletePrice :: "string \<Rightarrow> FadeLongshotStrategy \<Rightarrow> FadeLongshotStrategy" where
  "FadeLongshot_DeletePrice mkt st = delete_time mkt (delete_price mkt st)"

text \<open>The score a point leaves behind.\<close>

definition fade_score :: "'a Point_scheme \<Rightarrow> fadeScoreState option \<Rightarrow> fadeScoreState" where
  "fade_score p old =
     (let (played, first) = (case old of None \<Rightarrow> (0, 0) | Some ms \<Rightarrow> (fs_pointsPlayed ms, fs_firstPointTS ms)) in
      \<lparr>fs_homeSetWins = pt_HomeSetGames p, fs_awaySetWins = pt_AwaySetGames p, fs_homeGames = pt_HomeGames p,
       fs_awayGames = pt_AwayGames p, fs_setNumber = pt_SetNumber p, fs_isMatchPoint = pt_IsMatchPoint p,
       fs_isSetPoint = pt_IsSetPoint p,
       fs_firstPointTS = (if first = 0 \<and> pt_TS p > 0 then pt_TS p else first), fs_pointsPlayed = played + 1\<rparr>)"

definition FadeLongshot_dynamicConvProb :: "string \<Rightarrow> float64 \<Rightarrow> FadeLongshotStrategy \<Rightarrow> float64" where
  "FadeLongshot_dynamicConvProb ev favPrice st =
     (case fl_scores st ev of
        None \<Rightarrow> flit (99 / 100)
      | Some ms \<Rightarrow>
          (let p1 = fadd (flit (90 / 100)) (fmul (of_int64 \<bar>fs_homeSetWins ms - fs_awaySetWins ms\<bar>) (flit (3 / 100)));
               p2 = fadd p1 (fmul (of_int64 \<bar>fs_homeGames ms - fs_awayGames ms\<bar>) (flit (1 / 100)));
               p3 = (if fs_isMatchPoint ms then flit (995 / 1000) else p2);
               p4 = (if fs_isSetPoint ms \<and> \<not> fs_isMatchPoint ms then fmax p3 (flit (97 / 100)) else p3);
               p5 = (if fle p4 favPrice then fadd favPrice (flit (1 / 100)) else p4) in
           if flt (flit (999 / 1000)) p5 then flit (999 / 1000) else p5))"

definition remainingPoints :: "fadeScoreState \<Rightarrow> float64" where
  "remainingPoints ms = (if fs_isMatchPoint ms then Fin 0 else Fin 999)"

definition estimateRemainingMinLocked :: "fadeScoreState option \<Rightarrow> int \<Rightarrow> float64" where
  "estimateRemainingMinLocked score now =
     (case score of
        None \<Rightarrow> Fin 999
      | Some ms \<Rightarrow>
          (if fs_firstPointTS ms = 0 then Fin 999
           else
          (let elapsedMin = fdiv (of_int64 (live_UnixMilli now - fs_firstPointTS ms)) (Fin 60000);
               pace = fdiv (of_int64 (fs_pointsPlayed ms)) elapsedMin in
           if flt elapsedMin (Fin 1) then Fin 999
           else if fle0 pace then Fin 999
           else fdiv (remainingPoints ms) pace)))"

definition FadeLongshot_inSeries :: "string \<Rightarrow> FadeLongshotStrategy \<Rightarrow> bool" where
  "FadeLongshot_inSeries ev st \<longleftrightarrow>
     flc_SeriesFilter (fl_cfg st) = [] \<or>
     series_of (fl_series st) ev \<noteq> [] \<and> series_of (fl_series st) ev \<in> set (flc_SeriesFilter (fl_cfg st))"

definition FadeLongshot_inHours :: "int \<Rightarrow> FadeLongshotConfig \<Rightarrow> bool" where
  "FadeLongshot_inHours ts cfg \<longleftrightarrow>
     \<not> (flc_UTCHourStart cfg > 0 \<or> flc_UTCHourEnd cfg > 0) \<or>
     (let h = utcHour ts; start = flc_UTCHourStart cfg; stop = (if flc_UTCHourEnd cfg = 0 then 24 else flc_UTCHourEnd cfg) in
      if start \<le> stop then h \<ge> start \<and> h < stop else h \<ge> start \<or> h < stop)"

definition FadeLongshot_order ::
  "live_env \<Rightarrow> string \<Rightarrow> string \<Rightarrow> float64 \<Rightarrow> float64 \<Rightarrow> float64 \<Rightarrow> float64 \<Rightarrow> int \<Rightarrow> int \<Rightarrow> FadeLongshotConfig \<Rightarrow> Order" where
  "FadeLongshot_order env ev favMkt favPrice otherPrice convProb remainingMin edge ts cfg =
     (signal_order env (live_UnixMilli ts) ev favMkt ''buy'' (''fade_longshot_T-'' @ show_int (flc_WindowSeconds cfg) @ ''s'')
        convProb favPrice edge (kellySized env convProb favPrice) ''fadelongshot'')
        \<lparr>or_Payload := le_marshal env
          [(''window_s'', JInt (flc_WindowSeconds cfg)), (''remaining_min'', JFloat remainingMin), (''entry_ts'', JInt (live_UnixMilli ts)),
           (''fav_price'', JFloat favPrice), (''other_price'', JFloat otherPrice), (''conv_prob'', JFloat convProb),
           (''dynamic'', JBool (flc_DynamicConvProb cfg))]\<rparr>"

definition FadeLongshot_checkEntryAt :: "live_env \<Rightarrow> string \<Rightarrow> int \<Rightarrow> FadeLongshotStrategy \<Rightarrow> FadeLongshotStrategy act" where
  "FadeLongshot_checkEntryAt env mkt ts st =
     (let ev = eventForMarket env st mkt; cfg = fl_cfg st;
          remainingMin = estimateRemainingMinLocked (fl_scores st ev) ts;
          mkts = live_event_markets st ev;
          price = live_price st mkt;
          (otherMkt, otherPrice) = live_other_market st mkts mkt;
          (favMkt, favPrice) = (if flt price otherPrice then (otherMkt, otherPrice) else (mkt, price));
          convProb = (if flc_DynamicConvProb cfg then FadeLongshot_dynamicConvProb ev favPrice st else flit (99 / 100));
          edge = edge_cents convProb favPrice in
      if ev = [] \<or> lfl_fired st ev then Return st
      else if flt (fdiv (of_int64 (flc_WindowSeconds cfg)) (Fin 60)) remainingMin then Return st
      else if \<not> FadeLongshot_inSeries ev st then Return st
      else if \<not> FadeLongshot_inHours ts cfg then Return st
      else if length mkts < 2 then Return st
      else if fle0 price \<or> fle0 otherPrice then Return st
      else if flt favPrice (flc_MinPrice cfg) then Return st
      else if fpos (flc_MaxPrice cfg) \<and> flt (flc_MaxPrice cfg) favPrice then Return st
      else if edge < 1 then Return st
      else
        Emit (FadeLongshot_order env ev favMkt favPrice otherPrice convProb remainingMin edge ts cfg)
          (\<lambda>ok. Return (if ok then st\<lparr>lfl_fired := (lfl_fired st)(ev := True)\<rparr> else st)))"

definition FadeLongshot_OnPrice :: "live_env \<Rightarrow> string \<Rightarrow> float64 \<Rightarrow> FadeLongshotStrategy \<Rightarrow> FadeLongshotStrategy act" where
  "FadeLongshot_OnPrice env mkt price st =
     FadeLongshot_checkEntryAt env mkt (live_now env 1 st) (set_time mkt (live_now env 0 st) (set_price mkt price st))"

definition FadeLongshot_OnPriceAt :: "live_env \<Rightarrow> string \<Rightarrow> float64 \<Rightarrow> int \<Rightarrow> FadeLongshotStrategy \<Rightarrow> FadeLongshotStrategy act" where
  "FadeLongshot_OnPriceAt env mkt price ts st = FadeLongshot_checkEntryAt env mkt ts (set_time mkt ts (set_price mkt price st))"

text \<open>Every market of the event is checked, at successive readings of the clock.\<close>

primrec FadeLongshot_checkAll :: "live_env \<Rightarrow> nat \<Rightarrow> string list \<Rightarrow> FadeLongshotStrategy \<Rightarrow> FadeLongshotStrategy act" where
  "FadeLongshot_checkAll env k [] st = Return st"
| "FadeLongshot_checkAll env k (mkt # mkts) st =
     bind_act (FadeLongshot_checkEntryAt env mkt (live_now env k st) st) (\<lambda>st'. FadeLongshot_checkAll env (Suc k) mkts st')"

definition FadeLongshot_checkEntryForEvent :: "live_env \<Rightarrow> string \<Rightarrow> FadeLongshotStrategy \<Rightarrow> FadeLongshotStrategy act" where
  "FadeLongshot_checkEntryForEvent env ev st =
     (case markets_of st ev of
        None \<Rightarrow> Return st
      | Some mkts \<Rightarrow> if length mkts < 2 then Return st else FadeLongshot_checkAll env 0 mkts st)"

definition FadeLongshot_OnPoint :: "live_env \<Rightarrow> string \<Rightarrow> 'a Point_scheme \<Rightarrow> FadeLongshotStrategy \<Rightarrow> FadeLongshotStrategy act" where
  "FadeLongshot_OnPoint env ev p st =
     FadeLongshot_checkEntryForEvent env ev
       (st\<lparr>fl_scores := (fl_scores st)(ev \<mapsto> fade_score p (fl_scores st ev))\<rparr>)"

section \<open>Fading the NO side\<close>

record NoFadeConfig =
  nfc_WindowSeconds :: int
  nfc_MinFavPrice :: float64
  nfc_MaxNoPrice :: float64
  nfc_BaseSize :: float64
  nfc_Label :: string

record nofadeScoreState =
  ns_isMatchPoint :: bool
  ns_isSetPoint :: bool
  ns_setNumber :: int

record NoFadeStrategy = timed_book +
  nf_fired :: "string \<Rightarrow> bool"
  nf_scores :: "string \<rightharpoonup> nofadeScoreState"
  nf_cfg :: NoFadeConfig

definition DefaultNoFadeConfig :: NoFadeConfig where
  "DefaultNoFadeConfig = \<lparr>nfc_WindowSeconds = 900, nfc_MinFavPrice = flit (50 / 100), nfc_MaxNoPrice = flit (2 / 100),
     nfc_BaseSize = Fin 10, nfc_Label = ''nofade''\<rparr>"

text \<open>Its database handle is never used and is left out.\<close>

definition NewNoFadeStrategy :: "NoFadeConfig \<Rightarrow> NoFadeStrategy" where
  "NewNoFadeStrategy cfg = \<lparr>pb_markets = [], pb_replayNow = None, pb_prices = Map.empty, tb_priceTimes = Map.empty,
     nf_fired = (\<lambda>_. False), nf_scores = Map.empty, nf_cfg = cfg\<rparr>"

definition NoFade_RegisterMarkets :: "string \<Rightarrow> string list \<Rightarrow> NoFadeStrategy \<Rightarrow> NoFadeStrategy" where
  "NoFade_RegisterMarkets ev mkts st = add_markets ev mkts st"

definition NoFade_UnregisterMarkets :: "string \<Rightarrow> NoFadeStrategy \<Rightarrow> NoFadeStrategy" where
  "NoFade_UnregisterMarkets ev st = (drop_event_times ev st)\<lparr>nf_fired := (nf_fired st)(ev := False), nf_scores := drop_key ev (nf_scores st)\<rparr>"

definition NoFade_OnPoint :: "string \<Rightarrow> 'a Point_scheme \<Rightarrow> NoFadeStrategy \<Rightarrow> NoFadeStrategy" where
  "NoFade_OnPoint ev p st =
     st\<lparr>nf_scores := (nf_scores st)(ev \<mapsto>
       \<lparr>ns_isMatchPoint = pt_IsMatchPoint p, ns_isSetPoint = pt_IsSetPoint p, ns_setNumber = pt_SetNumber p\<rparr>)\<rparr>"

definition NoFade_DeletePrice :: "string \<Rightarrow> NoFadeStrategy \<Rightarrow> NoFadeStrategy" where
  "NoFade_DeletePrice mkt st = delete_time mkt (delete_price mkt st)"

definition NoFade_checkEntryAt :: "live_env \<Rightarrow> string \<Rightarrow> int \<Rightarrow> NoFadeStrategy \<Rightarrow> NoFadeStrategy act" where
  "NoFade_checkEntryAt env mkt ts st =
     (let ev = eventForMarket env st mkt; cfg = nf_cfg st;
          mkts = live_event_markets st ev;
          price = live_price st mkt;
          (otherMkt, otherPrice) = live_other_market st mkts mkt;
          (favMkt, favPrice, underdogPrice) =
            (if flt price otherPrice then (otherMkt, otherPrice, price) else (mkt, price, otherPrice));
          convProb = fsub (Fin 1) (nfc_MaxNoPrice cfg);
          edge = edge_cents convProb favPrice in
      if ev = [] \<or> nf_fired st ev then Return st
      else if length mkts < 2 then Return st
      else if fle0 price \<or> fle0 otherPrice then Return st
      else if flt (nfc_MaxNoPrice cfg) underdogPrice then Return st
      else if flt favPrice (nfc_MinFavPrice cfg) then Return st
      else if edge < 1 then Return st
      else
        Emit ((signal_order env (live_UnixMilli ts) ev favMkt ''buy''
            (''nofade_T-'' @ show_int (nfc_WindowSeconds cfg) @ ''s_no<'' @ format2f (nfc_MaxNoPrice cfg))
            convProb favPrice edge (kellySized env convProb favPrice) ''nofade'')
            \<lparr>or_Payload := le_marshal env
              [(''window_s'', JInt (nfc_WindowSeconds cfg)), (''entry_ts'', JInt (live_UnixMilli ts)), (''fav_price'', JFloat favPrice),
               (''underdog_yes'', JFloat underdogPrice), (''underdog_no'', JFloat (fsub (Fin 1) underdogPrice)),
               (''max_no_price'', JFloat (nfc_MaxNoPrice cfg)), (''conv_prob'', JFloat convProb)]\<rparr>)
          (\<lambda>ok. Return (if ok then st\<lparr>nf_fired := (nf_fired st)(ev := True)\<rparr> else st)))"

definition NoFade_OnPrice :: "live_env \<Rightarrow> string \<Rightarrow> float64 \<Rightarrow> NoFadeStrategy \<Rightarrow> NoFadeStrategy act" where
  "NoFade_OnPrice env mkt price st =
     NoFade_checkEntryAt env mkt (live_now env 1 st) (set_time mkt (live_now env 0 st) (set_price mkt price st))"

definition NoFade_OnPriceAt :: "live_env \<Rightarrow> string \<Rightarrow> float64 \<Rightarrow> int \<Rightarrow> NoFadeStrategy \<Rightarrow> NoFadeStrategy act" where
  "NoFade_OnPriceAt env mkt price ts st = NoFade_checkEntryAt env mkt ts (set_time mkt ts (set_price mkt price st))"

section \<open>Arbitrage against the favourite\<close>

record live_CrossArbFavoriteConfig =
  cfc_MinEdgeCents :: int
  cfc_MaxNOPrice :: float64
  cfc_Label :: string
  cfc_SeriesFilter :: "string list"
  cfc_UTCHourStart :: int
  cfc_UTCHourEnd :: int

record CrossArbFavoriteStrategy = price_book +
  cf_fired :: "string \<Rightarrow> bool"
  cf_series :: "string \<rightharpoonup> string"
  cf_hasDB :: bool
  cf_cfg :: live_CrossArbFavoriteConfig

definition live_DefaultCrossArbFavoriteConfig :: live_CrossArbFavoriteConfig where
  "live_DefaultCrossArbFavoriteConfig = \<lparr>cfc_MinEdgeCents = 2, cfc_MaxNOPrice = flit (30 / 100), cfc_Label = ''cross-arb-favorite'',
     cfc_SeriesFilter = [], cfc_UTCHourStart = 0, cfc_UTCHourEnd = 0\<rparr>"

definition NewCrossArbFavoriteStrategy :: "live_CrossArbFavoriteConfig \<Rightarrow> CrossArbFavoriteStrategy" where
  "NewCrossArbFavoriteStrategy cfg = \<lparr>pb_markets = [], pb_replayNow = None, pb_prices = Map.empty, cf_fired = (\<lambda>_. False),
     cf_series = Map.empty, cf_hasDB = False, cf_cfg = cfg\<rparr>"

definition NewCrossArbFavoriteStrategyWithDB :: "live_CrossArbFavoriteConfig \<Rightarrow> CrossArbFavoriteStrategy" where
  "NewCrossArbFavoriteStrategyWithDB cfg = (NewCrossArbFavoriteStrategy cfg)\<lparr>cf_hasDB := True\<rparr>"

definition CrossArbFavorite_SetSeriesTicker :: "string \<Rightarrow> string \<Rightarrow> CrossArbFavoriteStrategy \<Rightarrow> CrossArbFavoriteStrategy" where
  "CrossArbFavorite_SetSeriesTicker ev series st = st\<lparr>cf_series := (cf_series st)(ev \<mapsto> series)\<rparr>"

definition CrossArbFavorite_loadSeriesTicker :: "live_env \<Rightarrow> string \<Rightarrow> CrossArbFavoriteStrategy \<Rightarrow> CrossArbFavoriteStrategy" where
  "CrossArbFavorite_loadSeriesTicker env ev st = st\<lparr>cf_series := load_series (le_seriesTicker env) ev (cf_series st)\<rparr>"

definition CrossArbFavorite_RegisterMarkets :: "live_env \<Rightarrow> string \<Rightarrow> string list \<Rightarrow> CrossArbFavoriteStrategy \<Rightarrow> CrossArbFavoriteStrategy" where
  "CrossArbFavorite_RegisterMarkets env ev mkts st =
     (let st1 = add_markets ev mkts st in if cf_hasDB st1 then CrossArbFavorite_loadSeriesTicker env ev st1 else st1)"

definition CrossArbFavorite_UnregisterMarkets :: "string \<Rightarrow> CrossArbFavoriteStrategy \<Rightarrow> CrossArbFavoriteStrategy" where
  "CrossArbFavorite_UnregisterMarkets ev st =
     (drop_event ev st)\<lparr>cf_fired := (cf_fired st)(ev := False), cf_series := drop_key ev (cf_series st)\<rparr>"

definition CrossArbFavorite_DeletePrice :: "string \<Rightarrow> CrossArbFavoriteStrategy \<Rightarrow> CrossArbFavoriteStrategy" where
  "CrossArbFavorite_DeletePrice mkt st = delete_price mkt st"

definition fireBuyFavoriteNO ::
  "live_env \<Rightarrow> string \<Rightarrow> string \<Rightarrow> float64 \<Rightarrow> float64 \<Rightarrow> int \<Rightarrow> int \<Rightarrow> CrossArbFavoriteStrategy \<Rightarrow> CrossArbFavoriteStrategy act" where
  "fireBuyFavoriteNO env ev favMkt favYes noPrice edge ts st =
     Emit ((signal_order env (live_UnixMilli ts) ev favMkt ''buy_no'' (''crossarbfav_buy_no_edge'' @ show_int edge @ ''c'')
         favYes noPrice edge (kellySized env favYes noPrice) (cfc_Label (cf_cfg st)))
         \<lparr>or_Payload := le_marshal env
           [(''favorite_yes'', JFloat favYes), (''no_price'', JFloat noPrice),
            (''yes_sum'', JFloat (fadd favYes (fsub (Fin 1) noPrice))), (''edge_cents'', JInt edge),
            (''side'', JString ''buy_favorite_no'')]\<rparr>)
       (\<lambda>_. Return st)"

definition CrossArbFavorite_OnPriceAt :: "live_env \<Rightarrow> string \<Rightarrow> float64 \<Rightarrow> int \<Rightarrow> CrossArbFavoriteStrategy \<Rightarrow> CrossArbFavoriteStrategy act" where
  "CrossArbFavorite_OnPriceAt env mkt price ts st0 =
     (let st = set_price mkt price st0; ev = eventForMarket env st mkt; cfg = cf_cfg st in
      if ev = [] \<or> cf_fired st ev then Return st
      else
     (case markets_of st ev of
        None \<Rightarrow> Return st
      | Some mkts \<Rightarrow>
     (if length mkts < 2 then Return st
      else
     (let homePrice = live_price st (mkts ! 0);
          awayPrice = live_price st (mkts ! 1);
          yesSum = fadd homePrice awayPrice;
          noEdge = to_int64 (fmul (fsub yesSum (Fin 1)) (Fin 100));
          (favMkt, favYes) = (if flt homePrice awayPrice then (mkts ! 1, awayPrice) else (mkts ! 0, homePrice));
          noPrice = fsub (Fin 1) favYes in
      if fle0 homePrice \<or> fle0 awayPrice then Return st
      else if noEdge < cfc_MinEdgeCents cfg then Return st
      else if \<not> seriesMatches (series_of (cf_series st) ev) (cfc_SeriesFilter cfg) then Return st
      else if \<not> utcHourMatches ts (cfc_UTCHourStart cfg) (cfc_UTCHourEnd cfg) then Return st
      else if flt (cfc_MaxNOPrice cfg) noPrice then Return st
      else fireBuyFavoriteNO env ev favMkt favYes noPrice noEdge ts (st\<lparr>cf_fired := (cf_fired st)(ev := True)\<rparr>)))))"

definition CrossArbFavorite_OnPrice :: "live_env \<Rightarrow> string \<Rightarrow> float64 \<Rightarrow> CrossArbFavoriteStrategy \<Rightarrow> CrossArbFavoriteStrategy act" where
  "CrossArbFavorite_OnPrice env mkt price st = CrossArbFavorite_OnPriceAt env mkt price (live_now env 0 st) st"

end
