(* ===== verification/LiveF.thy ===== *)
theory LiveF
  imports LiveE
begin

text \<open>
  Strategies of the first version, part six: fading a price spike (\<open>spike_fade.go\<close>) and the set winner
  (\<open>setwinner.go\<close>).
\<close>

section \<open>Fading a spike\<close>

record SpikeFadeConfig =
  skc_SpikeThresholdCents :: int
  skc_WindowSeconds :: int
  skc_HoldSeconds :: int
  skc_MinEntryPrice :: float64
  skc_MaxEntryPrice :: float64
  skc_BaseSize :: float64
  skc_Label :: string

record live_priceSample =
  lsm_ts :: int
  lsm_price :: float64

record spikeScoreState =
  ss_isMatchPoint :: bool
  ss_isSetPoint :: bool

record SpikeFadeStrategy = market_book +
  sk_prices :: "string \<rightharpoonup> live_priceSample list"
  sk_fired :: "string \<Rightarrow> bool"
  sk_scoreState :: "string \<rightharpoonup> spikeScoreState"
  sk_cfg :: SpikeFadeConfig

definition DefaultSpikeFadeConfig :: SpikeFadeConfig where
  "DefaultSpikeFadeConfig = \<lparr>skc_SpikeThresholdCents = 30, skc_WindowSeconds = 30, skc_HoldSeconds = 60,
     skc_MinEntryPrice = flit (20 / 100), skc_MaxEntryPrice = flit (95 / 100), skc_BaseSize = Fin 10, skc_Label = ''spike-fade''\<rparr>"

definition NewSpikeFadeStrategy :: "SpikeFadeConfig \<Rightarrow> SpikeFadeStrategy" where
  "NewSpikeFadeStrategy cfg = \<lparr>pb_markets = [], pb_replayNow = None, sk_prices = Map.empty, sk_fired = (\<lambda>_. False),
     sk_scoreState = Map.empty, sk_cfg = cfg\<rparr>"

definition SpikeFade_RegisterMarkets :: "string \<Rightarrow> string list \<Rightarrow> SpikeFadeStrategy \<Rightarrow> SpikeFadeStrategy" where
  "SpikeFade_RegisterMarkets ev mkts st = add_markets ev mkts st"

definition SpikeFade_UnregisterMarkets :: "string \<Rightarrow> SpikeFadeStrategy \<Rightarrow> SpikeFadeStrategy" where
  "SpikeFade_UnregisterMarkets ev st =
     (drop_markets ev st)\<lparr>sk_prices := drop_all (live_event_markets st ev) (sk_prices st),
        sk_fired := (sk_fired st)(ev := False), sk_scoreState := drop_key ev (sk_scoreState st)\<rparr>"

definition SpikeFade_DeletePrice :: "string \<Rightarrow> SpikeFadeStrategy \<Rightarrow> SpikeFadeStrategy" where
  "SpikeFade_DeletePrice mkt st = st\<lparr>sk_prices := drop_key mkt (sk_prices st)\<rparr>"

definition samples_of :: "SpikeFadeStrategy \<Rightarrow> string \<Rightarrow> live_priceSample list" where
  "samples_of st mkt = (case sk_prices st mkt of None \<Rightarrow> [] | Some xs \<Rightarrow> xs)"

text \<open>The window of samples after a new price.\<close>

definition slide_window :: "int \<Rightarrow> float64 \<Rightarrow> int \<Rightarrow> live_priceSample list \<Rightarrow> live_priceSample list" where
  "slide_window windowSeconds price ts samples =
     dropWhile (\<lambda>sm. lsm_ts sm < live_UnixMilli ts - windowSeconds * 1000)
       (samples @ [\<lparr>lsm_ts = live_UnixMilli ts, lsm_price = price\<rparr>])"

definition SpikeFade_order ::
  "live_env \<Rightarrow> string \<Rightarrow> string \<Rightarrow> string \<Rightarrow> float64 \<Rightarrow> float64 \<Rightarrow> float64 \<Rightarrow> int \<Rightarrow> int \<Rightarrow> SpikeFadeConfig \<Rightarrow> Order" where
  "SpikeFade_order env ev mkt otherMkt windowStart currentPrice otherPrice spike ts cfg =
     (let fv0 = fsub (Fin 1) windowStart;
          fairValue = (if flt (flit (99 / 100)) fv0 then flit (99 / 100) else fv0);
          edge0 = edge_cents fairValue otherPrice;
          edge = (if edge0 < 1 then 1 else edge0) in
      (signal_order env (live_UnixMilli ts) ev otherMkt ''buy'' (''spikefade_'' @ show_int spike @ ''c_fade'')
         fairValue otherPrice edge (kellySized env fairValue otherPrice) (skc_Label cfg))
         \<lparr>or_Payload := le_marshal env
           [(''spiked_mkt'', JString mkt), (''spiked_price'', JFloat currentPrice), (''pre_spike'', JFloat windowStart),
            (''spike_cents'', JInt spike), (''fade_mkt'', JString otherMkt), (''fade_price'', JFloat otherPrice),
            (''fair_value'', JFloat fairValue), (''hold_seconds'', JInt (skc_HoldSeconds cfg))]\<rparr>)"

definition SpikeFade_OnPriceAt :: "live_env \<Rightarrow> string \<Rightarrow> float64 \<Rightarrow> int \<Rightarrow> SpikeFadeStrategy \<Rightarrow> SpikeFadeStrategy act" where
  "SpikeFade_OnPriceAt env mkt price ts st0 =
     (let cfg = sk_cfg st0;
          samples = slide_window (skc_WindowSeconds cfg) price ts (samples_of st0 mkt);
          st = st0\<lparr>sk_prices := (sk_prices st0)(mkt \<mapsto> samples)\<rparr>;
          ev = eventForMarket env st mkt in
      if ev = [] \<or> sk_fired st ev then Return st
      else if (case sk_scoreState st ev of None \<Rightarrow> False | Some ss \<Rightarrow> ss_isMatchPoint ss \<or> ss_isSetPoint ss) then Return st
      else if length samples < 2 then Return st
      else
     (let windowStart = lsm_price (samples ! 0);
          currentPrice = lsm_price (samples ! (length samples - 1));
          spike = plain_edge currentPrice windowStart in
      if spike < skc_SpikeThresholdCents cfg then Return st
      else if flt currentPrice (skc_MinEntryPrice cfg) \<or> flt (skc_MaxEntryPrice cfg) currentPrice then Return st
      else
     (case filter (\<lambda>m. m \<noteq> mkt) (live_event_markets st ev) of
        [] \<Rightarrow> Return st
      | otherMkt # _ \<Rightarrow>
          (let otherSamples = samples_of st otherMkt;
               otherPrice = (if otherSamples = [] then Fin 0 else lsm_price (otherSamples ! (length otherSamples - 1))) in
           if otherMkt = [] \<or> fle0 otherPrice then Return st
           else
             Emit (SpikeFade_order env ev mkt otherMkt windowStart currentPrice otherPrice spike ts cfg)
               (\<lambda>_. Return (st\<lparr>sk_fired := (sk_fired st)(ev := True)\<rparr>))))))"

definition SpikeFade_OnPrice :: "live_env \<Rightarrow> string \<Rightarrow> float64 \<Rightarrow> SpikeFadeStrategy \<Rightarrow> SpikeFadeStrategy act" where
  "SpikeFade_OnPrice env mkt price st = SpikeFade_OnPriceAt env mkt price (live_now env 0 st) st"

definition SpikeFade_OnPoint :: "string \<Rightarrow> 'a Point_scheme \<Rightarrow> SpikeFadeStrategy \<Rightarrow> SpikeFadeStrategy" where
  "SpikeFade_OnPoint ev p st =
     st\<lparr>sk_scoreState := (sk_scoreState st)(ev \<mapsto> \<lparr>ss_isMatchPoint = pt_IsMatchPoint p, ss_isSetPoint = pt_IsSetPoint p\<rparr>)\<rparr>"

section \<open>The set winner\<close>

record SetWinnerConfig =
  swc_PServe :: float64
  swc_ReversalPenalty :: float64
  swc_DecidingSetBoost :: float64
  swc_MinEdgeCents :: int
  swc_MinMarketPrice :: float64
  swc_MaxMarketPrice :: float64
  swc_CooldownPoints :: int
  swc_Label :: string

record swMatchState = live_matchState +
  sw_set2WinnerHome :: bool
  sw_set2WinnerKnown :: bool
  sw_pointsSinceFire :: int

record SetWinnerStrategy = timed_book +
  sw_states :: "string \<rightharpoonup> swMatchState"
  sw_seenPoints :: "string \<Rightarrow> string set"
  sw_model :: float64
  sw_cfg :: SetWinnerConfig

definition DefaultSetWinnerConfig :: SetWinnerConfig where
  "DefaultSetWinnerConfig = \<lparr>swc_PServe = flit (64 / 100), swc_ReversalPenalty = flit (3 / 100),
     swc_DecidingSetBoost = flit (2 / 100), swc_MinEdgeCents = 3, swc_MinMarketPrice = flit (5 / 100),
     swc_MaxMarketPrice = flit (92 / 100), swc_CooldownPoints = 3, swc_Label = ''setwinner''\<rparr>"

definition new_swMatchState :: swMatchState where
  "new_swMatchState = \<lparr>lms_setsHome = 0, lms_setsAway = 0, lms_lastSetNum = 0, lms_lastHomeGames = 0, lms_lastAwayGames = 0,
     lms_lastScorer = 0, sw_set2WinnerHome = False, sw_set2WinnerKnown = False, sw_pointsSinceFire = 0\<rparr>"

definition NewSetWinnerStrategy :: "SetWinnerConfig \<Rightarrow> SetWinnerStrategy" where
  "NewSetWinnerStrategy cfg = \<lparr>pb_markets = [], pb_replayNow = None, pb_prices = Map.empty, tb_priceTimes = Map.empty,
     sw_states = Map.empty, sw_seenPoints = (\<lambda>_. {}), sw_model = swc_PServe cfg, sw_cfg = cfg\<rparr>"

definition SetWinner_SetSharedMarkovModel :: "float64 \<Rightarrow> SetWinnerStrategy \<Rightarrow> SetWinnerStrategy" where
  "SetWinner_SetSharedMarkovModel m st = st\<lparr>sw_model := m\<rparr>"

definition SetWinner_RegisterMarkets :: "string \<Rightarrow> string list \<Rightarrow> SetWinnerStrategy \<Rightarrow> SetWinnerStrategy" where
  "SetWinner_RegisterMarkets ev mkts st0 =
     (let st = add_markets ev mkts st0 in
      if sw_states st ev = None then st\<lparr>sw_states := (sw_states st)(ev \<mapsto> new_swMatchState)\<rparr> else st)"

definition SetWinner_UnregisterMarkets :: "string \<Rightarrow> SetWinnerStrategy \<Rightarrow> SetWinnerStrategy" where
  "SetWinner_UnregisterMarkets ev st =
     (drop_event_times ev st)\<lparr>sw_states := drop_key ev (sw_states st), sw_seenPoints := (sw_seenPoints st)(ev := {})\<rparr>"

definition SetWinner_OnPrice :: "live_env \<Rightarrow> string \<Rightarrow> float64 \<Rightarrow> SetWinnerStrategy \<Rightarrow> SetWinnerStrategy" where
  "SetWinner_OnPrice env mkt p st = set_time mkt (live_now env 0 st) (set_price mkt p st)"

definition SetWinner_OnPriceAt :: "string \<Rightarrow> float64 \<Rightarrow> int \<Rightarrow> SetWinnerStrategy \<Rightarrow> SetWinnerStrategy" where
  "SetWinner_OnPriceAt mkt p ts st = set_time mkt ts (set_price mkt p st)"

definition SetWinner_DeletePrice :: "string \<Rightarrow> SetWinnerStrategy \<Rightarrow> SetWinnerStrategy" where
  "SetWinner_DeletePrice mkt st = delete_time mkt (delete_price mkt st)"

text \<open>Whether the set that has just ended went to the home player.\<close>

definition set_winner_home :: "'b live_matchState_scheme \<Rightarrow> bool" where
  "set_winner_home ms \<longleftrightarrow>
     lms_lastHomeGames ms > lms_lastAwayGames ms \<or>
     \<not> lms_lastAwayGames ms > lms_lastHomeGames ms \<and> lms_lastScorer ms = 1"

definition SetWinner_updateMatchState :: "string \<Rightarrow> 'a Point_scheme \<Rightarrow> SetWinnerStrategy \<Rightarrow> SetWinnerStrategy" where
  "SetWinner_updateMatchState ev p st =
     (let ms = (case sw_states st ev of None \<Rightarrow> new_swMatchState | Some ms \<Rightarrow> ms);
          ms1 = (if pt_SetNumber p > lms_lastSetNum ms \<and> lms_lastSetNum ms = 2
                 then ms\<lparr>sw_set2WinnerHome := set_winner_home ms, sw_set2WinnerKnown := True\<rparr> else ms);
          ms2 = track_sets p ms1 in
      st\<lparr>sw_states := (sw_states st)(ev \<mapsto> ms2\<lparr>sw_pointsSinceFire := sw_pointsSinceFire ms2 + 1\<rparr>)\<rparr>)"

definition clamp01 :: "float64 \<Rightarrow> float64" where
  "clamp01 x = fmax (flit (1 / 100)) (fmin (flit (99 / 100)) x)"

definition applyPerSetAdjustment :: "SetWinnerConfig \<Rightarrow> float64 \<Rightarrow> int \<Rightarrow> int \<Rightarrow> int \<Rightarrow> swMatchState \<Rightarrow> float64" where
  "applyPerSetAdjustment cfg homeFV setsHome setsAway setNum ms =
     (let pen = swc_ReversalPenalty cfg; boost = swc_DecidingSetBoost cfg;
          reverted = clamp01 (if setsHome > setsAway then fsub homeFV pen
                              else if setsAway > setsHome then fadd homeFV pen else homeFV) in
      if pen = Fin 0 \<and> boost = Fin 0 then homeFV
      else if setNum = 1 then homeFV
      else if setNum = 2 then reverted
      else if setNum = 3 \<and> setsHome = 1 \<and> setsAway = 1
      then
        (if \<not> sw_set2WinnerKnown ms then homeFV
         else clamp01 (if sw_set2WinnerHome ms then fadd homeFV boost else fsub homeFV boost))
      else if setNum \<ge> 4 then reverted
      else homeFV)"

definition live_SetWinProbability :: "float64 \<Rightarrow> 'a Point_scheme \<Rightarrow> float64" where
  "live_SetWinProbability pServe p =
     fst (live_SetWinProb (pt_HomeGames p) (pt_AwayGames p) (pt_HomePoints p) (pt_AwayPoints p) (pt_Server p) (pt_IsTiebreak p)
       (NewMarkovModelWithProb pServe))"

definition SetWinner_order ::
  "live_env \<Rightarrow> string \<Rightarrow> 'a Point_scheme \<Rightarrow> swMatchState \<Rightarrow> float64 \<Rightarrow> float64 \<Rightarrow> string \<Rightarrow> bool \<Rightarrow> float64 \<Rightarrow> float64 \<Rightarrow> int \<Rightarrow> int \<Rightarrow> SetWinnerStrategy \<Rightarrow> Order" where
  "SetWinner_order env ev p ms homeFV adjusted mkt isHome fv price edge now st =
     (signal_order env (live_UnixMilli now) ev mkt ''buy''
        (''setwinner_s'' @ show_int (pt_SetNumber p) @ ''_'' @ show_int (pt_HomeGames p) @ ''-'' @ show_int (pt_AwayGames p) @
         ''_edge'' @ show_int edge)
        fv price edge (kellySized env fv price) (swc_Label (sw_cfg st)))
        \<lparr>or_SetNumber := pt_SetNumber p,
         or_Payload := le_marshal env
          [(''set_number'', JInt (pt_SetNumber p)), (''sets_home'', JInt (lms_setsHome ms)), (''sets_away'', JInt (lms_setsAway ms)),
           (''home_games'', JInt (pt_HomeGames p)), (''away_games'', JInt (pt_AwayGames p)),
           (''home_points'', JString (pt_HomePoints p)), (''away_points'', JString (pt_AwayPoints p)),
           (''server'', JInt (pt_Server p)), (''is_tiebreak'', JBool (pt_IsTiebreak p)), (''markov_fv'', JFloat homeFV),
           (''adjusted_fv'', JFloat adjusted), (''adjustment'', JFloat (fsub adjusted homeFV)),
           (''set_win_prob'', JFloat (live_SetWinProbability (sw_model st) p)), (''target_side'', JBool isHome),
           (''target_fv'', JFloat fv), (''target_price'', JFloat price), (''target_edge'', JInt edge)]\<rparr>"

definition SetWinner_processPoint :: "live_env \<Rightarrow> string \<Rightarrow> 'a Point_scheme \<Rightarrow> SetWinnerStrategy \<Rightarrow> SetWinnerStrategy act" where
  "SetWinner_processPoint env ev p st0 =
     (if live_pointKey p \<in> sw_seenPoints st0 ev then Return st0
      else
     (let st = st0\<lparr>sw_seenPoints := (sw_seenPoints st0)(ev := insert (live_pointKey p) (sw_seenPoints st0 ev))\<rparr>; cfg = sw_cfg st in
      case (sw_states st ev, markets_of st ev) of
        (Some ms, Some mkts) \<Rightarrow>
     (if length mkts < 2 then Return st
      else if sw_pointsSinceFire ms < swc_CooldownPoints cfg then Return st
      else if lms_setsHome ms \<ge> live_setsToWin \<or> lms_setsAway ms \<ge> live_setsToWin then Return st
      else
     (let homeFV = live_fair_value (sw_model st) (lms_setsHome ms) (lms_setsAway ms) p;
          adjHome = applyPerSetAdjustment cfg homeFV (lms_setsHome ms) (lms_setsAway ms) (pt_SetNumber p) ms;
          adjAway = fsub (Fin 1) adjHome;
          now = live_now env 0 st;
          homePrice = live_price st (mkts ! 0);
          awayPrice = live_price st (mkts ! 1);
          homeEdge = edge_cents adjHome homePrice;
          awayEdge = edge_cents adjAway awayPrice;
          (mkt, fv, price, edge) =
            (if homeEdge \<ge> awayEdge then (mkts ! 0, adjHome, homePrice, homeEdge) else (mkts ! 1, adjAway, awayPrice, awayEdge)) in
      if fle0 price then Return st
      else if price_age now st mkt > live_priceStaleTTL then Return st
      else if edge < swc_MinEdgeCents cfg then Return st
      else if flt price (swc_MinMarketPrice cfg) then Return st
      else if flt (swc_MaxMarketPrice cfg) price then Return st
      else
        Emit (SetWinner_order env ev p ms homeFV adjHome mkt (mkt = mkts ! 0) fv price edge now st)
          (\<lambda>ok. Return (if ok then st\<lparr>sw_states := (sw_states st)(ev \<mapsto> ms\<lparr>sw_pointsSinceFire := 0\<rparr>)\<rparr> else st))))
      | _ \<Rightarrow> Return st))"

definition SetWinner_OnPoint :: "live_env \<Rightarrow> string \<Rightarrow> 'a Point_scheme \<Rightarrow> SetWinnerStrategy \<Rightarrow> SetWinnerStrategy act" where
  "SetWinner_OnPoint env ev p st = SetWinner_processPoint env ev p (SetWinner_updateMatchState ev p st)"

end
