(* ===== verification/LiveG.thy ===== *)
theory LiveG
  imports LiveF
begin

text \<open>
  Strategies of the first version, part seven: the volume ratio (\<open>volratio.go\<close>), the surface model
  (\<open>surface_markov.go\<close>) and the settlement sniper (\<open>settlementsniper.go\<close>).
\<close>

section \<open>Volume ratio\<close>

record VolumeRatioConfig =
  vrc_WindowSeconds :: int
  vrc_MinVolumeRatio :: float64
  vrc_MinPrice :: float64
  vrc_MaxPrice :: float64
  vrc_BaseSize :: float64
  vrc_Label :: string

record TickVolume =
  tv_TS :: int
  tv_DollarVolume :: float64

record VolumeRatioStrategy = price_book +
  vr_closeTs :: "string \<rightharpoonup> int"
  vr_fired :: "string \<Rightarrow> bool"
  vr_volSeries :: "string \<rightharpoonup> TickVolume list"
  vr_hasDB :: bool
  vr_cfg :: VolumeRatioConfig

definition DefaultVolumeRatioConfig :: VolumeRatioConfig where
  "DefaultVolumeRatioConfig = \<lparr>vrc_WindowSeconds = 600, vrc_MinVolumeRatio = Fin 2, vrc_MinPrice = flit (10 / 100),
     vrc_MaxPrice = flit (90 / 100), vrc_BaseSize = Fin 10, vrc_Label = ''volratio''\<rparr>"

definition NewVolumeRatioStrategy :: "VolumeRatioConfig \<Rightarrow> VolumeRatioStrategy" where
  "NewVolumeRatioStrategy cfg = \<lparr>pb_markets = [], pb_replayNow = None, pb_prices = Map.empty, vr_closeTs = Map.empty,
     vr_fired = (\<lambda>_. False), vr_volSeries = Map.empty, vr_hasDB = False, vr_cfg = cfg\<rparr>"

definition NewVolumeRatioStrategyWithDB :: "VolumeRatioConfig \<Rightarrow> VolumeRatioStrategy" where
  "NewVolumeRatioStrategyWithDB cfg = (NewVolumeRatioStrategy cfg)\<lparr>vr_hasDB := True\<rparr>"

definition VolumeRatio_loadCloseTime :: "live_env \<Rightarrow> string \<Rightarrow> VolumeRatioStrategy \<Rightarrow> VolumeRatioStrategy" where
  "VolumeRatio_loadCloseTime env ev st =
     (case le_closeTS env ev of
        None \<Rightarrow> st
      | Some stamps \<Rightarrow>
          (case filter (\<lambda>t. t > 0) stamps of
             [] \<Rightarrow> st
           | t # _ \<Rightarrow> st\<lparr>vr_closeTs := (vr_closeTs st)(ev \<mapsto> t)\<rparr>))"

definition VolumeRatio_RegisterMarkets :: "live_env \<Rightarrow> string \<Rightarrow> string list \<Rightarrow> VolumeRatioStrategy \<Rightarrow> VolumeRatioStrategy" where
  "VolumeRatio_RegisterMarkets env ev mkts st =
     (let st1 = add_markets ev mkts st in if vr_hasDB st1 then VolumeRatio_loadCloseTime env ev st1 else st1)"

definition VolumeRatio_RegisterCloseTime :: "string \<Rightarrow> int \<Rightarrow> VolumeRatioStrategy \<Rightarrow> VolumeRatioStrategy" where
  "VolumeRatio_RegisterCloseTime ev t st = st\<lparr>vr_closeTs := (vr_closeTs st)(ev \<mapsto> t)\<rparr>"

definition VolumeRatio_SetVolumeSeries :: "string \<Rightarrow> TickVolume list \<Rightarrow> VolumeRatioStrategy \<Rightarrow> VolumeRatioStrategy" where
  "VolumeRatio_SetVolumeSeries mkt vols st = st\<lparr>vr_volSeries := (vr_volSeries st)(mkt \<mapsto> vols)\<rparr>"

text \<open>\<open>sort.Search\<close>: the bisection between \<open>i\<close> and \<open>j\<close>.\<close>

function sort_search :: "(nat \<Rightarrow> bool) \<Rightarrow> nat \<Rightarrow> nat \<Rightarrow> nat" where
  "sort_search f i j =
     (if i < j then (let h = (i + j) div 2 in if \<not> f h then sort_search f (h + 1) j else sort_search f i h) else i)"
  by pat_completeness auto
termination by (relation "measure (\<lambda>(f, i, j). j - i)") auto

declare sort_search.simps [simp del]

definition volumeAtTime :: "string \<Rightarrow> int \<Rightarrow> VolumeRatioStrategy \<Rightarrow> float64" where
  "volumeAtTime mkt ts st =
     (case vr_volSeries st mkt of
        None \<Rightarrow> Fin 0
      | Some series \<Rightarrow>
          (let idx = sort_search (\<lambda>i. tv_TS (series ! i) > ts) 0 (length series) in
           if idx = 0 then Fin 0 else tv_DollarVolume (series ! (idx - 1))))"

definition queryLatestVolume :: "live_env \<Rightarrow> string \<Rightarrow> float64" where
  "queryLatestVolume env mkt =
     (case le_dollarVolume env mkt of None \<Rightarrow> Fin 0 | Some vol \<Rightarrow> if fle0 vol then Fin 0 else vol)"

definition VolumeRatio_volume :: "live_env \<Rightarrow> string \<Rightarrow> int \<Rightarrow> VolumeRatioStrategy \<Rightarrow> float64" where
  "VolumeRatio_volume env mkt ts st =
     (let v = volumeAtTime mkt ts st in if v = Fin 0 \<and> vr_hasDB st then queryLatestVolume env mkt else v)"

definition VolumeRatio_UnregisterMarkets :: "string \<Rightarrow> VolumeRatioStrategy \<Rightarrow> VolumeRatioStrategy" where
  "VolumeRatio_UnregisterMarkets ev st =
     (drop_event ev st)\<lparr>vr_volSeries := drop_all (live_event_markets st ev) (vr_volSeries st),
        vr_closeTs := drop_key ev (vr_closeTs st), vr_fired := (vr_fired st)(ev := False)\<rparr>"

definition VolumeRatio_DeletePrice :: "string \<Rightarrow> VolumeRatioStrategy \<Rightarrow> VolumeRatioStrategy" where
  "VolumeRatio_DeletePrice mkt st = (delete_price mkt st)\<lparr>vr_volSeries := drop_key mkt (vr_volSeries st)\<rparr>"

text \<open>The probability that the ratio of the volumes suggests: a premium of up to 15 cents.\<close>

definition ratio_premium :: "float64 \<Rightarrow> int" where
  "ratio_premium ratio =
     (let e = to_int64 (fadd (fmul (fsub ratio (Fin 1)) (Fin 5)) (flit (1 / 10 ^ 9))) in if e > 15 then 15 else e)"

definition ratio_prob :: "float64 \<Rightarrow> int \<Rightarrow> float64" where
  "ratio_prob heavyPrice premium =
     (let q = fadd heavyPrice (fdiv (of_int64 premium) (Fin 100)) in if flt (flit (99 / 100)) q then flit (99 / 100) else q)"

definition VolumeRatio_checkEntry :: "live_env \<Rightarrow> string \<Rightarrow> int \<Rightarrow> VolumeRatioStrategy \<Rightarrow> VolumeRatioStrategy act" where
  "VolumeRatio_checkEntry env mkt ts st =
     (let ev = eventForMarket env st mkt; cfg = vr_cfg st in
      if ev = [] \<or> vr_fired st ev then Return st
      else if vr_closeTs st ev = None \<or> vr_closeTs st ev = Some 0
      then Return (if vr_hasDB st then VolumeRatio_loadCloseTime env ev st else st)
      else
     (let closeTs = the (vr_closeTs st ev);
          mkts = live_event_markets st ev;
          price = live_price st mkt;
          (otherMkt, otherPrice) = live_other_market st mkts mkt in
      if live_UnixMilli ts < closeTs - vrc_WindowSeconds cfg * 1000 then Return st
      else if length mkts < 2 then Return st
      else if fle0 price \<or> fle0 otherPrice then Return st
      else
     (let volA = VolumeRatio_volume env mkt (live_UnixMilli ts) st;
          volB = VolumeRatio_volume env otherMkt (live_UnixMilli ts) st;
          (heavyMkt, heavyPrice, heavyVol, lightVol) =
            (if flt volA volB then (otherMkt, otherPrice, volB, volA) else (mkt, price, volA, volB));
          ratio = fdiv heavyVol lightVol;
          premium = ratio_premium ratio;
          convProb = ratio_prob heavyPrice premium;
          edge = edge_cents convProb heavyPrice in
      if fle0 volA \<or> fle0 volB then Return st
      else if flt ratio (vrc_MinVolumeRatio cfg) then Return st
      else if flt heavyPrice (vrc_MinPrice cfg) \<or> flt (vrc_MaxPrice cfg) heavyPrice then Return st
      else if premium < 1 then Return st
      else if edge < 1 then Return st
      else
        Emit ((signal_order env (live_UnixMilli ts) ev heavyMkt ''buy''
            (''volratio_'' @ format1f ratio @ ''x_T-'' @ show_int (vrc_WindowSeconds cfg) @ ''s'')
            convProb heavyPrice edge (kellySized env convProb heavyPrice) (vrc_Label cfg))
            \<lparr>or_Payload := le_marshal env
              [(''window_s'', JInt (vrc_WindowSeconds cfg)), (''close_ts'', JInt closeTs), (''entry_ts'', JInt (live_UnixMilli ts)),
               (''heavy_mkt'', JString heavyMkt), (''heavy_price'', JFloat heavyPrice), (''heavy_vol'', JFloat heavyVol),
               (''light_vol'', JFloat lightVol), (''ratio'', JFloat ratio), (''conv_prob'', JFloat convProb)]\<rparr>)
          (\<lambda>ok. Return (if ok then st\<lparr>vr_fired := (vr_fired st)(ev := True)\<rparr> else st)))))"

definition VolumeRatio_OnPriceAt :: "live_env \<Rightarrow> string \<Rightarrow> float64 \<Rightarrow> int \<Rightarrow> VolumeRatioStrategy \<Rightarrow> VolumeRatioStrategy act" where
  "VolumeRatio_OnPriceAt env mkt price ts st = VolumeRatio_checkEntry env mkt ts (set_price mkt price st)"

definition VolumeRatio_OnPrice :: "live_env \<Rightarrow> string \<Rightarrow> float64 \<Rightarrow> VolumeRatioStrategy \<Rightarrow> VolumeRatioStrategy act" where
  "VolumeRatio_OnPrice env mkt price st = VolumeRatio_OnPriceAt env mkt price (live_now env 0 st) st"

section \<open>The surface model\<close>

record SurfaceMarkovConfig =
  smc_MinEdgeCents :: int
  smc_MaxMarketPrice :: float64
  smc_SuggestedSize :: float64
  smc_Label :: string

record SurfaceMarkovStrategy = price_book +
  su_fired :: "string \<Rightarrow> bool"
  su_series :: "string \<rightharpoonup> string"
  su_surfaces :: "string \<rightharpoonup> string"
  su_hasDB :: bool
  su_cfg :: SurfaceMarkovConfig

definition DefaultSurfaceMarkovConfig :: SurfaceMarkovConfig where
  "DefaultSurfaceMarkovConfig = \<lparr>smc_MinEdgeCents = 3, smc_MaxMarketPrice = flit (85 / 100), smc_SuggestedSize = Fin 10,
     smc_Label = ''surface-markov''\<rparr>"

definition live_seriesBasePServe :: "(string \<times> float64) list" where
  "live_seriesBasePServe =
     [(''KXATPMATCH'', flit (613 / 1000)), (''KXWTAMATCH'', flit (520 / 1000)), (''KXATPCHALLENGERMATCH'', flit (610 / 1000)),
      (''KXWTACHALLENGERMATCH'', flit (523 / 1000)), (''KXITFMATCH'', flit (579 / 1000)), (''KXITFWMATCH'', flit (540 / 1000)),
      (''KXATPDOUBLES'', flit (560 / 1000)), (''KXWTADOUBLES'', flit (500 / 1000)), (''KXITFDOUBLES'', flit (530 / 1000)),
      (''KXITFWDOUBLES'', flit (490 / 1000)), (''KXTENNISEXHIBITION'', flit (580 / 1000)), (''KXCHALLENGERMATCH'', flit (580 / 1000))]"

definition live_surfaceAdjustment :: "string \<Rightarrow> float64" where
  "live_surfaceAdjustment surface =
     (if surface = ''clay'' then flit (- (4 / 100)) else if surface = ''grass'' then flit (6 / 100) else Fin 0)"

definition live_pServeForContext :: "string \<Rightarrow> string \<Rightarrow> float64" where
  "live_pServeForContext series surface =
     (let base = (case map_of live_seriesBasePServe series of None \<Rightarrow> defaultPServe | Some x \<Rightarrow> x);
          q = fadd base (live_surfaceAdjustment surface);
          q1 = (if flt q (flit (40 / 100)) then flit (40 / 100) else q) in
      if flt (flit (75 / 100)) q1 then flit (75 / 100) else q1)"

definition NewSurfaceMarkovStrategy :: "SurfaceMarkovConfig \<Rightarrow> SurfaceMarkovStrategy" where
  "NewSurfaceMarkovStrategy cfg = \<lparr>pb_markets = [], pb_replayNow = None, pb_prices = Map.empty, su_fired = (\<lambda>_. False),
     su_series = Map.empty, su_surfaces = Map.empty, su_hasDB = False, su_cfg = cfg\<rparr>"

definition NewSurfaceMarkovStrategyWithDB :: "SurfaceMarkovConfig \<Rightarrow> SurfaceMarkovStrategy" where
  "NewSurfaceMarkovStrategyWithDB cfg = (NewSurfaceMarkovStrategy cfg)\<lparr>su_hasDB := True\<rparr>"

definition SurfaceMarkov_loadContext :: "live_env \<Rightarrow> string \<Rightarrow> SurfaceMarkovStrategy \<Rightarrow> SurfaceMarkovStrategy" where
  "SurfaceMarkov_loadContext env ev st =
     st\<lparr>su_series := load_series (le_seriesTicker env) ev (su_series st), su_surfaces := load_series (le_surface env) ev (su_surfaces st)\<rparr>"

definition SurfaceMarkov_RegisterMarkets :: "live_env \<Rightarrow> string \<Rightarrow> string list \<Rightarrow> SurfaceMarkovStrategy \<Rightarrow> SurfaceMarkovStrategy" where
  "SurfaceMarkov_RegisterMarkets env ev mkts st =
     (let st1 = add_markets ev mkts st in if su_hasDB st1 then SurfaceMarkov_loadContext env ev st1 else st1)"

definition SurfaceMarkov_SetSeriesTicker :: "string \<Rightarrow> string \<Rightarrow> SurfaceMarkovStrategy \<Rightarrow> SurfaceMarkovStrategy" where
  "SurfaceMarkov_SetSeriesTicker ev series st = st\<lparr>su_series := (su_series st)(ev \<mapsto> series)\<rparr>"

definition SurfaceMarkov_SetSurface :: "string \<Rightarrow> string \<Rightarrow> SurfaceMarkovStrategy \<Rightarrow> SurfaceMarkovStrategy" where
  "SurfaceMarkov_SetSurface ev surface st = st\<lparr>su_surfaces := (su_surfaces st)(ev \<mapsto> surface)\<rparr>"

definition SurfaceMarkov_UnregisterMarkets :: "string \<Rightarrow> SurfaceMarkovStrategy \<Rightarrow> SurfaceMarkovStrategy" where
  "SurfaceMarkov_UnregisterMarkets ev st =
     (drop_event ev st)\<lparr>su_fired := (su_fired st)(ev := False), su_series := drop_key ev (su_series st),
        su_surfaces := drop_key ev (su_surfaces st)\<rparr>"

definition SurfaceMarkov_OnPriceAt :: "string \<Rightarrow> float64 \<Rightarrow> SurfaceMarkovStrategy \<Rightarrow> SurfaceMarkovStrategy" where
  "SurfaceMarkov_OnPriceAt mkt price st = set_price mkt price st"

definition SurfaceMarkov_OnPrice :: "string \<Rightarrow> float64 \<Rightarrow> SurfaceMarkovStrategy \<Rightarrow> SurfaceMarkovStrategy" where
  "SurfaceMarkov_OnPrice mkt price st = SurfaceMarkov_OnPriceAt mkt price st"

definition SurfaceMarkov_DeletePrice :: "string \<Rightarrow> SurfaceMarkovStrategy \<Rightarrow> SurfaceMarkovStrategy" where
  "SurfaceMarkov_DeletePrice mkt st = delete_price mkt st"

definition live_checkEdge ::
  "live_env \<Rightarrow> nat \<Rightarrow> string \<Rightarrow> string \<Rightarrow> float64 \<Rightarrow> float64 \<Rightarrow> int \<Rightarrow> SurfaceMarkovStrategy \<Rightarrow> SurfaceMarkovStrategy act" where
  "live_checkEdge env k ev mkt price fairValue setNum st =
     (let cfg = su_cfg st; edge = edge_cents fairValue price in
      if fle0 price \<or> flt (smc_MaxMarketPrice cfg) price then Return st
      else if edge < smc_MinEdgeCents cfg then Return st
      else if su_fired st ev then Return st
      else
        Emit ((signal_order env (live_UnixMilli (live_now env k st)) ev mkt ''buy''
            (''smarkov_set'' @ show_int setNum @ ''_edge'' @ show_int edge @ ''c'')
            fairValue price edge (kellySized env fairValue price) (smc_Label cfg))\<lparr>or_SetNumber := setNum\<rparr>)
          (\<lambda>_. Return (st\<lparr>su_fired := (su_fired st)(ev := True)\<rparr>)))"

definition SurfaceMarkov_OnPoint :: "live_env \<Rightarrow> string \<Rightarrow> 'a Point_scheme \<Rightarrow> SurfaceMarkovStrategy \<Rightarrow> SurfaceMarkovStrategy act" where
  "SurfaceMarkov_OnPoint env ev p st =
     (if su_fired st ev then Return st
      else
     (case markets_of st ev of
        None \<Rightarrow> Return st
      | Some mkts \<Rightarrow>
     (if length mkts < 2 then Return st
      else
     (let homePrice = live_price st (mkts ! 0);
          awayPrice = live_price st (mkts ! 1);
          pServe = live_pServeForContext (series_of (su_series st) ev) (series_of (su_surfaces st) ev);
          setsHome = (if pt_HomeSetGames p > pt_AwaySetGames p then 1 else 0);
          setsAway = (if pt_AwaySetGames p > pt_HomeSetGames p then 1 else 0);
          homeFV = live_fair_value pServe setsHome setsAway p;
          awayFV = fsub (Fin 1) homeFV in
      if fle0 homePrice \<and> fle0 awayPrice then Return st
      else
        bind_act (live_checkEdge env 0 ev (mkts ! 0) homePrice homeFV (pt_SetNumber p) st)
          (live_checkEdge env 1 ev (mkts ! 1) awayPrice awayFV (pt_SetNumber p))))))"

section \<open>The settlement sniper\<close>

record SettlementSniperStrategy = timed_book +
  sn_fired :: "string \<Rightarrow> bool"
  sn_matchState :: "string \<rightharpoonup> live_matchState"

definition NewSettlementSniperStrategy :: SettlementSniperStrategy where
  "NewSettlementSniperStrategy = \<lparr>pb_markets = [], pb_replayNow = None, pb_prices = Map.empty, tb_priceTimes = Map.empty,
     sn_fired = (\<lambda>_. False), sn_matchState = Map.empty\<rparr>"

definition Sniper_RegisterMarkets :: "string \<Rightarrow> string list \<Rightarrow> SettlementSniperStrategy \<Rightarrow> SettlementSniperStrategy" where
  "Sniper_RegisterMarkets ev mkts st = add_markets ev mkts st"

definition Sniper_UnregisterMarkets :: "string \<Rightarrow> SettlementSniperStrategy \<Rightarrow> SettlementSniperStrategy" where
  "Sniper_UnregisterMarkets ev st =
     (drop_event_times ev st)\<lparr>sn_fired := (sn_fired st)(ev := False), sn_matchState := drop_key ev (sn_matchState st)\<rparr>"

definition Sniper_OnPrice :: "live_env \<Rightarrow> string \<Rightarrow> float64 \<Rightarrow> SettlementSniperStrategy \<Rightarrow> SettlementSniperStrategy" where
  "Sniper_OnPrice env mkt p st = set_time mkt (live_now env 0 st) (set_price mkt p st)"

definition Sniper_OnPriceAt :: "string \<Rightarrow> float64 \<Rightarrow> int \<Rightarrow> SettlementSniperStrategy \<Rightarrow> SettlementSniperStrategy" where
  "Sniper_OnPriceAt mkt p ts st = set_time mkt ts (set_price mkt p st)"

definition Sniper_DeletePrice :: "string \<Rightarrow> SettlementSniperStrategy \<Rightarrow> SettlementSniperStrategy" where
  "Sniper_DeletePrice mkt st = delete_time mkt (delete_price mkt st)"

definition Sniper_updateMatchState :: "string \<Rightarrow> 'a Point_scheme \<Rightarrow> SettlementSniperStrategy \<Rightarrow> SettlementSniperStrategy" where
  "Sniper_updateMatchState ev p st =
     (let ms = (case sn_matchState st ev of None \<Rightarrow> new_matchState | Some ms \<Rightarrow> ms) in
      st\<lparr>sn_matchState := (sn_matchState st)(ev \<mapsto> track_sets p ms)\<rparr>)"

text \<open>Fired before the market is looked at; a size of zero is replaced by five dollars' worth.\<close>

definition Sniper_fire :: "live_env \<Rightarrow> string \<Rightarrow> int \<Rightarrow> SettlementSniperStrategy \<Rightarrow> SettlementSniperStrategy act" where
  "Sniper_fire env ev winner st0 =
     (if sn_fired st0 ev then Return st0
      else
     (let st = st0\<lparr>sn_fired := (sn_fired st0)(ev := True)\<rparr> in
      case markets_of st ev of
        None \<Rightarrow> Return st
      | Some mkts \<Rightarrow>
     (if length mkts < 2 then Return st
      else
     (let mkt = (if winner = 1 then mkts ! 0 else mkts ! 1);
          price = live_price st mkt;
          edge = edge_cents (Fin 1) price;
          kelly = kellySized env (Fin 1) price;
          sz = (if fle0 kelly then fdiv (Fin 5) price else kelly) in
      if fle0 price \<or> fle (Fin 1) price then Return st
      else if price_age (live_now env 0 st) st mkt > live_priceStaleTTL then Return st
      else if edge < 1 then Return st
      else
        Emit ((signal_order env (live_UnixMilli (live_now env 1 st)) ev mkt ''buy'' ''settlement_sniper'' (Fin 1) price edge sz ''settlementsniper'')
            \<lparr>or_Payload := le_marshal env
              [(''winner'', JInt winner), (''conv_prob'', JFloat (Fin 1)), (''trigger'', JString ''match_finished'')]\<rparr>)
          (\<lambda>_. Return st)))))"

definition Sniper_OnPoint :: "live_env \<Rightarrow> string \<Rightarrow> 'a Point_scheme \<Rightarrow> SettlementSniperStrategy \<Rightarrow> SettlementSniperStrategy act" where
  "Sniper_OnPoint env ev p st0 =
     (let st = Sniper_updateMatchState ev p st0 in
      case sn_matchState st ev of
        None \<Rightarrow> Return st
      | Some ms \<Rightarrow>
          (if lms_setsHome ms \<ge> live_setsToWin then Sniper_fire env ev 1 st
           else if lms_setsAway ms \<ge> live_setsToWin then Sniper_fire env ev 2 st
           else Return st))"

definition Sniper_OnMatchFinished :: "live_env \<Rightarrow> string \<Rightarrow> int \<Rightarrow> SettlementSniperStrategy \<Rightarrow> SettlementSniperStrategy act" where
  "Sniper_OnMatchFinished env ev winner st = Sniper_fire env ev winner st"

end
