(* ===== verification/LiveH.thy ===== *)
theory LiveH
  imports LiveG
begin

text \<open>
  Strategies of the first version, part eight: buying a dip (\<open>buythedip.go\<close>) and the convex pool
  (\<open>convexpool.go\<close>).
\<close>

section \<open>Leaving a position\<close>

text \<open>
  The exits of the strategies that hold positions, in their order: the price has reached the target, the
  stop, or the position is too old. The order is priced at the level that was crossed.
\<close>

definition exit_reason :: "float64 \<Rightarrow> float64 \<Rightarrow> float64 \<Rightarrow> int \<Rightarrow> int \<Rightarrow> (string \<times> float64) option" where
  "exit_reason price tpPrice slPrice held maxHold =
     (if fle tpPrice price then Some (''tp'', tpPrice)
      else if fle price slPrice then Some (''sl'', slPrice)
      else if held \<ge> maxHold then Some (''time'', price)
      else None)"

definition cents_off :: "int \<Rightarrow> float64" where
  "cents_off n = fdiv (of_int64 n) (Fin 100)"

section \<open>Buying a dip\<close>

record BuyTheDipConfig =
  btc_DipThresholdCents :: int
  btc_WindowSeconds :: int
  btc_MinEntryPrice :: float64
  btc_MaxEntryPrice :: float64
  btc_MinPreDipPrice :: float64
  btc_TakeProfitFrac :: float64
  btc_StopLossCents :: int
  btc_MaxHoldSeconds :: int
  btc_BaseSize :: float64
  btc_Label :: string

record dipPosition =
  dp_MarketTicker :: string
  dp_EntryPrice :: float64
  dp_DipSize :: float64
  dp_EntryTS :: int
  dp_BuySize :: float64

record BuyTheDipStrategy = market_book +
  bt_prices :: "string \<rightharpoonup> live_priceSample list"
  lbt_positions :: "string \<rightharpoonup> dipPosition"
  bt_scoreState :: "string \<rightharpoonup> spikeScoreState"
  bt_cfg :: BuyTheDipConfig

definition DefaultBuyTheDipConfig :: BuyTheDipConfig where
  "DefaultBuyTheDipConfig = \<lparr>btc_DipThresholdCents = 30, btc_WindowSeconds = 30, btc_MinEntryPrice = flit (15 / 100),
     btc_MaxEntryPrice = flit (80 / 100), btc_MinPreDipPrice = flit (50 / 100), btc_TakeProfitFrac = flit (75 / 100),
     btc_StopLossCents = 10, btc_MaxHoldSeconds = 300, btc_BaseSize = Fin 10, btc_Label = ''buythedip''\<rparr>"

definition NewBuyTheDipStrategy :: "BuyTheDipConfig \<Rightarrow> BuyTheDipStrategy" where
  "NewBuyTheDipStrategy cfg = \<lparr>pb_markets = [], pb_replayNow = None, bt_prices = Map.empty, lbt_positions = Map.empty,
     bt_scoreState = Map.empty, bt_cfg = cfg\<rparr>"

definition BuyTheDip_RegisterMarkets :: "string \<Rightarrow> string list \<Rightarrow> BuyTheDipStrategy \<Rightarrow> BuyTheDipStrategy" where
  "BuyTheDip_RegisterMarkets ev mkts st = add_markets ev mkts st"

definition BuyTheDip_UnregisterMarkets :: "string \<Rightarrow> BuyTheDipStrategy \<Rightarrow> BuyTheDipStrategy" where
  "BuyTheDip_UnregisterMarkets ev st =
     (drop_markets ev st)\<lparr>bt_prices := drop_all (live_event_markets st ev) (bt_prices st),
        lbt_positions := drop_all (live_event_markets st ev) (lbt_positions st), bt_scoreState := drop_key ev (bt_scoreState st)\<rparr>"

definition BuyTheDip_DeletePrice :: "string \<Rightarrow> BuyTheDipStrategy \<Rightarrow> BuyTheDipStrategy" where
  "BuyTheDip_DeletePrice mkt st = st\<lparr>bt_prices := drop_key mkt (bt_prices st)\<rparr>"

definition BuyTheDip_buy_order ::
  "live_env \<Rightarrow> string \<Rightarrow> string \<Rightarrow> float64 \<Rightarrow> float64 \<Rightarrow> int \<Rightarrow> float64 \<Rightarrow> float64 \<Rightarrow> int \<Rightarrow> BuyTheDipConfig \<Rightarrow> Order" where
  "BuyTheDip_buy_order env ev mkt windowStart price dip convProb sz ts cfg =
     (let edge0 = edge_cents convProb price;
          edge = (if edge0 < 1 then 1 else edge0);
          dipSize = fsub windowStart price in
      (signal_order env (live_UnixMilli ts) ev mkt ''buy'' (''btd_dip_'' @ show_int dip @ ''c'') convProb price edge sz (btc_Label cfg))
         \<lparr>or_Side := OrderSideOpen,
          or_Payload := le_marshal env
            [(''pre_dip_price'', JFloat windowStart), (''entry_price'', JFloat price), (''dip_cents'', JInt dip),
             (''dip_size'', JFloat dipSize), (''conv_prob'', JFloat convProb),
             (''tp_price'', JFloat (fadd price (fmul (btc_TakeProfitFrac cfg) dipSize))),
             (''sl_price'', JFloat (fsub price (cents_off (btc_StopLossCents cfg)))), (''max_hold_s'', JInt (btc_MaxHoldSeconds cfg)),
             (''entry_ts'', JInt (live_UnixMilli ts))]\<rparr>)"

definition dip_points :: "(string \<rightharpoonup> spikeScoreState) \<Rightarrow> string \<Rightarrow> bool" where
  "dip_points m ev = (case m ev of None \<Rightarrow> False | Some ss \<Rightarrow> ss_isMatchPoint ss \<or> ss_isSetPoint ss)"

definition live_BuyTheDip_checkEntry :: "live_env \<Rightarrow> string \<Rightarrow> float64 \<Rightarrow> int \<Rightarrow> live_priceSample list \<Rightarrow> BuyTheDipStrategy \<Rightarrow> BuyTheDipStrategy act" where
  "live_BuyTheDip_checkEntry env mkt price ts samples st =
     (if length samples < 2 then Return st
      else if lbt_positions st mkt \<noteq> None then Return st
      else
     (let ev = eventForMarket env st mkt; cfg = bt_cfg st;
          windowStart = lsm_price (samples ! 0);
          dip = plain_edge windowStart price;
          convProb = (if flt (flit (99 / 100)) windowStart then flit (99 / 100) else windowStart);
          sz = clamp_count (kellySized env convProb price) in
      if ev = [] then Return st
      else if dip_points (bt_scoreState st) ev then Return st
      else if dip < btc_DipThresholdCents cfg then Return st
      else if flt windowStart (btc_MinPreDipPrice cfg) then Return st
      else if flt price (btc_MinEntryPrice cfg) \<or> flt (btc_MaxEntryPrice cfg) price then Return st
      else
        Emit (BuyTheDip_buy_order env ev mkt windowStart price dip convProb sz ts cfg)
          (\<lambda>ok. Return (st\<lparr>lbt_positions := (lbt_positions st)(mkt :=
             (if ok then Some \<lparr>dp_MarketTicker = mkt, dp_EntryPrice = price, dp_DipSize = fsub windowStart price,
                dp_EntryTS = live_UnixMilli ts, dp_BuySize = sz\<rparr> else None))\<rparr>))))"

definition BuyTheDip_sell_order ::
  "live_env \<Rightarrow> string \<Rightarrow> string \<Rightarrow> dipPosition \<Rightarrow> string \<Rightarrow> float64 \<Rightarrow> int \<Rightarrow> BuyTheDipConfig \<Rightarrow> Order" where
  "BuyTheDip_sell_order env ev mkt pos reason sellPrice ts cfg =
     (let edge = to_int64 (fadd (fmul (fsub sellPrice (dp_EntryPrice pos)) (Fin 100)) (Fin (1 / 2))) in
      (signal_order env (live_UnixMilli ts) ev mkt ''sell'' (''btd_sell_'' @ reason) (dp_EntryPrice pos) sellPrice edge
         (clamp_count (dp_BuySize pos)) (btc_Label cfg))
         \<lparr>or_Side := OrderSideClose,
          or_Payload := le_marshal env
            [(''entry_price'', JFloat (dp_EntryPrice pos)), (''exit_price'', JFloat sellPrice), (''exit_reason'', JString reason),
             (''dip_size'', JFloat (dp_DipSize pos)), (''hold_ms'', JInt (live_UnixMilli ts - dp_EntryTS pos)), (''pnl_cents'', JInt edge)]\<rparr>)"

definition live_BuyTheDip_checkExit :: "live_env \<Rightarrow> string \<Rightarrow> float64 \<Rightarrow> int \<Rightarrow> dipPosition \<Rightarrow> BuyTheDipStrategy \<Rightarrow> BuyTheDipStrategy act" where
  "live_BuyTheDip_checkExit env mkt price ts pos st =
     (let cfg = bt_cfg st in
      case exit_reason price
             (fadd (dp_EntryPrice pos) (fmul (btc_TakeProfitFrac cfg) (dp_DipSize pos)))
             (fsub (dp_EntryPrice pos) (cents_off (btc_StopLossCents cfg)))
             (live_UnixMilli ts - dp_EntryTS pos) (btc_MaxHoldSeconds cfg * 1000) of
        None \<Rightarrow> Return st
      | Some (reason, sellPrice) \<Rightarrow>
          (let st1 = st\<lparr>lbt_positions := drop_key mkt (lbt_positions st)\<rparr>; ev = eventForMarket env st mkt in
           if ev = [] then Return st1
           else Emit (BuyTheDip_sell_order env ev mkt pos reason sellPrice ts cfg)
                  (\<lambda>ok. Return (if ok then st1 else st1\<lparr>lbt_positions := (lbt_positions st1)(mkt \<mapsto> pos)\<rparr>))))"

definition BuyTheDip_OnPriceAt :: "live_env \<Rightarrow> string \<Rightarrow> float64 \<Rightarrow> int \<Rightarrow> BuyTheDipStrategy \<Rightarrow> BuyTheDipStrategy act" where
  "BuyTheDip_OnPriceAt env mkt price ts st0 =
     (let samples = slide_window (btc_WindowSeconds (bt_cfg st0)) price ts (case bt_prices st0 mkt of None \<Rightarrow> [] | Some xs \<Rightarrow> xs);
          st = st0\<lparr>bt_prices := (bt_prices st0)(mkt \<mapsto> samples)\<rparr> in
      case lbt_positions st mkt of
        Some pos \<Rightarrow> live_BuyTheDip_checkExit env mkt price ts pos st
      | None \<Rightarrow> live_BuyTheDip_checkEntry env mkt price ts samples st)"

definition BuyTheDip_OnPrice :: "live_env \<Rightarrow> string \<Rightarrow> float64 \<Rightarrow> BuyTheDipStrategy \<Rightarrow> BuyTheDipStrategy act" where
  "BuyTheDip_OnPrice env mkt price st = BuyTheDip_OnPriceAt env mkt price (live_now env 0 st) st"

definition BuyTheDip_OnPoint :: "string \<Rightarrow> 'a Point_scheme \<Rightarrow> BuyTheDipStrategy \<Rightarrow> BuyTheDipStrategy" where
  "BuyTheDip_OnPoint ev p st =
     st\<lparr>bt_scoreState := (bt_scoreState st)(ev \<mapsto> \<lparr>ss_isMatchPoint = pt_IsMatchPoint p, ss_isSetPoint = pt_IsSetPoint p\<rparr>)\<rparr>"

section \<open>The convex pool\<close>

text \<open>The sets as the games of completed sets: a running maximum.\<close>

record cpMatchState =
  cpm_setsHome :: int
  cpm_setsAway :: int

definition no_sets :: cpMatchState where "no_sets = \<lparr>cpm_setsHome = 0, cpm_setsAway = 0\<rparr>"

definition raise_sets :: "'a Point_scheme \<Rightarrow> cpMatchState option \<Rightarrow> cpMatchState" where
  "raise_sets p old =
     (let ms = (case old of None \<Rightarrow> no_sets | Some ms \<Rightarrow> ms) in
      \<lparr>cpm_setsHome = max (cpm_setsHome ms) (pt_HomeSetGames p), cpm_setsAway = max (cpm_setsAway ms) (pt_AwaySetGames p)\<rparr>)"

record live_ConvexPoolConfig =
  cpc_PServe :: float64
  cpc_MinEdgeCents :: int
  cpc_MinMarketPrice :: float64
  cpc_MaxMarketPrice :: float64
  cpc_Label :: string
  cpc_SeriesFilter :: "string list"
  cpc_UTCHourStart :: int
  cpc_UTCHourEnd :: int
  cpc_SeriesPServe :: "(string \<times> float64) list"
  cpc_CooldownSeconds :: int

record ConvexPoolStrategy = timed_book +
  cp_states :: "string \<rightharpoonup> cpMatchState"
  cp_series :: "string \<rightharpoonup> string"
  cp_lastFire :: "string \<rightharpoonup> int"
  cp_hasDB :: bool
  cp_model :: float64
  cp_cfg :: live_ConvexPoolConfig

definition live_DefaultConvexPoolConfig :: live_ConvexPoolConfig where
  "live_DefaultConvexPoolConfig = \<lparr>cpc_PServe = flit (64 / 100), cpc_MinEdgeCents = 6, cpc_MinMarketPrice = flit (5 / 100),
     cpc_MaxMarketPrice = flit (95 / 100), cpc_Label = ''convexpool'', cpc_SeriesFilter = [], cpc_UTCHourStart = 0,
     cpc_UTCHourEnd = 0, cpc_SeriesPServe = [(''KXITFWMATCH'', flit (52 / 100)), (''KXITFWDOUBLES'', flit (52 / 100))],
     cpc_CooldownSeconds = 60\<rparr>"

definition NewConvexPoolStrategy :: "live_ConvexPoolConfig \<Rightarrow> ConvexPoolStrategy" where
  "NewConvexPoolStrategy cfg = \<lparr>pb_markets = [], pb_replayNow = None, pb_prices = Map.empty, tb_priceTimes = Map.empty,
     cp_states = Map.empty, cp_series = Map.empty, cp_lastFire = Map.empty, cp_hasDB = False, cp_model = cpc_PServe cfg, cp_cfg = cfg\<rparr>"

definition NewConvexPoolStrategyWithDB :: "live_ConvexPoolConfig \<Rightarrow> ConvexPoolStrategy" where
  "NewConvexPoolStrategyWithDB cfg = (NewConvexPoolStrategy cfg)\<lparr>cp_hasDB := True\<rparr>"

text \<open>The serve probability of the model for a series; the cache of models only saves work.\<close>

definition modelForSeries :: "string \<Rightarrow> ConvexPoolStrategy \<Rightarrow> float64" where
  "modelForSeries series st =
     (if series = [] \<or> cpc_SeriesPServe (cp_cfg st) = [] then cp_model st
      else (case map_of (cpc_SeriesPServe (cp_cfg st)) series of None \<Rightarrow> cp_model st | Some q \<Rightarrow> q))"

definition ConvexPool_SetSharedMarkovModel :: "float64 \<Rightarrow> ConvexPoolStrategy \<Rightarrow> ConvexPoolStrategy" where
  "ConvexPool_SetSharedMarkovModel m st = st\<lparr>cp_model := m\<rparr>"

definition ConvexPool_SetSeriesTicker :: "string \<Rightarrow> string \<Rightarrow> ConvexPoolStrategy \<Rightarrow> ConvexPoolStrategy" where
  "ConvexPool_SetSeriesTicker ev series st = st\<lparr>cp_series := (cp_series st)(ev \<mapsto> series)\<rparr>"

definition ConvexPool_loadSeriesTicker :: "live_env \<Rightarrow> string \<Rightarrow> ConvexPoolStrategy \<Rightarrow> ConvexPoolStrategy" where
  "ConvexPool_loadSeriesTicker env ev st = st\<lparr>cp_series := load_series (le_seriesTicker env) ev (cp_series st)\<rparr>"

definition ConvexPool_OnPrice :: "live_env \<Rightarrow> string \<Rightarrow> float64 \<Rightarrow> ConvexPoolStrategy \<Rightarrow> ConvexPoolStrategy" where
  "ConvexPool_OnPrice env mkt p st = set_time mkt (live_now env 0 st) (set_price mkt p st)"

definition ConvexPool_OnPriceAt :: "string \<Rightarrow> float64 \<Rightarrow> int \<Rightarrow> ConvexPoolStrategy \<Rightarrow> ConvexPoolStrategy" where
  "ConvexPool_OnPriceAt mkt p ts st = set_time mkt ts (set_price mkt p st)"

definition ConvexPool_RegisterMarkets :: "live_env \<Rightarrow> string \<Rightarrow> string list \<Rightarrow> ConvexPoolStrategy \<Rightarrow> ConvexPoolStrategy" where
  "ConvexPool_RegisterMarkets env ev mkts st =
     (let st1 = add_markets ev mkts st;
          st2 = (if cp_states st1 ev = None then st1\<lparr>cp_states := (cp_states st1)(ev \<mapsto> no_sets)\<rparr> else st1) in
      if cp_hasDB st2 then ConvexPool_loadSeriesTicker env ev st2 else st2)"

definition ConvexPool_UnregisterMarkets :: "string \<Rightarrow> ConvexPoolStrategy \<Rightarrow> ConvexPoolStrategy" where
  "ConvexPool_UnregisterMarkets ev st =
     (drop_event_times ev st)\<lparr>cp_lastFire := drop_all (live_event_markets st ev) (cp_lastFire st),
        cp_states := drop_key ev (cp_states st), cp_series := drop_key ev (cp_series st)\<rparr>"

definition ConvexPool_DeletePrice :: "string \<Rightarrow> ConvexPoolStrategy \<Rightarrow> ConvexPoolStrategy" where
  "ConvexPool_DeletePrice mkt st = delete_time mkt (delete_price mkt st)"

definition ConvexPool_updateMatchState :: "string \<Rightarrow> 'a Point_scheme \<Rightarrow> ConvexPoolStrategy \<Rightarrow> ConvexPoolStrategy" where
  "ConvexPool_updateMatchState ev p st = st\<lparr>cp_states := (cp_states st)(ev \<mapsto> raise_sets p (cp_states st ev))\<rparr>"

definition ConvexPool_sets :: "string \<Rightarrow> ConvexPoolStrategy \<Rightarrow> int \<times> int" where
  "ConvexPool_sets ev st = (case cp_states st ev of None \<Rightarrow> (0, 0) | Some ms \<Rightarrow> (cpm_setsHome ms, cpm_setsAway ms))"

text \<open>\<open>Duration.Seconds\<close> of a non-negative duration.\<close>

definition dur_seconds :: "int \<Rightarrow> float64" where
  "dur_seconds d = fadd (of_int64 (d sdiv 10 ^ 9)) (fdiv (of_int64 (d smod 10 ^ 9)) (Fin (10 ^ 9)))"

record sideEdge =
  se_idx :: nat
  se_mkt :: string
  se_price :: float64
  se_fv :: float64
  se_edgeCents :: int

definition ConvexPool_candidate :: "int \<Rightarrow> float64 \<Rightarrow> float64 \<Rightarrow> ConvexPoolStrategy \<Rightarrow> nat \<times> string \<Rightarrow> sideEdge option" where
  "ConvexPool_candidate now fvHome fvAway st side =
     (let (i, mkt) = side; cfg = cp_cfg st;
          fv = (if i = 1 then fvAway else fvHome);
          price = live_price st mkt;
          edge = plain_edge fv price;
          cooling = (case cp_lastFire st mkt of None \<Rightarrow> False
                     | Some t \<Rightarrow> cpc_CooldownSeconds cfg > 0 \<and> flt (dur_seconds (clamp64 (now - t))) (of_int64 (cpc_CooldownSeconds cfg))) in
      if fle0 price \<or> price_age now st mkt > live_priceStaleTTL then None
      else if cooling then None
      else if edge < cpc_MinEdgeCents cfg then None
      else if flt price (cpc_MinMarketPrice cfg) then None
      else if fpos (cpc_MaxMarketPrice cfg) \<and> flt (cpc_MaxMarketPrice cfg) price then None
      else Some \<lparr>se_idx = i, se_mkt = mkt, se_price = price, se_fv = fv, se_edgeCents = edge\<rparr>)"

definition best_side :: "sideEdge \<Rightarrow> sideEdge list \<Rightarrow> sideEdge" where
  "best_side b cs = foldl (\<lambda>b c. if se_edgeCents c > se_edgeCents b then c else b) b cs"

definition ConvexPool_order :: "live_env \<Rightarrow> string \<Rightarrow> 'a Point_scheme \<Rightarrow> sideEdge \<Rightarrow> int \<Rightarrow> string \<Rightarrow> Order" where
  "ConvexPool_order env ev p b now label =
     (signal_order env (live_UnixMilli now) ev (se_mkt b) ''buy''
        (''convex_'' @ live_sideName (int (se_idx b) + 1) @ ''_set'' @ show_int (pt_SetNumber p) @ ''_game'' @ show_int (pt_GameNumber p) @
         ''_pt'' @ show_int (pt_PointNumber p))
        (se_fv b) (se_price b) (se_edgeCents b) (kellySized env (se_fv b) (se_price b)) label)\<lparr>or_SetNumber := pt_SetNumber p\<rparr>"

definition processConvex :: "live_env \<Rightarrow> string \<Rightarrow> 'a Point_scheme \<Rightarrow> ConvexPoolStrategy \<Rightarrow> ConvexPoolStrategy act" where
  "processConvex env ev p st =
     (case markets_of st ev of
        None \<Rightarrow> Return st
      | Some mkts \<Rightarrow>
     (let cfg = cp_cfg st;
          series = series_of (cp_series st) ev;
          now = live_now env 0 st;
          (setsHome, setsAway) = ConvexPool_sets ev st;
          fvHome = live_fair_value (modelForSeries series st) setsHome setsAway p;
          fvAway = fsub (Fin 1) fvHome in
      if length mkts < 2 then Return st
      else if \<not> seriesMatches series (cpc_SeriesFilter cfg) then Return st
      else if \<not> utcHourMatches now (cpc_UTCHourStart cfg) (cpc_UTCHourEnd cfg) then Return st
      else if pt_IsTiebreak p then Return st
      else
        (case List.map_filter (ConvexPool_candidate now fvHome fvAway st) (enumerate 0 mkts) of
           [] \<Rightarrow> Return st
         | c # cs \<Rightarrow>
             (let b = best_side c cs in
              Emit (ConvexPool_order env ev p b now (cpc_Label cfg))
                (\<lambda>_. Return (st\<lparr>cp_lastFire := (cp_lastFire st)(se_mkt b \<mapsto> now)\<rparr>))))))"

definition ConvexPool_OnPoint :: "live_env \<Rightarrow> string \<Rightarrow> 'a Point_scheme \<Rightarrow> ConvexPoolStrategy \<Rightarrow> ConvexPoolStrategy act" where
  "ConvexPool_OnPoint env ev p st = processConvex env ev p (ConvexPool_updateMatchState ev p st)"

end
