(* ===== verification/LiveI.thy ===== *)
theory LiveI
  imports LiveH
begin

text \<open>
  Strategies of the first version, part nine: the convex pool whose trust in its model grows with the match
  (\<open>convexpool_adaptive.go\<close>) and the one that leaves its positions (\<open>convexpool_exit.go\<close>).
\<close>

section \<open>Loops that may emit\<close>

primrec for_act :: "('x \<Rightarrow> 's \<Rightarrow> 's act) \<Rightarrow> 'x list \<Rightarrow> 's \<Rightarrow> 's act" where
  "for_act f [] s = Return s"
| "for_act f (x # xs) s = bind_act (f x s) (\<lambda>s'. for_act f xs s')"

lemma act_all_for:
  assumes "\<And>x s. x \<in> set xs \<Longrightarrow> Q s \<Longrightarrow> act_all P Q (f x s)" "Q s"
  shows "act_all P Q (for_act f xs s)"
  using assms by (induction xs arbitrary: s) (auto intro!: act_all_bind)

lemma act_all_any: "act_all (\<lambda>_. True) (\<lambda>_. True) m"
  by (induction m) auto

lemma act_safe_for:
  assumes "\<And>x s. x \<in> set xs \<Longrightarrow> act_safe (f x s)"
  shows "act_safe (for_act f xs s)"
  using assms by (induction xs arbitrary: s) (auto intro!: act_safe_bind act_all_any)

text \<open>The model's value drawn towards the market: \<open>alpha * fv + (1 - alpha) * price\<close>.\<close>

definition blend :: "float64 \<Rightarrow> float64 \<Rightarrow> float64 \<Rightarrow> float64" where
  "blend alpha fv price = fadd (fmul alpha fv) (fmul (fsub (Fin 1) alpha) price)"

section \<open>The adaptive convex pool\<close>

record cpaMatchState = cpMatchState +
  cpm_gamesHome :: int
  cpm_gamesAway :: int

record ConvexPoolAdaptiveConfig =
  cpac_PServe :: float64
  cpac_AlphaMin :: float64
  cpac_AlphaMax :: float64
  cpac_MinEdgeCents :: int
  cpac_MinMarketPrice :: float64
  cpac_MaxMarketPrice :: float64
  cpac_Label :: string
  cpac_SeriesFilter :: "string list"
  cpac_UTCHourStart :: int
  cpac_UTCHourEnd :: int

record ConvexPoolAdaptiveStrategy = timed_book +
  cpa_states :: "string \<rightharpoonup> cpaMatchState"
  cpa_series :: "string \<rightharpoonup> string"
  cpa_hasDB :: bool
  cpa_model :: float64
  cpa_cfg :: ConvexPoolAdaptiveConfig

definition DefaultConvexPoolAdaptiveConfig :: ConvexPoolAdaptiveConfig where
  "DefaultConvexPoolAdaptiveConfig = \<lparr>cpac_PServe = flit (64 / 100), cpac_AlphaMin = flit (3 / 10), cpac_AlphaMax = flit (8 / 10),
     cpac_MinEdgeCents = 3, cpac_MinMarketPrice = flit (5 / 100), cpac_MaxMarketPrice = flit (95 / 100),
     cpac_Label = ''convexpool-adaptive'', cpac_SeriesFilter = [], cpac_UTCHourStart = 0, cpac_UTCHourEnd = 0\<rparr>"

definition NewConvexPoolAdaptiveStrategy :: "ConvexPoolAdaptiveConfig \<Rightarrow> ConvexPoolAdaptiveStrategy" where
  "NewConvexPoolAdaptiveStrategy cfg = \<lparr>pb_markets = [], pb_replayNow = None, pb_prices = Map.empty, tb_priceTimes = Map.empty,
     cpa_states = Map.empty, cpa_series = Map.empty, cpa_hasDB = False, cpa_model = cpac_PServe cfg, cpa_cfg = cfg\<rparr>"

definition NewConvexPoolAdaptiveStrategyWithDB :: "ConvexPoolAdaptiveConfig \<Rightarrow> ConvexPoolAdaptiveStrategy" where
  "NewConvexPoolAdaptiveStrategyWithDB cfg = (NewConvexPoolAdaptiveStrategy cfg)\<lparr>cpa_hasDB := True\<rparr>"

definition ConvexPoolAdaptive_SetSharedMarkovModel :: "float64 \<Rightarrow> ConvexPoolAdaptiveStrategy \<Rightarrow> ConvexPoolAdaptiveStrategy" where
  "ConvexPoolAdaptive_SetSharedMarkovModel m st = st\<lparr>cpa_model := m\<rparr>"

definition ConvexPoolAdaptive_SetSeriesTicker :: "string \<Rightarrow> string \<Rightarrow> ConvexPoolAdaptiveStrategy \<Rightarrow> ConvexPoolAdaptiveStrategy" where
  "ConvexPoolAdaptive_SetSeriesTicker ev series st = st\<lparr>cpa_series := (cpa_series st)(ev \<mapsto> series)\<rparr>"

definition ConvexPoolAdaptive_OnPrice :: "live_env \<Rightarrow> string \<Rightarrow> float64 \<Rightarrow> ConvexPoolAdaptiveStrategy \<Rightarrow> ConvexPoolAdaptiveStrategy" where
  "ConvexPoolAdaptive_OnPrice env mkt p st = set_time mkt (live_now env 0 st) (set_price mkt p st)"

definition ConvexPoolAdaptive_OnPriceAt :: "string \<Rightarrow> float64 \<Rightarrow> int \<Rightarrow> ConvexPoolAdaptiveStrategy \<Rightarrow> ConvexPoolAdaptiveStrategy" where
  "ConvexPoolAdaptive_OnPriceAt mkt p ts st = set_time mkt ts (set_price mkt p st)"

definition no_cpa :: cpaMatchState where
  "no_cpa = \<lparr>cpm_setsHome = 0, cpm_setsAway = 0, cpm_gamesHome = 0, cpm_gamesAway = 0\<rparr>"

definition ConvexPoolAdaptive_loadSeriesTicker :: "live_env \<Rightarrow> string \<Rightarrow> ConvexPoolAdaptiveStrategy \<Rightarrow> ConvexPoolAdaptiveStrategy" where
  "ConvexPoolAdaptive_loadSeriesTicker env ev st = st\<lparr>cpa_series := load_series (le_seriesTicker env) ev (cpa_series st)\<rparr>"

definition ConvexPoolAdaptive_RegisterMarkets :: "live_env \<Rightarrow> string \<Rightarrow> string list \<Rightarrow> ConvexPoolAdaptiveStrategy \<Rightarrow> ConvexPoolAdaptiveStrategy" where
  "ConvexPoolAdaptive_RegisterMarkets env ev mkts st =
     (let st1 = add_markets ev mkts st;
          st2 = (if cpa_states st1 ev = None then st1\<lparr>cpa_states := (cpa_states st1)(ev \<mapsto> no_cpa)\<rparr> else st1) in
      if cpa_hasDB st2 then ConvexPoolAdaptive_loadSeriesTicker env ev st2 else st2)"

definition ConvexPoolAdaptive_UnregisterMarkets :: "string \<Rightarrow> ConvexPoolAdaptiveStrategy \<Rightarrow> ConvexPoolAdaptiveStrategy" where
  "ConvexPoolAdaptive_UnregisterMarkets ev st =
     (drop_event_times ev st)\<lparr>cpa_states := drop_key ev (cpa_states st), cpa_series := drop_key ev (cpa_series st)\<rparr>"

definition ConvexPoolAdaptive_DeletePrice :: "string \<Rightarrow> ConvexPoolAdaptiveStrategy \<Rightarrow> ConvexPoolAdaptiveStrategy" where
  "ConvexPoolAdaptive_DeletePrice mkt st = delete_time mkt (delete_price mkt st)"

definition ConvexPoolAdaptive_updateMatchState :: "string \<Rightarrow> 'a Point_scheme \<Rightarrow> ConvexPoolAdaptiveStrategy \<Rightarrow> ConvexPoolAdaptiveStrategy" where
  "ConvexPoolAdaptive_updateMatchState ev p st =
     (let ms = (case cpa_states st ev of None \<Rightarrow> no_cpa | Some ms \<Rightarrow> ms) in
      st\<lparr>cpa_states := (cpa_states st)(ev \<mapsto>
        \<lparr>cpm_setsHome = max (cpm_setsHome ms) (pt_HomeSetGames p), cpm_setsAway = max (cpm_setsAway ms) (pt_AwaySetGames p),
          cpm_gamesHome = pt_HomeGames p, cpm_gamesAway = pt_AwayGames p\<rparr>)\<rparr>)"

definition computeAlpha :: "ConvexPoolAdaptiveConfig \<Rightarrow> int \<Rightarrow> int \<Rightarrow> int \<Rightarrow> int \<Rightarrow> float64" where
  "computeAlpha cfg setsHome setsAway gamesHome gamesAway =
     (let s0 = fdiv (of_int64 (setsHome + setsAway)) (Fin 2);
          setsProgress = (if flt (Fin 1) s0 then Fin 1 else s0);
          g0 = fmul (fdiv (of_int64 (gamesHome + gamesAway)) (Fin 12)) (flit (3 / 10));
          gamesProgress = (if flt (flit (3 / 10)) g0 then flit (3 / 10) else g0);
          p0 = fadd setsProgress gamesProgress;
          p1 = (if flt (Fin 1) p0 then Fin 1 else p0);
          progress = (if flt p1 (Fin 0) then Fin 0 else p1) in
      fadd (cpac_AlphaMin cfg) (fmul (fsub (cpac_AlphaMax cfg) (cpac_AlphaMin cfg)) progress))"

definition ConvexPoolAdaptive_order ::
  "live_env \<Rightarrow> string \<Rightarrow> 'a Point_scheme \<Rightarrow> nat \<times> string \<Rightarrow> float64 \<Rightarrow> float64 \<Rightarrow> float64 \<Rightarrow> int \<Rightarrow> string \<Rightarrow> Order" where
  "ConvexPoolAdaptive_order env ev p side alpha blended price ts label =
     (let (i, mkt) = side in
      (signal_order env (live_UnixMilli ts) ev mkt ''buy''
         (''cpa_'' @ format2f alpha @ ''_'' @ live_sideName (int i + 1) @ ''_set'' @ show_int (pt_SetNumber p) @ ''_game'' @
          show_int (pt_GameNumber p) @ ''_pt'' @ show_int (pt_PointNumber p))
         blended price (plain_edge blended price) (kellySized env blended price) label)\<lparr>or_SetNumber := pt_SetNumber p\<rparr>)"

text \<open>One market of the loop; \<open>k\<close> counts the readings of the clock.\<close>

definition ConvexPoolAdaptive_side ::
  "live_env \<Rightarrow> string \<Rightarrow> 'a Point_scheme \<Rightarrow> float64 \<Rightarrow> float64 \<Rightarrow> ConvexPoolAdaptiveStrategy \<Rightarrow> nat \<times> string \<Rightarrow> nat \<Rightarrow> nat act" where
  "ConvexPoolAdaptive_side env ev p alpha fvHome st side k =
     (let (i, mkt) = side; cfg = cpa_cfg st;
          fv = (if i = 1 then fsub (Fin 1) fvHome else fvHome);
          price = live_price st mkt;
          blended = blend alpha fv price in
      if fle0 price then Return k
      else if price_age (live_now env k st) st mkt > live_priceStaleTTL then Return (k + 1)
      else if plain_edge blended price < cpac_MinEdgeCents cfg then Return (k + 1)
      else if flt price (cpac_MinMarketPrice cfg) then Return (k + 1)
      else if fpos (cpac_MaxMarketPrice cfg) \<and> flt (cpac_MaxMarketPrice cfg) price then Return (k + 1)
      else
        Emit (ConvexPoolAdaptive_order env ev p side alpha blended price (live_now env (k + 1) st) (cpac_Label cfg))
          (\<lambda>_. Return (k + 2)))"

definition processAdaptive :: "live_env \<Rightarrow> string \<Rightarrow> 'a Point_scheme \<Rightarrow> ConvexPoolAdaptiveStrategy \<Rightarrow> ConvexPoolAdaptiveStrategy act" where
  "processAdaptive env ev p st =
     (case markets_of st ev of
        None \<Rightarrow> Return st
      | Some mkts \<Rightarrow>
          (if length mkts < 2 then Return st
           else if \<not> seriesMatches (series_of (cpa_series st) ev) (cpac_SeriesFilter (cpa_cfg st)) then Return st
           else if \<not> utcHourMatches (live_now env 0 st) (cpac_UTCHourStart (cpa_cfg st)) (cpac_UTCHourEnd (cpa_cfg st)) then Return st
           else
             (case cpa_states st ev of
                None \<Rightarrow> Return st
              | Some ms \<Rightarrow>
                  (let alpha = computeAlpha (cpa_cfg st) (cpm_setsHome ms) (cpm_setsAway ms) (cpm_gamesHome ms) (cpm_gamesAway ms);
                       fvHome = fst (live_FairValue (cpm_setsHome ms) (cpm_setsAway ms) (cpm_gamesHome ms) (cpm_gamesAway ms)
                         (pt_HomePoints p) (pt_AwayPoints p) (pt_Server p) (pt_IsTiebreak p) (NewMarkovModelWithProb (cpa_model st))) in
                   bind_act (for_act (ConvexPoolAdaptive_side env ev p alpha fvHome st) (enumerate 0 mkts) 1)
                     (\<lambda>_. Return st)))))"

definition ConvexPoolAdaptive_OnPoint :: "live_env \<Rightarrow> string \<Rightarrow> 'a Point_scheme \<Rightarrow> ConvexPoolAdaptiveStrategy \<Rightarrow> ConvexPoolAdaptiveStrategy act" where
  "ConvexPoolAdaptive_OnPoint env ev p st = processAdaptive env ev p (ConvexPoolAdaptive_updateMatchState ev p st)"

section \<open>The convex pool with exits\<close>

record cpePosition =
  ep_MarketTicker :: string
  ep_EntryPrice :: float64
  ep_EntryEdge :: float64
  ep_EntryTS :: int
  ep_BuySize :: float64

record ConvexPoolExitConfig =
  cpec_PServe :: float64
  cpec_Alpha :: float64
  cpec_MinEdgeCents :: int
  cpec_MinMarketPrice :: float64
  cpec_MaxMarketPrice :: float64
  cpec_Label :: string
  cpec_SeriesFilter :: "string list"
  cpec_UTCHourStart :: int
  cpec_UTCHourEnd :: int
  cpec_TakeProfitCents :: int
  cpec_StopLossCents :: int
  cpec_MaxHoldSeconds :: int
  cpec_ExitEdgeCents :: int

record ConvexPoolExitStrategy = timed_book +
  cpe_states :: "string \<rightharpoonup> cpMatchState"
  cpe_series :: "string \<rightharpoonup> string"
  cpe_fvCache :: "string \<rightharpoonup> float64"
  cpe_positions :: "string \<rightharpoonup> cpePosition"
  cpe_hasDB :: bool
  cpe_model :: float64
  cpe_cfg :: ConvexPoolExitConfig

definition DefaultConvexPoolExitConfig :: ConvexPoolExitConfig where
  "DefaultConvexPoolExitConfig = \<lparr>cpec_PServe = flit (64 / 100), cpec_Alpha = Fin (1 / 2), cpec_MinEdgeCents = 3,
     cpec_MinMarketPrice = flit (5 / 100), cpec_MaxMarketPrice = flit (95 / 100), cpec_Label = ''convexpool-exit'',
     cpec_SeriesFilter = [], cpec_UTCHourStart = 0, cpec_UTCHourEnd = 0, cpec_TakeProfitCents = 5, cpec_StopLossCents = 5,
     cpec_MaxHoldSeconds = 300, cpec_ExitEdgeCents = 0\<rparr>"

definition NewConvexPoolExitStrategy :: "ConvexPoolExitConfig \<Rightarrow> ConvexPoolExitStrategy" where
  "NewConvexPoolExitStrategy cfg = \<lparr>pb_markets = [], pb_replayNow = None, pb_prices = Map.empty, tb_priceTimes = Map.empty,
     cpe_states = Map.empty, cpe_series = Map.empty, cpe_fvCache = Map.empty, cpe_positions = Map.empty, cpe_hasDB = False,
     cpe_model = cpec_PServe cfg, cpe_cfg = cfg\<rparr>"

definition NewConvexPoolExitStrategyWithDB :: "ConvexPoolExitConfig \<Rightarrow> ConvexPoolExitStrategy" where
  "NewConvexPoolExitStrategyWithDB cfg = (NewConvexPoolExitStrategy cfg)\<lparr>cpe_hasDB := True\<rparr>"

definition ConvexPoolExit_SetSharedMarkovModel :: "float64 \<Rightarrow> ConvexPoolExitStrategy \<Rightarrow> ConvexPoolExitStrategy" where
  "ConvexPoolExit_SetSharedMarkovModel m st = st\<lparr>cpe_model := m\<rparr>"

definition ConvexPoolExit_SetSeriesTicker :: "string \<Rightarrow> string \<Rightarrow> ConvexPoolExitStrategy \<Rightarrow> ConvexPoolExitStrategy" where
  "ConvexPoolExit_SetSeriesTicker ev series st = st\<lparr>cpe_series := (cpe_series st)(ev \<mapsto> series)\<rparr>"

definition ConvexPoolExit_loadSeriesTicker :: "live_env \<Rightarrow> string \<Rightarrow> ConvexPoolExitStrategy \<Rightarrow> ConvexPoolExitStrategy" where
  "ConvexPoolExit_loadSeriesTicker env ev st = st\<lparr>cpe_series := load_series (le_seriesTicker env) ev (cpe_series st)\<rparr>"

definition ConvexPoolExit_RegisterMarkets :: "live_env \<Rightarrow> string \<Rightarrow> string list \<Rightarrow> ConvexPoolExitStrategy \<Rightarrow> ConvexPoolExitStrategy" where
  "ConvexPoolExit_RegisterMarkets env ev mkts st =
     (let st1 = add_markets ev mkts st;
          st2 = (if cpe_states st1 ev = None then st1\<lparr>cpe_states := (cpe_states st1)(ev \<mapsto> no_sets)\<rparr> else st1) in
      if cpe_hasDB st2 then ConvexPoolExit_loadSeriesTicker env ev st2 else st2)"

definition ConvexPoolExit_UnregisterMarkets :: "string \<Rightarrow> ConvexPoolExitStrategy \<Rightarrow> ConvexPoolExitStrategy" where
  "ConvexPoolExit_UnregisterMarkets ev st =
     (drop_event_times ev st)\<lparr>cpe_fvCache := drop_all (live_event_markets st ev) (cpe_fvCache st),
        cpe_positions := drop_all (live_event_markets st ev) (cpe_positions st),
        cpe_states := drop_key ev (cpe_states st), cpe_series := drop_key ev (cpe_series st)\<rparr>"

definition ConvexPoolExit_DeletePrice :: "string \<Rightarrow> ConvexPoolExitStrategy \<Rightarrow> ConvexPoolExitStrategy" where
  "ConvexPoolExit_DeletePrice mkt st = delete_time mkt (delete_price mkt st)"

definition ConvexPoolExit_updateMatchState :: "string \<Rightarrow> 'a Point_scheme \<Rightarrow> ConvexPoolExitStrategy \<Rightarrow> ConvexPoolExitStrategy" where
  "ConvexPoolExit_updateMatchState ev p st = st\<lparr>cpe_states := (cpe_states st)(ev \<mapsto> raise_sets p (cpe_states st ev))\<rparr>"

definition getSetsHome :: "string \<Rightarrow> ConvexPoolExitStrategy \<Rightarrow> int" where
  "getSetsHome ev st = (case cpe_states st ev of Some ms \<Rightarrow> cpm_setsHome ms | None \<Rightarrow> 0)"

definition getSetsAway :: "string \<Rightarrow> ConvexPoolExitStrategy \<Rightarrow> int" where
  "getSetsAway ev st = (case cpe_states st ev of Some ms \<Rightarrow> cpm_setsAway ms | None \<Rightarrow> 0)"

definition ConvexPoolExit_sell_order ::
  "live_env \<Rightarrow> string \<Rightarrow> string \<Rightarrow> cpePosition \<Rightarrow> string \<Rightarrow> float64 \<Rightarrow> int \<Rightarrow> string \<Rightarrow> Order" where
  "ConvexPoolExit_sell_order env ev mkt pos reason sellPrice ts label =
     (let edge = plain_edge sellPrice (ep_EntryPrice pos) in
      (signal_order env (live_UnixMilli ts) ev mkt ''sell'' (''cpe_sell_'' @ reason) (ep_EntryPrice pos) sellPrice edge
         (clamp_count (ep_BuySize pos)) label)
         \<lparr>or_Side := OrderSideClose,
          or_Payload := le_marshal env
            [(''entry_price'', JFloat (ep_EntryPrice pos)), (''exit_price'', JFloat sellPrice), (''exit_reason'', JString reason),
             (''entry_edge'', JFloat (ep_EntryEdge pos)), (''hold_ms'', JInt (live_UnixMilli ts - ep_EntryTS pos)),
             (''pnl_cents'', JInt edge)]\<rparr>)"

text \<open>\<open>reversal\<close> stands for the source \<open>edge_reversal\<close>, which comes before the other reasons.\<close>

definition ConvexPoolExit_checkExit ::
  "live_env \<Rightarrow> string \<Rightarrow> float64 \<Rightarrow> int \<Rightarrow> cpePosition \<Rightarrow> bool \<Rightarrow> ConvexPoolExitStrategy \<Rightarrow> ConvexPoolExitStrategy act" where
  "ConvexPoolExit_checkExit env mkt price ts pos reversal st =
     (let cfg = cpe_cfg st in
      case (if reversal then Some (''edge'', price)
            else exit_reason price (fadd (ep_EntryPrice pos) (cents_off (cpec_TakeProfitCents cfg)))
                   (fsub (ep_EntryPrice pos) (cents_off (cpec_StopLossCents cfg)))
                   (live_UnixMilli ts - ep_EntryTS pos) (cpec_MaxHoldSeconds cfg * 1000)) of
        None \<Rightarrow> Return st
      | Some (reason, sellPrice) \<Rightarrow>
          (let st1 = st\<lparr>cpe_positions := drop_key mkt (cpe_positions st)\<rparr>; ev = eventForMarket env st mkt in
           if ev = [] then Return st1
           else Emit (ConvexPoolExit_sell_order env ev mkt pos reason sellPrice ts (cpec_Label cfg))
                  (\<lambda>ok. Return (if ok then st1 else st1\<lparr>cpe_positions := (cpe_positions st1)(mkt \<mapsto> pos)\<rparr>))))"

definition ConvexPoolExit_OnPriceAt :: "live_env \<Rightarrow> string \<Rightarrow> float64 \<Rightarrow> int \<Rightarrow> ConvexPoolExitStrategy \<Rightarrow> ConvexPoolExitStrategy act" where
  "ConvexPoolExit_OnPriceAt env mkt price ts st0 =
     (let st = set_time mkt ts (set_price mkt price st0) in
      case cpe_positions st mkt of
        Some pos \<Rightarrow> ConvexPoolExit_checkExit env mkt price ts pos False st
      | None \<Rightarrow> Return st)"

definition ConvexPoolExit_OnPrice :: "live_env \<Rightarrow> string \<Rightarrow> float64 \<Rightarrow> ConvexPoolExitStrategy \<Rightarrow> ConvexPoolExitStrategy act" where
  "ConvexPoolExit_OnPrice env mkt price st = ConvexPoolExit_OnPriceAt env mkt price (live_now env 0 st) st"

definition ConvexPoolExit_buy_order ::
  "live_env \<Rightarrow> string \<Rightarrow> 'a Point_scheme \<Rightarrow> nat \<times> string \<Rightarrow> float64 \<Rightarrow> float64 \<Rightarrow> float64 \<Rightarrow> int \<Rightarrow> ConvexPoolExitConfig \<Rightarrow> Order" where
  "ConvexPoolExit_buy_order env ev p side fv blended price now cfg =
     (let (i, mkt) = side; edge = plain_edge blended price in
      (signal_order env (live_UnixMilli now) ev mkt ''buy''
         (''cpe_entry_'' @ live_sideName (int i + 1) @ ''_set'' @ show_int (pt_SetNumber p) @ ''_game'' @ show_int (pt_GameNumber p) @
          ''_pt'' @ show_int (pt_PointNumber p))
         blended price edge (clamp_count (kellySized env blended price)) (cpec_Label cfg))
         \<lparr>or_Side := OrderSideOpen, or_SetNumber := pt_SetNumber p,
          or_Payload := le_marshal env
            [(''fv'', JFloat fv), (''blended'', JFloat blended), (''entry_price'', JFloat price), (''edge_cents'', JInt edge),
             (''alpha'', JFloat (cpec_Alpha cfg)), (''tp_price'', JFloat (fadd price (cents_off (cpec_TakeProfitCents cfg)))),
             (''sl_price'', JFloat (fsub price (cents_off (cpec_StopLossCents cfg)))), (''max_hold_s'', JInt (cpec_MaxHoldSeconds cfg)),
             (''entry_ts'', JInt (live_UnixMilli now))]\<rparr>)"

definition ConvexPoolExit_side ::
  "live_env \<Rightarrow> string \<Rightarrow> 'a Point_scheme \<Rightarrow> float64 \<Rightarrow> int \<Rightarrow> nat \<times> string \<Rightarrow> ConvexPoolExitStrategy \<Rightarrow> ConvexPoolExitStrategy act" where
  "ConvexPoolExit_side env ev p fvHome now side st0 =
     (let (i, mkt) = side; cfg = cpe_cfg st0;
          fv = (if i = 1 then fsub (Fin 1) fvHome else fvHome);
          st = st0\<lparr>cpe_fvCache := (cpe_fvCache st0)(mkt \<mapsto> fv)\<rparr>;
          price = live_price st mkt;
          blended = blend (cpec_Alpha cfg) fv price;
          edge = plain_edge blended price in
      if fle0 price \<or> price_age now st mkt > live_priceStaleTTL then Return st
      else
     (case cpe_positions st mkt of
        Some pos \<Rightarrow>
          (if edge < cpec_ExitEdgeCents cfg then ConvexPoolExit_checkExit env mkt price now pos True st else Return st)
      | None \<Rightarrow>
          (if edge < cpec_MinEdgeCents cfg then Return st
           else if flt price (cpec_MinMarketPrice cfg) then Return st
           else if fpos (cpec_MaxMarketPrice cfg) \<and> flt (cpec_MaxMarketPrice cfg) price then Return st
           else
             Emit (ConvexPoolExit_buy_order env ev p side fv blended price now cfg)
               (\<lambda>ok. Return (st\<lparr>cpe_positions := (cpe_positions st)(mkt :=
                  (if ok then Some \<lparr>ep_MarketTicker = mkt, ep_EntryPrice = price, ep_EntryEdge = fsub blended price,
                     ep_EntryTS = live_UnixMilli now, ep_BuySize = clamp_count (kellySized env blended price)\<rparr> else None))\<rparr>)))))"

definition ConvexPoolExit_processPoint :: "live_env \<Rightarrow> string \<Rightarrow> 'a Point_scheme \<Rightarrow> ConvexPoolExitStrategy \<Rightarrow> ConvexPoolExitStrategy act" where
  "ConvexPoolExit_processPoint env ev p st =
     (case markets_of st ev of
        None \<Rightarrow> Return st
      | Some mkts \<Rightarrow>
          (if length mkts < 2 then Return st
           else if \<not> seriesMatches (series_of (cpe_series st) ev) (cpec_SeriesFilter (cpe_cfg st)) then Return st
           else if \<not> utcHourMatches (live_now env 0 st) (cpec_UTCHourStart (cpe_cfg st)) (cpec_UTCHourEnd (cpe_cfg st)) then Return st
           else
             (let fvHome = live_fair_value (cpe_model st) (getSetsHome ev st) (getSetsAway ev st) p in
              for_act (ConvexPoolExit_side env ev p fvHome (live_now env 1 st)) (enumerate 0 mkts) st)))"

definition ConvexPoolExit_OnPoint :: "live_env \<Rightarrow> string \<Rightarrow> 'a Point_scheme \<Rightarrow> ConvexPoolExitStrategy \<Rightarrow> ConvexPoolExitStrategy act" where
  "ConvexPoolExit_OnPoint env ev p st = ConvexPoolExit_processPoint env ev p (ConvexPoolExit_updateMatchState ev p st)"

end
