(* ===== verification/LiveJ.thy ===== *)
theory LiveJ
  imports LiveI CalibratedMarkov
begin

text \<open>
  Strategies of the first version, part ten: the pressure of the order book (\<open>bookpressure.go\<close>), the Markov
  model with calibrated serves (\<open>calibrated_markov.go\<close>) and the close timer (\<open>internal/signal/close_timer.go\<close>)
  with its query (\<open>internal/store/markets.go\<close>).
\<close>

section \<open>Book pressure\<close>

record BookTick =
  bk_TS :: int
  bk_Bid :: float64
  bk_Ask :: float64
  bk_BidSize :: float64
  bk_AskSize :: float64

record BookPressureConfig =
  bkc_MinPressure :: float64
  bkc_ExitPressure :: float64
  bkc_MinBidSize :: float64
  bkc_MinAskSize :: float64
  bkc_MinEntryPrice :: float64
  bkc_MaxEntryPrice :: float64
  bkc_HoldSeconds :: int
  bkc_TakeProfitCents :: int
  bkc_StopLossCents :: int
  bkc_CooldownSeconds :: int
  bkc_BaseSize :: float64
  bkc_Label :: string

definition DefaultBookPressureConfig :: BookPressureConfig where
  "DefaultBookPressureConfig = \<lparr>bkc_MinPressure = flit (60 / 100), bkc_ExitPressure = Fin 0, bkc_MinBidSize = Fin 100,
     bkc_MinAskSize = Fin 100, bkc_MinEntryPrice = flit (15 / 100), bkc_MaxEntryPrice = flit (85 / 100), bkc_HoldSeconds = 120,
     bkc_TakeProfitCents = 5, bkc_StopLossCents = 3, bkc_CooldownSeconds = 60, bkc_BaseSize = Fin 10, bkc_Label = ''bookpressure''\<rparr>"

record bpPosition =
  bpp_MarketTicker :: string
  bpp_EntryPrice :: float64
  bpp_EntryTS :: int
  bpp_BuySize :: float64

record BookPressureStrategy = price_book +
  bk_books :: "string \<rightharpoonup> BookTick list"
  bk_positions :: "string \<rightharpoonup> bpPosition"
  bk_cooldowns :: "string \<rightharpoonup> int"
  bk_scoreState :: "string \<rightharpoonup> spikeScoreState"
  bk_cfg :: BookPressureConfig

definition NewBookPressureStrategy :: "BookPressureConfig \<Rightarrow> BookPressureStrategy" where
  "NewBookPressureStrategy cfg = \<lparr>pb_markets = [], pb_replayNow = None, pb_prices = Map.empty, bk_books = Map.empty,
     bk_positions = Map.empty, bk_cooldowns = Map.empty, bk_scoreState = Map.empty, bk_cfg = cfg\<rparr>"

definition BookPressure_RegisterMarkets :: "string \<Rightarrow> string list \<Rightarrow> BookPressureStrategy \<Rightarrow> BookPressureStrategy" where
  "BookPressure_RegisterMarkets ev mkts st = add_markets ev mkts st"

definition BookPressure_UnregisterMarkets :: "string \<Rightarrow> BookPressureStrategy \<Rightarrow> BookPressureStrategy" where
  "BookPressure_UnregisterMarkets ev st =
     (let mkts = live_event_markets st ev in
      (drop_event ev st)\<lparr>bk_books := drop_all mkts (bk_books st), bk_positions := drop_all mkts (bk_positions st),
        bk_cooldowns := drop_all mkts (bk_cooldowns st), bk_scoreState := drop_key ev (bk_scoreState st)\<rparr>)"

definition SetBookSeries :: "string \<Rightarrow> BookTick list \<Rightarrow> BookPressureStrategy \<Rightarrow> BookPressureStrategy" where
  "SetBookSeries mkt books st = st\<lparr>bk_books := (bk_books st)(mkt \<mapsto> books)\<rparr>"

definition BookPressure_DeletePrice :: "string \<Rightarrow> BookPressureStrategy \<Rightarrow> BookPressureStrategy" where
  "BookPressure_DeletePrice mkt st = (delete_price mkt st)\<lparr>bk_books := drop_key mkt (bk_books st)\<rparr>"

definition bookAtTime :: "string \<Rightarrow> int \<Rightarrow> BookPressureStrategy \<Rightarrow> BookTick option" where
  "bookAtTime mkt ts st =
     (let series = (case bk_books st mkt of None \<Rightarrow> [] | Some xs \<Rightarrow> xs) in
      if series = [] then None
      else
        (let idx = sort_search (\<lambda>i. bk_TS (series ! i) > ts) 0 (length series) in
         if idx = 0 then None else Some (series ! (idx - 1))))"

definition pressureAt :: "string \<Rightarrow> int \<Rightarrow> BookPressureStrategy \<Rightarrow> float64 option" where
  "pressureAt mkt ts st =
     (case bookAtTime mkt ts st of
        None \<Rightarrow> None
      | Some book \<Rightarrow>
          (let total = fadd (bk_BidSize book) (bk_AskSize book) in
           if flt (bk_BidSize book) (bkc_MinBidSize (bk_cfg st)) \<or> flt (bk_AskSize book) (bkc_MinAskSize (bk_cfg st)) then None
           else if fle0 total then None
           else Some (fdiv (fsub (bk_BidSize book) (bk_AskSize book)) total)))"

text \<open>The edge that a pressure stands for, at least a cent, and the probability it gives.\<close>

definition pressure_edge :: "float64 \<Rightarrow> int" where
  "pressure_edge pressure =
     (let e = to_int64 (fadd (fmul pressure (Fin 200)) (flit (1 / 10 ^ 9))) in if e < 1 then 1 else e)"

definition pressure_prob :: "float64 \<Rightarrow> float64 \<Rightarrow> float64" where
  "pressure_prob price pressure =
     (let q = fadd price (cents_off (pressure_edge pressure)) in if flt (flit (99 / 100)) q then flit (99 / 100) else q)"

definition BookPressure_buy_order ::
  "live_env \<Rightarrow> string \<Rightarrow> string \<Rightarrow> float64 \<Rightarrow> float64 \<Rightarrow> int \<Rightarrow> BookPressureConfig \<Rightarrow> Order" where
  "BookPressure_buy_order env ev mkt price pressure ts cfg =
     (let edge = pressure_edge pressure; convProb = pressure_prob price pressure in
      (signal_order env (live_UnixMilli ts) ev mkt ''buy'' (''bp_'' @ format2f pressure @ ''_pressure'') convProb price edge
         (clamp_count (kellySized env convProb price)) (bkc_Label cfg))
         \<lparr>or_Side := OrderSideOpen,
          or_Payload := le_marshal env
            [(''pressure'', JFloat pressure), (''entry_price'', JFloat price), (''edge_cents'', JInt edge),
             (''conv_prob'', JFloat convProb), (''hold_s'', JInt (bkc_HoldSeconds cfg)), (''tp_cents'', JInt (bkc_TakeProfitCents cfg)),
             (''sl_cents'', JInt (bkc_StopLossCents cfg)), (''entry_ts'', JInt (live_UnixMilli ts))]\<rparr>)"

definition BookPressure_checkEntry :: "live_env \<Rightarrow> string \<Rightarrow> float64 \<Rightarrow> int \<Rightarrow> BookPressureStrategy \<Rightarrow> BookPressureStrategy act" where
  "BookPressure_checkEntry env mkt price ts st =
     (let cfg = bk_cfg st; ev = eventForMarket env st mkt;
          lastExit = (case bk_cooldowns st mkt of None \<Rightarrow> 0 | Some t \<Rightarrow> t) in
      if flt price (bkc_MinEntryPrice cfg) \<or> flt (bkc_MaxEntryPrice cfg) price then Return st
      else if ev = [] then Return st
      else if dip_points (bk_scoreState st) ev then Return st
      else if lastExit > 0 \<and> live_UnixMilli ts - lastExit < bkc_CooldownSeconds cfg * 1000 then Return st
      else
        (case pressureAt mkt (live_UnixMilli ts) st of
           None \<Rightarrow> Return st
         | Some pressure \<Rightarrow>
             (if flt pressure (bkc_MinPressure cfg) then Return st
              else
                Emit (BookPressure_buy_order env ev mkt price pressure ts cfg)
                  (\<lambda>ok. Return (st\<lparr>bk_positions := (bk_positions st)(mkt :=
                     (if ok then Some \<lparr>bpp_MarketTicker = mkt, bpp_EntryPrice = price, bpp_EntryTS = live_UnixMilli ts,
                        bpp_BuySize = clamp_count (kellySized env (pressure_prob price pressure) price)\<rparr> else None))\<rparr>)))))"

definition BookPressure_sell_order ::
  "live_env \<Rightarrow> string \<Rightarrow> string \<Rightarrow> bpPosition \<Rightarrow> string \<Rightarrow> float64 \<Rightarrow> int \<Rightarrow> string \<Rightarrow> Order" where
  "BookPressure_sell_order env ev mkt pos reason sellPrice ts label =
     (let edge = plain_edge sellPrice (bpp_EntryPrice pos) in
      (signal_order env (live_UnixMilli ts) ev mkt ''sell'' (''bp_sell_'' @ reason) (bpp_EntryPrice pos) sellPrice edge
         (clamp_count (bpp_BuySize pos)) label)
         \<lparr>or_Side := OrderSideClose,
          or_Payload := le_marshal env
            [(''entry_price'', JFloat (bpp_EntryPrice pos)), (''exit_price'', JFloat sellPrice), (''exit_reason'', JString reason),
             (''hold_ms'', JInt (live_UnixMilli ts - bpp_EntryTS pos)), (''pnl_cents'', JInt edge)]\<rparr>)"

text \<open>The exits of a position, then a pressure that has turned.\<close>

definition BookPressure_exit :: "string \<Rightarrow> float64 \<Rightarrow> int \<Rightarrow> bpPosition \<Rightarrow> BookPressureStrategy \<Rightarrow> (string \<times> float64) option" where
  "BookPressure_exit mkt price ts pos st =
     (let cfg = bk_cfg st in
      case exit_reason price (fadd (bpp_EntryPrice pos) (cents_off (bkc_TakeProfitCents cfg)))
             (fsub (bpp_EntryPrice pos) (cents_off (bkc_StopLossCents cfg)))
             (live_UnixMilli ts - bpp_EntryTS pos) (bkc_HoldSeconds cfg * 1000) of
        Some r \<Rightarrow> Some r
      | None \<Rightarrow>
          (case pressureAt mkt (live_UnixMilli ts) st of
             None \<Rightarrow> None
           | Some pressure \<Rightarrow> if flt pressure (bkc_ExitPressure cfg) then Some (''reversal'', price) else None))"

definition BookPressure_checkExit ::
  "live_env \<Rightarrow> string \<Rightarrow> float64 \<Rightarrow> int \<Rightarrow> bpPosition \<Rightarrow> BookPressureStrategy \<Rightarrow> BookPressureStrategy act" where
  "BookPressure_checkExit env mkt price ts pos st =
     (case BookPressure_exit mkt price ts pos st of
        None \<Rightarrow> Return st
      | Some (reason, sellPrice) \<Rightarrow>
          (let st1 = st\<lparr>bk_positions := drop_key mkt (bk_positions st),
                 bk_cooldowns := (bk_cooldowns st)(mkt \<mapsto> live_UnixMilli ts)\<rparr>;
               ev = eventForMarket env st mkt in
           if ev = [] then Return st1
           else Emit (BookPressure_sell_order env ev mkt pos reason sellPrice ts (bkc_Label (bk_cfg st)))
                  (\<lambda>ok. Return (if ok then st1 else st1\<lparr>bk_positions := (bk_positions st1)(mkt \<mapsto> pos)\<rparr>))))"

definition BookPressure_OnPriceAt :: "live_env \<Rightarrow> string \<Rightarrow> float64 \<Rightarrow> int \<Rightarrow> BookPressureStrategy \<Rightarrow> BookPressureStrategy act" where
  "BookPressure_OnPriceAt env mkt price ts st0 =
     (let st = set_price mkt price st0 in
      case bk_positions st mkt of
        Some pos \<Rightarrow> BookPressure_checkExit env mkt price ts pos st
      | None \<Rightarrow> BookPressure_checkEntry env mkt price ts st)"

definition BookPressure_OnPrice :: "live_env \<Rightarrow> string \<Rightarrow> float64 \<Rightarrow> BookPressureStrategy \<Rightarrow> BookPressureStrategy act" where
  "BookPressure_OnPrice env mkt price st = BookPressure_OnPriceAt env mkt price (live_now env 0 st) st"

definition BookPressure_OnPoint :: "string \<Rightarrow> 'a Point_scheme \<Rightarrow> BookPressureStrategy \<Rightarrow> BookPressureStrategy" where
  "BookPressure_OnPoint ev p st =
     st\<lparr>bk_scoreState := (bk_scoreState st)(ev \<mapsto> \<lparr>ss_isMatchPoint = pt_IsMatchPoint p, ss_isSetPoint = pt_IsSetPoint p\<rparr>)\<rparr>"

section \<open>Calibrated serves\<close>

record CalibratedMarkovConfig =
  cmc_ModelPath :: string
  cmc_MinEdgeCents :: int
  cmc_MaxMarketPrice :: float64
  cmc_SuggestedSize :: float64
  cmc_Label :: string

record CalibratedMarkovStrategy = price_book +
  cms_fired :: "string \<Rightarrow> bool"
  cms_series :: "string \<rightharpoonup> string"
  cms_hasDB :: bool
  cms_model :: "serveWinModel option"
  cms_cfg :: CalibratedMarkovConfig

definition DefaultCalibratedMarkovConfig :: CalibratedMarkovConfig where
  "DefaultCalibratedMarkovConfig = \<lparr>cmc_ModelPath = ''research/ml/models/serve_win_logistic.json'', cmc_MinEdgeCents = 3,
     cmc_MaxMarketPrice = flit (85 / 100), cmc_SuggestedSize = Fin 10, cmc_Label = ''calibrated-markov''\<rparr>"

text \<open>\<open>read_model\<close> is the content of the file, decoded, if both succeed.\<close>

definition NewCalibratedMarkovStrategy ::
  "(string \<Rightarrow> serveWinModel option) \<Rightarrow> CalibratedMarkovConfig \<Rightarrow> CalibratedMarkovStrategy" where
  "NewCalibratedMarkovStrategy read_model cfg = \<lparr>pb_markets = [], pb_replayNow = None, pb_prices = Map.empty,
     cms_fired = (\<lambda>_. False), cms_series = Map.empty, cms_hasDB = False, cms_model = read_model (cmc_ModelPath cfg), cms_cfg = cfg\<rparr>"

definition NewCalibratedMarkovStrategyWithDB ::
  "(string \<Rightarrow> serveWinModel option) \<Rightarrow> CalibratedMarkovConfig \<Rightarrow> CalibratedMarkovStrategy" where
  "NewCalibratedMarkovStrategyWithDB read_model cfg = (NewCalibratedMarkovStrategy read_model cfg)\<lparr>cms_hasDB := True\<rparr>"

definition live_sigmoid :: "(float64 \<Rightarrow> float64) \<Rightarrow> float64 \<Rightarrow> float64" where
  "live_sigmoid exp_f x = fdiv (Fin 1) (fadd (Fin 1) (exp_f (fneg x)))"

definition live_predictServeWin ::
  "(float64 \<Rightarrow> float64) \<Rightarrow> CalibratedMarkovStrategy \<Rightarrow> string \<Rightarrow> 'a Point_scheme \<Rightarrow> float64" where
  "live_predictServeWin exp_f st seriesTicker p =
     (case cms_model st of
        None \<Rightarrow> defaultPServe
      | Some m \<Rightarrow> live_sigmoid exp_f (weigh (sw_Coef m) (serve_features m seriesTicker (Point.truncate p)) (sw_Intercept m)))"

text \<open>Here an empty series is stored too.\<close>

definition CalibratedMarkov_loadSeriesTicker :: "live_env \<Rightarrow> string \<Rightarrow> CalibratedMarkovStrategy \<Rightarrow> CalibratedMarkovStrategy" where
  "CalibratedMarkov_loadSeriesTicker env ev st =
     (case le_seriesTicker env ev of None \<Rightarrow> st | Some series \<Rightarrow> st\<lparr>cms_series := (cms_series st)(ev \<mapsto> series)\<rparr>)"

definition CalibratedMarkov_RegisterMarkets :: "live_env \<Rightarrow> string \<Rightarrow> string list \<Rightarrow> CalibratedMarkovStrategy \<Rightarrow> CalibratedMarkovStrategy" where
  "CalibratedMarkov_RegisterMarkets env ev mkts st =
     (let st1 = add_markets ev mkts st in if cms_hasDB st1 then CalibratedMarkov_loadSeriesTicker env ev st1 else st1)"

definition CalibratedMarkov_UnregisterMarkets :: "string \<Rightarrow> CalibratedMarkovStrategy \<Rightarrow> CalibratedMarkovStrategy" where
  "CalibratedMarkov_UnregisterMarkets ev st =
     (drop_event ev st)\<lparr>cms_fired := (cms_fired st)(ev := False), cms_series := drop_key ev (cms_series st)\<rparr>"

definition CalibratedMarkov_OnPriceAt :: "string \<Rightarrow> float64 \<Rightarrow> CalibratedMarkovStrategy \<Rightarrow> CalibratedMarkovStrategy" where
  "CalibratedMarkov_OnPriceAt mkt price st = set_price mkt price st"

definition CalibratedMarkov_OnPrice :: "string \<Rightarrow> float64 \<Rightarrow> CalibratedMarkovStrategy \<Rightarrow> CalibratedMarkovStrategy" where
  "CalibratedMarkov_OnPrice mkt price st = CalibratedMarkov_OnPriceAt mkt price st"

definition CalibratedMarkov_DeletePrice :: "string \<Rightarrow> CalibratedMarkovStrategy \<Rightarrow> CalibratedMarkovStrategy" where
  "CalibratedMarkov_DeletePrice mkt st = delete_price mkt st"

definition CalibratedMarkov_SetSeriesTicker :: "string \<Rightarrow> string \<Rightarrow> CalibratedMarkovStrategy \<Rightarrow> CalibratedMarkovStrategy" where
  "CalibratedMarkov_SetSeriesTicker ev series st = st\<lparr>cms_series := (cms_series st)(ev \<mapsto> series)\<rparr>"

definition CalibratedMarkov_order ::
  "live_env \<Rightarrow> string \<Rightarrow> string \<Rightarrow> float64 \<Rightarrow> float64 \<Rightarrow> int \<Rightarrow> int \<Rightarrow> string \<Rightarrow> Order" where
  "CalibratedMarkov_order env ev mkt fairValue marketPrice setNum ts label =
     (let edge = edge_cents fairValue marketPrice in
      (signal_order env (live_UnixMilli ts) ev mkt ''buy'' (''calmarkov_set'' @ show_int setNum @ ''_edge'' @ show_int edge @ ''c'')
         fairValue marketPrice edge (kellySized env fairValue marketPrice) label)\<lparr>or_SetNumber := setNum\<rparr>)"

text \<open>The clock is read only for an order, and there is at most one in a match.\<close>

definition live_CalibratedMarkov_checkEdge ::
  "live_env \<Rightarrow> string \<Rightarrow> string \<Rightarrow> float64 \<Rightarrow> float64 \<Rightarrow> int \<Rightarrow> CalibratedMarkovStrategy \<Rightarrow> CalibratedMarkovStrategy act" where
  "live_CalibratedMarkov_checkEdge env ev mkt marketPrice fairValue setNum st =
     (if fle0 marketPrice \<or> flt (cmc_MaxMarketPrice (cms_cfg st)) marketPrice then Return st
      else if edge_cents fairValue marketPrice < cmc_MinEdgeCents (cms_cfg st) then Return st
      else if cms_fired st ev then Return st
      else
        Emit (CalibratedMarkov_order env ev mkt fairValue marketPrice setNum (live_now env 0 st) (cmc_Label (cms_cfg st)))
          (\<lambda>_. Return (st\<lparr>cms_fired := (cms_fired st)(ev := True)\<rparr>)))"

definition CalibratedMarkov_OnPoint ::
  "(float64 \<Rightarrow> float64) \<Rightarrow> live_env \<Rightarrow> string \<Rightarrow> 'a Point_scheme \<Rightarrow> CalibratedMarkovStrategy \<Rightarrow> CalibratedMarkovStrategy act" where
  "CalibratedMarkov_OnPoint exp_f env ev p st =
     (if cms_fired st ev then Return st
      else
        (case markets_of st ev of
           None \<Rightarrow> Return st
         | Some mkts \<Rightarrow>
             (if length mkts < 2 then Return st
              else
             (let homeMkt = mkts ! 0; awayMkt = mkts ! 1;
                  homePrice = live_price st homeMkt; awayPrice = live_price st awayMkt;
                  pServe = live_predictServeWin exp_f st (series_of (cms_series st) ev) p;
                  setsHome = (if pt_HomeSetGames p > pt_AwaySetGames p then 1 else 0);
                  setsAway = (if pt_AwaySetGames p > pt_HomeSetGames p then 1 else 0);
                  homeFV = fst (live_WinProbability setsHome setsAway (pt_HomeGames p) (pt_AwayGames p) (pt_HomePoints p)
                    (pt_AwayPoints p) (pt_Server p) (pt_IsTiebreak p) (NewMarkovModelWithProb pServe));
                  awayFV = fsub (Fin 1) homeFV in
              if fle0 homePrice \<and> fle0 awayPrice then Return st
              else
                bind_act (live_CalibratedMarkov_checkEdge env ev homeMkt homePrice homeFV (pt_SetNumber p) st)
                  (\<lambda>st1. live_CalibratedMarkov_checkEdge env ev awayMkt awayPrice awayFV (pt_SetNumber p) st1)))))"

section \<open>The close timer\<close>

record live_Market =
  lm_MarketTicker :: string
  lm_EventTicker :: string
  lm_PlayerName :: string
  lm_Status :: string
  lm_CloseTS :: int
  lm_Result :: string

definition GetMarketsClosingWithin :: "int \<Rightarrow> int \<Rightarrow> live_Market list \<Rightarrow> live_Market list" where
  "GetMarketsClosingWithin now withinSecs rows =
     sort_key lm_CloseTS
       (filter (\<lambda>m. lm_Status m \<in> {''open'', ''active''} \<and> lm_Result m \<noteq> ''scalar'' \<and> lm_CloseTS m > 0 \<and>
          now \<le> lm_CloseTS m \<and> lm_CloseTS m \<le> now + withinSecs * 1000) rows)"

record live_CloseTimer =
  lct_leadMin :: int
  lct_minPrice :: float64
  lct_fired :: "string \<Rightarrow> bool"

definition live_NewCloseTimer :: "int \<Rightarrow> float64 \<Rightarrow> live_CloseTimer" where
  "live_NewCloseTimer leadMin minPrice = \<lparr>lct_leadMin = leadMin, lct_minPrice = minPrice, lct_fired = (\<lambda>_. False)\<rparr>"

definition event_rows :: "string \<Rightarrow> live_Market list \<Rightarrow> live_Market list" where
  "event_rows ev markets = filter (\<lambda>m. lm_EventTicker m = ev) markets"

text \<open>The dearest market with a fresh price; \<open>price_of\<close> and \<open>age_of\<close> are the lookup interface.\<close>

definition favourite ::
  "(string \<Rightarrow> float64) \<Rightarrow> (string \<Rightarrow> int) \<Rightarrow> live_Market list \<Rightarrow> (live_Market \<times> float64) option" where
  "favourite price_of age_of mkts =
     foldl (\<lambda>best m.
        (let p = price_of (lm_MarketTicker m); favPrice = (case best of None \<Rightarrow> Fin 0 | Some (_, q) \<Rightarrow> q) in
         if fle0 p then best
         else if age_of (lm_MarketTicker m) > live_priceStaleTTL then best
         else if flt favPrice p then Some (m, p) else best))
      None mkts"

definition CloseTimer_order :: "live_env \<Rightarrow> string \<Rightarrow> live_Market \<Rightarrow> float64 \<Rightarrow> float64 \<Rightarrow> int \<Rightarrow> int \<Rightarrow> Order" where
  "CloseTimer_order env ev fav favPrice secsToClose now leadMin =
     (let conv = flit (95 / 100) in
      (signal_order env (live_UnixMilli now) ev (lm_MarketTicker fav) ''buy'' (''close_timer_'' @ show_int leadMin @ ''m'') conv favPrice
         (plain_edge (Fin 1) favPrice) (kellySized env conv favPrice) ''close_timer'')
         \<lparr>or_Payload := le_marshal env
            [(''strategy'', JString ''close_timer''), (''secs_to_close'', JInt (to_int64 secsToClose)),
             (''favorite'', JString (lm_PlayerName fav)), (''favorite_price'', JFloat favPrice)]\<rparr>)"

definition CloseTimer_event ::
  "live_env \<Rightarrow> (string \<Rightarrow> float64) \<Rightarrow> (string \<Rightarrow> int) \<Rightarrow> int \<Rightarrow> live_Market list \<Rightarrow> string \<Rightarrow> live_CloseTimer \<Rightarrow> live_CloseTimer act" where
  "CloseTimer_event env price_of age_of now markets ev ct =
     (let mkts = event_rows ev markets;
          closeTS = foldl (\<lambda>t m. if lm_CloseTS m > t then lm_CloseTS m else t) 0 mkts;
          secsToClose = dur_seconds (clamp64 (closeTS * 10 ^ 6 - now)) in
      if lct_fired ct ev then Return ct
      else if closeTS = 0 then Return ct
      else if flt (of_int64 (lct_leadMin ct * 60)) secsToClose then Return ct
      else if flt secsToClose (Fin 0) then Return ct
      else if flt secsToClose (Fin 60) then Return ct
      else if length mkts < 2 then Return ct
      else
        (case favourite price_of age_of mkts of
           None \<Rightarrow> Return ct
         | Some (fav, favPrice) \<Rightarrow>
             (if flt favPrice (lct_minPrice ct) then Return ct
              else
                Emit (CloseTimer_order env ev fav favPrice secsToClose now (lct_leadMin ct))
                  (\<lambda>ok. Return (if ok then ct\<lparr>lct_fired := (lct_fired ct)(ev := True)\<rparr> else ct)))))"

definition cleanupFired :: "string list \<Rightarrow> live_CloseTimer \<Rightarrow> live_CloseTimer" where
  "cleanupFired current ct = ct\<lparr>lct_fired := (\<lambda>ev. lct_fired ct ev \<and> ev \<in> set current)\<rparr>"

text \<open>
  One scan. The query's answer is \<open>None\<close> when it fails; \<open>order_of\<close> is the order in which the map of events
  is traversed.
\<close>

definition live_CloseTimer_OnTick ::
  "live_env \<Rightarrow> (string list \<Rightarrow> string list) \<Rightarrow> (string \<Rightarrow> float64) \<Rightarrow> (string \<Rightarrow> int) \<Rightarrow> (int \<Rightarrow> live_Market list option) \<Rightarrow>
   int \<Rightarrow> live_CloseTimer \<Rightarrow> live_CloseTimer act" where
  "live_CloseTimer_OnTick env order_of price_of age_of closing pollSecs ct =
     (case closing (lct_leadMin ct * 60 + max pollSecs 60) of
        None \<Rightarrow> Return ct
      | Some markets \<Rightarrow>
          (let evs = remdups (map lm_EventTicker markets) in
           bind_act (for_act (CloseTimer_event env price_of age_of (le_clock env 0) markets) (order_of evs) ct)
             (\<lambda>ct'. Return (cleanupFired evs ct'))))"

text \<open>A purchase is at a positive price no lower than the threshold, of a market of the event.\<close>

lemma favourite_some:
  assumes "favourite price_of age_of mkts = Some (m, p)"
  shows "m \<in> set mkts \<and> p = price_of (lm_MarketTicker m) \<and> \<not> fle0 p \<and> age_of (lm_MarketTicker m) \<le> live_priceStaleTTL"
proof -
  define ok where "ok m p \<longleftrightarrow> m \<in> set mkts \<and> p = price_of (lm_MarketTicker m) \<and> \<not> fle0 p \<and>
    age_of (lm_MarketTicker m) \<le> live_priceStaleTTL" for m :: live_Market and p
  define f where "f = (\<lambda>best (m :: live_Market).
        (let p = price_of (lm_MarketTicker m); favPrice = (case best of None \<Rightarrow> Fin 0 | Some (_, q) \<Rightarrow> q) in
         if fle0 p then best
         else if age_of (lm_MarketTicker m) > live_priceStaleTTL then best
         else if flt favPrice p then Some (m, p) else best))"
  have "foldl f best ms = Some (m, p) \<Longrightarrow> set ms \<subseteq> set mkts \<Longrightarrow> \<forall>m' p'. best = Some (m', p') \<longrightarrow> ok m' p' \<Longrightarrow> ok m p" for ms best
    by (induction ms arbitrary: best) (auto simp: f_def ok_def Let_def split: if_splits)
  from this [of None mkts] assms have "ok m p" by (simp add: favourite_def f_def)
  then show ?thesis by (simp only: ok_def) blast
qed

end
