(* ===== verification/LiveSystem.thy ===== *)
theory LiveSystem
  imports LiveJ
begin

text \<open>
  The strategies of the first version together: the interface \<open>Strategy\<close> as a sum of their states, the
  runtime that feeds them (\<open>internal/algorithms/multi.go\<close>) and the list of them that the program builds
  (\<open>internal/strategies/builder.go\<close>).
\<close>

section \<open>The interface\<close>

definition map_act :: "('a \<Rightarrow> 'b) \<Rightarrow> 'a act \<Rightarrow> 'b act" where
  "map_act f m = bind_act m (\<lambda>a. Return (f a))"

lemma map_act_simps [simp]:
  "map_act f Panic = Panic" "map_act f (Return a) = Return (f a)" "map_act f (Emit ord k) = Emit ord (\<lambda>ok. map_act f (k ok))"
  by (simp_all add: map_act_def)

lemma act_all_map [simp]: "act_all P Q (map_act f m) = act_all P (\<lambda>a. Q (f a)) m"
  by (induction m) auto

lemma act_safe_map [simp]: "act_safe (map_act f m) = act_safe m"
  by (induction m) auto

datatype live_strategy =
    LMatchPoint MatchPointStrategy
  | LSetPoint SetPointStrategy
  | LFadeLongshot FadeLongshotStrategy
  | LNoFade NoFadeStrategy
  | LBreakBack BreakBackStrategy
  | LSetDown SetDownStrategy
  | LServer1530 Server1530Strategy
  | LTiebreak TiebreakStrategy
  | LBreakPoint BreakPointStrategy
  | LAdOut AdOutStrategy
  | LConvexPool ConvexPoolStrategy
  | LComeback040 Comeback040Strategy
  | LCalibratedMarkov CalibratedMarkovStrategy
  | LCrossArb CrossArbStrategy
  | LCrossArbFavorite CrossArbFavoriteStrategy
  | LTiebreakServer TiebreakServerStrategy
  | LSet1Winner Set1WinnerStrategy
  | LVolumeRatio VolumeRatioStrategy
  | LSurfaceMarkov SurfaceMarkovStrategy
  | LSpikeFade SpikeFadeStrategy
  | LBuyTheDip BuyTheDipStrategy
  | LConvexPoolExit ConvexPoolExitStrategy
  | LConvexPoolAdaptive ConvexPoolAdaptiveStrategy
  | LDoubleBreak DoubleBreakStrategy
  | LBookPressure BookPressureStrategy
  | LSetWinner SetWinnerStrategy
  | LSniper SettlementSniperStrategy
  | LCloseTimer live_CloseTimer

text \<open>The strategies that carry the marker \<open>PreMatchGated\<close>.\<close>

fun PreMatchGated :: "live_strategy \<Rightarrow> bool" where
  "PreMatchGated (LBookPressure st) = True"
| "PreMatchGated (LBreakBack st) = True"
| "PreMatchGated (LBuyTheDip st) = True"
| "PreMatchGated (LCalibratedMarkov st) = True"
| "PreMatchGated (LComeback040 st) = True"
| "PreMatchGated (LConvexPoolExit st) = True"
| "PreMatchGated (LDoubleBreak st) = True"
| "PreMatchGated (LServer1530 st) = True"
| "PreMatchGated (LSet1Winner st) = True"
| "PreMatchGated (LSetDown st) = True"
| "PreMatchGated (LSniper st) = True"
| "PreMatchGated (LSpikeFade st) = True"
| "PreMatchGated (LSurfaceMarkov st) = True"
| "PreMatchGated (LTiebreak st) = True"
| "PreMatchGated (LTiebreakServer st) = True"
| "PreMatchGated _ = False"

fun Strat_OnPrice :: "live_env \<Rightarrow> string \<Rightarrow> float64 \<Rightarrow> live_strategy \<Rightarrow> live_strategy act" where
  "Strat_OnPrice env mkt p (LMatchPoint st) = Return (LMatchPoint (MatchPoint_OnPrice env mkt p st))"
| "Strat_OnPrice env mkt p (LSetPoint st) = Return (LSetPoint (SetPoint_OnPrice env mkt p st))"
| "Strat_OnPrice env mkt p (LFadeLongshot st) = map_act LFadeLongshot (FadeLongshot_OnPrice env mkt p st)"
| "Strat_OnPrice env mkt p (LNoFade st) = map_act LNoFade (NoFade_OnPrice env mkt p st)"
| "Strat_OnPrice env mkt p (LBreakBack st) = map_act LBreakBack (BreakBack_OnPrice env mkt p st)"
| "Strat_OnPrice env mkt p (LSetDown st) = map_act LSetDown (SetDown_OnPrice env mkt p st)"
| "Strat_OnPrice env mkt p (LServer1530 st) = map_act LServer1530 (Server1530_OnPrice env mkt p st)"
| "Strat_OnPrice env mkt p (LTiebreak st) = map_act LTiebreak (Tiebreak_OnPrice env mkt p st)"
| "Strat_OnPrice env mkt p (LBreakPoint st) = Return (LBreakPoint (BreakPoint_OnPrice env mkt p st))"
| "Strat_OnPrice env mkt p (LAdOut st) = Return (LAdOut (AdOut_OnPrice env mkt p st))"
| "Strat_OnPrice env mkt p (LConvexPool st) = Return (LConvexPool (ConvexPool_OnPrice env mkt p st))"
| "Strat_OnPrice env mkt p (LComeback040 st) = Return (LComeback040 (Comeback040_OnPrice mkt p st))"
| "Strat_OnPrice env mkt p (LCalibratedMarkov st) = Return (LCalibratedMarkov (CalibratedMarkov_OnPrice mkt p st))"
| "Strat_OnPrice env mkt p (LCrossArb st) = map_act LCrossArb (CrossArb_OnPrice env mkt p st)"
| "Strat_OnPrice env mkt p (LCrossArbFavorite st) = map_act LCrossArbFavorite (CrossArbFavorite_OnPrice env mkt p st)"
| "Strat_OnPrice env mkt p (LTiebreakServer st) = Return (LTiebreakServer (TiebreakServer_OnPrice mkt p st))"
| "Strat_OnPrice env mkt p (LSet1Winner st) = Return (LSet1Winner (Set1Winner_OnPrice mkt p st))"
| "Strat_OnPrice env mkt p (LVolumeRatio st) = map_act LVolumeRatio (VolumeRatio_OnPrice env mkt p st)"
| "Strat_OnPrice env mkt p (LSurfaceMarkov st) = Return (LSurfaceMarkov (SurfaceMarkov_OnPrice mkt p st))"
| "Strat_OnPrice env mkt p (LSpikeFade st) = map_act LSpikeFade (SpikeFade_OnPrice env mkt p st)"
| "Strat_OnPrice env mkt p (LBuyTheDip st) = map_act LBuyTheDip (BuyTheDip_OnPrice env mkt p st)"
| "Strat_OnPrice env mkt p (LConvexPoolExit st) = map_act LConvexPoolExit (ConvexPoolExit_OnPrice env mkt p st)"
| "Strat_OnPrice env mkt p (LConvexPoolAdaptive st) = Return (LConvexPoolAdaptive (ConvexPoolAdaptive_OnPrice env mkt p st))"
| "Strat_OnPrice env mkt p (LDoubleBreak st) = Return (LDoubleBreak (DoubleBreak_OnPrice mkt p st))"
| "Strat_OnPrice env mkt p (LBookPressure st) = map_act LBookPressure (BookPressure_OnPrice env mkt p st)"
| "Strat_OnPrice env mkt p (LSetWinner st) = Return (LSetWinner (SetWinner_OnPrice env mkt p st))"
| "Strat_OnPrice env mkt p (LSniper st) = Return (LSniper (Sniper_OnPrice env mkt p st))"
| "Strat_OnPrice env mkt p (LCloseTimer ct) = Return (LCloseTimer ct)"

text \<open>Strategies without an observer of points ignore them.\<close>

fun Strat_OnPoint :: "(float64 \<Rightarrow> float64) \<Rightarrow> live_env \<Rightarrow> string \<Rightarrow> 'a Point_scheme \<Rightarrow> live_strategy \<Rightarrow> live_strategy act" where
  "Strat_OnPoint exp_f env ev p (LMatchPoint st) = map_act LMatchPoint (MatchPoint_OnPoint env ev p st)"
| "Strat_OnPoint exp_f env ev p (LSetPoint st) = map_act LSetPoint (SetPoint_OnPoint env ev p st)"
| "Strat_OnPoint exp_f env ev p (LFadeLongshot st) = map_act LFadeLongshot (FadeLongshot_OnPoint env ev p st)"
| "Strat_OnPoint exp_f env ev p (LNoFade st) = Return (LNoFade (NoFade_OnPoint ev p st))"
| "Strat_OnPoint exp_f env ev p (LBreakBack st) = map_act LBreakBack (BreakBack_OnPoint env ev p st)"
| "Strat_OnPoint exp_f env ev p (LSetDown st) = map_act LSetDown (SetDown_OnPoint env ev p st)"
| "Strat_OnPoint exp_f env ev p (LServer1530 st) = map_act LServer1530 (Server1530_OnPoint env ev p st)"
| "Strat_OnPoint exp_f env ev p (LTiebreak st) = map_act LTiebreak (Tiebreak_OnPoint env ev p st)"
| "Strat_OnPoint exp_f env ev p (LBreakPoint st) = map_act LBreakPoint (BreakPoint_OnPoint env ev p st)"
| "Strat_OnPoint exp_f env ev p (LAdOut st) = map_act LAdOut (AdOut_OnPoint env ev p st)"
| "Strat_OnPoint exp_f env ev p (LConvexPool st) = map_act LConvexPool (ConvexPool_OnPoint env ev p st)"
| "Strat_OnPoint exp_f env ev p (LComeback040 st) = map_act LComeback040 (Comeback040_OnPoint env ev p st)"
| "Strat_OnPoint exp_f env ev p (LCalibratedMarkov st) = map_act LCalibratedMarkov (CalibratedMarkov_OnPoint exp_f env ev p st)"
| "Strat_OnPoint exp_f env ev p (LTiebreakServer st) = map_act LTiebreakServer (TiebreakServer_OnPoint env ev p st)"
| "Strat_OnPoint exp_f env ev p (LSet1Winner st) = map_act LSet1Winner (Set1Winner_OnPoint env ev p st)"
| "Strat_OnPoint exp_f env ev p (LSurfaceMarkov st) = map_act LSurfaceMarkov (SurfaceMarkov_OnPoint env ev p st)"
| "Strat_OnPoint exp_f env ev p (LSpikeFade st) = Return (LSpikeFade (SpikeFade_OnPoint ev p st))"
| "Strat_OnPoint exp_f env ev p (LBuyTheDip st) = Return (LBuyTheDip (BuyTheDip_OnPoint ev p st))"
| "Strat_OnPoint exp_f env ev p (LConvexPoolExit st) = map_act LConvexPoolExit (ConvexPoolExit_OnPoint env ev p st)"
| "Strat_OnPoint exp_f env ev p (LConvexPoolAdaptive st) = map_act LConvexPoolAdaptive (ConvexPoolAdaptive_OnPoint env ev p st)"
| "Strat_OnPoint exp_f env ev p (LDoubleBreak st) = map_act LDoubleBreak (DoubleBreak_OnPoint env ev p st)"
| "Strat_OnPoint exp_f env ev p (LBookPressure st) = Return (LBookPressure (BookPressure_OnPoint ev p st))"
| "Strat_OnPoint exp_f env ev p (LSetWinner st) = map_act LSetWinner (SetWinner_OnPoint env ev p st)"
| "Strat_OnPoint exp_f env ev p (LSniper st) = map_act LSniper (Sniper_OnPoint env ev p st)"
| "Strat_OnPoint exp_f env ev p st = Return st"

fun Strat_RegisterMarkets :: "live_env \<Rightarrow> string \<Rightarrow> string list \<Rightarrow> live_strategy \<Rightarrow> live_strategy" where
  "Strat_RegisterMarkets env ev mkts (LMatchPoint st) = LMatchPoint (MatchPoint_RegisterMarkets ev mkts st)"
| "Strat_RegisterMarkets env ev mkts (LSetPoint st) = LSetPoint (SetPoint_RegisterMarkets (le_seriesTicker env) ev mkts st)"
| "Strat_RegisterMarkets env ev mkts (LFadeLongshot st) = LFadeLongshot (FadeLongshot_RegisterMarkets env ev mkts st)"
| "Strat_RegisterMarkets env ev mkts (LNoFade st) = LNoFade (NoFade_RegisterMarkets ev mkts st)"
| "Strat_RegisterMarkets env ev mkts (LBreakBack st) = LBreakBack (BreakBack_RegisterMarkets ev mkts st)"
| "Strat_RegisterMarkets env ev mkts (LSetDown st) = LSetDown (SetDown_RegisterMarkets env ev mkts st)"
| "Strat_RegisterMarkets env ev mkts (LServer1530 st) = LServer1530 (Server1530_RegisterMarkets ev mkts st)"
| "Strat_RegisterMarkets env ev mkts (LTiebreak st) = LTiebreak (Tiebreak_RegisterMarkets env ev mkts st)"
| "Strat_RegisterMarkets env ev mkts (LBreakPoint st) = LBreakPoint (BreakPoint_RegisterMarkets ev mkts st)"
| "Strat_RegisterMarkets env ev mkts (LAdOut st) = LAdOut (AdOut_RegisterMarkets ev mkts st)"
| "Strat_RegisterMarkets env ev mkts (LConvexPool st) = LConvexPool (ConvexPool_RegisterMarkets env ev mkts st)"
| "Strat_RegisterMarkets env ev mkts (LComeback040 st) = LComeback040 (Comeback040_RegisterMarkets ev mkts st)"
| "Strat_RegisterMarkets env ev mkts (LCalibratedMarkov st) = LCalibratedMarkov (CalibratedMarkov_RegisterMarkets env ev mkts st)"
| "Strat_RegisterMarkets env ev mkts (LCrossArb st) = LCrossArb (CrossArb_RegisterMarkets ev mkts st)"
| "Strat_RegisterMarkets env ev mkts (LCrossArbFavorite st) = LCrossArbFavorite (CrossArbFavorite_RegisterMarkets env ev mkts st)"
| "Strat_RegisterMarkets env ev mkts (LTiebreakServer st) = LTiebreakServer (TiebreakServer_RegisterMarkets ev mkts st)"
| "Strat_RegisterMarkets env ev mkts (LSet1Winner st) = LSet1Winner (Set1Winner_RegisterMarkets ev mkts st)"
| "Strat_RegisterMarkets env ev mkts (LVolumeRatio st) = LVolumeRatio (VolumeRatio_RegisterMarkets env ev mkts st)"
| "Strat_RegisterMarkets env ev mkts (LSurfaceMarkov st) = LSurfaceMarkov (SurfaceMarkov_RegisterMarkets env ev mkts st)"
| "Strat_RegisterMarkets env ev mkts (LSpikeFade st) = LSpikeFade (SpikeFade_RegisterMarkets ev mkts st)"
| "Strat_RegisterMarkets env ev mkts (LBuyTheDip st) = LBuyTheDip (BuyTheDip_RegisterMarkets ev mkts st)"
| "Strat_RegisterMarkets env ev mkts (LConvexPoolExit st) = LConvexPoolExit (ConvexPoolExit_RegisterMarkets env ev mkts st)"
| "Strat_RegisterMarkets env ev mkts (LConvexPoolAdaptive st) = LConvexPoolAdaptive (ConvexPoolAdaptive_RegisterMarkets env ev mkts st)"
| "Strat_RegisterMarkets env ev mkts (LDoubleBreak st) = LDoubleBreak (DoubleBreak_RegisterMarkets ev mkts st)"
| "Strat_RegisterMarkets env ev mkts (LBookPressure st) = LBookPressure (BookPressure_RegisterMarkets ev mkts st)"
| "Strat_RegisterMarkets env ev mkts (LSetWinner st) = LSetWinner (SetWinner_RegisterMarkets ev mkts st)"
| "Strat_RegisterMarkets env ev mkts (LSniper st) = LSniper (Sniper_RegisterMarkets ev mkts st)"
| "Strat_RegisterMarkets env ev mkts (LCloseTimer ct) = LCloseTimer ct"

fun Strat_UnregisterMarkets :: "string \<Rightarrow> live_strategy \<Rightarrow> live_strategy" where
  "Strat_UnregisterMarkets ev (LMatchPoint st) = LMatchPoint (MatchPoint_UnregisterMarkets ev st)"
| "Strat_UnregisterMarkets ev (LSetPoint st) = LSetPoint (SetPoint_UnregisterMarkets ev st)"
| "Strat_UnregisterMarkets ev (LFadeLongshot st) = LFadeLongshot (FadeLongshot_UnregisterMarkets ev st)"
| "Strat_UnregisterMarkets ev (LNoFade st) = LNoFade (NoFade_UnregisterMarkets ev st)"
| "Strat_UnregisterMarkets ev (LBreakBack st) = LBreakBack (BreakBack_UnregisterMarkets ev st)"
| "Strat_UnregisterMarkets ev (LSetDown st) = LSetDown (SetDown_UnregisterMarkets ev st)"
| "Strat_UnregisterMarkets ev (LServer1530 st) = LServer1530 (Server1530_UnregisterMarkets ev st)"
| "Strat_UnregisterMarkets ev (LTiebreak st) = LTiebreak (Tiebreak_UnregisterMarkets ev st)"
| "Strat_UnregisterMarkets ev (LBreakPoint st) = LBreakPoint (BreakPoint_UnregisterMarkets ev st)"
| "Strat_UnregisterMarkets ev (LAdOut st) = LAdOut (AdOut_UnregisterMarkets ev st)"
| "Strat_UnregisterMarkets ev (LConvexPool st) = LConvexPool (ConvexPool_UnregisterMarkets ev st)"
| "Strat_UnregisterMarkets ev (LComeback040 st) = LComeback040 (Comeback040_UnregisterMarkets ev st)"
| "Strat_UnregisterMarkets ev (LCalibratedMarkov st) = LCalibratedMarkov (CalibratedMarkov_UnregisterMarkets ev st)"
| "Strat_UnregisterMarkets ev (LCrossArb st) = LCrossArb (CrossArb_UnregisterMarkets ev st)"
| "Strat_UnregisterMarkets ev (LCrossArbFavorite st) = LCrossArbFavorite (CrossArbFavorite_UnregisterMarkets ev st)"
| "Strat_UnregisterMarkets ev (LTiebreakServer st) = LTiebreakServer (TiebreakServer_UnregisterMarkets ev st)"
| "Strat_UnregisterMarkets ev (LSet1Winner st) = LSet1Winner (Set1Winner_UnregisterMarkets ev st)"
| "Strat_UnregisterMarkets ev (LVolumeRatio st) = LVolumeRatio (VolumeRatio_UnregisterMarkets ev st)"
| "Strat_UnregisterMarkets ev (LSurfaceMarkov st) = LSurfaceMarkov (SurfaceMarkov_UnregisterMarkets ev st)"
| "Strat_UnregisterMarkets ev (LSpikeFade st) = LSpikeFade (SpikeFade_UnregisterMarkets ev st)"
| "Strat_UnregisterMarkets ev (LBuyTheDip st) = LBuyTheDip (BuyTheDip_UnregisterMarkets ev st)"
| "Strat_UnregisterMarkets ev (LConvexPoolExit st) = LConvexPoolExit (ConvexPoolExit_UnregisterMarkets ev st)"
| "Strat_UnregisterMarkets ev (LConvexPoolAdaptive st) = LConvexPoolAdaptive (ConvexPoolAdaptive_UnregisterMarkets ev st)"
| "Strat_UnregisterMarkets ev (LDoubleBreak st) = LDoubleBreak (DoubleBreak_UnregisterMarkets ev st)"
| "Strat_UnregisterMarkets ev (LBookPressure st) = LBookPressure (BookPressure_UnregisterMarkets ev st)"
| "Strat_UnregisterMarkets ev (LSetWinner st) = LSetWinner (SetWinner_UnregisterMarkets ev st)"
| "Strat_UnregisterMarkets ev (LSniper st) = LSniper (Sniper_UnregisterMarkets ev st)"
| "Strat_UnregisterMarkets ev (LCloseTimer ct) = LCloseTimer ct"

fun Strat_DeletePrice :: "string \<Rightarrow> live_strategy \<Rightarrow> live_strategy" where
  "Strat_DeletePrice mkt (LMatchPoint st) = LMatchPoint (MatchPoint_DeletePrice mkt st)"
| "Strat_DeletePrice mkt (LSetPoint st) = LSetPoint (SetPoint_DeletePrice mkt st)"
| "Strat_DeletePrice mkt (LFadeLongshot st) = LFadeLongshot (FadeLongshot_DeletePrice mkt st)"
| "Strat_DeletePrice mkt (LNoFade st) = LNoFade (NoFade_DeletePrice mkt st)"
| "Strat_DeletePrice mkt (LBreakBack st) = LBreakBack (BreakBack_DeletePrice mkt st)"
| "Strat_DeletePrice mkt (LSetDown st) = LSetDown (SetDown_DeletePrice mkt st)"
| "Strat_DeletePrice mkt (LServer1530 st) = LServer1530 (Server1530_DeletePrice mkt st)"
| "Strat_DeletePrice mkt (LTiebreak st) = LTiebreak (Tiebreak_DeletePrice mkt st)"
| "Strat_DeletePrice mkt (LBreakPoint st) = LBreakPoint (BreakPoint_DeletePrice mkt st)"
| "Strat_DeletePrice mkt (LAdOut st) = LAdOut (AdOut_DeletePrice mkt st)"
| "Strat_DeletePrice mkt (LConvexPool st) = LConvexPool (ConvexPool_DeletePrice mkt st)"
| "Strat_DeletePrice mkt (LComeback040 st) = LComeback040 (Comeback040_DeletePrice mkt st)"
| "Strat_DeletePrice mkt (LCalibratedMarkov st) = LCalibratedMarkov (CalibratedMarkov_DeletePrice mkt st)"
| "Strat_DeletePrice mkt (LCrossArb st) = LCrossArb (CrossArb_DeletePrice mkt st)"
| "Strat_DeletePrice mkt (LCrossArbFavorite st) = LCrossArbFavorite (CrossArbFavorite_DeletePrice mkt st)"
| "Strat_DeletePrice mkt (LTiebreakServer st) = LTiebreakServer (TiebreakServer_DeletePrice mkt st)"
| "Strat_DeletePrice mkt (LSet1Winner st) = LSet1Winner (Set1Winner_DeletePrice mkt st)"
| "Strat_DeletePrice mkt (LVolumeRatio st) = LVolumeRatio (VolumeRatio_DeletePrice mkt st)"
| "Strat_DeletePrice mkt (LSurfaceMarkov st) = LSurfaceMarkov (SurfaceMarkov_DeletePrice mkt st)"
| "Strat_DeletePrice mkt (LSpikeFade st) = LSpikeFade (SpikeFade_DeletePrice mkt st)"
| "Strat_DeletePrice mkt (LBuyTheDip st) = LBuyTheDip (BuyTheDip_DeletePrice mkt st)"
| "Strat_DeletePrice mkt (LConvexPoolExit st) = LConvexPoolExit (ConvexPoolExit_DeletePrice mkt st)"
| "Strat_DeletePrice mkt (LConvexPoolAdaptive st) = LConvexPoolAdaptive (ConvexPoolAdaptive_DeletePrice mkt st)"
| "Strat_DeletePrice mkt (LDoubleBreak st) = LDoubleBreak (DoubleBreak_DeletePrice mkt st)"
| "Strat_DeletePrice mkt (LBookPressure st) = LBookPressure (BookPressure_DeletePrice mkt st)"
| "Strat_DeletePrice mkt (LSetWinner st) = LSetWinner (SetWinner_DeletePrice mkt st)"
| "Strat_DeletePrice mkt (LSniper st) = LSniper (Sniper_DeletePrice mkt st)"
| "Strat_DeletePrice mkt (LCloseTimer ct) = LCloseTimer ct"

fun Strat_OnMatchFinished :: "live_env \<Rightarrow> string \<Rightarrow> int \<Rightarrow> live_strategy \<Rightarrow> live_strategy act" where
  "Strat_OnMatchFinished env ev winner (LSniper st) = map_act LSniper (Sniper_OnMatchFinished env ev winner st)"
| "Strat_OnMatchFinished env ev winner st = Return st"

text \<open>Only the close timer does anything on a tick; it reads the prices of the match-point strategy.\<close>

record tick_input =
  ti_env :: live_env
  ti_order :: "string list \<Rightarrow> string list"
  ti_closing :: "int \<Rightarrow> live_Market list option"
  ti_pollSecs :: int

definition Strat_OnTick :: "tick_input \<Rightarrow> MatchPointStrategy \<Rightarrow> live_strategy \<Rightarrow> live_strategy act" where
  "Strat_OnTick ti mp s =
     (case s of
        LCloseTimer ct \<Rightarrow>
          map_act LCloseTimer
            (live_CloseTimer_OnTick (ti_env ti) (ti_order ti) (live_GetPrice mp) (live_GetPriceAge (ti_env ti) mp)
               (ti_closing ti) (ti_pollSecs ti) ct)
      | _ \<Rightarrow> Return s)"

section \<open>The runtime\<close>

text \<open>
  \<open>ns_Tagged\<close> tells whether the strategy was built on the emitter that tags its orders with the name;
  those built before the runtime were given the shared emitter itself.
\<close>

record NamedStrategy =
  ns_Name :: string
  ns_Tagged :: bool
  ns_Strat :: live_strategy

record MultiStrategyRuntime =
  mr_strategies :: "NamedStrategy list"
  mr_hasDB :: bool
  mr_occurrenceTS :: "string \<rightharpoonup> int"
  mr_marketEvent :: "string \<rightharpoonup> string"
  mr_matchStarted :: "string \<Rightarrow> bool"

definition NewMultiStrategy :: "NamedStrategy list \<Rightarrow> MultiStrategyRuntime" where
  "NewMultiStrategy nss = \<lparr>mr_strategies = nss, mr_hasDB = False, mr_occurrenceTS = Map.empty, mr_marketEvent = Map.empty,
     mr_matchStarted = (\<lambda>_. False)\<rparr>"

definition SetDB :: "MultiStrategyRuntime \<Rightarrow> MultiStrategyRuntime" where
  "SetDB m = m\<lparr>mr_hasDB := True\<rparr>"

text \<open>One strategy of the list, its orders tagged or not; then all of them in turn.\<close>

definition on_strategy :: "(live_strategy \<Rightarrow> live_strategy act) \<Rightarrow> NamedStrategy \<Rightarrow> NamedStrategy act" where
  "on_strategy f ns =
     map_act (\<lambda>s. ns\<lparr>ns_Strat := s\<rparr>)
       (if ns_Tagged ns then tag_act (ns_Name ns) (f (ns_Strat ns)) else f (ns_Strat ns))"

primrec each_act :: "('x \<Rightarrow> 'x act) \<Rightarrow> 'x list \<Rightarrow> 'x list act" where
  "each_act f [] = Return []"
| "each_act f (x # xs) = bind_act (f x) (\<lambda>y. map_act (\<lambda>ys. y # ys) (each_act f xs))"

definition on_all :: "(NamedStrategy \<Rightarrow> NamedStrategy act) \<Rightarrow> MultiStrategyRuntime \<Rightarrow> MultiStrategyRuntime act" where
  "on_all f m = map_act (\<lambda>nss. m\<lparr>mr_strategies := nss\<rparr>) (each_act f (mr_strategies m))"

text \<open>What each strategy reads during a call of the runtime is given per name.\<close>

definition held_back :: "MultiStrategyRuntime \<Rightarrow> string \<Rightarrow> live_strategy \<Rightarrow> bool" where
  "held_back m mkt s =
     (case mr_marketEvent m mkt of
        None \<Rightarrow> False
      | Some ev \<Rightarrow> PreMatchGated s \<and> \<not> mr_matchStarted m ev)"

definition Multi_OnPrice :: "(string \<Rightarrow> live_env) \<Rightarrow> string \<Rightarrow> float64 \<Rightarrow> MultiStrategyRuntime \<Rightarrow> MultiStrategyRuntime act" where
  "Multi_OnPrice envs mkt p m =
     on_all (\<lambda>ns. if held_back m mkt (ns_Strat ns) then Return ns
                  else on_strategy (Strat_OnPrice (envs (ns_Name ns)) mkt p) ns) m"

text \<open>\<open>GetMarketsByEvent\<close>: the start times of the event's markets, in the order of the rows.\<close>

definition first_start :: "int list \<Rightarrow> int option" where
  "first_start ts = (case filter (\<lambda>t. t > 0) ts of [] \<Rightarrow> None | t # _ \<Rightarrow> Some t)"

definition Multi_RegisterMarkets ::
  "(string \<Rightarrow> live_env) \<Rightarrow> (string \<rightharpoonup> int list) \<Rightarrow> string \<Rightarrow> string list \<Rightarrow> MultiStrategyRuntime \<Rightarrow> MultiStrategyRuntime" where
  "Multi_RegisterMarkets envs starts ev mkts m =
     (let m1 = m\<lparr>mr_marketEvent := (\<lambda>mkt. if mkt \<in> set mkts then Some ev else mr_marketEvent m mkt)\<rparr>;
          m2 = (if mr_hasDB m1
                then (case Option.bind (starts ev) first_start of
                        None \<Rightarrow> m1
                      | Some t \<Rightarrow> m1\<lparr>mr_occurrenceTS := (mr_occurrenceTS m1)(ev \<mapsto> t)\<rparr>)
                else m1) in
      m2\<lparr>mr_strategies := map (\<lambda>ns. ns\<lparr>ns_Strat := Strat_RegisterMarkets (envs (ns_Name ns)) ev mkts (ns_Strat ns)\<rparr>)
           (mr_strategies m2)\<rparr>)"

definition Multi_UnregisterMarkets :: "string \<Rightarrow> MultiStrategyRuntime \<Rightarrow> MultiStrategyRuntime" where
  "Multi_UnregisterMarkets ev m =
     m\<lparr>mr_occurrenceTS := (mr_occurrenceTS m)(ev := None), mr_matchStarted := (mr_matchStarted m)(ev := False),
       mr_marketEvent := (\<lambda>mkt. if mr_marketEvent m mkt = Some ev then None else mr_marketEvent m mkt),
       mr_strategies := map (\<lambda>ns. ns\<lparr>ns_Strat := Strat_UnregisterMarkets ev (ns_Strat ns)\<rparr>) (mr_strategies m)\<rparr>"

definition Multi_DeletePrice :: "string \<Rightarrow> MultiStrategyRuntime \<Rightarrow> MultiStrategyRuntime" where
  "Multi_DeletePrice mkt m =
     m\<lparr>mr_marketEvent := (mr_marketEvent m)(mkt := None),
       mr_strategies := map (\<lambda>ns. ns\<lparr>ns_Strat := Strat_DeletePrice mkt (ns_Strat ns)\<rparr>) (mr_strategies m)\<rparr>"

definition shared_matchpoint :: "MultiStrategyRuntime \<Rightarrow> MatchPointStrategy" where
  "shared_matchpoint m =
     (case filter (\<lambda>ns. case ns_Strat ns of LMatchPoint st \<Rightarrow> True | _ \<Rightarrow> False) (mr_strategies m) of
        [] \<Rightarrow> NewMatchPointStrategy
      | ns # _ \<Rightarrow> (case ns_Strat ns of LMatchPoint st \<Rightarrow> st | _ \<Rightarrow> NewMatchPointStrategy))"

definition Multi_OnTick :: "tick_input \<Rightarrow> MultiStrategyRuntime \<Rightarrow> MultiStrategyRuntime act" where
  "Multi_OnTick ti m = on_all (on_strategy (Strat_OnTick ti (shared_matchpoint m))) m"

text \<open>A tick at once, then one per tick of the timer until the context is cancelled.\<close>

definition RunTimer :: "tick_input \<Rightarrow> tick_input list \<Rightarrow> MultiStrategyRuntime \<Rightarrow> MultiStrategyRuntime act" where
  "RunTimer ti tis m = for_act Multi_OnTick (ti # tis) m"

definition Multi_OnPoint ::
  "(float64 \<Rightarrow> float64) \<Rightarrow> (string \<Rightarrow> live_env) \<Rightarrow> string \<Rightarrow> 'a Point_scheme \<Rightarrow> MultiStrategyRuntime \<Rightarrow> MultiStrategyRuntime act" where
  "Multi_OnPoint exp_f envs ev p m =
     on_all (\<lambda>ns. on_strategy (Strat_OnPoint exp_f (envs (ns_Name ns)) ev p) ns)
       (m\<lparr>mr_matchStarted := (mr_matchStarted m)(ev := True)\<rparr>)"

definition Multi_OnMatchFinished :: "(string \<Rightarrow> live_env) \<Rightarrow> string \<Rightarrow> int \<Rightarrow> MultiStrategyRuntime \<Rightarrow> MultiStrategyRuntime act" where
  "Multi_OnMatchFinished envs ev winner m =
     on_all (\<lambda>ns. on_strategy (Strat_OnMatchFinished (envs (ns_Name ns)) ev winner) ns) m"

definition RefreshOccurrenceTS :: "(string \<rightharpoonup> int list) \<Rightarrow> string \<Rightarrow> MultiStrategyRuntime \<Rightarrow> MultiStrategyRuntime" where
  "RefreshOccurrenceTS starts ev m =
     (if \<not> mr_hasDB m then m
      else
        (case Option.bind (starts ev) first_start of
           None \<Rightarrow> m
         | Some t \<Rightarrow> m\<lparr>mr_occurrenceTS := (mr_occurrenceTS m)(ev \<mapsto> t)\<rparr>))"

primrec join_space :: "string list \<Rightarrow> string" where
  "join_space [] = []"
| "join_space (x # xs) = (if xs = [] then x else x @ '' '' @ join_space xs)"

definition Multi_String :: "MultiStrategyRuntime \<Rightarrow> string" where
  "Multi_String m = ''MultiStrategy{['' @ join_space (map ns_Name (mr_strategies m)) @ '']}''"

end
