(* ===== verification/LiveBuild.thy ===== *)
theory LiveBuild
  imports LiveSystem
begin

text \<open>
  The strategies the program builds (\<open>internal/strategies/builder.go\<close>), in the order of the source; Go
  iterates over them as a map, so their order in the runtime is a parameter. The lead time and the
  price threshold of the close timer come from the configuration.
\<close>

definition named :: "string \<Rightarrow> bool \<Rightarrow> live_strategy \<Rightarrow> NamedStrategy" where
  "named name tagged s = \<lparr>ns_Name = name, ns_Tagged = tagged, ns_Strat = s\<rparr>"

definition aggro_config :: SetPointConfig where
  "aggro_config = \<lparr>spc_IncludeSetPoints = False, spc_IncludeReturning = True, spc_PServe = flit (64 / 100),
     spc_MaxMarketPrice = Fin 0, spc_MinMarketPrice = flit (5 / 100), spc_MinEdgeCents = 5, spc_CooldownPoints = 3,
     spc_Label = ''matchpoint-aggro'', spc_MaxSetNumber = 0, spc_MinSetNumber = 0, spc_IncludeServing = True,
     spc_SeriesFilter = [], spc_UTCHourStart = 0, spc_UTCHourEnd = 0\<rparr>"

definition core_strategies :: "NamedStrategy list" where
  "core_strategies =
     [named ''matchpoint'' False (LMatchPoint NewMatchPointStrategy),
      named ''matchpoint-aggro'' True (LSetPoint (NewSetPointStrategy aggro_config)),
      named ''setpoint'' True (LSetPoint (NewSetPointStrategyWithDB DefaultSetPointConfig)),
      named ''setpoint-serve'' True (LSetPoint (NewSetPointStrategyWithDB (DefaultSetPointConfig\<lparr>spc_IncludeReturning := False, spc_Label := ''setpoint-serve''\<rparr>))),
      named ''setpoint-cheap'' True (LSetPoint (NewSetPointStrategyWithDB (DefaultSetPointConfig\<lparr>spc_MaxMarketPrice := flit (50 / 100), spc_Label := ''setpoint-cheap''\<rparr>))),
      named ''fadelongshot'' False (LFadeLongshot (NewFadeLongshotStrategyWithDB DefaultFadeLongshotConfig)),
      named ''nofade'' False (LNoFade (NewNoFadeStrategy DefaultNoFadeConfig)),
      named ''breakback'' True (LBreakBack (NewBreakBackStrategy DefaultBreakBackConfig)),
      named ''setdown'' True (LSetDown (NewSetDownStrategy DefaultSetDownConfig)),
      named ''server1530'' True (LServer1530 (NewServer1530Strategy DefaultServer1530Config)),
      named ''tiebreak'' True (LTiebreak (NewTiebreakStrategy DefaultTiebreakConfig)),
      named ''breakpoint'' True (LBreakPoint (NewBreakPointStrategy DefaultBreakPointConfig)),
      named ''adout'' True (LAdOut (NewAdOutStrategy DefaultAdOutConfig)),
      named ''convexpool'' True (LConvexPool (NewConvexPoolStrategy live_DefaultConvexPoolConfig)),
      named ''comeback040'' True (LComeback040 (NewComeback040Strategy DefaultComeback040Config))]"

definition ranged_strategies :: "(string \<Rightarrow> serveWinModel option) \<Rightarrow> NamedStrategy list" where
  "ranged_strategies read_model =
     [named ''calibrated-markov'' True (LCalibratedMarkov (NewCalibratedMarkovStrategyWithDB read_model DefaultCalibratedMarkovConfig)),
      named ''cross-arb'' True (LCrossArb (NewCrossArbStrategy live_DefaultCrossArbConfig)),
      named ''cross-arb-favorite'' True (LCrossArbFavorite (NewCrossArbFavoriteStrategy live_DefaultCrossArbFavoriteConfig)),
      named ''tiebreak-server'' True (LTiebreakServer (NewTiebreakServerStrategy DefaultTiebreakServerConfig)),
      named ''set1winner'' True (LSet1Winner (NewSet1WinnerStrategy DefaultSet1WinnerConfig)),
      named ''volratio'' True (LVolumeRatio (NewVolumeRatioStrategyWithDB DefaultVolumeRatioConfig)),
      named ''surface-markov'' True (LSurfaceMarkov (NewSurfaceMarkovStrategyWithDB DefaultSurfaceMarkovConfig)),
      named ''spike-fade'' True (LSpikeFade (NewSpikeFadeStrategy DefaultSpikeFadeConfig)),
      named ''buythedip'' True (LBuyTheDip (NewBuyTheDipStrategy DefaultBuyTheDipConfig)),
      named ''fadelongshot-itf'' True (LFadeLongshot (NewFadeLongshotStrategyWithDB (DefaultFadeLongshotConfig\<lparr>flc_Label := ''fadelongshot-itf'', flc_SeriesFilter := [''KXITFMATCH'', ''KXITFWMATCH'', ''KXITFDOUBLES'', ''KXITFWDOUBLES'']\<rparr>))),
      named ''fadelongshot-challenger'' True (LFadeLongshot (NewFadeLongshotStrategyWithDB (DefaultFadeLongshotConfig\<lparr>flc_Label := ''fadelongshot-challenger'', flc_SeriesFilter := [''KXATPCHALLENGERMATCH'', ''KXWTACHALLENGERMATCH'']\<rparr>))),
      named ''fadelongshot-atp'' True (LFadeLongshot (NewFadeLongshotStrategyWithDB (DefaultFadeLongshotConfig\<lparr>flc_Label := ''fadelongshot-atp'', flc_SeriesFilter := [''KXATPMATCH'', ''KXATPDOUBLES'']\<rparr>))),
      named ''fadelongshot-wta'' True (LFadeLongshot (NewFadeLongshotStrategyWithDB (DefaultFadeLongshotConfig\<lparr>flc_Label := ''fadelongshot-wta'', flc_SeriesFilter := [''KXWTAMATCH'', ''KXWTADOUBLES'']\<rparr>))),
      named ''fadelongshot-doubles'' True (LFadeLongshot (NewFadeLongshotStrategyWithDB (DefaultFadeLongshotConfig\<lparr>flc_Label := ''fadelongshot-doubles'', flc_SeriesFilter := [''KXATPDOUBLES'', ''KXWTADOUBLES'', ''KXITFDOUBLES'', ''KXITFWDOUBLES'']\<rparr>))),
      named ''fadelongshot-evening'' True (LFadeLongshot (NewFadeLongshotStrategyWithDB (DefaultFadeLongshotConfig\<lparr>flc_Label := ''fadelongshot-evening'', flc_UTCHourStart := 18, flc_UTCHourEnd := 4\<rparr>)))]"

definition filtered_strategies :: "NamedStrategy list" where
  "filtered_strategies =
     [named ''setdown-series'' True (LSetDown (NewSetDownStrategyWithDB (DefaultSetDownConfig\<lparr>sdc_Label := ''setdown-series'', sdc_SeriesFilter := [''KXATPCHALLENGERMATCH'', ''KXATPMATCH'', ''KXWTAMATCH'', ''KXITFDOUBLES'']\<rparr>))),
      named ''setdown-noon'' True (LSetDown (NewSetDownStrategyWithDB (DefaultSetDownConfig\<lparr>sdc_Label := ''setdown-noon'', sdc_UTCHourStart := 11, sdc_UTCHourEnd := 13\<rparr>))),
      named ''tiebreak-itfwdoubles'' True (LTiebreak (NewTiebreakStrategyWithDB (DefaultTiebreakConfig\<lparr>tkc_Label := ''tiebreak-itfwdoubles'', tkc_SeriesFilter := [''KXITFWDOUBLES'']\<rparr>))),
      named ''tiebreak-eu-daytime'' True (LTiebreak (NewTiebreakStrategyWithDB (DefaultTiebreakConfig\<lparr>tkc_Label := ''tiebreak-eu-daytime'', tkc_UTCHourStart := 10, tkc_UTCHourEnd := 16\<rparr>))),
      named ''cross-arb-favorite-itf'' True (LCrossArbFavorite (NewCrossArbFavoriteStrategyWithDB (live_DefaultCrossArbFavoriteConfig\<lparr>cfc_Label := ''cross-arb-favorite-itf'', cfc_SeriesFilter := [''KXITFMATCH'']\<rparr>))),
      named ''setpoint-set1'' True (LSetPoint (NewSetPointStrategyWithDB (DefaultSetPointConfig\<lparr>spc_Label := ''setpoint-set1'', spc_MaxSetNumber := 1\<rparr>))),
      named ''setpoint-set1-mid'' True (LSetPoint (NewSetPointStrategyWithDB (DefaultSetPointConfig\<lparr>spc_Label := ''setpoint-set1-mid'', spc_MaxSetNumber := 1, spc_MinMarketPrice := flit (20 / 100), spc_MaxMarketPrice := flit (60 / 100)\<rparr>))),
      named ''setpoint-set2'' True (LSetPoint (NewSetPointStrategyWithDB (DefaultSetPointConfig\<lparr>spc_Label := ''setpoint-set2'', spc_MinSetNumber := 2, spc_MaxSetNumber := 2\<rparr>))),
      named ''setpoint-set2-ret'' True (LSetPoint (NewSetPointStrategyWithDB (DefaultSetPointConfig\<lparr>spc_Label := ''setpoint-set2-ret'', spc_MinSetNumber := 2, spc_MaxSetNumber := 2, spc_IncludeServing := False\<rparr>))),
      named ''setpoint-set12-mid'' True (LSetPoint (NewSetPointStrategyWithDB (DefaultSetPointConfig\<lparr>spc_Label := ''setpoint-set12-mid'', spc_MaxSetNumber := 2, spc_MinMarketPrice := flit (20 / 100), spc_MaxMarketPrice := flit (60 / 100)\<rparr>))),
      named ''convexpool-wta'' True (LConvexPool (NewConvexPoolStrategyWithDB (live_DefaultConvexPoolConfig\<lparr>cpc_Label := ''convexpool-wta'', cpc_SeriesFilter := [''KXWTAMATCH'']\<rparr>))),
      named ''convexpool-exit'' True (LConvexPoolExit (NewConvexPoolExitStrategyWithDB DefaultConvexPoolExitConfig)),
      named ''convexpool-adaptive'' True (LConvexPoolAdaptive (NewConvexPoolAdaptiveStrategyWithDB DefaultConvexPoolAdaptiveConfig))]"

definition late_strategies :: "int \<Rightarrow> float64 \<Rightarrow> NamedStrategy list" where
  "late_strategies leadMin minPrice =
     [named ''doublebreak'' True (LDoubleBreak (NewDoubleBreakStrategy DefaultDoubleBreakConfig)),
      named ''bookpressure'' True (LBookPressure (NewBookPressureStrategy DefaultBookPressureConfig)),
      named ''bookpressure-strict'' True (LBookPressure (NewBookPressureStrategy (DefaultBookPressureConfig\<lparr>bkc_Label := ''bookpressure-strict'', bkc_MinPressure := flit (70 / 100), bkc_CooldownSeconds := 180, bkc_MinBidSize := Fin 500, bkc_MinAskSize := Fin 500, bkc_TakeProfitCents := 3, bkc_StopLossCents := 2\<rparr>))),
      named ''bookpressure-deep'' True (LBookPressure (NewBookPressureStrategy (DefaultBookPressureConfig\<lparr>bkc_Label := ''bookpressure-deep'', bkc_MinPressure := flit (75 / 100), bkc_CooldownSeconds := 120, bkc_MinBidSize := Fin 1000, bkc_MinAskSize := Fin 1000, bkc_TakeProfitCents := 4, bkc_StopLossCents := 2, bkc_HoldSeconds := 180\<rparr>))),
      named ''bookpressure-elite'' True (LBookPressure (NewBookPressureStrategy (DefaultBookPressureConfig\<lparr>bkc_Label := ''bookpressure-elite'', bkc_MinPressure := flit (80 / 100), bkc_CooldownSeconds := 180, bkc_MinBidSize := Fin 2000, bkc_MinAskSize := Fin 2000, bkc_TakeProfitCents := 3, bkc_StopLossCents := 2, bkc_HoldSeconds := 180\<rparr>))),
      named ''setwinner'' True (LSetWinner (NewSetWinnerStrategy DefaultSetWinnerConfig)),
      named ''setwinner-aggro'' True (LSetWinner (NewSetWinnerStrategy (DefaultSetWinnerConfig\<lparr>swc_Label := ''setwinner-aggro'', swc_MinEdgeCents := 1, swc_MaxMarketPrice := flit (95 / 100), swc_CooldownPoints := 1\<rparr>))),
      named ''setwinner-noadjust'' True (LSetWinner (NewSetWinnerStrategy (DefaultSetWinnerConfig\<lparr>swc_Label := ''setwinner-noadjust'', swc_ReversalPenalty := Fin 0, swc_DecidingSetBoost := Fin 0\<rparr>))),
      named ''close_timer'' True (LCloseTimer (live_NewCloseTimer leadMin minPrice)),
      named ''settlementsniper'' True (LSniper NewSettlementSniperStrategy)]"

text \<open>The strategies that are given the shared model, by name.\<close>

definition shares_model :: "string list" where
  "shares_model = [''breakpoint'', ''convexpool'', ''convexpool-wta'', ''convexpool-exit'', ''convexpool-adaptive'', ''setwinner'',
     ''setwinner-aggro'', ''setwinner-noadjust'', ''setpoint'', ''setpoint-serve'', ''setpoint-cheap'', ''setpoint-set1'',
     ''matchpoint-aggro'']"

fun share_model :: "float64 \<Rightarrow> live_strategy \<Rightarrow> live_strategy" where
  "share_model m (LBreakPoint st) = LBreakPoint (BreakPoint_SetSharedMarkovModel m st)"
| "share_model m (LConvexPool st) = LConvexPool (ConvexPool_SetSharedMarkovModel m st)"
| "share_model m (LConvexPoolExit st) = LConvexPoolExit (ConvexPoolExit_SetSharedMarkovModel m st)"
| "share_model m (LConvexPoolAdaptive st) = LConvexPoolAdaptive (ConvexPoolAdaptive_SetSharedMarkovModel m st)"
| "share_model m (LSetWinner st) = LSetWinner (SetWinner_SetSharedMarkovModel m st)"
| "share_model m (LSetPoint st) = LSetPoint (SetPoint_SetSharedMarkovModel m st)"
| "share_model m s = s"

definition all_strategies :: "(string \<Rightarrow> serveWinModel option) \<Rightarrow> int \<Rightarrow> float64 \<Rightarrow> NamedStrategy list" where
  "all_strategies read_model leadMin minPrice =
     map (\<lambda>n. if ns_Name n \<in> set shares_model then n\<lparr>ns_Strat := share_model defaultPServe (ns_Strat n)\<rparr> else n)
       (core_strategies @ ranged_strategies read_model @ filtered_strategies @ late_strategies leadMin minPrice)"

definition Build ::
  "(NamedStrategy list \<Rightarrow> NamedStrategy list) \<Rightarrow> (string \<Rightarrow> serveWinModel option) \<Rightarrow> int \<Rightarrow> float64 \<Rightarrow> MultiStrategyRuntime" where
  "Build order_of read_model leadMin minPrice = SetDB (NewMultiStrategy (order_of (all_strategies read_model leadMin minPrice)))"

end
