(* ===== verification/LiveLaws.thy ===== *)
theory LiveLaws
  imports LiveBuild
begin

text \<open>
  What every strategy of the first version keeps, whatever the emitter answers: its stored prices lie between
  zero and one when those it is fed do, its events list two markets when those it is told of do; then its
  orders are priced between zero and one, and no call panics.
\<close>

section \<open>Calls that do well\<close>

definition act_ok :: "(Order \<Rightarrow> bool) \<Rightarrow> ('a \<Rightarrow> bool) \<Rightarrow> 'a act \<Rightarrow> bool" where
  "act_ok P Q m \<longleftrightarrow> act_all P Q m \<and> act_safe m"

lemma act_ok_simps [simp]:
  "\<not> act_ok P Q Panic" "act_ok P Q (Return a) = Q a" "act_ok P Q (Emit ord k) = (P ord \<and> (\<forall>ok. act_ok P Q (k ok)))"
  by (auto simp: act_ok_def)

text \<open>The shape of a call, followed rule by rule.\<close>

lemma act_ok_if: "(c \<Longrightarrow> act_ok P Q m) \<Longrightarrow> (\<not> c \<Longrightarrow> act_ok P Q n) \<Longrightarrow> act_ok P Q (if c then m else n)"
  by simp

lemma act_ok_option:
  "(x = None \<Longrightarrow> act_ok P Q m) \<Longrightarrow> (\<And>v. x = Some v \<Longrightarrow> act_ok P Q (f v)) \<Longrightarrow> act_ok P Q (case x of None \<Rightarrow> m | Some v \<Rightarrow> f v)"
  by (cases x) simp_all

lemma act_ok_list:
  "(x = [] \<Longrightarrow> act_ok P Q m) \<Longrightarrow> (\<And>v vs. x = v # vs \<Longrightarrow> act_ok P Q (f v vs)) \<Longrightarrow> act_ok P Q (case x of [] \<Rightarrow> m | v # vs \<Rightarrow> f v vs)"
  by (cases x) simp_all

lemma act_ok_prod: "(\<And>a b. x = (a, b) \<Longrightarrow> act_ok P Q (f a b)) \<Longrightarrow> act_ok P Q (case x of (a, b) \<Rightarrow> f a b)"
  by (cases x) simp

lemma act_ok_let: "(\<And>y. y = x \<Longrightarrow> act_ok P Q (f y)) \<Longrightarrow> act_ok P Q (let y = x in f y)"
  by simp

lemma act_ok_return: "Q a \<Longrightarrow> act_ok P Q (Return a)"
  by simp

lemma act_ok_emit: "P ord \<Longrightarrow> (\<And>ok. act_ok P Q (k ok)) \<Longrightarrow> act_ok P Q (Emit ord k)"
  by simp

lemmas act_ok_rules = act_ok_if act_ok_option act_ok_list act_ok_prod act_ok_let act_ok_return act_ok_emit

lemma act_ok_bind: "act_ok P Q m \<Longrightarrow> (\<And>a. Q a \<Longrightarrow> act_ok P R (f a)) \<Longrightarrow> act_ok P R (bind_act m f)"
  by (induction m) auto

lemma act_ok_map [simp]: "act_ok P Q (map_act f m) = act_ok P (\<lambda>a. Q (f a)) m"
  by (simp add: act_ok_def)

lemma act_ok_mono: "act_ok P Q m \<Longrightarrow> (\<And>a. Q a \<Longrightarrow> R a) \<Longrightarrow> act_ok P R m"
  by (induction m) auto

lemma act_ok_tag: "act_ok P Q m \<Longrightarrow> (\<And>ord. P ord \<Longrightarrow> P (ord\<lparr>or_Strategy := n\<rparr>)) \<Longrightarrow> act_ok P Q (tag_act n m)"
  by (induction m) auto

lemma act_ok_for: "(\<And>x s. x \<in> set xs \<Longrightarrow> Q s \<Longrightarrow> act_ok P Q (f x s)) \<Longrightarrow> Q s \<Longrightarrow> act_ok P Q (for_act f xs s)"
  by (induction xs arbitrary: s) (auto intro!: act_ok_bind)

section \<open>Prices\<close>

definition unit_price :: "float64 \<Rightarrow> bool" where
  "unit_price p \<longleftrightarrow> (case p of Fin q \<Rightarrow> 0 \<le> q \<and> q \<le> 1 | _ \<Rightarrow> False)"

lemma unit_priceE: "unit_price p \<Longrightarrow> (\<And>q. p = Fin q \<Longrightarrow> 0 \<le> q \<Longrightarrow> q \<le> 1 \<Longrightarrow> thesis) \<Longrightarrow> thesis"
  by (auto simp: unit_price_def split: float64.splits)

lemma unit_price_Fin [simp]: "unit_price (Fin q) \<longleftrightarrow> 0 \<le> q \<and> q \<le> 1"
  by (simp add: unit_price_def)

lemma unit_price_ok: "unit_price p \<Longrightarrow> price_ok p"
  by (auto simp: price_ok_def elim!: unit_priceE)

lemma fround_unit_price: "0 \<le> x \<Longrightarrow> x \<le> 1 \<Longrightarrow> unit_price (fround x)"
  using rnd_mono [of x 1] by (simp add: fround_small rnd_nonneg)

lemma unit_one_minus: "unit_price p \<Longrightarrow> unit_price (fsub (Fin 1) p)"
  by (auto simp: fsub_def intro!: fround_unit_price elim!: unit_priceE)

text \<open>Maps all of whose values satisfy a predicate.\<close>

definition all_vals :: "('v \<Rightarrow> bool) \<Rightarrow> ('k \<rightharpoonup> 'v) \<Rightarrow> bool" where
  "all_vals U m \<longleftrightarrow> (\<forall>k v. m k = Some v \<longrightarrow> U v)"

lemma all_vals_simps [simp]:
  "all_vals U Map.empty" "all_vals U m \<Longrightarrow> all_vals U (drop_key k m)" "all_vals U m \<Longrightarrow> all_vals U (drop_all ks m)"
  "all_vals U m \<Longrightarrow> U v \<Longrightarrow> all_vals U (m(k \<mapsto> v))" "all_vals U m \<Longrightarrow> all_vals U (m(k := None))"
  by (auto simp: all_vals_def drop_key_def drop_all_def)

lemma all_valsD: "all_vals U m \<Longrightarrow> m k = Some v \<Longrightarrow> U v"
  by (auto simp: all_vals_def)

section \<open>The books\<close>

definition wide :: "(string \<times> string list) list \<Rightarrow> bool" where
  "wide ms \<longleftrightarrow> (\<forall>(ev, mkts) \<in> set ms. 2 \<le> length mkts)"

lemma wide_simps [simp]:
  "wide []" "wide ms \<Longrightarrow> 2 \<le> length mkts \<Longrightarrow> wide (AList.update ev mkts ms)" "wide ms \<Longrightarrow> wide (AList.delete ev ms)"
proof -
  show "wide (AList.update ev mkts ms)" if "wide ms" "2 \<le> length mkts"
    using that by (induction ms) (auto simp: wide_def)
qed (auto simp: wide_def AList.delete_eq)

definition book_ok :: "'a price_book_scheme \<Rightarrow> bool" where
  "book_ok st \<longleftrightarrow> wide (pb_markets st) \<and> all_vals unit_price (pb_prices st)"

lemma markets_of_wide: "wide (pb_markets st) \<Longrightarrow> markets_of st ev = Some mkts \<Longrightarrow> 2 \<le> length mkts"
  by (auto simp: wide_def markets_of_def dest!: map_of_SomeD)

lemma no_market: "wide (pb_markets st) \<Longrightarrow> markets_of st ev = Some mkts \<Longrightarrow> market_at mkts b = None \<Longrightarrow> False"
  using markets_of_wide [of st ev mkts] by (auto simp: market_at_def split: if_split_asm)

lemma live_price_unit: "all_vals unit_price (pb_prices st) \<Longrightarrow> unit_price (live_price st mkt)"
  by (auto simp: live_price_def dest: all_valsD split: option.split)

lemma other_market_unit:
  "all_vals unit_price (pb_prices st) \<Longrightarrow> live_other_market st mkts mkt = (m, q) \<Longrightarrow> unit_price q"
  by (auto simp: live_other_market_def live_price_unit split: list.splits)

lemmas book_simps = book_ok_def set_price_def set_time_def add_markets_def delete_price_def delete_time_def drop_markets_def
  drop_event_def drop_event_times_def

lemma signal_price [simp]: "or_MarketPrice (signal_order env ts ev mkt a c q p e z l) = p"
  by (simp add: signal_order_def)

definition priced :: "Order \<Rightarrow> bool" where
  "priced ord \<longleftrightarrow> unit_price (or_MarketPrice ord)"

section \<open>Each strategy\<close>

lemma MatchPoint_OnPrice_ok: "book_ok st \<Longrightarrow> unit_price q \<Longrightarrow> book_ok (MatchPoint_OnPrice env mkt q st)"
  by (simp add: MatchPoint_OnPrice_def book_simps)

lemma SetPoint_OnPrice_ok: "book_ok st \<Longrightarrow> unit_price q \<Longrightarrow> book_ok (SetPoint_OnPrice env mkt q st)"
  by (simp add: SetPoint_OnPrice_def book_simps)

lemma AdOut_OnPrice_ok: "book_ok st \<Longrightarrow> unit_price q \<Longrightarrow> book_ok (AdOut_OnPrice env mkt q st)"
  by (simp add: AdOut_OnPrice_def book_simps)

lemma BreakPoint_OnPrice_ok: "book_ok st \<Longrightarrow> unit_price q \<Longrightarrow> book_ok (BreakPoint_OnPrice env mkt q st)"
  by (simp add: BreakPoint_OnPrice_def book_simps)

lemma SetWinner_OnPrice_ok: "book_ok st \<Longrightarrow> unit_price q \<Longrightarrow> book_ok (SetWinner_OnPrice env mkt q st)"
  by (simp add: SetWinner_OnPrice_def book_simps)

lemma Sniper_OnPrice_ok: "book_ok st \<Longrightarrow> unit_price q \<Longrightarrow> book_ok (Sniper_OnPrice env mkt q st)"
  by (simp add: Sniper_OnPrice_def book_simps)

lemma ConvexPool_OnPrice_ok: "book_ok st \<Longrightarrow> unit_price q \<Longrightarrow> book_ok (ConvexPool_OnPrice env mkt q st)"
  by (simp add: ConvexPool_OnPrice_def book_simps)

lemma ConvexPoolAdaptive_OnPrice_ok: "book_ok st \<Longrightarrow> unit_price q \<Longrightarrow> book_ok (ConvexPoolAdaptive_OnPrice env mkt q st)"
  by (simp add: ConvexPoolAdaptive_OnPrice_def book_simps)

lemma Comeback040_OnPrice_ok: "book_ok st \<Longrightarrow> unit_price q \<Longrightarrow> book_ok (Comeback040_OnPrice mkt q st)"
  by (simp add: Comeback040_OnPrice_def Comeback040_OnPriceAt_def book_simps)

lemma Set1Winner_OnPrice_ok: "book_ok st \<Longrightarrow> unit_price q \<Longrightarrow> book_ok (Set1Winner_OnPrice mkt q st)"
  by (simp add: Set1Winner_OnPrice_def Set1Winner_OnPriceAt_def book_simps)

lemma TiebreakServer_OnPrice_ok: "book_ok st \<Longrightarrow> unit_price q \<Longrightarrow> book_ok (TiebreakServer_OnPrice mkt q st)"
  by (simp add: TiebreakServer_OnPrice_def TiebreakServer_OnPriceAt_def book_simps)

lemma DoubleBreak_OnPrice_ok: "book_ok st \<Longrightarrow> unit_price q \<Longrightarrow> book_ok (DoubleBreak_OnPrice mkt q st)"
  by (simp add: DoubleBreak_OnPrice_def DoubleBreak_OnPriceAt_def book_simps)

lemma SurfaceMarkov_OnPrice_ok: "book_ok st \<Longrightarrow> unit_price q \<Longrightarrow> book_ok (SurfaceMarkov_OnPrice mkt q st)"
  by (simp add: SurfaceMarkov_OnPrice_def SurfaceMarkov_OnPriceAt_def book_simps)

lemma CalibratedMarkov_OnPrice_ok: "book_ok st \<Longrightarrow> unit_price q \<Longrightarrow> book_ok (CalibratedMarkov_OnPrice mkt q st)"
  by (simp add: CalibratedMarkov_OnPrice_def CalibratedMarkov_OnPriceAt_def book_simps)

lemma BreakBack_OnPrice_ok: "book_ok st \<Longrightarrow> unit_price q \<Longrightarrow> act_ok priced book_ok (BreakBack_OnPrice env mkt q st)"
  unfolding BreakBack_OnPrice_def BreakBack_OnPriceAt_def
  by (intro act_ok_rules) (simp_all add: BreakBack_fire_def book_simps priced_def live_price_unit)

lemma Server1530_OnPrice_ok: "book_ok st \<Longrightarrow> unit_price q \<Longrightarrow> act_ok priced book_ok (Server1530_OnPrice env mkt q st)"
  unfolding Server1530_OnPrice_def Server1530_OnPriceAt_def
  by (intro act_ok_rules) (simp_all add: Server1530_fire_def book_simps priced_def live_price_unit)

lemma SetDown_OnPrice_ok: "book_ok st \<Longrightarrow> unit_price q \<Longrightarrow> act_ok priced book_ok (SetDown_OnPrice env mkt q st)"
  unfolding SetDown_OnPrice_def SetDown_OnPriceAt_def
  by (intro act_ok_rules) (simp_all add: SetDown_fire_def book_simps priced_def live_price_unit)

lemma Tiebreak_OnPrice_ok: "book_ok st \<Longrightarrow> unit_price q \<Longrightarrow> act_ok priced book_ok (Tiebreak_OnPrice env mkt q st)"
  unfolding Tiebreak_OnPrice_def Tiebreak_OnPriceAt_def
  by (intro act_ok_rules) (simp_all add: Tiebreak_fire_def book_simps priced_def live_price_unit)

lemma CrossArb_OnPrice_ok: "book_ok st \<Longrightarrow> unit_price q \<Longrightarrow> act_ok priced book_ok (CrossArb_OnPrice env mkt q st)"
  unfolding CrossArb_OnPrice_def CrossArb_OnPriceAt_def
  by (intro act_ok_rules) (simp_all add: fireBuyBothYES_def fireBuyNO_def leg_price_def book_simps priced_def live_price_unit Let_def unit_one_minus)

lemma CrossArbFavorite_OnPrice_ok: "book_ok st \<Longrightarrow> unit_price q \<Longrightarrow> act_ok priced book_ok (CrossArbFavorite_OnPrice env mkt q st)"
  unfolding CrossArbFavorite_OnPrice_def CrossArbFavorite_OnPriceAt_def
  by (intro act_ok_rules) (simp_all add: fireBuyFavoriteNO_def book_simps priced_def live_price_unit unit_one_minus split: if_split_asm)

lemma BreakBack_OnPoint_ok: "book_ok st \<Longrightarrow> act_ok priced book_ok (BreakBack_OnPoint env ev p st)"
  unfolding BreakBack_OnPoint_def
  by (intro act_ok_rules)
    (auto simp: BreakBack_fire_def book_ok_def priced_def live_price_unit dest: no_market)

lemma Server1530_OnPoint_ok: "book_ok st \<Longrightarrow> act_ok priced book_ok (Server1530_OnPoint env ev p st)"
  unfolding Server1530_OnPoint_def
  by (intro act_ok_rules)
    (auto simp: Server1530_fire_def book_ok_def priced_def live_price_unit dest: no_market)

lemma SetDown_OnPoint_ok: "book_ok st \<Longrightarrow> act_ok priced book_ok (SetDown_OnPoint env ev p st)"
  unfolding SetDown_OnPoint_def
  by (intro act_ok_rules)
    (auto simp: SetDown_fire_def book_ok_def priced_def live_price_unit dest: no_market)

lemma Tiebreak_OnPoint_ok: "book_ok st \<Longrightarrow> act_ok priced book_ok (Tiebreak_OnPoint env ev p st)"
  unfolding Tiebreak_OnPoint_def
  by (intro act_ok_rules)
    (auto simp: Tiebreak_fire_def book_ok_def priced_def live_price_unit dest: no_market)

lemma Comeback040_OnPoint_ok: "book_ok st \<Longrightarrow> act_ok priced book_ok (Comeback040_OnPoint env ev p st)"
  unfolding Comeback040_OnPoint_def
  by (intro act_ok_rules) (simp_all add:  book_ok_def priced_def live_price_unit)

lemma Set1Winner_OnPoint_ok: "book_ok st \<Longrightarrow> act_ok priced book_ok (Set1Winner_OnPoint env ev p st)"
  unfolding Set1Winner_OnPoint_def
  by (intro act_ok_rules) (simp_all add:  book_ok_def priced_def live_price_unit)

lemma TiebreakServer_OnPoint_ok: "book_ok st \<Longrightarrow> act_ok priced book_ok (TiebreakServer_OnPoint env ev p st)"
  unfolding TiebreakServer_OnPoint_def
  by (intro act_ok_rules) (simp_all add:  book_ok_def priced_def live_price_unit)

lemma DoubleBreak_OnPoint_ok: "book_ok st \<Longrightarrow> act_ok priced book_ok (DoubleBreak_OnPoint env ev p st)"
  unfolding DoubleBreak_OnPoint_def
  by (intro act_ok_rules) (simp_all add:  book_ok_def priced_def live_price_unit)

lemma MatchPoint_upd [simp]: "book_ok (live_MatchPoint_updateMatchState ev p st) = book_ok st"
  by (simp add: live_MatchPoint_updateMatchState_def book_ok_def Let_def)

lemma MatchPoint_process_ok: "book_ok st \<Longrightarrow> act_ok priced book_ok (MatchPoint_processPoint env ev p st)"
  unfolding MatchPoint_processPoint_def
  by (intro act_ok_rules) (simp_all add: MatchPoint_order_def book_ok_def priced_def live_price_unit split: if_split_asm)

lemma MatchPoint_OnPoint_ok: "book_ok st \<Longrightarrow> act_ok priced book_ok (MatchPoint_OnPoint env ev p st)"
  by (simp add: MatchPoint_OnPoint_def MatchPoint_process_ok)

lemma SetPoint_upd [simp]: "book_ok (live_SetPoint_updateMatchState ev p st) = book_ok st"
  by (simp add: live_SetPoint_updateMatchState_def book_ok_def Let_def)

lemma SetPoint_process_ok: "book_ok st \<Longrightarrow> act_ok priced book_ok (SetPoint_processPoint env ev p st)"
  unfolding SetPoint_processPoint_def
  by (intro act_ok_rules) (simp_all add: SetPoint_order_def book_ok_def priced_def live_price_unit split: if_split_asm)

lemma SetPoint_OnPoint_ok: "book_ok st \<Longrightarrow> act_ok priced book_ok (SetPoint_OnPoint env ev p st)"
  by (simp add: SetPoint_OnPoint_def SetPoint_process_ok)

lemma BreakPoint_upd [simp]: "book_ok (live_BreakPoint_updateMatchState ev p st) = book_ok st"
  by (simp add: live_BreakPoint_updateMatchState_def book_ok_def Let_def)

lemma BreakPoint_process_ok: "book_ok st \<Longrightarrow> act_ok priced book_ok (processBreakPoint env ev p st)"
  unfolding processBreakPoint_def
  by (intro act_ok_rules) (simp_all add:  book_ok_def priced_def live_price_unit split: if_split_asm)

lemma BreakPoint_OnPoint_ok: "book_ok st \<Longrightarrow> act_ok priced book_ok (BreakPoint_OnPoint env ev p st)"
  by (simp add: BreakPoint_OnPoint_def BreakPoint_process_ok)

lemma SetWinner_upd [simp]: "book_ok (SetWinner_updateMatchState ev p st) = book_ok st"
  by (simp add: SetWinner_updateMatchState_def book_ok_def Let_def)

lemma SetWinner_process_ok: "book_ok st \<Longrightarrow> act_ok priced book_ok (SetWinner_processPoint env ev p st)"
  unfolding SetWinner_processPoint_def
  by (intro act_ok_rules) (simp_all add: SetWinner_order_def book_ok_def priced_def live_price_unit split: if_split_asm)

lemma SetWinner_OnPoint_ok: "book_ok st \<Longrightarrow> act_ok priced book_ok (SetWinner_OnPoint env ev p st)"
  by (simp add: SetWinner_OnPoint_def SetWinner_process_ok)

lemma Sniper_upd [simp]: "book_ok (Sniper_updateMatchState ev p st) = book_ok st"
  by (simp add: Sniper_updateMatchState_def book_ok_def Let_def)

end
