(* ===== verification/LiveLawsB.thy ===== *)
theory LiveLawsB
  imports LiveLaws
begin

text \<open>
  The same for the strategies that hold positions, keep windows of samples or go through the markets of an
  event, and for the close timer; then for any strategy.
\<close>

section \<open>Loops and further strategies\<close>

lemmas other_market_unit_sym = other_market_unit [OF _ sym]

lemma AdOut_sell_ok: "book_ok st \<Longrightarrow> act_ok priced book_ok (AdOut_maybeSell env ev p st)"
  unfolding AdOut_maybeSell_def
  by (intro act_ok_rules) (simp_all add: AdOut_sell_order_def book_ok_def priced_def live_price_unit)

lemma AdOut_buy_ok: "book_ok st \<Longrightarrow> act_ok priced book_ok (AdOut_maybeBuy env ev p st)"
  unfolding AdOut_maybeBuy_def
  by (intro act_ok_rules) (simp_all add: AdOut_buy_order_def book_ok_def priced_def live_price_unit)

lemma AdOut_OnPoint_ok: "book_ok st \<Longrightarrow> act_ok priced book_ok (AdOut_OnPoint env ev p st)"
  unfolding AdOut_OnPoint_def by (intro act_ok_bind [OF AdOut_sell_ok] AdOut_buy_ok)

lemma FadeLongshot_check_ok: "book_ok st \<Longrightarrow> act_ok priced book_ok (FadeLongshot_checkEntryAt env mkt ts st)"
  unfolding FadeLongshot_checkEntryAt_def
  by (intro act_ok_rules)
    (auto simp: FadeLongshot_order_def book_ok_def priced_def live_price_unit dest: other_market_unit_sym split: if_split_asm)

lemma FadeLongshot_OnPrice_ok: "book_ok st \<Longrightarrow> unit_price q \<Longrightarrow> act_ok priced book_ok (FadeLongshot_OnPrice env mkt q st)"
  unfolding FadeLongshot_OnPrice_def by (rule FadeLongshot_check_ok) (simp add: book_simps)

lemma FadeLongshot_all_ok: "book_ok st \<Longrightarrow> act_ok priced book_ok (FadeLongshot_checkAll env k mkts st)"
  by (induction mkts arbitrary: k st) (auto intro: act_ok_bind FadeLongshot_check_ok)

lemma FadeLongshot_OnPoint_ok: "book_ok st \<Longrightarrow> act_ok priced book_ok (FadeLongshot_OnPoint env ev p st)"
  unfolding FadeLongshot_OnPoint_def FadeLongshot_checkEntryForEvent_def
  by (intro act_ok_rules FadeLongshot_all_ok) (simp_all add: book_ok_def)

lemma NoFade_OnPrice_ok:
  assumes "book_ok st" "unit_price q"
  shows "act_ok priced book_ok (NoFade_OnPrice env mkt q st)"
proof -
  have "act_ok priced book_ok (NoFade_checkEntryAt env mkt ts st)" if "book_ok st" for ts st
    unfolding NoFade_checkEntryAt_def using that
    by (intro act_ok_rules) (auto simp: book_ok_def priced_def live_price_unit dest: other_market_unit_sym split: if_split_asm)
  then show ?thesis unfolding NoFade_OnPrice_def using assms by (simp add: book_simps)
qed

lemma VolumeRatio_OnPrice_ok:
  assumes "book_ok st" "unit_price q"
  shows "act_ok priced book_ok (VolumeRatio_OnPrice env mkt q st)"
proof -
  have "act_ok priced book_ok (VolumeRatio_checkEntry env mkt ts st)" if "book_ok st" for ts st
    unfolding VolumeRatio_checkEntry_def using that
    by (intro act_ok_rules)
      (auto simp: book_ok_def priced_def live_price_unit VolumeRatio_loadCloseTime_def dest: other_market_unit_sym
        split: if_split_asm option.split list.split)
  then show ?thesis
    unfolding VolumeRatio_OnPrice_def VolumeRatio_OnPriceAt_def using assms by (simp add: book_ok_def set_price_def)
qed

lemma surface_edge_ok: "book_ok st \<Longrightarrow> unit_price q \<Longrightarrow> act_ok priced book_ok (live_checkEdge env k ev mkt q fv n st)"
  unfolding live_checkEdge_def by (intro act_ok_rules) (simp_all add: book_ok_def priced_def)

lemma SurfaceMarkov_OnPoint_ok: "book_ok st \<Longrightarrow> act_ok priced book_ok (SurfaceMarkov_OnPoint env ev p st)"
  unfolding SurfaceMarkov_OnPoint_def
  by (intro act_ok_rules act_ok_bind [where Q = book_ok] surface_edge_ok) (simp_all add: book_ok_def live_price_unit)

lemma calibrated_edge_ok:
  "book_ok st \<Longrightarrow> unit_price q \<Longrightarrow> act_ok priced book_ok (live_CalibratedMarkov_checkEdge env ev mkt q fv n st)"
  unfolding live_CalibratedMarkov_checkEdge_def
  by (intro act_ok_rules) (simp_all add: CalibratedMarkov_order_def Let_def book_ok_def priced_def)

lemma CalibratedMarkov_OnPoint_ok: "book_ok st \<Longrightarrow> act_ok priced book_ok (CalibratedMarkov_OnPoint exp_f env ev p st)"
  unfolding CalibratedMarkov_OnPoint_def
  by (intro act_ok_rules act_ok_bind [where Q = book_ok] calibrated_edge_ok) (simp_all add: book_ok_def live_price_unit)

lemma Sniper_fire_ok: "book_ok st \<Longrightarrow> act_ok priced book_ok (Sniper_fire env ev w st)"
  unfolding Sniper_fire_def
  by (intro act_ok_rules) (simp_all add: book_ok_def priced_def live_price_unit)

lemma Sniper_OnPoint_ok: "book_ok st \<Longrightarrow> act_ok priced book_ok (Sniper_OnPoint env ev p st)"
  unfolding Sniper_OnPoint_def by (intro act_ok_rules Sniper_fire_ok) simp_all

lemma best_side_in: "best_side c cs \<in> set (c # cs)"
proof (induction cs arbitrary: c)
  case (Cons a cs)
  have "best_side c (a # cs) = best_side (if se_edgeCents a > se_edgeCents c then a else c) cs" by (simp add: best_side_def)
  then show ?case using Cons [of "if se_edgeCents a > se_edgeCents c then a else c"] by (auto split: if_split_asm)
qed (simp add: best_side_def)

lemma candidate_price:
  "ConvexPool_candidate now fh fa st side = Some c \<Longrightarrow> all_vals unit_price (pb_prices st) \<Longrightarrow> unit_price (se_price c)"
  by (cases side) (auto simp: ConvexPool_candidate_def Let_def live_price_unit split: if_split_asm)

lemma ConvexPool_OnPoint_ok:
  assumes "book_ok st"
  shows "act_ok priced book_ok (ConvexPool_OnPoint env ev p st)"
proof -
  have cand: "unit_price (se_price (best_side c cs))"
    if "List.map_filter (ConvexPool_candidate now fh fa st) xs = c # cs" "all_vals unit_price (pb_prices st)" for c cs now fh fa xs st
    using best_side_in [of c cs] that(2) unfolding that(1) [symmetric] List.map_filter_def
    by (auto intro: candidate_price)
  have "act_ok priced book_ok (processConvex env ev p st)" if "book_ok st" for st
    unfolding processConvex_def using that
    by (intro act_ok_rules) (auto simp: ConvexPool_order_def book_ok_def priced_def cand)
  then show ?thesis
    unfolding ConvexPool_OnPoint_def using assms by (simp add: ConvexPool_updateMatchState_def book_ok_def)
qed

lemma adaptive_side_ok: "book_ok st \<Longrightarrow> act_ok priced (\<lambda>_. True) (ConvexPoolAdaptive_side env ev p al fh st side k)"
  unfolding ConvexPoolAdaptive_side_def
  by (cases side, intro act_ok_rules) (simp_all add: ConvexPoolAdaptive_order_def book_ok_def priced_def live_price_unit)

lemma ConvexPoolAdaptive_OnPoint_ok:
  assumes "book_ok st"
  shows "act_ok priced book_ok (ConvexPoolAdaptive_OnPoint env ev p st)"
proof -
  have "act_ok priced book_ok (processAdaptive env ev p st)" if "book_ok st" for st
    unfolding processAdaptive_def using that
    by (intro act_ok_rules act_ok_bind [where Q = "\<lambda>_. True"] act_ok_for adaptive_side_ok) simp_all
  then show ?thesis
    unfolding ConvexPoolAdaptive_OnPoint_def using assms
    by (simp add: ConvexPoolAdaptive_updateMatchState_def book_ok_def Let_def)
qed

end
