(* ===== verification/LiveLawsC.thy ===== *)
theory LiveLawsC
  imports LiveLawsB
begin

text \<open>
  The strategies that hold positions or keep windows of samples: the exits are priced between zero and one
  although their levels are computed from the entry.
\<close>

section \<open>Levels\<close>

definition above0 :: "float64 \<Rightarrow> bool" where
  "above0 x \<longleftrightarrow> (case x of Fin q \<Rightarrow> 0 \<le> q | PInf \<Rightarrow> True | _ \<Rightarrow> False)"

definition below1 :: "float64 \<Rightarrow> bool" where
  "below1 x \<longleftrightarrow> (case x of Fin q \<Rightarrow> q \<le> 1 | NInf \<Rightarrow> True | _ \<Rightarrow> False)"

lemma sum_above0: "unit_price a \<Longrightarrow> unit_price b \<Longrightarrow> above0 (fadd a b)"
  by (auto simp: above0_def fround_small rnd_nonneg elim!: unit_priceE)

lemma diff_below1:
  assumes "unit_price a" "unit_price b"
  shows "below1 (fsub a b)"
proof -
  obtain x y where v: "a = Fin x" "b = Fin y" "0 \<le> x" "x \<le> 1" "0 \<le> y" "y \<le> 1" using assms by (auto elim!: unit_priceE)
  have "\<bar>x - y\<bar> \<le> 2 ^ 64" "rnd (x - y) \<le> 1" using rnd_mono [of "x - y" 1] v by auto
  then show ?thesis by (simp add: v(1,2) below1_def fsub_def fround_small)
qed

lemma product_unit: "unit_price a \<Longrightarrow> unit_price b \<Longrightarrow> unit_price (fmul a b)"
  by (auto intro!: fround_unit_price mult_le_one elim!: unit_priceE)

text \<open>A target is left at a price that has reached it, a stop at one that has fallen to it.\<close>

lemma exit_unit:
  assumes "exit_reason price tp sl held most = Some (reason, level)" "unit_price price" "above0 tp" "below1 sl"
  shows "unit_price level"
  using assms by (auto simp: exit_reason_def above0_def below1_def split: if_split_asm float64.splits elim!: unit_priceE)

text \<open>A dip of at least a cent is a fall.\<close>

lemma dip_unit:
  assumes "1 \<le> plain_edge a b" "unit_price a" "unit_price b"
  shows "unit_price (fsub a b)"
proof -
  obtain x y where v: "a = Fin x" "b = Fin y" "0 \<le> x" "x \<le> 1" "0 \<le> y" "y \<le> 1" using assms by (auto elim!: unit_priceE)
  show ?thesis
  proof (cases "y \<le> x")
    case True
    then show ?thesis using v by (auto simp: fsub_def intro!: fround_unit_price)
  next
    case False
    have r: "fsub a b = Fin (rnd (x - y))" using v by (simp add: fsub_def fround_small)
    have b: "rnd (x - y) \<le> 0" "- 1 \<le> rnd (x - y)"
      using rnd_mono [of "x - y" 0] rnd_mono [of "- 1" "x - y"] rnd_of_int [of "- 1"] rnd_of_int [of 0] v False by auto
    have m: "fmul (fsub a b) (Fin 100) = Fin (rnd (rnd (x - y) * 100))" using b by (simp add: r fround_small)
    have "rnd (rnd (x - y) * 100) \<le> 0" using rnd_mono [of "rnd (x - y) * 100" 0] rnd_of_int [of 0] b by simp
    then have "plain_edge a b \<le> 0" by (auto simp: plain_edge_def m trunc_rat_def int64_bounds)
    with assms(1) show ?thesis by simp
  qed
qed

section \<open>Windows of samples\<close>

definition window_ok :: "live_priceSample list \<Rightarrow> bool" where
  "window_ok xs \<longleftrightarrow> (\<forall>x \<in> set xs. unit_price (lsm_price x))"

lemma slide_window_ok: "window_ok xs \<Longrightarrow> unit_price q \<Longrightarrow> window_ok (slide_window w q ts xs)"
  by (auto simp: window_ok_def slide_window_def dest!: set_dropWhileD)

lemma samples_nth: "window_ok xs \<Longrightarrow> i < length xs \<Longrightarrow> unit_price (lsm_price (xs ! i))"
  by (simp add: window_ok_def)

lemma window_of: "all_vals window_ok m \<Longrightarrow> window_ok (case m k of None \<Rightarrow> [] | Some xs \<Rightarrow> xs)"
  by (cases "m k") (auto simp: all_vals_def window_ok_def)

definition spike_ok :: "SpikeFadeStrategy \<Rightarrow> bool" where
  "spike_ok st \<longleftrightarrow> wide (pb_markets st) \<and> all_vals window_ok (sk_prices st)"

lemma samples_of_ok: "all_vals window_ok (sk_prices st) \<Longrightarrow> window_ok (samples_of st mkt)"
  by (simp add: samples_of_def window_of)

lemma SpikeFade_OnPrice_ok: "spike_ok st \<Longrightarrow> unit_price q \<Longrightarrow> act_ok priced spike_ok (SpikeFade_OnPrice env mkt q st)"
  unfolding SpikeFade_OnPrice_def SpikeFade_OnPriceAt_def
  by (intro act_ok_rules)
    (auto simp: spike_ok_def priced_def SpikeFade_order_def Let_def slide_window_ok samples_of_ok samples_nth split: if_split_asm)

section \<open>Positions\<close>

definition dip_ok :: "dipPosition \<Rightarrow> bool" where
  "dip_ok pos \<longleftrightarrow> unit_price (dp_EntryPrice pos) \<and> unit_price (dp_DipSize pos)"

definition btd_ok :: "BuyTheDipStrategy \<Rightarrow> bool" where
  "btd_ok st \<longleftrightarrow> wide (pb_markets st) \<and> all_vals window_ok (bt_prices st) \<and> all_vals dip_ok (lbt_positions st) \<and>
     1 \<le> btc_DipThresholdCents (bt_cfg st) \<and> unit_price (btc_TakeProfitFrac (bt_cfg st)) \<and>
     unit_price (cents_off (btc_StopLossCents (bt_cfg st)))"

lemma btd_entry_ok:
  assumes "btd_ok st" "unit_price q" "window_ok xs"
  shows "act_ok priced btd_ok (live_BuyTheDip_checkEntry env mkt q ts xs st)"
proof -
  have dip: "unit_price (fsub (lsm_price (xs ! 0)) q)"
    if "\<not> length xs < 2" "\<not> plain_edge (lsm_price (xs ! 0)) q < btc_DipThresholdCents (bt_cfg st)"
  proof -
    have "0 < length xs" using that(1) by linarith
    then have "unit_price (lsm_price (xs ! 0))" using assms(3) by (intro samples_nth)
    then show ?thesis using that(2) assms by (intro dip_unit) (auto simp: btd_ok_def)
  qed
  show ?thesis
    unfolding live_BuyTheDip_checkEntry_def
    by (intro act_ok_rules)
      (use assms dip in \<open>auto simp: btd_ok_def priced_def dip_ok_def BuyTheDip_buy_order_def Let_def\<close>)
qed

lemma btd_exit_ok:
  assumes "btd_ok st" "unit_price q" "lbt_positions st mkt = Some pos"
  shows "act_ok priced btd_ok (live_BuyTheDip_checkExit env mkt q ts pos st)"
proof -
  have pos: "dip_ok pos" using assms by (auto simp: btd_ok_def dest: all_valsD)
  note levels = exit_unit [OF _ assms(2) sum_above0 [OF _ product_unit] diff_below1]
  show ?thesis
    unfolding live_BuyTheDip_checkExit_def
    by (intro act_ok_rules)
      (use assms pos in \<open>auto simp: btd_ok_def priced_def dip_ok_def BuyTheDip_sell_order_def Let_def dest!: levels\<close>)
qed

lemma BuyTheDip_OnPrice_ok:
  assumes "btd_ok st" "unit_price q"
  shows "act_ok priced btd_ok (BuyTheDip_OnPrice env mkt q st)"
proof -
  have old: "window_ok (case bt_prices st mkt of None \<Rightarrow> [] | Some xs \<Rightarrow> xs)"
    using assms(1) by (simp add: btd_ok_def window_of)
  show ?thesis
    unfolding BuyTheDip_OnPrice_def BuyTheDip_OnPriceAt_def
    by (intro act_ok_rules btd_entry_ok btd_exit_ok)
      (use assms slide_window_ok [OF old assms(2)] in \<open>simp_all add: btd_ok_def\<close>)
qed

definition cpe_ok :: "ConvexPoolExitStrategy \<Rightarrow> bool" where
  "cpe_ok st \<longleftrightarrow> book_ok st \<and> all_vals (\<lambda>pos. unit_price (ep_EntryPrice pos)) (cpe_positions st) \<and>
     unit_price (cents_off (cpec_TakeProfitCents (cpe_cfg st))) \<and> unit_price (cents_off (cpec_StopLossCents (cpe_cfg st)))"

lemma cpe_exit_ok:
  assumes "cpe_ok st" "unit_price q" "cpe_positions st mkt = Some pos"
  shows "act_ok priced cpe_ok (ConvexPoolExit_checkExit env mkt q ts pos turned st)"
proof -
  have pos: "unit_price (ep_EntryPrice pos)" using assms by (auto simp: cpe_ok_def dest: all_valsD)
  note levels = exit_unit [OF _ assms(2) sum_above0 diff_below1]
  show ?thesis
    unfolding ConvexPoolExit_checkExit_def
    by (intro act_ok_rules)
      (use assms pos in \<open>auto simp: cpe_ok_def book_ok_def priced_def ConvexPoolExit_sell_order_def Let_def
          split: if_split_asm dest!: levels\<close>)
qed

lemma cpe_side_ok: "cpe_ok st \<Longrightarrow> act_ok priced cpe_ok (ConvexPoolExit_side env ev p fh now side st)"
  unfolding ConvexPoolExit_side_def
  by (cases side, intro act_ok_rules cpe_exit_ok)
    (auto simp: cpe_ok_def book_ok_def priced_def ConvexPoolExit_buy_order_def Let_def live_price_unit)

lemma ConvexPoolExit_OnPoint_ok:
  assumes "cpe_ok st"
  shows "act_ok priced cpe_ok (ConvexPoolExit_OnPoint env ev p st)"
proof -
  have "act_ok priced cpe_ok (ConvexPoolExit_processPoint env ev p st)" if "cpe_ok st" for st
    unfolding ConvexPoolExit_processPoint_def using that by (intro act_ok_rules act_ok_for cpe_side_ok)
  then show ?thesis
    unfolding ConvexPoolExit_OnPoint_def using assms by (simp add: ConvexPoolExit_updateMatchState_def cpe_ok_def book_ok_def)
qed

lemma ConvexPoolExit_OnPrice_ok:
  assumes "cpe_ok st" "unit_price q"
  shows "act_ok priced cpe_ok (ConvexPoolExit_OnPrice env mkt q st)"
  unfolding ConvexPoolExit_OnPrice_def ConvexPoolExit_OnPriceAt_def
  by (intro act_ok_rules cpe_exit_ok) (use assms in \<open>simp_all add: cpe_ok_def book_simps\<close>)

definition pressure_ok :: "BookPressureStrategy \<Rightarrow> bool" where
  "pressure_ok st \<longleftrightarrow> book_ok st \<and> all_vals (\<lambda>pos. unit_price (bpp_EntryPrice pos)) (bk_positions st) \<and>
     unit_price (cents_off (bkc_TakeProfitCents (bk_cfg st))) \<and> unit_price (cents_off (bkc_StopLossCents (bk_cfg st)))"

lemma pressure_exit_unit:
  assumes "BookPressure_exit mkt q ts pos st = Some (reason, level)" "pressure_ok st" "unit_price q" "unit_price (bpp_EntryPrice pos)"
  shows "unit_price level"
  using assms(1) exit_unit [OF _ assms(3) sum_above0 diff_below1] assms(2-4)
  by (auto simp: BookPressure_exit_def pressure_ok_def Let_def split: option.splits if_split_asm)

lemma pressure_checkExit_ok:
  assumes "pressure_ok st" "unit_price q" "bk_positions st mkt = Some pos"
  shows "act_ok priced pressure_ok (BookPressure_checkExit env mkt q ts pos st)"
proof -
  have pos: "unit_price (bpp_EntryPrice pos)" using assms by (auto simp: pressure_ok_def dest: all_valsD)
  show ?thesis
    unfolding BookPressure_checkExit_def
    by (intro act_ok_rules)
      (use assms pos pressure_exit_unit [OF _ assms(1,2) pos] in
        \<open>auto simp: pressure_ok_def book_ok_def priced_def BookPressure_sell_order_def Let_def\<close>)
qed

lemma BookPressure_OnPrice_ok:
  assumes "pressure_ok st" "unit_price q"
  shows "act_ok priced pressure_ok (BookPressure_OnPrice env mkt q st)"
proof -
  have "act_ok priced pressure_ok (BookPressure_checkEntry env mkt q ts st)" if "pressure_ok st" for ts st
    unfolding BookPressure_checkEntry_def using that assms(2)
    by (intro act_ok_rules) (auto simp: pressure_ok_def book_ok_def priced_def BookPressure_buy_order_def Let_def)
  then show ?thesis
    unfolding BookPressure_OnPrice_def BookPressure_OnPriceAt_def
    by (intro act_ok_rules pressure_checkExit_ok) (use assms in \<open>simp_all add: pressure_ok_def book_ok_def set_price_def\<close>)
qed

section \<open>The close timer\<close>

lemma CloseTimer_OnTick_ok:
  assumes "book_ok mp"
  shows "act_ok priced (\<lambda>_. True) (live_CloseTimer_OnTick env order_of (live_GetPrice mp) age_of closing secs ct)"
proof -
  have "unit_price (live_GetPrice mp mkt)" for mkt using assms by (simp add: live_GetPrice_def book_ok_def live_price_unit)
  then have "act_ok priced (\<lambda>_. True) (CloseTimer_event env (live_GetPrice mp) age_of now markets ev ct)" for now markets ev ct
    unfolding CloseTimer_event_def
    by (intro act_ok_rules) (auto simp: CloseTimer_order_def priced_def Let_def dest!: favourite_some)
  then show ?thesis
    unfolding live_CloseTimer_OnTick_def by (intro act_ok_rules act_ok_bind [where Q = "\<lambda>_. True"] act_ok_for) simp_all
qed

end
