(* ===== verification/LiveProgram.thy ===== *)
theory LiveProgram
  imports LiveLawsC
begin

text \<open>
  The program of the first version as a whole: any strategy keeps its contract, the runtime keeps it for all
  of them under every sequence of calls, and the orders of the runtime go through the pipeline of emitters
  that ends at the pool.
\<close>

section \<open>Any strategy\<close>

fun Strat_ok :: "live_strategy \<Rightarrow> bool" where
  "Strat_ok (LMatchPoint st) = book_ok st"
| "Strat_ok (LSetPoint st) = book_ok st"
| "Strat_ok (LFadeLongshot st) = book_ok st"
| "Strat_ok (LNoFade st) = book_ok st"
| "Strat_ok (LBreakBack st) = book_ok st"
| "Strat_ok (LSetDown st) = book_ok st"
| "Strat_ok (LServer1530 st) = book_ok st"
| "Strat_ok (LTiebreak st) = book_ok st"
| "Strat_ok (LBreakPoint st) = book_ok st"
| "Strat_ok (LAdOut st) = book_ok st"
| "Strat_ok (LConvexPool st) = book_ok st"
| "Strat_ok (LComeback040 st) = book_ok st"
| "Strat_ok (LCalibratedMarkov st) = book_ok st"
| "Strat_ok (LCrossArb st) = book_ok st"
| "Strat_ok (LCrossArbFavorite st) = book_ok st"
| "Strat_ok (LTiebreakServer st) = book_ok st"
| "Strat_ok (LSet1Winner st) = book_ok st"
| "Strat_ok (LVolumeRatio st) = book_ok st"
| "Strat_ok (LSurfaceMarkov st) = book_ok st"
| "Strat_ok (LSpikeFade st) = spike_ok st"
| "Strat_ok (LBuyTheDip st) = btd_ok st"
| "Strat_ok (LConvexPoolExit st) = cpe_ok st"
| "Strat_ok (LConvexPoolAdaptive st) = book_ok st"
| "Strat_ok (LDoubleBreak st) = book_ok st"
| "Strat_ok (LBookPressure st) = pressure_ok st"
| "Strat_ok (LSetWinner st) = book_ok st"
| "Strat_ok (LSniper st) = book_ok st"
| "Strat_ok (LCloseTimer ct) = True"

lemmas price_laws =
  MatchPoint_OnPrice_ok SetPoint_OnPrice_ok FadeLongshot_OnPrice_ok NoFade_OnPrice_ok BreakBack_OnPrice_ok
  SetDown_OnPrice_ok Server1530_OnPrice_ok Tiebreak_OnPrice_ok BreakPoint_OnPrice_ok AdOut_OnPrice_ok
  ConvexPool_OnPrice_ok Comeback040_OnPrice_ok CalibratedMarkov_OnPrice_ok CrossArb_OnPrice_ok CrossArbFavorite_OnPrice_ok
  TiebreakServer_OnPrice_ok Set1Winner_OnPrice_ok VolumeRatio_OnPrice_ok SurfaceMarkov_OnPrice_ok SpikeFade_OnPrice_ok
  BuyTheDip_OnPrice_ok ConvexPoolExit_OnPrice_ok ConvexPoolAdaptive_OnPrice_ok DoubleBreak_OnPrice_ok BookPressure_OnPrice_ok
  SetWinner_OnPrice_ok Sniper_OnPrice_ok

lemmas point_laws =
  MatchPoint_OnPoint_ok SetPoint_OnPoint_ok FadeLongshot_OnPoint_ok BreakBack_OnPoint_ok SetDown_OnPoint_ok
  Server1530_OnPoint_ok Tiebreak_OnPoint_ok BreakPoint_OnPoint_ok AdOut_OnPoint_ok ConvexPool_OnPoint_ok
  Comeback040_OnPoint_ok CalibratedMarkov_OnPoint_ok TiebreakServer_OnPoint_ok Set1Winner_OnPoint_ok SurfaceMarkov_OnPoint_ok
  ConvexPoolExit_OnPoint_ok ConvexPoolAdaptive_OnPoint_ok DoubleBreak_OnPoint_ok SetWinner_OnPoint_ok Sniper_OnPoint_ok

lemmas point_defs = NoFade_OnPoint_def SpikeFade_OnPoint_def BuyTheDip_OnPoint_def BookPressure_OnPoint_def

lemmas register_defs = SetPoint_SetSeriesTicker_def
  MatchPoint_RegisterMarkets_def SetPoint_RegisterMarkets_def FadeLongshot_RegisterMarkets_def NoFade_RegisterMarkets_def BreakBack_RegisterMarkets_def
  SetDown_RegisterMarkets_def Server1530_RegisterMarkets_def Tiebreak_RegisterMarkets_def BreakPoint_RegisterMarkets_def AdOut_RegisterMarkets_def
  ConvexPool_RegisterMarkets_def Comeback040_RegisterMarkets_def CalibratedMarkov_RegisterMarkets_def CrossArb_RegisterMarkets_def CrossArbFavorite_RegisterMarkets_def
  TiebreakServer_RegisterMarkets_def Set1Winner_RegisterMarkets_def VolumeRatio_RegisterMarkets_def SurfaceMarkov_RegisterMarkets_def SpikeFade_RegisterMarkets_def
  BuyTheDip_RegisterMarkets_def ConvexPoolExit_RegisterMarkets_def ConvexPoolAdaptive_RegisterMarkets_def DoubleBreak_RegisterMarkets_def BookPressure_RegisterMarkets_def
  SetWinner_RegisterMarkets_def Sniper_RegisterMarkets_def
  SetPoint_loadSeriesTicker_def SetDown_loadSeriesTicker_def Tiebreak_loadSeriesTicker_def FadeLongshot_loadSeriesTicker_def CrossArbFavorite_loadSeriesTicker_def
  VolumeRatio_loadCloseTime_def SurfaceMarkov_loadContext_def ConvexPool_loadSeriesTicker_def ConvexPoolAdaptive_loadSeriesTicker_def ConvexPoolExit_loadSeriesTicker_def
  CalibratedMarkov_loadSeriesTicker_def

lemmas unregister_defs =
  MatchPoint_UnregisterMarkets_def SetPoint_UnregisterMarkets_def FadeLongshot_UnregisterMarkets_def NoFade_UnregisterMarkets_def BreakBack_UnregisterMarkets_def
  SetDown_UnregisterMarkets_def Server1530_UnregisterMarkets_def Tiebreak_UnregisterMarkets_def BreakPoint_UnregisterMarkets_def AdOut_UnregisterMarkets_def
  ConvexPool_UnregisterMarkets_def Comeback040_UnregisterMarkets_def CalibratedMarkov_UnregisterMarkets_def CrossArb_UnregisterMarkets_def CrossArbFavorite_UnregisterMarkets_def
  TiebreakServer_UnregisterMarkets_def Set1Winner_UnregisterMarkets_def VolumeRatio_UnregisterMarkets_def SurfaceMarkov_UnregisterMarkets_def SpikeFade_UnregisterMarkets_def
  BuyTheDip_UnregisterMarkets_def ConvexPoolExit_UnregisterMarkets_def ConvexPoolAdaptive_UnregisterMarkets_def DoubleBreak_UnregisterMarkets_def BookPressure_UnregisterMarkets_def
  SetWinner_UnregisterMarkets_def Sniper_UnregisterMarkets_def

lemmas delete_defs =
  MatchPoint_DeletePrice_def SetPoint_DeletePrice_def FadeLongshot_DeletePrice_def NoFade_DeletePrice_def BreakBack_DeletePrice_def
  SetDown_DeletePrice_def Server1530_DeletePrice_def Tiebreak_DeletePrice_def BreakPoint_DeletePrice_def AdOut_DeletePrice_def
  ConvexPool_DeletePrice_def Comeback040_DeletePrice_def CalibratedMarkov_DeletePrice_def CrossArb_DeletePrice_def CrossArbFavorite_DeletePrice_def
  TiebreakServer_DeletePrice_def Set1Winner_DeletePrice_def VolumeRatio_DeletePrice_def SurfaceMarkov_DeletePrice_def SpikeFade_DeletePrice_def
  BuyTheDip_DeletePrice_def ConvexPoolExit_DeletePrice_def ConvexPoolAdaptive_DeletePrice_def DoubleBreak_DeletePrice_def BookPressure_DeletePrice_def
  SetWinner_DeletePrice_def Sniper_DeletePrice_def

lemmas contract_defs = spike_ok_def btd_ok_def cpe_ok_def pressure_ok_def

lemma observers_ok [simp]:
  "book_ok (NoFade_OnPoint ev p st1) = book_ok st1" "spike_ok (SpikeFade_OnPoint ev p st2) = spike_ok st2"
  "btd_ok (BuyTheDip_OnPoint ev p st3) = btd_ok st3" "pressure_ok (BookPressure_OnPoint ev p st4) = pressure_ok st4"
  by (simp_all add: point_defs contract_defs book_ok_def)

lemma Strat_OnPrice_ok: "Strat_ok s \<Longrightarrow> unit_price q \<Longrightarrow> act_ok priced Strat_ok (Strat_OnPrice env mkt q s)"
  by (cases s) (simp_all add: price_laws)

lemma Strat_OnPoint_ok: "Strat_ok s \<Longrightarrow> act_ok priced Strat_ok (Strat_OnPoint exp_f env ev p s)"
  by (cases s) (simp_all add: point_laws)

lemma Strat_Register_ok: "Strat_ok s \<Longrightarrow> 2 \<le> length mkts \<Longrightarrow> Strat_ok (Strat_RegisterMarkets env ev mkts s)"
  by (cases s) (simp_all add: register_defs Let_def contract_defs book_simps split: option.split list.split)

lemma Strat_Unregister_ok: "Strat_ok s \<Longrightarrow> Strat_ok (Strat_UnregisterMarkets ev s)"
  by (cases s) (simp_all add: unregister_defs Let_def contract_defs book_simps)

lemma Strat_Delete_ok: "Strat_ok s \<Longrightarrow> Strat_ok (Strat_DeletePrice mkt s)"
  by (cases s) (simp_all add: delete_defs contract_defs book_simps)

lemma Strat_Finished_ok: "Strat_ok s \<Longrightarrow> act_ok priced Strat_ok (Strat_OnMatchFinished env ev w s)"
  by (cases s) (simp_all add: Sniper_OnMatchFinished_def Sniper_fire_ok)

lemma Strat_Tick_ok: "Strat_ok s \<Longrightarrow> book_ok mp \<Longrightarrow> act_ok priced Strat_ok (Strat_OnTick ti mp s)"
  by (cases s) (simp_all add: Strat_OnTick_def CloseTimer_OnTick_ok)

section \<open>The runtime\<close>

definition runtime_ok :: "MultiStrategyRuntime \<Rightarrow> bool" where
  "runtime_ok m \<longleftrightarrow> (\<forall>ns \<in> set (mr_strategies m). Strat_ok (ns_Strat ns))"

lemma priced_tag [simp]: "priced (ord\<lparr>or_Strategy := n\<rparr>) = priced ord"
  by (simp add: priced_def)

lemma on_strategy_ok:
  "act_ok priced Strat_ok (f (ns_Strat ns)) \<Longrightarrow> act_ok priced (\<lambda>ns. Strat_ok (ns_Strat ns)) (on_strategy f ns)"
  by (simp add: on_strategy_def act_ok_tag)

lemma each_act_ok:
  "(\<And>x. x \<in> set xs \<Longrightarrow> act_ok P Q (f x)) \<Longrightarrow> act_ok P (\<lambda>ys. \<forall>y \<in> set ys. Q y) (each_act f xs)"
  by (induction xs) (auto intro!: act_ok_bind intro: act_ok_mono)

lemma on_all_ok:
  assumes "\<And>ns. ns \<in> set (mr_strategies m) \<Longrightarrow> act_ok priced (\<lambda>ns. Strat_ok (ns_Strat ns)) (f ns)"
  shows "act_ok priced runtime_ok (on_all f m)"
  using each_act_ok [OF assms] by (simp add: on_all_def runtime_ok_def)

lemma shared_matchpoint_ok: "runtime_ok m \<Longrightarrow> book_ok (shared_matchpoint m)"
proof -
  assume ok: "runtime_ok m"
  have new: "book_ok NewMatchPointStrategy" by (simp add: NewMatchPointStrategy_def book_ok_def)
  show ?thesis
  proof (cases "filter (\<lambda>ns. case ns_Strat ns of LMatchPoint st \<Rightarrow> True | _ \<Rightarrow> False) (mr_strategies m)")
    case Nil
    then show ?thesis using new by (simp add: shared_matchpoint_def)
  next
    case (Cons ns rest)
    then have "ns \<in> set (filter (\<lambda>ns. case ns_Strat ns of LMatchPoint st \<Rightarrow> True | _ \<Rightarrow> False) (mr_strategies m))" by simp
    then have "ns \<in> set (mr_strategies m)" by simp
    then have "Strat_ok (ns_Strat ns)" using ok by (simp add: runtime_ok_def)
    then show ?thesis using Cons new by (cases "ns_Strat ns") (simp_all add: shared_matchpoint_def)
  qed
qed

text \<open>The calls the program makes of the runtime: the feed, the tracker of matches, the timer.\<close>

datatype live_call =
    CallPrice "string \<Rightarrow> live_env" string float64
  | CallRegister "string \<Rightarrow> live_env" "string \<rightharpoonup> int list" string "string list"
  | CallUnregister string
  | CallDeletePrice string
  | CallPoint "string \<Rightarrow> live_env" string StorePoint
  | CallTick tick_input
  | CallFinished "string \<Rightarrow> live_env" string int
  | CallRefresh "string \<rightharpoonup> int list" string

primrec run_call :: "(float64 \<Rightarrow> float64) \<Rightarrow> live_call \<Rightarrow> MultiStrategyRuntime \<Rightarrow> MultiStrategyRuntime act" where
  "run_call exp_f (CallPrice envs mkt q) m = Multi_OnPrice envs mkt q m"
| "run_call exp_f (CallRegister envs starts ev mkts) m = Return (Multi_RegisterMarkets envs starts ev mkts m)"
| "run_call exp_f (CallUnregister ev) m = Return (Multi_UnregisterMarkets ev m)"
| "run_call exp_f (CallDeletePrice mkt) m = Return (Multi_DeletePrice mkt m)"
| "run_call exp_f (CallPoint envs ev p) m = Multi_OnPoint exp_f envs ev p m"
| "run_call exp_f (CallTick ti) m = Multi_OnTick ti m"
| "run_call exp_f (CallFinished envs ev w) m = Multi_OnMatchFinished envs ev w m"
| "run_call exp_f (CallRefresh starts ev) m = Return (RefreshOccurrenceTS starts ev m)"

text \<open>Prices of a market lie between zero and one dollar; a match has two markets.\<close>

primrec call_ok :: "live_call \<Rightarrow> bool" where
  "call_ok (CallPrice envs mkt q) = unit_price q"
| "call_ok (CallRegister envs starts ev mkts) = (2 \<le> length mkts)"
| "call_ok (CallUnregister ev) = True"
| "call_ok (CallDeletePrice mkt) = True"
| "call_ok (CallPoint envs ev p) = True"
| "call_ok (CallTick ti) = True"
| "call_ok (CallFinished envs ev w) = True"
| "call_ok (CallRefresh starts ev) = True"

lemma Multi_OnPrice_ok: "runtime_ok m \<Longrightarrow> unit_price q \<Longrightarrow> act_ok priced runtime_ok (Multi_OnPrice envs mkt q m)"
  unfolding Multi_OnPrice_def by (intro on_all_ok act_ok_if act_ok_return on_strategy_ok Strat_OnPrice_ok) (simp_all add: runtime_ok_def)

lemma Multi_OnPoint_ok: "runtime_ok m \<Longrightarrow> act_ok priced runtime_ok (Multi_OnPoint exp_f envs ev p m)"
  unfolding Multi_OnPoint_def by (intro on_all_ok on_strategy_ok Strat_OnPoint_ok) (simp_all add: runtime_ok_def)

lemma Multi_OnTick_ok: "runtime_ok m \<Longrightarrow> act_ok priced runtime_ok (Multi_OnTick ti m)"
  unfolding Multi_OnTick_def
  by (intro on_all_ok on_strategy_ok Strat_Tick_ok shared_matchpoint_ok) (simp_all add: runtime_ok_def)

lemma Multi_Finished_ok: "runtime_ok m \<Longrightarrow> act_ok priced runtime_ok (Multi_OnMatchFinished envs ev w m)"
  unfolding Multi_OnMatchFinished_def by (intro on_all_ok on_strategy_ok Strat_Finished_ok) (simp_all add: runtime_ok_def)

lemma run_call_ok: "runtime_ok m \<Longrightarrow> call_ok c \<Longrightarrow> act_ok priced runtime_ok (run_call exp_f c m)"
  by (cases c)
    (auto simp: Multi_OnPrice_ok Multi_OnPoint_ok Multi_OnTick_ok Multi_Finished_ok, auto simp: runtime_ok_def
      Multi_RegisterMarkets_def Multi_UnregisterMarkets_def Multi_DeletePrice_def RefreshOccurrenceTS_def Let_def
      Strat_Register_ok Strat_Unregister_ok Strat_Delete_ok split: option.split)

section \<open>What the program builds\<close>

lemma cents_unit: "0 \<le> n \<Longrightarrow> n \<le> 100 \<Longrightarrow> unit_price (cents_off n)"
proof -
  assume n: "0 \<le> n" "n \<le> 100"
  have "of_int64 n = Fin (of_int n)" using n by (simp add: of_int64_exact)
  then show ?thesis using n by (auto simp: cents_off_def intro!: fround_unit_price)
qed

lemma flit_unit: "0 \<le> x \<Longrightarrow> x \<le> 1 \<Longrightarrow> unit_price (flit x)"
  by (simp add: flit_def fround_unit_price)

lemmas new_defs =
  NewMatchPointStrategy_def DefaultAdOutConfig_def NewAdOutStrategy_def DefaultSetPointConfig_def
  NewSetPointStrategy_def NewSetPointStrategyWithDB_def DefaultBreakBackConfig_def NewBreakBackStrategy_def
  DefaultBreakPointConfig_def NewBreakPointStrategy_def DefaultComeback040Config_def NewComeback040Strategy_def
  DefaultServer1530Config_def NewServer1530Strategy_def DefaultSet1WinnerConfig_def NewSet1WinnerStrategy_def
  DefaultTiebreakServerConfig_def NewTiebreakServerStrategy_def DefaultDoubleBreakConfig_def NewDoubleBreakStrategy_def
  DefaultSetDownConfig_def NewSetDownStrategy_def NewSetDownStrategyWithDB_def DefaultTiebreakConfig_def
  NewTiebreakStrategy_def NewTiebreakStrategyWithDB_def live_DefaultCrossArbConfig_def NewCrossArbStrategy_def
  DefaultFadeLongshotConfig_def NewFadeLongshotStrategy_def NewFadeLongshotStrategyWithDB_def DefaultNoFadeConfig_def
  NewNoFadeStrategy_def live_DefaultCrossArbFavoriteConfig_def NewCrossArbFavoriteStrategy_def NewCrossArbFavoriteStrategyWithDB_def
  DefaultSpikeFadeConfig_def NewSpikeFadeStrategy_def DefaultSetWinnerConfig_def NewSetWinnerStrategy_def
  DefaultVolumeRatioConfig_def NewVolumeRatioStrategy_def NewVolumeRatioStrategyWithDB_def DefaultSurfaceMarkovConfig_def
  NewSurfaceMarkovStrategy_def NewSurfaceMarkovStrategyWithDB_def NewSettlementSniperStrategy_def DefaultBuyTheDipConfig_def
  NewBuyTheDipStrategy_def live_DefaultConvexPoolConfig_def NewConvexPoolStrategy_def NewConvexPoolStrategyWithDB_def
  DefaultConvexPoolAdaptiveConfig_def NewConvexPoolAdaptiveStrategy_def NewConvexPoolAdaptiveStrategyWithDB_def DefaultConvexPoolExitConfig_def
  NewConvexPoolExitStrategy_def NewConvexPoolExitStrategyWithDB_def DefaultBookPressureConfig_def NewBookPressureStrategy_def
  DefaultCalibratedMarkovConfig_def NewCalibratedMarkovStrategy_def NewCalibratedMarkovStrategyWithDB_def
  SetPoint_SetSharedMarkovModel_def BreakPoint_SetSharedMarkovModel_def SetWinner_SetSharedMarkovModel_def
  ConvexPool_SetSharedMarkovModel_def ConvexPoolExit_SetSharedMarkovModel_def ConvexPoolAdaptive_SetSharedMarkovModel_def

lemma share_model_ok: "Strat_ok s \<Longrightarrow> Strat_ok (share_model q s)"
  by (cases s) (simp_all add: contract_defs book_ok_def new_defs)

lemma built_ok:
  "list_all (\<lambda>n. Strat_ok (ns_Strat n)) core_strategies"
  "list_all (\<lambda>n. Strat_ok (ns_Strat n)) (ranged_strategies read_model)"
  "list_all (\<lambda>n. Strat_ok (ns_Strat n)) filtered_strategies"
  "list_all (\<lambda>n. Strat_ok (ns_Strat n)) (late_strategies leadMin minPrice)"
  by (simp_all add: core_strategies_def ranged_strategies_def filtered_strategies_def late_strategies_def named_def
      contract_defs book_ok_def new_defs cents_unit flit_unit)

lemma all_strategies_ok: "n \<in> set (all_strategies read_model leadMin minPrice) \<Longrightarrow> Strat_ok (ns_Strat n)"
proof -
  have "\<forall>n \<in> set (core_strategies @ ranged_strategies read_model @ filtered_strategies @ late_strategies leadMin minPrice). Strat_ok (ns_Strat n)"
    using built_ok unfolding list_all_iff set_append by blast
  then show "n \<in> set (all_strategies read_model leadMin minPrice) \<Longrightarrow> Strat_ok (ns_Strat n)"
    unfolding all_strategies_def by (auto simp: share_model_ok)
qed

lemma Build_ok: "set (order_of (all_strategies rd lm mp)) \<subseteq> set (all_strategies rd lm mp) \<Longrightarrow> runtime_ok (Build order_of rd lm mp)"
  using all_strategies_ok by (auto simp: runtime_ok_def Build_def SetDB_def NewMultiStrategy_def)

end
