(* ===== verification/LiveOnce.thy ===== *)
theory LiveOnce
  imports LiveProgram
begin

text \<open>
  Strategies that enter a match once. Fifteen of the strategies of the first version keep a flag per event that
  they raise with an order; what that guarantees is a contract of its own, stated as a locale over any calls
  and interpreted on the strategies of the program.
\<close>

section \<open>At most one accepted order\<close>

text \<open>
  A call that may still enter \<open>ev\<close>: at most one of its orders on the event is accepted, and then the flag
  is up at the end. A call after the flag is up orders nothing more on the event and leaves it up.
\<close>

definition quiet :: "string \<Rightarrow> ('s \<Rightarrow> bool) \<Rightarrow> 's act \<Rightarrow> bool" where
  "quiet ev flag m \<longleftrightarrow> act_all (\<lambda>ord. or_MatchTicker ord \<noteq> ev) flag m"

primrec once :: "string \<Rightarrow> ('s \<Rightarrow> bool) \<Rightarrow> 's act \<Rightarrow> bool" where
  "once ev flag Panic \<longleftrightarrow> True"
| "once ev flag (Return s) \<longleftrightarrow> True"
| "once ev flag (Emit ord k) \<longleftrightarrow>
     (if or_MatchTicker ord = ev then once ev flag (k False) \<and> quiet ev flag (k True) else \<forall>ok. once ev flag (k ok))"

definition shot :: "string \<Rightarrow> ('s \<Rightarrow> bool) \<Rightarrow> bool \<Rightarrow> 's act \<Rightarrow> bool" where
  "shot ev flag up m \<longleftrightarrow> (if up then quiet ev flag m else once ev flag m)"

lemma quiet_simps [simp]:
  "quiet ev flag Panic" "quiet ev flag (Return s) = flag s"
  "quiet ev flag (Emit ord k) = (or_MatchTicker ord \<noteq> ev \<and> (\<forall>ok. quiet ev flag (k ok)))"
  by (simp_all add: quiet_def)

lemma quiet_once: "quiet ev flag m \<Longrightarrow> once ev flag m"
  by (induction m) auto

lemma shot_once: "shot ev flag up m \<Longrightarrow> once ev flag m"
  by (auto simp: shot_def quiet_once split: if_split_asm)

lemma quiet_map [simp]: "quiet ev flag (map_act f m) = quiet ev (\<lambda>s. flag (f s)) m"
  by (simp add: quiet_def)

lemma once_map [simp]: "once ev flag (map_act f m) = once ev (\<lambda>s. flag (f s)) m"
  by (induction m) (auto simp: quiet_map)

lemma shot_map [simp]: "shot ev flag up (map_act f m) = shot ev (\<lambda>s. flag (f s)) up m"
  by (simp add: shot_def)

lemma quiet_bind:
  "quiet ev flag m \<Longrightarrow> act_all (\<lambda>_. True) I m \<Longrightarrow> (\<And>s. I s \<Longrightarrow> flag s \<Longrightarrow> quiet ev flag (f s)) \<Longrightarrow> quiet ev flag (bind_act m f)"
  by (induction m) auto

lemma once_bind:
  "once ev flag m \<Longrightarrow> act_all (\<lambda>_. True) I m \<Longrightarrow> (\<And>s. I s \<Longrightarrow> shot ev flag (flag s) (f s)) \<Longrightarrow> once ev flag (bind_act m f)"
proof (induction m)
  case (Emit ord k)
  have q: "quiet ev flag (f s)" if "I s" "flag s" for s using Emit.prems(3) [OF that(1)] that(2) by (simp add: shot_def)
  show ?case
    using Emit.IH Emit.prems quiet_bind [of ev flag "k True" I f, OF _ _ q] by (auto split: if_split_asm)
qed (auto intro: shot_once)

lemma shot_bind:
  assumes "shot ev flag up m" "act_all (\<lambda>_. True) I m" "\<And>s. I s \<Longrightarrow> shot ev flag (flag s) (f s)"
  shows "shot ev flag up (bind_act m f)"
  using assms once_bind [of ev flag m I f] quiet_bind [of ev flag m I f] by (auto simp: shot_def)

lemma shot_seq:
  "shot ev flag up m \<Longrightarrow> (\<And>s. shot ev flag (flag s) (f s)) \<Longrightarrow> shot ev flag up (bind_act m f)"
  by (rule shot_bind [where I = "\<lambda>_. True", OF _ act_all_any]) auto

text \<open>The shape of a call, followed rule by rule.\<close>

lemma shot_if: "(c \<Longrightarrow> shot ev flag up m) \<Longrightarrow> (\<not> c \<Longrightarrow> shot ev flag up n) \<Longrightarrow> shot ev flag up (if c then m else n)"
  by simp

lemma shot_option:
  "(x = None \<Longrightarrow> shot ev flag up m) \<Longrightarrow> (\<And>v. x = Some v \<Longrightarrow> shot ev flag up (f v)) \<Longrightarrow>
   shot ev flag up (case x of None \<Rightarrow> m | Some v \<Rightarrow> f v)"
  by (cases x) simp_all

lemma shot_list:
  "(x = [] \<Longrightarrow> shot ev flag up m) \<Longrightarrow> (\<And>v vs. x = v # vs \<Longrightarrow> shot ev flag up (f v vs)) \<Longrightarrow>
   shot ev flag up (case x of [] \<Rightarrow> m | v # vs \<Rightarrow> f v vs)"
  by (cases x) simp_all

lemma shot_prod: "(\<And>a b. x = (a, b) \<Longrightarrow> shot ev flag up (f a b)) \<Longrightarrow> shot ev flag up (case x of (a, b) \<Rightarrow> f a b)"
  by (cases x) simp

lemma shot_let: "(\<And>y. y = x \<Longrightarrow> shot ev flag up (f y)) \<Longrightarrow> shot ev flag up (let y = x in f y)"
  by simp

lemma shot_return: "(up \<Longrightarrow> flag s) \<Longrightarrow> shot ev flag up (Return s)"
  by (simp add: shot_def)

lemma shot_panic: "shot ev flag up Panic"
  by (simp add: shot_def)

lemma shot_emit:
  assumes "or_MatchTicker ord = ev \<Longrightarrow> \<not> up \<and> shot ev flag True (k True)" "\<And>ok. (ok \<and> or_MatchTicker ord = ev) \<or> shot ev flag up (k ok)"
  shows "shot ev flag up (Emit ord k)"
  using assms(1) assms(2) [of False] assms(2) by (cases "or_MatchTicker ord = ev") (auto simp: shot_def split: if_split_asm)

lemmas shot_rules = shot_if shot_option shot_list shot_prod shot_let shot_return shot_panic shot_emit

section \<open>Recording the orders\<close>

text \<open>An emitter that answers as it likes and records each order with its answer.\<close>

definition recorder :: "((Order \<times> bool) list \<Rightarrow> Order \<Rightarrow> bool) \<Rightarrow> (Order \<times> bool) list emitter" where
  "recorder ans ord tr = (tr @ [(ord, ans tr ord)], ans tr ord)"

lemma run_recorder:
  "run_act (recorder ans) (Emit ord k) tr = run_act (recorder ans) (k (ans tr ord)) (tr @ [(ord, ans tr ord)])"
proof -
  have "recorder ans ord tr = (tr @ [(ord, ans tr ord)], ans tr ord)" by (simp add: recorder_def)
  then show ?thesis by (simp only: run_act.simps prod.case)
qed

definition entries :: "string \<Rightarrow> (Order \<times> bool) list \<Rightarrow> nat" where
  "entries ev tr = length (filter (\<lambda>(ord, ok). ok \<and> or_MatchTicker ord = ev) tr)"

lemma quiet_entries: "run_act (recorder ans) m tr = Some (s, tr') \<Longrightarrow> quiet ev flag m \<Longrightarrow> entries ev tr' = entries ev tr"
proof (induction m arbitrary: tr)
  case (Emit ord k)
  have "run_act (recorder ans) (k (ans tr ord)) (tr @ [(ord, ans tr ord)]) = Some (s, tr')"
    using Emit.prems(1) by (simp only: run_recorder)
  from Emit.IH [OF _ this] Emit.prems(2) show ?case by (simp add: entries_def)
qed auto

lemma once_entries: "run_act (recorder ans) m tr = Some (s, tr') \<Longrightarrow> once ev flag m \<Longrightarrow> entries ev tr' \<le> entries ev tr + 1"
proof (induction m arbitrary: tr)
  case (Emit ord k)
  define tr1 where "tr1 = tr @ [(ord, ans tr ord)]"
  have run: "run_act (recorder ans) (k (ans tr ord)) tr1 = Some (s, tr')"
    using Emit.prems(1) by (simp only: run_recorder tr1_def)
  show ?case
  proof (cases "ans tr ord \<and> or_MatchTicker ord = ev")
    case True
    then show ?thesis using quiet_entries [OF run] Emit.prems(2) by (auto simp: tr1_def entries_def)
  next
    case False
    then have "once ev flag (k (ans tr ord))" using Emit.prems(2) by (auto split: if_split_asm)
    from Emit.IH [OF _ run this] False show ?thesis by (auto simp: tr1_def entries_def)
  qed
qed auto

locale one_entry =
  fixes flag :: "string \<Rightarrow> 's \<Rightarrow> bool" and call :: "'c \<Rightarrow> 's \<Rightarrow> 's act" and kind :: "'s \<Rightarrow> bool" and stays :: "string \<Rightarrow> 'c \<Rightarrow> bool"
  assumes call_shot: "kind s \<Longrightarrow> stays ev c \<Longrightarrow> shot ev (flag ev) (flag ev s) (call c s)"
    and call_kind: "kind s \<Longrightarrow> act_all (\<lambda>_. True) kind (call c s)"
begin

lemma calls_shot: "kind s \<Longrightarrow> \<forall>c \<in> set cs. stays ev c \<Longrightarrow> shot ev (flag ev) (flag ev s) (for_act call cs s)"
proof (induction cs arbitrary: s)
  case (Cons c cs)
  then show ?case by (auto intro!: shot_bind [where I = kind] call_shot call_kind)
qed (simp add: shot_def)

lemma calls_enter_once:
  assumes "kind s" "\<forall>c \<in> set cs. stays ev c" "run_act (recorder ans) (for_act call cs s) tr = Some (s', tr')"
  shows "entries ev tr' \<le> entries ev tr + 1"
  by (rule once_entries [OF assms(3)]) (rule shot_once [OF calls_shot [OF assms(1,2)]])

end

end
