(* ===== verification/LiveOnceLaws.thy ===== *)
theory LiveOnceLaws
  imports LiveOnce
begin

text \<open>Each strategy that enters a match once keeps the contract of \<open>LiveOnce\<close>, handler by handler.\<close>

section \<open>Each handler\<close>

lemma signal_ticker [simp]: "or_MatchTicker (signal_order env ts ev mkt a c q p e z l) = ev"
  by (simp add: signal_order_def)

lemmas once_simps = set_price_def set_time_def

lemma BreakBack_OnPrice_shot: "shot ev (\<lambda>s. bb_fired s ev) (bb_fired st ev) (BreakBack_OnPrice env mkt q st)"
  unfolding BreakBack_OnPrice_def BreakBack_OnPriceAt_def
  by (intro shot_rules) (auto simp: BreakBack_fire_def once_simps shot_def)

lemma Server1530_OnPrice_shot: "shot ev (\<lambda>s. lsv_fired s ev) (lsv_fired st ev) (Server1530_OnPrice env mkt q st)"
  unfolding Server1530_OnPrice_def Server1530_OnPriceAt_def
  by (intro shot_rules) (auto simp: Server1530_fire_def once_simps shot_def)

lemma SetDown_OnPrice_shot: "shot ev (\<lambda>s. sd_fired s ev) (sd_fired st ev) (SetDown_OnPrice env mkt q st)"
  unfolding SetDown_OnPrice_def SetDown_OnPriceAt_def
  by (intro shot_rules) (auto simp: SetDown_fire_def once_simps shot_def)

lemma Tiebreak_OnPrice_shot: "shot ev (\<lambda>s. tk_fired s ev) (tk_fired st ev) (Tiebreak_OnPrice env mkt q st)"
  unfolding Tiebreak_OnPrice_def Tiebreak_OnPriceAt_def
  by (intro shot_rules) (auto simp: Tiebreak_fire_def once_simps shot_def)

lemma BreakBack_OnPoint_shot: "shot ev (\<lambda>s. bb_fired s ev) (bb_fired st ev) (BreakBack_OnPoint env ev' p st)"
  unfolding BreakBack_OnPoint_def
  by (intro shot_rules) (auto simp: BreakBack_fire_def shot_def)

lemma Server1530_OnPoint_shot: "shot ev (\<lambda>s. lsv_fired s ev) (lsv_fired st ev) (Server1530_OnPoint env ev' p st)"
  unfolding Server1530_OnPoint_def
  by (intro shot_rules) (auto simp: Server1530_fire_def shot_def)

lemma SetDown_OnPoint_shot: "shot ev (\<lambda>s. sd_fired s ev) (sd_fired st ev) (SetDown_OnPoint env ev' p st)"
  unfolding SetDown_OnPoint_def
  by (intro shot_rules) (auto simp: SetDown_fire_def shot_def)

lemma Tiebreak_OnPoint_shot: "shot ev (\<lambda>s. tk_fired s ev) (tk_fired st ev) (Tiebreak_OnPoint env ev' p st)"
  unfolding Tiebreak_OnPoint_def
  by (intro shot_rules) (auto simp: Tiebreak_fire_def shot_def)

lemma Comeback040_OnPoint_shot: "shot ev (\<lambda>s. cb_fired s ev) (cb_fired st ev) (Comeback040_OnPoint env ev' p st)"
  unfolding Comeback040_OnPoint_def
  by (intro shot_rules) (auto simp: shot_def)

lemma Set1Winner_OnPoint_shot: "shot ev (\<lambda>s. s1_fired s ev) (s1_fired st ev) (Set1Winner_OnPoint env ev' p st)"
  unfolding Set1Winner_OnPoint_def
  by (intro shot_rules) (auto simp: shot_def)

lemma TiebreakServer_OnPoint_shot: "shot ev (\<lambda>s. ts_fired s ev) (ts_fired st ev) (TiebreakServer_OnPoint env ev' p st)"
  unfolding TiebreakServer_OnPoint_def
  by (intro shot_rules) (auto simp: shot_def)

lemma FadeLongshot_check_shot: "shot ev (\<lambda>s. lfl_fired s ev) (lfl_fired st ev) (FadeLongshot_checkEntryAt env mkt ts st)"
  unfolding FadeLongshot_checkEntryAt_def
  by (intro shot_rules) (auto simp: FadeLongshot_order_def shot_def)

lemma FadeLongshot_all_shot: "shot ev (\<lambda>s. lfl_fired s ev) (lfl_fired st ev) (FadeLongshot_checkAll env k mkts st)"
  by (induction mkts arbitrary: k st) (auto simp: shot_return intro!: shot_seq FadeLongshot_check_shot)

lemma FadeLongshot_OnPrice_shot: "shot ev (\<lambda>s. lfl_fired s ev) (lfl_fired st ev) (FadeLongshot_OnPrice env mkt q st)"
  using FadeLongshot_check_shot [of ev "set_time mkt (live_now env 0 st) (set_price mkt q st)" env mkt "live_now env 1 st"]
  by (simp add: FadeLongshot_OnPrice_def once_simps)

lemma FadeLongshot_OnPoint_shot: "shot ev (\<lambda>s. lfl_fired s ev) (lfl_fired st ev) (FadeLongshot_OnPoint env ev' p st)"
  unfolding FadeLongshot_OnPoint_def FadeLongshot_checkEntryForEvent_def
  using FadeLongshot_all_shot [of ev "st\<lparr>fl_scores := (fl_scores st)(ev' \<mapsto> fade_score p (fl_scores st ev'))\<rparr>" env 0]
  by (intro shot_rules) simp_all

lemma NoFade_check_shot: "shot ev (\<lambda>s. nf_fired s ev) (nf_fired st ev) (NoFade_checkEntryAt env mkt ts st)"
  unfolding NoFade_checkEntryAt_def
  by (intro shot_rules) (auto simp: shot_def)

lemma NoFade_OnPrice_shot: "shot ev (\<lambda>s. nf_fired s ev) (nf_fired st ev) (NoFade_OnPrice env mkt q st)"
  using NoFade_check_shot [of ev "set_time mkt (live_now env 0 st) (set_price mkt q st)" env mkt "live_now env 1 st"]
  by (simp add: NoFade_OnPrice_def once_simps)

lemma CrossArbFavorite_OnPrice_shot: "shot ev (\<lambda>s. cf_fired s ev) (cf_fired st ev) (CrossArbFavorite_OnPrice env mkt q st)"
  unfolding CrossArbFavorite_OnPrice_def CrossArbFavorite_OnPriceAt_def fireBuyFavoriteNO_def
  by (intro shot_rules) (auto simp: once_simps shot_def)

lemma SpikeFade_OnPrice_shot: "shot ev (\<lambda>s. sk_fired s ev) (sk_fired st ev) (SpikeFade_OnPrice env mkt q st)"
  unfolding SpikeFade_OnPrice_def SpikeFade_OnPriceAt_def
  by (intro shot_rules) (auto simp: SpikeFade_order_def once_simps shot_def Let_def)

lemma VolumeRatio_OnPrice_shot: "shot ev (\<lambda>s. vr_fired s ev) (vr_fired st ev) (VolumeRatio_OnPrice env mkt q st)"
  unfolding VolumeRatio_OnPrice_def VolumeRatio_OnPriceAt_def VolumeRatio_checkEntry_def
  by (intro shot_rules) (auto simp: once_simps shot_def VolumeRatio_loadCloseTime_def split: option.split list.split)

lemma SurfaceMarkov_check_shot: "shot ev (\<lambda>s. su_fired s ev) (su_fired st ev) (live_checkEdge env k ev' mkt price fair n st)"
  unfolding live_checkEdge_def
  by (intro shot_rules) (auto simp: shot_def)

lemma SurfaceMarkov_OnPoint_shot: "shot ev (\<lambda>s. su_fired s ev) (su_fired st ev) (SurfaceMarkov_OnPoint env ev' p st)"
  unfolding SurfaceMarkov_OnPoint_def
  by (intro shot_rules shot_seq SurfaceMarkov_check_shot)

lemma CalibratedMarkov_check_shot:
  "shot ev (\<lambda>s. cms_fired s ev) (cms_fired st ev) (live_CalibratedMarkov_checkEdge env ev' mkt price fair n st)"
  unfolding live_CalibratedMarkov_checkEdge_def
  by (intro shot_rules) (auto simp: shot_def CalibratedMarkov_order_def Let_def)

lemma CalibratedMarkov_OnPoint_shot:
  "shot ev (\<lambda>s. cms_fired s ev) (cms_fired st ev) (CalibratedMarkov_OnPoint exp_f env ev' p st)"
  unfolding CalibratedMarkov_OnPoint_def
  by (intro shot_rules shot_seq CalibratedMarkov_check_shot)

lemma Sniper_fire_shot: "shot ev (\<lambda>s. sn_fired s ev) (sn_fired st ev) (Sniper_fire env ev' w st)"
  unfolding Sniper_fire_def
  by (intro shot_rules) (auto simp: shot_def)

lemma Sniper_upd_fired [simp]: "sn_fired (Sniper_updateMatchState ev p st) = sn_fired st"
  by (simp add: Sniper_updateMatchState_def Let_def)

lemma Sniper_OnPoint_shot: "shot ev (\<lambda>s. sn_fired s ev) (sn_fired st ev) (Sniper_OnPoint env ev' p st)"
  unfolding Sniper_OnPoint_def
  using Sniper_fire_shot [of ev "Sniper_updateMatchState ev' p st" env ev']
  by (intro shot_rules) simp_all

section \<open>Any of them\<close>

text \<open>The flag of an event; the other strategies may enter a match more than once.\<close>

fun live_fired :: "string \<Rightarrow> live_strategy \<Rightarrow> bool" where
  "live_fired ev (LBreakBack st) = bb_fired st ev"
| "live_fired ev (LServer1530 st) = lsv_fired st ev"
| "live_fired ev (LSetDown st) = sd_fired st ev"
| "live_fired ev (LTiebreak st) = tk_fired st ev"
| "live_fired ev (LComeback040 st) = cb_fired st ev"
| "live_fired ev (LSet1Winner st) = s1_fired st ev"
| "live_fired ev (LTiebreakServer st) = ts_fired st ev"
| "live_fired ev (LFadeLongshot st) = lfl_fired st ev"
| "live_fired ev (LNoFade st) = nf_fired st ev"
| "live_fired ev (LCrossArbFavorite st) = cf_fired st ev"
| "live_fired ev (LSpikeFade st) = sk_fired st ev"
| "live_fired ev (LVolumeRatio st) = vr_fired st ev"
| "live_fired ev (LSurfaceMarkov st) = su_fired st ev"
| "live_fired ev (LCalibratedMarkov st) = cms_fired st ev"
| "live_fired ev (LSniper st) = sn_fired st ev"
| "live_fired ev _ = False"

fun fires_once :: "live_strategy \<Rightarrow> bool" where
  "fires_once (LBreakBack st) = True"
| "fires_once (LServer1530 st) = True"
| "fires_once (LSetDown st) = True"
| "fires_once (LTiebreak st) = True"
| "fires_once (LComeback040 st) = True"
| "fires_once (LSet1Winner st) = True"
| "fires_once (LTiebreakServer st) = True"
| "fires_once (LFadeLongshot st) = True"
| "fires_once (LNoFade st) = True"
| "fires_once (LCrossArbFavorite st) = True"
| "fires_once (LSpikeFade st) = True"
| "fires_once (LVolumeRatio st) = True"
| "fires_once (LSurfaceMarkov st) = True"
| "fires_once (LCalibratedMarkov st) = True"
| "fires_once (LSniper st) = True"
| "fires_once _ = False"

text \<open>What the runtime calls of one of its strategies, called \<open>n\<close>; a price may be held back.\<close>

primrec strat_call :: "(float64 \<Rightarrow> float64) \<Rightarrow> string \<Rightarrow> live_call \<Rightarrow> live_strategy \<Rightarrow> live_strategy act" where
  "strat_call exp_f n (CallPrice envs mkt q) s = Strat_OnPrice (envs n) mkt q s"
| "strat_call exp_f n (CallRegister envs starts ev mkts) s = Return (Strat_RegisterMarkets (envs n) ev mkts s)"
| "strat_call exp_f n (CallUnregister ev) s = Return (Strat_UnregisterMarkets ev s)"
| "strat_call exp_f n (CallDeletePrice mkt) s = Return (Strat_DeletePrice mkt s)"
| "strat_call exp_f n (CallPoint envs ev p) s = Strat_OnPoint exp_f (envs n) ev p s"
| "strat_call exp_f n (CallTick ti) s = Strat_OnTick ti NewMatchPointStrategy s"
| "strat_call exp_f n (CallFinished envs ev w) s = Strat_OnMatchFinished (envs n) ev w s"
| "strat_call exp_f n (CallRefresh starts ev) s = Return s"

lemmas shot_laws =
  BreakBack_OnPrice_shot Server1530_OnPrice_shot SetDown_OnPrice_shot Tiebreak_OnPrice_shot FadeLongshot_OnPrice_shot
  NoFade_OnPrice_shot CrossArbFavorite_OnPrice_shot SpikeFade_OnPrice_shot VolumeRatio_OnPrice_shot
  BreakBack_OnPoint_shot Server1530_OnPoint_shot SetDown_OnPoint_shot Tiebreak_OnPoint_shot Comeback040_OnPoint_shot
  Set1Winner_OnPoint_shot TiebreakServer_OnPoint_shot FadeLongshot_OnPoint_shot SurfaceMarkov_OnPoint_shot
  CalibratedMarkov_OnPoint_shot Sniper_OnPoint_shot Sniper_fire_shot

lemmas silent_defs = once_simps
  Comeback040_OnPrice_def Comeback040_OnPriceAt_def Set1Winner_OnPrice_def Set1Winner_OnPriceAt_def
  TiebreakServer_OnPrice_def TiebreakServer_OnPriceAt_def SurfaceMarkov_OnPrice_def SurfaceMarkov_OnPriceAt_def
  CalibratedMarkov_OnPrice_def CalibratedMarkov_OnPriceAt_def Sniper_OnPrice_def NoFade_OnPoint_def SpikeFade_OnPoint_def
  Sniper_OnMatchFinished_def

lemma Strat_OnPrice_shot: "fires_once s \<Longrightarrow> shot ev (live_fired ev) (live_fired ev s) (Strat_OnPrice env mkt q s)"
  by (cases s) (simp_all add: shot_laws shot_return silent_defs)

lemma Strat_OnPoint_shot: "fires_once s \<Longrightarrow> shot ev (live_fired ev) (live_fired ev s) (Strat_OnPoint exp_f env ev' p s)"
  by (cases s) (simp_all add: shot_laws shot_return silent_defs)

lemma Strat_OnMatchFinished_shot: "fires_once s \<Longrightarrow> shot ev (live_fired ev) (live_fired ev s) (Strat_OnMatchFinished env ev' w s)"
  by (cases s) (simp_all add: shot_laws shot_return silent_defs)

lemma Strat_RegisterMarkets_fired [simp]: "fires_once s \<Longrightarrow> live_fired ev (Strat_RegisterMarkets env ev' mkts s) = live_fired ev s"
  by (cases s) (simp_all add: register_defs add_markets_def Let_def split: option.split list.split)

lemma Strat_DeletePrice_fired [simp]: "fires_once s \<Longrightarrow> live_fired ev (Strat_DeletePrice mkt s) = live_fired ev s"
  by (cases s) (simp_all add: delete_defs delete_price_def delete_time_def)

lemma Strat_UnregisterMarkets_fired [simp]:
  "fires_once s \<Longrightarrow> ev' \<noteq> ev \<Longrightarrow> live_fired ev (Strat_UnregisterMarkets ev' s) = live_fired ev s"
  by (cases s) (simp_all add: unregister_defs drop_event_def drop_event_times_def drop_markets_def Let_def)

lemma strat_call_kind: "fires_once s \<Longrightarrow> act_all (\<lambda>_. True) fires_once (strat_call exp_f n c s)"
  by (cases c; cases s) (simp_all add: Strat_OnTick_def act_all_any)

text \<open>A call that does not end the registration of the event.\<close>

primrec stays_in :: "string \<Rightarrow> live_call \<Rightarrow> bool" where
  "stays_in ev (CallPrice envs mkt q) = True"
| "stays_in ev (CallRegister envs starts ev' mkts) = True"
| "stays_in ev (CallUnregister ev') = (ev' \<noteq> ev)"
| "stays_in ev (CallDeletePrice mkt) = True"
| "stays_in ev (CallPoint envs ev' p) = True"
| "stays_in ev (CallTick ti) = True"
| "stays_in ev (CallFinished envs ev' w) = True"
| "stays_in ev (CallRefresh starts ev') = True"

lemma strat_call_shot:
  "fires_once s \<Longrightarrow> stays_in ev c \<Longrightarrow> shot ev (live_fired ev) (live_fired ev s) (strat_call exp_f n c s)"
  by (cases c) (auto simp: Strat_OnPrice_shot Strat_OnPoint_shot Strat_OnMatchFinished_shot shot_return Strat_OnTick_def
      split: live_strategy.split)

interpretation live_entry: one_entry live_fired "strat_call exp_f n" fires_once stays_in for exp_f n
  by unfold_locales (fact strat_call_shot strat_call_kind)+


end
