(* ===== verification/LiveMain.thy ===== *)
theory LiveMain
  imports LiveOnceLaws
begin

text \<open>
  The theorems about the whole first version: the built strategies behind the pipeline of emitters never panic
  and never leave the pool in debt, and a strategy that waits for a match to start does wait.
\<close>

section \<open>The program and its pool\<close>

text \<open>The shared emitter of \<open>main.go\<close>; the k-th order finds the world as \<open>inputs k\<close> tells.\<close>

definition live_emit ::
  "QuotaConfig \<Rightarrow> RealOrderConfig \<Rightarrow> float64 \<Rightarrow> (nat \<Rightarrow> pipe_input) \<Rightarrow> (nat \<times> quota \<times> pipeline) emitter" where
  "live_emit qcfg cfg kf inputs ord s =
     (case s of (k, qp) \<Rightarrow>
        (case Quota_EmitOrder qcfg (pi_paper (inputs k)) (paper_side (inputs k)) (real_side qcfg cfg kf (inputs k)) ord qp of
           (qp', ok) \<Rightarrow> ((k + 1, qp'), ok)))"

definition faults_ok :: "pipe_input \<Rightarrow> bool" where
  "faults_ok inp \<longleftrightarrow> (\<forall>isNO. answer_ok isNO (em_first (pi_emission inp))) \<and> answer_ok False (em_retry (pi_emission inp))"

lemma live_emit_keeps:
  assumes "priced ord" "\<forall>k. faults_ok (inputs k)" "pool_ok (rs_db (pl_sys (snd (snd s))))"
  shows "pool_ok (rs_db (pl_sys (snd (snd (fst (live_emit qcfg cfg kf inputs ord s))))))"
proof -
  obtain k q pl where s: "s = (k, q, pl)" by (cases s)
  have ok: "emission_ok ord (pi_emission (inputs k))"
    using assms(1,2) unit_price_ok by (simp add: emission_ok_def faults_ok_def priced_def)
  have "pool_ok (rs_db (pl_sys (snd (fst (Quota_EmitOrder qcfg (pi_paper (inputs k)) (paper_side (inputs k))
      (real_side qcfg cfg kf (inputs k)) ord (q, pl))))))"
    by (rule whole_pipeline.quota_keeps [OF ok]) (use assms(3) s in simp)
  then show ?thesis by (auto simp: s live_emit_def split: prod.split)
qed

lemma run_calls_ok: "runtime_ok m \<Longrightarrow> \<forall>c \<in> set cs. call_ok c \<Longrightarrow> act_ok priced runtime_ok (for_act (run_call exp_f) cs m)"
  by (intro act_ok_for run_call_ok) simp_all


definition ex_live_env :: live_env where
  "ex_live_env = \<lparr>le_clock = (\<lambda>k. 0), le_bankroll = Fin 1000, le_kelly = Fin (1 / 4), le_marshal = (\<lambda>_. []), le_pick = hd,
     le_seriesTicker = Map.empty, le_closeTS = Map.empty, le_dollarVolume = Map.empty, le_surface = Map.empty, le_uuid = []\<rparr>"

definition ex_calls :: "live_call list" where
  "ex_calls = [CallRegister (\<lambda>_. ex_live_env) Map.empty ''ev'' [''a'', ''b''], CallPrice (\<lambda>_. ex_live_env) ''a'' (Fin (1 / 2))]"


section \<open>Entering a match once\<close>

lemma ex_edge: "1 \<le> edge_cents (Fin 1) (Fin (1 / 2))"
proof -
  have h: "fround (1 / 2) = Fin (1 / 2)" using rnd_powi [of "-1"] by (simp add: fround_small)
  have f: "fround 50 = Fin 50" using rnd_of_int [of 50] by (simp add: fround_small)
  define e where "e = rnd (1 / 10 ^ 9)"
  have e: "0 \<le> e" "e \<le> 1" using rnd_mono [of "1 / 10 ^ 9" 1] by (simp_all add: e_def rnd_nonneg)
  have lit: "flit (1 / 10 ^ 9) = Fin e" by (simp add: flit_def e_def fround_small)
  have b: "50 \<le> rnd (50 + e)" "rnd (50 + e) \<le> 51"
    using rnd_mono [of 50 "50 + e"] rnd_mono [of "50 + e" 51] rnd_of_int [of 50] rnd_of_int [of 51] e by simp_all
  have "to_int64 (fround (50 + e)) = \<lfloor>rnd (50 + e)\<rfloor>"
    using b e floor_mono [OF b(2)] floor_mono [OF b(1)]
    by (simp add: fround_small trunc_rat_def in_int64_def int64_min_def int64_max_def) linarith?
  then show ?thesis
    using floor_mono [OF b(1)] by (simp add: edge_cents_def fsub_def h f lit [simplified])
qed

definition ex_enter_calls :: "live_call list" where
  "ex_enter_calls = [CallRegister (\<lambda>_. ex_live_env) Map.empty ''ev'' [''a'', ''b''],
     CallPrice (\<lambda>_. ex_live_env) ''a'' (Fin (1 / 2)), CallFinished (\<lambda>_. ex_live_env) ''ev'' 1, CallFinished (\<lambda>_. ex_live_env) ''ev'' 1]"

lemma ex_enter_run:
  "\<exists>s' ord. run_act (recorder (\<lambda>_ _. True)) (for_act (strat_call id ''n'') ex_enter_calls (LSniper NewSettlementSniperStrategy)) [] = Some (s', [(ord, True)])"
  using ex_edge
  by (simp add: ex_enter_calls_def NewSettlementSniperStrategy_def Sniper_RegisterMarkets_def Sniper_OnPrice_def Sniper_OnMatchFinished_def
     Sniper_fire_def markets_of_def add_markets_def set_price_def set_time_def live_now_def live_price_def price_age_def
     ex_live_env_def clamp64_def fle0_def int64_min_def int64_max_def live_priceStaleTTL_def Let_def recorder_def)

section \<open>Waiting for the first point\<close>

text \<open>A call after which a market still belongs to an event that has not started.\<close>

primrec keeps_waiting :: "string \<Rightarrow> string \<Rightarrow> live_call \<Rightarrow> bool" where
  "keeps_waiting ev mkt (CallPrice envs mkt' q) = True"
| "keeps_waiting ev mkt (CallRegister envs starts ev' mkts) = (mkt \<in> set mkts \<longrightarrow> ev' = ev)"
| "keeps_waiting ev mkt (CallUnregister ev') = (ev' \<noteq> ev)"
| "keeps_waiting ev mkt (CallDeletePrice mkt') = (mkt' \<noteq> mkt)"
| "keeps_waiting ev mkt (CallPoint envs ev' p) = (ev' \<noteq> ev)"
| "keeps_waiting ev mkt (CallTick ti) = True"
| "keeps_waiting ev mkt (CallFinished envs ev' w) = True"
| "keeps_waiting ev mkt (CallRefresh starts ev') = True"

definition waiting :: "string \<Rightarrow> string \<Rightarrow> MultiStrategyRuntime \<Rightarrow> bool" where
  "waiting ev mkt m \<longleftrightarrow> mr_marketEvent m mkt = Some ev \<and> \<not> mr_matchStarted m ev"

lemma on_all_waiting: "act_all (\<lambda>_. True) (\<lambda>m'. waiting ev mkt m' = waiting ev mkt m) (on_all f m)"
  by (simp add: on_all_def waiting_def act_all_any)

lemma run_call_waiting:
  assumes "waiting ev mkt m" "keeps_waiting ev mkt c"
  shows "act_all (\<lambda>_. True) (waiting ev mkt) (run_call exp_f c m)"
proof -
  have on: "act_all (\<lambda>_. True) (waiting ev mkt) (on_all f m')" if "waiting ev mkt m'" for f m'
    using on_all_waiting [of ev mkt m' f] that by (auto intro: act_all_mono)
  show ?thesis
    using assms
    by (cases c)
      (auto simp: Multi_OnPrice_def Multi_OnPoint_def Multi_OnTick_def Multi_OnMatchFinished_def intro!: on,
       auto simp: waiting_def Multi_RegisterMarkets_def Multi_UnregisterMarkets_def Multi_DeletePrice_def
         RefreshOccurrenceTS_def Let_def split: option.split)
qed

lemma run_calls_waiting:
  assumes "waiting ev mkt m" "\<forall>c \<in> set cs. keeps_waiting ev mkt c" "run_act sink (for_act (run_call exp_f) cs m) s = Some (m', s')"
  shows "waiting ev mkt m'"
proof -
  have "act_all (\<lambda>_. True) (waiting ev mkt) (for_act (run_call exp_f) cs m)"
    by (intro act_all_for run_call_waiting) (use assms in auto)
  from run_act_keeps [OF assms(3) this, of "\<lambda>_. True"] show ?thesis by simp
qed

lemma tag_act_tagged: "act_all (\<lambda>ord. or_Strategy ord = n) (\<lambda>_. True) (tag_act n m)"
  by (induction m) auto

lemma Strat_OnPrice_gated: "act_all (\<lambda>_. True) (\<lambda>s'. PreMatchGated s' = PreMatchGated s) (Strat_OnPrice env mkt q s)"
  by (cases s) (simp_all add: act_all_any)

text \<open>The order of a strategy that is not held back, and one that carries its name.\<close>

definition from_ungated :: "NamedStrategy list \<Rightarrow> Order \<Rightarrow> bool" where
  "from_ungated nss ord \<longleftrightarrow> (\<exists>ns \<in> set nss. \<not> PreMatchGated (ns_Strat ns) \<and> (ns_Tagged ns \<longrightarrow> or_Strategy ord = ns_Name ns))"

definition gated_of :: "NamedStrategy list \<Rightarrow> NamedStrategy list" where
  "gated_of nss = filter (\<lambda>ns. PreMatchGated (ns_Strat ns)) nss"

lemma on_strategy_ungated:
  assumes "ns \<in> set nss" "\<not> PreMatchGated (ns_Strat ns)"
  shows "act_all (from_ungated nss) (\<lambda>ns'. \<not> PreMatchGated (ns_Strat ns')) (on_strategy (Strat_OnPrice env mkt q) ns)"
proof -
  have p: "ns_Tagged ns \<longrightarrow> or_Strategy ord = ns_Name ns \<Longrightarrow> from_ungated nss ord" for ord
    using assms by (auto simp: from_ungated_def)
  have g: "act_all (\<lambda>_. True) (\<lambda>s'. \<not> PreMatchGated s') (Strat_OnPrice env mkt q (ns_Strat ns))"
    using Strat_OnPrice_gated [of "ns_Strat ns" env mkt q] assms(2) by simp
  show ?thesis
  proof (cases "ns_Tagged ns")
    case True
    have "act_all (\<lambda>_. True) (\<lambda>s'. \<not> PreMatchGated s') (tag_act (ns_Name ns) (Strat_OnPrice env mkt q (ns_Strat ns)))"
      by (rule act_all_tag [OF g]) simp
    from act_all_conj [OF tag_act_tagged this] show ?thesis
      using True p by (auto simp: on_strategy_def elim!: act_all_mono)
  next
    case False
    then show ?thesis using p by (simp add: on_strategy_def act_all_mono [OF g])
  qed
qed

lemma each_act_filter:
  assumes "\<And>x. x \<in> set xs \<Longrightarrow> act_all P (\<lambda>y. if g x then y = x else \<not> g y) (f x)"
  shows "act_all P (\<lambda>ys. filter g ys = filter g xs) (each_act f xs)"
  using assms
proof (induction xs)
  case (Cons x xs)
  have "act_all P (\<lambda>ys. filter g ys = filter g xs) (each_act f xs)" using Cons by simp
  then show ?case
    unfolding each_act.simps
    by (intro act_all_bind [OF Cons.prems [of x]]) (auto intro: act_all_mono split: if_split_asm)
qed simp

text \<open>
  C39. No strategy that waits for a match acts on its prices before the first point: once a match is
  registered, and whatever else is called (points of other matches, ticks, prices, other matches) as long
  as no point of it arrives and its market is not taken away, a price of the market leads only to orders
  of strategies that do not wait, and the others are left exactly as they were.
\<close>
theorem gated_strategies_wait:
  assumes "\<not> mr_matchStarted m0 ev" "mkt \<in> set mkts" "\<forall>c \<in> set cs. keeps_waiting ev mkt c"
    and "run_act sink (for_act (run_call exp_f) (CallRegister envs starts ev mkts # cs) m0) s = Some (m, s')"
  shows "act_all (from_ungated (mr_strategies m)) (\<lambda>m'. gated_of (mr_strategies m') = gated_of (mr_strategies m))
    (Multi_OnPrice envs' mkt q m)"
proof -
  have "waiting ev mkt (Multi_RegisterMarkets envs starts ev mkts m0)"
    using assms(1,2) by (auto simp: waiting_def Multi_RegisterMarkets_def Let_def split: option.split)
  then have w: "waiting ev mkt m" using run_calls_waiting assms(3,4) by fastforce
  then have h: "held_back m mkt s = PreMatchGated s" for s by (simp add: held_back_def waiting_def)
  have "act_all (from_ungated (mr_strategies m)) (\<lambda>nss. gated_of nss = gated_of (mr_strategies m))
      (each_act (\<lambda>ns. if held_back m mkt (ns_Strat ns) then Return ns
         else on_strategy (Strat_OnPrice (envs' (ns_Name ns)) mkt q) ns) (mr_strategies m))"
    unfolding gated_of_def h by (rule each_act_filter) (simp add: on_strategy_ungated)
  then show ?thesis by (simp add: Multi_OnPrice_def on_all_def)
qed

theorem gated_strategies_wait_witness:
  "\<exists>m. act_all (from_ungated (mr_strategies m)) (\<lambda>m'. gated_of (mr_strategies m') = gated_of (mr_strategies m))
     (Multi_OnPrice (\<lambda>_. ex_live_env) ''a'' (Fin (1 / 2)) m) \<and> mr_marketEvent m ''a'' = Some ''ev''"
proof -
  let ?m = "Multi_RegisterMarkets (\<lambda>_. ex_live_env) Map.empty ''ev'' [''a'', ''b''] (Build id (\<lambda>_. None) 15 (Fin 0))"
  have "act_all (from_ungated (mr_strategies ?m)) (\<lambda>m'. gated_of (mr_strategies m') = gated_of (mr_strategies ?m))
      (Multi_OnPrice (\<lambda>_. ex_live_env) ''a'' (Fin (1 / 2)) ?m)"
    by (rule gated_strategies_wait [where m = "?m" and mkt = "''a''" and cs = "[]" and ev = "''ev''" and mkts = "[''a'', ''b'']" and m0 = "Build id (\<lambda>_. None) 15 (Fin 0)"
          and envs = "\<lambda>_. ex_live_env" and starts = Map.empty and sink = Noop_EmitOrder and s = "()" and s' = "()" and exp_f = id])
      (simp_all add: Build_def NewMultiStrategy_def SetDB_def)
  moreover have "mr_marketEvent ?m ''a'' = Some ''ev''"
    by (simp add: Multi_RegisterMarkets_def Build_def NewMultiStrategy_def Let_def)
  ultimately show ?thesis by blast
qed

end
