(* ===== verification/Spec2Isabelle.thy ===== *)
theory Spec2Isabelle
  imports Prelude Float64 Ledger LedgerRepo Sizing OrderStore Gates MatchLoop Worker Markov
    StrategyCore StrategiesA StrategiesB StrategiesC Strategies StrategyLaws Tracker
    StrategyEdges MatchSystem GoText HttpApi ModelRegistry Paging SseHub Ingest Scheduler Config
    GoFloat KalshiExchange ScoreFeed Scanner Features Learned CalibratedMarkov
    RealStore RealMoney Positions TradeSettings RealEmitter RealTrading RealOrders Emitters
    LiveMarkov LiveMain
begin

text \<open>
  Verification of kalshi-ghost-trader, a program that trades tennis markets on the Kalshi exchange.

  \<^bold>\<open>The program.\<close> The repository holds two generations of the trader. Both watch prices (a websocket of
  the exchange) and scores (a websocket of API-Tennis), run a set of strategies over the events of
  every match, and turn what the strategies emit into orders that are simulated on paper or sent to
  the exchange, against a pool of money kept in PostgreSQL.

  The second version (\<open>v2/\<close>) scans the exchange for matches (\<open>app/scanner\<close>), schedules them
  (\<open>app/scheduler\<close>), runs one loop per match (\<open>domain/match/loop.go\<close>, started by \<open>app/tracker\<close>), feeds it
  prices and points (\<open>adapters/apitennis\<close>, \<open>domain/match/merger.go\<close>), lets the strategies of
  \<open>domain/strategy\<close> answer each event with intents, and hands these to the order worker
  (\<open>app/orders/worker.go\<close>), which gates, sizes, holds, submits, and records them; \<open>httpapi\<close> is the dashboard.
  In the first version (\<open>internal/\<close>) strategies emit orders into a chain of emitters
  (\<open>internal/algorithms\<close>): quotas, paper positions, a live switch, and the emitter that trades with real money,
  over the stores for orders, pool, positions and settings.

  \<^bold>\<open>Theories, second version.\<close>
  \<^item> \<open>Ledger\<close>, \<open>LedgerRepo\<close>: \<open>domain/ledger/ledger.go\<close>, \<open>adapters/postgres/ledger_repo.go\<close>. The rules as pure
    functions, the tables as lists of rows; every statement of a transaction and its commit may fail.
    The balance is the sum of the entries in every reachable state, and the repository refines the rules.
  \<^item> \<open>Sizing\<close>, \<open>Gates\<close>, \<open>OrderStore\<close>, \<open>Worker\<close>: \<open>domain/sizing\<close>, \<open>app/orders\<close>, \<open>order_repo.go\<close>. One intent is
    one function over the whole environment (ledger, gates, orders, exchange answer, faults); what reaches the
    exchange, where the money goes, which statuses an order takes.
  \<^item> \<open>MatchLoop\<close>, \<open>ScoreFeed\<close>, \<open>Tracker\<close>, \<open>Scheduler\<close>, \<open>Scanner\<close>: the loop and the scheduler as step relations
    over queues, blocked producers and the clock, with invariants by rule induction.
  \<^item> \<open>Markov\<close>: \<open>domain/pricing/markov.go\<close> over the rationals with its four caches.
  \<^item> \<open>StrategyCore\<close>, \<open>StrategiesA\<close>-\<open>C\<close>, \<open>Strategies\<close>, \<open>Learned\<close>, \<open>CalibratedMarkov\<close>: every strategy with its
    opaque per-match state; \<open>StrategyLaws\<close>, \<open>StrategyEdges\<close>, \<open>MatchSystem\<close>: their contracts as locales interpreted
    on each strategy, and the properties of all of them together.
  \<^item> \<open>Features\<close>: \<open>domain/features/extractor.go\<close>, the vector the learned strategy is given.
  \<^item> \<open>GoText\<close>, \<open>HttpApi\<close>, \<open>Paging\<close>, \<open>ModelRegistry\<close>, \<open>SseHub\<close>: \<open>httpapi\<close>, its cursors, the promotion ladder of
    models, the event stream. \<open>Ingest\<close>: the batching writer. \<open>Config\<close>: the configuration store.
    \<open>KalshiExchange\<close>: the order request of the exchange adapter.

  \<^bold>\<open>Theories, first version.\<close>
  \<^item> \<open>RealStore\<close>: \<open>internal/store/orders.go\<close>, \<open>internal/liquiditypool\<close>. The tables of orders, positions and the pool,
    each operation one transaction that commits whole or fails. \<open>RealMoney\<close> bounds the float64
    arithmetic on cents; \<open>RealOrders\<close> has settlement and the life of an order.
  \<^item> \<open>Positions\<close>: \<open>internal/positions/manager.go\<close>. \<open>TradeSettings\<close>: \<open>strategyconfig\<close>, \<open>triggerranges\<close>.
  \<^item> \<open>RealEmitter\<close>: \<open>real_emitter.go\<close>, \<open>kelly.go\<close>, \<open>kalshiclient/orders.go\<close>, the guards, the size, the
    request, the retry, the sale. \<open>RealTrading\<close>: what is sent, what it costs, what it may sell.
  \<^item> \<open>Emitters\<close>: the other emitters and their composition; their contract is a locale (\<open>order_emitter\<close>)
    interpreted on the real guard and on the whole pipeline.
  \<^item> \<open>LiveMarkov\<close>: \<open>internal/algorithms/markov.go\<close> with its caches, which are proved invisible.
  \<^item> \<open>LiveCore\<close>: the book, the filters and the order fields all live strategies have, and the type of
    interactions \<open>act\<close>: a call returns a state, panics, or emits an order and goes on with the answer.
  \<^item> \<open>LiveA\<close>-\<open>LiveJ\<close>: the 27 strategies of \<open>internal/algorithms\<close> and \<open>internal/signal/close_timer.go\<close>.
  \<^item> \<open>LiveSystem\<close>, \<open>LiveBuild\<close>: \<open>multi.go\<close> and \<open>internal/strategies/builder.go\<close>, all strategies in one runtime.
  \<^item> \<open>LiveLaws\<close>, \<open>LiveLawsB\<close>, \<open>LiveLawsC\<close>, \<open>LiveProgram\<close>: each strategy keeps its book in order, does not panic and
    prices its orders between zero and one. \<open>LiveOnce\<close>, \<open>LiveOnceLaws\<close>: the contract of entering a match once
    (\<open>one_entry\<close>) and fifteen strategies that keep it; \<open>LiveMain\<close>: the built program behind the emitters.

  \<^bold>\<open>Numbers.\<close> \<open>Float64\<close> is IEEE 754 double precision over the rationals (round to nearest even, infinities and
  NaN, no signed zero, one rounding per operation as on amd64 without fused operations); \<open>GoFloat\<close> has the
  decimal formatting and parsing. 64-bit integers are \<open>int\<close> with \<open>wrap64\<close> where Go wraps and a failure where
  PostgreSQL refuses; prices and counters inside strategies are small by construction and kept as \<open>int\<close>.
  Conversions of floats out of range follow amd64.

  \<^bold>\<open>Parameters.\<close> Exchange answers, database faults, the clock, random numbers, identifiers, the choices of
  \<open>select\<close>, the pages of the REST interface, JSON, base64, SHA-256, the exponential function and the
  prediction model are arguments of the definitions; no property assumes more of them than its
  statement says.

  \<^bold>\<open>Bounds.\<close> Every recursion is structural or has a measure, so no definition takes fuel; the follow-up of
  cursors is proved to end.

  \<^bold>\<open>Differences.\<close> Strategies are objects shared by all matches in the code and hold no mutable field besides
  their per-match state; the model gives every match its own copy. An order runs without others in
  between; interleavings are modelled for the loop, the scheduler, the ingest writer, the event stream,
  the registry and the emitters. The live strategies share one win-probability model; as its caches are
  invisible, each valuation is that of a fresh model. A call of the live runtime is one step, though
  Go may run two calls between the short critical sections of one strategy.

  \<^bold>\<open>Not modelled.\<close> Logging, metrics, process wiring, schema migrations, wire transport (websocket and HTTP
  clients, signing), the analysis queries of the dashboard, the research programs, and the web frontend.
\<close>

end
